(* ===== verification/Prelude.thy ===== *)
theory Prelude
  imports Main "HOL-Library.Word" "HOL-Library.Char_ord" "HOL-Library.List_Lexorder"
    "HOL-Library.Product_Lexorder" "HOL-Library.Option_ord"
begin

text \<open>
  What every component of the model shares: results with errors and panics, machine integers,
  the operations of Rust strings the code uses, and the ordered maps that stand for
  \<open>BTreeMap\<close>. A Rust \<open>String\<close> is its UTF-8 byte sequence, one \<^typ>\<open>char\<close> per byte, so that
  lengths and the order of map keys are those of the code.
\<close>

named_theorems result_simps \<open>unfolding of the result combinators\<close>

subsection \<open>Results\<close>

text \<open>
  A fallible operation returns an error value, panics (a failed \<open>expect\<close>, an index out of
  range, an arithmetic overflow) or returns a value.
\<close>

datatype 'e fail = Err 'e | Panic

type_synonym ('e, 'a) res = "'e fail + 'a"

definition rbind :: "('e, 'a) res \<Rightarrow> ('a \<Rightarrow> ('e, 'b) res) \<Rightarrow> ('e, 'b) res" where
  "rbind r f = (case r of Inl e \<Rightarrow> Inl e | Inr a \<Rightarrow> f a)"

definition rthen :: "('e, 'a) res \<Rightarrow> ('e, 'b) res \<Rightarrow> ('e, 'b) res" where
  "rthen r r' = rbind r (\<lambda>_. r')"

definition ensure :: "bool \<Rightarrow> 'e \<Rightarrow> ('e, unit) res" where
  "ensure b e = (if b then Inr () else Inl (Err e))"

definition ok_or :: "'a option \<Rightarrow> 'e \<Rightarrow> ('e, 'a) res" where
  "ok_or x e = (case x of None \<Rightarrow> Inl (Err e) | Some a \<Rightarrow> Inr a)"

definition expect :: "'a option \<Rightarrow> ('e, 'a) res" where
  "expect x = (case x of None \<Rightarrow> Inl Panic | Some a \<Rightarrow> Inr a)"

definition map_err :: "('e \<Rightarrow> 'f) \<Rightarrow> ('e, 'a) res \<Rightarrow> ('f, 'a) res" where
  "map_err g r = (case r of Inl (Err e) \<Rightarrow> Inl (Err (g e)) | Inl Panic \<Rightarrow> Inl Panic | Inr a \<Rightarrow> Inr a)"

fun each :: "('a \<Rightarrow> ('e, unit) res) \<Rightarrow> 'a list \<Rightarrow> ('e, unit) res" where
  "each f [] = Inr ()"
| "each f (x # xs) = rthen (f x) (each f xs)"

lemma rbind_simps [simp, result_simps]:
  "rbind (Inl e) f = Inl e"
  "rbind (Inr a) f = f a"
  by (simp_all add: rbind_def)

lemma rthen_simps [simp, result_simps]:
  "rthen (Inl e) r = Inl e"
  "rthen (Inr a) r = r"
  by (simp_all add: rthen_def)

lemma rthen_eq_Inr [result_simps]:
  "rthen r r' = Inr b \<longleftrightarrow> (\<exists>a. r = Inr a) \<and> r' = Inr b"
  by (cases r) auto

lemma rbind_eq_Inr [result_simps]:
  "rbind r f = Inr b \<longleftrightarrow> (\<exists>a. r = Inr a \<and> f a = Inr b)"
  by (cases r) auto

lemma ensure_eq_Inr [simp, result_simps]: "ensure b e = Inr u \<longleftrightarrow> b"
  by (simp add: ensure_def)

lemma ensure_True [simp]: "ensure True e = Inr ()"
  by (simp add: ensure_def)

lemma ensure_False [simp]: "ensure False e = Inl (Err e)"
  by (simp add: ensure_def)

lemma ok_or_eq_Inr [simp, result_simps]: "ok_or x e = Inr a \<longleftrightarrow> x = Some a"
  by (simp add: ok_or_def split: option.splits)

lemma Inr_eq_ok_or [simp]: "Inr a = ok_or x e \<longleftrightarrow> x = Some a"
  by (auto simp: ok_or_def split: option.splits)

lemma ok_or_not_Panic [simp]: "ok_or x e \<noteq> Inl Panic"
  by (simp add: ok_or_def split: option.splits)

lemma ok_or_Some [simp]: "ok_or (Some a) e = Inr a"
  by (simp add: ok_or_def)

lemma expect_Some [simp]: "expect (Some a) = Inr a"
  by (simp add: expect_def)

lemma map_err_eq_Inr [simp, result_simps]: "map_err g r = Inr a \<longleftrightarrow> r = Inr a"
  by (auto simp: map_err_def split: sum.splits fail.splits)

lemma map_err_Inr [simp]: "map_err g (Inr a) = Inr a"
  by (simp add: map_err_def)

lemma each_eq_Inr [result_simps]: "each f xs = Inr () \<longleftrightarrow> (\<forall>x\<in>set xs. f x = Inr ())"
  by (induction xs) (auto simp: rthen_eq_Inr)

subsection \<open>Absence of panics\<close>

named_theorems panic_simps \<open>when a result is a panic\<close>

lemma rbind_Panic [panic_simps]: "rbind r f = Inl Panic \<longleftrightarrow> r = Inl Panic \<or> (\<exists>a. r = Inr a \<and> f a = Inl Panic)"
  by (cases r) auto

lemma rthen_Panic [panic_simps]: "rthen r r' = Inl Panic \<longleftrightarrow> r = Inl Panic \<or> (\<exists>a. r = Inr a) \<and> r' = Inl Panic"
  by (cases r) auto

lemma ensure_Panic [simp]: "ensure b e \<noteq> Inl Panic"
  by (simp add: ensure_def)

lemma map_err_Panic [panic_simps]: "map_err g r = Inl Panic \<longleftrightarrow> r = Inl Panic"
  by (auto simp: map_err_def split: sum.splits fail.splits)

lemma each_Panic: "(\<And>x. x \<in> set xs \<Longrightarrow> f x \<noteq> Inl Panic) \<Longrightarrow> each f xs \<noteq> Inl Panic"
  by (induction xs) (auto simp: rthen_Panic)

subsection \<open>Machine integers\<close>

type_synonym u8 = "8 word"
type_synonym u16 = "16 word"
type_synonym u32 = "32 word"
type_synonym u64 = "64 word"
type_synonym u128 = "128 word"

definition checked_add :: "'a::len word \<Rightarrow> 'a word \<Rightarrow> 'a word option" where
  "checked_add a b = (if uint a + uint b < 2 ^ LENGTH('a) then Some (a + b) else None)"

definition checked_mul :: "'a::len word \<Rightarrow> 'a word \<Rightarrow> 'a word option" where
  "checked_mul a b = (if uint a * uint b < 2 ^ LENGTH('a) then Some (a * b) else None)"

definition saturating_sub :: "'a::len word \<Rightarrow> 'a word \<Rightarrow> 'a word" where
  "saturating_sub a b = (if a < b then 0 else a - b)"

definition abs_diff :: "'a::len word \<Rightarrow> 'a word \<Rightarrow> 'a word" where
  "abs_diff a b = (if a < b then b - a else a - b)"

text \<open>Plain \<open>+\<close> and \<open>-\<close> on unsigned integers panic when they leave the type.\<close>

definition add_or_panic :: "'a::len word \<Rightarrow> 'a word \<Rightarrow> ('e, 'a word) res" where
  "add_or_panic a b = expect (checked_add a b)"

definition sub_or_panic :: "'a::len word \<Rightarrow> 'a word \<Rightarrow> ('e, 'a word) res" where
  "sub_or_panic a b = (if b \<le> a then Inr (a - b) else Inl Panic)"

definition div_or_panic :: "'a::len word \<Rightarrow> 'a word \<Rightarrow> ('e, 'a word) res" where
  "div_or_panic a b = (if b = 0 then Inl Panic else Inr (a div b))"

definition mod_or_panic :: "'a::len word \<Rightarrow> 'a word \<Rightarrow> ('e, 'a word) res" where
  "mod_or_panic a b = (if b = 0 then Inl Panic else Inr (a mod b))"

lemma checked_add_unat:
  "checked_add (a :: 'a::len word) b = (if unat a + unat b < 2 ^ LENGTH('a) then Some (a + b) else None)"
proof -
  have "uint a + uint b < 2 ^ LENGTH('a) \<longleftrightarrow> int (unat a + unat b) < int (2 ^ LENGTH('a))"
    by simp
  also have "\<dots> \<longleftrightarrow> unat a + unat b < 2 ^ LENGTH('a)"
    by (rule of_nat_less_iff)
  finally have "uint a + uint b < 2 ^ LENGTH('a) \<longleftrightarrow> unat a + unat b < 2 ^ LENGTH('a)" .
  then show ?thesis by (simp add: checked_add_def)
qed

lemma checked_mul_unat:
  "checked_mul (a :: 'a::len word) b = (if unat a * unat b < 2 ^ LENGTH('a) then Some (a * b) else None)"
proof -
  have "uint a * uint b < 2 ^ LENGTH('a) \<longleftrightarrow> int (unat a * unat b) < int (2 ^ LENGTH('a))"
    by simp
  also have "\<dots> \<longleftrightarrow> unat a * unat b < 2 ^ LENGTH('a)"
    by (rule of_nat_less_iff)
  finally have "uint a * uint b < 2 ^ LENGTH('a) \<longleftrightarrow> unat a * unat b < 2 ^ LENGTH('a)" .
  then show ?thesis by (simp add: checked_mul_def)
qed

lemma checked_add_Some:
  "checked_add (a :: 'a::len word) b = Some c \<longleftrightarrow> unat c = unat a + unat b"
proof
  assume "checked_add a b = Some c"
  then show "unat c = unat a + unat b"
    by (auto simp: checked_add_unat unat_word_ariths split: if_splits)
next
  assume c: "unat c = unat a + unat b"
  then have "unat a + unat b < 2 ^ LENGTH('a)"
    by (metis unsigned_less)
  moreover from c this have "c = a + b"
    by (simp add: word_unat_eq_iff unat_word_ariths)
  ultimately show "checked_add a b = Some c"
    by (simp add: checked_add_unat)
qed

lemma checked_mul_Some:
  "checked_mul (a :: 'a::len word) b = Some c \<longleftrightarrow> unat c = unat a * unat b"
proof
  assume "checked_mul a b = Some c"
  then show "unat c = unat a * unat b"
    by (auto simp: checked_mul_unat unat_word_ariths split: if_splits)
next
  assume c: "unat c = unat a * unat b"
  then have "unat a * unat b < 2 ^ LENGTH('a)"
    by (metis unsigned_less)
  moreover from c this have "c = a * b"
    by (simp add: word_unat_eq_iff unat_word_ariths)
  ultimately show "checked_mul a b = Some c"
    by (simp add: checked_mul_unat)
qed

lemma checked_add_None:
  "checked_add (a :: 'a::len word) b = None \<longleftrightarrow> 2 ^ LENGTH('a) \<le> unat a + unat b"
  by (auto simp: checked_add_unat)

lemma checked_mul_None:
  "checked_mul (a :: 'a::len word) b = None \<longleftrightarrow> 2 ^ LENGTH('a) \<le> unat a * unat b"
  by (auto simp: checked_mul_unat)

lemma unat_sub_le: "b \<le> a \<Longrightarrow> unat (a - b) = unat a - unat b"
  for a b :: "'a::len word"
  by (simp add: unat_sub word_le_nat_alt)

lemma unat_saturating_sub [simp]: "unat (saturating_sub a b) = unat a - unat b"
  for a b :: "'a::len word"
  by (auto simp: saturating_sub_def word_less_nat_alt not_less unat_sub_le word_le_nat_alt)

lemma unat_abs_diff: "unat (abs_diff a b) = (if a < b then unat b - unat a else unat a - unat b)"
  for a b :: "'a::len word"
  by (auto simp: abs_diff_def unat_sub_le)

lemma unat_ucast_u128 [simp]: "unat (ucast (x :: u64) :: u128) = unat x"
proof -
  have "unat x < 2 ^ LENGTH(64)"
    by (rule unsigned_less)
  then have "unat x < 2 ^ 128"
    by simp
  then show ?thesis
    by (simp add: unsigned_ucast_eq take_bit_nat_eq_self)
qed

lemma unat_mult_lt: "unat a * unat b < 2 ^ LENGTH('a) \<Longrightarrow> unat (a * b) = unat a * unat b"
  for a b :: "'a::len word"
  using checked_mul_Some [of a b "a * b"] by (simp add: checked_mul_unat)

lemma unat_add_lt: "unat a + unat b < 2 ^ LENGTH('a) \<Longrightarrow> unat (a + b) = unat a + unat b"
  for a b :: "'a::len word"
  using checked_add_Some [of a b "a + b"] by (simp add: checked_add_unat)

lemma unat_u64_less: "unat (x :: u64) < 2 ^ 64"
proof -
  have "unat x < 2 ^ LENGTH(64)" by (rule unsigned_less)
  then show ?thesis by simp
qed

lemma checked_add_of_nat:
  "checked_add (a :: 'a::len word) b =
     (if unat a + unat b < 2 ^ LENGTH('a) then Some (word_of_nat (unat a + unat b)) else None)"
  by (simp add: checked_add_unat)

lemma floor_split: "(t :: nat) * n div d = t div d * n + (t mod d) * n div d"
proof (cases "d = 0")
  case False
  have "t * n = (t div d * d + t mod d) * n"
    by simp
  also have "\<dots> = (t mod d) * n + d * (t div d * n)"
    by (simp only: algebra_simps)
  finally show ?thesis
    using False by simp
qed simp

lemma residue_unique:
  fixes a b p m :: nat
  assumes "p \<le> a" "a < p + m" "p \<le> b" "b < p + m" "a mod m = b mod m"
  shows "a = b"
proof (rule ccontr)
  assume "a \<noteq> b"
  have *: False if "x < y" "p \<le> x" "y < p + m" "x mod m = y mod m" for x y
  proof -
    from that have "m dvd y - x" by (metis less_imp_le mod_eq_dvd_iff_nat)
    moreover have "y - x < m" "0 < y - x" using that by auto
    ultimately show False by (simp add: dvd_imp_le nat_dvd_not_less)
  qed
  from \<open>a \<noteq> b\<close> consider "a < b" | "b < a" by linarith
  then show False using * [of a b] * [of b a] assms by cases auto
qed

subsection \<open>Signed 64-bit integers\<close>

text \<open>
  \<open>i64\<close> values are compared by their signed reading; \<open>i64_try_from\<close> is the checked narrowing
  from the \<open>i128\<close> intermediates of the code.
\<close>

datatype i64 = I64 (i64_bits: u64)

definition ival :: "i64 \<Rightarrow> int" where
  "ival a = sint (i64_bits a)"

lemma ival_inject [simp]: "ival a = ival b \<longleftrightarrow> a = b"
  by (cases a, cases b) (auto simp: ival_def intro: signed_word_eqI)

instantiation i64 :: linorder
begin

definition less_eq_i64 :: "i64 \<Rightarrow> i64 \<Rightarrow> bool" where
  "less_eq_i64 a b \<longleftrightarrow> ival a \<le> ival b"

definition less_i64 :: "i64 \<Rightarrow> i64 \<Rightarrow> bool" where
  "less_i64 a b \<longleftrightarrow> ival a < ival b"

instance
  by standard (auto simp: less_eq_i64_def less_i64_def ival_inject)

end

definition i64_MAX :: i64 where
  "i64_MAX = I64 0x7FFFFFFFFFFFFFFF"

definition i64_try_from :: "int \<Rightarrow> i64 option" where
  "i64_try_from n = (if - (2 ^ 63) \<le> n \<and> n < 2 ^ 63 then Some (I64 (word_of_int n)) else None)"

definition u64_try_from :: "int \<Rightarrow> u64 option" where
  "u64_try_from n = (if 0 \<le> n \<and> n < 2 ^ 64 then Some (word_of_int n) else None)"

lemma ival_range: "- (2 ^ 63) \<le> ival a" "ival a < 2 ^ 63"
  using sint_greater_eq [of "i64_bits a"] sint_less [of "i64_bits a"] by (simp_all add: ival_def)

lemma i64_try_from_Some: "i64_try_from n = Some a \<longleftrightarrow> ival a = n"
proof
  assume "i64_try_from n = Some a"
  then show "ival a = n"
    by (auto simp: i64_try_from_def ival_def signed_of_int signed_take_bit_int_eq_self split: if_splits)
next
  assume n: "ival a = n"
  then have "- (2 ^ 63) \<le> n" "n < 2 ^ 63"
    using ival_range by auto
  with n show "i64_try_from n = Some a"
    by (cases a) (auto simp: i64_try_from_def ival_def)
qed

lemma i64_try_from_None: "i64_try_from n = None \<longleftrightarrow> \<not> (- (2 ^ 63) \<le> n \<and> n < 2 ^ 63)"
  by (simp add: i64_try_from_def)

lemma u64_try_from_Some: "u64_try_from n = Some a \<longleftrightarrow> uint a = n"
proof
  assume "u64_try_from n = Some a"
  then show "uint a = n"
    by (auto simp: u64_try_from_def unsigned_of_int take_bit_int_eq_self split: if_splits)
next
  assume n: "uint a = n"
  then have "0 \<le> n" "n < 2 ^ 64"
    using uint_lt2p [of a] by auto
  with n show "u64_try_from n = Some a"
    by (auto simp: u64_try_from_def)
qed

subsection \<open>Strings\<close>

text \<open>
  \<open>str::trim\<close> strips Unicode white space; \<open>utf8_white_space\<close> lists its encodings. On valid
  UTF-8 no encoding of one character is a prefix or a suffix of another's, so stripping byte
  sequences from either end strips characters.
\<close>

definition utf8_white_space :: "string list" where
  "utf8_white_space =
     [[CHR 0x09], [CHR 0x0A], [CHR 0x0B], [CHR 0x0C], [CHR 0x0D], [CHR 0x20],
      [CHR 0xC2, CHR 0x85], [CHR 0xC2, CHR 0xA0], [CHR 0xE1, CHR 0x9A, CHR 0x80],
      [CHR 0xE2, CHR 0x80, CHR 0x80], [CHR 0xE2, CHR 0x80, CHR 0x81], [CHR 0xE2, CHR 0x80, CHR 0x82],
      [CHR 0xE2, CHR 0x80, CHR 0x83], [CHR 0xE2, CHR 0x80, CHR 0x84], [CHR 0xE2, CHR 0x80, CHR 0x85],
      [CHR 0xE2, CHR 0x80, CHR 0x86], [CHR 0xE2, CHR 0x80, CHR 0x87], [CHR 0xE2, CHR 0x80, CHR 0x88],
      [CHR 0xE2, CHR 0x80, CHR 0x89], [CHR 0xE2, CHR 0x80, CHR 0x8A], [CHR 0xE2, CHR 0x80, CHR 0xA8],
      [CHR 0xE2, CHR 0x80, CHR 0xA9], [CHR 0xE2, CHR 0x80, CHR 0xAF], [CHR 0xE2, CHR 0x81, CHR 0x9F],
      [CHR 0xE3, CHR 0x80, CHR 0x80]]"

function strip :: "string list \<Rightarrow> string \<Rightarrow> string" where
  "strip ws s =
     (case find (\<lambda>w. w \<noteq> [] \<and> take (length w) s = w) ws of
        None \<Rightarrow> s
      | Some w \<Rightarrow> strip ws (drop (length w) s))"
  by pat_completeness auto
termination
proof (relation "measure (\<lambda>(ws, s). length s)", simp)
  fix ws :: "string list" and s w :: string
  assume "find (\<lambda>w. w \<noteq> [] \<and> take (length w) s = w) ws = Some w"
  then have "w \<noteq> []" "take (length w) s = w"
    by (auto simp: find_Some_iff)
  then have "0 < length w" "s \<noteq> []"
    by auto
  then show "((ws, drop (length w) s), (ws, s)) \<in> measure (\<lambda>(ws, s). length s)"
    by simp
qed

declare strip.simps [simp del]

definition trim :: "string \<Rightarrow> string" where
  "trim s = rev (strip (map rev utf8_white_space) (rev (strip utf8_white_space s)))"

definition blank :: "string \<Rightarrow> bool" where
  "blank s \<longleftrightarrow> trim s = []"

definition ascii_lower_char :: "char \<Rightarrow> char" where
  "ascii_lower_char c = (if CHR ''A'' \<le> c \<and> c \<le> CHR ''Z'' then char_of (of_char c + (32 :: nat)) else c)"

definition to_ascii_lowercase :: "string \<Rightarrow> string" where
  "to_ascii_lowercase s = map ascii_lower_char s"

definition replace_chars :: "char list \<Rightarrow> char \<Rightarrow> string \<Rightarrow> string" where
  "replace_chars from_chars to_char s = map (\<lambda>c. if c \<in> set from_chars then to_char else c) s"

definition starts_with :: "string \<Rightarrow> string \<Rightarrow> bool" where
  "starts_with s pat \<longleftrightarrow> take (length pat) s = pat"

fun str_contains :: "string \<Rightarrow> string \<Rightarrow> bool" where
  "str_contains [] pat \<longleftrightarrow> pat = []"
| "str_contains (c # s) pat \<longleftrightarrow> starts_with (c # s) pat \<or> str_contains s pat"

definition digit_char :: "int \<Rightarrow> char" where
  "digit_char d = char_of (48 + d)"

text \<open>The decimal and the lower-case hexadecimal rendering of an unsigned integer.\<close>

function dec :: "int \<Rightarrow> string" where
  "dec n = (if n < 10 then [digit_char n] else dec (n div 10) @ [digit_char (n mod 10)])"
  by pat_completeness auto
termination
  by (relation "measure nat") auto

declare dec.simps [simp del]

definition hex_digit :: "int \<Rightarrow> char" where
  "hex_digit d = (if d < 10 then char_of (48 + d) else char_of (87 + d))"

function hex :: "int \<Rightarrow> string" where
  "hex n = (if n < 16 then [hex_digit n] else hex (n div 16) @ [hex_digit (n mod 16)])"
  by pat_completeness auto
termination
  by (relation "measure nat") auto

declare hex.simps [simp del]

lemma strip_Nil [simp]: "strip ws [] = []"
  by (subst strip.simps) (auto split: option.splits simp: find_Some_iff)

lemma blank_Nil [simp]: "blank []"
  by (simp add: blank_def trim_def)

lemma strip_concat: "strip ws s = [] \<Longrightarrow> \<exists>l. set l \<subseteq> set ws \<and> [] \<notin> set l \<and> s = concat l"
proof (induction ws s rule: strip.induct)
  case (1 ws s)
  show ?case
  proof (cases "find (\<lambda>w. w \<noteq> [] \<and> take (length w) s = w) ws")
    case None
    with "1.prems" have "s = []" by (subst (asm) strip.simps) simp
    then show ?thesis by (intro exI [of _ "[]"]) simp
  next
    case (Some w)
    with "1.prems" have "strip ws (drop (length w) s) = []" by (subst (asm) strip.simps) simp
    with "1.IH" Some obtain l where l: "set l \<subseteq> set ws" "[] \<notin> set l" "drop (length w) s = concat l" by blast
    from Some have w: "w \<in> set ws" "w \<noteq> []" "take (length w) s = w" by (auto simp: find_Some_iff)
    with l(3) append_take_drop_id [of "length w" s] have "s = concat (w # l)" by simp
    with l w show ?thesis by (intro exI [of _ "w # l"]) auto
  qed
qed

definition has_prefix_in :: "string list \<Rightarrow> string \<Rightarrow> bool" where
  "has_prefix_in ws s \<longleftrightarrow> (\<exists>w\<in>set ws. w \<noteq> [] \<and> take (length w) s = w)"

lemma strip_none: "\<not> has_prefix_in ws s \<Longrightarrow> strip ws s = s"
  by (subst strip.simps) (auto simp: has_prefix_in_def find_Some_iff dest: nth_mem split: option.splits)

lemma strip_stripped: "\<not> has_prefix_in ws (strip ws s)"
proof (induction ws s rule: strip.induct)
  case (1 ws s)
  show ?case
  proof (cases "find (\<lambda>w. w \<noteq> [] \<and> take (length w) s = w) ws")
    case None
    then have "\<not> has_prefix_in ws s" by (auto simp: find_None_iff has_prefix_in_def)
    then show ?thesis by (simp add: strip_none)
  next
    case (Some w)
    with "1.IH" show ?thesis by (subst strip.simps) simp
  qed
qed

lemma strip_suffix: "\<exists>p. s = p @ strip ws s"
proof (induction ws s rule: strip.induct)
  case (1 ws s)
  show ?case
  proof (cases "find (\<lambda>w. w \<noteq> [] \<and> take (length w) s = w) ws")
    case None
    then show ?thesis by (subst strip.simps) simp
  next
    case (Some w)
    with "1.IH" obtain p where "drop (length w) s = p @ strip ws (drop (length w) s)" by blast
    then have "s = (take (length w) s @ p) @ strip ws (drop (length w) s)"
      by (metis append.assoc append_take_drop_id)
    moreover have "strip ws s = strip ws (drop (length w) s)"
      by (subst strip.simps) (simp add: Some)
    ultimately show ?thesis by metis
  qed
qed

lemma not_blank_iff_prefix:
  assumes "\<not> has_prefix_in utf8_white_space s" "s \<noteq> []"
  shows "\<not> blank s"
proof
  assume "blank s"
  with strip_none [OF assms(1)] have "strip (map rev utf8_white_space) (rev s) = []"
    by (simp add: blank_def trim_def)
  from strip_concat [OF this] obtain l where
    l: "set l \<subseteq> rev ` set utf8_white_space" "[] \<notin> set l" "rev s = concat l" by auto
  then have s: "s = concat (map rev (rev l))" by (metis rev_concat rev_map rev_rev_ident)
  with assms(2) obtain w l' where w: "map rev (rev l) = w # l'" by (cases "map rev (rev l)") auto
  then have "w \<in> rev ` set l" by (metis list.set_intros(1) set_map set_rev)
  with l have "w \<in> set utf8_white_space" "w \<noteq> []" by auto
  moreover have "take (length w) s = w" using s w by simp
  ultimately show False using assms(1) by (auto simp: has_prefix_in_def)
qed

lemma trim_prefix: "\<not> has_prefix_in utf8_white_space (trim s)"
proof
  assume "has_prefix_in utf8_white_space (trim s)"
  then obtain w where w: "w \<in> set utf8_white_space" "w \<noteq> []" "take (length w) (trim s) = w"
    by (auto simp: has_prefix_in_def)
  let ?t = "strip utf8_white_space s"
  obtain p where "rev ?t = p @ strip (map rev utf8_white_space) (rev ?t)"
    using strip_suffix by blast
  then have t: "?t = trim s @ rev p" by (metis rev_append rev_rev_ident trim_def)
  have "length w \<le> length (trim s)" using w(3) by (metis length_take min.cobounded1 min_def)
  then have "take (length w) ?t = w" using w(3) t by simp
  with w strip_stripped [of utf8_white_space s] show False by (auto simp: has_prefix_in_def)
qed

lemma has_prefix_map:
  assumes "\<And>c. f c \<in> set (concat utf8_white_space) \<Longrightarrow> f c = c"
    and "has_prefix_in utf8_white_space (map f s)"
  shows "has_prefix_in utf8_white_space s"
proof -
  from assms(2) obtain w where w: "w \<in> set utf8_white_space" "w \<noteq> []" "map f (take (length w) s) = w"
    by (auto simp: has_prefix_in_def take_map)
  have "f c = c" if "c \<in> set (take (length w) s)" for c
  proof (rule assms(1))
    have "f c \<in> set w" using that w(3) by (metis image_eqI set_map)
    with w(1) show "f c \<in> set (concat utf8_white_space)" by auto
  qed
  then have "map f (take (length w) s) = take (length w) s" by (rule map_idI)
  with w show ?thesis by (auto simp: has_prefix_in_def)
qed

lemma not_blank_ascii:
  assumes "c \<notin> set (concat utf8_white_space)"
  shows "\<not> blank (c # cs)"
proof (rule not_blank_iff_prefix)
  show "\<not> has_prefix_in utf8_white_space (c # cs)"
  proof
    assume "has_prefix_in utf8_white_space (c # cs)"
    then obtain w where w: "w \<in> set utf8_white_space" "w \<noteq> []" "take (length w) (c # cs) = w"
      by (auto simp: has_prefix_in_def)
    from w(2) obtain a w' where "w = a # w'" by (meson neq_Nil_conv)
    with w have "c \<in> set w" "w \<in> set utf8_white_space" by simp_all
    with assms show False by auto
  qed
qed simp

lemma not_blank_printable [simp]:
  "33 \<le> (of_char c :: nat) \<Longrightarrow> (of_char c :: nat) \<le> 126 \<Longrightarrow> \<not> blank (c # cs)"
proof (rule not_blank_ascii)
  have "list_all (\<lambda>b. \<not> (33 \<le> (of_char b :: nat) \<and> (of_char b :: nat) \<le> 126)) (concat utf8_white_space)"
    by code_simp
  then have "\<not> (33 \<le> (of_char b :: nat) \<and> (of_char b :: nat) \<le> 126)" if "b \<in> set (concat utf8_white_space)" for b
    using that unfolding list_all_iff by blast
  then show "33 \<le> (of_char c :: nat) \<Longrightarrow> (of_char c :: nat) \<le> 126 \<Longrightarrow> c \<notin> set (concat utf8_white_space)"
    by blast
qed

lemma dec_ne_Nil [simp]: "dec n \<noteq> []" "[] \<noteq> dec n"
  by (subst dec.simps, simp)+

lemma dec_inject: "0 \<le> m \<Longrightarrow> 0 \<le> n \<Longrightarrow> dec m = dec n \<longleftrightarrow> m = n"
proof (induction m arbitrary: n rule: dec.induct)
  case (1 m)
  have digit: "digit_char a = digit_char b \<longleftrightarrow> a = b" if "0 \<le> a" "a < 10" "0 \<le> b" "b < 10" for a b
  proof
    assume "digit_char a = digit_char b"
    then have "(of_char (digit_char a) :: int) = of_char (digit_char b)" by simp
    with that show "a = b" by (simp add: digit_char_def)
  qed simp
  show ?case
  proof (cases "m < 10")
    case True
    then show ?thesis
      by (subst dec.simps, subst (2) dec.simps) (use "1.prems" in \<open>auto simp: digit\<close>)
  next
    case False
    with "1.IH" "1.prems" have "dec (m div 10) = dec (n div 10) \<longleftrightarrow> m div 10 = n div 10" by simp
    moreover have "m = n" if "m div 10 = n div 10" "m mod 10 = n mod 10"
      using that by (metis div_mult_mod_eq)
    moreover have "dec m = dec (m div 10) @ [digit_char (m mod 10)]"
      using False by (subst dec.simps) simp
    moreover have "dec n = (if n < 10 then [digit_char n] else dec (n div 10) @ [digit_char (n mod 10)])"
      by (subst dec.simps) simp
    ultimately show ?thesis
      using False "1.prems" by (cases "n < 10") (auto simp: digit)
  qed
qed

end
