(* ===== verification/F64.thy ===== *)
theory F64
  imports Complex_Main Prelude
begin

text \<open>
  IEEE 754 binary64 as the code uses it: the bit pattern, the exact rational a finite pattern
  stands for, and the operations rounded to nearest, ties to even. Every NaN is read as one
  value (the payload of a NaN result is not specified by the language). Where two operands of
  \<open>min\<close> or \<open>max\<close> are equal the first is returned, one of the results the language allows.
\<close>

datatype f64 = F64 (f64_bits: u64)

definition f64_neg :: "f64 \<Rightarrow> bool" where
  "f64_neg x \<longleftrightarrow> 2 ^ 63 \<le> uint (f64_bits x)"

definition f64_exponent :: "f64 \<Rightarrow> int" where
  "f64_exponent x = uint (f64_bits x) div 2 ^ 52 mod 2048"

definition f64_mantissa :: "f64 \<Rightarrow> int" where
  "f64_mantissa x = uint (f64_bits x) mod 2 ^ 52"

definition f64_is_finite :: "f64 \<Rightarrow> bool" where
  "f64_is_finite x \<longleftrightarrow> f64_exponent x \<noteq> 2047"

definition f64_is_nan :: "f64 \<Rightarrow> bool" where
  "f64_is_nan x \<longleftrightarrow> f64_exponent x = 2047 \<and> f64_mantissa x \<noteq> 0"

definition pow2 :: "int \<Rightarrow> rat" where
  "pow2 e = (if 0 \<le> e then 2 ^ nat e else 1 / 2 ^ nat (- e))"

definition f64_magnitude :: "f64 \<Rightarrow> rat" where
  "f64_magnitude x =
     (if f64_exponent x = 0 then of_int (f64_mantissa x) * pow2 (- 1074)
      else of_int (2 ^ 52 + f64_mantissa x) * pow2 (f64_exponent x - 1075))"

definition f64_val :: "f64 \<Rightarrow> rat" where
  "f64_val x = (if f64_neg x then - f64_magnitude x else f64_magnitude x)"

subsection \<open>Rounding\<close>

function bitlen :: "int \<Rightarrow> int" where
  "bitlen n = (if n \<le> 0 then 0 else 1 + bitlen (n div 2))"
  by pat_completeness auto
termination
  by (relation "measure nat") auto

declare bitlen.simps [simp del]

definition round_half_even :: "rat \<Rightarrow> int" where
  "round_half_even q =
     (let f = \<lfloor>q\<rfloor>; r = q - of_int f
      in if r < 1 / 2 then f else if 1 / 2 < r then f + 1 else if even f then f else f + 1)"

definition binade :: "rat \<Rightarrow> int" where
  "binade a =
     (let nd = quotient_of a;
          e = bitlen (fst nd) - bitlen (snd nd)
      in if pow2 e \<le> a then e else e - 1)"

definition f64_sign_bit :: "bool \<Rightarrow> int" where
  "f64_sign_bit neg = (if neg then 2 ^ 63 else 0)"

definition f64_zero :: "bool \<Rightarrow> f64" where
  "f64_zero neg = F64 (word_of_int (f64_sign_bit neg))"

definition f64_inf :: "bool \<Rightarrow> f64" where
  "f64_inf neg = F64 (word_of_int (f64_sign_bit neg + 2047 * 2 ^ 52))"

definition f64_nan :: f64 where
  "f64_nan = F64 (word_of_int (2047 * 2 ^ 52 + 2 ^ 51))"

definition f64_round :: "rat \<Rightarrow> f64" where
  "f64_round q =
     (if q = 0 then f64_zero False
      else let a = \<bar>q\<bar>; e = max (binade a) (- 1022);
               bits = (e + 1022) * 2 ^ 52 + round_half_even (a / pow2 (e - 52))
           in if 2047 * 2 ^ 52 \<le> bits then f64_inf (q < 0)
              else F64 (word_of_int (f64_sign_bit (q < 0) + bits)))"

subsection \<open>Arithmetic and comparison\<close>

definition f64_negate :: "f64 \<Rightarrow> f64" where
  "f64_negate x = F64 (f64_bits x + 2 ^ 63)"

definition f64_add :: "f64 \<Rightarrow> f64 \<Rightarrow> f64" where
  "f64_add x y =
     (if f64_is_nan x \<or> f64_is_nan y then f64_nan
      else if \<not> f64_is_finite x then
        (if \<not> f64_is_finite y \<and> f64_neg x \<noteq> f64_neg y then f64_nan else x)
      else if \<not> f64_is_finite y then y
      else let s = f64_val x + f64_val y
           in if s = 0 then f64_zero (f64_neg x \<and> f64_neg y) else f64_round s)"

definition f64_sub :: "f64 \<Rightarrow> f64 \<Rightarrow> f64" where
  "f64_sub x y = (if f64_is_nan y then f64_nan else f64_add x (f64_negate y))"

definition f64_mul :: "f64 \<Rightarrow> f64 \<Rightarrow> f64" where
  "f64_mul x y =
     (let neg = (f64_neg x \<noteq> f64_neg y)
      in if f64_is_nan x \<or> f64_is_nan y then f64_nan
         else if \<not> f64_is_finite x then
           (if f64_is_finite y \<and> f64_val y = 0 then f64_nan else f64_inf neg)
         else if \<not> f64_is_finite y then
           (if f64_val x = 0 then f64_nan else f64_inf neg)
         else let p = f64_val x * f64_val y in if p = 0 then f64_zero neg else
           (let r = f64_round p in if f64_val r = 0 \<and> f64_is_finite r then f64_zero neg else r))"

definition f64_div :: "f64 \<Rightarrow> f64 \<Rightarrow> f64" where
  "f64_div x y =
     (let neg = (f64_neg x \<noteq> f64_neg y)
      in if f64_is_nan x \<or> f64_is_nan y then f64_nan
         else if \<not> f64_is_finite x then (if f64_is_finite y then f64_inf neg else f64_nan)
         else if \<not> f64_is_finite y then f64_zero neg
         else if f64_val y = 0 then (if f64_val x = 0 then f64_nan else f64_inf neg)
         else let p = f64_val x / f64_val y in if p = 0 then f64_zero neg else
           (let r = f64_round p in if f64_val r = 0 \<and> f64_is_finite r then f64_zero neg else r))"

definition f64_lt :: "f64 \<Rightarrow> f64 \<Rightarrow> bool" where
  "f64_lt x y \<longleftrightarrow>
     \<not> f64_is_nan x \<and> \<not> f64_is_nan y \<and>
     (if f64_is_finite x then
        (if f64_is_finite y then f64_val x < f64_val y else \<not> f64_neg y)
      else f64_neg x \<and> (f64_is_finite y \<or> \<not> f64_neg y))"

definition f64_eq :: "f64 \<Rightarrow> f64 \<Rightarrow> bool" where
  "f64_eq x y \<longleftrightarrow>
     \<not> f64_is_nan x \<and> \<not> f64_is_nan y \<and> \<not> f64_lt x y \<and> \<not> f64_lt y x"

definition f64_min :: "f64 \<Rightarrow> f64 \<Rightarrow> f64" where
  "f64_min x y = (if f64_is_nan x then y else if f64_lt y x then y else x)"

definition f64_max :: "f64 \<Rightarrow> f64 \<Rightarrow> f64" where
  "f64_max x y = (if f64_is_nan x then y else if f64_lt x y then y else x)"

definition f64_of_int :: "int \<Rightarrow> f64" where
  "f64_of_int n = f64_round (of_int n)"

end
