(* ===== verification/Ordered_Map.thy ===== *)
theory Ordered_Map
  imports Prelude
begin

text \<open>
  \<open>BTreeMap\<close>: an association list in strictly increasing key order. Iterating the map is
  reading the list, so every place where the code depends on the order of its keys depends on
  it here too. The locale \<open>ordered_map\<close> is the interface the components use.
\<close>

type_synonym ('k, 'v) btree = "('k \<times> 'v) list"

definition bt_sorted :: "('k::linorder, 'v) btree \<Rightarrow> bool" where
  "bt_sorted m \<longleftrightarrow> sorted_wrt (<) (map fst m)"

definition bt_get :: "('k, 'v) btree \<Rightarrow> 'k \<Rightarrow> 'v option" where
  "bt_get m k = map_of m k"

fun bt_insert :: "'k::linorder \<Rightarrow> 'v \<Rightarrow> ('k, 'v) btree \<Rightarrow> ('k, 'v) btree" where
  "bt_insert k v [] = [(k, v)]"
| "bt_insert k v ((a, b) # m) =
     (if k < a then (k, v) # (a, b) # m
      else if k = a then (k, v) # m
      else (a, b) # bt_insert k v m)"

definition bt_remove :: "'k \<Rightarrow> ('k, 'v) btree \<Rightarrow> ('k, 'v) btree" where
  "bt_remove k m = filter (\<lambda>kv. fst kv \<noteq> k) m"

definition bt_contains :: "('k, 'v) btree \<Rightarrow> 'k \<Rightarrow> bool" where
  "bt_contains m k \<longleftrightarrow> bt_get m k \<noteq> None"

definition bt_keys :: "('k, 'v) btree \<Rightarrow> 'k list" where
  "bt_keys m = map fst m"

definition bt_values :: "('k, 'v) btree \<Rightarrow> 'v list" where
  "bt_values m = map snd m"

definition bt_map_values :: "('v \<Rightarrow> 'w) \<Rightarrow> ('k, 'v) btree \<Rightarrow> ('k, 'w) btree" where
  "bt_map_values f m = map (\<lambda>kv. (fst kv, f (snd kv))) m"

text \<open>\<open>get_mut\<close>: replaces the value of a key that is present.\<close>

definition bt_update :: "'k \<Rightarrow> ('v \<Rightarrow> 'v) \<Rightarrow> ('k, 'v) btree \<Rightarrow> ('k, 'v) btree" where
  "bt_update k f m = map (\<lambda>kv. if fst kv = k then (k, f (snd kv)) else kv) m"

text \<open>\<open>entry(k).or_insert(v)\<close>.\<close>

definition bt_or_insert :: "'k::linorder \<Rightarrow> 'v \<Rightarrow> ('k, 'v) btree \<Rightarrow> ('k, 'v) btree" where
  "bt_or_insert k v m = (case bt_get m k of None \<Rightarrow> bt_insert k v m | Some _ \<Rightarrow> m)"

text \<open>\<open>collect::<BTreeMap>\<close>: a later pair replaces an earlier one with the same key.\<close>

definition bt_of_list :: "('k::linorder \<times> 'v) list \<Rightarrow> ('k, 'v) btree" where
  "bt_of_list kvs = fold (\<lambda>kv m. bt_insert (fst kv) (snd kv) m) kvs []"

subsection \<open>The interface\<close>

locale ordered_map =
  fixes get :: "'m \<Rightarrow> 'k::linorder \<Rightarrow> 'v option"
    and insert :: "'k \<Rightarrow> 'v \<Rightarrow> 'm \<Rightarrow> 'm"
    and remove :: "'k \<Rightarrow> 'm \<Rightarrow> 'm"
    and empty :: 'm
    and keys :: "'m \<Rightarrow> 'k list"
    and wf :: "'m \<Rightarrow> bool"
  assumes get_empty: "get empty k = None"
    and get_insert: "get (insert k v m) k' = (if k' = k then Some v else get m k')"
    and get_remove: "get (remove k m) k' = (if k' = k then None else get m k')"
    and keys_get: "k \<in> set (keys m) \<longleftrightarrow> get m k \<noteq> None"
    and wf_empty: "wf empty"
    and wf_insert: "wf m \<Longrightarrow> wf (insert k v m)"
    and wf_remove: "wf m \<Longrightarrow> wf (remove k m)"
    and wf_keys: "wf m \<Longrightarrow> sorted_wrt (<) (keys m)"
begin

lemma insert_shadow: "get (insert k v (insert k w m)) = get (insert k v m)"
  by (rule ext) (simp add: get_insert)

lemma insert_commute:
  "k \<noteq> k' \<Longrightarrow> get (insert k v (insert k' v' m)) = get (insert k' v' (insert k v m))"
  by (rule ext) (simp add: get_insert)

lemma keys_insert: "set (keys (insert k v m)) = {k} \<union> set (keys m)"
  by (auto simp: keys_get get_insert split: if_splits)

lemma keys_remove: "set (keys (remove k m)) = set (keys m) - {k}"
  by (auto simp: keys_get get_remove split: if_splits)

lemma wf_distinct: "wf m \<Longrightarrow> distinct (keys m)"
  using wf_keys strict_sorted_iff by blast

lemma length_keys: "wf m \<Longrightarrow> length (keys m) = card {k. get m k \<noteq> None}"
proof -
  assume "wf m"
  moreover have "set (keys m) = {k. get m k \<noteq> None}"
    by (auto simp: keys_get)
  ultimately show ?thesis
    using distinct_card [OF wf_distinct] by metis
qed

lemma length_keys_insert:
  assumes "wf m"
  shows "length (keys (insert k v m)) = length (keys m) + (if get m k = None then 1 else 0)"
proof -
  have "card ({k} \<union> set (keys m)) = card (set (keys m)) + (if k \<in> set (keys m) then 0 else 1)"
    by (simp add: card_insert_if)
  with assms show ?thesis
    by (auto simp: distinct_card [OF wf_distinct, symmetric] wf_insert keys_insert keys_get)
qed

lemma length_keys_remove: "wf m \<Longrightarrow> length (keys (remove k m)) \<le> length (keys m)"
  by (auto simp: distinct_card [OF wf_distinct, symmetric] wf_remove keys_remove intro: card_mono)

lemma fold_insert_get:
  "get (fold (\<lambda>kv m. insert (fst kv) (snd kv) m) kvs m) k =
     (case map_of (rev kvs) k of None \<Rightarrow> get m k | Some v \<Rightarrow> Some v)"
proof (induction kvs arbitrary: m)
  case Nil
  then show ?case by simp
next
  case (Cons kv kvs)
  then show ?case
    by (cases kv) (auto simp: get_insert map_add_def split: option.splits)
qed

lemma fold_insert_wf: "wf m \<Longrightarrow> wf (fold (\<lambda>kv m. insert (fst kv) (snd kv) m) kvs m)"
  by (induction kvs arbitrary: m) (auto intro: wf_insert)

end

subsection \<open>The ordered lists implement it\<close>

lemma bt_get_Nil [simp]: "bt_get [] k = None"
  by (simp add: bt_get_def)

lemma bt_get_insert [simp]: "bt_get (bt_insert k v m) k' = (if k' = k then Some v else bt_get m k')"
  by (induction k v m rule: bt_insert.induct) (auto simp: bt_get_def)

lemma bt_get_remove [simp]: "bt_get (bt_remove k m) k' = (if k' = k then None else bt_get m k')"
  by (induction m) (auto simp: bt_get_def bt_remove_def)

lemma bt_keys_get: "k \<in> set (bt_keys m) \<longleftrightarrow> bt_get m k \<noteq> None"
  by (force simp: bt_keys_def bt_get_def map_of_eq_None_iff)

lemma set_bt_insert_subset: "set (map fst (bt_insert k v m)) = Set.insert k (set (map fst m))"
  by (induction k v m rule: bt_insert.induct) auto

lemma bt_sorted_insert: "bt_sorted m \<Longrightarrow> bt_sorted (bt_insert k v m)"
proof (induction k v m rule: bt_insert.induct)
  case (2 k v a b m)
  then show ?case
    using set_bt_insert_subset [of k v m] by (auto simp: bt_sorted_def)
qed (simp add: bt_sorted_def)

lemma bt_sorted_remove: "bt_sorted m \<Longrightarrow> bt_sorted (bt_remove k m)"
  by (induction m) (auto simp: bt_sorted_def bt_remove_def)

interpretation bt: ordered_map bt_get bt_insert bt_remove "[]" bt_keys bt_sorted
  by unfold_locales
    (auto simp: bt_keys_get bt_sorted_insert bt_sorted_remove, auto simp: bt_sorted_def bt_keys_def)

lemma bt_get_update [simp]:
  "bt_get (bt_update k f m) k' = (if k' = k then map_option f (bt_get m k) else bt_get m k')"
  by (induction m) (auto simp: bt_get_def bt_update_def)

lemma bt_get_map_values [simp]: "bt_get (bt_map_values f m) k = map_option f (bt_get m k)"
  by (induction m) (auto simp: bt_get_def bt_map_values_def)

lemma bt_get_or_insert:
  "bt_get (bt_or_insert k v m) k' = (if k' = k \<and> bt_get m k = None then Some v else bt_get m k')"
  by (auto simp: bt_or_insert_def split: option.splits)

lemma bt_keys_update [simp]: "bt_keys (bt_update k f m) = bt_keys m"
  by (induction m) (auto simp: bt_keys_def bt_update_def)

lemma bt_keys_map_values [simp]: "bt_keys (bt_map_values f m) = bt_keys m"
  by (simp add: bt_keys_def bt_map_values_def comp_def)

lemma bt_sorted_keys: "bt_sorted m \<longleftrightarrow> sorted_wrt (<) (bt_keys m)"
  by (simp add: bt_sorted_def bt_keys_def)

lemma bt_sorted_update [simp]: "bt_sorted (bt_update k f m) \<longleftrightarrow> bt_sorted m"
  by (simp add: bt_sorted_keys)

lemma bt_sorted_map_values [simp]: "bt_sorted (bt_map_values f m) \<longleftrightarrow> bt_sorted m"
  by (simp add: bt_sorted_keys)

lemma bt_sorted_or_insert: "bt_sorted m \<Longrightarrow> bt_sorted (bt_or_insert k v m)"
  by (auto simp: bt_or_insert_def bt_sorted_insert split: option.splits)

lemma bt_get_of_list: "bt_get (bt_of_list kvs) k = map_of (rev kvs) k"
  by (simp add: bt_of_list_def bt.fold_insert_get split: option.splits)

lemma bt_sorted_of_list: "bt_sorted (bt_of_list kvs)"
  by (simp add: bt_of_list_def bt.fold_insert_wf bt.wf_empty)

lemma bt_mem_get: "bt_sorted m \<Longrightarrow> (k, v) \<in> set m \<longleftrightarrow> bt_get m k = Some v"
  using bt.wf_distinct [of m] by (auto simp: bt_get_def bt_keys_def map_of_eq_Some_iff)

lemma length_bt_insert:
  "bt_sorted m \<Longrightarrow> length (bt_insert k v m) = length m + (if bt_get m k = None then 1 else 0)"
  using bt.length_keys_insert [of m k v] by (simp add: bt_keys_def)

lemma length_bt_remove: "length (bt_remove k m) \<le> length m"
  by (simp add: bt_remove_def)

lemma bt_values_get: "v \<in> set (bt_values m) \<Longrightarrow> bt_sorted m \<Longrightarrow> \<exists>k. bt_get m k = Some v"
  by (auto simp: bt_values_def bt_mem_get)

end
