(* ===== verification/Model_Types.thy ===== *)
theory Model_Types
  imports F64 Ordered_Map
begin

text \<open>
  The data contracts of \<open>crates/t32perf-model\<close>: evidence quality and JSON values
  (\<open>common.rs\<close>), resource-counter semantics and subjects (\<open>resource.rs\<close>), observations and
  their dictionary with both validators (\<open>observation.rs\<close>).
\<close>

subsection \<open>Scalars and extension data\<close>

type_synonym timestamp_ns = i64
type_synonym duration_ns = u64

datatype quality = QExact | QInferred | QStatistical

fun quality_rank :: "quality \<Rightarrow> nat" where
  "quality_rank QExact = 0"
| "quality_rank QInferred = 1"
| "quality_rank QStatistical = 2"

lemma quality_rank_inject: "quality_rank a = quality_rank b \<longleftrightarrow> a = b"
  by (cases a; cases b) simp_all

instantiation quality :: linorder
begin

definition less_eq_quality :: "quality \<Rightarrow> quality \<Rightarrow> bool" where
  "less_eq_quality a b \<longleftrightarrow> quality_rank a \<le> quality_rank b"

definition less_quality :: "quality \<Rightarrow> quality \<Rightarrow> bool" where
  "less_quality a b \<longleftrightarrow> quality_rank a < quality_rank b"

instance
  by standard (auto simp: less_eq_quality_def less_quality_def quality_rank_inject)

end

text \<open>
  A JSON value, as \<open>serde_json::Value\<close>: a number is a nonnegative integer, a negative integer
  or a float.
\<close>

datatype json =
    JNull
  | JBool bool
  | JPos u64
  | JNeg i64
  | JFloat f64
  | JStr string
  | JArr "json list"
  | JObj "(string \<times> json) list"

type_synonym properties = "(string, json) btree"

fun as_bool :: "json \<Rightarrow> bool option" where
  "as_bool (JBool b) = Some b"
| "as_bool _ = None"

fun as_u64 :: "json \<Rightarrow> u64 option" where
  "as_u64 (JPos n) = Some n"
| "as_u64 _ = None"

fun as_str :: "json \<Rightarrow> string option" where
  "as_str (JStr s) = Some s"
| "as_str _ = None"

definition j_i64 :: "i64 \<Rightarrow> json" where
  "j_i64 n = (if 0 \<le> ival n then JPos (i64_bits n) else JNeg n)"

definition j_u32 :: "u32 \<Rightarrow> json" where
  "j_u32 n = JPos (ucast n)"

definition j_usize :: "nat \<Rightarrow> json" where
  "j_usize n = JPos (word_of_nat n)"

definition j_opt :: "('a \<Rightarrow> json) \<Rightarrow> 'a option \<Rightarrow> json" where
  "j_opt f x = (case x of None \<Rightarrow> JNull | Some a \<Rightarrow> f a)"

subsection \<open>Resource-counter semantics and subjects\<close>

text \<open>\<open>CounterSemantic\<close> is a validated string; the standard ones are its constants.\<close>

type_synonym counter_semantic = string

datatype resource_class = RHeap | RStack | RRam | RTraceBuffer | ROther

datatype counter_behavior = Gauge | HighWatermark | Monotonic | Rate | Ratio | Capacity

datatype counter_subject_kind = SkAllocator | SkStack | SkMemoryRegion | SkTraceBuffer

record standard_counter_spec =
  spec_unit :: string
  spec_behavior :: counter_behavior
  spec_class :: resource_class
  spec_subject_kind :: counter_subject_kind
  spec_exact_integer :: bool

definition split_at_char :: "char \<Rightarrow> string \<Rightarrow> string list" where
  "split_at_char sep s =
     foldr (\<lambda>c acc. if c = sep then [] # acc else (c # hd acc) # tl acc) s [[]]"

definition is_lower :: "char \<Rightarrow> bool" where
  "is_lower c \<longleftrightarrow> CHR ''a'' \<le> c \<and> c \<le> CHR ''z''"

definition is_upper :: "char \<Rightarrow> bool" where
  "is_upper c \<longleftrightarrow> CHR ''A'' \<le> c \<and> c \<le> CHR ''Z''"

definition is_digit :: "char \<Rightarrow> bool" where
  "is_digit c \<longleftrightarrow> CHR ''0'' \<le> c \<and> c \<le> CHR ''9''"

definition lower_ident_char :: "char \<Rightarrow> bool" where
  "lower_ident_char c \<longleftrightarrow> is_lower c \<or> is_digit c \<or> c = CHR ''_''"

definition validate_semantic :: "string \<Rightarrow> (string, unit) res" where
  "validate_semantic v =
     ensure
       (v \<noteq> [] \<and> length v \<le> 128 \<and> 2 \<le> length (split_at_char (CHR ''.'') v) \<and>
        list_all
          (\<lambda>seg. (case seg of [] \<Rightarrow> False | c # cs \<Rightarrow> is_lower c \<and> list_all lower_ident_char cs))
          (split_at_char (CHR ''.'') v))
       v"

definition heap_allocation_count :: counter_semantic where
  "heap_allocation_count = ''heap.allocation_count''"

definition heap_free_bytes :: counter_semantic where
  "heap_free_bytes = ''heap.free_bytes''"

definition heap_largest_free_block_bytes :: counter_semantic where
  "heap_largest_free_block_bytes = ''heap.largest_free_block_bytes''"

definition stack_capacity_bytes :: counter_semantic where
  "stack_capacity_bytes = ''stack.capacity_bytes''"

definition stack_current_used_bytes :: counter_semantic where
  "stack_current_used_bytes = ''stack.current_used_bytes''"

definition stack_peak_used_bytes :: counter_semantic where
  "stack_peak_used_bytes = ''stack.peak_used_bytes''"

definition trace_buffer_capacity_bytes :: counter_semantic where
  "trace_buffer_capacity_bytes = ''trace_buffer.capacity_bytes''"

definition trace_buffer_current_used_bytes :: counter_semantic where
  "trace_buffer_current_used_bytes = ''trace_buffer.current_used_bytes''"

definition trace_buffer_peak_used_bytes :: counter_semantic where
  "trace_buffer_peak_used_bytes = ''trace_buffer.peak_used_bytes''"

definition mk_spec :: "string \<Rightarrow> counter_behavior \<Rightarrow> resource_class \<Rightarrow> counter_subject_kind \<Rightarrow> bool
    \<Rightarrow> standard_counter_spec" where
  "mk_spec u b c k e =
     \<lparr>spec_unit = u, spec_behavior = b, spec_class = c, spec_subject_kind = k, spec_exact_integer = e\<rparr>"

definition standard_spec :: "counter_semantic \<Rightarrow> standard_counter_spec option" where
  "standard_spec s =
     (if s \<in> {''heap.current_allocated_bytes'', heap_free_bytes, heap_largest_free_block_bytes}
      then Some (mk_spec ''bytes'' Gauge RHeap SkAllocator True)
      else if s \<in> {''heap.peak_allocated_bytes'', ''heap.largest_allocation_bytes''}
      then Some (mk_spec ''bytes'' HighWatermark RHeap SkAllocator True)
      else if s \<in> {heap_allocation_count, ''heap.free_count''}
      then Some (mk_spec ''count'' Monotonic RHeap SkAllocator True)
      else if s = ''heap.allocation_rate_per_second''
      then Some (mk_spec ''1/s'' Rate RHeap SkAllocator False)
      else if s = ''heap.external_fragmentation_ratio''
      then Some (mk_spec ''ratio'' Ratio RHeap SkAllocator False)
      else if s = stack_capacity_bytes
      then Some (mk_spec ''bytes'' Capacity RStack SkStack True)
      else if s = stack_current_used_bytes
      then Some (mk_spec ''bytes'' Gauge RStack SkStack True)
      else if s = stack_peak_used_bytes
      then Some (mk_spec ''bytes'' HighWatermark RStack SkStack True)
      else if s = ''ram.current_used_bytes''
      then Some (mk_spec ''bytes'' Gauge RRam SkMemoryRegion True)
      else if s = ''ram.peak_used_bytes''
      then Some (mk_spec ''bytes'' HighWatermark RRam SkMemoryRegion True)
      else if s = trace_buffer_capacity_bytes
      then Some (mk_spec ''bytes'' Capacity RTraceBuffer SkTraceBuffer True)
      else if s = trace_buffer_current_used_bytes
      then Some (mk_spec ''bytes'' Gauge RTraceBuffer SkTraceBuffer True)
      else if s = trace_buffer_peak_used_bytes
      then Some (mk_spec ''bytes'' HighWatermark RTraceBuffer SkTraceBuffer True)
      else None)"

text \<open>\<open>value_is_valid\<close>: \<open>fract() == 0.0\<close> on a finite value says that it is an integer.\<close>

definition value_is_valid :: "standard_counter_spec \<Rightarrow> f64 \<Rightarrow> bool" where
  "value_is_valid spec v \<longleftrightarrow>
     f64_is_finite v \<and> 0 \<le> f64_val v \<and>
     (\<not> spec_exact_integer spec \<or>
        (f64_val v \<le> 9007199254740992 \<and> of_int \<lfloor>f64_val v\<rfloor> = f64_val v)) \<and>
     (spec_behavior spec \<noteq> Ratio \<or> f64_val v \<le> 1)"

datatype stack_role = RoleTask | RoleIsr | RoleMsp | RolePsp | RoleCustom

fun stack_role_rank :: "stack_role \<Rightarrow> nat" where
  "stack_role_rank RoleTask = 0"
| "stack_role_rank RoleIsr = 1"
| "stack_role_rank RoleMsp = 2"
| "stack_role_rank RolePsp = 3"
| "stack_role_rank RoleCustom = 4"

text \<open>Debug rendering of a role, as it appears in error texts.\<close>

fun stack_role_name :: "stack_role \<Rightarrow> string" where
  "stack_role_name RoleTask = ''Task''"
| "stack_role_name RoleIsr = ''Isr''"
| "stack_role_name RoleMsp = ''Msp''"
| "stack_role_name RolePsp = ''Psp''"
| "stack_role_name RoleCustom = ''Custom''"

datatype counter_subject =
    SubCapture
  | SubAllocator string
  | SubContext string
  | SubCore u32
  | SubStack string stack_role "string option" "u32 option"
  | SubMemoryRegion string
  | SubTraceBuffer string "u32 option"
  | SubCustom string string

text \<open>The derived order compares the variant first, then the fields in order.\<close>

fun subject_key_of :: "counter_subject
    \<Rightarrow> nat \<times> string \<times> nat \<times> string option \<times> u32 option \<times> string" where
  "subject_key_of SubCapture = (0, [], 0, None, None, [])"
| "subject_key_of (SubAllocator a) = (1, a, 0, None, None, [])"
| "subject_key_of (SubContext c) = (2, c, 0, None, None, [])"
| "subject_key_of (SubCore n) = (3, [], 0, None, Some n, [])"
| "subject_key_of (SubStack s r c n) = (4, s, stack_role_rank r, c, n, [])"
| "subject_key_of (SubMemoryRegion r) = (5, r, 0, None, None, [])"
| "subject_key_of (SubTraceBuffer b n) = (6, b, 0, None, n, [])"
| "subject_key_of (SubCustom ns i) = (7, ns, 0, None, None, i)"

lemma stack_role_rank_inject: "stack_role_rank a = stack_role_rank b \<longleftrightarrow> a = b"
  by (cases a; cases b) simp_all

lemma subject_key_of_inject: "subject_key_of a = subject_key_of b \<longleftrightarrow> a = b"
  by (cases a; cases b) (auto simp: stack_role_rank_inject)

instantiation counter_subject :: linorder
begin

definition less_eq_counter_subject :: "counter_subject \<Rightarrow> counter_subject \<Rightarrow> bool" where
  "less_eq_counter_subject a b \<longleftrightarrow> subject_key_of a \<le> subject_key_of b"

definition less_counter_subject :: "counter_subject \<Rightarrow> counter_subject \<Rightarrow> bool" where
  "less_counter_subject a b \<longleftrightarrow> subject_key_of a < subject_key_of b"

instance
proof
  fix a b c :: counter_subject
  show "a < b \<longleftrightarrow> a \<le> b \<and> \<not> b \<le> a"
    unfolding less_eq_counter_subject_def less_counter_subject_def by (rule less_le_not_le)
  show "a \<le> a"
    unfolding less_eq_counter_subject_def by (rule order_refl)
  show "a \<le> b \<Longrightarrow> b \<le> c \<Longrightarrow> a \<le> c"
    unfolding less_eq_counter_subject_def by (rule order_trans)
  show "a \<le> b \<Longrightarrow> b \<le> a \<Longrightarrow> a = b"
    unfolding less_eq_counter_subject_def using subject_key_of_inject by (metis order_antisym)
  show "a \<le> b \<or> b \<le> a"
    unfolding less_eq_counter_subject_def by (rule linear)
qed

end

datatype subject_error =
    InvalidIdentity string string
  | MissingStackContext stack_role
  | MissingStackCore stack_role

fun subject_error_text :: "subject_error \<Rightarrow> string" where
  "subject_error_text (InvalidIdentity f v) =
     ''counter subject field `'' @ f @ ''` has invalid identity `'' @ v @ ''`''"
| "subject_error_text (MissingStackContext r) =
     stack_role_name r @ '' stack subject requires context_id''"
| "subject_error_text (MissingStackCore r) =
     stack_role_name r @ '' stack subject requires core_id''"

definition validate_subject_id :: "string \<Rightarrow> string \<Rightarrow> (subject_error, unit) res" where
  "validate_subject_id fld v = ensure (\<not> (blank v \<or> 256 < length v)) (InvalidIdentity fld v)"

definition validate_extension_namespace :: "string \<Rightarrow> (subject_error, unit) res" where
  "validate_extension_namespace v =
     ensure
       (v \<noteq> [] \<and> length v \<le> 64 \<and> (case v of [] \<Rightarrow> False | c # _ \<Rightarrow> is_lower c) \<and>
        list_all lower_ident_char v)
       (InvalidIdentity ''namespace'' v)"

fun validate_subject :: "counter_subject \<Rightarrow> (subject_error, unit) res" where
  "validate_subject SubCapture = Inr ()"
| "validate_subject (SubCore _) = Inr ()"
| "validate_subject (SubAllocator a) = validate_subject_id ''allocator_id'' a"
| "validate_subject (SubContext c) = validate_subject_id ''context_id'' c"
| "validate_subject (SubStack s r c n) =
     rthen (validate_subject_id ''stack_id'' s)
       (if r \<in> {RoleTask, RoleIsr} \<and> c = None then Inl (Err (MissingStackContext r))
        else if r \<in> {RoleMsp, RolePsp} \<and> n = None then Inl (Err (MissingStackCore r))
        else (case c of None \<Rightarrow> Inr () | Some c \<Rightarrow> validate_subject_id ''context_id'' c))"
| "validate_subject (SubMemoryRegion r) = validate_subject_id ''region_id'' r"
| "validate_subject (SubTraceBuffer b _) = validate_subject_id ''buffer_id'' b"
| "validate_subject (SubCustom ns i) =
     rthen (validate_extension_namespace ns) (validate_subject_id ''id'' i)"

fun subject_kind :: "counter_subject \<Rightarrow> counter_subject_kind option" where
  "subject_kind (SubAllocator _) = Some SkAllocator"
| "subject_kind (SubStack _ _ _ _) = Some SkStack"
| "subject_kind (SubMemoryRegion _) = Some SkMemoryRegion"
| "subject_kind (SubTraceBuffer _ _) = Some SkTraceBuffer"
| "subject_kind _ = None"

end
