(* ===== verification/Observation.thy ===== *)
theory Observation
  imports Model_Types
begin

text \<open>
  Normalized observations and their dictionary (\<open>t32perf-model/src/observation.rs\<close>): the event
  payloads, the semantic validator of one observation and of a document, and the validator of a
  dictionary.
\<close>

text \<open>Interrupt and task priorities are \<open>i32\<close> values the code only stores.\<close>

type_synonym i32 = "32 word"

datatype context_kind = CkTask | CkIsr | CkIdle | CkCore | CkUnknown

datatype observation_event =
    FunctionEnter timestamp_ns u32 string string "string option"
  | FunctionExit timestamp_ns u32 string string "string option"
  | ContextSwitch timestamp_ns u32 "string option" string "string option"
  | InterruptEnter timestamp_ns u32 string "i32 option" string
  | InterruptExit timestamp_ns u32 string "i32 option" string
  | Sample timestamp_ns u32 "string option" "string option" "u64 option" "duration_ns option"
  | Instant timestamp_ns "u32 option" "string option" string properties
  | SpanBegin timestamp_ns "u32 option" "string option" string string properties
  | SpanEnd timestamp_ns "u32 option" "string option" string properties
  | AsyncBegin timestamp_ns "u32 option" "string option" string string properties
  | AsyncEnd timestamp_ns "u32 option" "string option" string properties
  | Counter timestamp_ns "u32 option" "string option" string f64 properties
  | TraceGap timestamp_ns duration_ns string
  | Metadata timestamp_ns string json

record observation =
  obs_source_id :: string
  obs_source_seq :: u64
  obs_quality :: quality
  obs_event :: observation_event

definition new_observation :: "string \<Rightarrow> u64 \<Rightarrow> quality \<Rightarrow> observation_event \<Rightarrow> observation" where
  "new_observation src seq q e =
     \<lparr>obs_source_id = src, obs_source_seq = seq, obs_quality = q, obs_event = e\<rparr>"

fun event_ts_ns :: "observation_event \<Rightarrow> timestamp_ns" where
  "event_ts_ns (FunctionEnter t _ _ _ _) = t"
| "event_ts_ns (FunctionExit t _ _ _ _) = t"
| "event_ts_ns (ContextSwitch t _ _ _ _) = t"
| "event_ts_ns (InterruptEnter t _ _ _ _) = t"
| "event_ts_ns (InterruptExit t _ _ _ _) = t"
| "event_ts_ns (Sample t _ _ _ _ _) = t"
| "event_ts_ns (Instant t _ _ _ _) = t"
| "event_ts_ns (SpanBegin t _ _ _ _ _) = t"
| "event_ts_ns (SpanEnd t _ _ _ _) = t"
| "event_ts_ns (AsyncBegin t _ _ _ _ _) = t"
| "event_ts_ns (AsyncEnd t _ _ _ _) = t"
| "event_ts_ns (Counter t _ _ _ _ _) = t"
| "event_ts_ns (TraceGap t _ _) = t"
| "event_ts_ns (Metadata t _ _) = t"

definition ts_ns :: "observation \<Rightarrow> timestamp_ns" where
  "ts_ns o' = event_ts_ns (obs_event o')"

subsection \<open>Validation of an observation\<close>

datatype observation_error =
    EmptyDocumentSessionId
  | EmptyField string u64 string
  | MissingSampleIdentity string u64
  | ZeroSampleWeight string u64
  | ZeroTraceGapDuration string u64
  | NonFiniteCounter string u64
  | NonMonotonicSourceSequence string u64 u64

definition require :: "observation \<Rightarrow> string \<Rightarrow> string \<Rightarrow> (observation_error, unit) res" where
  "require o' fld v =
     ensure (\<not> blank v) (EmptyField (obs_source_id o') (obs_source_seq o') fld)"

definition require_optional :: "observation \<Rightarrow> string \<Rightarrow> string option
    \<Rightarrow> (observation_error, unit) res" where
  "require_optional o' fld v = (case v of None \<Rightarrow> Inr () | Some v \<Rightarrow> require o' fld v)"

fun validate_event :: "observation \<Rightarrow> observation_event \<Rightarrow> (observation_error, unit) res" where
  "validate_event o' (FunctionEnter _ _ c f fr) =
     rthen (require o' ''context_id'' c)
       (rthen (require o' ''function_id'' f) (require_optional o' ''frame_id'' fr))"
| "validate_event o' (FunctionExit _ _ c f fr) =
     rthen (require o' ''context_id'' c)
       (rthen (require o' ''function_id'' f) (require_optional o' ''frame_id'' fr))"
| "validate_event o' (ContextSwitch _ _ p n r) =
     rthen (require_optional o' ''prev_context_id'' p)
       (rthen (require o' ''next_context_id'' n) (require_optional o' ''reason'' r))"
| "validate_event o' (InterruptEnter _ _ i _ a) =
     rthen (require o' ''interrupt_id'' i) (require o' ''activation_id'' a)"
| "validate_event o' (InterruptExit _ _ i _ a) =
     rthen (require o' ''interrupt_id'' i) (require o' ''activation_id'' a)"
| "validate_event o' (Sample _ _ c f a w) =
     rthen (require_optional o' ''context_id'' c)
       (rthen (require_optional o' ''function_id'' f)
         (rthen (ensure (\<not> (f = None \<and> a = None))
                   (MissingSampleIdentity (obs_source_id o') (obs_source_seq o')))
           (ensure (w \<noteq> Some 0) (ZeroSampleWeight (obs_source_id o') (obs_source_seq o')))))"
| "validate_event o' (Instant _ _ c n _) =
     rthen (require_optional o' ''context_id'' c) (require o' ''name'' n)"
| "validate_event o' (SpanBegin _ _ c s n _) =
     rthen (require_optional o' ''context_id'' c)
       (rthen (require o' ''span_id'' s) (require o' ''name'' n))"
| "validate_event o' (SpanEnd _ _ c s _) =
     rthen (require_optional o' ''context_id'' c) (require o' ''span_id'' s)"
| "validate_event o' (AsyncBegin _ _ c k n _) =
     rthen (require_optional o' ''context_id'' c)
       (rthen (require o' ''correlation_id'' k) (require o' ''name'' n))"
| "validate_event o' (AsyncEnd _ _ c k _) =
     rthen (require_optional o' ''context_id'' c) (require o' ''correlation_id'' k)"
| "validate_event o' (Counter _ _ c k _ _) =
     rthen (require_optional o' ''context_id'' c) (require o' ''counter_id'' k)"
| "validate_event o' (TraceGap _ d r) =
     rthen (require o' ''reason'' r)
       (ensure (d \<noteq> 0) (ZeroTraceGapDuration (obs_source_id o') (obs_source_seq o')))"
| "validate_event o' (Metadata _ k _) = require o' ''key'' k"

fun finite_counter :: "observation_event \<Rightarrow> bool" where
  "finite_counter (Counter _ _ _ _ v _) = f64_is_finite v"
| "finite_counter _ = True"

definition validate_observation :: "observation \<Rightarrow> (observation_error, unit) res" where
  "validate_observation o' =
     rthen (require o' ''source_id'' (obs_source_id o'))
       (rthen (validate_event o' (obs_event o'))
         (ensure (finite_counter (obs_event o'))
           (NonFiniteCounter (obs_source_id o') (obs_source_seq o'))))"

text \<open>
  A document: every observation valid, the sequence strictly increasing per source.
  \<open>last_sequences.insert\<close> stores the new sequence before it is compared.
\<close>

fun validate_sequences :: "(string, u64) btree \<Rightarrow> observation list
    \<Rightarrow> (observation_error, unit) res" where
  "validate_sequences _ [] = Inr ()"
| "validate_sequences seqs (o' # os) =
     rthen (validate_observation o')
       (case bt_get seqs (obs_source_id o') of
          Some p \<Rightarrow>
            if obs_source_seq o' \<le> p
            then Inl (Err (NonMonotonicSourceSequence (obs_source_id o') p (obs_source_seq o')))
            else validate_sequences (bt_insert (obs_source_id o') (obs_source_seq o') seqs) os
        | None \<Rightarrow> validate_sequences (bt_insert (obs_source_id o') (obs_source_seq o') seqs) os)"

record observation_document =
  od_session_id :: string
  od_observations :: "observation list"

definition validate_document :: "observation_document \<Rightarrow> (observation_error, unit) res" where
  "validate_document d =
     rthen (ensure (\<not> blank (od_session_id d)) EmptyDocumentSessionId)
       (validate_sequences [] (od_observations d))"

subsection \<open>The dictionary\<close>

datatype dictionary_entry =
    DefineContext string context_kind string "u32 option" "i32 option"
  | DefineFunction string string "string option" "u64 option" "string option" "u32 option"
  | DefineCounter string string "string option" "string option" "counter_semantic option"
      "counter_subject option"

record observation_dictionary =
  dict_session_id :: string
  dict_entries :: "dictionary_entry list"

datatype dictionary_error =
    DictEmptySessionId
  | DictEmptyId string
  | DictEmptyName string string
  | DictEmptyOptionalField string string string
  | DictInvalidSourceLine string
  | DictDuplicateId string string
  | DictIncompleteCounterSemantics string
  | DictInvalidCounterSubject string string
  | DictCounterUnitMismatch string counter_semantic string "string option"
  | DictCounterSubjectKindMismatch string counter_semantic counter_subject_kind
  | DictStackContextKindMismatch string string context_kind
  | DictDuplicateCounterIdentity string counter_semantic

definition validate_dictionary_optional :: "string \<Rightarrow> string \<Rightarrow> string \<Rightarrow> string option
    \<Rightarrow> (dictionary_error, unit) res" where
  "validate_dictionary_optional ns i fld v =
     ensure (\<not> (case v of None \<Rightarrow> False | Some v \<Rightarrow> blank v)) (DictEmptyOptionalField ns i fld)"

fun stack_context_requirement :: "stack_role \<Rightarrow> context_kind option" where
  "stack_context_requirement RoleTask = Some CkTask"
| "stack_context_requirement RoleIsr = Some CkIsr"
| "stack_context_requirement _ = None"

definition check_standard_counter :: "string \<Rightarrow> string option \<Rightarrow> counter_semantic
    \<Rightarrow> counter_subject \<Rightarrow> (dictionary_error, unit) res" where
  "check_standard_counter i unit' sem sub =
     (case standard_spec sem of
        None \<Rightarrow> Inr ()
      | Some spec \<Rightarrow>
          rthen (ensure (unit' = Some (spec_unit spec))
                   (DictCounterUnitMismatch i sem (spec_unit spec) unit'))
            (ensure (subject_kind sub = Some (spec_subject_kind spec))
               (DictCounterSubjectKindMismatch i sem (spec_subject_kind spec))))"

definition check_stack_context :: "string \<Rightarrow> counter_subject \<Rightarrow> (string, context_kind) btree
    \<Rightarrow> (dictionary_error, unit) res" where
  "check_stack_context i sub kinds =
     (case sub of
        SubStack _ role (Some c) _ \<Rightarrow>
          (case stack_context_requirement role of
             None \<Rightarrow> Inr ()
           | Some expected \<Rightarrow>
               ensure (bt_get kinds c = Some expected) (DictStackContextKindMismatch i c expected))
      | _ \<Rightarrow> Inr ())"

text \<open>The resource identities seen so far are passed along; their order is never read.\<close>

type_synonym identities = "(counter_semantic \<times> counter_subject) set"

definition validate_counter_definition :: "string \<Rightarrow> string option \<Rightarrow> counter_semantic option
    \<Rightarrow> counter_subject option \<Rightarrow> (string, context_kind) btree \<Rightarrow> identities
    \<Rightarrow> (dictionary_error, identities) res" where
  "validate_counter_definition i unit' sem sub kinds seen =
     (case (sem, sub) of
        (None, None) \<Rightarrow> Inr seen
      | (Some sem, Some sub) \<Rightarrow>
          rthen (map_err (\<lambda>e. DictInvalidCounterSubject i (subject_error_text e)) (validate_subject sub))
            (rthen (check_standard_counter i unit' sem sub)
              (rthen (check_stack_context i sub kinds)
                (rthen (ensure ((sem, sub) \<notin> seen) (DictDuplicateCounterIdentity i sem))
                  (Inr (insert (sem, sub) seen)))))
      | _ \<Rightarrow> Inl (Err (DictIncompleteCounterSemantics i)))"

record dictionary_seen =
  seen_contexts :: "string set"
  seen_functions :: "string set"
  seen_counters :: "string set"
  seen_identities :: identities

definition check_entry_names :: "string \<Rightarrow> string \<Rightarrow> string \<Rightarrow> string set
    \<Rightarrow> (dictionary_error, string set) res" where
  "check_entry_names ns i nm ids =
     rthen (ensure (\<not> blank i) (DictEmptyId ns))
       (rthen (ensure (\<not> blank nm) (DictEmptyName ns i))
         (rthen (ensure (i \<notin> ids) (DictDuplicateId ns i)) (Inr (insert i ids))))"

fun validate_entry :: "(string, context_kind) btree \<Rightarrow> dictionary_seen \<Rightarrow> dictionary_entry
    \<Rightarrow> (dictionary_error, dictionary_seen) res" where
  "validate_entry kinds seen (DefineContext i _ nm _ _) =
     rbind (check_entry_names ''context'' i nm (seen_contexts seen))
       (\<lambda>ids. Inr (seen\<lparr>seen_contexts := ids\<rparr>))"
| "validate_entry kinds seen (DefineFunction i nm md _ fl srcline) =
     rthen (validate_dictionary_optional ''function'' i ''module'' md)
       (rthen (validate_dictionary_optional ''function'' i ''file'' fl)
         (rthen (ensure (srcline \<noteq> Some 0) (DictInvalidSourceLine i))
           (rbind (check_entry_names ''function'' i nm (seen_functions seen))
             (\<lambda>ids. Inr (seen\<lparr>seen_functions := ids\<rparr>)))))"
| "validate_entry kinds seen (DefineCounter i nm un ds sem sub) =
     rthen (validate_dictionary_optional ''counter'' i ''unit'' un)
       (rthen (validate_dictionary_optional ''counter'' i ''description'' ds)
         (rbind (validate_counter_definition i un sem sub kinds (seen_identities seen))
           (\<lambda>idents. rbind (check_entry_names ''counter'' i nm (seen_counters seen))
             (\<lambda>ids. Inr (seen\<lparr>seen_identities := idents, seen_counters := ids\<rparr>)))))"

fun validate_entries :: "(string, context_kind) btree \<Rightarrow> dictionary_seen \<Rightarrow> dictionary_entry list
    \<Rightarrow> (dictionary_error, unit) res" where
  "validate_entries kinds seen [] = Inr ()"
| "validate_entries kinds seen (e # es) =
     rbind (validate_entry kinds seen e) (\<lambda>seen'. validate_entries kinds seen' es)"

fun context_kind_pairs :: "dictionary_entry list \<Rightarrow> (string \<times> context_kind) list" where
  "context_kind_pairs [] = []"
| "context_kind_pairs (DefineContext i k _ _ _ # es) = (i, k) # context_kind_pairs es"
| "context_kind_pairs (_ # es) = context_kind_pairs es"

definition validate_dictionary :: "observation_dictionary \<Rightarrow> (dictionary_error, unit) res" where
  "validate_dictionary d =
     rthen (ensure (\<not> blank (dict_session_id d)) DictEmptySessionId)
       (validate_entries (bt_of_list (context_kind_pairs (dict_entries d)))
          \<lparr>seen_contexts = {}, seen_functions = {}, seen_counters = {}, seen_identities = {}\<rparr>
          (dict_entries d))"

end
