(* ===== verification/Order.thy ===== *)
theory Order
  imports Observation Ordered_Map
begin

text \<open>
  Observation order (\<open>t32perf-trace32/src/order.rs\<close>): per-source sequence numbers increase
  strictly, timestamps never move backward within a source or globally.
\<close>

datatype order_error =
    SourceSequence string u64 u64
  | SourceTimestamp string timestamp_ns timestamp_ns
  | GlobalTimestamp timestamp_ns timestamp_ns

record order_validator =
  ov_source_sequences :: "(string, u64) btree"
  ov_source_timestamps :: "(string, timestamp_ns) btree"
  ov_global_timestamp :: "timestamp_ns option"

definition order_validator_default :: order_validator where
  "order_validator_default =
     \<lparr>ov_source_sequences = [], ov_source_timestamps = [], ov_global_timestamp = None\<rparr>"

definition order_observe_global :: "timestamp_ns \<Rightarrow> order_validator
    \<Rightarrow> (order_error, unit) res \<times> order_validator" where
  "order_observe_global t v =
     (case ov_global_timestamp v of
        Some p \<Rightarrow>
          if t < p then (Inl (Err (GlobalTimestamp p t)), v)
          else (Inr (), v\<lparr>ov_global_timestamp := Some t\<rparr>)
      | None \<Rightarrow> (Inr (), v\<lparr>ov_global_timestamp := Some t\<rparr>))"

text \<open>The timestamp checks, after the previous source timestamp was replaced.\<close>

definition order_observe_timestamp :: "string \<Rightarrow> timestamp_ns \<Rightarrow> timestamp_ns option \<Rightarrow> order_validator
    \<Rightarrow> (order_error, unit) res \<times> order_validator" where
  "order_observe_timestamp src t previous v =
     (case previous of
        Some p \<Rightarrow>
          if t < p then (Inl (Err (SourceTimestamp src p t)), v)
          else order_observe_global t v
      | None \<Rightarrow> order_observe_global t v)"

text \<open>
  \<open>insert\<close> returns the previous value and stores the new one first, so a rejected observation
  leaves its sequence, and possibly its timestamp, behind.
\<close>

definition order_observe :: "observation \<Rightarrow> order_validator
    \<Rightarrow> (order_error, unit) res \<times> order_validator" where
  "order_observe o' v =
     (let src = obs_source_id o'; seq = obs_source_seq o'; t = ts_ns o';
          v1 = v\<lparr>ov_source_sequences := bt_insert src seq (ov_source_sequences v)\<rparr>;
          v2 = v1\<lparr>ov_source_timestamps := bt_insert src t (ov_source_timestamps v)\<rparr>
      in case bt_get (ov_source_sequences v) src of
           Some p \<Rightarrow>
             if seq \<le> p then (Inl (Err (SourceSequence src p seq)), v1)
             else order_observe_timestamp src t (bt_get (ov_source_timestamps v) src) v2
         | None \<Rightarrow> order_observe_timestamp src t (bt_get (ov_source_timestamps v) src) v2)"

subsection \<open>What a stream of accepted observations looks like\<close>

definition order_accepts :: "order_validator \<Rightarrow> observation \<Rightarrow> bool" where
  "order_accepts v o' \<longleftrightarrow>
     (\<forall>p. bt_get (ov_source_sequences v) (obs_source_id o') = Some p \<longrightarrow> p < obs_source_seq o')
     \<and> (\<forall>p. bt_get (ov_source_timestamps v) (obs_source_id o') = Some p \<longrightarrow> p \<le> ts_ns o')
     \<and> (\<forall>p. ov_global_timestamp v = Some p \<longrightarrow> p \<le> ts_ns o')"

definition order_stored :: "order_validator \<Rightarrow> observation \<Rightarrow> order_validator" where
  "order_stored v o' =
     \<lparr>ov_source_sequences = bt_insert (obs_source_id o') (obs_source_seq o') (ov_source_sequences v),
      ov_source_timestamps = bt_insert (obs_source_id o') (ts_ns o') (ov_source_timestamps v),
      ov_global_timestamp = Some (ts_ns o')\<rparr>"

lemma order_observe_Inr:
  "order_observe o' v = (Inr (), v') \<longleftrightarrow> order_accepts v o' \<and> v' = order_stored v o'"
  by (cases v)
    (auto simp: order_observe_def order_observe_timestamp_def order_observe_global_def order_accepts_def
      order_stored_def Let_def not_le not_less split: option.splits if_splits)

lemma order_observe_accepts:
  "fst (order_observe o' v) = Inr () \<longleftrightarrow> order_accepts v o'"
  using order_observe_Inr [of o' v "snd (order_observe o' v)"] order_observe_Inr [of o' v "order_stored v o'"]
  by (metis fst_conv prod.collapse)

lemma order_observe_not_Panic: "fst (order_observe o' v) \<noteq> Inl Panic"
  by (auto simp: order_observe_def order_observe_timestamp_def order_observe_global_def Let_def
      split: option.splits if_splits)

fun observe_all :: "order_validator \<Rightarrow> observation list \<Rightarrow> (order_error, order_validator) res" where
  "observe_all v [] = Inr v"
| "observe_all v (o' # os) =
     (case order_observe o' v of
        (Inr _, v') \<Rightarrow> observe_all v' os
      | (Inl e, _) \<Rightarrow> Inl e)"

lemma observe_all_Cons:
  "(\<exists>w. observe_all v (o' # os) = Inr w) \<longleftrightarrow>
     order_accepts v o' \<and> (\<exists>w. observe_all (order_stored v o') os = Inr w)"
proof (cases "order_observe o' v")
  case (Pair r v')
  then show ?thesis
    using order_observe_Inr [of o' v v'] order_observe_accepts [of o' v]
    by (cases r) auto
qed

definition from_source :: "string \<Rightarrow> observation list \<Rightarrow> observation list" where
  "from_source i os = filter (\<lambda>o'. obs_source_id o' = i) os"

definition opt_list :: "'a option \<Rightarrow> 'a list" where
  "opt_list x = (case x of None \<Rightarrow> [] | Some a \<Rightarrow> [a])"

lemma sorted_wrt_opt_list:
  assumes "transp P"
  shows "sorted_wrt P (opt_list x @ a # as) \<longleftrightarrow>
    (\<forall>p. x = Some p \<longrightarrow> P p a) \<and> sorted_wrt P (opt_list (Some a) @ as)"
  using transpD [OF assms] by (cases x) (auto simp: opt_list_def)

text \<open>The sequences of every source and the timestamps, each with the value stored before.\<close>

definition ordered_after :: "order_validator \<Rightarrow> observation list \<Rightarrow> bool" where
  "ordered_after v os \<longleftrightarrow>
     sorted_wrt (\<le>) (opt_list (ov_global_timestamp v) @ map ts_ns os)
     \<and> (\<forall>i. sorted_wrt (<) (opt_list (bt_get (ov_source_sequences v) i)
          @ map obs_source_seq (from_source i os)))"

lemma ordered_after_Cons:
  "ordered_after v (o' # os) \<longleftrightarrow>
     (\<forall>p. ov_global_timestamp v = Some p \<longrightarrow> p \<le> ts_ns o')
     \<and> (\<forall>p. bt_get (ov_source_sequences v) (obs_source_id o') = Some p \<longrightarrow> p < obs_source_seq o')
     \<and> ordered_after (order_stored v o') os"
proof -
  let ?Q = "\<lambda>v os i. sorted_wrt (<) (opt_list (bt_get (ov_source_sequences v) i)
      @ map obs_source_seq (from_source i os))"
  have Q: "?Q v (o' # os) i \<longleftrightarrow> ?Q (order_stored v o') os i \<and>
      (i = obs_source_id o' \<longrightarrow>
        (\<forall>p. bt_get (ov_source_sequences v) (obs_source_id o') = Some p \<longrightarrow> p < obs_source_seq o'))" for i
  proof (cases "i = obs_source_id o'")
    case True
    then show ?thesis
      by (simp add: from_source_def order_stored_def sorted_wrt_opt_list [OF transp_on_less]) auto
  qed (simp add: from_source_def order_stored_def)
  show ?thesis
    unfolding ordered_after_def Q
    by (simp add: order_stored_def sorted_wrt_opt_list [OF transp_on_le]) blast
qed

lemma observe_all_iff:
  assumes "\<And>i p. bt_get (ov_source_timestamps v) i = Some p \<Longrightarrow> \<exists>g. ov_global_timestamp v = Some g \<and> p \<le> g"
  shows "(\<exists>w. observe_all v os = Inr w) \<longleftrightarrow> ordered_after v os"
  using assms
proof (induction os arbitrary: v)
  case Nil
  then show ?case by (simp add: ordered_after_def from_source_def opt_list_def split: option.splits)
next
  case (Cons o' os)
  have acc: "order_accepts v o' \<longleftrightarrow>
      (\<forall>p. ov_global_timestamp v = Some p \<longrightarrow> p \<le> ts_ns o')
      \<and> (\<forall>p. bt_get (ov_source_sequences v) (obs_source_id o') = Some p \<longrightarrow> p < obs_source_seq o')"
    using Cons.prems by (fastforce simp: order_accepts_def)
  have "(\<exists>w. observe_all (order_stored v o') os = Inr w) \<longleftrightarrow> ordered_after (order_stored v o') os"
    if *: "order_accepts v o'"
  proof (rule Cons.IH)
    show "\<exists>g. ov_global_timestamp (order_stored v o') = Some g \<and> p \<le> g"
      if p: "bt_get (ov_source_timestamps (order_stored v o')) i = Some p" for i p
    proof (cases "i = obs_source_id o'")
      case False
      with p have "bt_get (ov_source_timestamps v) i = Some p" by (simp add: order_stored_def)
      with Cons.prems obtain g where "ov_global_timestamp v = Some g" "p \<le> g" by blast
      with * show ?thesis by (auto simp: order_accepts_def order_stored_def)
    qed (use p in \<open>simp add: order_stored_def\<close>)
  qed
  then show ?case
    unfolding observe_all_Cons ordered_after_Cons using acc by blast
qed

text \<open>C5: The order validator accepts a stream exactly when the stream is ordered: timestamps never
  decrease and the sequence numbers of each source increase strictly. The check per source adds
  nothing to the global one and nothing else is rejected.\<close>
theorem order_validator_exact:
  "(\<exists>w. observe_all order_validator_default os = Inr w) \<longleftrightarrow>
     sorted (map ts_ns os) \<and> (\<forall>i. sorted_wrt (<) (map obs_source_seq (from_source i os)))"
  using observe_all_iff [of order_validator_default os] by (simp add: order_validator_default_def ordered_after_def opt_list_def)

end
