(* ===== verification/Source.thy ===== *)
theory Source
  imports Order
begin

text \<open>
  Observation sources (\<open>t32perf-trace32/src/source.rs\<close>): descriptors, ordered records and the
  contract of the trait \<open>ObservationSource\<close>. A source is a state with a \<open>descriptor\<close> and a
  \<open>next_observation\<close> function; the trait has no other way to produce records.
\<close>

record source_descriptor =
  sd_source_id :: string
  sd_clock_domain :: string

record ordered_observation =
  oo_observation :: observation
  oo_order_key :: "u64 option"

definition unordered :: "observation \<Rightarrow> ordered_observation" where
  "unordered o' = \<lparr>oo_observation = o', oo_order_key = None\<rparr>"

definition ordered_by :: "observation \<Rightarrow> u64 \<Rightarrow> ordered_observation" where
  "ordered_by o' k = \<lparr>oo_observation = o', oo_order_key = Some k\<rparr>"

definition oo_ts :: "ordered_observation \<Rightarrow> timestamp_ns" where
  "oo_ts r = ts_ns (oo_observation r)"

type_synonym ('s, 'e) source_next = "'s \<Rightarrow> ('e, ordered_observation option) res \<times> 's"

subsection \<open>What a source still holds\<close>

text \<open>
  The records a source yields before its end or its first error, read with at most \<open>n\<close> calls.
\<close>

fun drain :: "('s, 'e) source_next \<Rightarrow> nat \<Rightarrow> 's \<Rightarrow> ordered_observation list" where
  "drain pull 0 s = []"
| "drain pull (Suc n) s =
     (case pull s of
        (Inr (Some r), s') \<Rightarrow> r # drain pull n s'
      | _ \<Rightarrow> [])"

lemma drain_Suc_cases:
  obtains (stop) "drain pull (Suc n) s = []"
  | (item) r s' where "pull s = (Inr (Some r), s')" "drain pull (Suc n) s = r # drain pull n s'"
  by (cases "pull s"; cases "fst (pull s)"; cases "projr (fst (pull s))") auto

text \<open>
  Reading to the end: \<open>None\<close> when \<open>n\<close> calls were not enough, otherwise the first error or every
  record up to the clean end.
\<close>

fun read_all :: "('s, 'e) source_next \<Rightarrow> nat \<Rightarrow> 's \<Rightarrow> ('e, ordered_observation list) res option" where
  "read_all pull 0 s = None"
| "read_all pull (Suc n) s =
     (case pull s of
        (Inl e, _) \<Rightarrow> Some (Inl e)
      | (Inr None, _) \<Rightarrow> Some (Inr [])
      | (Inr (Some r), s') \<Rightarrow> map_option (\<lambda>x. rbind x (\<lambda>rs. Inr (r # rs))) (read_all pull n s'))"

lemma read_all_drain: "read_all pull n s = Some (Inr rs) \<Longrightarrow> rs = drain pull n s"
proof (induction n arbitrary: s rs)
  case (Suc n)
  then show ?case
    by (cases "pull s"; cases "fst (pull s)"; cases "projr (fst (pull s))") (auto simp: rbind_eq_Inr)
qed simp

lemma read_all_item:
  "read_all pull n s = Some (Inr rs) \<Longrightarrow> rs \<noteq> [] \<Longrightarrow> \<exists>r s'. pull s = (Inr (Some r), s')"
  by (cases n; cases "pull s"; cases "fst (pull s)"; cases "projr (fst (pull s))") auto

text \<open>
  A finite source: every record it yields brings it closer to its end, measured by a number, so
  it ends after at most that many records. The locale gives its content as a list.
\<close>

locale finite_source =
  fixes pull :: "('s, 'e) source_next"
    and left :: "'s \<Rightarrow> nat"
    and ok :: "'s \<Rightarrow> bool"
  assumes left_pull: "ok s \<Longrightarrow> pull s = (Inr (Some r), s') \<Longrightarrow> left s' < left s"
    and left_mono: "ok s \<Longrightarrow> left (snd (pull s)) \<le> left s"
    and ok_pull: "ok s \<Longrightarrow> ok (snd (pull s))"
    and pull_no_panic: "ok s \<Longrightarrow> fst (pull s) \<noteq> Inl Panic"
begin

lemma drain_end: "left s = 0 \<Longrightarrow> ok s \<Longrightarrow> drain pull n s = []"
  using left_pull [of s] by (cases n) (auto split: prod.splits sum.splits option.splits)

lemma drain_enough:
  "ok s \<Longrightarrow> left s \<le> n \<Longrightarrow> left s \<le> m \<Longrightarrow> drain pull n s = drain pull m s"
proof (induction n arbitrary: s m)
  case 0
  then show ?case by (simp add: drain_end)
next
  case (Suc n)
  show ?case
  proof (cases m)
    case 0
    with Suc.prems show ?thesis by (simp add: drain_end del: drain.simps)
  next
    case (Suc k)
    obtain r s' where p: "pull s = (r, s')" by fastforce
    have "ok s'" using ok_pull [of s] Suc.prems p by simp
    moreover have "left s' \<le> n" "left s' \<le> k" if "r = Inr (Some x)" for x
      using left_pull [of s x s'] that p Suc Suc.prems by auto
    ultimately show ?thesis
      using Suc.IH [of s' k] p Suc by (auto split: sum.splits option.splits)
  qed
qed

lemma drain_Some:
  assumes "ok s" "pull s = (Inr (Some r), s')"
  shows "drain pull (left s) s = r # drain pull (left s') s'"
proof -
  have "left s' < left s" by (rule left_pull [OF assms])
  then obtain k where k: "left s = Suc k" "left s' \<le> k" by (cases "left s") auto
  have "ok s'" using ok_pull [OF assms(1)] assms(2) by simp
  then show ?thesis using assms(2) k drain_enough [of s' k "left s'"] by simp
qed

lemma read_all_enough: "ok s \<Longrightarrow> left s < n \<Longrightarrow> read_all pull n s \<noteq> None"
proof (induction n arbitrary: s)
  case (Suc n)
  obtain r s' where p: "pull s = (r, s')" by fastforce
  show ?case
  proof (cases "\<exists>x. r = Inr (Some x)")
    case True
    then obtain x where x: "r = Inr (Some x)" ..
    have "left s' < left s" "ok s'"
      using left_pull [of s x s'] ok_pull [of s] Suc.prems p x by auto
    with Suc p x show ?thesis by auto
  qed (use p in \<open>auto split: sum.splits option.splits\<close>)
qed simp

lemma read_all_no_panic: "ok s \<Longrightarrow> read_all pull n s \<noteq> Some (Inl Panic)"
proof (induction n arbitrary: s)
  case (Suc n)
  obtain r s' where p: "pull s = (r, s')" by fastforce
  with pull_no_panic [OF Suc.prems] ok_pull [OF Suc.prems] Suc.IH [of s'] show ?case
    by (auto simp: rbind_def split: sum.splits option.splits)
qed simp

lemma drain_None: "fst (pull s) = Inr None \<Longrightarrow> drain pull n s = []"
  by (cases n) (auto split: prod.splits)

lemma drain_length: "ok s \<Longrightarrow> length (drain pull n s) \<le> left s"
proof (induction n arbitrary: s)
  case (Suc n)
  obtain r s' where p: "pull s = (r, s')" by fastforce
  show ?case
  proof (cases "\<exists>x. r = Inr (Some x)")
    case True
    then obtain x where x: "r = Inr (Some x)" ..
    have "left s' < left s" "ok s'"
      using left_pull [of s x s'] ok_pull [of s] Suc.prems p x by auto
    with Suc.IH [of s'] p x show ?thesis by simp
  qed (use p in \<open>auto split: sum.splits option.splits\<close>)
qed simp

end

text \<open>
  A source whose records are related in the order it yields them: a bound that its state
  guarantees for everything still to come relates every earlier record to every later one.
\<close>

locale related_source =
  fixes pull :: "('s, 'e) source_next"
    and ok :: "'s \<Rightarrow> bool"
    and bound :: "'s \<Rightarrow> ordered_observation \<Rightarrow> bool"
    and rel :: "ordered_observation \<Rightarrow> ordered_observation \<Rightarrow> bool"
  assumes ok_step: "ok s \<Longrightarrow> ok (snd (pull s))"
    and bound_step: "ok s \<Longrightarrow> bound s a \<Longrightarrow> bound (snd (pull s)) a"
    and bound_yield: "ok s \<Longrightarrow> pull s = (Inr (Some r), s') \<Longrightarrow> bound s' r"
    and yield_bound: "ok s \<Longrightarrow> bound s a \<Longrightarrow> pull s = (Inr (Some r), s') \<Longrightarrow> rel a r"
begin

lemma drain_bound: "ok s \<Longrightarrow> bound s a \<Longrightarrow> r \<in> set (drain pull n s) \<Longrightarrow> rel a r"
proof (induction n arbitrary: s)
  case (Suc n)
  show ?case
  proof (cases pull n s rule: drain_Suc_cases)
    case (item x s')
    with Suc.prems ok_step [of s] bound_step [of s a] have "ok s'" "bound s' a" by auto
    with Suc.IH item Suc.prems yield_bound [of s a x s'] show ?thesis by auto
  qed (use Suc.prems in simp)
qed simp

lemma drain_related: "ok s \<Longrightarrow> sorted_wrt rel (drain pull n s)"
proof (induction n arbitrary: s)
  case (Suc n)
  show ?case
  proof (cases pull n s rule: drain_Suc_cases)
    case (item x s')
    with Suc.prems ok_step [of s] bound_yield [of s x s'] have "ok s'" "bound s' x" by auto
    with Suc.IH item drain_bound show ?thesis by auto
  qed simp
qed simp

end

end
