(* ===== verification/Merge.thy ===== *)
theory Merge
  imports Source
begin

text \<open>
  The k-way merge of sorted sources (\<open>t32perf-trace32/src/merge.rs\<close>). The boxed trait objects are
  states of one type \<open>'s\<close> with the two methods of the trait, \<open>describe\<close> and \<open>pull\<close>, as arguments.
\<close>

datatype merge_error =
    ClockDomainMismatch string string string
  | DuplicateSource string
  | SourceOutOfOrder string timestamp_ns timestamp_ns
  | MergeSourceSequence string u64 u64
  | SourceOrderKey string timestamp_ns u64 u64
  | AmbiguousTick timestamp_ns "string list"

text \<open>\<open>SourceError\<close>: the merge's own errors and those of the sources, which it passes on.\<close>

datatype 'e source_error = SourceMerge merge_error | SourceFrom 'e

record merge_source_state =
  ms_order :: order_validator
  ms_last_timestamp :: "timestamp_ns option"
  ms_last_order_key :: "u64 option"

definition merge_source_state_default :: merge_source_state where
  "merge_source_state_default =
     \<lparr>ms_order = order_validator_default, ms_last_timestamp = None, ms_last_order_key = None\<rparr>"

record ('s, 'e) k_way_merge =
  kw_descriptor :: source_descriptor
  kw_sources :: "'s list"
  kw_heads :: "ordered_observation option list"
  kw_states :: "merge_source_state list"
  kw_deferred_error :: "'e source_error option"

subsection \<open>Checking one record of a source\<close>

fun merge_order_error :: "string \<Rightarrow> order_error \<Rightarrow> merge_error" where
  "merge_order_error i (SourceSequence _ previous actual) = MergeSourceSequence i previous actual"
| "merge_order_error i (SourceTimestamp _ previous actual) = SourceOutOfOrder i previous actual"
| "merge_order_error i (GlobalTimestamp previous actual) = SourceOutOfOrder i previous actual"

definition order_key_violation :: "merge_source_state \<Rightarrow> ordered_observation \<Rightarrow> (u64 \<times> u64) option" where
  "order_key_violation st r =
     (if ms_last_timestamp st = Some (oo_ts r) then
        (case (ms_last_order_key st, oo_order_key r) of
           (Some previous, Some actual) \<Rightarrow> if actual \<le> previous then Some (previous, actual) else None
         | _ \<Rightarrow> None)
      else None)"

definition observe_record :: "string \<Rightarrow> ordered_observation \<Rightarrow> merge_source_state
    \<Rightarrow> (merge_error, unit) res \<times> merge_source_state" where
  "observe_record i r st =
     (case order_observe (oo_observation r) (ms_order st) of
        (Inl e, v) \<Rightarrow> (map_err (merge_order_error i) (Inl e), st\<lparr>ms_order := v\<rparr>)
      | (Inr _, v) \<Rightarrow>
          (Inr (), st\<lparr>ms_order := v, ms_last_timestamp := Some (oo_ts r),
                      ms_last_order_key := oo_order_key r\<rparr>))"

definition validate_order_key :: "string \<Rightarrow> ordered_observation \<Rightarrow> merge_source_state
    \<Rightarrow> (merge_error, unit) res \<times> merge_source_state" where
  "validate_order_key i r st =
     (case order_key_violation st r of
        Some (previous, actual) \<Rightarrow> (Inl (Err (SourceOrderKey i (oo_ts r) previous actual)), st)
      | None \<Rightarrow> observe_record i r st)"

definition validate_source_record :: "source_descriptor \<Rightarrow> ordered_observation \<Rightarrow> merge_source_state
    \<Rightarrow> (merge_error, unit) res \<times> merge_source_state" where
  "validate_source_record d r st =
     (case ms_last_timestamp st of
        Some previous \<Rightarrow>
          if oo_ts r < previous
          then (Inl (Err (SourceOutOfOrder (sd_source_id d) previous (oo_ts r))), st)
          else validate_order_key (sd_source_id d) r st
      | None \<Rightarrow> validate_order_key (sd_source_id d) r st)"

subsection \<open>Starting a merge\<close>

fun check_descriptors :: "string \<Rightarrow> string list \<Rightarrow> source_descriptor list \<Rightarrow> (merge_error, unit) res" where
  "check_descriptors domain seen [] = Inr ()"
| "check_descriptors domain seen (d # ds) =
     (if sd_clock_domain d \<noteq> domain
      then Inl (Err (ClockDomainMismatch (sd_source_id d) domain (sd_clock_domain d)))
      else if sd_source_id d \<in> set seen then Inl (Err (DuplicateSource (sd_source_id d)))
      else check_descriptors domain (sd_source_id d # seen) ds)"

definition validate_head :: "source_descriptor \<Rightarrow> ordered_observation option
    \<Rightarrow> (merge_error, unit) res \<times> merge_source_state" where
  "validate_head d head =
     (case head of
        None \<Rightarrow> (Inr (), merge_source_state_default)
      | Some r \<Rightarrow> validate_source_record d r merge_source_state_default)"

fun init_heads :: "('s \<Rightarrow> source_descriptor) \<Rightarrow> ('s, 'e source_error) source_next \<Rightarrow> 's list
    \<Rightarrow> ('e source_error, ('s \<times> ordered_observation option \<times> merge_source_state) list) res" where
  "init_heads describe pull [] = Inr []"
| "init_heads describe pull (s # ss) =
     (case pull s of
        (Inl e, _) \<Rightarrow> Inl e
      | (Inr head, s') \<Rightarrow>
          (case validate_head (describe s') head of
             (Inl e, _) \<Rightarrow> map_err SourceMerge (Inl e)
           | (Inr _, st) \<Rightarrow>
               rbind (init_heads describe pull ss) (\<lambda>rest. Inr ((s', head, st) # rest))))"

definition merge_new :: "('s \<Rightarrow> source_descriptor) \<Rightarrow> ('s, 'e source_error) source_next \<Rightarrow> 's list
    \<Rightarrow> ('e source_error, ('s, 'e) k_way_merge) res" where
  "merge_new describe pull ss =
     (let domain = (case ss of [] \<Rightarrow> ''session'' | s # _ \<Rightarrow> sd_clock_domain (describe s)) in
      rthen (map_err SourceMerge (check_descriptors domain [] (map describe ss)))
        (rbind (init_heads describe pull ss) (\<lambda>parts.
           Inr \<lparr>kw_descriptor = \<lparr>sd_source_id = ''k-way-merge'', sd_clock_domain = domain\<rparr>,
                kw_sources = map fst parts,
                kw_heads = map (\<lambda>p. fst (snd p)) parts,
                kw_states = map (\<lambda>p. snd (snd p)) parts,
                kw_deferred_error = None\<rparr>)))"

subsection \<open>Selecting the next record\<close>

definition ambiguous :: "('s \<Rightarrow> source_descriptor) \<Rightarrow> ('s, 'e) k_way_merge \<Rightarrow> timestamp_ns \<Rightarrow> nat list
    \<Rightarrow> merge_error" where
  "ambiguous describe kw t tied =
     AmbiguousTick t (sort (map (\<lambda>i. sd_source_id (describe (kw_sources kw ! i))) tied))"

fun tie_keys :: "merge_error \<Rightarrow> ordered_observation option list \<Rightarrow> (u64, nat) btree \<Rightarrow> nat list
    \<Rightarrow> (merge_error, (u64, nat) btree) res" where
  "tie_keys amb heads m [] = Inr m"
| "tie_keys amb heads m (i # is) =
     rbind (expect (heads ! i)) (\<lambda>r.
       rbind (ok_or (oo_order_key r) amb) (\<lambda>k.
         if bt_contains m k then Inl (Err amb)
         else tie_keys amb heads (bt_insert k i m) is))"

definition head_timestamps :: "ordered_observation option list \<Rightarrow> timestamp_ns list" where
  "head_timestamps heads = concat (map (\<lambda>h. case h of None \<Rightarrow> [] | Some r \<Rightarrow> [oo_ts r]) heads)"

definition tied_heads :: "ordered_observation option list \<Rightarrow> timestamp_ns \<Rightarrow> nat list" where
  "tied_heads heads t =
     filter (\<lambda>i. case heads ! i of None \<Rightarrow> False | Some r \<Rightarrow> oo_ts r = t) [0 ..< length heads]"

definition select_tied :: "merge_error \<Rightarrow> ordered_observation option list \<Rightarrow> nat list
    \<Rightarrow> (merge_error, nat option) res" where
  "select_tied amb heads tied =
     (if length tied = 1 then Inr (Some (hd tied))
      else rbind (tie_keys amb heads [] tied) (\<lambda>by_key.
        Inr (case by_key of [] \<Rightarrow> None | kv # _ \<Rightarrow> Some (snd kv))))"

definition select_head :: "('s \<Rightarrow> source_descriptor) \<Rightarrow> ('s, 'e) k_way_merge
    \<Rightarrow> (merge_error, nat option) res" where
  "select_head describe kw =
     (case head_timestamps (kw_heads kw) of
        [] \<Rightarrow> Inr None
      | t # ts \<Rightarrow>
          let minimum = fold min ts t;
              tied = tied_heads (kw_heads kw) minimum
          in select_tied (ambiguous describe kw minimum tied) (kw_heads kw) tied)"

text \<open>
  After the head of source \<open>i\<close> was taken, its next record is read and checked; a failure is kept
  for the following call, and a record that failed the check still becomes the head.
\<close>

definition merge_advance :: "('s \<Rightarrow> source_descriptor) \<Rightarrow> ('s, 'e source_error) source_next \<Rightarrow> nat
    \<Rightarrow> ordered_observation \<Rightarrow> ('s, 'e) k_way_merge
    \<Rightarrow> ('e source_error, ordered_observation option) res \<times> ('s, 'e) k_way_merge" where
  "merge_advance describe pull i result kw =
     (case pull (kw_sources kw ! i) of
        (Inl Panic, s') \<Rightarrow> (Inl Panic, kw\<lparr>kw_sources := (kw_sources kw)[i := s']\<rparr>)
      | (Inl (Err e), s') \<Rightarrow>
          (Inr (Some result),
           kw\<lparr>kw_sources := (kw_sources kw)[i := s'], kw_heads := (kw_heads kw)[i := None],
              kw_deferred_error := Some e\<rparr>)
      | (Inr None, s') \<Rightarrow>
          (Inr (Some result),
           kw\<lparr>kw_sources := (kw_sources kw)[i := s'], kw_heads := (kw_heads kw)[i := None]\<rparr>)
      | (Inr (Some r), s') \<Rightarrow>
          (case validate_source_record (describe s') r (kw_states kw ! i) of
             (Inl Panic, st) \<Rightarrow>
               (Inl Panic, kw\<lparr>kw_sources := (kw_sources kw)[i := s'], kw_states := (kw_states kw)[i := st]\<rparr>)
           | (Inl (Err e), st) \<Rightarrow>
               (Inr (Some result),
                kw\<lparr>kw_sources := (kw_sources kw)[i := s'], kw_heads := (kw_heads kw)[i := Some r],
                   kw_states := (kw_states kw)[i := st], kw_deferred_error := Some (SourceMerge e)\<rparr>)
           | (Inr _, st) \<Rightarrow>
               (Inr (Some result),
                kw\<lparr>kw_sources := (kw_sources kw)[i := s'], kw_heads := (kw_heads kw)[i := Some r],
                   kw_states := (kw_states kw)[i := st]\<rparr>)))"

definition merge_next :: "('s \<Rightarrow> source_descriptor) \<Rightarrow> ('s, 'e source_error) source_next
    \<Rightarrow> (('s, 'e) k_way_merge, 'e source_error) source_next" where
  "merge_next describe pull kw =
     (case kw_deferred_error kw of
        Some e \<Rightarrow> (Inl (Err e), kw\<lparr>kw_deferred_error := None\<rparr>)
      | None \<Rightarrow>
          (case select_head describe kw of
             Inl e \<Rightarrow> (map_err SourceMerge (Inl e), kw)
           | Inr None \<Rightarrow> (Inr None, kw)
           | Inr (Some i) \<Rightarrow>
               (case kw_heads kw ! i of
                  None \<Rightarrow> (Inl Panic, kw)
                | Some result \<Rightarrow> merge_advance describe pull i result kw)))"

subsection \<open>Selection\<close>

lemma fold_min: "fold min ts t \<le> t" "\<forall>u\<in>set ts. fold min ts t \<le> (u::'a::linorder)" "fold min ts t \<in> set (t # ts)"
proof (induction ts arbitrary: t)
  case (Cons u ts)
  { case 1 show ?case using Cons(1) [of "min u t"] by (simp add: order_trans) }
  { case 2 show ?case using Cons(1,2) [of "min u t"] by (auto intro: order_trans) }
  { case 3 show ?case using Cons(3) [of "min u t"] by (auto simp: min_def split: if_splits) }
qed auto

lemma head_timestamps_iff: "t \<in> set (head_timestamps heads) \<longleftrightarrow> (\<exists>r. Some r \<in> set heads \<and> oo_ts r = t)"
  by (force simp: head_timestamps_def split: option.splits)

lemma head_timestamps_Nil: "head_timestamps heads = [] \<longleftrightarrow> (\<forall>h\<in>set heads. h = None)"
  by (auto simp: head_timestamps_def split: option.splits)

lemma tied_heads_iff:
  "i \<in> set (tied_heads heads t) \<longleftrightarrow> i < length heads \<and> (\<exists>r. heads ! i = Some r \<and> oo_ts r = t)"
  by (auto simp: tied_heads_def split: option.splits)

lemma distinct_tied_heads [simp]: "distinct (tied_heads heads t)"
  by (simp add: tied_heads_def)

lemma tie_keys_Inr:
  assumes "tie_keys amb heads m is = Inr m'" "bt_sorted m" "distinct is"
  shows "bt_sorted m'"
    and "(k, i) \<in> set m' \<longleftrightarrow> (k, i) \<in> set m \<or>
      (i \<in> set is \<and> (\<exists>r. heads ! i = Some r \<and> oo_order_key r = Some k))"
    and "i \<in> set is \<Longrightarrow> \<exists>r. heads ! i = Some r \<and> oo_order_key r \<noteq> None"
proof -
  have "bt_sorted m' \<and>
    (\<forall>k i. (k, i) \<in> set m' \<longleftrightarrow> (k, i) \<in> set m \<or>
      (i \<in> set is \<and> (\<exists>r. heads ! i = Some r \<and> oo_order_key r = Some k))) \<and>
    (\<forall>i\<in>set is. \<exists>r. heads ! i = Some r \<and> oo_order_key r \<noteq> None)"
    using assms
  proof (induction "is" arbitrary: m)
    case (Cons j js)
    from Cons.prems(1) obtain r k' where r: "heads ! j = Some r" "oo_order_key r = Some k'"
      "\<not> bt_contains m k'" "tie_keys amb heads (bt_insert k' j m) js = Inr m'"
      by (auto simp: rbind_eq_Inr expect_def split: option.splits if_splits)
    have s: "bt_sorted (bt_insert k' j m)" by (rule bt_sorted_insert) (rule Cons.prems)
    have mem: "(a, b) \<in> set (bt_insert k' j m) \<longleftrightarrow> (a, b) = (k', j) \<or> (a, b) \<in> set m" for a b
      using r(3) Cons.prems(2) s by (auto simp: bt_mem_get bt_contains_def)
    have dj: "distinct js" "j \<notin> set js" using Cons.prems(3) by simp_all
    note IH = Cons.IH [OF r(4) s dj(1)]
    have "(a, b) \<in> set m' \<longleftrightarrow> (a, b) \<in> set m \<or>
        (b \<in> set (j # js) \<and> (\<exists>r. heads ! b = Some r \<and> oo_order_key r = Some a))" for a b
      using IH r(1,2) dj(2) mem [of a b] by auto
    moreover have "\<exists>r. heads ! b = Some r \<and> oo_order_key r \<noteq> None" if "b \<in> set (j # js)" for b
      using that IH r(1,2) by auto
    ultimately show ?case using IH by blast
  qed simp
  then show "bt_sorted m'" "(k, i) \<in> set m' \<longleftrightarrow> (k, i) \<in> set m \<or>
      (i \<in> set is \<and> (\<exists>r. heads ! i = Some r \<and> oo_order_key r = Some k))"
    "i \<in> set is \<Longrightarrow> \<exists>r. heads ! i = Some r \<and> oo_order_key r \<noteq> None" by blast+
qed

lemma tie_keys_no_panic:
  "\<forall>i\<in>set is. heads ! i \<noteq> None \<Longrightarrow> tie_keys amb heads m is = Inl e \<Longrightarrow> e = Err amb"
proof (induction "is" arbitrary: m)
  case (Cons j js)
  then show ?case
    by (cases "heads ! j") (auto simp: ok_or_def rbind_def split: option.splits if_splits)
qed simp

text \<open>Among tied heads the one with the least key is selected.\<close>

lemma select_tied_Some:
  assumes "select_tied amb heads tied = Inr (Some i)" "distinct tied"
  shows "i \<in> set tied"
    and "j \<in> set tied \<Longrightarrow> j \<noteq> i \<Longrightarrow> heads ! i = Some r \<Longrightarrow> heads ! j = Some r' \<Longrightarrow>
      \<exists>k k'. oo_order_key r = Some k \<and> oo_order_key r' = Some k' \<and> k < k'"
proof -
  have "i \<in> set tied \<and> (j \<in> set tied \<longrightarrow> j \<noteq> i \<longrightarrow> heads ! i = Some r \<longrightarrow> heads ! j = Some r' \<longrightarrow>
      (\<exists>k k'. oo_order_key r = Some k \<and> oo_order_key r' = Some k' \<and> k < k'))"
  proof (cases "length tied = 1")
    case True
    with assms(1) show ?thesis
      by (cases tied) (auto simp: select_tied_def)
  next
    case False
    with assms(1) obtain m where m: "tie_keys amb heads [] tied = Inr m"
      "(case m of [] \<Rightarrow> None | kv # _ \<Rightarrow> Some (snd kv)) = Some i"
      by (auto simp: select_tied_def rbind_eq_Inr)
    then obtain k rest where k: "tie_keys amb heads [] tied = Inr ((k, i) # rest)"
      by (cases m) auto
    have nil: "bt_sorted ([] :: (u64, nat) btree)" by (simp add: bt_sorted_def)
    note tk = tie_keys_Inr [OF k nil assms(2)]
    have mem: "(a, b) \<in> set ((k, i) # rest) \<longleftrightarrow>
        b \<in> set tied \<and> (\<exists>r. heads ! b = Some r \<and> oo_order_key r = Some a)" for a b
      using tk(2) [of a b] by simp
    from mem [of k i] have i: "i \<in> set tied" "\<exists>r. heads ! i = Some r \<and> oo_order_key r = Some k" by simp_all
    have "\<exists>k k'. oo_order_key r = Some k \<and> oo_order_key r' = Some k' \<and> k < k'"
      if j: "j \<in> set tied" "j \<noteq> i" "heads ! i = Some r" "heads ! j = Some r'"
    proof -
      from tk(3) [OF j(1)] j obtain k' where k': "oo_order_key r' = Some k'" by auto
      with mem [of k' j] j have "(k', j) \<in> set rest" by auto
      with tk(1) have "k < k'" by (force simp: bt_sorted_def)
      with i j k' show ?thesis by auto
    qed
    with i show ?thesis by blast
  qed
  then show "i \<in> set tied" "j \<in> set tied \<Longrightarrow> j \<noteq> i \<Longrightarrow> heads ! i = Some r \<Longrightarrow> heads ! j = Some r' \<Longrightarrow>
      \<exists>k k'. oo_order_key r = Some k \<and> oo_order_key r' = Some k' \<and> k < k'" by blast+
qed

lemma select_tied_None:
  assumes "select_tied amb heads tied = Inr None" "distinct tied"
  shows "tied = []"
proof (rule ccontr)
  assume "tied \<noteq> []"
  then obtain i where i: "i \<in> set tied" by (cases tied) auto
  have nil: "bt_sorted ([] :: (u64, nat) btree)" by (simp add: bt_sorted_def)
  from assms(1) obtain m where m: "tie_keys amb heads [] tied = Inr m"
      "(case m of [] \<Rightarrow> None | kv # _ \<Rightarrow> Some (snd kv)) = None"
    by (auto simp: select_tied_def rbind_eq_Inr split: if_splits)
  then have "tie_keys amb heads [] tied = Inr []"
    by (cases m) auto
  note tk = tie_keys_Inr [OF this nil assms(2)]
  from tk(3) [OF i] tk(2) [of _ i] i show False
    by auto
qed

text \<open>A selected head is the unique earliest one: by timestamp, then by order key.\<close>

definition earliest :: "ordered_observation option list \<Rightarrow> nat \<Rightarrow> ordered_observation \<Rightarrow> bool" where
  "earliest heads i r \<longleftrightarrow> i < length heads \<and> heads ! i = Some r \<and>
     (\<forall>j < length heads. \<forall>r'. j \<noteq> i \<longrightarrow> heads ! j = Some r' \<longrightarrow>
        oo_ts r < oo_ts r' \<or>
        (oo_ts r = oo_ts r' \<and> (\<exists>k k'. oo_order_key r = Some k \<and> oo_order_key r' = Some k' \<and> k < k')))"

lemma select_head_cases:
  obtains (none) "head_timestamps (kw_heads kw) = []" "select_head describe kw = Inr None"
  | (tied) m where
      "select_head describe kw = select_tied (ambiguous describe kw m (tied_heads (kw_heads kw) m)) (kw_heads kw)
         (tied_heads (kw_heads kw) m)"
      "m \<in> set (head_timestamps (kw_heads kw))"
      "\<And>u. u \<in> set (head_timestamps (kw_heads kw)) \<Longrightarrow> m \<le> u"
proof (cases "head_timestamps (kw_heads kw)")
  case Nil
  with none show thesis by (simp add: select_head_def)
next
  case (Cons t ts)
  show thesis
  proof (rule tied [of "fold min ts t"])
    show "fold min ts t \<in> set (head_timestamps (kw_heads kw))"
      unfolding Cons by (rule fold_min(3))
    show "fold min ts t \<le> u" if "u \<in> set (head_timestamps (kw_heads kw))" for u
      using that fold_min(1,2) [of ts t] unfolding Cons by auto
  qed (simp add: select_head_def Cons Let_def)
qed

lemma head_timestamps_nth: "j < length heads \<Longrightarrow> heads ! j = Some r \<Longrightarrow> oo_ts r \<in> set (head_timestamps heads)"
  unfolding head_timestamps_iff by (metis nth_mem)

lemma select_head_Some:
  assumes "select_head describe kw = Inr (Some i)"
  shows "\<exists>r. earliest (kw_heads kw) i r"
proof (cases rule: select_head_cases [of kw describe])
  case (tied m)
  let ?h = "kw_heads kw" and ?T = "tied_heads (kw_heads kw) m"
  note st = select_tied_Some [OF assms [unfolded tied(1)] distinct_tied_heads]
  from st(1) obtain r where r: "i < length ?h" "?h ! i = Some r" "oo_ts r = m"
    by (auto simp: tied_heads_iff)
  have "oo_ts r < oo_ts r' \<or>
      (oo_ts r = oo_ts r' \<and> (\<exists>k k'. oo_order_key r = Some k \<and> oo_order_key r' = Some k' \<and> k < k'))"
    if j: "j < length ?h" "j \<noteq> i" "?h ! j = Some r'" for j r'
  proof (cases "oo_ts r' = m")
    case True
    with j have "j \<in> set ?T" by (simp add: tied_heads_iff)
    from st(2) [OF this j(2) r(2) j(3)] True r(3) show ?thesis by simp
  next
    case False
    with tied(3) [OF head_timestamps_nth [OF j(1,3)]] r(3) show ?thesis by simp
  qed
  with r show ?thesis unfolding earliest_def by blast
qed (use assms in simp)

lemma select_head_None:
  assumes "select_head describe kw = Inr None"
  shows "head_timestamps (kw_heads kw) = []"
proof (cases rule: select_head_cases [of kw describe])
  case (tied m)
  from select_tied_None [OF assms [unfolded tied(1)] distinct_tied_heads]
  have "tied_heads (kw_heads kw) m = []" .
  moreover obtain i where "i \<in> set (tied_heads (kw_heads kw) m)"
    using tied(2) by (auto simp: head_timestamps_iff tied_heads_iff in_set_conv_nth [of "Some _"])
  ultimately show ?thesis by simp
qed

lemma select_head_Inl:
  assumes "select_head describe kw = Inl e"
  obtains m where "e = Err (ambiguous describe kw m (tied_heads (kw_heads kw) m))"
proof (cases rule: select_head_cases [of kw describe])
  case (tied m)
  let ?T = "tied_heads (kw_heads kw) m"
  from assms tied(1) have "tie_keys (ambiguous describe kw m ?T) (kw_heads kw) [] ?T = Inl e"
    by (auto simp: select_tied_def rbind_def split: if_splits sum.splits)
  moreover have "\<forall>i\<in>set ?T. kw_heads kw ! i \<noteq> None"
    by (auto simp: tied_heads_iff)
  ultimately have "e = Err (ambiguous describe kw m ?T)"
    using tie_keys_no_panic by blast
  then show thesis by (rule that)
qed (use assms in simp)

lemma select_head_no_panic: "select_head describe kw \<noteq> Inl Panic"
  using select_head_Inl [of describe kw Panic] by blast

subsection \<open>The invariant of a merge\<close>

text \<open>
  Until an error is pending, the state of every source holds the timestamp of its head. A bound
  is a timestamp no head precedes.
\<close>

definition head_ok :: "ordered_observation option \<Rightarrow> merge_source_state \<Rightarrow> bool" where
  "head_ok head st \<longleftrightarrow> (case head of None \<Rightarrow> True | Some r \<Rightarrow> ms_last_timestamp st = Some (oo_ts r))"

definition head_ge :: "timestamp_ns \<Rightarrow> ordered_observation option \<Rightarrow> bool" where
  "head_ge t head \<longleftrightarrow> (case head of None \<Rightarrow> True | Some r \<Rightarrow> t \<le> oo_ts r)"

definition kw_inv :: "('s, 'e) k_way_merge \<Rightarrow> bool" where
  "kw_inv kw \<longleftrightarrow>
     length (kw_sources kw) = length (kw_heads kw) \<and> length (kw_states kw) = length (kw_heads kw) \<and>
     (kw_deferred_error kw = None \<longrightarrow> list_all2 head_ok (kw_heads kw) (kw_states kw))"

definition kw_bound :: "('s, 'e) k_way_merge \<Rightarrow> timestamp_ns \<Rightarrow> bool" where
  "kw_bound kw t \<longleftrightarrow> kw_deferred_error kw \<noteq> None \<or> (\<forall>h\<in>set (kw_heads kw). head_ge t h)"

lemma head_simps [simp]: "head_ok None st" "head_ge t None"
  "head_ok (Some r) st \<longleftrightarrow> ms_last_timestamp st = Some (oo_ts r)" "head_ge t (Some r) \<longleftrightarrow> t \<le> oo_ts r"
  by (simp_all add: head_ok_def head_ge_def)

lemma ball_list_update: "\<forall>x\<in>set xs. P x \<Longrightarrow> P y \<Longrightarrow> \<forall>x\<in>set (xs[i := y]). P x"
  using set_update_subset_insert [of xs i y] by blast

lemma list_all2_update_left: "list_all2 P xs ys \<Longrightarrow> P x (ys ! i) \<Longrightarrow> list_all2 P (xs[i := x]) ys"
  using list_all2_update_cong [of P xs ys x "ys ! i" i] by simp

lemma validate_source_record_Inr:
  assumes "validate_source_record d r st = (Inr u, st')"
  shows "ms_last_timestamp st' = Some (oo_ts r)"
    and "ms_last_timestamp st = Some t \<Longrightarrow> t \<le> oo_ts r"
  using assms
  by (auto simp: validate_source_record_def validate_order_key_def observe_record_def map_err_def not_less
      split: option.splits if_splits prod.splits sum.splits fail.splits)

lemma validate_source_record_no_panic: "fst (validate_source_record d r st) \<noteq> Inl Panic"
  using order_observe_not_Panic [of "oo_observation r" "ms_order st"]
  by (auto simp: validate_source_record_def validate_order_key_def observe_record_def map_err_def
      split: option.splits if_splits prod.splits sum.splits fail.splits)

lemma validate_source_record_ne_Panic [simp]: "validate_source_record d r st \<noteq> (Inl Panic, st')"
  using validate_source_record_no_panic [of d r st] by auto

lemma merge_advance_cases:
  fixes kw :: "('s, 'e) k_way_merge"
  assumes "merge_advance describe pull i result kw = (Inr out, kw')"
  obtains (failed) e s' where "pull (kw_sources kw ! i) = (Inl (Err e), s')" "out = Some result"
      "kw' = kw\<lparr>kw_sources := (kw_sources kw)[i := s'], kw_heads := (kw_heads kw)[i := None],
                kw_deferred_error := Some e\<rparr>"
  | (ended) s' where "pull (kw_sources kw ! i) = (Inr None, s')" "out = Some result"
      "kw' = kw\<lparr>kw_sources := (kw_sources kw)[i := s'], kw_heads := (kw_heads kw)[i := None]\<rparr>"
  | (rejected) r s' st e where "pull (kw_sources kw ! i) = (Inr (Some r), s')" "out = Some result"
      "kw' = kw\<lparr>kw_sources := (kw_sources kw)[i := s'], kw_heads := (kw_heads kw)[i := Some r],
                kw_states := (kw_states kw)[i := st], kw_deferred_error := Some (SourceMerge e)\<rparr>"
  | (read) r s' st where "pull (kw_sources kw ! i) = (Inr (Some r), s')" "out = Some result"
      "validate_source_record (describe s') r (kw_states kw ! i) = (Inr (), st)"
      "kw' = kw\<lparr>kw_sources := (kw_sources kw)[i := s'], kw_heads := (kw_heads kw)[i := Some r],
                kw_states := (kw_states kw)[i := st]\<rparr>"
proof (cases "pull (kw_sources kw ! i)")
  case (Pair r s')
  consider "r = Inl Panic" | e where "r = Inl (Err e)" | "r = Inr None" | x where "r = Inr (Some x)"
    by (metis fail.exhaust option.exhaust sum.exhaust)
  then show thesis
  proof cases
    case (4 x)
    show thesis
    proof (cases "validate_source_record (describe s') x (kw_states kw ! i)")
      case v: (Pair c st)
      consider "c = Inl Panic" | e where "c = Inl (Err e)" | "c = Inr ()"
        by (metis (full_types) fail.exhaust sum.exhaust old.unit.exhaust)
      then show thesis
        using assms Pair 4 v rejected read by cases (auto simp: merge_advance_def)
    qed
  qed (use assms Pair failed ended in \<open>auto simp: merge_advance_def\<close>)
qed

lemma merge_next_cases:
  fixes kw :: "('s, 'e) k_way_merge"
  assumes "merge_next describe pull kw = (Inr out, kw')"
  obtains (ended) "kw_deferred_error kw = None" "out = None" "kw' = kw" "head_timestamps (kw_heads kw) = []"
  | (taken) i result where "kw_deferred_error kw = None" "earliest (kw_heads kw) i result"
      "out = Some result" "merge_advance describe pull i result kw = (Inr out, kw')"
proof (cases "kw_deferred_error kw")
  case None
  note dn = this
  show thesis
  proof (cases "select_head describe kw")
    case (Inl e)
    with assms None show thesis by (cases e) (auto simp: merge_next_def map_err_def)
  next
    case (Inr x)
    show thesis
    proof (cases x)
      case None
      with assms dn Inr have "out = None" "kw' = kw" by (simp_all add: merge_next_def)
      moreover have "head_timestamps (kw_heads kw) = []"
        using Inr None by (simp add: select_head_None)
      ultimately show thesis using ended dn by blast
    next
      case (Some i)
      with Inr obtain r where r: "earliest (kw_heads kw) i r" using select_head_Some by blast
      with assms dn Inr Some have ma: "merge_advance describe pull i r kw = (Inr out, kw')"
        by (auto simp: merge_next_def earliest_def)
      then have "out = Some r" by (auto elim: merge_advance_cases)
      from taken [OF dn r this ma] show thesis .
    qed
  qed
qed (use assms in \<open>simp add: merge_next_def\<close>)

lemma merge_next_kw:
  assumes inv: "kw_inv kw" and next': "merge_next describe pull kw = (Inr (Some r), kw')"
  shows "kw_inv kw'" "kw_bound kw' (oo_ts r)" "kw_bound kw t \<Longrightarrow> t \<le> oo_ts r"
proof -
  have "kw_inv kw' \<and> kw_bound kw' (oo_ts r) \<and> (kw_bound kw t \<longrightarrow> t \<le> oo_ts r)"
    using next'
  proof (cases rule: merge_next_cases)
    case (taken i result)
    from taken(3) have r: "result = r" by simp
    have i: "i < length (kw_heads kw)" "kw_heads kw ! i = Some r"
      using taken(2) r by (simp_all add: earliest_def)
    then have mem: "Some r \<in> set (kw_heads kw)" by (metis nth_mem)
    have t: "kw_bound kw t \<longrightarrow> t \<le> oo_ts r"
      using taken(1) mem by (auto simp: kw_bound_def)
    have ge: "\<forall>h\<in>set (kw_heads kw). head_ge (oo_ts r) h"
    proof
      fix h assume "h \<in> set (kw_heads kw)"
      then obtain j where j: "j < length (kw_heads kw)" "kw_heads kw ! j = h"
        by (auto simp: in_set_conv_nth)
      with taken(2) r i show "head_ge (oo_ts r) h"
        by (cases "j = i"; cases h) (force simp: earliest_def)+
    qed
    have all2: "list_all2 head_ok (kw_heads kw) (kw_states kw)"
      and len: "length (kw_sources kw) = length (kw_heads kw)" "length (kw_states kw) = length (kw_heads kw)"
      using inv taken(1) by (simp_all add: kw_inv_def)
    from taken(4) show ?thesis
    proof (cases rule: merge_advance_cases)
      case (ended s')
      then show ?thesis
        using len t list_all2_update_left [OF all2, of None i] ball_list_update [OF ge, of None i]
        by (simp add: kw_inv_def kw_bound_def)
    next
      case (read x s' st)
      have "ms_last_timestamp (kw_states kw ! i) = Some (oo_ts r)"
        using list_all2_nthD [OF all2 i(1)] i(2) by simp
      then have "oo_ts r \<le> oo_ts x" using validate_source_record_Inr(2) [OF read(3)] by simp
      moreover have "head_ok (Some x) st" using validate_source_record_Inr(1) [OF read(3)] by simp
      ultimately show ?thesis
        using read(4) len t list_all2_update_cong [OF all2, of "Some x" st i]
          ball_list_update [OF ge, of "Some x" i]
        by (simp add: kw_inv_def kw_bound_def)
    qed (use len t in \<open>simp_all add: kw_inv_def kw_bound_def\<close>)
  qed simp
  then show "kw_inv kw'" "kw_bound kw' (oo_ts r)" "kw_bound kw t \<Longrightarrow> t \<le> oo_ts r" by blast+
qed

lemma merge_drain_bound:
  "kw_inv kw \<Longrightarrow> kw_bound kw t \<Longrightarrow> r \<in> set (drain (merge_next describe pull) n kw) \<Longrightarrow> t \<le> oo_ts r"
proof (induction n arbitrary: kw t)
  case (Suc n)
  show ?case
  proof (cases rule: drain_Suc_cases [of "merge_next describe pull" n kw])
    case (item x kw')
    note st = merge_next_kw [OF Suc.prems(1) item(1)]
    from Suc.prems(3) consider "r = x" | "r \<in> set (drain (merge_next describe pull) n kw')"
      unfolding item(2) by auto
    then show ?thesis
      using st Suc.IH [OF st(1,2)] Suc.prems(2) by cases (auto intro: order_trans)
  qed (use Suc.prems in simp)
qed simp

lemma merge_drain_sorted:
  "kw_inv kw \<Longrightarrow> sorted (map oo_ts (drain (merge_next describe pull) n kw))"
proof (induction n arbitrary: kw)
  case (Suc n)
  show ?case
  proof (cases rule: drain_Suc_cases [of "merge_next describe pull" n kw])
    case (item x kw')
    note st = merge_next_kw [OF Suc.prems item(1)]
    from Suc.IH [OF st(1)] merge_drain_bound [OF st(1,2)] show ?thesis unfolding item(2) by auto
  qed simp
qed simp

lemma init_heads_inv:
  "init_heads describe pull ss = Inr parts \<Longrightarrow> length parts = length ss \<and>
    (\<forall>p\<in>set parts. head_ok (fst (snd p)) (snd (snd p)))"
proof (induction ss arbitrary: parts)
  case (Cons s ss)
  from Cons.prems obtain head s' st rest where p: "pull s = (Inr head, s')"
    "validate_head (describe s') head = (Inr (), st)" "init_heads describe pull ss = Inr rest"
    "parts = (s', head, st) # rest"
    by (auto simp: rbind_eq_Inr split: prod.splits sum.splits)
  moreover have "head_ok head st"
    using p(2) by (cases head) (auto simp: validate_head_def dest: validate_source_record_Inr)
  ultimately show ?case using Cons.IH [OF p(3)] by simp
qed simp

lemma merge_new_inv: "merge_new describe pull ss = Inr kw \<Longrightarrow> kw_inv kw"
proof -
  assume "merge_new describe pull ss = Inr kw"
  then obtain parts where "init_heads describe pull ss = Inr parts"
    "kw_sources kw = map fst parts" "kw_heads kw = map (\<lambda>p. fst (snd p)) parts"
    "kw_states kw = map (\<lambda>p. snd (snd p)) parts"
    by (auto simp: merge_new_def Let_def rthen_eq_Inr rbind_eq_Inr)
  with init_heads_inv [of describe pull ss parts] show "kw_inv kw"
    by (simp add: kw_inv_def list_all2_conv_all_nth)
qed

subsection \<open>Merging finite sources\<close>

definition merge_left :: "('s \<Rightarrow> nat) \<Rightarrow> ('s, 'e) k_way_merge \<Rightarrow> nat" where
  "merge_left left kw =
     length (filter (\<lambda>h. h \<noteq> None) (kw_heads kw)) + sum_list (map left (kw_sources kw))"

definition merge_ok :: "('s \<Rightarrow> bool) \<Rightarrow> ('s, 'e) k_way_merge \<Rightarrow> bool" where
  "merge_ok ok kw \<longleftrightarrow>
     length (kw_sources kw) = length (kw_heads kw) \<and> length (kw_states kw) = length (kw_heads kw) \<and>
     (\<forall>s\<in>set (kw_sources kw). ok s)"

text \<open>What every source still holds: its head and the records behind it.\<close>

definition remaining :: "('s, 'e source_error) source_next \<Rightarrow> ('s \<Rightarrow> nat) \<Rightarrow> ('s, 'e) k_way_merge
    \<Rightarrow> ordered_observation list list" where
  "remaining pull left kw =
     map2 (\<lambda>head s. case head of None \<Rightarrow> [] | Some r \<Rightarrow> r # drain pull (left s) s)
       (kw_heads kw) (kw_sources kw)"

inductive interleaving :: "'a list \<Rightarrow> 'a list list \<Rightarrow> bool" where
  interleaving_Nil: "\<forall>l\<in>set ls. l = [] \<Longrightarrow> interleaving [] ls"
| interleaving_Cons: "i < length ls \<Longrightarrow> ls ! i = x # t \<Longrightarrow> interleaving xs (ls[i := t])
    \<Longrightarrow> interleaving (x # xs) ls"

lemma sum_list_update_le: "(x :: nat) \<le> xs ! i \<Longrightarrow> sum_list (xs[i := x]) \<le> sum_list xs"
  by (induction xs arbitrary: i) (auto split: nat.split)

lemma sum_list_update_less: "i < length xs \<Longrightarrow> (x :: nat) < xs ! i \<Longrightarrow> sum_list (xs[i := x]) < sum_list xs"
  by (induction xs arbitrary: i) (auto split: nat.split)

lemma length_filter_update:
  "i < length xs \<Longrightarrow> P (xs ! i) \<Longrightarrow>
     length (filter P (xs[i := y])) + (if P y then 0 else 1) = length (filter P xs)"
proof (induction xs arbitrary: i)
  case (Cons x xs)
  then show ?case by (cases i) auto
qed simp

locale merged_source = finite_source pull left ok
  for pull :: "('s, 'e source_error) source_next" and left :: "'s \<Rightarrow> nat" and ok :: "'s \<Rightarrow> bool" +
  fixes describe :: "'s \<Rightarrow> source_descriptor"
begin

lemma merge_ok_update:
  "merge_ok ok kw \<Longrightarrow> ok s' \<Longrightarrow>
     merge_ok ok (kw\<lparr>kw_sources := (kw_sources kw)[i := s'], kw_heads := (kw_heads kw)[i := h],
       kw_states := (kw_states kw)[i := st], kw_deferred_error := e\<rparr>)"
  using ball_list_update [of "kw_sources kw" ok s' i] by (simp add: merge_ok_def)

lemma merge_ok_deferred: "merge_ok ok (kw\<lparr>kw_deferred_error := e\<rparr>) = merge_ok ok kw"
  by (simp add: merge_ok_def)

lemma merge_next_ok:
  assumes "merge_ok ok kw"
  shows "merge_ok ok (snd (merge_next describe pull kw))" "fst (merge_next describe pull kw) \<noteq> Inl Panic"
proof -
  have "merge_ok ok (snd (merge_next describe pull kw)) \<and> fst (merge_next describe pull kw) \<noteq> Inl Panic"
  proof (cases "kw_deferred_error kw")
    case (Some e)
    with assms show ?thesis by (simp add: merge_next_def merge_ok_deferred)
  next
    case dn: None
    show ?thesis
    proof (cases "select_head describe kw")
      case (Inl e)
      with select_head_no_panic [of describe kw] assms dn show ?thesis
        by (cases e) (auto simp: merge_next_def map_err_def)
    next
      case (Inr x)
      show ?thesis
      proof (cases x)
        case None
        with assms dn Inr show ?thesis by (simp add: merge_next_def)
      next
        case (Some i)
        with Inr obtain r where r: "i < length (kw_heads kw)" "kw_heads kw ! i = Some r"
          using select_head_Some by (fastforce simp: earliest_def)
        have ok: "ok (kw_sources kw ! i)" using assms r by (simp add: merge_ok_def)
        obtain y s' where y: "pull (kw_sources kw ! i) = (y, s')" by fastforce
        have s': "ok s'" "y \<noteq> Inl Panic" using ok_pull [OF ok] pull_no_panic [OF ok] y by simp_all
        have nx: "merge_next describe pull kw = merge_advance describe pull i r kw"
          using dn Inr Some r by (simp add: merge_next_def)
        have up: "merge_ok ok (kw\<lparr>kw_sources := (kw_sources kw)[i := s'], kw_heads := (kw_heads kw)[i := h],
            kw_states := (kw_states kw)[i := st], kw_deferred_error := e\<rparr>)" for h st e
          by (rule merge_ok_update [OF assms s'(1)])
        show ?thesis
          using y s' dn up [of None "kw_states kw ! i"] up
          by (auto simp: nx merge_advance_def merge_ok_def
              split: sum.splits fail.splits option.splits prod.splits)
      qed
    qed
  qed
  then show "merge_ok ok (snd (merge_next describe pull kw))" "fst (merge_next describe pull kw) \<noteq> Inl Panic"
    by blast+
qed

lemma merge_next_left:
  assumes "merge_ok ok kw" "merge_next describe pull kw = (Inr (Some r), kw')"
  shows "merge_left left kw' < merge_left left kw"
  using assms(2)
proof (cases rule: merge_next_cases)
  case (taken i result)
  let ?h = "kw_heads kw" and ?s = "kw_sources kw"
  have i: "i < length ?h" "?h ! i \<noteq> None" "i < length ?s" "ok (?s ! i)"
    using taken(2) assms(1) by (auto simp: earliest_def merge_ok_def)
  note fl = length_filter_update [OF i(1), of "\<lambda>h. h \<noteq> None", OF i(2)]
  from taken(4) show ?thesis
  proof (cases rule: merge_advance_cases)
    case (failed e s')
    with left_mono [OF i(4)] have "left s' \<le> map left ?s ! i" using i(3) by simp
    from sum_list_update_le [OF this] fl [of None] failed(3) show ?thesis
      by (simp add: merge_left_def map_update)
  next
    case (ended s')
    with left_mono [OF i(4)] have "left s' \<le> map left ?s ! i" using i(3) by simp
    from sum_list_update_le [OF this] fl [of None] ended(3) show ?thesis
      by (simp add: merge_left_def map_update)
  next
    case (rejected x s' st e)
    with left_pull [OF i(4)] have "left s' < map left ?s ! i" using i(3) by simp
    from sum_list_update_less [OF _ this] fl [of "Some x"] rejected(3) i(3) show ?thesis
      by (simp add: merge_left_def map_update)
  next
    case (read x s' st)
    with left_pull [OF i(4)] have "left s' < map left ?s ! i" using i(3) by simp
    from sum_list_update_less [OF _ this] fl [of "Some x"] read(4) i(3) show ?thesis
      by (simp add: merge_left_def map_update)
  qed
qed simp

lemma merge_next_left_mono:
  assumes "merge_ok ok kw"
  shows "merge_left left (snd (merge_next describe pull kw)) \<le> merge_left left kw"
proof (cases "merge_next describe pull kw")
  case (Pair y kw')
  show ?thesis
  proof (cases y)
    case (Inr out)
    show ?thesis
    proof (cases out)
      case None
      with Pair Inr have "merge_next describe pull kw = (Inr None, kw')" by simp
      then show ?thesis
        by (cases rule: merge_next_cases) (auto simp: Pair)
    next
      case (Some r)
      with merge_next_left [OF assms] Pair Inr show ?thesis by (simp add: less_imp_le)
    qed
  next
    case (Inl e)
    with Pair merge_next_ok(2) [OF assms] have e: "e \<noteq> Panic" by auto
    show ?thesis
    proof (cases "kw_deferred_error kw")
      case None
      have "kw' = kw" if "merge_next describe pull kw = (Inl e, kw')"
        using that None e
        by (auto simp: merge_next_def merge_advance_def
            split: sum.splits option.splits prod.splits fail.splits)
      with Pair Inl show ?thesis by simp
    qed (use Pair in \<open>auto simp: merge_next_def merge_left_def\<close>)
  qed
qed

end

sublocale merged_source \<subseteq> merged: finite_source "merge_next describe pull" "merge_left left" "merge_ok ok"
  by unfold_locales (auto simp: merge_next_left merge_next_left_mono merge_next_ok)

lemma map2_update:
  "length xs = length ys \<Longrightarrow> i < length xs \<Longrightarrow> map2 f (xs[i := x]) (ys[i := y]) = (map2 f xs ys)[i := f x y]"
  by (simp add: zip_update map_update)

context merged_source
begin

lemma merge_next_remaining:
  assumes ok: "merge_ok ok kw" and next': "merge_next describe pull kw = (Inr (Some r), kw')"
    and clean: "kw_deferred_error kw' = None"
  obtains i t where "i < length (remaining pull left kw)" "remaining pull left kw ! i = r # t"
    "remaining pull left kw' = (remaining pull left kw)[i := t]"
  using next'
proof (cases rule: merge_next_cases)
  case (taken i result)
  let ?h = "kw_heads kw" and ?s = "kw_sources kw"
  from taken(3) have r: "result = r" by simp
  have i: "i < length ?h" "?h ! i = Some r" "i < length ?s" "ok (?s ! i)" and len: "length ?h = length ?s"
    using taken(2) r ok by (auto simp: earliest_def merge_ok_def)
  have il: "i < length (remaining pull left kw)" using i by (simp add: remaining_def)
  have ri: "remaining pull left kw ! i = r # drain pull (left (?s ! i)) (?s ! i)"
    using i by (simp add: remaining_def)
  from taken(4) show thesis
  proof (cases rule: merge_advance_cases)
    case (ended s')
    have "drain pull (left (?s ! i)) (?s ! i) = []" by (rule drain_None) (simp add: ended(1))
    moreover have "remaining pull left kw' = (remaining pull left kw)[i := []]"
      using ended(3) i(1) by (simp add: remaining_def map2_update [OF len])
    ultimately show thesis using that [OF il ri] by simp
  next
    case (read x s' st)
    have "remaining pull left kw' = (remaining pull left kw)[i := x # drain pull (left s') s']"
      using read(4) i(1) by (simp add: remaining_def map2_update [OF len])
    with drain_Some [OF i(4) read(1)] that [OF il ri] show thesis by simp
  qed (use clean in simp_all)
qed simp

lemma merge_content:
  assumes "merge_ok ok kw" "read_all (merge_next describe pull) n kw = Some (Inr rs)"
  shows "interleaving rs (remaining pull left kw)"
  using assms
proof (induction n arbitrary: kw rs)
  case (Suc n)
  obtain y kw' where y: "merge_next describe pull kw = (y, kw')" by fastforce
  with Suc.prems(2) consider "y = Inr None" "rs = []"
    | r rs' where "y = Inr (Some r)" "rs = r # rs'" "read_all (merge_next describe pull) n kw' = Some (Inr rs')"
    by (auto simp: rbind_eq_Inr split: sum.splits option.splits)
  then show ?case
  proof cases
    case 1
    with y have "merge_next describe pull kw = (Inr None, kw')" by simp
    then have "head_timestamps (kw_heads kw) = []"
      by (cases rule: merge_next_cases) (auto elim: merge_advance_cases)
    then have none: "\<forall>h\<in>set (kw_heads kw). h = None" by (simp add: head_timestamps_Nil)
    have "h = None" if "(h, s) \<in> set (zip (kw_heads kw) (kw_sources kw))" for h s
      using none set_zip_leftD [OF that] by blast
    then have "\<forall>l\<in>set (remaining pull left kw). l = []"
      by (force simp: remaining_def)
    with 1 show ?thesis by (simp add: interleaving_Nil)
  next
    case 2
    have "kw_deferred_error kw' = None"
    proof (rule ccontr)
      assume "kw_deferred_error kw' \<noteq> None"
      then obtain e where "merge_next describe pull kw' = (Inl (Err e), kw'\<lparr>kw_deferred_error := None\<rparr>)"
        by (auto simp: merge_next_def)
      with 2(3) show False by (cases n) auto
    qed
    with merge_next_remaining [OF Suc.prems(1)] y 2 obtain i t where
      it: "i < length (remaining pull left kw)" "remaining pull left kw ! i = r # t"
        "remaining pull left kw' = (remaining pull left kw)[i := t]" by metis
    have "merge_ok ok kw'" using merge_next_ok(1) [OF Suc.prems(1)] y by simp
    from Suc.IH [OF this 2(3)] it show ?thesis unfolding 2(2) by (auto intro: interleaving_Cons)
  qed
qed simp

lemma init_heads_remaining:
  "\<forall>s\<in>set ss. ok s \<Longrightarrow> init_heads describe pull ss = Inr parts \<Longrightarrow>
     map (\<lambda>p. case fst (snd p) of None \<Rightarrow> [] | Some r \<Rightarrow> r # drain pull (left (fst p)) (fst p)) parts
       = map (\<lambda>s. drain pull (left s) s) ss \<and> (\<forall>p\<in>set parts. ok (fst p))"
proof (induction ss arbitrary: parts)
  case (Cons s ss)
  from Cons.prems(2) obtain head s' st rest where p: "pull s = (Inr head, s')"
    "validate_head (describe s') head = (Inr (), st)" "init_heads describe pull ss = Inr rest"
    "parts = (s', head, st) # rest"
    by (auto simp: rbind_eq_Inr split: prod.splits sum.splits)
  have "(case head of None \<Rightarrow> [] | Some r \<Rightarrow> r # drain pull (left s') s') = drain pull (left s) s"
    using Cons.prems(1) p(1) drain_Some [of s _ s'] drain_None [of s "left s"] by (auto split: option.splits)
  moreover have "ok s'" using ok_pull [of s] Cons.prems(1) p(1) by simp
  ultimately show ?case using Cons.IH [OF _ p(3)] Cons.prems(1) p(4) by (cases head) simp_all
qed simp

lemma merge_new_remaining:
  assumes "\<forall>s\<in>set ss. ok s" "merge_new describe pull ss = Inr kw"
  shows "remaining pull left kw = map (\<lambda>s. drain pull (left s) s) ss" "merge_ok ok kw"
proof -
  from assms(2) obtain parts where p: "init_heads describe pull ss = Inr parts"
    "kw_sources kw = map fst parts" "kw_heads kw = map (\<lambda>p. fst (snd p)) parts"
    "kw_states kw = map (\<lambda>p. snd (snd p)) parts"
    by (auto simp: merge_new_def Let_def rthen_eq_Inr rbind_eq_Inr)
  note ir = init_heads_remaining [OF assms(1) p(1)]
  show "remaining pull left kw = map (\<lambda>s. drain pull (left s) s) ss"
    unfolding ir [THEN conjunct1, symmetric] remaining_def p
    by (simp add: zip_map_map zip_same_conv_map)
  show "merge_ok ok kw" using ir p by (simp add: merge_ok_def)
qed

lemma merge_read_ends:
  "merge_ok ok kw \<Longrightarrow> \<exists>res. read_all (merge_next describe pull) (Suc (merge_left left kw)) kw = Some res
     \<and> res \<noteq> Inl Panic"
  using merged.read_all_enough [of kw "Suc (merge_left left kw)"] merged.read_all_no_panic [of kw]
  by (auto simp del: read_all.simps)

end

subsection \<open>Properties\<close>

text \<open>Scripted sources for the witnesses: a descriptor and the records still to come.\<close>

type_synonym script = "source_descriptor \<times> ordered_observation list"

fun script_pull :: "(script, unit source_error) source_next" where
  "script_pull (d, []) = (Inr None, (d, []))"
| "script_pull (d, r # rs) = (Inr (Some r), (d, rs))"

definition demo_record :: "string \<Rightarrow> u64 \<Rightarrow> u64 \<Rightarrow> u64 \<Rightarrow> ordered_observation" where
  "demo_record i seq t k = ordered_by (new_observation i seq QExact (TraceGap (I64 t) 1 ''gap'')) k"

definition demo_sources :: "script list" where
  "demo_sources =
     [(\<lparr>sd_source_id = ''a'', sd_clock_domain = ''core''\<rparr>, [demo_record ''a'' 1 10 2, demo_record ''a'' 2 30 0]),
      (\<lparr>sd_source_id = ''b'', sd_clock_domain = ''core''\<rparr>, [demo_record ''b'' 7 10 1, demo_record ''b'' 9 20 0])]"

lemma script_finite: "finite_source script_pull (\<lambda>s. length (snd s)) (\<lambda>_. True)"
proof
  fix s :: script
  show "length (snd (snd (script_pull s))) \<le> length (snd s)" by (cases s rule: script_pull.cases) auto
  show "fst (script_pull s) \<noteq> Inl Panic" by (cases s rule: script_pull.cases) auto
  fix r s'
  assume "script_pull s = (Inr (Some r), s')"
  then show "length (snd s') < length (snd s)" by (cases s rule: script_pull.cases) auto
qed simp

lemma demo_merge_simps:
  "oo_ts (demo_record i s t k) = I64 t" "oo_order_key (demo_record i s t k) = Some k"
  "obs_source_id (oo_observation (demo_record i s t k)) = i"
  "obs_source_seq (oo_observation (demo_record i s t k)) = s"
  "ts_ns (oo_observation (demo_record i s t k)) = I64 t"
  by (simp_all add: demo_record_def ordered_by_def new_observation_def oo_ts_def ts_ns_def)

lemma demo_merge:
  "case merge_new fst script_pull demo_sources of
     Inl _ \<Rightarrow> False
   | Inr kw \<Rightarrow> read_all (merge_next fst script_pull) 5 kw =
       Some (Inr [demo_record ''b'' 7 10 1, demo_record ''a'' 1 10 2, demo_record ''b'' 9 20 0, demo_record ''a'' 2 30 0])"
  by code_simp

lemma demo_merge_new: "\<exists>kw. merge_new fst script_pull demo_sources = Inr kw"
  using demo_merge by (auto split: sum.splits)

text \<open>C6: A merge never steps back in time: for any sources that share a clock domain, however they
  behave, the records handed out up to the first error are in timestamp order.\<close>
theorem merge_sorted:
  assumes "merge_new describe pull ss = Inr kw"
  shows "sorted (map oo_ts (drain (merge_next describe pull) n kw))"
  by (rule merge_drain_sorted) (rule merge_new_inv [OF assms])

theorem merge_sorted_witness:
  "\<exists>kw. merge_new fst script_pull demo_sources = Inr kw \<and>
     sorted (map oo_ts (drain (merge_next fst script_pull) 5 kw))"
  using demo_merge_new merge_sorted by blast

text \<open>C7: A merge loses, adds and reorders nothing: when it ends cleanly, what it returned is an
  interleaving of exactly the records its sources hold, each source in its own order.\<close>
theorem merge_complete:
  assumes "finite_source pull left ok" and "\<forall>s\<in>set ss. ok s"
    and "merge_new describe pull ss = Inr kw"
    and "read_all (merge_next describe pull) n kw = Some (Inr rs)"
  shows "interleaving rs (map (\<lambda>s. drain pull (left s) s) ss)"
proof -
  have ms: "merged_source pull left ok" using assms(1) by (rule merged_source.intro)
  note new = merged_source.merge_new_remaining [OF ms assms(2,3)]
  from merged_source.merge_content [OF ms new(2) assms(4)] show ?thesis unfolding new(1) .
qed

theorem merge_complete_witness:
  "interleaving [demo_record ''b'' 7 10 1, demo_record ''a'' 1 10 2, demo_record ''b'' 9 20 0, demo_record ''a'' 2 30 0]
     (map (\<lambda>s. drain script_pull (length (snd s)) s) demo_sources)"
proof -
  from demo_merge_new obtain kw where kw: "merge_new fst script_pull demo_sources = Inr kw" ..
  with demo_merge have "read_all (merge_next fst script_pull) 5 kw =
      Some (Inr [demo_record ''b'' 7 10 1, demo_record ''a'' 1 10 2, demo_record ''b'' 9 20 0, demo_record ''a'' 2 30 0])"
    by simp
  from merge_complete [OF script_finite _ kw this] show ?thesis by simp
qed

text \<open>C8: The next record is the unique earliest head: every other head has a later timestamp, or
  the same timestamp and a larger explicit order key. So what the merge returns never depends on
  the order the sources were listed in; without such keys it refuses to choose.\<close>
theorem merge_takes_earliest:
  assumes "merge_next describe pull kw = (Inr (Some r), kw')"
  shows "\<exists>i < length (kw_heads kw). kw_heads kw ! i = Some r \<and>
    (\<forall>j < length (kw_heads kw). \<forall>r'. j \<noteq> i \<longrightarrow> kw_heads kw ! j = Some r' \<longrightarrow>
       oo_ts r < oo_ts r' \<or>
       (oo_ts r = oo_ts r' \<and> (\<exists>k k'. oo_order_key r = Some k \<and> oo_order_key r' = Some k' \<and> k < k')))"
  using assms by (cases rule: merge_next_cases) (auto simp: earliest_def)

theorem merge_takes_earliest_witness:
  "\<exists>kw r kw'. merge_next fst script_pull kw = (Inr (Some r), kw') \<and>
     (\<exists>i < length (kw_heads kw). kw_heads kw ! i = Some r)"
proof -
  from demo_merge_new obtain kw where kw: "merge_new fst script_pull demo_sources = Inr kw" ..
  with demo_merge obtain rs where "read_all (merge_next fst script_pull) 5 kw = Some (Inr rs)" "rs \<noteq> []"
    by auto
  from read_all_item [OF this] obtain r kw' where "merge_next fst script_pull kw = (Inr (Some r), kw')" by blast
  with merge_takes_earliest [OF this] show ?thesis by blast
qed

text \<open>C9: Merging finite sources comes to an end and never panics: reading as many records as the
  heads and the sources hold is enough to meet the clean end or an error.\<close>
theorem merge_terminates:
  assumes "finite_source pull left ok" and "\<forall>s\<in>set ss. ok s"
    and "merge_new describe pull ss = Inr kw"
  shows "\<exists>res. read_all (merge_next describe pull) (Suc (merge_left left kw)) kw = Some res \<and> res \<noteq> Inl Panic"
proof -
  have ms: "merged_source pull left ok" using assms(1) by (rule merged_source.intro)
  note ok = merged_source.merge_new_remaining(2) [OF ms assms(2,3)]
  show ?thesis by (rule merged_source.merge_read_ends [OF ms ok])
qed

theorem merge_terminates_witness:
  "\<exists>kw res. merge_new fst script_pull demo_sources = Inr kw \<and>
     read_all (merge_next fst script_pull) (Suc (merge_left (\<lambda>s. length (snd s)) kw)) kw = Some res"
  using demo_merge_new merge_terminates [OF script_finite] by blast

end
