(* ===== verification/Monotone_Stream.thy ===== *)
theory Monotone_Stream
  imports Prelude
begin

text \<open>
  The contract of every producer of timestamps: a stateful step turns an input into a result,
  and the timestamps it emits never move backward. A producer gives a lower bound that its
  state guarantees for everything it will still emit.
\<close>

fun emitted :: "('a \<Rightarrow> 's \<Rightarrow> ('e, 'b) res \<times> 's) \<Rightarrow> 's \<Rightarrow> 'a list \<Rightarrow> 'b list" where
  "emitted step s [] = []"
| "emitted step s (a # as) =
     (case step a s of
        (Inr b, s') \<Rightarrow> b # emitted step s' as
      | (Inl _, s') \<Rightarrow> emitted step s' as)"

fun outcomes :: "('a \<Rightarrow> 's \<Rightarrow> ('e, 'b) res \<times> 's) \<Rightarrow> 's \<Rightarrow> 'a list \<Rightarrow> ('e, 'b) res list" where
  "outcomes step s [] = []"
| "outcomes step s (a # as) = fst (step a s) # outcomes step (snd (step a s)) as"

locale monotone_stream =
  fixes step :: "'a \<Rightarrow> 's \<Rightarrow> ('e, 'b) res \<times> 's"
    and time :: "'b \<Rightarrow> 't::linorder"
    and wf :: "'s \<Rightarrow> bool"
    and bound :: "'s \<Rightarrow> 't \<Rightarrow> bool"
  assumes wf_step: "wf s \<Longrightarrow> wf (snd (step a s))"
    and bound_step: "wf s \<Longrightarrow> bound s t \<Longrightarrow> bound (snd (step a s)) t"
    and bound_emit: "wf s \<Longrightarrow> step a s = (Inr b, s') \<Longrightarrow> bound s' (time b)"
    and emit_bound: "wf s \<Longrightarrow> step a s = (Inr b, s') \<Longrightarrow> bound s t \<Longrightarrow> t \<le> time b"
begin

lemma emitted_bound: "wf s \<Longrightarrow> bound s t \<Longrightarrow> b \<in> set (emitted step s as) \<Longrightarrow> t \<le> time b"
proof (induction as arbitrary: s)
  case Nil
  then show ?case by simp
next
  case (Cons a as)
  obtain r s' where st: "step a s = (r, s')" by fastforce
  with Cons.prems wf_step [of s a] bound_step [of s t a] have s': "wf s'" "bound s' t" by auto
  show ?case
  proof (cases r)
    case (Inl e)
    with Cons st s' show ?thesis by auto
  next
    case (Inr c)
    with Cons.prems st emit_bound [of s a c s' t] Cons.IH [OF s'] show ?thesis by auto
  qed
qed

lemma emitted_sorted: "wf s \<Longrightarrow> sorted (map time (emitted step s as))"
proof (induction as arbitrary: s)
  case Nil
  then show ?case by simp
next
  case (Cons a as)
  obtain r s' where st: "step a s = (r, s')" by fastforce
  with Cons.prems wf_step [of s a] have s': "wf s'" by auto
  show ?case
  proof (cases r)
    case (Inl e)
    with Cons.IH [OF s'] st show ?thesis by simp
  next
    case (Inr c)
    with Cons.prems st have "bound s' (time c)" by (auto intro: bound_emit)
    with Inr Cons.IH [OF s'] st emitted_bound [OF s'] show ?thesis by auto
  qed
qed

end

end
