(* ===== verification/Clock.thy ===== *)
theory Clock
  imports Ordered_Map Monotone_Stream
begin

text \<open>
  Clock domains (\<open>t32perf-trace32/src/clock.rs\<close>): rational tick scales, the registry of
  domains, the expansion of a wrapping counter and the stateful normalizer of raw timestamps.
\<close>

datatype clock_error =
    InvalidScale
  | EmptyDomain
  | InvalidModulus
  | UnexpectedWrapLimit
  | MissingForwardLimit
  | InvalidForwardLimit u64 u64
  | RawTickOutsideModulus u64 u64
  | ForwardStepTooLarge u128 u64 u128 u64
  | RawTimestampOutOfOrder u128 u128
  | DomainMismatch string string
  | DuplicateDomain string
  | UnknownDomain string
  | Overflow

subsection \<open>Tick scales\<close>

record tick_scale =
  nanoseconds_numerator :: u64
  ticks_denominator :: u64

function gcd_u64 :: "u64 \<Rightarrow> u64 \<Rightarrow> u64" where
  "gcd_u64 left right = (if right = 0 then left else gcd_u64 right (left mod right))"
  by pat_completeness auto
termination
  by (relation "measure (\<lambda>(l, r). unat r)") (auto simp: unat_mod word_neq_0_conv unat_gt_0)

declare gcd_u64.simps [simp del]

definition tick_scale_new :: "u64 \<Rightarrow> u64 \<Rightarrow> (clock_error, tick_scale) res" where
  "tick_scale_new num den =
     (if num = 0 \<or> den = 0 then Inl (Err InvalidScale)
      else let divisor = gcd_u64 num den in
        rbind (div_or_panic num divisor) (\<lambda>n.
          rbind (div_or_panic den divisor) (\<lambda>d.
            Inr \<lparr>nanoseconds_numerator = n, ticks_denominator = d\<rparr>)))"

definition tick_scale_from_hz :: "u64 \<Rightarrow> (clock_error, tick_scale) res" where
  "tick_scale_from_hz hz = tick_scale_new 1000000000 hz"

definition ticks_to_ns :: "tick_scale \<Rightarrow> u128 \<Rightarrow> (clock_error, u128) res" where
  "ticks_to_ns sc ticks =
     (let num = ucast (nanoseconds_numerator sc) :: u128;
          den = ucast (ticks_denominator sc) :: u128
      in rbind (div_or_panic ticks den) (\<lambda>whole.
           rbind (mod_or_panic ticks den) (\<lambda>remainder.
             ok_or
               (case checked_mul whole num of
                  None \<Rightarrow> None
                | Some v \<Rightarrow>
                    (case checked_mul remainder num of
                       None \<Rightarrow> None
                     | Some fraction \<Rightarrow> checked_add v (fraction div den)))
               Overflow)))"

text \<open>\<open>i128\<close> values are integers, narrowed where the code narrows them.\<close>

definition i128_try_from :: "u128 \<Rightarrow> int option" where
  "i128_try_from v = (if uint v < 2 ^ 127 then Some (uint v) else None)"

definition i128_checked_add :: "int \<Rightarrow> int \<Rightarrow> int option" where
  "i128_checked_add a b = (if - (2 ^ 127) \<le> a + b \<and> a + b < 2 ^ 127 then Some (a + b) else None)"

definition scale_timestamp_ns :: "tick_scale \<Rightarrow> u128 \<Rightarrow> u128 \<Rightarrow> i64 \<Rightarrow> (clock_error, i64) res" where
  "scale_timestamp_ns sc ticks origin_ticks origin_ns =
     rbind (ticks_to_ns sc (abs_diff ticks origin_ticks)) (\<lambda>mag.
       rbind (ok_or (i128_try_from mag) Overflow) (\<lambda>mag.
         let delta = (if origin_ticks \<le> ticks then mag else - mag) in
         rbind (ok_or (i128_checked_add (ival origin_ns) delta) Overflow) (\<lambda>result.
           ok_or (i64_try_from result) Overflow)))"

subsection \<open>Domains\<close>

record clock_domain_spec =
  cd_id :: string
  cd_scale :: tick_scale
  cd_timestamp_modulus :: "u64 option"
  cd_max_forward_ticks :: "u64 option"

definition clock_domain_new :: "string \<Rightarrow> tick_scale \<Rightarrow> u64 option \<Rightarrow> u64 option
    \<Rightarrow> (clock_error, clock_domain_spec) res" where
  "clock_domain_new i sc modulus maximum =
     (if i = [] then Inl (Err EmptyDomain)
      else rthen
        (case (modulus, maximum) of
           (None, Some _) \<Rightarrow> Inl (Err UnexpectedWrapLimit)
         | (Some m, _) \<Rightarrow>
             if m < 2 then Inl (Err InvalidModulus)
             else (case maximum of
                     None \<Rightarrow> Inl (Err MissingForwardLimit)
                   | Some x \<Rightarrow> if m \<le> x then Inl (Err (InvalidForwardLimit m x)) else Inr ())
         | (None, None) \<Rightarrow> Inr ())
        (Inr \<lparr>cd_id = i, cd_scale = sc, cd_timestamp_modulus = modulus, cd_max_forward_ticks = maximum\<rparr>))"

type_synonym clock_registry = "(string, clock_domain_spec) btree"

definition registry_register :: "clock_domain_spec \<Rightarrow> clock_registry
    \<Rightarrow> (clock_error, unit) res \<times> clock_registry" where
  "registry_register d reg =
     (if bt_contains reg (cd_id d) then (Inl (Err (DuplicateDomain (cd_id d))), reg)
      else (Inr (), bt_insert (cd_id d) d reg))"

definition registry_get :: "clock_registry \<Rightarrow> string \<Rightarrow> (clock_error, clock_domain_spec) res" where
  "registry_get reg i = ok_or (bt_get reg i) (UnknownDomain i)"

definition registry_require_same :: "clock_registry \<Rightarrow> string \<Rightarrow> string
    \<Rightarrow> (clock_error, unit) res" where
  "registry_require_same reg left right =
     rbind (registry_get reg left) (\<lambda>_.
       rbind (registry_get reg right) (\<lambda>_.
         ensure (left = right) (DomainMismatch left right)))"

subsection \<open>Expanding a wrapping counter\<close>

record unwrapper =
  uw_modulus :: u64
  uw_max_forward_ticks :: u64
  uw_last_expanded :: "u128 option"

definition unwrapper_new :: "u64 \<Rightarrow> u64 \<Rightarrow> (clock_error, unwrapper) res" where
  "unwrapper_new modulus maximum =
     (if modulus < 2 then Inl (Err InvalidModulus)
      else if modulus \<le> maximum then Inl (Err (InvalidForwardLimit modulus maximum))
      else Inr \<lparr>uw_modulus = modulus, uw_max_forward_ticks = maximum, uw_last_expanded = None\<rparr>)"

text \<open>The candidate is the value congruent to \<open>raw\<close> in the current or in the next epoch.\<close>

definition unwrap_candidate :: "u128 \<Rightarrow> u128 \<Rightarrow> u64 \<Rightarrow> (clock_error, u128) res" where
  "unwrap_candidate previous modulus raw =
     rbind (div_or_panic previous modulus) (\<lambda>epochs.
       rbind (add_or_panic (epochs * modulus) (ucast raw)) (\<lambda>candidate.
         if candidate < previous then ok_or (checked_add candidate modulus) Overflow
         else Inr candidate))"

definition unwrapper_expand :: "u64 \<Rightarrow> unwrapper \<Rightarrow> (clock_error, u128) res \<times> unwrapper" where
  "unwrapper_expand raw uw =
     (if uw_modulus uw \<le> raw then (Inl (Err (RawTickOutsideModulus raw (uw_modulus uw))), uw)
      else (case uw_last_expanded uw of
        None \<Rightarrow> (Inr (ucast raw), uw\<lparr>uw_last_expanded := Some (ucast raw)\<rparr>)
      | Some previous \<Rightarrow>
          (case unwrap_candidate previous (ucast (uw_modulus uw)) raw of
             Inl e \<Rightarrow> (Inl e, uw)
           | Inr candidate \<Rightarrow>
               let delta = candidate - previous in
               if ucast (uw_max_forward_ticks uw) < delta
               then (Inl (Err (ForwardStepTooLarge previous raw delta (uw_max_forward_ticks uw))), uw)
               else (Inr candidate, uw\<lparr>uw_last_expanded := Some candidate\<rparr>))))"

subsection \<open>The normalizer\<close>

record normalizer =
  nz_domain :: clock_domain_spec
  nz_unwrapper :: "unwrapper option"
  nz_origin_ticks :: "u128 option"
  nz_origin_ns :: i64
  nz_last_unwrapped_ticks :: "u128 option"

definition normalizer_new :: "clock_domain_spec \<Rightarrow> u64 option \<Rightarrow> i64
    \<Rightarrow> (clock_error, normalizer) res" where
  "normalizer_new d origin_ticks origin_ns =
     rbind
       (case (cd_timestamp_modulus d, cd_max_forward_ticks d) of
          (Some m, Some x) \<Rightarrow> rbind (unwrapper_new m x) (\<lambda>uw. Inr (Some uw))
        | (Some _, None) \<Rightarrow> Inl (Err MissingForwardLimit)
        | (None, _) \<Rightarrow> Inr None)
       (\<lambda>uw. Inr \<lparr>nz_domain = d, nz_unwrapper = uw, nz_origin_ticks = map_option ucast origin_ticks,
                  nz_origin_ns = origin_ns, nz_last_unwrapped_ticks = None\<rparr>)"

definition normalizer_expand :: "u64 \<Rightarrow> normalizer \<Rightarrow> (clock_error, u128) res \<times> normalizer" where
  "normalizer_expand raw nz =
     (case nz_unwrapper nz of
        Some uw \<Rightarrow>
          (case unwrapper_expand raw uw of
             (r, uw') \<Rightarrow> (r, nz\<lparr>nz_unwrapper := Some uw'\<rparr>))
      | None \<Rightarrow>
          (let expanded = ucast raw in
           case nz_last_unwrapped_ticks nz of
             Some previous \<Rightarrow>
               if expanded < previous
               then (Inl (Err (RawTimestampOutOfOrder previous expanded)), nz)
               else (Inr expanded, nz\<lparr>nz_last_unwrapped_ticks := Some expanded\<rparr>)
           | None \<Rightarrow> (Inr expanded, nz\<lparr>nz_last_unwrapped_ticks := Some expanded\<rparr>)))"

definition normalizer_normalize :: "u64 \<Rightarrow> normalizer \<Rightarrow> (clock_error, i64) res \<times> normalizer" where
  "normalizer_normalize raw nz =
     (case normalizer_expand raw nz of
        (Inl e, nz') \<Rightarrow> (Inl e, nz')
      | (Inr expanded, nz') \<Rightarrow>
          (let origin = (case nz_origin_ticks nz' of None \<Rightarrow> expanded | Some x \<Rightarrow> x);
               nz'' = nz'\<lparr>nz_origin_ticks := Some origin\<rparr>
           in (scale_timestamp_ns (cd_scale (nz_domain nz'')) expanded origin (nz_origin_ns nz''),
               nz'')))"

subsection \<open>Lemmas\<close>

lemma gcd_u64_gcd: "unat (gcd_u64 a b) = gcd (unat a) (unat b)"
proof (induction a b rule: gcd_u64.induct)
  case (1 l r)
  show ?case
  proof (cases "r = 0")
    case True
    then show ?thesis by (subst gcd_u64.simps) simp
  next
    case False
    with "1.IH" show ?thesis
      by (subst gcd_u64.simps) (simp add: unat_mod gcd_red_nat [symmetric] gcd.commute)
  qed
qed

lemma tick_scale_new_Inr:
  assumes "tick_scale_new num den = Inr sc"
  shows "num \<noteq> 0 \<and> den \<noteq> 0
    \<and> unat (nanoseconds_numerator sc) = unat num div gcd (unat num) (unat den)
    \<and> unat (ticks_denominator sc) = unat den div gcd (unat num) (unat den)"
  using assms
  by (auto simp: tick_scale_new_def Let_def div_or_panic_def unat_div gcd_u64_gcd rbind_eq_Inr
      split: if_splits)

lemma tick_scale_new_nonzero:
  assumes "num \<noteq> 0" "den \<noteq> 0"
  shows "\<exists>sc. tick_scale_new num den = Inr sc"
proof -
  have "unat (gcd_u64 num den) \<noteq> 0"
    using assms by (simp add: gcd_u64_gcd unat_gt_0)
  then have "gcd_u64 num den \<noteq> 0" by force
  with assms show ?thesis
    by (simp add: tick_scale_new_def Let_def div_or_panic_def)
qed

lemma ticks_to_ns_exact:
  assumes den: "ticks_denominator sc \<noteq> 0"
  shows "ticks_to_ns sc t =
    (let v = unat t * unat (nanoseconds_numerator sc) div unat (ticks_denominator sc)
     in if v < 2 ^ 128 then Inr (word_of_nat v) else Inl (Err Overflow))"
proof -
  let ?n = "unat (nanoseconds_numerator sc)" and ?d = "unat (ticks_denominator sc)"
  let ?num = "ucast (nanoseconds_numerator sc) :: u128" and ?den = "ucast (ticks_denominator sc) :: u128"
  have d: "?d \<noteq> 0" using den by (simp add: unsigned_eq_0_iff)
  then have d': "?den \<noteq> 0" by (metis unat_ucast_u128 unat_0)
  have n64: "?n < 2 ^ 64" and d64: "?d < 2 ^ 64"
    using unsigned_less [of "nanoseconds_numerator sc"] unsigned_less [of "ticks_denominator sc"] by simp_all
  have rem: "unat (t mod ?den) * ?n < 2 ^ 128"
  proof -
    have "unat (t mod ?den) < ?d" using d by (simp add: unat_mod)
    then have "unat (t mod ?den) * ?n \<le> 2 ^ 64 * 2 ^ 64"
      using n64 d64 by (intro mult_mono) auto
    also have "(2::nat) ^ 64 * 2 ^ 64 = 2 ^ 128" by (simp flip: power_add)
    finally have le: "unat (t mod ?den) * ?n \<le> 2 ^ 128" .
    have "unat (t mod ?den) * ?n \<le> (2 ^ 64 - 1) * (2 ^ 64 - 1)"
      using n64 d64 \<open>unat (t mod ?den) < ?d\<close> by (intro mult_mono) auto
    then show ?thesis by simp
  qed
  then have frac: "checked_mul (t mod ?den) ?num = Some (t mod ?den * ?num)"
    and ufrac: "unat (t mod ?den * ?num) = (unat t mod ?d) * ?n"
    by (simp_all add: checked_mul_unat unat_mult_lt unat_mod)
  have split: "unat t * ?n div ?d = unat t div ?d * ?n + (unat t mod ?d) * ?n div ?d"
    by (rule floor_split)
  show ?thesis
  proof (cases "unat t div ?d * ?n < 2 ^ 128")
    case True
    then have whole: "checked_mul (t div ?den) ?num = Some (t div ?den * ?num)"
      and uwhole: "unat (t div ?den * ?num) = unat t div ?d * ?n"
      by (simp_all add: checked_mul_unat unat_mult_lt unat_div)
    have "checked_add (t div ?den * ?num) (t mod ?den * ?num div ?den)
       = (if unat t * ?n div ?d < 2 ^ 128 then Some (word_of_nat (unat t * ?n div ?d)) else None)"
      using checked_add_of_nat [of "t div ?den * ?num" "t mod ?den * ?num div ?den"]
      by (simp only: unat_div uwhole ufrac unat_ucast_u128 split) simp
    then show ?thesis
      using d' by (simp add: ticks_to_ns_def Let_def div_or_panic_def mod_or_panic_def whole frac ok_or_def)
  next
    case False
    then have "checked_mul (t div ?den) ?num = None"
      by (simp add: checked_mul_None unat_div)
    moreover have "\<not> unat t * ?n div ?d < 2 ^ 128"
      using False split by linarith
    ultimately show ?thesis
      using d' by (simp add: ticks_to_ns_def Let_def div_or_panic_def mod_or_panic_def ok_or_def)
  qed
qed

lemma unat_epoch:
  "unat (previous div ucast m * ucast (m :: u64) :: u128) = unat previous div unat m * unat m"
proof -
  have "unat previous div unat m * unat m \<le> unat previous"
    by simp
  also have "\<dots> < 2 ^ 128"
    using unsigned_less [of previous] by simp
  finally have lt: "unat previous div unat m * unat m < 2 ^ 128" .
  then show ?thesis
    by (simp add: unat_mult_lt unat_div)
qed


definition exact_ns :: "tick_scale \<Rightarrow> u128 \<Rightarrow> u128 \<Rightarrow> i64 \<Rightarrow> int" where
  "exact_ns sc ticks origin_ticks origin_ns =
     (let n = uint (nanoseconds_numerator sc); d = uint (ticks_denominator sc)
      in if origin_ticks \<le> ticks
         then ival origin_ns + (uint ticks - uint origin_ticks) * n div d
         else ival origin_ns - (uint origin_ticks - uint ticks) * n div d)"

lemma exact_ns_magnitude:
  "exact_ns sc t o' ns =
     (let v = int (unat (abs_diff t o') * unat (nanoseconds_numerator sc) div unat (ticks_denominator sc))
      in ival ns + (if o' \<le> t then v else - v))"
  by (auto simp: exact_ns_def Let_def unat_abs_diff zdiv_int of_nat_diff word_le_nat_alt word_less_nat_alt)

lemma scale_timestamp_ns_exact:
  assumes "ticks_denominator sc \<noteq> 0"
  shows "scale_timestamp_ns sc t o' ns = ok_or (i64_try_from (exact_ns sc t o' ns)) Overflow"
proof -
  let ?v = "unat (abs_diff t o') * unat (nanoseconds_numerator sc) div unat (ticks_denominator sc)"
  have ns: "- (2 ^ 63) \<le> ival ns" "ival ns < 2 ^ 63" by (rule ival_range)+
  show ?thesis
  proof (cases "?v < 2 ^ 127")
    case True
    then have u: "uint (word_of_nat ?v :: u128) = int ?v"
      by (simp add: uint_nat unat_of_nat del: of_nat_unat)
    with True have "i128_try_from (word_of_nat ?v) = Some (int ?v)"
      by (simp add: i128_try_from_def del: of_nat_div of_nat_mult)
    moreover have "?v < 2 ^ 128" using True by simp
    ultimately show ?thesis
      using ns by (auto simp: scale_timestamp_ns_def ticks_to_ns_exact [OF assms] exact_ns_magnitude Let_def
          i128_checked_add_def ok_or_def i64_try_from_def simp del: of_nat_div of_nat_mult)
  next
    case False
    then have "i64_try_from (exact_ns sc t o' ns) = None"
      using ns by (auto simp: exact_ns_magnitude Let_def i64_try_from_def simp del: of_nat_div of_nat_mult)
    moreover have "scale_timestamp_ns sc t o' ns = Inl (Err Overflow)"
    proof (cases "?v < 2 ^ 128")
      case True
      then have "uint (word_of_nat ?v :: u128) = int ?v"
        by (simp add: uint_nat unat_of_nat del: of_nat_unat)
      with False True show ?thesis
        by (simp add: scale_timestamp_ns_def ticks_to_ns_exact [OF assms] i128_try_from_def ok_or_def
            del: of_nat_div of_nat_mult)
    qed (simp add: scale_timestamp_ns_def ticks_to_ns_exact [OF assms])
    ultimately show ?thesis by (simp add: ok_or_def)
  qed
qed

lemma exact_ns_mono:
  assumes "t \<le> t'"
  shows "exact_ns sc t o' ns \<le> exact_ns sc t' o' ns"
proof -
  let ?n = "uint (nanoseconds_numerator sc)" and ?d = "uint (ticks_denominator sc)"
  have n: "0 \<le> ?n" and d: "0 \<le> ?d" by simp_all
  have div: "a * ?n div ?d \<le> b * ?n div ?d" if "a \<le> b" for a b :: int
  proof (cases "?d = 0")
    case False
    with d have "0 < ?d" by linarith
    then show ?thesis using that n by (intro zdiv_mono1 mult_right_mono)
  qed simp
  have pos: "0 \<le> a * ?n div ?d" if "0 \<le> a" for a :: int
    using div [OF that] by simp
  have t: "uint t \<le> uint t'" using assms by (simp add: word_le_def)
  consider "o' \<le> t" "o' \<le> t'" | "\<not> o' \<le> t" "o' \<le> t'" | "\<not> o' \<le> t" "\<not> o' \<le> t'"
    using assms by fastforce
  then show ?thesis
  proof cases
    case 1
    then show ?thesis using div [of "uint t - uint o'" "uint t' - uint o'"] t
      by (simp add: exact_ns_def Let_def)
  next
    case 2
    then have "0 \<le> uint o' - uint t" "0 \<le> uint t' - uint o'" by (simp_all add: word_le_def)
    with 2 show ?thesis using pos [of "uint o' - uint t"] pos [of "uint t' - uint o'"]
      by (simp add: exact_ns_def Let_def)
  next
    case 3
    then show ?thesis using div [of "uint o' - uint t'" "uint o' - uint t"] t
      by (simp add: exact_ns_def Let_def)
  qed
qed

lemma unwrap_candidate_spec:
  assumes "0 < m" "raw < m" "unat previous + unat m \<le> 2 ^ 128"
  obtains c where "unwrap_candidate previous (ucast m) raw = Inr c"
    "unat previous \<le> unat c" "unat c < unat previous + unat m" "unat c mod unat m = unat raw"
proof -
  let ?P = "unat previous" and ?M = "unat m" and ?r = "unat raw"
  let ?e = "?P div ?M * ?M"
  let ?e' = "previous div ucast m * ucast m :: u128"
  have M: "0 < ?M" and r: "?r < ?M"
    using assms by (simp_all add: word_less_nat_alt)
  have eP: "?e \<le> ?P" and Pe: "?P < ?e + ?M"
    using M div_mult_mod_eq [of ?P ?M] mod_less_divisor [OF M, of ?P] by (simp, linarith)
  have m0: "(ucast m :: u128) \<noteq> 0"
    using M by (metis unat_0 unat_ucast_u128 less_irrefl)
  have lt: "?e + ?r < 2 ^ 128"
    using eP r assms(3) by linarith
  then have c0: "unat (?e' + ucast raw) = ?e + ?r"
    by (simp add: unat_add_lt unat_epoch)
  have add: "add_or_panic ?e' (ucast raw) = Inr (?e' + ucast raw)"
    using lt by (simp add: add_or_panic_def checked_add_unat unat_epoch)
  show thesis
  proof (cases "?e + ?r < ?P")
    case True
    have lt2: "?e + ?r + ?M < 2 ^ 128"
      using True assms(3) by linarith
    then have c: "unat (?e' + ucast raw + ucast m) = ?e + ?r + ?M"
      using c0 by (simp add: unat_add_lt)
    show thesis
    proof (rule that [of "?e' + ucast raw + ucast m"])
      have "checked_add (?e' + ucast raw) (ucast m) = Some (?e' + ucast raw + ucast m)"
        using c c0 by (simp add: checked_add_Some)
      then show "unwrap_candidate previous (ucast m) raw = Inr (?e' + ucast raw + ucast m)"
        using True c0 by (simp add: unwrap_candidate_def div_or_panic_def m0 add word_less_nat_alt)
    qed (use True Pe r c in \<open>simp_all add: mod_add_eq\<close>)
  next
    case False
    show thesis
    proof (rule that [of "?e' + ucast raw"])
      show "unwrap_candidate previous (ucast m) raw = Inr (?e' + ucast raw)"
        using False c0
        by (simp add: unwrap_candidate_def div_or_panic_def m0 add word_less_nat_alt)
    next
      show "unat (?e' + ucast raw) < ?P + ?M"
        unfolding c0 using eP r by linarith
    qed (use False r c0 in simp_all)
  qed
qed


lemma unwrap_candidate_ge:
  fixes m :: u64
  assumes "unwrap_candidate previous (ucast m) raw = Inr c"
  shows "previous \<le> c"
proof (rule ccontr)
  let ?e' = "previous div ucast m * ucast m :: u128"
  assume c: "\<not> previous \<le> c"
  with assms have m0: "(ucast m :: u128) \<noteq> 0" and add: "add_or_panic ?e' (ucast raw) = Inr (?e' + ucast raw)"
    and sum: "checked_add (?e' + ucast raw) (ucast m) = Some c"
    by (auto simp: unwrap_candidate_def rbind_eq_Inr div_or_panic_def add_or_panic_def expect_def
        checked_add_def split: if_splits option.splits)
  from m0 have "m \<noteq> 0" by force
  then have M: "0 < unat m" by (simp add: unat_gt_0)
  have "unat (?e' + ucast raw) = unat ?e' + unat raw"
    using add by (auto simp: add_or_panic_def expect_def checked_add_Some split: option.splits)
  with sum have "unat c = unat previous div unat m * unat m + unat raw + unat m"
    by (simp add: checked_add_Some unat_epoch)
  moreover have "unat previous < unat previous div unat m * unat m + unat m"
    using div_mult_mod_eq [of "unat previous" "unat m"] mod_less_divisor [OF M, of "unat previous"]
    by linarith
  ultimately show False
    using c by (simp add: word_le_nat_alt)
qed

lemma unwrapper_expand_first:
  "uw_last_expanded uw = None \<Longrightarrow> raw < uw_modulus uw \<Longrightarrow>
   unwrapper_expand raw uw = (Inr (ucast raw), uw\<lparr>uw_last_expanded := Some (ucast raw)\<rparr>)"
  by (simp add: unwrapper_expand_def)

lemma unwrapper_expand_iff:
  assumes last: "uw_last_expanded uw = Some p"
    and m: "uw_max_forward_ticks uw < uw_modulus uw" "unat p + unat (uw_modulus uw) \<le> 2 ^ 128"
  shows "fst (unwrapper_expand raw uw) = Inr c \<longleftrightarrow>
    raw < uw_modulus uw \<and> unat p \<le> unat c \<and> unat c \<le> unat p + unat (uw_max_forward_ticks uw)
    \<and> unat c mod unat (uw_modulus uw) = unat raw"
proof (cases "raw < uw_modulus uw")
  case False
  then have "uw_modulus uw \<le> raw" by (simp add: not_less)
  with False show ?thesis by (simp add: unwrapper_expand_def)
next
  case True
  have "0 < uw_modulus uw" using m(1) by (simp add: word_less_nat_alt)
  then obtain d where d: "unwrap_candidate p (ucast (uw_modulus uw)) raw = Inr d"
    "unat p \<le> unat d" "unat d < unat p + unat (uw_modulus uw)"
    "unat d mod unat (uw_modulus uw) = unat raw"
    using unwrap_candidate_spec [OF _ True m(2)] by metis
  have pd: "unat (d - p) = unat d - unat p"
    using d(2) by (simp add: unat_sub_le word_le_nat_alt)
  have res: "fst (unwrapper_expand raw uw) =
      (if unat d \<le> unat p + unat (uw_max_forward_ticks uw) then Inr d
       else Inl (Err (ForwardStepTooLarge p raw (d - p) (uw_max_forward_ticks uw))))"
    using True d(2)
    by (simp add: unwrapper_expand_def last d(1) Let_def word_less_nat_alt word_le_nat_alt pd) linarith
  have "c = d" if "unat p \<le> unat c" "unat c \<le> unat p + unat (uw_max_forward_ticks uw)"
      "unat c mod unat (uw_modulus uw) = unat raw"
    using residue_unique [of "unat p" "unat c" "unat (uw_modulus uw)" "unat d"] that d m(1)
    by (simp add: word_less_nat_alt word_unat_eq_iff [of c d])
  moreover have "fst (unwrapper_expand raw uw) = Inr c \<longleftrightarrow>
      unat d \<le> unat p + unat (uw_max_forward_ticks uw) \<and> c = d"
    unfolding res by auto
  ultimately show ?thesis
    using d True by blast
qed

lemma unwrapper_expand_ge:
  assumes "unwrapper_expand raw uw = (Inr c, uw')"
  shows "uw_last_expanded uw' = Some c" "uw_last_expanded uw = Some p \<Longrightarrow> p \<le> c"
  using assms by (auto simp: unwrapper_expand_def Let_def unwrap_candidate_ge
      split: if_splits option.splits sum.splits)

lemma unwrapper_expand_err:
  "unwrapper_expand raw uw = (Inl e, uw') \<Longrightarrow> uw' = uw"
  by (auto simp: unwrapper_expand_def Let_def split: if_splits option.splits sum.splits)

definition nz_last :: "normalizer \<Rightarrow> u128 option" where
  "nz_last nz = (case nz_unwrapper nz of Some uw \<Rightarrow> uw_last_expanded uw | None \<Rightarrow> nz_last_unwrapped_ticks nz)"

lemma nz_last_origin [simp]: "nz_last (nz\<lparr>nz_origin_ticks := x\<rparr>) = nz_last nz"
  by (simp add: nz_last_def split: option.split)

lemma normalizer_expand_Inr:
  assumes "normalizer_expand raw nz = (Inr e, nz')"
  shows "nz_last nz' = Some e" "nz_last nz = Some p \<Longrightarrow> p \<le> e"
    "nz_domain nz' = nz_domain nz" "nz_origin_ticks nz' = nz_origin_ticks nz"
    "nz_origin_ns nz' = nz_origin_ns nz"
  using assms
  by (auto simp: normalizer_expand_def nz_last_def Let_def
      dest: unwrapper_expand_ge split: option.splits prod.splits if_splits)

lemma normalizer_expand_Inl: "normalizer_expand raw nz = (Inl e, nz') \<Longrightarrow> nz' = nz"
  by (auto simp: normalizer_expand_def Let_def dest: unwrapper_expand_err
      split: option.splits prod.splits if_splits)

definition nz_wf :: "normalizer \<Rightarrow> bool" where
  "nz_wf nz \<longleftrightarrow> ticks_denominator (cd_scale (nz_domain nz)) \<noteq> 0"

definition nz_bound :: "normalizer \<Rightarrow> i64 \<Rightarrow> bool" where
  "nz_bound nz t \<longleftrightarrow>
     (\<exists>p o'. nz_last nz = Some p \<and> nz_origin_ticks nz = Some o' \<and>
        ival t \<le> exact_ns (cd_scale (nz_domain nz)) p o' (nz_origin_ns nz))"

lemma normalizer_normalize_cases:
  assumes "nz_wf nz"
  obtains (fail) e where "normalizer_normalize raw nz = (Inl e, nz)"
  | (ok) e o' where "normalizer_expand raw nz = (Inr e, (snd (normalizer_expand raw nz)))"
      "normalizer_normalize raw nz =
         (ok_or (i64_try_from (exact_ns (cd_scale (nz_domain nz)) e o' (nz_origin_ns nz))) Overflow,
          (snd (normalizer_expand raw nz))\<lparr>nz_origin_ticks := Some o'\<rparr>)"
      "\<And>x. nz_origin_ticks nz = Some x \<Longrightarrow> o' = x"
proof (cases "normalizer_expand raw nz")
  case (Pair r nz')
  show thesis
  proof (cases r)
    case (Inl e)
    with Pair normalizer_expand_Inl fail show thesis
      by (simp add: normalizer_normalize_def)
  next
    case (Inr e)
    note ex = normalizer_expand_Inr [OF Pair [unfolded Inr]]
    show thesis
    proof (rule ok [of e "case nz_origin_ticks nz' of None \<Rightarrow> e | Some x \<Rightarrow> x"])
      show "normalizer_expand raw nz = (Inr e, snd (normalizer_expand raw nz))"
        using Pair Inr by simp
    qed (use Pair Inr ex assms in
        \<open>auto simp: normalizer_normalize_def Let_def scale_timestamp_ns_exact nz_wf_def split: option.splits\<close>)
  qed
qed


lemma nz_bound_step:
  assumes "nz_wf nz" "nz_bound nz t"
  shows "nz_bound (snd (normalizer_normalize a nz)) t"
  using assms(1)
proof (cases rule: normalizer_normalize_cases [of nz a])
  case (ok e o')
  note ex = normalizer_expand_Inr [OF ok(1)]
  from assms(2) obtain p x where p: "nz_last nz = Some p" "nz_origin_ticks nz = Some x"
    "ival t \<le> exact_ns (cd_scale (nz_domain nz)) p x (nz_origin_ns nz)"
    by (auto simp: nz_bound_def)
  then have "ival t \<le> exact_ns (cd_scale (nz_domain nz)) e x (nz_origin_ns nz)"
    using exact_ns_mono [OF ex(2)] by (metis order_trans)
  with ok p ex show ?thesis
    by (auto simp: nz_bound_def)
qed (use assms in simp)

lemma nz_step_Inr:
  assumes "nz_wf nz" "normalizer_normalize a nz = (Inr b, nz')"
  shows "nz_bound nz' b" "nz_bound nz t \<Longrightarrow> t \<le> b"
proof -
  from assms(1) have "nz_bound nz' b \<and> (nz_bound nz t \<longrightarrow> t \<le> b)"
  proof (cases rule: normalizer_normalize_cases [of nz a])
    case (ok e o')
    note ex = normalizer_expand_Inr [OF ok(1)]
    from ok(2) assms(2) have b: "ival b = exact_ns (cd_scale (nz_domain nz)) e o' (nz_origin_ns nz)"
      and nz': "nz' = (snd (normalizer_expand a nz))\<lparr>nz_origin_ticks := Some o'\<rparr>"
      by (auto simp: eq_commute [of "Inr b"] i64_try_from_Some)
    have "t \<le> b" if "nz_bound nz t"
      using that b exact_ns_mono [OF ex(2)] ok(3)
      by (auto simp: nz_bound_def less_eq_i64_def intro: order_trans)
    moreover have "nz_bound nz' b"
      using ex b by (auto simp: nz_bound_def nz')
    ultimately show ?thesis by blast
  qed (use assms in simp)
  then show "nz_bound nz' b" "nz_bound nz t \<Longrightarrow> t \<le> b" by blast+
qed

lemma nz_wf_step: "nz_wf nz \<Longrightarrow> nz_wf (snd (normalizer_normalize a nz))"
  by (cases rule: normalizer_normalize_cases [of nz a])
    (auto simp: nz_wf_def dest: normalizer_expand_Inr)

interpretation nz: monotone_stream normalizer_normalize "\<lambda>t. t" nz_wf nz_bound
  by standard (auto intro: nz_wf_step nz_bound_step nz_step_Inr)

subsection \<open>Properties\<close>

lemma ticks_to_ns_ratio:
  assumes "tick_scale_new num den = Inr sc"
  shows "t * unat (nanoseconds_numerator sc) div unat (ticks_denominator sc) = t * unat num div unat den"
    "ticks_denominator sc \<noteq> 0"
proof -
  let ?g = "gcd (unat num) (unat den)"
  note sc = tick_scale_new_Inr [OF assms]
  have g: "0 < ?g" using sc by (simp add: unat_gt_0)
  have "t * (unat num div ?g) div (unat den div ?g) = (t * (unat num div ?g) * ?g) div ((unat den div ?g) * ?g)"
    by (rule div_mult_mult2 [symmetric]) (use g in simp)
  then show "t * unat (nanoseconds_numerator sc) div unat (ticks_denominator sc) = t * unat num div unat den"
    using sc by (simp add: mult.assoc)
  have "unat den div ?g \<noteq> 0"
    using sc by (simp add: dvd_div_eq_0_iff unsigned_eq_0_iff)
  then show "ticks_denominator sc \<noteq> 0"
    using sc by (metis unat_0)
qed

lemma normalizer_new_wf:
  assumes "tick_scale_new num den = Inr sc" "clock_domain_new i sc modulus maximum = Inr d"
    "normalizer_new d origin_ticks origin_ns = Inr nz"
  shows "nz_wf nz"
  using assms ticks_to_ns_ratio(2) [OF assms(1)]
  by (auto simp: nz_wf_def clock_domain_new_def normalizer_new_def rthen_eq_Inr rbind_eq_Inr split: if_splits)

text \<open>C1: Converting ticks is exact: for a scale built from any non-zero numerator and
  denominator, \<open>ticks_to_ns\<close> returns the floor of \<open>ticks * numerator / denominator\<close>, although it
  computes with the reduced fraction and in two parts, and it reports \<open>Overflow\<close> only when that
  floor does not fit 128 bits.\<close>
theorem ticks_to_ns_floor:
  assumes "tick_scale_new num den = Inr sc"
  shows "ticks_to_ns sc t =
    (let v = unat t * unat num div unat den
     in if v < 2 ^ 128 then Inr (word_of_nat v) else Inl (Err Overflow))"
  using ticks_to_ns_exact [of sc t] ticks_to_ns_ratio [OF assms] by simp

theorem ticks_to_ns_floor_witness:
  "\<exists>sc. tick_scale_new 1000000000 600000000 = Inr sc \<and> ticks_to_ns sc 7 = Inr 11"
proof -
  obtain sc where sc: "tick_scale_new 1000000000 600000000 = Inr sc"
    using tick_scale_new_nonzero [of 1000000000 600000000] by auto
  from ticks_to_ns_floor [OF sc, of 7] sc show ?thesis
    by (simp add: Let_def)
qed

text \<open>C2: A raw timestamp is placed exactly: the result is the origin plus or minus the floor of
  the scaled distance from the origin tick, and the only failure is \<open>Overflow\<close>, returned exactly
  when that value is not an \<open>i64\<close>: no intermediate of the code loses or rejects anything else.\<close>
theorem scale_timestamp_ns_floor:
  assumes "tick_scale_new num den = Inr sc"
  shows "scale_timestamp_ns sc t o' ns =
    (let v = int (unat (abs_diff t o') * unat num div unat den);
         r = ival ns + (if o' \<le> t then v else - v)
     in case i64_try_from r of None \<Rightarrow> Inl (Err Overflow) | Some a \<Rightarrow> Inr a)"
  using ticks_to_ns_ratio(1) [OF assms, of "unat (abs_diff t o')"]
  by (simp only: scale_timestamp_ns_exact [OF ticks_to_ns_ratio(2) [OF assms]] exact_ns_magnitude Let_def ok_or_def)

definition nz_after :: "nat \<Rightarrow> normalizer \<Rightarrow> bool" where
  "nz_after k nz \<longleftrightarrow> nz_wf nz \<and>
     (case nz_unwrapper nz of None \<Rightarrow> True
      | Some uw \<Rightarrow> 0 < uw_modulus uw \<and> (\<forall>p. uw_last_expanded uw = Some p \<longrightarrow> unat p < k * 2 ^ 64))"

lemma unwrapper_expand_after:
  assumes "0 < uw_modulus uw" "\<forall>p. uw_last_expanded uw = Some p \<longrightarrow> unat p < k * 2 ^ 64" "k < 2 ^ 64"
  shows "fst (unwrapper_expand raw uw) \<noteq> Inl Panic"
    "\<forall>p. uw_last_expanded (snd (unwrapper_expand raw uw)) = Some p \<longrightarrow> unat p < Suc k * 2 ^ 64"
    "uw_modulus (snd (unwrapper_expand raw uw)) = uw_modulus uw"
proof -
  have "unat (uw_modulus uw) < 2 ^ LENGTH(64)" "unat raw < 2 ^ LENGTH(64)"
    by (rule unsigned_less)+
  then have m64: "unat (uw_modulus uw) \<le> 2 ^ 64" "unat raw < 2 ^ 64"
    by simp_all
  have "fst (unwrapper_expand raw uw) \<noteq> Inl Panic \<and>
    (\<forall>p. uw_last_expanded (snd (unwrapper_expand raw uw)) = Some p \<longrightarrow> unat p < Suc k * 2 ^ 64) \<and>
    uw_modulus (snd (unwrapper_expand raw uw)) = uw_modulus uw"
  proof (cases "raw < uw_modulus uw")
    case False
    then have "uw_modulus uw \<le> raw" by (simp add: not_less)
    with assms show ?thesis by (fastforce simp: unwrapper_expand_def)
  next
    case raw: True
    show ?thesis
    proof (cases "uw_last_expanded uw")
      case None
      with raw m64 show ?thesis by (simp add: unwrapper_expand_first)
    next
      case (Some p)
      with assms have p: "unat p < k * 2 ^ 64" by simp
      have "Suc k * 2 ^ 64 \<le> (2 ^ 64 * 2 ^ 64 :: nat)"
        using assms(3) by (intro mult_le_mono) auto
      also have "(2 ^ 64 * 2 ^ 64 :: nat) = 2 ^ 128" by (simp flip: power_add)
      finally have "unat p + unat (uw_modulus uw) \<le> 2 ^ 128" using p m64 by simp
      from unwrap_candidate_spec [OF assms(1) raw this] obtain c where
        c: "unwrap_candidate p (ucast (uw_modulus uw)) raw = Inr c"
          "unat c < unat p + unat (uw_modulus uw)" by metis
      then have "unat c < Suc k * 2 ^ 64" using p m64 by simp
      then show ?thesis
        using p c raw Some by (auto simp: unwrapper_expand_def Let_def not_le [symmetric])
    qed
  qed
  then show "fst (unwrapper_expand raw uw) \<noteq> Inl Panic"
    "\<forall>p. uw_last_expanded (snd (unwrapper_expand raw uw)) = Some p \<longrightarrow> unat p < Suc k * 2 ^ 64"
    "uw_modulus (snd (unwrapper_expand raw uw)) = uw_modulus uw" by blast+
qed

lemma nz_after_origin [simp]: "nz_after k (nz\<lparr>nz_origin_ticks := x\<rparr>) = nz_after k nz"
  by (simp add: nz_after_def nz_wf_def)

lemma nz_after_expand:
  assumes "nz_after k nz" "k < 2 ^ 64"
  shows "fst (normalizer_expand raw nz) \<noteq> Inl Panic" "nz_after (Suc k) (snd (normalizer_expand raw nz))"
proof -
  have "fst (normalizer_expand raw nz) \<noteq> Inl Panic \<and> nz_after (Suc k) (snd (normalizer_expand raw nz))"
  proof (cases "nz_unwrapper nz")
    case None
    with assms show ?thesis
      by (auto simp: nz_after_def nz_wf_def normalizer_expand_def Let_def split: option.splits)
  next
    case (Some uw)
    obtain r uw' where u: "unwrapper_expand raw uw = (r, uw')" by fastforce
    from assms(1) Some have "0 < uw_modulus uw" "\<forall>p. uw_last_expanded uw = Some p \<longrightarrow> unat p < k * 2 ^ 64"
      by (simp_all add: nz_after_def)
    from unwrapper_expand_after [OF this assms(2), of raw] u this(1) assms(1) Some show ?thesis
      by (simp add: nz_after_def nz_wf_def normalizer_expand_def)
  qed
  then show "fst (normalizer_expand raw nz) \<noteq> Inl Panic" "nz_after (Suc k) (snd (normalizer_expand raw nz))"
    by blast+
qed

lemma nz_after_step:
  assumes "nz_after k nz" "k < 2 ^ 64"
  shows "fst (normalizer_normalize raw nz) \<noteq> Inl Panic" "nz_after (Suc k) (snd (normalizer_normalize raw nz))"
proof -
  have wf: "nz_wf nz" using assms(1) by (simp add: nz_after_def)
  note e = nz_after_expand [OF assms, of raw]
  then show "fst (normalizer_normalize raw nz) \<noteq> Inl Panic" "nz_after (Suc k) (snd (normalizer_normalize raw nz))"
    using scale_timestamp_ns_exact wf normalizer_expand_Inr
    by (auto simp: normalizer_normalize_def Let_def nz_wf_def split: prod.splits sum.splits)
qed

lemma nz_after_outcomes:
  "nz_after k nz \<Longrightarrow> k + length raws < 2 ^ 64 \<Longrightarrow> Inl Panic \<notin> set (outcomes normalizer_normalize nz raws)"
proof (induction raws arbitrary: k nz)
  case (Cons raw raws)
  then have k: "k < 2 ^ 64" by simp
  from nz_after_step [OF Cons.prems(1) k] Cons.IH [of "Suc k"] Cons.prems(2) show ?case by force
qed simp

lemma normalizer_new_after:
  assumes "tick_scale_new num den = Inr sc" "clock_domain_new i sc modulus maximum = Inr d"
    "normalizer_new d origin_ticks origin_ns = Inr nz"
  shows "nz_after 0 nz"
  using normalizer_new_wf [OF assms] assms(3)
  by (auto simp: nz_after_def normalizer_new_def unwrapper_new_def rbind_eq_Inr word_less_nat_alt
      split: option.splits if_splits)

text \<open>The domain the witnesses use: a 600 MHz counter of 16 bits that moves at most 40000 ticks.\<close>

definition demo_scale :: tick_scale where
  "demo_scale = \<lparr>nanoseconds_numerator = 5, ticks_denominator = 3\<rparr>"

definition demo_domain :: clock_domain_spec where
  "demo_domain = \<lparr>cd_id = ''core0'', cd_scale = demo_scale, cd_timestamp_modulus = Some 65536,
     cd_max_forward_ticks = Some 40000\<rparr>"

definition demo_normalizer :: normalizer where
  "demo_normalizer = \<lparr>nz_domain = demo_domain,
     nz_unwrapper = Some \<lparr>uw_modulus = 65536, uw_max_forward_ticks = 40000, uw_last_expanded = None\<rparr>,
     nz_origin_ticks = None, nz_origin_ns = I64 100, nz_last_unwrapped_ticks = None\<rparr>"

lemma demo_scale_new: "tick_scale_new 5 3 = Inr demo_scale"
proof -
  have "gcd_u64 5 3 = 1"
    by (subst gcd_u64.simps, simp)+
  then show ?thesis
    by (simp add: tick_scale_new_def demo_scale_def div_or_panic_def)
qed

lemma demo_domain_new: "clock_domain_new ''core0'' demo_scale (Some 65536) (Some 40000) = Inr demo_domain"
  by (simp add: clock_domain_new_def demo_domain_def)

lemma demo_normalizer_new: "normalizer_new demo_domain None (I64 100) = Inr demo_normalizer"
  by (simp add: normalizer_new_def demo_normalizer_def demo_domain_def unwrapper_new_def)

theorem scale_timestamp_ns_floor_witness:
  "scale_timestamp_ns demo_scale 7 10 (I64 100) = Inr (I64 95)"
  by (simp add: scale_timestamp_ns_floor [OF demo_scale_new, of 7 10 "I64 100"]
      unat_abs_diff ival_def i64_try_from_def)

text \<open>C3: Expanding a wrapped counter finds the only possible answer: once a value was expanded,
  a raw reading below the modulus yields \<open>c\<close> exactly when \<open>c\<close> lies in the forward window after the
  previous value and is congruent to the reading, for every window smaller than the modulus.\<close>
theorem unwrapper_expand_unique:
  assumes "unwrapper_new modulus maximum = Inr fresh"
    and "uw = fresh\<lparr>uw_last_expanded := Some p\<rparr>"
    and "unat p + unat modulus \<le> 2 ^ 128"
  shows "fst (unwrapper_expand raw uw) = Inr c \<longleftrightarrow>
    raw < modulus \<and> unat p \<le> unat c \<and> unat c \<le> unat p + unat maximum
    \<and> unat c mod unat modulus = unat raw"
  using unwrapper_expand_iff [of uw p raw c] assms
  by (auto simp: unwrapper_new_def split: if_splits)

theorem unwrapper_expand_unique_witness:
  "fst (unwrapper_expand 10 \<lparr>uw_modulus = 65536, uw_max_forward_ticks = 40000,
      uw_last_expanded = Some 65000\<rparr>) = Inr 65546"
  by (subst unwrapper_expand_unique [where modulus = 65536 and maximum = 40000 and p = 65000
        and fresh = "\<lparr>uw_modulus = 65536, uw_max_forward_ticks = 40000, uw_last_expanded = None\<rparr>"])
    (simp_all add: unwrapper_new_def)

text \<open>C4: Normalized time never runs backward: whatever raw readings a normalizer made from a
  valid scale and domain is fed, wrapped, rejected or out of order, the timestamps it returns are
  in nondecreasing order.\<close>
theorem normalizer_sorted:
  assumes "tick_scale_new num den = Inr sc"
    and "clock_domain_new i sc modulus maximum = Inr d"
    and "normalizer_new d origin_ticks origin_ns = Inr nz"
  shows "sorted (emitted normalizer_normalize nz raws)"
  using nz.emitted_sorted [OF normalizer_new_wf [OF assms], of raws] by simp

theorem normalizer_sorted_witness:
  "sorted (emitted normalizer_normalize demo_normalizer [65000, 10, 9, 60])"
  by (rule normalizer_sorted [OF demo_scale_new demo_domain_new demo_normalizer_new])

text \<open>Normalizing never panics: the unchecked addition of the unwrapper cannot overflow and its
  division has a non-zero divisor, in any stream of fewer than 2^64 raw readings.\<close>
theorem normalizer_no_panic:
  assumes "tick_scale_new num den = Inr sc"
    and "clock_domain_new i sc modulus maximum = Inr d"
    and "normalizer_new d origin_ticks origin_ns = Inr nz"
    and "length raws < 2 ^ 64"
  shows "Inl Panic \<notin> set (outcomes normalizer_normalize nz raws)"
  by (rule nz_after_outcomes [OF normalizer_new_after [OF assms(1-3)]]) (use assms(4) in simp)

theorem normalizer_no_panic_witness:
  "Inl Panic \<notin> set (outcomes normalizer_normalize demo_normalizer [65000, 10, 70000, 60])"
  by (rule normalizer_no_panic [OF demo_scale_new demo_domain_new demo_normalizer_new]) simp

end
