(* ===== verification/State_Error.thy ===== *)
theory State_Error
  imports Prelude
begin

text \<open>
  Operations on \<open>&mut self\<close> that may fail: a function of the state that returns a result and
  the state it leaves behind. An error keeps every write made before it, as the \<open>?\<close> operator
  does. \<open>keeps\<close> is preservation of an invariant on every path, \<open>safe\<close> a triple with a
  postcondition for values and one for failures, \<open>moves\<close> preservation of a relation between the
  states before and after.
\<close>

named_theorems keeps_rules \<open>invariant preservation of the combinators\<close>

type_synonym ('s, 'e, 'a) se = "'s \<Rightarrow> ('e, 'a) res \<times> 's"

definition ret :: "'a \<Rightarrow> ('s, 'e, 'a) se" where
  "ret a s = (Inr a, s)"

definition throw :: "'e \<Rightarrow> ('s, 'e, 'a) se" where
  "throw e s = (Inl (Err e), s)"

definition panic :: "('s, 'e, 'a) se" where
  "panic s = (Inl Panic, s)"

definition lift :: "('e, 'a) res \<Rightarrow> ('s, 'e, 'a) se" where
  "lift r s = (r, s)"

definition andthen :: "('s, 'e, 'a) se \<Rightarrow> ('a \<Rightarrow> ('s, 'e, 'b) se) \<Rightarrow> ('s, 'e, 'b) se" where
  "andthen m f s = (case m s of (Inl e, s') \<Rightarrow> (Inl e, s') | (Inr a, s') \<Rightarrow> f a s')"

definition followed :: "('s, 'e, 'a) se \<Rightarrow> ('s, 'e, 'b) se \<Rightarrow> ('s, 'e, 'b) se" where
  "followed m n = andthen m (\<lambda>_. n)"

definition modify :: "('s \<Rightarrow> 's) \<Rightarrow> ('s, 'e, unit) se" where
  "modify f s = (Inr (), f s)"

definition query :: "('s \<Rightarrow> 'a) \<Rightarrow> ('s, 'e, 'a) se" where
  "query f s = (Inr (f s), s)"

definition with_state :: "('s \<Rightarrow> ('s, 'e, 'a) se) \<Rightarrow> ('s, 'e, 'a) se" where
  "with_state f s = f s s"

definition when_se :: "bool \<Rightarrow> ('s, 'e, unit) se \<Rightarrow> ('s, 'e, unit) se" where
  "when_se b m = (if b then m else ret ())"

fun for_each :: "('a \<Rightarrow> ('s, 'e, unit) se) \<Rightarrow> 'a list \<Rightarrow> ('s, 'e, unit) se" where
  "for_each f [] = ret ()"
| "for_each f (x # xs) = followed (f x) (for_each f xs)"

text \<open>
  A \<open>while\<close> loop with fuel. Running out of fuel is a panic, so excluding panics shows that the
  fuel is enough.
\<close>

fun while_se :: "nat \<Rightarrow> ('s \<Rightarrow> bool) \<Rightarrow> ('s, 'e, unit) se \<Rightarrow> ('s, 'e, unit) se" where
  "while_se 0 C b = panic"
| "while_se (Suc n) C b = with_state (\<lambda>s. if C s then followed b (while_se n C b) else ret ())"

lemmas se_defs = ret_def throw_def panic_def lift_def andthen_def followed_def modify_def
  query_def with_state_def when_se_def

subsection \<open>Invariants\<close>

definition keeps :: "('s \<Rightarrow> bool) \<Rightarrow> ('s, 'e, 'a) se \<Rightarrow> bool" where
  "keeps I m \<longleftrightarrow> (\<forall>s. I s \<longrightarrow> I (snd (m s)))"

lemma keepsD: "keeps I m \<Longrightarrow> I s \<Longrightarrow> I (snd (m s))"
  by (simp add: keeps_def)

lemma keeps_pure [keeps_rules]:
  "keeps I (ret a)" "keeps I (throw e)" "keeps I panic" "keeps I (lift r)" "keeps I (query f)"
  by (simp_all add: keeps_def se_defs)

lemma keeps_andthen [keeps_rules]:
  "keeps I m \<Longrightarrow> (\<And>a. keeps I (f a)) \<Longrightarrow> keeps I (andthen m f)"
  unfolding keeps_def andthen_def by (auto split: prod.splits sum.splits)

lemma keeps_followed [keeps_rules]: "keeps I m \<Longrightarrow> keeps I n \<Longrightarrow> keeps I (followed m n)"
  by (simp add: followed_def keeps_andthen)

lemma keeps_modify [keeps_rules]: "(\<And>s. I s \<Longrightarrow> I (f s)) \<Longrightarrow> keeps I (modify f)"
  by (simp add: keeps_def modify_def)

lemma keeps_with_state [keeps_rules]:
  "(\<And>s. I s \<Longrightarrow> keeps I (f s)) \<Longrightarrow> keeps I (with_state f)"
  by (simp add: keeps_def with_state_def)

lemma keeps_when [keeps_rules]: "(b \<Longrightarrow> keeps I m) \<Longrightarrow> keeps I (when_se b m)"
  by (auto simp: when_se_def keeps_pure)

lemma keeps_for_each [keeps_rules]: "(\<And>x. x \<in> set xs \<Longrightarrow> keeps I (f x)) \<Longrightarrow> keeps I (for_each f xs)"
  by (induction xs) (auto intro: keeps_rules)

lemma keeps_while [keeps_rules]: "keeps I b \<Longrightarrow> keeps I (while_se n C b)"
  by (induction n) (auto intro!: keeps_rules)

subsection \<open>Triples\<close>

text \<open>
  \<open>safe P m Q E\<close>: from a state with \<open>P\<close>, \<open>m\<close> ends in \<open>Q\<close> with its value, or fails in a state
  where \<open>E\<close> holds of the failure. Excluding panics is an \<open>E\<close> that is false of \<open>Panic\<close>.
\<close>

definition safe :: "('s \<Rightarrow> bool) \<Rightarrow> ('s, 'e, 'a) se \<Rightarrow> ('a \<Rightarrow> 's \<Rightarrow> bool)
    \<Rightarrow> ('e fail \<Rightarrow> 's \<Rightarrow> bool) \<Rightarrow> bool" where
  "safe P m Q E \<longleftrightarrow>
     (\<forall>s. P s \<longrightarrow> (case m s of (Inr a, s') \<Rightarrow> Q a s' | (Inl f, s') \<Rightarrow> E f s'))"

lemma safe_ret: "(\<And>s. P s \<Longrightarrow> Q a s) \<Longrightarrow> safe P (ret a) Q E"
  by (simp add: safe_def se_defs)

lemma safe_throw: "(\<And>s. P s \<Longrightarrow> E (Err e) s) \<Longrightarrow> safe P (throw e) Q E"
  by (simp add: safe_def se_defs)

lemma safe_panic: "(\<And>s. P s \<Longrightarrow> E Panic s) \<Longrightarrow> safe P panic Q E"
  by (simp add: safe_def se_defs)

lemma safe_lift:
  "(\<And>s a. P s \<Longrightarrow> r = Inr a \<Longrightarrow> Q a s) \<Longrightarrow> (\<And>s f. P s \<Longrightarrow> r = Inl f \<Longrightarrow> E f s) \<Longrightarrow> safe P (lift r) Q E"
  by (cases r) (simp_all add: safe_def se_defs)

lemma safe_query: "(\<And>s. P s \<Longrightarrow> Q (f s) s) \<Longrightarrow> safe P (query f) Q E"
  by (simp add: safe_def se_defs)

lemma safe_modify: "(\<And>s. P s \<Longrightarrow> Q () (f s)) \<Longrightarrow> safe P (modify f) Q E"
  by (simp add: safe_def se_defs)

lemma safe_andthen:
  assumes "safe P m R E" and "\<And>a. safe (R a) (f a) Q E"
  shows "safe P (andthen m f) Q E"
  unfolding safe_def
proof (intro allI impI)
  fix s
  assume P: "P s"
  obtain r s' where m: "m s = (r, s')" by fastforce
  show "case andthen m f s of (Inr a, s') \<Rightarrow> Q a s' | (Inl f, s') \<Rightarrow> E f s'"
  proof (cases r)
    case (Inl e)
    with assms(1) P m show ?thesis
      by (auto simp: safe_def andthen_def dest!: spec [where x = s])
  next
    case (Inr a)
    with assms(1) P m have "R a s'"
      by (auto simp: safe_def dest!: spec [where x = s])
    with assms(2) [of a] Inr m show ?thesis
      by (simp add: safe_def andthen_def)
  qed
qed

lemma safe_followed: "safe P m (\<lambda>_. R) E \<Longrightarrow> safe R n Q E \<Longrightarrow> safe P (followed m n) Q E"
  unfolding followed_def by (rule safe_andthen)

lemma safe_with_state: "(\<And>s. P s \<Longrightarrow> safe (\<lambda>t. t = s) (f s) Q E) \<Longrightarrow> safe P (with_state f) Q E"
  by (simp add: safe_def with_state_def)

lemma safe_with_state_inv: "(\<And>s. P s \<Longrightarrow> safe P (f s) Q E) \<Longrightarrow> safe P (with_state f) Q E"
  by (simp add: safe_def with_state_def)

lemma safe_when:
  "(b \<Longrightarrow> safe P m Q E) \<Longrightarrow> (\<And>s. \<not> b \<Longrightarrow> P s \<Longrightarrow> Q () s) \<Longrightarrow> safe P (when_se b m) Q E"
  by (auto simp: when_se_def intro: safe_ret)

lemma safe_weaken:
  assumes "safe P m Q E" and "\<And>s. P' s \<Longrightarrow> P s" and "\<And>a s. Q a s \<Longrightarrow> Q' a s" and "\<And>f s. E f s \<Longrightarrow> E' f s"
  shows "safe P' m Q' E'"
  unfolding safe_def
proof (intro allI impI)
  fix s
  assume "P' s"
  with assms(1,2) have "case m s of (Inr a, s') \<Rightarrow> Q a s' | (Inl f, s') \<Rightarrow> E f s'"
    by (simp add: safe_def)
  then show "case m s of (Inr a, s') \<Rightarrow> Q' a s' | (Inl f, s') \<Rightarrow> E' f s'"
    using assms(3,4) by (auto split: prod.splits sum.splits)
qed

lemma safe_for_each:
  "(\<And>x. x \<in> set xs \<Longrightarrow> safe I (f x) (\<lambda>_. I) E) \<Longrightarrow> safe I (for_each f xs) (\<lambda>_. I) E"
  by (induction xs) (auto intro: safe_followed safe_ret)

lemma safe_while:
  assumes "\<And>n. safe (\<lambda>s. I s \<and> C s \<and> m s = n) b (\<lambda>_ s. I s \<and> m s < n) E"
  shows "safe (\<lambda>s. I s \<and> m s < fuel) (while_se fuel C b) (\<lambda>_ s. I s \<and> \<not> C s) E"
proof (induction fuel)
  case 0
  then show ?case by (simp add: safe_def)
next
  case (Suc fuel)
  show ?case
    unfolding while_se.simps
  proof (rule safe_with_state)
    fix s
    assume s: "I s \<and> m s < Suc fuel"
    show "safe (\<lambda>t. t = s) (if C s then followed b (while_se fuel C b) else ret ())
        (\<lambda>_ s. I s \<and> \<not> C s) E"
    proof (cases "C s")
      case True
      have "safe (\<lambda>t. t = s) b (\<lambda>_ t. I t \<and> m t < fuel) E"
        by (rule safe_weaken [OF assms [of "m s"]]) (use s True in auto)
      then show ?thesis using True by (simp add: safe_followed Suc.IH)
    next
      case False
      with s show ?thesis by (auto intro: safe_ret)
    qed
  qed
qed

lemma safe_pre: "(\<And>s. P s \<Longrightarrow> safe (\<lambda>t. t = s) m Q E) \<Longrightarrow> safe P m Q E"
  by (simp add: safe_def)

lemma safe_at: "P s \<Longrightarrow> safe P m Q E \<Longrightarrow> safe (\<lambda>t. t = s) m Q E"
  by (simp add: safe_def)

lemma safe_if: "(b \<Longrightarrow> safe P m Q E) \<Longrightarrow> (\<not> b \<Longrightarrow> safe P n Q E) \<Longrightarrow> safe P (if b then m else n) Q E"
  by simp

lemma safeD:
  assumes "safe P m Q E" "P s"
  shows "m s = (Inr a, s') \<Longrightarrow> Q a s'" and "m s = (Inl f, s') \<Longrightarrow> E f s'"
  using assms by (auto simp: safe_def split: prod.splits sum.splits dest!: spec [where x = s])

lemma safe_keeps: "safe I m (\<lambda>_. I) (\<lambda>_. I) \<Longrightarrow> keeps I m"
  unfolding safe_def keeps_def
proof (intro allI impI)
  fix s
  assume "\<forall>s. I s \<longrightarrow> (case m s of (Inr a, s') \<Rightarrow> I s' | (Inl f, s') \<Rightarrow> I s')" "I s"
  then show "I (snd (m s))" by (cases "m s"; cases "fst (m s)") (auto dest: spec [where x = s])
qed

subsection \<open>Relations between the states before and after\<close>

locale progress =
  fixes R :: "'s \<Rightarrow> 's \<Rightarrow> bool"
  assumes R_refl: "R s s"
    and R_trans: "R s t \<Longrightarrow> R t u \<Longrightarrow> R s u"
begin

definition moves :: "('s, 'e, 'a) se \<Rightarrow> bool" where
  "moves m \<longleftrightarrow> (\<forall>s. R s (snd (m s)))"

lemma moves_pure: "moves (ret a)" "moves (throw e)" "moves panic" "moves (lift r)" "moves (query f)"
  by (simp_all add: moves_def se_defs R_refl)

lemma moves_andthen: "moves m \<Longrightarrow> (\<And>a. moves (f a)) \<Longrightarrow> moves (andthen m f)"
  unfolding moves_def andthen_def
  by (auto split: prod.splits sum.splits) (metis R_trans snd_conv)+

lemma moves_followed: "moves m \<Longrightarrow> moves n \<Longrightarrow> moves (followed m n)"
  by (simp add: followed_def moves_andthen)

lemma moves_modify: "(\<And>s. R s (f s)) \<Longrightarrow> moves (modify f)"
  by (simp add: moves_def modify_def)

lemma moves_with_state: "(\<And>s. moves (f s)) \<Longrightarrow> moves (with_state f)"
  by (simp add: moves_def with_state_def)

lemma moves_when: "(b \<Longrightarrow> moves m) \<Longrightarrow> moves (when_se b m)"
  by (simp add: when_se_def moves_pure)

lemma moves_for_each: "(\<And>x. x \<in> set xs \<Longrightarrow> moves (f x)) \<Longrightarrow> moves (for_each f xs)"
  by (induction xs) (auto intro: moves_pure moves_followed)

lemma moves_while: "moves b \<Longrightarrow> moves (while_se n C b)"
  by (induction n) (auto intro!: moves_pure moves_followed moves_with_state)

lemmas moves_rules = moves_pure moves_andthen moves_followed moves_modify moves_with_state
  moves_when moves_for_each moves_while

end

end
