(* ===== verification/Health.thy ===== *)
theory Health
  imports Model_Types
begin

text \<open>
  Health facts, issues, metric support and the health report with its validator
  (\<open>t32perf-model/src/health.rs\<close>).
\<close>

datatype health_verdict = Valid | Degraded | Invalid

fun verdict_rank :: "health_verdict \<Rightarrow> nat" where
  "verdict_rank Valid = 0"
| "verdict_rank Degraded = 1"
| "verdict_rank Invalid = 2"

definition allows_quantitative_results :: "health_verdict \<Rightarrow> bool" where
  "allows_quantitative_results v \<longleftrightarrow> v = Valid"

definition allows_strict_comparison :: "health_verdict \<Rightarrow> bool" where
  "allows_strict_comparison v \<longleftrightarrow> v = Valid"

datatype health_severity = Info | Warning | Error | Fatal

fun severity_rank :: "health_severity \<Rightarrow> nat" where
  "severity_rank Info = 0"
| "severity_rank Warning = 1"
| "severity_rank Error = 2"
| "severity_rank Fatal = 3"

lemma severity_rank_inject: "severity_rank a = severity_rank b \<longleftrightarrow> a = b"
  by (cases a; cases b) simp_all

instantiation health_severity :: linorder
begin

definition less_eq_health_severity :: "health_severity \<Rightarrow> health_severity \<Rightarrow> bool" where
  "less_eq_health_severity a b \<longleftrightarrow> severity_rank a \<le> severity_rank b"

definition less_health_severity :: "health_severity \<Rightarrow> health_severity \<Rightarrow> bool" where
  "less_health_severity a b \<longleftrightarrow> severity_rank a < severity_rank b"

instance
  by standard (auto simp: less_eq_health_severity_def less_health_severity_def severity_rank_inject)

end

record health_observation =
  ho_code :: string
  ho_source :: string
  ho_artifact_id :: "string option"
  ho_record :: "u64 option"
  ho_start_ns :: "timestamp_ns option"
  ho_end_ns :: "timestamp_ns option"
  ho_evidence :: properties

record health_issue =
  hi_code :: string
  hi_severity :: health_severity
  hi_source :: string
  hi_artifact_id :: "string option"
  hi_record :: "u64 option"
  hi_start_ns :: "timestamp_ns option"
  hi_end_ns :: "timestamp_ns option"
  hi_evidence :: properties
  hi_message :: string

datatype support_level = Exact | Inferred | Statistical | Unavailable

record support_entry =
  se_support :: support_level
  se_reasons :: "string list"

definition support_new :: "support_level \<Rightarrow> support_entry" where
  "support_new l = \<lparr>se_support = l, se_reasons = []\<rparr>"

definition support_unavailable :: "string \<Rightarrow> support_entry" where
  "support_unavailable r = \<lparr>se_support = Unavailable, se_reasons = [r]\<rparr>"

record metric_support =
  mx_function_timeline :: support_entry
  mx_call_count :: support_entry
  mx_elapsed :: support_entry
  mx_active :: support_entry
  mx_self_time :: support_entry
  mx_task_timeline :: support_entry
  mx_isr_timeline :: support_entry
  mx_resource_counters :: support_entry

definition support_uniform :: "support_level \<Rightarrow> metric_support" where
  "support_uniform l =
     (let e = support_new l in
      \<lparr>mx_function_timeline = e, mx_call_count = e, mx_elapsed = e, mx_active = e, mx_self_time = e,
       mx_task_timeline = e, mx_isr_timeline = e, mx_resource_counters = e\<rparr>)"

record health_report =
  hr_session_id :: string
  hr_verdict :: health_verdict
  hr_policy_version :: string
  hr_observations :: "health_observation list"
  hr_issues :: "health_issue list"
  hr_metric_support :: metric_support

subsection \<open>Validation\<close>

datatype health_error =
    HealthEmptyField string
  | InvalidInterval string timestamp_ns timestamp_ns
  | UnavailableWithoutReason string
  | NonExactWithoutReason string support_level
  | EmptySupportReason string
  | DuplicateSupportReason string string
  | VerdictUnderstatesSeverity health_verdict health_severity

definition validate_required :: "string \<Rightarrow> string \<Rightarrow> (health_error, unit) res" where
  "validate_required fld v = ensure (\<not> blank v) (HealthEmptyField fld)"

definition validate_optional :: "string \<Rightarrow> string option \<Rightarrow> (health_error, unit) res" where
  "validate_optional fld v = (case v of None \<Rightarrow> Inr () | Some v \<Rightarrow> validate_required fld v)"

definition ordered_interval :: "timestamp_ns option \<Rightarrow> timestamp_ns option \<Rightarrow> bool" where
  "ordered_interval s e = (case (s, e) of (Some s, Some e) \<Rightarrow> s \<le> e | _ \<Rightarrow> True)"

definition validate_interval :: "string \<Rightarrow> timestamp_ns option \<Rightarrow> timestamp_ns option
    \<Rightarrow> (health_error, unit) res" where
  "validate_interval code s e =
     (case (s, e) of
        (Some s, Some e) \<Rightarrow> ensure (\<not> e < s) (InvalidInterval code s e)
      | _ \<Rightarrow> Inr ())"

fun verdict_covers :: "health_verdict \<Rightarrow> health_severity \<Rightarrow> bool" where
  "verdict_covers Valid s \<longleftrightarrow> s = Info"
| "verdict_covers Degraded s \<longleftrightarrow> s \<le> Warning"
| "verdict_covers Invalid s \<longleftrightarrow> True"

fun validate_reasons :: "string \<Rightarrow> string list \<Rightarrow> string list \<Rightarrow> (health_error, unit) res" where
  "validate_reasons metric seen [] = Inr ()"
| "validate_reasons metric seen (r # rs) =
     (if blank r then Inl (Err (EmptySupportReason metric))
      else if r \<in> set seen then Inl (Err (DuplicateSupportReason metric r))
      else validate_reasons metric (r # seen) rs)"

definition validate_support :: "string \<Rightarrow> support_entry \<Rightarrow> (health_error, unit) res" where
  "validate_support metric e =
     (if se_support e \<noteq> Exact \<and> se_reasons e = [] then
        (if se_support e = Unavailable then Inl (Err (UnavailableWithoutReason metric))
         else Inl (Err (NonExactWithoutReason metric (se_support e))))
      else validate_reasons metric [] (se_reasons e))"

definition at_index :: "string \<Rightarrow> nat \<Rightarrow> string \<Rightarrow> string" where
  "at_index coll i fld = coll @ ''['' @ dec (int i) @ ''].'' @ fld"

definition validate_health_observation :: "nat \<Rightarrow> health_observation \<Rightarrow> (health_error, unit) res" where
  "validate_health_observation i h =
     rthen (validate_required (at_index ''observations'' i ''code'') (ho_code h))
       (rthen (validate_required (at_index ''observations'' i ''source'') (ho_source h))
         (rthen (validate_optional (at_index ''observations'' i ''artifact_id'') (ho_artifact_id h))
           (validate_interval (ho_code h) (ho_start_ns h) (ho_end_ns h))))"

definition validate_health_issue :: "nat \<Rightarrow> health_issue \<Rightarrow> (health_error, unit) res" where
  "validate_health_issue i h =
     rthen (validate_required (at_index ''issues'' i ''code'') (hi_code h))
       (rthen (validate_required (at_index ''issues'' i ''source'') (hi_source h))
         (rthen (validate_required (at_index ''issues'' i ''message'') (hi_message h))
           (rthen (validate_optional (at_index ''issues'' i ''artifact_id'') (hi_artifact_id h))
             (validate_interval (hi_code h) (hi_start_ns h) (hi_end_ns h)))))"

definition support_entries :: "metric_support \<Rightarrow> (string \<times> support_entry) list" where
  "support_entries m =
     [(''function_timeline'', mx_function_timeline m), (''call_count'', mx_call_count m),
      (''elapsed'', mx_elapsed m), (''active'', mx_active m), (''self'', mx_self_time m),
      (''task_timeline'', mx_task_timeline m), (''isr_timeline'', mx_isr_timeline m),
      (''resource_counters'', mx_resource_counters m)]"

definition validate_verdict :: "health_report \<Rightarrow> (health_error, unit) res" where
  "validate_verdict h =
     (case map hi_severity (hr_issues h) of
        [] \<Rightarrow> Inr ()
      | s # ss \<Rightarrow>
          let severity = fold max ss s in
          ensure (verdict_covers (hr_verdict h) severity)
            (VerdictUnderstatesSeverity (hr_verdict h) severity))"

definition validate_health_report :: "health_report \<Rightarrow> (health_error, unit) res" where
  "validate_health_report h =
     rthen (validate_required ''session_id'' (hr_session_id h))
       (rthen (validate_required ''policy_version'' (hr_policy_version h))
         (rthen (each (\<lambda>(i, x). validate_health_observation i x) (enumerate 0 (hr_observations h)))
           (rthen (each (\<lambda>(i, x). validate_health_issue i x) (enumerate 0 (hr_issues h)))
             (rthen (validate_verdict h)
               (each (\<lambda>(m, e). validate_support m e) (support_entries (hr_metric_support h)))))))"

subsection \<open>What a valid report says\<close>

lemma validate_required_Inr [simp]: "validate_required fld v = Inr () \<longleftrightarrow> \<not> blank v"
  by (simp add: validate_required_def)

lemma validate_optional_Inr [simp]:
  "validate_optional fld v = Inr () \<longleftrightarrow> (\<forall>s. v = Some s \<longrightarrow> \<not> blank s)"
  by (simp add: validate_optional_def split: option.splits)

lemma validate_interval_Inr [simp]: "validate_interval code s e = Inr () \<longleftrightarrow> ordered_interval s e"
  by (auto simp: validate_interval_def ordered_interval_def not_less split: option.splits)

lemma validate_reasons_Inr:
  "validate_reasons metric seen rs = Inr () \<longleftrightarrow>
     (\<forall>r\<in>set rs. \<not> blank r) \<and> distinct rs \<and> set rs \<inter> set seen = {}"
  by (induction metric seen rs rule: validate_reasons.induct) auto

lemma validate_support_Inr:
  "validate_support metric e = Inr () \<longleftrightarrow>
     (se_support e \<noteq> Exact \<longrightarrow> se_reasons e \<noteq> []) \<and> (\<forall>r\<in>set (se_reasons e). \<not> blank r)
     \<and> distinct (se_reasons e)"
  by (auto simp: validate_support_def validate_reasons_Inr)

lemma fold_max_le: "fold max ss s \<le> t \<longleftrightarrow> s \<le> t \<and> (\<forall>x\<in>set ss. x \<le> (t :: 'a::linorder))"
  by (induction ss arbitrary: s) auto

lemma verdict_covers_max:
  "verdict_covers v (fold max ss s) \<longleftrightarrow> (\<forall>x\<in>set (s # ss). verdict_covers v x)"
proof -
  have Info: "x = Info \<longleftrightarrow> x \<le> Info" for x by (cases x) (auto simp: less_eq_health_severity_def)
  show ?thesis
    by (cases v) (simp_all add: Info fold_max_le)
qed

definition observation_well_formed :: "health_observation \<Rightarrow> bool" where
  "observation_well_formed h \<longleftrightarrow>
     \<not> blank (ho_code h) \<and> \<not> blank (ho_source h) \<and> (\<forall>a. ho_artifact_id h = Some a \<longrightarrow> \<not> blank a)
     \<and> ordered_interval (ho_start_ns h) (ho_end_ns h)"

definition issue_well_formed :: "health_issue \<Rightarrow> bool" where
  "issue_well_formed h \<longleftrightarrow>
     \<not> blank (hi_code h) \<and> \<not> blank (hi_source h) \<and> \<not> blank (hi_message h)
     \<and> (\<forall>a. hi_artifact_id h = Some a \<longrightarrow> \<not> blank a)
     \<and> ordered_interval (hi_start_ns h) (hi_end_ns h)"

definition support_well_formed :: "support_entry \<Rightarrow> bool" where
  "support_well_formed e \<longleftrightarrow>
     (se_support e \<noteq> Exact \<longrightarrow> se_reasons e \<noteq> []) \<and> (\<forall>r\<in>set (se_reasons e). \<not> blank r)
     \<and> distinct (se_reasons e)"

lemma validate_health_report_Inr:
  "validate_health_report h = Inr () \<longleftrightarrow>
     \<not> blank (hr_session_id h) \<and> \<not> blank (hr_policy_version h)
     \<and> (\<forall>x\<in>set (hr_observations h). observation_well_formed x)
     \<and> (\<forall>x\<in>set (hr_issues h). issue_well_formed x)
     \<and> (\<forall>x\<in>set (hr_issues h). verdict_covers (hr_verdict h) (hi_severity x))
     \<and> (\<forall>e\<in>snd ` set (support_entries (hr_metric_support h)). support_well_formed e)"
proof -
  have o': "each (\<lambda>(i, x). validate_health_observation i x) (enumerate n xs) = Inr () \<longleftrightarrow>
      (\<forall>x\<in>set xs. observation_well_formed x)" for n xs
    by (induction xs arbitrary: n)
      (auto simp: rthen_eq_Inr validate_health_observation_def observation_well_formed_def)
  have i: "each (\<lambda>(i, x). validate_health_issue i x) (enumerate n xs) = Inr () \<longleftrightarrow>
      (\<forall>x\<in>set xs. issue_well_formed x)" for n xs
    by (induction xs arbitrary: n)
      (auto simp: rthen_eq_Inr validate_health_issue_def issue_well_formed_def)
  have s: "each (\<lambda>(m, e). validate_support m e) xs = Inr () \<longleftrightarrow> (\<forall>e\<in>snd ` set xs. support_well_formed e)" for xs
    by (induction xs) (auto simp: rthen_eq_Inr validate_support_Inr support_well_formed_def)
  have v: "validate_verdict h = Inr () \<longleftrightarrow> (\<forall>x\<in>set (hr_issues h). verdict_covers (hr_verdict h) (hi_severity x))"
  proof (cases "hr_issues h")
    case (Cons a as)
    then show ?thesis by (simp add: validate_verdict_def Let_def verdict_covers_max)
  qed (simp add: validate_verdict_def)
  show ?thesis
    unfolding validate_health_report_def rthen_eq_Inr by (simp add: o' i s v)
qed

end
