(* ===== verification/Health_Policy.thy ===== *)
theory Health_Policy
  imports Health
begin

text \<open>
  The host health policy (\<open>t32perf-analysis/src/health_policy.rs\<close>): it turns the facts of a
  capture into issues, a verdict and the support of every metric.
\<close>

text \<open>Declared capabilities (\<open>t32perf-analysis/src/types.rs\<close>).\<close>

record analysis_capabilities =
  cap_function_events :: support_entry
  cap_context_switches :: support_entry
  cap_interrupt_events :: support_entry
  cap_samples :: support_entry
  cap_resource_counters :: support_entry

definition missing_receipt_support :: "string \<Rightarrow> support_entry" where
  "missing_receipt_support family =
     \<lparr>se_support = Unavailable, se_reasons = [''capture_receipt_missing:'' @ family]\<rparr>"

definition default_capabilities :: analysis_capabilities where
  "default_capabilities =
     \<lparr>cap_function_events = missing_receipt_support ''function_events'',
      cap_context_switches = missing_receipt_support ''context_switches'',
      cap_interrupt_events = missing_receipt_support ''interrupt_events'',
      cap_samples = missing_receipt_support ''samples'',
      cap_resource_counters = missing_receipt_support ''resource_counters''\<rparr>"

definition exact_program_flow :: analysis_capabilities where
  "exact_program_flow =
     \<lparr>cap_function_events = support_new Exact, cap_context_switches = support_new Exact,
      cap_interrupt_events = support_new Exact,
      cap_samples = \<lparr>se_support = Unavailable, se_reasons = [''samples_not_declared'']\<rparr>,
      cap_resource_counters = support_new Exact\<rparr>"

subsection \<open>Rules\<close>

datatype metric_impact =
    AllUnavailable
  | FunctionUnavailable
  | InterruptUnavailable
  | ContextUnavailable
  | ImpactGap
  | ContextInferred
  | ResourceUnavailable
  | NoImpact

record issue_rule =
  ir_severity :: health_severity
  ir_verdict :: health_verdict
  ir_message :: string
  ir_impact :: metric_impact

definition fatal_rule :: "string \<Rightarrow> metric_impact \<Rightarrow> issue_rule" where
  "fatal_rule m i = \<lparr>ir_severity = Fatal, ir_verdict = Invalid, ir_message = m, ir_impact = i\<rparr>"

definition error_rule :: "string \<Rightarrow> metric_impact \<Rightarrow> issue_rule" where
  "error_rule m i = \<lparr>ir_severity = Error, ir_verdict = Invalid, ir_message = m, ir_impact = i\<rparr>"

definition warning_rule :: "string \<Rightarrow> metric_impact \<Rightarrow> issue_rule" where
  "warning_rule m i = \<lparr>ir_severity = Warning, ir_verdict = Degraded, ir_message = m, ir_impact = i\<rparr>"

definition unknown_health_fact_rule :: issue_rule where
  "unknown_health_fact_rule =
     fatal_rule ''The health policy does not recognize this source fact.'' AllUnavailable"

text \<open>The arms of the \<open>match\<close>, in order.\<close>

definition issue_rules :: "(string list \<times> issue_rule) list" where
  "issue_rules =
     [([''trace_overflow''],
       fatal_rule ''The trace source overflowed and lost program-flow data.'' AllUnavailable),
      ([''flow_error''],
       fatal_rule ''The decoded program flow is invalid.'' AllUnavailable),
      ([''sampling_buffer_full''],
       fatal_rule ''The bounded sampling buffer became full before the requested capture stop.'' AllUnavailable),
      ([''sampling_unexpected_stop''],
       fatal_rule ''Real-time program-counter sampling stopped before the request for an unclassified reason.'' AllUnavailable),
      ([''truncated_input''],
       fatal_rule ''The input artifact is truncated.'' AllUnavailable),
      ([''malformed_input''],
       fatal_rule ''The input artifact violates the canonical observation format.'' AllUnavailable),
      ([''elf_mismatch''],
       fatal_rule ''The firmware ELF does not match the captured program.'' FunctionUnavailable),
      ([''out_of_order_timestamp'', ''out_of_order_sequence''],
       fatal_rule ''Observation order is not monotonic.'' AllUnavailable),
      ([''timestamp_discontinuity''],
       fatal_rule ''The hardware capture reported an unexplained timestamp discontinuity.'' AllUnavailable),
      ([''program_flow_unclosed''],
       fatal_rule ''The hardware capture could not prove program-flow closure.'' AllUnavailable),
      ([''unmatched_function_exit'', ''mismatched_function_exit'', ''unclosed_function''],
       error_rule ''Function activation records do not form a closed stack.'' FunctionUnavailable),
      ([''unmatched_interrupt_exit'', ''mismatched_interrupt_exit'', ''unclosed_interrupt''],
       error_rule ''Interrupt activation records do not form a closed stack.'' InterruptUnavailable),
      ([''duplicate_interrupt_activation''],
       error_rule ''An interrupt activation identifier was reused before its prior activation ended.'' InterruptUnavailable),
      ([''duplicate_span_begin'', ''unmatched_span_end'', ''unclosed_span'', ''duplicate_async_begin'', ''unmatched_async_end'', ''unclosed_async'', ''open_custom_span_limit_exceeded''],
       error_rule ''Custom span boundaries are inconsistent or exceed the configured resident-state limit.'' NoImpact),
      ([''context_mismatch'', ''context_switch_mismatch'', ''concurrent_context''],
       error_rule ''Execution-context attribution is inconsistent.'' ContextUnavailable),
      ([''timestamp_overflow'', ''duration_overflow''],
       error_rule ''A timestamp or duration cannot be represented safely.'' AllUnavailable),
      ([''diagnostics_truncated''],
       fatal_rule ''Health diagnostics exceeded their configured retention limit.'' AllUnavailable),
      ([''invalid_health_observation''],
       fatal_rule ''A health observation has an empty code or source identity.'' AllUnavailable),
      ([''invalid_health_policy_identity''],
       fatal_rule ''The health policy version identity is empty.'' AllUnavailable),
      ([''trace_gap''],
       warning_rule ''The trace contains a bounded interval without reliable observations.'' ImpactGap),
      ([''missing_scheduled_context''],
       warning_rule ''Running time could not be assigned to a scheduled context.'' ContextInferred),
      ([''invalid_resource_counter''],
       warning_rule ''A resource counter contains an invalid value.'' ResourceUnavailable),
      ([''invalid_resource_counter_definition'', ''resource_counter_unit_mismatch''],
       error_rule ''A resource counter definition violates its explicit semantic contract.'' ResourceUnavailable),
      ([''resource_counter_subject_conflict''],
       error_rule ''Two resource counters claim the same semantic subject identity.'' ResourceUnavailable),
      ([''resource_counter_out_of_range''],
       warning_rule ''A resource counter value is outside its semantic range.'' ResourceUnavailable),
      ([''resource_counter_not_monotonic''],
       warning_rule ''A monotonic or high-watermark resource counter decreased.'' ResourceUnavailable),
      ([''resource_counter_invariant_violation''],
       warning_rule ''Related resource counters violate a declared capacity or ordering invariant.'' ResourceUnavailable),
      ([''resource_counter_window_incomplete''],
       warning_rule ''A resource-counter derivation window is incomplete.'' ResourceUnavailable)]"

definition issue_rule_of :: "string \<Rightarrow> issue_rule option" where
  "issue_rule_of code = map_option snd (find (\<lambda>arm. code \<in> set (fst arm)) issue_rules)"

definition normalize_code :: "string \<Rightarrow> string" where
  "normalize_code code =
     (let n = replace_chars [CHR ''-'', CHR '' ''] (CHR ''_'') (to_ascii_lowercase (trim code)) in
      if n \<in> {''overflow'', ''capture_overflow''} then ''trace_overflow''
      else if n = ''trace_flow_error'' then ''flow_error''
      else if n \<in> {''truncation'', ''truncated'', ''trace_truncated''} then ''truncated_input''
      else if n = ''firmware_mismatch'' then ''elf_mismatch''
      else n)"

subsection \<open>Bounded identity evidence\<close>

definition max_retained_code_bytes :: nat where
  "max_retained_code_bytes = 256"

definition len_utf8 :: "char \<Rightarrow> nat" where
  "len_utf8 c =
     (let b = (of_char c :: nat) in
      if b < 0xC0 then 1 else if b < 0xE0 then 2 else if b < 0xF0 then 3 else 4)"

lemma len_utf8_pos [simp]: "0 < len_utf8 c"
  by (simp add: len_utf8_def Let_def)

function bounded_end :: "nat \<Rightarrow> string \<Rightarrow> nat" where
  "bounded_end index [] = index"
| "bounded_end index (c # cs) =
     (let next = index + len_utf8 c in
      if max_retained_code_bytes < next then index
      else bounded_end next (drop (len_utf8 c) (c # cs)))"
  by pat_completeness auto
termination
  by (relation "measure (\<lambda>(_, s). length s)") auto

definition bounded_unknown_health_code :: "string \<Rightarrow> string \<times> bool" where
  "bounded_unknown_health_code code =
     (if length code \<le> max_retained_code_bytes then (code, False)
      else (take (bounded_end 0 code) code, True))"

definition insert_bounded_identity_evidence :: "string \<Rightarrow> string \<Rightarrow> properties \<Rightarrow> properties" where
  "insert_bounded_identity_evidence fld value ev =
     (case bounded_unknown_health_code value of (v, truncated) \<Rightarrow>
        let ev' = bt_insert fld (JStr v) ev in
        if truncated then bt_insert (fld @ ''_truncated'') (JBool True) ev' else ev')"

definition canonicalize_observation :: "health_observation \<Rightarrow> health_observation" where
  "canonicalize_observation h =
     (let empty_code = normalize_code (ho_code h) = [];
          empty_source = blank (ho_source h)
      in if \<not> empty_code \<and> \<not> empty_source then h
         else h\<lparr>ho_code := ''invalid_health_observation'', ho_source := ''health_policy'',
                ho_evidence :=
                  insert_bounded_identity_evidence ''original_source'' (ho_source h)
                    (insert_bounded_identity_evidence ''original_code'' (ho_code h)
                      (bt_insert ''empty_source'' (JBool empty_source)
                        (bt_insert ''empty_code'' (JBool empty_code) (ho_evidence h))))\<rparr>)"

subsection \<open>Support\<close>

fun support_rank :: "support_level \<Rightarrow> nat" where
  "support_rank Exact = 0"
| "support_rank Inferred = 1"
| "support_rank Statistical = 2"
| "support_rank Unavailable = 3"

definition raise_level :: "support_level \<Rightarrow> support_entry \<Rightarrow> support_entry" where
  "raise_level l e = (if support_rank (se_support e) < support_rank l then e\<lparr>se_support := l\<rparr> else e)"

definition push_reason :: "string \<Rightarrow> support_entry \<Rightarrow> support_entry" where
  "push_reason r e = (if r \<in> set (se_reasons e) then e else e\<lparr>se_reasons := se_reasons e @ [r]\<rparr>)"

definition lower :: "support_level \<Rightarrow> string \<Rightarrow> support_entry \<Rightarrow> support_entry" where
  "lower l r e = push_reason r (raise_level l e)"

definition append_declared_reasons :: "support_entry \<Rightarrow> support_entry \<Rightarrow> support_entry" where
  "append_declared_reasons declared e = fold push_reason (se_reasons declared) e"

fun support_debug :: "support_level \<Rightarrow> string" where
  "support_debug Exact = ''Exact''"
| "support_debug Inferred = ''Inferred''"
| "support_debug Statistical = ''Statistical''"
| "support_debug Unavailable = ''Unavailable''"

definition merge_declared_support :: "support_entry \<Rightarrow> string \<Rightarrow> support_entry \<Rightarrow> support_entry" where
  "merge_declared_support declared family e =
     (let e' = append_declared_reasons declared (raise_level (se_support declared) e) in
      if se_support declared \<noteq> Exact \<and> se_reasons declared = []
      then push_reason (to_ascii_lowercase (family @ '':'' @ support_debug (se_support declared))) e'
      else e')"

text \<open>The blocks of \<open>support_from_capabilities\<close>, in the order of the code.\<close>

definition function_support :: "analysis_capabilities \<Rightarrow> metric_support \<Rightarrow> metric_support" where
  "function_support cap m =
     (let f = cap_function_events cap;
          merge = merge_declared_support f ''function_events'';
          m1 = m\<lparr>mx_function_timeline := merge (mx_function_timeline m),
                 mx_call_count := merge (mx_call_count m), mx_elapsed := merge (mx_elapsed m)\<rparr>
      in if se_support f = Unavailable then
           (let a = append_declared_reasons f (mx_active m1);
                a' = (if se_support (cap_samples cap) = Unavailable
                      then lower Unavailable ''function_events_and_samples_unavailable'' a
                      else append_declared_reasons (cap_samples cap)
                             (lower Statistical ''active_time_estimated_from_samples'' a))
            in m1\<lparr>mx_active := a',
                  mx_self_time := append_declared_reasons f
                    (lower Unavailable ''function_events_unavailable'' (mx_self_time m1))\<rparr>)
         else m1\<lparr>mx_active := merge (mx_active m1), mx_self_time := merge (mx_self_time m1)\<rparr>)"

text \<open>The effect of context switches and interrupts on active and self time.\<close>

definition derived_time_support :: "support_entry \<Rightarrow> string \<Rightarrow> metric_support \<Rightarrow> metric_support" where
  "derived_time_support declared family m =
     (let f = (if se_support declared = Unavailable
               then (\<lambda>e. append_declared_reasons declared (lower Inferred (family @ ''_unavailable'') e))
               else merge_declared_support declared family)
      in m\<lparr>mx_active := f (mx_active m), mx_self_time := f (mx_self_time m)\<rparr>)"

definition context_support :: "analysis_capabilities \<Rightarrow> metric_support \<Rightarrow> metric_support" where
  "context_support cap m =
     derived_time_support (cap_context_switches cap) ''context_switches''
       (m\<lparr>mx_task_timeline :=
            merge_declared_support (cap_context_switches cap) ''context_switches'' (mx_task_timeline m)\<rparr>)"

definition interrupt_support :: "analysis_capabilities \<Rightarrow> metric_support \<Rightarrow> metric_support" where
  "interrupt_support cap m =
     derived_time_support (cap_interrupt_events cap) ''interrupt_events''
       (m\<lparr>mx_isr_timeline :=
            merge_declared_support (cap_interrupt_events cap) ''interrupt_events'' (mx_isr_timeline m)\<rparr>)"

definition support_from_capabilities :: "analysis_capabilities \<Rightarrow> metric_support" where
  "support_from_capabilities cap =
     (let m = interrupt_support cap (context_support cap (function_support cap (support_uniform Exact)))
      in m\<lparr>mx_resource_counters :=
             merge_declared_support (cap_resource_counters cap) ''resource_counters'' (mx_resource_counters m)\<rparr>)"

fun apply_metric_impact :: "metric_impact \<Rightarrow> string \<Rightarrow> metric_support \<Rightarrow> metric_support" where
  "apply_metric_impact AllUnavailable r m =
     (let f = lower Unavailable r in
      m\<lparr>mx_function_timeline := f (mx_function_timeline m), mx_call_count := f (mx_call_count m),
        mx_elapsed := f (mx_elapsed m), mx_active := f (mx_active m), mx_self_time := f (mx_self_time m),
        mx_task_timeline := f (mx_task_timeline m), mx_isr_timeline := f (mx_isr_timeline m),
        mx_resource_counters := f (mx_resource_counters m)\<rparr>)"
| "apply_metric_impact FunctionUnavailable r m =
     (let f = lower Unavailable r in
      m\<lparr>mx_function_timeline := f (mx_function_timeline m), mx_call_count := f (mx_call_count m),
        mx_elapsed := f (mx_elapsed m), mx_active := f (mx_active m), mx_self_time := f (mx_self_time m)\<rparr>)"
| "apply_metric_impact InterruptUnavailable r m =
     (let f = lower Unavailable r in
      m\<lparr>mx_isr_timeline := f (mx_isr_timeline m), mx_active := f (mx_active m),
        mx_self_time := f (mx_self_time m)\<rparr>)"
| "apply_metric_impact ContextUnavailable r m =
     (let f = lower Unavailable r in
      m\<lparr>mx_task_timeline := f (mx_task_timeline m), mx_active := f (mx_active m),
        mx_self_time := f (mx_self_time m)\<rparr>)"
| "apply_metric_impact ImpactGap r m =
     (let f = lower Inferred r; u = lower Unavailable r in
      m\<lparr>mx_function_timeline := f (mx_function_timeline m), mx_call_count := u (mx_call_count m),
        mx_elapsed := f (mx_elapsed m), mx_active := f (mx_active m), mx_self_time := f (mx_self_time m),
        mx_task_timeline := f (mx_task_timeline m), mx_isr_timeline := f (mx_isr_timeline m),
        mx_resource_counters := u (mx_resource_counters m)\<rparr>)"
| "apply_metric_impact ContextInferred r m =
     (let f = lower Inferred r in
      m\<lparr>mx_task_timeline := f (mx_task_timeline m), mx_active := f (mx_active m),
        mx_self_time := f (mx_self_time m)\<rparr>)"
| "apply_metric_impact ResourceUnavailable r m =
     m\<lparr>mx_resource_counters := lower Unavailable r (mx_resource_counters m)\<rparr>"
| "apply_metric_impact NoImpact r m = m"

subsection \<open>Evaluation\<close>

fun combine_verdict :: "health_verdict \<Rightarrow> health_verdict \<Rightarrow> health_verdict" where
  "combine_verdict Invalid _ = Invalid"
| "combine_verdict _ Invalid = Invalid"
| "combine_verdict Degraded _ = Degraded"
| "combine_verdict _ Degraded = Degraded"
| "combine_verdict Valid Valid = Valid"

text \<open>The code, the rule and the evidence of one canonical fact; the \<open>unreachable!\<close> arm panics. There is no
  other failure.\<close>

definition classify_fact :: "health_observation \<Rightarrow> (unit, string \<times> issue_rule \<times> properties) res" where
  "classify_fact h =
     (let normalized = normalize_code (ho_code h) in
      case issue_rule_of normalized of
        Some rule \<Rightarrow> Inr (normalized, rule, ho_evidence h)
      | None \<Rightarrow>
          if normalized \<noteq> [] then
            (case bounded_unknown_health_code (ho_code h) of (original, truncated) \<Rightarrow>
               let ev = bt_insert ''original_code'' (JStr original) (ho_evidence h);
                   ev' = (if truncated then bt_insert ''original_code_truncated'' (JBool True) ev else ev)
               in Inr (''unknown_health_fact'', unknown_health_fact_rule, ev'))
          else Inl Panic)"

definition issue_of :: "health_observation \<Rightarrow> string \<Rightarrow> issue_rule \<Rightarrow> properties \<Rightarrow> health_issue" where
  "issue_of h code rule ev =
     \<lparr>hi_code = code, hi_severity = ir_severity rule, hi_source = ho_source h,
      hi_artifact_id = ho_artifact_id h, hi_record = ho_record h, hi_start_ns = ho_start_ns h,
      hi_end_ns = ho_end_ns h, hi_evidence = ev, hi_message = ir_message rule\<rparr>"

record policy_state =
  ps_verdict :: health_verdict
  ps_support :: metric_support
  ps_issues :: "health_issue list"
  ps_observations :: "health_observation list"

definition evaluate_fact :: "health_observation \<Rightarrow> policy_state \<Rightarrow> (unit, policy_state) res" where
  "evaluate_fact h0 ps =
     (let h = canonicalize_observation h0 in
      rbind (classify_fact h) (\<lambda>(code, rule, ev).
        Inr \<lparr>ps_verdict = combine_verdict (ps_verdict ps) (ir_verdict rule),
             ps_support = apply_metric_impact (ir_impact rule) code (ps_support ps),
             ps_issues = ps_issues ps @ [issue_of h code rule ev],
             ps_observations = ps_observations ps @ [h]\<rparr>))"

fun evaluate_facts :: "health_observation list \<Rightarrow> policy_state \<Rightarrow> (unit, policy_state) res" where
  "evaluate_facts [] ps = Inr ps"
| "evaluate_facts (h # hs) ps = rbind (evaluate_fact h ps) (evaluate_facts hs)"

text \<open>\<open>HealthPolicy\<close> is its version string.\<close>

definition evaluate_policy :: "string \<Rightarrow> string \<Rightarrow> health_observation list \<Rightarrow> analysis_capabilities
    \<Rightarrow> ('e, health_report) res" where
  "evaluate_policy version session_id facts cap =
     (case evaluate_facts facts
             \<lparr>ps_verdict = Valid, ps_support = support_from_capabilities cap, ps_issues = [],
              ps_observations = []\<rparr> of
        Inl _ \<Rightarrow> Inl Panic
      | Inr ps \<Rightarrow>
          Inr \<lparr>hr_session_id = session_id, hr_verdict = ps_verdict ps, hr_policy_version = version,
               hr_observations = ps_observations ps, hr_issues = ps_issues ps,
               hr_metric_support = ps_support ps\<rparr>)"

definition default_policy_version :: string where
  "default_policy_version = ''t32perf.health-policy/v1''"

subsection \<open>Normalized codes\<close>

definition code_char :: "char \<Rightarrow> char" where
  "code_char c = (if ascii_lower_char c \<in> {CHR ''-'', CHR '' ''} then CHR ''_'' else ascii_lower_char c)"

lemma ascii_lower_char_range:
  "ascii_lower_char c = c \<or> (97 \<le> (of_char (ascii_lower_char c) :: nat) \<and> (of_char (ascii_lower_char c) :: nat) \<le> 122)"
  by (auto simp: ascii_lower_char_def less_eq_char_def)

lemma code_char_ws: "code_char c \<in> set (concat utf8_white_space) \<Longrightarrow> code_char c = c"
proof -
  have "list_all (\<lambda>b. \<not> (95 \<le> (of_char b :: nat) \<and> (of_char b :: nat) \<le> 122)) (concat utf8_white_space)"
    by code_simp
  then have ws: "\<not> (95 \<le> (of_char b :: nat) \<and> (of_char b :: nat) \<le> 122)" if "b \<in> set (concat utf8_white_space)" for b
    using that unfolding list_all_iff by blast
  assume *: "code_char c \<in> set (concat utf8_white_space)"
  show ?thesis
  proof (cases "ascii_lower_char c \<in> {CHR ''-'', CHR '' ''}")
    case True
    then have "code_char c = CHR ''_''" by (simp add: code_char_def)
    with ws [OF *] show ?thesis by simp
  next
    case False
    then have "code_char c = ascii_lower_char c" by (simp add: code_char_def)
    with ws [OF *] ascii_lower_char_range [of c] show ?thesis by auto
  qed
qed

lemma if_chain: "P a \<Longrightarrow> P b \<Longrightarrow> P c \<Longrightarrow> P d \<Longrightarrow> P x \<Longrightarrow>
    P (if q1 then a else if q2 then b else if q3 then c else if q4 then d else x)"
  by simp

lemma normalize_code_not_blank:
  assumes "normalize_code c \<noteq> []"
  shows "\<not> blank (normalize_code c)"
proof -
  let ?n = "replace_chars [CHR ''-'', CHR '' ''] (CHR ''_'') (to_ascii_lowercase (trim c))"
  have n: "?n = map code_char (trim c)"
    by (simp add: replace_chars_def to_ascii_lowercase_def code_char_def)
  have "\<not> has_prefix_in utf8_white_space ?n"
    unfolding n using has_prefix_map [of code_char "trim c"] code_char_ws trim_prefix by blast
  then have x: "?n \<noteq> [] \<longrightarrow> \<not> blank ?n" using not_blank_iff_prefix by blast
  have lit: "\<not> blank ''trace_overflow''" "\<not> blank ''flow_error''" "\<not> blank ''truncated_input''"
    "\<not> blank ''elf_mismatch''" by code_simp+
  have "normalize_code c \<noteq> [] \<longrightarrow> \<not> blank (normalize_code c)"
    unfolding normalize_code_def Let_def
    by (rule if_chain [where P = "\<lambda>y. y \<noteq> [] \<longrightarrow> \<not> blank y"]) (use lit x in blast)+
  with assms show ?thesis by blast
qed

lemma normalize_code_blank: "blank c \<Longrightarrow> normalize_code c = []"
  by (simp add: normalize_code_def blank_def Let_def replace_chars_def to_ascii_lowercase_def)


subsection \<open>The support entries\<close>

definition reasons_ok :: "support_entry \<Rightarrow> bool" where
  "reasons_ok e \<longleftrightarrow> (\<forall>r\<in>set (se_reasons e). \<not> blank r) \<and> distinct (se_reasons e)"

lemma support_well_formed_alt:
  "support_well_formed e \<longleftrightarrow> reasons_ok e \<and> (se_support e \<noteq> Exact \<longrightarrow> se_reasons e \<noteq> [])"
  by (auto simp: support_well_formed_def reasons_ok_def)

lemma push_reason_simps [simp]:
  "se_support (push_reason r e) = se_support e"
  "set (se_reasons (push_reason r e)) = insert r (set (se_reasons e))"
  "reasons_ok (push_reason r e) \<longleftrightarrow> reasons_ok e \<and> (r \<in> set (se_reasons e) \<or> \<not> blank r)"
  by (auto simp: push_reason_def reasons_ok_def)

lemma raise_level_simps [simp]:
  "se_reasons (raise_level l e) = se_reasons e"
  "reasons_ok (raise_level l e) = reasons_ok e"
  "support_rank (se_support (raise_level l e)) = max (support_rank (se_support e)) (support_rank l)"
  by (auto simp: raise_level_def reasons_ok_def)

lemma set_reasons_empty: "se_reasons e = [] \<longleftrightarrow> set (se_reasons e) = {}"
  by simp

lemma append_declared_simps [simp]:
  "se_support (append_declared_reasons d e) = se_support e"
  "set (se_reasons (append_declared_reasons d e)) = set (se_reasons e) \<union> set (se_reasons d)"
  "reasons_ok e \<Longrightarrow> \<forall>r\<in>set (se_reasons d). \<not> blank r \<Longrightarrow> reasons_ok (append_declared_reasons d e)"
proof -
  have "se_support (fold push_reason rs e) = se_support e \<and>
      set (se_reasons (fold push_reason rs e)) = set (se_reasons e) \<union> set rs \<and>
      (reasons_ok e \<longrightarrow> (\<forall>r\<in>set rs. \<not> blank r) \<longrightarrow> reasons_ok (fold push_reason rs e))" for rs
    by (induction rs arbitrary: e) auto
  then show "se_support (append_declared_reasons d e) = se_support e"
    "set (se_reasons (append_declared_reasons d e)) = set (se_reasons e) \<union> set (se_reasons d)"
    "reasons_ok e \<Longrightarrow> \<forall>r\<in>set (se_reasons d). \<not> blank r \<Longrightarrow> reasons_ok (append_declared_reasons d e)"
    by (simp_all add: append_declared_reasons_def)
qed

lemma lower_well_formed:
  "support_well_formed e \<Longrightarrow> \<not> blank r \<Longrightarrow> support_well_formed (lower l r e)"
  by (simp add: support_well_formed_alt lower_def set_reasons_empty del: set_empty)

lemma lower_rank: "support_rank (se_support (lower l r e)) = max (support_rank (se_support e)) (support_rank l)"
  by (simp add: lower_def)

lemma append_well_formed:
  "support_well_formed e \<Longrightarrow> \<forall>r\<in>set (se_reasons d). \<not> blank r \<Longrightarrow>
     support_well_formed (append_declared_reasons d e)"
  by (simp add: support_well_formed_alt set_reasons_empty del: set_empty)

lemma merge_well_formed:
  assumes "support_well_formed e" "\<forall>r\<in>set (se_reasons d). \<not> blank r"
    and "\<And>l. \<not> blank (to_ascii_lowercase (fam @ '':'' @ support_debug l))"
  shows "support_well_formed (merge_declared_support d fam e)"
proof -
  have e: "reasons_ok (append_declared_reasons d (raise_level (se_support d) e))"
    using assms(1,2) by (simp add: support_well_formed_alt)
  have sup: "se_support (raise_level (se_support d) e) \<noteq> Exact \<Longrightarrow> se_support e \<noteq> Exact \<or> se_support d \<noteq> Exact"
    by (auto simp: raise_level_def split: if_splits)
  show ?thesis
  proof (cases "se_support d \<noteq> Exact \<and> se_reasons d = []")
    case True
    then show ?thesis
      using e assms(3) by (simp add: merge_declared_support_def support_well_formed_alt Let_def
          set_reasons_empty del: set_empty)
  next
    case False
    then show ?thesis
      using e sup assms(1)
      by (auto simp: merge_declared_support_def support_well_formed_alt Let_def
          set_reasons_empty simp del: set_empty)
  qed
qed

lemma family_not_blank:
  assumes "fam \<in> {''function_events'', ''context_switches'', ''interrupt_events'', ''resource_counters''}"
  shows "\<not> blank (to_ascii_lowercase (fam @ '':'' @ support_debug l))" "\<not> blank (fam @ ''_unavailable'')"
proof -
  have "\<not> blank (to_ascii_lowercase (fam @ '':'' @ support_debug l)) \<and> \<not> blank (fam @ ''_unavailable'')"
    using assms
    by (auto simp: to_ascii_lowercase_def ascii_lower_char_def less_eq_char_def)
  then show "\<not> blank (to_ascii_lowercase (fam @ '':'' @ support_debug l))" "\<not> blank (fam @ ''_unavailable'')"
    by blast+
qed

definition metrics_ok :: "metric_support \<Rightarrow> bool" where
  "metrics_ok m \<longleftrightarrow> (\<forall>e\<in>snd ` set (support_entries m). support_well_formed e)"

lemma metrics_ok_alt:
  "metrics_ok m \<longleftrightarrow>
     support_well_formed (mx_function_timeline m) \<and> support_well_formed (mx_call_count m)
     \<and> support_well_formed (mx_elapsed m) \<and> support_well_formed (mx_active m)
     \<and> support_well_formed (mx_self_time m) \<and> support_well_formed (mx_task_timeline m)
     \<and> support_well_formed (mx_isr_timeline m) \<and> support_well_formed (mx_resource_counters m)"
  by (simp add: metrics_ok_def support_entries_def)

definition capabilities_ok :: "analysis_capabilities \<Rightarrow> bool" where
  "capabilities_ok cap \<longleftrightarrow>
     (\<forall>e\<in>{cap_function_events cap, cap_context_switches cap, cap_interrupt_events cap,
          cap_samples cap, cap_resource_counters cap}. \<forall>r\<in>set (se_reasons e). \<not> blank r)"

lemma literal_reasons:
  "\<not> blank ''function_events_and_samples_unavailable''"
  "\<not> blank ''active_time_estimated_from_samples''"
  "\<not> blank ''function_events_unavailable''"
  "\<not> blank ''unknown_health_fact''" "\<not> blank ''invalid_health_observation''" "\<not> blank ''health_policy''"
  by simp_all

lemmas wf_rules = lower_well_formed append_well_formed merge_well_formed family_not_blank literal_reasons

lemma function_support_ok: "capabilities_ok cap \<Longrightarrow> metrics_ok m \<Longrightarrow> metrics_ok (function_support cap m)"
  by (auto simp: function_support_def metrics_ok_alt Let_def capabilities_ok_def intro!: wf_rules)

lemma derived_time_support_ok:
  "\<forall>r\<in>set (se_reasons d). \<not> blank r \<Longrightarrow> metrics_ok m \<Longrightarrow>
   fam \<in> {''function_events'', ''context_switches'', ''interrupt_events'', ''resource_counters''} \<Longrightarrow>
   metrics_ok (derived_time_support d fam m)"
  using family_not_blank [of fam]
  by (auto simp: derived_time_support_def metrics_ok_alt Let_def intro!: lower_well_formed append_well_formed merge_well_formed)

lemma support_from_capabilities_ok: "capabilities_ok cap \<Longrightarrow> metrics_ok (support_from_capabilities cap)"
proof -
  assume c: "capabilities_ok cap"
  have u: "metrics_ok (support_uniform Exact)"
    by (simp add: metrics_ok_alt support_uniform_def support_new_def support_well_formed_def Let_def)
  have f: "metrics_ok (function_support cap (support_uniform Exact))" by (rule function_support_ok [OF c u])
  have x: "metrics_ok (context_support cap m)" if "metrics_ok m" for m
    unfolding context_support_def
    by (rule derived_time_support_ok) (use c that in \<open>auto simp: capabilities_ok_def metrics_ok_alt intro!: wf_rules\<close>)
  have i: "metrics_ok (interrupt_support cap m)" if "metrics_ok m" for m
    unfolding interrupt_support_def
    by (rule derived_time_support_ok) (use c that in \<open>auto simp: capabilities_ok_def metrics_ok_alt intro!: wf_rules\<close>)
  from i [OF x [OF f]] c show ?thesis
    by (auto simp: support_from_capabilities_def Let_def metrics_ok_alt capabilities_ok_def intro!: wf_rules)
qed

lemma apply_metric_impact_ok: "metrics_ok m \<Longrightarrow> \<not> blank r \<Longrightarrow> metrics_ok (apply_metric_impact i r m)"
  by (cases i) (simp_all add: metrics_ok_alt Let_def lower_well_formed)

subsection \<open>The facts one by one\<close>

definition rule_ok :: "issue_rule \<Rightarrow> bool" where
  "rule_ok r \<longleftrightarrow> \<not> blank (ir_message r) \<and>
     (ir_severity r = Warning \<and> ir_verdict r = Degraded \<or> Error \<le> ir_severity r \<and> ir_verdict r = Invalid)"

lemma issue_rules_ok: "\<forall>arm\<in>set issue_rules. rule_ok (snd arm)"
  by (simp add: issue_rules_def rule_ok_def fatal_rule_def error_rule_def warning_rule_def
      less_eq_health_severity_def)

lemma unknown_rule_ok: "rule_ok unknown_health_fact_rule"
  by (simp add: unknown_health_fact_rule_def rule_ok_def fatal_rule_def less_eq_health_severity_def)

lemma issue_rule_of_ok: "issue_rule_of code = Some r \<Longrightarrow> rule_ok r"
  using issue_rules_ok by (auto simp: issue_rule_of_def find_Some_iff dest!: nth_mem) (metis snd_conv)

lemma issue_rule_of_Nil: "issue_rule_of [] = None"
  by (simp add: issue_rule_of_def issue_rules_def)

lemma normalize_invalid: "normalize_code ''invalid_health_observation'' = ''invalid_health_observation''"
  by code_simp

lemma canonicalize_cases:
  obtains (same) "canonicalize_observation h = h" "normalize_code (ho_code h) \<noteq> []" "\<not> blank (ho_source h)"
  | (replaced) ev where "canonicalize_observation h =
      h\<lparr>ho_code := ''invalid_health_observation'', ho_source := ''health_policy'', ho_evidence := ev\<rparr>"
      "normalize_code (ho_code h) = [] \<or> blank (ho_source h)"
  by (cases "normalize_code (ho_code h) \<noteq> [] \<and> \<not> blank (ho_source h)")
    (auto simp: canonicalize_observation_def Let_def)

definition fact_ok :: "health_observation \<Rightarrow> bool" where
  "fact_ok h \<longleftrightarrow> (\<forall>a. ho_artifact_id h = Some a \<longrightarrow> \<not> blank a) \<and> ordered_interval (ho_start_ns h) (ho_end_ns h)"

lemma canonicalize_ok:
  "normalize_code (ho_code (canonicalize_observation h)) \<noteq> []"
  "fact_ok h \<Longrightarrow> observation_well_formed (canonicalize_observation h)"
proof -
  have "normalize_code (ho_code (canonicalize_observation h)) \<noteq> [] \<and>
      (fact_ok h \<longrightarrow> observation_well_formed (canonicalize_observation h))"
  proof (cases rule: canonicalize_cases [of h])
    case same
    then show ?thesis
      using normalize_code_blank by (auto simp: observation_well_formed_def fact_ok_def)
  next
    case (replaced ev)
    then show ?thesis by (simp add: normalize_invalid observation_well_formed_def fact_ok_def)
  qed
  then show "normalize_code (ho_code (canonicalize_observation h)) \<noteq> []"
    "fact_ok h \<Longrightarrow> observation_well_formed (canonicalize_observation h)" by blast+
qed

lemma classify_fact_Inr:
  assumes "normalize_code (ho_code h) \<noteq> []"
  obtains code rule ev where "classify_fact h = Inr (code, rule, ev)" "rule_ok rule" "\<not> blank code"
    "issue_rule_of (normalize_code (ho_code h)) = None \<Longrightarrow> rule = unknown_health_fact_rule"
proof (cases "issue_rule_of (normalize_code (ho_code h))")
  case None
  with assms that unknown_rule_ok show thesis
    by (cases "bounded_unknown_health_code (ho_code h)") (auto simp: classify_fact_def Let_def)
next
  case (Some rule)
  with that issue_rule_of_ok [OF Some] normalize_code_not_blank [OF assms] show thesis
    by (auto simp: classify_fact_def Let_def)
qed

lemma evaluate_fact_Inr:
  obtains code rule ev where
    "evaluate_fact h0 ps = Inr \<lparr>ps_verdict = combine_verdict (ps_verdict ps) (ir_verdict rule),
         ps_support = apply_metric_impact (ir_impact rule) code (ps_support ps),
         ps_issues = ps_issues ps @ [issue_of (canonicalize_observation h0) code rule ev],
         ps_observations = ps_observations ps @ [canonicalize_observation h0]\<rparr>"
    "rule_ok rule" "\<not> blank code"
    "issue_rule_of (normalize_code (ho_code (canonicalize_observation h0))) = None \<longrightarrow> rule = unknown_health_fact_rule"
    "classify_fact (canonicalize_observation h0) = Inr (code, rule, ev)"
proof -
  from classify_fact_Inr [OF canonicalize_ok(1) [of h0]] obtain code rule ev where
    c: "classify_fact (canonicalize_observation h0) = Inr (code, rule, ev)" "rule_ok rule" "\<not> blank code"
      "issue_rule_of (normalize_code (ho_code (canonicalize_observation h0))) = None \<Longrightarrow> rule = unknown_health_fact_rule"
    by metis
  have c1: "classify_fact (canonicalize_observation h0) = Inr (code, rule, ev)"
    using c(1) by (auto simp: classify_fact_def Let_def split: option.splits prod.splits if_splits)
  show thesis
    by (rule that [of rule code ev]) (use c c1 in \<open>simp_all add: evaluate_fact_def Let_def\<close>)
qed

lemma combine_verdict_rank: "verdict_rank (combine_verdict a b) = max (verdict_rank a) (verdict_rank b)"
  by (cases a; cases b) simp_all

lemma verdict_rank_inject: "verdict_rank a = verdict_rank b \<longleftrightarrow> a = b"
  by (cases a; cases b) simp_all

lemma combine_verdict_covers:
  "verdict_covers a s \<Longrightarrow> verdict_covers (combine_verdict a b) s"
  "verdict_covers b s \<Longrightarrow> verdict_covers (combine_verdict a b) s"
  by (cases a; cases b; cases s; simp add: less_eq_health_severity_def)+

definition policy_inv :: "policy_state \<Rightarrow> bool" where
  "policy_inv ps \<longleftrightarrow>
     metrics_ok (ps_support ps) \<and> (\<forall>x\<in>set (ps_observations ps). observation_well_formed x)
     \<and> (\<forall>x\<in>set (ps_issues ps). issue_well_formed x)
     \<and> (\<forall>x\<in>set (ps_issues ps). verdict_covers (ps_verdict ps) (hi_severity x))"

lemma evaluate_fact_inv:
  assumes "fact_ok h" "policy_inv ps"
  shows "\<exists>ps'. evaluate_fact h ps = Inr ps' \<and> policy_inv ps'"
proof -
  obtain code rule ev where e: "evaluate_fact h ps =
      Inr \<lparr>ps_verdict = combine_verdict (ps_verdict ps) (ir_verdict rule),
         ps_support = apply_metric_impact (ir_impact rule) code (ps_support ps),
         ps_issues = ps_issues ps @ [issue_of (canonicalize_observation h) code rule ev],
         ps_observations = ps_observations ps @ [canonicalize_observation h]\<rparr>"
    and r: "rule_ok rule" "\<not> blank code"
    by (rule evaluate_fact_Inr [of h ps])
  note w = canonicalize_ok(2) [OF assms(1)]
  have "issue_well_formed (issue_of (canonicalize_observation h) code rule ev)"
    using w r by (simp add: issue_well_formed_def issue_of_def observation_well_formed_def rule_ok_def)
  moreover have "verdict_covers (ir_verdict rule) (ir_severity rule)"
    using r(1) by (auto simp: rule_ok_def)
  ultimately show ?thesis
    using assms(2) w r(2) unfolding e
    by (auto simp: policy_inv_def issue_of_def apply_metric_impact_ok intro: combine_verdict_covers)
qed

lemma evaluate_facts_inv:
  "\<forall>h\<in>set hs. fact_ok h \<Longrightarrow> policy_inv ps \<Longrightarrow> \<exists>ps'. evaluate_facts hs ps = Inr ps' \<and> policy_inv ps'"
proof (induction hs arbitrary: ps)
  case (Cons h hs)
  then obtain ps1 where "evaluate_fact h ps = Inr ps1" "policy_inv ps1"
    using evaluate_fact_inv by fastforce
  with Cons show ?case by simp
qed simp

lemma evaluate_facts_append:
  "evaluate_facts (xs @ ys) ps = rbind (evaluate_facts xs ps) (evaluate_facts ys)"
proof (induction xs arbitrary: ps)
  case (Cons x xs)
  then show ?case by (cases "evaluate_fact x ps") auto
qed simp

subsection \<open>Trust only falls\<close>

definition metrics_le :: "metric_support \<Rightarrow> metric_support \<Rightarrow> bool" where
  "metrics_le m m' \<longleftrightarrow>
     list_all2 (\<lambda>a b. support_rank (se_support (snd a)) \<le> support_rank (se_support (snd b)))
       (support_entries m) (support_entries m')"

lemma metrics_le_refl: "metrics_le m m"
  by (simp add: metrics_le_def list_all2_same)

lemma metrics_le_trans: "metrics_le a b \<Longrightarrow> metrics_le b c \<Longrightarrow> metrics_le a c"
  unfolding metrics_le_def by (rule list_all2_trans) auto

lemma apply_metric_impact_le: "metrics_le m (apply_metric_impact i r m)"
  by (cases i) (simp_all add: metrics_le_def support_entries_def Let_def lower_rank)

lemma evaluate_facts_le:
  "evaluate_facts hs ps = Inr ps' \<Longrightarrow>
     metrics_le (ps_support ps) (ps_support ps') \<and> verdict_rank (ps_verdict ps) \<le> verdict_rank (ps_verdict ps')"
proof (induction hs arbitrary: ps)
  case (Cons h hs)
  obtain code rule ev where e: "evaluate_fact h ps =
      Inr \<lparr>ps_verdict = combine_verdict (ps_verdict ps) (ir_verdict rule),
         ps_support = apply_metric_impact (ir_impact rule) code (ps_support ps),
         ps_issues = ps_issues ps @ [issue_of (canonicalize_observation h) code rule ev],
         ps_observations = ps_observations ps @ [canonicalize_observation h]\<rparr>"
    by (rule evaluate_fact_Inr [of h ps])
  with Cons.prems Cons.IH show ?case
    using apply_metric_impact_le [of "ps_support ps" "ir_impact rule" code] metrics_le_trans
    by (fastforce simp: combine_verdict_rank)
qed (simp add: metrics_le_refl)

lemma evaluate_facts_verdict:
  "evaluate_facts hs ps = Inr ps' \<Longrightarrow>
     (ps_verdict ps = Invalid \<longleftrightarrow> (\<exists>x\<in>set (ps_issues ps). Error \<le> hi_severity x)) \<Longrightarrow>
     (ps_verdict ps = Valid \<longleftrightarrow> ps_issues ps = []) \<Longrightarrow>
     length (ps_issues ps') = length (ps_issues ps) + length hs \<and>
     (ps_verdict ps' = Invalid \<longleftrightarrow> (\<exists>x\<in>set (ps_issues ps'). Error \<le> hi_severity x)) \<and>
     (ps_verdict ps' = Valid \<longleftrightarrow> ps_issues ps' = [])"
proof (induction hs arbitrary: ps)
  case (Cons h hs)
  obtain code rule ev where e: "evaluate_fact h ps =
      Inr \<lparr>ps_verdict = combine_verdict (ps_verdict ps) (ir_verdict rule),
         ps_support = apply_metric_impact (ir_impact rule) code (ps_support ps),
         ps_issues = ps_issues ps @ [issue_of (canonicalize_observation h) code rule ev],
         ps_observations = ps_observations ps @ [canonicalize_observation h]\<rparr>"
    and r: "rule_ok rule"
    by (rule evaluate_fact_Inr [of h ps])
  let ?p = "\<lparr>ps_verdict = combine_verdict (ps_verdict ps) (ir_verdict rule),
         ps_support = apply_metric_impact (ir_impact rule) code (ps_support ps),
         ps_issues = ps_issues ps @ [issue_of (canonicalize_observation h) code rule ev],
         ps_observations = ps_observations ps @ [canonicalize_observation h]\<rparr>"
  have inv: "combine_verdict v (ir_verdict rule) = Invalid \<longleftrightarrow> v = Invalid \<or> Error \<le> ir_severity rule"
    "combine_verdict v (ir_verdict rule) \<noteq> Valid" for v
    using r by (cases v; cases "ir_severity rule"; auto simp: rule_ok_def less_eq_health_severity_def)+
  have "length (ps_issues ps') = length (ps_issues ?p) + length hs \<and>
     (ps_verdict ps' = Invalid \<longleftrightarrow> (\<exists>x\<in>set (ps_issues ps'). Error \<le> hi_severity x)) \<and>
     (ps_verdict ps' = Valid \<longleftrightarrow> ps_issues ps' = [])"
    by (rule Cons.IH) (use Cons.prems e inv in \<open>auto simp: issue_of_def\<close>)
  then show ?case by simp
qed simp


lemma evaluate_policy_cases:
  assumes "evaluate_policy v s facts cap = Inr r"
  obtains ps where "evaluate_facts facts
      \<lparr>ps_verdict = Valid, ps_support = support_from_capabilities cap, ps_issues = [], ps_observations = []\<rparr> = Inr ps"
    "hr_verdict r = ps_verdict ps" "hr_issues r = ps_issues ps" "hr_metric_support r = ps_support ps"
    "hr_observations r = ps_observations ps" "hr_session_id r = s" "hr_policy_version r = v"
  using assms by (auto simp: evaluate_policy_def split: sum.splits)

lemma evaluate_facts_total: "\<exists>ps'. evaluate_facts facts ps = Inr ps'"
proof (induction facts arbitrary: ps)
  case (Cons h hs)
  obtain code rule ev where "evaluate_fact h ps =
      Inr \<lparr>ps_verdict = combine_verdict (ps_verdict ps) (ir_verdict rule),
         ps_support = apply_metric_impact (ir_impact rule) code (ps_support ps),
         ps_issues = ps_issues ps @ [issue_of (canonicalize_observation h) code rule ev],
         ps_observations = ps_observations ps @ [canonicalize_observation h]\<rparr>"
    by (rule evaluate_fact_Inr [of h ps])
  with Cons show ?case by simp
qed simp

lemma evaluate_policy_total: "\<exists>r. (evaluate_policy v s facts cap :: ('e, health_report) res) = Inr r"
proof -
  obtain ps where "evaluate_facts facts \<lparr>ps_verdict = Valid, ps_support = support_from_capabilities cap,
      ps_issues = [], ps_observations = []\<rparr> = Inr ps"
    using evaluate_facts_total by blast
  then show ?thesis by (simp add: evaluate_policy_def)
qed

lemma unknown_fact_lowers:
  assumes "blank (ho_source h) \<or> issue_rule_of (normalize_code (ho_code h)) = None"
    and "evaluate_fact h ps = Inr ps'"
  shows "ps_verdict ps' = Invalid \<and> (\<forall>e\<in>snd ` set (support_entries (ps_support ps')). se_support e = Unavailable)"
proof -
  obtain code rule ev where e: "evaluate_fact h ps =
      Inr \<lparr>ps_verdict = combine_verdict (ps_verdict ps) (ir_verdict rule),
         ps_support = apply_metric_impact (ir_impact rule) code (ps_support ps),
         ps_issues = ps_issues ps @ [issue_of (canonicalize_observation h) code rule ev],
         ps_observations = ps_observations ps @ [canonicalize_observation h]\<rparr>"
    and un: "issue_rule_of (normalize_code (ho_code (canonicalize_observation h))) = None \<longrightarrow> rule = unknown_health_fact_rule"
    and cl: "classify_fact (canonicalize_observation h) = Inr (code, rule, ev)"
    by (rule evaluate_fact_Inr [of h ps])
  have inv: "issue_rule_of ''invalid_health_observation'' =
      Some (fatal_rule ''A health observation has an empty code or source identity.'' AllUnavailable)"
    by (simp add: issue_rule_of_def issue_rules_def)
  have rule: "ir_verdict rule = Invalid" "ir_impact rule = AllUnavailable"
  proof -
    have "ir_verdict rule = Invalid \<and> ir_impact rule = AllUnavailable"
    proof (cases rule: canonicalize_cases [of h])
      case same
      with assms(1) un show ?thesis by (simp add: unknown_health_fact_rule_def fatal_rule_def)
    next
      case (replaced ev')
      with cl inv show ?thesis by (auto simp: classify_fact_def normalize_invalid fatal_rule_def)
    qed
    then show "ir_verdict rule = Invalid" "ir_impact rule = AllUnavailable" by blast+
  qed
  have un: "se_support (lower Unavailable r e) = Unavailable" for r e
    by (cases "se_support e") (simp_all add: lower_def raise_level_def)
  have "combine_verdict v Invalid = Invalid" for v by (cases v) simp_all
  with e assms(2) rule un show ?thesis by (auto simp: support_entries_def Let_def)
qed

lemma metrics_le_unavailable:
  "metrics_le m m' \<Longrightarrow> \<forall>e\<in>snd ` set (support_entries m). se_support e = Unavailable \<Longrightarrow>
    \<forall>e\<in>snd ` set (support_entries m'). se_support e = Unavailable"
proof -
  have U: "support_rank Unavailable \<le> support_rank l \<Longrightarrow> l = Unavailable" for l by (cases l) simp_all
  have "list_all2 (\<lambda>a b. support_rank (se_support (snd a)) \<le> support_rank (se_support (snd b))) xs ys \<Longrightarrow>
      \<forall>e\<in>snd ` set xs. se_support e = Unavailable \<Longrightarrow> \<forall>e\<in>snd ` set ys. se_support e = Unavailable"
    for xs ys :: "('x \<times> support_entry) list"
  proof (induction rule: list_all2_induct)
    case (Cons x xs y ys)
    from Cons.prems have "se_support (snd x) = Unavailable" and xs: "\<forall>e\<in>snd ` set xs. se_support e = Unavailable"
      by simp_all
    with Cons.hyps(1) have "support_rank Unavailable \<le> support_rank (se_support (snd y))" by (simp only:)
    from U [OF this] Cons.IH [OF xs] show ?case by simp
  qed simp
  then show "metrics_le m m' \<Longrightarrow> \<forall>e\<in>snd ` set (support_entries m). se_support e = Unavailable \<Longrightarrow>
      \<forall>e\<in>snd ` set (support_entries m'). se_support e = Unavailable"
    unfolding metrics_le_def by blast
qed

subsection \<open>Properties\<close>

definition demo_fact :: "string \<Rightarrow> health_observation" where
  "demo_fact code = \<lparr>ho_code = code, ho_source = ''source'', ho_artifact_id = None, ho_record = Some 7,
     ho_start_ns = Some (I64 10), ho_end_ns = Some (I64 20), ho_evidence = []\<rparr>"

lemma canonicalize_fact_ok: "observation_well_formed (canonicalize_observation h) \<Longrightarrow> fact_ok h"
  by (cases rule: canonicalize_cases [of h]) (auto simp: observation_well_formed_def fact_ok_def)

lemma evaluate_facts_observations:
  "evaluate_facts hs ps = Inr ps' \<Longrightarrow> ps_observations ps' = ps_observations ps @ map canonicalize_observation hs"
proof (induction hs arbitrary: ps)
  case (Cons h hs)
  then show ?case by (cases rule: evaluate_fact_Inr [of h ps]) auto
qed simp

lemma evaluate_facts_valid:
  assumes "\<not> blank version" "\<not> blank session_id" "capabilities_ok cap" "\<forall>h\<in>set facts. fact_ok h"
    and r: "evaluate_policy version session_id facts cap = Inr r"
  shows "validate_health_report r = Inr ()"
proof -
  have "policy_inv \<lparr>ps_verdict = Valid, ps_support = support_from_capabilities cap, ps_issues = [], ps_observations = []\<rparr>"
    using support_from_capabilities_ok [OF assms(3)] by (simp add: policy_inv_def)
  from evaluate_facts_inv [OF assms(4) this] obtain ps where ps: "evaluate_facts facts
      \<lparr>ps_verdict = Valid, ps_support = support_from_capabilities cap, ps_issues = [], ps_observations = []\<rparr> = Inr ps"
    "policy_inv ps" by blast
  then show ?thesis
    using assms(1,2) r
    by (auto simp: evaluate_policy_def validate_health_report_Inr policy_inv_def metrics_ok_def)
qed

text \<open>C15: When no declared capability has a blank reason, evaluation always produces a report, and the
  report validator accepts it exactly when the policy version and the session are not blank and no
  fact has a blank artifact or an interval that ends before it starts. Whatever codes, sources and
  evidence the facts carry, blank ones included, the rest of the report is always valid: the
  \<open>unreachable!\<close> arm is unreachable, every issue has a code and a message, the verdict covers the
  worst severity and every lowered metric has distinct, non-blank reasons.\<close>
theorem evaluate_policy_valid:
  assumes "capabilities_ok cap"
  shows "\<exists>r. (evaluate_policy version session_id facts cap :: ('e, health_report) res) = Inr r \<and>
    (validate_health_report r = Inr () \<longleftrightarrow>
       \<not> blank version \<and> \<not> blank session_id \<and> list_all fact_ok facts)"
proof -
  obtain r where r: "(evaluate_policy version session_id facts cap :: ('e, health_report) res) = Inr r"
    using evaluate_policy_total by blast
  obtain ps where ps: "evaluate_facts facts
      \<lparr>ps_verdict = Valid, ps_support = support_from_capabilities cap, ps_issues = [], ps_observations = []\<rparr> = Inr ps"
    "hr_observations r = ps_observations ps" "hr_session_id r = session_id" "hr_policy_version r = version"
    using r by (rule evaluate_policy_cases)
  have "validate_health_report r = Inr () \<Longrightarrow> \<not> blank version \<and> \<not> blank session_id \<and> list_all fact_ok facts"
    using ps evaluate_facts_observations [OF ps(1)]
    by (auto simp: validate_health_report_Inr list_all_iff intro: canonicalize_fact_ok)
  moreover have "validate_health_report r = Inr ()" if "\<not> blank version \<and> \<not> blank session_id \<and> list_all fact_ok facts"
    using that assms r by (intro evaluate_facts_valid) (auto simp: list_all_iff)
  ultimately show ?thesis using r by blast
qed

theorem evaluate_policy_valid_witness:
  "\<exists>r. evaluate_policy default_policy_version ''session'' [demo_fact ''overflow'', demo_fact '' ''] exact_program_flow = Inr r
     \<and> validate_health_report r = Inr ()"
proof -
  have "capabilities_ok exact_program_flow"
    by (simp add: capabilities_ok_def exact_program_flow_def support_new_def)
  from evaluate_policy_valid [OF this, of default_policy_version "''session''" "[demo_fact ''overflow'', demo_fact '' '']"]
  show ?thesis
    by (auto simp: default_policy_version_def fact_ok_def demo_fact_def ordered_interval_def less_eq_i64_def ival_def)
qed

text \<open>C16: The verdict is exactly as strict as the worst issue: there is one issue per fact, the
  verdict is valid only without any fact, and invalid exactly when some issue is an error or worse.\<close>
theorem evaluate_policy_verdict:
  assumes "evaluate_policy version session_id facts cap = Inr r"
  shows "length (hr_issues r) = length facts \<and> (hr_verdict r = Valid \<longleftrightarrow> facts = [])
    \<and> (hr_verdict r = Invalid \<longleftrightarrow> (\<exists>x\<in>set (hr_issues r). Error \<le> hi_severity x))"
proof -
  from assms obtain ps where ps: "evaluate_facts facts
      \<lparr>ps_verdict = Valid, ps_support = support_from_capabilities cap, ps_issues = [], ps_observations = []\<rparr> = Inr ps"
    "hr_verdict r = ps_verdict ps" "hr_issues r = ps_issues ps" by (rule evaluate_policy_cases)
  with evaluate_facts_verdict [OF ps(1)] show ?thesis by auto
qed

theorem evaluate_policy_verdict_witness:
  "\<exists>r. (evaluate_policy default_policy_version ''session'' [demo_fact ''trace-gap''] exact_program_flow
        :: (unit, health_report) res) = Inr r
     \<and> length (hr_issues r) = 1 \<and> hr_verdict r \<noteq> Valid"
proof -
  obtain r where r: "(evaluate_policy default_policy_version ''session'' [demo_fact ''trace-gap''] exact_program_flow
      :: (unit, health_report) res) = Inr r"
    using evaluate_policy_total by blast
  from r evaluate_policy_verdict [OF r] show ?thesis by auto
qed

text \<open>C17: More facts never restore trust: evaluating additional facts keeps the verdict at least as
  strict and the support of every metric at most as good.\<close>
theorem evaluate_policy_monotone:
  assumes "evaluate_policy version session_id facts cap = Inr r"
    and "evaluate_policy version session_id (facts @ extra) cap = Inr r'"
  shows "verdict_rank (hr_verdict r) \<le> verdict_rank (hr_verdict r')
    \<and> metrics_le (hr_metric_support r) (hr_metric_support r')"
proof -
  let ?p0 = "\<lparr>ps_verdict = Valid, ps_support = support_from_capabilities cap, ps_issues = [], ps_observations = []\<rparr>"
  from assms(1) obtain ps where ps: "evaluate_facts facts ?p0 = Inr ps"
    "hr_verdict r = ps_verdict ps" "hr_metric_support r = ps_support ps" by (rule evaluate_policy_cases)
  from assms(2) obtain ps' where ps': "evaluate_facts (facts @ extra) ?p0 = Inr ps'"
    "hr_verdict r' = ps_verdict ps'" "hr_metric_support r' = ps_support ps'" by (rule evaluate_policy_cases)
  from ps(1) ps'(1) have "evaluate_facts extra ps = Inr ps'" by (simp add: evaluate_facts_append)
  from evaluate_facts_le [OF this] ps ps' show ?thesis by simp
qed

theorem evaluate_policy_monotone_witness:
  "\<exists>r r'. (evaluate_policy default_policy_version ''session'' [] exact_program_flow
        :: (unit, health_report) res) = Inr r
     \<and> (evaluate_policy default_policy_version ''session'' ([] @ [demo_fact ''trace-gap'']) exact_program_flow
        :: (unit, health_report) res) = Inr r'
     \<and> metrics_le (hr_metric_support r) (hr_metric_support r')"
proof -
  obtain r where r: "(evaluate_policy default_policy_version ''session'' [] exact_program_flow
      :: (unit, health_report) res) = Inr r"
    using evaluate_policy_total by blast
  obtain r' where r': "(evaluate_policy default_policy_version ''session'' ([] @ [demo_fact ''trace-gap'']) exact_program_flow
      :: (unit, health_report) res) = Inr r'"
    using evaluate_policy_total by blast
  from r r' evaluate_policy_monotone [OF r r'] show ?thesis by blast
qed

text \<open>C18: The policy fails closed: one fact with an unknown or blank code or a blank source makes
  the capture invalid and every metric unavailable, whatever other facts surround it.\<close>
theorem evaluate_policy_fails_closed:
  assumes "evaluate_policy version session_id (before @ h # after) cap = Inr r"
    and "blank (ho_source h) \<or> issue_rule_of (normalize_code (ho_code h)) = None"
  shows "hr_verdict r = Invalid \<and> (\<forall>e\<in>snd ` set (support_entries (hr_metric_support r)). se_support e = Unavailable)"
proof -
  from assms(1) obtain ps where ps: "evaluate_facts (before @ h # after)
      \<lparr>ps_verdict = Valid, ps_support = support_from_capabilities cap, ps_issues = [], ps_observations = []\<rparr> = Inr ps"
    "hr_verdict r = ps_verdict ps" "hr_metric_support r = ps_support ps" by (rule evaluate_policy_cases)
  then obtain ps1 ps2 where s: "evaluate_fact h ps1 = Inr ps2" "evaluate_facts after ps2 = Inr ps"
    by (auto simp: evaluate_facts_append rbind_eq_Inr)
  note un = unknown_fact_lowers [OF assms(2) s(1)]
  have "verdict_rank (ps_verdict ps) \<ge> 2" using evaluate_facts_le [OF s(2)] un by simp
  then have "ps_verdict ps = Invalid" by (cases "ps_verdict ps") simp_all
  moreover have "metrics_le (ps_support ps2) (ps_support ps)" using evaluate_facts_le [OF s(2)] by blast
  from metrics_le_unavailable [OF this] un
  have "\<forall>e\<in>snd ` set (support_entries (ps_support ps)). se_support e = Unavailable" by blast
  ultimately show ?thesis unfolding ps(2,3) by blast
qed

theorem evaluate_policy_fails_closed_witness:
  "\<exists>r. (evaluate_policy default_policy_version ''session'' ([] @ demo_fact ''martian'' # []) exact_program_flow
        :: (unit, health_report) res) = Inr r
     \<and> hr_verdict r = Invalid"
proof -
  obtain r where r: "(evaluate_policy default_policy_version ''session'' ([] @ demo_fact ''martian'' # []) exact_program_flow
      :: (unit, health_report) res) = Inr r"
    using evaluate_policy_total by blast
  have "issue_rule_of (normalize_code (ho_code (demo_fact ''martian''))) = None"
  proof -
    have "normalize_code ''martian'' = ''martian''" by code_simp
    moreover have "issue_rule_of ''martian'' = None" by (simp add: issue_rule_of_def issue_rules_def)
    ultimately show ?thesis by (simp add: demo_fact_def)
  qed
  with evaluate_policy_fails_closed [OF r] r show ?thesis by blast
qed

end
