(* ===== verification/Derived.thy ===== *)
theory Derived
  imports Model_Types
begin

text \<open>
  Host-derived spans and hotspot aggregates with their validators
  (\<open>t32perf-model/src/derived.rs\<close>).
\<close>

record function_span =
  fs_source_id :: string
  fs_source_seq_start :: "u64 option"
  fs_source_seq_end :: "u64 option"
  fs_core_id :: u32
  fs_context_id :: string
  fs_function_id :: string
  fs_frame_id :: "string option"
  fs_start_ns :: timestamp_ns
  fs_end_ns :: timestamp_ns
  fs_elapsed_ns :: duration_ns
  fs_active_ns :: duration_ns
  fs_self_active_ns :: duration_ns
  fs_preempted_ns :: duration_ns
  fs_quality :: quality
  fs_incomplete :: bool

datatype derived_error =
    InvalidSourceSequenceRange string u64 u64
  | InvalidBounds string timestamp_ns timestamp_ns
  | ElapsedMismatch string duration_ns duration_ns
  | DerivedDurationOverflow string
  | AttributedTimeExceedsElapsed string duration_ns duration_ns duration_ns
  | ExactTimeMismatch string duration_ns duration_ns duration_ns
  | SelfTimeExceedsActive string duration_ns duration_ns

definition validate_sequence_range :: "function_span \<Rightarrow> (derived_error, unit) res" where
  "validate_sequence_range sp =
     (case (fs_source_seq_start sp, fs_source_seq_end sp) of
        (Some s, Some e) \<Rightarrow> ensure (\<not> e < s) (InvalidSourceSequenceRange (fs_function_id sp) s e)
      | _ \<Rightarrow> Inr ())"

definition validate_span :: "function_span \<Rightarrow> (derived_error, unit) res" where
  "validate_span sp =
     rthen (validate_sequence_range sp)
       (rbind (ok_or (u64_try_from (ival (fs_end_ns sp) - ival (fs_start_ns sp)))
                 (InvalidBounds (fs_function_id sp) (fs_start_ns sp) (fs_end_ns sp))) (\<lambda>bounded.
         rthen (ensure (fs_elapsed_ns sp = bounded)
                  (ElapsedMismatch (fs_function_id sp) bounded (fs_elapsed_ns sp)))
           (rbind (ok_or (checked_add (fs_active_ns sp) (fs_preempted_ns sp))
                     (DerivedDurationOverflow (fs_function_id sp))) (\<lambda>decomposed.
             rthen (ensure (\<not> fs_elapsed_ns sp < decomposed)
                      (AttributedTimeExceedsElapsed (fs_function_id sp) (fs_elapsed_ns sp)
                         (fs_active_ns sp) (fs_preempted_ns sp)))
               (rthen (ensure (\<not> (fs_quality sp = QExact \<and> \<not> fs_incomplete sp \<and> decomposed \<noteq> fs_elapsed_ns sp))
                         (ExactTimeMismatch (fs_function_id sp) (fs_elapsed_ns sp)
                            (fs_active_ns sp) (fs_preempted_ns sp)))
                 (ensure (\<not> fs_active_ns sp < fs_self_active_ns sp)
                    (SelfTimeExceedsActive (fs_function_id sp) (fs_self_active_ns sp) (fs_active_ns sp))))))))"

record derived_document =
  dd_session_id :: string
  dd_input_artifact_ids :: "string list"
  dd_function_spans :: "function_span list"

definition validate_derived :: "derived_document \<Rightarrow> (derived_error, unit) res" where
  "validate_derived d = each validate_span (dd_function_spans d)"

subsection \<open>Hotspots\<close>

record function_hotspot =
  fh_function_id :: string
  fh_context_id :: "string option"
  fh_inclusive_active_ns :: duration_ns
  fh_self_active_ns :: duration_ns
  fh_count :: u64
  fh_min_active_ns :: duration_ns
  fh_max_active_ns :: duration_ns
  fh_avg_active_ns :: duration_ns
  fh_incomplete_count :: u64
  fh_quality :: quality

record sampling_hotspot =
  sh_function_id :: "string option"
  sh_address :: "u64 option"
  sh_context_id :: "string option"
  sh_sample_count :: u64
  sh_estimated_share :: f64
  sh_quality :: quality

record hotspot_report =
  hot_session_id :: string
  hot_quality :: quality
  hot_functions :: "function_hotspot list"
  hot_sampling :: "sampling_hotspot list"

datatype hotspot_error =
    EmptyFunctionAggregate string
  | IncompleteCountExceedsCount string u64 u64
  | SelfTimeExceedsInclusive string duration_ns duration_ns
  | InvalidActiveBounds string duration_ns duration_ns
  | AverageMismatch string duration_ns duration_ns
  | MissingSamplingIdentity
  | InvalidEstimatedShare f64

definition validate_function_hotspot :: "function_hotspot \<Rightarrow> (hotspot_error, unit) res" where
  "validate_function_hotspot h =
     rthen (ensure (fh_count h \<noteq> 0) (EmptyFunctionAggregate (fh_function_id h)))
       (rthen (ensure (\<not> fh_count h < fh_incomplete_count h)
                 (IncompleteCountExceedsCount (fh_function_id h) (fh_incomplete_count h) (fh_count h)))
         (rthen (ensure (\<not> fh_inclusive_active_ns h < fh_self_active_ns h)
                   (SelfTimeExceedsInclusive (fh_function_id h) (fh_self_active_ns h) (fh_inclusive_active_ns h)))
           (rthen (ensure (\<not> (fh_max_active_ns h < fh_min_active_ns h
                              \<or> fh_avg_active_ns h < fh_min_active_ns h
                              \<or> fh_max_active_ns h < fh_avg_active_ns h))
                     (InvalidActiveBounds (fh_function_id h) (fh_min_active_ns h) (fh_max_active_ns h)))
             (rbind (div_or_panic (fh_inclusive_active_ns h) (fh_count h)) (\<lambda>expected.
               ensure (fh_avg_active_ns h = expected)
                 (AverageMismatch (fh_function_id h) expected (fh_avg_active_ns h)))))))"

text \<open>\<open>(0.0..=1.0).contains(&share)\<close>.\<close>

definition validate_sampling_hotspot :: "sampling_hotspot \<Rightarrow> (hotspot_error, unit) res" where
  "validate_sampling_hotspot h =
     rthen (ensure (\<not> (sh_function_id h = None \<and> sh_address h = None)) MissingSamplingIdentity)
       (ensure (f64_is_finite (sh_estimated_share h)
                \<and> \<not> f64_lt (sh_estimated_share h) (f64_of_int 0) \<and> \<not> f64_lt (f64_of_int 1) (sh_estimated_share h))
          (InvalidEstimatedShare (sh_estimated_share h)))"

definition validate_hotspots :: "hotspot_report \<Rightarrow> (hotspot_error, unit) res" where
  "validate_hotspots r =
     rthen (each validate_function_hotspot (hot_functions r))
       (each validate_sampling_hotspot (hot_sampling r))"

subsection \<open>What a valid span says\<close>

lemma validate_span_Inr:
  "validate_span sp = Inr () \<longleftrightarrow>
     (\<forall>s e. fs_source_seq_start sp = Some s \<longrightarrow> fs_source_seq_end sp = Some e \<longrightarrow> s \<le> e)
     \<and> uint (fs_elapsed_ns sp) = ival (fs_end_ns sp) - ival (fs_start_ns sp)
     \<and> unat (fs_active_ns sp) + unat (fs_preempted_ns sp) \<le> unat (fs_elapsed_ns sp)
     \<and> (fs_quality sp = QExact \<and> \<not> fs_incomplete sp \<longrightarrow>
          unat (fs_active_ns sp) + unat (fs_preempted_ns sp) = unat (fs_elapsed_ns sp))
     \<and> fs_self_active_ns sp \<le> fs_active_ns sp"
proof -
  have seq: "validate_sequence_range sp = Inr () \<longleftrightarrow>
      (\<forall>s e. fs_source_seq_start sp = Some s \<longrightarrow> fs_source_seq_end sp = Some e \<longrightarrow> s \<le> e)"
    by (auto simp: validate_sequence_range_def not_less split: option.splits)
  show ?thesis
  proof (cases "checked_add (fs_active_ns sp) (fs_preempted_ns sp)")
    case None
    then have "\<not> unat (fs_active_ns sp) + unat (fs_preempted_ns sp) \<le> unat (fs_elapsed_ns sp)"
      using unat_u64_less [of "fs_elapsed_ns sp"] by (simp add: checked_add_None)
    with None show ?thesis
      by (simp add: validate_span_def rthen_eq_Inr rbind_eq_Inr)
  next
    case (Some d)
    then have d: "unat d = unat (fs_active_ns sp) + unat (fs_preempted_ns sp)" by (simp add: checked_add_Some)
    show ?thesis
      unfolding validate_span_def
      by (simp add: rthen_eq_Inr rbind_eq_Inr seq u64_try_from_Some Some not_less
          word_le_nat_alt [of d] word_unat_eq_iff [of d] d) blast
  qed
qed

end
