(* ===== verification/Analyzer_State.thy ===== *)
theory Analyzer_State
  imports Health_Policy Derived Observation State_Error
begin

text \<open>
  The state of the streaming analyzer (\<open>t32perf-analysis/src/analyzer.rs\<close>): cores, execution
  contexts with their open frames, source progress, open custom spans, counters, aggregates and
  health facts. Vectors keep the order of the code, the top of a stack is the last element.
\<close>

subsection \<open>Execution contexts\<close>

datatype exec_key =
    Scheduled string
  | InterruptActivationKey u32 string u64

text \<open>The derived order compares the fields of an activation in their order: core, id, serial.\<close>

fun exec_key_order :: "exec_key \<Rightarrow> nat \<times> string \<times> u32 \<times> string \<times> u64" where
  "exec_key_order (Scheduled c) = (0, c, 0, [], 0)"
| "exec_key_order (InterruptActivationKey core act serial) = (1, [], core, act, serial)"

lemma exec_key_order_inject: "exec_key_order a = exec_key_order b \<longleftrightarrow> a = b"
  by (cases a; cases b) auto

instantiation exec_key :: linorder
begin

definition less_eq_exec_key :: "exec_key \<Rightarrow> exec_key \<Rightarrow> bool" where
  "less_eq_exec_key a b \<longleftrightarrow> exec_key_order a \<le> exec_key_order b"

definition less_exec_key :: "exec_key \<Rightarrow> exec_key \<Rightarrow> bool" where
  "less_exec_key a b \<longleftrightarrow> exec_key_order a < exec_key_order b"

instance
proof
  fix a b c :: exec_key
  show "a < b \<longleftrightarrow> a \<le> b \<and> \<not> b \<le> a"
    unfolding less_eq_exec_key_def less_exec_key_def by (rule less_le_not_le)
  show "a \<le> a"
    unfolding less_eq_exec_key_def by (rule order_refl)
  show "a \<le> b \<Longrightarrow> b \<le> c \<Longrightarrow> a \<le> c"
    unfolding less_eq_exec_key_def by (rule order_trans)
  show "a \<le> b \<Longrightarrow> b \<le> a \<Longrightarrow> a = b"
    unfolding less_eq_exec_key_def using exec_key_order_inject by (metis order_antisym)
  show "a \<le> b \<or> b \<le> a"
    unfolding less_eq_exec_key_def by (rule linear)
qed

end

fun scheduled_id :: "exec_key \<Rightarrow> string option" where
  "scheduled_id (Scheduled c) = Some c"
| "scheduled_id (InterruptActivationKey _ _ _) = None"

record interrupt_activation =
  ia_interrupt_id :: string
  ia_activation_id :: string
  ia_execution_context :: exec_key
  ia_entered_ts :: timestamp_ns

record core_state =
  co_scheduled_context :: "exec_key option"
  co_scheduled_since :: "timestamp_ns option"
  co_interrupts :: "interrupt_activation list"
  co_last_ts :: "timestamp_ns option"

definition core_default :: core_state where
  "core_default =
     \<lparr>co_scheduled_context = None, co_scheduled_since = None, co_interrupts = [], co_last_ts = None\<rparr>"

definition running_context :: "core_state \<Rightarrow> exec_key option" where
  "running_context c =
     (if co_interrupts c = [] then co_scheduled_context c
      else Some (ia_execution_context (last (co_interrupts c))))"

definition running_public_context :: "core_state \<Rightarrow> string option" where
  "running_public_context c =
     (if co_interrupts c = [] then
        (case co_scheduled_context c of None \<Rightarrow> None | Some k \<Rightarrow> scheduled_id k)
      else Some (ia_interrupt_id (last (co_interrupts c))))"

record open_frame =
  of_source_id :: string
  of_source_seq_start :: u64
  of_core_id :: u32
  of_public_context_id :: string
  of_function_id :: string
  of_frame_id :: "string option"
  of_start_wall_ns :: timestamp_ns
  of_start_virtual_ns :: duration_ns
  of_child_active_ns :: duration_ns
  of_quality :: quality
  of_incomplete :: bool

record context_state =
  cx_virtual_cpu_ns :: duration_ns
  cx_frames :: "open_frame list"
  cx_tainted :: bool

definition context_default :: context_state where
  "context_default = \<lparr>cx_virtual_cpu_ns = 0, cx_frames = [], cx_tainted = False\<rparr>"

subsection \<open>The other parts\<close>

record source_progress =
  sp_sequence :: u64
  sp_timestamp :: timestamp_ns

text \<open>Keys that derive their order are tuples of their fields, \<open>None\<close> before \<open>Some\<close>.\<close>

type_synonym custom_span_key = "string \<times> u32 option \<times> string option \<times> string"
type_synonym async_span_key = "string \<times> string"
type_synonym sample_key = "string option \<times> u64 option \<times> string option"

record open_custom_span =
  os_source_id :: string
  os_source_seq :: u64
  os_begin_ts :: timestamp_ns
  os_name :: string

record sample_accumulator =
  sa_count :: u64
  sa_weight :: u128
  sa_quality :: quality

record counter_definition =
  cdef_name :: string
  cdef_unit :: "string option"
  cdef_semantic :: "counter_semantic option"
  cdef_subject :: "counter_subject option"

record counter_accumulator =
  ca_count :: u64
  ca_first_ts_ns :: timestamp_ns
  ca_last_ts_ns :: timestamp_ns
  ca_first :: f64
  ca_latest :: f64
  ca_min :: f64
  ca_max :: f64
  ca_mean :: f64
  ca_quality :: quality
  ca_window_valid :: bool

record counter_point =
  cp_ts_ns :: timestamp_ns
  cp_value :: f64
  cp_quality :: quality

record fragmentation_evaluation =
  fe_ts_ns :: timestamp_ns
  fe_value :: "f64 option"
  fe_quality :: quality
  fe_reason :: "string option"

record fragmentation_accumulator =
  fa_free :: "counter_point option"
  fa_largest :: "counter_point option"
  fa_latest :: "fragmentation_evaluation option"

record usage_invariant_state =
  ui_capacity :: "counter_point option"
  ui_current :: "counter_point option"
  ui_peak :: "counter_point option"

record hotspot_accumulator =
  ha_inclusive_active_ns :: duration_ns
  ha_self_active_ns :: duration_ns
  ha_count :: u64
  ha_min_active_ns :: duration_ns
  ha_max_active_ns :: duration_ns
  ha_quality :: "quality option"

definition hotspot_default :: hotspot_accumulator where
  "hotspot_default =
     \<lparr>ha_inclusive_active_ns = 0, ha_self_active_ns = 0, ha_count = 0, ha_min_active_ns = 0,
      ha_max_active_ns = 0, ha_quality = None\<rparr>"

record analyzer_config =
  cfg_health_policy_version :: string
  cfg_capabilities :: analysis_capabilities
  cfg_max_health_observations :: nat
  cfg_max_open_custom_spans :: nat

definition default_config :: analyzer_config where
  "default_config =
     \<lparr>cfg_health_policy_version = default_policy_version, cfg_capabilities = default_capabilities,
      cfg_max_health_observations = 4096, cfg_max_open_custom_spans = 65536\<rparr>"

datatype analysis_error =
    EmptySessionId
  | SessionMismatch string string
  | InvalidDictionary dictionary_error
  | InvalidObservation observation_error
  | InvalidDerived derived_error
  | InvalidHotspots hotspot_error
  | InvalidHealth health_error
  | ConflictingCounterDefinition string
  | ConflictingCounterSubject string string counter_semantic
  | NumericOverflow string string

record analyzer =
  an_session_id :: string
  an_config :: analyzer_config
  an_cores :: "(u32, core_state) btree"
  an_contexts :: "(exec_key, context_state) btree"
  an_context_public_ids :: "(exec_key, string) btree"
  an_retired_context_cpu :: "(string, duration_ns) btree"
  an_context_kinds :: "(string, context_kind) btree"
  an_counter_definitions :: "(string, counter_definition) btree"
  an_counter_identity_index :: "(counter_semantic \<times> counter_subject, string) btree"
  an_source_progress :: "(string, source_progress) btree"
  an_completed_spans :: "function_span list"
  an_function_hotspots :: "(string, hotspot_accumulator) btree"
  an_function_span_count :: u64
  an_incomplete_function_span_count :: u64
  an_samples :: "(sample_key, sample_accumulator) btree"
  an_counters :: "(string, counter_accumulator) btree"
  an_usage_invariants :: "(counter_subject, usage_invariant_state) btree"
  an_fragmentation :: "(counter_subject, fragmentation_accumulator) btree"
  an_reported_resource_issues :: "(string \<times> string) set"
  an_health_observations :: "health_observation list"
  an_health_diagnostics_truncated :: bool
  an_dropped_count :: u64
  an_observation_count :: u64
  an_max_ts :: "timestamp_ns option"
  an_max_depth :: u32
  an_deepest_context :: "string option"
  an_deepest_path :: "string list"
  an_next_activation_serial :: u64
  an_reported_concurrent_tasks :: "(string \<times> u32 \<times> u32) set"
  an_open_custom_spans :: "(custom_span_key, open_custom_span) btree"
  an_open_async_spans :: "(async_span_key, open_custom_span) btree"

definition analyzer_new :: "string \<Rightarrow> analyzer_config \<Rightarrow> analyzer" where
  "analyzer_new session_id config =
     \<lparr>an_session_id = session_id, an_config = config, an_cores = [], an_contexts = [],
      an_context_public_ids = [], an_retired_context_cpu = [], an_context_kinds = [],
      an_counter_definitions = [], an_counter_identity_index = [], an_source_progress = [],
      an_completed_spans = [], an_function_hotspots = [], an_function_span_count = 0,
      an_incomplete_function_span_count = 0, an_samples = [], an_counters = [],
      an_usage_invariants = [], an_fragmentation = [], an_reported_resource_issues = {},
      an_health_observations = [], an_health_diagnostics_truncated = False, an_dropped_count = 0,
      an_observation_count = 0, an_max_ts = None, an_max_depth = 0, an_deepest_context = None,
      an_deepest_path = [], an_next_activation_serial = 0, an_reported_concurrent_tasks = {},
      an_open_custom_spans = [], an_open_async_spans = []\<rparr>"

type_synonym 'a an = "(analyzer, analysis_error, 'a) se"

subsection \<open>Helpers\<close>

definition duration_between :: "timestamp_ns \<Rightarrow> timestamp_ns \<Rightarrow> duration_ns option" where
  "duration_between start_ns end_ns = u64_try_from (ival end_ns - ival start_ns)"

definition worst_quality :: "quality \<Rightarrow> quality \<Rightarrow> quality" where
  "worst_quality = max"

definition frame_matches :: "open_frame \<Rightarrow> string \<Rightarrow> string option \<Rightarrow> bool" where
  "frame_matches fr function_id frame_id \<longleftrightarrow>
     of_function_id fr = function_id \<and>
     (case frame_id of None \<Rightarrow> True | Some i \<Rightarrow> of_frame_id fr = Some i)"

text \<open>\<open>rposition\<close>: the last index whose element satisfies the predicate.\<close>

definition rposition :: "('a \<Rightarrow> bool) \<Rightarrow> 'a list \<Rightarrow> nat option" where
  "rposition P xs = find (\<lambda>i. P (xs ! i)) (rev [0 ..< length xs])"

lemma rposition_Some: "rposition P xs = Some i \<Longrightarrow> i < length xs \<and> P (xs ! i)"
  by (auto simp: rposition_def find_Some_iff rev_nth)

lemma duration_between_Some:
  "duration_between s e = Some d \<longleftrightarrow> uint d = ival e - ival s"
  by (simp add: duration_between_def u64_try_from_Some)

lemma duration_between_le: "s \<le> e \<Longrightarrow> \<exists>d. duration_between s e = Some d"
  using ival_range [of s] ival_range [of e]
  by (auto simp: duration_between_def u64_try_from_def less_eq_i64_def)

abbreviation props :: "(string \<times> json) list \<Rightarrow> properties" where
  "props \<equiv> bt_of_list"

definition j_f64 :: "f64 \<Rightarrow> json" where
  "j_f64 v = (if f64_is_finite v then JFloat v else JNull)"

end
