(* ===== verification/Analyzer_Facts.thy ===== *)
theory Analyzer_Facts
  imports Analyzer_State
begin

text \<open>
  Health facts of the analyzer: the bounded store with its truncation sentinel, and the marks on
  open frames.
\<close>

definition canonical_fact :: "health_observation \<Rightarrow> health_observation" where
  "canonical_fact h =
     (if blank (ho_code h) \<or> blank (ho_source h)
      then h\<lparr>ho_code := ''invalid_health_observation'', ho_source := ''analyzer'',
             ho_evidence := props [(''empty_code'', JBool (blank (ho_code h))),
                                   (''empty_source'', JBool (blank (ho_source h)))]\<rparr>
      else h)"

definition health_limit :: "analyzer \<Rightarrow> nat" where
  "health_limit a = max 1 (cfg_max_health_observations (an_config a))"

definition sentinel :: "nat \<Rightarrow> health_observation \<Rightarrow> health_observation" where
  "sentinel limit h =
     \<lparr>ho_code = ''diagnostics_truncated'', ho_source = ''analyzer'', ho_artifact_id = None,
      ho_record = ho_record h, ho_start_ns = ho_start_ns h, ho_end_ns = ho_end_ns h,
      ho_evidence = props [(''limit'', j_usize limit), (''dropped_observations'', JPos 2)]\<rparr>"

text \<open>\<open>iter_mut().find(..)\<close>: the first observation with the code is updated.\<close>

fun update_first :: "('a \<Rightarrow> bool) \<Rightarrow> ('a \<Rightarrow> 'a) \<Rightarrow> 'a list \<Rightarrow> 'a list" where
  "update_first P f [] = []"
| "update_first P f (x # xs) = (if P x then f x # xs else x # update_first P f xs)"

definition count_dropped :: "u64 \<Rightarrow> health_observation \<Rightarrow> health_observation" where
  "count_dropped n h = h\<lparr>ho_evidence := bt_insert ''dropped_observations'' (JPos n) (ho_evidence h)\<rparr>"

definition store_health_observation :: "health_observation \<Rightarrow> unit an" where
  "store_health_observation h0 =
     (let h = canonical_fact h0 in
      with_state (\<lambda>a.
        if \<not> an_health_diagnostics_truncated a \<and> length (an_health_observations a) < health_limit a then
          modify (\<lambda>a. a\<lparr>an_health_observations := an_health_observations a @ [h]\<rparr>)
        else if \<not> an_health_diagnostics_truncated a then
          modify (\<lambda>a. a\<lparr>an_health_diagnostics_truncated := True, an_dropped_count := 2,
            an_health_observations :=
              (if length (an_health_observations a) = health_limit a
               then butlast (an_health_observations a) else an_health_observations a)
              @ [sentinel (health_limit a) h]\<rparr>)
        else
          andthen (lift (expect (checked_add (an_dropped_count a) 1))) (\<lambda>n.
            modify (\<lambda>a. a\<lparr>an_dropped_count := n,
              an_health_observations :=
                update_first (\<lambda>h. ho_code h = ''diagnostics_truncated'') (count_dropped n)
                  (an_health_observations a)\<rparr>))))"

definition push_fact :: "string \<Rightarrow> string \<Rightarrow> u64 option \<Rightarrow> timestamp_ns option \<Rightarrow> timestamp_ns option
    \<Rightarrow> properties \<Rightarrow> unit an" where
  "push_fact code source record' start_ns end_ns ev =
     store_health_observation
       \<lparr>ho_code = code, ho_source = source, ho_artifact_id = None, ho_record = record',
        ho_start_ns = start_ns, ho_end_ns = end_ns, ho_evidence = ev\<rparr>"

text \<open>A fact that cites an observation.\<close>

abbreviation cite_fact :: "string \<Rightarrow> observation \<Rightarrow> timestamp_ns \<Rightarrow> timestamp_ns \<Rightarrow> (string \<times> json) list
    \<Rightarrow> unit an" where
  "cite_fact code o' s e ev \<equiv>
     push_fact code (obs_source_id o') (Some (obs_source_seq o')) (Some s) (Some e) (props ev)"

definition observe_timestamp :: "timestamp_ns \<Rightarrow> unit an" where
  "observe_timestamp t =
     modify (\<lambda>a. a\<lparr>an_max_ts := Some (case an_max_ts a of None \<Rightarrow> t | Some c \<Rightarrow> max c t)\<rparr>)"

definition mark_frame :: "open_frame \<Rightarrow> open_frame" where
  "mark_frame fr = fr\<lparr>of_incomplete := True, of_quality := worst_quality (of_quality fr) QInferred\<rparr>"

definition mark_frames :: "context_state \<Rightarrow> context_state" where
  "mark_frames c = c\<lparr>cx_frames := map mark_frame (cx_frames c)\<rparr>"

definition mark_context_incomplete :: "exec_key \<Rightarrow> unit an" where
  "mark_context_incomplete k =
     modify (\<lambda>a. a\<lparr>an_contexts := bt_update k mark_frames (an_contexts a)\<rparr>)"

definition taint_context :: "exec_key \<Rightarrow> unit an" where
  "taint_context k =
     modify (\<lambda>a. a\<lparr>an_contexts := bt_update k (\<lambda>c. mark_frames (c\<lparr>cx_tainted := True\<rparr>)) (an_contexts a)\<rparr>)"

definition mark_all_incomplete :: "unit an" where
  "mark_all_incomplete = modify (\<lambda>a. a\<lparr>an_contexts := bt_map_values mark_frames (an_contexts a)\<rparr>)"

definition ensure_execution_context :: "exec_key \<Rightarrow> string \<Rightarrow> unit an" where
  "ensure_execution_context k public' =
     modify (\<lambda>a. a\<lparr>an_contexts := bt_or_insert k context_default (an_contexts a),
                    an_context_public_ids := bt_or_insert k public' (an_context_public_ids a)\<rparr>)"

end
