(* ===== verification/Analyzer_Cores.thy ===== *)
theory Analyzer_Cores
  imports Analyzer_Facts
begin

text \<open>
  Time on the cores: advancing a core credits the interval to the context that ran on it, detects
  a context scheduled on two cores at once and keeps the time of each core from moving back.
\<close>

definition core_entry :: "analyzer \<Rightarrow> u32 \<Rightarrow> core_state" where
  "core_entry a c = (case bt_get (an_cores a) c of None \<Rightarrow> core_default | Some co \<Rightarrow> co)"

definition set_core :: "u32 \<Rightarrow> core_state \<Rightarrow> analyzer \<Rightarrow> analyzer" where
  "set_core c co a = a\<lparr>an_cores := bt_insert c co (an_cores a)\<rparr>"

definition schedule_context :: "u32 \<Rightarrow> exec_key \<Rightarrow> timestamp_ns \<Rightarrow> unit an" where
  "schedule_context c k since =
     modify (\<lambda>a.
       let core = core_entry a c in
       if co_scheduled_context core = Some k then set_core c core a
       else set_core c (core\<lparr>co_scheduled_context := Some k, co_scheduled_since := Some since\<rparr>) a)"

subsection \<open>Concurrent scheduling\<close>

definition overlap_with :: "exec_key \<Rightarrow> u32 \<Rightarrow> timestamp_ns \<Rightarrow> timestamp_ns \<Rightarrow> timestamp_ns
    \<Rightarrow> u32 \<times> core_state \<Rightarrow> (u32 \<times> timestamp_ns) list" where
  "overlap_with k c this_since start_ns end_ns other =
     (if fst other = c \<or> co_scheduled_context (snd other) \<noteq> Some k then []
      else
        (let other_since = (case co_scheduled_since (snd other) of None \<Rightarrow> start_ns | Some t \<Rightarrow> t);
             overlap = max (max start_ns this_since) other_since
         in if overlap < end_ns then [(fst other, overlap)] else []))"

definition concurrent_scheduled_cores :: "analyzer \<Rightarrow> exec_key \<Rightarrow> u32 \<Rightarrow> timestamp_ns \<Rightarrow> timestamp_ns
    \<Rightarrow> (analysis_error, (u32 \<times> timestamp_ns) list) res" where
  "concurrent_scheduled_cores a k c start_ns end_ns =
     rbind (expect (bt_get (an_cores a) c)) (\<lambda>core.
       let this_since = (case co_scheduled_since core of None \<Rightarrow> start_ns | Some t \<Rightarrow> t)
       in Inr (concat (map (overlap_with k c this_since start_ns end_ns) (an_cores a))))"

text \<open>The pairs reported for the first time and the earliest start of their overlaps.\<close>

fun note_conflicts :: "string \<Rightarrow> u32 \<Rightarrow> (u32 \<times> timestamp_ns) list \<Rightarrow> (string \<times> u32 \<times> u32) set
    \<Rightarrow> u32 list \<Rightarrow> timestamp_ns \<Rightarrow> (string \<times> u32 \<times> u32) set \<times> u32 list \<times> timestamp_ns" where
  "note_conflicts ctx c [] reported fresh start_ns = (reported, fresh, start_ns)"
| "note_conflicts ctx c ((other, conflict_start) # cs) reported fresh start_ns =
     (let pair = (ctx, min c other, max c other) in
      if pair \<in> reported then note_conflicts ctx c cs reported fresh start_ns
      else note_conflicts ctx c cs (insert pair reported) (fresh @ [other]) (min start_ns conflict_start))"

definition report_conflicts :: "u32 \<Rightarrow> exec_key \<Rightarrow> string \<Rightarrow> (u32 \<times> timestamp_ns) list \<Rightarrow> timestamp_ns
    \<Rightarrow> observation \<Rightarrow> unit an" where
  "report_conflicts c k ctx conflicts end_ns o' =
     followed (taint_context k)
       (with_state (\<lambda>a.
         case note_conflicts ctx c conflicts (an_reported_concurrent_tasks a) [] end_ns of
           (reported, fresh, overlap_start) \<Rightarrow>
             followed (modify (\<lambda>a. a\<lparr>an_reported_concurrent_tasks := reported\<rparr>))
               (if fresh = [] then ret ()
                else cite_fact ''concurrent_context'' o' overlap_start end_ns
                  [(''context_id'', JStr ctx), (''core_id'', j_u32 c),
                   (''conflicting_cores'', JArr (map j_u32 fresh))])))"

definition detect_concurrent_scheduling :: "u32 \<Rightarrow> timestamp_ns \<Rightarrow> timestamp_ns \<Rightarrow> observation \<Rightarrow> unit an" where
  "detect_concurrent_scheduling c start_ns end_ns o' =
     with_state (\<lambda>a.
       case co_scheduled_context (core_entry a c) of
         None \<Rightarrow> ret ()
       | Some k \<Rightarrow>
           (case scheduled_id k of
              None \<Rightarrow> ret ()
            | Some ctx \<Rightarrow>
                andthen (lift (concurrent_scheduled_cores a k c start_ns end_ns)) (\<lambda>conflicts.
                  if conflicts = [] then ret ()
                  else report_conflicts c k ctx conflicts end_ns o')))"

subsection \<open>Crediting an interval\<close>

definition min_option :: "'a::linorder list \<Rightarrow> 'a option" where
  "min_option xs = (case xs of [] \<Rightarrow> None | x # xs \<Rightarrow> Some (fold min xs x))"

definition credited_scheduled_duration :: "analyzer \<Rightarrow> exec_key \<Rightarrow> u32 \<Rightarrow> timestamp_ns \<Rightarrow> timestamp_ns
    \<Rightarrow> (analysis_error, duration_ns) res" where
  "credited_scheduled_duration a k c start_ns end_ns =
     rbind (concurrent_scheduled_cores a k c start_ns end_ns) (\<lambda>conflicts.
       let first = min_option (map snd (filter (\<lambda>p. fst p < c) conflicts));
           credited_end = (case first of None \<Rightarrow> end_ns | Some t \<Rightarrow> t)
       in expect (duration_between start_ns credited_end))"

definition credited_duration :: "analyzer \<Rightarrow> exec_key \<Rightarrow> u32 \<Rightarrow> timestamp_ns \<Rightarrow> timestamp_ns
    \<Rightarrow> (analysis_error, duration_ns) res" where
  "credited_duration a k c start_ns end_ns =
     (case k of
        Scheduled _ \<Rightarrow> credited_scheduled_duration a k c start_ns end_ns
      | InterruptActivationKey _ _ _ \<Rightarrow> expect (duration_between start_ns end_ns))"

definition set_virtual :: "exec_key \<Rightarrow> duration_ns \<Rightarrow> unit an" where
  "set_virtual k v =
     modify (\<lambda>a. a\<lparr>an_contexts := bt_update k (\<lambda>x. x\<lparr>cx_virtual_cpu_ns := v\<rparr>) (an_contexts a)\<rparr>)"

definition add_virtual :: "exec_key \<Rightarrow> string \<Rightarrow> duration_ns \<Rightarrow> timestamp_ns \<Rightarrow> timestamp_ns \<Rightarrow> unit an" where
  "add_virtual k ctx credited start_ns end_ns =
     andthen (query (\<lambda>a. bt_get (an_contexts a) k)) (\<lambda>cx.
       case cx of
         None \<Rightarrow> panic
       | Some x \<Rightarrow>
           (case checked_add (cx_virtual_cpu_ns x) credited of
              Some next \<Rightarrow> set_virtual k next
            | None \<Rightarrow>
                followed (set_virtual k (- 1))
                  (followed
                    (push_fact ''duration_overflow'' ''analyzer'' None (Some start_ns) (Some end_ns)
                      (props [(''context_id'', JStr ctx)]))
                    (mark_context_incomplete k))))"

definition credit_execution_interval :: "exec_key \<Rightarrow> string \<Rightarrow> u32 \<Rightarrow> timestamp_ns \<Rightarrow> timestamp_ns \<Rightarrow> unit an" where
  "credit_execution_interval k ctx c start_ns end_ns =
     followed (ensure_execution_context k ctx)
       (with_state (\<lambda>a.
         andthen (lift (credited_duration a k c start_ns end_ns)) (\<lambda>credited.
           add_virtual k ctx credited start_ns end_ns)))"

subsection \<open>Advancing a core\<close>

definition running_pair :: "core_state \<Rightarrow> (exec_key \<times> string) option" where
  "running_pair core =
     (case (running_context core, running_public_context core) of
        (Some k, Some p) \<Rightarrow> Some (k, p)
      | _ \<Rightarrow> None)"

definition advance_forward :: "u32 \<Rightarrow> timestamp_ns \<Rightarrow> timestamp_ns \<Rightarrow> (exec_key \<times> string) option
    \<Rightarrow> observation \<Rightarrow> unit an" where
  "advance_forward c last_ts ts running o' =
     followed (detect_concurrent_scheduling c last_ts ts o')
       (case running of
          Some (k, ctx) \<Rightarrow> credit_execution_interval k ctx c last_ts ts
        | None \<Rightarrow>
            push_fact ''missing_scheduled_context'' ''analyzer'' None (Some last_ts) (Some ts)
              (props [(''core_id'', j_u32 c)]))"

definition effective_time :: "u32 \<Rightarrow> timestamp_ns \<Rightarrow> observation \<Rightarrow> core_state \<Rightarrow> timestamp_ns an" where
  "effective_time c ts o' core =
     (case co_last_ts core of
        None \<Rightarrow> ret ts
      | Some last_ts \<Rightarrow>
          if ts < last_ts then
            followed
              (cite_fact ''out_of_order_timestamp'' o' ts last_ts
                [(''core_id'', j_u32 c), (''previous_ns'', j_i64 last_ts), (''actual_ns'', j_i64 ts)])
              (followed
                (case running_pair core of None \<Rightarrow> ret () | Some (k, _) \<Rightarrow> mark_context_incomplete k)
                (ret last_ts))
          else
            andthen (lift (expect (duration_between last_ts ts))) (\<lambda>delta.
              followed (when_se (0 < delta) (advance_forward c last_ts ts (running_pair core) o'))
                (ret ts)))"

definition advance_core :: "u32 \<Rightarrow> timestamp_ns \<Rightarrow> observation \<Rightarrow> timestamp_ns an" where
  "advance_core c ts o' =
     with_state (\<lambda>a.
       andthen (effective_time c ts o' (core_entry a c)) (\<lambda>eff.
         followed (modify (\<lambda>a. set_core c ((core_entry a c)\<lparr>co_last_ts := Some eff\<rparr>) a))
           (followed (observe_timestamp eff) (ret eff))))"

definition advance_optional_core :: "u32 option \<Rightarrow> timestamp_ns \<Rightarrow> observation \<Rightarrow> timestamp_ns an" where
  "advance_optional_core c ts o' =
     (case c of
        Some c \<Rightarrow> advance_core c ts o'
      | None \<Rightarrow> followed (observe_timestamp ts) (ret ts))"

end
