(* ===== verification/Analyzer_Functions.thy ===== *)
theory Analyzer_Functions
  imports Analyzer_Cores
begin

text \<open>
  Function entry and exit: the context an event belongs to, the stack of open frames of a
  context, and the spans and hotspot aggregates that closing a frame produces.
\<close>

subsection \<open>The context of an event\<close>

definition event_execution_context :: "analyzer \<Rightarrow> u32 \<Rightarrow> string \<Rightarrow> exec_key" where
  "event_execution_context a c ctx =
     (case bt_get (an_cores a) c of
        None \<Rightarrow> Scheduled ctx
      | Some core \<Rightarrow>
          (case find (\<lambda>i. ia_interrupt_id i = ctx) (rev (co_interrupts core)) of
             None \<Rightarrow> Scheduled ctx
           | Some i \<Rightarrow> ia_execution_context i))"

definition context_mismatch :: "u32 \<Rightarrow> exec_key \<Rightarrow> string \<Rightarrow> exec_key \<Rightarrow> string \<Rightarrow> observation \<Rightarrow> unit an" where
  "context_mismatch c running_key running_public event_key event_public o' =
     followed
       (cite_fact ''context_mismatch'' o' (ts_ns o') (ts_ns o')
         [(''core_id'', j_u32 c), (''running_context'', JStr running_public),
          (''event_context'', JStr event_public)])
       (followed (mark_context_incomplete running_key) (mark_context_incomplete event_key))"

definition kind_or_insert :: "string \<Rightarrow> context_kind \<Rightarrow> unit an" where
  "kind_or_insert ctx kind =
     modify (\<lambda>a. a\<lparr>an_context_kinds := bt_or_insert ctx kind (an_context_kinds a)\<rparr>)"

definition running_on :: "analyzer \<Rightarrow> u32 \<Rightarrow> (exec_key \<times> string \<times> bool) option" where
  "running_on a c =
     (case bt_get (an_cores a) c of
        None \<Rightarrow> None
      | Some core \<Rightarrow>
          (case (running_context core, running_public_context core) of
             (Some k, Some p) \<Rightarrow> Some (k, p, co_interrupts core \<noteq> [])
           | _ \<Rightarrow> None))"

text \<open>A context that nothing else announced is scheduled from the core's last timestamp.\<close>

definition adopt_context :: "u32 \<Rightarrow> string \<Rightarrow> observation \<Rightarrow> (exec_key \<times> bool) an" where
  "adopt_context c ctx o' =
     andthen (query (\<lambda>a. bt_get (an_cores a) c)) (\<lambda>core.
       case core of
         None \<Rightarrow> panic
       | Some core \<Rightarrow>
           followed
             (schedule_context c (Scheduled ctx)
               (case co_last_ts core of None \<Rightarrow> ts_ns o' | Some t \<Rightarrow> t))
             (followed (kind_or_insert ctx CkUnknown) (ret (Scheduled ctx, True))))"

definition ensure_function_context :: "u32 \<Rightarrow> string \<Rightarrow> observation \<Rightarrow> (exec_key \<times> bool) an" where
  "ensure_function_context c ctx o' =
     with_state (\<lambda>a.
       case running_on a c of
         None \<Rightarrow>
           followed (ensure_execution_context (Scheduled ctx) ctx) (adopt_context c ctx o')
       | Some (running_key, running_public, nested) \<Rightarrow>
           if running_public = ctx then
             followed (ensure_execution_context running_key ctx) (ret (running_key, True))
           else if \<not> nested \<and>
               se_support (cap_context_switches (cfg_capabilities (an_config a))) = Unavailable then
             followed (ensure_execution_context (Scheduled ctx) ctx)
               (andthen (query (\<lambda>a. bt_get (an_cores a) c)) (\<lambda>core.
                 case core of
                   None \<Rightarrow> panic
                 | Some core \<Rightarrow>
                     if co_interrupts core = [] then adopt_context c ctx o' else panic))
           else
             let event_key = event_execution_context a c ctx in
             followed (ensure_execution_context event_key ctx)
               (followed (context_mismatch c running_key running_public event_key ctx o')
                 (ret (event_key, False))))"

subsection \<open>Hotspot aggregation\<close>

definition count_up :: "string \<Rightarrow> string \<Rightarrow> u64 \<Rightarrow> u64 \<Rightarrow> (analysis_error, u64) res" where
  "count_up fld subject n d = ok_or (checked_add n d) (NumericOverflow fld subject)"

definition add_span :: "hotspot_accumulator \<Rightarrow> function_span \<Rightarrow> (analysis_error, hotspot_accumulator) res" where
  "add_span h sp =
     rbind (count_up ''hotspot_inclusive_active_ns'' (fs_function_id sp) (ha_inclusive_active_ns h) (fs_active_ns sp)) (\<lambda>inclusive.
     rbind (count_up ''hotspot_self_active_ns'' (fs_function_id sp) (ha_self_active_ns h) (fs_self_active_ns sp)) (\<lambda>self_active.
     rbind (count_up ''hotspot_count'' (fs_function_id sp) (ha_count h) 1) (\<lambda>n.
       Inr \<lparr>ha_inclusive_active_ns = inclusive, ha_self_active_ns = self_active, ha_count = n,
            ha_min_active_ns =
              (if n = 1 then fs_active_ns sp else min (ha_min_active_ns h) (fs_active_ns sp)),
            ha_max_active_ns = max (ha_max_active_ns h) (fs_active_ns sp),
            ha_quality =
              Some (case ha_quality h of
                      None \<Rightarrow> fs_quality sp
                    | Some q \<Rightarrow> worst_quality q (fs_quality sp))\<rparr>)))"

definition hotspot_of :: "analyzer \<Rightarrow> string \<Rightarrow> hotspot_accumulator" where
  "hotspot_of a f = (case bt_get (an_function_hotspots a) f of None \<Rightarrow> hotspot_default | Some h \<Rightarrow> h)"

text \<open>Nothing is written before every check has passed.\<close>

definition record_completed_span :: "function_span \<Rightarrow> unit an" where
  "record_completed_span sp =
     with_state (\<lambda>a.
       andthen (lift (map_err InvalidDerived (validate_span sp))) (\<lambda>_.
       andthen (lift (count_up ''function_span_count'' (an_session_id a) (an_function_span_count a) 1)) (\<lambda>n.
       andthen
         (lift
           (if fs_incomplete sp
            then count_up ''incomplete_function_span_count'' (an_session_id a)
                   (an_incomplete_function_span_count a) 1
            else Inr (an_incomplete_function_span_count a))) (\<lambda>inc.
       andthen
         (lift
           (if fs_incomplete sp then Inr None
            else rbind (add_span (hotspot_of a (fs_function_id sp)) sp) (\<lambda>h. Inr (Some h)))) (\<lambda>aggregate.
         modify (\<lambda>a. a\<lparr>an_function_span_count := n, an_incomplete_function_span_count := inc,
           an_function_hotspots :=
             (case aggregate of
                None \<Rightarrow> an_function_hotspots a
              | Some h \<Rightarrow> bt_insert (fs_function_id sp) h (an_function_hotspots a)),
           an_completed_spans := an_completed_spans a @ [sp]\<rparr>))))))"

subsection \<open>Closing frames\<close>

definition frames_of :: "analyzer \<Rightarrow> exec_key \<Rightarrow> open_frame list" where
  "frames_of a k = (case bt_get (an_contexts a) k of None \<Rightarrow> [] | Some cx \<Rightarrow> cx_frames cx)"

definition set_frames :: "exec_key \<Rightarrow> open_frame list \<Rightarrow> unit an" where
  "set_frames k fs =
     modify (\<lambda>a. a\<lparr>an_contexts := bt_update k (\<lambda>cx. cx\<lparr>cx_frames := fs\<rparr>) (an_contexts a)\<rparr>)"

definition closed_elapsed :: "open_frame \<Rightarrow> timestamp_ns \<Rightarrow> duration_ns" where
  "closed_elapsed fr end_wall =
     (case duration_between (of_start_wall_ns fr) end_wall of None \<Rightarrow> 0 | Some d \<Rightarrow> d)"

definition closed_span :: "duration_ns \<Rightarrow> open_frame \<Rightarrow> timestamp_ns \<Rightarrow> u64 option \<Rightarrow> quality \<Rightarrow> bool
    \<Rightarrow> function_span" where
  "closed_span virtual' fr end_wall seq_end exit_quality force_incomplete =
     (let raw_active = saturating_sub virtual' (of_start_virtual_ns fr);
          elapsed = closed_elapsed fr end_wall;
          active_ns = min raw_active elapsed;
          incomplete =
            (force_incomplete \<or> of_incomplete fr \<or> elapsed < raw_active \<or> active_ns < of_child_active_ns fr);
          q = worst_quality (of_quality fr) exit_quality
      in \<lparr>fs_source_id = of_source_id fr, fs_source_seq_start = Some (of_source_seq_start fr),
          fs_source_seq_end = seq_end, fs_core_id = of_core_id fr,
          fs_context_id = of_public_context_id fr, fs_function_id = of_function_id fr,
          fs_frame_id = of_frame_id fr, fs_start_ns = of_start_wall_ns fr,
          fs_end_ns = max end_wall (of_start_wall_ns fr), fs_elapsed_ns = elapsed,
          fs_active_ns = active_ns,
          fs_self_active_ns = saturating_sub active_ns (min (of_child_active_ns fr) active_ns),
          fs_preempted_ns = saturating_sub elapsed active_ns,
          fs_quality = (if incomplete then worst_quality q QInferred else q),
          fs_incomplete = incomplete\<rparr>)"

definition charge_parent :: "function_span \<Rightarrow> open_frame \<Rightarrow> (analysis_error, open_frame) res" where
  "charge_parent sp parent =
     rbind (count_up ''child_active_ns'' (fs_context_id sp) (of_child_active_ns parent) (fs_active_ns sp)) (\<lambda>n.
       let p = parent\<lparr>of_child_active_ns := n\<rparr> in
       Inr (if fs_incomplete sp then mark_frame p else p))"

text \<open>The frame is popped before anything can fail.\<close>

definition finalize_top :: "exec_key \<Rightarrow> timestamp_ns \<Rightarrow> u64 option \<Rightarrow> quality \<Rightarrow> bool \<Rightarrow> unit an" where
  "finalize_top k end_wall seq_end exit_quality force_incomplete =
     andthen (query (\<lambda>a. bt_get (an_contexts a) k)) (\<lambda>cx.
       case cx of
         None \<Rightarrow> panic
       | Some cx \<Rightarrow>
           if cx_frames cx = [] then panic
           else
             let rest = butlast (cx_frames cx);
                 sp = closed_span (cx_virtual_cpu_ns cx) (last (cx_frames cx)) end_wall seq_end
                        exit_quality force_incomplete
             in followed (set_frames k rest)
                  (followed
                    (if rest = [] then ret ()
                     else andthen (lift (charge_parent sp (last rest))) (\<lambda>p.
                       set_frames k (butlast rest @ [p])))
                    (record_completed_span sp)))"

definition unclosed_function :: "exec_key \<Rightarrow> timestamp_ns \<Rightarrow> string \<Rightarrow> u64 option \<Rightarrow> unit an" where
  "unclosed_function k end_ns source record' =
     with_state (\<lambda>a.
       if frames_of a k = [] then panic
       else let fr = last (frames_of a k) in
         followed
           (push_fact ''unclosed_function'' source record' (Some end_ns) (Some end_ns)
             (props [(''context_id'', JStr (of_public_context_id fr)),
                     (''function_id'', JStr (of_function_id fr))]))
           (finalize_top k end_ns record' QInferred True))"

definition close_unclosed_frames :: "exec_key \<Rightarrow> timestamp_ns \<Rightarrow> string \<Rightarrow> u64 option \<Rightarrow> unit an" where
  "close_unclosed_frames k end_ns source record' =
     with_state (\<lambda>a.
       while_se (Suc (length (frames_of a k))) (\<lambda>a. frames_of a k \<noteq> [])
         (unclosed_function k end_ns source record'))"

subsection \<open>Entry and exit\<close>

definition open_frame_of :: "observation \<Rightarrow> u32 \<Rightarrow> string \<Rightarrow> string \<Rightarrow> string option \<Rightarrow> timestamp_ns
    \<Rightarrow> bool \<Rightarrow> context_state \<Rightarrow> open_frame" where
  "open_frame_of o' c ctx f frame start matches cx =
     \<lparr>of_source_id = obs_source_id o', of_source_seq_start = obs_source_seq o', of_core_id = c,
      of_public_context_id = ctx, of_function_id = f, of_frame_id = frame, of_start_wall_ns = start,
      of_start_virtual_ns = cx_virtual_cpu_ns cx, of_child_active_ns = 0,
      of_quality = obs_quality o', of_incomplete = (\<not> matches \<or> cx_tainted cx)\<rparr>"

definition note_depth :: "string \<Rightarrow> open_frame list \<Rightarrow> unit an" where
  "note_depth ctx fs =
     andthen
       (lift
         (if int (length fs) < 2 ^ 32 then Inr (word_of_nat (length fs))
          else Inl (Err (NumericOverflow ''call_depth'' ctx)))) (\<lambda>depth.
       modify (\<lambda>a.
         if an_max_depth a < depth
         then a\<lparr>an_max_depth := depth, an_deepest_context := Some ctx,
                an_deepest_path := map of_function_id fs\<rparr>
         else a))"

definition function_enter :: "observation \<Rightarrow> timestamp_ns \<Rightarrow> u32 \<Rightarrow> string \<Rightarrow> string \<Rightarrow> string option \<Rightarrow> unit an" where
  "function_enter o' ts c ctx f frame =
     andthen (advance_core c ts o') (\<lambda>eff.
     andthen (ensure_function_context c ctx o') (\<lambda>(k, matches).
     followed (ensure_execution_context k ctx)
     (andthen (query (\<lambda>a. bt_get (an_contexts a) k)) (\<lambda>cx.
       case cx of
         None \<Rightarrow> panic
       | Some cx \<Rightarrow>
           let fs = cx_frames cx @ [open_frame_of o' c ctx f frame eff matches cx] in
           followed (set_frames k fs) (note_depth ctx fs)))))"

definition unmatched_function_exit :: "observation \<Rightarrow> timestamp_ns \<Rightarrow> string \<Rightarrow> string \<Rightarrow> unit an" where
  "unmatched_function_exit o' ts ctx f =
     cite_fact ''unmatched_function_exit'' o' ts ts
       [(''context_id'', JStr ctx), (''function_id'', JStr f)]"

definition unwind_frames :: "exec_key \<Rightarrow> nat \<Rightarrow> timestamp_ns \<Rightarrow> observation \<Rightarrow> unit an" where
  "unwind_frames k i eff o' =
     with_state (\<lambda>a.
       while_se (Suc (length (frames_of a k))) (\<lambda>a. i < length (frames_of a k) - 1)
         (finalize_top k eff (Some (obs_source_seq o')) (obs_quality o') True))"

definition exit_matched :: "exec_key \<Rightarrow> open_frame list \<Rightarrow> nat \<Rightarrow> timestamp_ns \<Rightarrow> string \<Rightarrow> string
    \<Rightarrow> observation \<Rightarrow> unit an" where
  "exit_matched k fs i eff ctx f o' =
     (let mismatched = (i \<noteq> length fs - 1 \<or> of_source_id (fs ! i) \<noteq> obs_source_id o') in
      followed
        (when_se mismatched
          (followed
            (cite_fact ''mismatched_function_exit'' o' eff eff
              [(''context_id'', JStr ctx), (''function_id'', JStr f)])
            (mark_context_incomplete k)))
        (followed (unwind_frames k i eff o')
          (finalize_top k eff (Some (obs_source_seq o')) (obs_quality o') mismatched)))"

definition function_exit :: "observation \<Rightarrow> timestamp_ns \<Rightarrow> u32 \<Rightarrow> string \<Rightarrow> string \<Rightarrow> string option \<Rightarrow> unit an" where
  "function_exit o' ts c ctx f frame =
     andthen (advance_core c ts o') (\<lambda>eff.
     andthen (ensure_function_context c ctx o') (\<lambda>(k, matches).
     followed (when_se (\<not> matches) (mark_context_incomplete k))
       (andthen (query (\<lambda>a. bt_get (an_contexts a) k)) (\<lambda>cx.
         case cx of
           None \<Rightarrow> unmatched_function_exit o' eff ctx f
         | Some cx \<Rightarrow>
             (case rposition (\<lambda>fr. frame_matches fr f frame) (cx_frames cx) of
                None \<Rightarrow>
                  followed (unmatched_function_exit o' eff ctx f) (mark_context_incomplete k)
              | Some i \<Rightarrow> exit_matched k (cx_frames cx) i eff ctx f o')))))"

end
