(* ===== verification/Analyzer_Switching.thy ===== *)
theory Analyzer_Switching
  imports Analyzer_Functions
begin

text \<open>
  Context switches, interrupt entry and exit, custom and asynchronous spans, trace gaps and
  health metadata.
\<close>

subsection \<open>Context switches\<close>

definition infer_scheduled_context_kind :: "string \<Rightarrow> context_kind" where
  "infer_scheduled_context_kind ctx =
     (if str_contains (to_ascii_lowercase ctx) ''idle'' then CkIdle else CkTask)"

definition scheduled_on :: "analyzer \<Rightarrow> u32 \<Rightarrow> string option" where
  "scheduled_on a c =
     (case bt_get (an_cores a) c of
        None \<Rightarrow> None
      | Some core \<Rightarrow>
          (case co_scheduled_context core of None \<Rightarrow> None | Some k \<Rightarrow> scheduled_id k))"

definition report_switch_mismatch :: "observation \<Rightarrow> u32 \<Rightarrow> timestamp_ns \<Rightarrow> string \<Rightarrow> string
    \<Rightarrow> string option \<Rightarrow> unit an" where
  "report_switch_mismatch o' c eff expected actual reason =
     followed
       (cite_fact ''context_switch_mismatch'' o' eff eff
         [(''core_id'', j_u32 c), (''expected_previous'', JStr expected),
          (''actual_previous'', JStr actual), (''reason'', j_opt JStr reason)])
       (followed (mark_context_incomplete (Scheduled actual))
         (mark_context_incomplete (Scheduled expected)))"

definition context_switch :: "observation \<Rightarrow> timestamp_ns \<Rightarrow> u32 \<Rightarrow> string option \<Rightarrow> string
    \<Rightarrow> string option \<Rightarrow> unit an" where
  "context_switch o' ts c prev next' reason =
     andthen (advance_core c ts o') (\<lambda>eff.
     andthen (query (\<lambda>a. scheduled_on a c)) (\<lambda>scheduled.
     followed
       (case (prev, scheduled) of
          (Some expected, Some actual) \<Rightarrow>
            when_se (actual \<noteq> expected) (report_switch_mismatch o' c eff expected actual reason)
        | _ \<Rightarrow> ret ())
       (followed (ensure_execution_context (Scheduled next') next')
         (followed (schedule_context c (Scheduled next') eff)
           (kind_or_insert next' (infer_scheduled_context_kind next'))))))"

subsection \<open>Interrupts\<close>

definition push_interrupt :: "u32 \<Rightarrow> interrupt_activation \<Rightarrow> unit an" where
  "push_interrupt c i =
     modify (\<lambda>a. set_core c
       ((core_entry a c)\<lparr>co_interrupts := co_interrupts (core_entry a c) @ [i]\<rparr>) a)"

definition duplicate_activations :: "analyzer \<Rightarrow> u32 \<Rightarrow> string \<Rightarrow> exec_key list" where
  "duplicate_activations a c act =
     (case bt_get (an_cores a) c of
        None \<Rightarrow> []
      | Some core \<Rightarrow>
          map ia_execution_context (filter (\<lambda>i. ia_activation_id i = act) (co_interrupts core)))"

definition next_serial :: "u64 an" where
  "next_serial =
     with_state (\<lambda>a.
       andthen (lift (count_up ''interrupt_activation_serial'' (an_session_id a)
                       (an_next_activation_serial a) 1)) (\<lambda>n.
         followed (modify (\<lambda>a. a\<lparr>an_next_activation_serial := n\<rparr>))
           (ret (an_next_activation_serial a))))"

definition interrupt_enter :: "observation \<Rightarrow> timestamp_ns \<Rightarrow> u32 \<Rightarrow> string \<Rightarrow> string \<Rightarrow> unit an" where
  "interrupt_enter o' ts c irq act =
     andthen (advance_core c ts o') (\<lambda>eff.
     andthen (query (\<lambda>a. duplicate_activations a c act)) (\<lambda>dups.
     followed
       (when_se (dups \<noteq> [])
         (followed
           (cite_fact ''duplicate_interrupt_activation'' o' eff eff [(''activation_id'', JStr act)])
           (for_each taint_context dups)))
       (andthen next_serial (\<lambda>serial.
         let k = InterruptActivationKey c act serial in
         followed (ensure_execution_context k irq)
           (followed (when_se (dups \<noteq> []) (taint_context k))
             (followed
               (push_interrupt c
                 \<lparr>ia_interrupt_id = irq, ia_activation_id = act, ia_execution_context = k,
                  ia_entered_ts = eff\<rparr>)
               (modify (\<lambda>a. a\<lparr>an_context_kinds := bt_insert irq CkIsr (an_context_kinds a)\<rparr>))))))))"

text \<open>The accumulated time survives the context, under its public name.\<close>

definition credit_retired :: "string \<Rightarrow> duration_ns \<Rightarrow> unit an" where
  "credit_retired p cpu =
     followed
       (modify (\<lambda>a. a\<lparr>an_retired_context_cpu := bt_or_insert p 0 (an_retired_context_cpu a)\<rparr>))
       (with_state (\<lambda>a.
         andthen
           (lift (rbind (expect (bt_get (an_retired_context_cpu a) p)) (\<lambda>t.
             count_up ''context_cpu_ns'' p t cpu))) (\<lambda>n.
           modify (\<lambda>a. a\<lparr>an_retired_context_cpu := bt_insert p n (an_retired_context_cpu a)\<rparr>))))"

definition take_public_id :: "exec_key \<Rightarrow> string an" where
  "take_public_id k =
     andthen (query (\<lambda>a. bt_get (an_context_public_ids a) k)) (\<lambda>public'.
       case public' of
         None \<Rightarrow> panic
       | Some p \<Rightarrow>
           followed
             (modify (\<lambda>a. a\<lparr>an_context_public_ids := bt_remove k (an_context_public_ids a)\<rparr>))
             (ret p))"

definition retire_interrupt_context :: "exec_key \<Rightarrow> unit an" where
  "retire_interrupt_context k =
     andthen (query (\<lambda>a. bt_get (an_contexts a) k)) (\<lambda>cx.
       case cx of
         None \<Rightarrow> ret ()
       | Some cx \<Rightarrow>
           followed (modify (\<lambda>a. a\<lparr>an_contexts := bt_remove k (an_contexts a)\<rparr>))
             (followed (if cx_frames cx = [] then ret () else panic)
               (andthen (take_public_id k) (\<lambda>p. credit_retired p (cx_virtual_cpu_ns cx)))))"

definition interrupt_fact :: "string \<Rightarrow> observation \<Rightarrow> timestamp_ns \<Rightarrow> u32 \<Rightarrow> string \<Rightarrow> string \<Rightarrow> unit an" where
  "interrupt_fact code o' eff c irq act =
     cite_fact code o' eff eff
       [(''core_id'', j_u32 c), (''interrupt_id'', JStr irq), (''activation_id'', JStr act)]"

definition truncate_interrupts :: "u32 \<Rightarrow> nat \<Rightarrow> unit an" where
  "truncate_interrupts c n =
     modify (\<lambda>a. a\<lparr>an_cores :=
       bt_update c (\<lambda>co. co\<lparr>co_interrupts := take n (co_interrupts co)\<rparr>) (an_cores a)\<rparr>)"

text \<open>Leaving position \<open>i\<close> of the interrupt stack closes everything above it too.\<close>

definition leave_interrupts :: "observation \<Rightarrow> timestamp_ns \<Rightarrow> u32 \<Rightarrow> string \<Rightarrow> string
    \<Rightarrow> interrupt_activation list \<Rightarrow> nat \<Rightarrow> unit an" where
  "leave_interrupts o' eff c irq act stack i =
     followed
       (when_se (i \<noteq> length stack - 1)
         (followed (interrupt_fact ''mismatched_interrupt_exit'' o' eff c irq act)
           (followed
             (for_each (\<lambda>x. mark_context_incomplete (ia_execution_context x)) (drop (i + 1) stack))
             (mark_context_incomplete (ia_execution_context (stack ! i))))))
       (followed
         (for_each
           (\<lambda>x. close_unclosed_frames (ia_execution_context x) eff (obs_source_id o')
                  (Some (obs_source_seq o')))
           (drop i stack))
         (followed (truncate_interrupts c i)
           (for_each (\<lambda>x. retire_interrupt_context (ia_execution_context x)) (drop i stack))))"

definition interrupts_on :: "analyzer \<Rightarrow> u32 \<Rightarrow> interrupt_activation list" where
  "interrupts_on a c = (case bt_get (an_cores a) c of None \<Rightarrow> [] | Some core \<Rightarrow> co_interrupts core)"

definition interrupt_exit :: "observation \<Rightarrow> timestamp_ns \<Rightarrow> u32 \<Rightarrow> string \<Rightarrow> string \<Rightarrow> unit an" where
  "interrupt_exit o' ts c irq act =
     andthen (advance_core c ts o') (\<lambda>eff.
     andthen (query (\<lambda>a. interrupts_on a c)) (\<lambda>stack.
       case rposition (\<lambda>i. ia_activation_id i = act \<and> ia_interrupt_id i = irq) stack of
         None \<Rightarrow> interrupt_fact ''unmatched_interrupt_exit'' o' eff c irq act
       | Some i \<Rightarrow> leave_interrupts o' eff c irq act stack i))"

end
