(* ===== verification/Analyzer_Custom.thy ===== *)
theory Analyzer_Custom
  imports Analyzer_Switching
begin

text \<open>
  Custom and asynchronous spans with their shared limit, trace gaps and health metadata.
\<close>

subsection \<open>Custom and asynchronous spans\<close>

definition open_custom_span_count :: "analyzer \<Rightarrow> nat" where
  "open_custom_span_count a = length (an_open_custom_spans a) + length (an_open_async_spans a)"

definition open_span_limit :: "analyzer \<Rightarrow> nat" where
  "open_span_limit a = max 1 (cfg_max_open_custom_spans (an_config a))"

definition record_open_custom_span_limit :: "observation \<Rightarrow> timestamp_ns \<Rightarrow> string \<Rightarrow> string \<Rightarrow> unit an" where
  "record_open_custom_span_limit o' ts kind ident =
     with_state (\<lambda>a.
       cite_fact ''open_custom_span_limit_exceeded'' o' ts ts
         [(''kind'', JStr kind), (''identifier'', JStr ident),
          (''limit'', j_usize (open_span_limit a))])"

definition opened_span :: "observation \<Rightarrow> timestamp_ns \<Rightarrow> string \<Rightarrow> open_custom_span" where
  "opened_span o' ts name =
     \<lparr>os_source_id = obs_source_id o', os_source_seq = obs_source_seq o', os_begin_ts = ts,
      os_name = name\<rparr>"

definition custom_span_begin :: "observation \<Rightarrow> timestamp_ns \<Rightarrow> u32 option \<Rightarrow> string option \<Rightarrow> string
    \<Rightarrow> string \<Rightarrow> unit an" where
  "custom_span_begin o' ts c ctx span_id name =
     with_state (\<lambda>a.
       let key = (obs_source_id o', c, ctx, span_id) in
       case bt_get (an_open_custom_spans a) key of
         Some prior \<Rightarrow>
           cite_fact ''duplicate_span_begin'' o' (os_begin_ts prior) ts
             [(''span_id'', JStr span_id), (''prior_source_seq'', JPos (os_source_seq prior))]
       | None \<Rightarrow>
           if open_span_limit a \<le> open_custom_span_count a
           then record_open_custom_span_limit o' ts ''span'' span_id
           else modify (\<lambda>a. a\<lparr>an_open_custom_spans :=
             bt_insert key (opened_span o' ts name) (an_open_custom_spans a)\<rparr>))"

definition custom_span_end :: "observation \<Rightarrow> timestamp_ns \<Rightarrow> u32 option \<Rightarrow> string option \<Rightarrow> string
    \<Rightarrow> unit an" where
  "custom_span_end o' ts c ctx span_id =
     with_state (\<lambda>a.
       let key = (obs_source_id o', c, ctx, span_id) in
       followed
         (modify (\<lambda>a. a\<lparr>an_open_custom_spans := bt_remove key (an_open_custom_spans a)\<rparr>))
         (when_se (bt_get (an_open_custom_spans a) key = None)
           (cite_fact ''unmatched_span_end'' o' ts ts
             [(''span_id'', JStr span_id), (''core_id'', j_opt j_u32 c), (''context_id'', j_opt JStr ctx)])))"

definition async_span_begin :: "observation \<Rightarrow> timestamp_ns \<Rightarrow> string \<Rightarrow> string \<Rightarrow> unit an" where
  "async_span_begin o' ts correlation name =
     with_state (\<lambda>a.
       let key = (obs_source_id o', correlation) in
       case bt_get (an_open_async_spans a) key of
         Some prior \<Rightarrow>
           cite_fact ''duplicate_async_begin'' o' (os_begin_ts prior) ts
             [(''correlation_id'', JStr correlation), (''prior_source_seq'', JPos (os_source_seq prior))]
       | None \<Rightarrow>
           if open_span_limit a \<le> open_custom_span_count a
           then record_open_custom_span_limit o' ts ''async'' correlation
           else modify (\<lambda>a. a\<lparr>an_open_async_spans :=
             bt_insert key (opened_span o' ts name) (an_open_async_spans a)\<rparr>))"

definition async_span_end :: "observation \<Rightarrow> timestamp_ns \<Rightarrow> string \<Rightarrow> unit an" where
  "async_span_end o' ts correlation =
     with_state (\<lambda>a.
       let key = (obs_source_id o', correlation) in
       followed
         (modify (\<lambda>a. a\<lparr>an_open_async_spans := bt_remove key (an_open_async_spans a)\<rparr>))
         (when_se (bt_get (an_open_async_spans a) key = None)
           (cite_fact ''unmatched_async_end'' o' ts ts [(''correlation_id'', JStr correlation)])))"

subsection \<open>Trace gaps\<close>

definition severe_gap_code :: "string \<Rightarrow> string option" where
  "severe_gap_code reason =
     (let has = str_contains (to_ascii_lowercase reason) in
      if has ''overflow'' \<or> (has ''fifo'' \<and> has ''full'') \<or> (has ''buffer'' \<and> has ''full'')
      then Some ''trace_overflow''
      else if has ''flow'' \<and> has ''error'' then Some ''flow_error''
      else if has ''truncat'' then Some ''truncated_input''
      else if has ''elf'' \<and> has ''mismatch'' then Some ''elf_mismatch''
      else if has ''out'' \<and> has ''order'' then Some ''out_of_order_timestamp''
      else None)"

definition gap_end :: "observation \<Rightarrow> timestamp_ns \<Rightarrow> duration_ns \<Rightarrow> timestamp_ns an" where
  "gap_end o' start_ns duration =
     (case i64_try_from (ival start_ns + uint duration) of
        Some e \<Rightarrow> ret e
      | None \<Rightarrow>
          followed
            (cite_fact ''timestamp_overflow'' o' start_ns i64_MAX [(''duration_ns'', JPos duration)])
            (ret i64_MAX))"

definition extend_core :: "timestamp_ns \<Rightarrow> u32 \<Rightarrow> unit an" where
  "extend_core end_ns c =
     with_state (\<lambda>a.
       case bt_get (an_cores a) c of
         None \<Rightarrow> panic
       | Some co \<Rightarrow>
           modify (set_core c (co\<lparr>co_last_ts :=
             Some (max (case co_last_ts co of None \<Rightarrow> end_ns | Some t \<Rightarrow> t) end_ns)\<rparr>)))"

definition extend_progress :: "string \<Rightarrow> timestamp_ns \<Rightarrow> unit an" where
  "extend_progress source end_ns =
     modify (\<lambda>a. a\<lparr>an_source_progress :=
       bt_update source (\<lambda>p. p\<lparr>sp_timestamp := max (sp_timestamp p) end_ns\<rparr>) (an_source_progress a)\<rparr>)"

definition report_gap :: "observation \<Rightarrow> timestamp_ns \<Rightarrow> timestamp_ns \<Rightarrow> duration_ns \<Rightarrow> string \<Rightarrow> unit an" where
  "report_gap o' start_ns end_ns duration reason =
     (let ev = [(''duration_ns'', JPos duration), (''reason'', JStr reason)] in
      followed (cite_fact ''trace_gap'' o' start_ns end_ns ev)
        (case severe_gap_code reason of
           None \<Rightarrow> ret ()
         | Some code \<Rightarrow> cite_fact code o' start_ns end_ns ev))"

definition trace_gap :: "observation \<Rightarrow> timestamp_ns \<Rightarrow> duration_ns \<Rightarrow> string \<Rightarrow> unit an" where
  "trace_gap o' start_ns duration reason =
     andthen (query (\<lambda>a. bt_keys (an_cores a))) (\<lambda>cores.
     followed (for_each (\<lambda>c. followed (advance_core c start_ns o') (ret ())) cores)
     (followed mark_all_incomplete
     (andthen (gap_end o' start_ns duration) (\<lambda>end_ns.
       followed (for_each (extend_core end_ns) cores)
       (followed (observe_timestamp end_ns)
       (followed (extend_progress (obs_source_id o') end_ns)
         (report_gap o' start_ns end_ns duration reason)))))))"

subsection \<open>Health metadata\<close>

definition truthy :: "json \<Rightarrow> bool" where
  "truthy v \<longleftrightarrow>
     as_bool v = Some True \<or>
     (case as_u64 v of None \<Rightarrow> False | Some n \<Rightarrow> n \<noteq> 0) \<or>
     (case as_str v of
        None \<Rightarrow> False
      | Some s \<Rightarrow> to_ascii_lowercase s \<in> {''true'', ''yes'', ''1''})"

definition falsy :: "json \<Rightarrow> bool" where
  "falsy v \<longleftrightarrow>
     as_bool v = Some False \<or> as_u64 v = Some 0 \<or>
     (case as_str v of
        None \<Rightarrow> False
      | Some s \<Rightarrow> to_ascii_lowercase s \<in> {''false'', ''no'', ''0''})"

definition metadata_code :: "string \<Rightarrow> json \<Rightarrow> string option" where
  "metadata_code key v =
     (let k = replace_chars [CHR ''.'', CHR ''-'', CHR '' ''] (CHR ''_'') (to_ascii_lowercase (trim key)) in
      if k \<in> {''health_trace_overflow'', ''trace_overflow'', ''overflow''} \<and> truthy v
      then Some ''trace_overflow''
      else if k \<in> {''health_flow_error'', ''flow_error''} \<and> truthy v then Some ''flow_error''
      else if k \<in> {''health_truncated'', ''truncated'', ''truncation''} \<and> truthy v
      then Some ''truncated_input''
      else if k \<in> {''health_elf_mismatch'', ''elf_mismatch''} \<and> truthy v then Some ''elf_mismatch''
      else if k \<in> {''health_elf_match'', ''elf_match''} \<and> falsy v then Some ''elf_mismatch''
      else if k \<in> {''health_out_of_order'', ''out_of_order''} \<and> truthy v
      then Some ''out_of_order_timestamp''
      else None)"

definition metadata_health :: "observation \<Rightarrow> timestamp_ns \<Rightarrow> string \<Rightarrow> json \<Rightarrow> unit an" where
  "metadata_health o' ts key v =
     (case metadata_code key v of
        None \<Rightarrow> ret ()
      | Some code \<Rightarrow> cite_fact code o' ts ts [(''key'', JStr key), (''value'', v)])"

end
