(* ===== verification/Analyzer_Resources.thy ===== *)
theory Analyzer_Resources
  imports Analyzer_Custom
begin

text \<open>
  Samples and resource counters: running aggregates, resource invariants and fragmentation
  evaluations. How a counter subject is written as JSON belongs to the serializer, so its two
  renderings are a parameter.
\<close>

record subject_encoding =
  enc_json :: "counter_subject \<Rightarrow> json"
  enc_text :: "counter_subject \<Rightarrow> string"

subsection \<open>Samples\<close>

fun sample_subject :: "sample_key \<Rightarrow> string" where
  "sample_subject (Some f, _, _) = f"
| "sample_subject (None, Some address, _) = ''address:'' @ hex (uint address)"
| "sample_subject (None, None, _) = ''unknown_sample''"

definition set_sample :: "sample_key \<Rightarrow> sample_accumulator \<Rightarrow> unit an" where
  "set_sample k s = modify (\<lambda>a. a\<lparr>an_samples := bt_insert k s (an_samples a)\<rparr>)"

text \<open>The count is written before the weight is added.\<close>

definition accumulate_sample :: "sample_key \<Rightarrow> u64 \<Rightarrow> quality \<Rightarrow> sample_accumulator \<Rightarrow> unit an" where
  "accumulate_sample k weight q s0 =
     followed (set_sample k s0)
     (andthen (lift (count_up ''sample_count'' (sample_subject k) (sa_count s0) 1)) (\<lambda>n.
      let s1 = s0\<lparr>sa_count := n\<rparr> in
      followed (set_sample k s1)
      (andthen
        (lift (ok_or (checked_add (sa_weight s1) (ucast weight))
                 (NumericOverflow ''sample_weight'' (sample_subject k)))) (\<lambda>w.
        set_sample k (s1\<lparr>sa_weight := w, sa_quality := worst_quality (sa_quality s1) q\<rparr>)))))"

definition add_sample :: "string option \<Rightarrow> u64 option \<Rightarrow> string option \<Rightarrow> u64 \<Rightarrow> quality \<Rightarrow> observation
    \<Rightarrow> unit an" where
  "add_sample f address ctx weight q o' =
     (if f = None \<and> address = None then
        cite_fact ''flow_error'' o' (ts_ns o') (ts_ns o') [(''reason'', JStr ''sample_without_identity'')]
      else
        with_state (\<lambda>a.
          accumulate_sample (f, address, ctx) weight q
            (case bt_get (an_samples a) (f, address, ctx) of
               None \<Rightarrow> \<lparr>sa_count = 0, sa_weight = 0, sa_quality = q\<rparr>
             | Some s \<Rightarrow> s)))"

subsection \<open>Counter aggregates\<close>

definition counter_new :: "timestamp_ns \<Rightarrow> f64 \<Rightarrow> quality \<Rightarrow> counter_accumulator" where
  "counter_new ts v q =
     \<lparr>ca_count = 1, ca_first_ts_ns = ts, ca_last_ts_ns = ts, ca_first = v, ca_latest = v, ca_min = v,
      ca_max = v, ca_mean = v, ca_quality = q, ca_window_valid = True\<rparr>"

text \<open>\<open>None\<close> stands for \<open>false\<close>, which leaves the accumulator as it was.\<close>

definition counter_add :: "timestamp_ns \<Rightarrow> f64 \<Rightarrow> quality \<Rightarrow> counter_accumulator
    \<Rightarrow> counter_accumulator option" where
  "counter_add ts v q c =
     (case checked_add (ca_count c) 1 of
        None \<Rightarrow> None
      | Some n \<Rightarrow>
          let mean = f64_add (ca_mean c) (f64_div (f64_sub v (ca_mean c)) (f64_of_int (uint n))) in
          if f64_is_finite mean
          then Some (c\<lparr>ca_count := n, ca_last_ts_ns := ts, ca_latest := v,
                 ca_min := f64_min (ca_min c) v, ca_max := f64_max (ca_max c) v, ca_mean := mean,
                 ca_quality := worst_quality (ca_quality c) q\<rparr>)
          else None)"

definition push_resource_fact_once :: "string \<Rightarrow> string \<Rightarrow> observation \<Rightarrow> (string \<times> json) list \<Rightarrow> unit an" where
  "push_resource_fact_once code subject o' ev =
     with_state (\<lambda>a.
       if (code, subject) \<in> an_reported_resource_issues a then ret ()
       else followed
         (modify (\<lambda>a. a\<lparr>an_reported_resource_issues :=
            insert (code, subject) (an_reported_resource_issues a)\<rparr>))
         (cite_fact code o' (ts_ns o') (ts_ns o') ev))"

definition counter_semantic_of :: "analyzer \<Rightarrow> string \<Rightarrow> counter_semantic option" where
  "counter_semantic_of a cid =
     (case bt_get (an_counter_definitions a) cid of None \<Rightarrow> None | Some d \<Rightarrow> cdef_semantic d)"

definition counter_spec_of :: "analyzer \<Rightarrow> string \<Rightarrow> standard_counter_spec option" where
  "counter_spec_of a cid =
     (case counter_semantic_of a cid of None \<Rightarrow> None | Some s \<Rightarrow> standard_spec s)"

definition set_counter :: "string \<Rightarrow> counter_accumulator \<Rightarrow> unit an" where
  "set_counter cid c = modify (\<lambda>a. a\<lparr>an_counters := bt_insert cid c (an_counters a)\<rparr>)"

subsection \<open>Fragmentation\<close>

definition fragmentation_default :: fragmentation_accumulator where
  "fragmentation_default = \<lparr>fa_free = None, fa_largest = None, fa_latest = None\<rparr>"

definition evaluate_fragmentation :: "counter_point \<Rightarrow> counter_point \<Rightarrow> fragmentation_evaluation" where
  "evaluate_fragmentation free largest =
     (let q = worst_quality (cp_quality free) (cp_quality largest) in
      if f64_eq (cp_value free) (f64_zero False) then
        \<lparr>fe_ts_ns = cp_ts_ns free, fe_value = None, fe_quality = q, fe_reason = Some ''free_bytes_zero''\<rparr>
      else if f64_lt (cp_value free) (cp_value largest) then
        \<lparr>fe_ts_ns = cp_ts_ns free, fe_value = None, fe_quality = q,
         fe_reason = Some ''largest_free_block_exceeds_free_bytes''\<rparr>
      else
        \<lparr>fe_ts_ns = cp_ts_ns free,
         fe_value = Some (f64_sub (f64_of_int 1) (f64_div (cp_value largest) (cp_value free))),
         fe_quality = q, fe_reason = None\<rparr>)"

text \<open>Only readings of one timestamp are compared.\<close>

definition fragmentation_point :: "bool \<Rightarrow> counter_point \<Rightarrow> fragmentation_accumulator
    \<Rightarrow> fragmentation_accumulator \<times> fragmentation_evaluation option" where
  "fragmentation_point is_free p s0 =
     (let s = (if is_free then s0\<lparr>fa_free := Some p\<rparr> else s0\<lparr>fa_largest := Some p\<rparr>) in
      case (fa_free s, fa_largest s) of
        (Some free, Some largest) \<Rightarrow>
          if cp_ts_ns free = cp_ts_ns largest
          then (let e = evaluate_fragmentation free largest in (s\<lparr>fa_latest := Some e\<rparr>, Some e))
          else (s, None)
      | _ \<Rightarrow> (s, None))"

definition update_fragmentation :: "subject_encoding \<Rightarrow> counter_semantic \<Rightarrow> counter_subject
    \<Rightarrow> counter_point \<Rightarrow> string \<Rightarrow> observation \<Rightarrow> unit an" where
  "update_fragmentation enc semantic subject p cid o' =
     (let is_free = (semantic = heap_free_bytes);
          is_largest = (semantic = heap_largest_free_block_bytes)
      in if \<not> is_free \<and> \<not> is_largest then ret ()
         else with_state (\<lambda>a.
           case fragmentation_point is_free p
                  (case bt_get (an_fragmentation a) subject of
                     None \<Rightarrow> fragmentation_default | Some s \<Rightarrow> s) of
             (s, e) \<Rightarrow>
               followed
                 (modify (\<lambda>a. a\<lparr>an_fragmentation := bt_insert subject s (an_fragmentation a)\<rparr>))
                 (when_se
                   ((case e of None \<Rightarrow> None | Some e \<Rightarrow> fe_reason e)
                      = Some ''largest_free_block_exceeds_free_bytes'')
                   (push_resource_fact_once ''resource_counter_invariant_violation''
                     (''fragmentation:'' @ enc_text enc subject) o'
                     [(''counter_id'', JStr cid), (''subject'', enc_json enc subject),
                      (''invariant'', JStr ''largest_free_block_bytes_lte_free_bytes'')]))))"

subsection \<open>Usage invariants\<close>

datatype usage_slot = SlotCapacity | SlotCurrent | SlotPeak

definition usage_slot_of :: "counter_semantic \<Rightarrow> usage_slot option" where
  "usage_slot_of s =
     (if s \<in> {stack_capacity_bytes, trace_buffer_capacity_bytes} then Some SlotCapacity
      else if s \<in> {stack_current_used_bytes, trace_buffer_current_used_bytes} then Some SlotCurrent
      else if s \<in> {stack_peak_used_bytes, trace_buffer_peak_used_bytes} then Some SlotPeak
      else None)"

definition usage_default :: usage_invariant_state where
  "usage_default = \<lparr>ui_capacity = None, ui_current = None, ui_peak = None\<rparr>"

fun set_usage :: "usage_slot \<Rightarrow> counter_point \<Rightarrow> usage_invariant_state \<Rightarrow> usage_invariant_state" where
  "set_usage SlotCapacity p s = s\<lparr>ui_capacity := Some p\<rparr>"
| "set_usage SlotCurrent p s = s\<lparr>ui_current := Some p\<rparr>"
| "set_usage SlotPeak p s = s\<lparr>ui_peak := Some p\<rparr>"

definition exceeds :: "string \<Rightarrow> counter_point option \<Rightarrow> counter_point option
    \<Rightarrow> (string \<times> f64 \<times> f64) list" where
  "exceeds name l r =
     (case (l, r) of
        (Some x, Some y) \<Rightarrow>
          if f64_lt (cp_value y) (cp_value x) then [(name, cp_value x, cp_value y)] else []
      | _ \<Rightarrow> [])"

definition usage_violations :: "usage_invariant_state \<Rightarrow> (string \<times> f64 \<times> f64) list" where
  "usage_violations s =
     exceeds ''current_lte_peak'' (ui_current s) (ui_peak s)
       @ exceeds ''peak_lte_capacity'' (ui_peak s) (ui_capacity s)
       @ exceeds ''current_lte_capacity'' (ui_current s) (ui_capacity s)"

definition report_usage_violation :: "subject_encoding \<Rightarrow> counter_semantic \<Rightarrow> counter_subject
    \<Rightarrow> string \<Rightarrow> observation \<Rightarrow> string \<times> f64 \<times> f64 \<Rightarrow> unit an" where
  "report_usage_violation enc semantic subject cid o' v =
     (case v of (invariant, l, r) \<Rightarrow>
        push_resource_fact_once ''resource_counter_invariant_violation''
          (invariant @ '':'' @ enc_text enc subject) o'
          [(''counter_id'', JStr cid), (''semantic'', JStr semantic), (''subject'', enc_json enc subject),
           (''invariant'', JStr invariant), (''left'', j_f64 l), (''right'', j_f64 r)])"

definition update_usage_invariants :: "subject_encoding \<Rightarrow> counter_semantic \<Rightarrow> counter_subject
    \<Rightarrow> counter_point \<Rightarrow> string \<Rightarrow> observation \<Rightarrow> unit an" where
  "update_usage_invariants enc semantic subject p cid o' =
     (case usage_slot_of semantic of
        None \<Rightarrow> ret ()
      | Some slot \<Rightarrow>
          with_state (\<lambda>a.
            let s = set_usage slot p
                  (case bt_get (an_usage_invariants a) subject of None \<Rightarrow> usage_default | Some s \<Rightarrow> s)
            in followed
                 (modify (\<lambda>a. a\<lparr>an_usage_invariants := bt_insert subject s (an_usage_invariants a)\<rparr>))
                 (for_each (report_usage_violation enc semantic subject cid o') (usage_violations s))))"

subsection \<open>Counter observations\<close>

definition tracked_semantics :: "counter_semantic set" where
  "tracked_semantics =
     {heap_free_bytes, heap_largest_free_block_bytes, stack_capacity_bytes, stack_current_used_bytes,
      stack_peak_used_bytes, trace_buffer_capacity_bytes, trace_buffer_current_used_bytes,
      trace_buffer_peak_used_bytes}"

definition tracked_identity :: "analyzer \<Rightarrow> string \<Rightarrow> (counter_semantic \<times> counter_subject) option" where
  "tracked_identity a cid =
     (case bt_get (an_counter_definitions a) cid of
        None \<Rightarrow> None
      | Some d \<Rightarrow>
          (case (cdef_semantic d, cdef_subject d) of
             (Some sem, Some sub) \<Rightarrow> if sem \<in> tracked_semantics then Some (sem, sub) else None
           | _ \<Rightarrow> None))"

record counter_change =
  cc_previous :: "f64 option"
  cc_decrease :: bool
  cc_capacity :: bool

definition counter_change_of :: "standard_counter_spec option \<Rightarrow> counter_accumulator option \<Rightarrow> f64
    \<Rightarrow> counter_change" where
  "counter_change_of spec c v =
     (let behavior = map_option spec_behavior spec;
          previous = map_option ca_latest c
      in \<lparr>cc_previous = previous,
          cc_decrease =
            (case previous of
               None \<Rightarrow> False
             | Some p \<Rightarrow> behavior \<in> {Some Monotonic, Some HighWatermark} \<and> f64_lt v p),
          cc_capacity =
            (case previous of
               None \<Rightarrow> False
             | Some p \<Rightarrow> behavior = Some Capacity \<and> \<not> f64_eq v p)\<rparr>)"

definition report_counter_change :: "string \<Rightarrow> f64 \<Rightarrow> observation \<Rightarrow> counter_change \<Rightarrow> unit an" where
  "report_counter_change cid v o' ch =
     followed
       (when_se (cc_decrease ch)
         (push_resource_fact_once ''resource_counter_not_monotonic'' cid o'
           [(''counter_id'', JStr cid), (''previous'', j_opt j_f64 (cc_previous ch)),
            (''actual'', j_f64 v)]))
       (when_se (cc_capacity ch)
         (push_resource_fact_once ''resource_counter_invariant_violation'' (''capacity:'' @ cid) o'
           [(''counter_id'', JStr cid), (''invariant'', JStr ''capacity_is_stable''),
            (''previous'', j_opt j_f64 (cc_previous ch)), (''actual'', j_f64 v)]))"

definition update_tracked :: "subject_encoding \<Rightarrow> string \<Rightarrow> counter_point \<Rightarrow> observation \<Rightarrow> unit an" where
  "update_tracked enc cid p o' =
     with_state (\<lambda>a.
       case tracked_identity a cid of
         None \<Rightarrow> ret ()
       | Some (semantic, subject) \<Rightarrow>
           followed (update_fragmentation enc semantic subject p cid o')
             (update_usage_invariants enc semantic subject p cid o'))"

definition add_counter :: "subject_encoding \<Rightarrow> string \<Rightarrow> f64 \<Rightarrow> quality \<Rightarrow> observation \<Rightarrow> unit an" where
  "add_counter enc cid v q o' =
     with_state (\<lambda>a.
       let spec = counter_spec_of a cid;
           old = bt_get (an_counters a) cid;
           ch = counter_change_of spec old v;
           finish_update =
             followed (report_counter_change cid v o' ch)
               (update_tracked enc cid \<lparr>cp_ts_ns = ts_ns o', cp_value = v, cp_quality = q\<rparr> o')
       in if (case spec of None \<Rightarrow> False | Some s \<Rightarrow> \<not> value_is_valid s v) then
            push_resource_fact_once ''resource_counter_out_of_range'' cid o'
              [(''counter_id'', JStr cid), (''value'', j_f64 v),
               (''semantic'', j_opt JStr (counter_semantic_of a cid))]
          else
            (case old of
               None \<Rightarrow> followed (set_counter cid (counter_new (ts_ns o') v q)) finish_update
             | Some c \<Rightarrow>
                 (case counter_add (ts_ns o') v q c of
                    None \<Rightarrow>
                      push_resource_fact_once ''invalid_resource_counter'' cid o'
                        [(''counter_id'', JStr cid), (''reason'', JStr ''aggregate_overflow'')]
                  | Some c' \<Rightarrow>
                      followed
                        (set_counter cid
                          (if cc_decrease ch \<or> cc_capacity ch then c'\<lparr>ca_window_valid := False\<rparr> else c'))
                        finish_update)))"

end
