(* ===== verification/Analyzer.thy ===== *)
theory Analyzer
  imports Analyzer_Resources
begin

text \<open>
  The entry points of the streaming analyzer: dictionaries, external health facts, and one
  normalized observation at a time.
\<close>

subsection \<open>Dictionaries\<close>

definition counter_definition_of :: "string \<Rightarrow> string option \<Rightarrow> counter_semantic option
    \<Rightarrow> counter_subject option \<Rightarrow> counter_definition" where
  "counter_definition_of name unit' semantic subject =
     \<lparr>cdef_name = name, cdef_unit = unit', cdef_semantic = semantic, cdef_subject = subject\<rparr>"

definition register_identity :: "string \<Rightarrow> counter_semantic option \<Rightarrow> counter_subject option \<Rightarrow> unit an" where
  "register_identity cid semantic subject =
     (case (semantic, subject) of
        (Some sem, Some sub) \<Rightarrow>
          with_state (\<lambda>a.
            let insert' = modify (\<lambda>a. a\<lparr>an_counter_identity_index :=
                  bt_insert (sem, sub) cid (an_counter_identity_index a)\<rparr>)
            in case bt_get (an_counter_identity_index a) (sem, sub) of
                 None \<Rightarrow> insert'
               | Some existing \<Rightarrow>
                   if existing \<noteq> cid then throw (ConflictingCounterSubject cid existing sem) else insert')
      | _ \<Rightarrow> ret ())"

fun register_entry :: "dictionary_entry \<Rightarrow> unit an" where
  "register_entry (DefineContext cid kind _ _ _) =
     modify (\<lambda>a. a\<lparr>an_context_kinds := bt_insert cid kind (an_context_kinds a)\<rparr>)"
| "register_entry (DefineCounter cid name unit' _ semantic subject) =
     (let d = counter_definition_of name unit' semantic subject in
      with_state (\<lambda>a.
        case bt_get (an_counter_definitions a) cid of
          Some existing \<Rightarrow>
            if existing \<noteq> d then throw (ConflictingCounterDefinition cid)
            else followed (register_identity cid semantic subject)
              (modify (\<lambda>a. a\<lparr>an_counter_definitions := bt_insert cid d (an_counter_definitions a)\<rparr>))
        | None \<Rightarrow>
            followed (register_identity cid semantic subject)
              (modify (\<lambda>a. a\<lparr>an_counter_definitions := bt_insert cid d (an_counter_definitions a)\<rparr>))))"
| "register_entry (DefineFunction _ _ _ _ _ _) = ret ()"

definition register_dictionary :: "observation_dictionary \<Rightarrow> unit an" where
  "register_dictionary d =
     andthen (lift (map_err InvalidDictionary (validate_dictionary d))) (\<lambda>_.
       with_state (\<lambda>a.
         if dict_session_id d \<noteq> an_session_id a
         then throw (SessionMismatch (an_session_id a) (dict_session_id d))
         else for_each register_entry (dict_entries d)))"

definition record_health_observation :: "health_observation \<Rightarrow> unit an" where
  "record_health_observation = store_health_observation"

definition drain_completed_spans :: "function_span list an" where
  "drain_completed_spans =
     with_state (\<lambda>a.
       followed (modify (\<lambda>a. a\<lparr>an_completed_spans := []\<rparr>)) (ret (an_completed_spans a)))"

definition resident_completed_span_count :: "analyzer \<Rightarrow> nat" where
  "resident_completed_span_count a = length (an_completed_spans a)"

definition resident_counter_count :: "analyzer \<Rightarrow> nat" where
  "resident_counter_count a = length (an_counters a)"

definition resident_resource_subject_count :: "analyzer \<Rightarrow> nat" where
  "resident_resource_subject_count a = length (an_usage_invariants a) + length (an_fragmentation a)"

subsection \<open>Source order\<close>

definition check_sequence :: "observation \<Rightarrow> source_progress \<Rightarrow> unit an" where
  "check_sequence o' p =
     (if obs_source_seq o' \<le> sp_sequence p then
        followed
          (cite_fact ''out_of_order_sequence'' o' (ts_ns o') (ts_ns o')
            [(''previous'', JPos (sp_sequence p)), (''actual'', JPos (obs_source_seq o'))])
          mark_all_incomplete
      else if sp_sequence p \<noteq> - 1 \<and> sp_sequence p + 1 < obs_source_seq o' then
        followed
          (cite_fact ''trace_gap'' o' (min (sp_timestamp p) (ts_ns o')) (max (sp_timestamp p) (ts_ns o'))
            [(''reason'', JStr ''source_sequence_gap''),
             (''missing_records'', JPos (obs_source_seq o' - sp_sequence p - 1))])
          mark_all_incomplete
      else ret ())"

definition check_timestamp :: "observation \<Rightarrow> source_progress \<Rightarrow> unit an" where
  "check_timestamp o' p =
     when_se (ts_ns o' < sp_timestamp p)
       (followed
         (cite_fact ''out_of_order_timestamp'' o' (ts_ns o') (sp_timestamp p)
           [(''previous_ns'', j_i64 (sp_timestamp p)), (''actual_ns'', j_i64 (ts_ns o'))])
         mark_all_incomplete)"

definition advance_progress :: "observation \<Rightarrow> source_progress option \<Rightarrow> source_progress" where
  "advance_progress o' p =
     (case p of
        None \<Rightarrow> \<lparr>sp_sequence = obs_source_seq o', sp_timestamp = ts_ns o'\<rparr>
      | Some p \<Rightarrow>
          \<lparr>sp_sequence = max (sp_sequence p) (obs_source_seq o'),
           sp_timestamp = max (sp_timestamp p) (ts_ns o')\<rparr>)"

definition check_source_order :: "observation \<Rightarrow> unit an" where
  "check_source_order o' =
     andthen (query (\<lambda>a. bt_get (an_source_progress a) (obs_source_id o'))) (\<lambda>previous.
     followed
       (case previous of
          None \<Rightarrow> ret ()
        | Some p \<Rightarrow> followed (check_sequence o' p) (check_timestamp o' p))
       (modify (\<lambda>a. a\<lparr>an_source_progress :=
         bt_insert (obs_source_id o')
           (advance_progress o' (bt_get (an_source_progress a) (obs_source_id o')))
           (an_source_progress a)\<rparr>)))"

subsection \<open>One observation\<close>

fun dispatch :: "subject_encoding \<Rightarrow> observation \<Rightarrow> observation_event \<Rightarrow> unit an" where
  "dispatch enc o' (FunctionEnter ts c ctx f fr) = function_enter o' ts c ctx f fr"
| "dispatch enc o' (FunctionExit ts c ctx f fr) = function_exit o' ts c ctx f fr"
| "dispatch enc o' (ContextSwitch ts c prev next' reason) = context_switch o' ts c prev next' reason"
| "dispatch enc o' (InterruptEnter ts c irq _ act) = interrupt_enter o' ts c irq act"
| "dispatch enc o' (InterruptExit ts c irq _ act) = interrupt_exit o' ts c irq act"
| "dispatch enc o' (Sample ts c ctx f address weight) =
     followed (advance_core c ts o')
       (add_sample f address ctx (case weight of None \<Rightarrow> 1 | Some w \<Rightarrow> w) (obs_quality o') o')"
| "dispatch enc o' (Counter ts c _ cid v _) =
     followed
       (case c of
          None \<Rightarrow> observe_timestamp ts
        | Some c \<Rightarrow> followed (advance_core c ts o') (ret ()))
       (add_counter enc cid v (obs_quality o') o')"
| "dispatch enc o' (TraceGap ts duration reason) = trace_gap o' ts duration reason"
| "dispatch enc o' (Metadata ts key v) =
     followed (observe_timestamp ts) (metadata_health o' ts key v)"
| "dispatch enc o' (Instant ts c _ _ _) = followed (advance_optional_core c ts o') (ret ())"
| "dispatch enc o' (SpanBegin ts c ctx span_id name _) =
     andthen (advance_optional_core c ts o') (\<lambda>eff. custom_span_begin o' eff c ctx span_id name)"
| "dispatch enc o' (SpanEnd ts c ctx span_id _) =
     andthen (advance_optional_core c ts o') (\<lambda>eff. custom_span_end o' eff c ctx span_id)"
| "dispatch enc o' (AsyncBegin ts c _ correlation name _) =
     andthen (advance_optional_core c ts o') (\<lambda>eff. async_span_begin o' eff correlation name)"
| "dispatch enc o' (AsyncEnd ts c _ correlation _) =
     andthen (advance_optional_core c ts o') (\<lambda>eff. async_span_end o' eff correlation)"

definition is_counter :: "observation_event \<Rightarrow> bool" where
  "is_counter e = (case e of Counter _ _ _ _ _ _ \<Rightarrow> True | _ \<Rightarrow> False)"

definition count_observation :: "unit an" where
  "count_observation =
     with_state (\<lambda>a.
       andthen (lift (count_up ''observation_count'' (an_session_id a) (an_observation_count a) 1)) (\<lambda>n.
         modify (\<lambda>a. a\<lparr>an_observation_count := n\<rparr>)))"

definition ingest :: "subject_encoding \<Rightarrow> observation \<Rightarrow> unit an" where
  "ingest enc o' =
     (case validate_observation o' of
        Inr _ \<Rightarrow>
          followed count_observation
            (followed (check_source_order o') (dispatch enc o' (obs_event o')))
      | Inl e \<Rightarrow>
          followed
            (when_se (is_counter (obs_event o'))
              (cite_fact ''invalid_resource_counter'' o' (ts_ns o') (ts_ns o') []))
            (lift (map_err InvalidObservation (Inl e))))"

definition ingest_all :: "subject_encoding \<Rightarrow> observation list \<Rightarrow> unit an" where
  "ingest_all enc = for_each (ingest enc)"

end
