(* ===== verification/Analysis_Summary.thy ===== *)
theory Analysis_Summary
  imports Health_Policy Observation
begin

text \<open>
  The quantitative summary of an analysis and the part of its contract that concerns resource
  counters (\<open>t32perf-model/src/analysis.rs\<close> and the derived metric of \<open>resource.rs\<close>). Each
  rejection text is a constructor with the values the text shows.
\<close>

record call_depth_summary =
  cd_max_depth :: u32
  cd_context_id :: "string option"
  cd_deepest_path :: "string list"

record context_cpu_summary =
  cs_context_id :: string
  cs_kind :: context_kind
  cs_active_ns :: duration_ns

record counter_summary =
  rs_counter_id :: string
  rs_name :: "string option"
  rs_unit :: "string option"
  rs_semantic :: "counter_semantic option"
  rs_subject :: "counter_subject option"
  rs_class :: resource_class
  rs_sample_count :: u64
  rs_first_ts_ns :: "timestamp_ns option"
  rs_last_ts_ns :: "timestamp_ns option"
  rs_first :: "f64 option"
  rs_latest :: f64
  rs_min :: f64
  rs_max :: f64
  rs_mean :: f64
  rs_delta :: "f64 option"
  rs_window_ns :: "u64 option"
  rs_rate_per_second :: "f64 option"
  rs_quality :: quality
  rs_support :: support_entry

record derived_metric =
  dm_semantic :: counter_semantic
  dm_subject :: counter_subject
  dm_unit :: string
  dm_value :: "f64 option"
  dm_source_counter_ids :: "string list"
  dm_first_ts_ns :: "timestamp_ns option"
  dm_last_ts_ns :: "timestamp_ns option"
  dm_window_ns :: "u64 option"
  dm_quality :: "quality option"
  dm_support :: support_entry

record resource_summary =
  res_counters :: "counter_summary list"
  res_derived :: "derived_metric list"

record analysis_summary =
  sum_observation_count :: u64
  sum_function_span_count :: u64
  sum_incomplete_function_span_count :: u64
  sum_call_depth :: call_depth_summary
  sum_context_cpu :: "context_cpu_summary list"
  sum_task_cpu_ns :: duration_ns
  sum_isr_cpu_ns :: duration_ns
  sum_idle_cpu_ns :: duration_ns
  sum_resources :: resource_summary

datatype summary_error =
    DuplicateCounterId string
  | DuplicateResourceIdentity counter_semantic counter_subject
  | EmptyCounterOrNoSample
  | NonFiniteAggregate string
  | InconsistentAggregates string
  | GenericCounterClass string
  | SubjectInvalid subject_error
  | SemanticMismatch string counter_semantic
  | InvalidSemanticValue string counter_semantic
  | InvalidSemanticDelta string
  | ExtensionCounterClass string
  | UnpairedIdentity string
  | InvalidObservationWindow string
  | SupportWithoutReason
  | SupportReasonInvalid
  | ExceedsCeiling string
  | NotStandardSemantic counter_semantic
  | DerivedUnitMismatch counter_semantic string
  | DerivedInvalidValue counter_semantic
  | DerivedDuplicateIdentity counter_semantic
  | DerivedExceedsCeiling counter_semantic
  | DerivedSupportValueDisagree counter_semantic
  | DerivedQualityValueDisagree counter_semantic
  | DerivedSourceInvalid counter_semantic
  | DerivedZeroWindow counter_semantic
  | DerivedWindowInvalid counter_semantic

definition is_available :: "support_entry \<Rightarrow> bool" where
  "is_available e \<longleftrightarrow> se_support e \<noteq> Unavailable"

fun check_reasons :: "string list \<Rightarrow> string list \<Rightarrow> (summary_error, unit) res" where
  "check_reasons seen [] = Inr ()"
| "check_reasons seen (r # rs) =
     (if blank r \<or> r \<in> set seen then Inl (Err SupportReasonInvalid) else check_reasons (r # seen) rs)"

definition validate_support_entry :: "support_entry \<Rightarrow> (summary_error, unit) res" where
  "validate_support_entry e =
     rthen (ensure (\<not> (se_support e \<noteq> Exact \<and> se_reasons e = [])) SupportWithoutReason)
       (check_reasons [] (se_reasons e))"

subsection \<open>Counter rows\<close>

definition opt_all :: "('a \<Rightarrow> bool) \<Rightarrow> 'a option \<Rightarrow> bool" where
  "opt_all P x = (case x of None \<Rightarrow> True | Some a \<Rightarrow> P a)"

definition finite_row :: "counter_summary \<Rightarrow> bool" where
  "finite_row r \<longleftrightarrow>
     list_all f64_is_finite [rs_latest r, rs_min r, rs_max r, rs_mean r]
     \<and> opt_all f64_is_finite (rs_first r) \<and> opt_all f64_is_finite (rs_delta r)
     \<and> opt_all f64_is_finite (rs_rate_per_second r)
     \<and> opt_all (\<lambda>v. \<not> f64_lt v (f64_of_int 0)) (rs_rate_per_second r)"

definition bounded_row :: "counter_summary \<Rightarrow> bool" where
  "bounded_row r \<longleftrightarrow>
     \<not> f64_lt (rs_max r) (rs_min r) \<and> \<not> f64_lt (rs_latest r) (rs_min r)
     \<and> \<not> f64_lt (rs_max r) (rs_latest r) \<and> \<not> f64_lt (rs_mean r) (rs_min r)
     \<and> \<not> f64_lt (rs_max r) (rs_mean r)"

definition delta_ok :: "counter_behavior \<Rightarrow> f64 \<Rightarrow> bool" where
  "delta_ok b d \<longleftrightarrow>
     \<not> (b \<in> {Monotonic, HighWatermark} \<and> f64_lt d (f64_of_int 0))
     \<and> \<not> (b = Capacity \<and> \<not> f64_eq d (f64_of_int 0))"

definition validate_standard_row :: "counter_summary \<Rightarrow> counter_semantic \<Rightarrow> counter_subject
    \<Rightarrow> standard_counter_spec \<Rightarrow> (summary_error, unit) res" where
  "validate_standard_row r semantic subject spec =
     rthen
       (ensure
         (rs_unit r = Some (spec_unit spec) \<and> subject_kind subject = Some (spec_subject_kind spec)
          \<and> rs_class r = spec_class spec)
         (SemanticMismatch (rs_counter_id r) semantic))
       (rthen
         (ensure
           (list_all (value_is_valid spec) [rs_latest r, rs_min r, rs_max r]
            \<and> opt_all (value_is_valid spec) (rs_first r))
           (InvalidSemanticValue (rs_counter_id r) semantic))
         (ensure (opt_all (delta_ok (spec_behavior spec)) (rs_delta r))
           (InvalidSemanticDelta (rs_counter_id r))))"

definition validate_row_identity :: "counter_summary \<Rightarrow> (summary_error, unit) res" where
  "validate_row_identity r =
     (case (rs_semantic r, rs_subject r) of
        (None, None) \<Rightarrow> ensure (rs_class r = ROther) (GenericCounterClass (rs_counter_id r))
      | (Some semantic, Some subject) \<Rightarrow>
          rthen (map_err SubjectInvalid (validate_subject subject))
            (case standard_spec semantic of
               Some spec \<Rightarrow> validate_standard_row r semantic subject spec
             | None \<Rightarrow> ensure (rs_class r = ROther) (ExtensionCounterClass (rs_counter_id r)))
      | _ \<Rightarrow> Inl (Err (UnpairedIdentity (rs_counter_id r))))"

definition ordered_window :: "timestamp_ns option \<Rightarrow> timestamp_ns option \<Rightarrow> bool" where
  "ordered_window s e = (case (s, e) of (Some s, Some e) \<Rightarrow> s \<le> e | _ \<Rightarrow> True)"

definition window_row :: "counter_summary \<Rightarrow> bool" where
  "window_row r \<longleftrightarrow>
     (rs_first_ts_ns r \<noteq> None \<longleftrightarrow> rs_last_ts_ns r \<noteq> None)
     \<and> (rs_first_ts_ns r \<noteq> None \<longleftrightarrow> rs_first r \<noteq> None)
     \<and> rs_window_ns r \<noteq> Some 0
     \<and> \<not> (rs_window_ns r \<noteq> None \<and> rs_first_ts_ns r = None)
     \<and> \<not> ((rs_delta r \<noteq> None \<or> rs_rate_per_second r \<noteq> None) \<and> rs_first r = None)
     \<and> ordered_window (rs_first_ts_ns r) (rs_last_ts_ns r)"

definition validate_counter_row :: "support_entry \<Rightarrow> counter_summary \<Rightarrow> (summary_error, unit) res" where
  "validate_counter_row ceil r =
     rthen (ensure (\<not> (blank (rs_counter_id r) \<or> rs_sample_count r = 0)) EmptyCounterOrNoSample)
     (rthen (ensure (finite_row r) (NonFiniteAggregate (rs_counter_id r)))
     (rthen (ensure (bounded_row r) (InconsistentAggregates (rs_counter_id r)))
     (rthen (validate_row_identity r)
     (rthen (ensure (window_row r) (InvalidObservationWindow (rs_counter_id r)))
     (rthen (validate_support_entry (rs_support r))
       (ensure (\<not> support_rank (se_support (rs_support r)) < support_rank (se_support ceil))
         (ExceedsCeiling (rs_counter_id r))))))))"

subsection \<open>Derived metrics\<close>

definition sources_ok :: "string list \<Rightarrow> derived_metric \<Rightarrow> bool" where
  "sources_ok counter_ids m \<longleftrightarrow>
     dm_source_counter_ids m \<noteq> []
     \<and> list_all (\<lambda>c. \<not> blank c \<and> c \<in> set counter_ids) (dm_source_counter_ids m)
     \<and> list_all (\<lambda>(a, b). a < b) (zip (dm_source_counter_ids m) (tl (dm_source_counter_ids m)))"

definition window_metric :: "derived_metric \<Rightarrow> bool" where
  "window_metric m \<longleftrightarrow>
     (dm_first_ts_ns m \<noteq> None \<longleftrightarrow> dm_last_ts_ns m \<noteq> None)
     \<and> \<not> (dm_window_ns m \<noteq> None \<and> dm_first_ts_ns m = None)
     \<and> ordered_window (dm_first_ts_ns m) (dm_last_ts_ns m)"

definition validate_metric :: "support_entry \<Rightarrow> string list \<Rightarrow> (counter_semantic \<times> counter_subject) list
    \<Rightarrow> derived_metric \<Rightarrow> (summary_error, unit) res" where
  "validate_metric ceil counter_ids identities m =
     (let s = dm_semantic m in
      rthen (map_err SubjectInvalid (validate_subject (dm_subject m)))
      (rbind (ok_or (standard_spec s) (NotStandardSemantic s)) (\<lambda>spec.
      rthen (ensure (dm_unit m = spec_unit spec) (DerivedUnitMismatch s (spec_unit spec)))
      (rthen (ensure (opt_all (value_is_valid spec) (dm_value m)) (DerivedInvalidValue s))
      (rthen (ensure ((s, dm_subject m) \<notin> set identities) (DerivedDuplicateIdentity s))
      (rthen (validate_support_entry (dm_support m))
      (rthen (ensure (\<not> support_rank (se_support (dm_support m)) < support_rank (se_support ceil))
               (DerivedExceedsCeiling s))
      (rthen (ensure (is_available (dm_support m) \<longleftrightarrow> dm_value m \<noteq> None) (DerivedSupportValueDisagree s))
      (rthen (ensure (dm_value m \<noteq> None \<longleftrightarrow> dm_quality m \<noteq> None) (DerivedQualityValueDisagree s))
      (rthen (ensure (sources_ok counter_ids m) (DerivedSourceInvalid s))
      (rthen (ensure (dm_window_ns m \<noteq> Some 0) (DerivedZeroWindow s))
        (ensure (window_metric m) (DerivedWindowInvalid s)))))))))))))"

subsection \<open>The resource summary\<close>

text \<open>The two sets the loops fill are lists of what they hold.\<close>

fun validate_counter_rows :: "support_entry \<Rightarrow> string list \<Rightarrow> (counter_semantic \<times> counter_subject) list
    \<Rightarrow> counter_summary list
    \<Rightarrow> (summary_error, string list \<times> (counter_semantic \<times> counter_subject) list) res" where
  "validate_counter_rows ceil ids identities [] = Inr (ids, identities)"
| "validate_counter_rows ceil ids identities (r # rs) =
     rthen (ensure (rs_counter_id r \<notin> set ids) (DuplicateCounterId (rs_counter_id r)))
     (rthen (validate_counter_row ceil r)
       (case (rs_semantic r, rs_subject r) of
          (Some sem, Some sub) \<Rightarrow>
            rthen (ensure ((sem, sub) \<notin> set identities) (DuplicateResourceIdentity sem sub))
              (validate_counter_rows ceil (rs_counter_id r # ids) ((sem, sub) # identities) rs)
        | _ \<Rightarrow> validate_counter_rows ceil (rs_counter_id r # ids) identities rs))"

fun validate_metrics :: "support_entry \<Rightarrow> string list \<Rightarrow> (counter_semantic \<times> counter_subject) list
    \<Rightarrow> derived_metric list \<Rightarrow> (summary_error, unit) res" where
  "validate_metrics ceil ids identities [] = Inr ()"
| "validate_metrics ceil ids identities (m # ms) =
     rthen (validate_metric ceil ids identities m)
       (validate_metrics ceil ids ((dm_semantic m, dm_subject m) # identities) ms)"

definition validate_resources :: "support_entry \<Rightarrow> resource_summary \<Rightarrow> (summary_error, unit) res" where
  "validate_resources ceil r =
     rbind (validate_counter_rows ceil [] [] (res_counters r)) (\<lambda>(ids, identities).
       validate_metrics ceil ids identities (res_derived r))"

end
