(* ===== verification/Analyzer_Finish.thy ===== *)
theory Analyzer_Finish
  imports Analyzer Analysis_Summary
begin

text \<open>
  Completing an analysis: closing what is still open, evaluating the health policy, and building
  the summary, the derived document and the hotspot report.
\<close>

subsection \<open>Support of resource counters\<close>

fun metric_support_rank :: "support_level \<Rightarrow> nat" where
  "metric_support_rank Exact = 0"
| "metric_support_rank Inferred = 1"
| "metric_support_rank Statistical = 2"
| "metric_support_rank Unavailable = 3"

definition lower_support :: "support_level \<Rightarrow> string \<Rightarrow> support_entry \<Rightarrow> support_entry" where
  "lower_support l r e =
     (let e' = (if metric_support_rank (se_support e) < metric_support_rank l
                then e\<lparr>se_support := l\<rparr> else e)
      in if r \<in> set (se_reasons e') then e' else e'\<lparr>se_reasons := se_reasons e' @ [r]\<rparr>)"

fun support_with_quality :: "support_entry \<Rightarrow> quality \<Rightarrow> support_entry" where
  "support_with_quality base QExact = base"
| "support_with_quality base QInferred =
     lower_support Inferred ''resource_counter_observation_inferred'' base"
| "support_with_quality base QStatistical =
     lower_support Statistical ''resource_counter_observation_statistical'' base"

definition max_option :: "'a::linorder list \<Rightarrow> 'a option" where
  "max_option xs = (case xs of [] \<Rightarrow> None | x # xs \<Rightarrow> Some (fold max xs x))"

definition effective_resource_capability :: "analyzer \<Rightarrow> support_entry" where
  "effective_resource_capability a =
     (case max_option (map ca_quality (bt_values (an_counters a))) of
        None \<Rightarrow> support_unavailable ''no_resource_counters_observed''
      | Some q \<Rightarrow> support_with_quality (cap_resource_counters (cfg_capabilities (an_config a))) q)"

subsection \<open>Counter summaries\<close>

definition positive_window :: "timestamp_ns \<Rightarrow> timestamp_ns \<Rightarrow> u64 option" where
  "positive_window s e =
     (case duration_between s e of None \<Rightarrow> None | Some d \<Rightarrow> if d \<noteq> 0 then Some d else None)"

definition per_second :: "f64 \<Rightarrow> u64 \<Rightarrow> f64 option" where
  "per_second delta window =
     (let rate = f64_div (f64_mul delta (f64_of_int 1000000000)) (f64_of_int (uint window)) in
      if f64_is_finite rate \<and> \<not> f64_lt rate (f64_of_int 0) then Some rate else None)"

definition counter_delta :: "counter_behavior option \<Rightarrow> counter_accumulator \<Rightarrow> f64 option" where
  "counter_delta behavior c =
     (let trusted = (ca_window_valid c \<or> behavior \<notin> {Some Monotonic, Some HighWatermark, Some Capacity})
      in if 2 \<le> ca_count c \<and> trusted then Some (f64_sub (ca_latest c) (ca_first c)) else None)"

definition counter_rate :: "counter_behavior option \<Rightarrow> counter_accumulator \<Rightarrow> f64 option" where
  "counter_rate behavior c =
     (if behavior = Some Monotonic
      then (case (counter_delta behavior c, positive_window (ca_first_ts_ns c) (ca_last_ts_ns c)) of
              (Some d, Some w) \<Rightarrow> per_second d w
            | _ \<Rightarrow> None)
      else None)"

definition summarize_counter :: "analyzer \<Rightarrow> support_entry \<Rightarrow> string \<times> counter_accumulator
    \<Rightarrow> counter_summary" where
  "summarize_counter a support kv =
     (let cid = fst kv; c = snd kv;
          d = bt_get (an_counter_definitions a) cid;
          spec = counter_spec_of a cid;
          behavior = map_option spec_behavior spec
      in \<lparr>rs_counter_id = cid, rs_name = map_option cdef_name d,
          rs_unit = (case d of None \<Rightarrow> None | Some d \<Rightarrow> cdef_unit d),
          rs_semantic = counter_semantic_of a cid,
          rs_subject = (case d of None \<Rightarrow> None | Some d \<Rightarrow> cdef_subject d),
          rs_class = (case spec of None \<Rightarrow> ROther | Some s \<Rightarrow> spec_class s),
          rs_sample_count = ca_count c, rs_first_ts_ns = Some (ca_first_ts_ns c),
          rs_last_ts_ns = Some (ca_last_ts_ns c), rs_first = Some (ca_first c),
          rs_latest = ca_latest c, rs_min = ca_min c, rs_max = ca_max c, rs_mean = ca_mean c,
          rs_delta = counter_delta behavior c,
          rs_window_ns = positive_window (ca_first_ts_ns c) (ca_last_ts_ns c),
          rs_rate_per_second = counter_rate behavior c, rs_quality = ca_quality c,
          rs_support = support_with_quality support (ca_quality c)\<rparr>)"

subsection \<open>Derived resource metrics\<close>

definition heap_allocation_rate_per_second :: counter_semantic where
  "heap_allocation_rate_per_second = ''heap.allocation_rate_per_second''"

definition heap_external_fragmentation_ratio :: counter_semantic where
  "heap_external_fragmentation_ratio = ''heap.external_fragmentation_ratio''"

text \<open>Value, first and last timestamp, window and support of an allocation rate.\<close>

definition allocation_rate_of :: "support_entry \<Rightarrow> counter_accumulator
    \<Rightarrow> f64 option \<times> u64 option \<times> support_entry" where
  "allocation_rate_of support c =
     (let e = support_with_quality support (ca_quality c) in
      if \<not> ca_window_valid c then
        (None, None, lower_support Unavailable ''allocation_count_not_monotonic'' e)
      else if ca_count c < 2 then
        (None, None, lower_support Unavailable ''allocation_rate_requires_two_samples'' e)
      else
        let window = positive_window (ca_first_ts_ns c) (ca_last_ts_ns c);
            rate = (case window of
                      None \<Rightarrow> None
                    | Some w \<Rightarrow> per_second (f64_sub (ca_latest c) (ca_first c)) w);
            e' = (if rate = None
                  then lower_support Unavailable ''allocation_rate_window_not_positive'' e else e)
        in (if is_available e' then rate else None, window, e'))"

definition allocation_metric :: "analyzer \<Rightarrow> support_entry \<Rightarrow> counter_subject \<Rightarrow> string \<Rightarrow> derived_metric" where
  "allocation_metric a support subject cid =
     (case bt_get (an_counters a) cid of
        None \<Rightarrow>
          \<lparr>dm_semantic = heap_allocation_rate_per_second, dm_subject = subject, dm_unit = ''1/s'',
           dm_value = None, dm_source_counter_ids = [cid], dm_first_ts_ns = None,
           dm_last_ts_ns = None, dm_window_ns = None, dm_quality = None,
           dm_support = support_unavailable ''allocation_count_not_observed''\<rparr>
      | Some c \<Rightarrow>
          (case allocation_rate_of support c of
             (v, window, e) \<Rightarrow>
               \<lparr>dm_semantic = heap_allocation_rate_per_second, dm_subject = subject, dm_unit = ''1/s'',
                dm_value = v, dm_source_counter_ids = [cid], dm_first_ts_ns = Some (ca_first_ts_ns c),
                dm_last_ts_ns = Some (ca_last_ts_ns c), dm_window_ns = window,
                dm_quality = Some (ca_quality c), dm_support = e\<rparr>))"

definition allocation_metrics :: "analyzer \<Rightarrow> support_entry \<Rightarrow> derived_metric list" where
  "allocation_metrics a support =
     map (\<lambda>((_, subject), cid). allocation_metric a support subject cid)
       (filter
         (\<lambda>((semantic, subject), _).
            semantic = heap_allocation_count \<and>
            \<not> bt_contains (an_counter_identity_index a) (heap_allocation_rate_per_second, subject))
         (an_counter_identity_index a))"

definition fragmentation_subjects :: "analyzer \<Rightarrow> counter_subject list" where
  "fragmentation_subjects a =
     sort (remdups (map snd
       (filter (\<lambda>k. fst k \<in> {heap_free_bytes, heap_largest_free_block_bytes})
         (bt_keys (an_counter_identity_index a)))))"

definition fragmentation_support :: "support_entry \<Rightarrow> fragmentation_evaluation option \<Rightarrow> bool
    \<Rightarrow> support_entry" where
  "fragmentation_support support ev inputs_defined =
     (let e0 = (case ev of
                  None \<Rightarrow> support_unavailable ''fragmentation_inputs_not_synchronized''
                | Some ev \<Rightarrow> support_with_quality support (fe_quality ev));
          e1 = (if inputs_defined then e0
                else lower_support Unavailable ''fragmentation_input_counter_missing'' e0)
      in case ev of
           None \<Rightarrow> e1
         | Some ev \<Rightarrow>
             (case fe_reason ev of None \<Rightarrow> e1 | Some r \<Rightarrow> lower_support Unavailable r e1))"

definition fragmentation_metric :: "analyzer \<Rightarrow> support_entry \<Rightarrow> counter_subject \<Rightarrow> derived_metric" where
  "fragmentation_metric a support subject =
     (let free_id = bt_get (an_counter_identity_index a) (heap_free_bytes, subject);
          largest_id = bt_get (an_counter_identity_index a) (heap_largest_free_block_bytes, subject);
          ev = (case bt_get (an_fragmentation a) subject of None \<Rightarrow> None | Some s \<Rightarrow> fa_latest s);
          e = fragmentation_support support ev (free_id \<noteq> None \<and> largest_id \<noteq> None)
      in \<lparr>dm_semantic = heap_external_fragmentation_ratio, dm_subject = subject, dm_unit = ''ratio'',
          dm_value =
            (case ev of None \<Rightarrow> None | Some ev \<Rightarrow> if is_available e then fe_value ev else None),
          dm_source_counter_ids =
            sort ((case free_id of None \<Rightarrow> [] | Some i \<Rightarrow> [i])
                  @ (case largest_id of None \<Rightarrow> [] | Some i \<Rightarrow> [i])),
          dm_first_ts_ns = map_option fe_ts_ns ev, dm_last_ts_ns = map_option fe_ts_ns ev,
          dm_window_ns = None, dm_quality = map_option fe_quality ev, dm_support = e\<rparr>)"

definition fragmentation_metrics :: "analyzer \<Rightarrow> support_entry \<Rightarrow> derived_metric list" where
  "fragmentation_metrics a support =
     map (fragmentation_metric a support)
       (filter
         (\<lambda>s. \<not> bt_contains (an_counter_identity_index a) (heap_external_fragmentation_ratio, s))
         (fragmentation_subjects a))"

definition build_derived_resource_metrics :: "analyzer \<Rightarrow> support_entry \<Rightarrow> derived_metric list" where
  "build_derived_resource_metrics a support =
     sort_key (\<lambda>m. (dm_semantic m, dm_subject m))
       (allocation_metrics a support @ fragmentation_metrics a support)"

subsection \<open>Time per context\<close>

definition public_name :: "analyzer \<Rightarrow> exec_key \<Rightarrow> (analysis_error, string) res" where
  "public_name a k =
     expect (case bt_get (an_context_public_ids a) k of None \<Rightarrow> scheduled_id k | Some p \<Rightarrow> Some p)"

fun add_context_totals :: "analyzer \<Rightarrow> (exec_key \<times> context_state) list \<Rightarrow> (string, duration_ns) btree
    \<Rightarrow> (analysis_error, (string, duration_ns) btree) res" where
  "add_context_totals a [] totals = Inr totals"
| "add_context_totals a ((k, cx) # rest) totals =
     rbind (public_name a k) (\<lambda>p.
     rbind (count_up ''context_cpu_ns'' p
              (case bt_get totals p of None \<Rightarrow> 0 | Some t \<Rightarrow> t) (cx_virtual_cpu_ns cx)) (\<lambda>t.
       add_context_totals a rest (bt_insert p t totals)))"

definition context_cpu_of :: "analyzer \<Rightarrow> (string, duration_ns) btree \<Rightarrow> context_cpu_summary list" where
  "context_cpu_of a totals =
     map (\<lambda>(ctx, t).
           \<lparr>cs_context_id = ctx,
            cs_kind = (case bt_get (an_context_kinds a) ctx of None \<Rightarrow> CkUnknown | Some k \<Rightarrow> k),
            cs_active_ns = t\<rparr>) totals"

fun kind_debug :: "context_kind \<Rightarrow> string" where
  "kind_debug CkTask = ''Task''"
| "kind_debug CkIsr = ''Isr''"
| "kind_debug CkIdle = ''Idle''"
| "kind_debug CkCore = ''Core''"
| "kind_debug CkUnknown = ''Unknown''"

text \<open>The totals of tasks, interrupts and idle contexts.\<close>

fun add_kind_totals :: "context_cpu_summary list \<Rightarrow> duration_ns \<times> duration_ns \<times> duration_ns
    \<Rightarrow> (analysis_error, duration_ns \<times> duration_ns \<times> duration_ns) res" where
  "add_kind_totals [] totals = Inr totals"
| "add_kind_totals (c # cs) (task, isr, idle) =
     (let up = (\<lambda>t. count_up ''context_cpu_total'' (kind_debug (cs_kind c)) t (cs_active_ns c)) in
      case cs_kind c of
        CkTask \<Rightarrow> rbind (up task) (\<lambda>t. add_kind_totals cs (t, isr, idle))
      | CkIsr \<Rightarrow> rbind (up isr) (\<lambda>t. add_kind_totals cs (task, t, idle))
      | CkIdle \<Rightarrow> rbind (up idle) (\<lambda>t. add_kind_totals cs (task, isr, t))
      | _ \<Rightarrow> add_kind_totals cs (task, isr, idle))"

definition build_summary :: "analyzer \<Rightarrow> support_entry \<Rightarrow> (analysis_error, analysis_summary) res" where
  "build_summary a support =
     rbind (add_context_totals a (an_contexts a) (an_retired_context_cpu a)) (\<lambda>totals.
     rbind (add_kind_totals (context_cpu_of a totals) (0, 0, 0)) (\<lambda>(task, isr, idle).
       Inr \<lparr>sum_observation_count = an_observation_count a,
            sum_function_span_count = an_function_span_count a,
            sum_incomplete_function_span_count = an_incomplete_function_span_count a,
            sum_call_depth =
              \<lparr>cd_max_depth = an_max_depth a, cd_context_id = an_deepest_context a,
               cd_deepest_path = an_deepest_path a\<rparr>,
            sum_context_cpu = context_cpu_of a totals,
            sum_task_cpu_ns = task, sum_isr_cpu_ns = isr, sum_idle_cpu_ns = idle,
            sum_resources =
              \<lparr>res_counters =
                 sort_key rs_counter_id (map (summarize_counter a support) (an_counters a)),
               res_derived = build_derived_resource_metrics a support\<rparr>\<rparr>))"

subsection \<open>Hotspots\<close>

text \<open>\<open>total_cmp\<close> orders the bit patterns; equal rows keep their order.\<close>

definition f64_total_key :: "f64 \<Rightarrow> int" where
  "f64_total_key x =
     (let m = uint (f64_bits x) mod 2 ^ 63 in if f64_neg x then - m - 1 else m)"

definition function_row :: "health_verdict \<Rightarrow> string \<times> hotspot_accumulator
    \<Rightarrow> (analysis_error, function_hotspot) res" where
  "function_row verdict kv =
     (let h = snd kv in
      rbind (div_or_panic (ha_inclusive_active_ns h) (ha_count h)) (\<lambda>avg.
        Inr \<lparr>fh_function_id = fst kv, fh_context_id = None,
             fh_inclusive_active_ns = ha_inclusive_active_ns h, fh_self_active_ns = ha_self_active_ns h,
             fh_count = ha_count h, fh_min_active_ns = ha_min_active_ns h,
             fh_max_active_ns = ha_max_active_ns h, fh_avg_active_ns = avg, fh_incomplete_count = 0,
             fh_quality =
               (if verdict = Degraded then QInferred
                else (case ha_quality h of None \<Rightarrow> QExact | Some q \<Rightarrow> q))\<rparr>))"

fun res_map :: "('a \<Rightarrow> ('e, 'b) res) \<Rightarrow> 'a list \<Rightarrow> ('e, 'b list) res" where
  "res_map f [] = Inr []"
| "res_map f (x # xs) = rbind (f x) (\<lambda>y. rbind (res_map f xs) (\<lambda>ys. Inr (y # ys)))"

fun sample_total_weight :: "string \<Rightarrow> sample_accumulator list \<Rightarrow> u128 \<Rightarrow> (analysis_error, u128) res" where
  "sample_total_weight session_id [] whole = Inr whole"
| "sample_total_weight session_id (s # ss) whole =
     rbind (ok_or (checked_add whole (sa_weight s)) (NumericOverflow ''sample_total_weight'' session_id))
       (sample_total_weight session_id ss)"

definition sampling_row :: "u128 \<Rightarrow> sample_key \<times> sample_accumulator \<Rightarrow> sampling_hotspot" where
  "sampling_row whole kv =
     (case kv of ((f, address, ctx), s) \<Rightarrow>
        \<lparr>sh_function_id = f, sh_address = address, sh_context_id = ctx, sh_sample_count = sa_count s,
         sh_estimated_share =
           (if whole = 0 then f64_zero False
            else f64_div (f64_of_int (uint (sa_weight s))) (f64_of_int (uint whole))),
         sh_quality = QStatistical\<rparr>)"

definition report_quality :: "health_verdict \<Rightarrow> function_hotspot list \<Rightarrow> sampling_hotspot list \<Rightarrow> quality" where
  "report_quality verdict functions sampling =
     (if verdict = Degraded then QInferred
      else if functions = [] \<and> sampling \<noteq> [] then QStatistical
      else (case max_option (map fh_quality functions) of None \<Rightarrow> QExact | Some q \<Rightarrow> q))"

definition build_hotspots :: "string \<Rightarrow> (string, hotspot_accumulator) btree
    \<Rightarrow> (sample_key, sample_accumulator) btree \<Rightarrow> health_verdict \<Rightarrow> (analysis_error, hotspot_report) res" where
  "build_hotspots session_id functions samples verdict =
     (if verdict = Invalid then
        Inr \<lparr>hot_session_id = session_id, hot_quality = QInferred, hot_functions = [], hot_sampling = []\<rparr>
      else
        rbind (res_map (function_row verdict) functions) (\<lambda>rows.
        rbind (sample_total_weight session_id (bt_values samples) 0) (\<lambda>whole.
          let fs = sort_key (\<lambda>r. (- uint (fh_self_active_ns r), fh_function_id r)) rows;
              ss = sort_key (\<lambda>r. (- f64_total_key (sh_estimated_share r), sh_function_id r, sh_address r))
                     (map (sampling_row whole) samples)
          in Inr \<lparr>hot_session_id = session_id, hot_quality = report_quality verdict fs ss,
                  hot_functions = fs, hot_sampling = ss\<rparr>)))"

subsection \<open>Finishing\<close>

record analysis_result =
  ar_derived :: derived_document
  ar_health :: health_report
  ar_hotspots :: hotspot_report
  ar_summary :: analysis_summary

definition trusted_hotspots :: "analysis_result \<Rightarrow> hotspot_report option" where
  "trusted_hotspots r =
     (if allows_quantitative_results (hr_verdict (ar_health r)) then Some (ar_hotspots r) else None)"

definition trusted_summary :: "analysis_result \<Rightarrow> analysis_summary option" where
  "trusted_summary r =
     (if allows_quantitative_results (hr_verdict (ar_health r)) then Some (ar_summary r) else None)"

definition synthetic_observation :: "timestamp_ns \<Rightarrow> observation" where
  "synthetic_observation ts =
     new_observation ''analyzer'' (- 1) QInferred (Metadata ts ''analysis.finish'' JNull)"

definition unclosed_interrupt :: "timestamp_ns \<Rightarrow> u32 \<times> interrupt_activation \<Rightarrow> unit an" where
  "unclosed_interrupt close_ts ci =
     (case ci of (c, i) \<Rightarrow>
        followed
          (push_fact ''unclosed_interrupt'' ''analyzer'' None (Some (ia_entered_ts i)) (Some close_ts)
            (props [(''core_id'', j_u32 c), (''interrupt_id'', JStr (ia_interrupt_id i)),
                    (''activation_id'', JStr (ia_activation_id i))]))
          (mark_context_incomplete (ia_execution_context i)))"

definition all_interrupts :: "analyzer \<Rightarrow> (u32 \<times> interrupt_activation) list" where
  "all_interrupts a = concat (map (\<lambda>(c, co). map (Pair c) (co_interrupts co)) (an_cores a))"

definition close_context :: "timestamp_ns \<Rightarrow> exec_key \<Rightarrow> unit an" where
  "close_context close_ts k = close_unclosed_frames k close_ts ''analyzer'' None"

definition unclosed_custom :: "timestamp_ns \<Rightarrow> custom_span_key \<times> open_custom_span \<Rightarrow> unit an" where
  "unclosed_custom close_ts ks =
     (case ks of ((_, c, ctx, span_id), s) \<Rightarrow>
        push_fact ''unclosed_span'' (os_source_id s) (Some (os_source_seq s)) (Some (os_begin_ts s))
          (Some close_ts)
          (props [(''span_id'', JStr span_id), (''name'', JStr (os_name s)),
                  (''core_id'', j_opt j_u32 c), (''context_id'', j_opt JStr ctx)]))"

definition unclosed_async :: "timestamp_ns \<Rightarrow> async_span_key \<times> open_custom_span \<Rightarrow> unit an" where
  "unclosed_async close_ts ks =
     (case ks of ((_, correlation), s) \<Rightarrow>
        push_fact ''unclosed_async'' (os_source_id s) (Some (os_source_seq s)) (Some (os_begin_ts s))
          (Some close_ts)
          (props [(''correlation_id'', JStr correlation), (''name'', JStr (os_name s))]))"

definition close_custom_spans :: "timestamp_ns \<Rightarrow> unit an" where
  "close_custom_spans close_ts =
     with_state (\<lambda>a.
       followed (modify (\<lambda>a. a\<lparr>an_open_custom_spans := []\<rparr>))
         (for_each (unclosed_custom close_ts) (an_open_custom_spans a)))"

definition close_async_spans :: "timestamp_ns \<Rightarrow> unit an" where
  "close_async_spans close_ts =
     with_state (\<lambda>a.
       followed (modify (\<lambda>a. a\<lparr>an_open_async_spans := []\<rparr>))
         (for_each (unclosed_async close_ts) (an_open_async_spans a)))"

definition policy_version_of :: "string an" where
  "policy_version_of =
     with_state (\<lambda>a.
       if blank (cfg_health_policy_version (an_config a)) then
         followed
           (push_fact ''invalid_health_policy_identity'' ''analyzer'' None (an_max_ts a) (an_max_ts a)
             (props []))
           (ret ''t32perf.health-policy/invalid'')
       else ret (cfg_health_policy_version (an_config a)))"

text \<open>Everything that is still open is closed at the latest timestamp seen.\<close>

definition close_all :: "timestamp_ns option \<Rightarrow> unit an" where
  "close_all end_ts =
     with_state (\<lambda>a.
       let finish_ts = (case end_ts of
             Some t \<Rightarrow> t
           | None \<Rightarrow> (case an_max_ts a of Some t \<Rightarrow> t | None \<Rightarrow> I64 0))
       in followed
            (for_each
              (\<lambda>c. followed (advance_core c finish_ts (synthetic_observation finish_ts)) (ret ()))
              (bt_keys (an_cores a)))
            (with_state (\<lambda>a.
              let close_ts = max (case an_max_ts a of None \<Rightarrow> finish_ts | Some t \<Rightarrow> t) finish_ts in
              followed (for_each (unclosed_interrupt close_ts) (all_interrupts a))
                (with_state (\<lambda>a.
                  followed (for_each (close_context close_ts) (bt_keys (an_contexts a)))
                    (followed (close_custom_spans close_ts) (close_async_spans close_ts)))))))"

definition analysis_of :: "string \<Rightarrow> analyzer \<Rightarrow> (analysis_error, analysis_result) res" where
  "analysis_of version a =
     rbind (evaluate_policy version (an_session_id a) (an_health_observations a)
              ((cfg_capabilities (an_config a))\<lparr>cap_resource_counters := effective_resource_capability a\<rparr>))
       (\<lambda>health.
     rthen (map_err InvalidHealth (validate_health_report health))
     (rbind (build_summary a (mx_resource_counters (hr_metric_support health))) (\<lambda>summary.
       let derived = \<lparr>dd_session_id = an_session_id a, dd_input_artifact_ids = [],
                       dd_function_spans = an_completed_spans a\<rparr> in
       rthen (map_err InvalidDerived (validate_derived derived))
       (rbind (build_hotspots (an_session_id a) (an_function_hotspots a) (an_samples a) (hr_verdict health))
         (\<lambda>hotspots.
         rthen (map_err InvalidHotspots (validate_hotspots hotspots))
           (Inr \<lparr>ar_derived = derived, ar_health = health, ar_hotspots = hotspots,
                 ar_summary = summary\<rparr>))))))"

definition finish :: "timestamp_ns option \<Rightarrow> analysis_result an" where
  "finish end_ts =
     with_state (\<lambda>a.
       if blank (an_session_id a) then throw EmptySessionId
       else followed (close_all end_ts)
         (andthen policy_version_of (\<lambda>version.
           with_state (\<lambda>a. lift (analysis_of version a)))))"

end
