(* ===== verification/Analyzer_Contract.thy ===== *)
theory Analyzer_Contract
  imports Analyzer_Finish
begin

text \<open>
  What the analyzer promises about its results at any time: the diagnostics and the open spans stay
  within their limits, every completed span is valid, and the hotspot aggregates are exactly the
  aggregates of the complete spans.
\<close>

subsection \<open>Aggregates\<close>

definition aggregates :: "hotspot_accumulator \<Rightarrow> function_span list \<Rightarrow> bool" where
  "aggregates h sps \<longleftrightarrow>
     sps \<noteq> []
     \<and> unat (ha_count h) = length sps
     \<and> unat (ha_inclusive_active_ns h) = sum_list (map (unat \<circ> fs_active_ns) sps)
     \<and> unat (ha_self_active_ns h) = sum_list (map (unat \<circ> fs_self_active_ns) sps)
     \<and> ha_min_active_ns h = Min (fs_active_ns ` set sps)
     \<and> ha_max_active_ns h = Max (fs_active_ns ` set sps)
     \<and> ha_quality h = Some (Max (fs_quality ` set sps))"

lemma add_span_Inr:
  "add_span h sp = Inr h' \<longleftrightarrow>
     unat (ha_inclusive_active_ns h') = unat (ha_inclusive_active_ns h) + unat (fs_active_ns sp)
     \<and> unat (ha_self_active_ns h') = unat (ha_self_active_ns h) + unat (fs_self_active_ns sp)
     \<and> unat (ha_count h') = unat (ha_count h) + 1
     \<and> ha_min_active_ns h' = (if ha_count h' = 1 then fs_active_ns sp else min (ha_min_active_ns h) (fs_active_ns sp))
     \<and> ha_max_active_ns h' = max (ha_max_active_ns h) (fs_active_ns sp)
     \<and> ha_quality h' = Some (case ha_quality h of None \<Rightarrow> fs_quality sp | Some q \<Rightarrow> max q (fs_quality sp))"
  (is "_ \<longleftrightarrow> ?R h'")
proof
  assume "add_span h sp = Inr h'"
  then show "?R h'"
    by (auto simp: add_span_def count_up_def rbind_eq_Inr checked_add_Some worst_quality_def split: option.splits)
next
  assume R: "?R h'"
  then have "checked_add (ha_inclusive_active_ns h) (fs_active_ns sp) = Some (ha_inclusive_active_ns h')"
    "checked_add (ha_self_active_ns h) (fs_self_active_ns sp) = Some (ha_self_active_ns h')"
    "checked_add (ha_count h) 1 = Some (ha_count h')"
    by (simp_all add: checked_add_Some)
  with R show "add_span h sp = Inr h'"
    by (cases h') (simp add: add_span_def count_up_def worst_quality_def split: option.splits)
qed

lemma aggregates_first: "add_span hotspot_default sp = Inr h \<Longrightarrow> aggregates h [sp]"
proof -
  assume "add_span hotspot_default sp = Inr h"
  then have h: "unat (ha_inclusive_active_ns h) = unat (fs_active_ns sp)"
    "unat (ha_self_active_ns h) = unat (fs_self_active_ns sp)" "unat (ha_count h) = 1"
    "ha_min_active_ns h = (if ha_count h = 1 then fs_active_ns sp else min 0 (fs_active_ns sp))"
    "ha_max_active_ns h = fs_active_ns sp" "ha_quality h = Some (fs_quality sp)"
    by (simp_all add: add_span_Inr hotspot_default_def)
  moreover from h(3) have "ha_count h = 1" by (metis unat_1 word_unat_eq_iff)
  ultimately show ?thesis by (simp add: aggregates_def)
qed

lemma aggregates_snoc:
  assumes "aggregates h sps" and "add_span h sp = Inr h'"
  shows "aggregates h' (sps @ [sp])"
proof -
  from assms(1) have "sps \<noteq> []" and n: "unat (ha_count h) = length sps" by (simp_all add: aggregates_def)
  moreover from assms(2) have "unat (ha_count h') = unat (ha_count h) + 1" by (simp add: add_span_Inr)
  ultimately have "ha_count h' \<noteq> 1" by (cases sps) auto
  with assms \<open>sps \<noteq> []\<close> show ?thesis
    by (auto simp: aggregates_def add_span_Inr Min_insert max.commute min.commute)
qed

lemma aggregates_count: "aggregates h sps \<Longrightarrow> ha_count h \<noteq> 0"
  by (auto simp: aggregates_def)

subsection \<open>The spans a frame produces\<close>

lemma saturating_sub_le: "saturating_sub a b \<le> (a :: 'a::len word)"
  by (simp add: word_le_nat_alt)

lemma closed_span_bounds:
  "uint (fs_elapsed_ns (closed_span v fr e sq xq b)) =
     ival (fs_end_ns (closed_span v fr e sq xq b)) - ival (fs_start_ns (closed_span v fr e sq xq b))"
proof (cases "of_start_wall_ns fr \<le> e")
  case True
  then obtain d where d: "duration_between (of_start_wall_ns fr) e = Some d" using duration_between_le by blast
  then have "uint d = ival e - ival (of_start_wall_ns fr)" by (simp add: duration_between_Some)
  with d True show ?thesis by (simp add: closed_span_def Let_def closed_elapsed_def max_absorb1)
next
  case False
  then have "ival e < ival (of_start_wall_ns fr)" by (simp add: less_eq_i64_def)
  then have "duration_between (of_start_wall_ns fr) e = None"
    by (simp add: duration_between_def u64_try_from_def)
  moreover have "max e (of_start_wall_ns fr) = of_start_wall_ns fr" using False by (intro max_absorb2) simp
  ultimately show ?thesis by (simp add: closed_span_def Let_def closed_elapsed_def)
qed

text \<open>The decomposition of a closed frame is always consistent; only the range of its source
  sequence numbers can be refused.\<close>

lemma closed_span_valid:
  "validate_span (closed_span v fr e sq xq b) = Inr () \<longleftrightarrow> (\<forall>n. sq = Some n \<longrightarrow> of_source_seq_start fr \<le> n)"
proof -
  let ?sp = "closed_span v fr e sq xq b"
  have act: "fs_active_ns ?sp \<le> fs_elapsed_ns ?sp" by (simp add: closed_span_def Let_def)
  then have "unat (fs_active_ns ?sp) \<le> unat (fs_elapsed_ns ?sp)" by (simp add: word_le_nat_alt)
  moreover have "unat (fs_preempted_ns ?sp) = unat (fs_elapsed_ns ?sp) - unat (fs_active_ns ?sp)"
    by (simp add: closed_span_def Let_def)
  moreover have "fs_self_active_ns ?sp \<le> fs_active_ns ?sp"
    unfolding closed_span_def Let_def by (simp only: function_span.simps saturating_sub_le)
  moreover have "fs_source_seq_start ?sp = Some (of_source_seq_start fr)" "fs_source_seq_end ?sp = sq"
    by (simp_all add: closed_span_def Let_def)
  ultimately show ?thesis
    by (auto simp: validate_span_Inr closed_span_bounds)
qed

subsection \<open>The contract\<close>

text \<open>\<open>ds\<close> are the spans that were drained before.\<close>

definition complete_of :: "string \<Rightarrow> function_span list \<Rightarrow> function_span list" where
  "complete_of f sps = filter (\<lambda>sp. \<not> fs_incomplete sp \<and> fs_function_id sp = f) sps"

definition matches_row :: "hotspot_accumulator option \<Rightarrow> function_span list \<Rightarrow> bool" where
  "matches_row x sps \<longleftrightarrow> (case x of None \<Rightarrow> sps = [] | Some h \<Rightarrow> aggregates h sps)"

definition hotspots_match :: "function_span list \<Rightarrow> analyzer \<Rightarrow> bool" where
  "hotspots_match sps a \<longleftrightarrow>
     bt_sorted (an_function_hotspots a)
     \<and> (\<forall>f. matches_row (bt_get (an_function_hotspots a) f) (complete_of f sps))
     \<and> unat (an_function_span_count a) = length sps
     \<and> unat (an_incomplete_function_span_count a) = length (filter fs_incomplete sps)"

definition within_limits :: "analyzer \<Rightarrow> bool" where
  "within_limits a \<longleftrightarrow>
     length (an_health_observations a) \<le> health_limit a
     \<and> open_custom_span_count a \<le> open_span_limit a"

definition contract :: "function_span list \<Rightarrow> analyzer \<Rightarrow> bool" where
  "contract ds a \<longleftrightarrow>
     within_limits a
     \<and> (\<forall>sp\<in>set (ds @ an_completed_spans a). validate_span sp = Inr ())
     \<and> hotspots_match (ds @ an_completed_spans a) a"

lemma contract_cong:
  "an_health_observations b = an_health_observations a \<Longrightarrow> an_config b = an_config a
    \<Longrightarrow> an_open_custom_spans b = an_open_custom_spans a \<Longrightarrow> an_open_async_spans b = an_open_async_spans a
    \<Longrightarrow> an_completed_spans b = an_completed_spans a \<Longrightarrow> an_function_hotspots b = an_function_hotspots a
    \<Longrightarrow> an_function_span_count b = an_function_span_count a
    \<Longrightarrow> an_incomplete_function_span_count b = an_incomplete_function_span_count a
    \<Longrightarrow> contract ds b = contract ds a"
  by (simp add: contract_def within_limits_def hotspots_match_def health_limit_def open_span_limit_def
      open_custom_span_count_def)

lemma contract_update [simp]:
  "contract ds (a\<lparr>an_cores := x1\<rparr>) = contract ds a"
  "contract ds (a\<lparr>an_contexts := x2\<rparr>) = contract ds a"
  "contract ds (a\<lparr>an_context_public_ids := x3\<rparr>) = contract ds a"
  "contract ds (a\<lparr>an_retired_context_cpu := x4\<rparr>) = contract ds a"
  "contract ds (a\<lparr>an_context_kinds := x5\<rparr>) = contract ds a"
  "contract ds (a\<lparr>an_source_progress := x6\<rparr>) = contract ds a"
  "contract ds (a\<lparr>an_samples := x7\<rparr>) = contract ds a"
  "contract ds (a\<lparr>an_counters := x8\<rparr>) = contract ds a"
  "contract ds (a\<lparr>an_usage_invariants := x9\<rparr>) = contract ds a"
  "contract ds (a\<lparr>an_fragmentation := x10\<rparr>) = contract ds a"
  "contract ds (a\<lparr>an_reported_resource_issues := x11\<rparr>) = contract ds a"
  "contract ds (a\<lparr>an_observation_count := x12\<rparr>) = contract ds a"
  "contract ds (a\<lparr>an_max_ts := x13\<rparr>) = contract ds a"
  "contract ds (a\<lparr>an_max_depth := x14\<rparr>) = contract ds a"
  "contract ds (a\<lparr>an_deepest_context := x15\<rparr>) = contract ds a"
  "contract ds (a\<lparr>an_deepest_path := x16\<rparr>) = contract ds a"
  "contract ds (a\<lparr>an_next_activation_serial := x17\<rparr>) = contract ds a"
  "contract ds (a\<lparr>an_reported_concurrent_tasks := x18\<rparr>) = contract ds a"
  "contract ds (a\<lparr>an_dropped_count := x19\<rparr>) = contract ds a"
  "contract ds (a\<lparr>an_health_diagnostics_truncated := x20\<rparr>) = contract ds a"
  "contract ds (a\<lparr>an_counter_definitions := x21\<rparr>) = contract ds a"
  "contract ds (a\<lparr>an_counter_identity_index := x22\<rparr>) = contract ds a"
  by (rule contract_cong; simp)+

subsection \<open>The operations the contract depends on\<close>

lemma contract_health:
  "contract ds a \<Longrightarrow> length hs \<le> health_limit a \<Longrightarrow> contract ds (a\<lparr>an_health_observations := hs\<rparr>)"
  by (simp add: contract_def within_limits_def hotspots_match_def health_limit_def open_span_limit_def
      open_custom_span_count_def)

lemma length_update_first [simp]: "length (update_first P f xs) = length xs"
  by (induction xs) auto

lemma health_limit_pos [simp]: "0 < health_limit a"
  by (simp add: health_limit_def)

lemma health_limit_update [simp]:
  "health_limit (a\<lparr>an_dropped_count := d\<rparr>) = health_limit a"
  "health_limit (a\<lparr>an_health_diagnostics_truncated := t\<rparr>) = health_limit a"
  by (simp_all add: health_limit_def)

lemma contract_store: "contract ds a \<Longrightarrow> contract ds (snd (store_health_observation h a))"
proof -
  assume c: "contract ds a"
  then have len: "length (an_health_observations a) \<le> health_limit a"
    by (simp add: contract_def within_limits_def)
  from c len show ?thesis
    by (auto simp: store_health_observation_def se_defs Let_def expect_def contract_health less_Suc_eq_le
        Suc_le_eq split: option.splits intro!: contract_health)
qed

lemma complete_of_snoc:
  "complete_of f (sps @ [sp]) =
     (if \<not> fs_incomplete sp \<and> fs_function_id sp = f then complete_of f sps @ [sp] else complete_of f sps)"
  by (simp add: complete_of_def)

lemma andthen_lift [simp]: "andthen (lift (Inr x)) f = f x" "andthen (lift (Inl e)) f = lift (Inl e)"
  by (simp_all add: fun_eq_iff se_defs)

text \<open>What a successful \<open>record_completed_span\<close> leaves behind.\<close>

lemma record_span_cases:
  assumes "record_completed_span sp a = (r, b)"
  obtains (failed) e where "r = Inl e" and "b = a"
  | (complete) n h where "r = Inr ()" and "\<not> fs_incomplete sp" and "validate_span sp = Inr ()"
      and "unat n = unat (an_function_span_count a) + 1"
      and "add_span (hotspot_of a (fs_function_id sp)) sp = Inr h"
      and "b = a\<lparr>an_function_span_count := n,
          an_function_hotspots := bt_insert (fs_function_id sp) h (an_function_hotspots a),
          an_completed_spans := an_completed_spans a @ [sp]\<rparr>"
  | (incomplete) n m where "r = Inr ()" and "fs_incomplete sp" and "validate_span sp = Inr ()"
      and "unat n = unat (an_function_span_count a) + 1"
      and "unat m = unat (an_incomplete_function_span_count a) + 1"
      and "b = a\<lparr>an_function_span_count := n, an_incomplete_function_span_count := m,
          an_completed_spans := an_completed_spans a @ [sp]\<rparr>"
proof (cases r)
  case (Inl e)
  with assms have "b = a"
    by (auto simp: record_completed_span_def se_defs split: sum.splits if_splits)
  with Inl show ?thesis by (rule failed)
next
  case (Inr u)
  from assms Inr have valid: "validate_span sp = Inr ()"
    by (auto simp: record_completed_span_def se_defs split: sum.splits)
  from assms Inr obtain n where n: "count_up ''function_span_count'' (an_session_id a) (an_function_span_count a) 1 = Inr n"
    by (auto simp: record_completed_span_def se_defs split: sum.splits)
  then have n': "unat n = unat (an_function_span_count a) + 1" by (simp add: count_up_def checked_add_Some)
  show ?thesis
  proof (cases "fs_incomplete sp")
    case True
    from assms Inr True obtain m where m: "count_up ''incomplete_function_span_count'' (an_session_id a)
        (an_incomplete_function_span_count a) 1 = Inr m"
      by (auto simp: record_completed_span_def se_defs split: sum.splits)
    then have "unat m = unat (an_incomplete_function_span_count a) + 1" by (simp add: count_up_def checked_add_Some)
    with m assms Inr True valid n n' show ?thesis
      by (intro incomplete [of n m]) (auto simp: record_completed_span_def with_state_def modify_def)
  next
    case False
    from assms Inr False obtain h where "add_span (hotspot_of a (fs_function_id sp)) sp = Inr h"
      by (auto simp: record_completed_span_def se_defs rbind_def split: sum.splits)
    with assms Inr False valid n n' show ?thesis
      by (intro complete [of n h]) (auto simp: record_completed_span_def with_state_def modify_def)
  qed
qed

lemma hotspots_matchD: "hotspots_match sps a \<Longrightarrow>
    matches_row (bt_get (an_function_hotspots a) f) (complete_of f sps)"
  unfolding hotspots_match_def by blast

lemma hotspots_match_complete:
  assumes "hotspots_match sps a" and "\<not> fs_incomplete sp" and "unat n = unat (an_function_span_count a) + 1"
    and "add_span (hotspot_of a (fs_function_id sp)) sp = Inr h"
  shows "hotspots_match (sps @ [sp]) (a\<lparr>an_function_span_count := n,
      an_function_hotspots := bt_insert (fs_function_id sp) h (an_function_hotspots a),
      an_completed_spans := xs\<rparr>)"
proof -
  let ?f = "fs_function_id sp"
  have "aggregates h (complete_of ?f sps @ [sp])"
  proof (cases "bt_get (an_function_hotspots a) ?f")
    case None
    with hotspots_matchD [OF assms(1), of ?f] have "complete_of ?f sps = []" by (simp add: matches_row_def)
    with None assms(4) show ?thesis by (simp add: hotspot_of_def aggregates_first)
  next
    case (Some h0)
    with hotspots_matchD [OF assms(1), of ?f] have "aggregates h0 (complete_of ?f sps)" by (simp add: matches_row_def)
    with Some assms(4) show ?thesis by (simp add: hotspot_of_def aggregates_snoc)
  qed
  with assms(1-3) show ?thesis
    by (auto simp: hotspots_match_def complete_of_snoc bt.wf_insert matches_row_def [of "Some h"])
qed

lemma contract_record: "contract ds a \<Longrightarrow> contract ds (snd (record_completed_span sp a))"
proof -
  assume c: "contract ds a"
  obtain r b where r: "record_completed_span sp a = (r, b)" by fastforce
  then show ?thesis
  proof (cases rule: record_span_cases)
    case (complete n h)
    from c have "hotspots_match (ds @ an_completed_spans a) a" by (simp add: contract_def)
    from hotspots_match_complete [OF this complete(2,4,5)] c complete(3,6) r show ?thesis
      by (simp add: contract_def within_limits_def health_limit_def open_span_limit_def open_custom_span_count_def)
  next
    case (incomplete n m)
    with c r show ?thesis
      by (simp add: contract_def within_limits_def health_limit_def open_span_limit_def
          open_custom_span_count_def hotspots_match_def complete_of_def)
  qed (use c r in simp)
qed

lemma contract_custom:
  "contract ds a \<Longrightarrow> length m \<le> length (an_open_custom_spans a) \<or>
     length m + length (an_open_async_spans a) \<le> open_span_limit a
    \<Longrightarrow> contract ds (a\<lparr>an_open_custom_spans := m\<rparr>)"
  "contract ds a \<Longrightarrow> length m' \<le> length (an_open_async_spans a) \<or>
     length (an_open_custom_spans a) + length m' \<le> open_span_limit a
    \<Longrightarrow> contract ds (a\<lparr>an_open_async_spans := m'\<rparr>)"
  by (auto simp: contract_def within_limits_def health_limit_def open_span_limit_def
      open_custom_span_count_def hotspots_match_def)

lemma length_insert_le: "length (bt_insert k v m) \<le> Suc (length m)"
  by (induction k v m rule: bt_insert.induct) auto

lemma length_remove_le: "length (bt_remove k m) \<le> length m"
  by (simp add: bt_remove_def)

lemma contract_insert:
  assumes "contract ds a" and "open_custom_span_count a < open_span_limit a"
  shows "contract ds (a\<lparr>an_open_custom_spans := bt_insert k v (an_open_custom_spans a)\<rparr>)"
    and "contract ds (a\<lparr>an_open_async_spans := bt_insert k' v' (an_open_async_spans a)\<rparr>)"
  using assms length_insert_le [of k v "an_open_custom_spans a"] length_insert_le [of k' v' "an_open_async_spans a"]
  by (auto intro!: contract_custom simp: open_custom_span_count_def)

lemma contract_new: "contract [] (analyzer_new sid cfg)"
  by (simp add: contract_def within_limits_def hotspots_match_def analyzer_new_def open_custom_span_count_def
      complete_of_def bt_sorted_def matches_row_def)

lemma contract_drain:
  "contract ds a \<Longrightarrow> drain_completed_spans a = (r, b) \<Longrightarrow> contract (ds @ an_completed_spans a) b"
  by (auto simp: drain_completed_spans_def se_defs contract_def within_limits_def hotspots_match_def
      health_limit_def open_span_limit_def open_custom_span_count_def)

end
