(* ===== verification/Analyzer_Progress.thy ===== *)
theory Analyzer_Progress
  imports Analyzer_Contract
begin

text \<open>
  What only ever moves forward while observations are ingested: the session and its configuration
  are fixed, cores are never forgotten and their time never moves back, the latest timestamp and
  the progress of every source grow. \<open>forward\<close> relates the states before and after, and every
  operation moves along it, the failing ones included.
\<close>

named_theorems forward_ops \<open>operations that move forward\<close>

definition cores_forward :: "(u32, core_state) btree \<Rightarrow> (u32, core_state) btree \<Rightarrow> bool" where
  "cores_forward m m' \<longleftrightarrow>
     (\<forall>c co. bt_get m c = Some co \<longrightarrow>
       (\<exists>co'. bt_get m' c = Some co' \<and> co_last_ts co \<le> co_last_ts co'))"

definition sources_forward :: "(string, source_progress) btree \<Rightarrow> (string, source_progress) btree \<Rightarrow> bool" where
  "sources_forward m m' \<longleftrightarrow>
     (\<forall>s p. bt_get m s = Some p \<longrightarrow>
       (\<exists>p'. bt_get m' s = Some p' \<and> sp_sequence p \<le> sp_sequence p' \<and> sp_timestamp p \<le> sp_timestamp p'))"

definition forward :: "analyzer \<Rightarrow> analyzer \<Rightarrow> bool" where
  "forward a b \<longleftrightarrow>
     an_session_id b = an_session_id a \<and> an_config b = an_config a
     \<and> cores_forward (an_cores a) (an_cores b) \<and> an_max_ts a \<le> an_max_ts b
     \<and> sources_forward (an_source_progress a) (an_source_progress b)
     \<and> an_observation_count a \<le> an_observation_count b
     \<and> (\<forall>ds. contract ds a \<longrightarrow> contract ds b)"

lemma cores_forward_refl [simp]: "cores_forward m m"
  by (simp add: cores_forward_def)

lemma sources_forward_refl [simp]: "sources_forward m m"
  by (simp add: sources_forward_def)

lemma cores_forward_trans: "cores_forward a b \<Longrightarrow> cores_forward b c \<Longrightarrow> cores_forward a c"
  unfolding cores_forward_def by (meson order_trans)

lemma sources_forward_trans: "sources_forward a b \<Longrightarrow> sources_forward b c \<Longrightarrow> sources_forward a c"
  unfolding sources_forward_def by (meson order_trans)

interpretation fw: progress forward
proof
  fix a b c :: analyzer
  show "forward a a" by (simp add: forward_def)
  show "forward a b \<Longrightarrow> forward b c \<Longrightarrow> forward a c"
    unfolding forward_def by (auto intro: cores_forward_trans sources_forward_trans order_trans)
qed

lemmas fw_rules = fw.moves_rules

lemma forward_refl [simp]: "forward a a"
  by (rule fw.R_refl)

lemma cores_forward_insert:
  "(\<And>co. bt_get m c = Some co \<Longrightarrow> co_last_ts co \<le> co_last_ts new) \<Longrightarrow> cores_forward m (bt_insert c new m)"
  by (auto simp: cores_forward_def)

lemma core_entry_Some: "bt_get (an_cores a) c = Some co \<Longrightarrow> core_entry a c = co"
  by (simp add: core_entry_def)

lemma fw_cases:
  "(\<And>a. x = Some a \<Longrightarrow> fw.moves (f a)) \<Longrightarrow> (x = None \<Longrightarrow> fw.moves n)
    \<Longrightarrow> fw.moves (case x of None \<Rightarrow> n | Some a \<Rightarrow> f a)"
  by (cases x) auto

lemma fw_if: "(b \<Longrightarrow> fw.moves m) \<Longrightarrow> (\<not> b \<Longrightarrow> fw.moves n) \<Longrightarrow> fw.moves (if b then m else n)"
  by simp

lemma fw_let: "fw.moves (f x) \<Longrightarrow> fw.moves (let y = x in f y)"
  by simp

lemma fw_pair: "(\<And>a b. x = (a, b) \<Longrightarrow> fw.moves (f a b)) \<Longrightarrow> fw.moves (case x of (a, b) \<Rightarrow> f a b)"
  by (cases x) auto

lemma fw_guarded: "(\<And>s. forward s (snd (f s s))) \<Longrightarrow> fw.moves (with_state f)"
  by (simp add: fw.moves_def with_state_def)

lemma fwD: "fw.moves m \<Longrightarrow> forward s (snd (m s))"
  by (simp add: fw.moves_def)

lemmas fw_all = fw_rules fw_cases fw_if fw_let fw_pair

subsection \<open>Facts and marks\<close>

lemma fw_store [forward_ops]: "fw.moves (store_health_observation h)"
  using contract_store
  by (auto simp: fw.moves_def forward_def store_health_observation_def se_defs Let_def split: sum.splits)

lemma fw_push_fact [forward_ops]: "fw.moves (push_fact code source r s e ev)"
  unfolding push_fact_def by (rule fw_store)

lemma fw_marks [forward_ops]:
  "fw.moves (mark_context_incomplete k)" "fw.moves (taint_context k)" "fw.moves mark_all_incomplete"
  "fw.moves (ensure_execution_context k p)"
  unfolding mark_context_incomplete_def taint_context_def mark_all_incomplete_def
    ensure_execution_context_def
  by (auto intro!: fw_all simp: forward_def)

lemma fw_observe [forward_ops]: "fw.moves (observe_timestamp t)"
  unfolding observe_timestamp_def
  by (auto intro!: fw_all simp: forward_def split: option.splits)

subsection \<open>Cores\<close>

lemma forward_set_core:
  "(\<And>co. bt_get (an_cores a) c = Some co \<Longrightarrow> co_last_ts co \<le> co_last_ts new) \<Longrightarrow> forward a (set_core c new a)"
  by (simp add: forward_def set_core_def cores_forward_insert)

lemma fw_schedule [forward_ops]: "fw.moves (schedule_context c k t)"
  unfolding schedule_context_def
  by (intro fw_all) (auto simp: Let_def core_entry_Some intro!: forward_set_core)

lemma fw_report_conflicts [forward_ops]: "fw.moves (report_conflicts c k ctx cs e o')"
  unfolding report_conflicts_def
  by (intro fw_all forward_ops) (auto simp: forward_def)

lemma fw_detect [forward_ops]: "fw.moves (detect_concurrent_scheduling c s e o')"
  unfolding detect_concurrent_scheduling_def by (intro fw_all forward_ops)

lemma fw_add_virtual [forward_ops]: "fw.moves (add_virtual k ctx v s e)"
  unfolding add_virtual_def set_virtual_def
  by (intro fw_all forward_ops) (auto simp: forward_def)

lemma fw_credit [forward_ops]: "fw.moves (credit_execution_interval k ctx c s e)"
  unfolding credit_execution_interval_def by (intro fw_all forward_ops)

lemma fw_advance_forward [forward_ops]: "fw.moves (advance_forward c l t r o')"
  unfolding advance_forward_def by (intro fw_all forward_ops)

lemma fw_effective_time [forward_ops]: "fw.moves (effective_time c t o' core)"
  unfolding effective_time_def by (intro fw_all forward_ops)

text \<open>The effective time is never before the last one, and nothing on the way changes it.\<close>

definition last_of :: "analyzer \<Rightarrow> u32 \<Rightarrow> timestamp_ns option" where
  "last_of a c = co_last_ts (core_entry a c)"

definition last_kept :: "analyzer \<Rightarrow> analyzer \<Rightarrow> bool" where
  "last_kept a b \<longleftrightarrow> last_of b = last_of a"

interpretation lk: progress last_kept
  by unfold_locales (auto simp: last_kept_def)

lemma lk_effective_time: "lk.moves (effective_time c t o' core)"
proof -
  have simple: "lk.moves (modify f)" if "\<And>a. an_cores (f a) = an_cores a" for f
    using that by (intro lk.moves_modify) (simp add: last_kept_def last_of_def core_entry_def fun_eq_iff)
  have opt: "lk.moves (case x of None \<Rightarrow> n | Some a \<Rightarrow> f a)"
    if "\<And>a. lk.moves (f a)" "lk.moves n" for x n f
    using that by (cases x) auto
  have store: "lk.moves (store_health_observation h)" for h
    unfolding store_health_observation_def Let_def
    by (auto intro!: lk.moves_rules simple)
  have "lk.moves (push_fact code src r s e ev)" for code src r s e ev
    unfolding push_fact_def by (rule store)
  moreover have "lk.moves (mark_context_incomplete k)" "lk.moves (taint_context k)"
    "lk.moves (ensure_execution_context k p)" "lk.moves (set_virtual k v)" for k p v
    unfolding mark_context_incomplete_def taint_context_def ensure_execution_context_def set_virtual_def
    by (auto intro!: simple)
  ultimately have facts:
    "lk.moves (push_fact code src r s e ev)" "lk.moves (mark_context_incomplete k)" "lk.moves (taint_context k)"
    "lk.moves (ensure_execution_context k p)" "lk.moves (set_virtual k v)" for code src r s e ev k p v
    by blast+
  have "lk.moves (report_conflicts c' k ctx cs e o')" for c' k ctx cs e
    unfolding report_conflicts_def
    by (auto intro!: lk.moves_rules facts simple split: prod.splits)
  then have "lk.moves (detect_concurrent_scheduling c' s e o')" for c' s e
    unfolding detect_concurrent_scheduling_def
    by (auto intro!: lk.moves_rules facts opt)
  moreover have "lk.moves (credit_execution_interval k ctx c' s e)" for k ctx c' s e
    unfolding credit_execution_interval_def add_virtual_def
    by (auto intro!: lk.moves_rules facts opt)
  ultimately have "lk.moves (advance_forward c l t r o')" for c l t r
    unfolding advance_forward_def by (auto intro!: lk.moves_rules facts split: option.splits)
  then show ?thesis
    unfolding effective_time_def
    by (auto intro!: lk.moves_rules facts opt split: option.splits)
qed

lemma effective_time_ge:
  "effective_time c t o' core s = (Inr eff, s') \<Longrightarrow> co_last_ts core \<le> Some eff"
proof -
  have "safe (\<lambda>_. True) (effective_time c t o' core) (\<lambda>eff _. co_last_ts core \<le> Some eff) (\<lambda>_ _. True)"
    unfolding effective_time_def
    by (auto split: option.splits intro!: safe_ret safe_andthen [where R = "\<lambda>_ _. True"]
        safe_followed [where R = "\<lambda>_. True"] simp: not_less)
      (simp_all add: safe_def split: prod.splits sum.splits)
  then show "effective_time c t o' core s = (Inr eff, s') \<Longrightarrow> co_last_ts core \<le> Some eff"
    by (rule safeD(1)) simp_all
qed

definition commit_time :: "u32 \<Rightarrow> timestamp_ns \<Rightarrow> analyzer \<Rightarrow> analyzer" where
  "commit_time c eff a = set_core c ((core_entry a c)\<lparr>co_last_ts := Some eff\<rparr>) a"

lemma forward_commit: "last_of a c \<le> Some eff \<Longrightarrow> forward a (commit_time c eff a)"
  unfolding commit_time_def last_of_def
  by (rule forward_set_core) (simp add: core_entry_Some)

lemma advance_core_cases:
  assumes "advance_core c t o' s = (r, s')"
  obtains (failed) e where "r = Inl e" and "effective_time c t o' (core_entry s c) s = (Inl e, s')"
  | (advanced) eff s1 where "r = Inr eff"
      and "effective_time c t o' (core_entry s c) s = (Inr eff, s1)"
      and "s' = snd (observe_timestamp eff (commit_time c eff s1))"
proof (cases "effective_time c t o' (core_entry s c) s")
  case (Pair q s1)
  show ?thesis
  proof (cases q)
    case (Inl e)
    with assms Pair show ?thesis
      by (intro failed [of e]) (simp_all add: advance_core_def se_defs)
  next
    case (Inr eff)
    with assms Pair show ?thesis
      by (intro advanced [of eff s1])
        (auto simp: advance_core_def se_defs commit_time_def observe_timestamp_def)
  qed
qed

lemma fw_advance [forward_ops]: "fw.moves (advance_core c t o')"
  unfolding fw.moves_def
proof
  fix s
  obtain r s' where r: "advance_core c t o' s = (r, s')" by fastforce
  then show "forward s (snd (advance_core c t o' s))"
  proof (cases rule: advance_core_cases)
    case (failed e)
    with r fw_effective_time [of c t o' "core_entry s c"] show ?thesis
      unfolding fw.moves_def by (metis snd_conv)
  next
    case (advanced eff s1)
    have "forward s s1"
      using fw_effective_time [of c t o' "core_entry s c"] advanced(2)
      unfolding fw.moves_def by (metis snd_conv)
    moreover have "last_of s1 c \<le> Some eff"
      using lk_effective_time [of c t o' "core_entry s c"] effective_time_ge [OF advanced(2)] advanced(2)
      unfolding lk.moves_def last_kept_def last_of_def by (metis snd_conv)
    then have "forward s1 (commit_time c eff s1)" by (rule forward_commit)
    moreover have "forward (commit_time c eff s1) s'"
      using fw_observe [of eff] advanced(3) unfolding fw.moves_def by simp
    ultimately show ?thesis using r fw.R_trans by (metis snd_conv)
  qed
qed

lemma fw_advance_optional [forward_ops]: "fw.moves (advance_optional_core c t o')"
  unfolding advance_optional_core_def by (intro fw_all forward_ops)

subsection \<open>The other operations\<close>

lemma fw_kind [forward_ops]: "fw.moves (kind_or_insert ctx k)"
  unfolding kind_or_insert_def by (intro fw_all) (simp add: forward_def)

lemma fw_adopt [forward_ops]: "fw.moves (adopt_context c ctx o')"
  unfolding adopt_context_def by (intro fw_all forward_ops)

lemma fw_mismatch [forward_ops]: "fw.moves (context_mismatch c k p k' p' o')"
  unfolding context_mismatch_def by (intro fw_all forward_ops)

lemma fw_ensure_context [forward_ops]: "fw.moves (ensure_function_context c ctx o')"
  unfolding ensure_function_context_def by (intro fw_all forward_ops)

lemma fw_record_span [forward_ops]: "fw.moves (record_completed_span sp)"
  unfolding fw.moves_def
proof
  fix s
  obtain r b where r: "record_completed_span sp s = (r, b)" by fastforce
  with contract_record [of _ s sp] have "contract ds s \<Longrightarrow> contract ds b" for ds by simp
  with r show "forward s (snd (record_completed_span sp s))"
    by (cases rule: record_span_cases [OF r]) (auto simp: forward_def)
qed

lemma fw_set_frames [forward_ops]: "fw.moves (set_frames k fs)"
  unfolding set_frames_def by (intro fw_all) (simp add: forward_def)

lemma fw_finalize [forward_ops]: "fw.moves (finalize_top k e q x b)"
  unfolding finalize_top_def Let_def by (intro fw_all forward_ops)

lemma fw_close_frames [forward_ops]:
  "fw.moves (unclosed_function k e src r)" "fw.moves (close_unclosed_frames k e src r)"
  unfolding close_unclosed_frames_def unclosed_function_def Let_def
  by (intro fw_all forward_ops)+

lemma fw_note_depth [forward_ops]: "fw.moves (note_depth ctx fs)"
  unfolding note_depth_def by (intro fw_all) (simp add: forward_def)

lemma fw_function_enter [forward_ops]: "fw.moves (function_enter o' t c ctx f fr)"
  unfolding function_enter_def Let_def by (intro fw_all forward_ops)

lemma fw_function_exit [forward_ops]: "fw.moves (function_exit o' t c ctx f fr)"
  unfolding function_exit_def exit_matched_def unwind_frames_def unmatched_function_exit_def Let_def
  by (intro fw_all forward_ops)

lemma fw_context_switch [forward_ops]: "fw.moves (context_switch o' t c prev next' reason)"
  unfolding context_switch_def report_switch_mismatch_def
  by (intro fw_all forward_ops)

lemma fw_push_interrupt [forward_ops]: "fw.moves (push_interrupt c i)"
  unfolding push_interrupt_def
  by (intro fw_all) (auto intro!: forward_set_core simp: core_entry_Some)

lemma fw_next_serial [forward_ops]: "fw.moves next_serial"
  unfolding next_serial_def by (intro fw_all) (simp add: forward_def)

lemma fw_interrupt_enter [forward_ops]: "fw.moves (interrupt_enter o' t c irq act)"
  unfolding interrupt_enter_def Let_def
  by (intro fw_all forward_ops) (simp add: forward_def)

lemma fw_retire [forward_ops]: "fw.moves (retire_interrupt_context k)"
  unfolding retire_interrupt_context_def take_public_id_def credit_retired_def
  by (intro fw_all) (simp_all add: forward_def)

lemma fw_truncate [forward_ops]: "fw.moves (truncate_interrupts c n)"
  unfolding truncate_interrupts_def
  by (intro fw_all) (auto simp: forward_def cores_forward_def)

lemma fw_interrupt_exit [forward_ops]: "fw.moves (interrupt_exit o' t c irq act)"
  unfolding interrupt_exit_def leave_interrupts_def interrupt_fact_def
  by (intro fw_all forward_ops)

lemma fw_custom [forward_ops]:
  "fw.moves (custom_span_begin o' t c ctx i n)" "fw.moves (custom_span_end o' t c ctx i)"
  "fw.moves (async_span_begin o' t i n)" "fw.moves (async_span_end o' t i)"
proof -
  have limit: "fw.moves (record_open_custom_span_limit o' t k i)" for k
    unfolding record_open_custom_span_limit_def by (intro fw_all forward_ops)
  have insert_forward:
    "forward a (a\<lparr>an_open_custom_spans := bt_insert k v (an_open_custom_spans a)\<rparr>)"
    "forward a (a\<lparr>an_open_async_spans := bt_insert k' v (an_open_async_spans a)\<rparr>)"
    if "open_custom_span_count a < open_span_limit a" for a k k' v
    using contract_insert [OF _ that] by (simp_all add: forward_def)
  show "fw.moves (custom_span_begin o' t c ctx i n)" "fw.moves (async_span_begin o' t i n)"
    unfolding custom_span_begin_def async_span_begin_def Let_def
    by (intro fw_guarded; auto split: option.splits intro: fwD [OF limit] fwD [OF fw_push_fact]
        insert_forward simp: modify_def not_le)+
  show "fw.moves (custom_span_end o' t c ctx i)" "fw.moves (async_span_end o' t i)"
    unfolding custom_span_end_def async_span_end_def Let_def
    by (intro fw_all forward_ops; simp add: forward_def contract_custom length_remove_le)+
qed

lemma fw_extend [forward_ops]: "fw.moves (extend_core e c)" "fw.moves (extend_progress s e)"
proof -
  have "forward a (set_core c (co\<lparr>co_last_ts :=
      Some (max (case co_last_ts co of None \<Rightarrow> e | Some t \<Rightarrow> t) e)\<rparr>) b)"
    if "bt_get (an_cores a) c = Some co" "b = a" for a b co
    using that by (auto intro!: forward_set_core split: option.splits)
  then show "fw.moves (extend_core e c)"
    by (auto simp: fw.moves_def extend_core_def se_defs split: option.splits)
  show "fw.moves (extend_progress s e)"
    unfolding extend_progress_def
    by (intro fw_all) (auto simp: forward_def sources_forward_def)
qed

lemma fw_trace_gap [forward_ops]: "fw.moves (trace_gap o' s d reason)"
  unfolding trace_gap_def gap_end_def report_gap_def Let_def
  by (intro fw_all forward_ops)

lemma fw_metadata [forward_ops]: "fw.moves (metadata_health o' t k v)"
  unfolding metadata_health_def by (intro fw_all forward_ops)

lemma fw_add_sample [forward_ops]: "fw.moves (add_sample f ad ctx w q o')"
  unfolding add_sample_def accumulate_sample_def set_sample_def Let_def
  by (intro fw_all forward_ops) (simp_all add: forward_def)

lemma fw_resource_once [forward_ops]: "fw.moves (push_resource_fact_once code sub o' ev)"
  unfolding push_resource_fact_once_def
  by (intro fw_all forward_ops) (simp_all add: forward_def)

lemma fw_fragmentation [forward_ops]: "fw.moves (update_fragmentation enc sem sub p cid o')"
  unfolding update_fragmentation_def Let_def
  by (intro fw_all forward_ops) (simp_all add: forward_def)

lemma fw_usage [forward_ops]: "fw.moves (update_usage_invariants enc sem sub p cid o')"
  unfolding update_usage_invariants_def report_usage_violation_def Let_def
  by (intro fw_all forward_ops) (simp_all add: forward_def)

lemma fw_add_counter [forward_ops]: "fw.moves (add_counter enc cid v q o')"
  unfolding add_counter_def report_counter_change_def update_tracked_def set_counter_def Let_def
  by (intro fw_all forward_ops) (simp_all add: forward_def)

lemma fw_check_order [forward_ops]: "fw.moves (check_source_order o')"
proof -
  have "forward a (a\<lparr>an_source_progress := bt_insert (obs_source_id o')
      (advance_progress o' (bt_get (an_source_progress a) (obs_source_id o'))) (an_source_progress a)\<rparr>)" for a
    by (auto simp: forward_def sources_forward_def advance_progress_def)
  then show ?thesis
    unfolding check_source_order_def check_sequence_def check_timestamp_def
    by (intro fw_all forward_ops)
qed

lemma fw_dispatch [forward_ops]: "fw.moves (dispatch enc o' e)"
  by (cases e) (simp_all, (intro fw_all forward_ops)+)

lemma fw_count [forward_ops]: "fw.moves count_observation"
proof -
  have "forward a (a\<lparr>an_observation_count := n\<rparr>)"
    if "checked_add (an_observation_count a) 1 = Some n" for a n
    using that by (simp add: forward_def checked_add_Some word_le_nat_alt)
  then show ?thesis
    by (auto simp: fw.moves_def count_observation_def count_up_def ok_or_def se_defs split: option.splits)
qed

lemma fw_ingest [forward_ops]: "fw.moves (ingest enc o')"
  unfolding ingest_def
  by (auto split: sum.splits intro!: fw_all forward_ops)

lemma fw_ingest_all: "fw.moves (ingest_all enc os)"
  unfolding ingest_all_def by (intro fw_all forward_ops)

text \<open>C19: Ingesting any observations, valid or not and failing or not, in any order, keeps the
  session and its configuration, never forgets a core, and never moves back the time of a core, the
  latest timestamp, the sequence or the time of a source, or the observation count.\<close>
theorem ingest_moves_forward: "forward a (snd (ingest_all enc os a))"
  using fw_ingest_all by (simp add: fw.moves_def)

end
