(* ===== verification/Analyzer_Safety.thy ===== *)
theory Analyzer_Safety
  imports Analyzer_Progress
begin

text \<open>
  An observation never makes the analyzer panic: every \<open>expect\<close>, index, \<open>unreachable!\<close> and
  loop bound holds when every context has a public name. The one exception is the counter of dropped diagnostics,
  which can only overflow after 2^64 - 1 of them.
\<close>

text \<open>\<open>sound P m Q\<close>: a panic can only be the overflow of the counter of dropped diagnostics.\<close>

definition overflowed :: "analysis_error fail \<Rightarrow> analyzer \<Rightarrow> bool" where
  "overflowed f a \<longleftrightarrow> f = Panic \<longrightarrow> an_dropped_count a = - 1"

abbreviation sound :: "(analyzer \<Rightarrow> bool) \<Rightarrow> 'a an \<Rightarrow> ('a \<Rightarrow> analyzer \<Rightarrow> bool) \<Rightarrow> bool" where
  "sound P m Q \<equiv> safe P m Q overflowed"

lemma overflowed_Err [simp]: "overflowed (Err e) a"
  by (simp add: overflowed_def)

text \<open>Every execution context has a public name, so that retiring one finds it.\<close>

definition named :: "analyzer \<Rightarrow> bool" where
  "named a \<longleftrightarrow> (\<forall>k. bt_get (an_contexts a) k \<noteq> None \<longrightarrow> bt_get (an_context_public_ids a) k \<noteq> None)"

definition has_core :: "u32 \<Rightarrow> analyzer \<Rightarrow> bool" where
  "has_core c a \<longleftrightarrow> bt_get (an_cores a) c \<noteq> None"

lemma forward_has_core: "forward a b \<Longrightarrow> has_core c a \<Longrightarrow> has_core c b"
proof -
  assume "forward a b"
  then have "cores_forward (an_cores a) (an_cores b)" by (simp add: forward_def)
  then show "has_core c a \<Longrightarrow> has_core c b" by (auto simp: cores_forward_def has_core_def)
qed

lemma safe_carry:
  assumes "safe P m Q E" and "fw.moves m" and "\<And>s t. F s \<Longrightarrow> forward s t \<Longrightarrow> F t"
  shows "safe (\<lambda>s. P s \<and> F s) m (\<lambda>a s. Q a s \<and> F s) E"
  unfolding safe_def
proof (intro allI impI)
  fix s
  assume s: "P s \<and> F s"
  obtain r t where m: "m s = (r, t)" by fastforce
  with assms(2) have "forward s t" unfolding fw.moves_def by (metis snd_conv)
  with s m assms(1,3) show "case m s of (Inr a, s') \<Rightarrow> Q a s' \<and> F s' | (Inl f, s') \<Rightarrow> E f s'"
    unfolding safe_def by (auto split: sum.splits dest!: spec [where x = s])
qed

lemma safe_case_option:
  "(x = None \<Longrightarrow> safe P n Q E) \<Longrightarrow> (\<And>a. x = Some a \<Longrightarrow> safe P (f a) Q E)
    \<Longrightarrow> safe P (case x of None \<Rightarrow> n | Some a \<Rightarrow> f a) Q E"
  by (cases x) auto

subsection \<open>Facts and marks\<close>

lemma sound_store:
  assumes "\<And>s h t d. P s \<Longrightarrow> P (s\<lparr>an_health_observations := h, an_health_diagnostics_truncated := t,
      an_dropped_count := d\<rparr>)"
  shows "sound P (store_health_observation x) (\<lambda>_. P)"
  unfolding store_health_observation_def Let_def
proof (rule safe_with_state)
  fix a
  assume P: "P a"
  let ?u = "\<lambda>h t d. a\<lparr>an_health_observations := h, an_health_diagnostics_truncated := t, an_dropped_count := d\<rparr>"
  have eq: "a\<lparr>an_health_observations := h\<rparr> = ?u h (an_health_diagnostics_truncated a) (an_dropped_count a)"
    "a\<lparr>an_dropped_count := d, an_health_observations := h\<rparr> = ?u h (an_health_diagnostics_truncated a) d"
    "a\<lparr>an_health_diagnostics_truncated := t, an_dropped_count := d, an_health_observations := h\<rparr> = ?u h t d"
    for h t d by simp_all
  have upd: "P (a\<lparr>an_health_observations := h\<rparr>)"
    "P (a\<lparr>an_dropped_count := d, an_health_observations := h\<rparr>)"
    "P (a\<lparr>an_health_diagnostics_truncated := t, an_dropped_count := d, an_health_observations := h\<rparr>)" for h t d
    by (rule ssubst [where P = P, OF eq(1)], rule assms [OF P])
      (rule ssubst [where P = P, OF eq(2)], rule assms [OF P],
       rule ssubst [where P = P, OF eq(3)], rule assms [OF P])
  show "sound (\<lambda>t. t = a)
     (if \<not> an_health_diagnostics_truncated a \<and> length (an_health_observations a) < health_limit a
      then modify (\<lambda>a. a\<lparr>an_health_observations := an_health_observations a @ [canonical_fact x]\<rparr>)
      else if \<not> an_health_diagnostics_truncated a
      then modify (\<lambda>a. a\<lparr>an_health_diagnostics_truncated := True, an_dropped_count := 2,
          an_health_observations :=
            (if length (an_health_observations a) = health_limit a then butlast (an_health_observations a)
             else an_health_observations a) @ [sentinel (health_limit a) (canonical_fact x)]\<rparr>)
      else andthen (lift (expect (checked_add (an_dropped_count a) 1)))
        (\<lambda>n. modify (\<lambda>a. a\<lparr>an_dropped_count := n,
          an_health_observations :=
            update_first (\<lambda>h. ho_code h = ''diagnostics_truncated'') (count_dropped n)
              (an_health_observations a)\<rparr>)))
     (\<lambda>_. P)"
  proof (intro safe_if safe_modify safe_andthen [where R = "\<lambda>_ t. t = a"] safe_lift)
    fix s :: analyzer and f :: "analysis_error fail"
    assume "s = a" and "expect (checked_add (an_dropped_count a) 1) = Inl f"
    then have "unat (an_dropped_count a) + 1 \<ge> 2 ^ 64"
      by (auto simp: expect_def checked_add_None split: option.splits)
    then have "an_dropped_count a = - 1"
      using unat_u64_less [of "an_dropped_count a"]
      by (intro iffD2 [OF word_unat_eq_iff [of "an_dropped_count a" "- 1"]]) (simp add: unsigned_minus_1_eq_mask mask_eq_exp_minus_1)
    then show "overflowed f s" using \<open>s = a\<close> by (simp add: overflowed_def)
  qed (use upd in auto)
qed

lemma sound_push:
  assumes "\<And>s h t d. P s \<Longrightarrow> P (s\<lparr>an_health_observations := h, an_health_diagnostics_truncated := t,
      an_dropped_count := d\<rparr>)"
  shows "sound P (push_fact code source r s e ev) (\<lambda>_. P)"
  unfolding push_fact_def by (rule sound_store, rule assms)

text \<open>The marks change frames in place.\<close>

lemma frames_of_map: "bt_get (an_contexts b) k = map_option g (bt_get (an_contexts a) k)
    \<Longrightarrow> (\<And>cx. length (cx_frames (g cx)) = length (cx_frames cx)) \<Longrightarrow> length (frames_of b k) = length (frames_of a k)"
  by (auto simp: frames_of_def split: option.splits)

lemma mark_frames_length [simp]: "length (cx_frames (mark_frames cx)) = length (cx_frames cx)"
  by (simp add: mark_frames_def)

definition same_shape :: "analyzer \<Rightarrow> analyzer \<Rightarrow> bool" where
  "same_shape a b \<longleftrightarrow>
     an_cores b = an_cores a \<and> (named a \<longrightarrow> named b)
     \<and> (\<forall>k. (bt_get (an_contexts b) k = None \<longrightarrow> bt_get (an_contexts a) k = None)
           \<and> length (frames_of b k) = length (frames_of a k))"

interpretation shape: progress same_shape
  by unfold_locales (auto simp: same_shape_def)

lemma shape_update: "(\<And>cx. length (cx_frames (g cx)) = length (cx_frames cx))
    \<Longrightarrow> same_shape a (a\<lparr>an_contexts := bt_update k g (an_contexts a)\<rparr>)"
  by (auto simp: same_shape_def frames_of_def named_def split: option.splits)

lemma shape_marks:
  "shape.moves (mark_context_incomplete k)" "shape.moves (taint_context k)" "shape.moves mark_all_incomplete"
proof -
  show "shape.moves (mark_context_incomplete k)" "shape.moves (taint_context k)"
    unfolding mark_context_incomplete_def taint_context_def
    by (auto intro!: shape.moves_modify shape_update)
  show "shape.moves mark_all_incomplete"
    unfolding mark_all_incomplete_def
    by (rule shape.moves_modify) (auto simp: same_shape_def frames_of_def named_def split: option.splits)
qed

lemma shape_store: "shape.moves (store_health_observation h)"
  unfolding store_health_observation_def Let_def
  by (auto intro!: shape.moves_rules simp: same_shape_def frames_of_def named_def)

lemma shape_push: "shape.moves (push_fact code source r s e ev)"
  unfolding push_fact_def by (rule shape_store)

lemma shape_neutral: "(\<And>a. an_cores (f a) = an_cores a \<and> an_context_public_ids (f a) = an_context_public_ids a
    \<and> an_contexts (f a) = an_contexts a) \<Longrightarrow> shape.moves (modify f)"
  by (rule shape.moves_modify) (simp add: same_shape_def frames_of_def named_def)

lemmas shape_ops = shape_marks shape_push

definition stable :: "(analyzer \<Rightarrow> bool) \<Rightarrow> bool" where
  "stable P \<longleftrightarrow> (\<forall>s t. same_shape s t \<longrightarrow> P s \<longrightarrow> P t)"

lemma stableD: "stable P \<Longrightarrow> same_shape s t \<Longrightarrow> P s \<Longrightarrow> P t"
  by (auto simp: stable_def)

lemma stable_facts [simp]: "stable named" "stable (has_core c)" "stable (\<lambda>s. length (frames_of s k) = n)"
  "stable (\<lambda>s. n < length (frames_of s k))" "stable (\<lambda>s. bt_get (an_contexts s) k \<noteq> None)"
  "stable (\<lambda>_. True)"
  unfolding stable_def same_shape_def has_core_def
  by (simp, simp, simp, simp, metis, simp)

lemma stable_conj [simp]: "stable P \<Longrightarrow> stable Q \<Longrightarrow> stable (\<lambda>s. P s \<and> Q s)"
  by (auto simp: stable_def)

lemma stable_const [simp]: "stable (\<lambda>_. b)"
  by (simp add: stable_def)

named_theorems sound_ops \<open>operations that keep every stable fact\<close>

lemma sound_modify: "(\<And>s. same_shape s (f s)) \<Longrightarrow> stable P \<Longrightarrow> sound P (modify f) (\<lambda>_. P)"
  by (rule safe_modify) (blast dest: stableD)

lemma sound_push_stable [sound_ops]: "stable P \<Longrightarrow> sound P (push_fact code source r s e ev) (\<lambda>_. P)"
  by (rule sound_push) (auto simp: same_shape_def frames_of_def named_def elim!: stableD)

lemma sound_marks [sound_ops]:
  "stable P \<Longrightarrow> sound P (mark_context_incomplete k) (\<lambda>_. P)"
  "stable P \<Longrightarrow> sound P (taint_context k) (\<lambda>_. P)"
  "stable P \<Longrightarrow> sound P mark_all_incomplete (\<lambda>_. P)"
  unfolding mark_context_incomplete_def taint_context_def mark_all_incomplete_def
  by (auto intro!: sound_modify shape_update)
    (auto simp: same_shape_def frames_of_def named_def split: option.splits)

lemma sound_followed: "sound P m (\<lambda>_. P) \<Longrightarrow> sound P n Q \<Longrightarrow> sound P (followed m n) Q"
  by (rule safe_followed)

lemma sound_False: "sound (\<lambda>_. False) m Q"
  by (simp add: safe_def)

lemma sound_when: "sound P m (\<lambda>_. P) \<Longrightarrow> sound P (when_se b m) (\<lambda>_. P)"
  by (rule safe_when)

lemma sound_ret: "sound P (ret a) (\<lambda>_. P)"
  by (rule safe_ret)

lemma sound_for_each: "(\<And>x. x \<in> set xs \<Longrightarrow> sound P (f x) (\<lambda>_. P)) \<Longrightarrow> sound P (for_each f xs) (\<lambda>_. P)"
  by (rule safe_for_each)

lemmas sound_rules = sound_followed sound_when sound_ret sound_for_each safe_case_option

subsection \<open>Cores\<close>

lemma concurrent_ok:
  assumes "has_core c a"
  shows "\<exists>x. concurrent_scheduled_cores a k c s e = Inr x \<and> (\<forall>p\<in>set x. s \<le> snd p)"
proof -
  from assms obtain core where "bt_get (an_cores a) c = Some core" by (auto simp: has_core_def)
  then show ?thesis
    by (auto simp: concurrent_scheduled_cores_def Let_def overlap_with_def le_max_iff_disj split: if_splits)
qed

lemma scheduled_has_core: "co_scheduled_context (core_entry a c) = Some k \<Longrightarrow> has_core c a"
  by (auto simp: core_entry_def core_default_def has_core_def split: option.splits)

lemma last_has_core: "co_last_ts (core_entry a c) = Some t \<Longrightarrow> has_core c a"
  by (auto simp: core_entry_def core_default_def has_core_def split: option.splits)

lemma fold_min_mem: "fold min ys (y :: 'a::linorder) \<in> insert y (set ys)"
proof (induction ys arbitrary: y)
  case (Cons a ys)
  from Cons [of "min a y"] show ?case by (auto simp: min_def split: if_splits)
qed simp

lemma min_option_mem: "min_option xs = Some m \<Longrightarrow> m \<in> set xs"
proof (cases xs)
  case (Cons y ys)
  then show "min_option xs = Some m \<Longrightarrow> m \<in> set xs"
    using fold_min_mem [of ys y] by (auto simp: min_option_def)
qed (simp add: min_option_def)

lemma credited_ok:
  assumes "has_core c a" and "s \<le> e"
  shows "\<exists>d. credited_duration a k c s e = Inr d"
proof (cases k)
  case (Scheduled ctx)
  obtain x where x: "concurrent_scheduled_cores a k c s e = Inr x" "\<forall>p\<in>set x. s \<le> snd p"
    using concurrent_ok [OF assms(1)] by blast
  let ?m = "min_option (map snd (filter (\<lambda>p. fst p < c) x))"
  have "s \<le> (case ?m of None \<Rightarrow> e | Some t \<Rightarrow> t)"
    using assms(2) x(2) min_option_mem [of "map snd (filter (\<lambda>p. fst p < c) x)"]
    by (auto split: option.splits)
  then obtain d where "duration_between s (case ?m of None \<Rightarrow> e | Some t \<Rightarrow> t) = Some d"
    using duration_between_le by blast
  with x show ?thesis
    by (simp add: credited_duration_def credited_scheduled_duration_def Scheduled)
next
  case (InterruptActivationKey _ _ _)
  with duration_between_le [OF assms(2)] show ?thesis by (auto simp: credited_duration_def)
qed

lemma sound_report_conflicts [sound_ops]:
  "stable P \<Longrightarrow> sound P (report_conflicts c k ctx cs e o') (\<lambda>_. P)"
  unfolding report_conflicts_def
  by (intro sound_rules sound_ops safe_with_state_inv)
    (auto split: prod.splits intro!: sound_rules sound_ops sound_modify simp: same_shape_def frames_of_def named_def)

lemma sound_detect [sound_ops]:
  assumes "stable P"
  shows "sound P (detect_concurrent_scheduling c s e o') (\<lambda>_. P)"
  unfolding detect_concurrent_scheduling_def
proof (rule safe_with_state)
  fix a
  assume "P a"
  have "sound P (andthen (lift (concurrent_scheduled_cores a k c s e))
      (\<lambda>cs. if cs = [] then ret () else report_conflicts c k ctx cs e o')) (\<lambda>_. P)"
    if "co_scheduled_context (core_entry a c) = Some k" for k ctx
  proof -
    from concurrent_ok [OF scheduled_has_core [OF that]] obtain x
      where "concurrent_scheduled_cores a k c s e = Inr x" by blast
    then show ?thesis
      using assms by (auto intro!: safe_andthen [where R = "\<lambda>_. P"] safe_lift sound_ret sound_ops)
  qed
  then show "sound (\<lambda>t. t = a) (case co_scheduled_context (core_entry a c) of None \<Rightarrow> ret ()
      | Some k \<Rightarrow> (case scheduled_id k of None \<Rightarrow> ret ()
          | Some ctx \<Rightarrow> andthen (lift (concurrent_scheduled_cores a k c s e))
              (\<lambda>conflicts. if conflicts = [] then ret () else report_conflicts c k ctx conflicts e o')))
      (\<lambda>_. P)"
    using \<open>P a\<close> by (intro safe_at [of P]) (auto intro!: safe_case_option sound_ret)
qed

lemma shape_ensure: "same_shape a (a\<lparr>an_contexts := bt_or_insert k context_default (an_contexts a),
    an_context_public_ids := bt_or_insert k p (an_context_public_ids a)\<rparr>)"
  by (auto simp: same_shape_def frames_of_def named_def bt_or_insert_def context_default_def split: option.splits)

lemma sound_ensure [sound_ops]: "stable P \<Longrightarrow> sound P (ensure_execution_context k p) (\<lambda>_. P)"
  unfolding ensure_execution_context_def by (rule sound_modify [OF shape_ensure])

lemma sound_ensure_has: "stable P \<Longrightarrow>
    sound P (ensure_execution_context k p) (\<lambda>_ s. P s \<and> bt_get (an_contexts s) k \<noteq> None)"
  unfolding ensure_execution_context_def
proof (rule safe_modify, rule conjI)
  fix s
  assume "stable P" and "P s"
  then show "P (s\<lparr>an_contexts := bt_or_insert k context_default (an_contexts s),
      an_context_public_ids := bt_or_insert k p (an_context_public_ids s)\<rparr>)"
    by (rule stableD [OF _ shape_ensure])
qed (auto simp: bt_or_insert_def split: option.splits)

lemma sound_set_virtual [sound_ops]: "stable P \<Longrightarrow> sound P (set_virtual k v) (\<lambda>_. P)"
  unfolding set_virtual_def by (rule sound_modify [OF shape_update]) simp

lemma sound_add_virtual:
  "stable P \<Longrightarrow> sound (\<lambda>s. P s \<and> bt_get (an_contexts s) k \<noteq> None) (add_virtual k ctx d s e) (\<lambda>_. P)"
  unfolding add_virtual_def
  by (rule safe_andthen [where R = "\<lambda>x s. P s \<and> x \<noteq> None"], rule safe_query)
    (auto split: option.splits intro!: sound_rules sound_ops sound_False)

lemma sound_credit:
  assumes "stable P" and "\<And>s. P s \<Longrightarrow> has_core c s" and "s \<le> e"
  shows "sound P (credit_execution_interval k ctx c s e) (\<lambda>_. P)"
  unfolding credit_execution_interval_def
proof (rule safe_followed [OF sound_ensure_has [OF assms(1)]], rule safe_with_state)
  fix a
  assume a: "P a \<and> bt_get (an_contexts a) k \<noteq> None"
  with credited_ok [OF assms(2,3)] obtain d where "credited_duration a k c s e = Inr d" by blast
  then show "sound (\<lambda>t. t = a) (andthen (lift (credited_duration a k c s e)) (\<lambda>d. add_virtual k ctx d s e)) (\<lambda>_. P)"
    using a by (intro safe_andthen [where R = "\<lambda>_ t. P t \<and> bt_get (an_contexts t) k \<noteq> None"]
        sound_add_virtual [OF assms(1)] safe_lift) auto
qed

lemma sound_advance_forward:
  assumes "stable P" and "\<And>s. P s \<Longrightarrow> has_core c s" and "l \<le> t"
  shows "sound P (advance_forward c l t r o') (\<lambda>_. P)"
  unfolding advance_forward_def
  by (intro sound_rules sound_ops assms)
    (auto split: option.splits prod.splits intro!: sound_ops sound_credit assms)

lemma sound_effective_time:
  assumes "stable P"
  shows "sound (\<lambda>s. P s \<and> core_entry s c = core) (effective_time c t o' core) (\<lambda>_. P)"
proof (cases "co_last_ts core")
  case None
  then show ?thesis by (auto simp: effective_time_def intro: safe_ret)
next
  case (Some l)
  have *: "sound (\<lambda>s. P s \<and> has_core c s) (effective_time c t o' core) (\<lambda>_ s. P s \<and> has_core c s)"
  proof (cases "t < l")
    case True
    with Some assms show ?thesis
      by (auto simp: effective_time_def split: option.splits intro!: sound_rules sound_ops)
  next
    case False
    then have le: "l \<le> t" by simp
    then obtain d where "duration_between l t = Some d" using duration_between_le by blast
    with Some False le assms show ?thesis
      by (auto simp: effective_time_def intro!: safe_andthen [where R = "\<lambda>_ s. P s \<and> has_core c s"]
          safe_lift sound_rules sound_advance_forward)
  qed
  show ?thesis
    by (rule safe_weaken [OF *]) (use Some last_has_core in auto)
qed

lemma has_core_set [simp]: "has_core c (set_core c co a)"
  by (simp add: has_core_def set_core_def)

text \<open>Facts about contexts alone survive changes of the cores.\<close>

definition coreless :: "(analyzer \<Rightarrow> bool) \<Rightarrow> bool" where
  "coreless P \<longleftrightarrow> (\<forall>s c m. P s \<longrightarrow> P (s\<lparr>an_cores := c, an_max_ts := m\<rparr>))"

lemma sound_advance:
  assumes "stable P" and "coreless P"
  shows "sound P (advance_core c t o') (\<lambda>_ s. P s \<and> has_core c s)"
  unfolding safe_def
proof (intro allI impI)
  fix s
  assume P: "P s"
  obtain r s' where r: "advance_core c t o' s = (r, s')" by fastforce
  note eff = sound_effective_time [OF assms(1), of c "core_entry s c" t o']
  from r have "case r of Inr a \<Rightarrow> P s' \<and> has_core c s' | Inl f \<Rightarrow> overflowed f s'"
  proof (cases rule: advance_core_cases)
    case (failed e)
    with safeD(2) [OF eff] P show ?thesis by simp
  next
    case (advanced q s1)
    with safeD(1) [OF eff] P have "P s1" by simp
    then have "P (s1\<lparr>an_cores := m, an_max_ts := t\<rparr>)" for m t
      using assms(2) by (simp add: coreless_def)
    with advanced show ?thesis
      by (simp add: observe_timestamp_def modify_def commit_time_def set_core_def has_core_def)
  qed
  with r show "case advance_core c t o' s of (Inr a, s') \<Rightarrow> P s' \<and> has_core c s' | (Inl f, s') \<Rightarrow> overflowed f s'"
    by (simp split: sum.splits)
qed

lemma coreless_set_core: "coreless P \<Longrightarrow> P a \<Longrightarrow> P (set_core c co a)"
proof -
  assume "coreless P" "P a"
  then have "P (a\<lparr>an_cores := bt_insert c co (an_cores a), an_max_ts := an_max_ts a\<rparr>)"
    unfolding coreless_def by blast
  then show ?thesis by (simp add: set_core_def)
qed

lemma coreless_facts [simp]: "coreless named" "coreless (\<lambda>s. length (frames_of s k) = n)"
  "coreless (\<lambda>s. n < length (frames_of s k))" "coreless (\<lambda>_. True)"
  by (simp_all add: coreless_def named_def frames_of_def)

lemma coreless_conj [simp]: "coreless P \<Longrightarrow> coreless Q \<Longrightarrow> coreless (\<lambda>s. P s \<and> Q s)"
  by (simp add: coreless_def)

lemma sound_observe:
  assumes "coreless P"
  shows "sound P (observe_timestamp t) (\<lambda>_. P)"
  unfolding observe_timestamp_def
proof (rule safe_modify)
  fix a :: analyzer
  let ?m = "Some (case an_max_ts a of None \<Rightarrow> t | Some c \<Rightarrow> max c t)"
  assume "P a"
  with assms have "P (a\<lparr>an_cores := an_cores a, an_max_ts := ?m\<rparr>)" unfolding coreless_def by blast
  then show "P (a\<lparr>an_max_ts := ?m\<rparr>)" by simp
qed

lemma sound_advance_optional:
  assumes "stable P" and "coreless P"
  shows "sound P (advance_optional_core c t o') (\<lambda>_. P)"
proof (cases c)
  case None
  with assms show ?thesis
    by (simp add: advance_optional_core_def sound_followed sound_observe sound_ret)
next
  case (Some c)
  then show ?thesis
    by (auto simp: advance_optional_core_def intro: safe_weaken [OF sound_advance [OF assms]])
qed

subsection \<open>Contexts of events\<close>

lemma sound_schedule: "coreless P \<Longrightarrow> sound P (schedule_context c k t) (\<lambda>_. P)"
  unfolding schedule_context_def
  by (rule safe_modify) (auto simp: Let_def coreless_set_core)

lemma sound_kind [sound_ops]: "stable P \<Longrightarrow> sound P (kind_or_insert ctx k) (\<lambda>_. P)"
  unfolding kind_or_insert_def by (rule sound_modify) (simp_all add: same_shape_def frames_of_def named_def)

lemma sound_adopt:
  assumes "stable P" and "coreless P"
  shows "sound (\<lambda>s. P s \<and> has_core c s) (adopt_context c ctx o') (\<lambda>_. P)"
  unfolding adopt_context_def
  by (rule safe_andthen [where R = "\<lambda>x s. P s \<and> x \<noteq> None"], rule safe_query)
    (auto simp: has_core_def split: option.splits
      intro!: sound_False sound_rules sound_ops sound_schedule assms)

lemma sound_context_mismatch [sound_ops]: "stable P \<Longrightarrow> sound P (context_mismatch c k p k' p' o') (\<lambda>_. P)"
  unfolding context_mismatch_def by (intro sound_rules sound_ops)

lemma running_not_nested:
  "running_on a c = Some (k, p, False) \<Longrightarrow> bt_get (an_cores a) c = Some co \<Longrightarrow> co_interrupts co = []"
  by (auto simp: running_on_def split: option.splits)

lemma sound_ensure_context:
  assumes "stable P" and "coreless P"
  shows "sound (\<lambda>s. P s \<and> has_core c s) (ensure_function_context c ctx o') (\<lambda>_. P)"
  unfolding ensure_function_context_def
proof (rule safe_with_state)
  fix a
  assume a: "P a \<and> has_core c a"
  have st: "stable (\<lambda>s. P s \<and> has_core c s)" using assms by simp
  have at: "stable (\<lambda>s. P s \<and> has_core c s \<and> an_cores s = an_cores a)"
    using assms(1) by (auto simp: stable_def same_shape_def has_core_def)
  have adopt: "sound (\<lambda>s. P s \<and> has_core c s) (followed (ensure_execution_context k ctx) (adopt_context c ctx o')) (\<lambda>_. P)"
    for k by (rule safe_followed [OF sound_ensure [OF st] sound_adopt [OF assms]])
  have switch: "sound (\<lambda>s. P s \<and> has_core c s \<and> an_cores s = an_cores a)
      (followed (ensure_execution_context k ctx)
        (andthen (query (\<lambda>a. bt_get (an_cores a) c)) (\<lambda>core. case core of None \<Rightarrow> panic
          | Some core \<Rightarrow> if co_interrupts core = [] then adopt_context c ctx o' else panic))) (\<lambda>_. P)"
    if "running_on a c = Some (k', p, False)" for k k' p
  proof (rule safe_followed [OF sound_ensure [OF at]],
      rule safe_andthen [where R = "\<lambda>x s. P s \<and> has_core c s \<and> (\<exists>co. x = Some co \<and> co_interrupts co = [])"],
      rule safe_query)
    fix s
    assume "P s \<and> has_core c s \<and> an_cores s = an_cores a"
    then show "P s \<and> has_core c s \<and> (\<exists>co. bt_get (an_cores s) c = Some co \<and> co_interrupts co = [])"
      using running_not_nested [OF that] by (auto simp: has_core_def)
  next
    fix x
    show "sound (\<lambda>s. P s \<and> has_core c s \<and> (\<exists>co. x = Some co \<and> co_interrupts co = []))
      (case x of None \<Rightarrow> panic | Some core \<Rightarrow> if co_interrupts core = [] then adopt_context c ctx o' else panic) (\<lambda>_. P)"
      by (auto split: option.splits intro!: sound_False sound_adopt [OF assms])
  qed
  have other: "sound (\<lambda>s. P s \<and> has_core c s)
      (followed (ensure_execution_context k ctx) (followed (context_mismatch c k' p k ctx o') (ret (k, False)))) (\<lambda>_. P)"
    for k k' p
    by (rule safe_weaken [where P = P and Q = "\<lambda>_. P" and E = overflowed]) (auto intro!: sound_rules sound_ops assms)
  have same: "sound (\<lambda>s. P s \<and> has_core c s) (followed (ensure_execution_context k ctx) (ret (k, True))) (\<lambda>_. P)"
    for k
    by (rule safe_weaken [where P = P and Q = "\<lambda>_. P" and E = overflowed]) (auto intro!: sound_rules sound_ops assms)
  note parts = adopt [THEN safe_at [rotated]] switch [THEN safe_at [rotated]] other [THEN safe_at [rotated]]
    same [THEN safe_at [rotated]]
  show "sound (\<lambda>t. t = a)
     (case running_on a c of None \<Rightarrow> followed (ensure_execution_context (Scheduled ctx) ctx) (adopt_context c ctx o')
      | Some (running_key, running_public, nested) \<Rightarrow>
          if running_public = ctx then followed (ensure_execution_context running_key ctx) (ret (running_key, True))
          else if \<not> nested \<and> se_support (cap_context_switches (cfg_capabilities (an_config a))) = Unavailable
          then followed (ensure_execution_context (Scheduled ctx) ctx)
            (andthen (query (\<lambda>a. bt_get (an_cores a) c)) (\<lambda>core. case core of None \<Rightarrow> panic
              | Some core \<Rightarrow> if co_interrupts core = [] then adopt_context c ctx o' else panic))
          else let event_key = event_execution_context a c ctx
            in followed (ensure_execution_context event_key ctx)
              (followed (context_mismatch c running_key running_public event_key ctx o') (ret (event_key, False))))
     (\<lambda>_. P)"
    unfolding Let_def using a
    by (cases "running_on a c") (auto intro!: parts split: prod.splits if_splits)
qed

subsection \<open>Closing frames\<close>

lemma validate_span_Panic [simp]: "validate_span sp \<noteq> Inl Panic"
  by (auto simp: validate_span_def validate_sequence_range_def rthen_Panic rbind_Panic split: option.splits)

lemma count_up_Panic [simp]: "count_up f s n d \<noteq> Inl Panic"
  by (simp add: count_up_def)

lemma add_span_Panic [simp]: "add_span h sp \<noteq> Inl Panic"
  by (simp add: add_span_def rbind_Panic)

lemma sound_lift:
  "r \<noteq> Inl Panic \<Longrightarrow> (\<And>a. r = Inr a \<Longrightarrow> sound P (f a) Q) \<Longrightarrow> sound P (andthen (lift r) f) Q"
  by (cases r) (auto simp: safe_def se_defs overflowed_def)

lemma sound_record [sound_ops]: "stable P \<Longrightarrow> sound P (record_completed_span sp) (\<lambda>_. P)"
  unfolding record_completed_span_def
  by (intro safe_with_state_inv sound_lift sound_modify)
    (auto simp: map_err_Panic rbind_Panic same_shape_def frames_of_def named_def)

definition depths :: "analyzer \<Rightarrow> exec_key \<Rightarrow> nat" where
  "depths a k = length (frames_of a k)"

definition named_depths :: "(exec_key \<Rightarrow> nat) \<Rightarrow> analyzer \<Rightarrow> bool" where
  "named_depths g a \<longleftrightarrow> named a \<and> depths a = g"

lemma named_depths_stable [simp]: "stable (named_depths g)"
  by (auto simp: stable_def named_depths_def same_shape_def depths_def fun_eq_iff)

lemma named_depths_coreless [simp]: "coreless (named_depths g)"
  by (simp add: coreless_def named_depths_def named_def depths_def frames_of_def fun_eq_iff)

lemma sound_set_frames:
  "sound (\<lambda>s. named_depths g s \<and> bt_get (an_contexts s) k \<noteq> None) (set_frames k fs)
     (\<lambda>_ s. named_depths (g(k := length fs)) s \<and> bt_get (an_contexts s) k \<noteq> None)"
  unfolding set_frames_def
  by (rule safe_modify)
    (auto simp: named_depths_def named_def depths_def frames_of_def fun_eq_iff split: option.splits)

lemma sound_finalize:
  "sound (\<lambda>s. named_depths g s \<and> 0 < g k) (finalize_top k e sq xq b) (\<lambda>_. named_depths (g(k := g k - 1)))"
proof -
  have body: "sound (\<lambda>s. named_depths g s \<and> bt_get (an_contexts s) k \<noteq> None)
      (followed (set_frames k rest)
        (followed (if rest = [] then ret () else andthen (lift (charge_parent sp (last rest)))
           (\<lambda>p. set_frames k (butlast rest @ [p])))
          (record_completed_span sp))) (\<lambda>_. named_depths (g(k := g k - 1)))"
    if "length rest = g k - 1" for rest sp
  proof (rule safe_followed [OF sound_set_frames], rule safe_followed)
    let ?R = "\<lambda>s. named_depths (g(k := g k - 1)) s \<and> bt_get (an_contexts s) k \<noteq> None"
    show "sound (\<lambda>s. named_depths (g(k := length rest)) s \<and> bt_get (an_contexts s) k \<noteq> None)
        (if rest = [] then ret () else andthen (lift (charge_parent sp (last rest)))
           (\<lambda>p. set_frames k (butlast rest @ [p]))) (\<lambda>_. ?R)"
    proof (cases "rest = []")
      case False
      have "charge_parent sp (last rest) \<noteq> Inl Panic"
        by (simp add: charge_parent_def rbind_Panic Let_def)
      moreover have "length (butlast rest @ [p]) = g k - 1" for p
        using False that by (cases rest rule: rev_cases) simp_all
      then have "sound (\<lambda>s. named_depths (g(k := length rest)) s \<and> bt_get (an_contexts s) k \<noteq> None)
          (set_frames k (butlast rest @ [p])) (\<lambda>_. ?R)" for p
        using sound_set_frames [of "g(k := length rest)" k "butlast rest @ [p]"] by (simp only: fun_upd_upd)
      ultimately show ?thesis
        using False by (simp only: if_False) (rule sound_lift)
    qed (use that in \<open>auto intro: safe_ret\<close>)
    show "sound ?R (record_completed_span sp) (\<lambda>_. named_depths (g(k := g k - 1)))"
      by (rule safe_weaken [OF sound_record]) auto
  qed
  show ?thesis
    unfolding finalize_top_def
  proof (rule safe_andthen [where R = "\<lambda>x s. named_depths g s \<and> bt_get (an_contexts s) k \<noteq> None
        \<and> (\<exists>cx. x = Some cx \<and> length (cx_frames cx) = g k \<and> 0 < g k)"], rule safe_query)
    fix s
    assume "named_depths g s \<and> 0 < g k"
    then show "named_depths g s \<and> bt_get (an_contexts s) k \<noteq> None
        \<and> (\<exists>cx. bt_get (an_contexts s) k = Some cx \<and> length (cx_frames cx) = g k \<and> 0 < g k)"
      by (auto simp: named_depths_def depths_def frames_of_def split: option.splits)
  next
    fix x
    let ?P = "\<lambda>s. named_depths g s \<and> bt_get (an_contexts s) k \<noteq> None
        \<and> (\<exists>cx. x = Some cx \<and> length (cx_frames cx) = g k \<and> 0 < g k)"
    let ?m = "case x of None \<Rightarrow> panic | Some cx \<Rightarrow> if cx_frames cx = [] then panic else
        let rest = butlast (cx_frames cx);
            sp = closed_span (cx_virtual_cpu_ns cx) (last (cx_frames cx)) e sq xq b
        in followed (set_frames k rest)
            (followed (if rest = [] then ret () else andthen (lift (charge_parent sp (last rest)))
               (\<lambda>p. set_frames k (butlast rest @ [p])))
              (record_completed_span sp))"
    show "sound ?P ?m (\<lambda>_. named_depths (g(k := g k - 1)))"
    proof (cases "\<exists>cx. x = Some cx \<and> length (cx_frames cx) = g k \<and> 0 < g k")
      case True
      then obtain cx where cx: "x = Some cx" "length (cx_frames cx) = g k" "0 < g k" by blast
      then have "cx_frames cx \<noteq> []" and "length (butlast (cx_frames cx)) = g k - 1" by auto
      with cx(1) show ?thesis
        by (simp only: option.case if_False Let_def) (rule safe_weaken [OF body], auto)
    next
      case False
      then show ?thesis by (simp only: simp_thms) (rule sound_False)
    qed
  qed
qed

lemma sound_finalize_pos:
  "0 < g k \<Longrightarrow> sound (named_depths g) (finalize_top k e sq xq b) (\<lambda>_. named_depths (g(k := g k - 1)))"
  by (rule safe_weaken [OF sound_finalize [of g k]]) auto

lemma sound_some_depths: "(\<And>g. sound (\<lambda>s. named_depths g s \<and> P s) m Q) \<Longrightarrow> sound (\<lambda>s. named s \<and> P s) m Q"
  by (force simp: safe_def named_depths_def)

lemma named_depths_named: "named_depths g s \<Longrightarrow> named s"
  by (simp add: named_depths_def)

lemma depths_at: "named_depths g s \<Longrightarrow> length (frames_of s k) = g k"
  by (auto simp: named_depths_def depths_def)

lemma sound_unclosed:
  "sound (\<lambda>s. named_depths g s \<and> 0 < g k) (unclosed_function k e src r) (\<lambda>_. named_depths (g(k := g k - 1)))"
  unfolding unclosed_function_def Let_def
proof (rule safe_with_state)
  fix a
  assume a: "named_depths g a \<and> 0 < g k"
  then have "frames_of a k \<noteq> []" using depths_at [of g a k] by auto
  moreover have "stable (\<lambda>s. named_depths g s \<and> 0 < g k)" by simp
  ultimately show "sound (\<lambda>t. t = a)
     (if frames_of a k = [] then panic
      else followed (push_fact ''unclosed_function'' src r (Some e) (Some e)
          (props [(''context_id'', JStr (of_public_context_id (last (frames_of a k)))),
                  (''function_id'', JStr (of_function_id (last (frames_of a k))))]))
        (finalize_top k e r QInferred True))
     (\<lambda>_. named_depths (g(k := g k - 1)))"
    using a by (intro safe_at [where P = "\<lambda>s. named_depths g s \<and> 0 < g k"])
      (auto intro!: safe_followed [OF sound_push_stable] sound_finalize_pos [simplified])
qed

lemma sound_pop_loop:
  assumes pop: "\<And>g. sound (\<lambda>s. named_depths g s \<and> 0 < g k) m (\<lambda>_. named_depths (g(k := g k - 1)))"
    and C: "\<And>s. C s \<longleftrightarrow> j < length (frames_of s k)"
  shows "sound (\<lambda>s. named_depths g s \<and> j \<le> g k)
    (with_state (\<lambda>a. while_se (Suc (length (frames_of a k))) C m)) (\<lambda>_. named_depths (g(k := j)))"
proof (rule safe_with_state)
  fix a
  assume a: "named_depths g a \<and> j \<le> g k"
  let ?I = "\<lambda>s. named_depths (g(k := depths s k)) s \<and> j \<le> depths s k"
  have body: "sound (\<lambda>s. ?I s \<and> C s \<and> depths s k = n) m (\<lambda>_ s. ?I s \<and> depths s k < n)" for n
  proof (cases "j < n")
    case True
    then show ?thesis
      by (intro safe_weaken [OF pop [of "g(k := n)"]]) (auto simp: named_depths_def)
  next
    case False
    then have "(\<lambda>s. ?I s \<and> C s \<and> depths s k = n) = (\<lambda>_. False)"
      by (auto simp: C depths_def fun_eq_iff)
    then show ?thesis by (simp only: sound_False)
  qed
  show "sound (\<lambda>t. t = a) (while_se (Suc (length (frames_of a k))) C m) (\<lambda>_. named_depths (g(k := j)))"
  proof (rule safe_weaken [OF safe_while [OF body]])
    fix s
    assume "s = a"
    moreover have "depths a = g" using a by (simp add: named_depths_def)
    ultimately show "?I s \<and> depths s k < Suc (length (frames_of a k))"
      using a by (simp add: depths_def [symmetric])
  next
    fix s
    assume s: "?I s \<and> \<not> C s"
    then have "depths s k = j" by (auto simp: C depths_def)
    with s show "named_depths (g(k := j)) s" by simp
  qed
qed

lemma sound_close_frames:
  "sound (named_depths g) (close_unclosed_frames k e src r) (\<lambda>_. named_depths (g(k := 0)))"
  unfolding close_unclosed_frames_def
  by (rule safe_weaken [OF sound_pop_loop [where j = 0 and g = g and k = k, OF sound_unclosed]]) simp_all

lemma sound_unwind:
  "sound (\<lambda>s. named_depths g s \<and> i < g k) (unwind_frames k i e o') (\<lambda>_. named_depths (g(k := i + 1)))"
  unfolding unwind_frames_def
  by (rule safe_weaken [OF sound_pop_loop [where j = "i + 1" and g = g and k = k, OF sound_finalize]]) auto

lemma sound_exit_matched:
  assumes "i < length fs"
  shows "sound (\<lambda>s. named_depths g s \<and> g k = length fs) (exit_matched k fs i e ctx f o') (\<lambda>_. named)"
  unfolding exit_matched_def Let_def
proof (intro safe_followed)
  show "sound (\<lambda>s. named_depths g s \<and> g k = length fs)
     (when_se b (followed (push_fact code src r st en ev) (mark_context_incomplete k)))
     (\<lambda>_ s. named_depths g s \<and> i < g k)" for b code src r st en ev
    by (rule safe_weaken [where P = "\<lambda>s. named_depths g s \<and> g k = length fs"
        and Q = "\<lambda>_ s. named_depths g s \<and> g k = length fs" and E = overflowed])
      (use assms in \<open>auto intro!: sound_rules sound_ops\<close>)
  show "sound (\<lambda>s. named_depths g s \<and> i < g k) (unwind_frames k i e o') (\<lambda>_. named_depths (g(k := i + 1)))"
    by (rule sound_unwind)
  show "sound (named_depths (g(k := i + 1))) (finalize_top k e sq xq b) (\<lambda>_. named)" for sq xq b
    by (rule safe_weaken [OF sound_finalize [of "g(k := i + 1)" k]]) (auto intro: named_depths_named)
qed

subsection \<open>Function entry and exit\<close>

lemma sound_note_depth [sound_ops]: "stable P \<Longrightarrow> sound P (note_depth ctx fs) (\<lambda>_. P)"
  unfolding note_depth_def
  by (intro sound_lift sound_modify) (auto simp: same_shape_def frames_of_def named_def)

lemma stable_named_core [simp]: "stable (\<lambda>s. named s \<and> has_core c s)"
  by simp

lemma sound_enter: "sound named (function_enter o' t c ctx f fr) (\<lambda>_. named)"
  unfolding function_enter_def
proof (rule safe_andthen [OF sound_advance], simp, simp, rule safe_andthen [OF sound_ensure_context], simp, simp)
  fix eff km
  show "sound named (case km of (k, m) \<Rightarrow> followed (ensure_execution_context k ctx)
      (andthen (query (\<lambda>a. bt_get (an_contexts a) k)) (\<lambda>cx. case cx of None \<Rightarrow> panic
        | Some cx \<Rightarrow> let fs = cx_frames cx @ [open_frame_of o' c ctx f fr eff m cx]
            in followed (set_frames k fs) (note_depth ctx fs)))) (\<lambda>_. named)"
  proof (cases km)
    case (Pair k m)
    have set: "sound (\<lambda>s. named s \<and> bt_get (an_contexts s) k \<noteq> None)
        (followed (set_frames k fs) (note_depth ctx fs)) (\<lambda>_. named)" for fs
      by (rule safe_followed [where R = named])
        (auto intro!: sound_some_depths sound_ops intro: safe_weaken [OF sound_set_frames] named_depths_named)
    show ?thesis
      unfolding Pair prod.case
      by (rule safe_followed [OF sound_ensure_has], simp,
          rule safe_andthen [where R = "\<lambda>x s. (named s \<and> bt_get (an_contexts s) k \<noteq> None) \<and> x \<noteq> None"], rule safe_query)
        (auto simp: Let_def split: option.splits intro!: sound_False set [simplified])
  qed
qed

lemma sound_named_and: "sound named m Q \<Longrightarrow> sound (\<lambda>s. named s \<and> P s) m Q"
  by (simp add: safe_def)

lemma sound_exit: "sound named (function_exit o' t c ctx f fr) (\<lambda>_. named)"
  unfolding function_exit_def
proof (rule safe_andthen [OF sound_advance], simp, simp, rule safe_andthen [OF sound_ensure_context], simp, simp)
  fix eff km
  have matched: "sound (\<lambda>s. named s \<and> Some cx = bt_get (an_contexts s) k)
      (exit_matched k (cx_frames cx) i e ctx f o') (\<lambda>_. named)" if "i < length (cx_frames cx)" for k cx i e
    by (rule sound_some_depths, rule safe_weaken [OF sound_exit_matched [OF that]])
      (auto simp: depths_at [symmetric] frames_of_def split: option.splits)
  have unmatched: "sound P (unmatched_function_exit o' e ctx f) (\<lambda>_. P)" if "stable P" for P e
    unfolding unmatched_function_exit_def by (rule sound_push_stable [OF that])
  have parts: "sound (\<lambda>s. named s \<and> x = bt_get (an_contexts s) k)
      (case x of None \<Rightarrow> unmatched_function_exit o' eff ctx f
       | Some cx \<Rightarrow> (case rposition (\<lambda>fr'. frame_matches fr' f fr) (cx_frames cx) of
           None \<Rightarrow> followed (unmatched_function_exit o' eff ctx f) (mark_context_incomplete k)
         | Some i \<Rightarrow> exit_matched k (cx_frames cx) i eff ctx f o')) (\<lambda>_. named)" for x k
  proof (intro safe_case_option)
    fix cx i
    assume "x = Some cx" and "rposition (\<lambda>fr'. frame_matches fr' f fr) (cx_frames cx) = Some i"
    then show "sound (\<lambda>s. named s \<and> x = bt_get (an_contexts s) k) (exit_matched k (cx_frames cx) i eff ctx f o') (\<lambda>_. named)"
      using matched rposition_Some by blast
  qed (rule sound_named_and, intro sound_rules sound_ops unmatched, simp_all)+
  show "sound named (case km of (k, m) \<Rightarrow> followed (when_se (\<not> m) (mark_context_incomplete k))
      (andthen (query (\<lambda>a. bt_get (an_contexts a) k)) (\<lambda>cx. case cx of None \<Rightarrow> unmatched_function_exit o' eff ctx f
        | Some cx \<Rightarrow> (case rposition (\<lambda>fr'. frame_matches fr' f fr) (cx_frames cx) of
            None \<Rightarrow> followed (unmatched_function_exit o' eff ctx f) (mark_context_incomplete k)
          | Some i \<Rightarrow> exit_matched k (cx_frames cx) i eff ctx f o')))) (\<lambda>_. named)"
  proof (cases km)
    case (Pair k m)
    show ?thesis
      unfolding Pair prod.case
    proof (rule sound_followed)
      show "sound named (when_se (\<not> m) (mark_context_incomplete k)) (\<lambda>_. named)"
        by (intro sound_rules sound_ops) simp
    qed (rule safe_andthen [OF _ parts], rule safe_query, simp)
  qed
qed

subsection \<open>Switches and interrupts\<close>

lemma sound_context_switch: "sound named (context_switch o' t c prev next' reason) (\<lambda>_. named)"
  unfolding context_switch_def report_switch_mismatch_def
  by (rule safe_andthen [where R = "\<lambda>_. named"], rule safe_weaken [OF sound_advance [where P = named]])
    (auto intro!: safe_andthen [where R = "\<lambda>_. named"] safe_query sound_rules sound_ops sound_schedule
      split: option.splits)

lemma sound_push_interrupt: "coreless P \<Longrightarrow> sound P (push_interrupt c i) (\<lambda>_. P)"
  unfolding push_interrupt_def by (rule safe_modify) (simp add: coreless_set_core)

lemma sound_next_serial: "stable P \<Longrightarrow> sound P next_serial (\<lambda>_. P)"
  unfolding next_serial_def
  by (intro safe_with_state_inv sound_lift sound_rules sound_modify)
    (auto simp: same_shape_def frames_of_def named_def)

lemma sound_interrupt_enter: "sound named (interrupt_enter o' t c irq act) (\<lambda>_. named)"
proof -
  have kinds: "sound named (modify (\<lambda>a. a\<lparr>an_context_kinds := bt_insert irq CkIsr (an_context_kinds a)\<rparr>)) (\<lambda>_. named)"
    by (rule sound_modify) (simp_all add: same_shape_def frames_of_def named_def)
  show ?thesis
    unfolding interrupt_enter_def
    by (rule safe_andthen [where R = "\<lambda>_. named"], rule safe_weaken [OF sound_advance [where P = named]])
      (auto intro!: safe_andthen [where R = "\<lambda>_. named"] safe_query sound_rules sound_ops
        sound_push_interrupt sound_next_serial kinds simp: Let_def)
qed

text \<open>The contexts of the interrupts that are left have no frames when they are retired.\<close>

definition closed :: "exec_key set \<Rightarrow> analyzer \<Rightarrow> bool" where
  "closed K a \<longleftrightarrow> named a \<and> (\<forall>k\<in>K. frames_of a k = [])"

lemma closed_stable [simp]: "stable (closed K)"
  by (auto simp: stable_def closed_def same_shape_def) (metis length_0_conv)

lemma closed_coreless [simp]: "coreless (closed K)"
  by (simp add: coreless_def closed_def named_def frames_of_def)

lemma sound_close_one: "sound (closed K) (close_unclosed_frames k e src r) (\<lambda>_. closed (insert k K))"
proof -
  have "sound (\<lambda>s. named_depths g s \<and> closed K s) (close_unclosed_frames k e src r) (\<lambda>_. closed (insert k K))" for g
  proof (cases "\<forall>j\<in>K. g j = 0")
    case True
    show ?thesis
      by (rule safe_weaken [OF sound_close_frames [of g k]])
        (use True in \<open>auto simp: closed_def named_depths_def depths_def fun_eq_iff split: if_splits\<close>)
  next
    case False
    then have "(\<lambda>s. named_depths g s \<and> closed K s) = (\<lambda>_. False)"
      by (auto simp: closed_def named_depths_def depths_def fun_eq_iff) (metis length_0_conv neq0_conv)
    then show ?thesis by (simp only: sound_False)
  qed
  then have "sound (\<lambda>s. named s \<and> closed K s) (close_unclosed_frames k e src r) (\<lambda>_. closed (insert k K))"
    by (rule sound_some_depths)
  then show ?thesis by (rule safe_weaken) (auto simp: closed_def)
qed

lemma sound_close_each:
  "sound (closed K) (for_each (\<lambda>x. close_unclosed_frames (h x) e src r) xs) (\<lambda>_. closed (K \<union> h ` set xs))"
proof (induction xs arbitrary: K)
  case Nil
  show ?case by (simp add: safe_ret)
next
  case (Cons x xs)
  show ?case
    by (simp, rule safe_followed [OF sound_close_one]) (use Cons [of "insert (h x) K"] in simp)
qed

lemma sound_truncate: "coreless P \<Longrightarrow> sound P (truncate_interrupts c n) (\<lambda>_. P)"
  unfolding truncate_interrupts_def
proof (rule safe_modify)
  fix s :: analyzer
  let ?m = "bt_update c (\<lambda>co. co\<lparr>co_interrupts := take n (co_interrupts co)\<rparr>) (an_cores s)"
  assume "coreless P" "P s"
  then have "P (s\<lparr>an_cores := ?m, an_max_ts := an_max_ts s\<rparr>)" unfolding coreless_def by blast
  then show "P (s\<lparr>an_cores := ?m\<rparr>)" by simp
qed

lemma closed_remove: "closed K a \<Longrightarrow> closed K (a\<lparr>an_contexts := bt_remove k (an_contexts a)\<rparr>)"
  by (auto simp: closed_def named_def frames_of_def)

lemma closed_forget:
  "closed K a \<Longrightarrow> bt_get (an_contexts a) k = None \<Longrightarrow>
    closed K (a\<lparr>an_context_public_ids := bt_remove k (an_context_public_ids a)\<rparr>)"
  by (auto simp: closed_def named_def frames_of_def)

lemma closed_retired [simp]: "closed K (a\<lparr>an_retired_context_cpu := m\<rparr>) = closed K a"
  by (simp add: closed_def named_def frames_of_def)

lemma sound_credit_retired: "sound (closed K) (credit_retired p cpu) (\<lambda>_. closed K)"
  unfolding credit_retired_def
proof (rule safe_followed)
  let ?R = "\<lambda>s. closed K s \<and> bt_get (an_retired_context_cpu s) p \<noteq> None"
  show "sound (closed K) (modify (\<lambda>a. a\<lparr>an_retired_context_cpu := bt_or_insert p 0 (an_retired_context_cpu a)\<rparr>)) (\<lambda>_. ?R)"
    by (rule safe_modify) (auto simp: bt_or_insert_def split: option.splits)
  show "sound ?R (with_state (\<lambda>a. andthen (lift (rbind (expect (bt_get (an_retired_context_cpu a) p))
      (\<lambda>t. count_up ''context_cpu_ns'' p t cpu)))
      (\<lambda>n. modify (\<lambda>a. a\<lparr>an_retired_context_cpu := bt_insert p n (an_retired_context_cpu a)\<rparr>)))) (\<lambda>_. closed K)"
  proof (rule safe_with_state, rule safe_at)
    fix s
    assume s: "?R s"
    then show "?R s" .
    from s show "sound ?R (andthen (lift (rbind (expect (bt_get (an_retired_context_cpu s) p))
      (\<lambda>t. count_up ''context_cpu_ns'' p t cpu)))
      (\<lambda>n. modify (\<lambda>a. a\<lparr>an_retired_context_cpu := bt_insert p n (an_retired_context_cpu a)\<rparr>))) (\<lambda>_. closed K)"
      by (intro sound_lift safe_modify) auto
  qed
qed

lemma sound_take_public:
  "sound (\<lambda>s. closed K s \<and> bt_get (an_contexts s) k = None \<and> bt_get (an_context_public_ids s) k \<noteq> None)
    (take_public_id k) (\<lambda>_. closed K)"
  unfolding take_public_id_def
proof (rule safe_andthen, rule safe_query)
  fix s
  assume "closed K s \<and> bt_get (an_contexts s) k = None \<and> bt_get (an_context_public_ids s) k \<noteq> None"
  then show "closed K s \<and> bt_get (an_contexts s) k = None \<and> bt_get (an_context_public_ids s) k \<noteq> None" .
next
  fix x
  show "sound (\<lambda>s. closed K s \<and> bt_get (an_contexts s) k = None \<and> x \<noteq> None)
      (case x of None \<Rightarrow> panic
       | Some p \<Rightarrow> followed (modify (\<lambda>a. a\<lparr>an_context_public_ids := bt_remove k (an_context_public_ids a)\<rparr>)) (ret p))
      (\<lambda>_. closed K)"
    by (cases x) (auto intro!: sound_False safe_followed [where R = "closed K"] safe_modify safe_ret closed_forget)
qed

lemma sound_retire:
  assumes "k \<in> K"
  shows "sound (closed K) (retire_interrupt_context k) (\<lambda>_. closed K)"
  unfolding retire_interrupt_context_def
proof (rule safe_andthen [where R = "\<lambda>x s. closed K s \<and> bt_get (an_contexts s) k = x"], rule safe_query, simp,
    rule safe_case_option)
  fix x :: "context_state option"
  show "sound (\<lambda>s. closed K s \<and> bt_get (an_contexts s) k = x) (ret ()) (\<lambda>_. closed K)"
    by (rule safe_ret) simp
next
  fix x :: "context_state option" and cx
  let ?R = "\<lambda>s. closed K s \<and> bt_get (an_contexts s) k = None \<and> bt_get (an_context_public_ids s) k \<noteq> None"
  assume x: "x = Some cx"
  show "sound (\<lambda>s. closed K s \<and> bt_get (an_contexts s) k = x)
      (followed (modify (\<lambda>a. a\<lparr>an_contexts := bt_remove k (an_contexts a)\<rparr>))
        (followed (if cx_frames cx = [] then ret () else panic)
          (andthen (take_public_id k) (\<lambda>p. credit_retired p (cx_virtual_cpu_ns cx))))) (\<lambda>_. closed K)"
  proof (cases "cx_frames cx = []")
    case True
    show ?thesis
    proof (rule safe_followed [where R = ?R])
      show "sound (\<lambda>s. closed K s \<and> bt_get (an_contexts s) k = x)
          (modify (\<lambda>a. a\<lparr>an_contexts := bt_remove k (an_contexts a)\<rparr>)) (\<lambda>_. ?R)"
      proof (rule safe_modify)
        fix s
        assume s: "closed K s \<and> bt_get (an_contexts s) k = x"
        with x have "bt_get (an_contexts s) k \<noteq> None" by simp
        with s have "bt_get (an_context_public_ids s) k \<noteq> None" unfolding closed_def named_def by blast
        with s closed_remove show "?R (s\<lparr>an_contexts := bt_remove k (an_contexts s)\<rparr>)" by simp
      qed
      show "sound ?R (followed (if cx_frames cx = [] then ret () else panic)
          (andthen (take_public_id k) (\<lambda>p. credit_retired p (cx_virtual_cpu_ns cx)))) (\<lambda>_. closed K)"
        using True by (auto intro!: safe_followed [where R = ?R] safe_ret
            safe_andthen [OF sound_take_public] sound_credit_retired simp del: not_None_eq)
    qed
  next
    case False
    with assms x have "(\<lambda>s. closed K s \<and> bt_get (an_contexts s) k = x) = (\<lambda>_. False)"
      by (auto simp: closed_def frames_of_def fun_eq_iff split: option.splits)
    then show ?thesis by (simp only: sound_False)
  qed
qed

lemma sound_leave: "sound named (leave_interrupts o' e c irq act stack i) (\<lambda>_. named)"
proof -
  let ?h = "ia_execution_context"
  have start: "sound named m (\<lambda>_. closed {})" if "sound named m (\<lambda>_. named)" for m :: "unit an"
    by (rule safe_weaken [OF that]) (simp_all add: closed_def)
  have close: "sound (closed {}) (for_each (\<lambda>x. close_unclosed_frames (?h x) e src r) xs)
      (\<lambda>_. closed (?h ` set xs))" for src r xs
    using sound_close_each [of "{}" ?h e src r xs] by simp
  have retire: "sound (closed (?h ` set xs)) (for_each (\<lambda>x. retire_interrupt_context (?h x)) xs) (\<lambda>_. named)" for xs
    by (rule safe_weaken [OF sound_for_each [where P = "closed (?h ` set xs)"]])
      (auto intro: sound_retire simp: closed_def)
  have tail: "sound (closed {}) (followed (for_each (\<lambda>x. close_unclosed_frames (?h x) e src r) xs)
      (followed (truncate_interrupts c i) (for_each (\<lambda>x. retire_interrupt_context (?h x)) xs))) (\<lambda>_. named)"
    for src r xs
    by (rule safe_followed [OF close], rule safe_followed [OF sound_truncate retire]) simp
  show ?thesis
    unfolding leave_interrupts_def interrupt_fact_def
    by (rule safe_followed [OF start tail], intro sound_rules sound_ops) simp_all
qed

lemma sound_interrupt_exit: "sound named (interrupt_exit o' t c irq act) (\<lambda>_. named)"
  unfolding interrupt_exit_def interrupt_fact_def
  by (rule safe_andthen [where R = "\<lambda>_. named"], rule safe_weaken [OF sound_advance [where P = named]])
    (auto intro!: safe_andthen [where R = "\<lambda>_. named"] safe_query sound_rules sound_ops sound_leave)

subsection \<open>Spans, gaps, samples and counters\<close>

lemma sound_neutral: "stable P \<Longrightarrow> (\<And>a. an_cores (f a) = an_cores a \<and> an_contexts (f a) = an_contexts a
    \<and> an_context_public_ids (f a) = an_context_public_ids a) \<Longrightarrow> sound P (modify f) (\<lambda>_. P)"
  by (rule sound_modify) (simp_all add: same_shape_def frames_of_def named_def)

lemma sound_custom [sound_ops]:
  assumes "stable P"
  shows "sound P (custom_span_begin o' t c ctx i n) (\<lambda>_. P)" "sound P (custom_span_end o' t c ctx i) (\<lambda>_. P)"
    "sound P (async_span_begin o' t i n) (\<lambda>_. P)" "sound P (async_span_end o' t i) (\<lambda>_. P)"
  unfolding custom_span_begin_def custom_span_end_def async_span_begin_def async_span_end_def
    record_open_custom_span_limit_def Let_def
  by (intro safe_with_state_inv safe_case_option safe_if sound_rules sound_ops assms sound_neutral; simp)+

lemma sound_extend_progress [sound_ops]: "stable P \<Longrightarrow> sound P (extend_progress s e) (\<lambda>_. P)"
  unfolding extend_progress_def by (rule sound_neutral) simp_all

definition cores_known :: "u32 list \<Rightarrow> analyzer \<Rightarrow> bool" where
  "cores_known cs a \<longleftrightarrow> (\<forall>c\<in>set cs. has_core c a)"

lemma forward_cores_known: "cores_known cs s \<Longrightarrow> forward s t \<Longrightarrow> cores_known cs t"
  by (auto simp: cores_known_def intro: forward_has_core)

lemma sound_extend_core:
  assumes "c \<in> set cs"
  shows "sound (\<lambda>s. named s \<and> cores_known cs s) (extend_core e c) (\<lambda>_ s. named s \<and> cores_known cs s)"
proof -
  have "sound (\<lambda>s. named s \<and> cores_known cs s) (extend_core e c) (\<lambda>_. named)"
    unfolding extend_core_def
  proof (rule safe_with_state)
    fix a
    assume a: "named a \<and> cores_known cs a"
    with assms obtain co where "bt_get (an_cores a) c = Some co"
      by (auto simp: cores_known_def has_core_def)
    with a show "sound (\<lambda>t. t = a) (case bt_get (an_cores a) c of None \<Rightarrow> panic
        | Some co \<Rightarrow> modify (set_core c (co\<lparr>co_last_ts :=
            Some (max (case co_last_ts co of None \<Rightarrow> e | Some t \<Rightarrow> t) e)\<rparr>))) (\<lambda>_. named)"
      by (auto intro!: safe_modify coreless_set_core [where P = named])
  qed
  from safe_carry [OF this fw_extend(1) forward_cores_known] show ?thesis
    by (rule safe_weaken) simp_all
qed

lemma sound_gap_end [sound_ops]: "stable P \<Longrightarrow> sound P (gap_end o' s d) (\<lambda>_. P)"
  unfolding gap_end_def by (intro safe_case_option sound_rules sound_ops)

lemma sound_report_gap [sound_ops]: "stable P \<Longrightarrow> sound P (report_gap o' s e d r) (\<lambda>_. P)"
  unfolding report_gap_def Let_def by (intro safe_case_option sound_rules sound_ops)

lemma sound_trace_gap: "sound named (trace_gap o' s d reason) (\<lambda>_. named)"
  unfolding trace_gap_def
proof (rule safe_andthen [where R = "\<lambda>cs s. named s \<and> cores_known cs s"], rule safe_query)
  fix a
  assume "named a"
  then show "named a \<and> cores_known (bt_keys (an_cores a)) a"
    by (simp add: cores_known_def has_core_def bt.keys_get del: not_None_eq)
next
  fix cs
  let ?P = "\<lambda>s. named s \<and> cores_known cs s"
  have known: "sound ?P m (\<lambda>_. ?P)" if "sound named m (\<lambda>_. named)" "fw.moves m" for m :: "'a an"
    using safe_carry [OF that forward_cores_known] by (rule safe_weaken) simp_all
  have core: "sound named (followed (advance_core c s o') (ret ())) (\<lambda>_. named)" for c
    by (rule safe_followed [where R = named], rule safe_weaken [OF sound_advance [where P = named]])
      (auto intro: safe_ret)
  have steps: "sound ?P (followed (advance_core c s o') (ret ())) (\<lambda>_. ?P)" "sound ?P mark_all_incomplete (\<lambda>_. ?P)"
    "sound ?P (gap_end o' s d) (\<lambda>_. ?P)" "sound ?P (observe_timestamp e) (\<lambda>_. ?P)" for c e
    by (intro known core fw_rules forward_ops sound_ops sound_observe; simp add: gap_end_def fw_cases fw_rules forward_ops)+
  have ext: "sound ?P (extend_core e x) (\<lambda>_. ?P)" if "x \<in> set cs" for e x
    using that by (rule sound_extend_core)
  have last: "sound ?P (followed (extend_progress src e) (report_gap o' s e d reason)) (\<lambda>_. named)" for src e
    by (rule sound_named_and, intro sound_followed sound_ops) simp_all
  show "sound ?P (followed (for_each (\<lambda>c. followed (advance_core c s o') (ret ())) cs)
      (followed mark_all_incomplete (andthen (gap_end o' s d) (\<lambda>e.
        followed (for_each (extend_core e) cs) (followed (observe_timestamp e)
          (followed (extend_progress (obs_source_id o') e) (report_gap o' s e d reason))))))) (\<lambda>_. named)"
    by (rule sound_followed [OF sound_for_each [OF steps(1)]], rule sound_followed [OF steps(2)],
        rule safe_andthen [OF steps(3)], rule sound_followed [OF sound_for_each [OF ext]], assumption,
        rule sound_followed [OF steps(4) last])
qed

lemma sound_metadata [sound_ops]: "stable P \<Longrightarrow> sound P (metadata_health o' t k v) (\<lambda>_. P)"
  unfolding metadata_health_def by (intro safe_case_option sound_rules sound_ops)

lemma sound_set_sample [sound_ops]: "stable P \<Longrightarrow> sound P (set_sample k x) (\<lambda>_. P)"
  unfolding set_sample_def by (rule sound_neutral) simp_all

lemma sound_add_sample [sound_ops]: "stable P \<Longrightarrow> sound P (add_sample f ad ctx w q o') (\<lambda>_. P)"
  unfolding add_sample_def accumulate_sample_def Let_def
  by (intro safe_if safe_with_state_inv sound_lift sound_rules sound_ops) simp_all

lemma sound_resource_once [sound_ops]: "stable P \<Longrightarrow> sound P (push_resource_fact_once code sub o' ev) (\<lambda>_. P)"
  unfolding push_resource_fact_once_def
  by (intro safe_if safe_with_state_inv sound_rules sound_ops sound_neutral) simp_all

lemma sound_fragmentation [sound_ops]: "stable P \<Longrightarrow> sound P (update_fragmentation enc sem sub p cid o') (\<lambda>_. P)"
  unfolding update_fragmentation_def Let_def
  by (auto split: prod.splits intro!: safe_with_state_inv sound_rules sound_ops sound_neutral)

lemma sound_usage [sound_ops]: "stable P \<Longrightarrow> sound P (update_usage_invariants enc sem sub p cid o') (\<lambda>_. P)"
  unfolding update_usage_invariants_def report_usage_violation_def Let_def
  by (auto split: prod.splits option.splits intro!: safe_with_state_inv sound_rules sound_ops sound_neutral)

lemma sound_set_counter [sound_ops]: "stable P \<Longrightarrow> sound P (set_counter k x) (\<lambda>_. P)"
  unfolding set_counter_def by (rule sound_neutral) simp_all

lemma sound_update_tracked [sound_ops]: "stable P \<Longrightarrow> sound P (update_tracked enc cid p o') (\<lambda>_. P)"
  unfolding update_tracked_def
  by (auto split: option.splits intro!: safe_with_state_inv sound_rules sound_ops)

lemma sound_add_counter [sound_ops]: "stable P \<Longrightarrow> sound P (add_counter enc cid v q o') (\<lambda>_. P)"
  unfolding add_counter_def report_counter_change_def Let_def
  by (intro safe_with_state_inv safe_if safe_case_option sound_rules sound_ops)

lemma sound_check_order: "sound named (check_source_order o') (\<lambda>_. named)"
proof -
  have "sound named (check_sequence o' p) (\<lambda>_. named)" "sound named (check_timestamp o' p) (\<lambda>_. named)" for p
    unfolding check_sequence_def check_timestamp_def by (intro safe_if sound_rules sound_ops; simp)+
  then show ?thesis
    unfolding check_source_order_def
    by (intro safe_andthen [where R = "\<lambda>_. named"] safe_query sound_rules sound_neutral) simp_all
qed

lemma sound_dispatch: "sound named (dispatch enc o' e) (\<lambda>_. named)"
proof -
  have adv: "sound named (followed (advance_core c t o') m) (\<lambda>_. named)" if "sound named m (\<lambda>_. named)" for c t m
    by (rule safe_followed [OF sound_advance], simp, simp, rule sound_named_and, rule that)
  have opt: "sound named (andthen (advance_optional_core c t o') f) (\<lambda>_. named)"
    if "\<And>x. sound named (f x) (\<lambda>_. named)" for c t f
    by (rule safe_andthen [OF sound_advance_optional], simp, simp, rule that)
  show ?thesis
    by (cases e)
      (auto intro!: adv opt sound_enter sound_exit sound_context_switch sound_interrupt_enter
        sound_interrupt_exit sound_trace_gap sound_followed sound_ops sound_observe safe_case_option sound_ret
        sound_advance_optional)
qed

lemma validate_observation_Panic: "validate_observation o' \<noteq> Inl Panic"
proof -
  have req: "require o' x v \<noteq> Inl Panic" "require_optional o' x w \<noteq> Inl Panic" for x v w
    by (simp_all add: require_def require_optional_def split: option.splits)
  have "validate_event o' e \<noteq> Inl Panic" for e
    by (cases e) (simp_all add: rthen_Panic req)
  then show ?thesis by (simp add: validate_observation_def rthen_Panic req)
qed

lemma sound_ingest: "sound named (ingest enc o') (\<lambda>_. named)"
proof (cases "validate_observation o'")
  case (Inr u)
  have "sound named count_observation (\<lambda>_. named)"
    unfolding count_observation_def
    by (intro safe_with_state_inv sound_lift sound_neutral) simp_all
  with Inr show ?thesis
    by (simp add: ingest_def sound_followed sound_check_order sound_dispatch)
next
  case (Inl e)
  with validate_observation_Panic [of o'] obtain e' where "e = Err e'" by (cases e) auto
  with Inl show ?thesis
    by (auto simp: ingest_def map_err_def intro!: sound_rules sound_ops) (simp add: safe_def se_defs)
qed

lemma sound_ingest_all: "sound named (ingest_all enc os) (\<lambda>_. named)"
  unfolding ingest_all_def by (rule sound_for_each) (rule sound_ingest)

lemma named_new: "named (analyzer_new sid cfg)"
  by (simp add: named_def analyzer_new_def)

definition demo_encoding :: subject_encoding where
  "demo_encoding = \<lparr>enc_json = (\<lambda>_. JNull), enc_text = (\<lambda>_. ''subject'')\<rparr>"

definition demo_observation :: "u64 \<Rightarrow> observation_event \<Rightarrow> observation" where
  "demo_observation n e = new_observation ''core'' n QExact e"

definition demo_config :: analyzer_config where
  "demo_config =
     \<lparr>cfg_health_policy_version = ''v1'', cfg_capabilities = exact_program_flow,
      cfg_max_health_observations = 3, cfg_max_open_custom_spans = 2\<rparr>"

end
