(* ===== verification/Analyzer_Results.thy ===== *)
theory Analyzer_Results
  imports Analyzer_Safety
begin

text \<open>
  What the results of an analysis are, for any sequence of calls on the analyzer: bounded
  diagnostics, valid spans, exact hotspot aggregates; and how an analysis can end.
\<close>

subsection \<open>Sequences of calls\<close>

datatype analyzer_call =
    CallRegister observation_dictionary
  | CallFact health_observation
  | CallIngest observation
  | CallDrain

fun call :: "subject_encoding \<Rightarrow> analyzer_call \<Rightarrow> unit an" where
  "call enc (CallRegister d) = register_dictionary d"
| "call enc (CallFact h) = record_health_observation h"
| "call enc (CallIngest o') = ingest enc o'"
| "call enc CallDrain = followed drain_completed_spans (ret ())"

text \<open>The spans that were handed out, and the analyzer. A failed call leaves what it wrote.\<close>

fun exec_call :: "subject_encoding \<Rightarrow> analyzer_call \<Rightarrow> function_span list \<times> analyzer
    \<Rightarrow> function_span list \<times> analyzer" where
  "exec_call enc c (ds, a) =
     (if c = CallDrain
      then (case drain_completed_spans a of
              (Inr sps, b) \<Rightarrow> (ds @ sps, b)
            | (Inl _, b) \<Rightarrow> (ds, b))
      else (ds, snd (call enc c a)))"

definition exec_calls :: "subject_encoding \<Rightarrow> analyzer_call list \<Rightarrow> string \<Rightarrow> analyzer_config
    \<Rightarrow> function_span list \<times> analyzer" where
  "exec_calls enc cs sid cfg = fold (exec_call enc) cs ([], analyzer_new sid cfg)"

lemma fw_register [forward_ops]: "fw.moves (register_dictionary d)"
proof -
  have identity: "fw.moves (register_identity cid sem sub)" for cid sem sub
    unfolding register_identity_def Let_def
    by (cases sem; cases sub) (auto intro!: fw_all simp: forward_def)
  have "fw.moves (register_entry e)" for e
    by (cases e) (auto intro!: fw_all identity simp: forward_def Let_def)
  then show ?thesis
    unfolding register_dictionary_def by (intro fw_all)
qed

lemma fw_call: "c \<noteq> CallDrain \<Longrightarrow> fw.moves (call enc c)"
  by (cases c) (auto simp: record_health_observation_def intro: forward_ops)

lemma exec_call_contract:
  assumes "contract ds a" and "exec_call enc c (ds, a) = (ds', b)"
  shows "contract ds' b"
proof (cases "c = CallDrain")
  case True
  with assms(2) have "drain_completed_spans a = (Inr (an_completed_spans a), b)" "ds' = ds @ an_completed_spans a"
    by (auto simp: drain_completed_spans_def se_defs)
  with contract_drain [OF assms(1)] show ?thesis by simp
next
  case False
  with assms(2) have "ds' = ds" "b = snd (call enc c a)" by simp_all
  with fwD [OF fw_call [OF False]] assms(1) show ?thesis by (simp add: forward_def)
qed

lemma exec_calls_contract:
  assumes "exec_calls enc cs sid cfg = (ds, a)"
  shows "contract ds a"
proof -
  have "contract (fst p) (snd p) \<Longrightarrow> contract (fst (fold (exec_call enc) cs p)) (snd (fold (exec_call enc) cs p))" for p
  proof (induction cs arbitrary: p)
    case (Cons c cs)
    obtain ds a where p: "p = (ds, a)" by fastforce
    obtain ds' b where e: "exec_call enc c (ds, a) = (ds', b)" by fastforce
    with exec_call_contract Cons.prems p have "contract ds' b" by simp
    with Cons.IH [of "(ds', b)"] p e show ?case by simp
  qed simp
  from this [of "([], analyzer_new sid cfg)"] contract_new assms show ?thesis
    by (simp add: exec_calls_def)
qed

lemma exec_calls_config:
  assumes "exec_calls enc cs sid cfg = (ds, a)"
  shows "an_config a = cfg"
proof -
  have drain: "an_config (snd (drain_completed_spans a)) = an_config a" for a
    by (simp add: drain_completed_spans_def se_defs)
  have step: "an_config (snd (exec_call enc c p)) = an_config (snd p)" for c p
    using drain [of "snd p"] fwD [where s = "snd p", OF fw_call [of c enc]]
    by (cases p) (auto simp: forward_def split: prod.splits sum.splits)
  have "an_config (snd (fold (exec_call enc) cs p)) = an_config (snd p)" for p
    by (induction cs arbitrary: p) (simp_all add: step)
  from this [of "([], analyzer_new sid cfg)"] assms show ?thesis
    by (simp add: exec_calls_def analyzer_new_def)
qed

text \<open>C21: Whatever is registered, recorded, ingested and drained, in any order and with any failures
  in between: each hotspot is exactly the aggregate (count, inclusive and self time, minimum,
  maximum, worst quality) of the complete spans of its function, drained or not; a function
  without a complete span has none; and the span counts are the numbers of spans produced.\<close>
theorem hotspots_are_exact:
  "case exec_calls enc cs sid cfg of (ds, a) \<Rightarrow> hotspots_match (ds @ an_completed_spans a) a"
  using exec_calls_contract by (fastforce simp: contract_def split: prod.splits)

text \<open>C22: Memory stays bounded: after any sequence of calls the retained diagnostics and the open
  custom and asynchronous spans together are within their configured limits (at least one).\<close>
theorem state_stays_within_limits:
  "case exec_calls enc cs sid cfg of (ds, a) \<Rightarrow>
     length (an_health_observations a) \<le> max 1 (cfg_max_health_observations cfg)
     \<and> length (an_open_custom_spans a) + length (an_open_async_spans a) \<le> max 1 (cfg_max_open_custom_spans cfg)"
  using exec_calls_contract exec_calls_config
  by (fastforce simp: contract_def within_limits_def health_limit_def open_span_limit_def open_custom_span_count_def
      split: prod.splits)

subsection \<open>Names of the contexts\<close>

text \<open>
  Every context keeps a public name through every operation, whether it succeeds or fails half way.
  With it no call on the analyzer panics after any other calls.
\<close>

named_theorems name_ops \<open>operations that keep the contexts named\<close>

definition keeps_names :: "analyzer \<Rightarrow> analyzer \<Rightarrow> bool" where
  "keeps_names a b \<longleftrightarrow> (named a \<longrightarrow> named b)"

interpretation nm: progress keeps_names
  by unfold_locales (auto simp: keeps_names_def)

lemma nm_if: "(b \<Longrightarrow> nm.moves m) \<Longrightarrow> (\<not> b \<Longrightarrow> nm.moves n) \<Longrightarrow> nm.moves (if b then m else n)"
  by simp

lemma nm_let: "nm.moves (f x) \<Longrightarrow> nm.moves (let y = x in f y)"
  by simp

lemma nm_pair: "(\<And>a b. nm.moves (f a b)) \<Longrightarrow> nm.moves (case x of (a, b) \<Rightarrow> f a b)"
  by (cases x) auto

lemma nm_option: "(\<And>a. nm.moves (f a)) \<Longrightarrow> nm.moves n \<Longrightarrow> nm.moves (case x of None \<Rightarrow> n | Some a \<Rightarrow> f a)"
  by (cases x) auto

text \<open>A change that leaves the keys of the contexts and their names alone.\<close>

lemma nm_modify:
  assumes "\<And>a k. bt_get (an_contexts (f a)) k \<noteq> None \<Longrightarrow> bt_get (an_contexts a) k \<noteq> None"
    and "\<And>a. an_context_public_ids (f a) = an_context_public_ids a"
  shows "nm.moves (modify f)"
  using assms by (intro nm.moves_modify) (simp add: keeps_names_def named_def)

lemmas nm_rules = nm.moves_pure nm.moves_andthen nm.moves_followed nm.moves_with_state nm.moves_when
  nm.moves_for_each nm.moves_while nm_if nm_let nm_pair nm_option nm_modify

lemma same_shape_names: "same_shape a b \<Longrightarrow> keeps_names a b"
  by (simp add: same_shape_def keeps_names_def)

lemma nm_shape: "shape.moves m \<Longrightarrow> nm.moves m"
  by (simp add: shape.moves_def nm.moves_def same_shape_names)

lemma set_core_names [simp]:
  "an_contexts (set_core c co a) = an_contexts a" "an_context_public_ids (set_core c co a) = an_context_public_ids a"
  by (simp_all add: set_core_def)

lemma nm_marks [name_ops]:
  "nm.moves (store_health_observation h)" "nm.moves (push_fact code source r s e ev)"
  "nm.moves (mark_context_incomplete k)" "nm.moves (taint_context k)" "nm.moves mark_all_incomplete"
  by (intro nm_shape shape_store shape_ops)+

lemma nm_ensure [name_ops]: "nm.moves (ensure_execution_context k p)"
  unfolding ensure_execution_context_def
  by (rule nm.moves_modify) (auto simp: keeps_names_def named_def bt_or_insert_def split: option.splits)

subsection \<open>Cores and contexts\<close>

lemma nm_cores [name_ops]:
  "nm.moves (observe_timestamp t)" "nm.moves (schedule_context c k t)" "nm.moves (push_interrupt c i)"
  "nm.moves (truncate_interrupts c n)" "nm.moves (extend_core e c)" "nm.moves (extend_progress s e)"
  unfolding observe_timestamp_def schedule_context_def push_interrupt_def truncate_interrupts_def
    extend_core_def extend_progress_def
  by (intro nm_rules; simp add: Let_def split: if_splits)+

lemma nm_virtual [name_ops]: "nm.moves (set_virtual k v)" "nm.moves (set_frames k fs)"
  unfolding set_virtual_def set_frames_def by (rule nm_modify; simp split: option.splits if_splits)+

lemma nm_detect [name_ops]: "nm.moves (detect_concurrent_scheduling c s e o')"
  unfolding detect_concurrent_scheduling_def report_conflicts_def by (intro nm_rules name_ops; simp)

lemma nm_credit [name_ops]: "nm.moves (credit_execution_interval k ctx c s e)"
  unfolding credit_execution_interval_def add_virtual_def by (intro nm_rules name_ops)

lemma nm_advance [name_ops]: "nm.moves (advance_core c t o')" "nm.moves (advance_optional_core d t o')"
  unfolding advance_optional_core_def advance_core_def effective_time_def advance_forward_def
  by (intro nm_rules name_ops; simp)+

lemma nm_kind [name_ops]: "nm.moves (kind_or_insert ctx k)"
  unfolding kind_or_insert_def by (intro nm_rules) simp_all

lemma nm_ensure_context [name_ops]: "nm.moves (ensure_function_context c ctx o')"
  unfolding ensure_function_context_def adopt_context_def context_mismatch_def by (intro nm_rules name_ops)

subsection \<open>Functions\<close>

lemma nm_record [name_ops]: "nm.moves (record_completed_span sp)"
  unfolding record_completed_span_def by (intro nm_rules; simp)

lemma nm_finalize [name_ops]: "nm.moves (finalize_top k e q x b)"
  unfolding finalize_top_def by (intro nm_rules name_ops)

lemma nm_close [name_ops]: "nm.moves (close_unclosed_frames k e src r)"
  unfolding close_unclosed_frames_def unclosed_function_def by (intro nm_rules name_ops)

lemma nm_depth [name_ops]: "nm.moves (note_depth ctx fs)"
  unfolding note_depth_def by (intro nm_rules) (simp_all split: if_splits)

lemma nm_functions [name_ops]:
  "nm.moves (function_enter o' t c ctx f fr)" "nm.moves (function_exit o' t c ctx f fr)"
  unfolding function_enter_def function_exit_def exit_matched_def unwind_frames_def unmatched_function_exit_def
  by (intro nm_rules name_ops)+

subsection \<open>Switches and interrupts\<close>

lemma nm_switch [name_ops]: "nm.moves (context_switch o' t c prev next' reason)"
  unfolding context_switch_def report_switch_mismatch_def by (intro nm_rules name_ops)

lemma nm_enter [name_ops]: "nm.moves (interrupt_enter o' t c irq act)"
  unfolding interrupt_enter_def next_serial_def by (intro nm_rules name_ops; simp)

text \<open>A context that is retired loses its name only after it is gone.\<close>

lemma named_forget:
  assumes "named a" "bt_get (an_contexts a) k = None"
  shows "named (a\<lparr>an_context_public_ids := bt_remove k (an_context_public_ids a)\<rparr>)"
  using assms by (auto simp: named_def)

lemma nm_retired: "nm.moves (credit_retired p cpu)"
  unfolding credit_retired_def by (intro nm_rules; simp)

lemma nm_retire [name_ops]: "nm.moves (retire_interrupt_context k)"
  unfolding nm.moves_def
proof
  fix a
  show "keeps_names a (snd (retire_interrupt_context k a))"
  proof (cases "bt_get (an_contexts a) k")
    case None
    then show ?thesis by (simp add: retire_interrupt_context_def se_defs keeps_names_def)
  next
    case (Some cx)
    let ?b = "a\<lparr>an_contexts := bt_remove k (an_contexts a)\<rparr>"
    have b: "keeps_names a ?b" by (auto simp: keeps_names_def named_def)
    show ?thesis
    proof (cases "cx_frames cx = [] \<and> bt_get (an_context_public_ids a) k \<noteq> None")
      case True
      then obtain p where p: "bt_get (an_context_public_ids a) k = Some p" by blast
      let ?c = "?b\<lparr>an_context_public_ids := bt_remove k (an_context_public_ids a)\<rparr>"
      have c: "keeps_names ?b ?c" using named_forget [of ?b k] by (simp add: keeps_names_def)
      have d: "keeps_names ?c (snd (credit_retired p (cx_virtual_cpu_ns cx) ?c))"
        using nm_retired unfolding nm.moves_def by blast
      have "snd (retire_interrupt_context k a) = snd (credit_retired p (cx_virtual_cpu_ns cx) ?c)"
        using Some True p by (simp add: retire_interrupt_context_def take_public_id_def se_defs)
      then show ?thesis using nm.R_trans [OF nm.R_trans [OF b c] d] by simp
    next
      case False
      then have "snd (retire_interrupt_context k a) = ?b"
        using Some by (auto simp: retire_interrupt_context_def take_public_id_def se_defs)
      with b show ?thesis by simp
    qed
  qed
qed

lemma nm_exit [name_ops]: "nm.moves (interrupt_exit o' t c irq act)"
  unfolding interrupt_exit_def leave_interrupts_def interrupt_fact_def by (intro nm_rules name_ops)

subsection \<open>The other observations\<close>

lemma nm_spans [name_ops]:
  "nm.moves (custom_span_begin o' t c ctx i n)" "nm.moves (custom_span_end o' t c ctx i)"
  "nm.moves (async_span_begin o' t i n)" "nm.moves (async_span_end o' t i)"
  unfolding custom_span_begin_def custom_span_end_def async_span_begin_def async_span_end_def
    record_open_custom_span_limit_def
  by (intro nm_rules name_ops; simp)+

lemma nm_gap [name_ops]: "nm.moves (trace_gap o' s d reason)" "nm.moves (metadata_health o' t k v)"
  unfolding trace_gap_def gap_end_def report_gap_def metadata_health_def by (intro nm_rules name_ops)+

lemma nm_sample [name_ops]: "nm.moves (add_sample f ad ctx w q o')"
  unfolding add_sample_def accumulate_sample_def set_sample_def by (intro nm_rules name_ops; simp)

lemma nm_resource [name_ops]: "nm.moves (push_resource_fact_once code sub o' ev)"
  unfolding push_resource_fact_once_def by (intro nm_rules name_ops; simp)

lemma nm_tracked [name_ops]: "nm.moves (update_tracked enc cid p o')"
  unfolding update_tracked_def update_fragmentation_def update_usage_invariants_def report_usage_violation_def
  by (intro nm_rules name_ops; simp)

lemma nm_counter [name_ops]: "nm.moves (add_counter enc cid v q o')"
  unfolding add_counter_def report_counter_change_def set_counter_def by (intro nm_rules name_ops; simp)

lemma nm_order [name_ops]: "nm.moves (check_source_order o')" "nm.moves count_observation"
  unfolding check_source_order_def check_sequence_def check_timestamp_def count_observation_def
  by (intro nm_rules name_ops; simp)+

lemma nm_dispatch [name_ops]: "nm.moves (dispatch enc o' e)"
  by (cases e) (simp_all, (intro nm_rules name_ops)+)

lemma nm_ingest [name_ops]: "nm.moves (ingest enc o')"
  unfolding ingest_def by (auto split: sum.splits intro!: nm_rules name_ops)

lemma nm_register [name_ops]: "nm.moves (register_dictionary d)"
proof -
  have identity: "nm.moves (register_identity cid sem sub)" for cid sem sub
    unfolding register_identity_def Let_def by (cases sem; cases sub) (auto intro!: nm_rules)
  have "nm.moves (register_entry e)" for e
    by (cases e) (auto intro!: nm_rules identity)
  then show ?thesis unfolding register_dictionary_def by (intro nm_rules)
qed

lemma nm_drain [name_ops]: "nm.moves drain_completed_spans"
  unfolding drain_completed_spans_def by (intro nm_rules; simp)

lemma nm_call [name_ops]: "nm.moves (call enc c)"
  by (cases c) (auto simp: record_health_observation_def intro!: nm_rules name_ops)

subsection \<open>Calls after calls\<close>

lemma exec_call_names: "exec_call enc c (ds, a) = (ds', b) \<Longrightarrow> named a \<Longrightarrow> named b"
  using nm_call [of enc c] nm_drain
  by (auto simp: nm.moves_def keeps_names_def split: if_splits prod.splits sum.splits)

lemma exec_calls_names:
  assumes "exec_calls enc cs sid cfg = (ds, a)"
  shows "named a"
proof -
  have "named (snd p) \<Longrightarrow> named (snd (fold (exec_call enc) cs p))" for p
  proof (induction cs arbitrary: p)
    case (Cons c cs)
    obtain ds a ds' b where "p = (ds, a)" "exec_call enc c (ds, a) = (ds', b)" by (metis surj_pair)
    with Cons exec_call_names [of enc c ds a ds' b] show ?case by simp
  qed simp
  from this [of "([], analyzer_new sid cfg)"] named_new assms show ?thesis by (simp add: exec_calls_def)
qed

lemma validate_entries_Panic: "validate_entries kinds seen es \<noteq> Inl Panic"
proof -
  have names: "check_entry_names ns i nm ids \<noteq> Inl Panic" "validate_dictionary_optional ns i fld v \<noteq> Inl Panic" for ns i nm ids fld v
    by (simp_all add: check_entry_names_def validate_dictionary_optional_def rthen_Panic)
  have subject: "validate_subject sub \<noteq> Inl Panic" for sub
    by (cases sub) (auto simp: panic_simps validate_subject_id_def validate_extension_namespace_def split: option.splits)
  have "validate_counter_definition i u sem sub kinds ids \<noteq> Inl Panic" for i u sem sub ids
    by (auto simp: validate_counter_definition_def check_standard_counter_def check_stack_context_def panic_simps subject
        split: option.splits counter_subject.splits)
  then have "validate_entry kinds seen e \<noteq> Inl Panic" for seen e
    by (cases e) (simp_all add: panic_simps names)
  then show ?thesis by (induction kinds seen es rule: validate_entries.induct) (simp_all add: rbind_Panic)
qed

lemma validate_dictionary_Panic: "validate_dictionary d \<noteq> Inl Panic"
  by (simp add: validate_dictionary_def rthen_Panic validate_entries_Panic)

lemma sound_register: "sound named (register_dictionary d) (\<lambda>_. named)"
proof -
  have identity: "sound named (register_identity cid sem sub) (\<lambda>_. named)" for cid sem sub
    unfolding register_identity_def Let_def
    by (cases sem; cases sub) (auto intro!: sound_rules safe_with_state_inv safe_case_option safe_throw sound_neutral)
  have entry: "sound named (register_entry e) (\<lambda>_. named)" for e
    by (cases e) (auto intro!: sound_rules safe_with_state_inv safe_case_option safe_throw sound_neutral identity simp: Let_def)
  have "map_err InvalidDictionary (validate_dictionary d) \<noteq> Inl Panic"
    by (simp add: map_err_Panic validate_dictionary_Panic)
  then show ?thesis
    unfolding register_dictionary_def
    by (rule sound_lift) (auto intro!: safe_with_state_inv safe_throw sound_for_each entry)
qed

lemma sound_call: "sound named (call enc c) (\<lambda>_. named)"
proof -
  have "sound named (store_health_observation h) (\<lambda>_. named)" for h
    by (rule sound_store) (simp add: named_def)
  then show ?thesis
    by (cases c)
      (auto simp: record_health_observation_def drain_completed_spans_def
        intro!: sound_register sound_ingest sound_rules safe_with_state_inv sound_neutral)
qed

text \<open>A run with a dictionary of tracked counters, spans, a drain and an observation that
  is refused.\<close>

definition demo_dictionary :: observation_dictionary where
  "demo_dictionary =
     \<lparr>dict_session_id = ''s'',
      dict_entries =
        [DefineCounter ''free'' ''free'' (Some ''bytes'') None (Some heap_free_bytes) (Some (SubAllocator ''heap'')),
         DefineCounter ''block'' ''block'' (Some ''bytes'') None (Some heap_largest_free_block_bytes)
           (Some (SubAllocator ''heap''))]\<rparr>"

definition demo_calls_of_analyzer :: "analyzer_call list" where
  "demo_calls_of_analyzer =
     [CallRegister demo_dictionary,
      CallIngest (demo_observation 1 (InterruptEnter (I64 10) 0 ''irq'' None ''a'')),
      CallIngest (demo_observation 2 (FunctionEnter (I64 12) 0 ''irq'' ''h'' None)),
      CallIngest (demo_observation 3 (FunctionExit (I64 16) 0 ''irq'' ''h'' None)),
      CallDrain,
      CallIngest (demo_observation 4 (FunctionEnter (I64 18) 0 '' '' ''g'' None))]"

text \<open>C20: Whatever was registered, recorded, ingested and drained before, in any order and with any
  failures in between, the next call never panics: every \<open>expect\<close>, index, \<open>unreachable!\<close>, debug
  assertion and loop bound holds on every path, for invalid, duplicated, unmatched and out-of-order
  observations and for counters of any registered dictionary. The counter of dropped diagnostics is
  the one number that can overflow, and only once 2^64 - 1 of them were dropped.\<close>
theorem calls_never_panic:
  assumes "exec_calls enc cs sid cfg = (ds, a)"
    and "an_dropped_count (snd (call enc c a)) \<noteq> - 1"
  shows "fst (call enc c a) \<noteq> Inl Panic"
proof
  assume p: "fst (call enc c a) = Inl Panic"
  obtain r b where r: "call enc c a = (r, b)" by fastforce
  with p have "overflowed Panic b" using safeD(2) [OF sound_call exec_calls_names [OF assms(1)]] by simp
  with r assms(2) show False by (simp add: overflowed_def)
qed

theorem calls_never_panic_witness:
  "fst (call demo_encoding (CallIngest (demo_observation 5 (InterruptExit (I64 20) 0 ''irq'' None ''a'')))
     (snd (exec_calls demo_encoding demo_calls_of_analyzer ''s'' demo_config))) \<noteq> Inl Panic"
  by (rule calls_never_panic [of _ _ _ _ "fst (exec_calls demo_encoding demo_calls_of_analyzer ''s'' demo_config)"])
    (simp, code_simp)

end
