(* ===== verification/Analyzer_Finishing.thy ===== *)
theory Analyzer_Finishing
  imports Analyzer_Results
begin

text \<open>
  How an analysis ends: closing what is open and building the result never panic, the rows of the
  hotspot report satisfy the report's own validator, and no span is refused.
\<close>

subsection \<open>Closing moves forward\<close>

lemma fw_unclosed [forward_ops]:
  "fw.moves (unclosed_interrupt t ci)" "fw.moves (unclosed_custom t ks)" "fw.moves (unclosed_async t ks')"
  "fw.moves (close_context t k)"
  unfolding unclosed_interrupt_def unclosed_custom_def unclosed_async_def close_context_def
  by (intro fw_all forward_ops)+

lemma fw_close_spans [forward_ops]: "fw.moves (close_custom_spans t)" "fw.moves (close_async_spans t)"
  unfolding close_custom_spans_def close_async_spans_def
  by (intro fw_all forward_ops; simp add: forward_def contract_custom)+

lemma fw_close_all [forward_ops]: "fw.moves (close_all e)"
  unfolding close_all_def Let_def by (intro fw_all forward_ops)

lemma fw_policy_version [forward_ops]: "fw.moves policy_version_of"
  unfolding policy_version_of_def by (intro fw_all forward_ops)

subsection \<open>Closing never panics\<close>

lemma sound_advance_named: "sound named (followed (advance_core c t o') (ret ())) (\<lambda>_. named)"
  by (rule safe_followed [OF sound_advance]) (auto intro: safe_ret)

lemma sound_close_all: "sound named (close_all e) (\<lambda>_. named)"
proof -
  have close: "sound named (close_context t k) (\<lambda>_. named)" for t k
    unfolding close_context_def
    by (rule safe_weaken [OF sound_close_one [where K = "{}"]]) (simp_all add: closed_def)
  have rest: "sound named (unclosed_interrupt t ci) (\<lambda>_. named)" "sound named (close_custom_spans t) (\<lambda>_. named)"
    "sound named (close_async_spans t) (\<lambda>_. named)" for t ci
    unfolding unclosed_interrupt_def close_custom_spans_def close_async_spans_def unclosed_custom_def unclosed_async_def
    by (auto split: prod.splits intro!: safe_with_state_inv sound_rules sound_ops sound_neutral)
  show ?thesis
    unfolding close_all_def Let_def
    by (intro safe_with_state_inv sound_rules sound_advance_named close rest)
qed

lemma sound_policy_version: "sound named policy_version_of (\<lambda>_. named)"
  unfolding policy_version_of_def
  by (intro safe_with_state_inv safe_if sound_rules sound_ops) simp_all

subsection \<open>Building the result never panics\<close>

lemma public_name_Inr: "named a \<Longrightarrow> bt_get (an_contexts a) k \<noteq> None \<Longrightarrow> \<exists>p. public_name a k = Inr p"
  by (auto simp: named_def public_name_def expect_def split: option.splits)

lemma add_context_totals_Panic:
  "named a \<Longrightarrow> (\<And>k cx. (k, cx) \<in> set xs \<Longrightarrow> bt_get (an_contexts a) k \<noteq> None)
    \<Longrightarrow> add_context_totals a xs totals \<noteq> Inl Panic"
proof (induction xs arbitrary: totals)
  case (Cons x xs)
  obtain k cx where x: "x = (k, cx)" by fastforce
  with Cons.prems public_name_Inr obtain p where "public_name a k = Inr p" by fastforce
  with Cons x show ?case by (auto simp: rbind_Panic)
qed simp

lemma add_kind_totals_Panic: "add_kind_totals cs t \<noteq> Inl Panic"
  by (induction cs t rule: add_kind_totals.induct)
    (auto simp: rbind_Panic Let_def split: context_kind.splits)

lemma build_summary_Panic: "named a \<Longrightarrow> build_summary a e \<noteq> Inl Panic"
proof -
  assume "named a"
  moreover have "bt_get (an_contexts a) k \<noteq> None" if "(k, cx) \<in> set (an_contexts a)" for k cx
    using that bt_keys_get [of k "an_contexts a"] by (force simp: bt_keys_def)
  ultimately show ?thesis
    unfolding build_summary_def
    by (auto simp: rbind_Panic add_context_totals_Panic add_kind_totals_Panic split: prod.splits)
qed

lemma function_row_Inr: "ha_count h \<noteq> 0 \<Longrightarrow> \<exists>row. function_row v (f, h) = Inr row"
  by (auto simp: function_row_def div_or_panic_def)

lemma res_map_Panic: "(\<And>x. x \<in> set xs \<Longrightarrow> f x \<noteq> Inl Panic) \<Longrightarrow> res_map f xs \<noteq> Inl Panic"
  by (induction xs) (auto simp: rbind_Panic)

lemma sample_total_weight_Panic: "sample_total_weight s ss w \<noteq> Inl Panic"
  by (induction s ss w rule: sample_total_weight.induct) (auto simp: rbind_Panic ok_or_def split: option.splits)

lemma contract_rows:
  "contract ds a \<Longrightarrow> (f, h) \<in> set (an_function_hotspots a) \<Longrightarrow> aggregates h (complete_of f (ds @ an_completed_spans a))"
  using bt_mem_get [of "an_function_hotspots a" f h]
  by (auto simp: contract_def hotspots_match_def matches_row_def dest!: spec [where x = f])

lemma build_hotspots_Panic:
  assumes "contract ds a"
  shows "build_hotspots s (an_function_hotspots a) samples v \<noteq> Inl Panic"
proof -
  have "function_row v kv \<noteq> Inl Panic" if "kv \<in> set (an_function_hotspots a)" for kv
    using that contract_rows [OF assms, of "fst kv" "snd kv"] function_row_Inr [of "snd kv" v "fst kv"]
    by (auto dest!: aggregates_count)
  then have "res_map (function_row v) (an_function_hotspots a) \<noteq> Inl Panic" by (rule res_map_Panic)
  then show ?thesis
    by (simp add: build_hotspots_def rbind_Panic Let_def sample_total_weight_Panic)
qed

lemma validate_derived_Panic: "validate_derived d \<noteq> Inl Panic"
  unfolding validate_derived_def by (rule each_Panic) simp

lemma validate_hotspots_Panic: "validate_hotspots r \<noteq> Inl Panic"
proof -
  have "validate_function_hotspot h \<noteq> Inl Panic" for h
    by (auto simp: validate_function_hotspot_def rthen_Panic rbind_Panic div_or_panic_def ensure_def)
  moreover have "validate_sampling_hotspot h \<noteq> Inl Panic" for h
    by (simp add: validate_sampling_hotspot_def rthen_Panic)
  ultimately show ?thesis
    by (simp add: validate_hotspots_def rthen_Panic each_Panic)
qed

lemma validate_health_report_Panic: "validate_health_report r \<noteq> Inl Panic"
proof -
  have opt: "validate_optional f v \<noteq> Inl Panic" "validate_required f w \<noteq> Inl Panic" "validate_interval c s e \<noteq> Inl Panic"
    for f v w c s e
    by (simp_all add: validate_optional_def validate_required_def validate_interval_def split: option.splits)
  have reasons: "validate_reasons m seen rs \<noteq> Inl Panic" for m seen rs
    by (induction m seen rs rule: validate_reasons.induct) auto
  then have "validate_support m e \<noteq> Inl Panic" for m e
    by (simp add: validate_support_def)
  moreover have "validate_verdict r \<noteq> Inl Panic"
    by (simp add: validate_verdict_def Let_def split: list.splits)
  moreover have "validate_health_observation i h \<noteq> Inl Panic" "validate_health_issue i h' \<noteq> Inl Panic" for i h h'
    by (simp_all add: validate_health_observation_def validate_health_issue_def panic_simps opt)
  then have "each (\<lambda>(i, x). validate_health_observation i x) xs \<noteq> Inl Panic"
    "each (\<lambda>(i, x). validate_health_issue i x) ys \<noteq> Inl Panic" for xs ys
    by (intro each_Panic; auto)+
  moreover have "each (\<lambda>(n, e). validate_support n e) zs \<noteq> Inl Panic" for zs
    using calculation(1) by (intro each_Panic) auto
  ultimately show ?thesis
    by (simp add: validate_health_report_def panic_simps opt)
qed

lemma analysis_of_Panic:
  assumes "named a" and "contract ds a"
  shows "analysis_of version a \<noteq> Inl Panic"
proof -
  have "evaluate_policy v s facts cap \<noteq> Inl Panic" for v s facts cap
    using evaluate_facts_total [of facts "\<lparr>ps_verdict = Valid, ps_support = support_from_capabilities cap,
      ps_issues = [], ps_observations = []\<rparr>"] by (auto simp: evaluate_policy_def)
  then show ?thesis
    using build_summary_Panic [OF assms(1)] build_hotspots_Panic [OF assms(2)]
    by (auto simp: analysis_of_def rbind_Panic rthen_Panic map_err_Panic Let_def validate_derived_Panic
        validate_hotspots_Panic validate_health_report_Panic)
qed

lemma sound_finish: "sound (\<lambda>s. named s \<and> contract ds s) (finish e) (\<lambda>_ _. True)"
proof -
  have keep: "sound (\<lambda>s. named s \<and> contract ds s) m (\<lambda>_ s. named s \<and> contract ds s)"
    if "sound named m (\<lambda>_. named)" and "fw.moves m" for m :: "'a an"
    by (rule safe_carry [OF that]) (simp add: forward_def)
  have last: "sound (\<lambda>s. named s \<and> contract ds s) (with_state (\<lambda>a. lift (analysis_of v a))) (\<lambda>_ _. True)" for v
    by (rule safe_with_state, rule safe_lift)
      (auto simp: overflowed_def dest: analysis_of_Panic)
  show ?thesis
    unfolding finish_def
    by (intro safe_with_state_inv safe_if safe_throw
        safe_followed [OF keep [OF sound_close_all fw_close_all]]
        safe_andthen [OF keep [OF sound_policy_version fw_policy_version]] last) simp
qed

lemma andthen_lift_state: "snd (andthen m (\<lambda>x. with_state (\<lambda>a. lift (g x a))) s) = snd (m s)"
  by (auto simp: se_defs split: prod.splits sum.splits)

lemma followed_andthen: "followed m (andthen n f) = andthen (followed m n) f"
  by (auto simp: fun_eq_iff se_defs split: prod.splits sum.splits)

text \<open>Building the result reads the analyzer and leaves it.\<close>

lemma finish_state:
  "snd (finish e a) = (if blank (an_session_id a) then a else snd (followed (close_all e) policy_version_of a))"
  by (simp add: finish_def with_state_def [of "\<lambda>a. if blank (an_session_id a) then _ a else _ a"] throw_def
      followed_andthen andthen_lift_state)

text \<open>C23: Finishing an analysis never panics, whatever was registered, recorded, ingested and drained
  before, with any failures in between, and whatever is still open: closing frames, interrupts and
  spans, the policy, the totals per context, the resource summaries and the averages of the hotspots
  are all defined. Again only the counter of dropped diagnostics could overflow.\<close>
theorem finish_never_panics:
  assumes "exec_calls enc cs sid cfg = (ds, a)"
    and "an_dropped_count (snd (finish e a)) \<noteq> - 1"
  shows "fst (finish e a) \<noteq> Inl Panic"
proof
  assume p: "fst (finish e a) = Inl Panic"
  obtain r b where r: "finish e a = (r, b)" by fastforce
  with p have "overflowed Panic b"
    using safeD(2) [OF sound_finish] exec_calls_names [OF assms(1)] exec_calls_contract [OF assms(1)] by simp
  with r assms(2) show False by (simp add: overflowed_def)
qed

theorem finish_never_panics_witness:
  "fst (finish None (snd (exec_calls demo_encoding demo_calls_of_analyzer ''s'' demo_config))) \<noteq> Inl Panic"
  by (rule finish_never_panics [of _ _ _ _ "fst (exec_calls demo_encoding demo_calls_of_analyzer ''s'' demo_config)"])
    (simp, subst finish_state, code_simp)

subsection \<open>Rows of the report\<close>

lemma sum_list_bounds:
  fixes l u :: nat
  assumes "\<And>x. x \<in> set xs \<Longrightarrow> l \<le> f x" and "\<And>x. x \<in> set xs \<Longrightarrow> f x \<le> u"
  shows "length xs * l \<le> sum_list (map f xs)" and "sum_list (map f xs) \<le> length xs * u"
proof -
  from assms(1) show "length xs * l \<le> sum_list (map f xs)" by (induction xs) (auto intro: add_mono)
  from assms(2) show "sum_list (map f xs) \<le> length xs * u" by (induction xs) (auto intro: add_mono)
qed

lemma aggregates_bounds:
  assumes "aggregates h sps"
  shows "ha_min_active_ns h \<le> ha_inclusive_active_ns h div ha_count h"
    and "ha_inclusive_active_ns h div ha_count h \<le> ha_max_active_ns h"
proof -
  let ?act = "unat \<circ> fs_active_ns"
  from assms have ne: "sps \<noteq> []" and n: "unat (ha_count h) = length sps"
    and incl: "unat (ha_inclusive_active_ns h) = sum_list (map ?act sps)"
    and mn: "ha_min_active_ns h = Min (fs_active_ns ` set sps)"
    and mx: "ha_max_active_ns h = Max (fs_active_ns ` set sps)" by (simp_all add: aggregates_def)
  have "unat (ha_min_active_ns h) \<le> ?act x \<and> ?act x \<le> unat (ha_max_active_ns h)" if "x \<in> set sps" for x
    using that by (simp add: mn mx word_le_nat_alt [symmetric])
  then have "length sps * unat (ha_min_active_ns h) \<le> sum_list (map ?act sps)"
    and "sum_list (map ?act sps) \<le> length sps * unat (ha_max_active_ns h)"
    using sum_list_bounds [of sps "unat (ha_min_active_ns h)" ?act "unat (ha_max_active_ns h)"] by blast+
  moreover have "0 < length sps" using ne by simp
  ultimately have "unat (ha_min_active_ns h) \<le> sum_list (map ?act sps) div length sps"
    and "sum_list (map ?act sps) div length sps \<le> unat (ha_max_active_ns h)"
    by (simp add: less_eq_div_iff_mult_less_eq mult.commute)
      (metis \<open>0 < length sps\<close> \<open>sum_list (map ?act sps) \<le> length sps * unat (ha_max_active_ns h)\<close>
        div_le_mono nonzero_mult_div_cancel_left not_less_zero)
  then show "ha_min_active_ns h \<le> ha_inclusive_active_ns h div ha_count h"
    "ha_inclusive_active_ns h div ha_count h \<le> ha_max_active_ns h"
    by (simp_all add: word_le_nat_alt unat_div n incl)
qed

lemma aggregates_self:
  assumes "aggregates h sps" and "\<And>sp. sp \<in> set sps \<Longrightarrow> fs_self_active_ns sp \<le> fs_active_ns sp"
  shows "ha_self_active_ns h \<le> ha_inclusive_active_ns h"
  using assms by (auto simp: aggregates_def word_le_nat_alt intro: sum_list_mono)

lemma fw_finish: "fw.moves (finish e)"
  unfolding finish_def by (intro fw_all forward_ops)

lemma finish_result:
  assumes "finish e a = (Inr r, b)"
  shows "\<exists>version. analysis_of version b = Inr r"
  using assms by (auto simp: finish_def se_defs split: prod.splits sum.splits if_splits)

lemma res_map_Inr: "res_map f xs = Inr ys \<Longrightarrow> list_all2 (\<lambda>x y. f x = Inr y) xs ys"
  by (induction xs arbitrary: ys) (auto simp: rbind_eq_Inr)

text \<open>The row of a function with complete spans \<open>sps\<close>.\<close>

definition row_of :: "function_span list \<Rightarrow> function_hotspot \<Rightarrow> bool" where
  "row_of sps row \<longleftrightarrow>
     sps \<noteq> [] \<and> unat (fh_count row) = length sps
     \<and> unat (fh_inclusive_active_ns row) = sum_list (map (unat \<circ> fs_active_ns) sps)
     \<and> unat (fh_self_active_ns row) = sum_list (map (unat \<circ> fs_self_active_ns) sps)
     \<and> fh_min_active_ns row = Min (fs_active_ns ` set sps)
     \<and> fh_max_active_ns row = Max (fs_active_ns ` set sps)
     \<and> unat (fh_avg_active_ns row) = sum_list (map (unat \<circ> fs_active_ns) sps) div length sps
     \<and> validate_function_hotspot row = Inr ()"

lemma function_row_fields:
  assumes "function_row v (f, h) = Inr row"
  shows "ha_count h \<noteq> 0" "fh_function_id row = f" "fh_count row = ha_count h" "fh_incomplete_count row = 0"
    "fh_inclusive_active_ns row = ha_inclusive_active_ns h" "fh_self_active_ns row = ha_self_active_ns h"
    "fh_min_active_ns row = ha_min_active_ns h" "fh_max_active_ns row = ha_max_active_ns h"
    "fh_avg_active_ns row = ha_inclusive_active_ns h div ha_count h"
  using assms by (auto simp: function_row_def div_or_panic_def rbind_eq_Inr split: if_splits)

lemma function_row_valid:
  assumes "function_row v (f, h) = Inr row" "aggregates h sps" "\<forall>sp\<in>set sps. fs_self_active_ns sp \<le> fs_active_ns sp"
  shows "validate_function_hotspot row = Inr ()"
proof -
  note row = function_row_fields [OF assms(1)]
  have "\<not> ha_inclusive_active_ns h < ha_self_active_ns h"
    using aggregates_self [OF assms(2)] assms(3) by (simp add: not_less)
  moreover have "\<not> ha_inclusive_active_ns h div ha_count h < ha_min_active_ns h"
    "\<not> ha_max_active_ns h < ha_inclusive_active_ns h div ha_count h" "\<not> ha_max_active_ns h < ha_min_active_ns h"
    using aggregates_bounds [OF assms(2)] by (auto simp: not_less intro: order_trans)
  ultimately show ?thesis
    using row(1) by (simp add: validate_function_hotspot_def row(2-) ensure_def rthen_def rbind_def div_or_panic_def)
qed

lemma function_row_of:
  assumes "function_row v (f, h) = Inr row" "aggregates h sps" "\<forall>sp\<in>set sps. fs_self_active_ns sp \<le> fs_active_ns sp"
  shows "fh_function_id row = f \<and> row_of sps row"
  using assms(2) function_row_valid [OF assms]
  by (simp add: row_of_def aggregates_def function_row_fields [OF assms(1)] unat_div)

text \<open>The function rows of a report over the spans \<open>sps\<close>: one row for each function with a complete span,
  exact, in the order the report promises.\<close>

definition hotspots_of :: "function_span list \<Rightarrow> function_hotspot list \<Rightarrow> bool" where
  "hotspots_of sps rows \<longleftrightarrow>
     (\<forall>row\<in>set rows. row_of (complete_of (fh_function_id row) sps) row) \<and>
     distinct (map fh_function_id rows) \<and>
     set (map fh_function_id rows) = {f. complete_of f sps \<noteq> []} \<and>
     sorted (map (\<lambda>r. (- uint (fh_self_active_ns r), fh_function_id r)) rows)"

lemma hotspots_of_sorted:
  "hotspots_of sps (sort_key (\<lambda>r. (- uint (fh_self_active_ns r), fh_function_id r)) rows) \<longleftrightarrow>
     (\<forall>row\<in>set rows. row_of (complete_of (fh_function_id row) sps) row) \<and>
     distinct (map fh_function_id rows) \<and> set (map fh_function_id rows) = {f. complete_of f sps \<noteq> []}"
  by (simp add: hotspots_of_def distinct_map)

lemma contract_keys:
  assumes "contract ds a"
  shows "distinct (map fst (an_function_hotspots a))"
    and "set (map fst (an_function_hotspots a)) = {f. complete_of f (ds @ an_completed_spans a) \<noteq> []}"
proof -
  have m: "hotspots_match (ds @ an_completed_spans a) a" using assms by (simp add: contract_def)
  then show "distinct (map fst (an_function_hotspots a))"
    by (simp add: hotspots_match_def bt_sorted_def strict_sorted_iff)
  have "f \<in> fst ` set (an_function_hotspots a) \<longleftrightarrow> complete_of f (ds @ an_completed_spans a) \<noteq> []" for f
  proof -
    have "f \<in> fst ` set (an_function_hotspots a) \<longleftrightarrow> bt_get (an_function_hotspots a) f \<noteq> None"
      by (simp add: bt_get_def map_of_eq_None_iff)
    moreover have "matches_row (bt_get (an_function_hotspots a) f) (complete_of f (ds @ an_completed_spans a))"
      using m by (simp add: hotspots_match_def)
    ultimately show ?thesis by (auto simp: matches_row_def aggregates_def split: option.splits)
  qed
  then show "set (map fst (an_function_hotspots a)) = {f. complete_of f (ds @ an_completed_spans a) \<noteq> []}"
    by auto
qed

lemma rows_of:
  assumes "contract ds a" "res_map (function_row v) (an_function_hotspots a) = Inr rows"
  shows "hotspots_of (ds @ an_completed_spans a)
    (sort_key (\<lambda>r. (- uint (fh_self_active_ns r), fh_function_id r)) rows)"
proof -
  let ?all = "ds @ an_completed_spans a"
  have l: "list_all2 (\<lambda>kv row. function_row v kv = Inr row) (an_function_hotspots a) rows"
    using assms(2) by (rule res_map_Inr)
  have row: "fh_function_id row = fst kv \<and> row_of (complete_of (fst kv) ?all) row"
    if "kv \<in> set (an_function_hotspots a)" "function_row v kv = Inr row" for kv row
  proof (rule function_row_of [of v _ "snd kv"])
    show "function_row v (fst kv, snd kv) = Inr row" using that(2) by simp
    show "aggregates (snd kv) (complete_of (fst kv) ?all)"
      using contract_rows [OF assms(1), of "fst kv" "snd kv"] that(1) by simp
    show "\<forall>sp\<in>set (complete_of (fst kv) ?all). fs_self_active_ns sp \<le> fs_active_ns sp"
      using assms(1) by (auto simp: complete_of_def contract_def validate_span_Inr)
  qed
  have ids: "map fh_function_id rows = map fst (an_function_hotspots a)"
  proof (rule nth_equalityI)
    show "length (map fh_function_id rows) = length (map fst (an_function_hotspots a))"
      using l by (simp add: list_all2_lengthD)
    show "map fh_function_id rows ! i = map fst (an_function_hotspots a) ! i"
      if "i < length (map fh_function_id rows)" for i
      using l that row [of "an_function_hotspots a ! i" "rows ! i"] by (simp add: list_all2_conv_all_nth)
  qed
  have "\<forall>row\<in>set rows. row_of (complete_of (fh_function_id row) ?all) row"
  proof
    fix r
    assume "r \<in> set rows"
    then obtain i where i: "i < length rows" "r = rows ! i" by (auto simp: in_set_conv_nth)
    with l have "an_function_hotspots a ! i \<in> set (an_function_hotspots a)"
      "function_row v (an_function_hotspots a ! i) = Inr r"
      by (simp_all add: list_all2_conv_all_nth)
    with row show "row_of (complete_of (fh_function_id r) ?all) r" by simp
  qed
  with contract_keys [OF assms(1)] show ?thesis by (simp only: hotspots_of_sorted ids)
qed

text \<open>What the result promises of all the spans that were handed out, \<open>ds\<close> before and the rest with it.\<close>

definition report_matches :: "function_span list \<Rightarrow> analysis_result \<Rightarrow> bool" where
  "report_matches ds r \<longleftrightarrow>
     (let all = ds @ dd_function_spans (ar_derived r) in
      (\<forall>sp\<in>set all. validate_span sp = Inr ()) \<and>
      (if hr_verdict (ar_health r) = Invalid then hot_functions (ar_hotspots r) = []
       else hotspots_of all (hot_functions (ar_hotspots r))))"

lemma build_hotspots_rows:
  "build_hotspots s fs ss v = Inr rep \<Longrightarrow> v \<noteq> Invalid \<Longrightarrow>
    \<exists>rows. res_map (function_row v) fs = Inr rows
      \<and> hot_functions rep = sort_key (\<lambda>r. (- uint (fh_self_active_ns r), fh_function_id r)) rows"
  by (auto simp: build_hotspots_def rbind_eq_Inr Let_def)

lemma build_hotspots_empty: "build_hotspots s fs ss v = Inr rep \<Longrightarrow> v = Invalid \<Longrightarrow> hot_functions rep = []"
  by (auto simp: build_hotspots_def)

lemma analysis_matches:
  assumes "analysis_of version b = Inr r" "contract ds b"
  shows "report_matches ds r"
proof -
  from assms(1) have d: "dd_function_spans (ar_derived r) = an_completed_spans b"
    and h: "build_hotspots (an_session_id b) (an_function_hotspots b) (an_samples b) (hr_verdict (ar_health r))
      = Inr (ar_hotspots r)"
    by (auto simp: analysis_of_def rbind_eq_Inr rthen_eq_Inr Let_def)
  have "hotspots_of (ds @ an_completed_spans b) (hot_functions (ar_hotspots r))"
    if "hr_verdict (ar_health r) \<noteq> Invalid"
    using build_hotspots_rows [OF h that] rows_of [OF assms(2)] by auto
  moreover have "hot_functions (ar_hotspots r) = []" if "hr_verdict (ar_health r) = Invalid"
    using build_hotspots_empty [OF h that] .
  ultimately show ?thesis
    using assms(2) by (auto simp: report_matches_def d contract_def)
qed

text \<open>C24: The result of a finished analysis is exact about the functions. Whatever was registered,
  recorded, ingested and drained before, in any order and with any failures: when \<open>finish\<close> returns a
  result, all spans, the drained ones and the ones returned with the result (those it closed itself
  among them), satisfy the span contract; and unless the verdict is Invalid, where the report is
  empty, the report has one row for each function with a complete span, whose count, inclusive and
  self time, minimum, maximum and average are exactly those of these spans, which passes the
  report's own validator, ordered by self time, longest first, and then by name.\<close>
theorem finished_hotspots_exact:
  "case exec_calls enc cs sid cfg of (ds, a) \<Rightarrow>
     (case finish e a of (Inr r, b) \<Rightarrow> report_matches ds r | (Inl _, b) \<Rightarrow> True)"
proof -
  obtain ds a where x: "exec_calls enc cs sid cfg = (ds, a)" by fastforce
  obtain q b where f: "finish e a = (q, b)" by fastforce
  have "contract ds b"
    using fw_finish [of e] exec_calls_contract [OF x] f unfolding fw.moves_def forward_def by (metis snd_conv)
  then show ?thesis
    using finish_result [of e a _ b] f analysis_matches by (cases q) (fastforce simp: x)+
qed

end
