(* ===== verification/Analyzer_Findings.thy ===== *)
theory Analyzer_Findings
  imports Analyzer_Finishing
begin

text \<open>
  Inputs on which the analyzer contradicts itself: a span it builds or a diagnostic it records is
  refused by its own contracts. Each is the model evaluated on concrete observations.
\<close>

subsection \<open>Function exits across sources\<close>

text \<open>However a frame is closed, the time decomposition of its span is consistent: the span
  contract can refuse it only because the source sequence of the closing observation is smaller than
  that of the opening one.\<close>
theorem closed_frame_valid:
  "validate_span (closed_span v fr e sq xq b) = Inr ()
     \<longleftrightarrow> (case sq of None \<Rightarrow> True | Some n \<Rightarrow> of_source_seq_start fr \<le> n)"
  by (auto simp: closed_span_valid split: option.splits)

text \<open>The exit of \<open>f\<close> comes from another source, whose sequence numbers are its own: the call
  fails, although the analyzer tolerates and reports exits from other sources.\<close>

lemma exit_from_another_source_fails:
  "fst (ingest_all demo_encoding
     [new_observation ''a'' 5 QExact (FunctionEnter (I64 10) 0 ''task'' ''f'' None),
      new_observation ''b'' 1 QExact (FunctionExit (I64 20) 0 ''task'' ''f'' None)]
     (analyzer_new ''s'' demo_config))
   = Inl (Err (InvalidDerived (InvalidSourceSequenceRange ''f'' 5 1)))"
  by code_simp

subsection \<open>Duplicate begins that are out of order\<close>

text \<open>The fact of a duplicate begin spans from the first begin to the second. When the second source
  is behind, the interval is reversed, and the health report that carries it is not valid.\<close>

lemma duplicate_begin_reversed:
  "map (\<lambda>h. (ho_code h, ho_start_ns h, ho_end_ns h)) (an_health_observations (snd (ingest_all demo_encoding
     [new_observation ''a'' 1 QExact (AsyncBegin (I64 10) None None ''id'' ''n'' []),
      new_observation ''a'' 2 QExact (AsyncBegin (I64 5) None None ''id'' ''n'' [])]
     (analyzer_new ''s'' demo_config))))
   = [(''out_of_order_timestamp'', Some (I64 5), Some (I64 10)), (''duplicate_async_begin'', Some (I64 10), Some (I64 5))]"
  by code_simp

lemma reversed_interval_refused:
  "validate_interval ''duplicate_async_begin'' (Some (I64 10)) (Some (I64 5))
     = Inl (Err (InvalidInterval ''duplicate_async_begin'' (I64 10) (I64 5)))"
  by code_simp

subsection \<open>Allocation rates without a value\<close>

lemma allocation_metric_None:
  assumes "dm_value (allocation_metric a e subject cid) = None"
  shows "dm_quality (allocation_metric a e subject cid) \<noteq> None \<or> \<not> bt_contains (an_counters a) cid"
  using assms by (auto simp: allocation_metric_def bt_contains_def split: option.splits prod.splits)

text \<open>C25: An allocation rate that has no value is refused by the validator of the summary it is part
  of, whatever the support and the other rows: with samples it reports a quality without a value, and
  without samples it cites a counter that has no row.\<close>
theorem allocation_metric_refused:
  assumes "dm_value (allocation_metric a e subject cid) = None"
  shows "validate_metric ceil (map rs_counter_id (map (summarize_counter a e) (an_counters a))) identities
      (allocation_metric a e subject cid) \<noteq> Inr ()"
proof
  let ?m = "allocation_metric a e subject cid"
  let ?ids = "map rs_counter_id (map (summarize_counter a e) (an_counters a))"
  assume ok: "validate_metric ceil ?ids identities ?m = Inr ()"
  with assms have "dm_quality ?m = None" and src: "sources_ok ?ids ?m"
    by (auto simp: validate_metric_def Let_def rthen_eq_Inr rbind_eq_Inr)
  then have "\<not> bt_contains (an_counters a) cid" using allocation_metric_None [OF assms] by blast
  moreover have "cid \<in> set ?ids"
    using src by (auto simp: sources_ok_def allocation_metric_def split: option.splits prod.splits)
  then have "cid \<in> set (bt_keys (an_counters a))"
    by (auto simp: bt_keys_def summarize_counter_def Let_def)
  ultimately show False by (simp add: bt_contains_def bt_keys_get)
qed

text \<open>A counter with one sample.\<close>

definition demo_counted :: analyzer where
  "demo_counted = (analyzer_new ''s'' demo_config)\<lparr>an_counters :=
     [(''allocs'', \<lparr>ca_count = 1, ca_first_ts_ns = I64 5, ca_last_ts_ns = I64 5, ca_first = f64_zero False,
        ca_latest = f64_zero False, ca_min = f64_zero False, ca_max = f64_zero False,
        ca_mean = f64_zero False, ca_quality = QExact, ca_window_valid = True\<rparr>)]\<rparr>"

theorem allocation_metric_refused_witness:
  "validate_metric \<lparr>se_support = Exact, se_reasons = []\<rparr>
    (map rs_counter_id (map (summarize_counter demo_counted \<lparr>se_support = Exact, se_reasons = []\<rparr>)
      (an_counters demo_counted))) []
    (allocation_metric demo_counted \<lparr>se_support = Exact, se_reasons = []\<rparr> (SubAllocator ''heap'') ''allocs'')
   \<noteq> Inr ()"
  by (rule allocation_metric_refused) code_simp

end
