(* ===== verification/Wire_Bytes.thy ===== *)
theory Wire_Bytes
  imports State_Error
begin

text \<open>
  Bytes of the C SDK wire format: little-endian integers, UTF-8 validation, and the byte source a
  decoder reads from. A \<open>Read\<close> value is the list of what its calls deliver: a chunk of bytes (an
  empty chunk is an end of file), an interruption, or a failure with its message; afterwards it is
  at its end.
\<close>

subsection \<open>Little-endian integers\<close>

fun from_le :: "u8 list \<Rightarrow> nat" where
  "from_le [] = 0"
| "from_le (b # bs) = unat b + 256 * from_le bs"

fun to_le :: "nat \<Rightarrow> nat \<Rightarrow> u8 list" where
  "to_le 0 n = []"
| "to_le (Suc k) n = word_of_nat (n mod 256) # to_le k (n div 256)"

text \<open>The callers pass slices that are long enough; the rest of a slice is not read.\<close>

definition read_u16 :: "u8 list \<Rightarrow> u16" where
  "read_u16 bs = word_of_nat (from_le (take 2 bs))"

definition read_u32 :: "u8 list \<Rightarrow> u32" where
  "read_u32 bs = word_of_nat (from_le (take 4 bs))"

definition read_u64 :: "u8 list \<Rightarrow> u64" where
  "read_u64 bs = word_of_nat (from_le (take 8 bs))"

definition byte_range :: "nat \<Rightarrow> nat \<Rightarrow> 'a list \<Rightarrow> 'a list" where
  "byte_range i j xs = take (j - i) (drop i xs)"

lemma length_to_le [simp]: "length (to_le k n) = k"
  by (induction k arbitrary: n) auto

lemma unat_u8_less [simp]: "unat (b :: u8) < 256"
proof -
  have "unat b < 2 ^ LENGTH(8)" by (rule unsigned_less)
  then show ?thesis by simp
qed

lemma from_le_less: "from_le bs < 256 ^ length bs"
proof (induction bs)
  case (Cons b bs)
  have "unat b + 256 * from_le bs < 256 * Suc (from_le bs)" using unat_u8_less [of b] by simp
  also have "\<dots> \<le> 256 * 256 ^ length bs" using Cons by (intro mult_le_mono) auto
  finally show ?case by simp
qed simp

lemma from_le_to_le: "n < 256 ^ k \<Longrightarrow> from_le (to_le k n) = n"
proof (induction k arbitrary: n)
  case (Suc k)
  have "unat (word_of_nat (n mod 256) :: u8) = n mod 256" by (simp add: unsigned_of_nat take_bit_nat_eq_self)
  moreover have "n div 256 < 256 ^ k" using Suc.prems by (simp add: less_mult_imp_div_less mult.commute)
  ultimately show ?case using Suc.IH by simp
qed simp

lemma to_le_from_le: "to_le (length bs) (from_le bs) = bs"
proof (induction bs)
  case (Cons b bs)
  have "(unat b + 256 * from_le bs) mod 256 = unat b" "(unat b + 256 * from_le bs) div 256 = from_le bs"
    using unat_u8_less [of b] by simp_all
  with Cons show ?case by simp
qed simp

lemma read_to_le:
  "read_u16 (to_le 2 (unat a) @ xs) = a" "read_u32 (to_le 4 (unat b) @ xs) = b" "read_u64 (to_le 8 (unat c) @ xs) = c"
proof -
  have "unat a < 2 ^ LENGTH(16)" "unat b < 2 ^ LENGTH(32)" "unat c < 2 ^ LENGTH(64)" by (rule unsigned_less)+
  then show "read_u16 (to_le 2 (unat a) @ xs) = a" "read_u32 (to_le 4 (unat b) @ xs) = b"
    "read_u64 (to_le 8 (unat c) @ xs) = c"
    by (simp_all add: read_u16_def read_u32_def read_u64_def from_le_to_le)
qed

subsection \<open>UTF-8\<close>

definition cont :: "u8 \<Rightarrow> bool" where
  "cont b \<longleftrightarrow> 0x80 \<le> b \<and> b \<le> 0xBF"

text \<open>The length of the character at the start of the bytes, 0 when there is no valid one.\<close>

definition utf8_char_len :: "u8 list \<Rightarrow> nat" where
  "utf8_char_len bs =
     (case bs of
        [] \<Rightarrow> 0
      | a # r \<Rightarrow>
          let c1 = (case r of b # _ \<Rightarrow> cont b | _ \<Rightarrow> False);
              c2 = (case r of b # c # _ \<Rightarrow> cont b \<and> cont c | _ \<Rightarrow> False);
              c3 = (case r of b # c # d # _ \<Rightarrow> cont b \<and> cont c \<and> cont d | _ \<Rightarrow> False);
              second = (case r of b # _ \<Rightarrow> b | [] \<Rightarrow> 0)
          in if a < 0x80 then 1
             else if 0xC2 \<le> a \<and> a \<le> 0xDF then (if c1 then 2 else 0)
             else if a = 0xE0 then (if c2 \<and> 0xA0 \<le> second then 3 else 0)
             else if a = 0xED then (if c2 \<and> second \<le> 0x9F then 3 else 0)
             else if 0xE1 \<le> a \<and> a \<le> 0xEF then (if c2 then 3 else 0)
             else if a = 0xF0 then (if c3 \<and> 0x90 \<le> second then 4 else 0)
             else if 0xF1 \<le> a \<and> a \<le> 0xF3 then (if c3 then 4 else 0)
             else if a = 0xF4 then (if c3 \<and> second \<le> 0x8F then 4 else 0)
             else 0)"

text \<open>\<open>from_utf8\<close>: \<open>None\<close> for valid bytes, otherwise \<open>valid_up_to\<close> of the error.\<close>

function utf8_invalid_at :: "nat \<Rightarrow> u8 list \<Rightarrow> nat option" where
  "utf8_invalid_at i bs =
     (if bs = [] then None
      else if utf8_char_len bs = 0 then Some i
      else utf8_invalid_at (i + utf8_char_len bs) (drop (utf8_char_len bs) bs))"
  by pat_completeness auto
termination
  by (relation "measure (length \<circ> snd)") auto

declare utf8_invalid_at.simps [simp del]

definition chars :: "u8 list \<Rightarrow> string" where
  "chars bs = map (\<lambda>b. char_of (unat b)) bs"

definition ascii_bytes :: "string \<Rightarrow> u8 list" where
  "ascii_bytes s = map (\<lambda>c. word_of_nat (of_char c)) s"

lemma utf8_ascii: "list_all (\<lambda>b. b < 0x80) bs \<Longrightarrow> utf8_invalid_at i bs = None"
  by (induction bs arbitrary: i) (subst utf8_invalid_at.simps, simp add: utf8_char_len_def Let_def)+

subsection \<open>The reader\<close>

datatype read_event = Chunk "u8 list" | Interrupted string | ReadFailed string

type_synonym reader = "read_event list"

datatype read_result = ReadOk "u8 list" | ReadInterrupted string | ReadErr string

text \<open>One call of \<open>read\<close> with a buffer of \<open>n\<close> bytes.\<close>

fun reader_read :: "nat \<Rightarrow> reader \<Rightarrow> read_result \<times> reader" where
  "reader_read n [] = (ReadOk [], [])"
| "reader_read n (Chunk bs # rs) =
     (if length bs \<le> n then (ReadOk bs, rs) else (ReadOk (take n bs), Chunk (drop n bs) # rs))"
| "reader_read n (Interrupted m # rs) = (ReadInterrupted m, rs)"
| "reader_read n (ReadFailed m # rs) = (ReadErr m, rs)"

fun event_size :: "read_event \<Rightarrow> nat" where
  "event_size (Chunk bs) = Suc (length bs)"
| "event_size _ = 1"

definition reader_size :: "reader \<Rightarrow> nat" where
  "reader_size rd = sum_list (map event_size rd)"

lemma reader_read_size:
  "reader_read n rd = (r, rd') \<Longrightarrow> 0 < n \<Longrightarrow> r \<noteq> ReadOk [] \<Longrightarrow> reader_size rd' < reader_size rd"
  by (cases "(n, rd)" rule: reader_read.cases) (auto simp: reader_size_def split: if_splits)

lemma reader_read_le: "reader_read n rd = (r, rd') \<Longrightarrow> reader_size rd' \<le> reader_size rd"
  by (cases "(n, rd)" rule: reader_read.cases) (auto simp: reader_size_def split: if_splits)

text \<open>What is left of the bytes, and the readers that only deliver bytes.\<close>

fun event_bytes :: "read_event \<Rightarrow> u8 list" where
  "event_bytes (Chunk bs) = bs"
| "event_bytes _ = []"

definition contents :: "reader \<Rightarrow> u8 list" where
  "contents rd = concat (map event_bytes rd)"

definition plain :: "reader \<Rightarrow> bool" where
  "plain rd \<longleftrightarrow> list_all (\<lambda>e. event_bytes e \<noteq> []) rd"

lemma reader_read_contents:
  assumes "reader_read n rd = (r, rd')"
  shows "contents rd = (case r of ReadOk bs \<Rightarrow> bs | _ \<Rightarrow> []) @ contents rd'"
    and "r = ReadOk bs \<Longrightarrow> length bs \<le> n"
  using assms by (cases "(n, rd)" rule: reader_read.cases; auto simp: contents_def split: if_splits)+

lemma reader_read_plain:
  assumes "plain rd" "0 < n" "reader_read n rd = (r, rd')"
  obtains bs where "r = ReadOk bs" and "contents rd = bs @ contents rd'" and "length bs \<le> n"
    and "bs = [] \<longleftrightarrow> contents rd = []" and "plain rd'"
proof -
  have "\<exists>bs. r = ReadOk bs \<and> (bs = [] \<longleftrightarrow> contents rd = []) \<and> plain rd'"
    using assms by (cases "(n, rd)" rule: reader_read.cases) (auto simp: plain_def contents_def split: if_splits)
  with reader_read_contents [OF assms(3)] that show ?thesis by auto
qed

end
