(* ===== verification/Wire_Mapping.thy ===== *)
theory Wire_Mapping
  imports Observation
begin

text \<open>
  The mapping document of a deployment (\<open>CWireCounterMappingDocument\<close> in
  \<open>t32perf-trace32/src/c_wire.rs\<close>): which resource counter a C SDK event identifier stands for and
  which context a wire context identifier names, its validation, and the tables the source uses.
  Errors carry the error values whose texts the code stores.
\<close>

datatype c_wire_context_kind = CWireTask | CWireIsr

fun context_kind_of_wire :: "c_wire_context_kind \<Rightarrow> context_kind" where
  "context_kind_of_wire CWireTask = CkTask"
| "context_kind_of_wire CWireIsr = CkIsr"

record c_wire_counter_mapping =
  cm_event_id :: u32
  cm_counter_id :: string
  cm_name :: string
  cm_unit :: string
  cm_description :: string
  cm_semantic :: counter_semantic
  cm_subject :: counter_subject

definition counter_dictionary_entry :: "c_wire_counter_mapping \<Rightarrow> dictionary_entry" where
  "counter_dictionary_entry c =
     DefineCounter (cm_counter_id c) (cm_name c) (Some (cm_unit c)) (Some (cm_description c))
       (Some (cm_semantic c)) (Some (cm_subject c))"

record c_wire_context_mapping =
  xm_wire_context_id :: u32
  xm_context_id :: string
  xm_name :: string
  xm_kind :: c_wire_context_kind
  xm_core_id :: "u32 option"
  xm_priority :: "i32 option"

definition context_dictionary_entry :: "c_wire_context_mapping \<Rightarrow> dictionary_entry" where
  "context_dictionary_entry x =
     DefineContext (xm_context_id x) (context_kind_of_wire (xm_kind x)) (xm_name x) (xm_core_id x)
       (xm_priority x)"

record c_wire_mapping_document =
  md_contexts :: "c_wire_context_mapping list"
  md_counters :: "c_wire_counter_mapping list"

datatype c_wire_mapping_error =
    MappingEmpty
  | TooManyMappings int int
  | TooManyContexts int int
  | DuplicateEventId u32
  | DuplicateCounterMappingId string
  | DuplicateWireContextId u32
  | DuplicateContextId string
  | MissingMappedStackContext string string
  | StackContextKindMismatch string string c_wire_context_kind
  | ContextCoreMismatch string u32 u32
  | InvalidText string int
  | InvalidDictionary dictionary_error

subsection \<open>Validation\<close>

definition validate_mapping_text :: "string \<Rightarrow> string \<Rightarrow> (c_wire_mapping_error, unit) res" where
  "validate_mapping_text fld v =
     ensure (\<not> (blank v \<or> 4096 < int (length v))) (InvalidText fld (int (length v)))"

text \<open>The sets the loops fill hold the identifiers seen so far.\<close>

fun validate_mapped_contexts :: "u32 set \<Rightarrow> string set \<Rightarrow> c_wire_context_mapping list
    \<Rightarrow> (c_wire_mapping_error, unit) res" where
  "validate_mapped_contexts wires ids [] = Inr ()"
| "validate_mapped_contexts wires ids (x # xs) =
     rthen (ensure (xm_wire_context_id x \<notin> wires) (DuplicateWireContextId (xm_wire_context_id x)))
     (rthen (ensure (xm_context_id x \<notin> ids) (DuplicateContextId (xm_context_id x)))
     (rthen (validate_mapping_text ''context_id'' (xm_context_id x))
     (rthen (validate_mapping_text ''context_name'' (xm_name x))
       (validate_mapped_contexts (insert (xm_wire_context_id x) wires) (insert (xm_context_id x) ids) xs))))"

text \<open>The context a stack counter of a task or an interrupt names, with the kind it must have.\<close>

fun required_context :: "counter_subject \<Rightarrow> (string \<times> c_wire_context_kind) option" where
  "required_context (SubStack _ RoleTask (Some c) _) = Some (c, CWireTask)"
| "required_context (SubStack _ RoleIsr (Some c) _) = Some (c, CWireIsr)"
| "required_context _ = None"

definition check_required_context :: "c_wire_context_mapping list \<Rightarrow> c_wire_counter_mapping
    \<Rightarrow> (c_wire_mapping_error, unit) res" where
  "check_required_context contexts c =
     (case required_context (cm_subject c) of
        None \<Rightarrow> Inr ()
      | Some (ctx, expected) \<Rightarrow>
          rbind (ok_or (find (\<lambda>x. xm_context_id x = ctx) contexts)
                   (MissingMappedStackContext (cm_counter_id c) ctx))
            (\<lambda>x. ensure (xm_kind x = expected) (StackContextKindMismatch (cm_counter_id c) ctx expected)))"

fun validate_mapped_counters :: "c_wire_context_mapping list \<Rightarrow> u32 set \<Rightarrow> string set
    \<Rightarrow> c_wire_counter_mapping list \<Rightarrow> (c_wire_mapping_error, unit) res" where
  "validate_mapped_counters contexts events ids [] = Inr ()"
| "validate_mapped_counters contexts events ids (c # cs) =
     rthen (ensure (cm_event_id c \<notin> events) (DuplicateEventId (cm_event_id c)))
     (rthen (ensure (cm_counter_id c \<notin> ids) (DuplicateCounterMappingId (cm_counter_id c)))
     (rthen (validate_mapping_text ''counter_id'' (cm_counter_id c))
     (rthen (validate_mapping_text ''name'' (cm_name c))
     (rthen (validate_mapping_text ''unit'' (cm_unit c))
     (rthen (validate_mapping_text ''description'' (cm_description c))
     (rthen (check_required_context contexts c)
       (validate_mapped_counters contexts (insert (cm_event_id c) events) (insert (cm_counter_id c) ids) cs)))))))"

definition mapping_dictionary :: "string \<Rightarrow> c_wire_mapping_document
    \<Rightarrow> (dictionary_error, observation_dictionary) res" where
  "mapping_dictionary session_id m =
     (let d = \<lparr>dict_session_id = session_id,
               dict_entries = map context_dictionary_entry (md_contexts m)
                              @ map counter_dictionary_entry (md_counters m)\<rparr>
      in rthen (validate_dictionary d) (Inr d))"

definition validate_mapping :: "c_wire_mapping_document \<Rightarrow> (c_wire_mapping_error, unit) res" where
  "validate_mapping m =
     rthen (ensure (md_counters m \<noteq> []) MappingEmpty)
     (rthen (ensure (\<not> 65536 < int (length (md_counters m)))
              (TooManyMappings 65536 (int (length (md_counters m)))))
     (rthen (ensure (\<not> 65536 < int (length (md_contexts m)))
              (TooManyContexts 65536 (int (length (md_contexts m)))))
     (rthen (validate_mapped_contexts {} {} (md_contexts m))
     (rthen (validate_mapped_counters (md_contexts m) {} {} (md_counters m))
       (rthen (map_err InvalidDictionary (mapping_dictionary ''counter-mapping-validation'' m))
         (Inr ()))))))"

fun validate_core_affinity :: "u32 \<Rightarrow> c_wire_context_mapping list \<Rightarrow> (c_wire_mapping_error, unit) res" where
  "validate_core_affinity core [] = Inr ()"
| "validate_core_affinity core (x # xs) =
     (case xm_core_id x of
        Some c \<Rightarrow> rthen (ensure (c = core) (ContextCoreMismatch (xm_context_id x) c core))
                   (validate_core_affinity core xs)
      | None \<Rightarrow> validate_core_affinity core xs)"

subsection \<open>The tables of a source\<close>

record mapped_counter =
  mc_counter_id :: string
  mc_required_wire_context_id :: "u32 option"

definition mapped_contexts :: "c_wire_mapping_document \<Rightarrow> (u32, string) btree" where
  "mapped_contexts m = bt_of_list (map (\<lambda>x. (xm_wire_context_id x, xm_context_id x)) (md_contexts m))"

definition contexts_by_id :: "c_wire_mapping_document \<Rightarrow> (string, c_wire_context_mapping) btree" where
  "contexts_by_id m = bt_of_list (map (\<lambda>x. (xm_context_id x, x)) (md_contexts m))"

definition map_counter :: "(string, c_wire_context_mapping) btree \<Rightarrow> c_wire_counter_mapping
    \<Rightarrow> ('e, u32 \<times> mapped_counter) res" where
  "map_counter contexts c =
     rbind
       (case required_context (cm_subject c) of
          None \<Rightarrow> Inr None
        | Some (ctx, _) \<Rightarrow> rbind (expect (bt_get contexts ctx)) (\<lambda>x. Inr (Some (xm_wire_context_id x))))
       (\<lambda>w. Inr (cm_event_id c, \<lparr>mc_counter_id = cm_counter_id c, mc_required_wire_context_id = w\<rparr>))"

fun map_counters :: "(string, c_wire_context_mapping) btree \<Rightarrow> c_wire_counter_mapping list
    \<Rightarrow> ('e, (u32 \<times> mapped_counter) list) res" where
  "map_counters contexts [] = Inr []"
| "map_counters contexts (c # cs) =
     rbind (map_counter contexts c) (\<lambda>kv. rbind (map_counters contexts cs) (\<lambda>kvs. Inr (kv # kvs)))"

definition mapped_counters :: "c_wire_mapping_document \<Rightarrow> ('e, (u32, mapped_counter) btree) res" where
  "mapped_counters m = rbind (map_counters (contexts_by_id m) (md_counters m)) (\<lambda>kvs. Inr (bt_of_list kvs))"

subsection \<open>A valid document resolves every counter\<close>

lemma validate_mapped_counters_Inr:
  "validate_mapped_counters contexts events ids cs = Inr () \<Longrightarrow>
     (\<forall>c\<in>set cs. check_required_context contexts c = Inr () \<and> cm_event_id c \<notin> events)
     \<and> distinct (map cm_event_id cs) \<and> distinct (map cm_counter_id cs) \<and> cm_counter_id ` set cs \<inter> ids = {}"
proof (induction cs arbitrary: events ids)
  case (Cons c cs)
  from Cons.prems have rest: "validate_mapped_counters contexts (insert (cm_event_id c) events)
      (insert (cm_counter_id c) ids) cs = Inr ()"
    and c: "cm_event_id c \<notin> events" "cm_counter_id c \<notin> ids" "check_required_context contexts c = Inr ()"
    by (auto simp: rthen_eq_Inr)
  from Cons.IH [OF rest] c show ?case by auto
qed simp

lemma validate_mapped_contexts_Inr:
  "validate_mapped_contexts wires ids xs = Inr () \<Longrightarrow>
     distinct (map xm_wire_context_id xs) \<and> xm_wire_context_id ` set xs \<inter> wires = {}
     \<and> distinct (map xm_context_id xs) \<and> xm_context_id ` set xs \<inter> ids = {}"
proof (induction xs arbitrary: wires ids)
  case (Cons x xs)
  from Cons.prems have rest: "validate_mapped_contexts (insert (xm_wire_context_id x) wires)
      (insert (xm_context_id x) ids) xs = Inr ()"
    and x: "xm_wire_context_id x \<notin> wires" "xm_context_id x \<notin> ids"
    by (auto simp: rthen_eq_Inr)
  from Cons.IH [OF rest] x show ?case by auto
qed simp

lemma map_of_rev: "distinct (map fst kvs) \<Longrightarrow> map_of (rev kvs) k = map_of kvs k"
  by (intro map_of_inject_set [THEN iffD2, THEN fun_cong]) (auto simp: rev_map [symmetric])

text \<open>Whether a table entry is the one its counter needs.\<close>

definition resolves :: "c_wire_mapping_document \<Rightarrow> (u32, mapped_counter) btree \<Rightarrow> c_wire_counter_mapping \<Rightarrow> bool" where
  "resolves m table c \<longleftrightarrow>
     (case bt_get table (cm_event_id c) of
        None \<Rightarrow> False
      | Some e \<Rightarrow>
          mc_counter_id e = cm_counter_id c
          \<and> (case (required_context (cm_subject c), mc_required_wire_context_id e) of
               (None, None) \<Rightarrow> True
             | (Some (ctx, k), Some w) \<Rightarrow>
                 bt_get (mapped_contexts m) w = Some ctx
                 \<and> list_ex (\<lambda>x. xm_context_id x = ctx \<and> xm_wire_context_id x = w \<and> xm_kind x = k) (md_contexts m)
             | _ \<Rightarrow> False))"

lemma check_required_contextD:
  assumes "check_required_context contexts c = Inr ()" and "required_context (cm_subject c) = Some (ctx, k)"
  obtains x where "x \<in> set contexts" and "xm_context_id x = ctx" and "xm_kind x = k"
proof -
  from assms obtain x where "find (\<lambda>x. xm_context_id x = ctx) contexts = Some x" and "xm_kind x = k"
    by (auto simp: check_required_context_def rbind_eq_Inr)
  with that show ?thesis by (auto simp: find_Some_iff dest: nth_mem)
qed

lemma bt_get_distinct:
  assumes "distinct (map fst kvs)" and "(k, v) \<in> set kvs"
  shows "bt_get (bt_of_list kvs) k = Some v"
  using assms by (simp add: bt_get_of_list map_of_rev)

text \<open>One counter, and its entry of the table.\<close>

definition entry_for :: "c_wire_mapping_document \<Rightarrow> c_wire_counter_mapping \<Rightarrow> u32 \<times> mapped_counter \<Rightarrow> bool" where
  "entry_for m c e \<longleftrightarrow>
     fst e = cm_event_id c \<and> mc_counter_id (snd e) = cm_counter_id c
     \<and> (case required_context (cm_subject c) of
          None \<Rightarrow> mc_required_wire_context_id (snd e) = None
        | Some (ctx, k) \<Rightarrow> (\<exists>x\<in>set (md_contexts m). xm_context_id x = ctx \<and> xm_kind x = k
            \<and> mc_required_wire_context_id (snd e) = Some (xm_wire_context_id x)))"

lemma map_counter_entry:
  assumes "distinct (map xm_context_id (md_contexts m))" and "check_required_context (md_contexts m) c = Inr ()"
  shows "\<exists>e. map_counter (contexts_by_id m) c = Inr e \<and> entry_for m c e"
proof (cases "required_context (cm_subject c)")
  case None
  then show ?thesis by (simp add: map_counter_def entry_for_def)
next
  case (Some p)
  then obtain ctx k where p: "required_context (cm_subject c) = Some (ctx, k)" by (cases p) auto
  with assms(2) obtain x where x: "x \<in> set (md_contexts m)" "xm_context_id x = ctx" "xm_kind x = k"
    by (rule check_required_contextD)
  have "bt_get (contexts_by_id m) ctx = Some x"
    unfolding contexts_by_id_def using assms(1) x by (intro bt_get_distinct) (auto simp: comp_def)
  with p x show ?thesis by (auto simp: map_counter_def entry_for_def)
qed

lemma map_counters_entries:
  assumes "distinct (map xm_context_id (md_contexts m))"
    and "\<And>c. c \<in> set cs \<Longrightarrow> check_required_context (md_contexts m) c = Inr ()"
  shows "\<exists>es. (map_counters (contexts_by_id m) cs :: ('e, _) res) = Inr es \<and> list_all2 (entry_for m) cs es"
  using assms(2)
proof (induction cs)
  case (Cons c cs)
  have "check_required_context (md_contexts m) c = Inr ()" using Cons.prems by simp
  from map_counter_entry [OF assms(1) this]
  obtain e where e: "(map_counter (contexts_by_id m) c :: ('e, _) res) = Inr e" "entry_for m c e" by blast
  from Cons.IH Cons.prems obtain es
    where es: "(map_counters (contexts_by_id m) cs :: ('e, _) res) = Inr es" "list_all2 (entry_for m) cs es" by auto
  show ?case by (rule exI [of _ "e # es"]) (simp add: e es)
qed simp

lemma list_all2_entries:
  "list_all2 (entry_for m) cs es \<Longrightarrow> map fst es = map cm_event_id cs"
  by (induction rule: list_all2_induct) (simp_all add: entry_for_def)

text \<open>C26: A validated mapping document resolves every counter: building the tables of the source does not
  panic, each counter's event identifier leads to its own counter, and a stack counter of a task or
  interrupt is tied to the wire context whose name and kind it requires.\<close>
theorem valid_mapping_resolves:
  assumes "validate_mapping m = Inr ()"
  shows "case (mapped_counters m :: ('e, _) res) of
      Inr table \<Rightarrow> list_all (resolves m table) (md_counters m)
    | Inl _ \<Rightarrow> False"
proof -
  from assms have ctxs: "validate_mapped_contexts {} {} (md_contexts m) = Inr ()"
    and cnts: "validate_mapped_counters (md_contexts m) {} {} (md_counters m) = Inr ()"
    by (auto simp: validate_mapping_def rthen_eq_Inr)
  note dx = validate_mapped_contexts_Inr [OF ctxs]
  note dc = validate_mapped_counters_Inr [OF cnts]
  obtain es where es: "(map_counters (contexts_by_id m) (md_counters m) :: ('e, _) res) = Inr es"
      "list_all2 (entry_for m) (md_counters m) es"
    using map_counters_entries [of m "md_counters m"] dx dc by auto
  have "resolves m (bt_of_list es) c" if c: "c \<in> set (md_counters m)" for c
  proof -
    from c obtain i where i: "i < length (md_counters m)" "md_counters m ! i = c" by (auto simp: in_set_conv_nth)
    then have e: "es ! i \<in> set es" "entry_for m c (es ! i)"
      using es(2) by (auto simp: list_all2_conv_all_nth)
    from e(2) have "es ! i = (cm_event_id c, snd (es ! i))" by (simp add: entry_for_def prod_eq_iff)
    with e(1) have "(cm_event_id c, snd (es ! i)) \<in> set es" by simp
    then have "bt_get (bt_of_list es) (cm_event_id c) = Some (snd (es ! i))"
      using dc list_all2_entries [OF es(2)] by (intro bt_get_distinct) simp_all
    moreover have "bt_get (mapped_contexts m) (xm_wire_context_id x) = Some (xm_context_id x)"
      if "x \<in> set (md_contexts m)" for x
      unfolding mapped_contexts_def using dx that by (intro bt_get_distinct) (auto simp: comp_def)
    ultimately show ?thesis
      using e(2) by (auto simp: resolves_def entry_for_def list_ex_iff split: option.splits)
  qed
  with es(1) show ?thesis by (simp add: mapped_counters_def list_all_iff)
qed

definition demo_mapping :: c_wire_mapping_document where
  "demo_mapping =
     \<lparr>md_contexts = [\<lparr>xm_wire_context_id = 7, xm_context_id = ''task-a'', xm_name = ''A'', xm_kind = CWireTask,
        xm_core_id = Some 0, xm_priority = None\<rparr>],
      md_counters = [\<lparr>cm_event_id = 3, cm_counter_id = ''stack-a'', cm_name = ''Stack A'', cm_unit = ''bytes'',
        cm_description = ''used'', cm_semantic = ''vendor.stack_depth'',
        cm_subject = SubStack ''a'' RoleTask (Some ''task-a'') None\<rparr>]\<rparr>"

theorem valid_mapping_resolves_witness:
  "case (mapped_counters demo_mapping :: (unit, _) res) of
      Inr table \<Rightarrow> list_all (resolves demo_mapping table) (md_counters demo_mapping)
    | Inl _ \<Rightarrow> False"
  by (rule valid_mapping_resolves) code_simp

end
