(* ===== verification/Wire_Decoder.thy ===== *)
theory Wire_Decoder
  imports Wire_Bytes Wire_Mapping Clock
begin

unbundle bit_operations_syntax

text \<open>
  The streaming decoder of C SDK wire records (\<open>CWireDecoder\<close> in \<open>t32perf-trace32/src/c_wire.rs\<close>):
  a state with the reader, the limits, the byte offset and the record number. Byte offsets of
  errors lie within bytes that were counted already, so only the counting itself can overflow.
\<close>

record wire_location =
  wl_byte_offset :: u64
  wl_record :: u64

record wire_limits =
  lim_max_payload_bytes :: nat
  lim_max_records :: u64

definition default_wire_limits :: wire_limits where
  "default_wire_limits = \<lparr>lim_max_payload_bytes = 256, lim_max_records = 10000000\<rparr>"

datatype wire_event_kind =
    WireInstant | WireBegin | WireEnd | WireCounter | WireAsyncBegin | WireAsyncEnd | WireDropped

definition wire_event_kind_of :: "u8 \<Rightarrow> wire_event_kind option" where
  "wire_event_kind_of v =
     (if v = 1 then Some WireInstant
      else if v = 2 then Some WireBegin
      else if v = 3 then Some WireEnd
      else if v = 4 then Some WireCounter
      else if v = 5 then Some WireAsyncBegin
      else if v = 6 then Some WireAsyncEnd
      else if v = 7 then Some WireDropped
      else None)"

record c_wire_record =
  cw_kind :: wire_event_kind
  cw_flags :: u16
  cw_sequence :: u32
  cw_timestamp_ticks :: u64
  cw_context_id :: u32
  cw_event_id :: u32
  cw_payload :: "u8 list"

datatype wire_error_kind =
    InvalidLimit
  | InvalidSourceId
  | Io string
  | TruncatedHeader nat
  | TruncatedPayload nat nat
  | RecordLimitExceeded u64
  | InvalidMagic
  | UnsupportedVersion u8 u8
  | UnknownEventKind u8
  | UnsupportedFlags u16
  | ReservedField
  | PayloadTooLarge nat nat
  | InvalidPayloadLength wire_event_kind nat
  | InvalidUtf8
  | CounterPrecisionLoss i64
  | UnmappedCounterEvent u32
  | UnmappedContext u32
  | CounterContextMismatch u32 u32 u32
  | InvalidCounterMapping c_wire_mapping_error
  | SequenceOutOfOrder u32 u32
  | SequenceOverflow
  | WireClock clock_error

datatype wire_error = WireError (we_location: wire_location) (we_kind: wire_error_kind)

definition at_offset :: "wire_location \<Rightarrow> nat \<Rightarrow> wire_location" where
  "at_offset l n = l\<lparr>wl_byte_offset := wl_byte_offset l + word_of_nat n\<rparr>"

subsection \<open>The decoder\<close>

record wire_decoder =
  dc_reader :: reader
  dc_limits :: wire_limits
  dc_byte_offset :: u64
  dc_record :: u64
  dc_finished :: bool

type_synonym 'a dec = "(wire_decoder, wire_error, 'a) se"

definition decoder_new :: "reader \<Rightarrow> wire_limits \<Rightarrow> (wire_error, wire_decoder) res" where
  "decoder_new rd limits =
     (if lim_max_payload_bytes limits = 0 \<or> lim_max_records limits = 0
      then Inl (Err (WireError \<lparr>wl_byte_offset = 0, wl_record = 0\<rparr> InvalidLimit))
      else Inr \<lparr>dc_reader = rd, dc_limits = limits, dc_byte_offset = 0, dc_record = 0, dc_finished = False\<rparr>)"

text \<open>Filling a buffer of \<open>n\<close> bytes; \<open>got\<close> are those read so far.\<close>

function read_loop :: "nat \<Rightarrow> u8 list \<Rightarrow> u64 \<Rightarrow> reader \<Rightarrow> (string, u8 list) res \<times> u64 \<times> reader" where
  "read_loop n got off rd =
     (if n \<le> length got then (Inr got, off, rd)
      else (case reader_read (n - length got) rd of
              (ReadOk bs, rd') \<Rightarrow>
                if bs = [] then (Inr got, off, rd')
                else (case checked_add off (word_of_nat (length bs)) of
                        None \<Rightarrow> (Inl Panic, off, rd')
                      | Some off' \<Rightarrow> read_loop n (got @ bs) off' rd')
            | (ReadInterrupted _, rd') \<Rightarrow> read_loop n got off rd'
            | (ReadErr m, rd') \<Rightarrow> (Inl (Err m), off, rd')))"
  by pat_completeness auto
termination
  by (relation "measure (\<lambda>(n, got, off, rd). reader_size rd)")
    (auto dest!: sym [of "(_, _)"] intro!: reader_read_size)

declare read_loop.simps [simp del]

definition read_part :: "nat \<Rightarrow> wire_location \<Rightarrow> u8 list dec" where
  "read_part n location =
     with_state (\<lambda>d. case read_loop n [] (dc_byte_offset d) (dc_reader d) of
       (r, off, rd) \<Rightarrow>
         followed (modify (\<lambda>d. d\<lparr>dc_reader := rd, dc_byte_offset := off\<rparr>))
           (lift (map_err (\<lambda>m. WireError (location\<lparr>wl_byte_offset := off\<rparr>) (Io m)) r)))"

definition validate_payload_length :: "wire_event_kind \<Rightarrow> nat \<Rightarrow> wire_location \<Rightarrow> (wire_error, unit) res" where
  "validate_payload_length kind actual location =
     ensure
       (case kind of
          WireInstant \<Rightarrow> True | WireBegin \<Rightarrow> True | WireEnd \<Rightarrow> True
        | WireCounter \<Rightarrow> actual = 8 | WireAsyncEnd \<Rightarrow> actual = 8
        | WireAsyncBegin \<Rightarrow> 8 \<le> actual
        | WireDropped \<Rightarrow> actual = 4)
       (WireError (at_offset location 8) (InvalidPayloadLength kind actual))"

text \<open>The checks of a complete header: kind, flags and payload length.\<close>

definition check_header :: "wire_limits \<Rightarrow> wire_location \<Rightarrow> u8 list
    \<Rightarrow> (wire_error, wire_event_kind \<times> u16 \<times> nat) res" where
  "check_header limits start header =
     (let fail = (\<lambda>n k. WireError (at_offset start n) k);
          flags = read_u16 (byte_range 6 8 header);
          unsupported = flags AND NOT 1;
          payload_len = unat (read_u16 (byte_range 8 10 header)) in
      rthen (ensure (byte_range 0 4 header = ascii_bytes ''T3PF'') (fail 0 InvalidMagic))
      (rthen (ensure (header ! 4 = 1) (fail 4 (UnsupportedVersion 1 (header ! 4))))
      (rbind (ok_or (wire_event_kind_of (header ! 5)) (fail 5 (UnknownEventKind (header ! 5)))) (\<lambda>kind.
      rthen (ensure (unsupported = 0) (fail 6 (UnsupportedFlags unsupported)))
      (rthen (ensure (read_u16 (byte_range 10 12 header) = 0) (fail 10 ReservedField))
      (rthen (ensure (\<not> lim_max_payload_bytes limits < payload_len)
               (fail 8 (PayloadTooLarge (lim_max_payload_bytes limits) payload_len)))
      (rthen (validate_payload_length kind payload_len start)
        (Inr (kind, flags, payload_len)))))))))"

definition count_record :: "unit dec" where
  "count_record =
     with_state (\<lambda>d. andthen (lift (add_or_panic (dc_record d) 1)) (\<lambda>n. modify (\<lambda>d. d\<lparr>dc_record := n\<rparr>)))"

definition read_payload :: "wire_location \<Rightarrow> u8 list \<Rightarrow> wire_event_kind \<times> u16 \<times> nat
    \<Rightarrow> c_wire_record option dec" where
  "read_payload start header h =
     (case h of (kind, flags, payload_len) \<Rightarrow>
        andthen (read_part payload_len start) (\<lambda>payload.
          if length payload \<noteq> payload_len
          then throw (WireError (at_offset start (32 + length payload)) (TruncatedPayload payload_len (length payload)))
          else followed count_record
            (ret (Some \<lparr>cw_kind = kind, cw_flags = flags, cw_sequence = read_u32 (byte_range 12 16 header),
                        cw_timestamp_ticks = read_u64 (byte_range 16 24 header),
                        cw_context_id = read_u32 (byte_range 24 28 header),
                        cw_event_id = read_u32 (byte_range 28 32 header), cw_payload = payload\<rparr>))))"

definition mark_finished :: "unit dec" where
  "mark_finished = modify (\<lambda>d. d\<lparr>dc_finished := True\<rparr>)"

text \<open>After the last admitted record only the end of the input is accepted.\<close>

definition probe_end :: "wire_location \<Rightarrow> c_wire_record option dec" where
  "probe_end start =
     with_state (\<lambda>d. case reader_read 1 (dc_reader d) of
       (r, rd) \<Rightarrow>
         followed (modify (\<lambda>d. d\<lparr>dc_reader := rd\<rparr>))
           (case r of
              ReadOk bs \<Rightarrow>
                if bs = [] then followed mark_finished (ret None)
                else throw (WireError start (RecordLimitExceeded (lim_max_records (dc_limits d))))
            | ReadInterrupted m \<Rightarrow> throw (WireError start (Io m))
            | ReadErr m \<Rightarrow> throw (WireError start (Io m))))"

definition read_record :: "wire_location \<Rightarrow> c_wire_record option dec" where
  "read_record start =
     andthen (read_part 32 start) (\<lambda>header.
       if header = [] then followed mark_finished (ret None)
       else if length header \<noteq> 32
       then throw (WireError (at_offset start (length header)) (TruncatedHeader (length header)))
       else with_state (\<lambda>d. andthen (lift (check_header (dc_limits d) start header))
              (read_payload start header)))"

definition next_record :: "c_wire_record option dec" where
  "next_record =
     with_state (\<lambda>d.
       let start = \<lparr>wl_byte_offset = dc_byte_offset d, wl_record = dc_record d\<rparr> in
       if dc_finished d then ret None
       else if lim_max_records (dc_limits d) \<le> dc_record d then probe_end start
       else read_record start)"

subsection \<open>The loop that fills a buffer\<close>

text \<open>Every byte is counted once, so counting cannot overflow while fewer than 2^64 bytes are
  delivered; and no more bytes are taken than the buffer holds.\<close>

lemma checked_add_length:
  assumes "unat (off :: u64) + length bs < 2 ^ 64"
  obtains off' where "checked_add off (word_of_nat (length bs)) = Some off'" and "unat off' = unat off + length bs"
proof -
  have "unat (word_of_nat (length bs) :: u64) = length bs"
    using assms by (simp add: unsigned_of_nat take_bit_nat_eq_self)
  with assms that show ?thesis by (simp add: checked_add_unat unat_add_lt)
qed

lemma read_loop_counts:
  assumes "unat off + length (contents rd) < 2 ^ 64" and "read_loop n got off rd = (r, off', rd')"
  shows "r \<noteq> Inl Panic" and "unat off' + length (contents rd') = unat off + length (contents rd)"
    and "length (contents rd') \<le> length (contents rd)"
    and "r = Inr bs \<Longrightarrow> length bs + length (contents rd') = length got + length (contents rd)
          \<and> length bs \<le> max n (length got)"
proof -
  have "r \<noteq> Inl Panic \<and> unat off' + length (contents rd') = unat off + length (contents rd)
      \<and> length (contents rd') \<le> length (contents rd)
      \<and> (\<forall>bs. r = Inr bs \<longrightarrow> length bs + length (contents rd') = length got + length (contents rd)
            \<and> length bs \<le> max n (length got))"
    using assms
  proof (induction n got off rd rule: read_loop.induct)
    case (1 n got off rd)
    obtain q rd1 where q: "reader_read (n - length got) rd = (q, rd1)" by fastforce
    note c = reader_read_contents [OF q]
    show ?case
    proof (cases "n \<le> length got")
      case True
      with "1.prems" show ?thesis by (auto simp: read_loop.simps [of n got])
    next
      case more: False
      show ?thesis
      proof (cases q)
        case (ReadOk bs)
        show ?thesis
        proof (cases "bs = []")
          case True
          with "1.prems" more q ReadOk c show ?thesis by (auto simp: read_loop.simps [of n got])
        next
          case False
          from c ReadOk "1.prems"(1) have "unat off + length bs < 2 ^ 64" by simp
          from checked_add_length [OF this] obtain off1
            where off1: "checked_add off (word_of_nat (length bs)) = Some off1" "unat off1 = unat off + length bs" .
          have "read_loop n got off rd = read_loop n (got @ bs) off1 rd1"
            using more q ReadOk False off1 by (simp add: read_loop.simps [of n got])
          moreover have "unat off1 + length (contents rd1) < 2 ^ 64" using "1.prems"(1) c ReadOk off1 by simp
          ultimately show ?thesis
            using "1.IH"(1) [OF more q [symmetric] ReadOk False off1(1)] "1.prems"(2) c ReadOk off1 more
            by (auto simp: max_def split: if_splits)
        qed
      next
        case (ReadInterrupted m)
        then have "read_loop n got off rd = read_loop n got off rd1" using more q by (simp add: read_loop.simps [of n got])
        with "1.IH"(2) [OF more q [symmetric] ReadInterrupted] "1.prems" c ReadInterrupted show ?thesis by simp
      next
        case (ReadErr m)
        with more q "1.prems" c show ?thesis by (auto simp: read_loop.simps [of n got])
      qed
    qed
  qed
  then show "r \<noteq> Inl Panic" "unat off' + length (contents rd') = unat off + length (contents rd)"
    "length (contents rd') \<le> length (contents rd)"
    "r = Inr bs \<Longrightarrow> length bs + length (contents rd') = length got + length (contents rd) \<and> length bs \<le> max n (length got)"
    by blast+
qed

text \<open>On a plain reader the loop takes the next bytes, however they are chunked.\<close>

lemma read_loop_plain:
  assumes "plain rd" and "unat off + length (contents rd) < 2 ^ 64" and "length got \<le> n"
  obtains off' rd' where "read_loop n got off rd = (Inr (got @ take (n - length got) (contents rd)), off', rd')"
    and "plain rd'" and "contents rd' = drop (n - length got) (contents rd)"
    and "unat off' = unat off + min (n - length got) (length (contents rd))"
proof -
  have "\<exists>off' rd'. read_loop n got off rd = (Inr (got @ take (n - length got) (contents rd)), off', rd') \<and> plain rd'
      \<and> contents rd' = drop (n - length got) (contents rd)
      \<and> unat off' = unat off + min (n - length got) (length (contents rd))"
    using assms
  proof (induction n got off rd rule: read_loop.induct)
    case (1 n got off rd)
    obtain q rd1 where q: "reader_read (n - length got) rd = (q, rd1)" by fastforce
    show ?case
    proof (cases "n \<le> length got")
      case True
      with "1.prems" show ?thesis by (auto simp: read_loop.simps [of n got])
    next
      case more: False
      then have "0 < n - length got" by simp
      from reader_read_plain [OF "1.prems"(1) this q] obtain bs where
        bs: "q = ReadOk bs" "contents rd = bs @ contents rd1" "length bs \<le> n - length got"
          "bs = [] \<longleftrightarrow> contents rd = []" "plain rd1" .
      show ?thesis
      proof (cases "bs = []")
        case True
        with bs more q show ?thesis by (auto simp: read_loop.simps [of n got])
      next
        case False
        from bs "1.prems"(2) have "unat off + length bs < 2 ^ 64" by simp
        from checked_add_length [OF this] obtain off1
          where off1: "checked_add off (word_of_nat (length bs)) = Some off1" "unat off1 = unat off + length bs" .
        have "read_loop n got off rd = read_loop n (got @ bs) off1 rd1"
          using more q bs(1) False off1 by (simp add: read_loop.simps [of n got])
        moreover have "unat off1 + length (contents rd1) < 2 ^ 64" "length (got @ bs) \<le> n"
          using "1.prems"(2) bs off1 more by simp_all
        ultimately show ?thesis
          using "1.IH"(1) [OF more q [symmetric] bs(1) False off1(1) bs(5)] bs off1
          by (auto simp: min_def)
      qed
    qed
  qed
  with that show ?thesis by blast
qed

subsection \<open>Records\<close>

definition decoder_ok :: "wire_decoder \<Rightarrow> bool" where
  "decoder_ok d \<longleftrightarrow> unat (dc_byte_offset d) + length (contents (dc_reader d)) < 2 ^ 64"

text \<open>The bytes a decoder has not read.\<close>

abbreviation left_bytes :: "wire_decoder \<Rightarrow> nat" where
  "left_bytes d \<equiv> length (contents (dc_reader d))"

text \<open>Reading takes bytes from the reader and counts them, nothing else.\<close>

definition reads :: "wire_decoder \<Rightarrow> wire_decoder \<Rightarrow> bool" where
  "reads d d' \<longleftrightarrow>
     dc_limits d' = dc_limits d \<and> left_bytes d' \<le> left_bytes d
     \<and> unat (dc_byte_offset d') + left_bytes d' \<le> unat (dc_byte_offset d) + left_bytes d"

lemma reads_ok: "decoder_ok d \<Longrightarrow> reads d d' \<Longrightarrow> decoder_ok d'"
  by (simp add: decoder_ok_def reads_def)

lemma read_part_counts:
  assumes "decoder_ok d" and "read_part n l d = (r, d')"
  shows "r \<noteq> Inl Panic" and "reads d d'" and "dc_record d' = dc_record d" and "dc_finished d' = dc_finished d"
    and "r = Inr bs \<Longrightarrow> length bs + left_bytes d' = left_bytes d \<and> length bs \<le> n"
proof -
  obtain q off rd where q: "read_loop n [] (dc_byte_offset d) (dc_reader d) = (q, off, rd)"
    by (metis prod_cases3)
  have ok: "unat (dc_byte_offset d) + length (contents (dc_reader d)) < 2 ^ 64"
    using assms(1) by (simp add: decoder_ok_def)
  note counts = read_loop_counts [OF ok q]
  from assms(2) q have d': "d' = d\<lparr>dc_reader := rd, dc_byte_offset := off\<rparr>"
    and r: "r = map_err (\<lambda>m. WireError (l\<lparr>wl_byte_offset := off\<rparr>) (Io m)) q"
    by (auto simp: read_part_def se_defs)
  show "r \<noteq> Inl Panic" using counts(1) r by (simp add: map_err_Panic)
  show "reads d d'" "dc_record d' = dc_record d" "dc_finished d' = dc_finished d"
    "r = Inr bs \<Longrightarrow> length bs + left_bytes d' = left_bytes d \<and> length bs \<le> n"
    using counts(2-4) d' r by (auto simp: reads_def)
qed

lemma check_header_Inr:
  "check_header limits start header = Inr (kind, flags, n) \<longleftrightarrow>
     byte_range 0 4 header = ascii_bytes ''T3PF'' \<and> header ! 4 = 1 \<and> wire_event_kind_of (header ! 5) = Some kind
     \<and> flags = read_u16 (byte_range 6 8 header) \<and> flags AND NOT 1 = 0 \<and> read_u16 (byte_range 10 12 header) = 0
     \<and> n = unat (read_u16 (byte_range 8 10 header)) \<and> n \<le> lim_max_payload_bytes limits
     \<and> validate_payload_length kind n start = Inr ()"
  by (auto simp: check_header_def Let_def rthen_eq_Inr rbind_eq_Inr not_less)

lemma check_header_Panic: "check_header limits start header \<noteq> Inl Panic"
  by (auto simp: check_header_def Let_def panic_simps validate_payload_length_def)

lemma payload_length_any:
  "validate_payload_length kind n l = Inr () \<longleftrightarrow> validate_payload_length kind n l' = Inr ()"
  by (simp only: validate_payload_length_def ensure_eq_Inr)

text \<open>One call: no panic, and a record was taken from 32 bytes of header and its payload.\<close>

lemma next_record_counts:
  assumes "decoder_ok d" and "next_record d = (r, d')"
  shows "r \<noteq> Inl Panic" and "reads d d'"
    and "r = Inr (Some w) \<Longrightarrow> left_bytes d' + 32 + length (cw_payload w) = left_bytes d
          \<and> unat (dc_record d') = unat (dc_record d) + 1 \<and> dc_finished d' = dc_finished d
          \<and> validate_payload_length (cw_kind w) (length (cw_payload w)) l = Inr ()"
proof -
  let ?start = "\<lparr>wl_byte_offset = dc_byte_offset d, wl_record = dc_record d\<rparr>"
  let ?goal = "r \<noteq> Inl Panic \<and> reads d d' \<and> (\<forall>w. r = Inr (Some w) \<longrightarrow>
      left_bytes d' + 32 + length (cw_payload w) = left_bytes d \<and> unat (dc_record d') = unat (dc_record d) + 1
      \<and> dc_finished d' = dc_finished d \<and> validate_payload_length (cw_kind w) (length (cw_payload w)) l = Inr ())"
  consider (finished) "dc_finished d" | (limit) "\<not> dc_finished d" "lim_max_records (dc_limits d) \<le> dc_record d"
    | (more) "\<not> dc_finished d" "dc_record d < lim_max_records (dc_limits d)" by fastforce
  then have ?goal
  proof cases
    case finished
    with assms(2) show ?thesis by (auto simp: next_record_def se_defs reads_def)
  next
    case limit
    obtain q rd where q: "reader_read 1 (dc_reader d) = (q, rd)" by fastforce
    from reader_read_contents(1) [OF q] have "length (contents rd) \<le> left_bytes d" by simp
    with limit q assms(2) show ?thesis
      by (cases q) (auto simp: next_record_def probe_end_def mark_finished_def se_defs reads_def Let_def split: if_splits)
  next
    case more
    obtain q1 d1 where q1: "read_part 32 ?start d = (q1, d1)" by fastforce
    note h = read_part_counts [OF assms(1) q1]
    have run: "(r, d') = andthen (lift q1) (\<lambda>header.
       if header = [] then followed mark_finished (ret None)
       else if length header \<noteq> 32
       then throw (WireError (at_offset ?start (length header)) (TruncatedHeader (length header)))
       else with_state (\<lambda>d. andthen (lift (check_header (dc_limits d) ?start header))
              (read_payload ?start header))) d1"
      using more q1 assms(2)
      by (simp add: next_record_def read_record_def with_state_def andthen_def lift_def Let_def not_le [symmetric])
    show ?thesis
    proof (cases q1)
      case (Inl e)
      with run h show ?thesis by (auto simp: se_defs)
    next
      case (Inr header)
      note hdr = h(5) [OF Inr]
      show ?thesis
      proof (cases "length header = 32")
        case False
        with run Inr h(2) show ?thesis
          by (cases "header = []") (auto simp: mark_finished_def se_defs reads_def)
      next
        case True
        then have "header \<noteq> []" by auto
        show ?thesis
        proof (cases "check_header (dc_limits d1) ?start header")
          case (Inl e)
          with True \<open>header \<noteq> []\<close> run Inr h check_header_Panic [of "dc_limits d1" ?start header] show ?thesis
            by (auto simp: se_defs)
        next
          case hd: (Inr x)
          obtain kind flags n where x: "x = (kind, flags, n)" by (metis prod_cases3)
          obtain q2 d2 where q2: "read_part n ?start d1 = (q2, d2)" by fastforce
          have "decoder_ok d1" using assms(1) h(2) by (rule reads_ok)
          note p = read_part_counts [OF this q2]
          have run2: "(r, d') = andthen (lift q2) (\<lambda>payload.
              if length payload \<noteq> n
              then throw (WireError (at_offset ?start (32 + length payload)) (TruncatedPayload n (length payload)))
              else followed count_record
                (ret (Some \<lparr>cw_kind = kind, cw_flags = flags, cw_sequence = read_u32 (byte_range 12 16 header),
                        cw_timestamp_ticks = read_u64 (byte_range 16 24 header),
                        cw_context_id = read_u32 (byte_range 24 28 header),
                        cw_event_id = read_u32 (byte_range 28 32 header), cw_payload = payload\<rparr>))) d2"
            using run Inr True \<open>header \<noteq> []\<close> hd x q2
            by (simp add: read_payload_def with_state_def andthen_def lift_def)
          have rd: "reads d d2" using h(2) p(2) by (auto simp: reads_def)
          obtain m where m: "checked_add (dc_record d) 1 = Some m" "unat m = unat (dc_record d) + 1"
          proof -
            have "unat (dc_record d) + unat (1 :: u64) < 2 ^ 64"
              using more(2) unat_u64_less [of "lim_max_records (dc_limits d)"] by (simp add: word_less_nat_alt)
            with that show ?thesis by (simp add: checked_add_unat unat_add_lt)
          qed
          have recs: "dc_record d2 = dc_record d" "dc_finished d2 = dc_finished d" using h p by simp_all
          have valid: "validate_payload_length kind n l = Inr ()"
            using hd unfolding x check_header_Inr using payload_length_any [of kind n ?start l] by blast
          show ?thesis
          proof (cases q2)
            case (Inl e)
            with run2 p(1) rd show ?thesis by (auto simp: se_defs)
          next
            case (Inr payload)
            with run2 rd recs m valid p(5) [OF Inr] hdr True show ?thesis
              by (auto simp: count_record_def add_or_panic_def expect_def se_defs reads_def split: if_splits)
          qed
        qed
      qed
    qed
  qed
  then show "r \<noteq> Inl Panic" "reads d d'"
    "r = Inr (Some w) \<Longrightarrow> left_bytes d' + 32 + length (cw_payload w) = left_bytes d
          \<and> unat (dc_record d') = unat (dc_record d) + 1 \<and> dc_finished d' = dc_finished d
          \<and> validate_payload_length (cw_kind w) (length (cw_payload w)) l = Inr ()"
    by blast+
qed

end
