(* ===== verification/Wire_Source.thy ===== *)
theory Wire_Source
  imports Wire_Decoder Merge
begin

text \<open>
  C SDK records as observations (\<open>CWireObservationSource\<close> in \<open>t32perf-trace32/src/c_wire.rs\<close>): the
  expansion of the 32-bit sequence, the mapping of a record to an observation, and the gaps the
  source inserts where records are missing.
\<close>

record c_wire_config =
  wc_source_id :: string
  wc_core_id :: u32
  wc_clock :: clock_domain_spec
  wc_origin_ticks :: "u64 option"
  wc_origin_ns :: i64
  wc_limits :: wire_limits

record mapped_contract =
  ct_counters :: "(u32, mapped_counter) btree"
  ct_contexts :: "(u32, string) btree"
  ct_dictionary :: observation_dictionary

record wire_source =
  ws_descriptor :: source_descriptor
  ws_decoder :: wire_decoder
  ws_normalizer :: normalizer
  ws_core_id :: u32
  ws_counter_mappings :: "(u32, mapped_counter) btree option"
  ws_context_mappings :: "(u32, string) btree option"
  ws_dictionary :: "observation_dictionary option"
  ws_last_raw_sequence :: "u32 option"
  ws_sequence_epoch :: u64
  ws_pending :: "ordered_observation option"
  ws_finished :: bool

type_synonym 'a ws = "(wire_source, wire_error, 'a) se"

definition start_location :: wire_location where
  "start_location = \<lparr>wl_byte_offset = 0, wl_record = 0\<rparr>"

definition wire_source_new_inner :: "reader \<Rightarrow> c_wire_config \<Rightarrow> mapped_contract option
    \<Rightarrow> (wire_error, wire_source) res" where
  "wire_source_new_inner rd cfg mapping =
     rthen (ensure (wc_source_id cfg \<noteq> []) (WireError start_location InvalidSourceId))
     (rbind (map_err (\<lambda>e. WireError start_location (WireClock e))
               (normalizer_new (wc_clock cfg) (wc_origin_ticks cfg) (wc_origin_ns cfg))) (\<lambda>nz.
     rbind (decoder_new rd (wc_limits cfg)) (\<lambda>d.
       Inr \<lparr>ws_descriptor = \<lparr>sd_source_id = wc_source_id cfg, sd_clock_domain = cd_id (nz_domain nz)\<rparr>,
            ws_decoder = d, ws_normalizer = nz, ws_core_id = wc_core_id cfg,
            ws_counter_mappings = map_option ct_counters mapping,
            ws_context_mappings = map_option ct_contexts mapping,
            ws_dictionary = map_option ct_dictionary mapping,
            ws_last_raw_sequence = None, ws_sequence_epoch = 0, ws_pending = None, ws_finished = False\<rparr>)))"

definition wire_source_new :: "reader \<Rightarrow> c_wire_config \<Rightarrow> (wire_error, wire_source) res" where
  "wire_source_new rd cfg = wire_source_new_inner rd cfg None"

definition wire_source_new_with_mapping :: "reader \<Rightarrow> c_wire_config \<Rightarrow> string \<Rightarrow> c_wire_mapping_document
    \<Rightarrow> (wire_error, wire_source) res" where
  "wire_source_new_with_mapping rd cfg session_id m =
     (let invalid = (\<lambda>e. WireError start_location (InvalidCounterMapping e)) in
      rthen (map_err invalid (validate_mapping m))
      (rthen (map_err invalid (validate_core_affinity (wc_core_id cfg) (md_contexts m)))
      (rbind (map_err (\<lambda>e. invalid (InvalidDictionary e)) (mapping_dictionary session_id m)) (\<lambda>d.
      rbind (mapped_counters m) (\<lambda>counters.
        wire_source_new_inner rd cfg
          (Some \<lparr>ct_counters = counters, ct_contexts = mapped_contexts m, ct_dictionary = d\<rparr>))))))"

subsection \<open>Sequence expansion\<close>

definition expand_sequence :: "u32 \<Rightarrow> wire_location \<Rightarrow> (u64 \<times> u32) ws" where
  "expand_sequence raw location =
     with_state (\<lambda>s. case ws_last_raw_sequence s of
       None \<Rightarrow>
         followed (modify (\<lambda>s. s\<lparr>ws_last_raw_sequence := Some raw\<rparr>)) (ret (ucast raw, 0))
     | Some previous \<Rightarrow>
         (let expected = previous + 1; missing = raw - expected in
          if raw \<noteq> expected \<and> 0x80000000 \<le> missing
          then throw (WireError location (SequenceOutOfOrder previous raw))
          else followed
            (when_se (raw < previous)
              (with_state (\<lambda>s.
                andthen (lift (ok_or (checked_add (ws_sequence_epoch s) (2 ^ 32)) (WireError location SequenceOverflow)))
                  (\<lambda>e. modify (\<lambda>s. s\<lparr>ws_sequence_epoch := e\<rparr>)))))
            (with_state (\<lambda>s.
              andthen (lift (ok_or (checked_add (ws_sequence_epoch s) (ucast raw)) (WireError location SequenceOverflow)))
                (\<lambda>expanded.
                  followed (modify (\<lambda>s. s\<lparr>ws_last_raw_sequence := Some raw\<rparr>)) (ret (expanded, missing)))))))"

definition normalized_sequence :: "u64 \<Rightarrow> wire_location \<Rightarrow> (wire_error, u64) res" where
  "normalized_sequence expanded location =
     ok_or (case checked_mul expanded 2 of None \<Rightarrow> None | Some v \<Rightarrow> checked_add v 1)
       (WireError location SequenceOverflow)"

subsection \<open>Mapping a record\<close>

definition payload_string :: "u8 list \<Rightarrow> wire_location \<Rightarrow> nat \<Rightarrow> (wire_error, string) res" where
  "payload_string payload location payload_offset =
     (case utf8_invalid_at 0 payload of
        None \<Rightarrow> Inr (chars payload)
      | Some n \<Rightarrow> Inl (Err (WireError (at_offset location (32 + payload_offset + n)) InvalidUtf8)))"

definition require_payload :: "c_wire_record \<Rightarrow> nat \<Rightarrow> wire_location \<Rightarrow> (wire_error, unit) res" where
  "require_payload w expected location =
     ensure (length (cw_payload w) = expected)
       (WireError location (InvalidPayloadLength (cw_kind w) (length (cw_payload w))))"

definition context_of_record :: "wire_source \<Rightarrow> c_wire_record \<Rightarrow> wire_location \<Rightarrow> (wire_error, string) res" where
  "context_of_record s w location =
     (case ws_context_mappings s of
        Some contexts \<Rightarrow>
          ok_or (bt_get contexts (cw_context_id w)) (WireError location (UnmappedContext (cw_context_id w)))
      | None \<Rightarrow> Inr (''context:'' @ dec (uint (cw_context_id w))))"

definition counter_of_record :: "wire_source \<Rightarrow> c_wire_record \<Rightarrow> wire_location \<Rightarrow> (wire_error, string) res" where
  "counter_of_record s w location =
     (case ws_counter_mappings s of
        Some counters \<Rightarrow>
          rbind (ok_or (bt_get counters (cw_event_id w)) (WireError location (UnmappedCounterEvent (cw_event_id w))))
            (\<lambda>m. case mc_required_wire_context_id m of
               Some expected \<Rightarrow>
                 rthen (ensure (cw_context_id w = expected)
                     (WireError location (CounterContextMismatch (cw_event_id w) expected (cw_context_id w))))
                   (Inr (mc_counter_id m))
             | None \<Rightarrow> Inr (mc_counter_id m))
      | None \<Rightarrow> Inr (''counter:'' @ dec (uint (cw_event_id w))))"

definition event_id_args :: "c_wire_record \<Rightarrow> properties" where
  "event_id_args w = [(''event_id'', j_u32 (cw_event_id w))]"

definition map_event :: "wire_source \<Rightarrow> c_wire_record \<Rightarrow> i64 \<Rightarrow> string \<Rightarrow> wire_location
    \<Rightarrow> (wire_error, observation_event) res" where
  "map_event s w ts ctx location =
     (let core = Some (ws_core_id s);
          context = Some ctx;
          span = ''event:'' @ dec (uint (cw_event_id w));
          payload = cw_payload w in
      case cw_kind w of
        WireInstant \<Rightarrow>
          rbind (payload_string payload location 0) (\<lambda>n. Inr (Instant ts core context n (event_id_args w)))
      | WireBegin \<Rightarrow>
          rbind (payload_string payload location 0) (\<lambda>n. Inr (SpanBegin ts core context span n []))
      | WireEnd \<Rightarrow>
          rbind (payload_string payload location 0) (\<lambda>n.
            Inr (SpanEnd ts core context span (if n = [] then [] else [(''name'', JStr n)])))
      | WireCounter \<Rightarrow>
          rthen (require_payload w 8 location)
            (let v = I64 (read_u64 payload) in
             rthen (ensure (\<bar>ival v\<bar> \<le> 2 ^ 53) (WireError location (CounterPrecisionLoss v)))
               (rbind (counter_of_record s w location) (\<lambda>c.
                 Inr (Counter ts core context c (f64_of_int (ival v)) []))))
      | WireAsyncBegin \<Rightarrow>
          rthen (ensure (8 \<le> length payload)
                  (WireError location (InvalidPayloadLength (cw_kind w) (length payload))))
            (rbind (payload_string (drop 8 payload) location 8) (\<lambda>n.
              Inr (AsyncBegin ts core context (''correlation:'' @ dec (uint (read_u64 payload))) n
                     (event_id_args w))))
      | WireAsyncEnd \<Rightarrow>
          rthen (require_payload w 8 location)
            (Inr (AsyncEnd ts core context (''correlation:'' @ dec (uint (read_u64 payload))) (event_id_args w)))
      | WireDropped \<Rightarrow>
          rthen (require_payload w 4 location)
            (Inr (TraceGap ts 0 (''sdk_reported_drop:'' @ dec (uint (read_u32 payload))))))"

definition map_record :: "wire_source \<Rightarrow> c_wire_record \<Rightarrow> i64 \<Rightarrow> u64 \<Rightarrow> wire_location
    \<Rightarrow> (wire_error, ordered_observation) res" where
  "map_record s w ts source_seq location =
     rbind (context_of_record s w location) (\<lambda>ctx.
     rbind (map_event s w ts ctx location) (\<lambda>event.
       Inr (unordered (new_observation (sd_source_id (ws_descriptor s)) source_seq
         (if cw_kind w = WireDropped then QInferred else QExact) event))))"

subsection \<open>Reading\<close>

definition on_decoder :: "'a dec \<Rightarrow> 'a ws" where
  "on_decoder m s = (case m (ws_decoder s) of (r, d) \<Rightarrow> (r, s\<lparr>ws_decoder := d\<rparr>))"

definition normalize_ticks :: "u64 \<Rightarrow> wire_location \<Rightarrow> i64 ws" where
  "normalize_ticks ticks location s =
     (case normalizer_normalize ticks (ws_normalizer s) of
        (r, nz) \<Rightarrow> (map_err (\<lambda>e. WireError location (WireClock e)) r, s\<lparr>ws_normalizer := nz\<rparr>))"

fun join_with :: "string \<Rightarrow> string list \<Rightarrow> string" where
  "join_with sep [] = []"
| "join_with sep [x] = x"
| "join_with sep (x # xs) = x @ sep @ join_with sep xs"

definition gap_reason :: "u32 \<Rightarrow> bool \<Rightarrow> string" where
  "gap_reason missing dropped =
     join_with ''+''
       ((if missing \<noteq> 0 then [''source_sequence_loss:'' @ dec (uint missing)] else [])
        @ (if dropped then [''sdk_dropped_since_last''] else []))"

definition gap_before :: "wire_source \<Rightarrow> u64 \<Rightarrow> i64 \<Rightarrow> u32 \<Rightarrow> bool \<Rightarrow> ordered_observation" where
  "gap_before s source_seq ts missing dropped =
     unordered (new_observation (sd_source_id (ws_descriptor s)) (source_seq - 1) QInferred
       (TraceGap ts 0 (gap_reason missing dropped)))"

text \<open>Where the record that was just decoded begins.\<close>

definition record_location :: "wire_decoder \<Rightarrow> c_wire_record \<Rightarrow> wire_location" where
  "record_location d w =
     \<lparr>wl_byte_offset = dc_byte_offset d - word_of_nat (length (cw_payload w)) - 32, wl_record = dc_record d - 1\<rparr>"

definition emit_record :: "c_wire_record \<Rightarrow> u32 \<Rightarrow> i64 \<Rightarrow> u64 \<Rightarrow> ordered_observation
    \<Rightarrow> ordered_observation option ws" where
  "emit_record w missing ts source_seq actual =
     (let dropped = (cw_flags w AND 1 \<noteq> 0) in
      if cw_kind w = WireDropped then ret (Some actual)
      else if missing \<noteq> 0 \<or> dropped
      then with_state (\<lambda>s. followed (modify (\<lambda>s. s\<lparr>ws_pending := Some actual\<rparr>))
             (ret (Some (gap_before s source_seq ts missing dropped))))
      else ret (Some actual))"

definition read_record_from :: "c_wire_record \<Rightarrow> wire_location \<Rightarrow> ordered_observation option ws" where
  "read_record_from w location =
     andthen (normalize_ticks (cw_timestamp_ticks w) location) (\<lambda>ts.
     andthen (expand_sequence (cw_sequence w) location) (\<lambda>(expanded, missing).
     andthen (lift (normalized_sequence expanded location)) (\<lambda>source_seq.
     with_state (\<lambda>s.
     andthen (lift (map_record s w ts source_seq location)) (\<lambda>actual.
       emit_record w missing ts source_seq actual)))))"

definition read_next :: "ordered_observation option ws" where
  "read_next =
     with_state (\<lambda>s. case ws_pending s of
       Some pending \<Rightarrow> followed (modify (\<lambda>s. s\<lparr>ws_pending := None\<rparr>)) (ret (Some pending))
     | None \<Rightarrow>
         andthen (on_decoder next_record) (\<lambda>w. case w of
           None \<Rightarrow> ret None
         | Some w \<Rightarrow> with_state (\<lambda>s. read_record_from w (record_location (ws_decoder s) w))))"

definition wire_next :: "(wire_source, wire_error source_error) source_next" where
  "wire_next s =
     (if ws_finished s then (Inr None, s)
      else (case read_next s of
              (Inr (Some r), s') \<Rightarrow> (Inr (Some r), s')
            | (Inr None, s') \<Rightarrow> (Inr None, s'\<lparr>ws_finished := True\<rparr>)
            | (Inl e, s') \<Rightarrow> (map_err SourceFrom (Inl e), s'\<lparr>ws_finished := True\<rparr>)))"

subsection \<open>Sequence expansion is exact\<close>

text \<open>The expanded value of the last sequence that was accepted.\<close>

definition expanded_last :: "wire_source \<Rightarrow> nat option" where
  "expanded_last s = map_option (\<lambda>r. unat (ws_sequence_epoch s) + unat r) (ws_last_raw_sequence s)"

definition epoch_ok :: "wire_source \<Rightarrow> bool" where
  "epoch_ok s \<longleftrightarrow>
     2 ^ 32 dvd unat (ws_sequence_epoch s) \<and> (ws_last_raw_sequence s = None \<longrightarrow> ws_sequence_epoch s = 0)"

lemma unat_u32_less: "unat (x :: u32) < 2 ^ 32"
proof -
  have "unat x < 2 ^ LENGTH(32)" by (rule unsigned_less)
  then show ?thesis by simp
qed

lemma unat_ucast_u32 [simp]: "unat (ucast (x :: u32) :: u64) = unat x"
proof -
  have "unat x < 2 ^ 64" using unat_u32_less [of x] by simp
  then show ?thesis by (simp add: unsigned_ucast_eq take_bit_nat_eq_self)
qed

text \<open>The distance of two sequences, by whether the counter wrapped between them.\<close>

lemma raw_distance:
  fixes raw prev :: u32
  defines "missing \<equiv> raw - (prev + 1)"
  assumes "raw = prev + 1 \<or> missing < 0x80000000"
  shows "unat missing < 2 ^ 31"
    and "unat raw + (if raw < prev then 2 ^ 32 else 0) = unat prev + 1 + unat missing"
proof -
  have m: "uint missing = (uint raw - uint prev - 1) mod 4294967296"
    by (simp add: missing_def uint_word_ariths mod_diff_right_eq diff_diff_eq add.commute)
  have "uint raw < 2 ^ LENGTH(32)" "uint prev < 2 ^ LENGTH(32)" by (rule uint_bounded)+
  then have bounds: "uint raw < 4294967296" "uint prev < 4294967296" "0 \<le> uint raw" "0 \<le> uint prev" by simp_all
  from assms(2) have "missing < 0x80000000" by (auto simp: missing_def)
  then have lt: "uint missing < 2147483648" by (simp add: word_less_def)
  then have "int (unat missing) < int (2 ^ 31)" by simp
  then show "unat missing < 2 ^ 31" by (simp only: of_nat_less_iff)
  have "uint raw + (if raw < prev then 4294967296 else 0) = uint prev + 1 + uint missing"
  proof (cases "raw < prev")
    case True
    then have "uint raw < uint prev" by (simp add: word_less_def)
    then have "(uint raw - uint prev - 1 + 4294967296) mod 4294967296 = uint raw - uint prev - 1 + 4294967296"
      using bounds by (intro mod_pos_pos_trivial) linarith+
    then have "uint missing = uint raw - uint prev - 1 + 4294967296" unfolding m mod_add_self2 .
    with True show ?thesis by simp
  next
    case False
    then have "uint prev \<le> uint raw" by (simp add: word_le_def not_less)
    moreover have "uint prev \<noteq> uint raw" using m lt by auto
    ultimately have "(uint raw - uint prev - 1) mod 4294967296 = uint raw - uint prev - 1"
      using bounds by (intro mod_pos_pos_trivial) linarith+
    with m False show ?thesis by simp
  qed
  then have "int (unat raw + (if raw < prev then 2 ^ 32 else 0)) = int (unat prev + 1 + unat missing)"
    by (cases "raw < prev") simp_all
  then show "unat raw + (if raw < prev then 2 ^ 32 else 0) = unat prev + 1 + unat missing"
    by (simp only: of_nat_eq_iff)
qed

lemma expand_sequence_Inr:
  assumes "expand_sequence raw l s = (Inr (x, missing), s')" and "epoch_ok s"
  shows "epoch_ok s'" and "expanded_last s' = Some (unat x)" and "unat x mod 2 ^ 32 = unat raw"
    and "expanded_last s = Some p \<Longrightarrow> unat x = p + 1 + unat missing \<and> unat missing < 2 ^ 31"
    and "expanded_last s = None \<Longrightarrow> missing = 0"
    and "\<exists>e. s' = s\<lparr>ws_sequence_epoch := e, ws_last_raw_sequence := Some raw\<rparr>"
proof -
  have raw32: "unat raw < 2 ^ 32" by (rule unat_u32_less)
  have "epoch_ok s' \<and> expanded_last s' = Some (unat x) \<and> unat x mod 2 ^ 32 = unat raw
      \<and> (\<forall>p. expanded_last s = Some p \<longrightarrow> unat x = p + 1 + unat missing \<and> unat missing < 2 ^ 31)
      \<and> (expanded_last s = None \<longrightarrow> missing = 0)
      \<and> (\<exists>e. s' = s\<lparr>ws_sequence_epoch := e, ws_last_raw_sequence := Some raw\<rparr>)"
  proof (cases "ws_last_raw_sequence s")
    case None
    with assms have "x = ucast raw" "missing = 0" "s' = s\<lparr>ws_last_raw_sequence := Some raw\<rparr>" "ws_sequence_epoch s = 0"
      by (auto simp: expand_sequence_def se_defs epoch_ok_def)
    with None assms(2) raw32 show ?thesis
      by (auto simp: epoch_ok_def expanded_last_def intro!: exI [of _ 0])
  next
    case (Some prev)
    let ?m = "raw - (prev + 1)"
    let ?bump = "if raw < prev then 2 ^ 32 else 0 :: nat"
    from assms(1) Some have near: "raw = prev + 1 \<or> ?m < 0x80000000" and m: "missing = ?m"
      by (auto simp: expand_sequence_def se_defs Let_def not_le split: if_splits prod.splits sum.splits)
    from assms(1) Some obtain e where e: "unat e = unat (ws_sequence_epoch s) + ?bump"
      and x: "unat x = unat e + unat raw"
      and s': "s' = s\<lparr>ws_sequence_epoch := e, ws_last_raw_sequence := Some raw\<rparr>"
      by (auto simp: expand_sequence_def se_defs Let_def checked_add_Some split: if_splits prod.splits sum.splits)
    note d = raw_distance [OF near]
    have ep: "2 ^ 32 dvd unat e" using assms(2) e by (auto simp: epoch_ok_def)
    then have "unat x mod 2 ^ 32 = unat raw" using x raw32 by (auto simp: mod_add_eq dvd_def)
    with Some s' e x ep d m show ?thesis
      by (auto simp: epoch_ok_def expanded_last_def)
  qed
  then show "epoch_ok s'" "expanded_last s' = Some (unat x)" "unat x mod 2 ^ 32 = unat raw"
    "expanded_last s = Some p \<Longrightarrow> unat x = p + 1 + unat missing \<and> unat missing < 2 ^ 31"
    "expanded_last s = None \<Longrightarrow> missing = 0"
    "\<exists>e. s' = s\<lparr>ws_sequence_epoch := e, ws_last_raw_sequence := Some raw\<rparr>"
    by blast+
qed

end
