(* ===== verification/Wire_Sdk.thy ===== *)
theory Wire_Sdk
  imports Wire_Decoder
begin

unbundle bit_operations_syntax

text \<open>
  The two ends of the wire: the records the C SDK writes (\<open>sdk/c/src/event.c\<close>) and the decoder that
  reads them back, through any chunking of the bytes.
\<close>

subsection \<open>What the SDK writes\<close>

fun sdk_kind :: "wire_event_kind \<Rightarrow> u8" where
  "sdk_kind WireInstant = 1"
| "sdk_kind WireBegin = 2"
| "sdk_kind WireEnd = 3"
| "sdk_kind WireCounter = 4"
| "sdk_kind WireAsyncBegin = 5"
| "sdk_kind WireAsyncEnd = 6"
| "sdk_kind WireDropped = 7"

text \<open>The buffer of \<open>t32perf_write_record\<close>: the header of 32 bytes and the payload.\<close>

definition sdk_header :: "c_wire_record \<Rightarrow> u8 list" where
  "sdk_header w =
     ascii_bytes ''T3PF'' @ [1, sdk_kind (cw_kind w)] @ to_le 2 (unat (cw_flags w))
     @ to_le 2 (length (cw_payload w)) @ to_le 2 0 @ to_le 4 (unat (cw_sequence w))
     @ to_le 8 (unat (cw_timestamp_ticks w)) @ to_le 4 (unat (cw_context_id w)) @ to_le 4 (unat (cw_event_id w))"

definition sdk_record_bytes :: "c_wire_record \<Rightarrow> u8 list" where
  "sdk_record_bytes w = sdk_header w @ cw_payload w"

text \<open>The records the SDK can write under the limits of a decoder.\<close>

definition sendable :: "wire_limits \<Rightarrow> c_wire_record \<Rightarrow> bool" where
  "sendable limits w \<longleftrightarrow>
     cw_flags w AND NOT 1 = 0 \<and> int (length (cw_payload w)) < 65536
     \<and> length (cw_payload w) \<le> lim_max_payload_bytes limits
     \<and> validate_payload_length (cw_kind w) (length (cw_payload w)) \<lparr>wl_byte_offset = 0, wl_record = 0\<rparr> = Inr ()"

subsection \<open>Reading every record\<close>

fun decode_all :: "nat \<Rightarrow> wire_decoder \<Rightarrow> (wire_error, c_wire_record list) res option" where
  "decode_all 0 d = None"
| "decode_all (Suc n) d =
     (case next_record d of
        (Inl e, _) \<Rightarrow> Some (Inl e)
      | (Inr None, _) \<Rightarrow> Some (Inr [])
      | (Inr (Some w), d') \<Rightarrow> map_option (\<lambda>x. rbind x (\<lambda>ws. Inr (w # ws))) (decode_all n d'))"

subsection \<open>Decoding what was written\<close>

lemma length_sdk_header [simp]: "length (sdk_header w) = 32"
  by (simp add: sdk_header_def ascii_bytes_def)

lemma sdk_kind_of [simp]: "wire_event_kind_of (sdk_kind k) = Some k"
  by (cases k) (simp_all add: wire_event_kind_of_def)

lemma header_fields:
  "byte_range 0 4 (sdk_header w) = ascii_bytes ''T3PF''" "sdk_header w ! 4 = 1" "sdk_header w ! 5 = sdk_kind (cw_kind w)"
  "byte_range 6 8 (sdk_header w) = to_le 2 (unat (cw_flags w))"
  "byte_range 8 10 (sdk_header w) = to_le 2 (length (cw_payload w))"
  "byte_range 10 12 (sdk_header w) = to_le 2 0"
  "byte_range 12 16 (sdk_header w) = to_le 4 (unat (cw_sequence w))"
  "byte_range 16 24 (sdk_header w) = to_le 8 (unat (cw_timestamp_ticks w))"
  "byte_range 24 28 (sdk_header w) = to_le 4 (unat (cw_context_id w))"
  "byte_range 28 32 (sdk_header w) = to_le 4 (unat (cw_event_id w))"
  by (simp_all add: sdk_header_def byte_range_def ascii_bytes_def)

lemma read_header_fields:
  "read_u16 (to_le 2 (unat a)) = a" "read_u32 (to_le 4 (unat b)) = b" "read_u64 (to_le 8 (unat c)) = c"
  using read_to_le(1) [of a "[]"] read_to_le(2) [of b "[]"] read_to_le(3) [of c "[]"] by simp_all

lemma check_sdk_header:
  assumes "sendable limits w"
  shows "check_header limits start (sdk_header w) = Inr (cw_kind w, cw_flags w, length (cw_payload w))"
proof -
  have len: "length (cw_payload w) < 256 ^ 2" using assms by (simp add: sendable_def)
  then have "read_u16 (to_le 2 (length (cw_payload w))) = word_of_nat (length (cw_payload w))"
    by (simp add: read_u16_def from_le_to_le)
  moreover have "unat (word_of_nat (length (cw_payload w)) :: u16) = length (cw_payload w)"
    using len by (simp add: unsigned_of_nat take_bit_nat_eq_self)
  moreover have "read_u16 (to_le 2 0) = 0" by (simp add: read_u16_def numeral_2_eq_2)
  ultimately show ?thesis
    using assms payload_length_any [of "cw_kind w" "length (cw_payload w)" "\<lparr>wl_byte_offset = 0, wl_record = 0\<rparr>" start]
    by (auto simp: check_header_Inr header_fields read_header_fields sendable_def)
qed

text \<open>Filling a buffer from a plain reader.\<close>

lemma read_part_plain:
  assumes "decoder_ok d" and "plain (dc_reader d)"
  obtains off rd where "read_part n l d = (Inr (take n (contents (dc_reader d))), d\<lparr>dc_reader := rd, dc_byte_offset := off\<rparr>)"
    and "plain rd" and "contents rd = drop n (contents (dc_reader d))"
    and "decoder_ok (d\<lparr>dc_reader := rd, dc_byte_offset := off\<rparr>)"
    and "unat off = unat (dc_byte_offset d) + min n (length (contents (dc_reader d)))"
proof -
  have "unat (dc_byte_offset d) + length (contents (dc_reader d)) < 2 ^ 64" using assms(1) by (simp add: decoder_ok_def)
  from read_loop_plain [OF assms(2) this, of "[]" n] obtain off rd where
    r: "read_loop n [] (dc_byte_offset d) (dc_reader d) = (Inr (take n (contents (dc_reader d))), off, rd)"
      "plain rd" "contents rd = drop n (contents (dc_reader d))"
      "unat off = unat (dc_byte_offset d) + min n (length (contents (dc_reader d)))"
    by auto
  show ?thesis
    by (rule that [of off rd]) (use r assms(1) in \<open>auto simp: read_part_def se_defs decoder_ok_def min_def\<close>)
qed

lemma next_record_sdk:
  assumes "decoder_ok d" and "plain (dc_reader d)" and "contents (dc_reader d) = sdk_record_bytes w @ rest"
    and "sendable (dc_limits d) w" and "\<not> dc_finished d" and "dc_record d < lim_max_records (dc_limits d)"
  obtains d' where "next_record d = (Inr (Some w), d')" and "decoder_ok d'" and "plain (dc_reader d')"
    and "contents (dc_reader d') = rest" and "dc_limits d' = dc_limits d" and "\<not> dc_finished d'"
    and "unat (dc_record d') = unat (dc_record d) + 1"
proof -
  let ?start = "\<lparr>wl_byte_offset = dc_byte_offset d, wl_record = dc_record d\<rparr>"
  from read_part_plain [OF assms(1,2)] obtain off rd where
    h: "read_part 32 ?start d = (Inr (take 32 (contents (dc_reader d))), d\<lparr>dc_reader := rd, dc_byte_offset := off\<rparr>)"
      "plain rd" "contents rd = drop 32 (contents (dc_reader d))" "decoder_ok (d\<lparr>dc_reader := rd, dc_byte_offset := off\<rparr>)"
    by blast
  let ?d1 = "d\<lparr>dc_reader := rd, dc_byte_offset := off\<rparr>"
  have header: "take 32 (contents (dc_reader d)) = sdk_header w" and rest: "contents rd = cw_payload w @ rest"
    using assms(3) h(3) by (simp_all add: sdk_record_bytes_def)
  have "plain (dc_reader ?d1)" using h(2) by simp
  from read_part_plain [OF h(4) this] obtain off2 rd2 where
    p: "read_part (length (cw_payload w)) ?start ?d1 =
        (Inr (take (length (cw_payload w)) (contents (dc_reader ?d1))), ?d1\<lparr>dc_reader := rd2, dc_byte_offset := off2\<rparr>)"
      "plain rd2" "contents rd2 = drop (length (cw_payload w)) (contents (dc_reader ?d1))"
      "decoder_ok (?d1\<lparr>dc_reader := rd2, dc_byte_offset := off2\<rparr>)"
    by blast
  have "unat (dc_record d) + unat (1 :: u64) < 2 ^ LENGTH(64)"
    using assms(6) unat_u64_less [of "lim_max_records (dc_limits d)"] by (simp add: word_less_nat_alt)
  then obtain m where m: "checked_add (dc_record d) 1 = Some m" "unat m = unat (dc_record d) + 1"
    by (simp add: checked_add_unat unat_add_lt)
  have check: "check_header (dc_limits d) ?start (sdk_header w) = Inr (cw_kind w, cw_flags w, length (cw_payload w))"
    using assms(4) by (rule check_sdk_header)
  have ne: "sdk_header w \<noteq> []" using length_sdk_header [of w] by (metis list.size(3) zero_neq_numeral)
  have "read_payload ?start (sdk_header w) (cw_kind w, cw_flags w, length (cw_payload w)) ?d1 =
      (Inr (Some w), d\<lparr>dc_reader := rd2, dc_byte_offset := off2, dc_record := m\<rparr>)"
    using p(1) rest m(1)
    by (simp add: read_payload_def andthen_def [of "read_part _ _"] count_record_def add_or_panic_def se_defs
        header_fields read_header_fields)
  then have "read_record ?start d = (Inr (Some w), d\<lparr>dc_reader := rd2, dc_byte_offset := off2, dc_record := m\<rparr>)"
    using h(1) header check ne by (simp add: read_record_def andthen_def with_state_def lift_def)
  then have run: "next_record d = (Inr (Some w), d\<lparr>dc_reader := rd2, dc_byte_offset := off2, dc_record := m\<rparr>)"
    using assms(5,6) by (simp add: next_record_def with_state_def Let_def not_le [symmetric])
  show ?thesis
    by (rule that [OF run]) (use p rest assms(5) m in \<open>auto simp: decoder_ok_def\<close>)
qed

lemma read_loop_end: "read_loop n got off [] = (Inr got, off, [])"
  by (subst read_loop.simps) simp

lemma next_record_end:
  assumes "decoder_ok d" and "plain (dc_reader d)" and "contents (dc_reader d) = []"
  obtains d' where "next_record d = (Inr None, d')"
proof -
  have "dc_reader d = []" using assms(2,3) by (cases "dc_reader d") (auto simp: plain_def contents_def)
  then obtain limits off n fin where
    d: "d = \<lparr>dc_reader = [], dc_limits = limits, dc_byte_offset = off, dc_record = n, dc_finished = fin\<rparr>"
    by (cases d) simp
  have part: "read_part 32 l d = (Inr [], d)" for l
    by (simp add: d read_part_def se_defs read_loop_end)
  have "fst (probe_end l d) = Inr None" for l
    by (simp add: d probe_end_def mark_finished_def se_defs)
  moreover have "fst (read_record l d) = Inr None" for l
    by (simp add: read_record_def andthen_def part) (simp add: mark_finished_def se_defs)
  ultimately have "fst (next_record d) = Inr None"
    by (simp add: next_record_def with_state_def ret_def Let_def)
  with that show ?thesis by (metis prod.collapse)
qed

lemma decode_all_sdk:
  assumes "decoder_ok d" and "plain (dc_reader d)" and "contents (dc_reader d) = concat (map sdk_record_bytes ws)"
    and "list_all (sendable (dc_limits d)) ws" and "\<not> dc_finished d"
    and "unat (dc_record d) + length ws \<le> unat (lim_max_records (dc_limits d))"
  shows "decode_all (Suc (length ws)) d = Some (Inr ws)"
  using assms
proof (induction ws arbitrary: d)
  case Nil
  then have "contents (dc_reader d) = []" by simp
  from next_record_end [OF Nil.prems(1,2) this] obtain d' where "next_record d = (Inr None, d')" .
  then show ?case by simp
next
  case (Cons w ws)
  have "contents (dc_reader d) = sdk_record_bytes w @ concat (map sdk_record_bytes ws)"
    and "sendable (dc_limits d) w" and "dc_record d < lim_max_records (dc_limits d)"
    using Cons.prems by (simp_all add: word_less_nat_alt)
  from next_record_sdk [OF Cons.prems(1,2) this(1,2) Cons.prems(5) this(3)] obtain d' where
    d': "next_record d = (Inr (Some w), d')" "decoder_ok d'" "plain (dc_reader d')"
      "contents (dc_reader d') = concat (map sdk_record_bytes ws)" "dc_limits d' = dc_limits d" "\<not> dc_finished d'"
      "unat (dc_record d') = unat (dc_record d) + 1" .
  from Cons.IH [OF d'(2-4)] d' Cons.prems have "decode_all (Suc (length ws)) d' = Some (Inr ws)" by simp
  with d'(1) show ?case by simp
qed

text \<open>C27: What the C SDK writes is read back exactly: any sequence of records that fit the limits, however
  the transport chunks their bytes, is decoded to the same records, followed by the clean end.\<close>
theorem sdk_round_trip:
  assumes "list_all (sendable limits) ws" and "plain rd" and "contents rd = concat (map sdk_record_bytes ws)"
    and "length ws \<le> unat (lim_max_records limits)" and "length (contents rd) < 2 ^ 64"
    and "decoder_new rd limits = Inr d"
  shows "decode_all (Suc (length ws)) d = Some (Inr ws)"
proof -
  from assms(6) have d: "d = \<lparr>dc_reader = rd, dc_limits = limits, dc_byte_offset = 0, dc_record = 0, dc_finished = False\<rparr>"
    by (simp add: decoder_new_def split: if_splits)
  show ?thesis
    by (rule decode_all_sdk) (use assms d in \<open>simp_all add: decoder_ok_def\<close>)
qed

definition demo_records :: "c_wire_record list" where
  "demo_records =
     [\<lparr>cw_kind = WireBegin, cw_flags = 0, cw_sequence = 4, cw_timestamp_ticks = 10, cw_context_id = 7,
       cw_event_id = 3, cw_payload = ascii_bytes ''f''\<rparr>,
      \<lparr>cw_kind = WireDropped, cw_flags = 1, cw_sequence = 5, cw_timestamp_ticks = 11, cw_context_id = 7,
       cw_event_id = 0, cw_payload = [2, 0, 0, 0]\<rparr>]"

text \<open>The bytes in chunks of five.\<close>

fun chunked :: "nat \<Rightarrow> nat \<Rightarrow> u8 list \<Rightarrow> reader" where
  "chunked 0 k bs = []"
| "chunked (Suc n) k bs = (if bs = [] then [] else Chunk (take k bs) # chunked n k (drop k bs))"

theorem sdk_round_trip_witness:
  "case decoder_new (chunked 20 5 (concat (map sdk_record_bytes demo_records))) default_wire_limits of
     Inr d \<Rightarrow> decode_all 3 d = Some (Inr demo_records)
   | Inl _ \<Rightarrow> False"
proof -
  let ?rd = "chunked 20 5 (concat (map sdk_record_bytes demo_records))"
  obtain d where d: "decoder_new ?rd default_wire_limits = Inr d"
    by (simp add: decoder_new_def default_wire_limits_def)
  have "list_all (sendable default_wire_limits) demo_records" by code_simp
  moreover have "plain ?rd" by code_simp
  moreover have "contents ?rd = concat (map sdk_record_bytes demo_records)" by code_simp
  moreover have "length demo_records \<le> unat (lim_max_records default_wire_limits)"
    by (simp add: demo_records_def default_wire_limits_def)
  moreover have "length (contents ?rd) < 2 ^ 64" using calculation(3) by (simp add: demo_records_def sdk_record_bytes_def ascii_bytes_def)
  ultimately have "decode_all (Suc (length demo_records)) d = Some (Inr demo_records)"
    using d by (rule sdk_round_trip)
  with d show ?thesis by (simp add: demo_records_def numeral_3_eq_3)
qed

subsection \<open>Chunks do not matter\<close>

text \<open>Two decoders that differ only in how the same bytes are chunked.\<close>

definition same_bytes :: "wire_decoder \<Rightarrow> wire_decoder \<Rightarrow> bool" where
  "same_bytes d e \<longleftrightarrow>
     decoder_ok d \<and> plain (dc_reader d) \<and> plain (dc_reader e) \<and> contents (dc_reader e) = contents (dc_reader d)
     \<and> (\<exists>rd. e = d\<lparr>dc_reader := rd\<rparr>)"

definition agree :: "'a dec \<Rightarrow> bool" where
  "agree m \<longleftrightarrow>
     (\<forall>d e. same_bytes d e \<longrightarrow> fst (m d) = fst (m e) \<and> same_bytes (snd (m d)) (snd (m e)))"

lemma agreeI: "(\<And>d e. same_bytes d e \<Longrightarrow> fst (m d) = fst (m e) \<and> same_bytes (snd (m d)) (snd (m e))) \<Longrightarrow> agree m"
  by (simp add: agree_def)

lemma agreeD: "agree m \<Longrightarrow> same_bytes d e \<Longrightarrow> fst (m d) = fst (m e) \<and> same_bytes (snd (m d)) (snd (m e))"
  by (simp add: agree_def)

lemma agree_pure: "agree (ret a)" "agree (throw e)" "agree (lift r)"
  by (simp_all add: agree_def se_defs)

lemma agree_andthen: "agree m \<Longrightarrow> (\<And>a. agree (f a)) \<Longrightarrow> agree (andthen m f)"
proof (rule agreeI)
  fix d e
  assume m: "agree m" and f: "\<And>a. agree (f a)" and "same_bytes d e"
  from agreeD [OF m this(3)] have r: "fst (m d) = fst (m e)" "same_bytes (snd (m d)) (snd (m e))" by blast+
  obtain q d' where q: "m d = (q, d')" by fastforce
  with r obtain e' where e': "m e = (q, e')" "same_bytes d' e'" by (cases "m e") auto
  from agreeD [OF f this(2)] show "fst (andthen m f d) = fst (andthen m f e)
      \<and> same_bytes (snd (andthen m f d)) (snd (andthen m f e))"
    using q e' by (cases q) (simp_all add: andthen_def)
qed

lemma agree_followed: "agree m \<Longrightarrow> agree n \<Longrightarrow> agree (followed m n)"
  unfolding followed_def by (rule agree_andthen)

lemma agree_with_state:
  "(\<And>d rd. f (d\<lparr>dc_reader := rd\<rparr>) = f d) \<Longrightarrow> (\<And>d. agree (f d)) \<Longrightarrow> agree (with_state f)"
proof (rule agreeI)
  fix d e
  assume f: "\<And>d rd. f (d\<lparr>dc_reader := rd\<rparr>) = f d" "\<And>d. agree (f d)" and same: "same_bytes d e"
  then have "f e = f d" by (auto simp: same_bytes_def)
  with agreeD [OF f(2) same] show "fst (with_state f d) = fst (with_state f e)
      \<and> same_bytes (snd (with_state f d)) (snd (with_state f e))"
    by (simp add: with_state_def)
qed

lemma agree_modify:
  "(\<And>d rd. f (d\<lparr>dc_reader := rd\<rparr>) = (f d)\<lparr>dc_reader := rd\<rparr> \<and> dc_reader (f d) = dc_reader d
      \<and> dc_byte_offset (f d) = dc_byte_offset d) \<Longrightarrow> agree (modify f)"
  by (rule agreeI) (auto simp: same_bytes_def modify_def decoder_ok_def)

lemma agree_read_part: "agree (read_part n l)"
proof (rule agreeI)
  fix d e
  assume same: "same_bytes d e"
  then obtain r where e: "e = d\<lparr>dc_reader := r\<rparr>" by (auto simp: same_bytes_def)
  have ok: "decoder_ok d" "decoder_ok e" "plain (dc_reader d)" "plain (dc_reader e)"
    and c: "contents (dc_reader e) = contents (dc_reader d)"
    using same by (auto simp: same_bytes_def decoder_ok_def)
  from read_part_plain [OF ok(1,3)] obtain o1 r1 where
    a: "read_part n l d = (Inr (take n (contents (dc_reader d))), d\<lparr>dc_reader := r1, dc_byte_offset := o1\<rparr>)"
      "plain r1" "contents r1 = drop n (contents (dc_reader d))" "decoder_ok (d\<lparr>dc_reader := r1, dc_byte_offset := o1\<rparr>)"
      "unat o1 = unat (dc_byte_offset d) + min n (length (contents (dc_reader d)))" by blast
  from read_part_plain [OF ok(2,4)] obtain o2 r2 where
    b: "read_part n l e = (Inr (take n (contents (dc_reader e))), e\<lparr>dc_reader := r2, dc_byte_offset := o2\<rparr>)"
      "plain r2" "contents r2 = drop n (contents (dc_reader e))" "decoder_ok (e\<lparr>dc_reader := r2, dc_byte_offset := o2\<rparr>)"
      "unat o2 = unat (dc_byte_offset e) + min n (length (contents (dc_reader e)))" by blast
  from a(5) b(5) c e have "unat o1 = unat o2" by simp
  then have "o1 = o2" by (simp add: word_unat_eq_iff)
  with a b c e show "fst (read_part n l d) = fst (read_part n l e)
      \<and> same_bytes (snd (read_part n l d)) (snd (read_part n l e))"
    by (auto simp: same_bytes_def intro!: exI [of _ r2])
qed

lemma reader_read_one:
  assumes "plain rd"
  obtains rd' where "reader_read 1 rd = (ReadOk (take 1 (contents rd)), rd')" and "plain rd'"
    and "contents rd' = drop 1 (contents rd)"
proof -
  obtain q rd' where q: "reader_read 1 rd = (q, rd')" by fastforce
  from reader_read_plain [OF assms _ q] obtain bs where
    bs: "q = ReadOk bs" "contents rd = bs @ contents rd'" "length bs \<le> 1" "bs = [] \<longleftrightarrow> contents rd = []" "plain rd'"
    by auto
  have take_one: "length xs \<le> 1 \<Longrightarrow> (xs = [] \<longleftrightarrow> xs @ ys = []) \<Longrightarrow> xs = take 1 (xs @ ys) \<and> ys = drop 1 (xs @ ys)"
    for xs ys :: "u8 list"
    by (cases xs) auto
  have eq: "bs = take 1 (contents rd)" "contents rd' = drop 1 (contents rd)"
    using take_one [OF bs(3), of "contents rd'"] bs(4) unfolding bs(2) by blast+
  have "reader_read 1 rd = (ReadOk (take 1 (contents rd)), rd')" using q unfolding bs(1) eq(1) .
  with bs(5) eq(2) that show ?thesis by blast
qed

lemma agree_probe: "agree (probe_end l)"
proof (rule agreeI)
  fix d e
  assume same: "same_bytes d e"
  then obtain r where e: "e = d\<lparr>dc_reader := r\<rparr>" by (auto simp: same_bytes_def)
  have p: "plain (dc_reader d)" "plain (dc_reader e)" and c: "contents (dc_reader e) = contents (dc_reader d)"
    and ok: "decoder_ok d"
    using same by (auto simp: same_bytes_def)
  from reader_read_one [OF p(1)] obtain r1 where
    a: "reader_read 1 (dc_reader d) = (ReadOk (take 1 (contents (dc_reader d))), r1)" "plain r1"
      "contents r1 = drop 1 (contents (dc_reader d))" .
  from reader_read_one [OF p(2)] obtain r2 where
    b: "reader_read 1 (dc_reader e) = (ReadOk (take 1 (contents (dc_reader e))), r2)" "plain r2"
      "contents r2 = drop 1 (contents (dc_reader e))" .
  have "decoder_ok (d\<lparr>dc_reader := r1\<rparr>)" using ok a(3) by (simp add: decoder_ok_def)
  with a b c e show "fst (probe_end l d) = fst (probe_end l e) \<and> same_bytes (snd (probe_end l d)) (snd (probe_end l e))"
    by (auto simp: probe_end_def mark_finished_def se_defs same_bytes_def decoder_ok_def intro!: exI [of _ r2])
qed

lemma agree_next: "agree next_record"
proof -
  have fin: "agree mark_finished" and cnt: "agree count_record"
    unfolding mark_finished_def count_record_def
    by (intro agree_with_state agree_andthen agree_modify agree_pure; simp)+
  have payload: "agree (read_payload l h x)" for l h x
    unfolding read_payload_def
    by (cases x) (auto intro!: agree_andthen agree_read_part agree_followed cnt agree_pure)
  have "agree (read_record l)" for l
    unfolding read_record_def
  proof (intro agree_andthen agree_read_part)
    fix header
    have "agree (with_state (\<lambda>d. andthen (lift (check_header (dc_limits d) l header)) (read_payload l header)))"
      by (intro agree_with_state agree_andthen agree_pure payload) simp
    then show "agree (if header = [] then followed mark_finished (ret None)
        else if length header \<noteq> 32 then throw (WireError (at_offset l (length header)) (TruncatedHeader (length header)))
        else with_state (\<lambda>d. andthen (lift (check_header (dc_limits d) l header)) (read_payload l header)))"
      by (auto intro: agree_followed fin agree_pure)
  qed
  then show ?thesis
    unfolding next_record_def Let_def
    by (intro agree_with_state) (auto intro: agree_pure agree_probe)
qed

lemma decode_all_same: "same_bytes d e \<Longrightarrow> decode_all n d = decode_all n e"
proof (induction n arbitrary: d e)
  case (Suc n)
  obtain q d' where q: "next_record d = (q, d')" by fastforce
  from agreeD [OF agree_next Suc.prems] q obtain e' where e': "next_record e = (q, e')" "same_bytes d' e'"
    by (cases "next_record e") auto
  with q Suc.IH show ?case by (auto split: sum.splits option.splits)
qed simp

text \<open>C28: What is decoded depends only on the bytes: two readers that deliver the same bytes in different chunks
  give the same records and the same error at the same byte and record.\<close>
theorem decoding_ignores_chunks:
  assumes "plain rd" and "plain rd'" and "contents rd = contents rd'" and "length (contents rd) < 2 ^ 64"
    and "decoder_new rd limits = Inr d" and "decoder_new rd' limits = Inr d'"
  shows "decode_all n d = decode_all n d'"
proof (rule decode_all_same)
  show "same_bytes d d'"
    using assms by (auto simp: decoder_new_def same_bytes_def decoder_ok_def split: if_splits)
qed

theorem decoding_ignores_chunks_witness:
  "case (decoder_new (chunked 20 5 (ascii_bytes ''T3PF'' @ [9])) default_wire_limits,
         decoder_new (chunked 20 1 (ascii_bytes ''T3PF'' @ [9])) default_wire_limits) of
     (Inr d, Inr d') \<Rightarrow> decode_all 3 d = decode_all 3 d'
   | _ \<Rightarrow> False"
proof -
  let ?bs = "ascii_bytes ''T3PF'' @ [9]"
  obtain d d' where d: "decoder_new (chunked 20 5 ?bs) default_wire_limits = Inr d"
    "decoder_new (chunked 20 1 ?bs) default_wire_limits = Inr d'"
    by (simp add: decoder_new_def default_wire_limits_def)
  have "plain (chunked 20 5 ?bs)" "plain (chunked 20 1 ?bs)" "contents (chunked 20 5 ?bs) = contents (chunked 20 1 ?bs)"
    by code_simp+
  moreover have "contents (chunked 20 5 ?bs) = ?bs" by code_simp
  then have "length (contents (chunked 20 5 ?bs)) < 2 ^ 64" by (simp add: ascii_bytes_def)
  ultimately have "decode_all 3 d = decode_all 3 d'" using d by (rule decoding_ignores_chunks)
  with d show ?thesis by simp
qed

end
