(* ===== verification/Wire_Properties.thy ===== *)
theory Wire_Properties
  imports Wire_Source Wire_Sdk
begin

text \<open>
  What the C SDK source promises: it ends without a panic, its observations are ordered as the
  order validator requires, and it can be merged with any other source of its kind.
\<close>

subsection \<open>One record of the source\<close>

definition sequence_of :: "nat \<Rightarrow> nat" where
  "sequence_of x = 2 * x + 1"

definition later :: "ordered_observation \<Rightarrow> ordered_observation \<Rightarrow> bool" where
  "later a b \<longleftrightarrow>
     oo_ts a \<le> oo_ts b \<and> obs_source_seq (oo_observation a) < obs_source_seq (oo_observation b)
     \<and> obs_source_id (oo_observation a) = obs_source_id (oo_observation b)"

text \<open>A record of this source that is not after the last sequence that was accepted.\<close>

definition at_most_last :: "wire_source \<Rightarrow> ordered_observation \<Rightarrow> bool" where
  "at_most_last s r \<longleftrightarrow>
     nz_bound (ws_normalizer s) (oo_ts r)
     \<and> obs_source_id (oo_observation r) = sd_source_id (ws_descriptor s)
     \<and> (\<exists>x. expanded_last s = Some x \<and> unat (obs_source_seq (oo_observation r)) \<le> sequence_of x)"

lemma normalized_sequence_Inr:
  "normalized_sequence x l = Inr n \<longleftrightarrow> unat n = sequence_of (unat x)"
proof -
  have "(case checked_mul x 2 of None \<Rightarrow> None | Some v \<Rightarrow> checked_add v 1) = Some n \<longleftrightarrow> unat n = 2 * unat x + 1"
  proof
    assume "(case checked_mul x 2 of None \<Rightarrow> None | Some v \<Rightarrow> checked_add v 1) = Some n"
    then obtain v where "checked_mul x 2 = Some v" "checked_add v 1 = Some n" by (auto split: option.splits)
    then show "unat n = 2 * unat x + 1" by (simp add: checked_mul_Some checked_add_Some)
  next
    assume n: "unat n = 2 * unat x + 1"
    then have "unat x * unat (2 :: u64) < 2 ^ LENGTH(64)" using unat_u64_less [of n] by simp
    then obtain v where v: "checked_mul x 2 = Some v" by (simp add: checked_mul_unat)
    then have "unat v = unat x * 2" by (simp add: checked_mul_Some)
    with n have "checked_add v 1 = Some n" by (simp add: checked_add_Some)
    with v show "(case checked_mul x 2 of None \<Rightarrow> None | Some v \<Rightarrow> checked_add v 1) = Some n" by simp
  qed
  then show ?thesis by (simp add: normalized_sequence_def sequence_of_def)
qed

text \<open>The parts of the state a record changes after it was decoded.\<close>

lemma normalize_ticks_run:
  "normalize_ticks t l s = (r, s') \<Longrightarrow>
     s' = s\<lparr>ws_normalizer := snd (normalizer_normalize t (ws_normalizer s))\<rparr>
     \<and> r = map_err (\<lambda>e. WireError l (WireClock e)) (fst (normalizer_normalize t (ws_normalizer s)))"
  by (auto simp: normalize_ticks_def split: prod.splits)

lemma expand_sequence_Inl:
  assumes "expand_sequence raw l s = (Inl e, s')" and "epoch_ok s"
  shows "e \<noteq> Panic \<and> epoch_ok s' \<and> ws_pending s' = ws_pending s \<and> ws_normalizer s' = ws_normalizer s
     \<and> ws_decoder s' = ws_decoder s \<and> ws_finished s' = ws_finished s \<and> ws_descriptor s' = ws_descriptor s
     \<and> ws_last_raw_sequence s' = ws_last_raw_sequence s
     \<and> unat (ws_sequence_epoch s) \<le> unat (ws_sequence_epoch s')"
  using assms
  by (auto simp: expand_sequence_def se_defs Let_def ok_or_def checked_add_Some epoch_ok_def
      split: if_splits prod.splits sum.splits option.splits)

lemma map_record_Inr:
  assumes "map_record s w ts q l = Inr r"
  shows "oo_ts r = ts" and "obs_source_seq (oo_observation r) = q"
    and "obs_source_id (oo_observation r) = sd_source_id (ws_descriptor s)"
proof -
  from assms obtain ctx ev where e: "map_event s w ts ctx l = Inr ev"
    and r: "r = unordered (new_observation (sd_source_id (ws_descriptor s)) q
         (if cw_kind w = WireDropped then QInferred else QExact) ev)"
    by (auto simp: map_record_def rbind_eq_Inr)
  from e have "event_ts_ns ev = ts"
    by (auto simp: map_event_def Let_def rbind_eq_Inr rthen_eq_Inr split: wire_event_kind.splits)
  with r show "oo_ts r = ts" "obs_source_seq (oo_observation r) = q"
    "obs_source_id (oo_observation r) = sd_source_id (ws_descriptor s)"
    by (simp_all add: oo_ts_def ts_ns_def unordered_def new_observation_def)
qed

lemma map_record_Panic: "map_record s w ts q l \<noteq> Inl Panic"
proof -
  have p: "payload_string bs l n \<noteq> Inl Panic" "require_payload w n l \<noteq> Inl Panic" for bs n
    by (simp_all add: payload_string_def require_payload_def split: option.splits)
  have "context_of_record s w l \<noteq> Inl Panic" "counter_of_record s w l \<noteq> Inl Panic"
    by (auto simp: context_of_record_def counter_of_record_def panic_simps split: option.splits)
  then show ?thesis
    by (auto simp: map_record_def map_event_def Let_def panic_simps p split: wire_event_kind.splits)
qed

text \<open>A record that was read: its observation, or the gap before it with the observation pending.\<close>

definition yields :: "wire_source \<Rightarrow> ordered_observation \<Rightarrow> wire_source \<Rightarrow> bool" where
  "yields s r s' \<longleftrightarrow>
     at_most_last s' r
     \<and> ws_descriptor s' = ws_descriptor s \<and> ws_decoder s' = ws_decoder s \<and> ws_finished s' = ws_finished s
     \<and> epoch_ok s'
     \<and> (\<exists>ticks. ws_normalizer s' = snd (normalizer_normalize ticks (ws_normalizer s)))
     \<and> (\<forall>t. nz_bound (ws_normalizer s) t \<longrightarrow> t \<le> oo_ts r)
     \<and> (\<forall>p. expanded_last s = Some p \<longrightarrow> sequence_of p < unat (obs_source_seq (oo_observation r))
          \<and> (\<forall>x. expanded_last s' = Some x \<longrightarrow> p \<le> x))
     \<and> (case ws_pending s' of None \<Rightarrow> True | Some p \<Rightarrow> later r p \<and> at_most_last s' p)"

lemma read_record_from_Inr:
  assumes "read_record_from w l s = (Inr y, s')" and "nz_wf (ws_normalizer s)" and "epoch_ok s"
    and "ws_pending s = None"
  obtains r where "y = Some r" and "yields s r s'"
proof -
  obtain q1 s1 where n1: "normalize_ticks (cw_timestamp_ticks w) l s = (q1, s1)" by fastforce
  note run1 = normalize_ticks_run [OF n1]
  from assms(1) n1 obtain ts where ts: "q1 = Inr ts"
    by (auto simp: read_record_from_def andthen_def split: sum.splits)
  have "fst (normalizer_normalize (cw_timestamp_ticks w) (ws_normalizer s)) = Inr ts"
    using run1 ts by (metis map_err_eq_Inr)
  then have nz: "normalizer_normalize (cw_timestamp_ticks w) (ws_normalizer s) = (Inr ts, ws_normalizer s1)"
    using run1 by (simp add: prod_eq_iff)
  note bound = nz_step_Inr [OF assms(2) nz]
  have s1: "epoch_ok s1" "expanded_last s1 = expanded_last s" "ws_pending s1 = None" "ws_decoder s1 = ws_decoder s"
    "ws_descriptor s1 = ws_descriptor s" "ws_finished s1 = ws_finished s"
    using run1 assms(3,4) by (simp_all add: epoch_ok_def expanded_last_def)
  obtain q2 s2 where n2: "expand_sequence (cw_sequence w) l s1 = (q2, s2)" by fastforce
  from assms(1) n1 n2 ts obtain x missing where q2: "q2 = Inr (x, missing)"
    by (auto simp: read_record_from_def andthen_def split: sum.splits)
  note ex = expand_sequence_Inr [OF n2 [unfolded q2] s1(1)]
  from ex(6) obtain e where s2: "s2 = s1\<lparr>ws_sequence_epoch := e, ws_last_raw_sequence := Some (cw_sequence w)\<rparr>" ..
  from assms(1) n1 n2 ts q2 obtain n where n: "normalized_sequence x l = Inr n"
    by (auto simp: read_record_from_def se_defs split: sum.splits)
  then have seq: "unat n = sequence_of (unat x)" by (simp add: normalized_sequence_Inr)
  from assms(1) n1 n2 ts q2 n obtain actual where actual: "map_record s2 w ts n l = Inr actual"
    and run: "emit_record w missing ts n actual s2 = (Inr y, s')"
    by (auto simp: read_record_from_def se_defs split: sum.splits)
  note obs = map_record_Inr [OF actual]
  let ?gap = "gap_before s2 n ts missing (cw_flags w AND 1 \<noteq> 0)"
  have gap: "oo_ts ?gap = ts" "obs_source_seq (oo_observation ?gap) = n - 1"
    "obs_source_id (oo_observation ?gap) = sd_source_id (ws_descriptor s2)"
    by (simp_all add: gap_before_def oo_ts_def ts_ns_def unordered_def new_observation_def)
  have n1': "unat (n - 1) = 2 * unat x" using seq by (simp add: unat_sub_le sequence_of_def word_le_nat_alt)
  have ge: "sequence_of p < 2 * unat x" "sequence_of p < unat n" "p \<le> unat x" if "expanded_last s = Some p" for p
    using ex(4) [of p] that s1(2) seq by (simp_all add: sequence_of_def)
  show ?thesis
  proof (cases "cw_kind w = WireDropped \<or> \<not> (missing \<noteq> 0 \<or> cw_flags w AND 1 \<noteq> 0)")
    case True
    with run have "y = Some actual" "s' = s2" by (auto simp: emit_record_def se_defs split: if_splits)
    moreover have "yields s actual s2"
      using bound obs ex s1 s2 seq ge nz by (auto simp: yields_def at_most_last_def intro: exI [of _ "cw_timestamp_ticks w"])
    ultimately show ?thesis using that by blast
  next
    case False
    with run have "y = Some ?gap" "s' = s2\<lparr>ws_pending := Some actual\<rparr>"
      by (auto simp: emit_record_def se_defs Let_def split: if_splits)
    moreover have "expanded_last (s2\<lparr>ws_pending := Some actual\<rparr>) = Some (unat x)" "epoch_ok (s2\<lparr>ws_pending := Some actual\<rparr>)"
      using ex by (simp_all add: expanded_last_def epoch_ok_def)
    then have "yields s ?gap (s2\<lparr>ws_pending := Some actual\<rparr>)"
      using bound obs gap s1 s2 seq ge n1' nz
      by (auto simp: yields_def at_most_last_def later_def sequence_of_def word_less_nat_alt
          intro: exI [of _ "cw_timestamp_ticks w"])
    ultimately show ?thesis using that by blast
  qed
qed

subsection \<open>The order of the observations\<close>

definition source_ok :: "wire_source \<Rightarrow> bool" where
  "source_ok s \<longleftrightarrow>
     ws_finished s
     \<or> (nz_wf (ws_normalizer s) \<and> epoch_ok s \<and> (\<forall>p. ws_pending s = Some p \<longrightarrow> at_most_last s p))"

definition emits_after :: "wire_source \<Rightarrow> ordered_observation \<Rightarrow> bool" where
  "emits_after s a \<longleftrightarrow>
     ws_finished s \<or> (at_most_last s a \<and> (\<forall>p. ws_pending s = Some p \<longrightarrow> later a p))"

lemma yields_ok: "yields s r s' \<Longrightarrow> nz_wf (ws_normalizer s) \<Longrightarrow> source_ok s' \<and> emits_after s' r"
  by (auto simp: yields_def source_ok_def emits_after_def nz_wf_step split: option.splits)

lemma yields_later: "yields s r s' \<Longrightarrow> at_most_last s a \<Longrightarrow> later a r"
  by (auto simp: yields_def at_most_last_def later_def word_less_nat_alt)

lemma yields_keeps:
  assumes "yields s r s'" and "at_most_last s a" and "nz_wf (ws_normalizer s)"
  shows "at_most_last s' a" and "ws_pending s' = Some p \<Longrightarrow> later a p"
proof -
  from assms(1) obtain ticks where nz: "ws_normalizer s' = snd (normalizer_normalize ticks (ws_normalizer s))"
    by (auto simp: yields_def)
  from assms(2) obtain x where x: "expanded_last s = Some x" "unat (obs_source_seq (oo_observation a)) \<le> sequence_of x"
    by (auto simp: at_most_last_def)
  from assms(1) obtain x' where x': "expanded_last s' = Some x'" by (auto simp: yields_def at_most_last_def)
  with assms(1) x have "x \<le> x'" by (auto simp: yields_def)
  then have "sequence_of x \<le> sequence_of x'" by (simp add: sequence_of_def)
  with x x' assms nz nz_bound_step show "at_most_last s' a"
    by (auto simp: at_most_last_def yields_def)
  show "ws_pending s' = Some p \<Longrightarrow> later a p"
    using yields_later [OF assms(1,2)] assms(1) by (auto simp: yields_def later_def)
qed

text \<open>The calls of the source: what is pending, a record, the end or an error.\<close>

lemma wire_next_cases:
  assumes "source_ok s" and "wire_next s = (r, s')"
  obtains (stopped) "ws_finished s'" and "\<And>x. r \<noteq> Inr (Some x)"
  | (pending) p where "\<not> ws_finished s" and "ws_pending s = Some p" and "r = Inr (Some p)" and "s' = s\<lparr>ws_pending := None\<rparr>"
  | (taken) x s1 d where "\<not> ws_finished s" and "ws_pending s = None" and "r = Inr (Some x)"
      and "s1 = s\<lparr>ws_decoder := d\<rparr>" and "yields s1 x s'"
proof (cases "ws_finished s")
  case True
  with assms(2) stopped show ?thesis by (auto simp: wire_next_def)
next
  case open': False
  show ?thesis
  proof (cases "\<exists>x. r = Inr (Some x)")
    case False
    with assms(2) open' have "ws_finished s'"
      by (auto simp: wire_next_def split: prod.splits sum.splits option.splits)
    with False stopped show ?thesis by blast
  next
    case True
    then obtain x where x: "r = Inr (Some x)" ..
    with assms(2) open' have run: "read_next s = (Inr (Some x), s')"
      by (auto simp: wire_next_def map_err_def split: prod.splits sum.splits option.splits fail.splits)
    show ?thesis
    proof (cases "ws_pending s")
      case (Some p)
      with run x open' pending show ?thesis by (auto simp: read_next_def se_defs)
    next
      case None
      obtain q d where q: "next_record (ws_decoder s) = (q, d)" by fastforce
      with run None obtain w where w: "q = Inr (Some w)"
        by (auto simp: read_next_def on_decoder_def se_defs split: sum.splits option.splits)
      let ?s1 = "s\<lparr>ws_decoder := d\<rparr>"
      from run None q w have "read_record_from w (record_location d w) ?s1 = (Inr (Some x), s')"
        by (simp add: read_next_def on_decoder_def andthen_def with_state_def)
      moreover have "nz_wf (ws_normalizer ?s1)" "epoch_ok ?s1" "ws_pending ?s1 = None"
        using assms(1) open' None by (auto simp: source_ok_def epoch_ok_def)
      ultimately have "yields ?s1 x s'" by (metis option.inject read_record_from_Inr)
      with open' None x taken show ?thesis by blast
    qed
  qed
qed

interpretation wire_order: related_source wire_next source_ok emits_after later
proof
  fix s a r s'
  have dec: "at_most_last (s\<lparr>ws_decoder := d\<rparr>) a = at_most_last s a" "epoch_ok (s\<lparr>ws_decoder := d\<rparr>) = epoch_ok s" for s a d
    by (simp_all add: at_most_last_def expanded_last_def epoch_ok_def)
  have pen: "at_most_last (s\<lparr>ws_pending := x\<rparr>) a = at_most_last s a" "epoch_ok (s\<lparr>ws_pending := x\<rparr>) = epoch_ok s" for s a x
    by (simp_all add: at_most_last_def expanded_last_def epoch_ok_def)
  note updates = dec pen
  assume ok: "source_ok s"
  obtain q t where q: "wire_next s = (q, t)" by fastforce
  from ok q have "source_ok t \<and> (\<forall>x. q = Inr (Some x) \<longrightarrow> emits_after t x) \<and> (emits_after s a \<longrightarrow> emits_after t a)
      \<and> (\<forall>x. q = Inr (Some x) \<longrightarrow> emits_after s a \<longrightarrow> later a x)"
  proof (cases rule: wire_next_cases)
    case stopped
    then show ?thesis by (auto simp: source_ok_def emits_after_def)
  next
    case (pending p)
    with ok show ?thesis by (auto simp: source_ok_def emits_after_def updates)
  next
    case (taken x s1 d)
    with ok have "nz_wf (ws_normalizer s1)" by (auto simp: source_ok_def)
    with taken yields_ok yields_later yields_keeps show ?thesis
      by (auto simp: emits_after_def updates)
  qed
  with q show "source_ok (snd (wire_next s))" "emits_after s a \<Longrightarrow> emits_after (snd (wire_next s)) a"
    "wire_next s = (Inr (Some r), s') \<Longrightarrow> emits_after s' r"
    "emits_after s a \<Longrightarrow> wire_next s = (Inr (Some r), s') \<Longrightarrow> later a r"
    by auto
qed

subsection \<open>The source ends\<close>

definition countable :: "wire_source \<Rightarrow> bool" where
  "countable s \<longleftrightarrow>
     decoder_ok (ws_decoder s) \<and> epoch_ok s
     \<and> (\<exists>k. nz_after k (ws_normalizer s) \<and> k + left_bytes (ws_decoder s) < 2 ^ 64)"

definition wire_ok :: "wire_source \<Rightarrow> bool" where
  "wire_ok s \<longleftrightarrow> ws_finished s \<or> countable s"

definition wire_left :: "wire_source \<Rightarrow> nat" where
  "wire_left s =
     (if ws_finished s then 0
      else 2 * left_bytes (ws_decoder s) + (if ws_pending s = None then 0 else 1))"

lemma read_record_from_safe:
  assumes "read_record_from w l s = (r, s')" and "nz_after k (ws_normalizer s)" and "k < 2 ^ 64" and "epoch_ok s"
  shows "r \<noteq> Inl Panic" and "nz_after (Suc k) (ws_normalizer s')" and "epoch_ok s'" and "ws_decoder s' = ws_decoder s"
    and "ws_finished s' = ws_finished s"
proof -
  obtain q1 s1 where n1: "normalize_ticks (cw_timestamp_ticks w) l s = (q1, s1)" by fastforce
  note run1 = normalize_ticks_run [OF n1]
  note nz = nz_after_step [OF assms(2,3), of "cw_timestamp_ticks w"]
  have s1: "epoch_ok s1" "ws_decoder s1 = ws_decoder s" "ws_finished s1 = ws_finished s" "nz_after (Suc k) (ws_normalizer s1)"
    using run1 assms(4) nz(2) by (simp_all add: epoch_ok_def)
  have "q1 \<noteq> Inl Panic" using run1 nz(1) by (simp add: map_err_Panic)
  have "r \<noteq> Inl Panic \<and> nz_after (Suc k) (ws_normalizer s') \<and> epoch_ok s' \<and> ws_decoder s' = ws_decoder s \<and> ws_finished s' = ws_finished s"
  proof (cases q1)
    case (Inl e)
    with assms(1) n1 s1 \<open>q1 \<noteq> Inl Panic\<close> show ?thesis by (auto simp: read_record_from_def se_defs)
  next
    case ts: (Inr ts)
    obtain q2 s2 where n2: "expand_sequence (cw_sequence w) l s1 = (q2, s2)" by fastforce
    show ?thesis
    proof (cases q2)
      case (Inl e)
      with assms(1) n1 n2 ts s1 expand_sequence_Inl [OF n2 [unfolded Inl] s1(1)] show ?thesis
        by (auto simp: read_record_from_def se_defs)
    next
      case (Inr p)
      obtain x missing where p: "p = (x, missing)" by fastforce
      note ex = expand_sequence_Inr [OF n2 [unfolded Inr p] s1(1)]
      from ex(6) obtain e where s2: "s2 = s1\<lparr>ws_sequence_epoch := e, ws_last_raw_sequence := Some (cw_sequence w)\<rparr>" ..
      have run: "(r, s') = andthen (lift (normalized_sequence x l)) (\<lambda>source_seq. with_state (\<lambda>s.
          andthen (lift (map_record s w ts source_seq l)) (\<lambda>actual. emit_record w missing ts source_seq actual))) s2"
        using assms(1) n1 n2 ts Inr p by (simp add: read_record_from_def andthen_def [of "normalize_ticks _ _"] andthen_def [of "expand_sequence _ _"])
      have done': "nz_after (Suc k) (ws_normalizer s2)" "ws_decoder s2 = ws_decoder s" "ws_finished s2 = ws_finished s"
        using s1 s2 by simp_all
      have "normalized_sequence x l \<noteq> Inl Panic" by (simp add: normalized_sequence_def)
      with run ex(1) done' map_record_Panic show ?thesis
        by (cases "normalized_sequence x l"; cases "map_record s2 w ts (projr (normalized_sequence x l)) l")
          (auto simp: emit_record_def se_defs Let_def epoch_ok_def split: if_splits)
    qed
  qed
  then show "r \<noteq> Inl Panic" "nz_after (Suc k) (ws_normalizer s')" "epoch_ok s'" "ws_decoder s' = ws_decoder s"
    "ws_finished s' = ws_finished s"
    by blast+
qed

lemma read_next_safe:
  assumes "read_next s = (r, t)" and "countable s" and "\<not> ws_finished s"
  shows "r \<noteq> Inl Panic" and "countable t" and "left_bytes (ws_decoder t) \<le> left_bytes (ws_decoder s)"
    and "r = Inr (Some x) \<Longrightarrow> wire_left t < wire_left s" and "\<not> ws_finished t"
proof -
  have "r \<noteq> Inl Panic \<and> countable t \<and> left_bytes (ws_decoder t) \<le> left_bytes (ws_decoder s)
      \<and> (r = Inr (Some x) \<longrightarrow> wire_left t < wire_left s) \<and> \<not> ws_finished t"
  proof (cases "ws_pending s")
    case (Some p)
    with assms show ?thesis
      by (auto simp: read_next_def se_defs countable_def epoch_ok_def wire_left_def)
  next
    case None
    obtain q d where q: "next_record (ws_decoder s) = (q, d)" by fastforce
    from assms(2) obtain k where k: "nz_after k (ws_normalizer s)" "k + left_bytes (ws_decoder s) < 2 ^ 64"
      and ok: "decoder_ok (ws_decoder s)" "epoch_ok s" by (auto simp: countable_def)
    note rec = next_record_counts [OF ok(1) q]
    let ?s1 = "s\<lparr>ws_decoder := d\<rparr>"
    have s1: "countable ?s1" "epoch_ok ?s1" "nz_after k (ws_normalizer ?s1)"
      using ok k rec(2) reads_ok [OF ok(1) rec(2)]
      by (auto simp: countable_def epoch_ok_def reads_def intro!: exI [of _ k])
    show ?thesis
    proof (cases "\<exists>w. q = Inr (Some w)")
      case False
      with assms(1) None q have "(r = Inr None \<or> (\<exists>e. q = Inl e \<and> r = Inl e)) \<and> t = ?s1"
        by (cases q) (auto simp: read_next_def on_decoder_def se_defs split: option.splits)
      with s1 rec assms(3) show ?thesis by (auto simp: reads_def)
    next
      case True
      then obtain w where w: "q = Inr (Some w)" ..
      from rec(3) [OF w, of start_location] have left: "left_bytes d + 32 \<le> left_bytes (ws_decoder s)" by simp
      from assms(1) None q w have run: "read_record_from w (record_location d w) ?s1 = (r, t)"
        by (simp add: read_next_def on_decoder_def andthen_def with_state_def)
      have "k < 2 ^ 64" using k(2) by simp
      note safe' = read_record_from_safe [OF run s1(3) this s1(2)]
      have "countable t"
        using safe' left k reads_ok [OF ok(1) rec(2)] by (auto simp: countable_def intro!: exI [of _ "Suc k"])
      with safe' left assms(3) None show ?thesis by (auto simp: wire_left_def)
    qed
  qed
  then show "r \<noteq> Inl Panic" "countable t" "left_bytes (ws_decoder t) \<le> left_bytes (ws_decoder s)"
    "r = Inr (Some x) \<Longrightarrow> wire_left t < wire_left s" "\<not> ws_finished t" by blast+
qed

lemma wire_next_safe:
  assumes "wire_next s = (r, t)" and "wire_ok s"
  shows "r \<noteq> Inl Panic" and "wire_ok t" and "wire_left t \<le> wire_left s"
    and "r = Inr (Some x) \<Longrightarrow> wire_left t < wire_left s"
proof -
  have "r \<noteq> Inl Panic \<and> wire_ok t \<and> wire_left t \<le> wire_left s \<and> (r = Inr (Some x) \<longrightarrow> wire_left t < wire_left s)"
  proof (cases "ws_finished s")
    case True
    with assms show ?thesis by (auto simp: wire_next_def)
  next
    case False
    obtain q u where q: "read_next s = (q, u)" by fastforce
    from False assms(2) have "countable s" by (simp add: wire_ok_def)
    note safe' = read_next_safe [OF q this False]
    have fin: "wire_ok (u\<lparr>ws_finished := True\<rparr>)" "wire_left (u\<lparr>ws_finished := True\<rparr>) = 0"
      by (simp_all add: wire_ok_def wire_left_def)
    show ?thesis
    proof (cases "\<exists>y. q = Inr (Some y)")
      case True
      then obtain y where y: "q = Inr (Some y)" ..
      with assms(1) False q have "r = Inr (Some y)" "t = u" by (auto simp: wire_next_def)
      with safe' y show ?thesis by (auto simp: wire_ok_def)
    next
      case other: False
      then have "(\<exists>e. q = Inl e) \<or> q = Inr None" by (cases q) auto
      with assms(1) False q other have "t = u\<lparr>ws_finished := True\<rparr>" "r = map_err SourceFrom q"
        by (auto simp: wire_next_def)
      with fin safe'(1) other show ?thesis by (auto simp: map_err_Panic)
    qed
  qed
  then show "r \<noteq> Inl Panic" "wire_ok t" "wire_left t \<le> wire_left s" "r = Inr (Some x) \<Longrightarrow> wire_left t < wire_left s"
    by blast+
qed

interpretation wire: merged_source wire_next wire_left wire_ok ws_descriptor
proof (unfold_locales)
  fix s r s'
  obtain q t where q: "wire_next s = (q, t)" by fastforce
  assume "wire_ok s"
  from wire_next_safe [OF q this] q
  show "wire_next s = (Inr (Some r), s') \<Longrightarrow> wire_left s' < wire_left s"
    "wire_left (snd (wire_next s)) \<le> wire_left s" "wire_ok (snd (wire_next s))" "fst (wire_next s) \<noteq> Inl Panic"
    by auto
qed

subsection \<open>A new source\<close>

lemma wire_source_new_Inr:
  assumes "wire_source_new_inner rd cfg m = Inr s"
  obtains nz where "normalizer_new (wc_clock cfg) (wc_origin_ticks cfg) (wc_origin_ns cfg) = Inr nz"
    and "ws_normalizer s = nz" and "ws_pending s = None" and "ws_last_raw_sequence s = None" and "ws_sequence_epoch s = 0"
    and "ws_finished s = False" and "dc_reader (ws_decoder s) = rd" and "dc_byte_offset (ws_decoder s) = 0"
  using assms
  by (auto simp: wire_source_new_inner_def rthen_eq_Inr rbind_eq_Inr decoder_new_def split: if_splits)

lemma wire_new_ok:
  assumes "tick_scale_new num den = Inr sc" and "clock_domain_new i sc modulus maximum = Inr (wc_clock cfg)"
    and "wire_source_new_inner rd cfg m = Inr s"
  shows "source_ok s" and "length (contents rd) < 2 ^ 64 \<Longrightarrow> countable s"
proof -
  from assms(3) obtain nz where nz: "normalizer_new (wc_clock cfg) (wc_origin_ticks cfg) (wc_origin_ns cfg) = Inr nz"
    and s: "ws_normalizer s = nz" "ws_pending s = None" "ws_last_raw_sequence s = None" "ws_sequence_epoch s = 0"
      "ws_finished s = False" "dc_reader (ws_decoder s) = rd" "dc_byte_offset (ws_decoder s) = 0"
    by (rule wire_source_new_Inr)
  from normalizer_new_wf [OF assms(1,2) nz] s show "source_ok s"
    by (simp add: source_ok_def epoch_ok_def)
  have "nz_after 0 nz" using normalizer_new_after [OF assms(1,2) nz] .
  with s show "length (contents rd) < 2 ^ 64 \<Longrightarrow> countable s"
    by (auto simp: countable_def decoder_ok_def epoch_ok_def intro!: exI [of _ 0])
qed

text \<open>The source of the witnesses: two records, the second with the drop flag, on a wrapping clock.\<close>

definition demo_wire_config :: c_wire_config where
  "demo_wire_config =
     \<lparr>wc_source_id = ''sdk'', wc_core_id = 0, wc_clock = demo_domain, wc_origin_ticks = None, wc_origin_ns = I64 100,
      wc_limits = default_wire_limits\<rparr>"

definition demo_wire_reader :: reader where
  "demo_wire_reader = Interrupted ''EINTR'' # chunked 20 7 (concat (map sdk_record_bytes demo_records))"

lemma demo_wire_source: "\<exists>s. wire_source_new_inner demo_wire_reader demo_wire_config None = Inr s"
  using demo_normalizer_new
  by (simp add: wire_source_new_inner_def demo_wire_config_def decoder_new_def default_wire_limits_def rthen_eq_Inr)

lemma demo_wire_domain: "clock_domain_new ''core0'' demo_scale (Some 65536) (Some 40000) = Inr (wc_clock demo_wire_config)"
  by (simp add: demo_domain_new demo_wire_config_def)

lemma demo_wire_bytes: "length (contents demo_wire_reader) < 2 ^ 64"
proof -
  have "length (contents demo_wire_reader) = 69" by code_simp
  then show ?thesis by simp
qed

text \<open>C29: Expanding a 32-bit sequence is exact: with \<open>p\<close> the expanded value of the last record and \<open>d\<close> the
  number of sequences skipped since, the result is \<open>p + 1 + d\<close> and \<open>d\<close>, across any wraps; a sequence that is
  repeated or moves back is refused, and overflow is reported exactly when the value is not a 64-bit integer.\<close>
theorem expand_sequence_exact:
  assumes "epoch_ok s" and "ws_last_raw_sequence s = Some prev"
  shows "fst (expand_sequence raw l s) =
    (let d = raw - (prev + 1); x = unat (ws_sequence_epoch s) + unat prev + 1 + unat d
     in if 2 ^ 31 \<le> unat d then Inl (Err (WireError l (SequenceOutOfOrder prev raw)))
        else if 2 ^ 64 \<le> x then Inl (Err (WireError l SequenceOverflow))
        else Inr (word_of_nat x, d))"
proof -
  let ?d = "raw - (prev + 1)" and ?e = "ws_sequence_epoch s"
  have far: "raw \<noteq> prev + 1 \<and> 0x80000000 \<le> ?d \<longleftrightarrow> 2 ^ 31 \<le> unat ?d"
    by (auto simp: word_le_nat_alt)
  show ?thesis
  proof (cases "2 ^ 31 \<le> unat ?d")
    case True
    with far assms(2) show ?thesis by (simp add: expand_sequence_def se_defs Let_def)
  next
    case False
    then have near: "raw = prev + 1 \<or> ?d < 0x80000000" using far by (auto simp: not_le)
    note dist = raw_distance [OF near]
    let ?x = "unat ?e + unat prev + 1 + unat ?d"
    have x: "?x = unat ?e + (if raw < prev then 2 ^ 32 else 0) + unat raw" using dist(2) by simp
    have div: "2 ^ 32 dvd unat ?e" using assms(1) by (simp add: epoch_ok_def)
    have small: "unat ?e + unat raw < 2 ^ 64"
    proof -
      obtain k where k: "unat ?e = 2 ^ 32 * k" using div by (rule dvdE)
      then have "k < 2 ^ 32" using unat_u64_less [of ?e] by simp
      then have "2 ^ 32 * (k + 1) \<le> (2 ^ 32 * 2 ^ 32 :: nat)" by (intro mult_le_mono) auto
      with k unat_u32_less [of raw] show ?thesis by simp
    qed
    have two: "unat (2 ^ 32 :: u64) = 2 ^ 32" and len64: "LENGTH(64) = 64" by simp_all
    show ?thesis
    proof (cases "raw < prev")
      case True
      show ?thesis
      proof (cases "unat ?e + 2 ^ 32 < 2 ^ 64")
        case fits: True
        then obtain e where e: "checked_add ?e (2 ^ 32) = Some e" "unat e = unat ?e + 2 ^ 32"
          using two by (simp add: checked_add_unat unat_add_lt)
        have "fst (expand_sequence raw l s) =
            map_err id (rbind (ok_or (checked_add e (ucast raw)) (WireError l SequenceOverflow)) (\<lambda>x. Inr (x, ?d)))"
          using assms(2) far False True e(1)
          by (auto simp: expand_sequence_def se_defs Let_def ok_or_def map_err_def split: option.splits)
        moreover have "checked_add e (ucast raw) = (if ?x < 2 ^ 64 then Some (word_of_nat ?x) else None)"
          using True by (simp only: checked_add_of_nat unat_ucast_u32 e(2) x if_True len64)
        ultimately show ?thesis
          using False by (simp only: Let_def if_False) (auto simp: ok_or_def map_err_def not_le)
      next
        case over: False
        then have "checked_add ?e (2 ^ 32) = None" using two by (simp add: checked_add_None)
        with assms(2) far False True have "fst (expand_sequence raw l s) = Inl (Err (WireError l SequenceOverflow))"
          by (auto simp: expand_sequence_def se_defs Let_def ok_or_def)
        with False x True over show ?thesis by (simp add: Let_def)
      qed
    next
      case same: False
      have "fst (expand_sequence raw l s) =
          map_err id (rbind (ok_or (checked_add ?e (ucast raw)) (WireError l SequenceOverflow)) (\<lambda>x. Inr (x, ?d)))"
        using assms(2) far False same
        by (auto simp: expand_sequence_def se_defs Let_def ok_or_def map_err_def split: option.splits)
      moreover have "checked_add ?e (ucast raw) = (if ?x < 2 ^ 64 then Some (word_of_nat ?x) else None)"
        using same by (simp only: checked_add_of_nat unat_ucast_u32 x if_False len64 add_0_right)
      ultimately show ?thesis
        using False by (simp only: Let_def if_False) (auto simp: ok_or_def map_err_def not_le)
    qed
  qed
qed

theorem expand_sequence_exact_witness:
  "\<exists>s. ws_last_raw_sequence s = Some 0xFFFFFFFE \<and>
     fst (expand_sequence 2 start_location s) = Inr (0x100000002, 3)"
proof -
  obtain s where "wire_source_new_inner demo_wire_reader demo_wire_config None = Inr s" using demo_wire_source ..
  then have e: "ws_sequence_epoch s = 0" by (rule wire_source_new_Inr)
  let ?s = "s\<lparr>ws_last_raw_sequence := Some 0xFFFFFFFE\<rparr>"
  have "epoch_ok ?s" "ws_last_raw_sequence ?s = Some 0xFFFFFFFE" using e by (simp_all add: epoch_ok_def)
  from expand_sequence_exact [OF this, of 2 start_location] e
  have "fst (expand_sequence 2 start_location ?s) = Inr (0x100000002, 3)" by (simp add: Let_def)
  then show ?thesis by (intro exI [of _ ?s]) simp
qed

text \<open>C30: The observations of a C SDK source satisfy the order validator: whatever bytes it reads, with
  any losses, wraps of the 32-bit sequence and inserted gaps, timestamps never decrease and the
  normalized sequence numbers increase strictly, so the validator accepts all it yields.\<close>
theorem wire_observations_ordered:
  assumes "tick_scale_new num den = Inr sc" and "clock_domain_new i sc modulus maximum = Inr (wc_clock cfg)"
    and "wire_source_new_inner rd cfg m = Inr s"
  shows "\<exists>v. observe_all order_validator_default (map oo_observation (drain wire_next n s)) = Inr v"
proof -
  let ?os = "map oo_observation (drain wire_next n s)"
  have rel: "sorted_wrt later (drain wire_next n s)"
    using wire_new_ok(1) [OF assms] by (rule wire_order.drain_related)
  then have "sorted_wrt (\<lambda>a b. ts_ns a \<le> ts_ns b \<and> obs_source_seq a < obs_source_seq b) ?os"
    by (simp add: sorted_wrt_map later_def oo_ts_def) (auto elim!: sorted_wrt_mono_rel [rotated] simp: later_def oo_ts_def)
  then have "sorted (map ts_ns ?os)" "sorted_wrt (\<lambda>a b. obs_source_seq a < obs_source_seq b) ?os"
    by (auto simp: sorted_wrt_map elim!: sorted_wrt_mono_rel [rotated])
  moreover from this(2) have "sorted_wrt (<) (map obs_source_seq (from_source j ?os))" for j
    by (simp only: from_source_def sorted_wrt_map sorted_wrt_filter)
  ultimately show ?thesis by (simp add: order_validator_exact)
qed

theorem wire_observations_ordered_witness:
  "\<exists>s v. wire_source_new_inner demo_wire_reader demo_wire_config None = Inr s \<and>
     observe_all order_validator_default (map oo_observation (drain wire_next 4 s)) = Inr v"
  using demo_wire_source wire_observations_ordered [OF demo_scale_new demo_wire_domain] by blast

text \<open>C31: A C SDK source always comes to an end, without a panic: whatever the reader does, with fewer
  than 2^64 bytes, reading twice as many observations as there are bytes meets the clean end or an error.\<close>
theorem wire_source_ends:
  assumes "tick_scale_new num den = Inr sc" and "clock_domain_new i sc modulus maximum = Inr (wc_clock cfg)"
    and "wire_source_new_inner rd cfg m = Inr s" and "length (contents rd) < 2 ^ 64"
  shows "\<exists>res. read_all wire_next (2 * length (contents rd) + 1) s = Some res \<and> res \<noteq> Inl Panic"
proof -
  from wire_new_ok(2) [OF assms(1-4)] have ok: "wire_ok s" by (simp add: wire_ok_def)
  have "wire_left s < 2 * length (contents rd) + 1"
    using assms(3) by (rule wire_source_new_Inr) (simp add: wire_left_def)
  with wire.read_all_enough [OF ok] wire.read_all_no_panic [OF ok] show ?thesis by fastforce
qed

theorem wire_source_ends_witness:
  "\<exists>s res. wire_source_new_inner demo_wire_reader demo_wire_config None = Inr s \<and>
     read_all wire_next (2 * length (contents demo_wire_reader) + 1) s = Some res \<and> res \<noteq> Inl Panic"
  using demo_wire_source wire_source_ends [OF demo_scale_new demo_wire_domain _ demo_wire_bytes] by blast


subsection \<open>Gaps\<close>

definition refused_gap :: "ordered_observation \<Rightarrow> bool" where
  "refused_gap r \<longleftrightarrow>
     (case obs_event (oo_observation r) of
        TraceGap _ d _ \<Rightarrow> d = 0 \<and> validate_observation (oo_observation r) \<noteq> Inr ()
      | _ \<Rightarrow> True)"

lemma refused_gapI: "obs_event (oo_observation r) = TraceGap t 0 x \<Longrightarrow> refused_gap r"
  by (auto simp: refused_gap_def validate_observation_def rthen_eq_Inr)

lemma map_record_refused: "map_record s w ts q l = Inr r \<Longrightarrow> refused_gap r"
proof -
  assume "map_record s w ts q l = Inr r"
  then obtain ctx ev where e: "map_event s w ts ctx l = Inr ev" and r: "obs_event (oo_observation r) = ev"
    by (auto simp: map_record_def rbind_eq_Inr unordered_def new_observation_def)
  show ?thesis
  proof (cases ev)
    case (TraceGap t d x)
    with e have "d = 0"
      by (auto simp: map_event_def Let_def rbind_eq_Inr rthen_eq_Inr split: wire_event_kind.splits)
    with TraceGap r show ?thesis by (auto intro: refused_gapI)
  qed (use r in \<open>simp_all add: refused_gap_def\<close>)
qed

lemma gap_before_refused: "refused_gap (gap_before s q ts m b)"
  by (rule refused_gapI) (simp add: gap_before_def unordered_def new_observation_def)

definition pending_refused :: "wire_source \<Rightarrow> bool" where
  "pending_refused s \<longleftrightarrow> (case ws_pending s of None \<Rightarrow> True | Some r \<Rightarrow> refused_gap r)"

lemma keeps_pending:
  "safe (\<lambda>s. ws_pending s = None) (normalize_ticks t l) (\<lambda>_ s. ws_pending s = None) (\<lambda>_ s. ws_pending s = None)"
  "safe (\<lambda>s. ws_pending s = None) (expand_sequence q l) (\<lambda>_ s. ws_pending s = None) (\<lambda>_ s. ws_pending s = None)"
  by (auto simp: safe_def normalize_ticks_def expand_sequence_def se_defs Let_def split: prod.splits sum.splits option.splits)

lemma read_record_from_refused:
  "safe (\<lambda>s. ws_pending s = None) (read_record_from w l)
     (\<lambda>y s. (\<forall>r. y = Some r \<longrightarrow> refused_gap r) \<and> pending_refused s) (\<lambda>_ s. ws_pending s = None)"
proof -
  have emit: "safe (\<lambda>s. ws_pending s = None) (emit_record w m ts q actual)
      (\<lambda>y s. (\<forall>r. y = Some r \<longrightarrow> refused_gap r) \<and> pending_refused s) (\<lambda>_ s. ws_pending s = None)"
    if "refused_gap actual" for m ts q actual
    using that gap_before_refused
    by (auto simp: safe_def emit_record_def se_defs Let_def pending_refused_def)
  have "safe (\<lambda>s. ws_pending s = None) (with_state (\<lambda>s. andthen (lift (map_record s w ts q l)) (\<lambda>actual. emit_record w m ts q actual)))
      (\<lambda>y s. (\<forall>r. y = Some r \<longrightarrow> refused_gap r) \<and> pending_refused s) (\<lambda>_ s. ws_pending s = None)" for m ts q
  proof (rule safe_with_state_inv)
    fix s
    show "safe (\<lambda>s. ws_pending s = None) (andthen (lift (map_record s w ts q l)) (\<lambda>actual. emit_record w m ts q actual))
      (\<lambda>y s. (\<forall>r. y = Some r \<longrightarrow> refused_gap r) \<and> pending_refused s) (\<lambda>_ s. ws_pending s = None)"
      using emit map_record_refused [of s w ts q l]
      by (cases "map_record s w ts q l") (auto simp: safe_def andthen_def lift_def)
  qed
  note last = this
  show ?thesis
    unfolding read_record_from_def
    by (rule safe_andthen [OF keeps_pending(1)], rule safe_andthen [OF keeps_pending(2)])
      (auto split: prod.splits intro!: safe_andthen [where R = "\<lambda>_ s. ws_pending s = None"] safe_lift last)
qed

lemma wire_next_refused:
  assumes "pending_refused s" and "wire_next s = (r, t)"
  shows "pending_refused t" and "r = Inr (Some x) \<Longrightarrow> refused_gap x"
proof -
  have "pending_refused t \<and> (r = Inr (Some x) \<longrightarrow> refused_gap x)"
  proof (cases "ws_finished s")
    case True
    with assms show ?thesis by (auto simp: wire_next_def)
  next
    case open': False
    obtain q u where q: "read_next s = (q, u)" by fastforce
    have "(ws_pending u = None \<or> (\<exists>y. q = Inr y)) \<and> (\<forall>y. q = Inr y \<longrightarrow> pending_refused u \<and> (\<forall>r. y = Some r \<longrightarrow> refused_gap r))"
    proof (cases "ws_pending s")
      case (Some p)
      with q assms(1) show ?thesis by (auto simp: read_next_def se_defs pending_refused_def)
    next
      case None
      obtain z d where z: "next_record (ws_decoder s) = (z, d)" by fastforce
      let ?s1 = "s\<lparr>ws_decoder := d\<rparr>"
      show ?thesis
      proof (cases "\<exists>w. z = Inr (Some w)")
        case False
        with q None z have "u = ?s1 \<and> (\<forall>y. q = Inr y \<longrightarrow> y = None)"
          by (cases z) (auto simp: read_next_def on_decoder_def se_defs split: option.splits)
        with None show ?thesis by (auto simp: pending_refused_def)
      next
        case True
        then obtain w where "z = Inr (Some w)" ..
        with q None z have run: "read_record_from w (record_location d w) ?s1 = (q, u)"
          by (simp add: read_next_def on_decoder_def andthen_def with_state_def)
        have pre: "ws_pending ?s1 = None" using None by simp
        show ?thesis
        proof (cases q)
          case (Inl e)
          with safeD(2) [OF read_record_from_refused pre] run show ?thesis by auto
        next
          case (Inr y)
          with safeD(1) [OF read_record_from_refused pre] run show ?thesis by auto
        qed
      qed
    qed
    with assms(2) open' q show ?thesis
      by (auto simp: wire_next_def pending_refused_def map_err_def split: sum.splits option.splits fail.splits)
  qed
  then show "pending_refused t" "r = Inr (Some x) \<Longrightarrow> refused_gap x" by blast+
qed

text \<open>C32: Every gap the source reports is refused by the validator of observations: its duration is always 0, for
  dropped records as for losses the source finds itself, so a stream with a gap never passes the model's own contract.\<close>
theorem wire_gaps_refused:
  assumes "wire_source_new_inner rd cfg m = Inr s"
  shows "list_all refused_gap (drain wire_next n s)"
proof -
  have "pending_refused s" using assms by (rule wire_source_new_Inr) (simp add: pending_refused_def)
  then show ?thesis
  proof (induction n arbitrary: s)
    case (Suc n)
    show ?case
    proof (cases wire_next n s rule: drain_Suc_cases)
      case (item r s')
      with wire_next_refused [OF Suc.prems] Suc.IH show ?thesis by auto
    qed simp
  qed simp
qed

theorem wire_gaps_refused_witness:
  "\<exists>s. wire_source_new_inner demo_wire_reader demo_wire_config None = Inr s \<and>
     list_all refused_gap (drain wire_next 4 s)"
  using demo_wire_source wire_gaps_refused by blast

end
