(* ===== verification/Portable_Names.thy ===== *)
theory Portable_Names
  imports Model_Types
begin

text \<open>
  Portable identifiers and artifact paths of \<open>crates/t32perf-model/src/session.rs\<close>: the segments
  every host file system can hold, session and artifact identifiers, relative artifact paths, and
  the case-folded key under which they are unique.
\<close>

named_theorems path_simps \<open>facts about accepted paths and their segments\<close>

subsection \<open>Segments\<close>

definition portable_name_key :: "string \<Rightarrow> string" where
  "portable_name_key v = to_ascii_lowercase v"

definition eq_ignore_ascii_case :: "string \<Rightarrow> string \<Rightarrow> bool" where
  "eq_ignore_ascii_case a b \<longleftrightarrow> to_ascii_lowercase a = to_ascii_lowercase b"

definition is_ascii_char :: "char \<Rightarrow> bool" where
  "is_ascii_char c \<longleftrightarrow> (of_char c :: nat) < 128"

definition is_ascii_control :: "char \<Rightarrow> bool" where
  "is_ascii_control c \<longleftrightarrow> (of_char c :: nat) < 32 \<or> (of_char c :: nat) = 127"

text \<open>Slicing a \<open>str\<close> at the length of an ASCII prefix that matches is always at a character boundary.\<close>

definition device_number :: "string \<Rightarrow> string \<Rightarrow> bool" where
  "device_number basename prefix \<longleftrightarrow>
     length prefix \<le> length basename \<and>
     eq_ignore_ascii_case (take (length prefix) basename) prefix \<and>
     drop (length prefix) basename \<in> set [''1'', ''2'', ''3'', ''4'', ''5'', ''6'', ''7'', ''8'', ''9'']"

definition device_basename :: "string \<Rightarrow> string" where
  "device_basename segment =
     rev (dropWhile (\<lambda>c. c = CHR ''.'' \<or> c = CHR '' '') (rev (takeWhile (\<lambda>c. c \<noteq> CHR ''.'') segment)))"

definition is_windows_device_basename :: "string \<Rightarrow> bool" where
  "is_windows_device_basename segment \<longleftrightarrow>
     (let basename = device_basename segment in
      eq_ignore_ascii_case basename ''con'' \<or> eq_ignore_ascii_case basename ''prn'' \<or>
      eq_ignore_ascii_case basename ''aux'' \<or> eq_ignore_ascii_case basename ''nul'' \<or>
      eq_ignore_ascii_case basename ''conin$'' \<or> eq_ignore_ascii_case basename ''conout$'' \<or>
      device_number basename ''com'' \<or> device_number basename ''lpt'')"

definition is_portable_name_segment :: "string \<Rightarrow> bool" where
  "is_portable_name_segment segment \<longleftrightarrow>
     segment \<noteq> [] \<and> last segment \<noteq> CHR ''.'' \<and> last segment \<noteq> CHR '' '' \<and>
     list_all (\<lambda>c. is_ascii_char c \<and> \<not> is_ascii_control c \<and>
       c \<notin> set [CHR ''<'', CHR ''>'', CHR '':'', CHR 0x22, CHR 0x5C, CHR ''|'', CHR ''?'', CHR ''*'', CHR ''/'']) segment \<and>
     \<not> is_windows_device_basename segment"

subsection \<open>Identifiers\<close>

text \<open>Every byte is a letter, a digit, or one of the given marks past the first position.\<close>

definition identifier_chars :: "char list \<Rightarrow> string \<Rightarrow> bool" where
  "identifier_chars marks v \<longleftrightarrow>
     list_all (\<lambda>(i, c). is_lower c \<or> is_upper c \<or> is_digit c \<or> c \<in> set marks \<and> 0 < i) (enumerate 0 v)"

definition is_portable_session_id :: "string \<Rightarrow> bool" where
  "is_portable_session_id v \<longleftrightarrow>
     v \<noteq> [] \<and> length v \<le> 64 \<and> identifier_chars [CHR ''_'', CHR ''-''] v \<and> is_portable_name_segment v"

definition is_portable_artifact_id :: "string \<Rightarrow> bool" where
  "is_portable_artifact_id v \<longleftrightarrow>
     v \<noteq> [] \<and> length v \<le> 128 \<and> identifier_chars [CHR ''_'', CHR ''-'', CHR ''.''] v \<and>
     is_portable_name_segment v"

subsection \<open>Artifact paths\<close>

datatype artifact_path_error =
    PathEmpty
  | PathAbsolute
  | PathBackslash
  | PathNul
  | PathInvalidSegment
  | PathNonPortableSegment string
  | PathTooLong nat nat

definition check_segment :: "string \<Rightarrow> (artifact_path_error, unit) res" where
  "check_segment segment =
     rthen (ensure (segment \<noteq> [] \<and> segment \<noteq> ''.'' \<and> segment \<noteq> ''..'') PathInvalidSegment)
       (ensure (is_portable_name_segment segment) (PathNonPortableSegment segment))"

definition validate_artifact_path :: "string \<Rightarrow> (artifact_path_error, unit) res" where
  "validate_artifact_path path =
     rthen (ensure (path \<noteq> []) PathEmpty)
     (rthen (ensure (length path \<le> 1024) (PathTooLong 1024 (length path)))
     (rthen (ensure (\<not> starts_with path [CHR ''/''] \<and> \<not> starts_with path [CHR 0x5C] \<and> CHR '':'' \<notin> set path) PathAbsolute)
     (rthen (ensure (CHR 0x5C \<notin> set path) PathBackslash)
     (rthen (ensure (CHR 0x00 \<notin> set path) PathNul)
       (each check_segment (split_at_char (CHR ''/'') path))))))"

datatype artifact_path = ArtifactPath (as_path: string)

definition artifact_path_new :: "string \<Rightarrow> (artifact_path_error, artifact_path) res" where
  "artifact_path_new path = rbind (validate_artifact_path path) (\<lambda>_. Inr (ArtifactPath path))"

definition portable_key :: "artifact_path \<Rightarrow> string" where
  "portable_key p = portable_name_key (as_path p)"

text \<open>How a host resolves a relative path below a directory: empty and \<open>.\<close> segments stay, \<open>..\<close> goes up.\<close>

fun resolve :: "string list \<Rightarrow> string list \<Rightarrow> string list" where
  "resolve dir [] = dir"
| "resolve dir (seg # segs) =
     resolve (if seg = [] \<or> seg = ''.'' then dir else if seg = ''..'' then butlast dir else dir @ [seg]) segs"

subsection \<open>Characters\<close>

definition letter_free :: "char \<Rightarrow> bool" where
  "letter_free x \<longleftrightarrow> \<not> is_lower x \<and> \<not> is_upper x"

lemma char_eq_code: "c = d \<longleftrightarrow> (of_char c :: nat) = of_char d"
  by simp

lemma char_code_less [simp]: "(of_char c :: nat) < 256"
  using nat_of_char_less_256 by blast

lemma is_upper_code: "is_upper c \<longleftrightarrow> 65 \<le> (of_char c :: nat) \<and> (of_char c :: nat) \<le> 90"
  by (simp add: is_upper_def less_eq_char_def)

lemma is_lower_code: "is_lower c \<longleftrightarrow> 97 \<le> (of_char c :: nat) \<and> (of_char c :: nat) \<le> 122"
  by (simp add: is_lower_def less_eq_char_def)

lemma is_digit_code: "is_digit c \<longleftrightarrow> 48 \<le> (of_char c :: nat) \<and> (of_char c :: nat) \<le> 57"
  by (simp add: is_digit_def less_eq_char_def)

lemma lower_char_code:
  "(of_char (ascii_lower_char c) :: nat) =
     (if 65 \<le> (of_char c :: nat) \<and> (of_char c :: nat) \<le> 90 then of_char c + 32 else of_char c)"
  by (simp add: ascii_lower_char_def less_eq_char_def)

lemmas char_codes = is_upper_code is_lower_code is_digit_code lower_char_code letter_free_def
  is_ascii_char_def is_ascii_control_def

lemma lower_char_simps [simp]:
  "is_ascii_char (ascii_lower_char c) = is_ascii_char c"
  "is_ascii_control (ascii_lower_char c) = is_ascii_control c"
  "ascii_lower_char (ascii_lower_char c) = ascii_lower_char c"
  "is_digit (ascii_lower_char c) = is_digit c"
  by (auto simp: char_codes char_eq_code)

lemma lower_char_letter: "(is_lower (ascii_lower_char c) \<or> is_upper (ascii_lower_char c)) = (is_lower c \<or> is_upper c)"
  by (auto simp: char_codes)

lemma lower_char_eq: "letter_free x \<Longrightarrow> ascii_lower_char c = x \<longleftrightarrow> c = x"
  by (auto simp: char_codes char_eq_code simp del: of_char_eq_iff)

lemma lower_char_in: "list_all letter_free xs \<Longrightarrow> ascii_lower_char c \<in> set xs \<longleftrightarrow> c \<in> set xs"
  by (induction xs) (auto simp: lower_char_eq)

lemma lower_idem [simp]: "to_ascii_lowercase (to_ascii_lowercase s) = to_ascii_lowercase s"
  by (simp add: to_ascii_lowercase_def comp_def)

lemma lower_mem: "letter_free x \<Longrightarrow> x \<in> set (to_ascii_lowercase s) \<longleftrightarrow> x \<in> set s"
  by (induction s) (auto simp: to_ascii_lowercase_def lower_char_eq eq_commute [of x "ascii_lower_char _"])

subsection \<open>Segments\<close>

lemma split_at_char_Nil [simp]: "split_at_char sep [] = [[]]"
  by (simp add: split_at_char_def)

lemma split_at_char_Cons:
  "split_at_char sep (c # s) =
     (if c = sep then [] # split_at_char sep s
      else (c # hd (split_at_char sep s)) # tl (split_at_char sep s))"
  by (simp add: split_at_char_def)

lemma split_at_char_ne [simp]: "split_at_char sep s \<noteq> []"
  by (cases s) (simp_all add: split_at_char_Cons)

lemma split_at_char_map:
  assumes "\<And>c. f c = sep \<longleftrightarrow> c = sep"
  shows "split_at_char sep (map f s) = map (map f) (split_at_char sep s)"
  by (induction s) (auto simp: split_at_char_Cons assms hd_map map_tl)

lemma split_at_char_chars: "\<Union> (set ` set (split_at_char sep s)) = set s - {sep}"
proof (induction s)
  case (Cons c s)
  obtain t ts where "split_at_char sep s = t # ts" using split_at_char_ne by (meson neq_Nil_conv)
  with Cons show ?case by (auto simp: split_at_char_Cons)
qed simp

lemma split_at_char_none: "sep \<notin> set s \<Longrightarrow> split_at_char sep s = [s]"
  by (induction s) (auto simp: split_at_char_Cons)

lemma split_at_char_append:
  "split_at_char sep (s @ sep # t) = split_at_char sep s @ split_at_char sep t"
proof (induction s)
  case Nil
  then show ?case by (simp add: split_at_char_Cons)
next
  case (Cons c s)
  then show ?case by (simp add: split_at_char_Cons)
qed

subsection \<open>Case folding\<close>

lemma letter_free_seps:
  "letter_free CHR ''/''" "letter_free CHR ''.''" "letter_free CHR '' ''" "letter_free CHR '':''"
  "letter_free CHR 0x5C" "letter_free CHR 0x00"
  by (simp_all add: letter_free_def is_lower_code is_upper_code)

lemma letter_free_forbidden:
  "list_all letter_free
     [CHR ''<'', CHR ''>'', CHR '':'', CHR 0x22, CHR 0x5C, CHR ''|'', CHR ''?'', CHR ''*'', CHR ''/'']"
  by (simp add: letter_free_def is_lower_code is_upper_code)

lemma takeWhile_lower:
  "letter_free x \<Longrightarrow> takeWhile (\<lambda>c. c \<noteq> x) (to_ascii_lowercase s) = to_ascii_lowercase (takeWhile (\<lambda>c. c \<noteq> x) s)"
  by (induction s) (auto simp: to_ascii_lowercase_def lower_char_eq)

lemma device_basename_lower: "device_basename (to_ascii_lowercase s) = to_ascii_lowercase (device_basename s)"
proof -
  have "dropWhile (\<lambda>c. c = CHR ''.'' \<or> c = CHR '' '') (map ascii_lower_char t) =
      map ascii_lower_char (dropWhile (\<lambda>c. c = CHR ''.'' \<or> c = CHR '' '') t)" for t
    by (induction t) (auto simp: lower_char_eq letter_free_seps)
  then show ?thesis
    by (simp add: device_basename_def takeWhile_lower letter_free_seps)
       (simp add: to_ascii_lowercase_def rev_map)
qed

lemma digit_string_lower:
  "list_all (list_all letter_free) ws \<Longrightarrow> to_ascii_lowercase s \<in> set ws \<longleftrightarrow> s \<in> set ws"
proof -
  have *: "list_all letter_free w \<Longrightarrow> map ascii_lower_char t = w \<longleftrightarrow> t = w" for t w
    by (induction w arbitrary: t) (auto simp: map_eq_Cons_conv lower_char_eq)
  show "list_all (list_all letter_free) ws \<Longrightarrow> ?thesis"
    by (induction ws) (auto simp: to_ascii_lowercase_def *)
qed

lemma device_number_lower: "device_number (to_ascii_lowercase s) p = device_number s p"
proof -
  have "list_all (list_all letter_free) [''1'', ''2'', ''3'', ''4'', ''5'', ''6'', ''7'', ''8'', ''9'']"
    by (simp add: letter_free_def is_lower_code is_upper_code)
  then have "to_ascii_lowercase (drop (length p) s) \<in> set [''1'', ''2'', ''3'', ''4'', ''5'', ''6'', ''7'', ''8'', ''9''] \<longleftrightarrow>
      drop (length p) s \<in> set [''1'', ''2'', ''3'', ''4'', ''5'', ''6'', ''7'', ''8'', ''9'']"
    by (rule digit_string_lower)
  moreover have "take n (to_ascii_lowercase s) = to_ascii_lowercase (take n s)"
      "drop n (to_ascii_lowercase s) = to_ascii_lowercase (drop n s)"
      "length (to_ascii_lowercase s) = length s" for n
    by (simp_all add: to_ascii_lowercase_def take_map drop_map)
  ultimately show ?thesis
    unfolding device_number_def eq_ignore_ascii_case_def by (simp only: lower_idem)
qed

lemma is_windows_device_basename_lower:
  "is_windows_device_basename (to_ascii_lowercase s) = is_windows_device_basename s"
  unfolding is_windows_device_basename_def Let_def device_basename_lower device_number_lower
    eq_ignore_ascii_case_def lower_idem ..

lemma is_portable_name_segment_lower:
  "is_portable_name_segment (to_ascii_lowercase s) = is_portable_name_segment s"
proof (cases "s = []")
  case False
  then have "last (to_ascii_lowercase s) = ascii_lower_char (last s)"
    by (simp add: to_ascii_lowercase_def last_map)
  moreover have "list_all P (to_ascii_lowercase s) = list_all (\<lambda>c. P (ascii_lower_char c)) s" for P
    by (simp add: to_ascii_lowercase_def list.pred_map comp_def)
  ultimately show ?thesis
    unfolding is_portable_name_segment_def is_windows_device_basename_lower
    using lower_char_in [OF letter_free_forbidden]
    by (simp only: lower_char_simps lower_char_eq letter_free_seps) (simp add: to_ascii_lowercase_def)
qed (simp add: to_ascii_lowercase_def)

subsection \<open>What an accepted path is\<close>

lemma portable_segment_chars:
  "is_portable_name_segment s \<Longrightarrow> c \<in> set s \<Longrightarrow> c \<noteq> CHR '':'' \<and> c \<noteq> CHR 0x5C \<and> c \<noteq> CHR 0x00 \<and> c \<noteq> CHR ''/''"
proof -
  assume "is_portable_name_segment s" "c \<in> set s"
  then have c: "\<not> is_ascii_control c"
      "c \<notin> set [CHR ''<'', CHR ''>'', CHR '':'', CHR 0x22, CHR 0x5C, CHR ''|'', CHR ''?'', CHR ''*'', CHR ''/'']"
    unfolding is_portable_name_segment_def list_all_iff by blast+
  from c(1) have "c \<noteq> CHR 0x00" by (auto simp: is_ascii_control_def)
  with c(2) show ?thesis by simp
qed

lemma portable_segment_named:
  "is_portable_name_segment s \<Longrightarrow> s \<noteq> [] \<and> s \<noteq> ''.'' \<and> s \<noteq> ''..''"
  by (auto simp: is_portable_name_segment_def)

lemma check_segment_Inr: "check_segment s = Inr () \<longleftrightarrow> is_portable_name_segment s"
  using portable_segment_named by (auto simp: check_segment_def rthen_eq_Inr)

lemma split_at_char_absolute: "starts_with p [sep] \<Longrightarrow> [] \<in> set (split_at_char sep p)"
  by (cases p) (auto simp: starts_with_def split_at_char_Cons)

lemma validate_artifact_path_iff:
  "validate_artifact_path p = Inr () \<longleftrightarrow>
     length p \<le> 1024 \<and> list_all is_portable_name_segment (split_at_char (CHR ''/'') p)"
  (is "_ \<longleftrightarrow> ?len \<and> ?all")
proof
  assume "validate_artifact_path p = Inr ()"
  then show "?len \<and> ?all"
    by (simp add: validate_artifact_path_def rthen_eq_Inr each_eq_Inr check_segment_Inr list_all_iff)
next
  assume r: "?len \<and> ?all"
  then have segs: "s \<in> set (split_at_char (CHR ''/'') p) \<Longrightarrow> is_portable_name_segment s" for s
    by (simp add: list_all_iff)
  have "c \<in> set p \<Longrightarrow> c \<noteq> CHR '':'' \<and> c \<noteq> CHR 0x5C \<and> c \<noteq> CHR 0x00" for c
  proof (cases "c = CHR ''/''")
    case False
    assume "c \<in> set p"
    with False have "c \<in> \<Union> (set ` set (split_at_char (CHR ''/'') p))" unfolding split_at_char_chars by blast
    then obtain seg where "seg \<in> set (split_at_char (CHR ''/'') p)" "c \<in> set seg" by blast
    with segs portable_segment_chars show ?thesis by blast
  qed simp
  then have "CHR '':'' \<notin> set p" "CHR 0x5C \<notin> set p" "CHR 0x00 \<notin> set p" by blast+
  moreover have "\<not> starts_with p [CHR ''/'']"
    using segs split_at_char_absolute [of p "CHR ''/''"] portable_segment_named by blast
  moreover from \<open>CHR 0x5C \<notin> set p\<close> have "\<not> starts_with p [CHR 0x5C]"
    by (cases p) (auto simp: starts_with_def)
  moreover have "p \<noteq> []" using segs [of "[]"] portable_segment_named [of "[]"] by auto
  ultimately show "validate_artifact_path p = Inr ()"
    using r by (simp add: validate_artifact_path_def each_eq_Inr check_segment_Inr list_all_iff)
qed

lemma check_segment_no_panic [simp]: "check_segment s \<noteq> Inl Panic"
  by (simp add: check_segment_def rthen_Panic)

lemma validate_artifact_path_no_panic [simp]: "validate_artifact_path p \<noteq> Inl Panic"
  by (simp add: validate_artifact_path_def rthen_Panic each_Panic)

lemma resolve_portable: "list_all is_portable_name_segment segs \<Longrightarrow> resolve dir segs = dir @ segs"
  by (induction segs arbitrary: dir) (auto dest: portable_segment_named)

text \<open>
  C33: A path is accepted exactly when it has at most 1024 bytes and all its segments are portable
  names, and then it stays below the directory it is resolved against: the host appends its
  segments one by one, none of them going up.
\<close>
theorem artifact_paths_confined:
  "case artifact_path_new p of
     Inr a \<Rightarrow> as_path a = p \<and> length p \<le> 1024 \<and>
       list_all is_portable_name_segment (split_at_char (CHR ''/'') p) \<and>
       resolve dir (split_at_char (CHR ''/'') p) = dir @ split_at_char (CHR ''/'') p
   | Inl e \<Rightarrow> e \<noteq> Panic \<and>
       \<not> (length p \<le> 1024 \<and> list_all is_portable_name_segment (split_at_char (CHR ''/'') p))"
proof (cases "validate_artifact_path p")
  case (Inl e)
  then show ?thesis
    using validate_artifact_path_iff [of p] validate_artifact_path_no_panic [of p]
    by (auto simp: artifact_path_new_def)
next
  case (Inr u)
  then show ?thesis
    using validate_artifact_path_iff [of p] by (simp add: artifact_path_new_def resolve_portable)
qed

text \<open>
  Portability ignores case, so the key under which names are unique is itself a name the store
  accepts: a path is valid exactly when its folded key is, and folding twice changes nothing.
\<close>
theorem portable_keys_are_paths:
  "(validate_artifact_path (portable_name_key p) = Inr ()) = (validate_artifact_path p = Inr ())
   \<and> portable_name_key (portable_name_key p) = portable_name_key p"
proof -
  have "split_at_char (CHR ''/'') (to_ascii_lowercase p) = map to_ascii_lowercase (split_at_char (CHR ''/'') p)"
    unfolding to_ascii_lowercase_def
    by (subst split_at_char_map) (simp_all add: lower_char_eq letter_free_seps to_ascii_lowercase_def)
  then show ?thesis
    by (simp add: validate_artifact_path_iff portable_name_key_def list.pred_map comp_def
        is_portable_name_segment_lower) (simp add: to_ascii_lowercase_def)
qed

end
