(* ===== verification/Session_Types.thy ===== *)
theory Session_Types
  imports Portable_Names
begin

text \<open>
  The identities a capture and a session manifest are made of
  (\<open>crates/t32perf-model/src/session.rs\<close>): digests, tool, adapter, target, TRACE32, firmware and
  clock descriptions, with the scans for repeated keys and for control characters that the
  validators of \<open>session.rs\<close> and \<open>capture.rs\<close> share.
\<close>

subsection \<open>Shared scans\<close>

text \<open>
  A loop over \<open>xs\<close> with a \<open>BTreeSet\<close> of the keys seen so far: \<open>pre\<close> checks an element, then
  its key is inserted and must be new, then \<open>post\<close> checks it.
\<close>

fun each_new :: "('a \<Rightarrow> ('e, unit) res) \<Rightarrow> ('a \<Rightarrow> 'k) \<Rightarrow> ('a \<Rightarrow> 'e) \<Rightarrow> ('a \<Rightarrow> ('e, unit) res)
    \<Rightarrow> 'k list \<Rightarrow> 'a list \<Rightarrow> ('e, unit) res" where
  "each_new pre key dup post seen [] = Inr ()"
| "each_new pre key dup post seen (x # xs) =
     rthen (pre x)
     (rthen (ensure (key x \<notin> set seen) (dup x))
     (rthen (post x) (each_new pre key dup post (key x # seen) xs)))"

lemma each_new_Inr:
  "each_new pre key dup post seen xs = Inr () \<longleftrightarrow>
     (\<forall>x\<in>set xs. pre x = Inr () \<and> post x = Inr ()) \<and> distinct (map key xs) \<and>
     set (map key xs) \<inter> set seen = {}"
  by (induction xs arbitrary: seen) (auto simp: rthen_eq_Inr)

lemma each_new_Panic:
  "(\<And>x. x \<in> set xs \<Longrightarrow> pre x \<noteq> Inl Panic) \<Longrightarrow> (\<And>x. x \<in> set xs \<Longrightarrow> post x \<noteq> Inl Panic) \<Longrightarrow>
     each_new pre key dup post seen xs \<noteq> Inl Panic"
  by (induction xs arbitrary: seen) (auto simp: rthen_Panic)

text \<open>
  \<open>chars().any(char::is_control)\<close>: the code points below 32 and from 127 to 159, the latter
  encoded as 127 or as 0xC2 and one byte below 0xA0. In valid UTF-8 0xC2 only starts a character.
\<close>

fun has_control :: "string \<Rightarrow> bool" where
  "has_control [] \<longleftrightarrow> False"
| "has_control (c # cs) \<longleftrightarrow>
     is_ascii_control c \<or> (c = CHR 0xC2 \<and> cs \<noteq> [] \<and> (of_char (hd cs) :: nat) < 160) \<or> has_control cs"

subsection \<open>Digests\<close>

definition is_lower_hex :: "string \<Rightarrow> nat \<Rightarrow> bool" where
  "is_lower_hex v n \<longleftrightarrow>
     length v = n \<and> list_all (\<lambda>c. is_digit c \<or> CHR ''a'' \<le> c \<and> c \<le> CHR ''f'') v"

datatype digest_error = InvalidDigest

datatype sha256_digest = Sha256Digest (digest_hex: string)

definition digest_new :: "string \<Rightarrow> (digest_error, sha256_digest) res" where
  "digest_new v = rthen (ensure (is_lower_hex v 64) InvalidDigest) (Inr (Sha256Digest v))"

subsection \<open>Identities\<close>

record tool_info =
  tool_name :: string
  tool_version :: string
  tool_commit :: "string option"

record adapter_info =
  adapter_id :: string
  adapter_version :: string

record target_info =
  ti_architecture :: "string option"
  ti_device :: "string option"
  ti_board :: "string option"
  ti_core_count :: "u32 option"
  ti_properties :: properties

record trace32_info =
  tr_build :: "string option"
  tr_probe :: "string option"
  tr_architecture_package :: "string option"
  tr_properties :: properties

record firmware_info =
  fi_elf_path :: "string option"
  fi_elf_sha256 :: "sha256_digest option"
  fi_build_id :: "string option"

record clock_info =
  ci_id :: string
  ci_frequency_hz :: "u64 option"
  ci_source :: "string option"
  ci_properties :: properties

datatype stage_status = StagePending | StageRunning | StageComplete | StageFailed | StageSkipped

record stage_info =
  si_name :: string
  si_status :: stage_status
  si_started_at :: "string option"
  si_completed_at :: "string option"
  si_input_artifact_ids :: "string list"
  si_output_artifact_ids :: "string list"
  si_message :: "string option"

end
