(* ===== verification/Capture.thy ===== *)
theory Capture
  imports Session_Types Health
begin

text \<open>
  The capture contracts of \<open>crates/t32perf-model/src/capture.rs\<close>: artifact claims, the
  instrumentation measurement, the authoritative capture configuration, capabilities, receipts,
  attestations and trust policies, each with its validator. Serialization and error display texts
  are not modelled.
\<close>

subsection \<open>Errors\<close>

datatype config_error =
    CfgInvalidText string
  | CfgInvalidArtifactId string string
  | CfgInvalidCoreCount nat nat
  | CfgDuplicateCore u32
  | CfgNonCanonicalCoreOrder
  | CfgTimestampClockMissing
  | CfgTimestampClockUnexpected
  | CfgZeroSinkCapacity
  | CfgMissingDurationLimit
  | CfgZeroDurationBound string
  | CfgTooManyFilters nat nat
  | CfgDuplicateFilter string string
  | CfgTooManyMetadataArtifacts nat nat
  | CfgDuplicateMetadataArtifact string
  | CfgZeroInstrumentationEventCount
  | CfgNegativeInstrumentationOverhead
  | CfgInvalidProperties string string

datatype receipt_error =
    RcEmptyField string
  | RcMissingTrace32FirmwareElfSha256
  | RcNonExactWithoutReason string support_level
  | RcEmptyCapabilityReason string
  | RcDuplicateCapabilityReason string string
  | RcInvalidClockId string
  | RcZeroClockFrequency string
  | RcZeroTargetCoreCount
  | RcDuplicateCore u32
  | RcInvalidHealthInterval string
  | RcInvalidCaptureConfig config_error
  | RcInvalidControllerHealth config_error

datatype attestation_error =
    AtEmptyField string
  | AtInvalidReceipt receipt_error
  | AtInvalidCaptureConfig config_error
  | AtCaptureConfigClaimMismatch
  | AtInvalidControllerHealth config_error
  | AtControllerHealthClaimMismatch
  | AtInvalidSignatureEncoding

datatype trust_error =
    TpEmptyField string
  | TpNoKeys
  | TpDuplicateKeyId string
  | TpInvalidPublicKeyEncoding string
  | TpNoAllowedModes string
  | TpInvalidStringSet string string
  | TpIncompleteTarget string
  | TpIncompleteTrace32 string
  | TpIncompleteClocks string
  | TpInvalidAllowedCores string
  | TpInvalidFirmwareElfAllowlist string
  | TpInvalidCapabilityCeiling string receipt_error
  | TpInvalidConfigConstraints string string

subsection \<open>Claims and instrumentation\<close>

record config_claim =
  cc_artifact_id :: string
  cc_sha256 :: sha256_digest
  cc_configuration_sha256 :: sha256_digest

record health_claim =
  hc_artifact_id :: string
  hc_sha256 :: sha256_digest

definition validate_health_claim :: "health_claim \<Rightarrow> (config_error, unit) res" where
  "validate_health_claim c =
     ensure (is_portable_artifact_id (hc_artifact_id c))
       (CfgInvalidArtifactId ''controller_health.artifact_id'' (hc_artifact_id c))"

definition validate_config_claim :: "config_claim \<Rightarrow> (config_error, unit) res" where
  "validate_config_claim c =
     ensure (is_portable_artifact_id (cc_artifact_id c))
       (CfgInvalidArtifactId ''capture_config.artifact_id'' (cc_artifact_id c))"

definition validate_config_text :: "string \<Rightarrow> string \<Rightarrow> (config_error, unit) res" where
  "validate_config_text field v =
     ensure (\<not> blank v \<and> length v \<le> 4096 \<and> \<not> has_control v) (CfgInvalidText field)"

definition validate_optional_config_text :: "string \<Rightarrow> string option \<Rightarrow> (config_error, unit) res" where
  "validate_optional_config_text field v =
     (case v of Some s \<Rightarrow> validate_config_text field s | None \<Rightarrow> Inr ())"

record instrumentation_overhead =
  io_measurement_method :: string
  io_baseline_duration_ns :: u64
  io_instrumented_duration_ns :: u64
  io_emitted_event_count :: u64
  io_evidence_artifact_id :: string

record instrumentation_config =
  ic_method :: string
  ic_transport :: string
  ic_overhead :: instrumentation_overhead

definition total_overhead_ns :: "instrumentation_overhead \<Rightarrow> u64 option" where
  "total_overhead_ns ov =
     (if io_baseline_duration_ns ov \<le> io_instrumented_duration_ns ov
      then Some (io_instrumented_duration_ns ov - io_baseline_duration_ns ov) else None)"

definition validate_instrumentation :: "instrumentation_config \<Rightarrow> (config_error, unit) res" where
  "validate_instrumentation c =
     rthen (validate_config_text ''instrumentation.method'' (ic_method c))
     (rthen (validate_config_text ''instrumentation.transport'' (ic_transport c))
     (rthen (validate_config_text ''instrumentation.overhead.measurement_method''
               (io_measurement_method (ic_overhead c)))
     (rthen (ensure (io_emitted_event_count (ic_overhead c) \<noteq> 0) CfgZeroInstrumentationEventCount)
     (rthen (ensure (total_overhead_ns (ic_overhead c) \<noteq> None) CfgNegativeInstrumentationOverhead)
       (ensure (is_portable_artifact_id (io_evidence_artifact_id (ic_overhead c)))
         (CfgInvalidArtifactId ''instrumentation.overhead.evidence_artifact_id''
           (io_evidence_artifact_id (ic_overhead c))))))))"

record overhead_evidence =
  oe_instrumentation_method :: string
  oe_transport :: string
  oe_measurement_method :: string
  oe_baseline_duration_ns :: u64
  oe_instrumented_duration_ns :: u64
  oe_emitted_event_count :: u64

definition validate_overhead_evidence :: "overhead_evidence \<Rightarrow> (config_error, unit) res" where
  "validate_overhead_evidence d =
     rthen (validate_config_text ''instrumentation_evidence.instrumentation_method''
              (oe_instrumentation_method d))
     (rthen (validate_config_text ''instrumentation_evidence.transport'' (oe_transport d))
     (rthen (validate_config_text ''instrumentation_evidence.measurement_method''
               (oe_measurement_method d))
     (rthen (ensure (oe_emitted_event_count d \<noteq> 0) CfgZeroInstrumentationEventCount)
       (ensure (\<not> oe_instrumented_duration_ns d < oe_baseline_duration_ns d)
         CfgNegativeInstrumentationOverhead))))"

definition evidence_capture_config :: "overhead_evidence \<Rightarrow> string
    \<Rightarrow> (config_error, instrumentation_config) res" where
  "evidence_capture_config d evidence_artifact_id =
     rthen (validate_overhead_evidence d)
     (let config =
        \<lparr>ic_method = oe_instrumentation_method d, ic_transport = oe_transport d,
         ic_overhead =
           \<lparr>io_measurement_method = oe_measurement_method d,
            io_baseline_duration_ns = oe_baseline_duration_ns d,
            io_instrumented_duration_ns = oe_instrumented_duration_ns d,
            io_emitted_event_count = oe_emitted_event_count d,
            io_evidence_artifact_id = evidence_artifact_id\<rparr>\<rparr>
      in rthen (validate_instrumentation config) (Inr config))"

subsection \<open>Extension properties of a configuration\<close>

text \<open>
  One counter runs through a whole property object: entries and array items, 1024 together. The
  saturation of the counter is out of reach, since it is checked after every addition.
\<close>

function validate_config_value :: "string \<Rightarrow> nat \<Rightarrow> nat \<Rightarrow> json \<Rightarrow> (config_error, nat) res"
  and validate_config_values :: "string \<Rightarrow> nat \<Rightarrow> nat \<Rightarrow> json list \<Rightarrow> (config_error, nat) res"
  and validate_config_object :: "string \<Rightarrow> nat \<Rightarrow> nat \<Rightarrow> (string \<times> json) list \<Rightarrow> (config_error, nat) res"
  and validate_config_entries :: "string \<Rightarrow> nat \<Rightarrow> nat \<Rightarrow> (string \<times> json) list \<Rightarrow> (config_error, nat) res" where
  "validate_config_value field depth n v =
     rthen (ensure (depth \<le> 16) (CfgInvalidProperties field ''nesting is too deep''))
     (case v of
        JStr t \<Rightarrow>
          rthen (ensure (length t \<le> 4096 \<and> \<not> has_control t)
            (CfgInvalidProperties field ''contains an invalid string'')) (Inr n)
      | JArr vs \<Rightarrow>
          rthen (ensure (length vs \<le> 4096) (CfgInvalidProperties field ''contains an oversized array''))
          (rthen (ensure (n + length vs \<le> 1024) (CfgInvalidProperties field ''contains too many entries''))
            (validate_config_values field depth (n + length vs) vs))
      | JObj kvs \<Rightarrow> validate_config_object field depth n kvs
      | _ \<Rightarrow> Inr n)"
| "validate_config_values field depth n [] = Inr n"
| "validate_config_values field depth n (v # vs) =
     rbind (validate_config_value field (depth + 1) n v) (\<lambda>n. validate_config_values field depth n vs)"
| "validate_config_object field depth n kvs =
     rthen (ensure (depth \<le> 16) (CfgInvalidProperties field ''nesting is too deep''))
     (rthen (ensure (n + length kvs \<le> 1024) (CfgInvalidProperties field ''contains too many entries''))
       (validate_config_entries field depth (n + length kvs) kvs))"
| "validate_config_entries field depth n [] = Inr n"
| "validate_config_entries field depth n ((k, v) # kvs) =
     rthen (ensure (\<not> blank k \<and> length k \<le> 128 \<and> \<not> has_control k)
       (CfgInvalidProperties field ''contains an invalid key''))
     (rbind (validate_config_value field (depth + 1) n v) (\<lambda>n. validate_config_entries field depth n kvs))"
  by pat_completeness auto
termination
  by (relation "measure (\<lambda>x. case x of
        Inl (Inl (_, _, _, v)) \<Rightarrow> 2 * size v + 1
      | Inl (Inr (_, _, _, vs)) \<Rightarrow> 2 * size_list size vs
      | Inr (Inl (_, _, _, kvs)) \<Rightarrow> 2 * size_list (size_prod (\<lambda>_. 0) size) kvs + 1
      | Inr (Inr (_, _, _, kvs)) \<Rightarrow> 2 * size_list (size_prod (\<lambda>_. 0) size) kvs)") auto

definition validate_config_properties :: "string \<Rightarrow> properties \<Rightarrow> (config_error, unit) res" where
  "validate_config_properties field p = rbind (validate_config_object field 0 0 p) (\<lambda>_. Inr ())"

subsection \<open>The capture configuration\<close>

datatype initial_target_state = TargetRunning | TargetHalted | TargetUnknown

record sink_config =
  sk_kind :: string
  sk_id :: string
  sk_capacity_bytes :: "u64 option"
  sk_stream_destination_identity :: "string option"

record timestamp_config =
  tc_enabled :: bool
  tc_clock_id :: "string option"

record filter_config =
  fc_kind :: string
  fc_identity :: string
  fc_enabled :: bool
  fc_parameters :: properties

record trigger_config =
  tg_kind :: string
  tg_pre_trigger_ns :: "u64 option"
  tg_post_trigger_ns :: "u64 option"
  tg_condition_identity :: "string option"

record duration_config =
  du_duration_ns :: "u64 option"
  du_observation_limit :: "u64 option"

record rtos_awareness_config =
  ra_kind :: string
  ra_metadata_artifact_ids :: "string list"

record capture_config =
  cd_session_id :: string
  cd_provider :: string
  cd_adapter :: adapter_info
  cd_mode :: string
  cd_covered_cores :: "u32 list"
  cd_sink :: sink_config
  cd_timestamp :: timestamp_config
  cd_filters :: "filter_config list"
  cd_trigger :: trigger_config
  cd_duration :: duration_config
  cd_workload_identity :: string
  cd_initial_target_state :: initial_target_state
  cd_rtos_awareness :: rtos_awareness_config
  cd_instrumentation :: "instrumentation_config option"
  cd_adapter_parameters :: properties

text \<open>The document whose serialization identifies a configuration across sessions.\<close>

definition configuration_identity :: "capture_config \<Rightarrow> capture_config" where
  "configuration_identity d =
     d\<lparr>cd_session_id := [],
       cd_adapter_parameters := filter (\<lambda>(k, _). \<not> starts_with k ''result.'') (cd_adapter_parameters d)\<rparr>"

definition filter_field :: "nat \<Rightarrow> string \<Rightarrow> string" where
  "filter_field i name = ''filters['' @ dec (int i) @ ''].'' @ name"

definition validate_capture_timestamp :: "timestamp_config \<Rightarrow> (config_error, unit) res" where
  "validate_capture_timestamp t =
     (case (tc_enabled t, tc_clock_id t) of
        (True, Some clock) \<Rightarrow> validate_config_text ''timestamp.clock_id'' clock
      | (True, None) \<Rightarrow> Inl (Err CfgTimestampClockMissing)
      | (False, Some _) \<Rightarrow> Inl (Err CfgTimestampClockUnexpected)
      | (False, None) \<Rightarrow> Inr ())"

definition validate_capture_filters :: "filter_config list \<Rightarrow> (config_error, unit) res" where
  "validate_capture_filters fs =
     rthen (ensure (length fs \<le> 256) (CfgTooManyFilters (length fs) 256))
       (each_new
         (\<lambda>(i, f). rthen (validate_config_text (filter_field i ''kind'') (fc_kind f))
           (validate_config_text (filter_field i ''identity'') (fc_identity f)))
         (\<lambda>(i, f). (fc_kind f, fc_identity f))
         (\<lambda>(i, f). CfgDuplicateFilter (fc_kind f) (fc_identity f))
         (\<lambda>(i, f). validate_config_properties (filter_field i ''parameters'') (fc_parameters f))
         [] (enumerate 0 fs))"

definition validate_rtos_metadata :: "string list \<Rightarrow> (config_error, unit) res" where
  "validate_rtos_metadata ids =
     rthen (ensure (length ids \<le> 256) (CfgTooManyMetadataArtifacts (length ids) 256))
       (each_new
         (\<lambda>a. ensure (is_portable_artifact_id a)
            (CfgInvalidArtifactId ''rtos_awareness.metadata_artifact_ids'' a))
         portable_name_key CfgDuplicateMetadataArtifact (\<lambda>_. Inr ()) [] ids)"

definition validate_capture_instrumentation :: "capture_config \<Rightarrow> (config_error, unit) res" where
  "validate_capture_instrumentation d =
     (case cd_instrumentation d of
        None \<Rightarrow> Inr ()
      | Some c \<Rightarrow>
          rthen (validate_instrumentation c)
            (let evidence = io_evidence_artifact_id (ic_overhead c) in
             ensure
               (portable_name_key evidence \<notin>
                  set (map portable_name_key (ra_metadata_artifact_ids (cd_rtos_awareness d))))
               (CfgDuplicateMetadataArtifact evidence)))"

definition validate_capture_config :: "capture_config \<Rightarrow> (config_error, unit) res" where
  "validate_capture_config d =
     rthen
       (each (\<lambda>(field, v). validate_config_text field v)
         [(''session_id'', cd_session_id d), (''provider'', cd_provider d),
          (''adapter.id'', adapter_id (cd_adapter d)),
          (''adapter.version'', adapter_version (cd_adapter d)), (''mode'', cd_mode d),
          (''sink.kind'', sk_kind (cd_sink d)), (''sink.id'', sk_id (cd_sink d)),
          (''trigger.kind'', tg_kind (cd_trigger d)), (''workload_identity'', cd_workload_identity d),
          (''rtos_awareness.kind'', ra_kind (cd_rtos_awareness d))])
     (rthen (validate_optional_config_text ''sink.stream_destination_identity''
               (sk_stream_destination_identity (cd_sink d)))
     (rthen (validate_optional_config_text ''trigger.condition_identity''
               (tg_condition_identity (cd_trigger d)))
     (rthen (ensure (sk_capacity_bytes (cd_sink d) \<noteq> Some 0) CfgZeroSinkCapacity)
     (rthen (ensure (\<not> (du_duration_ns (cd_duration d) = None \<and> du_observation_limit (cd_duration d) = None))
               CfgMissingDurationLimit)
     (rthen (ensure (du_duration_ns (cd_duration d) \<noteq> Some 0) (CfgZeroDurationBound ''duration.duration_ns''))
     (rthen (ensure (du_observation_limit (cd_duration d) \<noteq> Some 0)
               (CfgZeroDurationBound ''duration.observation_limit''))
     (rthen (ensure (cd_covered_cores d \<noteq> [] \<and> length (cd_covered_cores d) \<le> 1024)
               (CfgInvalidCoreCount (length (cd_covered_cores d)) 1024))
     (rthen (each_new (\<lambda>_. Inr ()) id CfgDuplicateCore (\<lambda>_. Inr ()) [] (cd_covered_cores d))
     (rthen (ensure (successively (<) (cd_covered_cores d)) CfgNonCanonicalCoreOrder)
     (rthen (validate_capture_timestamp (cd_timestamp d))
     (rthen (validate_capture_filters (cd_filters d))
     (rthen (validate_rtos_metadata (ra_metadata_artifact_ids (cd_rtos_awareness d)))
     (rthen (validate_capture_instrumentation d)
       (validate_config_properties ''adapter_parameters'' (cd_adapter_parameters d)))))))))))))))"

definition capture_input_artifact_ids :: "capture_config \<Rightarrow> string list" where
  "capture_input_artifact_ids d =
     ra_metadata_artifact_ids (cd_rtos_awareness d) @
     (case cd_instrumentation d of None \<Rightarrow> [] | Some c \<Rightarrow> [io_evidence_artifact_id (ic_overhead c)])"

end
