(* ===== verification/Capture_Trust.thy ===== *)
theory Capture_Trust
  imports Capture
begin

text \<open>
  Capture capabilities, receipts, attestations and trust policies of
  \<open>crates/t32perf-model/src/capture.rs\<close>, with the validators of each.
\<close>

subsection \<open>Capabilities\<close>

record capture_capabilities =
  ca_function_events :: support_entry
  ca_context_switches :: support_entry
  ca_interrupt_events :: support_entry
  ca_samples :: support_entry
  ca_custom_events :: support_entry
  ca_counters :: support_entry

definition capabilities_unavailable :: "string \<Rightarrow> capture_capabilities" where
  "capabilities_unavailable reason =
     (let e = \<lparr>se_support = Unavailable, se_reasons = [reason]\<rparr> in
      \<lparr>ca_function_events = e, ca_context_switches = e, ca_interrupt_events = e, ca_samples = e,
       ca_custom_events = e, ca_counters = e\<rparr>)"

definition validate_capability :: "string \<Rightarrow> support_entry \<Rightarrow> (receipt_error, unit) res" where
  "validate_capability family e =
     rthen (ensure (se_support e = Exact \<or> se_reasons e \<noteq> []) (RcNonExactWithoutReason family (se_support e)))
       (each_new (\<lambda>r. ensure (\<not> blank r) (RcEmptyCapabilityReason family)) id
         (RcDuplicateCapabilityReason family) (\<lambda>_. Inr ()) [] (se_reasons e))"

definition validate_capabilities :: "capture_capabilities \<Rightarrow> (receipt_error, unit) res" where
  "validate_capabilities c =
     each (\<lambda>(family, e). validate_capability family e)
       [(''function_events'', ca_function_events c), (''context_switches'', ca_context_switches c),
        (''interrupt_events'', ca_interrupt_events c), (''samples'', ca_samples c),
        (''custom_events'', ca_custom_events c), (''counters'', ca_counters c)]"

subsection \<open>Receipts\<close>

record capture_receipt =
  cr_session_id :: string
  cr_provider :: string
  cr_mode :: string
  cr_adapter :: adapter_info
  cr_target :: "target_info option"
  cr_trace32 :: "trace32_info option"
  cr_firmware :: firmware_info
  cr_clocks :: "clock_info list"
  cr_covered_cores :: "u32 list"
  cr_capabilities :: capture_capabilities
  cr_health_observations :: "health_observation list"
  cr_request_sha256 :: sha256_digest
  cr_capture_config :: "config_claim option"
  cr_controller_health :: "health_claim option"
  cr_properties :: properties

definition validate_optional_field :: "string \<Rightarrow> string option \<Rightarrow> (receipt_error, unit) res" where
  "validate_optional_field field v =
     ensure (case v of Some s \<Rightarrow> \<not> blank s | None \<Rightarrow> True) (RcEmptyField field)"

definition validate_receipt_clocks :: "clock_info list \<Rightarrow> (receipt_error, unit) res" where
  "validate_receipt_clocks cs =
     each_new (\<lambda>c. ensure (\<not> blank (ci_id c)) (RcInvalidClockId (ci_id c))) ci_id
       (\<lambda>c. RcInvalidClockId (ci_id c))
       (\<lambda>c. rthen (ensure (ci_frequency_hz c \<noteq> Some 0) (RcZeroClockFrequency (ci_id c)))
          (validate_optional_field ''clock.source'' (ci_source c)))
       [] cs"

definition validate_receipt_target :: "target_info option \<Rightarrow> (receipt_error, unit) res" where
  "validate_receipt_target target =
     (case target of
        None \<Rightarrow> Inr ()
      | Some t \<Rightarrow>
          rthen (validate_optional_field ''target.architecture'' (ti_architecture t))
          (rthen (validate_optional_field ''target.device'' (ti_device t))
          (rthen (validate_optional_field ''target.board'' (ti_board t))
            (ensure (ti_core_count t \<noteq> Some 0) RcZeroTargetCoreCount))))"

definition validate_receipt_trace32 :: "trace32_info option \<Rightarrow> (receipt_error, unit) res" where
  "validate_receipt_trace32 trace32 =
     (case trace32 of
        None \<Rightarrow> Inr ()
      | Some t \<Rightarrow>
          rthen (validate_optional_field ''trace32.build'' (tr_build t))
          (rthen (validate_optional_field ''trace32.probe'' (tr_probe t))
            (validate_optional_field ''trace32.architecture_package'' (tr_architecture_package t))))"

definition observation_field :: "nat \<Rightarrow> string \<Rightarrow> string" where
  "observation_field i name = ''health_observations['' @ dec (int i) @ ''].'' @ name"

definition validate_receipt_fact :: "nat \<times> health_observation \<Rightarrow> (receipt_error, unit) res" where
  "validate_receipt_fact = (\<lambda>(i, h).
     rthen (ensure (\<not> blank (ho_code h)) (RcEmptyField (observation_field i ''code'')))
     (rthen (ensure (\<not> blank (ho_source h)) (RcEmptyField (observation_field i ''source'')))
     (rthen (validate_optional_field (observation_field i ''artifact_id'') (ho_artifact_id h))
       (ensure
         (case (ho_start_ns h, ho_end_ns h) of (Some s, Some e) \<Rightarrow> \<not> e < s | _ \<Rightarrow> True)
         (RcInvalidHealthInterval (ho_code h))))))"

definition validate_claim :: "('e \<Rightarrow> 'f) \<Rightarrow> ('c \<Rightarrow> ('e, unit) res) \<Rightarrow> 'c option \<Rightarrow> ('f, unit) res" where
  "validate_claim wrap check claim = (case claim of Some c \<Rightarrow> map_err wrap (check c) | None \<Rightarrow> Inr ())"

definition validate_receipt :: "capture_receipt \<Rightarrow> (receipt_error, unit) res" where
  "validate_receipt r =
     rthen
       (each (\<lambda>(field, v). ensure (\<not> blank v) (RcEmptyField field))
         [(''session_id'', cr_session_id r), (''provider'', cr_provider r), (''mode'', cr_mode r),
          (''adapter.id'', adapter_id (cr_adapter r)),
          (''adapter.version'', adapter_version (cr_adapter r))])
     (rthen (validate_capabilities (cr_capabilities r))
     (rthen (validate_claim RcInvalidCaptureConfig validate_config_claim (cr_capture_config r))
     (rthen (validate_claim RcInvalidControllerHealth validate_health_claim (cr_controller_health r))
     (rthen (validate_receipt_clocks (cr_clocks r))
     (rthen (validate_receipt_target (cr_target r))
     (rthen (validate_receipt_trace32 (cr_trace32 r))
     (rthen (validate_optional_field ''firmware.elf_path'' (fi_elf_path (cr_firmware r)))
     (rthen (validate_optional_field ''firmware.build_id'' (fi_build_id (cr_firmware r)))
     (rthen (ensure (\<not> (cr_provider r = ''trace32'' \<and> fi_elf_sha256 (cr_firmware r) = None))
               RcMissingTrace32FirmwareElfSha256)
     (rthen (each_new (\<lambda>_. Inr ()) id RcDuplicateCore (\<lambda>_. Inr ()) [] (cr_covered_cores r))
       (each validate_receipt_fact (enumerate 0 (cr_health_observations r)))))))))))))"

subsection \<open>Attestations\<close>

record attestation_payload =
  ap_key_id :: string
  ap_nonce :: string
  ap_receipt :: capture_receipt
  ap_observation_artifact_id :: string
  ap_observation_sha256 :: sha256_digest
  ap_capture_config :: "config_claim option"
  ap_controller_health :: "health_claim option"

record attestation =
  at_payload :: attestation_payload
  at_signature_ed25519 :: string

definition validate_payload :: "attestation_payload \<Rightarrow> (attestation_error, unit) res" where
  "validate_payload p =
     rthen
       (each (\<lambda>(field, v). ensure (\<not> blank v) (AtEmptyField field))
         [(''key_id'', ap_key_id p), (''nonce'', ap_nonce p),
          (''observation_artifact_id'', ap_observation_artifact_id p)])
     (rthen (map_err AtInvalidReceipt (validate_receipt (ap_receipt p)))
     (rthen (validate_claim AtInvalidCaptureConfig validate_config_claim (ap_capture_config p))
     (rthen (ensure (ap_capture_config p = cr_capture_config (ap_receipt p)) AtCaptureConfigClaimMismatch)
     (rthen (validate_claim AtInvalidControllerHealth validate_health_claim (ap_controller_health p))
       (ensure (ap_controller_health p = cr_controller_health (ap_receipt p))
         AtControllerHealthClaimMismatch)))))"

definition validate_attestation :: "attestation \<Rightarrow> (attestation_error, unit) res" where
  "validate_attestation a =
     rthen (validate_payload (at_payload a))
       (ensure (is_lower_hex (at_signature_ed25519 a) 128) AtInvalidSignatureEncoding)"

subsection \<open>Trust policies\<close>

record config_constraints =
  co_allowed_sink_kinds :: "string list"
  co_allowed_sink_ids :: "string list"
  co_allowed_initial_target_states :: "initial_target_state list"
  co_allowed_rtos_awareness_kinds :: "string list"
  co_max_sink_capacity_bytes :: "u64 option"
  co_require_timestamp_enabled :: "bool option"
  co_allowed_config_sha256 :: "sha256_digest list"

record trust_key =
  tk_key_id :: string
  tk_public_key_ed25519 :: string
  tk_producer :: string
  tk_provider :: string
  tk_adapter :: adapter_info
  tk_allowed_modes :: "string list"
  tk_target :: target_info
  tk_trace32 :: "trace32_info option"
  tk_clocks :: "clock_info list"
  tk_allowed_cores :: "u32 list"
  tk_allowed_firmware_elf_sha256 :: "sha256_digest list"
  tk_capability_ceiling :: capture_capabilities
  tk_config_constraints :: "config_constraints option"

record trust_policy =
  tp_policy_id :: string
  tp_keys :: "trust_key list"

definition validate_unique_nonempty :: "string list \<Rightarrow> string \<Rightarrow> string \<Rightarrow> (trust_error, unit) res" where
  "validate_unique_nonempty values field key_id =
     ensure (length values \<le> 256 \<and> list_all (\<lambda>v. \<not> blank v) values \<and> distinct values)
       (TpInvalidStringSet key_id field)"

definition validate_constraints :: "string \<Rightarrow> config_constraints \<Rightarrow> (trust_error, unit) res" where
  "validate_constraints key_id c =
     rthen (validate_unique_nonempty (co_allowed_sink_kinds c) ''config_constraints.allowed_sink_kinds'' key_id)
     (rthen (validate_unique_nonempty (co_allowed_sink_ids c) ''config_constraints.allowed_sink_ids'' key_id)
     (rthen (validate_unique_nonempty (co_allowed_rtos_awareness_kinds c)
               ''config_constraints.allowed_rtos_awareness_kinds'' key_id)
     (rthen (ensure (distinct (co_allowed_initial_target_states c))
               (TpInvalidConfigConstraints key_id ''initial target states are duplicated''))
     (rthen (ensure (distinct (co_allowed_config_sha256 c))
               (TpInvalidConfigConstraints key_id ''capture-config digests are duplicated''))
       (ensure
         (length (co_allowed_initial_target_states c) \<le> 3 \<and> length (co_allowed_config_sha256 c) \<le> 256 \<and>
          co_max_sink_capacity_bytes c \<noteq> Some 0)
         (TpInvalidConfigConstraints key_id ''constraint allowlist exceeds its bounded contract''))))))"

definition absent_or_empty :: "string option \<Rightarrow> bool" where
  "absent_or_empty v = (case v of None \<Rightarrow> True | Some s \<Rightarrow> s = [])"

definition complete_target :: "trust_key \<Rightarrow> bool" where
  "complete_target k \<longleftrightarrow>
     \<not> absent_or_empty (ti_architecture (tk_target k)) \<and> \<not> absent_or_empty (ti_device (tk_target k)) \<and>
     (case ti_core_count (tk_target k) of None \<Rightarrow> False | Some n \<Rightarrow> n \<noteq> 0) \<and>
     \<not> (tk_provider k = ''trace32'' \<and> absent_or_empty (ti_board (tk_target k)))"

definition complete_trace32 :: "trust_key \<Rightarrow> bool" where
  "complete_trace32 k \<longleftrightarrow>
     tk_provider k \<noteq> ''trace32'' \<or>
     (case tk_trace32 k of
        None \<Rightarrow> False
      | Some t \<Rightarrow> \<not> absent_or_empty (tr_build t) \<and> \<not> absent_or_empty (tr_probe t) \<and>
          \<not> absent_or_empty (tr_architecture_package t))"

definition complete_clocks :: "clock_info list \<Rightarrow> bool" where
  "complete_clocks cs \<longleftrightarrow>
     cs \<noteq> [] \<and> distinct (map ci_id cs) \<and>
     list_all
       (\<lambda>c. \<not> blank (ci_id c) \<and> (case ci_frequency_hz c of None \<Rightarrow> False | Some hz \<Rightarrow> hz \<noteq> 0) \<and>
          \<not> absent_or_empty (ci_source c)) cs"

definition valid_allowed_cores :: "trust_key \<Rightarrow> bool" where
  "valid_allowed_cores k \<longleftrightarrow>
     (let core_count = (case ti_core_count (tk_target k) of None \<Rightarrow> 0 | Some n \<Rightarrow> n) in
      tk_allowed_cores k \<noteq> [] \<and> distinct (tk_allowed_cores k) \<and>
      list_all (\<lambda>c. \<not> core_count \<le> c) (tk_allowed_cores k))"

definition valid_elf_allowlist :: "trust_key \<Rightarrow> bool" where
  "valid_elf_allowlist k \<longleftrightarrow>
     distinct (tk_allowed_firmware_elf_sha256 k) \<and> length (tk_allowed_firmware_elf_sha256 k) \<le> 256 \<and>
     \<not> (tk_provider k = ''trace32'' \<and> tk_allowed_firmware_elf_sha256 k = [])"

definition validate_trust_key :: "trust_key \<Rightarrow> (trust_error, unit) res" where
  "validate_trust_key k =
     rthen
       (each (\<lambda>(field, v). ensure (\<not> blank v) (TpEmptyField field))
         [(''key_id'', tk_key_id k), (''producer'', tk_producer k), (''provider'', tk_provider k),
          (''adapter.id'', adapter_id (tk_adapter k)),
          (''adapter.version'', adapter_version (tk_adapter k))])
     (rthen (ensure (is_lower_hex (tk_public_key_ed25519 k) 64) (TpInvalidPublicKeyEncoding (tk_key_id k)))
     (rthen (validate_unique_nonempty (tk_allowed_modes k) ''allowed_modes'' (tk_key_id k))
     (rthen (ensure (tk_allowed_modes k \<noteq> []) (TpNoAllowedModes (tk_key_id k)))
     (rthen (ensure (complete_target k) (TpIncompleteTarget (tk_key_id k)))
     (rthen (ensure (complete_trace32 k) (TpIncompleteTrace32 (tk_key_id k)))
     (rthen (ensure (complete_clocks (tk_clocks k)) (TpIncompleteClocks (tk_key_id k)))
     (rthen (ensure (valid_allowed_cores k) (TpInvalidAllowedCores (tk_key_id k)))
     (rthen (ensure (valid_elf_allowlist k) (TpInvalidFirmwareElfAllowlist (tk_key_id k)))
     (rthen (map_err (TpInvalidCapabilityCeiling (tk_key_id k)) (validate_capabilities (tk_capability_ceiling k)))
       (case tk_config_constraints k of
          None \<Rightarrow> Inr ()
        | Some c \<Rightarrow> validate_constraints (tk_key_id k) c))))))))))"

definition validate_trust_policy :: "trust_policy \<Rightarrow> (trust_error, unit) res" where
  "validate_trust_policy p =
     rthen (ensure (\<not> blank (tp_policy_id p)) (TpEmptyField ''policy_id''))
     (rthen (ensure (tp_keys p \<noteq> []) TpNoKeys)
       (each_new validate_trust_key tk_key_id (\<lambda>k. TpDuplicateKeyId (tk_key_id k)) (\<lambda>_. Inr ())
         [] (tp_keys p)))"

definition policy_key :: "trust_policy \<Rightarrow> string \<Rightarrow> trust_key option" where
  "policy_key p key_id = find (\<lambda>k. tk_key_id k = key_id) (tp_keys p)"

end
