(* ===== verification/Manifest.thy ===== *)
theory Manifest
  imports Capture_Trust
begin

text \<open>
  Artifacts and session manifests of \<open>crates/t32perf-model/src/session.rs\<close>: the validation of
  their bounded metadata, of the references between artifacts and stages, and the depth-first
  search that refuses cyclic provenance.
\<close>

subsection \<open>Bounded text\<close>

datatype artifact_error =
    ArtInvalidField string string
  | ArtTooManyInputs nat nat
  | ArtDuplicateInput string
  | ArtSelfReference

definition validate_identifier :: "string \<Rightarrow> string \<Rightarrow> nat \<Rightarrow> (artifact_error, unit) res" where
  "validate_identifier v field max_bytes =
     rthen (ensure (v \<noteq> []) (ArtInvalidField field ''must not be empty''))
     (rthen (ensure (length v \<le> max_bytes) (ArtInvalidField field ''exceeds the UTF-8 byte limit''))
       (ensure (identifier_chars [CHR ''_'', CHR ''-'', CHR ''.''] v)
         (ArtInvalidField field ''must use the portable identifier syntax'')))"

definition validate_artifact_identifier :: "string \<Rightarrow> string \<Rightarrow> (artifact_error, unit) res" where
  "validate_artifact_identifier v field =
     ensure (is_portable_artifact_id v)
       (ArtInvalidField field ''must use the portable artifact identifier syntax'')"

definition validate_text :: "string \<Rightarrow> string \<Rightarrow> nat \<Rightarrow> (artifact_error, unit) res" where
  "validate_text v field max_bytes =
     rthen (ensure (\<not> blank v) (ArtInvalidField field ''must not be empty or whitespace''))
     (rthen (ensure (length v \<le> max_bytes) (ArtInvalidField field ''exceeds the UTF-8 byte limit''))
       (ensure (\<not> has_control v) (ArtInvalidField field ''contains a control character'')))"

subsection \<open>Artifacts\<close>

record artifact =
  art_id :: string
  art_kind :: string
  art_relative_path :: artifact_path
  art_media_type :: string
  art_size_bytes :: u64
  art_sha256 :: sha256_digest
  art_producer :: string
  art_input_artifact_ids :: "string list"

definition validate_input :: "string \<Rightarrow> string \<Rightarrow> (artifact_error, unit) res" where
  "validate_input self_key input =
     rthen (validate_artifact_identifier input ''artifact.input_artifact_ids'')
       (ensure (portable_name_key input \<noteq> self_key) ArtSelfReference)"

definition validate_artifact :: "artifact \<Rightarrow> (artifact_error, unit) res" where
  "validate_artifact a =
     rthen (validate_artifact_identifier (art_id a) ''artifact.id'')
     (rthen (validate_text (art_kind a) ''artifact.kind'' 256)
     (rthen (validate_text (art_media_type a) ''artifact.media_type'' 256)
     (rthen (ensure (CHR ''/'' \<in> set (art_media_type a))
               (ArtInvalidField ''artifact.media_type'' ''must contain a type/subtype separator''))
     (rthen (validate_text (art_producer a) ''artifact.producer'' 256)
     (rthen (ensure (length (art_input_artifact_ids a) \<le> 1024)
               (ArtTooManyInputs 1024 (length (art_input_artifact_ids a))))
       (each_new (validate_input (portable_name_key (art_id a))) portable_name_key ArtDuplicateInput
         (\<lambda>_. Inr ()) [] (art_input_artifact_ids a)))))))"

subsection \<open>Manifests\<close>

record capture_info =
  cp_provider :: "string option"
  cp_mode :: string
  cp_adapter :: adapter_info
  cp_target :: "target_info option"
  cp_trace32 :: "trace32_info option"
  cp_request_sha256 :: "sha256_digest option"
  cp_covered_cores :: "u32 list"
  cp_capabilities :: "capture_capabilities option"
  cp_capture_config :: "config_claim option"
  cp_instrumentation :: "instrumentation_config option"

record manifest =
  mf_session_id :: string
  mf_created_at :: string
  mf_tool :: tool_info
  mf_capture :: capture_info
  mf_firmware :: firmware_info
  mf_clocks :: "clock_info list"
  mf_stages :: "stage_info list"
  mf_artifacts :: "artifact list"

text \<open>The message of an invalid field: a fixed text, or the error of the check it wraps.\<close>

datatype metadata_message =
    Msg string
  | MsgField artifact_error
  | MsgCapability receipt_error
  | MsgConfig config_error
  | MsgRepeatedCore u32
  | MsgCoreOutside u32
  | MsgUnregistered string

datatype manifest_error =
    InvalidMetadata string metadata_message
  | InvalidArtifactMetadata nat artifact_error
  | TooManyArtifacts nat nat
  | TooManyClocks nat nat
  | TooManyStages nat nat
  | DuplicateStageName string
  | TooManyStageArtifactReferences string nat nat
  | DuplicateStageArtifactReference string string
  | DuplicateClockId string
  | DuplicateArtifactId string
  | DuplicateArtifactPath artifact_path
  | UnknownArtifactReference string string
  | CyclicArtifactProvenance string

definition manifest_identifier :: "string \<Rightarrow> string \<Rightarrow> nat \<Rightarrow> (manifest_error, unit) res" where
  "manifest_identifier v field max_bytes =
     map_err (\<lambda>e. InvalidMetadata field (MsgField e)) (validate_identifier v field max_bytes)"

definition manifest_text :: "string \<Rightarrow> string \<Rightarrow> nat \<Rightarrow> (manifest_error, unit) res" where
  "manifest_text v field max_bytes =
     map_err (\<lambda>e. InvalidMetadata field (MsgField e)) (validate_text v field max_bytes)"

definition manifest_optional_text :: "string option \<Rightarrow> string \<Rightarrow> nat \<Rightarrow> (manifest_error, unit) res" where
  "manifest_optional_text v field max_bytes =
     (case v of Some s \<Rightarrow> manifest_text s field max_bytes | None \<Rightarrow> Inr ())"

definition validate_stage_references :: "string list \<Rightarrow> string \<Rightarrow> (manifest_error, unit) res" where
  "validate_stage_references refs field =
     rthen (ensure (length refs \<le> 16384) (TooManyStageArtifactReferences field 16384 (length refs)))
       (each_new
         (\<lambda>r. ensure (is_portable_artifact_id r)
            (InvalidMetadata field
              (Msg ''artifact reference must use the portable artifact identifier syntax'')))
         portable_name_key (DuplicateStageArtifactReference field) (\<lambda>_. Inr ()) [] refs)"

text \<open>Extension properties: nesting, entry counts, keys and strings are bounded.\<close>

function property_value :: "string \<Rightarrow> nat \<Rightarrow> json \<Rightarrow> (manifest_error, unit) res"
  and property_values :: "string \<Rightarrow> nat \<Rightarrow> json list \<Rightarrow> (manifest_error, unit) res"
  and property_entries :: "string \<Rightarrow> nat \<Rightarrow> (string \<times> json) list \<Rightarrow> (manifest_error, unit) res"
  and property_each :: "string \<Rightarrow> nat \<Rightarrow> (string \<times> json) list \<Rightarrow> (manifest_error, unit) res" where
  "property_value field depth v =
     rthen (ensure (depth \<le> 16) (InvalidMetadata field (Msg ''property nesting is too deep'')))
     (case v of
        JStr t \<Rightarrow>
          ensure (length t \<le> 16384 \<and> \<not> has_control t) (InvalidMetadata field (Msg ''property string is invalid''))
      | JArr vs \<Rightarrow>
          rthen (ensure (length vs \<le> 4096) (InvalidMetadata field (Msg ''property array has too many items'')))
            (property_values field depth vs)
      | JObj kvs \<Rightarrow> property_entries field depth kvs
      | _ \<Rightarrow> Inr ())"
| "property_values field depth [] = Inr ()"
| "property_values field depth (v # vs) =
     rthen (property_value field (depth + 1) v) (property_values field depth vs)"
| "property_entries field depth kvs =
     rthen (ensure (depth \<le> 16) (InvalidMetadata field (Msg ''property nesting is too deep'')))
     (rthen (ensure (length kvs \<le> 1024) (InvalidMetadata field (Msg ''property object has too many entries'')))
       (property_each field depth kvs))"
| "property_each field depth [] = Inr ()"
| "property_each field depth ((k, v) # kvs) =
     rthen (ensure (k \<noteq> [] \<and> length k \<le> 128 \<and> \<not> has_control k)
       (InvalidMetadata field (Msg ''property key is invalid'')))
     (rthen (property_value field (depth + 1) v) (property_each field depth kvs))"
  by pat_completeness auto
termination
  by (relation "measure (\<lambda>x. case x of
        Inl (Inl (_, _, v)) \<Rightarrow> 2 * size v + 1
      | Inl (Inr (_, _, vs)) \<Rightarrow> 2 * size_list size vs
      | Inr (Inl (_, _, kvs)) \<Rightarrow> 2 * size_list (size_prod (\<lambda>_. 0) size) kvs + 1
      | Inr (Inr (_, _, kvs)) \<Rightarrow> 2 * size_list (size_prod (\<lambda>_. 0) size) kvs)") auto

definition validate_properties :: "properties \<Rightarrow> string \<Rightarrow> (manifest_error, unit) res" where
  "validate_properties p field = property_entries field 0 p"

definition manifest_identity :: "manifest \<Rightarrow> (manifest_error, unit) res" where
  "manifest_identity m =
     rthen (ensure (is_portable_session_id (mf_session_id m))
       (InvalidMetadata ''session_id'' (Msg ''must use the portable Session-ID syntax'')))
     (rthen (manifest_text (mf_created_at m) ''created_at'' 64)
     (rthen (manifest_text (tool_name (mf_tool m)) ''tool.name'' 256)
     (rthen (manifest_text (tool_version (mf_tool m)) ''tool.version'' 256)
     (rthen (manifest_optional_text (tool_commit (mf_tool m)) ''tool.commit'' 256)
     (rthen (manifest_text (cp_mode (mf_capture m)) ''capture.mode'' 256)
       (manifest_optional_text (cp_provider (mf_capture m)) ''capture.provider'' 256))))))"

definition trusted_capture_fields :: "capture_info \<Rightarrow> bool list" where
  "trusted_capture_fields c =
     [cp_provider c \<noteq> None, cp_capabilities c \<noteq> None, cp_capture_config c \<noteq> None]"

definition manifest_trust :: "capture_info \<Rightarrow> (manifest_error, unit) res" where
  "manifest_trust c =
     rthen
       (ensure (\<not> (list_ex id (trusted_capture_fields c) \<and> \<not> list_all id (trusted_capture_fields c)))
         (InvalidMetadata ''capture''
           (Msg ''provider, capabilities, and capture_config must all be present or all be absent'')))
     (rthen
       (case cp_capabilities c of
          None \<Rightarrow> Inr ()
        | Some caps \<Rightarrow>
            map_err (\<lambda>e. InvalidMetadata ''capture.capabilities'' (MsgCapability e)) (validate_capabilities caps))
       (case cp_instrumentation c of
          None \<Rightarrow> Inr ()
        | Some i \<Rightarrow>
            rthen (ensure (cp_capture_config c \<noteq> None)
              (InvalidMetadata ''capture.instrumentation''
                (Msg ''instrumentation requires an immutable capture_config claim'')))
              (map_err (\<lambda>e. InvalidMetadata ''capture.instrumentation'' (MsgConfig e))
                (validate_instrumentation i))))"

definition manifest_target :: "target_info option \<Rightarrow> (manifest_error, unit) res" where
  "manifest_target target =
     (case target of
        None \<Rightarrow> Inr ()
      | Some t \<Rightarrow>
          rthen (manifest_optional_text (ti_architecture t) ''capture.target.architecture'' 256)
          (rthen (manifest_optional_text (ti_device t) ''capture.target.device'' 256)
          (rthen (manifest_optional_text (ti_board t) ''capture.target.board'' 256)
            (validate_properties (ti_properties t) ''capture.target.properties''))))"

definition manifest_cores :: "capture_info \<Rightarrow> (manifest_error, unit) res" where
  "manifest_cores c =
     each_new (\<lambda>_. Inr ()) id (\<lambda>core. InvalidMetadata ''capture.covered_cores'' (MsgRepeatedCore core))
       (\<lambda>core. ensure
          (case Option.bind (cp_target c) ti_core_count of None \<Rightarrow> True | Some n \<Rightarrow> \<not> n \<le> core)
          (InvalidMetadata ''capture.covered_cores'' (MsgCoreOutside core)))
       [] (cp_covered_cores c)"

definition manifest_trace32 :: "trace32_info option \<Rightarrow> (manifest_error, unit) res" where
  "manifest_trace32 trace32 =
     (case trace32 of
        None \<Rightarrow> Inr ()
      | Some t \<Rightarrow>
          rthen (manifest_optional_text (tr_build t) ''capture.trace32.build'' 256)
          (rthen (manifest_optional_text (tr_probe t) ''capture.trace32.probe'' 256)
          (rthen (manifest_optional_text (tr_architecture_package t) ''capture.trace32.architecture_package'' 256)
            (validate_properties (tr_properties t) ''capture.trace32.properties''))))"

definition manifest_clock :: "clock_info \<Rightarrow> (manifest_error, unit) res" where
  "manifest_clock c =
     rthen (manifest_identifier (ci_id c) ''clocks[].id'' 128)
     (rthen (ensure (ci_frequency_hz c \<noteq> Some 0)
       (InvalidMetadata ''clocks[].frequency_hz''
         (Msg ''clock frequency must be greater than zero when present'')))
     (rthen (manifest_optional_text (ci_source c) ''clocks[].source'' 256)
       (validate_properties (ci_properties c) ''clocks[].properties'')))"

definition manifest_stage :: "stage_info \<Rightarrow> (manifest_error, unit) res" where
  "manifest_stage s =
     rthen (manifest_optional_text (si_started_at s) ''stages[].started_at'' 64)
     (rthen (manifest_optional_text (si_completed_at s) ''stages[].completed_at'' 64)
     (rthen (manifest_optional_text (si_message s) ''stages[].message'' 4096)
     (rthen (validate_stage_references (si_input_artifact_ids s) ''stages[].input_artifact_ids'')
       (validate_stage_references (si_output_artifact_ids s) ''stages[].output_artifact_ids''))))"

definition manifest_capture :: "manifest \<Rightarrow> (manifest_error, unit) res" where
  "manifest_capture m =
     (let c = mf_capture m in
      rthen (manifest_trust c)
      (rthen (manifest_identifier (adapter_id (cp_adapter c)) ''capture.adapter.id'' 256)
      (rthen (manifest_text (adapter_version (cp_adapter c)) ''capture.adapter.version'' 256)
      (rthen (manifest_target (cp_target c))
      (rthen (manifest_cores c)
      (rthen (manifest_trace32 (cp_trace32 c))
      (rthen (manifest_optional_text (fi_elf_path (mf_firmware m)) ''firmware.elf_path'' 4096)
        (manifest_optional_text (fi_build_id (mf_firmware m)) ''firmware.build_id'' 256))))))))"

definition manifest_lists :: "manifest \<Rightarrow> (manifest_error, unit) res" where
  "manifest_lists m =
     rthen (ensure (length (mf_clocks m) \<le> 1024) (TooManyClocks 1024 (length (mf_clocks m))))
     (rthen (each_new manifest_clock ci_id (\<lambda>c. DuplicateClockId (ci_id c)) (\<lambda>_. Inr ()) [] (mf_clocks m))
     (rthen (ensure (length (mf_stages m) \<le> 4096) (TooManyStages 4096 (length (mf_stages m))))
       (each_new (\<lambda>s. manifest_identifier (si_name s) ''stages[].name'' 128) si_name
         (\<lambda>s. DuplicateStageName (si_name s)) manifest_stage [] (mf_stages m))))"

subsection \<open>Artifacts of a manifest\<close>

fun scan_artifacts :: "nat \<Rightarrow> string list \<Rightarrow> string list \<Rightarrow> artifact list \<Rightarrow> (manifest_error, unit) res" where
  "scan_artifacts i ids paths [] = Inr ()"
| "scan_artifacts i ids paths (a # as) =
     rthen (map_err (InvalidArtifactMetadata i) (validate_artifact a))
     (rthen (ensure (portable_name_key (art_id a) \<notin> set ids) (DuplicateArtifactId (art_id a)))
     (rthen (ensure (portable_key (art_relative_path a) \<notin> set paths) (DuplicateArtifactPath (art_relative_path a)))
       (scan_artifacts (i + 1) (portable_name_key (art_id a) # ids)
         (portable_key (art_relative_path a) # paths) as)))"

definition artifact_map :: "artifact list \<Rightarrow> (string, artifact) btree" where
  "artifact_map as = bt_of_list (map (\<lambda>a. (art_id a, a)) as)"

definition manifest_instrumentation :: "(string, artifact) btree \<Rightarrow> artifact \<Rightarrow> instrumentation_config
    \<Rightarrow> (manifest_error, unit) res" where
  "manifest_instrumentation arts config_artifact i =
     (let evidence_id = io_evidence_artifact_id (ic_overhead i);
          invalid = InvalidMetadata ''capture.instrumentation'' in
      rbind (ok_or (bt_get arts evidence_id) (invalid (MsgUnregistered evidence_id))) (\<lambda>evidence.
      rthen (ensure (art_kind evidence = ''instrumentation_overhead'' \<and> art_media_type evidence = ''application/json'')
        (invalid (Msg ''evidence artifact must use kind instrumentation_overhead and media type application/json'')))
        (ensure (evidence_id \<in> set (art_input_artifact_ids config_artifact))
          (invalid (Msg ''capture_config provenance omits instrumentation evidence'')))))"

definition manifest_config_claim :: "(string, artifact) btree \<Rightarrow> capture_info \<Rightarrow> (manifest_error, unit) res" where
  "manifest_config_claim arts c =
     (case cp_capture_config c of
        None \<Rightarrow> Inr ()
      | Some claim \<Rightarrow>
          (let invalid = InvalidMetadata ''capture.capture_config'' in
           rthen (map_err (\<lambda>e. invalid (MsgConfig e)) (validate_config_claim claim))
           (rbind (ok_or (bt_get arts (cc_artifact_id claim)) (invalid (MsgUnregistered (cc_artifact_id claim)))) (\<lambda>a.
           rthen (ensure (art_kind a = ''capture_config'' \<and> art_sha256 a = cc_sha256 claim)
             (invalid (Msg ''artifact kind or digest does not match the capture config claim'')))
             (case cp_instrumentation c of
                None \<Rightarrow> Inr ()
              | Some i \<Rightarrow> manifest_instrumentation arts a i)))))"

definition validate_artifact_references :: "string \<Rightarrow> string list \<Rightarrow> (string, artifact) btree
    \<Rightarrow> (manifest_error, unit) res" where
  "validate_artifact_references owner refs arts =
     each (\<lambda>r. ensure (bt_contains arts r) (UnknownArtifactReference owner r)) refs"

definition manifest_references :: "(string, artifact) btree \<Rightarrow> manifest \<Rightarrow> (manifest_error, unit) res" where
  "manifest_references arts m =
     rthen (each (\<lambda>a. validate_artifact_references (art_id a) (art_input_artifact_ids a) arts) (mf_artifacts m))
       (each (\<lambda>s.
          rthen (validate_artifact_references (si_name s) (si_input_artifact_ids s) arts)
            (validate_artifact_references (si_name s) (si_output_artifact_ids s) arts)) (mf_stages m))"

text \<open>
  The depth-first search. Its state is the two sets \<open>visiting\<close> and \<open>visited\<close>; indexing the map
  with an unknown identifier panics, and so does running out of fuel. Every recursive call adds an
  identifier of the map to \<open>visiting\<close>, so one unit of fuel per artifact and one more are enough.
\<close>

fun visit_artifact :: "nat \<Rightarrow> (string, artifact) btree \<Rightarrow> string \<Rightarrow> string list \<times> string list
    \<Rightarrow> (manifest_error, string list \<times> string list) res"
  and visit_artifacts :: "nat \<Rightarrow> (string, artifact) btree \<Rightarrow> string list \<Rightarrow> string list \<times> string list
    \<Rightarrow> (manifest_error, string list \<times> string list) res" where
  "visit_artifact 0 arts a st = Inl Panic"
| "visit_artifact (Suc n) arts a (visiting, visited) =
     (if a \<in> set visited then Inr (visiting, visited)
      else if a \<in> set visiting then Inl (Err (CyclicArtifactProvenance a))
      else rbind (expect (bt_get arts a)) (\<lambda>art.
        rbind (visit_artifacts n arts (art_input_artifact_ids art) (a # visiting, visited)) (\<lambda>(visiting, visited).
          Inr (removeAll a visiting, a # visited))))"
| "visit_artifacts n arts [] st = Inr st"
| "visit_artifacts n arts (a # as) st =
     rbind (visit_artifact n arts a st) (\<lambda>st. visit_artifacts n arts as st)"

definition validate_manifest :: "manifest \<Rightarrow> (manifest_error, unit) res" where
  "validate_manifest m =
     (let arts = artifact_map (mf_artifacts m) in
      rthen (manifest_identity m)
      (rthen (manifest_capture m)
      (rthen (manifest_lists m)
      (rthen (ensure (length (mf_artifacts m) \<le> 16384) (TooManyArtifacts 16384 (length (mf_artifacts m))))
      (rthen (scan_artifacts 0 [] [] (mf_artifacts m))
      (rthen (manifest_config_claim arts (mf_capture m))
      (rthen (manifest_references arts m)
        (rbind (visit_artifacts (length arts + 1) arts (bt_keys arts) ([], [])) (\<lambda>_. Inr ())))))))))"

end
