(* ===== verification/Manifest_Provenance.thy ===== *)
theory Manifest_Provenance
  imports Manifest
begin

text \<open>
  What the validation of a manifest establishes about its artifacts: the search for cycles is
  sound and complete, ends within its fuel, and never indexes an unknown artifact.
\<close>

subsection \<open>Dependencies and orders\<close>

definition depends :: "(string, artifact) btree \<Rightarrow> (string \<times> string) set" where
  "depends arts = {(a, b). \<exists>art. bt_get arts a = Some art \<and> b \<in> set (art_input_artifact_ids art)}"

text \<open>A list in which the inputs of every element come later, and a stack of ever deeper inputs.\<close>

fun inputs_first :: "(string \<times> string) set \<Rightarrow> string list \<Rightarrow> bool" where
  "inputs_first r [] \<longleftrightarrow> True"
| "inputs_first r (a # l) \<longleftrightarrow> a \<notin> set l \<and> r `` {a} \<subseteq> set l \<and> inputs_first r l"

fun input_stack :: "(string \<times> string) set \<Rightarrow> string list \<Rightarrow> bool" where
  "input_stack r [] \<longleftrightarrow> True"
| "input_stack r [a] \<longleftrightarrow> True"
| "input_stack r (a # b # l) \<longleftrightarrow> (b, a) \<in> r \<and> input_stack r (b # l)"

lemma input_stack_trancl: "input_stack r (a # l) \<Longrightarrow> b \<in> set l \<Longrightarrow> (b, a) \<in> r\<^sup>+"
proof (induction l arbitrary: a)
  case (Cons c l)
  then have "(c, a) \<in> r" "input_stack r (c # l)" by auto
  with Cons.IH [of c] Cons.prems(2) show ?case by (auto intro: trancl_into_trancl)
qed simp

lemma inputs_first_closed:
  assumes "inputs_first r l" "a \<in> set l" "(a, b) \<in> r\<^sup>+"
  shows "b \<in> set l"
proof -
  have step: "(x, y) \<in> r \<Longrightarrow> x \<in> set l \<Longrightarrow> y \<in> set l" for x y
    using assms(1) by (induction l) auto
  from assms(3,2) show ?thesis by (induction rule: trancl_induct) (auto intro: step)
qed

lemma inputs_first_acyclic: "inputs_first r l \<Longrightarrow> a \<in> set l \<Longrightarrow> (a, a) \<notin> r\<^sup>+"
proof (induction l)
  case (Cons c l)
  show ?case
  proof (cases "a = c")
    case True
    show ?thesis
    proof
      assume "(a, a) \<in> r\<^sup>+"
      then obtain b where b: "(a, b) \<in> r" "b = a \<or> (b, a) \<in> r\<^sup>+"
        by (metis tranclD rtranclD)
      with Cons.prems True have "b \<in> set l" by auto
      with b Cons.prems True inputs_first_closed [of r l b a] show False by auto
    qed
  qed (use Cons in auto)
qed simp

subsection \<open>The search\<close>

definition inputs_known :: "(string, artifact) btree \<Rightarrow> bool" where
  "inputs_known arts \<longleftrightarrow> (\<forall>a b. (a, b) \<in> depends arts \<longrightarrow> bt_contains arts b)"

definition search_state :: "(string, artifact) btree \<Rightarrow> nat \<Rightarrow> string list \<times> string list \<Rightarrow> bool" where
  "search_state arts n = (\<lambda>(visiting, visited).
     distinct visiting \<and> set visiting \<subseteq> set (bt_keys arts) \<and> length arts < n + length visiting \<and>
     inputs_first (depends arts) visited \<and> set visited \<inter> set visiting = {})"

text \<open>The outcome of visiting the identifiers \<open>as\<close>.\<close>

definition searched :: "(string, artifact) btree \<Rightarrow> string list \<Rightarrow> string list \<times> string list
    \<Rightarrow> (manifest_error, string list \<times> string list) res \<Rightarrow> bool" where
  "searched arts as st r \<longleftrightarrow>
     (case r of
        Inr (visiting, visited) \<Rightarrow>
          visiting = fst st \<and> inputs_first (depends arts) visited \<and> set visited \<inter> set visiting = {} \<and>
          set (snd st) \<union> set as \<subseteq> set visited
      | Inl (Err (CyclicArtifactProvenance a)) \<Rightarrow> (a, a) \<in> (depends arts)\<^sup>+
      | Inl _ \<Rightarrow> False)"

lemma searched_cases:
  assumes "searched arts as st r"
  obtains (found) a where "r = Inl (Err (CyclicArtifactProvenance a))" "(a, a) \<in> (depends arts)\<^sup>+"
  | (clear) visited where "r = Inr (fst st, visited)" "inputs_first (depends arts) visited"
      "set visited \<inter> set (fst st) = {}" "set (snd st) \<union> set as \<subseteq> set visited"
  using assms by (auto simp: searched_def split: sum.splits fail.splits manifest_error.splits)

lemma visiting_full:
  assumes "distinct visiting" "set visiting \<subseteq> set (bt_keys arts)"
  shows "length visiting \<le> length arts"
proof -
  have "length visiting = card (set visiting)" using assms(1) by (simp add: distinct_card)
  also have "\<dots> \<le> card (set (bt_keys arts))" using assms(2) by (simp add: card_mono)
  also have "\<dots> \<le> length arts" using card_length [of "bt_keys arts"] by (simp add: bt_keys_def)
  finally show ?thesis .
qed

lemma bt_contains_keys: "bt_contains m k \<longleftrightarrow> k \<in> set (bt_keys m)"
  by (simp add: bt_contains_def bt_get_def bt_keys_def map_of_eq_None_iff)

lemma visit_list_searched:
  assumes one: "\<And>a visited. search_state arts n (visiting, visited) \<Longrightarrow> a \<in> set as \<Longrightarrow>
      searched arts [a] (visiting, visited) (visit_artifact n arts a (visiting, visited))"
    and "search_state arts n (visiting, visited)"
  shows "searched arts as (visiting, visited) (visit_artifacts n arts as (visiting, visited))"
  using assms
proof (induction as arbitrary: visited)
  case Nil
  then show ?case by (auto simp: searched_def search_state_def)
next
  case (Cons a as)
  have "searched arts [a] (visiting, visited) (visit_artifact n arts a (visiting, visited))"
    by (rule Cons.prems(1)) (use Cons.prems(2) in auto)
  then show ?case
  proof (cases rule: searched_cases)
    case (found b)
    then show ?thesis by (simp add: searched_def)
  next
    case (clear visited')
    then have "search_state arts n (visiting, visited')"
      using Cons.prems(2) by (auto simp: search_state_def)
    from Cons.IH [OF _ this] Cons.prems(1)
    have "searched arts as (visiting, visited') (visit_artifacts n arts as (visiting, visited'))" by simp
    then show ?thesis
      using clear by (cases rule: searched_cases) (auto simp: searched_def)
  qed
qed

lemma visit_searched:
  assumes known: "inputs_known arts"
  shows "search_state arts n (visiting, visited) \<Longrightarrow> bt_contains arts a \<Longrightarrow>
    input_stack (depends arts) (a # visiting) \<Longrightarrow>
    searched arts [a] (visiting, visited) (visit_artifact n arts a (visiting, visited))"
proof (induction n arbitrary: a visiting visited)
  case 0
  then show ?case
    using visiting_full [of visiting arts] by (auto simp: search_state_def)
next
  case (Suc n)
  consider (old) "a \<in> set visited" | (cycle) "a \<notin> set visited" "a \<in> set visiting"
    | (new) "a \<notin> set visited" "a \<notin> set visiting" by blast
  then show ?case
  proof cases
    case old
    with Suc.prems show ?thesis by (auto simp: searched_def search_state_def)
  next
    case cycle
    with Suc.prems(3) have "(a, a) \<in> (depends arts)\<^sup>+" using input_stack_trancl by blast
    with cycle show ?thesis by (simp add: searched_def)
  next
    case new
    from Suc.prems(2) obtain art where art: "bt_get arts a = Some art" by (auto simp: bt_contains_def)
    let ?st = "(a # visiting, visited)"
    have st: "search_state arts n ?st"
      using Suc.prems(1,2) new by (auto simp: search_state_def bt_contains_keys)
    have "searched arts [b] (a # visiting, v) (visit_artifact n arts b (a # visiting, v))"
      if "search_state arts n (a # visiting, v)" "b \<in> set (art_input_artifact_ids art)" for b v
    proof (rule Suc.IH [OF that(1)])
      from art that(2) have "(a, b) \<in> depends arts" by (auto simp: depends_def)
      with known Suc.prems(3) show "bt_contains arts b" "input_stack (depends arts) (b # a # visiting)"
        by (auto simp: inputs_known_def)
    qed
    from visit_list_searched [OF this st]
    have "searched arts (art_input_artifact_ids art) ?st (visit_artifacts n arts (art_input_artifact_ids art) ?st)"
      by simp
    then show ?thesis
    proof (cases rule: searched_cases)
      case (found b)
      with new art show ?thesis by (simp add: searched_def)
    next
      case (clear visited')
      have "depends arts `` {a} \<subseteq> set visited'" using clear(4) art by (auto simp: depends_def)
      moreover have "removeAll a visiting = visiting" using new by simp
      ultimately show ?thesis
        using clear new art Suc.prems(1) by (auto simp: searched_def search_state_def)
    qed
  qed
qed

lemma provenance_search:
  assumes "inputs_known arts"
  shows "searched arts (bt_keys arts) ([], []) (visit_artifacts (length arts + 1) arts (bt_keys arts) ([], []))"
proof (rule visit_list_searched)
  fix a visited
  assume "search_state arts (length arts + 1) ([], visited)" "a \<in> set (bt_keys arts)"
  then show "searched arts [a] ([], visited) (visit_artifact (length arts + 1) arts a ([], visited))"
    by (intro visit_searched assms) (auto simp: bt_contains_keys)
qed (simp add: search_state_def)

lemma provenance_search_acyclic:
  assumes "inputs_known arts"
    and "visit_artifacts (length arts + 1) arts (bt_keys arts) ([], []) = Inr st"
  shows "acyclic (depends arts)"
proof (rule acyclicI, intro allI notI)
  fix a
  assume a: "(a, a) \<in> (depends arts)\<^sup>+"
  then obtain b where "(a, b) \<in> depends arts" by (meson tranclD)
  then have "a \<in> set (bt_keys arts)" by (auto simp: depends_def bt_contains_keys [symmetric] bt_contains_def)
  moreover from provenance_search [OF assms(1)] assms(2) have "inputs_first (depends arts) (snd st)"
      "set (bt_keys arts) \<subseteq> set (snd st)"
    by (auto simp: searched_def split: prod.splits)
  ultimately show False using a inputs_first_acyclic by blast
qed

subsection \<open>The artifacts of an accepted manifest\<close>

definition provenance :: "manifest \<Rightarrow> (string \<times> string) set" where
  "provenance m =
     {(a, b). \<exists>art\<in>set (mf_artifacts m). art_id art = a \<and> b \<in> set (art_input_artifact_ids art)}"

lemma scan_artifacts_Inr:
  "scan_artifacts i ids paths as = Inr () \<longleftrightarrow>
     (\<forall>a\<in>set as. validate_artifact a = Inr ()) \<and>
     distinct (map (portable_name_key \<circ> art_id) as) \<and> (portable_name_key \<circ> art_id) ` set as \<inter> set ids = {} \<and>
     distinct (map (portable_key \<circ> art_relative_path) as) \<and>
     (portable_key \<circ> art_relative_path) ` set as \<inter> set paths = {}"
  by (induction as arbitrary: i ids paths) (auto simp: rthen_eq_Inr)

lemma artifact_map_get:
  assumes "distinct (map art_id as)"
  shows "bt_get (artifact_map as) i = Some a \<longleftrightarrow> a \<in> set as \<and> art_id a = i"
proof -
  have "distinct (map fst (map (\<lambda>a. (art_id a, a)) as))" using assms by (simp add: comp_def)
  then have "distinct (map fst (rev (map (\<lambda>a. (art_id a, a)) as)))" by (simp only: rev_map [symmetric] distinct_rev)
  then show ?thesis by (auto simp: artifact_map_def bt_get_of_list map_of_eq_Some_iff)
qed

lemma distinct_ids: "distinct (map (portable_name_key \<circ> art_id) as) \<Longrightarrow> distinct (map art_id as)"
  by (metis distinct_map map_map)

lemma depends_artifact_map: "distinct (map art_id (mf_artifacts m)) \<Longrightarrow>
    depends (artifact_map (mf_artifacts m)) = provenance m"
  by (auto simp: depends_def provenance_def artifact_map_get)

lemma references_Inr:
  "validate_artifact_references owner refs arts = Inr () \<longleftrightarrow> (\<forall>r\<in>set refs. bt_contains arts r)"
  by (simp add: validate_artifact_references_def each_eq_Inr)

lemma manifest_references_known:
  assumes "manifest_references (artifact_map (mf_artifacts m)) m = Inr ()" "distinct (map art_id (mf_artifacts m))"
  shows "inputs_known (artifact_map (mf_artifacts m))"
  using assms by (auto simp: manifest_references_def rthen_eq_Inr each_eq_Inr references_Inr inputs_known_def
      depends_artifact_map provenance_def)

subsection \<open>No panic\<close>

named_theorems manifest_total \<open>checks of a manifest that never panic\<close>

lemma artifact_text_total [manifest_total]:
  "validate_identifier v f n \<noteq> Inl Panic" "validate_artifact_identifier v f \<noteq> Inl Panic"
  "validate_text v f n \<noteq> Inl Panic"
  by (simp_all add: validate_identifier_def validate_artifact_identifier_def validate_text_def rthen_Panic)

lemma validate_artifact_total [manifest_total]: "validate_artifact a \<noteq> Inl Panic"
  by (simp add: validate_artifact_def rthen_Panic manifest_total validate_input_def each_new_Panic)

text \<open>A check of a manifest that neither panics nor reports a cycle.\<close>

definition plain :: "(manifest_error, 'a) res \<Rightarrow> bool" where
  "plain r \<longleftrightarrow> r \<noteq> Inl Panic \<and> (\<forall>a. r \<noteq> Inl (Err (CyclicArtifactProvenance a)))"

lemma plain_simps [simp]:
  "plain (Inr a)"
  "plain (Inl (Err e)) \<longleftrightarrow> (\<forall>a. e \<noteq> CyclicArtifactProvenance a)"
  "(\<forall>a. e \<noteq> CyclicArtifactProvenance a) \<Longrightarrow> plain (ensure b e)"
  "(\<forall>a. e \<noteq> CyclicArtifactProvenance a) \<Longrightarrow> plain (ok_or x e)"
  by (auto simp: plain_def ensure_def ok_or_def split: option.splits)

lemma plain_rbind [simp]: "plain r \<Longrightarrow> (\<And>a. plain (f a)) \<Longrightarrow> plain (rbind r f)"
  by (cases r) (auto simp: plain_def)

lemma plain_rthen [simp]: "plain r \<Longrightarrow> plain r' \<Longrightarrow> plain (rthen r r')"
  by (simp add: rthen_def)

lemma plain_map_err [simp]:
  "r \<noteq> Inl Panic \<Longrightarrow> (\<And>e a. g e \<noteq> CyclicArtifactProvenance a) \<Longrightarrow> plain (map_err g r)"
  by (auto simp: plain_def map_err_def split: sum.splits fail.splits)

lemma plain_each: "(\<And>x. x \<in> set xs \<Longrightarrow> plain (f x)) \<Longrightarrow> plain (each f xs)"
  by (induction xs) auto

lemma plain_each_new:
  "(\<And>x. plain (pre x)) \<Longrightarrow> (\<And>x a. dup x \<noteq> CyclicArtifactProvenance a) \<Longrightarrow> (\<And>x. plain (post x)) \<Longrightarrow>
     plain (each_new pre key dup post seen xs)"
  by (induction xs arbitrary: seen) simp_all

lemma manifest_text_total [manifest_total]:
  "plain (manifest_identifier v f n)" "plain (manifest_text v f n)" "plain (manifest_optional_text w f n)"
  by (simp_all add: manifest_identifier_def manifest_text_def manifest_optional_text_def
      manifest_total split: option.splits)

lemma stage_references_total [manifest_total]: "plain (validate_stage_references refs f)"
  by (simp add: validate_stage_references_def plain_each_new)

lemma properties_total_aux:
  "plain (property_value f d v)" "plain (property_values f d vs)"
  "plain (property_entries f d kvs)" "plain (property_each f d kvs)"
proof (induction rule: property_value_property_values_property_entries_property_each.induct)
  case (1 field depth v)
  then show ?case by (subst property_value.simps) (auto split: json.splits)
next
  case (4 field depth kvs)
  then show ?case by (subst property_entries.simps) simp
qed (simp_all del: property_value.simps property_entries.simps)

lemma properties_total [manifest_total]: "plain (validate_properties p f)"
  by (simp add: validate_properties_def properties_total_aux del: property_entries.simps)

lemma capture_checks_total [manifest_total]:
  "validate_config_claim c \<noteq> Inl Panic" "validate_capabilities caps \<noteq> Inl Panic"
  "validate_instrumentation ins \<noteq> Inl Panic"
  by (simp_all add: validate_config_claim_def validate_capabilities_def validate_capability_def
      validate_instrumentation_def validate_config_text_def rthen_Panic each_new_Panic)

lemma manifest_capture_total [manifest_total]: "plain (manifest_capture m)"
proof -
  have "plain (manifest_trust c)" "plain (manifest_target t)" "plain (manifest_trace32 u)" "plain (manifest_cores c)"
    for c t u
    by (simp_all add: manifest_trust_def manifest_target_def manifest_cores_def manifest_trace32_def
        plain_each_new manifest_total split: option.splits)
  then show ?thesis by (simp add: manifest_capture_def Let_def manifest_total)
qed

lemma manifest_lists_total [manifest_total]: "plain (manifest_identity m)" "plain (manifest_lists m)"
proof -
  have "plain (manifest_clock c)" "plain (manifest_stage s)" for c s
    by (simp_all add: manifest_clock_def manifest_stage_def manifest_total)
  then show "plain (manifest_identity m)" "plain (manifest_lists m)"
    by (simp_all add: manifest_identity_def manifest_lists_def manifest_total plain_each_new)
qed

lemma scan_artifacts_total [manifest_total]: "plain (scan_artifacts i ids paths as)"
  by (induction as arbitrary: i ids paths) (simp_all add: manifest_total)

lemma config_claim_total [manifest_total]: "plain (manifest_config_claim arts c)"
  by (simp add: manifest_config_claim_def manifest_instrumentation_def manifest_total Let_def split: option.splits)

lemma manifest_references_total [manifest_total]: "plain (manifest_references arts m)"
  by (simp add: manifest_references_def validate_artifact_references_def plain_each)

lemma plain_outcome:
  assumes "plain r" "r = Inr () \<Longrightarrow> Q r'"
    and "\<And>e. (\<And>a. e \<noteq> CyclicArtifactProvenance a) \<Longrightarrow> Q (Inl (Err e))"
  shows "Q (rthen r r')"
proof (cases r)
  case (Inl f)
  with assms(1) obtain e where "f = Err e" "\<And>a. e \<noteq> CyclicArtifactProvenance a"
    by (cases f) (auto simp: plain_def)
  with assms(3) Inl show ?thesis by simp
qed (use assms(2) in simp)

text \<open>
  C34: Validating a manifest never panics. An accepted manifest has an acyclic provenance graph all
  of whose inputs are registered, and no two of its artifacts share a portable identifier or path;
  a manifest refused for cyclic provenance does have a cycle, through the artifact reported.
\<close>
theorem manifest_provenance_acyclic:
  "case validate_manifest m of
     Inr _ \<Rightarrow> acyclic (provenance m) \<and> snd ` provenance m \<subseteq> art_id ` set (mf_artifacts m) \<and>
       distinct (map (portable_name_key \<circ> art_id) (mf_artifacts m)) \<and>
       distinct (map (portable_key \<circ> art_relative_path) (mf_artifacts m))
   | Inl (Err (CyclicArtifactProvenance a)) \<Rightarrow> (a, a) \<in> (provenance m)\<^sup>+
   | Inl (Err _) \<Rightarrow> True
   | Inl Panic \<Rightarrow> False"
  (is "?P (validate_manifest m)")
proof -
  let ?arts = "artifact_map (mf_artifacts m)"
  let ?search = "visit_artifacts (length ?arts + 1) ?arts (bt_keys ?arts) ([], [])"
  have other: "?P (Inl (Err e))" if "\<And>a. e \<noteq> CyclicArtifactProvenance a" for e
    using that by (auto split: manifest_error.splits)
  have step: "?P (rthen r r')" if "plain r" "r = Inr () \<Longrightarrow> ?P r'" for r r' :: "(manifest_error, unit) res"
    by (rule plain_outcome [where Q = "?P", OF that(1)]) (use that(2) other in blast)+
  have limit: "plain (ensure (length (mf_artifacts m) \<le> 16384) (TooManyArtifacts 16384 (length (mf_artifacts m))))"
    by simp
  show ?thesis
    unfolding validate_manifest_def Let_def
  proof (rule step, rule manifest_total, rule step, rule manifest_total, rule step, rule manifest_total,
      rule step, rule limit, rule step, rule manifest_total, rule step, rule manifest_total, rule step, rule manifest_total)
    assume "scan_artifacts 0 [] [] (mf_artifacts m) = Inr ()" "manifest_references ?arts m = Inr ()"
    note valid = this
    then have ids: "distinct (map art_id (mf_artifacts m))" by (simp add: scan_artifacts_Inr distinct_ids)
    with valid have known: "inputs_known ?arts" by (simp add: manifest_references_known)
    have prov: "depends ?arts = provenance m" using ids by (rule depends_artifact_map)
    from provenance_search [OF known] show "?P (rbind ?search (\<lambda>_. Inr ()))"
    proof (cases rule: searched_cases)
      case (found a)
      with prov show ?thesis by simp
    next
      case (clear visited)
      then have "acyclic (provenance m)" using provenance_search_acyclic [OF known] prov by simp
      moreover have "snd ` provenance m \<subseteq> art_id ` set (mf_artifacts m)"
      proof
        fix b
        assume "b \<in> snd ` provenance m"
        with known prov have "bt_contains ?arts b" by (auto simp: inputs_known_def)
        then show "b \<in> art_id ` set (mf_artifacts m)" using ids by (auto simp: bt_contains_def artifact_map_get)
      qed
      ultimately show ?thesis using valid clear by (simp add: scan_artifacts_Inr)
    qed
  qed
qed

end
