(* ===== verification/Session_State.thy ===== *)
theory Session_State
  imports Manifest
begin

text \<open>
  The durable lifecycle state of a session: \<open>SessionStatus\<close>, \<open>SessionState\<close> and its validation
  (\<open>crates/t32perf-model/src/session.rs\<close>) and the computation of the next state
  (\<open>crates/t32perf-session/src/session.rs\<close>). The current time is an argument.
\<close>

subsection \<open>Status and state\<close>

datatype session_status = Created | Capturing | Captured | Processing | Complete | Failed

definition can_transition_to :: "session_status \<Rightarrow> session_status \<Rightarrow> bool" where
  "can_transition_to from_status next_status \<longleftrightarrow>
     from_status = next_status \<and> from_status \<noteq> Complete \<and> from_status \<noteq> Failed \<or>
     (case from_status of
        Created \<Rightarrow> next_status = Capturing \<or> next_status = Failed
      | Capturing \<Rightarrow> next_status = Captured \<or> next_status = Failed
      | Captured \<Rightarrow> next_status = Processing \<or> next_status = Failed
      | Processing \<Rightarrow> next_status = Failed
      | _ \<Rightarrow> False)"

definition can_finalize :: "session_status \<Rightarrow> bool" where
  "can_finalize s \<longleftrightarrow> s = Captured \<or> s = Processing \<or> s = Complete"

record session_failure =
  sf_code :: string
  sf_message :: string
  sf_details :: properties

record session_state =
  ss_created_at :: string
  ss_status :: session_status
  ss_operation_id :: string
  ss_revision :: u64
  ss_updated_at :: string
  ss_error :: "session_failure option"

datatype state_error = EmptyCreatedAt | EmptyOperationId | MissingError | UnexpectedError

definition validate_state :: "session_state \<Rightarrow> (state_error, unit) res" where
  "validate_state s =
     rthen (ensure (ss_created_at s \<noteq> []) EmptyCreatedAt)
     (rthen (ensure (ss_operation_id s \<noteq> []) EmptyOperationId)
       (case (ss_status s, ss_error s \<noteq> None) of
          (Failed, False) \<Rightarrow> Inl (Err MissingError)
        | (Failed, True) \<Rightarrow> Inr ()
        | (_, False) \<Rightarrow> Inr ()
        | (_, True) \<Rightarrow> Inl (Err UnexpectedError)))"

subsection \<open>Errors of the session store\<close>

text \<open>
  Paths are the segments below the session directory. A message is the fixed part of its text,
  and the kind of an I/O error is whether the entry was absent.
\<close>

type_synonym path = "string list"

datatype store_error =
    Io string path bool
  | Json path
  | InvalidRoot path
  | LinkNotAllowed path
  | FileIdentityChanged path
  | OutsideArtifactRoot path
  | LockMismatch string
  | InvalidTransition session_status session_status
  | TerminalSessionMutation session_status
  | InvalidStateDocument state_error
  | RevisionOverflow
  | InvalidDocument string string
  | InvalidManifestDocument manifest_error
  | ManifestSessionMismatch string string
  | ManifestConflict
  | ArtifactCatalogMismatch
  | ArtifactRecordConflict string
  | IngestIntentConflict string string
  | ArtifactExists path
  | ArtifactNotFound path
  | InvalidStagingPath string
  | NotRegularFile path
  | FileLimitExceeded u64 u64
  | SessionLimitExceeded u64 u64
  | MetadataLimitExceeded string u64 u64
  | ArtifactCountExceeded nat nat
  | DirectoryEntryLimitExceeded nat nat
  | DirectoryDepthLimitExceeded nat path
  | ArtifactWriterActive string
  | ArtifactWriterSessionMismatch string
  | ArtifactSizeMismatch string u64 u64
  | ArtifactDigestMismatch string
  | InvalidArtifactSpec string

subsection \<open>The next state\<close>

definition build_next_state :: "string \<Rightarrow> session_state \<Rightarrow> session_status \<Rightarrow> session_failure option
    \<Rightarrow> (store_error, session_state) res" where
  "build_next_state now current status err =
     rbind (ok_or (checked_add (ss_revision current) 1) RevisionOverflow) (\<lambda>revision.
       let nxt = \<lparr>ss_created_at = ss_created_at current, ss_status = status,
                  ss_operation_id = ss_operation_id current, ss_revision = revision,
                  ss_updated_at = now, ss_error = err\<rparr>
       in rthen (map_err InvalidStateDocument (validate_state nxt)) (Inr nxt))"

definition next_state :: "string \<Rightarrow> session_state \<Rightarrow> session_status \<Rightarrow> session_failure option
    \<Rightarrow> (store_error, session_state) res" where
  "next_state now current status err =
     rthen (ensure (can_transition_to (ss_status current) status) (InvalidTransition (ss_status current) status))
       (build_next_state now current status err)"

definition next_completed_state :: "string \<Rightarrow> session_state \<Rightarrow> (store_error, session_state) res" where
  "next_completed_state now current =
     rthen
       (ensure (ss_status current = Captured \<or> ss_status current = Processing)
         (InvalidTransition (ss_status current) Complete))
       (build_next_state now current Complete None)"

subsection \<open>The lifecycle\<close>

definition terminal :: "session_status \<Rightarrow> bool" where
  "terminal s \<longleftrightarrow> s = Complete \<or> s = Failed"

fun status_rank :: "session_status \<Rightarrow> nat" where
  "status_rank Created = 0"
| "status_rank Capturing = 1"
| "status_rank Captured = 2"
| "status_rank Processing = 3"
| "status_rank Complete = 4"
| "status_rank Failed = 5"

text \<open>One durable update of the state document: an ordinary transition or completion.\<close>

inductive advances :: "session_state \<Rightarrow> session_state \<Rightarrow> bool" where
  transition: "next_state now s status err = Inr t \<Longrightarrow> status \<noteq> Complete \<Longrightarrow> advances s t"
| completion: "next_completed_state now s = Inr t \<Longrightarrow> advances s t"

inductive_cases advancesE: "advances s t"

lemma validate_state_Inr:
  "validate_state s = Inr () \<longleftrightarrow>
     ss_created_at s \<noteq> [] \<and> ss_operation_id s \<noteq> [] \<and> (ss_error s \<noteq> None \<longleftrightarrow> ss_status s = Failed)"
  by (cases "ss_status s"; cases "ss_error s") (auto simp: validate_state_def rthen_eq_Inr)

lemma build_next_state_Inr:
  "build_next_state now s status err = Inr t \<longleftrightarrow>
     unat (ss_revision t) = unat (ss_revision s) + 1 \<and> ss_created_at t = ss_created_at s \<and>
     ss_operation_id t = ss_operation_id s \<and> ss_status t = status \<and> ss_updated_at t = now \<and>
     ss_error t = err \<and> validate_state t = Inr ()"
  by (cases t) (auto simp: build_next_state_def rbind_eq_Inr rthen_eq_Inr checked_add_Some Let_def)

lemma advances_step:
  assumes "advances s t"
  shows "unat (ss_revision t) = unat (ss_revision s) + 1" "ss_created_at t = ss_created_at s"
    "ss_operation_id t = ss_operation_id s" "validate_state t = Inr ()" "\<not> terminal (ss_status s)"
    "status_rank (ss_status s) \<le> status_rank (ss_status t)"
    "ss_status t = Complete \<Longrightarrow> can_finalize (ss_status s)"
  using assms
  by (auto elim!: advancesE simp: next_state_def next_completed_state_def rthen_eq_Inr build_next_state_Inr
      terminal_def can_finalize_def can_transition_to_def split: session_status.splits)

text \<open>The states an update sequence can reach.\<close>

inductive state_reaches :: "session_state \<Rightarrow> session_state \<Rightarrow> bool" where
  here: "state_reaches s s"
| more: "state_reaches s t \<Longrightarrow> advances t u \<Longrightarrow> state_reaches s u"

lemma state_reaches_progress:
  assumes "state_reaches s t"
  shows "ss_revision s \<le> ss_revision t" "ss_created_at t = ss_created_at s"
    "ss_operation_id t = ss_operation_id s" "status_rank (ss_status s) \<le> status_rank (ss_status t)"
    "terminal (ss_status s) \<Longrightarrow> t = s" "validate_state s = Inr () \<Longrightarrow> validate_state t = Inr ()"
  using assms
  by (induction rule: state_reaches.induct)
    (auto dest: advances_step simp: word_le_nat_alt)

lemma state_reaches_trans: "state_reaches t u \<Longrightarrow> state_reaches s t \<Longrightarrow> state_reaches s u"
  by (induction rule: state_reaches.induct) (auto intro: state_reaches.intros)

end
