(* ===== verification/Session_Files.thy ===== *)
theory Session_Files
  imports Session_State State_Error
begin

text \<open>
  The files of one session and the operations on them
  (\<open>crates/t32perf-session/src/path.rs\<close> and the helpers of \<open>session.rs\<close> and \<open>artifact.rs\<close>).

  The store maps paths below the session directory to nodes. A document the program wrote is kept
  as its value; \<open>h_render\<close> gives its bytes, \<open>h_parse\<close> what a foreign byte sequence parses to,
  \<open>h_sha256\<close> the digest and \<open>h_now\<close> the time: serde, sha2 and the clock are parameters.

  Every call to the file system consumes one entry of \<open>st_faults\<close>: it works or fails, and before
  it an external capture process may have changed an entry below \<open>capture/staging\<close>, the only
  directory such a process may write. After the list is exhausted everything works. A process that
  stops at a call leaves the same files as one whose call fails, since no error path of these
  operations changes them. Temporary files of atomic writes are not entries of the model, and no
  entry changes while its handle is open except its content.
\<close>

named_theorems store_simps \<open>unfolding of the store operations\<close>

subsection \<open>Documents\<close>

datatype intent_phase = Preparing | Ready

record ingest_intent =
  ii_schema :: string
  ii_session_id :: string
  ii_operation_id :: string
  ii_staged_relative_path :: artifact_path
  ii_private_relative_path :: "artifact_path option"
  ii_phase :: intent_phase
  ii_artifact :: artifact

datatype intent_document =
    IntentV1 string string artifact_path artifact
  | IntentV2 string string artifact_path "artifact_path option" intent_phase artifact

record committed_source =
  cs_artifact_id :: string
  cs_staged_relative_path :: artifact_path
  cs_size_bytes :: u64
  cs_sha256 :: sha256_digest
  cs_artifact_relative_path :: artifact_path

record source_record =
  sr_schema :: string
  sr_session_id :: string
  sr_source :: committed_source

datatype document =
    DState session_state
  | DArtifact artifact
  | DIntent intent_document
  | DSource source_record
  | DManifest manifest

datatype content = Bytes "u8 list" | Doc document

datatype node = NFile content | NDir | NLink | NOther

record host =
  h_render :: "document \<Rightarrow> u8 list"
  h_parse :: "u8 list \<Rightarrow> document option"
  h_sha256 :: "u8 list \<Rightarrow> u8 list"
  h_now :: string

definition content_bytes :: "host \<Rightarrow> content \<Rightarrow> u8 list" where
  "content_bytes h c = (case c of Bytes bs \<Rightarrow> bs | Doc d \<Rightarrow> h_render h d)"

definition content_len :: "host \<Rightarrow> content \<Rightarrow> u64" where
  "content_len h c = word_of_nat (length (content_bytes h c))"

definition content_document :: "host \<Rightarrow> content \<Rightarrow> document option" where
  "content_document h c = (case c of Bytes bs \<Rightarrow> h_parse h bs | Doc d \<Rightarrow> Some d)"

subsection \<open>The store\<close>

datatype fault = Works | Fails | Staged path "node option"

record session_limits =
  max_file_bytes :: u64
  max_session_bytes :: u64

record session_store =
  st_id :: string
  st_limits :: session_limits
  st_files :: "(path, node) btree"
  st_writer :: bool
  st_faults :: "fault list"

type_synonym 'a st = "(session_store, store_error, 'a) se"

definition staging_dir :: path where
  "staging_dir = [''capture'', ''staging'']"

definition below :: "path \<Rightarrow> path \<Rightarrow> bool" where
  "below dir p \<longleftrightarrow> take (length dir) p = dir \<and> length dir < length p"

definition change :: "path \<Rightarrow> node option \<Rightarrow> (path, node) btree \<Rightarrow> (path, node) btree" where
  "change p n m = (case n of None \<Rightarrow> bt_remove p m | Some x \<Rightarrow> bt_insert p x m)"

text \<open>What happens before the next call, and whether it works.\<close>

fun settle :: "fault list \<Rightarrow> (path, node) btree \<Rightarrow> bool \<times> fault list \<times> (path, node) btree" where
  "settle [] m = (True, [], m)"
| "settle (Works # fs) m = (True, fs, m)"
| "settle (Fails # fs) m = (False, fs, m)"
| "settle (Staged p n # fs) m = settle fs (if below staging_dir p then change p n m else m)"

definition sys :: "string \<Rightarrow> path \<Rightarrow> unit st" where
  "sys op p s =
     (case settle (st_faults s) (st_files s) of
        (ok, fs, m) \<Rightarrow>
          ((if ok then Inr () else Inl (Err (Io op p False))), s\<lparr>st_faults := fs, st_files := m\<rparr>))"

definition put :: "path \<Rightarrow> node option \<Rightarrow> unit st" where
  "put p n = modify (\<lambda>s. s\<lparr>st_files := change p n (st_files s)\<rparr>)"

definition node_at :: "path \<Rightarrow> session_store \<Rightarrow> node option" where
  "node_at p s = bt_get (st_files s) p"

text \<open>\<open>symlink_metadata\<close>: the kind of the entry, None when it is absent.\<close>

definition metadata :: "string \<Rightarrow> path \<Rightarrow> node option st" where
  "metadata op p = followed (sys op p) (query (node_at p))"

subsection \<open>Plain files and directories\<close>

definition ensure_plain_directory :: "path \<Rightarrow> unit st" where
  "ensure_plain_directory p =
     andthen (metadata ''inspect directory'' p) (\<lambda>n. case n of
       None \<Rightarrow> throw (Io ''inspect directory'' p True)
     | Some NLink \<Rightarrow> throw (LinkNotAllowed p)
     | Some NDir \<Rightarrow> ret ()
     | Some _ \<Rightarrow> throw (InvalidRoot p))"

definition plain_content :: "path \<Rightarrow> node \<Rightarrow> (store_error, content) res" where
  "plain_content p n =
     (case n of
        NLink \<Rightarrow> Inl (Err (LinkNotAllowed p))
      | NFile c \<Rightarrow> Inr c
      | _ \<Rightarrow> Inl (Err (NotRegularFile p)))"

definition ensure_plain_file :: "path \<Rightarrow> content st" where
  "ensure_plain_file p =
     andthen (metadata ''inspect file'' p) (\<lambda>n. case n of
       None \<Rightarrow> throw (Io ''inspect file'' p True)
     | Some n \<Rightarrow> lift (plain_content p n))"

text \<open>Opening an existing plain file: inspected, opened without following links, inspected again.\<close>

definition open_existing_plain_file :: "path \<Rightarrow> content st" where
  "open_existing_plain_file p =
     andthen (metadata ''inspect file before open'' p) (\<lambda>n. case n of
       None \<Rightarrow> throw (Io ''inspect file before open'' p True)
     | Some n \<Rightarrow>
         followed (lift (plain_content p n))
         (followed (sys ''open plain file'' p) (ensure_plain_file p)))"

definition path_entry_exists :: "path \<Rightarrow> bool st" where
  "path_entry_exists p =
     andthen (metadata ''inspect filesystem entry'' p) (\<lambda>n. ret (n \<noteq> None))"

definition plain_file_metadata :: "path \<Rightarrow> content option st" where
  "plain_file_metadata p =
     andthen (metadata ''inspect file'' p) (\<lambda>n. case n of
       None \<Rightarrow> ret None
     | Some _ \<Rightarrow> andthen (ensure_plain_file p) (\<lambda>c. ret (Some c)))"

definition plain_file_exists :: "path \<Rightarrow> bool st" where
  "plain_file_exists p = andthen (plain_file_metadata p) (\<lambda>c. ret (c \<noteq> None))"

text \<open>Reading an open file to its end, which yields its content at that time.\<close>

definition read_open_file :: "string \<Rightarrow> path \<Rightarrow> content st" where
  "read_open_file op p =
     andthen (metadata op p) (\<lambda>n. case n of
       Some (NFile c) \<Rightarrow> ret c
     | _ \<Rightarrow> throw (FileIdentityChanged p))"

subsection \<open>Resolving artifact paths\<close>

definition path_segments :: "artifact_path \<Rightarrow> path" where
  "path_segments a = split_at_char (CHR ''/'') (as_path a)"

definition resolve_segment :: "path \<Rightarrow> bool \<Rightarrow> bool \<Rightarrow> unit st" where
  "resolve_segment current is_leaf create_parents =
     andthen (metadata ''inspect artifact path'' current) (\<lambda>n. case n of
       Some _ \<Rightarrow>
         andthen (metadata ''inspect path'' current) (\<lambda>n. case n of
           None \<Rightarrow> throw (Io ''inspect path'' current True)
         | Some NLink \<Rightarrow> throw (LinkNotAllowed current)
         | Some _ \<Rightarrow> when_se (\<not> is_leaf) (ensure_plain_directory current))
     | None \<Rightarrow>
         when_se (\<not> is_leaf \<and> create_parents)
           (followed (sys ''create artifact directory'' current)
           (followed (put current (Some NDir)) (ensure_plain_directory current))))"

fun resolve_from :: "path \<Rightarrow> path \<Rightarrow> bool \<Rightarrow> path st" where
  "resolve_from current [] create_parents = ret current"
| "resolve_from current (seg # segs) create_parents =
     followed (resolve_segment (current @ [seg]) (segs = []) create_parents)
       (resolve_from (current @ [seg]) segs create_parents)"

definition resolve_artifact :: "artifact_path \<Rightarrow> bool \<Rightarrow> path st" where
  "resolve_artifact a create_parents = resolve_from [] (path_segments a) create_parents"

subsection \<open>Listing and measuring\<close>

definition children :: "path \<Rightarrow> (path, node) btree \<Rightarrow> string list" where
  "children dir m =
     map (last \<circ> fst) (filter (\<lambda>(p, _). below dir p \<and> length p = length dir + 1) m)"

definition read_directory :: "string \<Rightarrow> path \<Rightarrow> string list st" where
  "read_directory op dir =
     andthen (metadata op dir) (\<lambda>n. case n of
       Some NDir \<Rightarrow> query (\<lambda>s. children dir (st_files s))
     | _ \<Rightarrow> throw (Io op dir True))"

definition read_directory_entries_bounded :: "path \<Rightarrow> nat \<Rightarrow> string list st" where
  "read_directory_entries_bounded dir limit =
     andthen (read_directory ''list bounded directory'' dir) (\<lambda>names.
       if limit < length names then throw (ArtifactCountExceeded limit (limit + 1)) else ret names)"

record measure =
  me_total :: u64
  me_count :: nat
  me_pending :: "(path \<times> nat) list"

definition measure_entry :: "host \<Rightarrow> nat \<Rightarrow> path \<Rightarrow> nat \<Rightarrow> string \<Rightarrow> measure \<Rightarrow> measure st" where
  "measure_entry h entry_limit dir depth name me =
     (let p = dir @ [name]; n' = me_count me + 1 in
      if entry_limit < n' then throw (DirectoryEntryLimitExceeded entry_limit n')
      else andthen (metadata ''inspect session entry'' p) (\<lambda>n. case n of
        None \<Rightarrow> throw (Io ''inspect session entry'' p True)
      | Some NLink \<Rightarrow> throw (LinkNotAllowed p)
      | Some NDir \<Rightarrow> ret (me\<lparr>me_count := n', me_pending := (p, depth + 1) # me_pending me\<rparr>)
      | Some (NFile c) \<Rightarrow>
          andthen (lift (ok_or (checked_add (me_total me) (content_len h c)) (SessionLimitExceeded (- 1) (- 1))))
            (\<lambda>total. ret (me\<lparr>me_count := n', me_total := total\<rparr>))
      | Some NOther \<Rightarrow> throw (NotRegularFile p)))"

fun measure_entries :: "host \<Rightarrow> nat \<Rightarrow> path \<Rightarrow> nat \<Rightarrow> string list \<Rightarrow> measure \<Rightarrow> measure st" where
  "measure_entries h entry_limit dir depth [] me = ret me"
| "measure_entries h entry_limit dir depth (name # names) me =
     andthen (measure_entry h entry_limit dir depth name me) (measure_entries h entry_limit dir depth names)"

text \<open>
  The loop over the pending directories. Every directory but the first was counted as an entry
  before it became pending, so one unit of fuel per permitted entry and two more are enough.
\<close>

fun measure_directories :: "nat \<Rightarrow> host \<Rightarrow> nat \<Rightarrow> nat \<Rightarrow> measure \<Rightarrow> u64 st" where
  "measure_directories 0 h entry_limit depth_limit me = panic"
| "measure_directories (Suc fuel) h entry_limit depth_limit me =
     (case me_pending me of
        [] \<Rightarrow> ret (me_total me)
      | (dir, depth) # rest \<Rightarrow>
          if depth_limit < depth then throw (DirectoryDepthLimitExceeded depth_limit dir)
          else followed (ensure_plain_directory dir)
            (andthen (read_directory ''read session directory'' dir) (\<lambda>names.
             andthen (measure_entries h entry_limit dir depth names (me\<lparr>me_pending := rest\<rparr>))
               (measure_directories fuel h entry_limit depth_limit))))"

definition directory_size_with_limits :: "host \<Rightarrow> nat \<Rightarrow> nat \<Rightarrow> u64 st" where
  "directory_size_with_limits h entry_limit depth_limit =
     measure_directories (entry_limit + 2) h entry_limit depth_limit
       \<lparr>me_total = 0, me_count = 0, me_pending = [([], 0)]\<rparr>"

definition directory_size :: "host \<Rightarrow> u64 st" where
  "directory_size h = directory_size_with_limits h 65536 512"

definition ensure_peak_capacity :: "u64 \<Rightarrow> u64 \<Rightarrow> u64 \<Rightarrow> (store_error, unit) res" where
  "ensure_peak_capacity limit baseline additional =
     rbind (ok_or (checked_add baseline additional) (SessionLimitExceeded limit (- 1))) (\<lambda>actual.
       ensure (\<not> limit < actual) (SessionLimitExceeded limit actual))"

definition ensure_additional_capacity :: "host \<Rightarrow> u64 \<Rightarrow> unit st" where
  "ensure_additional_capacity h additional =
     andthen (directory_size h) (\<lambda>baseline.
       with_state (\<lambda>s. lift (ensure_peak_capacity (max_session_bytes (st_limits s)) baseline additional)))"

subsection \<open>JSON documents\<close>

definition ensure_metadata_size :: "string \<Rightarrow> u64 \<Rightarrow> u64 \<Rightarrow> (store_error, unit) res" where
  "ensure_metadata_size doc actual limit =
     ensure (\<not> limit < actual) (MetadataLimitExceeded doc limit actual)"

definition read_bounded_json :: "host \<Rightarrow> (document \<Rightarrow> 'a option) \<Rightarrow> path \<Rightarrow> string \<Rightarrow> u64 \<Rightarrow> 'a st" where
  "read_bounded_json h pick p doc limit =
     andthen (open_existing_plain_file p) (\<lambda>c.
     followed (lift (ensure_metadata_size doc (content_len h c) limit))
     (andthen (read_open_file ''read bounded JSON document'' p) (\<lambda>c.
     followed (lift (ensure_metadata_size doc (content_len h c) limit))
     (followed (ensure_plain_file p)
       (lift (ok_or (Option.bind (content_document h c) pick) (Json p)))))))"

text \<open>Serializing fails only at the size limit; the size reported here is that of the whole document.\<close>

definition serialize_json_document :: "host \<Rightarrow> string \<Rightarrow> document \<Rightarrow> (store_error, u8 list) res" where
  "serialize_json_document h doc d =
     (let bytes = h_render h d; limit = 16777216 in
      rthen (ensure (length bytes \<le> 16777216) (MetadataLimitExceeded doc limit (word_of_nat (length bytes))))
        (Inr bytes))"

definition write_serialized_json_atomic :: "path \<Rightarrow> document \<Rightarrow> bool \<Rightarrow> unit st" where
  "write_serialized_json_atomic p d must_not_exist =
     followed
       (andthen (path_entry_exists p) (\<lambda>there.
          if must_not_exist then (if there then throw (ArtifactExists p) else ret ())
          else when_se there (followed (ensure_plain_file p) (ret ()))))
     (followed (sys ''open atomic JSON document'' p)
     (followed (sys ''write atomic JSON document'' p)
     (followed
       (when_se must_not_exist
         (andthen (path_entry_exists p) (\<lambda>there.
            when_se there (followed (sys ''discard atomic JSON document'' p) (throw (ArtifactExists p))))))
     (followed (sys ''commit atomic JSON document'' p) (put p (Some (NFile (Doc d))))))))"

definition sync_directory :: "path \<Rightarrow> unit st" where
  "sync_directory p = sys ''sync directory'' p"

subsection \<open>Hashing\<close>

definition encode_hex :: "u8 list \<Rightarrow> string" where
  "encode_hex bytes = concat (map (\<lambda>b. [hex_digit (uint b div 16), hex_digit (uint b mod 16)]) bytes)"

definition digest_of :: "host \<Rightarrow> u8 list \<Rightarrow> (store_error, sha256_digest) res" where
  "digest_of h bytes =
     map_err (\<lambda>_. InvalidDocument ''artifact digest''
         ''SHA-256 digest must contain exactly 64 lowercase hexadecimal characters'')
       (digest_new (encode_hex (h_sha256 h bytes)))"

definition hash_content :: "host \<Rightarrow> content \<Rightarrow> (store_error, u64 \<times> sha256_digest) res" where
  "hash_content h c = rbind (digest_of h (content_bytes h c)) (\<lambda>d. Inr (content_len h c, d))"

definition hash_file :: "host \<Rightarrow> path \<Rightarrow> (u64 \<times> sha256_digest) st" where
  "hash_file h p =
     followed (open_existing_plain_file p)
     (andthen (read_open_file ''read artifact'' p) (\<lambda>c.
      andthen (lift (hash_content h c)) (\<lambda>r.
        followed (ensure_plain_file p) (ret r))))"

text \<open>
  A bounded read stops with an error at the first chunk that takes the size over the limit;
  chunks end one byte after it at the latest.
\<close>

definition bounded_content :: "host \<Rightarrow> u64 \<Rightarrow> content \<Rightarrow> (store_error, u64 \<times> sha256_digest) res" where
  "bounded_content h limit c =
     rthen (ensure (length (content_bytes h c) \<le> unat limit) (FileLimitExceeded limit (limit + 1)))
       (hash_content h c)"

definition hash_staged_bounded :: "host \<Rightarrow> path \<Rightarrow> u64 \<Rightarrow> (u64 \<times> sha256_digest) st" where
  "hash_staged_bounded h p limit =
     andthen (open_existing_plain_file p) (\<lambda>c0.
     followed (lift (ensure (\<not> limit < content_len h c0) (FileLimitExceeded limit (content_len h c0))))
     (andthen (read_open_file ''read artifact'' p) (\<lambda>c.
      andthen (lift (bounded_content h limit c)) (\<lambda>r.
      andthen (ensure_plain_file p) (\<lambda>c1.
      followed (lift (ensure (content_len h c1 = content_len h c0) (FileIdentityChanged p)))
        (ret r))))))"

end
