(* ===== verification/Session_Catalog.thy ===== *)
theory Session_Catalog
  imports Session_Files
begin

text \<open>
  The artifact catalog, the lifecycle transitions and the finalization of a session
  (\<open>crates/t32perf-session/src/session.rs\<close>), with the verification of artifact files
  (\<open>artifact.rs\<close>). The lock argument is the session the lock was taken for.
\<close>

subsection \<open>Control files\<close>

definition state_path :: path where "state_path = [''state.json'']"

definition manifest_path :: path where "manifest_path = [''manifest.json'']"

definition catalog_dir :: path where "catalog_dir = [''artifact-index'']"

definition intent_dir :: path where "intent_dir = [''ingest-intents'']"

definition source_dir :: path where "source_dir = [''committed-staging-sources'']"

definition record_path :: "path \<Rightarrow> string \<Rightarrow> path" where
  "record_path dir artifact_id = dir @ [artifact_id @ ''.json'']"

definition max_json_document_bytes :: u64 where
  "max_json_document_bytes = 16777216"

fun pick_state :: "document \<Rightarrow> session_state option" where
  "pick_state (DState s) = Some s"
| "pick_state _ = None"

fun pick_artifact :: "document \<Rightarrow> artifact option" where
  "pick_artifact (DArtifact a) = Some a"
| "pick_artifact _ = None"

fun pick_manifest :: "document \<Rightarrow> manifest option" where
  "pick_manifest (DManifest m) = Some m"
| "pick_manifest _ = None"

definition ensure_lock :: "string \<Rightarrow> unit st" where
  "ensure_lock lock = with_state (\<lambda>s. lift (ensure (lock = st_id s) (LockMismatch (st_id s))))"

definition ensure_no_active_writer :: "unit st" where
  "ensure_no_active_writer = with_state (\<lambda>s. lift (ensure (\<not> st_writer s) (ArtifactWriterActive (st_id s))))"

definition read_state :: "host \<Rightarrow> session_state st" where
  "read_state h =
     andthen (read_bounded_json h pick_state state_path ''session state'' max_json_document_bytes) (\<lambda>s.
       followed (lift (map_err InvalidStateDocument (validate_state s))) (ret s))"

definition ensure_lifecycle_mutation_allowed :: "host \<Rightarrow> session_state st" where
  "ensure_lifecycle_mutation_allowed h =
     andthen (read_state h) (\<lambda>s.
       if terminal (ss_status s) then throw (TerminalSessionMutation (ss_status s)) else ret s)"

subsection \<open>Artifact files\<close>

definition open_artifact :: "host \<Rightarrow> artifact \<Rightarrow> unit st" where
  "open_artifact h a =
     andthen (resolve_artifact (art_relative_path a) False) (\<lambda>p.
     andthen (path_entry_exists p) (\<lambda>there.
     followed (lift (ensure there (ArtifactNotFound p)))
     (andthen (open_existing_plain_file p) (\<lambda>c.
     followed
       (lift (ensure (content_len h c = art_size_bytes a)
         (ArtifactSizeMismatch (art_id a) (art_size_bytes a) (content_len h c))))
     (andthen (read_open_file ''read artifact'' p) (\<lambda>c.
     andthen (lift (hash_content h c)) (\<lambda>(size', digest).
     followed (lift (ensure (size' = art_size_bytes a) (ArtifactSizeMismatch (art_id a) (art_size_bytes a) size')))
     (followed (lift (ensure (digest = art_sha256 a) (ArtifactDigestMismatch (art_id a))))
     (followed (ensure_plain_file p)
     (followed (sys ''canonicalize opened artifact'' p)
       (sys ''rewind verified artifact'' p)))))))))))"

definition verify_artifact :: "host \<Rightarrow> artifact \<Rightarrow> bool \<Rightarrow> unit st" where
  "verify_artifact h a deep =
     (if deep then open_artifact h a
      else
        andthen (resolve_artifact (art_relative_path a) False) (\<lambda>p.
        andthen (path_entry_exists p) (\<lambda>there.
        followed (lift (ensure there (ArtifactNotFound p)))
        (andthen (ensure_plain_file p) (\<lambda>c.
          lift (ensure (content_len h c = art_size_bytes a)
            (ArtifactSizeMismatch (art_id a) (art_size_bytes a) (content_len h c))))))))"

subsection \<open>The catalog\<close>

text \<open>\<open>file_stem\<close> and \<open>extension\<close>: the name up to its last dot, and what follows that dot.\<close>

definition split_extension :: "string \<Rightarrow> string \<times> string option" where
  "split_extension name =
     (let suffix = rev (takeWhile (\<lambda>c. c \<noteq> CHR ''.'') (rev name));
          stem = take (length name - length suffix - 1) name in
      if CHR ''.'' \<notin> set name \<or> stem = [] then (name, None) else (stem, Some suffix))"

definition read_catalog_record :: "host \<Rightarrow> string \<Rightarrow> artifact st" where
  "read_catalog_record h name =
     (let p = catalog_dir @ [name] in
      followed (ensure_plain_file p)
      (followed
        (lift (ensure (snd (split_extension name) = Some ''json'')
          (InvalidDocument ''artifact catalog'' ''unexpected catalog entry'')))
      (andthen (read_bounded_json h pick_artifact p ''artifact catalog record'' max_json_document_bytes) (\<lambda>a.
       followed (lift (map_err (\<lambda>_. InvalidDocument ''artifact catalog'' ''invalid artifact'') (validate_artifact a)))
       (followed
         (lift (ensure (fst (split_extension name) = art_id a)
           (InvalidDocument ''artifact catalog'' ''catalog filename does not match artifact'')))
         (ret a))))))"

fun read_records :: "host \<Rightarrow> artifact list \<Rightarrow> string list \<Rightarrow> artifact list st" where
  "read_records h seen [] = ret seen"
| "read_records h seen (name # names) =
     andthen (read_catalog_record h name) (\<lambda>a.
     followed
       (lift (ensure (portable_name_key (art_id a) \<notin> set (map (portable_name_key \<circ> art_id) seen))
         (InvalidDocument ''artifact catalog'' ''artifact id has a portable-name collision'')))
     (followed
       (lift (ensure (portable_key (art_relative_path a) \<notin> set (map (portable_key \<circ> art_relative_path) seen))
         (InvalidDocument ''artifact catalog'' ''multiple artifacts use the portable path'')))
       (read_records h (seen @ [a]) names)))"

definition catalog_records_unverified :: "host \<Rightarrow> artifact list st" where
  "catalog_records_unverified h =
     followed (ensure_plain_directory catalog_dir)
     (andthen (read_directory_entries_bounded catalog_dir 16384) (\<lambda>names.
      andthen (read_records h [] (sort names)) (\<lambda>as. ret (sort_key art_id as))))"

definition registered_artifacts :: "host \<Rightarrow> bool \<Rightarrow> artifact list st" where
  "registered_artifacts h deep =
     andthen (catalog_records_unverified h) (\<lambda>as.
       followed (for_each (\<lambda>a. verify_artifact h a deep) as) (ret as))"

definition ensure_artifact_catalog_slot :: "artifact list \<Rightarrow> string \<Rightarrow> artifact_path \<Rightarrow> (store_error, unit) res" where
  "ensure_artifact_catalog_slot as artifact_id p =
     rthen (ensure (length as + 1 \<le> 16384) (ArtifactCountExceeded 16384 (length as + 1)))
     (rthen
       (ensure (\<not> list_ex (\<lambda>a. portable_name_key (art_id a) = portable_name_key artifact_id) as)
         (ArtifactRecordConflict artifact_id))
       (ensure (\<not> list_ex (\<lambda>a. portable_key (art_relative_path a) = portable_key p) as)
         (InvalidArtifactSpec ''artifact path is already registered'')))"

definition register_artifact :: "host \<Rightarrow> string \<Rightarrow> artifact \<Rightarrow> unit st" where
  "register_artifact h lock a =
     followed (ensure_lock lock)
     (followed ensure_no_active_writer
     (followed (lift (map_err (\<lambda>_. InvalidArtifactSpec ''invalid artifact'') (validate_artifact a)))
     (andthen (registered_artifacts h False) (\<lambda>as.
      case find (\<lambda>e. portable_name_key (art_id e) = portable_name_key (art_id a)) as of
        Some e \<Rightarrow>
          if e = a then verify_artifact h a True else throw (ArtifactRecordConflict (art_id a))
      | None \<Rightarrow>
          followed (ensure_lifecycle_mutation_allowed h)
          (followed (lift (ensure_artifact_catalog_slot as (art_id a) (art_relative_path a)))
          (andthen (lift (serialize_json_document h ''artifact catalog record'' (DArtifact a))) (\<lambda>bytes.
           followed (ensure_additional_capacity h (word_of_nat (length bytes)))
           (followed (verify_artifact h a True)
             (write_serialized_json_atomic (record_path catalog_dir (art_id a)) (DArtifact a) True)))))))))"

end
