(* ===== verification/Session_Intents.thy ===== *)
theory Session_Intents
  imports Session_Catalog
begin

text \<open>
  Durable ingest intents and the records of committed staging sources
  (\<open>crates/t32perf-session/src/artifact.rs\<close>): how an intent found after an interruption is
  validated, classified from the files it mentions, and inspected.
\<close>

definition ingest_intent_schema :: string where
  "ingest_intent_schema = ''t32perf.ingest-intent/v2''"

definition legacy_ingest_intent_schema :: string where
  "legacy_ingest_intent_schema = ''t32perf.ingest-intent/v1''"

definition committed_source_schema :: string where
  "committed_source_schema = ''t32perf.committed-staging-source/v1''"

definition max_ingest_intent_bytes :: u64 where
  "max_ingest_intent_bytes = 65536"

fun intent_of_document :: "intent_document \<Rightarrow> ingest_intent" where
  "intent_of_document (IntentV1 sid op staged a) =
     \<lparr>ii_schema = legacy_ingest_intent_schema, ii_session_id = sid, ii_operation_id = op,
      ii_staged_relative_path = staged, ii_private_relative_path = None, ii_phase = Ready,
      ii_artifact = a\<rparr>"
| "intent_of_document (IntentV2 sid op staged private phase a) =
     \<lparr>ii_schema = ingest_intent_schema, ii_session_id = sid, ii_operation_id = op,
      ii_staged_relative_path = staged, ii_private_relative_path = private, ii_phase = phase,
      ii_artifact = a\<rparr>"

text \<open>What serializing an intent writes; only intents of the current schema are ever written.\<close>

definition document_of_intent :: "ingest_intent \<Rightarrow> document" where
  "document_of_intent i =
     DIntent (IntentV2 (ii_session_id i) (ii_operation_id i) (ii_staged_relative_path i)
       (ii_private_relative_path i) (ii_phase i) (ii_artifact i))"

fun pick_intent :: "document \<Rightarrow> ingest_intent option" where
  "pick_intent (DIntent d) = Some (intent_of_document d)"
| "pick_intent _ = None"

fun pick_source :: "document \<Rightarrow> source_record option" where
  "pick_source (DSource r) = Some r"
| "pick_source _ = None"

definition ingest_conflict :: "string \<Rightarrow> string \<Rightarrow> store_error" where
  "ingest_conflict artifact_id message = IngestIntentConflict artifact_id message"

definition read_ingest_intent :: "host \<Rightarrow> path \<Rightarrow> ingest_intent st" where
  "read_ingest_intent h p = read_bounded_json h pick_intent p ''ingest intent'' max_ingest_intent_bytes"

definition serialize_ingest_intent :: "host \<Rightarrow> ingest_intent \<Rightarrow> (store_error, u8 list) res" where
  "serialize_ingest_intent h i =
     rbind (serialize_json_document h ''ingest intent'' (document_of_intent i)) (\<lambda>bytes.
       rthen
         (ensure (length bytes \<le> 65536)
           (MetadataLimitExceeded ''ingest intent'' max_ingest_intent_bytes (word_of_nat (length bytes))))
         (Inr bytes))"

subsection \<open>Paths\<close>

definition staging_path :: "artifact_path \<Rightarrow> path st" where
  "staging_path relative =
     andthen
       (lift (map_err (\<lambda>_. InvalidStagingPath (as_path relative))
         (artifact_path_new (''capture/staging/'' @ as_path relative))))
       (\<lambda>combined. resolve_artifact combined False)"

definition private_copy_relative_path :: "string \<Rightarrow> (store_error, artifact_path) res" where
  "private_copy_relative_path artifact_id =
     map_err (\<lambda>_. InvalidDocument ''ingest private copy path'' ''invalid artifact path'')
       (artifact_path_new (''capture/.ingest-private/'' @ artifact_id @ ''.payload''))"

definition private_copy_path :: "string \<Rightarrow> bool \<Rightarrow> path st" where
  "private_copy_path artifact_id create_parents =
     andthen (lift (private_copy_relative_path artifact_id)) (\<lambda>relative.
       resolve_artifact relative create_parents)"

definition intent_private_copy_path :: "ingest_intent \<Rightarrow> bool \<Rightarrow> path st" where
  "intent_private_copy_path i create_parents =
     (case ii_private_relative_path i of
        Some relative \<Rightarrow> resolve_artifact relative create_parents
      | None \<Rightarrow> private_copy_path (art_id (ii_artifact i)) create_parents)"

subsection \<open>Validation\<close>

definition validate_intent :: "string \<Rightarrow> path \<Rightarrow> ingest_intent \<Rightarrow> unit st" where
  "validate_intent operation_id p i =
     (let a = ii_artifact i; conflict = ingest_conflict (art_id a) in
      with_state (\<lambda>s.
      followed
        (lift (ensure (ii_schema i = ingest_intent_schema \<or> ii_schema i = legacy_ingest_intent_schema)
          (conflict ''unsupported intent schema'')))
      (followed (lift (ensure (ii_session_id i = st_id s) (conflict ''intent Session does not match'')))
      (followed
        (lift (ensure (ii_operation_id i = operation_id)
          (conflict ''intent operation id does not match the current Session operation'')))
      (followed (lift (map_err (\<lambda>_. conflict ''invalid artifact'') (validate_artifact a)))
      (followed
        (lift (ensure (\<not> max_file_bytes (st_limits s) < art_size_bytes a)
          (FileLimitExceeded (max_file_bytes (st_limits s)) (art_size_bytes a))))
      (followed
        (lift (ensure (\<not> starts_with (as_path (art_relative_path a)) ''capture/staging/'')
          (conflict ''intent destination is inside capture/staging'')))
      (followed
        (lift (ensure (last p = art_id a @ ''.json'')
          (conflict ''intent filename does not match its artifact id'')))
      (followed (staging_path (ii_staged_relative_path i))
      (followed
        (case ii_private_relative_path i of
           None \<Rightarrow> ret []
         | Some relative \<Rightarrow>
             andthen (lift (private_copy_relative_path (art_id a))) (\<lambda>expected.
             followed
               (lift (ensure (relative = expected)
                 (conflict ''intent private copy path does not match its artifact id'')))
               (resolve_artifact relative False)))
      (followed (resolve_artifact (art_relative_path a) False)
        (ret ()))))))))))))"

definition validate_committed_source :: "path \<Rightarrow> source_record \<Rightarrow> unit st" where
  "validate_committed_source p r =
     (let c = sr_source r; conflict = ingest_conflict (cs_artifact_id c) in
      with_state (\<lambda>s.
      followed
        (lift (ensure (sr_schema r = committed_source_schema) (conflict ''unsupported committed source schema'')))
      (followed
        (lift (ensure (sr_session_id r = st_id s)
          (conflict ''committed source record belongs to another Session'')))
      (followed
        (lift (ensure (is_portable_artifact_id (cs_artifact_id c))
          (InvalidArtifactSpec ''committed source artifact id is invalid'')))
      (followed
        (lift (ensure (last p = cs_artifact_id c @ ''.json'')
          (conflict ''committed source record filename does not match its artifact id'')))
      (followed (staging_path (cs_staged_relative_path c))
      (followed (resolve_artifact (cs_artifact_relative_path c) False)
        (ret ()))))))))"

subsection \<open>Classification\<close>

datatype file_evidence = EvMissing | EvMatching | EvConflict string

text \<open>The error of a step as a value: inspection reports it instead of failing.\<close>

definition attempt :: "'a st \<Rightarrow> (store_error + 'a) st" where
  "attempt m s =
     (case m s of
        (Inr a, s') \<Rightarrow> (Inr (Inr a), s')
      | (Inl (Err e), s') \<Rightarrow> (Inr (Inl e), s')
      | (Inl Panic, s') \<Rightarrow> (Inl Panic, s'))"

definition artifact_file_evidence :: "host \<Rightarrow> path \<Rightarrow> artifact \<Rightarrow> file_evidence st" where
  "artifact_file_evidence h p expected =
     andthen (attempt (plain_file_metadata p)) (\<lambda>r. case r of
       Inl _ \<Rightarrow> ret (EvConflict ''cannot inspect file'')
     | Inr None \<Rightarrow> ret EvMissing
     | Inr (Some c) \<Rightarrow>
         if content_len h c \<noteq> art_size_bytes expected then ret (EvConflict ''file does not match intent'')
         else andthen (attempt (hash_file h p)) (\<lambda>r. case r of
           Inl _ \<Rightarrow> ret (EvConflict ''cannot verify file'')
         | Inr (size', digest) \<Rightarrow>
             ret (if size' = art_size_bytes expected \<and> digest = art_sha256 expected then EvMatching
                  else EvConflict ''file does not match intent'')))"

definition ensure_matching_artifact_file :: "host \<Rightarrow> path \<Rightarrow> artifact \<Rightarrow> string \<Rightarrow> unit st" where
  "ensure_matching_artifact_file h p expected label =
     andthen (artifact_file_evidence h p expected) (\<lambda>e. case e of
       EvMatching \<Rightarrow> ret ()
     | EvMissing \<Rightarrow> throw (ingest_conflict (art_id expected) (label @ '' is absent''))
     | EvConflict detail \<Rightarrow> throw (ingest_conflict (art_id expected) detail))"

definition exact_catalog_state :: "artifact list \<Rightarrow> artifact \<Rightarrow> string + bool" where
  "exact_catalog_state catalogs expected =
     (case find (\<lambda>a. portable_name_key (art_id a) = portable_name_key (art_id expected)) catalogs of
        Some existing \<Rightarrow>
          if existing \<noteq> expected then Inl ''artifact id has a different catalog record'' else Inr True
      | None \<Rightarrow>
          (case find (\<lambda>a. portable_key (art_relative_path a) = portable_key (art_relative_path expected)) catalogs of
             Some _ \<Rightarrow> Inl ''destination is cataloged by another artifact''
           | None \<Rightarrow> Inr False))"

datatype classification = Pending | Resumable | CommittedStale | Conflict

type_synonym assessment = "classification \<times> string"

fun classify_files :: "file_evidence \<Rightarrow> file_evidence \<Rightarrow> file_evidence \<Rightarrow> bool \<Rightarrow> assessment" where
  "classify_files staged private EvMatching cataloged =
     (if cataloged then (CommittedStale, ''destination and catalog match; the exact intent is stale'')
      else (Resumable, ''destination bytes match the intent; catalog is absent''))"
| "classify_files (EvConflict detail) private destination cataloged = (Conflict, detail)"
| "classify_files staged private (EvConflict detail) cataloged = (Conflict, detail)"
| "classify_files staged (EvConflict detail) EvMissing cataloged = (Conflict, detail)"
| "classify_files staged private EvMissing True =
     (Conflict, ''catalog exists while staged and destination files are absent'')"
| "classify_files EvMissing EvMissing EvMissing False =
     (Conflict, ''staged and private copy files are both absent'')"
| "classify_files staged private EvMissing False =
     (Pending, ''host-owned private copy can be published; destination and catalog are absent'')"

text \<open>The three paths are resolved first; a path that does not resolve is a conflict.\<close>

definition resolved :: "path st \<Rightarrow> (path \<Rightarrow> assessment st) \<Rightarrow> assessment st" where
  "resolved m f = andthen (attempt m) (\<lambda>r. case r of Inl _ \<Rightarrow> ret (Conflict, ''unresolved path'') | Inr p \<Rightarrow> f p)"

definition assess_intent :: "host \<Rightarrow> ingest_intent \<Rightarrow> artifact list \<Rightarrow> assessment st" where
  "assess_intent h i catalogs =
     (let a = ii_artifact i in
      case exact_catalog_state catalogs a of
        Inl detail \<Rightarrow> ret (Conflict, detail)
      | Inr cataloged \<Rightarrow>
          resolved (staging_path (ii_staged_relative_path i)) (\<lambda>staged_path.
          resolved (resolve_artifact (art_relative_path a) False) (\<lambda>destination_path.
          resolved (intent_private_copy_path i False) (\<lambda>private_path.
          andthen (artifact_file_evidence h staged_path a) (\<lambda>staged.
          andthen (artifact_file_evidence h private_path a) (\<lambda>private.
          andthen (artifact_file_evidence h destination_path a) (\<lambda>destination.
            ret (classify_files staged private destination cataloged))))))))"

subsection \<open>Inspection\<close>

record inspection =
  in_relative_path :: string
  in_artifact_id :: "string option"
  in_staged_relative_path :: "artifact_path option"
  in_destination_relative_path :: "artifact_path option"
  in_classification :: classification
  in_detail :: string

definition inspect_intent :: "host \<Rightarrow> string \<Rightarrow> (store_error + artifact list) \<Rightarrow> string \<Rightarrow> inspection st" where
  "inspect_intent h operation_id catalogs name =
     (let p = intent_dir @ [name]; relative = ''ingest-intents/'' @ name in
      andthen
        (attempt (andthen (read_ingest_intent h p) (\<lambda>i. followed (validate_intent operation_id p i) (ret i))))
        (\<lambda>r. case r of
          Inr i \<Rightarrow>
            andthen
              (case catalogs of
                 Inr as \<Rightarrow> assess_intent h i as
               | Inl _ \<Rightarrow> ret (Conflict, ''artifact catalog cannot be validated''))
              (\<lambda>(c, detail).
                ret \<lparr>in_relative_path = relative, in_artifact_id = Some (art_id (ii_artifact i)),
                     in_staged_relative_path = Some (ii_staged_relative_path i),
                     in_destination_relative_path = Some (art_relative_path (ii_artifact i)),
                     in_classification = c, in_detail = detail\<rparr>)
        | Inl _ \<Rightarrow>
            ret \<lparr>in_relative_path = relative, in_artifact_id = None, in_staged_relative_path = None,
                 in_destination_relative_path = None, in_classification = Conflict,
                 in_detail = ''unreadable or invalid intent''\<rparr>))"

fun inspect_each :: "('a \<Rightarrow> 'b st) \<Rightarrow> 'a list \<Rightarrow> 'b list st" where
  "inspect_each f [] = ret []"
| "inspect_each f (x # xs) = andthen (f x) (\<lambda>y. andthen (inspect_each f xs) (\<lambda>ys. ret (y # ys)))"

definition inspect_ingest_intents :: "host \<Rightarrow> inspection list st" where
  "inspect_ingest_intents h =
     andthen (read_state h) (\<lambda>state.
     andthen (attempt (catalog_records_unverified h)) (\<lambda>catalogs.
     followed (ensure_plain_directory intent_dir)
     (andthen (read_directory_entries_bounded intent_dir 16384) (\<lambda>names.
       inspect_each (inspect_intent h (ss_operation_id state) catalogs) (sort names)))))"

definition ensure_no_ingest_intents :: "host \<Rightarrow> unit st" where
  "ensure_no_ingest_intents h =
     andthen (inspect_ingest_intents h) (\<lambda>is. case is of
       [] \<Rightarrow> ret ()
     | i # _ \<Rightarrow>
         throw (ingest_conflict (case in_artifact_id i of Some a \<Rightarrow> a | None \<Rightarrow> ''<unknown>'')
           ''Session lifecycle cannot advance''))"

end
