(* ===== verification/Session_Lifecycle.thy ===== *)
theory Session_Lifecycle
  imports Session_Intents
begin

text \<open>
  Ordinary transitions and the finalization of a session
  (\<open>crates/t32perf-session/src/session.rs\<close>).
\<close>

definition bytes_len :: "u8 list \<Rightarrow> u64" where
  "bytes_len bytes = word_of_nat (length bytes)"

definition transition :: "host \<Rightarrow> string \<Rightarrow> session_status \<Rightarrow> session_failure option \<Rightarrow> session_state st" where
  "transition h lock status err =
     followed (ensure_lock lock)
     (andthen (read_state h) (\<lambda>current.
      if status = Complete then throw (InvalidTransition (ss_status current) status)
      else if terminal (ss_status current) then
        (if ss_status current = Failed \<and> status = Failed \<and> ss_error current = err then ret current
         else throw (InvalidTransition (ss_status current) status))
      else
        followed ensure_no_active_writer
        (followed (if status \<noteq> Failed then ensure_no_ingest_intents h else ret ())
        (andthen (lift (next_state (h_now h) current status err)) (\<lambda>nxt.
         andthen (lift (serialize_json_document h ''session state'' (DState nxt))) (\<lambda>bytes.
         followed (ensure_additional_capacity h (bytes_len bytes))
         (followed (write_serialized_json_atomic state_path (DState nxt) False)
           (ret nxt))))))))"

definition check_manifest :: "host \<Rightarrow> manifest \<Rightarrow> bool \<Rightarrow> unit st" where
  "check_manifest h m deep =
     with_state (\<lambda>s.
     followed (lift (ensure (mf_session_id m = st_id s) (ManifestSessionMismatch (st_id s) (mf_session_id m))))
     (followed (lift (map_err InvalidManifestDocument (validate_manifest m)))
     (andthen (registered_artifacts h deep) (\<lambda>registered.
      followed
        (lift (ensure (sort_key art_id registered = sort_key art_id (mf_artifacts m)) ArtifactCatalogMismatch))
      (followed (for_each (\<lambda>a. verify_artifact h a deep) (mf_artifacts m))
      (andthen (directory_size h) (\<lambda>total.
        lift (ensure (\<not> max_session_bytes (st_limits s) < total)
          (SessionLimitExceeded (max_session_bytes (st_limits s)) total)))))))))"

definition read_manifest :: "host \<Rightarrow> manifest option st" where
  "read_manifest h =
     andthen (path_entry_exists manifest_path) (\<lambda>there.
       if \<not> there then ret None
       else
         andthen (read_bounded_json h pick_manifest manifest_path ''manifest'' max_json_document_bytes) (\<lambda>m.
           followed (check_manifest h m False) (ret (Some m))))"

definition finalize :: "host \<Rightarrow> string \<Rightarrow> manifest \<Rightarrow> session_state st" where
  "finalize h lock m =
     followed (ensure_lock lock)
     (followed ensure_no_active_writer
     (andthen (read_state h) (\<lambda>state.
      followed (lift (ensure (can_finalize (ss_status state)) (InvalidTransition (ss_status state) Complete)))
      (followed (ensure_no_ingest_intents h)
      (followed (check_manifest h m True)
      (andthen (path_entry_exists manifest_path) (\<lambda>manifest_exists.
       followed
         (when_se manifest_exists
           (andthen (read_bounded_json h pick_manifest manifest_path ''manifest'' max_json_document_bytes) (\<lambda>existing.
             lift (ensure (existing = m) ManifestConflict))))
       (if ss_status state = Complete then
          (if \<not> manifest_exists
           then throw (InvalidDocument ''manifest'' ''complete Session is missing its immutable manifest'')
           else ret state)
        else
          andthen (lift (next_completed_state (h_now h) state)) (\<lambda>nxt.
          andthen (lift (serialize_json_document h ''session state'' (DState nxt))) (\<lambda>state_bytes.
          andthen
            (if manifest_exists then ret [] else lift (serialize_json_document h ''manifest'' (DManifest m)))
            (\<lambda>manifest_bytes.
          with_state (\<lambda>s.
          andthen
            (lift (ok_or (checked_add (bytes_len state_bytes) (bytes_len manifest_bytes))
              (SessionLimitExceeded (max_session_bytes (st_limits s)) (- 1)))) (\<lambda>additional.
          followed (ensure_additional_capacity h additional)
          (followed
            (when_se (\<not> manifest_exists) (write_serialized_json_atomic manifest_path (DManifest m) True))
          (followed (write_serialized_json_atomic state_path (DState nxt) False)
            (ret nxt))))))))))))))))"

end
