(* ===== verification/Session_Ingest.thy ===== *)
theory Session_Ingest
  imports Session_Lifecycle
begin

text \<open>
  Staged ingest (\<open>crates/t32perf-session/src/artifact.rs\<close>): an intent is made durable, the staged
  bytes are copied to a private file, the copy is renamed to its destination, its record is added
  to the catalog and the intent is removed. A call that finds an intent continues from there.
\<close>

record artifact_spec =
  sp_id :: string
  sp_kind :: string
  sp_relative_path :: artifact_path
  sp_media_type :: string
  sp_producer :: string
  sp_input_artifact_ids :: "string list"

subsection \<open>Specifications\<close>

definition validate_spec_text :: "string \<Rightarrow> string \<Rightarrow> nat \<Rightarrow> (store_error, unit) res" where
  "validate_spec_text v field max_len =
     rthen (ensure (\<not> blank v) (InvalidArtifactSpec (field @ '' is empty or whitespace'')))
     (rthen (ensure (length v \<le> max_len) (InvalidArtifactSpec (field @ '' is too long'')))
       (ensure (\<not> has_control v) (InvalidArtifactSpec (field @ '' contains a control character''))))"

definition validate_spec_identifier :: "string \<Rightarrow> string \<Rightarrow> (store_error, unit) res" where
  "validate_spec_identifier v field =
     ensure (is_portable_artifact_id v) (InvalidArtifactSpec (field @ '' is invalid''))"

definition validate_spec :: "artifact_spec \<Rightarrow> (store_error, unit) res" where
  "validate_spec sp =
     rthen (validate_spec_identifier (sp_id sp) ''artifact id'')
     (rthen (validate_spec_text (sp_kind sp) ''artifact kind'' 256)
     (rthen (validate_spec_text (sp_media_type sp) ''artifact media type'' 256)
     (rthen (ensure (CHR ''/'' \<in> set (sp_media_type sp))
               (InvalidArtifactSpec ''media type must be a non-empty type/subtype''))
     (rthen (validate_spec_text (sp_producer sp) ''artifact producer'' 256)
     (rthen (ensure (length (sp_input_artifact_ids sp) \<le> 1024) (InvalidArtifactSpec ''too many input ids''))
       (each_new
         (\<lambda>input.
            rthen (validate_spec_identifier input ''input artifact id'')
              (ensure (portable_name_key input \<noteq> portable_name_key (sp_id sp))
                (InvalidArtifactSpec ''artifact directly references itself'')))
         portable_name_key (\<lambda>_. InvalidArtifactSpec ''input artifact id is duplicated'') (\<lambda>_. Inr ())
         [] (sp_input_artifact_ids sp)))))))"

definition into_artifact :: "artifact_spec \<Rightarrow> u64 \<Rightarrow> sha256_digest \<Rightarrow> artifact" where
  "into_artifact sp size_bytes digest =
     \<lparr>art_id = sp_id sp, art_kind = sp_kind sp, art_relative_path = sp_relative_path sp,
      art_media_type = sp_media_type sp, art_size_bytes = size_bytes, art_sha256 = digest,
      art_producer = sp_producer sp, art_input_artifact_ids = sp_input_artifact_ids sp\<rparr>"

definition spec_matches_artifact :: "artifact_spec \<Rightarrow> artifact \<Rightarrow> bool" where
  "spec_matches_artifact sp a \<longleftrightarrow>
     sp_id sp = art_id a \<and> sp_kind sp = art_kind a \<and> sp_relative_path sp = art_relative_path a \<and>
     sp_media_type sp = art_media_type a \<and> sp_producer sp = art_producer a \<and>
     sp_input_artifact_ids sp = art_input_artifact_ids a"

definition ensure_intent_matches_request :: "ingest_intent \<Rightarrow> artifact_path \<Rightarrow> artifact_spec \<Rightarrow> (store_error, unit) res" where
  "ensure_intent_matches_request i staged sp =
     rthen
       (ensure (ii_staged_relative_path i = staged)
         (ingest_conflict (sp_id sp) ''requested staging path does not match intent''))
       (ensure (spec_matches_artifact sp (ii_artifact i))
         (ingest_conflict (sp_id sp) ''requested artifact specification does not match the durable intent''))"

subsection \<open>Catalog and intents for a request\<close>

definition ensure_only_requested_intent :: "path \<Rightarrow> string \<Rightarrow> unit st" where
  "ensure_only_requested_intent requested artifact_id =
     andthen (read_directory ''list ingest intents'' intent_dir) (\<lambda>names.
       lift (ensure (list_all (\<lambda>name. intent_dir @ [name] = requested) names)
         (ingest_conflict artifact_id ''unresolved or unknown ingest control entry must be inspected first'')))"

definition find_catalog_for_request :: "artifact list \<Rightarrow> artifact_spec \<Rightarrow> (store_error, artifact option) res" where
  "find_catalog_for_request catalogs sp =
     (case find (\<lambda>a. portable_name_key (art_id a) = portable_name_key (sp_id sp)) catalogs of
        Some existing \<Rightarrow>
          rthen (ensure (spec_matches_artifact sp existing)
            (ingest_conflict (sp_id sp) ''artifact id is cataloged with a different specification''))
            (Inr (Some existing))
      | None \<Rightarrow>
          (case find (\<lambda>a. portable_key (art_relative_path a) = portable_key (sp_relative_path sp)) catalogs of
             Some _ \<Rightarrow> Inl (Err (ingest_conflict (sp_id sp) ''destination is cataloged by another artifact''))
           | None \<Rightarrow> Inr None))"

definition ensure_catalog_slot_for_request :: "artifact list \<Rightarrow> artifact_spec \<Rightarrow> (store_error, unit) res" where
  "ensure_catalog_slot_for_request catalogs sp =
     rbind (find_catalog_for_request catalogs sp) (\<lambda>found.
     rthen (ensure (found = None) (ingest_conflict (sp_id sp) ''artifact is already cataloged''))
       (ensure (length catalogs + 1 \<le> 16384) (ArtifactCountExceeded 16384 (length catalogs + 1))))"

subsection \<open>Records of committed staging sources\<close>

definition source_record_of :: "string \<Rightarrow> ingest_intent \<Rightarrow> source_record" where
  "source_record_of session_id i =
     \<lparr>sr_schema = committed_source_schema, sr_session_id = session_id,
      sr_source =
        \<lparr>cs_artifact_id = art_id (ii_artifact i), cs_staged_relative_path = ii_staged_relative_path i,
         cs_size_bytes = art_size_bytes (ii_artifact i), cs_sha256 = art_sha256 (ii_artifact i),
         cs_artifact_relative_path = art_relative_path (ii_artifact i)\<rparr>\<rparr>"

definition source_bytes :: "host \<Rightarrow> ingest_intent \<Rightarrow> u8 list st" where
  "source_bytes h i =
     with_state (\<lambda>s.
       lift (serialize_json_document h ''committed staging source'' (DSource (source_record_of (st_id s) i))))"

definition catalog_reservation :: "host \<Rightarrow> artifact \<Rightarrow> (store_error, u8 list) res" where
  "catalog_reservation h a = serialize_json_document h ''artifact catalog record'' (DArtifact a)"

definition read_source :: "host \<Rightarrow> artifact list \<Rightarrow> string list \<Rightarrow> string \<Rightarrow> committed_source st" where
  "read_source h catalogs seen name =
     (let p = source_dir @ [name] in
      followed (ensure_plain_file p)
      (andthen (read_bounded_json h pick_source p ''committed staging source'' max_ingest_intent_bytes) (\<lambda>r.
       let c = sr_source r; conflict = ingest_conflict (cs_artifact_id c) in
       followed (validate_committed_source p r)
       (followed
         (lift (ensure (portable_key (cs_staged_relative_path c) \<notin> set seen)
           (conflict ''multiple committed source records use the same staging path'')))
       (andthen
         (lift (ok_or (find (\<lambda>a. art_id a = cs_artifact_id c) catalogs)
           (conflict ''committed source record has no cataloged artifact''))) (\<lambda>a.
       followed
         (lift (ensure
           (art_relative_path a = cs_artifact_relative_path c \<and> art_size_bytes a = cs_size_bytes c \<and>
            art_sha256 a = cs_sha256 c)
           (conflict ''committed source record does not match its cataloged artifact'')))
         (ret c)))))))"

fun read_sources :: "host \<Rightarrow> artifact list \<Rightarrow> committed_source list \<Rightarrow> string list \<Rightarrow> committed_source list st" where
  "read_sources h catalogs seen [] = ret seen"
| "read_sources h catalogs seen (name # names) =
     andthen (read_source h catalogs (map (portable_key \<circ> cs_staged_relative_path) seen) name) (\<lambda>c.
       read_sources h catalogs (seen @ [c]) names)"

definition committed_staging_sources :: "host \<Rightarrow> committed_source list st" where
  "committed_staging_sources h =
     followed (ensure_plain_directory source_dir)
     (andthen (read_directory_entries_bounded source_dir 16384) (\<lambda>names.
      andthen (catalog_records_unverified h) (\<lambda>catalogs.
        read_sources h catalogs [] (sort names))))"

definition write_source_record :: "host \<Rightarrow> ingest_intent \<Rightarrow> unit st" where
  "write_source_record h i =
     andthen (staging_path (ii_staged_relative_path i)) (\<lambda>source_path.
     andthen (plain_file_exists source_path) (\<lambda>there.
       when_se there
         (with_state (\<lambda>s.
          let record' = source_record_of (st_id s) i; p = record_path source_dir (art_id (ii_artifact i)) in
          followed (ensure_plain_directory source_dir)
          (andthen (source_bytes h i) (\<lambda>bytes.
           andthen (plain_file_exists p) (\<lambda>exists'.
             if exists' then
               andthen (read_bounded_json h pick_source p ''committed staging source'' max_ingest_intent_bytes)
                 (\<lambda>existing. lift (ensure (existing = record')
                   (ingest_conflict (art_id (ii_artifact i))
                     ''existing committed source record differs from the ingest binding'')))
             else
               followed (ensure_additional_capacity h (bytes_len bytes))
               (followed (write_serialized_json_atomic p (DSource record') True)
                 (sync_directory source_dir)))))))))"

subsection \<open>Copies\<close>

text \<open>
  The staged file is read into a temporary file, read again, and the temporary file is moved into
  place only if both reads and the size agree.
\<close>

definition replace_private_copy_from_staged :: "host \<Rightarrow> path \<Rightarrow> path \<Rightarrow> u64 \<Rightarrow> (u64 \<times> sha256_digest) st" where
  "replace_private_copy_from_staged h staged private limit =
     andthen (open_existing_plain_file staged) (\<lambda>c0.
     followed (lift (ensure (\<not> limit < content_len h c0) (FileLimitExceeded limit (content_len h c0))))
     (followed (sys ''open private ingest copy replacement'' private)
     (andthen (read_open_file ''read staged source'' staged) (\<lambda>c.
     andthen (lift (bounded_content h limit c)) (\<lambda>copied.
     followed (sys ''write private ingest copy'' staged)
     (followed (sys ''rewind staged source'' staged)
     (andthen (read_open_file ''read artifact'' staged) (\<lambda>c'.
     andthen (lift (bounded_content h limit c')) (\<lambda>verified.
     andthen (read_open_file ''inspect staged source after copy'' staged) (\<lambda>c1.
     followed (ensure_plain_file staged)
     (followed
       (lift (ensure (content_len h c1 = content_len h c0 \<and> verified = copied) (FileIdentityChanged staged)))
     (followed (sys ''publish private ingest copy replacement'' private)
     (followed (put private (Some (NFile (Bytes (content_bytes h c)))))
     (followed (sync_directory (butlast private))
       (ret copied)))))))))))))))"

definition capacity_sum :: "session_store \<Rightarrow> u64 list \<Rightarrow> (store_error, u64) res" where
  "capacity_sum s sizes =
     foldl (\<lambda>acc n. rbind acc (\<lambda>total.
       ok_or (checked_add total n) (SessionLimitExceeded (max_session_bytes (st_limits s)) (- 1)))) (Inr 0) sizes"

definition complete_prepared_intent :: "host \<Rightarrow> path \<Rightarrow> ingest_intent \<Rightarrow> u64 \<Rightarrow> ingest_intent st" where
  "complete_prepared_intent h intent_path i limit =
     (if ii_phase i = Ready then ret i
      else
        let a = ii_artifact i; ready = i\<lparr>ii_phase := Ready\<rparr> in
        andthen (intent_private_copy_path i True) (\<lambda>private.
        andthen (artifact_file_evidence h private a) (\<lambda>evidence.
        followed
          (when_se (evidence \<noteq> EvMatching)
            (andthen (lift (catalog_reservation h a)) (\<lambda>catalog_bytes.
             andthen (source_bytes h i) (\<lambda>record_bytes.
             with_state (\<lambda>s.
             andthen (lift (capacity_sum s [art_size_bytes a, bytes_len catalog_bytes, bytes_len record_bytes])) (\<lambda>total.
             followed (ensure_additional_capacity h total)
             (andthen (staging_path (ii_staged_relative_path i)) (\<lambda>staged.
              andthen (replace_private_copy_from_staged h staged private limit) (\<lambda>copied.
                lift (ensure (copied = (art_size_bytes a, art_sha256 a))
                  (ingest_conflict (art_id a) ''staged bytes changed after the durable prepare intent'')))))))))))
        (andthen (lift (serialize_ingest_intent h ready)) (\<lambda>bytes.
         followed (write_serialized_json_atomic intent_path (document_of_intent ready) False)
         (followed (sync_directory intent_dir)
           (ret ready)))))))"

text \<open>
  A destination published by the first version of the protocol may still be the inode an external
  process can write: it is replaced by a copy of its own bytes, read twice.
\<close>

definition migrate_legacy_destination :: "host \<Rightarrow> ingest_intent \<Rightarrow> u64 \<Rightarrow> bool \<Rightarrow> unit st" where
  "migrate_legacy_destination h i limit catalog_is_absent =
     (let a = ii_artifact i; conflict = ingest_conflict (art_id a) in
      andthen (resolve_artifact (art_relative_path a) False) (\<lambda>destination.
      andthen (if catalog_is_absent then lift (catalog_reservation h a) else ret []) (\<lambda>catalog_bytes.
      andthen (staging_path (ii_staged_relative_path i)) (\<lambda>staged.
      andthen (plain_file_exists staged) (\<lambda>there.
      andthen (if there then source_bytes h i else ret []) (\<lambda>record_bytes.
      with_state (\<lambda>s.
      andthen
        (lift (ok_or (checked_add (bytes_len catalog_bytes) (bytes_len record_bytes))
          (SessionLimitExceeded (max_session_bytes (st_limits s)) (- 1)))) (\<lambda>records.
      followed (ensure_additional_capacity h (max (art_size_bytes a) records))
      (andthen (open_existing_plain_file destination) (\<lambda>c0.
       followed
         (lift (ensure (content_len h c0 = art_size_bytes a \<and> \<not> limit < content_len h c0)
           (conflict ''legacy destination no longer matches the durable intent'')))
      (followed (sys ''open legacy artifact replacement'' destination)
      (andthen (read_open_file ''read staged source'' destination) (\<lambda>c.
       andthen (lift (bounded_content h limit c)) (\<lambda>copied.
       followed (sys ''rewind legacy artifact'' destination)
      (andthen (read_open_file ''read artifact'' destination) (\<lambda>c'.
       andthen (lift (bounded_content h limit c')) (\<lambda>verified.
       followed (ensure_plain_file destination)
      (followed
        (lift (ensure (copied = (art_size_bytes a, art_sha256 a) \<and> verified = copied)
          (conflict ''legacy destination changed during host-owned migration'')))
      (followed (sys ''publish legacy artifact replacement'' destination)
      (followed (put destination (Some (NFile c)))
      (followed (sync_directory (butlast destination))
        (ensure_matching_artifact_file h destination a ''migrated destination''))))))))))))))))))))))"

subsection \<open>Publication\<close>

text \<open>Moving the private copy into place.\<close>

definition rename_private :: "path \<Rightarrow> path \<Rightarrow> unit st" where
  "rename_private private destination =
     followed (sys ''publish private artifact copy'' destination)
     (with_state (\<lambda>s. case node_at private s of
        None \<Rightarrow> throw (Io ''publish private artifact copy'' destination True)
      | Some n \<Rightarrow> followed (put destination (Some n)) (put private None)))"

definition publish_pending :: "host \<Rightarrow> string \<Rightarrow> ingest_intent \<Rightarrow> path \<Rightarrow> path \<Rightarrow> u64 \<Rightarrow> unit st" where
  "publish_pending h lock i staged destination limit =
     (let a = ii_artifact i in
      andthen (lift (catalog_reservation h a)) (\<lambda>catalog_bytes.
      andthen (source_bytes h i) (\<lambda>record_bytes.
      andthen (intent_private_copy_path i True) (\<lambda>private.
      andthen (plain_file_exists private) (\<lambda>private_exists.
      with_state (\<lambda>s.
      andthen
        (lift (capacity_sum s
          ((if private_exists then [] else [art_size_bytes a]) @ [bytes_len catalog_bytes, bytes_len record_bytes]))) (\<lambda>additional.
      followed (ensure_additional_capacity h additional)
      (followed
        (when_se (\<not> private_exists)
          (andthen (replace_private_copy_from_staged h staged private limit) (\<lambda>copied.
            lift (ensure (copied = (art_size_bytes a, art_sha256 a))
              (ingest_conflict (art_id a) ''staged bytes do not match the durable intent'')))))
      (followed (ensure_matching_artifact_file h private a ''private copy'')
      (followed (rename_private private destination)
      (followed (sync_directory (butlast destination))
      (followed (when_se (butlast private \<noteq> butlast destination) (sync_directory (butlast private)))
      (followed (ensure_matching_artifact_file h destination a ''destination'')
        (register_artifact h lock a))))))))))))))"

definition resume_catalog :: "host \<Rightarrow> string \<Rightarrow> ingest_intent \<Rightarrow> unit st" where
  "resume_catalog h lock i =
     andthen (lift (catalog_reservation h (ii_artifact i))) (\<lambda>catalog_bytes.
     andthen (source_bytes h i) (\<lambda>record_bytes.
     with_state (\<lambda>s.
     andthen (lift (capacity_sum s [bytes_len catalog_bytes, bytes_len record_bytes])) (\<lambda>additional.
     followed (ensure_additional_capacity h additional)
       (register_artifact h lock (ii_artifact i))))))"

definition remove_exact_committed_intent :: "host \<Rightarrow> path \<Rightarrow> ingest_intent \<Rightarrow> unit st" where
  "remove_exact_committed_intent h intent_path expected =
     (let a = ii_artifact expected; conflict = ingest_conflict (art_id a) in
      andthen (read_ingest_intent h intent_path) (\<lambda>current.
      followed (lift (ensure (current = expected) (conflict ''intent changed before committed cleanup'')))
      (andthen (catalog_records_unverified h) (\<lambda>catalogs.
       followed
         (case exact_catalog_state catalogs a of
            Inr True \<Rightarrow> ret ()
          | Inr False \<Rightarrow> throw (conflict ''catalog record is absent before intent cleanup'')
          | Inl detail \<Rightarrow> throw (conflict detail))
       (followed (verify_artifact h a True)
       (andthen (staging_path (ii_staged_relative_path expected)) (\<lambda>source_path.
        andthen (artifact_file_evidence h source_path a) (\<lambda>evidence.
        followed (when_se (evidence = EvMatching) (write_source_record h expected))
        (followed (sys ''remove committed ingest intent'' intent_path)
        (followed (put intent_path None)
          (sync_directory (butlast intent_path))))))))))))"

subsection \<open>The ingest\<close>

definition prepare_intent :: "host \<Rightarrow> session_state \<Rightarrow> path \<Rightarrow> path \<Rightarrow> path \<Rightarrow> artifact_path \<Rightarrow> artifact_spec
    \<Rightarrow> artifact list \<Rightarrow> u64 \<Rightarrow> ingest_intent st" where
  "prepare_intent h state intent_path staged destination staged_relative sp catalogs limit =
     followed (lift (ensure_catalog_slot_for_request catalogs sp))
     (andthen (plain_file_exists destination) (\<lambda>there.
      followed
        (lift (ensure (\<not> there)
          (ingest_conflict (sp_id sp) ''the destination exists without a matching durable intent or catalog record'')))
     (andthen (hash_staged_bounded h staged limit) (\<lambda>(source_size, source_sha256).
      andthen (private_copy_path (sp_id sp) True) (\<lambda>private.
      andthen (plain_file_exists private) (\<lambda>private_exists.
      followed
        (lift (ensure (\<not> private_exists)
          (ingest_conflict (sp_id sp) ''a prepared private copy already exists without a durable intent'')))
     (andthen (lift (private_copy_relative_path (sp_id sp))) (\<lambda>private_relative.
      with_state (\<lambda>s.
      let provisional =
        \<lparr>ii_schema = ingest_intent_schema, ii_session_id = st_id s, ii_operation_id = ss_operation_id state,
         ii_staged_relative_path = staged_relative, ii_private_relative_path = Some private_relative,
         ii_phase = Preparing, ii_artifact = into_artifact sp source_size source_sha256\<rparr> in
      andthen (lift (serialize_ingest_intent h provisional)) (\<lambda>intent_bytes.
      andthen (lift (catalog_reservation h (ii_artifact provisional))) (\<lambda>catalog_bytes.
      andthen (source_bytes h provisional) (\<lambda>record_bytes.
      andthen
        (lift (capacity_sum s [source_size, bytes_len intent_bytes, bytes_len catalog_bytes, bytes_len record_bytes])) (\<lambda>total.
      followed (ensure_additional_capacity h total)
     (followed (write_serialized_json_atomic intent_path (document_of_intent provisional) True)
     (followed (sync_directory intent_dir)
       (complete_prepared_intent h intent_path provisional limit))))))))))))))))"

definition resume_intent :: "host \<Rightarrow> session_state \<Rightarrow> path \<Rightarrow> artifact_path \<Rightarrow> artifact_spec \<Rightarrow> u64 \<Rightarrow> ingest_intent st" where
  "resume_intent h state intent_path staged_relative sp limit =
     andthen (attempt (read_ingest_intent h intent_path)) (\<lambda>r. case r of
       Inl _ \<Rightarrow> throw (ingest_conflict (sp_id sp) ''unreadable intent'')
     | Inr i \<Rightarrow>
         followed (validate_intent (ss_operation_id state) intent_path i)
         (followed (lift (ensure_intent_matches_request i staged_relative sp))
         (followed
           (lift (ensure (\<not> limit < art_size_bytes (ii_artifact i))
             (FileLimitExceeded limit (art_size_bytes (ii_artifact i)))))
           (ret i))))"

definition settle_intent :: "host \<Rightarrow> string \<Rightarrow> ingest_intent \<Rightarrow> path \<Rightarrow> path \<Rightarrow> u64 \<Rightarrow> unit st" where
  "settle_intent h lock i staged destination limit =
     andthen (catalog_records_unverified h) (\<lambda>catalogs.
     andthen (assess_intent h i catalogs) (\<lambda>(c, detail).
     followed
       (when_se (ii_private_relative_path i = None \<and> (c = Resumable \<or> c = CommittedStale))
         (migrate_legacy_destination h i limit (c = Resumable)))
       (case c of
          Pending \<Rightarrow> publish_pending h lock i staged destination limit
        | Resumable \<Rightarrow> resume_catalog h lock i
        | CommittedStale \<Rightarrow> ret ()
        | Conflict \<Rightarrow> throw (ingest_conflict (art_id (ii_artifact i)) detail))))"

definition continue_ingest :: "host \<Rightarrow> string \<Rightarrow> path \<Rightarrow> path \<Rightarrow> bool \<Rightarrow> artifact_path \<Rightarrow> artifact_spec
    \<Rightarrow> artifact list \<Rightarrow> u64 \<Rightarrow> artifact st" where
  "continue_ingest h lock intent_path staged intent_exists staged_relative sp catalogs limit =
     andthen (ensure_lifecycle_mutation_allowed h) (\<lambda>state.
     andthen (resolve_artifact (sp_relative_path sp) True) (\<lambda>destination.
     andthen
       (if intent_exists then resume_intent h state intent_path staged_relative sp limit
        else prepare_intent h state intent_path staged destination staged_relative sp catalogs limit) (\<lambda>i.
     andthen (complete_prepared_intent h intent_path i limit) (\<lambda>i.
     followed (settle_intent h lock i staged destination limit)
     (followed (remove_exact_committed_intent h intent_path i)
       (ret (ii_artifact i)))))))"

definition bound_elsewhere :: "artifact_path \<Rightarrow> artifact_spec \<Rightarrow> committed_source \<Rightarrow> bool" where
  "bound_elsewhere staged sp c \<longleftrightarrow>
     portable_key (cs_staged_relative_path c) = portable_key staged \<and> cs_artifact_id c \<noteq> sp_id sp"

definition ingest_staged_bounded :: "host \<Rightarrow> string \<Rightarrow> artifact_path \<Rightarrow> artifact_spec \<Rightarrow> u64 \<Rightarrow> artifact st" where
  "ingest_staged_bounded h lock staged_relative sp max_source_bytes =
     with_state (\<lambda>s0.
     let limit = min max_source_bytes (max_file_bytes (st_limits s0));
         intent_path = record_path intent_dir (sp_id sp) in
     followed (ensure_lock lock)
     (followed ensure_no_active_writer
     (followed (lift (validate_spec sp))
     (followed
       (lift (ensure (\<not> starts_with (as_path (sp_relative_path sp)) ''capture/staging/'')
         (InvalidStagingPath (as_path (sp_relative_path sp)))))
     (followed (ensure_plain_directory intent_dir)
     (followed (ensure_only_requested_intent intent_path (sp_id sp))
     (andthen (staging_path staged_relative) (\<lambda>staged.
      andthen (committed_staging_sources h) (\<lambda>sources.
      followed
        (lift (ensure (\<not> list_ex (bound_elsewhere staged_relative sp) sources)
          (ingest_conflict (sp_id sp) ''staging path is already bound to a committed artifact'')))
     (andthen (resolve_artifact (sp_relative_path sp) False) (\<lambda>destination.
      andthen (catalog_records_unverified h) (\<lambda>catalogs.
      andthen (plain_file_exists intent_path) (\<lambda>intent_exists.
      andthen (if intent_exists then ret None else lift (find_catalog_for_request catalogs sp)) (\<lambda>committed.
      case committed of
        Some a \<Rightarrow>
          followed (lift (ensure (\<not> limit < art_size_bytes a) (FileLimitExceeded limit (art_size_bytes a))))
          (followed (ensure_matching_artifact_file h destination a ''destination'')
            (ret a))
      | None \<Rightarrow>
          continue_ingest h lock intent_path staged intent_exists staged_relative sp catalogs limit))))))))))))))"

definition ingest_staged :: "host \<Rightarrow> string \<Rightarrow> artifact_path \<Rightarrow> artifact_spec \<Rightarrow> artifact st" where
  "ingest_staged h lock staged_relative sp =
     with_state (\<lambda>s. ingest_staged_bounded h lock staged_relative sp (max_file_bytes (st_limits s)))"

end
