(* ===== verification/Session_Frame.thy ===== *)
theory Session_Frame
  imports Session_Ingest
begin

text \<open>
  What the operations of a session leave alone. \<open>steady P\<close> relates two stores with the same
  content at every path of \<open>P\<close> outside \<open>capture/staging\<close>; it is an instance of the \<open>progress\<close>
  interface, whose rules carry it through the operations.
\<close>

named_theorems frame \<open>operations that leave the content of files alone\<close>

definition file_at :: "path \<Rightarrow> session_store \<Rightarrow> content option" where
  "file_at p s = (case node_at p s of Some (NFile c) \<Rightarrow> Some c | _ \<Rightarrow> None)"

definition steady :: "(path \<Rightarrow> bool) \<Rightarrow> session_store \<Rightarrow> session_store \<Rightarrow> bool" where
  "steady P s t \<longleftrightarrow>
     st_id t = st_id s \<and> st_limits t = st_limits s \<and>
     (\<forall>p. P p \<longrightarrow> \<not> below staging_dir p \<longrightarrow> file_at p t = file_at p s)"

interpretation steady: progress "steady P" for P
  by unfold_locales (auto simp: steady_def)

abbreviation leaves :: "(path \<Rightarrow> bool) \<Rightarrow> 'a st \<Rightarrow> bool" where
  "leaves P m \<equiv> steady.moves P m"

lemmas frame_rules = steady.moves_rules

lemma settle_outside:
  "settle fs m = (ok, fs', m') \<Longrightarrow> \<not> below staging_dir p \<Longrightarrow> bt_get m' p = bt_get m p"
  by (induction fs m rule: settle.induct) (auto simp: change_def split: if_splits option.splits)

definition same_nodes :: "session_store \<Rightarrow> session_store \<Rightarrow> bool" where
  "same_nodes s t \<longleftrightarrow> st_id t = st_id s \<and> st_limits t = st_limits s \<and> st_writer t = st_writer s \<and>
     (\<forall>p. \<not> below staging_dir p \<longrightarrow> node_at p t = node_at p s)"

lemma sys_same_nodes: "sys op p s = (r, t) \<Longrightarrow> same_nodes s t"
  by (auto simp: sys_def same_nodes_def node_at_def settle_outside split: prod.splits)

lemma same_nodes_steady: "same_nodes s t \<Longrightarrow> steady P s t"
  by (simp add: same_nodes_def steady_def file_at_def)

lemma leaves_sys [frame]: "leaves P (sys op p)"
  unfolding steady.moves_def
  by (metis same_nodes_steady sys_same_nodes prod.collapse)

lemma leaves_put [frame]: "\<not> P p \<Longrightarrow> leaves P (put p n)"
  by (auto simp: put_def steady.moves_def modify_def steady_def file_at_def node_at_def change_def
      split: option.splits)

lemma leaves_metadata [frame]: "leaves P (metadata op p)"
  unfolding metadata_def by (intro frame frame_rules)

lemma leaves_case_option [frame]:
  "leaves P m \<Longrightarrow> (\<And>x. leaves P (f x)) \<Longrightarrow> leaves P (case v of None \<Rightarrow> m | Some x \<Rightarrow> f x)"
  by (cases v) auto

lemma leaves_if [frame]: "leaves P m \<Longrightarrow> leaves P n \<Longrightarrow> leaves P (if b then m else n)"
  by simp

lemma leaves_prod [frame]: "(\<And>a b. leaves P (f a b)) \<Longrightarrow> leaves P (case x of (a, b) \<Rightarrow> f a b)"
  by (cases x) auto

lemma leaves_sum [frame]:
  "(\<And>a. leaves P (f a)) \<Longrightarrow> (\<And>b. leaves P (g b)) \<Longrightarrow> leaves P (case x of Inl a \<Rightarrow> f a | Inr b \<Rightarrow> g b)"
  by (cases x) auto

lemma leaves_node [frame]:
  "(\<And>c. leaves P (f c)) \<Longrightarrow> leaves P d \<Longrightarrow> leaves P l \<Longrightarrow> leaves P u \<Longrightarrow>
     leaves P (case n of NFile c \<Rightarrow> f c | NDir \<Rightarrow> d | NLink \<Rightarrow> l | NOther \<Rightarrow> u)"
  by (cases n) auto

lemma leaves_attempt [frame]: "leaves P m \<Longrightarrow> leaves P (attempt m)"
  unfolding steady.moves_def attempt_def by (auto split: prod.splits sum.splits fail.splits) (metis snd_conv)+

lemma leaves_Let [frame]: "leaves P (f x) \<Longrightarrow> leaves P (Let x f)"
  by simp

subsection \<open>Reading\<close>

lemma leaves_reads [frame]:
  "leaves P (ensure_plain_directory p)" "leaves P (ensure_plain_file p)" "leaves P (path_entry_exists p)"
  unfolding ensure_plain_directory_def ensure_plain_file_def path_entry_exists_def
  by (intro frame frame_rules)+

lemma leaves_open [frame]:
  "leaves P (open_existing_plain_file p)" "leaves P (plain_file_metadata p)" "leaves P (read_open_file op p)"
  unfolding open_existing_plain_file_def plain_file_metadata_def read_open_file_def
  by (intro frame frame_rules)+

lemma leaves_exists [frame]: "leaves P (plain_file_exists p)" "leaves P (sync_directory p)"
  unfolding plain_file_exists_def sync_directory_def by (intro frame frame_rules)+

lemma leaves_json [frame]: "leaves P (read_bounded_json h pick p doc limit)"
  unfolding read_bounded_json_def by (intro frame frame_rules)

lemma leaves_hash [frame]: "leaves P (hash_file h p)" "leaves P (hash_staged_bounded h p limit)"
  unfolding hash_file_def hash_staged_bounded_def by (intro frame frame_rules)+

lemma leaves_listing [frame]: "leaves P (read_directory op dir)" "leaves P (read_directory_entries_bounded dir n)"
  unfolding read_directory_entries_bounded_def read_directory_def by (intro frame frame_rules)+

lemma leaves_measure_entry [frame]: "leaves P (measure_entry h n dir depth name me)"
  unfolding measure_entry_def by (intro frame frame_rules)

lemma leaves_measure_entries [frame]: "leaves P (measure_entries h n dir depth names me)"
  by (induction h n dir depth names me rule: measure_entries.induct) (auto intro!: frame frame_rules)

lemma leaves_measure [frame]: "leaves P (measure_directories fuel h n d me)"
  by (induction fuel h n d me rule: measure_directories.induct)
    (auto intro!: frame frame_rules split: list.splits)

lemma leaves_capacity [frame]: "leaves P (directory_size h)" "leaves P (ensure_additional_capacity h n)"
  unfolding ensure_additional_capacity_def directory_size_def directory_size_with_limits_def
  by (intro frame frame_rules)+

subsection \<open>Resolving\<close>

lemma metadata_same: "metadata op p s = (r, t) \<Longrightarrow> same_nodes s t"
  by (auto simp: metadata_def se_defs split: prod.splits sum.splits dest: sys_same_nodes)

lemma metadata_node: "metadata op p s = (Inr n, t) \<Longrightarrow> n = node_at p t"
  by (auto simp: metadata_def se_defs split: prod.splits sum.splits)

lemma same_nodes_trans: "same_nodes s t \<Longrightarrow> same_nodes t u \<Longrightarrow> same_nodes s u"
  by (simp add: same_nodes_def)

lemma put_missing_directory:
  assumes "same_nodes s u" and "\<not> below staging_dir p \<Longrightarrow> node_at p s = None"
  shows "steady P s (snd (put p (Some NDir) u))"
  using assms by (auto simp: put_def modify_def steady_def file_at_def node_at_def change_def same_nodes_def)

lemma leaves_create_directory:
  assumes k: "leaves P k" and l: "\<And>x. leaves P (l x)"
  shows "leaves P (andthen (metadata op p) (\<lambda>n. case n of
      None \<Rightarrow> followed (sys op' p) (followed (put p (Some NDir)) k) | Some x \<Rightarrow> l x))"
  unfolding steady.moves_def
proof
  fix s
  obtain r t where meta: "metadata op p s = (r, t)" by fastforce
  note st = metadata_same [OF meta]
  obtain r' u where sys: "sys op' p t = (r', u)" by fastforce
  have su: "same_nodes s u" using st sys_same_nodes [OF sys] by (rule same_nodes_trans)
  obtain r'' v where put: "put p (Some NDir) u = (r'', v)" by fastforce
  show "steady P s (snd (andthen (metadata op p) (\<lambda>n. case n of
      None \<Rightarrow> followed (sys op' p) (followed (put p (Some NDir)) k) | Some x \<Rightarrow> l x) s))"
  proof (cases r)
    case (Inl e)
    with meta st show ?thesis by (simp add: andthen_def same_nodes_steady)
  next
    case (Inr n)
    show ?thesis
    proof (cases n)
      case (Some x)
      with meta Inr st l show ?thesis
        by (auto simp: andthen_def steady.moves_def intro: steady.R_trans same_nodes_steady)
    next
      case None
      from meta Inr None have "node_at p t = None" by (auto dest: metadata_node)
      with st have "node_at p s = None" if "\<not> below staging_dir p"
        using that by (simp add: same_nodes_def)
      then have "steady P s v" using put_missing_directory [OF su, of p P] put by simp
      moreover have "steady P v (snd (k v))" using k by (simp add: steady.moves_def)
      moreover have "snd (andthen (metadata op p) (\<lambda>n. case n of
          None \<Rightarrow> followed (sys op' p) (followed (put p (Some NDir)) k) | Some x \<Rightarrow> l x) s) \<in> {u, v, snd (k v)}"
        using meta Inr None sys put by (simp add: andthen_def followed_def split: sum.splits)
      ultimately show ?thesis using same_nodes_steady [OF su] by (auto intro: steady.R_trans)
    qed
  qed
qed

lemma leaves_resolve_segment [frame]: "leaves P (resolve_segment current is_leaf create_parents)"
proof (cases "\<not> is_leaf \<and> create_parents")
  case False
  then have "when_se (\<not> is_leaf \<and> create_parents) m = ret ()" for m :: "unit st"
    by (auto simp: when_se_def)
  then show ?thesis
    unfolding resolve_segment_def by (simp only:) (intro frame frame_rules)
next
  case True
  then have "when_se (\<not> is_leaf \<and> create_parents) m = m" for m :: "unit st"
    by (auto simp: when_se_def)
  then show ?thesis
    unfolding resolve_segment_def by (simp only:) (intro leaves_create_directory; intro frame frame_rules)
qed

lemma leaves_resolve_from [frame]: "leaves P (resolve_from current segs create_parents)"
  by (induction current segs create_parents rule: resolve_from.induct) (auto intro!: frame frame_rules)

lemma leaves_resolve [frame]: "leaves P (resolve_artifact a create_parents)"
  unfolding resolve_artifact_def by (intro frame)

subsection \<open>Catalog and intents\<close>

lemma leaves_checks [frame]:
  "leaves P (ensure_lock lock)" "leaves P ensure_no_active_writer" "leaves P (read_state h)"
  "leaves P (open_artifact h a)"
  unfolding ensure_lock_def ensure_no_active_writer_def read_state_def open_artifact_def
  by (intro frame frame_rules)+

lemma leaves_verify [frame]: "leaves P (verify_artifact h a deep)" "leaves P (ensure_lifecycle_mutation_allowed h)"
  unfolding verify_artifact_def ensure_lifecycle_mutation_allowed_def by (intro frame frame_rules)+

lemma leaves_record [frame]: "leaves P (read_catalog_record h name)"
  unfolding read_catalog_record_def by (intro frame frame_rules)

lemma leaves_records [frame]: "leaves P (read_records h seen names)"
  by (induction h seen names rule: read_records.induct) (auto intro!: frame frame_rules)

lemma leaves_catalog [frame]: "leaves P (catalog_records_unverified h)"
  unfolding catalog_records_unverified_def by (intro frame frame_rules)

lemma leaves_registered [frame]: "leaves P (registered_artifacts h deep)"
  unfolding registered_artifacts_def by (intro frame frame_rules)

lemma leaves_paths [frame]: "leaves P (staging_path a)" "leaves P (private_copy_path i b)"
  unfolding staging_path_def private_copy_path_def by (intro frame frame_rules)+

lemma leaves_private [frame]: "leaves P (intent_private_copy_path i b)" "leaves P (read_ingest_intent h p)"
  unfolding intent_private_copy_path_def read_ingest_intent_def by (intro frame frame_rules)+

lemma leaves_validate [frame]: "leaves P (validate_intent op p i)" "leaves P (validate_committed_source p r)"
  unfolding validate_intent_def validate_committed_source_def by (intro frame frame_rules)+

lemma leaves_evidence [frame]: "leaves P (artifact_file_evidence h p a)"
  unfolding artifact_file_evidence_def by (intro frame frame_rules)

lemma leaves_ensure_matching [frame]: "leaves P (ensure_matching_artifact_file h p a label)"
proof -
  have "leaves P (case e of EvMatching \<Rightarrow> ret () | EvMissing \<Rightarrow> throw x | EvConflict d \<Rightarrow> throw (f d))" for e x f
    by (cases e) (auto intro: frame_rules)
  then show ?thesis unfolding ensure_matching_artifact_file_def by (intro frame frame_rules)
qed

lemma leaves_assess [frame]: "leaves P (assess_intent h i catalogs)"
  unfolding assess_intent_def resolved_def by (intro frame frame_rules)

lemma leaves_inspect [frame]: "leaves P (inspect_intent h op catalogs name)"
  unfolding inspect_intent_def by (intro frame frame_rules)

lemma leaves_inspect_each [frame]: "(\<And>x. leaves P (f x)) \<Longrightarrow> leaves P (inspect_each f xs)"
  by (induction xs) (auto intro!: frame frame_rules)

lemma leaves_inspection [frame]: "leaves P (inspect_ingest_intents h)"
  unfolding inspect_ingest_intents_def by (intro frame frame_rules)

lemma leaves_no_intents [frame]: "leaves P (ensure_no_ingest_intents h)"
  unfolding ensure_no_ingest_intents_def
  by (intro frame frame_rules) (auto split: list.splits intro: frame_rules)

lemma leaves_manifest_check [frame]: "leaves P (check_manifest h m deep)"
  unfolding check_manifest_def by (intro frame frame_rules)

lemma leaves_read_manifest [frame]: "leaves P (read_manifest h)"
  unfolding read_manifest_def by (intro frame frame_rules)

lemma leaves_source [frame]: "leaves P (source_bytes h i)" "leaves P (read_source h catalogs seen name)"
  unfolding source_bytes_def read_source_def by (intro frame frame_rules)+

lemma leaves_sources [frame]: "leaves P (read_sources h catalogs seen names)"
  by (induction h catalogs seen names rule: read_sources.induct) (auto intro!: frame frame_rules)

lemma leaves_committed [frame]: "leaves P (committed_staging_sources h)" "leaves P (ensure_only_requested_intent p i)"
  unfolding committed_staging_sources_def ensure_only_requested_intent_def by (intro frame frame_rules)+

subsection \<open>Writing\<close>

lemma leaves_write [frame]: "\<not> P p \<Longrightarrow> leaves P (write_serialized_json_atomic p d b)"
  unfolding write_serialized_json_atomic_def by (intro frame frame_rules)

lemma leaves_copy [frame]: "\<not> P private \<Longrightarrow> leaves P (replace_private_copy_from_staged h staged private limit)"
  unfolding replace_private_copy_from_staged_def by (intro frame frame_rules)

lemma leaves_source_record [frame]:
  "\<not> P (record_path source_dir (art_id (ii_artifact i))) \<Longrightarrow> leaves P (write_source_record h i)"
  unfolding write_source_record_def by (intro frame frame_rules)

end
