(* ===== verification/Session_Facts.thy ===== *)
theory Session_Facts
  imports Session_Frame
begin

text \<open>
  What the reading operations of a session establish: \<open>safe\<close> triples whose assertions survive the
  operations that follow because they are about paths these operations leave alone.
\<close>

named_theorems rest_rules \<open>assertions that later operations leave true\<close>

subsection \<open>Assertions at rest\<close>

definition rests :: "(path \<Rightarrow> bool) \<Rightarrow> (session_store \<Rightarrow> bool) \<Rightarrow> bool" where
  "rests P A \<longleftrightarrow> (\<forall>s t. steady P s t \<longrightarrow> A s \<longrightarrow> A t)"

lemma rests_const [rest_rules]: "rests P (\<lambda>_. b)"
  by (simp add: rests_def)

lemma rests_conj [rest_rules]: "rests P A \<Longrightarrow> rests P B \<Longrightarrow> rests P (\<lambda>s. A s \<and> B s)"
  by (auto simp: rests_def)

lemma rests_ex [rest_rules]: "(\<And>x. rests P (A x)) \<Longrightarrow> rests P (\<lambda>s. \<exists>x. A x s)"
  unfolding rests_def by blast

lemma rests_file [rest_rules]: "P p \<Longrightarrow> \<not> below staging_dir p \<Longrightarrow> rests P (\<lambda>s. R (file_at p s))"
  by (simp add: rests_def steady_def)

lemma rests_id [rest_rules]: "rests P (\<lambda>s. R (st_id s))"
  by (simp add: rests_def steady_def)

lemma safe_quiet: "leaves P m \<Longrightarrow> rests P A \<Longrightarrow> (\<And>s. A s \<Longrightarrow> B s) \<Longrightarrow> safe A m (\<lambda>_. A) (\<lambda>_. B)"
  unfolding safe_def rests_def steady.moves_def
  by (auto split: prod.splits sum.splits) (metis snd_conv)+

lemma skip_then:
  "leaves P m \<Longrightarrow> rests P A \<Longrightarrow> (\<And>s. A s \<Longrightarrow> B s) \<Longrightarrow> (\<And>x. safe A (f x) Q (\<lambda>_. B)) \<Longrightarrow>
     safe A (andthen m f) Q (\<lambda>_. B)"
  by (rule safe_andthen [OF safe_quiet])

lemma skip_followed:
  "leaves P m \<Longrightarrow> rests P A \<Longrightarrow> (\<And>s. A s \<Longrightarrow> B s) \<Longrightarrow> safe A n Q (\<lambda>_. B) \<Longrightarrow>
     safe A (followed m n) Q (\<lambda>_. B)"
  by (rule safe_followed [OF safe_quiet])

text \<open>What a step says of its result becomes an assertion.\<close>

definition sees :: "'a st \<Rightarrow> ('a \<Rightarrow> session_store \<Rightarrow> bool) \<Rightarrow> bool" where
  "sees m F \<longleftrightarrow> (\<forall>s x t. m s = (Inr x, t) \<longrightarrow> F x t)"

lemma sees_safe: "safe (\<lambda>_. True) m F (\<lambda>_ _. True) \<Longrightarrow> sees m F"
  unfolding sees_def safe_def by (auto split: prod.splits sum.splits)

lemma sees_imp: "sees m F \<Longrightarrow> (\<And>x s. F x s \<Longrightarrow> G x s) \<Longrightarrow> sees m G"
  by (simp add: sees_def)

lemma safe_sees:
  assumes "leaves P m" "rests P A" "\<And>s. A s \<Longrightarrow> B s" "sees m F"
  shows "safe A m (\<lambda>x s. A s \<and> F x s) (\<lambda>_. B)"
proof -
  have "safe A m (\<lambda>_. A) (\<lambda>_. B)" using assms(1-3) by (rule safe_quiet)
  with assms(4) show ?thesis
    unfolding safe_def sees_def by (fastforce split: prod.splits sum.splits)
qed

lemma see_then:
  "sees m F \<Longrightarrow> leaves P m \<Longrightarrow> rests P A \<Longrightarrow> (\<And>s. A s \<Longrightarrow> B s) \<Longrightarrow>
     (\<And>x. safe (\<lambda>s. A s \<and> F x s) (f x) Q (\<lambda>_. B)) \<Longrightarrow> safe A (andthen m f) Q (\<lambda>_. B)"
  by (rule safe_andthen [OF safe_sees])

lemma see_followed:
  "sees m (\<lambda>_. F) \<Longrightarrow> leaves P m \<Longrightarrow> rests P A \<Longrightarrow> (\<And>s. A s \<Longrightarrow> B s) \<Longrightarrow>
     safe (\<lambda>s. A s \<and> F s) n Q (\<lambda>_. B) \<Longrightarrow> safe A (followed m n) Q (\<lambda>_. B)"
  unfolding followed_def by (rule see_then)

lemma know_then:
  "sees m (\<lambda>x _. V x) \<Longrightarrow> leaves P m \<Longrightarrow> rests P A \<Longrightarrow> (\<And>s. A s \<Longrightarrow> B s) \<Longrightarrow>
     (\<And>x. V x \<Longrightarrow> safe A (f x) Q (\<lambda>_. B)) \<Longrightarrow> safe A (andthen m f) Q (\<lambda>_. B)"
  by (rule see_then [where F = "\<lambda>x _. V x"]) (auto simp: safe_def)

lemma lift_then:
  "(\<And>s. A s \<Longrightarrow> B s) \<Longrightarrow> (\<And>x. r = Inr x \<Longrightarrow> safe A (f x) Q (\<lambda>_. B)) \<Longrightarrow> safe A (andthen (lift r) f) Q (\<lambda>_. B)"
  by (cases r) (auto simp: safe_def se_defs)

lemma lift_followed:
  "(\<And>s. A s \<Longrightarrow> B s) \<Longrightarrow> (\<And>x. r = Inr x \<Longrightarrow> safe A n Q (\<lambda>_. B)) \<Longrightarrow> safe A (followed (lift r) n) Q (\<lambda>_. B)"
  unfolding followed_def by (rule lift_then)

lemma ensure_followed:
  "(\<And>s. A s \<Longrightarrow> B s) \<Longrightarrow> (b \<Longrightarrow> safe A n Q (\<lambda>_. B)) \<Longrightarrow> safe A (followed (lift (ensure b e)) n) Q (\<lambda>_. B)"
  by (rule lift_followed) (simp_all add: ensure_eq_Inr)

lemma safe_assume: "(\<And>s. A s \<Longrightarrow> V) \<Longrightarrow> (V \<Longrightarrow> safe A m Q E) \<Longrightarrow> safe A m Q E"
  by (auto simp: safe_def)

lemma safe_imp: "safe A m Q E \<Longrightarrow> (\<And>x s. Q x s \<Longrightarrow> Q' x s) \<Longrightarrow> safe A m Q' E"
  by (erule safe_weaken) auto

lemma safe_pre_imp: "(\<And>s. A s \<Longrightarrow> A' s) \<Longrightarrow> safe A' m Q E \<Longrightarrow> safe A m Q E"
  by (auto simp: safe_def)

subsection \<open>Results of reading\<close>

lemma metadata_sees: "sees (metadata op p) (\<lambda>n s. n = node_at p s)"
  using metadata_node by (auto simp: sees_def)

lemma resolve_from_value: "resolve_from current segs b s = (Inr p, t) \<Longrightarrow> p = current @ segs"
  by (induction current segs b arbitrary: s rule: resolve_from.induct)
    (auto simp: se_defs split: prod.splits sum.splits)

lemma resolve_sees: "sees (resolve_artifact a b) (\<lambda>p _. p = path_segments a)"
  unfolding sees_def resolve_artifact_def by (auto dest: resolve_from_value)

lemma read_open_file_sees: "sees (read_open_file op p) (\<lambda>c s. file_at p s = Some c)"
proof -
  have "sees (read_open_file op p) (\<lambda>c s. node_at p s = Some (NFile c))"
    unfolding sees_def read_open_file_def
    by (auto simp: se_defs dest!: metadata_node split: prod.splits sum.splits option.splits node.splits)
  then show ?thesis by (simp add: sees_def file_at_def)
qed

lemma bounded_json_sees:
  assumes "\<not> below staging_dir p"
  shows "sees (read_bounded_json h pick p doc limit)
    (\<lambda>x s. \<exists>c. file_at p s = Some c \<and> Option.bind (content_document h c) pick = Some x)"
proof (rule sees_safe)
  let ?P = "\<lambda>q. q = p"
  have tail: "safe (\<lambda>s. True \<and> file_at p s = Some c)
      (followed (lift (ensure_metadata_size doc (content_len h c) limit))
        (followed (ensure_plain_file p) (lift (ok_or (Option.bind (content_document h c) pick) (Json p)))))
      (\<lambda>x s. \<exists>c. file_at p s = Some c \<and> Option.bind (content_document h c) pick = Some x) (\<lambda>_ _. True)" for c
    using assms
    by (intro lift_followed skip_followed [where P = ?P] safe_lift frame rest_rules)
      (auto simp: ok_or_eq_Inr)
  show "safe (\<lambda>_. True) (read_bounded_json h pick p doc limit)
     (\<lambda>x s. \<exists>c. file_at p s = Some c \<and> Option.bind (content_document h c) pick = Some x) (\<lambda>_ _. True)"
    unfolding read_bounded_json_def
    by (intro skip_then [where P = ?P] lift_followed see_then [where P = ?P, OF read_open_file_sees] tail frame
        rest_rules TrueI)
qed

lemma entry_sees: "sees (path_entry_exists p) (\<lambda>there t. \<not> there \<longrightarrow> file_at p t = None)"
proof (rule sees_safe)
  show "safe (\<lambda>_. True) (path_entry_exists p) (\<lambda>there t. \<not> there \<longrightarrow> file_at p t = None) (\<lambda>_ _. True)"
    unfolding path_entry_exists_def
    by (rule see_then [where P = "\<lambda>_. True", OF metadata_sees], (intro frame rest_rules TrueI)+)
      (auto intro!: safe_ret simp: file_at_def split: option.splits)
qed

subsection \<open>Artifact files\<close>

abbreviation dest :: "artifact \<Rightarrow> path" where
  "dest a \<equiv> path_segments (art_relative_path a)"

definition matches :: "host \<Rightarrow> content \<Rightarrow> artifact \<Rightarrow> bool" where
  "matches h c a \<longleftrightarrow> hash_content h c = Inr (art_size_bytes a, art_sha256 a)"

definition present :: "host \<Rightarrow> artifact \<Rightarrow> session_store \<Rightarrow> bool" where
  "present h a s \<longleftrightarrow> (\<exists>c. file_at (dest a) s = Some c \<and> matches h c a)"

definition holds_copy :: "host \<Rightarrow> path \<Rightarrow> artifact \<Rightarrow> session_store \<Rightarrow> bool" where
  "holds_copy h p a s \<longleftrightarrow> (\<exists>c. file_at p s = Some c \<and> matches h c a)"

lemma present_copy: "present h a s \<longleftrightarrow> holds_copy h (dest a) a s"
  by (simp add: present_def holds_copy_def)

lemma rests_copy [rest_rules]: "P p \<Longrightarrow> \<not> below staging_dir p \<Longrightarrow> rests P (holds_copy h p a)"
  unfolding holds_copy_def by (simp add: rests_def steady_def)

lemma rests_present [rest_rules]: "P (dest a) \<Longrightarrow> \<not> below staging_dir (dest a) \<Longrightarrow> rests P (present h a)"
  unfolding present_def by (simp add: rests_def steady_def)

lemma hash_content_pair: "hash_content h c = Inr (n, d) \<Longrightarrow> n = content_len h c"
  by (auto simp: hash_content_def rbind_eq_Inr)

lemma open_artifact_sees:
  assumes "\<not> below staging_dir (dest a)"
  shows "sees (open_artifact h a) (\<lambda>_. present h a)"
proof (rule sees_safe)
  let ?P = "\<lambda>q. q = dest a"
  have tail: "safe (\<lambda>s. True \<and> file_at (dest a) s = Some c)
      (andthen (lift (hash_content h c)) (\<lambda>(size', digest).
        followed (lift (ensure (size' = art_size_bytes a) (ArtifactSizeMismatch (art_id a) (art_size_bytes a) size')))
        (followed (lift (ensure (digest = art_sha256 a) (ArtifactDigestMismatch (art_id a))))
        (followed (ensure_plain_file (dest a))
        (followed (sys ''canonicalize opened artifact'' (dest a))
          (sys ''rewind verified artifact'' (dest a))))))) (\<lambda>_. present h a) (\<lambda>_ _. True)" for c
  proof (rule lift_then, simp, clarify)
    fix size' digest
    assume c: "hash_content h c = Inr (size', digest)"
    show "safe (\<lambda>s. True \<and> file_at (dest a) s = Some c)
      (followed (lift (ensure (size' = art_size_bytes a) (ArtifactSizeMismatch (art_id a) (art_size_bytes a) size')))
        (followed (lift (ensure (digest = art_sha256 a) (ArtifactDigestMismatch (art_id a))))
        (followed (ensure_plain_file (dest a))
        (followed (sys ''canonicalize opened artifact'' (dest a))
          (sys ''rewind verified artifact'' (dest a)))))) (\<lambda>_. present h a) (\<lambda>_ _. True)"
      using assms c
      by (intro ensure_followed skip_followed [where P = ?P] safe_imp [OF safe_quiet [where P = ?P]] frame rest_rules)
        (auto simp: present_def matches_def)
  qed
  show "safe (\<lambda>_. True) (open_artifact h a) (\<lambda>_. present h a) (\<lambda>_ _. True)"
    unfolding open_artifact_def
    apply (rule know_then [where P = ?P, OF resolve_sees], (intro frame rest_rules TrueI)+)
    apply (simp only:)
    by (intro skip_then [where P = ?P] ensure_followed see_then [where P = ?P, OF read_open_file_sees] tail frame
        rest_rules TrueI)
qed

lemma verify_artifact_sees:
  "\<not> below staging_dir (dest a) \<Longrightarrow> sees (verify_artifact h a True) (\<lambda>_. present h a)"
  by (simp add: verify_artifact_def open_artifact_sees)

lemma hash_file_sees:
  assumes "\<not> below staging_dir p"
  shows "sees (hash_file h p) (\<lambda>r s. \<exists>c. file_at p s = Some c \<and> hash_content h c = Inr r)"
proof (rule sees_safe)
  let ?P = "\<lambda>q. q = p"
  have tail: "safe (\<lambda>s. True \<and> file_at p s = Some c)
      (andthen (lift (hash_content h c)) (\<lambda>r. followed (ensure_plain_file p) (ret r)))
      (\<lambda>r s. \<exists>c. file_at p s = Some c \<and> hash_content h c = Inr r) (\<lambda>_ _. True)" for c
    using assms by (intro lift_then skip_followed [where P = ?P] safe_ret frame rest_rules) auto
  show "safe (\<lambda>_. True) (hash_file h p)
      (\<lambda>r s. \<exists>c. file_at p s = Some c \<and> hash_content h c = Inr r) (\<lambda>_ _. True)"
    unfolding hash_file_def
    by (intro skip_followed [where P = ?P] see_then [where P = ?P, OF read_open_file_sees] tail frame rest_rules TrueI)
qed

lemma attempt_sees: "sees m F \<Longrightarrow> sees (attempt m) (\<lambda>r s. case r of Inl _ \<Rightarrow> True | Inr x \<Rightarrow> F x s)"
  unfolding sees_def attempt_def by (auto split: prod.splits sum.splits fail.splits)

lemma evidence_sees:
  assumes "\<not> below staging_dir p"
  shows "sees (artifact_file_evidence h p a) (\<lambda>e s. e = EvMatching \<longrightarrow> holds_copy h p a s)"
proof (rule sees_safe)
  let ?P = "\<lambda>q. q = p"
  have hash: "safe (\<lambda>_. True) (andthen (attempt (hash_file h p)) (\<lambda>r. case r of
           Inl _ \<Rightarrow> ret (EvConflict ''cannot verify file'')
         | Inr (size', digest) \<Rightarrow>
             ret (if size' = art_size_bytes a \<and> digest = art_sha256 a then EvMatching
                  else EvConflict ''file does not match intent'')))
      (\<lambda>e s. e = EvMatching \<longrightarrow> holds_copy h p a s) (\<lambda>_ _. True)"
    by (rule see_then [where P = ?P, OF attempt_sees [OF hash_file_sees [OF assms]]];
        (intro frame rest_rules TrueI)?)
      (auto intro!: safe_ret simp: holds_copy_def matches_def split: sum.splits)
  show "safe (\<lambda>_. True) (artifact_file_evidence h p a) (\<lambda>e s. e = EvMatching \<longrightarrow> holds_copy h p a s) (\<lambda>_ _. True)"
    unfolding artifact_file_evidence_def
    by (intro skip_then [where P = ?P] frame rest_rules TrueI)
      (auto intro!: safe_ret hash split: sum.splits option.splits)
qed

lemma evidence_missing: "sees (artifact_file_evidence h p a) (\<lambda>e s. e = EvMissing \<longrightarrow> file_at p s = None)"
proof -
  have absent: "file_at p t = None" if "plain_file_metadata p s = (Inr None, t)" for s t
    using that unfolding plain_file_metadata_def
    by (auto simp: se_defs file_at_def dest!: metadata_node split: prod.splits sum.splits option.splits)
  show ?thesis
    unfolding sees_def artifact_file_evidence_def
    by (auto simp: se_defs attempt_def dest: absent split: prod.splits sum.splits option.splits if_splits fail.splits)
qed

lemma ensure_matching_sees:
  assumes "\<not> below staging_dir p"
  shows "sees (ensure_matching_artifact_file h p a label) (\<lambda>_. holds_copy h p a)"
proof (rule sees_safe)
  show "safe (\<lambda>_. True) (ensure_matching_artifact_file h p a label) (\<lambda>_. holds_copy h p a) (\<lambda>_ _. True)"
    unfolding ensure_matching_artifact_file_def
    by (rule see_then [where P = "\<lambda>q. q = p", OF evidence_sees [OF assms]]; (intro frame rest_rules TrueI)?)
      (auto intro!: safe_ret safe_throw split: file_evidence.splits)
qed

subsection \<open>The catalog\<close>

definition record_at :: "host \<Rightarrow> string \<Rightarrow> session_store \<Rightarrow> artifact option" where
  "record_at h name s =
     (case file_at (catalog_dir @ [name]) s of
        Some c \<Rightarrow> Option.bind (content_document h c) pick_artifact
      | None \<Rightarrow> None)"

lemma below_catalog [simp]: "below catalog_dir (catalog_dir @ [name])" "\<not> below staging_dir (catalog_dir @ [name])"
  by (simp_all add: below_def catalog_dir_def staging_dir_def)

lemma rests_record [rest_rules]: "P (catalog_dir @ [name]) \<Longrightarrow> rests P (\<lambda>s. R (record_at h name s))"
  by (simp add: rests_def steady_def record_at_def)

lemma read_record_sees: "sees (read_catalog_record h name) (\<lambda>a s. record_at h name s = Some a \<and> validate_artifact a = Inr ())"
proof (rule sees_safe)
  let ?p = "catalog_dir @ [name]"
  let ?P = "\<lambda>q. q = ?p"
  have json: "sees (read_bounded_json h pick_artifact ?p doc limit) (\<lambda>a s. record_at h name s = Some a)" for doc limit
    by (rule sees_imp [OF bounded_json_sees]) (auto simp: record_at_def)
  show "safe (\<lambda>_. True) (read_catalog_record h name)
      (\<lambda>a s. record_at h name s = Some a \<and> validate_artifact a = Inr ()) (\<lambda>_ _. True)"
    unfolding read_catalog_record_def Let_def
    apply (rule skip_followed [where P = ?P], (intro frame rest_rules TrueI)+)
    apply (rule lift_followed, simp)
    apply (rule see_then [where P = ?P, OF json], (intro frame rest_rules TrueI)+)
    apply (rule lift_followed, simp)+
    by (auto intro!: safe_ret simp: map_err_eq_Inr)
qed

definition listed :: "host \<Rightarrow> artifact list \<Rightarrow> string list \<Rightarrow> session_store \<Rightarrow> bool" where
  "listed h as names s \<longleftrightarrow>
     (\<forall>name \<in> set names. \<exists>a \<in> set as. record_at h name s = Some a) \<and>
     (\<forall>a \<in> set as. validate_artifact a = Inr () \<and> (\<exists>name. record_at h name s = Some a))"

lemma rests_listed [rest_rules]: "rests (below catalog_dir) (listed h as names)"
  by (simp add: rests_def steady_def listed_def record_at_def)

lemma read_records_listed:
  "safe (listed h seen names') (read_records h seen names) (\<lambda>as. listed h as (names' @ names)) (\<lambda>_ _. True)"
proof (induction names arbitrary: seen names')
  case Nil
  then show ?case by (simp add: safe_ret)
next
  case (Cons name names)
  have step: "listed h (seen @ [a]) (names' @ [name]) s"
    if "listed h seen names' s \<and> record_at h name s = Some a \<and> validate_artifact a = Inr ()" for a s
    using that by (auto simp: listed_def)
  have IH: "safe (\<lambda>s. listed h seen names' s \<and> record_at h name s = Some a \<and> validate_artifact a = Inr ())
      (read_records h (seen @ [a]) names) (\<lambda>as. listed h as (names' @ name # names)) (\<lambda>_ _. True)" for a
    using safe_pre_imp [OF step Cons.IH [of "seen @ [a]" "names' @ [name]"]] by simp
  show ?case
    unfolding read_records.simps
    by (intro see_then [where P = "below catalog_dir", OF read_record_sees] ensure_followed IH frame rest_rules TrueI)
qed

definition lists_records :: "host \<Rightarrow> string list \<Rightarrow> session_store \<Rightarrow> bool" where
  "lists_records h names s \<longleftrightarrow> (\<forall>name. record_at h name s \<noteq> None \<longrightarrow> name \<in> set names)"

lemma rests_lists [rest_rules]: "rests (below catalog_dir) (lists_records h names)"
  by (simp add: rests_def steady_def lists_records_def record_at_def)

lemma child_listed: "node_at (dir @ [name]) s \<noteq> None \<Longrightarrow> name \<in> set (children dir (st_files s))"
  by (force simp: node_at_def bt_get_def children_def below_def dest: map_of_SomeD)

lemma listing_sees: "sees (read_directory_entries_bounded catalog_dir n) (lists_records h)"
proof -
  have "lists_records h (children catalog_dir (st_files s)) s" for s
    unfolding lists_records_def record_at_def file_at_def using child_listed [of catalog_dir _ s]
    by (auto split: option.splits)
  then show ?thesis
    unfolding sees_def read_directory_entries_bounded_def read_directory_def
    by (auto simp: se_defs split: prod.splits sum.splits option.splits node.splits if_splits)
qed

text \<open>What the catalog holds is what \<open>catalog_records_unverified\<close> returns.\<close>

definition catalog_is :: "host \<Rightarrow> artifact list \<Rightarrow> session_store \<Rightarrow> bool" where
  "catalog_is h as s \<longleftrightarrow>
     (\<forall>a. a \<in> set as \<longleftrightarrow> (\<exists>name. record_at h name s = Some a)) \<and> (\<forall>a \<in> set as. validate_artifact a = Inr ())"

lemma rests_catalog [rest_rules]: "rests (below catalog_dir) (catalog_is h as)"
  by (simp add: rests_def steady_def catalog_is_def record_at_def)

lemma listed_catalog: "lists_records h names s \<Longrightarrow> listed h as names s \<Longrightarrow> catalog_is h as s"
  unfolding lists_records_def listed_def catalog_is_def by (metis option.distinct(1) option.inject)

lemma catalog_sees: "sees (catalog_records_unverified h) (catalog_is h)"
proof (rule sees_safe)
  let ?P = "below catalog_dir"
  have records: "safe (\<lambda>s. True \<and> lists_records h names s) (read_records h [] (sort names))
      (\<lambda>as. catalog_is h as) (\<lambda>_ _. True)" for names
  proof -
    have "sees (read_records h [] (sort names)) (\<lambda>as s. listed h as (sort names) s)"
      by (rule sees_safe, rule safe_pre_imp [OF _ read_records_listed [of h "[]" "[]" "sort names", simplified]])
        (simp add: listed_def)
    then have "safe (\<lambda>s. True \<and> lists_records h names s) (read_records h [] (sort names))
        (\<lambda>as s. (True \<and> lists_records h names s) \<and> listed h as (sort names) s) (\<lambda>_ _. True)"
      by (intro safe_sees [where P = ?P] frame rest_rules TrueI)
    then show ?thesis
      by (rule safe_imp) (auto intro!: listed_catalog [where names = names] simp: listed_def)
  qed
  have sort: "safe (catalog_is h as) (ret (sort_key art_id as)) (catalog_is h) (\<lambda>_ _. True)" for as
    by (simp add: safe_def se_defs catalog_is_def)
  show "safe (\<lambda>_. True) (catalog_records_unverified h) (catalog_is h) (\<lambda>_ _. True)"
    unfolding catalog_records_unverified_def
    by (intro skip_followed [where P = ?P] see_then [where P = ?P, OF listing_sees [where h = h]] safe_andthen [OF records sort]
        frame rest_rules TrueI)
qed

lemma registered_sees: "sees (registered_artifacts h deep) (catalog_is h)"
proof (rule sees_safe)
  let ?P = "below catalog_dir"
  show "safe (\<lambda>_. True) (registered_artifacts h deep) (catalog_is h) (\<lambda>_ _. True)"
    unfolding registered_artifacts_def
    by (intro see_then [where P = ?P, OF catalog_sees] skip_followed [where P = ?P] safe_ret frame frame_rules
        rest_rules TrueI) auto
qed

end
