(* ===== verification/Session_Invariants.thy ===== *)
theory Session_Invariants
  imports Session_Facts
begin

text \<open>
  What the operations of a session preserve. \<open>session_invariant\<close> states what an invariant of the
  store has to survive: changes outside the session's data, a new file at a permitted destination
  where there was none, and a new catalog record. Every operation that writes artifacts at permitted
  destinations preserves every such invariant; which destinations are permitted depends on the
  invariant.
\<close>

subsection \<open>The data of a session\<close>

definition private_dir :: path where "private_dir = [''capture'', ''.ingest-private'']"

definition owned :: "path \<Rightarrow> bool" where
  "owned p \<longleftrightarrow> \<not> below staging_dir p \<and> \<not> below private_dir p \<and> p \<noteq> state_path \<and> p \<noteq> manifest_path \<and>
     \<not> below catalog_dir p \<and> \<not> below intent_dir p \<and> \<not> below source_dir p"

definition data :: "path \<Rightarrow> bool" where
  "data p \<longleftrightarrow> owned p \<or> below catalog_dir p \<or> p = state_path \<or> p = manifest_path"

definition set_node :: "path \<Rightarrow> node \<Rightarrow> session_store \<Rightarrow> session_store" where
  "set_node p n s = s\<lparr>st_files := bt_insert p n (st_files s)\<rparr>"

definition vacant :: "path \<Rightarrow> session_store \<Rightarrow> bool" where
  "vacant p s \<longleftrightarrow> (data p \<longrightarrow> file_at p s = None)"

lemmas dirs = staging_dir_def private_dir_def catalog_dir_def intent_dir_def source_dir_def
  state_path_def manifest_path_def record_path_def

lemma not_data [simp]:
  "\<not> data (record_path intent_dir name)" "\<not> data (record_path source_dir name)" "below private_dir p \<Longrightarrow> \<not> data p"
  by (cases p; auto simp: data_def owned_def below_def dirs)+

lemma data_owned [simp]: "owned p \<Longrightarrow> data p" "owned p \<Longrightarrow> \<not> below staging_dir p"
  by (simp_all add: data_def owned_def)

lemma data_control [simp]:
  "data state_path" "data manifest_path" "\<not> below staging_dir state_path" "\<not> below staging_dir manifest_path"
  by (simp_all add: data_def below_def dirs)

lemma data_record [simp]:
  "data (record_path catalog_dir name)" "\<not> below staging_dir (record_path catalog_dir name)"
  by (simp_all add: data_def below_def dirs)

lemma steady_mono: "steady P s t \<Longrightarrow> (\<And>p. Q p \<Longrightarrow> P p) \<Longrightarrow> steady Q s t"
  by (simp add: steady_def)

lemma rests_mono: "rests Q A \<Longrightarrow> (\<And>p. Q p \<Longrightarrow> P p) \<Longrightarrow> rests P A"
  unfolding rests_def by (blast intro: steady_mono)

lemma data_staging: "data p \<Longrightarrow> \<not> below staging_dir p"
  by (cases p) (auto simp: data_def owned_def below_def dirs)

lemma rests_data [rest_rules]: "rests data (catalog_is h as)" "rests data (vacant p)"
  "rests data (\<lambda>s. owned (dest a) \<longrightarrow> present h a s)"
proof -
  show "rests data (catalog_is h as)" by (rule rests_mono [OF rests_catalog]) (simp add: data_def)
  show "rests data (vacant p)" by (auto simp: rests_def steady_def vacant_def data_staging)
  show "rests data (\<lambda>s. owned (dest a) \<longrightarrow> present h a s)" by (auto simp: rests_def steady_def present_def)
qed

lemma file_at_set [simp]: "file_at q (set_node p (NFile c) s) = (if q = p then Some c else file_at q s)"
  by (simp add: file_at_def node_at_def set_node_def)

lemma put_some: "put p (Some n) s = (Inr (), set_node p n s)"
  by (simp add: put_def modify_def set_node_def change_def)

lemma artifact_path_new_Inr: "artifact_path_new p = Inr r \<Longrightarrow> as_path r = p"
  by (auto simp: artifact_path_new_def rbind_eq_Inr)

lemma split_two:
  assumes "CHR ''/'' \<notin> set a" "CHR ''/'' \<notin> set b"
  shows "split_at_char (CHR ''/'') (a @ CHR ''/'' # b @ CHR ''/'' # c) = [a, b] @ split_at_char (CHR ''/'') c"
  using assms by (simp add: split_at_char_append split_at_char_none)

lemma two_segments:
  assumes "artifact_path_new (a @ CHR ''/'' # b @ CHR ''/'' # c) = Inr r" "CHR ''/'' \<notin> set a" "CHR ''/'' \<notin> set b"
  shows "below [a, b] (path_segments r)"
proof -
  have "path_segments r = split_at_char (CHR ''/'') (a @ CHR ''/'' # b @ CHR ''/'' # c)"
    using assms(1) by (simp only: path_segments_def artifact_path_new_Inr)
  also have "\<dots> = [a, b] @ split_at_char (CHR ''/'') c"
    by (rule split_two [OF assms(2,3)])
  finally show ?thesis by (simp add: below_def)
qed

lemma private_segments:
  assumes "private_copy_relative_path artifact_id = Inr r"
  shows "below private_dir (path_segments r)"
proof -
  have "artifact_path_new (''capture'' @ CHR ''/'' # ''.ingest-private'' @ CHR ''/'' # (artifact_id @ ''.payload'')) = Inr r"
    using assms unfolding private_copy_relative_path_def by (simp add: map_err_eq_Inr)
  then show ?thesis unfolding private_dir_def by (rule two_segments) simp_all
qed

lemma staged_segments:
  assumes "artifact_path_new (''capture/staging/'' @ as_path relative) = Inr r"
  shows "below staging_dir (path_segments r)"
proof -
  have "artifact_path_new (''capture'' @ CHR ''/'' # ''staging'' @ CHR ''/'' # as_path relative) = Inr r"
    using assms by simp
  then show ?thesis unfolding staging_dir_def by (rule two_segments) simp_all
qed

lemma split_at_char_inject: "split_at_char sep s = split_at_char sep t \<Longrightarrow> s = t"
proof (induction s arbitrary: t)
  case Nil
  then show ?case by (cases t) (auto simp: split_at_char_Cons split: if_splits simp: split_at_char_ne [symmetric])
next
  case (Cons c s)
  then obtain c' t' where t: "t = c' # t'" by (cases t) (auto simp: split_at_char_Cons split: if_splits)
  have "split_at_char sep s = split_at_char sep t' \<and> c = c'"
    using Cons.prems unfolding t split_at_char_Cons
    by (cases "split_at_char sep s"; cases "split_at_char sep t'") (auto split: if_splits)
  with Cons.IH t show ?case by simp
qed

lemma path_segments_inject: "path_segments a = path_segments b \<Longrightarrow> a = b"
  by (cases a; cases b) (auto simp: path_segments_def dest: split_at_char_inject)

text \<open>An intent of the request whose private copy is in its place.\<close>

definition intent_for :: "artifact_spec \<Rightarrow> ingest_intent \<Rightarrow> bool" where
  "intent_for sp i \<longleftrightarrow> spec_matches_artifact sp (ii_artifact i) \<and>
     (case ii_private_relative_path i of
        None \<Rightarrow> True | Some r \<Rightarrow> private_copy_relative_path (art_id (ii_artifact i)) = Inr r)"

lemma intent_for_phase [simp]: "intent_for sp (i\<lparr>ii_phase := p\<rparr>) = intent_for sp i"
  by (simp add: intent_for_def split: option.splits)

lemma private_copy_sees: "sees (private_copy_path artifact_id b) (\<lambda>p _. below private_dir p)"
  unfolding private_copy_path_def
  by (rule sees_safe, rule lift_then, simp, rule safe_sees [where P = "\<lambda>_. True" and A = "\<lambda>_. True", THEN safe_imp, OF _ _ _ resolve_sees])
    (auto intro: frame rest_rules private_segments)

lemma intent_private_sees:
  assumes "intent_for sp i"
  shows "sees (intent_private_copy_path i b) (\<lambda>p _. below private_dir p)"
proof (cases "ii_private_relative_path i")
  case None
  then show ?thesis by (simp add: intent_private_copy_path_def private_copy_sees)
next
  case (Some r)
  with assms have "below private_dir (path_segments r)" by (auto simp: intent_for_def dest: private_segments)
  with Some show ?thesis
    by (auto simp: intent_private_copy_path_def intro: sees_imp [OF resolve_sees])
qed

lemma validate_intent_sees:
  "sees (validate_intent op p i) (\<lambda>_ _. case ii_private_relative_path i of
     None \<Rightarrow> True | Some r \<Rightarrow> private_copy_relative_path (art_id (ii_artifact i)) = Inr r)"
proof (cases "ii_private_relative_path i")
  case None
  then show ?thesis by (simp add: sees_def)
next
  case (Some r)
  let ?P = "\<lambda>_. True" and ?V = "private_copy_relative_path (art_id (ii_artifact i)) = Inr r"
  have copied: "safe (\<lambda>_. True) (andthen (lift (private_copy_relative_path (art_id (ii_artifact i)))) (\<lambda>expected.
        followed (lift (ensure (r = expected)
            (ingest_conflict (art_id (ii_artifact i)) ''intent private copy path does not match its artifact id'')))
          (resolve_artifact r False))) (\<lambda>_ _. ?V) (\<lambda>_ _. True)"
    by (rule lift_then, simp, rule ensure_followed, simp, rule safe_quiet [where P = ?P and A = "\<lambda>_. True", THEN safe_imp])
      (auto intro: frame rest_rules)
  have "safe (\<lambda>_. True) (validate_intent op p i) (\<lambda>_ _. ?V) (\<lambda>_ _. True)"
    unfolding validate_intent_def Let_def Some option.case
    apply (rule safe_with_state_inv)
    apply (rule lift_followed, simp)+
    apply (rule skip_followed [where P = ?P], (intro frame rest_rules TrueI)+)
    apply (rule safe_followed [OF copied])
    by (rule skip_followed [where P = ?P], (intro frame rest_rules TrueI)+, simp, rule safe_ret, simp)
  with Some show ?thesis by (auto intro: sees_safe)
qed

lemma resume_sees: "sees (resume_intent h state p staged sp limit) (\<lambda>i _. intent_for sp i)"
proof (rule sees_safe)
  let ?P = "\<lambda>_. True"
  have spec: "ensure_intent_matches_request i staged sp = Inr u \<Longrightarrow> spec_matches_artifact sp (ii_artifact i)" for i u
    by (auto simp: ensure_intent_matches_request_def rthen_eq_Inr ensure_eq_Inr)
  have step: "safe (\<lambda>_. True) (followed (validate_intent (ss_operation_id state) p i)
         (followed (lift (ensure_intent_matches_request i staged sp))
         (followed
           (lift (ensure (\<not> limit < art_size_bytes (ii_artifact i))
             (FileLimitExceeded limit (art_size_bytes (ii_artifact i)))))
           (ret i)))) (\<lambda>i _. intent_for sp i) (\<lambda>_ _. True)" for i
    unfolding followed_def [of "validate_intent (ss_operation_id state) p i"]
    apply (rule know_then [where P = ?P, OF validate_intent_sees], (intro frame rest_rules TrueI)+)
    apply (rule lift_followed, simp)+
    by (rule safe_ret) (auto simp: intent_for_def dest: spec)
  show "safe (\<lambda>_. True) (resume_intent h state p staged sp limit) (\<lambda>i _. intent_for sp i) (\<lambda>_ _. True)"
    unfolding resume_intent_def
    by (rule skip_then [where P = ?P], (intro frame rest_rules TrueI)+) (auto intro!: step safe_throw split: sum.splits)
qed

subsection \<open>Invariants\<close>

locale session_invariant =
  fixes h :: host and J :: "session_store \<Rightarrow> bool" and permitted :: "path \<Rightarrow> bool"
  assumes J_rests: "rests data J"
    and J_create: "J s \<Longrightarrow> permitted p \<Longrightarrow> file_at p s = None \<Longrightarrow> J (set_node p n s)"
    and J_record: "J s \<Longrightarrow> permitted (dest a) \<Longrightarrow> (owned (dest a) \<Longrightarrow> present h a s) \<Longrightarrow>
      file_at (record_path catalog_dir (art_id a)) s = None \<Longrightarrow>
      J (set_node (record_path catalog_dir (art_id a)) (NFile (Doc (DArtifact a))) s)"
begin

lemma quiet: "leaves data m \<Longrightarrow> rests data A \<Longrightarrow> safe (\<lambda>s. J s \<and> A s) m (\<lambda>_. J) (\<lambda>_. J)"
  by (rule safe_quiet [THEN safe_imp, OF _ rests_conj [OF J_rests]]) auto

lemma J_skip_then: "leaves data m \<Longrightarrow> rests data A \<Longrightarrow> (\<And>x. safe (\<lambda>s. J s \<and> A s) (f x) Q (\<lambda>_. J)) \<Longrightarrow>
    safe (\<lambda>s. J s \<and> A s) (andthen m f) Q (\<lambda>_. J)"
  by (rule Session_Facts.skip_then [OF _ rests_conj [OF J_rests]]) auto

lemma J_skip_followed: "leaves data m \<Longrightarrow> rests data A \<Longrightarrow> safe (\<lambda>s. J s \<and> A s) n Q (\<lambda>_. J) \<Longrightarrow>
    safe (\<lambda>s. J s \<and> A s) (followed m n) Q (\<lambda>_. J)"
  by (rule Session_Facts.skip_followed [OF _ rests_conj [OF J_rests]]) auto

lemma J_see_then: "sees m F \<Longrightarrow> leaves data m \<Longrightarrow> rests data A \<Longrightarrow>
    (\<And>x. safe (\<lambda>s. J s \<and> (A s \<and> F x s)) (f x) Q (\<lambda>_. J)) \<Longrightarrow> safe (\<lambda>s. J s \<and> A s) (andthen m f) Q (\<lambda>_. J)"
  by (rule Session_Facts.see_then [OF _ _ rests_conj [OF J_rests]]) (auto simp: conj_assoc)

lemma J_see_followed: "sees m (\<lambda>_. F) \<Longrightarrow> leaves data m \<Longrightarrow> rests data A \<Longrightarrow>
    safe (\<lambda>s. J s \<and> (A s \<and> F s)) n Q (\<lambda>_. J) \<Longrightarrow> safe (\<lambda>s. J s \<and> A s) (followed m n) Q (\<lambda>_. J)"
  unfolding followed_def by (rule J_see_then)

lemma J_know_then: "sees m (\<lambda>x _. V x) \<Longrightarrow> leaves data m \<Longrightarrow> rests data A \<Longrightarrow>
    (\<And>x. V x \<Longrightarrow> safe (\<lambda>s. J s \<and> A s) (f x) Q (\<lambda>_. J)) \<Longrightarrow> safe (\<lambda>s. J s \<and> A s) (andthen m f) Q (\<lambda>_. J)"
  by (erule Session_Facts.know_then [OF _ _ rests_conj [OF J_rests]]) auto

lemma with_store: "(\<And>s. safe A (f s) Q (\<lambda>_. J)) \<Longrightarrow> safe A (with_state f) Q (\<lambda>_. J)"
  by (rule safe_with_state_inv)

lemma start: "safe (\<lambda>s. J s \<and> True) m Q E \<Longrightarrow> safe J m Q E"
  by simp

lemma forget: "safe J m Q E \<Longrightarrow> safe (\<lambda>s. J s \<and> A s) m Q E"
  by (rule safe_pre_imp) auto

lemmas go = J_skip_followed J_skip_then with_store

lemma quiet_op: "leaves data m \<Longrightarrow> safe J m (\<lambda>_. J) (\<lambda>_. J)"
  by (rule start) (intro quiet rest_rules)

lemma write_new_json:
  assumes A: "rests data A" and p: "data p" "\<not> below staging_dir p"
    and kept: "\<And>s. J s \<Longrightarrow> A s \<Longrightarrow> file_at p s = None \<Longrightarrow> J (set_node p (NFile (Doc d)) s)"
  shows "safe (\<lambda>s. J s \<and> A s) (write_serialized_json_atomic p d True) (\<lambda>_. J) (\<lambda>_. J)"
proof -
  let ?N = "\<lambda>s. A s \<and> file_at p s = None"
  have N: "rests data ?N" using A p by (intro rest_rules)
  have put: "safe (\<lambda>s. J s \<and> ?N s) (put p (Some (NFile (Doc d)))) (\<lambda>_. J) (\<lambda>_. J)"
    using kept by (simp add: safe_def put_some)
  have absent: "safe (\<lambda>s. J s \<and> A s) (andthen (path_entry_exists p)
        (\<lambda>there. if there then throw (ArtifactExists p) else ret ())) (\<lambda>_ s. J s \<and> ?N s) (\<lambda>_. J)"
    by (rule J_see_then [OF entry_sees _ A], intro frame) (auto simp: safe_def se_defs)
  show ?thesis
    unfolding write_serialized_json_atomic_def if_True
    by (rule safe_followed [OF absent], (rule put | rule J_skip_followed [OF _ N] | intro frame frame_rules)+)
qed

lemma put_safe:
  assumes "permitted p"
  shows "safe (\<lambda>s. J s \<and> vacant p s) (put p (Some n)) (\<lambda>_. J) (\<lambda>_. J)"
proof (cases "data p")
  case True
  then show ?thesis using assms by (simp add: safe_def put_some J_create vacant_def)
next
  case False
  then show ?thesis by (intro forget quiet_op frame)
qed

lemma verify_sees: "sees (verify_artifact h a True) (\<lambda>_ s. owned (dest a) \<longrightarrow> present h a s)"
proof (cases "owned (dest a)")
  case True
  then show ?thesis by (intro sees_imp [OF verify_artifact_sees]) simp_all
qed (simp add: sees_def)

lemma register_safe:
  assumes "permitted (dest a)"
  shows "safe J (register_artifact h lock a) (\<lambda>_. J) (\<lambda>_. J)"
proof -
  have verified: "safe (\<lambda>s. J s \<and> True) (followed (verify_artifact h a True)
      (write_serialized_json_atomic (record_path catalog_dir (art_id a)) (DArtifact a) True)) (\<lambda>_. J) (\<lambda>_. J)"
    using assms
    by (intro J_see_followed [OF verify_sees] write_new_json frame rest_rules)
      (auto intro: J_record)
  have new: "safe (\<lambda>s. J s \<and> True) (followed (ensure_lifecycle_mutation_allowed h)
          (followed (lift (ensure_artifact_catalog_slot as (art_id a) (art_relative_path a)))
          (andthen (lift (serialize_json_document h ''artifact catalog record'' (DArtifact a))) (\<lambda>bytes.
           followed (ensure_additional_capacity h (word_of_nat (length bytes)))
           (followed (verify_artifact h a True)
             (write_serialized_json_atomic (record_path catalog_dir (art_id a)) (DArtifact a) True))))))
      (\<lambda>_. J) (\<lambda>_. J)" for as
    by (rule verified | (rule go, (intro frame frame_rules rest_rules)+))+
  show ?thesis
    apply (rule start)
    unfolding register_artifact_def
    by (rule go, (intro frame frame_rules rest_rules)+)+ (auto intro: new [simplified] quiet_op frame frame_rules split: option.splits)
qed

end

end
