(* ===== verification/Session_Writer.thy ===== *)
theory Session_Writer
  imports Session_Ingest
begin

text \<open>
  Artifacts the host writes itself (\<open>crates/t32perf-session/src/artifact.rs\<close>): the streaming writer
  with its limits, its commit, files written to \<open>capture/staging\<close> by the host, and the checks of
  retained staging sources.
\<close>

subsection \<open>The writer\<close>

record artifact_writer =
  wr_destination :: path
  wr_spec :: artifact_spec
  wr_bytes :: "u8 list"
  wr_size :: u64
  wr_baseline :: u64
  wr_max_file :: u64
  wr_max_session :: u64
  wr_reservation :: u64
  wr_session :: string

definition spec_reservation :: "artifact_spec \<Rightarrow> (store_error, artifact) res" where
  "spec_reservation sp =
     rbind
       (map_err (\<lambda>_. InvalidDocument ''artifact catalog reservation'' ''invalid digest'')
         (digest_new (replicate 64 (CHR ''0''))))
       (\<lambda>d. Inr (into_artifact sp (- 1) d))"

definition reserve_active_writer :: "unit st" where
  "reserve_active_writer =
     with_state (\<lambda>s.
       if st_writer s then throw (ArtifactWriterActive (st_id s))
       else modify (\<lambda>s. s\<lparr>st_writer := True\<rparr>))"

definition release_active_writer :: "string \<Rightarrow> unit st" where
  "release_active_writer session =
     modify (\<lambda>s. if st_id s = session then s\<lparr>st_writer := False\<rparr> else s)"

text \<open>A step after which the writer is dropped, whether it succeeds or not.\<close>

definition dropping :: "string \<Rightarrow> 'a st \<Rightarrow> 'a st" where
  "dropping session m s =
     (case m s of (r, t) \<Rightarrow> (r, snd (release_active_writer session t)))"

text \<open>A step whose failure drops the writer.\<close>

definition dropping_on_error :: "string \<Rightarrow> 'a st \<Rightarrow> 'a st" where
  "dropping_on_error session m s =
     (case m s of (Inr a, t) \<Rightarrow> (Inr a, t) | (Inl e, t) \<Rightarrow> (Inl e, snd (release_active_writer session t)))"

definition writer_new :: "path \<Rightarrow> artifact_spec \<Rightarrow> u64 \<Rightarrow> u64 \<Rightarrow> u64 \<Rightarrow> u64 \<Rightarrow> string \<Rightarrow> artifact_writer st" where
  "writer_new destination sp baseline max_file max_session reservation session =
     followed (lift (validate_spec sp))
     (andthen (path_entry_exists destination) (\<lambda>there.
      followed (lift (ensure (\<not> there) (ArtifactExists destination)))
     (followed reserve_active_writer
     (followed (dropping_on_error session (sys ''open atomic artifact'' destination))
       (ret \<lparr>wr_destination = destination, wr_spec = sp, wr_bytes = [], wr_size = 0,
             wr_baseline = baseline, wr_max_file = max_file, wr_max_session = max_session,
             wr_reservation = reservation, wr_session = session\<rparr>)))))"

definition create_artifact :: "host \<Rightarrow> string \<Rightarrow> artifact_spec \<Rightarrow> artifact_writer st" where
  "create_artifact h lock sp =
     followed (ensure_lock lock)
     (followed (lift (validate_spec sp))
     (followed (ensure_lifecycle_mutation_allowed h)
     (andthen (registered_artifacts h False) (\<lambda>as.
      followed (lift (ensure_artifact_catalog_slot as (sp_id sp) (sp_relative_path sp)))
     (andthen (resolve_artifact (sp_relative_path sp) True) (\<lambda>destination.
      andthen (lift (spec_reservation sp)) (\<lambda>reservation.
      andthen (lift (serialize_json_document h ''artifact catalog record'' (DArtifact reservation))) (\<lambda>catalog_bytes.
      andthen (directory_size h) (\<lambda>baseline.
      with_state (\<lambda>s.
      let limit = max_session_bytes (st_limits s) in
      andthen
        (lift (ok_or (checked_add baseline (bytes_len catalog_bytes)) (SessionLimitExceeded limit (- 1)))) (\<lambda>reserved.
      followed (lift (ensure (\<not> limit < reserved) (SessionLimitExceeded limit reserved)))
        (writer_new destination sp baseline (max_file_bytes (st_limits s)) limit (bytes_len catalog_bytes)
          (st_id s)))))))))))))"

definition saturating_add :: "u64 \<Rightarrow> u64 \<Rightarrow> u64" where
  "saturating_add a b = (case checked_add a b of Some c \<Rightarrow> c | None \<Rightarrow> - 1)"

definition remaining_capacity :: "artifact_writer \<Rightarrow> (store_error, u64) res" where
  "remaining_capacity w =
     (let file_remaining = saturating_sub (wr_max_file w) (wr_size w);
          used = saturating_add (saturating_add (wr_baseline w) (wr_reservation w)) (wr_size w) in
      rthen (ensure (\<not> wr_max_session w < used) (SessionLimitExceeded (wr_max_session w) used))
        (Inr (min file_remaining (wr_max_session w - used))))"

text \<open>One call of \<open>write\<close>; \<open>n\<close> is how many of the bytes the file takes.\<close>

definition writer_write :: "u8 list \<Rightarrow> nat \<Rightarrow> artifact_writer \<Rightarrow> artifact_writer st" where
  "writer_write buffer n w =
     (let requested = bytes_len buffer; written = take n buffer in
      andthen (lift (remaining_capacity w)) (\<lambda>remaining.
        if remaining < requested then
          let file' = saturating_add (wr_size w) requested;
              session' = saturating_add (saturating_add (wr_baseline w) (wr_reservation w)) file' in
          throw (if wr_max_file w < file' then FileLimitExceeded (wr_max_file w) file'
                 else SessionLimitExceeded (wr_max_session w) session')
        else
          followed (sys ''write artifact'' (wr_destination w))
            (ret (w\<lparr>wr_bytes := wr_bytes w @ written, wr_size := wr_size w + bytes_len written\<rparr>))))"

text \<open>
  \<open>write_all\<close>: the file takes \<open>accept n\<close> of \<open>n\<close> bytes. An error of the writer is an I/O error here.
\<close>

function write_all :: "(nat \<Rightarrow> nat) \<Rightarrow> u8 list \<Rightarrow> artifact_writer \<Rightarrow> artifact_writer st" where
  "write_all accept buffer w =
     (if buffer = [] then ret w
      else
        let n = min (accept (length buffer)) (length buffer) in
        andthen (writer_write buffer n w) (\<lambda>w.
          if n = 0 then throw (Io ''write zero'' (wr_destination w) False)
          else write_all accept (drop n buffer) w))"
  by pat_completeness auto
termination
  by (relation "measure (\<lambda>(accept, buffer, w). length buffer)") auto

declare write_all.simps [simp del]

text \<open>
  Committing. The temporary file of the writer is in the directory that is measured, so its size is
  part of what is observed.
\<close>

definition finish_writer :: "host \<Rightarrow> artifact_writer \<Rightarrow> artifact st" where
  "finish_writer h w =
     with_state (\<lambda>s.
     let limit_error = SessionLimitExceeded (wr_max_session w) in
     followed (lift (ensure (wr_session w = st_id s) (ArtifactWriterSessionMismatch (st_id s))))
     (andthen (directory_size h) (\<lambda>others.
      andthen (lift (ok_or (checked_add others (wr_size w)) (SessionLimitExceeded (- 1) (- 1)))) (\<lambda>observed.
      andthen (lift (ok_or (checked_add (wr_baseline w) (wr_size w)) (limit_error (- 1)))) (\<lambda>expected.
      andthen (lift (ok_or (checked_add (max observed expected) (wr_reservation w)) (limit_error (- 1)))) (\<lambda>peak.
      followed (lift (ensure (\<not> wr_max_session w < peak) (limit_error peak)))
     (andthen (path_entry_exists (wr_destination w)) (\<lambda>there.
      if there then
        followed (sys ''discard atomic artifact'' (wr_destination w)) (throw (ArtifactExists (wr_destination w)))
      else
        followed (sys ''commit atomic artifact'' (wr_destination w))
        (followed (put (wr_destination w) (Some (NFile (Bytes (wr_bytes w)))))
        (andthen (lift (digest_of h (wr_bytes w))) (\<lambda>digest.
          ret (into_artifact (wr_spec w) (wr_size w) digest))))))))))))"

definition commit_artifact :: "host \<Rightarrow> string \<Rightarrow> artifact_writer \<Rightarrow> artifact st" where
  "commit_artifact h lock w =
     andthen
       (dropping (wr_session w)
         (followed (ensure_lock lock) (followed (ensure_lifecycle_mutation_allowed h) (finish_writer h w))))
       (\<lambda>a. followed (register_artifact h lock a) (ret a))"

text \<open>\<open>json\<close> is the pretty-printed value, \<open>accept\<close> what the file takes of each write.\<close>

definition write_json_artifact :: "host \<Rightarrow> string \<Rightarrow> artifact_spec \<Rightarrow> u8 list \<Rightarrow> (nat \<Rightarrow> nat) \<Rightarrow> artifact st" where
  "write_json_artifact h lock sp json accept =
     andthen (create_artifact h lock sp) (\<lambda>w.
     andthen
       (dropping_on_error (wr_session w)
         (andthen (write_all accept json w) (\<lambda>w. write_all accept [10] w))) (\<lambda>w.
       commit_artifact h lock w))"

subsection \<open>Staging files of the host\<close>

definition staged_path :: "artifact_path \<Rightarrow> bool \<Rightarrow> path st" where
  "staged_path relative create_parents =
     andthen
       (lift (map_err (\<lambda>_. InvalidStagingPath (as_path relative))
         (artifact_path_new (''capture/staging/'' @ as_path relative))))
       (\<lambda>combined. resolve_artifact combined create_parents)"

definition prepare_staging_path :: "host \<Rightarrow> string \<Rightarrow> artifact_path \<Rightarrow> path st" where
  "prepare_staging_path h lock relative =
     followed (ensure_lock lock)
     (followed (ensure_lifecycle_mutation_allowed h)
       (staged_path relative True))"

definition read_staged_bounded :: "host \<Rightarrow> artifact_path \<Rightarrow> u64 \<Rightarrow> u8 list st" where
  "read_staged_bounded h relative max_bytes =
     (let error = MetadataLimitExceeded ''staged control file'' max_bytes in
      andthen (staging_path relative) (\<lambda>p.
      andthen (open_existing_plain_file p) (\<lambda>c.
      followed (lift (ensure (\<not> max_bytes < content_len h c) (error (content_len h c))))
      (andthen (read_open_file ''read staged control file'' p) (\<lambda>c.
       followed (lift (ensure (\<not> max_bytes < content_len h c) (error (content_len h c))))
         (ret (content_bytes h c)))))))"

text \<open>\<open>unique\<close> is the fresh identifier in the name of the temporary file.\<close>

definition exact_staging_temporary_path :: "string \<Rightarrow> path \<Rightarrow> path" where
  "exact_staging_temporary_path unique p =
     butlast p @ [''.'' @ last p @ ''.'' @ unique @ ''.partial'']"

definition create_new_plain_file :: "path \<Rightarrow> unit st" where
  "create_new_plain_file p =
     followed (sys ''create plain file'' p)
     (andthen (query (node_at p)) (\<lambda>n.
      followed (lift (ensure (n = None) (Io ''create plain file'' p False)))
      (followed (put p (Some (NFile (Bytes []))))
      (andthen (ensure_plain_file p) (\<lambda>_. ret ())))))"

text \<open>A hard link that does nothing where an entry exists already.\<close>

definition link_file :: "path \<Rightarrow> path \<Rightarrow> unit st" where
  "link_file source target =
     followed (sys ''publish exact staged bytes without replacement'' target)
     (with_state (\<lambda>s. case (node_at target s, node_at source s) of
        (Some _, _) \<Rightarrow> ret ()
      | (None, None) \<Rightarrow> throw (Io ''publish exact staged bytes without replacement'' target True)
      | (None, Some n) \<Rightarrow> followed (put target (Some n)) (sync_directory (butlast target))))"

definition publish_exact :: "host \<Rightarrow> string \<Rightarrow> artifact_path \<Rightarrow> path \<Rightarrow> u8 list \<Rightarrow> u64 \<Rightarrow> unit st" where
  "publish_exact h unique staged_relative p bytes limit =
     (let tmp = exact_staging_temporary_path unique p in
      followed (create_new_plain_file tmp)
      (followed (sys ''write exact staged temporary bytes'' tmp)
      (followed (put tmp (Some (NFile (Bytes bytes))))
      (followed (sys ''sync exact staged temporary bytes'' tmp)
      (followed (ensure_plain_file tmp)
      (followed (link_file tmp p)
      (andthen (read_staged_bounded h staged_relative limit) (\<lambda>existing.
       followed
         (lift (ensure (existing = bytes)
           (IngestIntentConflict (as_path staged_relative)
             ''host-owned staging file conflicts with exact temporary bytes'')))
       (andthen (attempt (followed (sys ''remove temporary file'' tmp) (put tmp None))) (\<lambda>_. ret ()))))))))))"

definition ensure_staged_exact :: "host \<Rightarrow> string \<Rightarrow> string \<Rightarrow> artifact_path \<Rightarrow> u8 list \<Rightarrow> u64 \<Rightarrow> unit st" where
  "ensure_staged_exact h lock unique staged_relative bytes max_bytes =
     followed (ensure_lock lock)
     (followed (ensure_lifecycle_mutation_allowed h)
     (with_state (\<lambda>s.
      let limit = min max_bytes (max_file_bytes (st_limits s)); actual = bytes_len bytes in
      followed (lift (ensure (bytes \<noteq> [] \<and> \<not> limit < actual) (FileLimitExceeded limit actual)))
      (andthen (prepare_staging_path h lock staged_relative) (\<lambda>p.
       andthen (plain_file_metadata p) (\<lambda>m. case m of
         Some _ \<Rightarrow>
           andthen (read_staged_bounded h staged_relative limit) (\<lambda>existing.
             lift (ensure (existing = bytes)
               (IngestIntentConflict (as_path staged_relative)
                 ''host-owned staging file contains conflicting bytes'')))
       | None \<Rightarrow> publish_exact h unique staged_relative p bytes limit))))))"

subsection \<open>Retained staging sources\<close>

definition verify_source_size :: "host \<Rightarrow> committed_source \<Rightarrow> unit st" where
  "verify_source_size h c =
     andthen (staging_path (cs_staged_relative_path c)) (\<lambda>p.
     andthen (ensure_plain_file p) (\<lambda>f.
       lift (ensure (content_len h f = cs_size_bytes c)
         (ArtifactSizeMismatch (cs_artifact_id c) (cs_size_bytes c) (content_len h f)))))"

definition verify_committed_staging_sources_shallow :: "host \<Rightarrow> committed_source list st" where
  "verify_committed_staging_sources_shallow h =
     andthen (committed_staging_sources h) (\<lambda>cs.
       followed (for_each (verify_source_size h) cs) (ret cs))"

definition verify_source :: "host \<Rightarrow> artifact list \<Rightarrow> committed_source \<Rightarrow> unit st" where
  "verify_source h catalogs c =
     (case find (\<lambda>a. art_id a = cs_artifact_id c) catalogs of
        None \<Rightarrow> panic
      | Some a \<Rightarrow>
          andthen (resolve_artifact (art_relative_path a) False) (\<lambda>destination.
          followed (ensure_matching_artifact_file h destination a ''committed artifact destination'')
          (andthen (staging_path (cs_staged_relative_path c)) (\<lambda>staged.
            ensure_matching_artifact_file h staged
              \<lparr>art_id = cs_artifact_id c, art_kind = art_kind a, art_relative_path = cs_staged_relative_path c,
               art_media_type = art_media_type a, art_size_bytes = cs_size_bytes c, art_sha256 = cs_sha256 c,
               art_producer = art_producer a, art_input_artifact_ids = []\<rparr>
              ''retained staging source''))))"

definition verify_committed_staging_sources :: "host \<Rightarrow> committed_source list st" where
  "verify_committed_staging_sources h =
     andthen (verify_committed_staging_sources_shallow h) (\<lambda>cs.
     andthen (catalog_records_unverified h) (\<lambda>catalogs.
       followed (for_each (verify_source h catalogs) cs) (ret cs)))"

subsection \<open>The limits of the writer\<close>

text \<open>
  Whatever a file takes of each write, the size counts the bytes that were written and neither limit
  is passed.
\<close>

definition within_limits :: "artifact_writer \<Rightarrow> bool" where
  "within_limits w \<longleftrightarrow>
     unat (wr_size w) = length (wr_bytes w) \<and> unat (wr_size w) \<le> unat (wr_max_file w) \<and>
     unat (wr_baseline w) + unat (wr_reservation w) + unat (wr_size w) \<le> unat (wr_max_session w)"

lemma saturating_add_exact: "unat a + unat b \<le> unat (c :: u64) \<Longrightarrow> unat (saturating_add a b) = unat a + unat b"
proof -
  assume le: "unat a + unat b \<le> unat c"
  note le
  also have "unat c < 2 ^ LENGTH(64)" by (rule unsigned_less)
  finally have "unat a + unat b < 2 ^ LENGTH(64)" .
  then show ?thesis by (simp add: saturating_add_def checked_add_unat unat_word_ariths)
qed

lemma remaining_bound:
  assumes "remaining_capacity w = Inr r" "within_limits w"
  shows "unat (wr_size w) + unat r \<le> unat (wr_max_file w)"
    "unat (wr_baseline w) + unat (wr_reservation w) + unat (wr_size w) + unat r \<le> unat (wr_max_session w)"
proof -
  define used where "used = saturating_add (saturating_add (wr_baseline w) (wr_reservation w)) (wr_size w)"
  have lim: "unat (wr_baseline w) + unat (wr_reservation w) + unat (wr_size w) \<le> unat (wr_max_session w)"
    "unat (wr_size w) \<le> unat (wr_max_file w)"
    using assms(2) by (simp_all add: within_limits_def)
  have inner: "unat (saturating_add (wr_baseline w) (wr_reservation w)) = unat (wr_baseline w) + unat (wr_reservation w)"
    using lim(1) by (intro saturating_add_exact [where c = "wr_max_session w"]) simp
  then have used: "unat used = unat (wr_baseline w) + unat (wr_reservation w) + unat (wr_size w)"
    using lim(1) unfolding used_def by (simp add: saturating_add_exact [where c = "wr_max_session w"])
  have r: "r = min (saturating_sub (wr_max_file w) (wr_size w)) (wr_max_session w - used)"
    using assms(1) by (simp add: remaining_capacity_def Let_def rthen_eq_Inr used_def)
  have "unat (wr_max_session w - used) = unat (wr_max_session w) - unat used"
    using used lim(1) by (intro unat_sub) (simp add: word_le_nat_alt)
  moreover have "unat r \<le> unat (saturating_sub (wr_max_file w) (wr_size w))" "unat r \<le> unat (wr_max_session w - used)"
    unfolding r by (simp_all add: min_def word_le_nat_alt)
  ultimately show "unat (wr_size w) + unat r \<le> unat (wr_max_file w)"
    "unat (wr_baseline w) + unat (wr_reservation w) + unat (wr_size w) + unat r \<le> unat (wr_max_session w)"
    using used lim by simp_all
qed

lemma write_limits:
  assumes "writer_write buffer n w s = (Inr w', t)" "within_limits w" "length buffer < 2 ^ 64"
  shows "within_limits w'" "wr_bytes w' = wr_bytes w @ take n buffer" "wr_max_file w' = wr_max_file w"
    "wr_max_session w' = wr_max_session w"
proof -
  obtain r where r: "remaining_capacity w = Inr r" "\<not> r < bytes_len buffer"
    and w': "w' = w\<lparr>wr_bytes := wr_bytes w @ take n buffer, wr_size := wr_size w + bytes_len (take n buffer)\<rparr>"
    using assms(1) by (auto simp: writer_write_def Let_def se_defs split: sum.splits if_splits prod.splits)
  have len: "unat (bytes_len b) = length b" if "length b < 2 ^ 64" for b :: "u8 list"
    using that by (simp add: bytes_len_def unat_of_nat take_bit_nat_eq_self)
  have "length (take n buffer) \<le> unat r"
    using r(2) len [OF assms(3)] by (simp add: word_less_nat_alt)
  moreover have "unat (bytes_len (take n buffer)) = length (take n buffer)"
    using assms(3) by (intro len) simp
  moreover note remaining_bound [OF r(1) assms(2)]
  moreover have "unat (wr_max_file w) < 2 ^ 64" using unsigned_less [of "wr_max_file w"] by simp
  ultimately have size: "unat (wr_size w + bytes_len (take n buffer)) = unat (wr_size w) + length (take n buffer)"
    by (subst unat_word_ariths) simp
  with \<open>length (take n buffer) \<le> unat r\<close> remaining_bound [OF r(1) assms(2)] assms(2)
  show "within_limits w'"
    by (simp add: within_limits_def w' del: length_take)
  show "wr_bytes w' = wr_bytes w @ take n buffer" "wr_max_file w' = wr_max_file w" "wr_max_session w' = wr_max_session w"
    by (simp_all add: w')
qed

lemma write_all_limits:
  "write_all accept buffer w s = (Inr w', t) \<Longrightarrow> within_limits w \<Longrightarrow> length buffer < 2 ^ 64 \<Longrightarrow>
     within_limits w' \<and> wr_bytes w' = wr_bytes w @ buffer \<and> wr_max_file w' = wr_max_file w \<and>
     wr_max_session w' = wr_max_session w"
proof (induction "length buffer" arbitrary: buffer w s rule: less_induct)
  case less
  show ?case
  proof (cases "buffer = []")
    case True
    with less.prems show ?thesis by (simp add: write_all.simps [of accept "[]"] ret_def)
  next
    case False
    define n where "n = min (accept (length buffer)) (length buffer)"
    obtain v u where v: "writer_write buffer n w s = (Inr v, u)"
      and n: "n \<noteq> 0" and rest: "write_all accept (drop n buffer) v u = (Inr w', t)"
      using less.prems(1) False
      by (subst (asm) write_all.simps)
        (auto simp: n_def [symmetric] Let_def andthen_def throw_def split: prod.splits sum.splits if_splits)
    note step = write_limits [OF v less.prems(2,3)]
    have "within_limits w' \<and> wr_bytes w' = wr_bytes v @ drop n buffer \<and> wr_max_file w' = wr_max_file v \<and>
        wr_max_session w' = wr_max_session v"
      by (rule less.hyps [OF _ rest step(1)]) (use less.prems(3) n False in auto)
    with step show ?thesis by simp
  qed
qed

lemma create_limits:
  assumes "create_artifact h lock sp s = (Inr w, t)"
  shows "within_limits w" "wr_bytes w = []" "wr_spec w = sp"
proof -
  obtain u v baseline bytes limit where lim: "\<not> limit < v" "checked_add baseline (bytes_len bytes) = Some v"
    and w: "wr_baseline w = baseline" "wr_reservation w = bytes_len bytes" "wr_max_session w = limit"
      "wr_size w = 0" "wr_bytes w = []" "wr_spec w = sp"
    using assms
    by (auto simp: create_artifact_def writer_new_def dropping_on_error_def Let_def se_defs ok_or_def ensure_def
        split: sum.splits prod.splits option.splits if_splits)
  then show "within_limits w" "wr_bytes w = []" "wr_spec w = sp"
    by (simp_all add: within_limits_def checked_add_Some not_less word_le_nat_alt)
qed

end
