(* ===== verification/Session_Publish.thy ===== *)
theory Session_Publish
  imports Session_Invariants Session_Writer
begin

text \<open>
  Staged ingest preserves every session invariant: a private copy is published only where there is
  no file, and a destination that is copied keeps its bytes.
\<close>

lemma classify_pending: "fst (classify_files st pr de cataloged) = Pending \<Longrightarrow> de = EvMissing"
  by (cases "(st, pr, de, cataloged)" rule: classify_files.cases) (auto split: if_splits)

lemma assess_sees:
  "sees (assess_intent h i catalogs) (\<lambda>r s. fst r = Pending \<longrightarrow> vacant (dest (ii_artifact i)) s)"
proof (cases "exact_catalog_state catalogs (ii_artifact i)")
  case (Inl d)
  then show ?thesis by (simp add: assess_intent_def sees_def se_defs)
next
  case (Inr cataloged)
  let ?P = "\<lambda>_. True" and ?Q = "\<lambda>r. \<lambda>s. fst r = Pending \<longrightarrow> vacant (dest (ii_artifact i)) s"
  have path: "safe (\<lambda>_. True) (resolved m f) ?Q (\<lambda>_ _. True)"
    if "leaves ?P m" "sees m (\<lambda>p _. V p)" "\<And>p. V p \<Longrightarrow> safe (\<lambda>_. True) (f p) ?Q (\<lambda>_ _. True)" for m f V
    unfolding resolved_def
    by (rule know_then [where P = ?P and V = "\<lambda>r. case r of Inl _ \<Rightarrow> True | Inr p \<Rightarrow> V p"])
      (use that in \<open>auto intro!: safe_ret frame rest_rules sees_imp [OF attempt_sees] split: sum.splits\<close>)
  have any: "sees m (\<lambda>p _. True)" for m :: "path st" by (simp add: sees_def)
  have last: "safe (\<lambda>_. True) (andthen (artifact_file_evidence h (dest (ii_artifact i)) (ii_artifact i)) (\<lambda>destination.
      ret (classify_files st pr destination cataloged))) ?Q (\<lambda>_ _. True)" for st pr
    by (rule see_then [where P = ?P, OF evidence_missing]) (auto intro!: frame rest_rules safe_ret simp: vacant_def dest: classify_pending)
  have "safe (\<lambda>_. True) (assess_intent h i catalogs) ?Q (\<lambda>_ _. True)"
    unfolding assess_intent_def Let_def Inr sum.case
    apply (rule path [OF _ any], intro frame)
    apply (rule path [OF _ resolve_sees], intro frame, simp only:)
    apply (rule path [OF _ any], intro frame)
    apply (rule skip_then [where P = ?P], (intro frame rest_rules TrueI)+)
    apply (rule skip_then [where P = ?P], (intro frame rest_rules TrueI)+)
    by (rule last)
  with Inr show ?thesis by (auto intro: sees_safe)
qed

lemma leaves_bool [frame]: "leaves P m \<Longrightarrow> leaves P n \<Longrightarrow> leaves P (case b of True \<Rightarrow> m | False \<Rightarrow> n)"
  by (cases b) auto

lemma leaves_resume [frame]: "leaves P (resume_intent h state p staged sp limit)"
  unfolding resume_intent_def by (intro frame frame_rules)

context session_invariant
begin

lemma rename_safe:
  assumes "permitted destination" "below private_dir src"
  shows "safe (\<lambda>s. J s \<and> vacant destination s) (rename_private src destination) (\<lambda>_. J) (\<lambda>_. J)"
proof -
  have move: "safe (\<lambda>s. J s \<and> vacant destination s) (followed (put destination (Some n)) (put src None))
      (\<lambda>_. J) (\<lambda>_. J)" for n
  proof (rule safe_followed [OF put_safe [OF assms(1)]])
    show "safe J (put src None) (\<lambda>_. J) (\<lambda>_. J)"
      using assms(2) by (intro quiet_op frame) simp
  qed
  show ?thesis
    unfolding rename_private_def
    by (rule go, ((intro frame frame_rules rest_rules)+)?)+
      (auto intro!: move intro: safe_throw split: option.splits)
qed

lemma publish_safe:
  assumes "permitted (dest (ii_artifact i))" "intent_for sp i"
  shows "safe (\<lambda>s. J s \<and> vacant (dest (ii_artifact i)) s)
    (publish_pending h lock i staged (dest (ii_artifact i)) limit) (\<lambda>_. J) (\<lambda>_. J)"
proof -
  have tail: "safe J (followed (sync_directory d)
      (followed (when_se b (sync_directory d'))
      (followed (ensure_matching_artifact_file h (dest (ii_artifact i)) (ii_artifact i) l)
        (register_artifact h lock (ii_artifact i))))) (\<lambda>_. J) (\<lambda>_. J)" for d b d' l
    by (rule start, (rule forget [OF register_safe [OF assms(1)]] | rule go, (intro frame frame_rules rest_rules)+)+)
  note move = safe_followed [OF rename_safe [OF assms(1)] tail]
  show ?thesis
    unfolding publish_pending_def Let_def
    by (rule move | rule J_know_then [OF intent_private_sees [OF assms(2)]] go |
        intro frame frame_rules rest_rules | simp)+
qed

text \<open>A destination that is replaced by a copy of its own bytes has the same content.\<close>

lemma migrate_safe: "safe J (migrate_legacy_destination h i limit b) (\<lambda>_. J) (\<lambda>_. J)"
proof -
  let ?p = "dest (ii_artifact i)"
  let ?F = "\<lambda>c s. data ?p \<longrightarrow> file_at ?p s = Some c"
  have rest: "rests data (?F c)" for c by (auto simp: rests_def steady_def data_staging)
  have same: "steady data s (set_node ?p (NFile c) s)" if "?F c s" for c s
    using that by (auto simp: steady_def node_at_def set_node_def file_at_def)
  have write': "safe (\<lambda>s. J s \<and> (True \<and> ?F c s)) (followed (put ?p (Some (NFile c)))
      (followed (sync_directory d) (ensure_matching_artifact_file h ?p (ii_artifact i) l))) (\<lambda>_. J) (\<lambda>_. J)" for c d l
  proof (rule safe_followed)
    show "safe (\<lambda>s. J s \<and> (True \<and> ?F c s)) (put ?p (Some (NFile c))) (\<lambda>_. J) (\<lambda>_. J)"
      using J_rests same unfolding rests_def by (auto simp: safe_def put_some)
    show "safe J (followed (sync_directory d) (ensure_matching_artifact_file h ?p (ii_artifact i) l)) (\<lambda>_. J) (\<lambda>_. J)"
      by (intro quiet_op frame frame_rules)
  qed
  have read: "sees (read_open_file ''read staged source'' ?p) ?F"
    by (rule sees_imp [OF read_open_file_sees]) simp
  have rest': "rests data (\<lambda>s. True \<and> ?F c s)" for c by (intro rests_conj rests_const rest)
  show ?thesis
    apply (rule start)
    unfolding migrate_legacy_destination_def Let_def
    apply (rule J_know_then [OF resolve_sees], (intro frame rest_rules)+, simp only:)
    by (rule write' | rule J_see_then [OF read] go | rule rest' |
        intro frame frame_rules rest_rules)+
qed

lemma settle_safe:
  assumes "permitted (dest (ii_artifact i))" "intent_for sp i"
  shows "safe J (settle_intent h lock i staged (dest (ii_artifact i)) limit) (\<lambda>_. J) (\<lambda>_. J)"
proof -
  have outcome: "safe (\<lambda>s. J s \<and> ((True \<and> catalog_is h catalogs s) \<and>
      (fst r = Pending \<longrightarrow> vacant (dest (ii_artifact i)) s)))
    (case r of (c, detail) \<Rightarrow> followed
       (when_se (ii_private_relative_path i = None \<and> (c = Resumable \<or> c = CommittedStale))
         (migrate_legacy_destination h i limit (c = Resumable)))
       (case c of
          Pending \<Rightarrow> publish_pending h lock i staged (dest (ii_artifact i)) limit
        | Resumable \<Rightarrow> resume_catalog h lock i
        | CommittedStale \<Rightarrow> ret ()
        | Conflict \<Rightarrow> throw (ingest_conflict (art_id (ii_artifact i)) detail))) (\<lambda>_. J) (\<lambda>_. J)" for r catalogs
  proof (cases r)
    case (Pair c detail)
    have resume: "safe J (resume_catalog h lock i) (\<lambda>_. J) (\<lambda>_. J)"
      apply (rule start)
      unfolding resume_catalog_def
      by (rule forget [OF register_safe [OF assms(1)]] | rule go | intro frame frame_rules rest_rules)+
    have migrate: "safe J (when_se b (migrate_legacy_destination h i limit b')) (\<lambda>_. J) (\<lambda>_. J)" for b b'
      by (rule safe_when) (auto intro: migrate_safe)
    show ?thesis
    proof (cases "c = Pending")
      case True
      have "safe (\<lambda>s. J s \<and> ((True \<and> catalog_is h catalogs s) \<and> vacant (dest (ii_artifact i)) s))
          (publish_pending h lock i staged (dest (ii_artifact i)) limit) (\<lambda>_. J) (\<lambda>_. J)"
        by (rule safe_pre_imp [OF _ publish_safe [OF assms]]) auto
      with Pair True show ?thesis by (simp add: when_se_def followed_def andthen_def ret_def safe_def)
    next
      case False
      have "safe J (case c of Pending \<Rightarrow> publish_pending h lock i staged (dest (ii_artifact i)) limit
          | Resumable \<Rightarrow> resume_catalog h lock i | CommittedStale \<Rightarrow> ret ()
          | Conflict \<Rightarrow> throw (ingest_conflict (art_id (ii_artifact i)) detail)) (\<lambda>_. J) (\<lambda>_. J)"
        using False by (cases c) (auto intro: resume safe_ret safe_throw)
      with Pair show ?thesis by (auto intro!: forget safe_followed [OF migrate])
    qed
  qed
  show ?thesis
    apply (rule start)
    unfolding settle_intent_def
    apply (rule J_see_then [OF catalog_sees], (intro frame rest_rules)+)
    by (rule J_see_then [OF assess_sees] | rule outcome | intro frame rest_rules)+
qed

lemma complete_safe:
  assumes "intent_for sp i"
  shows "safe J (complete_prepared_intent h (record_path intent_dir name) i limit)
    (\<lambda>i' s. J s \<and> intent_for sp i') (\<lambda>_. J)"
proof (cases "ii_phase i = Ready")
  case True
  with assms show ?thesis by (simp add: complete_prepared_intent_def safe_def se_defs)
next
  case False
  have ready: "safe (\<lambda>s. J s \<and> True) (ret (i\<lparr>ii_phase := Ready\<rparr>)) (\<lambda>i' s. J s \<and> intent_for sp i') (\<lambda>_. J)"
    using assms by (simp add: safe_def se_defs)
  from False show ?thesis
    unfolding complete_prepared_intent_def Let_def
    by (simp only: if_False, intro start)
      (rule ready | rule J_know_then [OF intent_private_sees [OF assms]] go | intro frame frame_rules rest_rules | simp)+
qed

lemma prepare_safe:
  "safe J (prepare_intent h state (record_path intent_dir name) staged destination staged_relative sp catalogs limit)
     (\<lambda>i s. J s \<and> intent_for sp i) (\<lambda>_. J)"
proof -
  have complete: "safe (\<lambda>s. J s \<and> True) (complete_prepared_intent h (record_path intent_dir name)
      \<lparr>ii_schema = sch, ii_session_id = sid, ii_operation_id = op, ii_staged_relative_path = sr,
       ii_private_relative_path = Some r, ii_phase = ph, ii_artifact = into_artifact sp n d\<rparr> limit)
      (\<lambda>i s. J s \<and> intent_for sp i) (\<lambda>_. J)"
    if "private_copy_relative_path (sp_id sp) = Inr r" for sch sid op sr r ph n d
    using that by (intro forget complete_safe) (simp add: intent_for_def into_artifact_def spec_matches_artifact_def)
  show ?thesis
    apply (rule start)
    unfolding prepare_intent_def Let_def case_prod_beta
    by (rule complete | rule lift_then [where r = "private_copy_relative_path x" for x] go |
        intro frame frame_rules rest_rules | simp)+
qed

lemma remove_safe:
  "safe J (remove_exact_committed_intent h (record_path intent_dir name) i) (\<lambda>_. J) (\<lambda>_. J)"
  unfolding remove_exact_committed_intent_def Let_def
  by (intro quiet_op frame frame_rules) simp_all

lemma obtain_safe:
  "safe J (if b then resume_intent h state (record_path intent_dir name) staged_relative sp limit
      else prepare_intent h state (record_path intent_dir name) staged d staged_relative sp catalogs limit)
     (\<lambda>i s. J s \<and> intent_for sp i) (\<lambda>_. J)"
proof (cases b)
  case True
  have "safe J (resume_intent h state (record_path intent_dir name) staged_relative sp limit)
      (\<lambda>i s. J s \<and> intent_for sp i) (\<lambda>_. J)"
    by (rule safe_sees [OF leaves_resume J_rests _ resume_sees])
  with True show ?thesis by simp
next
  case False
  with prepare_safe show ?thesis by simp
qed

lemma continue_safe:
  assumes "permitted (path_segments (sp_relative_path sp))"
  shows "safe J (continue_ingest h lock (record_path intent_dir name) staged b staged_relative sp catalogs limit)
    (\<lambda>_. J) (\<lambda>_. J)"
proof -
  let ?p = "record_path intent_dir name"
  have finish: "safe (\<lambda>s. J s \<and> intent_for sp i) (andthen (complete_prepared_intent h ?p i limit) (\<lambda>i.
     followed (settle_intent h lock i staged (path_segments (sp_relative_path sp)) limit)
     (followed (remove_exact_committed_intent h ?p i)
       (ret (ii_artifact i))))) (\<lambda>_. J) (\<lambda>_. J)" for i
  proof (rule safe_assume [of _ "intent_for sp i"], simp, rule forget, rule safe_andthen [OF complete_safe], assumption)
    fix i'
    show "safe (\<lambda>s. J s \<and> intent_for sp i')
        (followed (settle_intent h lock i' staged (path_segments (sp_relative_path sp)) limit)
           (followed (remove_exact_committed_intent h ?p i') (ret (ii_artifact i')))) (\<lambda>_. J) (\<lambda>_. J)"
    proof (rule safe_assume [of _ "intent_for sp i'"], simp, rule forget)
      assume i': "intent_for sp i'"
      then have d: "path_segments (sp_relative_path sp) = dest (ii_artifact i')"
        by (simp add: intent_for_def spec_matches_artifact_def)
      with assms have "safe J (settle_intent h lock i' staged (path_segments (sp_relative_path sp)) limit) (\<lambda>_. J) (\<lambda>_. J)"
        using settle_safe [OF _ i'] by simp
      then show "safe J (followed (settle_intent h lock i' staged (path_segments (sp_relative_path sp)) limit)
           (followed (remove_exact_committed_intent h ?p i') (ret (ii_artifact i')))) (\<lambda>_. J) (\<lambda>_. J)"
        by (intro safe_followed [OF _ safe_followed [OF remove_safe safe_ret]])
    qed
  qed
  note obtain_intent = safe_andthen [OF forget [OF obtain_safe] finish]
  show ?thesis
    apply (rule start)
    unfolding continue_ingest_def
    apply (rule J_skip_then, (intro frame rest_rules)+)
    apply (rule J_know_then [OF resolve_sees], (intro frame rest_rules)+)
    by (simp only:, rule obtain_intent)
qed

lemma ingest_bounded_safe:
  assumes "permitted (path_segments (sp_relative_path sp))"
  shows "safe J (ingest_staged_bounded h lock staged_relative sp limit) (\<lambda>_. J) (\<lambda>_. J)"
proof -
  have committed: "safe (\<lambda>s. J s \<and> True) (case committed of
        Some a \<Rightarrow>
          followed (lift (ensure (\<not> l < art_size_bytes a) (FileLimitExceeded l (art_size_bytes a))))
          (followed (ensure_matching_artifact_file h destination a ''destination'') (ret a))
      | None \<Rightarrow> continue_ingest h lock (record_path intent_dir (sp_id sp)) staged b staged_relative sp catalogs l)
      (\<lambda>_. J) (\<lambda>_. J)" for committed l destination staged b catalogs
    by (cases committed) (auto intro!: quiet_op continue_safe [OF assms] frame frame_rules)
  show ?thesis
    apply (rule start)
    unfolding ingest_staged_bounded_def Let_def
    by (rule committed | rule go | intro frame frame_rules rest_rules)+
qed

lemma ingest_safe:
  "permitted (path_segments (sp_relative_path sp)) \<Longrightarrow> safe J (ingest_staged h lock staged_relative sp) (\<lambda>_. J) (\<lambda>_. J)"
  unfolding ingest_staged_def by (intro with_store ingest_bounded_safe)

end

subsection \<open>The writer and host-written staging files\<close>

lemma steady_writer: "steady P s (s\<lparr>st_writer := b\<rparr>)"
  by (simp add: steady_def file_at_def node_at_def)

lemma leaves_writer [frame]:
  "leaves P reserve_active_writer" "leaves P (release_active_writer session)"
  unfolding reserve_active_writer_def release_active_writer_def
  by (intro frame frame_rules, auto simp: steady_writer intro: steady.R_refl)+

lemma release_store: "snd (release_active_writer session t) = (if st_id t = session then t\<lparr>st_writer := False\<rparr> else t)"
  by (simp add: release_active_writer_def modify_def)

text \<open>What the value of a step satisfies, whatever the store.\<close>

lemma knows_then:
  assumes "sees m (\<lambda>x _. V x)" "\<And>x. V x \<Longrightarrow> sees (f x) (\<lambda>y _. W y)"
  shows "sees (andthen m f) (\<lambda>y _. W y)"
proof -
  have "safe (\<lambda>_. True) m (\<lambda>x _. V x) (\<lambda>_ _. True)"
    using assms(1) by (auto simp: safe_def sees_def split: prod.splits sum.splits)
  then have "safe (\<lambda>_. True) (andthen m f) (\<lambda>y _. W y) (\<lambda>_ _. True)"
  proof (rule safe_andthen)
    show "safe (\<lambda>_. V x) (f x) (\<lambda>y _. W y) (\<lambda>_ _. True)" for x
      using assms(2) [of x] by (auto simp: safe_def sees_def split: prod.splits sum.splits)
  qed
  then show ?thesis by (rule sees_safe)
qed

lemma knows_any: "sees m (\<lambda>x _. True)"
  by (simp add: sees_def split: prod.splits sum.splits)

lemma knows_basic:
  "V x \<Longrightarrow> sees (ret x) (\<lambda>x _. V x)" "sees (throw e) (\<lambda>x _. V x)" "(\<And>x. r = Inr x \<Longrightarrow> V x) \<Longrightarrow> sees (lift r) (\<lambda>x _. V x)"
  "(\<And>s. sees (f s) (\<lambda>x _. V x)) \<Longrightarrow> sees (with_state f) (\<lambda>x _. V x)"
  "(b \<Longrightarrow> sees m (\<lambda>x _. V x)) \<Longrightarrow> (\<not> b \<Longrightarrow> sees n (\<lambda>x _. V x)) \<Longrightarrow> sees (if b then m else n) (\<lambda>x _. V x)"
  by (cases r; auto simp: sees_def se_defs split: prod.splits sum.splits)+

lemmas knows_then_any = knows_then [OF knows_any]

lemma knows_followed: "sees n (\<lambda>y _. W y) \<Longrightarrow> sees (followed m n) (\<lambda>y _. W y)"
  unfolding followed_def by (rule knows_then_any)

lemma safe_dropping_result:
  assumes "safe A m (\<lambda>x s. B s \<and> V x) (\<lambda>_. B)" "rests P B"
  shows "safe A (dropping session m) (\<lambda>x s. B s \<and> V x) (\<lambda>_. B)"
proof -
  have "B (snd (release_active_writer session t))" if "B t" for t
    using assms(2) that by (auto simp: release_store rests_def intro: steady_writer)
  with assms(1) show ?thesis
    unfolding safe_def dropping_def by (fastforce split: prod.splits sum.splits)
qed

lemma dropping_sees:
  assumes "sees m (\<lambda>x _. F x)"
  shows "sees (dropping session m) (\<lambda>x _. F x)" "sees (dropping_on_error session m) (\<lambda>x _. F x)"
  using assms unfolding sees_def dropping_def dropping_on_error_def by (auto split: prod.splits sum.splits)

lemma leaves_dropping [frame]:
  assumes "leaves P m"
  shows "leaves P (dropping session m)" "leaves P (dropping_on_error session m)"
proof -
  have "steady P s (snd (release_active_writer session t))" if "steady P s t" for s t
    using that leaves_writer(2) [of P session] by (auto simp: steady.moves_def intro: steady.R_trans)
  with assms show "leaves P (dropping session m)" "leaves P (dropping_on_error session m)"
    unfolding steady.moves_def dropping_def dropping_on_error_def by (auto split: prod.splits sum.splits)
      (metis prod.sel(2))+
qed

text \<open>A writer as \<open>create_artifact\<close> makes it, however much has been written.\<close>

definition writer_for :: "artifact_spec \<Rightarrow> artifact_writer \<Rightarrow> bool" where
  "writer_for sp w \<longleftrightarrow> wr_destination w = path_segments (sp_relative_path sp) \<and> wr_spec w = sp"

lemma leaves_create_artifact [frame]: "leaves P (writer_new d sp b f l r session)"
  unfolding writer_new_def by (intro frame frame_rules)

lemma leaves_writing [frame]: "leaves P (writer_write buffer n w)"
  unfolding writer_write_def Let_def by (intro frame frame_rules)

lemma leaves_write_all [frame]: "leaves P (write_all accept buffer w)"
proof (induction "length buffer" arbitrary: buffer w rule: less_induct)
  case less
  have more: "leaves P (if n = 0 then throw (e w') else write_all accept (drop n buffer) w')" if "buffer \<noteq> []" for n w' e
    using that less [of "drop n buffer" w'] by (cases "n = 0") (auto intro: frame frame_rules)
  show ?case
  proof (cases "buffer = []")
    case True
    show ?thesis
      unfolding True by (subst write_all.simps) (simp add: steady.moves_pure)
  next
    case False
    show ?thesis
      by (subst write_all.simps)
        (simp only: False if_False Let_def, rule steady.moves_andthen, rule leaves_writing, rule more [OF False])
  qed
qed

lemma leaves_create [frame]: "leaves P (create_artifact h lock sp)"
  unfolding create_artifact_def Let_def by (intro frame frame_rules)

lemma write_sees: "writer_for sp w \<Longrightarrow> sees (writer_write buffer n w) (\<lambda>w _. writer_for sp w)"
  unfolding writer_write_def Let_def
  by (rule knows_then_any, intro knows_basic knows_followed) (simp add: writer_for_def)

lemma write_all_sees: "writer_for sp w \<Longrightarrow> sees (write_all accept buffer w) (\<lambda>w _. writer_for sp w)"
proof (induction "length buffer" arbitrary: buffer w rule: less_induct)
  case less
  have more: "sees (if n = 0 then throw e else write_all accept (drop n buffer) w') (\<lambda>w _. writer_for sp w)"
    if "buffer \<noteq> []" "writer_for sp w'" for n w' e
    using that by (intro knows_basic less.hyps) auto
  show ?case
  proof (cases "buffer = []")
    case True
    with less.prems show ?thesis by (simp add: knows_basic write_all.simps [of accept "[]"])
  next
    case False
    show ?thesis
      by (subst write_all.simps) (simp only: False if_False Let_def knows_then [OF write_sees [OF less.prems] more [OF False]])
  qed
qed

lemma new_sees: "sees (writer_new d sp b f l r session) (\<lambda>w _. wr_destination w = d \<and> wr_spec w = sp)"
  unfolding writer_new_def by (intro knows_followed knows_then_any knows_basic) simp

lemma create_sees: "sees (create_artifact h lock sp) (\<lambda>w _. writer_for sp w)"
proof -
  have path: "sees (andthen (resolve_artifact (sp_relative_path sp) b) f) (\<lambda>w _. writer_for sp w)"
    if "sees (f (path_segments (sp_relative_path sp))) (\<lambda>w _. writer_for sp w)" for b f
    using that by (intro knows_then [OF resolve_sees]) simp
  show ?thesis
    unfolding create_artifact_def Let_def
    by (rule path | rule knows_followed | rule knows_then_any | rule knows_basic(4) |
        rule new_sees [where d = "path_segments (sp_relative_path sp)" and sp = sp, folded writer_for_def])+
qed

lemma leaves_staged_bounded [frame]: "leaves P (read_staged_bounded h r n)"
  unfolding read_staged_bounded_def Let_def by (intro frame frame_rules)

lemma leaves_staged_path [frame]: "leaves P (staged_path r b)" "leaves P (prepare_staging_path h lock r)"
  unfolding staged_path_def prepare_staging_path_def by (intro frame frame_rules)+

lemma staged_path_sees: "sees (staged_path r b) (\<lambda>p _. below staging_dir p)"
proof -
  have "sees (lift (map_err e (artifact_path_new (''capture/staging/'' @ as_path r)))) (\<lambda>r _. below staging_dir (path_segments r))"
    for e :: "artifact_path_error \<Rightarrow> store_error"
    by (rule knows_basic) (simp only: map_err_eq_Inr, rule staged_segments)
  then show ?thesis
    unfolding staged_path_def
    by (rule knows_then) (auto intro: sees_imp [OF resolve_sees])
qed

lemma prepare_path_sees: "sees (prepare_staging_path h lock r) (\<lambda>p _. below staging_dir p)"
  unfolding prepare_staging_path_def by (intro knows_followed staged_path_sees)

lemma temporary_below: "below staging_dir p \<Longrightarrow> below staging_dir (exact_staging_temporary_path unique p)"
  by (cases p rule: rev_cases)
    (auto simp: below_def exact_staging_temporary_path_def staging_dir_def take_Suc_conv_app_nth less_Suc_eq split: if_splits)

lemma staged_not_data: "below staging_dir q \<Longrightarrow> \<not> data q"
  by (cases q) (auto simp: data_def owned_def below_def dirs)

lemma leaves_publish_exact:
  assumes "below staging_dir p" "\<And>q. below staging_dir q \<Longrightarrow> \<not> P q"
  shows "leaves P (publish_exact h unique r p bytes limit)"
proof -
  have "\<not> P p" "\<not> P (exact_staging_temporary_path unique p)"
    using assms temporary_below by auto
  then show ?thesis
    unfolding publish_exact_def create_new_plain_file_def link_file_def Let_def
    by (intro frame frame_rules)
qed

context session_invariant
begin

lemma throw_quiet: "leaves data m \<Longrightarrow> safe J (followed m (throw e)) Q (\<lambda>_. J)"
  by (rule safe_followed [OF quiet_op]) (auto intro: safe_throw)

lemma finish_safe:
  assumes "permitted (wr_destination w)"
  shows "safe J (finish_writer h w) (\<lambda>a s. J s \<and> art_relative_path a = sp_relative_path (wr_spec w)) (\<lambda>_. J)"
proof -
  let ?p = "wr_destination w"
  let ?Q = "\<lambda>a s. J s \<and> art_relative_path a = sp_relative_path (wr_spec w)"
  have gone: "sees (path_entry_exists ?p) (\<lambda>there s. \<not> there \<longrightarrow> vacant ?p s)"
    by (rule sees_imp [OF entry_sees]) (simp add: vacant_def)
  have created: "safe (\<lambda>s. J s \<and> (True \<and> (\<not> there \<longrightarrow> vacant ?p s))) (if there then followed (sys x ?p) (throw e)
      else followed (sys y ?p) (followed (put ?p (Some n)) (andthen (lift r) (\<lambda>d. ret (into_artifact (wr_spec w) k d)))))
      ?Q (\<lambda>_. J)" for there x y e n r k
  proof (cases there)
    case True
    then show ?thesis by (simp only: if_True) (intro forget throw_quiet frame frame_rules)
  next
    case False
    have "safe (\<lambda>s. J s \<and> vacant ?p s) (followed (put ?p (Some n)) (andthen (lift r) (\<lambda>d. ret (into_artifact (wr_spec w) k d))))
        ?Q (\<lambda>_. J)"
      by (rule safe_followed [OF put_safe [OF assms]]) (rule lift_then, simp, rule safe_ret, simp add: into_artifact_def)
    then show ?thesis using False by (auto intro: J_skip_followed frame rest_rules)
  qed
  show ?thesis
    apply (rule start)
    unfolding finish_writer_def Let_def
    by (rule created | rule J_see_then [OF gone] go | intro frame frame_rules rest_rules)+
qed

lemma commit_safe:
  assumes "permitted (wr_destination w)" "permitted (path_segments (sp_relative_path (wr_spec w)))"
  shows "safe J (commit_artifact h lock w) (\<lambda>_. J) (\<lambda>_. J)"
proof -
  let ?Q = "\<lambda>a s. J s \<and> art_relative_path a = sp_relative_path (wr_spec w)"
  have body: "safe J (followed (ensure_lock lock) (followed (ensure_lifecycle_mutation_allowed h) (finish_writer h w))) ?Q (\<lambda>_. J)"
    by (rule start, (rule forget [OF finish_safe [OF assms(1)]] | rule go | intro frame frame_rules rest_rules)+)
  have register: "safe (?Q a) (followed (register_artifact h lock a) (ret a)) (\<lambda>_. J) (\<lambda>_. J)" for a
    by (rule safe_assume [of _ "art_relative_path a = sp_relative_path (wr_spec w)"], simp, rule forget)
      (auto intro!: safe_followed [OF register_safe safe_ret] simp: assms)
  show ?thesis
    unfolding commit_artifact_def
    by (rule safe_andthen [OF _ register]) (rule safe_dropping_result [OF body J_rests])
qed

lemma produce_safe:
  assumes "permitted (path_segments (sp_relative_path sp))"
  shows "safe J (write_json_artifact h lock sp json accept) (\<lambda>_. J) (\<lambda>_. J)"
proof -
  have all: "sees (dropping_on_error session (andthen (write_all accept json w) (\<lambda>w. write_all accept [10] w)))
      (\<lambda>w _. writer_for sp w)" if "writer_for sp w" for session w
    by (intro dropping_sees knows_then [OF write_all_sees [OF that]] write_all_sees)
  show ?thesis
    apply (rule start)
    unfolding write_json_artifact_def
    apply (rule J_know_then [OF create_sees], (intro frame rest_rules)+)
    apply (rule J_know_then [OF all], assumption, (intro frame frame_rules rest_rules)+)
    by (rule forget, rule commit_safe) (use assms in \<open>simp_all add: writer_for_def\<close>)
qed

lemma stage_safe:
  "safe J (ensure_staged_exact h lock unique r bytes n) (\<lambda>_. J) (\<lambda>_. J)"
proof -
  have quiet_publish: "safe (\<lambda>s. J s \<and> True) (publish_exact h unique r p bytes limit) (\<lambda>_. J) (\<lambda>_. J)"
    if "below staging_dir p" for p limit
    by (intro forget quiet_op leaves_publish_exact that) (auto simp: staged_not_data)
  show ?thesis
    apply (rule start)
    unfolding ensure_staged_exact_def Let_def
    apply (rule go, (intro frame rest_rules)+)+
    apply (rule with_store)
    apply (rule go, (intro frame frame_rules rest_rules)+)
    apply (rule J_know_then [OF prepare_path_sees], (intro frame rest_rules)+)
    apply (rule go, (intro frame rest_rules)+)
    by (split option.split, intro conjI allI impI quiet_publish, assumption)
       (intro forget quiet_op frame frame_rules)
qed

end

end
