(* ===== verification/Session_Store.thy ===== *)
theory Session_Store
  imports Session_Publish
begin

text \<open>
  A session under any sequence of commands, each with its own time, failing calls and changes made
  below \<open>capture/staging\<close>: what its catalog, its state document and its manifest keep.
\<close>

datatype command =
    Transition session_status "session_failure option"
  | Finalize manifest
  | Register artifact
  | Ingest artifact_path artifact_spec
  | Create artifact_spec
  | Commit artifact_writer
  | Produce artifact_spec "u8 list" "nat \<Rightarrow> nat"
  | Stage string artifact_path "u8 list" u64

record store_call =
  ca_lock :: string
  ca_now :: string
  ca_faults :: "fault list"
  ca_command :: command

definition discard :: "'a st \<Rightarrow> unit st" where
  "discard m = andthen m (\<lambda>_. ret ())"

definition perform :: "host \<Rightarrow> string \<Rightarrow> command \<Rightarrow> unit st" where
  "perform h lock c = (case c of
     Transition status err \<Rightarrow> discard (transition h lock status err)
   | Finalize m \<Rightarrow> discard (finalize h lock m)
   | Register a \<Rightarrow> register_artifact h lock a
   | Ingest staged sp \<Rightarrow> discard (ingest_staged h lock staged sp)
   | Create sp \<Rightarrow> discard (create_artifact h lock sp)
   | Commit w \<Rightarrow> discard (commit_artifact h lock w)
   | Produce sp json accept \<Rightarrow> discard (write_json_artifact h lock sp json accept)
   | Stage unique relative bytes limit \<Rightarrow> ensure_staged_exact h lock unique relative bytes limit)"

definition call_store :: "host \<Rightarrow> store_call \<Rightarrow> session_store \<Rightarrow> session_store" where
  "call_store h c s =
     snd (perform (h\<lparr>h_now := ca_now c\<rparr>) (ca_lock c) (ca_command c) (s\<lparr>st_faults := ca_faults c\<rparr>))"

definition run :: "host \<Rightarrow> store_call list \<Rightarrow> session_store \<Rightarrow> session_store" where
  "run h cs s = fold (call_store h) cs s"

lemma discard_safe: "safe A m (\<lambda>_. B) (\<lambda>_. B) \<Longrightarrow> safe A (discard m) (\<lambda>_. B) (\<lambda>_. B)"
  unfolding discard_def by (rule safe_andthen) (auto intro: safe_ret)

lemma leaves_discard [frame]: "leaves P m \<Longrightarrow> leaves P (discard m)"
  unfolding discard_def by (intro frame_rules)

subsection \<open>Lifecycle operations\<close>

lemma leaves_transition [frame]: "\<not> P state_path \<Longrightarrow> leaves P (transition h lock status err)"
  unfolding transition_def by (intro frame frame_rules)

lemma leaves_finalize [frame]: "\<not> P state_path \<Longrightarrow> \<not> P manifest_path \<Longrightarrow> leaves P (finalize h lock m)"
  unfolding finalize_def by (intro frame frame_rules)

subsection \<open>The catalog\<close>

text \<open>Every record names a file the session owns, of the recorded size and digest.\<close>

definition catalog_sound :: "host \<Rightarrow> session_store \<Rightarrow> bool" where
  "catalog_sound h s \<longleftrightarrow>
     (\<forall>name a. record_at h name s = Some a \<longrightarrow> owned (dest a) \<and> present h a s)"

definition cataloged :: "path \<Rightarrow> bool" where
  "cataloged p \<longleftrightarrow> owned p \<or> below catalog_dir p"

lemma rests_sound: "rests cataloged (catalog_sound h)"
proof -
  have "catalog_sound h t" if st: "steady cataloged s t" and s: "catalog_sound h s" for s t
    unfolding catalog_sound_def
  proof (intro allI impI)
    fix name a
    assume "record_at h name t = Some a"
    moreover have "record_at h name t = record_at h name s"
      using st by (simp add: steady_def record_at_def cataloged_def)
    ultimately have a: "owned (dest a)" "present h a s" using s by (auto simp: catalog_sound_def)
    then have "file_at (dest a) t = file_at (dest a) s"
      using st by (simp add: steady_def cataloged_def)
    with a show "owned (dest a) \<and> present h a t" by (simp add: present_def)
  qed
  then show ?thesis by (auto simp: rests_def)
qed

lemma record_at_set:
  "record_at h name (set_node p n s) =
     (if catalog_dir @ [name] = p
      then (case n of NFile c \<Rightarrow> Option.bind (content_document h c) pick_artifact | _ \<Rightarrow> None)
      else record_at h name s)"
  by (simp add: record_at_def file_at_def node_at_def set_node_def split: node.splits)

lemma owned_catalog [simp]: "owned p \<Longrightarrow> catalog_dir @ [name] \<noteq> p"
  by (auto simp: owned_def)

lemma present_set:
  "dest a \<noteq> p \<Longrightarrow> present h a (set_node p n s) = present h a s"
  by (simp add: present_def file_at_def node_at_def set_node_def)

interpretation sound: session_invariant h "catalog_sound h" owned for h
proof
  show "rests data (catalog_sound h)"
    by (rule rests_mono [OF rests_sound]) (auto simp: data_def cataloged_def)
next
  fix s p n
  assume s: "catalog_sound h s" "owned p" "file_at p s = None"
  then have "dest a \<noteq> p" if "record_at h name s = Some a" for name a
    using that by (fastforce simp: catalog_sound_def present_def)
  with s show "catalog_sound h (set_node p n s)"
    by (simp add: catalog_sound_def record_at_set present_set)
next
  fix s a
  assume "catalog_sound h s" "owned (dest a)" "owned (dest a) \<Longrightarrow> present h a s"
  moreover have "present h b (set_node (record_path catalog_dir (art_id a)) n s) = present h b s" if "owned (dest b)" for b n
    using that by (intro present_set) (auto simp: owned_def record_path_def)
  ultimately show "catalog_sound h (set_node (record_path catalog_dir (art_id a)) (NFile (Doc (DArtifact a))) s)"
    by (auto simp: catalog_sound_def record_at_set content_document_def split: if_splits)
qed

text \<open>No record of \<open>s\<close> is gone or changed in \<open>t\<close>.\<close>

definition keeps_records :: "session_store \<Rightarrow> session_store \<Rightarrow> bool" where
  "keeps_records s t \<longleftrightarrow>
     (\<forall>name c. file_at (catalog_dir @ [name]) s = Some c \<longrightarrow> file_at (catalog_dir @ [name]) t = Some c)"

interpretation recs: progress keeps_records
  by unfold_locales (auto simp: keeps_records_def)

lemma rests_keeps_records: "rests (below catalog_dir) (keeps_records s)"
  by (auto simp: rests_def steady_def keeps_records_def)

text \<open>A file that is there is never replaced, wherever an artifact is written to.\<close>

lemma file_at_vacant: "file_at p s = None \<Longrightarrow> file_at q s = Some c \<Longrightarrow> file_at q (set_node p n s) = Some c"
  by (auto simp: file_at_def node_at_def set_node_def)

interpretation records: session_invariant h "keeps_records s" "\<lambda>_. True" for h s
proof
  show "rests data (keeps_records s)"
    by (auto simp: rests_def steady_def keeps_records_def data_def)
next
  fix t p n
  assume "keeps_records s t" "file_at p t = None"
  then show "keeps_records s (set_node p n t)" unfolding keeps_records_def by (blast intro: file_at_vacant)
next
  fix t and a :: artifact
  assume "keeps_records s t" "file_at (record_path catalog_dir (art_id a)) t = None"
  then show "keeps_records s (set_node (record_path catalog_dir (art_id a)) (NFile (Doc (DArtifact a))) t)"
    unfolding keeps_records_def by (blast intro: file_at_vacant)
qed

text \<open>
  Where a command writes an artifact. It is tidy when these are not the session's own files: no code
  of the store checks it.
\<close>

definition destinations :: "command \<Rightarrow> path list" where
  "destinations c = (case c of
     Register a \<Rightarrow> [dest a]
   | Ingest staged sp \<Rightarrow> [path_segments (sp_relative_path sp)]
   | Commit w \<Rightarrow> [wr_destination w, path_segments (sp_relative_path (wr_spec w))]
   | Produce sp json accept \<Rightarrow> [path_segments (sp_relative_path sp)]
   | _ \<Rightarrow> [])"

definition tidy :: "command \<Rightarrow> bool" where
  "tidy c \<longleftrightarrow> list_all owned (destinations c)"

text \<open>The operations that write artifacts or staging files preserve every invariant of the store.\<close>

definition writes_artifacts :: "command \<Rightarrow> bool" where
  "writes_artifacts c = (case c of Transition _ _ \<Rightarrow> False | Finalize _ \<Rightarrow> False | _ \<Rightarrow> True)"

context session_invariant
begin

lemma perform_safe:
  assumes "list_all permitted (destinations c)" "writes_artifacts c"
  shows "safe J (perform h lock c) (\<lambda>_. J) (\<lambda>_. J)"
  using assms
  by (cases c) (auto simp: perform_def destinations_def writes_artifacts_def
    intro!: discard_safe register_safe ingest_safe commit_safe produce_safe stage_safe quiet_op [OF leaves_create])

end

lemma perform_sound: "tidy c \<Longrightarrow> safe (catalog_sound h) (perform h lock c) (\<lambda>_. catalog_sound h) (\<lambda>_. catalog_sound h)"
proof (cases "writes_artifacts c")
  case False
  then show ?thesis
    by (cases c) (auto simp: perform_def writes_artifacts_def cataloged_def owned_def below_def dirs
        intro!: discard_safe safe_quiet [OF _ rests_sound] frame)
qed (auto simp: tidy_def intro: sound.perform_safe)

subsection \<open>State and manifest\<close>

definition control :: "path \<Rightarrow> bool" where
  "control p \<longleftrightarrow> p = state_path \<or> p = manifest_path"

definition state_of :: "host \<Rightarrow> session_store \<Rightarrow> session_state option" where
  "state_of h s =
     (case file_at state_path s of Some c \<Rightarrow> Option.bind (content_document h c) pick_state | None \<Rightarrow> None)"

definition manifest_of :: "host \<Rightarrow> session_store \<Rightarrow> manifest option" where
  "manifest_of h s =
     (case file_at manifest_path s of Some c \<Rightarrow> Option.bind (content_document h c) pick_manifest | None \<Rightarrow> None)"

text \<open>
  From \<open>s\<close> to \<open>t\<close> the state document went through the updates of the lifecycle only, and a manifest
  that was there is there unchanged.
\<close>

definition lifecycle :: "host \<Rightarrow> session_store \<Rightarrow> session_store \<Rightarrow> bool" where
  "lifecycle h s t \<longleftrightarrow>
     (\<forall>st. state_of h s = Some st \<longrightarrow> (\<exists>st'. state_of h t = Some st' \<and> state_reaches st st')) \<and>
     (\<forall>c. file_at manifest_path s = Some c \<longrightarrow> file_at manifest_path t = Some c)"

lemma control_simps [simp]:
  "control state_path" "control manifest_path" "state_path \<noteq> manifest_path" "manifest_path \<noteq> state_path"
  "owned p \<Longrightarrow> \<not> control p" "\<not> control (record_path catalog_dir name)"
  by (auto simp: control_def owned_def dirs)

interpretation lifecycle: progress "lifecycle h" for h
proof
  show "lifecycle h s s" for s by (auto simp: lifecycle_def intro: state_reaches.here)
  show "lifecycle h s u" if "lifecycle h s t" "lifecycle h t u" for s t u
    using that unfolding lifecycle_def by (meson state_reaches_trans)
qed

lemma steady_lifecycle: "steady control s t \<Longrightarrow> lifecycle h s t"
  by (auto simp: steady_def lifecycle_def state_of_def intro: state_reaches.here)

lemma rests_steady: "rests P (steady P s)"
  by (auto simp: rests_def intro: steady.R_trans)

lemma steady_set: "steady P s t \<Longrightarrow> \<not> P p \<Longrightarrow> steady P s (set_node p n t)"
  by (auto simp: steady_def file_at_def node_at_def set_node_def)

text \<open>The state document and the manifest of \<open>s\<close>, where they exist, are in \<open>t\<close> unchanged.\<close>

definition keeps_control :: "session_store \<Rightarrow> session_store \<Rightarrow> bool" where
  "keeps_control s t \<longleftrightarrow> (\<forall>p c. control p \<longrightarrow> file_at p s = Some c \<longrightarrow> file_at p t = Some c)"

lemma keeps_control_refl: "keeps_control s s"
  by (simp add: keeps_control_def)

lemma keeps_control_lifecycle: "keeps_control s t \<Longrightarrow> lifecycle h s t"
  by (fastforce simp: keeps_control_def lifecycle_def state_of_def control_def intro: state_reaches.here split: option.splits)

interpretation kept: session_invariant h "keeps_control s" "\<lambda>_. True" for h s
proof
  show "rests data (keeps_control s)"
    by (auto simp: rests_def steady_def keeps_control_def control_def)
next
  fix t p n
  assume "keeps_control s t" "file_at p t = None"
  then show "keeps_control s (set_node p n t)" unfolding keeps_control_def by (blast intro: file_at_vacant)
next
  fix t and a :: artifact
  assume "keeps_control s t" "file_at (record_path catalog_dir (art_id a)) t = None"
  then show "keeps_control s (set_node (record_path catalog_dir (art_id a)) (NFile (Doc (DArtifact a))) t)"
    unfolding keeps_control_def by (blast intro: file_at_vacant)
qed

lemma safe_lifecycle: "(\<And>s. safe (steady control s) m (\<lambda>_. lifecycle h s) (\<lambda>_. lifecycle h s)) \<Longrightarrow> lifecycle.moves h m"
  unfolding lifecycle.moves_def
proof
  fix s
  assume "\<And>s. safe (steady control s) m (\<lambda>_. lifecycle h s) (\<lambda>_. lifecycle h s)"
  then have "safe (steady control s) m (\<lambda>_. lifecycle h s) (\<lambda>_. lifecycle h s)" .
  then show "lifecycle h s (snd (m s))"
    by (cases "m s"; cases "fst (m s)") (auto dest: safeD [where s = s] intro: steady.R_refl)
qed

lemma steady_keeps_control: "steady control s t \<Longrightarrow> keeps_control s t"
  by (auto simp: steady_def keeps_control_def control_def)

lemma kept_lifecycle:
  assumes "\<And>s. safe (keeps_control s) m (\<lambda>_. keeps_control s) (\<lambda>_. keeps_control s)"
  shows "lifecycle.moves h m"
  by (rule safe_lifecycle, rule safe_weaken [OF assms]) (auto intro: steady_keeps_control keeps_control_lifecycle)

lemma state_sees: "sees (read_state h) (\<lambda>st s. state_of h s = Some st)"
proof (rule sees_safe)
  let ?P = "\<lambda>p. p = state_path"
  have json: "sees (read_bounded_json h pick_state state_path doc limit) (\<lambda>st s. state_of h s = Some st)" for doc limit
    by (rule sees_imp [OF bounded_json_sees]) (auto simp: state_of_def)
  show "safe (\<lambda>_. True) (read_state h) (\<lambda>st s. state_of h s = Some st) (\<lambda>_ _. True)"
    unfolding read_state_def
    apply (rule see_then [where P = ?P, OF json], (intro frame rest_rules TrueI)+)
    by (rule lift_followed) (auto intro: safe_ret)
qed

lemma rests_state [rest_rules]: "P state_path \<Longrightarrow> rests P (\<lambda>s. R (state_of h s))"
  by (simp add: rests_def steady_def state_of_def)

lemma state_set [simp]:
  "state_of h (set_node state_path (NFile (Doc (DState st))) s) = Some st"
  by (simp add: state_of_def content_document_def)

text \<open>An atomic write: everything before the last step leaves the files alone.\<close>

lemma write_document:
  assumes "rests P A" "\<And>s. A s \<Longrightarrow> B s" "\<And>s. A s \<Longrightarrow> Q () (set_node p (NFile (Doc d)) s)"
  shows "safe A (write_serialized_json_atomic p d b) Q (\<lambda>_. B)"
proof -
  have put: "safe A (put p (Some (NFile (Doc d)))) Q (\<lambda>_. B)"
    using assms(3) by (simp add: safe_def put_some)
  show ?thesis
    unfolding write_serialized_json_atomic_def
    by (rule put | rule skip_followed [where P = P] | intro frame frame_rules assms(1) | erule assms(2))+
qed

lemma update_lifecycle:
  assumes "state_of h s = Some st" "advances st st'"
    and "\<And>c. file_at manifest_path s = Some c \<Longrightarrow> file_at manifest_path t = Some c"
  shows "lifecycle h s (set_node state_path (NFile (Doc (DState st'))) t)"
  using assms by (auto simp: lifecycle_def intro: state_reaches.intros)

lemma transition_lifecycle: "lifecycle.moves h (transition h lock status err)"
proof (rule safe_lifecycle)
  fix s
  let ?B = "\<lambda>_ :: session_state. lifecycle h s" and ?E = "\<lambda>_ :: store_error fail. lifecycle h s"
  let ?A = "\<lambda>st t. steady control s t \<and> state_of h t = Some st"
  have rest: "rests control (?A st)" for st by (intro rest_rules rests_steady) simp
  have weak: "?A st t \<Longrightarrow> lifecycle h s t" for st t by (simp add: steady_lifecycle)
  have update: "safe (?A st) (followed (write_serialized_json_atomic state_path (DState nxt) False) (ret nxt)) ?B ?E"
    if "advances st nxt" for st nxt
  proof (rule safe_followed)
    show "safe (?A st) (write_serialized_json_atomic state_path (DState nxt) False) (\<lambda>_. lifecycle h s) ?E"
      using that
      by (intro write_document [OF rest] weak update_lifecycle [where st = st])
        (auto simp: steady_def state_of_def)
    show "safe (lifecycle h s) (ret nxt) ?B ?E" by (simp add: safe_ret)
  qed
  have go: "safe (?A st) (followed ensure_no_active_writer
        (followed (if status \<noteq> Failed then ensure_no_ingest_intents h else ret ())
        (andthen (lift (next_state (h_now h) st status err)) (\<lambda>nxt.
         andthen (lift (serialize_json_document h ''session state'' (DState nxt))) (\<lambda>bytes.
         followed (ensure_additional_capacity h (bytes_len bytes))
         (followed (write_serialized_json_atomic state_path (DState nxt) False)
           (ret nxt))))))) ?B ?E" if "status \<noteq> Complete" for st
    using that
    apply -
    apply (rule skip_followed [where P = control, OF _ rest weak], intro frame frame_rules, assumption)+
    apply (rule lift_then, erule weak)+
    by (rule skip_followed [where P = control, OF _ rest weak], intro frame, assumption, rule update)
      (rule advances.transition)
  show "safe (steady control s) (transition h lock status err) ?B ?E"
    unfolding transition_def
    apply (rule skip_followed [where P = control, OF _ rests_steady steady_lifecycle], intro frame, assumption)
    apply (rule see_then [where P = control, OF state_sees _ rests_steady steady_lifecycle], intro frame, assumption)
    by (rule safe_if | rule go, assumption | rule safe_throw, erule weak | rule safe_ret, erule weak)+
qed

lemma finalize_lifecycle: "lifecycle.moves h (finalize h lock m)"
proof (rule safe_lifecycle)
  fix s
  let ?B = "\<lambda>_ :: session_state. lifecycle h s" and ?E = "\<lambda>_ :: store_error fail. lifecycle h s"
  let ?A = "\<lambda>st t. steady control s t \<and> state_of h t = Some st"
  let ?M = "\<lambda>there st t. ?A st t \<and> (\<not> there \<longrightarrow> file_at manifest_path t = None)"
  let ?U = "\<lambda>st t. state_of h s = Some st \<and> (\<forall>c. file_at manifest_path s = Some c \<longrightarrow> file_at manifest_path t = Some c)
      \<and> state_of h t = Some st"
  have rest: "rests control (?A st)" for st by (intro rest_rules rests_steady) simp
  have weak: "?A st t \<Longrightarrow> lifecycle h s t" for st t by (simp add: steady_lifecycle)
  have rest_m: "rests control (?M there st)" for there st by (intro rests_conj rest, rule rests_file) simp_all
  have weak_m: "?M there st t \<Longrightarrow> lifecycle h s t" for there st t by (simp add: steady_lifecycle)
  have rest_u: "rests control (?U st)" for st
    by (auto simp: rests_def steady_def state_of_def)
  have weak_u: "?U st t \<Longrightarrow> lifecycle h s t" for st t by (auto simp: lifecycle_def intro: state_reaches.here)
  have start_u: "?M there st t \<Longrightarrow> ?U st t" for there st t by (auto simp: steady_def state_of_def)
  have manifest: "safe (?M there st) (when_se (\<not> there) (write_serialized_json_atomic manifest_path (DManifest m) True))
      (\<lambda>_. ?U st) ?E" for there st
  proof (rule safe_when)
    assume "\<not> there"
    then show "safe (?M there st) (write_serialized_json_atomic manifest_path (DManifest m) True) (\<lambda>_. ?U st) ?E"
      by (intro write_document [OF rest_m] weak_m) (auto simp: steady_def state_of_def)
  qed (rule start_u)
  have state: "safe (?U st) (followed (write_serialized_json_atomic state_path (DState nxt) False) (ret nxt)) ?B ?E"
    if "advances st nxt" for st nxt
  proof (rule safe_followed)
    show "safe (?U st) (write_serialized_json_atomic state_path (DState nxt) False) (\<lambda>_. lifecycle h s) ?E"
      using that by (intro write_document [OF rest_u] weak_u update_lifecycle [where st = st]) auto
    show "safe (lifecycle h s) (ret nxt) ?B ?E" by (simp add: safe_ret)
  qed
  show "safe (steady control s) (finalize h lock m) ?B ?E"
    unfolding finalize_def
    apply (rule skip_followed [where P = control, OF _ rests_steady steady_lifecycle], intro frame, assumption)+
    apply (rule see_then [where P = control, OF state_sees _ rests_steady steady_lifecycle], intro frame, assumption)
    apply (rule skip_followed [where P = control, OF _ rest weak], intro frame frame_rules, assumption)+
    apply (rule see_then [where P = control, OF entry_sees _ rest weak], intro frame, assumption)
    apply (rule skip_followed [where P = control, OF _ rest_m weak_m], intro frame frame_rules, assumption)
    apply (rule safe_if | rule safe_throw, erule weak_m | rule safe_ret, erule weak_m)+
    apply (rule lift_then, erule weak_m)+
    apply (rule skip_then [where P = control, OF _ rest_m weak_m], intro frame frame_rules, assumption)
    apply (rule safe_with_state_inv, rule lift_then, erule weak_m)
    apply (rule skip_followed [where P = control, OF _ rest_m weak_m], intro frame, assumption)
    by (rule safe_followed [OF manifest state]) (rule advances.completion)
qed

end
