(* ===== verification/Session_Properties.thy ===== *)
theory Session_Properties
  imports Session_Store
begin

text \<open>
  The properties of a session: its catalog, its lifecycle, what finalization and ingest leave behind
  when they succeed.
\<close>

lemma safe_for_each_list:
  assumes "\<And>x. leaves P (f x)" "rests P A" "\<And>x. p x \<Longrightarrow> rests P (F x)" "\<And>x. p x \<Longrightarrow> sees (f x) (\<lambda>_. F x)"
  shows "safe A (for_each f xs) (\<lambda>_ s. A s \<and> list_all (\<lambda>x. F x s) (filter p xs)) (\<lambda>_ _. True)"
  using assms(2)
proof (induction xs arbitrary: A)
  case Nil
  then show ?case by (simp add: safe_ret)
next
  case (Cons x xs)
  show ?case
  proof (cases "p x")
    case True
    have "rests P (\<lambda>s. A s \<and> F x s)" using Cons.prems assms(3) True by (intro rests_conj)
    from Cons.IH [OF this] have "safe (\<lambda>s. A s \<and> F x s) (for_each f xs)
        (\<lambda>_ s. A s \<and> list_all (\<lambda>x. F x s) (filter p (x # xs))) (\<lambda>_ _. True)"
      by (rule safe_imp) (simp add: True)
    then show ?thesis
      unfolding for_each.simps by (rule see_followed [OF assms(4) [OF True] assms(1) Cons.prems TrueI])
  next
    case False
    then show ?thesis
      using Cons.IH [OF Cons.prems] unfolding for_each.simps
      by (intro skip_followed [OF assms(1) Cons.prems TrueI]) simp
  qed
qed

subsection \<open>Finalization\<close>

text \<open>
  The manifest is valid, its artifacts are the catalog, and their files are what they say: all files
  but the state document and the manifest, which finalization writes itself, and the files of
  \<open>capture/staging\<close>, which other processes may change.
\<close>

definition settled :: "path \<Rightarrow> bool" where
  "settled p \<longleftrightarrow> p \<noteq> state_path \<and> p \<noteq> manifest_path \<and> \<not> below staging_dir p"

definition verified :: "host \<Rightarrow> manifest \<Rightarrow> session_store \<Rightarrow> bool" where
  "verified h m s \<longleftrightarrow>
     validate_manifest m = Inr () \<and> mf_session_id m = st_id s \<and>
     (\<forall>a. a \<in> set (mf_artifacts m) \<longleftrightarrow> (\<exists>name. record_at h name s = Some a)) \<and>
     list_all (\<lambda>a. present h a s) (filter (settled \<circ> dest) (mf_artifacts m))"

lemma settled_record [simp]: "settled (catalog_dir @ [name])"
  by (simp add: settled_def below_def dirs)

lemma settled_catalog: "below catalog_dir p \<Longrightarrow> settled p"
  by (cases p) (auto simp: settled_def below_def dirs)

lemma steady_settled:
  assumes "steady settled s t"
  shows "record_at h name t = record_at h name s" "settled (dest a) \<Longrightarrow> present h a t = present h a s"
    "st_id t = st_id s"
  using assms by (simp_all add: present_def steady_def record_at_def settled_def [of "dest a"])

lemma rests_verified: "rests settled (verified h m)"
  unfolding rests_def verified_def list_all_iff by (auto simp: steady_settled)

lemma verified_set:
  assumes "verified h m s" "p = state_path \<or> p = manifest_path"
  shows "verified h m (set_node p n s)"
proof -
  have "steady settled s (set_node p n s)"
    using assms(2) by (intro steady_set steady.R_refl) (auto simp: settled_def)
  with assms(1) rests_verified show ?thesis unfolding rests_def by blast
qed

lemma sort_key_set: "sort_key f xs = sort_key f ys \<Longrightarrow> set xs = set ys"
  by (metis set_sort)

lemma check_manifest_sees: "sees (check_manifest h m True) (\<lambda>_. verified h m)"
proof (rule sees_safe)
  let ?P = settled
  have verify: "safe (\<lambda>t. st_id t = mf_session_id m \<and> catalog_is h as t)
      (for_each (\<lambda>a. verify_artifact h a True) (mf_artifacts m)) (\<lambda>_. verified h m) (\<lambda>_ _. True)"
    if ok: "validate_manifest m = Inr ()" "set as = set (mf_artifacts m)" for as
  proof (rule safe_imp [OF safe_for_each_list [where P = ?P and p = "settled \<circ> dest" and F = "\<lambda>a. present h a"]])
    show "rests ?P (\<lambda>t. st_id t = mf_session_id m \<and> catalog_is h as t)"
      by (intro rests_conj rests_id rests_mono [OF rests_catalog] settled_catalog)
    show "verified h m s" if "(st_id s = mf_session_id m \<and> catalog_is h as s) \<and>
        list_all (\<lambda>a. present h a s) (filter (settled \<circ> dest) (mf_artifacts m))" for s
      using that ok by (simp add: verified_def catalog_is_def)
  qed (auto intro: frame rest_rules verify_artifact_sees simp: settled_def)
  have capacity: "safe (verified h m) (andthen (directory_size h) (\<lambda>total. lift (ensure (b total) (e total))))
      (\<lambda>_. verified h m) (\<lambda>_ _. True)" for b e
    by (intro safe_quiet [OF _ rests_verified] frame frame_rules TrueI)
  have tail: "safe (\<lambda>t. st_id t = mf_session_id m)
     (andthen (registered_artifacts h True) (\<lambda>registered.
      followed
        (lift (ensure (sort_key art_id registered = sort_key art_id (mf_artifacts m)) ArtifactCatalogMismatch))
      (followed (for_each (\<lambda>a. verify_artifact h a True) (mf_artifacts m))
      (andthen (directory_size h) (\<lambda>total. lift (ensure (b total) (e total))))))) (\<lambda>_. verified h m) (\<lambda>_ _. True)"
    if "validate_manifest m = Inr ()" for b e
    apply (rule see_then [where P = ?P, OF registered_sees], (intro frame rests_id TrueI)+)
    apply (rule ensure_followed, simp)
    by (rule safe_followed [OF verify [OF that] capacity], erule sort_key_set)
  show "safe (\<lambda>_. True) (check_manifest h m True) (\<lambda>_. verified h m) (\<lambda>_ _. True)"
    unfolding check_manifest_def
    apply (rule safe_with_state, rule ensure_followed, simp, rule lift_followed, simp)
    by (rule safe_pre_imp [OF _ tail]) (simp_all add: map_err_eq_Inr)
qed

definition finalized :: "host \<Rightarrow> manifest \<Rightarrow> session_state \<Rightarrow> session_store \<Rightarrow> bool" where
  "finalized h m st s \<longleftrightarrow>
     ss_status st = Complete \<and> state_of h s = Some st \<and> manifest_of h s = Some m \<and> verified h m s"

lemma finalize_sees: "sees (finalize h lock m) (finalized h m)"
proof (rule sees_safe)
  let ?E = "\<lambda>_ _. True"
  define P where "P p \<longleftrightarrow> settled p \<or> control p" for p
  let ?S = "\<lambda>st s. True \<and> state_of h s = Some st"
  let ?V = "\<lambda>st s. ?S st s \<and> verified h m s"
  let ?M = "\<lambda>there st s. ?V st s \<and> (there \<longrightarrow> manifest_of h s = Some m)"
  have rest_s: "rests P (?S st)" for st by (intro rest_rules) (simp add: P_def)
  have rest_v: "rests P (?V st)" for st
    by (intro rests_conj rest_s rests_mono [OF rests_verified]) (simp add: P_def)
  have rest_m: "rests P (?M there st)" for there st
    by (intro rests_conj [OF rest_v]) (auto simp: rests_def steady_def manifest_of_def P_def)
  have json: "sees (read_bounded_json h pick_manifest manifest_path doc limit) (\<lambda>x s. manifest_of h s = Some x)" for doc limit
    by (rule sees_imp [OF bounded_json_sees]) (auto simp: manifest_of_def)
  have existing: "safe (?V st) (when_se there
           (andthen (read_bounded_json h pick_manifest manifest_path doc limit) (\<lambda>existing.
             lift (ensure (existing = m) ManifestConflict)))) (\<lambda>_. ?M there st) ?E" for there st doc limit
    by (rule safe_when, rule see_then [where P = P, OF json _ rest_v TrueI], intro frame)
      (auto intro!: safe_lift simp: ensure_eq_Inr)
  have manifest: "safe (?M there st) (when_se (\<not> there) (write_serialized_json_atomic manifest_path (DManifest m) True))
      (\<lambda>_ s. verified h m s \<and> manifest_of h s = Some m) ?E" for there st
    by (rule safe_when, rule write_document [OF rest_m])
      (auto intro: verified_set simp: manifest_of_def content_document_def)
  have state: "safe (\<lambda>s. verified h m s \<and> manifest_of h s = Some m)
      (followed (write_serialized_json_atomic state_path (DState nxt) False) (ret nxt)) (finalized h m) ?E"
    if "next_completed_state now st = Inr nxt" for now st nxt
  proof (rule safe_followed)
    have rest: "rests P (\<lambda>s. verified h m s \<and> manifest_of h s = Some m)"
      by (intro rests_conj rests_mono [OF rests_verified]) (auto simp: rests_def steady_def manifest_of_def P_def)
    show "safe (\<lambda>s. verified h m s \<and> manifest_of h s = Some m)
        (write_serialized_json_atomic state_path (DState nxt) False) (\<lambda>_. finalized h m nxt) ?E"
      using that
      by (intro write_document [OF rest])
        (auto simp: finalized_def manifest_of_def verified_set next_completed_state_def rthen_eq_Inr build_next_state_Inr)
    show "safe (finalized h m nxt) (ret nxt) (finalized h m) ?E" by (simp add: safe_ret)
  qed
  show "safe (\<lambda>_. True) (finalize h lock m) (finalized h m) ?E"
    unfolding finalize_def
    apply (rule skip_followed [where P = P, OF _ rests_const TrueI], intro frame)+
    apply (rule see_then [where P = P, OF state_sees _ rests_const TrueI], intro frame)
    apply (rule ensure_followed, simp)
    apply (rule skip_followed [where P = P, OF _ rest_s TrueI], intro frame)
    apply (rule see_followed [where P = P, OF check_manifest_sees _ rest_s TrueI], intro frame)
    apply (rule skip_then [where P = P, OF _ rest_v TrueI], intro frame)
    apply (rule safe_followed [OF existing])
    apply (rule safe_if | rule safe_throw, simp | rule safe_ret, simp add: finalized_def)+
    apply (rule lift_then, simp)+
    apply (rule skip_then [where P = P, OF _ rest_m TrueI], intro frame frame_rules)
    apply (rule safe_with_state_inv, rule lift_then, simp)
    apply (rule skip_followed [where P = P, OF _ rest_m TrueI], intro frame)
    by (rule safe_followed [OF manifest state])
qed

subsection \<open>Ingest\<close>

text \<open>
  What a successful ingest leaves: the record of the requested artifact, its file, and no intent.
\<close>

definition committed :: "host \<Rightarrow> artifact_spec \<Rightarrow> artifact \<Rightarrow> session_store \<Rightarrow> bool" where
  "committed h sp a s \<longleftrightarrow>
     spec_matches_artifact sp a \<and> (\<exists>name. record_at h name s = Some a) \<and>
     file_at (record_path intent_dir (sp_id sp)) s = None \<and>
     list_all (\<lambda>a. present h a s) (filter (data \<circ> dest) [a])"

definition recorded :: "host \<Rightarrow> artifact \<Rightarrow> session_store \<Rightarrow> bool" where
  "recorded h a s \<longleftrightarrow>
     (\<exists>name. record_at h name s = Some a) \<and> list_all (\<lambda>a. present h a s) (filter (data \<circ> dest) [a])"

lemma committed_recorded:
  "committed h sp a s \<longleftrightarrow>
     spec_matches_artifact sp a \<and> recorded h a s \<and> file_at (record_path intent_dir (sp_id sp)) s = None"
  by (auto simp: committed_def recorded_def)

lemma recorded_simps:
  "data (dest a) \<Longrightarrow> recorded h a s \<longleftrightarrow> (\<exists>name. record_at h name s = Some a) \<and> present h a s"
  "\<not> data (dest a) \<Longrightarrow> recorded h a s \<longleftrightarrow> (\<exists>name. record_at h name s = Some a)"
  by (simp_all add: recorded_def)

lemma steady_data:
  assumes "steady data s t"
  shows "record_at h name t = record_at h name s" "data (dest a) \<Longrightarrow> present h a t = present h a s"
  using assms by (auto simp: present_def steady_def record_at_def data_def [of "catalog_dir @ _"] data_staging)

lemma rests_recorded: "rests data (recorded h a)"
proof -
  have "recorded h a t" if "steady data s t" "recorded h a s" for s t
    using that(2) steady_data [OF that(1)] by (cases "data (dest a)") (simp_all add: recorded_simps)
  then show ?thesis by (auto simp: rests_def)
qed

lemma find_mem: "find p xs = Some x \<Longrightarrow> x \<in> set xs"
  by (induction xs) (auto split: if_splits)

lemma exact_catalog_mem: "exact_catalog_state catalogs a = Inr True \<Longrightarrow> a \<in> set catalogs"
  unfolding exact_catalog_state_def by (auto split: option.splits if_splits dest: find_mem)

text \<open>Reading the catalog and checking a file establishes \<open>recorded\<close>.\<close>

lemma check_recorded:
  assumes "a \<in> set catalogs" "leaves P m" "\<And>p. data p \<Longrightarrow> P p" "data (dest a) \<Longrightarrow> sees m (\<lambda>_. present h a)"
  shows "safe (catalog_is h catalogs) m (\<lambda>_. recorded h a) (\<lambda>_ _. True)"
proof -
  have rest: "rests P (catalog_is h catalogs)"
    by (rule rests_mono [OF rests_catalog]) (simp add: assms(3) data_def)
  have entry: "\<exists>name. record_at h name s = Some a" if "catalog_is h catalogs s" for s
    using that assms(1) by (simp add: catalog_is_def)
  show ?thesis
  proof (cases "data (dest a)")
    case True
    show ?thesis
      by (rule safe_imp [OF safe_sees [OF assms(2) rest TrueI assms(4) [OF True]]])
        (use True in \<open>simp add: recorded_simps entry\<close>)
  next
    case False
    show ?thesis
      by (rule safe_imp [OF safe_quiet [OF assms(2) rest TrueI]]) (use False in \<open>simp add: recorded_simps entry\<close>)
  qed
qed

lemma followed_ret [simp]: "followed (ret x) n = n" "followed (throw e) n = throw e"
  by (rule ext, simp add: se_defs)+

lemma remove_sees:
  fixes name
  defines "p \<equiv> record_path intent_dir name"
  shows "sees (remove_exact_committed_intent h p i) (\<lambda>_ s. recorded h (ii_artifact i) s \<and> file_at p s = None)"
proof (rule sees_safe)
  let ?E = "\<lambda>_ _. True" and ?a = "ii_artifact i"
  have pc: "\<not> data p" "\<not> below staging_dir p" by (simp add: p_def) (auto simp: p_def below_def dirs)
  have gone: "safe (recorded h ?a) (followed (put p None) (sync_directory d))
      (\<lambda>_ s. recorded h ?a s \<and> file_at p s = None) ?E" for d
  proof (rule safe_followed)
    have "recorded h ?a (snd (put p None s))" if "recorded h ?a s" for s
    proof -
      have "steady data s (snd (put p None s))"
        using leaves_put [where P = data, OF pc(1)] by (simp add: steady.moves_def)
      with that rests_recorded show ?thesis unfolding rests_def by blast
    qed
    then show "safe (recorded h ?a) (put p None) (\<lambda>_ s. recorded h ?a s \<and> file_at p s = None) ?E"
      by (auto simp: safe_def put_def modify_def file_at_def node_at_def change_def)
    show "safe (\<lambda>s. recorded h ?a s \<and> file_at p s = None) (sync_directory d)
        (\<lambda>_ s. recorded h ?a s \<and> file_at p s = None) ?E"
      by (rule safe_quiet [where P = "\<lambda>q. data q \<or> q = p"])
        (auto intro!: frame rests_conj rests_mono [OF rests_recorded] rests_file pc)
  qed
  have settled: "safe (catalog_is h catalogs) (followed (verify_artifact h ?a True)
       (andthen (staging_path (ii_staged_relative_path i)) (\<lambda>source_path.
        andthen (artifact_file_evidence h source_path ?a) (\<lambda>evidence.
        followed (when_se (evidence = EvMatching) (write_source_record h i))
        (followed (sys ''remove committed ingest intent'' p)
        (followed (put p None) (sync_directory (butlast p)))))))) (\<lambda>_ s. recorded h ?a s \<and> file_at p s = None) ?E"
    if a: "?a \<in> set catalogs" for catalogs
    apply (rule safe_followed [OF check_recorded [where P = "\<lambda>_. True", OF a]], (simp add: frame)+)
     apply (rule verify_artifact_sees, erule data_staging)
    by (rule gone | rule skip_followed [where P = data, OF _ rests_recorded TrueI] skip_then [where P = data, OF _ rests_recorded TrueI] |
      intro frame frame_rules | simp)+
  show "safe (\<lambda>_. True) (remove_exact_committed_intent h p i)
      (\<lambda>_ s. recorded h ?a s \<and> file_at p s = None) ?E"
    unfolding remove_exact_committed_intent_def Let_def
    apply (rule skip_then [where P = data, OF _ rests_const TrueI], intro frame)
    apply (rule ensure_followed, simp)
    apply (rule see_then [where P = data, OF catalog_sees _ rests_const TrueI], intro frame)
    apply (rule safe_pre_imp [where A' = "catalog_is h x" for x], simp)
    subgoal for current catalogs
      by (cases "exact_catalog_state catalogs ?a")
        (auto intro: safe_throw settled [OF exact_catalog_mem] split: bool.splits)
    done
qed

lemma kept_sees:
  assumes "\<And>s. safe (keeps_control s) m (\<lambda>x t. keeps_control s t \<and> V x) (\<lambda>_. keeps_control s)"
  shows "sees m (\<lambda>x _. V x)"
  unfolding sees_def
proof (intro allI impI)
  fix s x t
  assume "m s = (Inr x, t)"
  with safeD(1) [OF assms [of s] keeps_control_refl] show "V x" by blast
qed

lemma find_catalog_mem:
  "find_catalog_for_request catalogs sp = Inr (Some a) \<Longrightarrow> a \<in> set catalogs \<and> spec_matches_artifact sp a"
  unfolding find_catalog_for_request_def
  by (auto simp: rthen_eq_Inr ensure_eq_Inr split: option.splits dest: find_mem)

lemma step_then:
  "sees m (\<lambda>x _. V x) \<Longrightarrow> (\<And>x. V x \<Longrightarrow> safe (\<lambda>_. True) (f x) Q (\<lambda>_ _. True)) \<Longrightarrow>
     safe (\<lambda>_. True) (andthen m f) Q (\<lambda>_ _. True)"
  by (rule safe_andthen [where R = "\<lambda>x _. V x"]) (auto simp: sees_def safe_def split: prod.splits sum.splits)

lemma any_then:
  "(\<And>x. safe (\<lambda>_. True) (f x) Q (\<lambda>_ _. True)) \<Longrightarrow> safe (\<lambda>_. True) (andthen (m :: 'a st) f) Q (\<lambda>_ _. True)"
  by (rule step_then [where V = "\<lambda>_. True"]) (simp_all add: sees_def)

lemma any_followed:
  "safe (\<lambda>_. True) n Q (\<lambda>_ _. True) \<Longrightarrow> safe (\<lambda>_. True) (followed (m :: 'a st) n) Q (\<lambda>_ _. True)"
  unfolding followed_def by (rule any_then)

lemma continue_sees:
  "sees (continue_ingest h lock (record_path intent_dir (sp_id sp)) staged b staged_relative sp catalogs limit) (committed h sp)"
proof (rule sees_safe)
  let ?p = "record_path intent_dir (sp_id sp)"
  have rest: "rests (\<lambda>p. data p \<or> p = ?p) (\<lambda>s. recorded h a s \<and> file_at ?p s = None)" for a
    by (intro rests_conj rests_mono [OF rests_recorded] rests_file) (auto simp: below_def dirs)
  have last: "safe (\<lambda>_. True) (followed (remove_exact_committed_intent h ?p i) (ret (ii_artifact i))) (committed h sp) (\<lambda>_ _. True)"
    if "intent_for sp i" for i
  proof (rule safe_followed)
    show "safe (\<lambda>_. True) (remove_exact_committed_intent h ?p i)
        (\<lambda>_ s. recorded h (ii_artifact i) s \<and> file_at ?p s = None) (\<lambda>_ _. True)"
      using remove_sees [of h "sp_id sp" i] unfolding sees_def safe_def
      by (auto split: prod.splits sum.splits)
    show "safe (\<lambda>s. recorded h (ii_artifact i) s \<and> file_at ?p s = None) (ret (ii_artifact i)) (committed h sp) (\<lambda>_ _. True)"
      using that by (auto intro!: safe_ret simp: committed_recorded intent_for_def)
  qed
  show "safe (\<lambda>_. True) (continue_ingest h lock ?p staged b staged_relative sp catalogs limit) (committed h sp) (\<lambda>_ _. True)"
    unfolding continue_ingest_def
    apply (rule any_then)
    apply (rule any_then)
    apply (rule step_then [OF kept_sees [OF kept.obtain_safe]])
    apply (rule step_then [OF kept_sees [OF kept.complete_safe]], assumption)
    by (rule any_followed, erule last)
qed

lemma exists_sees: "sees (plain_file_exists p) (\<lambda>b s. \<not> b \<longrightarrow> file_at p s = None)"
proof -
  have "file_at p t = None" if "plain_file_exists p s = (Inr False, t)" for s t
    using that unfolding plain_file_exists_def plain_file_metadata_def
    by (auto simp: se_defs file_at_def dest!: metadata_node split: prod.splits sum.splits option.splits)
  then show ?thesis by (auto simp: sees_def)
qed

lemma ingest_bounded_sees: "sees (ingest_staged_bounded h lock staged_relative sp limit) (committed h sp)"
proof (rule sees_safe)
  let ?p = "record_path intent_dir (sp_id sp)"
  let ?P = "\<lambda>p. data p \<or> p = ?p"
  let ?C = "\<lambda>catalogs b s. (True \<and> catalog_is h catalogs s) \<and> (\<not> b \<longrightarrow> file_at ?p s = None)"
  have rest_c: "rests ?P (\<lambda>s. True \<and> catalog_is h catalogs s)" for catalogs
    by (intro rests_conj rests_const rests_mono [OF rests_catalog]) (simp add: data_def)
  have found: "safe (?C catalogs False) (followed (lift (ensure c e))
          (followed (ensure_matching_artifact_file h (dest a) a l) (ret a))) (committed h sp) (\<lambda>_ _. True)"
    if "a \<in> set catalogs \<and> spec_matches_artifact sp a" for catalogs a l c e
  proof (rule ensure_followed, simp, rule safe_followed [where R = "\<lambda>s. recorded h a s \<and> file_at ?p s = None"])
    have rest: "rests ?P (\<lambda>s. file_at ?p s = None)" by (intro rests_file) (auto simp: below_def dirs)
    have "safe (catalog_is h catalogs) (ensure_matching_artifact_file h (dest a) a l) (\<lambda>_. recorded h a) (\<lambda>_ _. True)"
      using that
      by (intro check_recorded [where P = "\<lambda>_. True"] frame)
          (auto simp: present_copy data_staging intro: sees_imp [OF ensure_matching_sees])
    moreover have "safe (\<lambda>s. file_at ?p s = None) (ensure_matching_artifact_file h (dest a) a l)
        (\<lambda>_ s. file_at ?p s = None) (\<lambda>_ _. True)"
      by (rule safe_quiet [where P = ?P, OF _ rest TrueI]) (intro frame)
    ultimately show "safe (?C catalogs False) (ensure_matching_artifact_file h (dest a) a l)
        (\<lambda>_ s. recorded h a s \<and> file_at ?p s = None) (\<lambda>_ _. True)"
      by (fastforce simp: safe_def split: prod.splits sum.splits)
    show "safe (\<lambda>s. recorded h a s \<and> file_at ?p s = None) (ret a) (committed h sp) (\<lambda>_ _. True)"
      using that by (auto intro!: safe_ret simp: committed_recorded)
  qed
  have rest: "safe (?C catalogs b) (andthen (if b then ret None else lift (find_catalog_for_request catalogs sp)) (\<lambda>committed.
      case committed of
        Some a \<Rightarrow>
          followed (lift (ensure (\<not> l < art_size_bytes a) (FileLimitExceeded l (art_size_bytes a))))
          (followed (ensure_matching_artifact_file h (path_segments (sp_relative_path sp)) a ''destination'') (ret a))
      | None \<Rightarrow> continue_ingest h lock ?p staged b staged_relative sp catalogs l)) (committed h sp) (\<lambda>_ _. True)"
    for catalogs b l staged
  proof -
    have continue: "safe (?C catalogs b) (continue_ingest h lock ?p staged b' staged_relative sp catalogs l) (committed h sp) (\<lambda>_ _. True)" for b b'
      using continue_sees [of h lock sp staged b' staged_relative catalogs l]
      unfolding sees_def safe_def by (auto split: prod.splits sum.splits)
    show ?thesis
    proof (cases b)
      case True
      then show ?thesis using continue [of True True] by (simp add: andthen_def ret_def safe_def)
    next
      case False
      have "safe (?C catalogs False) (andthen (lift (find_catalog_for_request catalogs sp)) (\<lambda>committed.
        case committed of
        Some a \<Rightarrow>
          followed (lift (ensure (\<not> l < art_size_bytes a) (FileLimitExceeded l (art_size_bytes a))))
          (followed (ensure_matching_artifact_file h (path_segments (sp_relative_path sp)) a ''destination'') (ret a))
        | None \<Rightarrow> continue_ingest h lock ?p staged False staged_relative sp catalogs l)) (committed h sp) (\<lambda>_ _. True)"
      proof (rule lift_then, simp)
        fix c
        assume c: "find_catalog_for_request catalogs sp = Inr c"
        show "safe (?C catalogs False) (case c of
            Some a \<Rightarrow>
              followed (lift (ensure (\<not> l < art_size_bytes a) (FileLimitExceeded l (art_size_bytes a))))
              (followed (ensure_matching_artifact_file h (path_segments (sp_relative_path sp)) a ''destination'') (ret a))
          | None \<Rightarrow> continue_ingest h lock ?p staged False staged_relative sp catalogs l) (committed h sp) (\<lambda>_ _. True)"
        proof (cases c)
          case None
          then show ?thesis using continue [of False False] by simp
        next
          case (Some a)
          with c have a: "a \<in> set catalogs \<and> spec_matches_artifact sp a" by (auto dest: find_catalog_mem)
          then have "path_segments (sp_relative_path sp) = dest a" by (simp add: spec_matches_artifact_def)
          with Some found [OF a] show ?thesis by simp
        qed
      qed
      moreover have "b = False" using False by simp
      ultimately show ?thesis by (simp only: if_False)
    qed
  qed
  show "safe (\<lambda>_. True) (ingest_staged_bounded h lock staged_relative sp limit) (committed h sp) (\<lambda>_ _. True)"
    unfolding ingest_staged_bounded_def Let_def
    apply (rule safe_with_state_inv)
    apply (rule any_followed)+
    apply (rule any_then)+
    apply (rule any_followed)
    apply (rule step_then [OF resolve_sees])
    apply (rule see_then [where P = ?P, OF catalog_sees _ rests_const TrueI], intro frame)
    apply (rule see_then [where P = ?P, OF exists_sees _ rest_c TrueI], intro frame)
    by (simp only:, rule rest)
qed

lemma ingest_sees: "sees (ingest_staged h lock staged_relative sp) (committed h sp)"
  using ingest_bounded_sees by (simp add: ingest_staged_def with_state_def sees_def)

subsection \<open>Sequences of commands\<close>

lemma now_simps [simp]:
  "record_at (h\<lparr>h_now := n\<rparr>) name s = record_at h name s" "present (h\<lparr>h_now := n\<rparr>) a s = present h a s"
  "state_of (h\<lparr>h_now := n\<rparr>) s = state_of h s"
  by (simp_all add: record_at_def present_def matches_def hash_content_def content_len_def content_bytes_def
      digest_of_def content_document_def state_of_def cong: option.case_cong content.case_cong)

lemma now_sound [simp]: "catalog_sound (h\<lparr>h_now := n\<rparr>) s = catalog_sound h s"
  by (simp add: catalog_sound_def)

lemma now_lifecycle [simp]: "lifecycle (h\<lparr>h_now := n\<rparr>) s t = lifecycle h s t"
  by (simp add: lifecycle_def)

lemma all_permitted [simp]: "list_all (\<lambda>_. True) xs"
  by (simp add: list_all_iff)

lemma perform_lifecycle: "lifecycle.moves h (perform h lock c)"
proof (cases "writes_artifacts c")
  case True
  show ?thesis by (rule kept_lifecycle [OF kept.perform_safe [OF all_permitted True]])
next
  case False
  then show ?thesis
    by (cases c) (auto simp: perform_def discard_def writes_artifacts_def
        intro!: lifecycle.moves_andthen lifecycle.moves_pure transition_lifecycle finalize_lifecycle)
qed

lemma perform_records: "recs.moves (perform h lock c)"
proof -
  have ops: "safe (keeps_records s) (perform h lock c) (\<lambda>_. keeps_records s) (\<lambda>_. keeps_records s)" for s
  proof (cases "writes_artifacts c")
    case False
    then show ?thesis
      by (cases c) (auto simp: perform_def writes_artifacts_def cataloged_def owned_def below_def dirs
          intro!: discard_safe safe_quiet [where P = cataloged] rests_mono [OF rests_keeps_records] frame)
  qed (rule records.perform_safe [OF all_permitted])
  show ?thesis
    unfolding recs.moves_def
  proof
    fix s
    have "keeps (keeps_records s) (perform h lock c)" by (rule safe_keeps [OF ops])
    then show "keeps_records s (snd (perform h lock c s))" using recs.R_refl by (simp add: keeps_def)
  qed
qed

lemma call_sound:
  assumes "tidy (ca_command c)" "catalog_sound h s"
  shows "catalog_sound h (call_store h c s)"
proof -
  let ?h = "h\<lparr>h_now := ca_now c\<rparr>" and ?s = "s\<lparr>st_faults := ca_faults c\<rparr>"
  have "keeps (catalog_sound ?h) (perform ?h (ca_lock c) (ca_command c))"
    by (rule safe_keeps [OF perform_sound [OF assms(1)]])
  moreover have "catalog_sound h ?s"
    using assms(2) by (simp add: catalog_sound_def record_at_def present_def file_at_def node_at_def)
  ultimately show ?thesis unfolding call_store_def keeps_def by simp
qed

lemma call_lifecycle: "lifecycle h s (call_store h c s)"
proof -
  let ?h = "h\<lparr>h_now := ca_now c\<rparr>" and ?s = "s\<lparr>st_faults := ca_faults c\<rparr>"
  have "lifecycle h s ?s"
    by (auto simp: lifecycle_def state_of_def file_at_def node_at_def intro: state_reaches.here)
  moreover have "lifecycle ?h ?s (call_store h c s)"
    using perform_lifecycle unfolding lifecycle.moves_def call_store_def by blast
  ultimately show ?thesis by (auto intro: lifecycle.R_trans)
qed

lemma call_records: "keeps_records s (call_store h c s)"
  using perform_records [of "h\<lparr>h_now := ca_now c\<rparr>" "ca_lock c" "ca_command c"]
  unfolding recs.moves_def call_store_def
  by (auto simp: keeps_records_def file_at_def node_at_def dest: spec [where x = "s\<lparr>st_faults := ca_faults c\<rparr>"])

lemma run_simps [simp]: "run h [] s = s" "run h (c # cs) s = run h cs (call_store h c s)"
  by (simp_all add: run_def)

subsection \<open>Destinations are not checked\<close>

text \<open>
  Nothing keeps the destination of an artifact out of the session's own files: a writer that is
  committed below \<open>artifact-index\<close> puts whatever record its bytes hold into the catalog.
\<close>

lemma put_sees: "sees (put p (Some (NFile c))) (\<lambda>_ s. file_at p s = Some c)"
  by (simp add: sees_def put_some)

lemma finish_sees:
  assumes "wr_destination w = catalog_dir @ [name]"
  shows "sees (finish_writer h w) (\<lambda>_ s. file_at (catalog_dir @ [name]) s = Some (Bytes (wr_bytes w)))"
proof (rule sees_safe)
  let ?F = "\<lambda>s. file_at (catalog_dir @ [name]) s = Some (Bytes (wr_bytes w))"
  have put: "safe (\<lambda>_. True) (followed (put (wr_destination w) (Some (NFile (Bytes (wr_bytes w)))))
      (andthen (lift r) (\<lambda>d. ret (f d)))) (\<lambda>_. ?F) (\<lambda>_ _. True)" for r :: "(store_error, sha256_digest) res" and f :: "sha256_digest \<Rightarrow> artifact"
    unfolding assms by (rule safe_followed [where R = ?F]) (auto simp: safe_def put_some se_defs split: sum.splits)
  show "safe (\<lambda>_. True) (finish_writer h w) (\<lambda>_. ?F) (\<lambda>_ _. True)"
    unfolding finish_writer_def Let_def
    by (rule put safe_with_state_inv any_followed any_then | rule safe_if)+ (auto intro: put any_followed safe_throw)
qed

lemma commit_forges_record:
  assumes "commit_artifact h lock w s = (Inr a, t)" "wr_destination w = catalog_dir @ [name]"
  shows "record_at h name t = Option.bind (h_parse h (wr_bytes w)) pick_artifact"
proof -
  let ?m = "dropping (wr_session w)
    (followed (ensure_lock lock) (followed (ensure_lifecycle_mutation_allowed h) (finish_writer h w)))"
  obtain b u where m: "?m s = (Inr b, u)" and r: "register_artifact h lock b u = (Inr (), t)"
    using assms(1) by (auto simp: commit_artifact_def se_defs split: prod.splits sum.splits)
  have "sees (followed (ensure_lock lock) (followed (ensure_lifecycle_mutation_allowed h) (finish_writer h w)))
      (\<lambda>_ s. file_at (catalog_dir @ [name]) s = Some (Bytes (wr_bytes w)))"
    using finish_sees [OF assms(2)] by (auto simp: sees_def se_defs split: prod.splits sum.splits)
  then have "file_at (catalog_dir @ [name]) u = Some (Bytes (wr_bytes w))"
    using m by (auto simp: sees_def dropping_def release_store file_at_def node_at_def split: prod.splits)
  moreover have "keeps_records u t"
    using safeD(1) [OF records.register_safe [where s = u, OF TrueI] recs.R_refl r] by simp
  ultimately show ?thesis by (simp add: keeps_records_def record_at_def content_document_def)
qed

subsection \<open>A session\<close>

text \<open>A host whose digests are all zero, and a session with one cataloged artifact and a staged file.\<close>

definition zero_host :: host where
  "zero_host = \<lparr>h_render = \<lambda>_. [123, 125], h_parse = \<lambda>_. None, h_sha256 = \<lambda>_. replicate 32 0, h_now = ''t0''\<rparr>"

definition zero_digest :: sha256_digest where
  "zero_digest = Sha256Digest (replicate 64 (CHR ''0''))"

definition demo_artifact :: artifact where
  "demo_artifact =
     \<lparr>art_id = ''log'', art_kind = ''log'', art_relative_path = ArtifactPath ''logs/log.bin'',
      art_media_type = ''a/b'', art_size_bytes = 2, art_sha256 = zero_digest, art_producer = ''p'',
      art_input_artifact_ids = []\<rparr>"

definition demo_spec :: artifact_spec where
  "demo_spec =
     \<lparr>sp_id = ''raw'', sp_kind = ''raw'', sp_relative_path = ArtifactPath ''raw/t.bin'',
      sp_media_type = ''a/b'', sp_producer = ''p'', sp_input_artifact_ids = []\<rparr>"

definition demo_state :: session_state where
  "demo_state =
     \<lparr>ss_created_at = ''t0'', ss_status = Capturing, ss_operation_id = ''op'', ss_revision = 1,
      ss_updated_at = ''t0'', ss_error = None\<rparr>"

definition demo_store :: session_store where
  "demo_store =
     \<lparr>st_id = ''s1'', st_limits = \<lparr>max_file_bytes = 1000, max_session_bytes = 10000\<rparr>,
      st_files =
        [([], NDir), ([''artifact-index''], NDir), ([''artifact-index'', ''log.json''], NFile (Doc (DArtifact demo_artifact))),
         ([''capture''], NDir), ([''capture'', ''staging''], NDir), ([''capture'', ''staging'', ''t.bin''], NFile (Bytes [7, 8])),
         ([''committed-staging-sources''], NDir), ([''ingest-intents''], NDir),
         ([''logs''], NDir), ([''logs'', ''log.bin''], NFile (Bytes [1, 2])),
         ([''state.json''], NFile (Doc (DState demo_state)))],
      st_writer = False, st_faults = []\<rparr>"

definition demo_calls :: "store_call list" where
  "demo_calls =
     [\<lparr>ca_lock = ''s1'', ca_now = ''t1'', ca_faults = replicate 200 Works @ [Fails],
       ca_command = Ingest (ArtifactPath ''t.bin'') demo_spec\<rparr>,
      \<lparr>ca_lock = ''s1'', ca_now = ''t2'', ca_faults = [],
       ca_command = Ingest (ArtifactPath ''t.bin'') demo_spec\<rparr>,
      \<lparr>ca_lock = ''s1'', ca_now = ''t3'', ca_faults = [Staged [''capture'', ''staging'', ''t.bin''] None],
       ca_command = Transition Captured None\<rparr>,
      \<lparr>ca_lock = ''s1'', ca_now = ''t4'', ca_faults = [],
       ca_command = Produce demo_spec [123, 125] (\<lambda>n. n)\<rparr>]"

lemma demo_files:
  "file_at (catalog_dir @ [name]) demo_store =
     (if name = ''log.json'' then Some (Doc (DArtifact demo_artifact)) else None)"
  "file_at (dest demo_artifact) demo_store = Some (Bytes [1, 2])"
  by (simp_all add: file_at_def node_at_def demo_store_def bt_get_def catalog_dir_def path_segments_def
      demo_artifact_def split_at_char_Cons)

lemma demo_matches: "matches zero_host (Bytes [1, 2]) demo_artifact"
proof -
  have "encode_hex (replicate 32 0) = replicate 64 (CHR ''0'')" by code_simp
  moreover have "is_lower_hex (replicate 64 (CHR ''0'')) 64" by code_simp
  ultimately show ?thesis
    by (simp add: matches_def hash_content_def digest_of_def zero_host_def content_bytes_def content_len_def
        digest_new_def demo_artifact_def zero_digest_def rbind_eq_Inr map_err_eq_Inr rthen_eq_Inr ensure_eq_Inr)
qed

lemma demo_sound: "catalog_sound zero_host demo_store"
proof -
  have "owned (dest demo_artifact)"
    by (simp add: owned_def below_def dirs path_segments_def demo_artifact_def split_at_char_Cons)
  then show ?thesis
    by (auto simp: catalog_sound_def record_at_def demo_files present_def demo_matches content_document_def split: if_splits)
qed

lemma demo_tidy: "list_all (tidy \<circ> ca_command) demo_calls"
  by (simp add: demo_calls_def tidy_def destinations_def demo_spec_def owned_def below_def dirs path_segments_def split_at_char_Cons)

subsection \<open>Properties\<close>

text \<open>
  C10: As long as no artifact is written to one of the session's own files, which the store itself does
  not check, every catalog record names a file of the session with the recorded size and digest, in
  whatever way commands fail or stop and whatever happens below \<open>capture/staging\<close>.
\<close>
theorem catalog_integrity:
  assumes "catalog_sound h s" "list_all (tidy \<circ> ca_command) cs"
  shows "catalog_sound h (run h cs s)"
  using assms by (induction cs arbitrary: s) (auto intro: call_sound)

theorem catalog_integrity_witness: "catalog_sound zero_host (run zero_host demo_calls demo_store)"
  by (rule catalog_integrity [OF demo_sound demo_tidy])

text \<open>
  C11: No command ever changes or removes a catalog record, wherever it writes artifacts to and
  however it fails.
\<close>
theorem records_are_permanent: "keeps_records s (run h cs s)"
  by (induction cs arbitrary: s) (auto intro: recs.R_trans [OF call_records] recs.R_refl)

text \<open>
  C12: Under any commands, artifacts written to \<open>state.json\<close> or \<open>manifest.json\<close> included, and with any
  failures in between, the state document only goes through the updates of the lifecycle: its
  revision never decreases, its status never moves back, a terminal state is never left, and the
  creation time and the operation stay. A manifest that exists is never replaced.
\<close>
theorem session_lifecycle:
  "(case state_of h s of
      None \<Rightarrow> True
    | Some st \<Rightarrow>
        (case state_of h (run h cs s) of
           None \<Rightarrow> False
         | Some st' \<Rightarrow>
             state_reaches st st' \<and> ss_revision st \<le> ss_revision st' \<and>
             status_rank (ss_status st) \<le> status_rank (ss_status st') \<and>
             ss_created_at st' = ss_created_at st \<and> ss_operation_id st' = ss_operation_id st \<and>
             (if terminal (ss_status st) then st' = st else True))) \<and>
    (case file_at manifest_path s of
       None \<Rightarrow> True | Some c \<Rightarrow> file_at manifest_path (run h cs s) = Some c)"
proof -
  have "lifecycle h s (run h cs s)"
    by (induction cs arbitrary: s) (auto intro: lifecycle.R_trans [OF call_lifecycle] lifecycle.R_refl)
  then show ?thesis
    by (auto simp: lifecycle_def dest: state_reaches_progress split: option.splits)
qed

text \<open>
  C13: When finalization succeeds the session is Complete, its manifest is the given one and valid,
  the artifacts of the manifest are exactly the records of the catalog, and the file of every
  artifact has the recorded size and digest. Excepted are artifacts at \<open>state.json\<close> or
  \<open>manifest.json\<close>, which finalization itself writes after it has verified them, and artifacts below
  \<open>capture/staging\<close>.
\<close>
theorem finalize_commits:
  "case finalize h lock m s of
     (Inr st, t) \<Rightarrow>
       ss_status st = Complete \<and> state_of h t = Some st \<and> manifest_of h t = Some m \<and>
       validate_manifest m = Inr () \<and> mf_session_id m = st_id t \<and>
       (\<forall>a. a \<in> set (mf_artifacts m) \<longleftrightarrow> (\<exists>name. record_at h name t = Some a)) \<and>
       list_all (\<lambda>a. present h a t) (filter (settled \<circ> dest) (mf_artifacts m))
   | _ \<Rightarrow> True"
  using finalize_sees [of h lock m]
  by (auto simp: sees_def finalized_def verified_def split: prod.splits sum.splits)

text \<open>
  C14: When ingest succeeds, the artifact it returns has the requested specification, its record is in
  the catalog, no intent for it is left, and its file has the recorded size and digest. The last part
  holds unless the destination is below one of the directories ingest itself works in: the staging
  files, the private copies, the intents and the records of committed sources.
\<close>
theorem ingest_commits:
  assumes "data (path_segments (sp_relative_path sp))"
  shows "case ingest_staged h lock staged sp s of
     (Inr a, t) \<Rightarrow>
       spec_matches_artifact sp a \<and> (\<exists>name. record_at h name t = Some a) \<and>
       file_at (record_path intent_dir (sp_id sp)) t = None \<and> present h a t
   | _ \<Rightarrow> True"
proof -
  obtain r t where r: "ingest_staged h lock staged sp s = (r, t)" by fastforce
  show ?thesis
  proof (cases r)
    case (Inr a)
    with r have c: "committed h sp a t" using ingest_sees [of h lock staged sp] by (simp add: sees_def)
    then have "dest a = path_segments (sp_relative_path sp)" by (simp add: committed_def spec_matches_artifact_def)
    then have "present h a t" using c assms by (simp add: committed_def)
    with r Inr c show ?thesis by (simp add: committed_def)
  qed (simp add: r)
qed

theorem ingest_commits_witness:
  "case ingest_staged zero_host ''s1'' (ArtifactPath ''t.bin'') demo_spec demo_store of
     (Inr a, t) \<Rightarrow>
       spec_matches_artifact demo_spec a \<and> (\<exists>name. record_at zero_host name t = Some a) \<and>
       file_at (record_path intent_dir (sp_id demo_spec)) t = None \<and> present zero_host a t
   | _ \<Rightarrow> True"
proof -
  have "data (path_segments (sp_relative_path demo_spec))"
    by (simp add: data_def demo_spec_def owned_def below_def dirs path_segments_def split_at_char_Cons)
  then show ?thesis by (rule ingest_commits)
qed

text \<open>
  A writer that takes bytes has taken exactly the bytes it was given, in order, whatever part of
  each write the file accepts: no byte is lost or repeated, the size of the artifact counts them
  all, and neither the limit of the file nor the limit of the session, with the catalog record
  reserved, is passed.
\<close>
theorem writer_exact_within_limits:
  assumes "length buffer < 2 ^ 64"
  shows "case create_artifact h lock sp s of
     (Inr w, t) \<Rightarrow>
       (case write_all accept buffer w u of
          (Inr w', v) \<Rightarrow>
            wr_bytes w' = buffer \<and> unat (wr_size w') = length buffer \<and>
            length buffer \<le> unat (wr_max_file w) \<and>
            unat (wr_baseline w') + unat (wr_reservation w') + length buffer \<le> unat (wr_max_session w)
        | _ \<Rightarrow> True)
   | _ \<Rightarrow> True"
proof -
  have "wr_bytes w' = buffer \<and> unat (wr_size w') = length buffer \<and> length buffer \<le> unat (wr_max_file w) \<and>
      unat (wr_baseline w') + unat (wr_reservation w') + length buffer \<le> unat (wr_max_session w)"
    if "create_artifact h lock sp s = (Inr w, t)" "write_all accept buffer w u = (Inr w', v)" for w t w' v
    using write_all_limits [OF that(2) create_limits(1) [OF that(1)] assms] create_limits(2) [OF that(1)]
    by (clarsimp simp: within_limits_def)
  then show ?thesis by (auto split: prod.splits sum.splits)
qed

theorem writer_exact_within_limits_witness:
  "case create_artifact zero_host ''s1'' demo_spec demo_store of
     (Inr w, t) \<Rightarrow>
       (case write_all (\<lambda>n. n - 1) [1, 2, 3] w t of
          (Inr w', v) \<Rightarrow>
            wr_bytes w' = [1, 2, 3] \<and> unat (wr_size w') = length [1 :: u8, 2, 3] \<and>
            length [1 :: u8, 2, 3] \<le> unat (wr_max_file w) \<and>
            unat (wr_baseline w') + unat (wr_reservation w') + length [1 :: u8, 2, 3] \<le> unat (wr_max_session w)
        | _ \<Rightarrow> True)
   | _ \<Rightarrow> True"
proof -
  have len: "length [1 :: u8, 2, 3] < 2 ^ 64" by simp
  show ?thesis
    using writer_exact_within_limits [OF len, where h = zero_host and lock = "''s1''" and sp = demo_spec and s = demo_store
        and accept = "\<lambda>n. n - 1" and u = "snd (create_artifact zero_host ''s1'' demo_spec demo_store)"]
    by (auto split: prod.splits sum.splits)
qed

end
