(* ===== verification/T32mcp_Protocol.thy ===== *)
theory T32mcp_Protocol
  imports Session_Types
begin

text \<open>
  The operations of the controller and the framed responses of its fixed scripts
  (\<open>t32perf-trace32/src/t32mcp_protocol.rs\<close>). How a payload line is decoded from JSON is a
  parameter; its error is the message of the JSON library.
\<close>

subsection \<open>Operations\<close>

datatype perf_operation =
    GetCapabilities
  | Configure
  | Start
  | Stop
  | GetHealth
  | Export
  | GetHotspots
  | Cleanup

definition operation_all :: "perf_operation list" where
  "operation_all = [GetCapabilities, Configure, Start, Stop, GetHealth, Export, GetHotspots, Cleanup]"

fun operation_str :: "perf_operation \<Rightarrow> string" where
  "operation_str GetCapabilities = ''perf_get_capabilities''"
| "operation_str Configure = ''perf_configure''"
| "operation_str Start = ''perf_start''"
| "operation_str Stop = ''perf_stop''"
| "operation_str GetHealth = ''perf_get_health''"
| "operation_str Export = ''perf_export''"
| "operation_str GetHotspots = ''perf_get_hotspots''"
| "operation_str Cleanup = ''perf_cleanup''"

fun script_name :: "perf_operation \<Rightarrow> string" where
  "script_name GetCapabilities = ''perf_get_capabilities.cmm''"
| "script_name Configure = ''perf_configure.cmm''"
| "script_name Start = ''perf_start.cmm''"
| "script_name Stop = ''perf_stop.cmm''"
| "script_name GetHealth = ''perf_get_health.cmm''"
| "script_name Export = ''perf_export.cmm''"
| "script_name GetHotspots = ''perf_get_hotspots.cmm''"
| "script_name Cleanup = ''perf_cleanup.cmm''"

fun v2_script_name :: "perf_operation \<Rightarrow> string option" where
  "v2_script_name Configure = Some ''perf_configure_v2.cmm''"
| "v2_script_name Start = Some ''perf_start_v2.cmm''"
| "v2_script_name Stop = Some ''perf_stop_v2.cmm''"
| "v2_script_name GetHealth = Some ''perf_get_health_v2.cmm''"
| "v2_script_name Export = Some ''perf_export_v2.cmm''"
| "v2_script_name Cleanup = Some ''perf_cleanup_v2.cmm''"
| "v2_script_name GetCapabilities = None"
| "v2_script_name GetHotspots = None"

definition operation_parse :: "string \<Rightarrow> perf_operation option" where
  "operation_parse v = find (\<lambda>op. operation_str op = v) operation_all"

datatype perf_status = StatusOk | InvalidArgument | UnsupportedNeedsTrace32 | HostProcessingRequired

fun status_str :: "perf_status \<Rightarrow> string" where
  "status_str StatusOk = ''OK''"
| "status_str InvalidArgument = ''INVALID_ARGUMENT''"
| "status_str UnsupportedNeedsTrace32 = ''UNSUPPORTED_NEEDS_TRACE32''"
| "status_str HostProcessingRequired = ''HOST_PROCESSING_REQUIRED''"

definition status_parse :: "string \<Rightarrow> perf_status option" where
  "status_parse v =
     find (\<lambda>st. status_str st = v) [StatusOk, InvalidArgument, UnsupportedNeedsTrace32, HostProcessingRequired]"

record script_response =
  pr_operation :: perf_operation
  pr_status :: perf_status
  pr_code :: string
  pr_binding_sha256 :: string
  pr_files_deleted :: "bool option"

datatype frame_error =
    InvalidLimit
  | NotFinished
  | MissingContentMarker
  | DuplicateContentMarker
  | ProtocolContamination nat string
  | MissingBeginMarker
  | MissingEndMarker
  | DuplicateBeginMarker
  | DuplicateEndMarker
  | PayloadLineCount nat
  | FramePayloadTooLarge nat nat
  | InvalidJson string
  | FrameUnknownField string
  | InvalidProtocol string
  | UnknownOperation string
  | UnknownStatus string
  | InvalidCode string
  | UnknownCode string string
  | CodeStatusMismatch string string string
  | CleanupDeletedFiles
  | InvalidBinding string

record raw_payload =
  rw_protocol :: string
  rw_operation :: string
  rw_status :: string
  rw_code :: string
  rw_binding_sha256 :: string
  rw_files_deleted :: "bool option"
  rw_expected_initial_target_state :: "string option"
  rw_observed_target_state :: "string option"

type_synonym payload_decoder = "string \<Rightarrow> string + raw_payload"

subsection \<open>Lines\<close>

text \<open>\<open>str::lines\<close>: a line ends at a line feed, with the carriage return before it.\<close>

definition chomp :: "string \<Rightarrow> string" where
  "chomp s = (if s \<noteq> [] \<and> last s = CHR 0x0D then butlast s else s)"

fun lines_from :: "string \<Rightarrow> string \<Rightarrow> string list" where
  "lines_from acc [] = (if acc = [] then [] else [rev acc])"
| "lines_from acc (c # s) =
     (if c = CHR 0x0A then chomp (rev acc) # lines_from [] s else lines_from (c # acc) s)"

definition text_lines :: "string \<Rightarrow> string list" where
  "text_lines s = lines_from [] s"

subsection \<open>The wrapper\<close>

abbreviation content_marker :: string where "content_marker \<equiv> ''<CONTENT>''"

abbreviation begin_marker :: string where "begin_marker \<equiv> ''T32PERF_RESULT_BEGIN''"

abbreviation end_marker :: string where "end_marker \<equiv> ''T32PERF_RESULT_END''"

definition occurrences :: "'a \<Rightarrow> 'a list \<Rightarrow> nat" where
  "occurrences x xs = length (filter (\<lambda>y. y = x) xs)"

definition positions :: "'a \<Rightarrow> 'a list \<Rightarrow> nat list" where
  "positions x xs = map fst (filter (\<lambda>(i, y). y = x) (enumerate 0 xs))"

definition first_is :: "'a list \<Rightarrow> 'a \<Rightarrow> bool" where
  "first_is xs x \<longleftrightarrow> (case xs of [] \<Rightarrow> False | y # _ \<Rightarrow> y = x)"

definition is_valid_not_finished_wrapper :: "string list \<Rightarrow> bool" where
  "is_valid_not_finished_wrapper ls \<longleftrightarrow>
     first_is ls ''<NOT FINISHED>'' \<and> first_is (tl ls) content_marker \<and> occurrences content_marker ls = 1 \<and>
     list_all (\<lambda>l. l \<notin> {''<NOT FINISHED>'', ''<FINISHED>''}) (drop 1 ls)"

text \<open>Indexing out of range panics.\<close>

definition index_or_panic :: "'a list \<Rightarrow> nat \<Rightarrow> ('e, 'a) res" where
  "index_or_panic xs i = (if i < length xs then Inr (xs ! i) else Inl Panic)"

definition position_of :: "'a \<Rightarrow> 'a list \<Rightarrow> nat option" where
  "position_of x xs = (case positions x xs of [] \<Rightarrow> None | i # _ \<Rightarrow> Some i)"

definition validate_markers :: "string list \<Rightarrow> (frame_error, unit) res" where
  "validate_markers content =
     rthen (ensure (occurrences begin_marker content \<noteq> 0) MissingBeginMarker)
     (rthen (ensure (occurrences begin_marker content = 1) DuplicateBeginMarker)
     (rthen (ensure (occurrences end_marker content \<noteq> 0) MissingEndMarker)
     (rthen (ensure (occurrences end_marker content = 1) DuplicateEndMarker)
     (rbind (expect (position_of begin_marker content)) (\<lambda>first.
     rbind (expect (position_of end_marker content)) (\<lambda>last_pos.
     if first \<noteq> 0 then rbind (index_or_panic content 0) (\<lambda>text. Inl (Err (ProtocolContamination 3 text)))
     else if last_pos \<le> first then Inl (Err (PayloadLineCount 0))
     else if last_pos - first - 1 \<noteq> 1 then Inl (Err (PayloadLineCount (last_pos - first - 1)))
     else if last_pos + 1 \<noteq> length content then
       rbind (index_or_panic content (last_pos + 1)) (\<lambda>text. Inl (Err (ProtocolContamination (last_pos + 4) text)))
     else Inr ()))))))"

subsection \<open>The payload\<close>

definition snake_char :: "char \<Rightarrow> bool" where
  "snake_char c \<longleftrightarrow> is_lower c \<or> is_digit c \<or> c = CHR ''_''"

definition is_snake_case_code :: "string \<Rightarrow> bool" where
  "is_snake_case_code code \<longleftrightarrow>
     code \<noteq> [] \<and> \<not> starts_with code ''_'' \<and> \<not> starts_with (rev code) ''_'' \<and> \<not> str_contains code ''__'' \<and>
     list_all snake_char code"

definition ok_codes :: "(perf_operation \<times> string) list" where
  "ok_codes =
     [(GetCapabilities, ''capabilities_exported''), (Configure, ''configured''), (Start, ''started''),
      (Stop, ''stopped''), (GetHealth, ''health_exported''), (Cleanup, ''cleanup_completed''),
      (Export, ''raw_ascii_exported''), (Export, ''task_events_exported'')]"

definition unsupported_codes :: "(perf_operation \<times> string) list" where
  "unsupported_codes =
     [(GetCapabilities, ''hardware_adapter_required''), (Configure, ''target_configuration_required''),
      (Start, ''target_start_required''), (Stop, ''target_stop_required''),
      (GetHealth, ''verified_health_adapter_required''), (Cleanup, ''target_cleanup_required''),
      (Export, ''raw_ascii_export_failed''), (Export, ''task_events_export_failed'')]"

definition status_for_code :: "perf_operation \<Rightarrow> string \<Rightarrow> perf_status option" where
  "status_for_code op code =
     (if code = ''invalid_arguments'' then Some InvalidArgument
      else if op \<in> {Configure, Start} \<and> code = ''initial_target_state_drift'' then Some InvalidArgument
      else if (op, code) \<in> set unsupported_codes then Some UnsupportedNeedsTrace32
      else if (op, code) = (GetHotspots, ''raw_trace_analysis_required'') then Some HostProcessingRequired
      else if (op, code) \<in> set ok_codes then Some StatusOk
      else if (op, code) = (Export, ''unsupported_export_mode'') then Some InvalidArgument
      else None)"

definition split_backtick :: "string \<Rightarrow> string option" where
  "split_backtick s =
     (if CHR 0x60 \<in> set s then Some (takeWhile (\<lambda>c. c \<noteq> CHR 0x60) s) else None)"

definition map_payload_error :: "string \<Rightarrow> frame_error" where
  "map_payload_error message =
     (let prefix = ''unknown field '' @ [CHR 0x60] in
      if starts_with message prefix then
        (case split_backtick (drop (length prefix) message) of
           Some field \<Rightarrow> FrameUnknownField field | None \<Rightarrow> InvalidJson message)
      else InvalidJson message)"

definition check_states :: "raw_payload \<Rightarrow> (frame_error, unit) res" where
  "check_states raw =
     (if rw_code raw = ''initial_target_state_drift'' then
        rbind (ok_or (rw_expected_initial_target_state raw)
          (InvalidJson ''initial target-state drift response omitted the expected state'')) (\<lambda>expected.
        rbind (ok_or (rw_observed_target_state raw)
          (InvalidJson ''initial target-state drift response omitted the observed state'')) (\<lambda>observed.
        ensure
          (expected \<in> {''running'', ''halted''} \<and> observed \<in> {''running'', ''halted'', ''unavailable''} \<and>
           expected \<noteq> observed)
          (InvalidJson ''initial target-state drift response contains inconsistent states'')))
      else
        rthen (ensure (rw_expected_initial_target_state raw = None)
          (FrameUnknownField ''expected_initial_target_state''))
          (ensure (rw_observed_target_state raw = None) (FrameUnknownField ''observed_target_state'')))"

definition check_files :: "perf_operation \<Rightarrow> raw_payload \<Rightarrow> (frame_error, unit) res" where
  "check_files op raw =
     rthen (ensure (rw_files_deleted raw \<noteq> Some True) CleanupDeletedFiles)
     (rthen (ensure (\<not> (rw_files_deleted raw \<noteq> None \<and> op \<noteq> Cleanup)) (FrameUnknownField ''files_deleted''))
       (ensure
         (\<not> (op = Cleanup \<and> rw_code raw \<noteq> ''invalid_arguments'' \<and> rw_files_deleted raw \<noteq> Some False))
         (InvalidJson ''target cleanup response must declare files_deleted=false'')))"

definition parse_payload :: "payload_decoder \<Rightarrow> string \<Rightarrow> (frame_error, script_response) res" where
  "parse_payload decode payload =
     (case decode payload of
        Inl message \<Rightarrow> Inl (Err (map_payload_error message))
      | Inr raw \<Rightarrow>
          (let code = rw_code raw in
           rthen (ensure (rw_protocol raw = ''t32perf/1'') (InvalidProtocol (rw_protocol raw)))
           (rbind (ok_or (operation_parse (rw_operation raw)) (UnknownOperation (rw_operation raw))) (\<lambda>op.
           rbind (ok_or (status_parse (rw_status raw)) (UnknownStatus (rw_status raw))) (\<lambda>st.
           rthen (ensure (is_snake_case_code code) (InvalidCode code))
           (rbind (ok_or (status_for_code op code) (UnknownCode (operation_str op) code)) (\<lambda>expected.
           rthen (ensure (st = expected) (CodeStatusMismatch code (status_str expected) (status_str st)))
           (rthen (check_states raw)
           (rthen (check_files op raw)
           (rthen (ensure (is_lower_hex (rw_binding_sha256 raw) 64) (InvalidBinding (rw_binding_sha256 raw)))
             (Inr \<lparr>pr_operation = op, pr_status = st, pr_code = code,
                pr_binding_sha256 = rw_binding_sha256 raw, pr_files_deleted = rw_files_deleted raw\<rparr>)))))))))))"

text \<open>\<open>limit\<close> is \<open>PerfFrameLimits::max_payload_bytes\<close>.\<close>

definition content_position :: "string list \<Rightarrow> (frame_error, nat) res" where
  "content_position ls =
     (case positions content_marker ls of
        [] \<Rightarrow> Inl (Err MissingContentMarker)
      | [i] \<Rightarrow> Inr i
      | _ \<Rightarrow> Inl (Err DuplicateContentMarker))"

definition contamination :: "nat \<Rightarrow> string list \<Rightarrow> frame_error" where
  "contamination i ls =
     (case find (\<lambda>(j, _). j \<noteq> i) (enumerate 0 ls) of
        Some (j, text) \<Rightarrow> ProtocolContamination (j + 1) text
      | None \<Rightarrow> ProtocolContamination 1 [])"

definition parse_t32mcp_perf_response :: "payload_decoder \<Rightarrow> nat \<Rightarrow> string \<Rightarrow> (frame_error, script_response) res" where
  "parse_t32mcp_perf_response decode limit wrapper =
     rthen (ensure (limit \<noteq> 0) InvalidLimit)
     (let ls = text_lines wrapper in
      rthen (ensure (\<not> is_valid_not_finished_wrapper ls) NotFinished)
      (rbind (content_position ls) (\<lambda>i.
      if i \<noteq> 1 \<or> \<not> first_is ls ''<FINISHED>'' then Inl (Err (contamination i ls))
      else
        (let content = drop (i + 1) ls in
         rthen (validate_markers content)
         (rbind (index_or_panic content 1) (\<lambda>payload.
         rthen (ensure (\<not> limit < length payload) (FramePayloadTooLarge limit (length payload)))
           (parse_payload decode payload)))))))"

end
