(* ===== verification/Controller_Evidence.thy ===== *)
theory Controller_Evidence
  imports T32mcp_Protocol Manifest
begin

text \<open>
  The evidence documents that the fixed scripts leave behind, one per operation, with their
  validation (\<open>t32perf-trace32/src/controller.rs\<close>). The schema and operation markers of a document
  have a single value each and carry no field here.
\<close>

subsection \<open>Facts\<close>

datatype target_state = Running | Halted

datatype health_signal =
    SigTraceOverflow
  | SigFlowError
  | SigTraceGap
  | SigTruncation
  | SigTimestampDiscontinuity
  | SigElfMismatch
  | SigProgramFlowClosure
  | SigSamplingBufferFull
  | SigSamplingUnexpectedStop

definition program_flow_health_signals :: "health_signal list" where
  "program_flow_health_signals =
     [SigTraceOverflow, SigFlowError, SigTraceGap, SigTruncation, SigTimestampDiscontinuity,
      SigElfMismatch, SigProgramFlowClosure]"

datatype pre_stop_state = PreArm | PreBreak

text \<open>The method, object, buffer mode and state of the sampler have a single value each.\<close>

datatype sampling_setup = RealTimePcStackOff

record sampling_facts =
  sv_setup :: sampling_setup
  sv_pre_stop_state :: pre_stop_state
  sv_requested_rate_ns :: u64
  sv_capacity_records :: u64
  sv_recorded_records :: u64
  sv_buffer_full :: bool
  sv_unexpected_stop :: bool

subsection \<open>Documents\<close>

record capabilities_evidence =
  cv_binding_sha256 :: sha256_digest
  cv_trace32_release :: string
  cv_trace32_build :: u64
  cv_architecture_package :: string
  cv_target_identifier :: string
  cv_probe_identifier :: string
  cv_license_features :: "string list"
  cv_trace_routing :: "string list"
  cv_capture_modes :: "string list"
  cv_trace_sinks :: "string list"
  cv_covered_cores :: "u32 list"
  cv_timestamp_supported :: bool
  cv_rtos_awareness :: "string option"
  cv_health_signals :: "health_signal list"

record capabilities_evidence_v2 = capabilities_evidence +
  cv_initial_target_state :: target_state

record configure_evidence =
  fv_binding_sha256 :: sha256_digest
  fv_configuration_sha256 :: sha256_digest
  fv_capture_mode :: string
  fv_trace_sink :: string
  fv_timestamp_enabled :: bool
  fv_filters_verified :: bool
  fv_trigger_verified :: bool
  fv_initial_target_state :: target_state
  fv_workload_identity :: string
  fv_covered_cores :: "u32 list"

record start_evidence =
  tv_binding_sha256 :: sha256_digest
  tv_initial_target_state :: target_state
  tv_capture_started :: bool
  tv_workload_owned :: bool
  tv_workload_identity :: string

record start_evidence_v2 =
  tw_binding_sha256 :: sha256_digest
  tw_initial_target_state :: target_state
  tw_capture_armed :: bool
  tw_workload_identity :: string

record stop_evidence =
  ov_binding_sha256 :: sha256_digest
  ov_capture_stopped :: bool
  ov_workload_completed :: bool
  ov_workload_identity :: string
  ov_target_state_after_stop :: target_state

record stop_evidence_v2 =
  ow_binding_sha256 :: sha256_digest
  ow_capture_stopped :: bool
  ow_workload_identity :: string
  ow_target_state_after_stop :: target_state
  ow_pre_stop_state :: pre_stop_state
  ow_capacity_records :: u64
  ow_recorded_records :: u64
  ow_time_origin_zeroed :: bool

record health_evidence =
  hv_binding_sha256 :: sha256_digest
  hv_capture_stopped :: bool
  hv_trace_overflow :: bool
  hv_flow_error :: bool
  hv_trace_gap :: bool
  hv_truncated :: bool
  hv_timestamp_discontinuity :: bool
  hv_elf_matches_firmware :: bool
  hv_program_flow_closed :: bool

record sampling_health =
  sh_binding_sha256 :: sha256_digest
  sh_capture_stopped :: bool
  sh_supported_signals :: "health_signal list"
  sh_stop_evidence_sha256 :: sha256_digest
  sh_sampling :: sampling_facts
  sh_elf_matches_firmware :: "bool option"

record program_flow_health =
  pf_binding_sha256 :: sha256_digest
  pf_capture_stopped :: bool
  pf_supported_signals :: "health_signal list"
  pf_stop_evidence_sha256 :: sha256_digest
  pf_trace_overflow :: bool
  pf_flow_error :: bool
  pf_trace_gap :: bool
  pf_truncated :: bool
  pf_timestamp_discontinuity :: bool
  pf_elf_matches_firmware :: bool
  pf_program_flow_closed :: bool

record cleanup_evidence =
  uv_binding_sha256 :: sha256_digest
  uv_adapter_state_restored :: bool
  uv_target_state_restored :: bool
  uv_files_deleted :: bool

record sampling_baseline =
  sb_setup :: sampling_setup
  sb_requested_rate_ns :: u64
  sb_capacity_records :: u64
  sb_auto_arm :: bool
  sb_auto_init :: bool
  sb_zero_reset :: bool

record cleanup_evidence_v2 =
  uw_binding_sha256 :: sha256_digest
  uw_initial_target_state :: target_state
  uw_adapter_state_restored :: bool
  uw_target_state_restored :: bool
  uw_sampling :: sampling_baseline
  uw_files_deleted :: bool

datatype controller_evidence =
    EvCapabilities capabilities_evidence
  | EvCapabilitiesV2 capabilities_evidence_v2
  | EvConfigure configure_evidence
  | EvStart start_evidence
  | EvStartV2 start_evidence_v2
  | EvStop stop_evidence
  | EvStopV2 stop_evidence_v2
  | EvHealth health_evidence
  | EvHealthV2 sampling_health
  | EvHealthV3 program_flow_health
  | EvCleanup cleanup_evidence
  | EvCleanupV2 cleanup_evidence_v2

subsection \<open>Validation\<close>

datatype controller_error =
    InvalidSessionId string
  | InvalidHexIdentifier string
  | BindingDigestMismatch sha256_digest sha256_digest
  | InvalidResponseLimit u64 u64
  | InvalidToolSequence
  | InvalidScriptAddress
  | InvalidScriptArguments
  | InvalidFirmwareImageBinding
  | MissingExportReservation
  | MissingEvidenceReservation
  | UnexpectedOutputReservation
  | CtlInvalidText string
  | InvalidOutputReservation string
  | InvalidMultiOutputContract string
  | InvalidMultiOutputResponse string
  | InvalidEvidence string
  | EvidenceBindingMismatch
  | InvalidDriverEventBinding
  | InvalidDriverEventContext

definition controller_text :: "string \<Rightarrow> string \<Rightarrow> (controller_error, unit) res" where
  "controller_text field v = ensure (\<not> (v = [] \<or> 4096 < length v \<or> has_control v)) (CtlInvalidText field)"

definition validate_hex_identifier :: "string \<Rightarrow> string \<Rightarrow> (controller_error, unit) res" where
  "validate_hex_identifier field v = ensure (is_lower_hex v 32) (InvalidHexIdentifier field)"

definition validate_unique_cores :: "u32 list \<Rightarrow> (controller_error, unit) res" where
  "validate_unique_cores cores =
     rthen (ensure (\<not> (cores = [] \<or> 256 < length cores)) (InvalidEvidence ''covered_cores must contain 1..=256 entries''))
       (ensure (distinct cores) (InvalidEvidence ''covered_cores contains duplicate entries''))"

definition validate_unique_text_values :: "string \<Rightarrow> string list \<Rightarrow> nat \<Rightarrow> (controller_error, unit) res" where
  "validate_unique_text_values field vs maximum =
     rthen
       (ensure (\<not> (vs = [] \<or> maximum < length vs))
         (InvalidEvidence (field @ '' must contain 1..='' @ dec (int maximum) @ '' entries'')))
       (each_new (controller_text field) id
         (\<lambda>v. InvalidEvidence (field @ '' contains duplicate '' @ [CHR 0x60] @ v @ [CHR 0x60])) (\<lambda>_. Inr ()) [] vs)"

definition validate_capabilities_fields :: "'a capabilities_evidence_scheme \<Rightarrow> (controller_error, unit) res" where
  "validate_capabilities_fields e =
     rthen
       (each (\<lambda>(field, v). controller_text field v)
         [(''trace32_release'', cv_trace32_release e), (''architecture_package'', cv_architecture_package e),
          (''target_identifier'', cv_target_identifier e), (''probe_identifier'', cv_probe_identifier e)])
     (rthen (ensure (cv_trace32_build e \<noteq> 0) (InvalidEvidence ''TRACE32 build must be nonzero''))
     (rthen (validate_unique_text_values ''capture_modes'' (cv_capture_modes e) 64)
     (rthen (validate_unique_text_values ''trace_sinks'' (cv_trace_sinks e) 64)
     (rthen (validate_unique_text_values ''license_features'' (cv_license_features e) 128)
     (rthen (validate_unique_text_values ''trace_routing'' (cv_trace_routing e) 64)
     (rthen (case cv_rtos_awareness e of None \<Rightarrow> Inr () | Some r \<Rightarrow> controller_text ''rtos_awareness'' r)
     (rthen (validate_unique_cores (cv_covered_cores e))
     (rthen (ensure (\<not> (cv_health_signals e = [] \<or> 16 < length (cv_health_signals e)))
              (InvalidEvidence ''health_signals must contain 1..=16 entries''))
       (ensure (distinct (cv_health_signals e))
         (InvalidEvidence ''health_signals contains duplicate entries''))))))))))"

definition validate_configure_evidence :: "configure_evidence \<Rightarrow> (controller_error, unit) res" where
  "validate_configure_evidence e =
     rthen (controller_text ''capture_mode'' (fv_capture_mode e))
     (rthen (controller_text ''trace_sink'' (fv_trace_sink e))
     (rthen (controller_text ''workload_identity'' (fv_workload_identity e))
     (rthen (validate_unique_cores (fv_covered_cores e))
       (ensure (fv_filters_verified e \<and> fv_trigger_verified e)
         (InvalidEvidence ''configuration evidence must verify filters and trigger'')))))"

definition sampling_signals_complete :: "sampling_health \<Rightarrow> bool" where
  "sampling_signals_complete e \<longleftrightarrow>
     (let signals = sh_supported_signals e in
      distinct signals \<and> SigSamplingBufferFull \<in> set signals \<and> SigSamplingUnexpectedStop \<in> set signals \<and>
      (sh_elf_matches_firmware e \<noteq> None \<longleftrightarrow> SigElfMismatch \<in> set signals) \<and>
      length signals \<in> {2, 3} \<and>
      \<not> list_ex (\<lambda>x. x \<in> {SigTraceOverflow, SigFlowError, SigTraceGap, SigTruncation,
           SigTimestampDiscontinuity, SigProgramFlowClosure}) signals)"

definition sampling_counters_consistent :: "sampling_facts \<Rightarrow> bool" where
  "sampling_counters_consistent s \<longleftrightarrow>
     sv_requested_rate_ns s \<noteq> 0 \<and> sv_capacity_records s \<noteq> 0 \<and>
     \<not> sv_capacity_records s < sv_recorded_records s \<and> sv_recorded_records s \<noteq> 0 \<and>
     \<not> (sv_buffer_full s \<and> sv_recorded_records s \<noteq> sv_capacity_records s) \<and>
     \<not> (sv_unexpected_stop s \<and> sv_recorded_records s = sv_capacity_records s) \<and>
     \<not> (sv_buffer_full s \<and> sv_unexpected_stop s)"

definition validate_sampling_health_evidence :: "sampling_health \<Rightarrow> (controller_error, unit) res" where
  "validate_sampling_health_evidence e =
     rthen (ensure (sh_capture_stopped e) (InvalidEvidence ''sampling health evidence requires a stopped capture''))
     (rthen (ensure (sampling_signals_complete e)
         (InvalidEvidence ''sampling health supported_signals are incomplete or claim flow-decoder facts''))
       (ensure (sampling_counters_consistent (sh_sampling e))
         (InvalidEvidence ''sampling health counters are inconsistent'')))"

definition validate_program_flow_health_evidence :: "program_flow_health \<Rightarrow> (controller_error, unit) res" where
  "validate_program_flow_health_evidence e =
     ensure (pf_capture_stopped e \<and> pf_supported_signals e = program_flow_health_signals)
       (InvalidEvidence ''program-flow health requires a stopped capture and the exact closed signal set'')"

definition canonical_baseline :: "sampling_baseline \<Rightarrow> bool" where
  "canonical_baseline s \<longleftrightarrow>
     sb_setup s = RealTimePcStackOff \<and> sb_requested_rate_ns s = 1000000 \<and>
     \<not> sb_auto_arm s \<and> \<not> sb_auto_init s \<and> sb_zero_reset s"

definition validate_stop_v2 :: "stop_evidence_v2 \<Rightarrow> (controller_error, unit) res" where
  "validate_stop_v2 e =
     rthen (controller_text ''workload_identity'' (ow_workload_identity e))
       (ensure
         (ow_capture_stopped e \<and> ow_capacity_records e \<noteq> 0 \<and> ow_recorded_records e \<noteq> 0 \<and>
          \<not> ow_capacity_records e < ow_recorded_records e \<and> ow_time_origin_zeroed e)
         (InvalidEvidence ''sampling stop evidence has an invalid transition or record count''))"

definition validate_cleanup_v2 :: "cleanup_evidence_v2 \<Rightarrow> (controller_error, unit) res" where
  "validate_cleanup_v2 e =
     ensure
       (uw_adapter_state_restored e \<and> uw_target_state_restored e \<and> \<not> uw_files_deleted e \<and>
        canonical_baseline (uw_sampling e) \<and> sb_capacity_records (uw_sampling e) = 65536)
       (InvalidEvidence ''sampling cleanup evidence does not prove the canonical baseline'')"

text \<open>The semantics of one document; then its operation and its binding are compared.\<close>

fun evidence_semantics :: "controller_evidence \<Rightarrow> (controller_error, unit) res" where
  "evidence_semantics (EvCapabilities e) = validate_capabilities_fields e"
| "evidence_semantics (EvCapabilitiesV2 e) = validate_capabilities_fields e"
| "evidence_semantics (EvConfigure e) = validate_configure_evidence e"
| "evidence_semantics (EvStart e) =
     rthen (controller_text ''workload_identity'' (tv_workload_identity e))
       (ensure (tv_capture_started e \<and> tv_workload_owned e)
         (InvalidEvidence ''start evidence must verify capture start and workload ownership''))"
| "evidence_semantics (EvStartV2 e) =
     rthen (controller_text ''workload_identity'' (tw_workload_identity e))
       (ensure (tw_capture_armed e)
         (InvalidEvidence ''start evidence must prove the selected capture was armed''))"
| "evidence_semantics (EvStop e) =
     rthen (controller_text ''workload_identity'' (ov_workload_identity e))
       (ensure (ov_capture_stopped e \<and> ov_workload_completed e)
         (InvalidEvidence ''stop evidence must verify workload completion and capture stop''))"
| "evidence_semantics (EvStopV2 e) = validate_stop_v2 e"
| "evidence_semantics (EvHealth e) =
     ensure (hv_capture_stopped e) (InvalidEvidence ''health evidence requires a stopped capture'')"
| "evidence_semantics (EvHealthV2 e) = validate_sampling_health_evidence e"
| "evidence_semantics (EvHealthV3 e) = validate_program_flow_health_evidence e"
| "evidence_semantics (EvCleanup e) =
     ensure (uv_adapter_state_restored e \<and> uv_target_state_restored e \<and> \<not> uv_files_deleted e)
       (InvalidEvidence ''cleanup evidence must restore adapter state without deleting files'')"
| "evidence_semantics (EvCleanupV2 e) = validate_cleanup_v2 e"

fun evidence_operation :: "controller_evidence \<Rightarrow> perf_operation" where
  "evidence_operation (EvCapabilities e) = GetCapabilities"
| "evidence_operation (EvCapabilitiesV2 e) = GetCapabilities"
| "evidence_operation (EvConfigure e) = Configure"
| "evidence_operation (EvStart e) = Start"
| "evidence_operation (EvStartV2 e) = Start"
| "evidence_operation (EvStop e) = Stop"
| "evidence_operation (EvStopV2 e) = Stop"
| "evidence_operation (EvHealth e) = GetHealth"
| "evidence_operation (EvHealthV2 e) = GetHealth"
| "evidence_operation (EvHealthV3 e) = GetHealth"
| "evidence_operation (EvCleanup e) = Cleanup"
| "evidence_operation (EvCleanupV2 e) = Cleanup"

fun evidence_binding :: "controller_evidence \<Rightarrow> sha256_digest" where
  "evidence_binding (EvCapabilities e) = cv_binding_sha256 e"
| "evidence_binding (EvCapabilitiesV2 e) = cv_binding_sha256 e"
| "evidence_binding (EvConfigure e) = fv_binding_sha256 e"
| "evidence_binding (EvStart e) = tv_binding_sha256 e"
| "evidence_binding (EvStartV2 e) = tw_binding_sha256 e"
| "evidence_binding (EvStop e) = ov_binding_sha256 e"
| "evidence_binding (EvStopV2 e) = ow_binding_sha256 e"
| "evidence_binding (EvHealth e) = hv_binding_sha256 e"
| "evidence_binding (EvHealthV2 e) = sh_binding_sha256 e"
| "evidence_binding (EvHealthV3 e) = pf_binding_sha256 e"
| "evidence_binding (EvCleanup e) = uv_binding_sha256 e"
| "evidence_binding (EvCleanupV2 e) = uw_binding_sha256 e"

definition quoted :: "string \<Rightarrow> string" where
  "quoted s = [CHR 0x60] @ s @ [CHR 0x60]"

definition validate_evidence_for :: "perf_operation \<Rightarrow> sha256_digest \<Rightarrow> controller_evidence \<Rightarrow> (controller_error, unit) res" where
  "validate_evidence_for op binding e =
     rthen (evidence_semantics e)
     (rthen (ensure (evidence_operation e = op)
         (InvalidEvidence (''evidence operation '' @ quoted (operation_str (evidence_operation e)) @
            '' does not match '' @ quoted (operation_str op))))
       (ensure (evidence_binding e = binding) EvidenceBindingMismatch))"

text \<open>
  Which document families an operation may leave, and in which order they are tried. The decoder
  of a family is a parameter; it returns the message of the JSON library.
\<close>

record evidence_decoders =
  dv_capabilities :: "string \<Rightarrow> string + capabilities_evidence"
  dv_capabilities_v2 :: "string \<Rightarrow> string + capabilities_evidence_v2"
  dv_configure :: "string \<Rightarrow> string + configure_evidence"
  dv_start :: "string \<Rightarrow> string + start_evidence"
  dv_start_v2 :: "string \<Rightarrow> string + start_evidence_v2"
  dv_stop :: "string \<Rightarrow> string + stop_evidence"
  dv_stop_v2 :: "string \<Rightarrow> string + stop_evidence_v2"
  dv_health :: "string \<Rightarrow> string + health_evidence"
  dv_health_v2 :: "string \<Rightarrow> string + sampling_health"
  dv_health_v3 :: "string \<Rightarrow> string + program_flow_health"
  dv_cleanup :: "string \<Rightarrow> string + cleanup_evidence"
  dv_cleanup_v2 :: "string \<Rightarrow> string + cleanup_evidence_v2"

definition decoded :: "('a \<Rightarrow> controller_evidence) \<Rightarrow> string + 'a \<Rightarrow> string + controller_evidence" where
  "decoded f r = (case r of Inl message \<Rightarrow> Inl message | Inr a \<Rightarrow> Inr (f a))"

definition or_else :: "'e + 'a \<Rightarrow> 'e + 'a \<Rightarrow> 'e + 'a" where
  "or_else r r' = (case r of Inl _ \<Rightarrow> r' | Inr a \<Rightarrow> Inr a)"

fun evidence_of :: "evidence_decoders \<Rightarrow> perf_operation \<Rightarrow> string \<Rightarrow> (string + controller_evidence) option" where
  "evidence_of d GetCapabilities bytes =
     Some (or_else (decoded EvCapabilities (dv_capabilities d bytes)) (decoded EvCapabilitiesV2 (dv_capabilities_v2 d bytes)))"
| "evidence_of d Configure bytes = Some (decoded EvConfigure (dv_configure d bytes))"
| "evidence_of d Start bytes =
     Some (or_else (decoded EvStart (dv_start d bytes)) (decoded EvStartV2 (dv_start_v2 d bytes)))"
| "evidence_of d Stop bytes =
     Some (or_else (decoded EvStop (dv_stop d bytes)) (decoded EvStopV2 (dv_stop_v2 d bytes)))"
| "evidence_of d GetHealth bytes =
     Some (or_else (or_else (decoded EvHealth (dv_health d bytes)) (decoded EvHealthV2 (dv_health_v2 d bytes)))
       (decoded EvHealthV3 (dv_health_v3 d bytes)))"
| "evidence_of d Cleanup bytes =
     Some (or_else (decoded EvCleanup (dv_cleanup d bytes)) (decoded EvCleanupV2 (dv_cleanup_v2 d bytes)))"
| "evidence_of d Export bytes = None"
| "evidence_of d GetHotspots bytes = None"

definition parse_controller_evidence :: "evidence_decoders \<Rightarrow> perf_operation \<Rightarrow> string
    \<Rightarrow> (controller_error, controller_evidence) res" where
  "parse_controller_evidence d op bytes =
     (case evidence_of d op bytes of
        None \<Rightarrow>
          Inl (Err (InvalidEvidence
            (''operation '' @ quoted (operation_str op) @ '' does not produce target-control evidence'')))
      | Some (Inl message) \<Rightarrow> Inl (Err (InvalidEvidence message))
      | Some (Inr e) \<Rightarrow> Inr e)"

end
