(* ===== verification/Attestation.thy ===== *)
theory Attestation
  imports Controller_Evidence
begin

text \<open>
  Verification of an external capture attestation against a trust policy
  (\<open>src/attestation.rs\<close> and the claims of \<open>src/capture_config.rs\<close>). Serialization, SHA-256 and
  Ed25519 are the functions of a \<open>crypto\<close> record. A denial is its message.
\<close>

record crypto =
  cy_signing_bytes :: "attestation_payload \<Rightarrow> u8 list option"
  cy_identity_bytes :: "capture_config \<Rightarrow> u8 list option"
  cy_sha256 :: "u8 list \<Rightarrow> u8 list"
  cy_key :: "u8 list \<Rightarrow> bool"
  cy_verify :: "u8 list \<Rightarrow> u8 list \<Rightarrow> u8 list \<Rightarrow> bool"

datatype denial =
    InvalidPolicy trust_error
  | InvalidAttestation attestation_error
  | InvalidConfigClaim config_error
  | UntrustedKey string
  | Denied string

type_synonym 'a verdict = "(denial, 'a) res"

definition demand :: "bool \<Rightarrow> string \<Rightarrow> unit verdict" where
  "demand b message = ensure b (Denied message)"

subsection \<open>Hexadecimal\<close>

definition decode_nibble :: "char \<Rightarrow> u8 verdict" where
  "decode_nibble c =
     (let v = of_char c :: nat in
      if 48 \<le> v \<and> v \<le> 57 then Inr (word_of_nat (v - 48))
      else if 97 \<le> v \<and> v \<le> 102 then Inr (word_of_nat (v - 97 + 10))
      else Inl (Err (Denied ''hex value is not lowercase hexadecimal'')))"

fun decode_pairs :: "string \<Rightarrow> u8 list verdict" where
  "decode_pairs (a # b # cs) =
     rbind (decode_nibble a) (\<lambda>high.
     rbind (decode_nibble b) (\<lambda>low.
     rbind (decode_pairs cs) (\<lambda>rest.
       Inr (or (push_bit 4 high) low # rest))))"
| "decode_pairs _ = Inr []"

definition decode_hex :: "nat \<Rightarrow> string \<Rightarrow> u8 list verdict" where
  "decode_hex n v =
     rthen (demand (length v = n * 2) ''hex value has the wrong length'') (decode_pairs v)"

definition lower_hex :: "u8 list \<Rightarrow> string" where
  "lower_hex bytes = concat (map (\<lambda>b. [hex_digit (uint b div 16), hex_digit (uint b mod 16)]) bytes)"

subsection \<open>Capture configuration claims\<close>

record registered_config =
  rg_artifact :: artifact
  rg_document :: capture_config

definition configuration_sha256 :: "crypto \<Rightarrow> capture_config \<Rightarrow> sha256_digest verdict" where
  "configuration_sha256 cy d =
     rbind (ok_or (cy_identity_bytes cy (configuration_identity d)) (Denied ''serialize capture-config identity'')) (\<lambda>bytes.
       map_err (\<lambda>_. Denied ''construct capture-config identity digest'') (digest_new (lower_hex (cy_sha256 cy bytes))))"

definition capture_config_claim :: "crypto \<Rightarrow> artifact \<Rightarrow> capture_config \<Rightarrow> config_claim verdict" where
  "capture_config_claim cy a d =
     rbind (configuration_sha256 cy d) (\<lambda>identity.
       Inr \<lparr>cc_artifact_id = art_id a, cc_sha256 = art_sha256 a, cc_configuration_sha256 = identity\<rparr>)"

definition validate_capture_config_claim :: "crypto \<Rightarrow> registered_config \<Rightarrow> config_claim \<Rightarrow> unit verdict" where
  "validate_capture_config_claim cy rg claim =
     rthen (map_err InvalidConfigClaim (validate_config_claim claim))
     (rthen (demand (cc_artifact_id claim = art_id (rg_artifact rg))
               ''capture-config claim artifact ID does not match the catalog'')
     (rthen (demand (cc_sha256 claim = art_sha256 (rg_artifact rg))
               ''capture-config claim digest does not match the catalog'')
     (rbind (configuration_sha256 cy (rg_document rg)) (\<lambda>identity.
       demand (cc_configuration_sha256 claim = identity)
         ''capture-config claim configuration digest does not match the authoritative document''))))"

definition validate_receipt_timestamp :: "capture_config \<Rightarrow> capture_receipt \<Rightarrow> unit verdict" where
  "validate_receipt_timestamp d r =
     (if \<not> tc_enabled (cd_timestamp d) then Inr ()
      else case tc_clock_id (cd_timestamp d) of
        None \<Rightarrow> Inl Panic
      | Some clock \<Rightarrow>
          demand (list_ex (\<lambda>c. ci_id c = clock) (cr_clocks r))
            ''capture config timestamp clock is absent from the trusted receipt'')"

definition validate_capture_config_receipt :: "crypto \<Rightarrow> registered_config \<Rightarrow> capture_receipt \<Rightarrow> unit verdict" where
  "validate_capture_config_receipt cy rg r =
     (let d = rg_document rg in
      rbind (ok_or (cr_capture_config r) (Denied ''trusted capture receipt omits capture-config provenance'')) (\<lambda>claim.
      rthen (validate_capture_config_claim cy rg claim)
      (rthen (demand (cd_provider d = cr_provider r)
                ''capture config provider does not match the trusted receipt'')
      (rthen (demand (cd_adapter d = cr_adapter r)
                ''capture config adapter does not match the trusted receipt'')
      (rthen (demand (cd_mode d = cr_mode r) ''capture config mode does not match the trusted receipt'')
      (rthen (demand (cd_covered_cores d = cr_covered_cores r)
                ''capture config core coverage does not match the trusted receipt'')
      (rthen
        (case Option.bind (cr_target r) ti_core_count of
           None \<Rightarrow> Inr ()
         | Some core_count \<Rightarrow>
             demand (list_all (\<lambda>core. core < core_count) (cd_covered_cores d))
               ''capture config claims a core outside the trusted target'')
        (validate_receipt_timestamp d r))))))))"

subsection \<open>Controller health\<close>

datatype accepted_health = ProgramFlow program_flow_health | Sampling sampling_health

record health_binding =
  hb_artifact :: artifact
  hb_evidence :: accepted_health

definition controller_health_source :: string where
  "controller_health_source = ''t32perf.controller-health-evidence/v1''"

definition codes_of :: "(bool \<times> string) list \<Rightarrow> string list" where
  "codes_of cs = map snd (filter fst cs)"

fun health_codes :: "accepted_health \<Rightarrow> string list" where
  "health_codes (ProgramFlow e) =
     codes_of
       [(pf_trace_overflow e, ''trace_overflow''), (pf_flow_error e, ''flow_error''),
        (pf_trace_gap e, ''trace_gap''), (pf_truncated e, ''truncated_input''),
        (pf_timestamp_discontinuity e, ''timestamp_discontinuity''),
        (\<not> pf_elf_matches_firmware e, ''elf_mismatch''),
        (\<not> pf_program_flow_closed e, ''program_flow_unclosed'')]"
| "health_codes (Sampling e) =
     codes_of
       [(sv_buffer_full (sh_sampling e), ''sampling_buffer_full''),
        (sv_unexpected_stop (sh_sampling e), ''sampling_unexpected_stop''),
        (sh_elf_matches_firmware e = Some False, ''elf_mismatch'')]"

fun health_binding_sha256 :: "accepted_health \<Rightarrow> sha256_digest" where
  "health_binding_sha256 (ProgramFlow e) = pf_binding_sha256 e"
| "health_binding_sha256 (Sampling e) = sh_binding_sha256 e"

definition controller_health_observations :: "health_binding \<Rightarrow> health_observation list" where
  "controller_health_observations b =
     map (\<lambda>code.
       \<lparr>ho_code = code, ho_source = controller_health_source, ho_artifact_id = Some (art_id (hb_artifact b)),
        ho_record = None, ho_start_ns = None, ho_end_ns = None,
        ho_evidence = bt_of_list
          [(''controller_binding_sha256'', JStr (digest_hex (health_binding_sha256 (hb_evidence b)))),
           (''controller_evidence_sha256'', JStr (digest_hex (art_sha256 (hb_artifact b))))]\<rparr>)
       (health_codes (hb_evidence b))"

definition validate_controller_health_binding :: "attestation_payload \<Rightarrow> health_binding option \<Rightarrow> unit verdict" where
  "validate_controller_health_binding p health =
     (case (ap_controller_health p, health) of
        (None, None) \<Rightarrow> Inr ()
      | (Some _, None) \<Rightarrow>
          Inl (Err (Denied ''capture attestation claims controller health without an accepted controller health artifact''))
      | (None, Some _) \<Rightarrow>
          Inl (Err (Denied ''capture attestation omits the accepted controller health artifact''))
      | (Some claim, Some b) \<Rightarrow>
          rthen
            (demand (claim = \<lparr>hc_artifact_id = art_id (hb_artifact b), hc_sha256 = art_sha256 (hb_artifact b)\<rparr>)
              ''capture attestation controller-health claim does not match the accepted artifact'')
            (demand
              (filter (\<lambda>o'. ho_source o' = controller_health_source) (cr_health_observations (ap_receipt p)) =
                 controller_health_observations b)
              ''signed controller health observations do not exactly match the accepted typed evidence''))"

subsection \<open>The scope of a key\<close>

fun capability_rank :: "support_level \<Rightarrow> nat" where
  "capability_rank Exact = 0"
| "capability_rank Inferred = 1"
| "capability_rank Statistical = 2"
| "capability_rank Unavailable = 3"

definition capability_families :: "(string \<times> (capture_capabilities \<Rightarrow> support_entry)) list" where
  "capability_families =
     [(''function_events'', ca_function_events), (''context_switches'', ca_context_switches),
      (''interrupt_events'', ca_interrupt_events), (''samples'', ca_samples),
      (''custom_events'', ca_custom_events), (''counters'', ca_counters)]"

definition verify_capability_ceiling :: "capture_capabilities \<Rightarrow> capture_capabilities \<Rightarrow> unit verdict" where
  "verify_capability_ceiling limit claimed =
     each (\<lambda>(family, get).
       demand (\<not> capability_rank (se_support (get claimed)) < capability_rank (se_support (get limit)))
         (''capture capability `'' @ family @ ''` exceeds trusted key ceiling''))
       capability_families"

definition json_str :: "json \<Rightarrow> string option" where
  "json_str v = (case v of JStr s \<Rightarrow> Some s | _ \<Rightarrow> None)"

definition verify_trace32_firmware_binding :: "trust_key \<Rightarrow> capture_receipt \<Rightarrow> capture_config \<Rightarrow> unit verdict" where
  "verify_trace32_firmware_binding k r d =
     (if tk_provider k \<noteq> ''trace32'' then Inr ()
      else
        rbind (ok_or (fi_elf_sha256 (cr_firmware r)) (Denied ''TRACE32 capture receipt omits firmware.elf_sha256'')) (\<lambda>elf.
        rthen (demand (list_ex (\<lambda>x. x = elf) (tk_allowed_firmware_elf_sha256 k))
                 ''TRACE32 receipt firmware.elf_sha256 is not allowed by the trusted key'')
        (rbind
          (ok_or (Option.bind (bt_get (cd_adapter_parameters d) ''firmware.elf_sha256'') json_str)
            (Denied ''TRACE32 capture-config adapter_parameters.firmware.elf_sha256 must be a string'')) (\<lambda>text.
        rbind
          (map_err (\<lambda>_. Denied ''TRACE32 capture-config firmware.elf_sha256 must be lowercase hexadecimal SHA-256'')
            (digest_new text)) (\<lambda>config_elf.
          demand (config_elf = elf)
            ''TRACE32 receipt firmware.elf_sha256 does not match the authoritative capture-config'')))))"

definition allowed_by :: "'a list \<Rightarrow> 'a \<Rightarrow> string \<Rightarrow> unit verdict" where
  "allowed_by allowed x message =
     (if allowed = [] then Inr () else demand (list_ex (\<lambda>a. a = x) allowed) message)"

definition verify_constraints :: "config_constraints \<Rightarrow> capture_config \<Rightarrow> sha256_digest \<Rightarrow> unit verdict" where
  "verify_constraints c d config_sha256 =
     rthen (allowed_by (co_allowed_sink_kinds c) (sk_kind (cd_sink d))
              ''capture config sink kind exceeds trusted key scope'')
     (rthen (allowed_by (co_allowed_sink_ids c) (sk_id (cd_sink d))
              ''capture config sink identity exceeds trusted key scope'')
     (rthen (allowed_by (co_allowed_initial_target_states c) (cd_initial_target_state d)
              ''capture config initial target state exceeds trusted key scope'')
     (rthen (allowed_by (co_allowed_rtos_awareness_kinds c) (ra_kind (cd_rtos_awareness d))
              ''capture config RTOS-awareness kind exceeds trusted key scope'')
     (rthen
       (case co_max_sink_capacity_bytes c of
          None \<Rightarrow> Inr ()
        | Some maximum \<Rightarrow>
            demand (case sk_capacity_bytes (cd_sink d) of None \<Rightarrow> False | Some capacity \<Rightarrow> capacity \<le> maximum)
              ''capture config sink capacity exceeds trusted key scope'')
     (rthen
       (case co_require_timestamp_enabled c of
          None \<Rightarrow> Inr ()
        | Some required \<Rightarrow>
            demand (tc_enabled (cd_timestamp d) = required)
              ''capture config timestamp setting exceeds trusted key scope'')
       (allowed_by (co_allowed_config_sha256 c) config_sha256
         ''capture config digest is not allowed by the trusted key''))))))"

definition cores_allowed :: "u32 list \<Rightarrow> u32 list \<Rightarrow> bool" where
  "cores_allowed cores allowed \<longleftrightarrow> cores \<noteq> [] \<and> list_all (\<lambda>core. core \<in> set allowed) cores"

definition verify_config_constraints :: "trust_key \<Rightarrow> capture_config \<Rightarrow> sha256_digest \<Rightarrow> unit verdict" where
  "verify_config_constraints k d config_sha256 =
     rthen (demand (cd_provider d = tk_provider k \<and> cd_adapter d = tk_adapter k)
              ''capture config provider or adapter exceeds trusted key scope'')
     (rthen (demand (list_ex (\<lambda>mode. mode = cd_mode d) (tk_allowed_modes k))
              ''capture config mode is not allowed by the trusted key'')
     (rthen (demand (cores_allowed (cd_covered_cores d) (tk_allowed_cores k))
              ''capture config claims cores outside the trusted key scope'')
       (case tk_config_constraints k of
          None \<Rightarrow> Inr ()
        | Some c \<Rightarrow> verify_constraints c d config_sha256)))"

definition firmware_identified :: "firmware_info \<Rightarrow> bool" where
  "firmware_identified f \<longleftrightarrow>
     fi_elf_sha256 f \<noteq> None \<or> (case fi_build_id f of None \<Rightarrow> False | Some b \<Rightarrow> \<not> blank b)"

definition verify_key_claims :: "trust_key \<Rightarrow> capture_receipt \<Rightarrow> capture_config \<Rightarrow> sha256_digest \<Rightarrow> unit verdict" where
  "verify_key_claims k r d config_sha256 =
     rthen (demand (cr_provider r = tk_provider k) ''capture provider exceeds trusted key scope'')
     (rthen (demand (cr_adapter r = tk_adapter k) ''capture adapter identity exceeds trusted key scope'')
     (rthen (demand (list_ex (\<lambda>mode. mode = cr_mode r) (tk_allowed_modes k))
              ''capture mode is not allowed by the trusted key'')
     (rthen (demand (cr_target r = Some (tk_target k)) ''capture target identity does not match the trusted key'')
     (rthen (demand (cr_trace32 r = tk_trace32 k) ''TRACE32 identity does not match the trusted key'')
     (rthen (demand (cr_clocks r = tk_clocks k) ''capture clock identity does not match the trusted key'')
     (rthen (demand (cores_allowed (cr_covered_cores r) (tk_allowed_cores k))
              ''capture claims cores outside the trusted key scope'')
     (rthen (demand (firmware_identified (cr_firmware r)) ''capture receipt has no immutable firmware identity'')
     (rthen (verify_trace32_firmware_binding k r d)
     (rthen (verify_capability_ceiling (tk_capability_ceiling k) (cr_capabilities r))
       (verify_config_constraints k d config_sha256))))))))))"

subsection \<open>Verification\<close>

record attestation_context =
  cx_session_id :: string
  cx_nonce :: string
  cx_request_sha256 :: sha256_digest
  cx_observations :: artifact
  cx_capture_config :: registered_config
  cx_controller_health :: "health_binding option"

record verified_attestation =
  va_receipt :: capture_receipt
  va_producer :: string
  va_policy_id :: string
  va_key_id :: string

definition verify_signature :: "crypto \<Rightarrow> trust_key \<Rightarrow> attestation \<Rightarrow> unit verdict" where
  "verify_signature cy k a =
     rbind (decode_hex 32 (tk_public_key_ed25519 k)) (\<lambda>public_key.
     rbind (decode_hex 64 (at_signature_ed25519 a)) (\<lambda>signature.
     rthen (demand (cy_key cy public_key) ''parse trusted Ed25519 public key'')
     (rbind (ok_or (cy_signing_bytes cy (at_payload a)) (Denied ''serialize capture attestation signing payload'')) (\<lambda>message.
       demand (cy_verify cy public_key message signature) ''verify capture attestation Ed25519 signature''))))"

definition validate_attestation_payload_context :: "crypto \<Rightarrow> attestation_payload \<Rightarrow> attestation_context \<Rightarrow> unit verdict" where
  "validate_attestation_payload_context cy p cx =
     rthen (demand (cr_session_id (ap_receipt p) = cx_session_id cx)
              ''capture attestation Session identity does not match'')
     (rthen (demand (ap_nonce p = cx_nonce cx) ''capture attestation nonce does not match the Session operation'')
     (rthen (demand (cr_request_sha256 (ap_receipt p) = cx_request_sha256 cx)
              ''capture attestation request digest does not match the immutable Session request'')
     (rthen (demand (ap_observation_artifact_id p = art_id (cx_observations cx))
              ''capture attestation observation artifact ID does not match'')
     (rthen (demand (ap_observation_sha256 p = art_sha256 (cx_observations cx))
              ''capture attestation observation digest does not match'')
     (rbind (ok_or (ap_capture_config p)
               (Denied ''trusted external capture attestation omits capture-config provenance'')) (\<lambda>claim.
      rthen (validate_capture_config_claim cy (cx_capture_config cx) claim)
      (rthen (validate_capture_config_receipt cy (cx_capture_config cx) (ap_receipt p))
        (validate_controller_health_binding p (cx_controller_health cx)))))))))"

definition verify_capture_attestation :: "crypto \<Rightarrow> trust_policy \<Rightarrow> attestation \<Rightarrow> attestation_context
    \<Rightarrow> verified_attestation verdict" where
  "verify_capture_attestation cy policy a cx =
     rthen (map_err InvalidPolicy (validate_trust_policy policy))
     (rthen (map_err InvalidAttestation (validate_attestation a))
     (let p = at_payload a in
      rbind (ok_or (policy_key policy (ap_key_id p)) (UntrustedKey (ap_key_id p))) (\<lambda>k.
      rthen (verify_signature cy k a)
      (rthen (validate_attestation_payload_context cy p cx)
      (case ap_capture_config p of
         None \<Rightarrow> Inl Panic
       | Some claim \<Rightarrow>
           rthen (verify_key_claims k (ap_receipt p) (rg_document (cx_capture_config cx)) (cc_configuration_sha256 claim))
             (Inr \<lparr>va_receipt = ap_receipt p, va_producer = tk_producer k, va_policy_id = tp_policy_id policy,
                   va_key_id = tk_key_id k\<rparr>))))))"

end
