(* ===== verification/Attestation_Properties.thy ===== *)
theory Attestation_Properties
  imports Attestation Health_Policy
begin

text \<open>
  What an accepted attestation guarantees, and what follows for the health of its capture.
\<close>

subsection \<open>Absence of panics\<close>


subsection \<open>Hexadecimal\<close>

lemma hex_digits: "map hex_digit [0..15] = ''0123456789abcdef''"
  by code_simp

lemma nibble_of_digit: "map decode_nibble ''0123456789abcdef'' = map (\<lambda>d. Inr (word_of_int d)) [0..15]"
  by (simp add: decode_nibble_def upto_rec1)

lemma decode_hex_digit:
  assumes "0 \<le> d" "d < 16"
  shows "decode_nibble (hex_digit d) = Inr (word_of_int d)"
proof -
  have "map (decode_nibble \<circ> hex_digit) [0..15] = map (\<lambda>d. Inr (word_of_int d)) [0..15]"
    by (simp only: map_map [symmetric] hex_digits nibble_of_digit)
  with assms show ?thesis by (simp only: map_eq_conv) simp
qed

lemma uint_u8: "0 \<le> uint (b :: u8)" "uint b < 256"
  using unsigned_less [of b] by (simp_all add: unsigned_less)

lemma join_nibbles: "or (push_bit 4 (word_of_int (uint b div 16))) (word_of_int (uint b mod 16)) = (b :: u8)"
proof -
  have "word_of_int (uint b div 16) = drop_bit 4 b" "word_of_int (uint b mod 16) = take_bit 4 b"
    by (simp_all add: drop_bit_eq_div take_bit_eq_mod word_div_def word_mod_def)
  moreover have "or (push_bit 4 (drop_bit 4 b)) (take_bit 4 b) = b"
    by (rule bit_eqI) (auto simp: bit_simps)
  ultimately show ?thesis by simp
qed

lemma decode_lower_hex: "decode_pairs (lower_hex bytes) = Inr bytes"
proof (induction bytes)
  case (Cons b bs)
  have "0 \<le> uint b div 16" "uint b div 16 < 16" "0 \<le> uint b mod 16" "uint b mod 16 < 16"
    using uint_u8 [of b] by (simp_all add: pos_imp_zdiv_nonneg_iff)
  with Cons show ?case
    by (simp add: lower_hex_def decode_hex_digit join_nibbles)
qed (simp add: lower_hex_def)

lemma length_lower_hex: "length (lower_hex bytes) = length bytes * 2"
  by (induction bytes) (simp_all add: lower_hex_def)

lemma decode_hex_lower_hex: "decode_hex (length bytes) (lower_hex bytes) = Inr bytes"
  by (simp add: decode_hex_def demand_def length_lower_hex decode_lower_hex)

subsection \<open>Failures\<close>



lemma demand_total [simp]: "demand b m \<noteq> Inl Panic" and demand_Inr [simp]: "demand b m = Inr u \<longleftrightarrow> b"
  by (simp_all add: demand_def)






lemma allowed_total [simp]: "allowed_by xs x m \<noteq> Inl Panic"
  by (simp add: allowed_by_def)



subsection \<open>Acceptance\<close>



text \<open>The receipt is about this session, this operation, this request and these observations.\<close>

definition bound_to :: "attestation_payload \<Rightarrow> attestation_context \<Rightarrow> bool" where
  "bound_to p cx \<longleftrightarrow>
     cr_session_id (ap_receipt p) = cx_session_id cx \<and> ap_nonce p = cx_nonce cx \<and>
     cr_request_sha256 (ap_receipt p) = cx_request_sha256 cx \<and>
     ap_observation_artifact_id p = art_id (cx_observations cx) \<and>
     ap_observation_sha256 p = art_sha256 (cx_observations cx)"

lemma verify_Inr:
  assumes "verify_capture_attestation cy policy a cx = Inr v"
  obtains k and claim :: config_claim where "policy_key policy (ap_key_id (at_payload a)) = Some k"
    "validate_trust_policy policy = Inr ()" "validate_attestation a = Inr ()" "verify_signature cy k a = Inr ()"
    "validate_attestation_payload_context cy (at_payload a) cx = Inr ()"
    "verify_key_claims k (ap_receipt (at_payload a)) (rg_document (cx_capture_config cx)) (cc_configuration_sha256 claim) = Inr ()"
    "va_receipt v = ap_receipt (at_payload a)" "va_key_id v = tk_key_id k" "va_producer v = tk_producer k"
proof -
  let ?C = "\<lambda>k. case ap_capture_config (at_payload a) of
      None \<Rightarrow> Inl Panic
    | Some claim \<Rightarrow>
        rthen (verify_key_claims k (ap_receipt (at_payload a)) (rg_document (cx_capture_config cx)) (cc_configuration_sha256 claim))
          (Inr \<lparr>va_receipt = ap_receipt (at_payload a), va_producer = tk_producer k, va_policy_id = tp_policy_id policy,
                va_key_id = tk_key_id k\<rparr>)"
  from assms have "\<exists>k. policy_key policy (ap_key_id (at_payload a)) = Some k \<and> validate_trust_policy policy = Inr () \<and>
      validate_attestation a = Inr () \<and> verify_signature cy k a = Inr () \<and>
      validate_attestation_payload_context cy (at_payload a) cx = Inr () \<and> ?C k = Inr v"
    by (auto simp: verify_capture_attestation_def Let_def rthen_eq_Inr rbind_eq_Inr)
  then obtain k where k: "policy_key policy (ap_key_id (at_payload a)) = Some k" "validate_trust_policy policy = Inr ()"
      "validate_attestation a = Inr ()" "verify_signature cy k a = Inr ()"
      "validate_attestation_payload_context cy (at_payload a) cx = Inr ()" "?C k = Inr v" by blast
  from k(6) have "\<exists>claim :: config_claim. verify_key_claims k (ap_receipt (at_payload a)) (rg_document (cx_capture_config cx))
      (cc_configuration_sha256 claim) = Inr () \<and>
    v = \<lparr>va_receipt = ap_receipt (at_payload a), va_producer = tk_producer k, va_policy_id = tp_policy_id policy,
         va_key_id = tk_key_id k\<rparr>"
    by (cases "ap_capture_config (at_payload a)") (auto simp: rthen_eq_Inr)
  with k that show thesis by auto
qed



lemma context_Inr:
  assumes "validate_attestation_payload_context cy p cx = Inr ()"
  shows "bound_to p cx" "validate_capture_config_receipt cy (cx_capture_config cx) (ap_receipt p) = Inr ()"
    "validate_controller_health_binding p (cx_controller_health cx) = Inr ()"
  using assms by (auto simp: validate_attestation_payload_context_def bound_to_def rthen_eq_Inr rbind_eq_Inr)




subsection \<open>Health of an attested capture\<close>

lemma fault_verdict:
  assumes "normalize_code (ho_code h) = ho_code h" "issue_rule_of (ho_code h) = Some rule" "\<not> blank (ho_source h)"
    and "evaluate_facts facts ps = Inr ps'" "h \<in> set facts"
  shows "verdict_rank (ir_verdict rule) \<le> verdict_rank (ps_verdict ps')"
  using assms(4,5)
proof (induction facts arbitrary: ps)
  case (Cons x xs)
  then obtain ps1 where ps1: "evaluate_fact x ps = Inr ps1" "evaluate_facts xs ps1 = Inr ps'"
    by (auto simp: rbind_eq_Inr)
  show ?case
  proof (cases "x = h")
    case True
    have "ho_code h \<noteq> []" using assms(2) by (auto simp: issue_rule_of_Nil)
    then have "canonicalize_observation h = h"
      using assms(1,3) by (simp add: canonicalize_observation_def Let_def)
    then have "ps_verdict ps1 = combine_verdict (ps_verdict ps) (ir_verdict rule)"
      using ps1(1) assms(1,2) unfolding True
      by (auto simp: evaluate_fact_def classify_fact_def Let_def)
    then have "verdict_rank (ir_verdict rule) \<le> verdict_rank (ps_verdict ps1)"
      by (simp add: combine_verdict_rank)
    also have "\<dots> \<le> verdict_rank (ps_verdict ps')" using evaluate_facts_le [OF ps1(2)] by simp
    finally show ?thesis .
  next
    case False
    with Cons.IH [OF ps1(2)] Cons.prems show ?thesis by simp
  qed
qed simp

definition controller_codes :: "string list" where
  "controller_codes =
     [''trace_overflow'', ''flow_error'', ''trace_gap'', ''truncated_input'', ''timestamp_discontinuity'',
      ''elf_mismatch'', ''program_flow_unclosed'', ''sampling_buffer_full'', ''sampling_unexpected_stop'']"

lemma health_codes_known: "set (health_codes e) \<subseteq> set controller_codes"
  by (cases e) (auto simp: codes_of_def controller_codes_def)

lemma controller_codes_normal: "list_all (\<lambda>code. normalize_code code = code) controller_codes"
  by code_simp

lemma controller_codes_rules:
  "list_all (\<lambda>code. \<exists>rule. issue_rule_of code = Some rule \<and>
     ir_verdict rule = (if code = ''trace_gap'' then Degraded else Invalid)) controller_codes"
  by (simp add: controller_codes_def issue_rule_of_def issue_rules_def fatal_rule_def warning_rule_def)

lemma attested_facts:
  assumes "verify_capture_attestation cy policy a cx = Inr v" "cx_controller_health cx = Some b"
  shows "filter (\<lambda>h. ho_source h = controller_health_source) (cr_health_observations (va_receipt v)) =
    controller_health_observations b"
proof -
  from assms(1) have "validate_controller_health_binding (at_payload a) (Some b) = Inr ()"
    "va_receipt v = ap_receipt (at_payload a)"
    by (rule verify_Inr, metis context_Inr(3) assms(2)) (rule verify_Inr [OF assms(1)], simp)
  then show ?thesis
    by (auto simp: validate_controller_health_binding_def rthen_eq_Inr split: option.splits)
qed

lemma attested_fault:
  assumes "verify_capture_attestation cy policy a cx = Inr v" "cx_controller_health cx = Some b"
    and "code \<in> set (health_codes (hb_evidence b))"
    and "evaluate_policy version session_id (cr_health_observations (va_receipt v)) cap = Inr r"
  shows "(if code = ''trace_gap'' then 1 else 2) \<le> verdict_rank (hr_verdict r)"
proof -
  have "code \<in> set (map ho_code (controller_health_observations b))"
    using assms(3) by (simp add: controller_health_observations_def image_image)
  then obtain h where "h \<in> set (controller_health_observations b)" and code_h: "ho_code h = code" by auto
  moreover from this have source_h: "ho_source h = controller_health_source"
    by (auto simp: controller_health_observations_def)
  moreover note h = code_h source_h
  ultimately have mem: "h \<in> set (cr_health_observations (va_receipt v))"
    using attested_facts [OF assms(1,2), symmetric] by simp
  have code: "code \<in> set controller_codes" using assms(3) health_codes_known by blast
  obtain rule where rule: "issue_rule_of code = Some rule" "ir_verdict rule = (if code = ''trace_gap'' then Degraded else Invalid)"
    using controller_codes_rules code unfolding list_all_iff by blast
  obtain ps where ps: "evaluate_facts (cr_health_observations (va_receipt v))
      \<lparr>ps_verdict = Valid, ps_support = support_from_capabilities cap, ps_issues = [], ps_observations = []\<rparr> = Inr ps"
    "hr_verdict r = ps_verdict ps"
    using assms(4) by (rule evaluate_policy_cases)
  have "\<not> blank controller_health_source" by code_simp
  then have "verdict_rank (ir_verdict rule) \<le> verdict_rank (ps_verdict ps)"
    using controller_codes_normal code rule(1) unfolding list_all_iff
    by (intro fault_verdict [OF _ _ _ ps(1) mem]) (simp_all add: h)
  with rule(2) ps(2) show ?thesis by (simp split: if_splits)
qed

subsection \<open>An accepted attestation\<close>

text \<open>A cryptography that accepts one message, and a capture whose sampling buffer became full.\<close>

definition zeros :: sha256_digest where "zeros = Sha256Digest (replicate 64 (CHR ''0''))"

definition accept_all :: crypto where
  "accept_all =
     \<lparr>cy_signing_bytes = \<lambda>_. Some [1], cy_identity_bytes = \<lambda>_. Some [2], cy_sha256 = \<lambda>_. replicate 32 0,
      cy_key = \<lambda>_. True, cy_verify = \<lambda>_ message _. message = [1]\<rparr>"

definition demo_capabilities :: capture_capabilities where
  "demo_capabilities = (let e = \<lparr>se_support = Exact, se_reasons = []\<rparr> in
     \<lparr>ca_function_events = e, ca_context_switches = e, ca_interrupt_events = e, ca_samples = e,
      ca_custom_events = e, ca_counters = e\<rparr>)"

definition demo_claim :: config_claim where
  "demo_claim = \<lparr>cc_artifact_id = ''c'', cc_sha256 = zeros, cc_configuration_sha256 = zeros\<rparr>"

definition demo_target :: target_info where
  "demo_target = \<lparr>ti_architecture = Some ''a'', ti_device = Some ''d'', ti_board = None, ti_core_count = Some 1,
     ti_properties = []\<rparr>"

definition demo_adapter :: adapter_info where "demo_adapter = \<lparr>adapter_id = ''i'', adapter_version = ''v''\<rparr>"

definition demo_clocks :: "clock_info list" where
  "demo_clocks = [\<lparr>ci_id = ''t'', ci_frequency_hz = Some 1, ci_source = Some ''s'', ci_properties = []\<rparr>]"

definition demo_key :: trust_key where
  "demo_key =
     \<lparr>tk_key_id = ''k'', tk_public_key_ed25519 = replicate 64 (CHR ''a''), tk_producer = ''p'', tk_provider = ''x'',
      tk_adapter = demo_adapter, tk_allowed_modes = [''m''], tk_target = demo_target, tk_trace32 = None,
      tk_clocks = demo_clocks, tk_allowed_cores = [0], tk_allowed_firmware_elf_sha256 = [],
      tk_capability_ceiling = demo_capabilities, tk_config_constraints = None\<rparr>"

definition demo_artifact_of :: "string \<Rightarrow> artifact" where
  "demo_artifact_of name =
     \<lparr>art_id = name, art_kind = ''a'', art_relative_path = ArtifactPath ''a'', art_media_type = ''a/b'',
      art_size_bytes = 1, art_sha256 = zeros, art_producer = ''p'', art_input_artifact_ids = []\<rparr>"

definition demo_binding :: health_binding where
  "demo_binding =
     \<lparr>hb_artifact = demo_artifact_of ''h'',
      hb_evidence = Sampling \<lparr>sh_binding_sha256 = zeros, sh_capture_stopped = True,
        sh_supported_signals = [SigSamplingBufferFull, SigSamplingUnexpectedStop], sh_stop_evidence_sha256 = zeros,
        sh_sampling = \<lparr>sv_setup = RealTimePcStackOff, sv_pre_stop_state = PreBreak, sv_requested_rate_ns = 1000000,
          sv_capacity_records = 32, sv_recorded_records = 32, sv_buffer_full = True, sv_unexpected_stop = False\<rparr>,
        sh_elf_matches_firmware = None\<rparr>\<rparr>"

definition demo_receipt :: capture_receipt where
  "demo_receipt =
     \<lparr>cr_session_id = ''s'', cr_provider = ''x'', cr_mode = ''m'', cr_adapter = demo_adapter,
      cr_target = Some demo_target, cr_trace32 = None,
      cr_firmware = \<lparr>fi_elf_path = None, fi_elf_sha256 = Some zeros, fi_build_id = None\<rparr>,
      cr_clocks = demo_clocks, cr_covered_cores = [0], cr_capabilities = demo_capabilities,
      cr_health_observations = controller_health_observations demo_binding, cr_request_sha256 = zeros,
      cr_capture_config = Some demo_claim,
      cr_controller_health = Some \<lparr>hc_artifact_id = ''h'', hc_sha256 = zeros\<rparr>, cr_properties = []\<rparr>"

definition demo_config :: capture_config where
  "demo_config =
     \<lparr>cd_session_id = ''s'', cd_provider = ''x'', cd_adapter = demo_adapter, cd_mode = ''m'', cd_covered_cores = [0],
      cd_sink = \<lparr>sk_kind = ''k'', sk_id = ''i'', sk_capacity_bytes = None, sk_stream_destination_identity = None\<rparr>,
      cd_timestamp = \<lparr>tc_enabled = True, tc_clock_id = Some ''t''\<rparr>, cd_filters = [],
      cd_trigger = \<lparr>tg_kind = ''k'', tg_pre_trigger_ns = None, tg_post_trigger_ns = None, tg_condition_identity = None\<rparr>,
      cd_duration = \<lparr>du_duration_ns = Some 1, du_observation_limit = None\<rparr>, cd_workload_identity = ''w'',
      cd_initial_target_state = TargetRunning,
      cd_rtos_awareness = \<lparr>ra_kind = ''n'', ra_metadata_artifact_ids = []\<rparr>, cd_instrumentation = None,
      cd_adapter_parameters = []\<rparr>"

definition demo_attestation :: attestation where
  "demo_attestation =
     \<lparr>at_payload =
        \<lparr>ap_key_id = ''k'', ap_nonce = ''n'', ap_receipt = demo_receipt, ap_observation_artifact_id = ''o'',
         ap_observation_sha256 = zeros, ap_capture_config = Some demo_claim,
         ap_controller_health = Some \<lparr>hc_artifact_id = ''h'', hc_sha256 = zeros\<rparr>\<rparr>,
      at_signature_ed25519 = replicate 128 (CHR ''b'')\<rparr>"

definition demo_context :: attestation_context where
  "demo_context =
     \<lparr>cx_session_id = ''s'', cx_nonce = ''n'', cx_request_sha256 = zeros, cx_observations = demo_artifact_of ''o'',
      cx_capture_config = \<lparr>rg_artifact = demo_artifact_of ''c'', rg_document = demo_config\<rparr>,
      cx_controller_health = Some demo_binding\<rparr>"

definition demo_trust :: trust_policy where
  "demo_trust = \<lparr>tp_policy_id = ''p'', tp_keys = [demo_key]\<rparr>"

lemma demo_accepted:
  "verify_capture_attestation accept_all demo_trust demo_attestation demo_context = Inr \<lparr>va_receipt = demo_receipt, va_producer = ''p'', va_policy_id = ''p'', va_key_id = ''k''\<rparr>"
proof -
  have 1: "validate_trust_policy demo_trust = Inr ()" by code_simp
  have 2: "validate_attestation demo_attestation = Inr ()" by code_simp
  have 3: "verify_signature accept_all demo_key demo_attestation = Inr ()" by code_simp
  have 4: "validate_attestation_payload_context accept_all (at_payload demo_attestation) demo_context = Inr ()" by code_simp
  have 5: "verify_key_claims demo_key demo_receipt demo_config zeros = Inr ()" by code_simp
  show ?thesis using 1 2 3 4 5
    by (simp add: verify_capture_attestation_def policy_key_def demo_trust_def demo_attestation_def demo_context_def
      demo_claim_def demo_key_def)
qed
subsection \<open>Properties\<close>


text \<open>
  Faults of the controller cannot be hidden: when an accepted attestation is for a capture whose
  controller evidence reports a fault, the health policy applied to the attested receipt never
  gives a valid verdict, and only a bounded trace gap leaves it better than invalid.
\<close>
theorem attested_faults_lower_trust:
  "case (verify_capture_attestation cy policy a cx, cx_controller_health cx) of
     (Inr v, Some b) \<Rightarrow>
       list_all
         (\<lambda>code. \<exists>r. (evaluate_policy version session_id (cr_health_observations (va_receipt v)) cap
              :: (unit, health_report) res) = Inr r \<and>
            hr_verdict r \<noteq> Valid \<and> (code = ''trace_gap'' \<or> hr_verdict r = Invalid))
         (health_codes (hb_evidence b))
   | _ \<Rightarrow> True"
proof -
  have "\<exists>r. (evaluate_policy version session_id (cr_health_observations (va_receipt v)) cap
         :: (unit, health_report) res) = Inr r \<and> hr_verdict r \<noteq> Valid \<and> (code = ''trace_gap'' \<or> hr_verdict r = Invalid)"
    if "verify_capture_attestation cy policy a cx = Inr v" "cx_controller_health cx = Some b"
      "code \<in> set (health_codes (hb_evidence b))" for v b code
  proof -
    obtain r where r: "(evaluate_policy version session_id (cr_health_observations (va_receipt v)) cap
         :: (unit, health_report) res) = Inr r"
      using evaluate_policy_total by blast
    from attested_fault [OF that r] r show ?thesis
      by (cases "hr_verdict r") (auto split: if_splits)
  qed
  then show ?thesis by (auto simp: list_all_iff split: sum.splits option.splits)
qed

theorem attested_faults_lower_trust_witness:
  "\<exists>r. (evaluate_policy default_policy_version ''s'' (cr_health_observations demo_receipt) exact_program_flow
      :: (unit, health_report) res) = Inr r \<and> hr_verdict r = Invalid"
proof -
  have codes: "health_codes (hb_evidence demo_binding) = [''sampling_buffer_full'']"
    by (simp add: demo_binding_def codes_of_def)
  have health: "cx_controller_health demo_context = Some demo_binding" by (simp add: demo_context_def)
  show ?thesis
    using attested_faults_lower_trust [where cy = accept_all and policy = demo_trust and a = demo_attestation
        and cx = demo_context and version = default_policy_version and session_id = "''s''" and cap = exact_program_flow]
    by (simp add: demo_accepted health codes) blast
qed

end
