(* ===== verification/Analysis_Contracts.thy ===== *)
theory Analysis_Contracts
  imports Analysis_Summary Manifest
begin

text \<open>
  The documents of a finished analysis (\<open>t32perf-model/src/analysis.rs\<close>): the summary document with
  its trust gate and the receipt of the stage; and the static-RAM configuration of \<open>resource.rs\<close>.
\<close>

subsection \<open>Static resources\<close>

record static_ram_totals =
  srt_data_bytes :: u64
  srt_bss_bytes :: u64
  srt_noinit_bytes :: u64
  srt_dma_bytes :: u64
  srt_rtos_bytes :: u64
  srt_custom_bytes :: u64

fun try_sum :: "u64 \<Rightarrow> u64 list \<Rightarrow> u64 option" where
  "try_sum acc [] = Some acc"
| "try_sum acc (n # ns) = (case checked_add acc n of None \<Rightarrow> None | Some acc \<Rightarrow> try_sum acc ns)"

definition checked_total :: "static_ram_totals \<Rightarrow> u64 option" where
  "checked_total t =
     try_sum 0
       [srt_data_bytes t, srt_bss_bytes t, srt_noinit_bytes t, srt_dma_bytes t, srt_rtos_bytes t,
        srt_custom_bytes t]"

record static_ram_config =
  src_artifact_id :: "string option"
  src_sha256 :: sha256_digest

record static_ram_summary =
  srs_artifact_id :: string
  srs_source_artifact_id :: string
  srs_flavor :: string
  srs_config :: "static_ram_config option"
  srs_total_bytes :: u64
  srs_totals :: static_ram_totals
  srs_support :: support_entry

record stack_usage_summary =
  sus_artifact_id :: string
  sus_source_artifact_id :: string
  sus_flavor :: string
  sus_maximum_static_bytes :: "u64 option"
  sus_function_count :: u64
  sus_support :: support_entry

datatype section_kind = SectionDma | SectionRtos | SectionCustom

record section_config =
  sec_name :: string
  sec_kind :: section_kind

record static_ram_document =
  srd_flavor :: string
  srd_additional_sections :: "section_config list"

datatype static_ram_error =
    UnsupportedFlavor string
  | TooManyAdditionalSections nat nat
  | InvalidExactSectionName string
  | BuiltinReclassification string
  | DuplicateSection string

definition gnu_ld_map_v1 :: static_ram_document where
  "gnu_ld_map_v1 = \<lparr>srd_flavor = ''gnu-ld-map-v1'', srd_additional_sections = []\<rparr>"

definition elf_sections_v1 :: static_ram_document where
  "elf_sections_v1 = \<lparr>srd_flavor = ''elf-sections-v1'', srd_additional_sections = []\<rparr>"

definition section_char :: "char \<Rightarrow> bool" where
  "section_char c \<longleftrightarrow> is_lower c \<or> is_upper c \<or> is_digit c \<or> c \<in> {CHR ''.'', CHR ''_'', CHR ''-''}"

definition validate_static_section_name :: "string \<Rightarrow> (static_ram_error, unit) res" where
  "validate_static_section_name name =
     ensure
       ((case name of [] \<Rightarrow> False | c # _ \<Rightarrow> c = CHR ''.'') \<and> 1 < length name \<and> length name \<le> 128 \<and>
        list_all section_char name)
       (InvalidExactSectionName name)"

definition validate_static_ram_document :: "static_ram_document \<Rightarrow> (static_ram_error, unit) res" where
  "validate_static_ram_document d =
     rthen (ensure (srd_flavor d \<in> {''gnu-ld-map-v1'', ''elf-sections-v1''}) (UnsupportedFlavor (srd_flavor d)))
     (rthen (ensure (\<not> 4096 < length (srd_additional_sections d))
              (TooManyAdditionalSections (length (srd_additional_sections d)) 4096))
       (each_new
         (\<lambda>s. rthen (validate_static_section_name (sec_name s))
           (ensure (sec_name s \<notin> {''.data'', ''.bss'', ''.noinit''}) (BuiltinReclassification (sec_name s))))
         sec_name (\<lambda>s. DuplicateSection (sec_name s)) (\<lambda>_. Inr ()) [] (srd_additional_sections d)))"

subsection \<open>The summary document\<close>

record diagnostic_counts =
  dc_observation_count :: u64
  dc_function_span_count :: u64
  dc_incomplete_function_span_count :: u64
  dc_health_observation_count :: u64
  dc_health_issue_count :: u64

record quantitative_summary =
  qu_analysis :: analysis_summary
  qu_static_ram :: "static_ram_summary option"
  qu_stack_usage :: "stack_usage_summary option"

record summary_document =
  sd_session_id :: string
  sd_health_verdict :: health_verdict
  sd_metric_support :: metric_support
  sd_input_artifacts :: "artifact list"
  sd_diagnostics :: diagnostic_counts
  sd_quantitative :: "quantitative_summary option"

text \<open>The message of an invalid resource summary.\<close>

datatype resource_message = MsgResource summary_error | MsgStaticTotals | MsgStaticConfigId

datatype contract_error =
    AcEmptyField string
  | AcInvalidArtifactClaim string artifact_error
  | AcDuplicateArtifactClaim string string
  | AcInputOutputOverlap string
  | AcMissingQuantitativeSummary
  | AcUntrustedQuantitativeSummary health_verdict
  | AcDiagnosticCountMismatch
  | AcInvalidResourceSummary resource_message

definition validate_nonempty :: "string \<Rightarrow> string \<Rightarrow> (contract_error, unit) res" where
  "validate_nonempty field v = ensure (\<not> blank v) (AcEmptyField field)"

definition validate_artifact_claims :: "string \<Rightarrow> artifact list \<Rightarrow> (contract_error, unit) res" where
  "validate_artifact_claims field as =
     each_new (\<lambda>a. map_err (AcInvalidArtifactClaim (art_id a)) (validate_artifact a)) art_id
       (\<lambda>a. AcDuplicateArtifactClaim field (art_id a)) (\<lambda>_. Inr ()) [] as"

definition check_health_gate :: "health_verdict \<Rightarrow> bool \<Rightarrow> (contract_error, unit) res" where
  "check_health_gate v quantitative =
     (if v = Valid then ensure quantitative AcMissingQuantitativeSummary
      else ensure (\<not> quantitative) (AcUntrustedQuantitativeSummary v))"

definition counts_match :: "analysis_summary \<Rightarrow> diagnostic_counts \<Rightarrow> bool" where
  "counts_match a d \<longleftrightarrow>
     sum_observation_count a = dc_observation_count d \<and>
     sum_function_span_count a = dc_function_span_count d \<and>
     sum_incomplete_function_span_count a = dc_incomplete_function_span_count d"

definition validate_static_ram :: "static_ram_summary \<Rightarrow> (contract_error, unit) res" where
  "validate_static_ram s =
     rthen
       (ensure (\<not> (srs_config s \<noteq> None \<and> checked_total (srs_totals s) \<noteq> Some (srs_total_bytes s)))
         (AcInvalidResourceSummary MsgStaticTotals))
     (rthen
       (ensure (opt_all (\<lambda>a. \<not> blank a) (Option.bind (srs_config s) src_artifact_id))
         (AcInvalidResourceSummary MsgStaticConfigId))
       (map_err (AcInvalidResourceSummary \<circ> MsgResource) (validate_support_entry (srs_support s))))"

definition validate_quantitative :: "support_entry \<Rightarrow> quantitative_summary \<Rightarrow> (contract_error, unit) res" where
  "validate_quantitative limit q =
     rthen (map_err (AcInvalidResourceSummary \<circ> MsgResource)
              (validate_resources limit (sum_resources (qu_analysis q))))
     (rthen (case qu_static_ram q of None \<Rightarrow> Inr () | Some s \<Rightarrow> validate_static_ram s)
       (case qu_stack_usage q of
          None \<Rightarrow> Inr ()
        | Some s \<Rightarrow> map_err (AcInvalidResourceSummary \<circ> MsgResource) (validate_support_entry (sus_support s))))"

definition validate_summary_document :: "summary_document \<Rightarrow> (contract_error, unit) res" where
  "validate_summary_document d =
     rthen (validate_nonempty ''session_id'' (sd_session_id d))
     (rthen (validate_artifact_claims ''input_artifacts'' (sd_input_artifacts d))
     (rthen (check_health_gate (sd_health_verdict d) (sd_quantitative d \<noteq> None))
       (case sd_quantitative d of
          None \<Rightarrow> Inr ()
        | Some q \<Rightarrow>
            rthen (ensure (counts_match (qu_analysis q) (sd_diagnostics d)) AcDiagnosticCountMismatch)
              (validate_quantitative (mx_resource_counters (sd_metric_support d)) q))))"

subsection \<open>The receipt of the stage\<close>

record stage_contracts =
  sc_analyzer :: string
  sc_health_policy :: string

record stage_receipt =
  sr_session_id :: string
  sr_tool :: tool_info
  sr_contracts :: stage_contracts
  sr_health_verdict :: health_verdict
  sr_metric_support :: metric_support
  sr_diagnostics :: diagnostic_counts
  sr_input_artifacts :: "artifact list"
  sr_output_artifacts :: "artifact list"

definition validate_stage_receipt :: "stage_receipt \<Rightarrow> (contract_error, unit) res" where
  "validate_stage_receipt r =
     rthen (validate_nonempty ''session_id'' (sr_session_id r))
     (rthen (validate_nonempty ''tool.name'' (tool_name (sr_tool r)))
     (rthen (validate_nonempty ''tool.version'' (tool_version (sr_tool r)))
     (rthen (validate_nonempty ''contracts.analyzer'' (sc_analyzer (sr_contracts r)))
     (rthen (validate_nonempty ''contracts.health_policy'' (sc_health_policy (sr_contracts r)))
     (rthen (validate_artifact_claims ''input_artifacts'' (sr_input_artifacts r))
     (rthen (validate_artifact_claims ''output_artifacts'' (sr_output_artifacts r))
       (case find (\<lambda>a. art_id a \<in> set (map art_id (sr_input_artifacts r))) (sr_output_artifacts r) of
          None \<Rightarrow> Inr ()
        | Some a \<Rightarrow> Inl (Err (AcInputOutputOverlap (art_id a))))))))))"

end
