(* ===== verification/Comparison_Report.thy ===== *)
theory Comparison_Report
  imports Analysis_Contracts
begin

text \<open>
  Comparison and presentation reports with their validators (\<open>t32perf-model/src/report.rs\<close>).
\<close>

subsection \<open>Rows\<close>

datatype subject_kind' = CsFunction | CsTask | CsIsr | CsCapture | CsCustom

record comparison_subject =
  cmp_kind :: subject_kind'
  cmp_id :: string
  cmp_context_id :: "string option"

datatype metric_kind =
    InclusiveActiveNs
  | SelfActiveNs
  | MetricCount
  | MinActiveNs
  | MaxActiveNs
  | AvgActiveNs
  | MetricSampleCount
  | EstimatedShare

datatype metric_outcome = Improved | Unchanged | Regressed | Inconclusive

datatype aggregate = AggLatest | AggMin | AggMax | AggMean | AggDelta | AggRatePerSecond

datatype direction = LowerIsBetter | HigherIsBetter

datatype resource_outcome_kind =
    ResImproved
  | ResUnchanged
  | ResRegressed
  | ResInconclusive
  | ResInformational

datatype metric_source = SourceCounter string | SourceDerived "string list"

fun source_is_valid :: "metric_source \<Rightarrow> bool" where
  "source_is_valid (SourceCounter i) \<longleftrightarrow> \<not> blank i"
| "source_is_valid (SourceDerived ids) \<longleftrightarrow>
     ids \<noteq> [] \<and> list_all (\<lambda>i. \<not> blank i) ids \<and> list_all (\<lambda>(a, b). a < b) (zip ids (tl ids))"

record resource_row =
  rr_semantic :: counter_semantic
  rr_subject :: counter_subject
  rr_aggregate :: aggregate
  rr_baseline_source :: "metric_source option"
  rr_candidate_source :: "metric_source option"
  rr_baseline_unit :: "string option"
  rr_candidate_unit :: "string option"
  rr_baseline_support :: "support_level option"
  rr_candidate_support :: "support_level option"
  rr_baseline :: f64
  rr_candidate :: f64
  rr_delta :: f64
  rr_relative_change :: "f64 option"
  rr_quality :: quality
  rr_direction :: "direction option"
  rr_absolute_threshold :: "f64 option"
  rr_relative_threshold :: "f64 option"
  rr_outcome :: resource_outcome_kind
  rr_reasons :: "string list"

datatype static_ram_metric =
    StaticTotal
  | StaticData
  | StaticBss
  | StaticNoinit
  | StaticDma
  | StaticRtos
  | StaticCustom

record static_ram_row =
  sw_metric :: static_ram_metric
  sw_baseline_bytes :: u64
  sw_candidate_bytes :: u64
  sw_outcome :: metric_outcome
  sw_reasons :: "string list"

record metric_row =
  mr_subject :: comparison_subject
  mr_metric :: metric_kind
  mr_baseline :: f64
  mr_candidate :: f64
  mr_delta :: f64
  mr_relative_change :: "f64 option"
  mr_quality :: quality
  mr_outcome :: metric_outcome
  mr_reasons :: "string list"

datatype comparison_verdict = VImproved | VUnchanged | VRegressed | VInconclusive

record comparison_report =
  co_baseline_session_id :: string
  co_candidate_session_id :: string
  co_baseline_health :: health_verdict
  co_candidate_health :: health_verdict
  co_verdict :: comparison_verdict
  co_metrics :: "metric_row list"
  co_resource_metrics :: "resource_row list"
  co_static_ram_metrics :: "static_ram_row list"
  co_reasons :: "string list"

subsection \<open>Validation\<close>

datatype comparison_error =
    CmpNonFiniteMetric string metric_kind
  | CmpNegativeMetric string metric_kind
  | CmpRelativeChangeWithZeroBaseline string metric_kind
  | CmpHealthGateBypassed
  | CmpQuantitativeHealthGateBypassed
  | CmpMetricHealthGateBypassed string metric_kind
  | CmpInvalidResourceSubject counter_semantic
  | CmpInvalidResourceDiagnostic counter_semantic
  | CmpNonFiniteResourceMetric counter_semantic aggregate
  | CmpResourceRelativeChangeWithZeroBaseline counter_semantic aggregate
  | CmpInvalidResourcePolicyProjection counter_semantic aggregate

abbreviation zero_f64 :: f64 where "zero_f64 \<equiv> f64_of_int 0"

definition side_consistent :: "metric_source option \<Rightarrow> string option \<Rightarrow> support_level option \<Rightarrow> bool" where
  "side_consistent src unit' level \<longleftrightarrow>
     opt_all source_is_valid src \<and> opt_all (\<lambda>u. \<not> blank u) unit' \<and>
     (src \<noteq> None \<longleftrightarrow> unit' \<noteq> None) \<and> (src \<noteq> None \<longleftrightarrow> level \<noteq> None)"

definition diagnostics_valid :: "resource_row \<Rightarrow> bool" where
  "diagnostics_valid r \<longleftrightarrow>
     side_consistent (rr_baseline_source r) (rr_baseline_unit r) (rr_baseline_support r) \<and>
     side_consistent (rr_candidate_source r) (rr_candidate_unit r) (rr_candidate_support r) \<and>
     \<not> (rr_baseline_source r = None \<and> rr_candidate_source r = None)"

definition row_values_finite :: "resource_row \<Rightarrow> bool" where
  "row_values_finite r \<longleftrightarrow>
     f64_is_finite (rr_baseline r) \<and> f64_is_finite (rr_candidate r) \<and> f64_is_finite (rr_delta r) \<and>
     opt_all f64_is_finite (rr_relative_change r) \<and>
     opt_all (\<lambda>v. f64_is_finite v \<and> \<not> f64_lt v zero_f64) (rr_absolute_threshold r) \<and>
     opt_all (\<lambda>v. f64_is_finite v \<and> \<not> f64_lt v zero_f64) (rr_relative_threshold r)"

definition projection_valid :: "resource_row \<Rightarrow> bool" where
  "projection_valid r \<longleftrightarrow>
     (let configured = rr_direction r \<noteq> None \<and> rr_absolute_threshold r \<noteq> None \<and> rr_relative_threshold r \<noteq> None;
          informational = rr_direction r = None \<and> rr_absolute_threshold r = None \<and>
            rr_relative_threshold r = None \<and> rr_outcome r = ResInformational
      in \<not> (\<not> configured \<and> \<not> informational \<or> configured \<and> rr_outcome r = ResInformational))"

definition validate_resource_row :: "resource_row \<Rightarrow> (comparison_error, unit) res" where
  "validate_resource_row r =
     rthen (map_err (\<lambda>_. CmpInvalidResourceSubject (rr_semantic r)) (validate_subject (rr_subject r)))
     (rthen (ensure (diagnostics_valid r) (CmpInvalidResourceDiagnostic (rr_semantic r)))
     (rthen (ensure (row_values_finite r) (CmpNonFiniteResourceMetric (rr_semantic r) (rr_aggregate r)))
     (rthen
       (ensure (\<not> (f64_eq (rr_baseline r) zero_f64 \<and> rr_relative_change r \<noteq> None))
         (CmpResourceRelativeChangeWithZeroBaseline (rr_semantic r) (rr_aggregate r)))
       (ensure (projection_valid r)
         (CmpInvalidResourcePolicyProjection (rr_semantic r) (rr_aggregate r))))))"

definition validate_metric_row :: "metric_row \<Rightarrow> (comparison_error, unit) res" where
  "validate_metric_row r =
     (let subject = cmp_id (mr_subject r); metric = mr_metric r in
      rthen
        (ensure
          (f64_is_finite (mr_baseline r) \<and> f64_is_finite (mr_candidate r) \<and> f64_is_finite (mr_delta r) \<and>
           opt_all f64_is_finite (mr_relative_change r))
          (CmpNonFiniteMetric subject metric))
      (rthen
        (ensure (\<not> (f64_lt (mr_baseline r) zero_f64 \<or> f64_lt (mr_candidate r) zero_f64))
          (CmpNegativeMetric subject metric))
        (ensure (\<not> (f64_eq (mr_baseline r) zero_f64 \<and> mr_relative_change r \<noteq> None))
          (CmpRelativeChangeWithZeroBaseline subject metric))))"

definition validate_comparison_report :: "comparison_report \<Rightarrow> (comparison_error, unit) res" where
  "validate_comparison_report r =
     (let strict = allows_strict_comparison (co_baseline_health r) \<and> allows_strict_comparison (co_candidate_health r) in
      rthen (ensure (\<not> (\<not> strict \<and> co_verdict r \<noteq> VInconclusive)) CmpHealthGateBypassed)
      (rthen
        (ensure
          (\<not> (\<not> strict \<and>
             (co_metrics r \<noteq> [] \<or> co_resource_metrics r \<noteq> [] \<or> co_static_ram_metrics r \<noteq> [])))
          CmpQuantitativeHealthGateBypassed)
      (rthen
        (each
          (\<lambda>m. rthen (validate_metric_row m)
            (ensure (\<not> (\<not> strict \<and> mr_outcome m \<noteq> Inconclusive))
              (CmpMetricHealthGateBypassed (cmp_id (mr_subject m)) (mr_metric m))))
          (co_metrics r))
        (each validate_resource_row (co_resource_metrics r)))))"

subsection \<open>The presentation report\<close>

record report_summary =
  rp_capture_duration_ns :: "duration_ns option"
  rp_function_span_count :: u64
  rp_sample_count :: u64
  rp_comparison_verdict :: "comparison_verdict option"

record report_finding =
  fi_code :: string
  fi_severity :: health_severity
  fi_title :: string
  fi_message :: string
  fi_evidence :: properties

record artifact_link =
  al_artifact_id :: string
  al_role :: string

record analysis_report =
  ar_session_id :: string
  ar_generated_at :: string
  ar_title :: string
  ar_health_verdict :: health_verdict
  ar_summary :: report_summary
  ar_findings :: "report_finding list"
  ar_artifacts :: "artifact_link list"

datatype report_error = NonvalidQuantitativeReport health_verdict | EmptyIdentity

definition validate_analysis_report :: "analysis_report \<Rightarrow> (report_error, unit) res" where
  "validate_analysis_report r =
     rthen (ensure (ar_health_verdict r = Valid) (NonvalidQuantitativeReport (ar_health_verdict r)))
       (ensure (\<not> (blank (ar_session_id r) \<or> blank (ar_generated_at r) \<or> blank (ar_title r))) EmptyIdentity)"

end
