(* ===== verification/Compare.thy ===== *)
theory Compare
  imports Comparison_Report Derived
begin

text \<open>
  Health-gated comparison of two runs (\<open>t32perf-analysis/src/compare.rs\<close>). Reasons are collected in
  the order in which the code pushes them; a function that pushes reasons takes the list so far and
  returns the extended one.
\<close>

subsection \<open>Inputs and policy\<close>

record comparison_input =
  in_manifest :: manifest
  in_health :: health_report
  in_hotspots :: hotspot_report
  in_summary :: summary_document

record resource_rule =
  ru_semantic :: counter_semantic
  ru_subject :: "counter_subject option"
  ru_aggregate :: aggregate
  ru_direction :: direction
  ru_absolute_threshold :: f64
  ru_relative_threshold :: f64

record comparison_policy =
  py_relative_threshold :: f64
  py_absolute_time_threshold_ns :: u64
  py_absolute_count_threshold :: u64
  py_require_exact_metrics :: bool
  py_require_matching_request :: bool
  py_require_same_adapter_version :: bool
  py_require_same_firmware_identity :: bool
  py_require_same_health_policy_version :: bool
  py_require_same_tool_contract :: bool
  py_allow_function_set_changes :: bool
  py_resource_rules :: "resource_rule list"
  py_allow_resource_subject_set_changes :: bool
  py_compare_statistical_metrics :: bool
  py_require_complete_provenance :: bool

text \<open>\<open>0.05\<close>: the binary64 nearest to one twentieth.\<close>

definition five_percent :: f64 where
  "five_percent = f64_round (1 / 20)"

definition default_resource_rules :: "resource_rule list" where
  "default_resource_rules =
     map (\<lambda>(semantic, agg).
         \<lparr>ru_semantic = semantic, ru_subject = None, ru_aggregate = agg, ru_direction = LowerIsBetter,
          ru_absolute_threshold = zero_f64, ru_relative_threshold = five_percent\<rparr>)
       [(''heap.current_allocated_bytes'', AggLatest), (''heap.peak_allocated_bytes'', AggMax),
        (''stack.peak_used_bytes'', AggMax), (''ram.peak_used_bytes'', AggMax),
        (''heap.external_fragmentation_ratio'', AggLatest)]"

definition default_policy :: comparison_policy where
  "default_policy =
     \<lparr>py_relative_threshold = five_percent, py_absolute_time_threshold_ns = 0, py_absolute_count_threshold = 0,
      py_require_exact_metrics = True, py_require_matching_request = True,
      py_require_same_adapter_version = True, py_require_same_firmware_identity = False,
      py_require_same_health_policy_version = True, py_require_same_tool_contract = True,
      py_allow_function_set_changes = False, py_resource_rules = default_resource_rules,
      py_allow_resource_subject_set_changes = False, py_compare_statistical_metrics = False,
      py_require_complete_provenance = True\<rparr>"

subsection \<open>Reasons\<close>

definition push_when :: "bool \<Rightarrow> string \<Rightarrow> string list \<Rightarrow> string list" where
  "push_when b reason reasons = (if b then reasons @ [reason] else reasons)"

definition push_reason_once :: "string \<Rightarrow> string list \<Rightarrow> string list" where
  "push_reason_once reason reasons = (if reason \<in> set reasons then reasons else reasons @ [reason])"

definition push_all :: "(bool \<times> string) list \<Rightarrow> string list \<Rightarrow> string list" where
  "push_all checks reasons = fold (\<lambda>(b, reason). push_when b reason) checks reasons"

subsection \<open>Comparability\<close>

definition validate_session_links :: "comparison_input \<Rightarrow> string \<Rightarrow> string list \<Rightarrow> string list" where
  "validate_session_links i label =
     (let session = mf_session_id (in_manifest i) in
      push_all
        [(hr_session_id (in_health i) \<noteq> session, label @ ''_health_session_mismatch''),
         (hot_session_id (in_hotspots i) \<noteq> session, label @ ''_hotspots_session_mismatch''),
         (sd_session_id (in_summary i) \<noteq> session, label @ ''_summary_session_mismatch'')])"

definition health_report_valid :: "health_report \<Rightarrow> bool" where
  "health_report_valid r \<longleftrightarrow>
     validate_health_report r = Inr () \<and> \<not> blank (hr_session_id r) \<and> \<not> blank (hr_policy_version r) \<and>
     list_all (\<lambda>x. \<not> (blank (ho_code x) \<or> blank (ho_source x))) (hr_observations r) \<and>
     list_all (\<lambda>x. \<not> (blank (hi_code x) \<or> blank (hi_source x) \<or> blank (hi_message x))) (hr_issues r) \<and>
     (let invalidating = list_ex (\<lambda>x. hi_severity x = Error \<or> hi_severity x = Fatal) (hr_issues r);
          warning = list_ex (\<lambda>x. hi_severity x = Warning) (hr_issues r)
      in case hr_verdict r of
           Valid \<Rightarrow> \<not> warning \<and> \<not> invalidating
         | Degraded \<Rightarrow> \<not> invalidating
         | Invalid \<Rightarrow> True)"

definition present_string :: "string option \<Rightarrow> bool" where
  "present_string v = (case v of None \<Rightarrow> False | Some s \<Rightarrow> s \<noteq> [])"

definition target_complete :: "target_info \<Rightarrow> bool" where
  "target_complete t \<longleftrightarrow>
     present_string (ti_architecture t) \<and> present_string (ti_device t) \<and>
     (case ti_core_count t of None \<Rightarrow> False | Some n \<Rightarrow> n \<noteq> 0)"

definition targets_comparable :: "target_info option \<Rightarrow> target_info option \<Rightarrow> bool \<Rightarrow> bool" where
  "targets_comparable baseline candidate require_complete =
     (case (baseline, candidate) of
        (None, None) \<Rightarrow> \<not> require_complete
      | (Some b, Some c) \<Rightarrow>
          \<not> (require_complete \<and> (\<not> target_complete b \<or> \<not> target_complete c)) \<and>
          ti_architecture b = ti_architecture c \<and> ti_device b = ti_device c \<and> ti_board b = ti_board c \<and>
          ti_core_count b = ti_core_count c
      | _ \<Rightarrow> False)"

definition clock_frequencies :: "manifest \<Rightarrow> (string, u64 option) btree" where
  "clock_frequencies m = bt_of_list (map (\<lambda>c. (ci_id c, ci_frequency_hz c)) (mf_clocks m))"

definition clocks_comparable :: "manifest \<Rightarrow> manifest \<Rightarrow> bool \<Rightarrow> bool" where
  "clocks_comparable baseline candidate require_complete \<longleftrightarrow>
     \<not> (require_complete \<and>
        (mf_clocks baseline = [] \<or> mf_clocks candidate = [] \<or>
         list_ex (\<lambda>c. ci_id c = [] \<or> (case ci_frequency_hz c of None \<Rightarrow> True | Some f \<Rightarrow> f = 0))
           (mf_clocks baseline @ mf_clocks candidate))) \<and>
     clock_frequencies baseline = clock_frequencies candidate"

definition firmware_identity :: "manifest \<Rightarrow> (string \<times> string) option" where
  "firmware_identity m =
     (case fi_elf_sha256 (mf_firmware m) of
        Some digest \<Rightarrow> Some (''elf'', digest_hex digest)
      | None \<Rightarrow>
          (case fi_build_id (mf_firmware m) of
             Some build_id \<Rightarrow> if build_id = [] then None else Some (''build'', build_id)
           | None \<Rightarrow> None))"

definition firmware_identities_match :: "(string \<times> string) option \<Rightarrow> (string \<times> string) option \<Rightarrow> bool" where
  "firmware_identities_match baseline candidate =
     (case (baseline, candidate) of (Some b, Some c) \<Rightarrow> b = c | _ \<Rightarrow> False)"

definition trace32_comparable :: "manifest \<Rightarrow> manifest \<Rightarrow> bool \<Rightarrow> bool" where
  "trace32_comparable baseline candidate require_complete =
     (case (cp_trace32 (mf_capture baseline), cp_trace32 (mf_capture candidate)) of
        (None, None) \<Rightarrow> True
      | (Some b, Some c) \<Rightarrow>
          \<not> (require_complete \<and>
             (\<not> present_string (tr_build b) \<or> \<not> present_string (tr_architecture_package b) \<or>
              \<not> present_string (tr_build c) \<or> \<not> present_string (tr_architecture_package c))) \<and>
          tr_build b = tr_build c \<and> tr_architecture_package b = tr_architecture_package c
      | _ \<Rightarrow> False)"

definition support_comparable :: "support_entry \<Rightarrow> support_entry \<Rightarrow> bool \<Rightarrow> bool" where
  "support_comparable baseline candidate require_exact =
     (if require_exact then se_support baseline = Exact \<and> se_support candidate = Exact
      else se_support baseline = se_support candidate \<and> se_support baseline \<noteq> Unavailable)"

definition compare_provider :: "capture_info \<Rightarrow> capture_info \<Rightarrow> bool \<Rightarrow> string list \<Rightarrow> string list" where
  "compare_provider b c require_complete =
     (case (cp_provider b, cp_provider c) of
        (Some p, Some q) \<Rightarrow> push_when (p \<noteq> q) ''capture_provider_mismatch''
      | _ \<Rightarrow> push_when require_complete ''capture_provider_incomplete'')"

definition compare_cores :: "capture_info \<Rightarrow> capture_info \<Rightarrow> bool \<Rightarrow> string list \<Rightarrow> string list" where
  "compare_cores b c require_complete =
     (if cp_covered_cores b = [] \<or> cp_covered_cores c = []
      then push_when require_complete ''capture_core_coverage_incomplete''
      else push_when (set (cp_covered_cores b) \<noteq> set (cp_covered_cores c)) ''capture_core_coverage_mismatch'')"

definition compare_capabilities :: "capture_info \<Rightarrow> capture_info \<Rightarrow> bool \<Rightarrow> string list \<Rightarrow> string list" where
  "compare_capabilities b c require_complete =
     (case (cp_capabilities b, cp_capabilities c) of
        (Some p, Some q) \<Rightarrow> push_when (p \<noteq> q) ''capture_capabilities_mismatch''
      | _ \<Rightarrow> push_when require_complete ''capture_capabilities_incomplete'')"

definition compare_configs :: "capture_info \<Rightarrow> capture_info \<Rightarrow> bool \<Rightarrow> string list \<Rightarrow> string list" where
  "compare_configs b c require_complete =
     (case (cp_capture_config b, cp_capture_config c) of
        (Some p, Some q) \<Rightarrow>
          push_all
            [(cc_artifact_id p \<noteq> cc_artifact_id q, ''capture_config_artifact_mismatch''),
             (cc_configuration_sha256 p \<noteq> cc_configuration_sha256 q, ''capture_config_digest_mismatch'')]
      | _ \<Rightarrow> push_when require_complete ''capture_config_incomplete'')"

definition compare_capture_receipt_facts :: "manifest \<Rightarrow> manifest \<Rightarrow> bool \<Rightarrow> string list \<Rightarrow> string list" where
  "compare_capture_receipt_facts baseline candidate require_complete reasons =
     (let b = mf_capture baseline; c = mf_capture candidate in
      compare_configs b c require_complete
        (compare_capabilities b c require_complete
          (compare_cores b c require_complete
            (compare_provider b c require_complete reasons))))"

definition rule_valid :: "resource_rule \<Rightarrow> bool" where
  "rule_valid r \<longleftrightarrow>
     f64_is_finite (ru_absolute_threshold r) \<and> \<not> f64_lt (ru_absolute_threshold r) zero_f64 \<and>
     f64_is_finite (ru_relative_threshold r) \<and> \<not> f64_lt (ru_relative_threshold r) zero_f64 \<and>
     (case ru_subject r of
        None \<Rightarrow> True
      | Some subject \<Rightarrow>
          validate_subject subject = Inr () \<and>
          (case standard_spec (ru_semantic r) of
             None \<Rightarrow> True
           | Some spec \<Rightarrow> subject_kind subject = Some (spec_subject_kind spec)))"

definition resource_policy_valid :: "comparison_policy \<Rightarrow> bool" where
  "resource_policy_valid p \<longleftrightarrow>
     list_all rule_valid (py_resource_rules p) \<and>
     distinct (map (\<lambda>r. (ru_semantic r, ru_subject r)) (py_resource_rules p))"

definition request_mismatch :: "sha256_digest option \<Rightarrow> sha256_digest option \<Rightarrow> comparison_policy \<Rightarrow> bool" where
  "request_mismatch baseline candidate p =
     (case (baseline, candidate) of
        (Some b, Some c) \<Rightarrow> py_require_matching_request p \<and> b \<noteq> c
      | (None, None) \<Rightarrow> py_require_complete_provenance p
      | _ \<Rightarrow> py_require_complete_provenance p \<or> py_require_matching_request p)"

definition document_reasons :: "comparison_input \<Rightarrow> comparison_input \<Rightarrow> string list \<Rightarrow> string list" where
  "document_reasons b c =
     push_all
       [(validate_manifest (in_manifest b) \<noteq> Inr (), ''baseline_manifest_invalid''),
        (validate_manifest (in_manifest c) \<noteq> Inr (), ''candidate_manifest_invalid''),
        (\<not> health_report_valid (in_health b), ''baseline_health_invalid''),
        (\<not> health_report_valid (in_health c), ''candidate_health_invalid''),
        (validate_hotspots (in_hotspots b) \<noteq> Inr (), ''baseline_hotspots_invalid''),
        (validate_hotspots (in_hotspots c) \<noteq> Inr (), ''candidate_hotspots_invalid''),
        (validate_summary_document (in_summary b) \<noteq> Inr (), ''baseline_summary_invalid''),
        (validate_summary_document (in_summary c) \<noteq> Inr (), ''candidate_summary_invalid'')]"

definition summary_health_mismatch :: "comparison_input \<Rightarrow> bool" where
  "summary_health_mismatch i \<longleftrightarrow>
     sd_health_verdict (in_summary i) \<noteq> hr_verdict (in_health i) \<or>
     sd_metric_support (in_summary i) \<noteq> hr_metric_support (in_health i)"

definition health_reasons :: "comparison_input \<Rightarrow> comparison_input \<Rightarrow> comparison_policy \<Rightarrow> string list \<Rightarrow> string list" where
  "health_reasons b c p =
     push_all
       [(hr_verdict (in_health b) \<noteq> Valid, ''baseline_health_not_valid''),
        (hr_verdict (in_health c) \<noteq> Valid, ''candidate_health_not_valid''),
        (sd_health_verdict (in_summary b) \<noteq> Valid, ''baseline_summary_not_valid''),
        (sd_health_verdict (in_summary c) \<noteq> Valid, ''candidate_summary_not_valid''),
        (summary_health_mismatch b, ''baseline_summary_health_mismatch''),
        (summary_health_mismatch c, ''candidate_summary_health_mismatch''),
        (py_require_same_health_policy_version p \<and>
           hr_policy_version (in_health b) \<noteq> hr_policy_version (in_health c), ''health_policy_version_mismatch''),
        (py_require_same_tool_contract p \<and>
           (tool_name (mf_tool (in_manifest b)) \<noteq> tool_name (mf_tool (in_manifest c)) \<or>
            tool_version (mf_tool (in_manifest b)) \<noteq> tool_version (mf_tool (in_manifest c))),
         ''tool_contract_mismatch'')]"

definition identity_incomplete :: "manifest \<Rightarrow> bool" where
  "identity_incomplete m \<longleftrightarrow>
     cp_mode (mf_capture m) = [] \<or> adapter_id (cp_adapter (mf_capture m)) = [] \<or>
     adapter_version (cp_adapter (mf_capture m)) = []"

definition provenance_reasons :: "manifest \<Rightarrow> manifest \<Rightarrow> comparison_policy \<Rightarrow> string list \<Rightarrow> string list" where
  "provenance_reasons b c p =
     (let complete = py_require_complete_provenance p; cb = mf_capture b; ct = mf_capture c;
          fb = firmware_identity b; fc = firmware_identity c in
      push_all
        [(cp_mode cb \<noteq> cp_mode ct, ''capture_mode_mismatch''),
         (adapter_id (cp_adapter cb) \<noteq> adapter_id (cp_adapter ct), ''capture_adapter_mismatch''),
         (py_require_same_adapter_version p \<and> adapter_version (cp_adapter cb) \<noteq> adapter_version (cp_adapter ct),
          ''capture_adapter_version_mismatch''),
         (\<not> targets_comparable (cp_target cb) (cp_target ct) complete, ''capture_target_mismatch''),
         (\<not> clocks_comparable b c complete, ''capture_clock_mismatch''),
         (complete \<and> (fb = None \<or> fc = None), ''capture_firmware_identity_incomplete''),
         (py_require_same_firmware_identity p \<and> \<not> firmware_identities_match fb fc, ''capture_firmware_mismatch''),
         (\<not> trace32_comparable b c complete, ''capture_trace32_mismatch''),
         (request_mismatch (cp_request_sha256 cb) (cp_request_sha256 ct) p, ''capture_request_mismatch'')])"

definition metric_reasons :: "comparison_input \<Rightarrow> comparison_input \<Rightarrow> comparison_policy \<Rightarrow> string list \<Rightarrow> string list" where
  "metric_reasons b c p =
     (let mb = hr_metric_support (in_health b); mc = hr_metric_support (in_health c) in
      push_all
        [(\<not> support_comparable (mx_call_count mb) (mx_call_count mc) (py_require_exact_metrics p),
          ''metric_support_mismatch:call_count''),
         (\<not> support_comparable (mx_active mb) (mx_active mc) (py_require_exact_metrics p),
          ''metric_support_mismatch:active''),
         (\<not> support_comparable (mx_self_time mb) (mx_self_time mc) (py_require_exact_metrics p),
          ''metric_support_mismatch:self''),
         (py_require_exact_metrics p \<and>
            list_ex (\<lambda>row. fh_quality row \<noteq> QExact)
              (hot_functions (in_hotspots b) @ hot_functions (in_hotspots c)),
          ''function_hotspot_quality_not_exact'')])"

definition comparability_reasons :: "comparison_input \<Rightarrow> comparison_input \<Rightarrow> comparison_policy \<Rightarrow> string list" where
  "comparability_reasons b c p =
     (let mb = in_manifest b; mc = in_manifest c; complete = py_require_complete_provenance p;
          bad = \<not> f64_is_finite (py_relative_threshold p) \<or> f64_lt (py_relative_threshold p) zero_f64;
          r0 = push_when bad ''comparison_policy_invalid'' [];
          r1 = (if resource_policy_valid p then r0 else push_reason_once ''comparison_policy_invalid'' r0);
          r2 = validate_session_links c ''candidate'' (validate_session_links b ''baseline'' r1);
          r3 = health_reasons b c p (document_reasons b c r2);
          r4 = push_when (complete \<and> (identity_incomplete mb \<or> identity_incomplete mc))
            ''capture_identity_incomplete'' r3;
          r5 = compare_capture_receipt_facts mb mc complete r4
      in metric_reasons b c p (provenance_reasons mb mc p r5))"

end
