(* ===== verification/Compare_Rows.thy ===== *)
theory Compare_Rows
  imports Compare
begin

text \<open>
  The rows of a comparison: function metrics, sampling shares and static RAM
  (\<open>t32perf-analysis/src/compare.rs\<close>).
\<close>

definition f64_abs :: "f64 \<Rightarrow> f64" where
  "f64_abs x = F64 (take_bit 63 (f64_bits x))"

definition f64_of_u64 :: "u64 \<Rightarrow> f64" where
  "f64_of_u64 n = f64_of_int (uint n)"

text \<open>The keys of two maps, in order.\<close>

definition key_union :: "('k::linorder, 'v) btree \<Rightarrow> ('k, 'v) btree \<Rightarrow> 'k list" where
  "key_union a b = sort (remdups (bt_keys a @ bt_keys b))"

definition key_intersection :: "('k::linorder, 'v) btree \<Rightarrow> ('k, 'v) btree \<Rightarrow> 'k list" where
  "key_intersection a b = filter (\<lambda>k. bt_contains b k) (bt_keys a)"

definition same_keys :: "('k::linorder, 'v) btree \<Rightarrow> ('k, 'v) btree \<Rightarrow> bool" where
  "same_keys a b \<longleftrightarrow> set (bt_keys a) = set (bt_keys b)"

subsection \<open>One metric\<close>

definition relative_change_of :: "f64 \<Rightarrow> f64 \<Rightarrow> f64 option" where
  "relative_change_of baseline delta =
     (if f64_eq baseline zero_f64 then None else Some (f64_div delta baseline))"

definition metric_outcome_of :: "f64 \<Rightarrow> f64 \<Rightarrow> f64 \<Rightarrow> f64 \<Rightarrow> metric_outcome" where
  "metric_outcome_of baseline candidate absolute relative =
     (let delta = f64_sub candidate baseline;
          changed_absolutely = f64_lt (f64_max absolute zero_f64) (f64_abs delta);
          changed_relatively =
            (case relative_change_of baseline delta of
               None \<Rightarrow> False | Some change \<Rightarrow> f64_lt (f64_max relative zero_f64) (f64_abs change))
      in if changed_absolutely \<and> (f64_eq baseline zero_f64 \<or> changed_relatively) then
           (if f64_lt zero_f64 delta then Regressed else Improved)
         else Unchanged)"

definition metric_comparison :: "comparison_subject \<Rightarrow> metric_kind \<Rightarrow> f64 \<Rightarrow> f64 \<Rightarrow> f64 \<Rightarrow> f64 \<Rightarrow> quality \<Rightarrow> metric_row" where
  "metric_comparison subject metric baseline candidate absolute relative quality =
     (let delta = f64_sub candidate baseline in
      \<lparr>mr_subject = subject, mr_metric = metric, mr_baseline = baseline, mr_candidate = candidate,
       mr_delta = delta, mr_relative_change = relative_change_of baseline delta, mr_quality = quality,
       mr_outcome = metric_outcome_of baseline candidate absolute relative, mr_reasons = []\<rparr>)"

subsection \<open>Function hotspots\<close>

type_synonym function_key = "string \<times> string option"

definition function_rows :: "function_hotspot list \<Rightarrow> (function_key, function_hotspot) btree" where
  "function_rows hs = bt_of_list (map (\<lambda>h. ((fh_function_id h, fh_context_id h), h)) hs)"

definition function_metrics :: "comparison_policy \<Rightarrow> (metric_kind \<times> (function_hotspot \<Rightarrow> u64) \<times> u64) list" where
  "function_metrics p =
     (let time = py_absolute_time_threshold_ns p in
      [(InclusiveActiveNs, fh_inclusive_active_ns, time), (SelfActiveNs, fh_self_active_ns, time),
       (MetricCount, fh_count, py_absolute_count_threshold p), (MinActiveNs, fh_min_active_ns, time),
       (MaxActiveNs, fh_max_active_ns, time), (AvgActiveNs, fh_avg_active_ns, time)])"

definition side_value :: "(function_hotspot \<Rightarrow> u64) \<Rightarrow> function_hotspot option \<Rightarrow> f64" where
  "side_value get row = (case row of None \<Rightarrow> f64_of_int 0 | Some h \<Rightarrow> f64_of_u64 (get h))"

definition compare_function :: "comparison_policy \<Rightarrow> function_hotspot option \<Rightarrow> function_hotspot option
    \<Rightarrow> (unit, metric_row list) res" where
  "compare_function p baseline candidate =
     rbind (expect (case baseline of Some h \<Rightarrow> Some h | None \<Rightarrow> candidate)) (\<lambda>row.
     let subject = \<lparr>cmp_kind = CsFunction, cmp_id = fh_function_id row, cmp_context_id = fh_context_id row\<rparr>;
         quality = (case (baseline, candidate) of
             (Some b, Some c) \<Rightarrow> max (fh_quality b) (fh_quality c) | _ \<Rightarrow> fh_quality row);
         membership = (case (baseline, candidate) of
             (None, Some _) \<Rightarrow> [''function_added''] | (Some _, None) \<Rightarrow> [''function_removed''] | _ \<Rightarrow> [])
     in Inr (map (\<lambda>(metric, get, absolute).
            (metric_comparison subject metric (side_value get baseline) (side_value get candidate)
               (f64_of_u64 absolute) (py_relative_threshold p) quality)\<lparr>mr_reasons := membership\<rparr>)
          (function_metrics p)))"

fun compare_functions :: "comparison_policy \<Rightarrow> (function_key, function_hotspot) btree
    \<Rightarrow> (function_key, function_hotspot) btree \<Rightarrow> function_key list \<Rightarrow> (unit, metric_row list) res" where
  "compare_functions p b c [] = Inr []"
| "compare_functions p b c (k # ks) =
     rbind
       (if (bt_get b k = None \<or> bt_get c k = None) \<and> \<not> py_allow_function_set_changes p then Inr []
        else compare_function p (bt_get b k) (bt_get c k)) (\<lambda>rows.
     rbind (compare_functions p b c ks) (\<lambda>more. Inr (rows @ more)))"

definition compare_function_hotspots :: "function_hotspot list \<Rightarrow> function_hotspot list \<Rightarrow> comparison_policy
    \<Rightarrow> string list \<Rightarrow> (unit, metric_row list \<times> string list) res" where
  "compare_function_hotspots baseline candidate p reasons =
     (let b = function_rows baseline; c = function_rows candidate in
      rbind (compare_functions p b c (key_union b c)) (\<lambda>rows.
        Inr (rows, push_when (\<not> same_keys b c \<and> \<not> py_allow_function_set_changes p) ''function_set_differs'' reasons)))"

subsection \<open>Sampling hotspots\<close>

type_synonym sampling_key = "string option \<times> u64 option \<times> string option"

definition sampling_rows :: "sampling_hotspot list \<Rightarrow> (sampling_key, sampling_hotspot) btree" where
  "sampling_rows hs = bt_of_list (map (\<lambda>h. ((sh_function_id h, sh_address h, sh_context_id h), h)) hs)"

definition sampling_subject :: "sampling_hotspot \<Rightarrow> comparison_subject" where
  "sampling_subject h =
     (case sh_function_id h of
        Some i \<Rightarrow> \<lparr>cmp_kind = CsFunction, cmp_id = i, cmp_context_id = sh_context_id h\<rparr>
      | None \<Rightarrow>
          \<lparr>cmp_kind = CsCustom,
           cmp_id = ''address:'' @ hex (uint (case sh_address h of None \<Rightarrow> 0 | Some a \<Rightarrow> a)),
           cmp_context_id = sh_context_id h\<rparr>)"

definition compare_sampling :: "comparison_policy \<Rightarrow> sampling_hotspot \<Rightarrow> sampling_hotspot \<Rightarrow> metric_row" where
  "compare_sampling p b c =
     metric_comparison (sampling_subject b) EstimatedShare (sh_estimated_share b) (sh_estimated_share c)
       zero_f64 (py_relative_threshold p) QStatistical"

text \<open>Indexing the maps by a key of the intersection never fails.\<close>

definition compare_sampling_hotspots :: "sampling_hotspot list \<Rightarrow> sampling_hotspot list \<Rightarrow> comparison_policy
    \<Rightarrow> string list \<Rightarrow> metric_row list \<times> string list" where
  "compare_sampling_hotspots baseline candidate p reasons =
     (if py_require_exact_metrics p \<or> \<not> py_compare_statistical_metrics p then ([], reasons)
      else
        let b = sampling_rows baseline; c = sampling_rows candidate in
        (map (\<lambda>k. compare_sampling p (the (bt_get b k)) (the (bt_get c k))) (key_intersection b c),
         push_when (\<not> same_keys b c) ''sampling_set_differs'' reasons))"

subsection \<open>Static RAM\<close>

definition support_entry_valid :: "support_entry \<Rightarrow> bool" where
  "support_entry_valid e \<longleftrightarrow>
     \<not> (se_support e \<noteq> Exact \<and> se_reasons e = []) \<and>
     list_all (\<lambda>r. \<not> blank r) (se_reasons e) \<and> distinct (se_reasons e)"

definition static_ram_summary_valid :: "static_ram_summary \<Rightarrow> bool" where
  "static_ram_summary_valid s \<longleftrightarrow>
     \<not> blank (srs_artifact_id s) \<and> \<not> blank (srs_source_artifact_id s) \<and> \<not> blank (srs_flavor s) \<and>
     checked_total (srs_totals s) = Some (srs_total_bytes s) \<and> support_entry_valid (srs_support s) \<and>
     (case srs_config s of None \<Rightarrow> True | Some config \<Rightarrow> opt_all (\<lambda>a. \<not> blank a) (src_artifact_id config))"

definition static_ram_checks :: "static_ram_summary \<Rightarrow> static_ram_summary \<Rightarrow> comparison_policy \<Rightarrow> (bool \<times> string) list" where
  "static_ram_checks b c p =
     [(\<not> static_ram_summary_valid b, ''baseline_static_ram_summary_invalid''),
      (\<not> static_ram_summary_valid c, ''candidate_static_ram_summary_invalid''),
      (srs_flavor b \<noteq> srs_flavor c, ''static_ram_flavor_mismatch''),
      (case (srs_config b, srs_config c) of
         (Some x, Some y) \<Rightarrow> (src_sha256 x \<noteq> src_sha256 y, ''static_ram_config_digest_mismatch'')
       | _ \<Rightarrow> (True, ''static_ram_config_digest_missing'')),
      (\<not> support_comparable (srs_support b) (srs_support c) (py_require_exact_metrics p),
       ''static_ram_support_mismatch'')]"

definition static_ram_row_of :: "static_ram_metric \<times> u64 \<times> u64 \<Rightarrow> static_ram_row" where
  "static_ram_row_of = (\<lambda>(metric, b, c).
     \<lparr>sw_metric = metric, sw_baseline_bytes = b, sw_candidate_bytes = c,
      sw_outcome = (if c < b then Improved else if c = b then Unchanged else Regressed),
      sw_reasons = [''lower_is_better'']\<rparr>)"

definition static_ram_rows :: "static_ram_summary \<Rightarrow> static_ram_summary \<Rightarrow> static_ram_row list" where
  "static_ram_rows b c =
     (let x = srs_totals b; y = srs_totals c in
      map static_ram_row_of
        [(StaticTotal, srs_total_bytes b, srs_total_bytes c), (StaticData, srt_data_bytes x, srt_data_bytes y),
         (StaticBss, srt_bss_bytes x, srt_bss_bytes y), (StaticNoinit, srt_noinit_bytes x, srt_noinit_bytes y),
         (StaticDma, srt_dma_bytes x, srt_dma_bytes y), (StaticRtos, srt_rtos_bytes x, srt_rtos_bytes y),
         (StaticCustom, srt_custom_bytes x, srt_custom_bytes y)])"

definition compare_static_ram :: "static_ram_summary option \<Rightarrow> static_ram_summary option \<Rightarrow> comparison_policy
    \<Rightarrow> string list \<Rightarrow> static_ram_row list \<times> string list" where
  "compare_static_ram baseline candidate p reasons =
     (case (baseline, candidate) of
        (Some b, Some c) \<Rightarrow>
          (let checks = static_ram_checks b c p in
           (if list_ex fst checks then [] else static_ram_rows b c, push_all checks reasons))
      | _ \<Rightarrow>
          ([], push_when ((baseline \<noteq> None) \<noteq> (candidate \<noteq> None)) ''static_ram_summary_set_differs'' reasons))"

end
