(* ===== verification/Compare_Resources.thy ===== *)
theory Compare_Resources
  imports Compare_Rows
begin

text \<open>
  Dynamic resources of two runs, keyed by semantic and subject
  (\<open>t32perf-analysis/src/compare.rs\<close>).
\<close>

subsection \<open>The index of one run\<close>

type_synonym resource_identity = "counter_semantic \<times> counter_subject"

datatype value_source = FromCounter counter_summary | FromDerived derived_metric

fun source_unit :: "value_source \<Rightarrow> string option" where
  "source_unit (FromCounter r) = rs_unit r"
| "source_unit (FromDerived m) = Some (dm_unit m)"

fun source_support :: "value_source \<Rightarrow> support_entry" where
  "source_support (FromCounter r) = rs_support r"
| "source_support (FromDerived m) = dm_support m"

fun source_quality :: "value_source \<Rightarrow> quality option" where
  "source_quality (FromCounter r) = Some (rs_quality r)"
| "source_quality (FromDerived m) = dm_quality m"

fun source_diagnostic :: "value_source \<Rightarrow> metric_source" where
  "source_diagnostic (FromCounter r) = SourceCounter (rs_counter_id r)"
| "source_diagnostic (FromDerived m) = SourceDerived (dm_source_counter_ids m)"

definition counter_values_valid :: "counter_summary \<Rightarrow> bool" where
  "counter_values_valid r \<longleftrightarrow>
     \<not> blank (rs_counter_id r) \<and> rs_sample_count r \<noteq> 0 \<and>
     f64_is_finite (rs_latest r) \<and> f64_is_finite (rs_min r) \<and> f64_is_finite (rs_max r) \<and> f64_is_finite (rs_mean r) \<and>
     opt_all f64_is_finite (rs_first r) \<and> opt_all f64_is_finite (rs_delta r) \<and>
     opt_all f64_is_finite (rs_rate_per_second r) \<and> bounded_row r \<and> support_entry_valid (rs_support r)"

definition counter_identity_valid :: "counter_summary \<Rightarrow> bool" where
  "counter_identity_valid r =
     (case (rs_semantic r, rs_subject r) of
        (Some semantic, Some subject) \<Rightarrow>
          validate_subject subject = Inr () \<and>
          (case standard_spec semantic of
             None \<Rightarrow> True
           | Some spec \<Rightarrow>
               rs_class r = spec_class spec \<and> subject_kind subject = Some (spec_subject_kind spec) \<and>
               opt_all (value_is_valid spec) (rs_first r) \<and>
               list_all (value_is_valid spec) [rs_latest r, rs_min r, rs_max r])
      | _ \<Rightarrow> rs_semantic r = None \<and> rs_subject r = None)"

definition resource_counter_summary_valid :: "counter_summary \<Rightarrow> bool" where
  "resource_counter_summary_valid r \<longleftrightarrow> counter_values_valid r \<and> counter_identity_valid r"

definition derived_resource_summary_valid :: "derived_metric \<Rightarrow> bool" where
  "derived_resource_summary_valid m \<longleftrightarrow>
     validate_subject (dm_subject m) = Inr () \<and> \<not> blank (dm_unit m) \<and> opt_all f64_is_finite (dm_value m) \<and>
     dm_source_counter_ids m \<noteq> [] \<and> list_all (\<lambda>i. \<not> blank i) (dm_source_counter_ids m) \<and>
     list_all (\<lambda>(a, b). a < b) (zip (dm_source_counter_ids m) (tl (dm_source_counter_ids m))) \<and>
     support_entry_valid (dm_support m) \<and>
     \<not> (dm_value m \<noteq> None \<and> (dm_quality m = None \<or> \<not> is_available (dm_support m))) \<and>
     \<not> (is_available (dm_support m) \<and> dm_value m = None) \<and>
     (case standard_spec (dm_semantic m) of
        None \<Rightarrow> True
      | Some spec \<Rightarrow>
          dm_unit m = spec_unit spec \<and> subject_kind (dm_subject m) = Some (spec_subject_kind spec) \<and>
          opt_all (value_is_valid spec) (dm_value m))"

text \<open>The index while it is built; the set of all counter ids is a list.\<close>

record index_state =
  ix_by_identity :: "(resource_identity, value_source) btree"
  ix_by_counter_id :: "(string, resource_identity) btree"
  ix_counter_ids :: "string list"
  ix_valid :: bool

definition index_insert :: "resource_identity \<Rightarrow> value_source \<Rightarrow> index_state \<Rightarrow> index_state" where
  "index_insert k v st =
     st\<lparr>ix_by_identity := bt_insert k v (ix_by_identity st),
        ix_valid := (ix_valid st \<and> \<not> bt_contains (ix_by_identity st) k)\<rparr>"

definition index_counter :: "counter_summary \<Rightarrow> index_state \<Rightarrow> index_state" where
  "index_counter r st =
     (if \<not> resource_counter_summary_valid r then st\<lparr>ix_valid := False\<rparr>
      else
        let i = rs_counter_id r;
            st = st\<lparr>ix_counter_ids := i # ix_counter_ids st, ix_valid := (ix_valid st \<and> i \<notin> set (ix_counter_ids st))\<rparr>
        in case (rs_semantic r, rs_subject r) of
             (Some semantic, Some subject) \<Rightarrow>
               let k = (semantic, subject); st = index_insert k (FromCounter r) st in
               st\<lparr>ix_by_counter_id := bt_insert i k (ix_by_counter_id st),
                  ix_valid := (ix_valid st \<and> bt_get (ix_by_counter_id st) i \<in> {None, Some k})\<rparr>
           | (None, None) \<Rightarrow> st
           | _ \<Rightarrow> st\<lparr>ix_valid := False\<rparr>)"

definition index_derived :: "derived_metric \<Rightarrow> index_state \<Rightarrow> index_state" where
  "index_derived m st =
     (if \<not> derived_resource_summary_valid m \<or>
         \<not> list_all (\<lambda>i. i \<in> set (ix_counter_ids st)) (dm_source_counter_ids m)
      then st\<lparr>ix_valid := False\<rparr>
      else index_insert (dm_semantic m, dm_subject m) (FromDerived m) st)"

definition build_resource_index :: "resource_summary \<Rightarrow> string \<Rightarrow> string list \<Rightarrow> index_state option \<times> string list" where
  "build_resource_index s label reasons =
     (let st = \<lparr>ix_by_identity = [], ix_by_counter_id = [], ix_counter_ids = [], ix_valid = True\<rparr>;
          st = fold index_derived (res_derived s) (fold index_counter (res_counters s) st)
      in if ix_valid st then (Some st, reasons)
         else (None, reasons @ [label @ ''_resource_summary_invalid'']))"

subsection \<open>Rules\<close>

definition matching_resource_rule :: "comparison_policy \<Rightarrow> resource_identity \<Rightarrow> resource_rule option" where
  "matching_resource_rule p k =
     (case find (\<lambda>r. ru_semantic r = fst k \<and> ru_subject r = Some (snd k)) (py_resource_rules p) of
        Some r \<Rightarrow> Some r
      | None \<Rightarrow> find (\<lambda>r. ru_semantic r = fst k \<and> ru_subject r = None) (py_resource_rules p))"

definition resource_subjects :: "index_state \<Rightarrow> resource_rule \<Rightarrow> counter_subject set" where
  "resource_subjects st r =
     snd ` set (filter (\<lambda>(semantic, subject). semantic = ru_semantic r \<and> opt_all (\<lambda>e. e = subject) (ru_subject r))
       (bt_keys (ix_by_identity st)))"

fun aggregate_value :: "value_source \<Rightarrow> aggregate \<Rightarrow> f64 option" where
  "aggregate_value (FromCounter r) AggLatest = Some (rs_latest r)"
| "aggregate_value (FromCounter r) AggMin = Some (rs_min r)"
| "aggregate_value (FromCounter r) AggMax = Some (rs_max r)"
| "aggregate_value (FromCounter r) AggMean = Some (rs_mean r)"
| "aggregate_value (FromCounter r) AggDelta = rs_delta r"
| "aggregate_value (FromCounter r) AggRatePerSecond = rs_rate_per_second r"
| "aggregate_value (FromDerived m) AggLatest = dm_value m"
| "aggregate_value (FromDerived m) AggRatePerSecond =
     (if dm_semantic m = ''heap.allocation_rate_per_second'' then dm_value m else None)"
| "aggregate_value (FromDerived m) _ = None"

fun aggregate_debug :: "aggregate \<Rightarrow> string" where
  "aggregate_debug AggLatest = ''Latest''"
| "aggregate_debug AggMin = ''Min''"
| "aggregate_debug AggMax = ''Max''"
| "aggregate_debug AggMean = ''Mean''"
| "aggregate_debug AggDelta = ''Delta''"
| "aggregate_debug AggRatePerSecond = ''RatePerSecond''"

definition support_usable :: "support_entry \<Rightarrow> bool \<Rightarrow> bool" where
  "support_usable e require_exact = (if require_exact then se_support e = Exact else se_support e \<noteq> Unavailable)"

definition resource_outcome :: "f64 \<Rightarrow> f64 \<Rightarrow> f64 option \<Rightarrow> resource_rule \<Rightarrow> resource_outcome_kind" where
  "resource_outcome baseline candidate relative_change rule =
     (let delta = f64_sub candidate baseline;
          changed_absolutely = f64_lt (ru_absolute_threshold rule) (f64_abs delta);
          changed_relatively =
            (case relative_change of
               None \<Rightarrow> False | Some change \<Rightarrow> f64_lt (ru_relative_threshold rule) (f64_abs change))
      in if \<not> changed_absolutely \<or> \<not> f64_eq baseline zero_f64 \<and> \<not> changed_relatively then ResUnchanged
         else
           case (ru_direction rule, \<not> f64_neg delta) of
             (LowerIsBetter, True) \<Rightarrow> ResRegressed
           | (HigherIsBetter, False) \<Rightarrow> ResRegressed
           | (LowerIsBetter, False) \<Rightarrow> ResImproved
           | (HigherIsBetter, True) \<Rightarrow> ResImproved)"

subsection \<open>One row\<close>

definition sides :: "value_source option \<Rightarrow> value_source option \<Rightarrow> value_source list" where
  "sides b c = (case b of None \<Rightarrow> [] | Some x \<Rightarrow> [x]) @ (case c of None \<Rightarrow> [] | Some x \<Rightarrow> [x])"

text \<open>
  Two sides are chained, and the worst quality of those that have one is needed; one side alone has
  to have one. No side is unreachable.
\<close>

definition row_quality :: "value_source option \<Rightarrow> value_source option \<Rightarrow> (unit, quality) res" where
  "row_quality b c =
     (case List.map_filter source_quality (sides b c) of
        [] \<Rightarrow> Inl Panic
      | q # qs \<Rightarrow> Inr (fold max qs q))"

definition unit_named :: "value_source \<Rightarrow> bool" where
  "unit_named v = (case source_unit v of None \<Rightarrow> False | Some u \<Rightarrow> \<not> blank u)"

definition units_match :: "value_source option \<Rightarrow> value_source option \<Rightarrow> bool" where
  "units_match b c =
     (case (b, c) of
        (Some x, Some y) \<Rightarrow> unit_named x \<and> source_unit x = source_unit y
      | (Some x, None) \<Rightarrow> unit_named x
      | (None, Some y) \<Rightarrow> unit_named y
      | (None, None) \<Rightarrow> False)"

definition units_comparable :: "resource_identity \<Rightarrow> value_source option \<Rightarrow> value_source option \<Rightarrow> bool" where
  "units_comparable k b c \<longleftrightarrow>
     units_match b c \<and>
     (case standard_spec (fst k) of
        None \<Rightarrow> True | Some spec \<Rightarrow> list_all (\<lambda>v. source_unit v = Some (spec_unit spec)) (sides b c))"

definition sides_supported :: "value_source option \<Rightarrow> value_source option \<Rightarrow> bool \<Rightarrow> bool" where
  "sides_supported b c require_exact =
     (case (b, c) of
        (Some x, Some y) \<Rightarrow> support_comparable (source_support x) (source_support y) require_exact
      | (Some x, None) \<Rightarrow> support_usable (source_support x) require_exact
      | (None, Some y) \<Rightarrow> support_usable (source_support y) require_exact
      | (None, None) \<Rightarrow> False)"

definition membership_reasons :: "value_source option \<Rightarrow> value_source option \<Rightarrow> string list" where
  "membership_reasons b c =
     (case (b, c) of
        (None, Some _) \<Rightarrow> [''resource_subject_added'']
      | (Some _, None) \<Rightarrow> [''resource_subject_removed'']
      | _ \<Rightarrow> [])"

definition push_unless :: "bool \<Rightarrow> string \<Rightarrow> string list \<Rightarrow> string list" where
  "push_unless b reason reasons = (if b then reasons else push_reason_once reason reasons)"

definition resource_metric_comparison :: "resource_identity \<Rightarrow> value_source option \<Rightarrow> value_source option
    \<Rightarrow> aggregate \<Rightarrow> f64 \<Rightarrow> f64 \<Rightarrow> resource_rule option \<Rightarrow> comparison_policy \<Rightarrow> string list
    \<Rightarrow> (unit, resource_row \<times> string list) res" where
  "resource_metric_comparison k b c agg baseline candidate rule p reasons =
     (let delta = f64_sub candidate baseline;
          relative = relative_change_of baseline delta;
          units = units_comparable k b c;
          supported = sides_supported b c (py_require_exact_metrics p);
          row_reasons = push_all
            [(\<not> units, ''resource_unit_mismatch''), (\<not> supported, ''resource_support_mismatch''),
             (rule = None, ''no_resource_rule'')] (membership_reasons b c);
          reasons' = (if rule = None then reasons
            else push_unless supported (''resource_support_mismatch:'' @ fst k)
              (push_unless units (''resource_unit_mismatch:'' @ fst k) reasons));
          outcome = (case rule of
              None \<Rightarrow> ResInformational
            | Some r \<Rightarrow> if units \<and> supported then resource_outcome baseline candidate relative r else ResInconclusive)
      in rbind (row_quality b c) (\<lambda>quality.
        Inr
          (\<lparr>rr_semantic = fst k, rr_subject = snd k, rr_aggregate = agg,
            rr_baseline_source = map_option source_diagnostic b,
            rr_candidate_source = map_option source_diagnostic c,
            rr_baseline_unit = Option.bind b source_unit, rr_candidate_unit = Option.bind c source_unit,
            rr_baseline_support = map_option (se_support \<circ> source_support) b,
            rr_candidate_support = map_option (se_support \<circ> source_support) c,
            rr_baseline = baseline, rr_candidate = candidate, rr_delta = delta, rr_relative_change = relative,
            rr_quality = quality, rr_direction = map_option ru_direction rule,
            rr_absolute_threshold = map_option ru_absolute_threshold rule,
            rr_relative_threshold = map_option ru_relative_threshold rule,
            rr_outcome = outcome, rr_reasons = row_reasons\<rparr>, reasons')))"

subsection \<open>All rows\<close>

text \<open>Counter ids used for different identities in the two runs.\<close>

definition reused_ids :: "index_state \<Rightarrow> index_state \<Rightarrow> (string \<times> resource_identity \<times> resource_identity) list" where
  "reused_ids b c =
     List.map_filter
       (\<lambda>(i, k). case bt_get (ix_by_counter_id c) i of
          Some k' \<Rightarrow> if k \<noteq> k' then Some (i, k, k') else None | None \<Rightarrow> None)
       (ix_by_counter_id b)"

definition push_reused :: "comparison_policy \<Rightarrow> string \<times> resource_identity \<times> resource_identity \<Rightarrow> string list \<Rightarrow> string list" where
  "push_reused p = (\<lambda>(i, k, k').
     push_unless (\<not> (matching_resource_rule p k \<noteq> None \<or> matching_resource_rule p k' \<noteq> None))
       (''resource_counter_identity_mismatch:'' @ i))"

definition push_subject_sets :: "index_state \<Rightarrow> index_state \<Rightarrow> resource_rule \<Rightarrow> string list \<Rightarrow> string list" where
  "push_subject_sets b c r =
     push_unless (resource_subjects b r = resource_subjects c r) (''resource_subject_set_differs:'' @ ru_semantic r)"

text \<open>\<open>None\<close> where a side has no value for the aggregate; a missing side counts as zero.\<close>

definition side_aggregate :: "value_source option \<Rightarrow> aggregate \<Rightarrow> f64 option" where
  "side_aggregate v agg = (case v of None \<Rightarrow> Some zero_f64 | Some x \<Rightarrow> aggregate_value x agg)"

definition resource_step :: "comparison_policy \<Rightarrow> index_state \<Rightarrow> index_state \<Rightarrow> resource_identity
    \<Rightarrow> resource_row list \<times> string list \<Rightarrow> (unit, resource_row list \<times> string list) res" where
  "resource_step p bi ci k acc =
     (let (rows, reasons) = acc;
          b = bt_get (ix_by_identity bi) k; c = bt_get (ix_by_identity ci) k;
          rule = matching_resource_rule p k;
          missing = (b = None \<or> c = None);
          agg = (case rule of None \<Rightarrow> AggLatest | Some r \<Rightarrow> ru_aggregate r);
          unavailable = (if rule = None then reasons
            else push_reason_once (''resource_aggregate_unavailable:'' @ fst k @ '':'' @ aggregate_debug agg) reasons)
      in if rule = None \<and> missing then Inr acc
         else if rule \<noteq> None \<and> missing \<and> \<not> py_allow_resource_subject_set_changes p then Inr acc
         else
           case (side_aggregate b agg, side_aggregate c agg) of
             (Some baseline, Some candidate) \<Rightarrow>
               rbind (resource_metric_comparison k b c agg baseline candidate rule p reasons) (\<lambda>(row, reasons).
                 Inr (rows @ [row], reasons))
           | _ \<Rightarrow> Inr (rows, unavailable))"

fun resource_steps :: "comparison_policy \<Rightarrow> index_state \<Rightarrow> index_state \<Rightarrow> resource_identity list
    \<Rightarrow> resource_row list \<times> string list \<Rightarrow> (unit, resource_row list \<times> string list) res" where
  "resource_steps p bi ci [] acc = Inr acc"
| "resource_steps p bi ci (k # ks) acc = rbind (resource_step p bi ci k acc) (resource_steps p bi ci ks)"

definition compare_indexes :: "index_state \<Rightarrow> index_state \<Rightarrow> support_entry \<Rightarrow> support_entry \<Rightarrow> comparison_policy
    \<Rightarrow> string list \<Rightarrow> (unit, resource_row list \<times> string list) res" where
  "compare_indexes b c baseline_support candidate_support p reasons =
     (let configured = list_ex (\<lambda>k. matching_resource_rule p k \<noteq> None)
            (bt_keys (ix_by_identity b) @ bt_keys (ix_by_identity c));
          r1 = push_when
            (configured \<and> \<not> support_comparable baseline_support candidate_support (py_require_exact_metrics p))
            ''metric_support_mismatch:resource_counters'' reasons;
          r2 = (if py_allow_resource_subject_set_changes p then r1
            else fold (push_subject_sets b c) (py_resource_rules p) r1);
          r3 = fold (push_reused p) (reused_ids b c) r2;
          incomparable = concat (map (\<lambda>(i, k, k'). [k, k']) (reused_ids b c));
          keys = filter (\<lambda>k. k \<notin> set incomparable) (key_union (ix_by_identity b) (ix_by_identity c))
      in resource_steps p b c keys ([], r3))"

definition compare_resource_metrics :: "resource_summary \<Rightarrow> resource_summary \<Rightarrow> support_entry \<Rightarrow> support_entry
    \<Rightarrow> comparison_policy \<Rightarrow> string list \<Rightarrow> (unit, resource_row list \<times> string list) res" where
  "compare_resource_metrics baseline candidate baseline_support candidate_support p reasons =
     (case build_resource_index baseline ''baseline'' reasons of
        (None, reasons) \<Rightarrow> Inr ([], reasons)
      | (Some b, reasons) \<Rightarrow>
          (case build_resource_index candidate ''candidate'' reasons of
             (None, reasons) \<Rightarrow> Inr ([], reasons)
           | (Some c, reasons) \<Rightarrow> compare_indexes b c baseline_support candidate_support p reasons))"

subsection \<open>The report\<close>

fun counted_outcome :: "resource_outcome_kind \<Rightarrow> metric_outcome option" where
  "counted_outcome ResImproved = Some Improved"
| "counted_outcome ResUnchanged = Some Unchanged"
| "counted_outcome ResRegressed = Some Regressed"
| "counted_outcome ResInconclusive = Some Inconclusive"
| "counted_outcome ResInformational = None"

definition comparison_outcomes :: "metric_row list \<Rightarrow> resource_row list \<Rightarrow> static_ram_row list \<Rightarrow> metric_outcome list" where
  "comparison_outcomes ms rs ss =
     map mr_outcome ms @ List.map_filter (counted_outcome \<circ> rr_outcome) rs @ map sw_outcome ss"

definition report_of :: "comparison_input \<Rightarrow> comparison_input \<Rightarrow> comparison_verdict \<Rightarrow> metric_row list
    \<Rightarrow> resource_row list \<Rightarrow> static_ram_row list \<Rightarrow> string list \<Rightarrow> comparison_report" where
  "report_of b c v ms rs ss reasons =
     \<lparr>co_baseline_session_id = mf_session_id (in_manifest b), co_candidate_session_id = mf_session_id (in_manifest c),
      co_baseline_health = hr_verdict (in_health b), co_candidate_health = hr_verdict (in_health c),
      co_verdict = v, co_metrics = ms, co_resource_metrics = rs, co_static_ram_metrics = ss, co_reasons = reasons\<rparr>"

definition inconclusive_report :: "comparison_input \<Rightarrow> comparison_input \<Rightarrow> string list \<Rightarrow> comparison_report" where
  "inconclusive_report b c reasons = report_of b c VInconclusive [] [] [] reasons"

definition verdict_of :: "string list \<Rightarrow> metric_outcome list \<Rightarrow> comparison_verdict \<times> string list" where
  "verdict_of reasons outcomes =
     (if reasons \<noteq> [] then (VInconclusive, reasons)
      else if outcomes = [] then (VInconclusive, reasons @ [''no_common_metrics''])
      else if Inconclusive \<in> set outcomes then (VInconclusive, reasons)
      else if Regressed \<in> set outcomes then (VRegressed, reasons)
      else if Improved \<in> set outcomes then (VImproved, reasons)
      else if list_all (\<lambda>x. x = Unchanged) outcomes then (VUnchanged, reasons)
      else (VInconclusive, reasons))"

definition compare_sessions :: "comparison_input \<Rightarrow> comparison_input \<Rightarrow> comparison_policy
    \<Rightarrow> (unit, comparison_report) res" where
  "compare_sessions b c p =
     (let reasons = comparability_reasons b c p in
      if reasons \<noteq> [] then Inr (inconclusive_report b c reasons)
      else
        rbind (compare_function_hotspots (hot_functions (in_hotspots b)) (hot_functions (in_hotspots c)) p reasons)
          (\<lambda>(functions, reasons).
        let (shares, reasons) =
              compare_sampling_hotspots (hot_sampling (in_hotspots b)) (hot_sampling (in_hotspots c)) p reasons in
        rbind (expect (sd_quantitative (in_summary b))) (\<lambda>qb.
        rbind (expect (sd_quantitative (in_summary c))) (\<lambda>qc.
        rbind (compare_resource_metrics (sum_resources (qu_analysis qb)) (sum_resources (qu_analysis qc))
                 (mx_resource_counters (sd_metric_support (in_summary b)))
                 (mx_resource_counters (sd_metric_support (in_summary c))) p reasons) (\<lambda>(resources, reasons).
        let (ram, reasons) = compare_static_ram (qu_static_ram qb) (qu_static_ram qc) p reasons;
            (verdict, reasons) = verdict_of reasons (comparison_outcomes (functions @ shares) resources ram)
        in Inr (report_of b c verdict (functions @ shares) resources ram reasons))))))"

end
