(* ===== verification/Compare_Properties.thy ===== *)
theory Compare_Properties
  imports Compare_Resources
begin

text \<open>
  What a comparison of two runs promises: it never panics, it calls a run better, worse or equal
  only on the evidence of two valid and comparable runs, its report passes the health gate of the
  validator, and a run compared with itself never shows a change.
\<close>

subsection \<open>Two runs\<close>

text \<open>
  Two small valid runs that can be compared: they differ in their static RAM, and may carry one
  counter without a unit.
\<close>

definition demo_ram :: "u64 \<Rightarrow> static_ram_summary" where
  "demo_ram n =
     \<lparr>srs_artifact_id = ''s'', srs_source_artifact_id = ''s'', srs_flavor = ''s'',
      srs_config = Some \<lparr>src_artifact_id = None, src_sha256 = Sha256Digest (replicate 64 (CHR ''0''))\<rparr>, srs_total_bytes = n,
      srs_totals = \<lparr>srt_data_bytes = n, srt_bss_bytes = 0, srt_noinit_bytes = 0, srt_dma_bytes = 0,
        srt_rtos_bytes = 0, srt_custom_bytes = 0\<rparr>,
      srs_support = support_new Exact\<rparr>"

definition demo_counter :: counter_summary where
  "demo_counter =
     \<lparr>rs_counter_id = ''s'', rs_name = None, rs_unit = None, rs_semantic = Some ''x.y'', rs_subject = Some SubCapture,
      rs_class = ROther, rs_sample_count = 1, rs_first_ts_ns = None, rs_last_ts_ns = None, rs_first = None,
      rs_latest = zero_f64, rs_min = zero_f64, rs_max = zero_f64, rs_mean = zero_f64, rs_delta = None,
      rs_window_ns = None, rs_rate_per_second = None, rs_quality = QExact, rs_support = support_new Exact\<rparr>"

definition demo_manifest :: manifest where
  "demo_manifest =
     \<lparr>mf_session_id = ''s'', mf_created_at = ''s'',
      mf_tool = \<lparr>tool_name = ''s'', tool_version = ''s'', tool_commit = None\<rparr>,
      mf_capture = \<lparr>cp_provider = None, cp_mode = ''s'', cp_adapter = \<lparr>adapter_id = ''s'', adapter_version = ''s''\<rparr>,
        cp_target = None, cp_trace32 = None, cp_request_sha256 = None, cp_covered_cores = [],
        cp_capabilities = None, cp_capture_config = None, cp_instrumentation = None\<rparr>,
      mf_firmware = \<lparr>fi_elf_path = None, fi_elf_sha256 = None, fi_build_id = None\<rparr>,
      mf_clocks = [], mf_stages = [], mf_artifacts = []\<rparr>"

definition demo_health :: health_report where
  "demo_health =
     \<lparr>hr_session_id = ''s'', hr_verdict = Valid, hr_policy_version = ''s'', hr_observations = [], hr_issues = [],
      hr_metric_support = support_uniform Exact\<rparr>"

definition demo_analysis :: "counter_summary list \<Rightarrow> analysis_summary" where
  "demo_analysis counters =
     \<lparr>sum_observation_count = 2, sum_function_span_count = 1, sum_incomplete_function_span_count = 0,
      sum_call_depth = \<lparr>cd_max_depth = 1, cd_context_id = None, cd_deepest_path = []\<rparr>, sum_context_cpu = [], sum_task_cpu_ns = 0,
      sum_isr_cpu_ns = 0, sum_idle_cpu_ns = 0,
      sum_resources = \<lparr>res_counters = counters, res_derived = []\<rparr>\<rparr>"

definition demo_run :: "u64 \<Rightarrow> counter_summary list \<Rightarrow> comparison_input" where
  "demo_run n counters =
     \<lparr>in_manifest = demo_manifest, in_health = demo_health,
      in_hotspots = \<lparr>hot_session_id = ''s'', hot_quality = QExact, hot_functions = [], hot_sampling = []\<rparr>,
      in_summary = \<lparr>sd_session_id = ''s'', sd_health_verdict = Valid, sd_metric_support = support_uniform Exact,
        sd_input_artifacts = [],
        sd_diagnostics = \<lparr>dc_observation_count = 2, dc_function_span_count = 1,
          dc_incomplete_function_span_count = 0, dc_health_observation_count = 0, dc_health_issue_count = 0\<rparr>,
        sd_quantitative = Some \<lparr>qu_analysis = demo_analysis counters, qu_static_ram = Some (demo_ram n), qu_stack_usage = None\<rparr>\<rparr>\<rparr>"

definition demo_policy :: comparison_policy where
  "demo_policy = default_policy
     \<lparr>py_relative_threshold := zero_f64, py_require_complete_provenance := False, py_resource_rules := []\<rparr>"

lemma blank_s: "\<not> blank ''s''" by code_simp

lemma demo_manifest_valid: "validate_manifest demo_manifest = Inr ()" by code_simp

lemma demo_health_valid: "health_report_valid demo_health"
  by (simp add: health_report_valid_def validate_health_report_Inr demo_health_def blank_s
    support_entries_def support_uniform_def support_well_formed_def support_new_def Let_def)

lemma zero_bits: "zero_f64 = F64 0"
  by (simp add: f64_of_int_def f64_round_def f64_zero_def f64_sign_bit_def)

lemma zero_facts: "f64_is_finite (F64 0)" "\<not> f64_lt (F64 0) (F64 0)"
  by (simp_all add: f64_is_finite_def f64_exponent_def f64_lt_def)

lemma demo_policy_parts:
  "py_relative_threshold demo_policy = zero_f64" "py_resource_rules demo_policy = []"
  "\<not> py_require_complete_provenance demo_policy"
  by (simp_all add: demo_policy_def)

lemma demo_policy_valid: "resource_policy_valid demo_policy"
  by (simp add: resource_policy_valid_def demo_policy_parts)

lemma demo_support_valid: "validate_support_entry (support_new Exact) = Inr ()" "support_entry_valid (support_new Exact)"
  by (simp_all add: validate_support_entry_def support_new_def support_entry_valid_def)

lemma demo_ram_valid:
  "n \<in> {100, 200} \<Longrightarrow> checked_total (srs_totals (demo_ram n)) = Some n"
  by (auto simp: demo_ram_def checked_total_def checked_add_def)

lemma demo_extension: "standard_spec ''x.y'' = None" by code_simp

lemma demo_counter_parts:
  "rs_counter_id demo_counter = ''s''" "rs_semantic demo_counter = Some ''x.y''"
  "rs_subject demo_counter = Some SubCapture" "rs_unit demo_counter = None"
  by (simp_all add: demo_counter_def)

lemma demo_counter_valid: "validate_counter_row (support_new Exact) demo_counter = Inr ()"
  "resource_counter_summary_valid demo_counter"
  by (simp_all add: validate_counter_row_def resource_counter_summary_valid_def counter_values_valid_def
      counter_identity_valid_def demo_counter_def blank_s finite_row_def bounded_row_def zero_bits zero_facts
      validate_row_identity_def demo_extension window_row_def ordered_window_def demo_support_valid opt_all_def)

lemma demo_summary_valid:
  assumes "n \<in> {100, 200}" "cs \<in> {[], [demo_counter]}"
  shows "validate_summary_document (in_summary (demo_run n cs)) = Inr ()"
proof -
  have "validate_resources (support_new Exact) \<lparr>res_counters = cs, res_derived = []\<rparr> = Inr ()"
    using assms(2) by (auto simp: validate_resources_def demo_counter_valid demo_counter_parts)
  moreover have "validate_static_ram (demo_ram n) = Inr ()"
    using demo_ram_valid [OF assms(1)]
    by (simp add: validate_static_ram_def demo_support_valid) (simp add: demo_ram_def demo_support_valid opt_all_def)
  moreover have "mx_resource_counters (support_uniform Exact) = support_new Exact"
    by (simp add: support_uniform_def Let_def)
  ultimately show ?thesis
    by (simp add: demo_run_def validate_summary_document_def validate_nonempty_def blank_s
      validate_artifact_claims_def check_health_gate_def counts_match_def demo_analysis_def validate_quantitative_def)
qed

lemma demo_session:
  "hr_session_id demo_health = mf_session_id demo_manifest" "mf_session_id demo_manifest = ''s''"
  "hr_verdict demo_health = Valid" "hr_metric_support demo_health = support_uniform Exact"
  by (simp_all add: demo_health_def demo_manifest_def)

lemma demo_parts: "in_manifest (demo_run n cs) = demo_manifest" "in_health (demo_run n cs) = demo_health" 
    "in_hotspots (demo_run n cs) = \<lparr>hot_session_id = ''s'', hot_quality = QExact, hot_functions = [], hot_sampling = []\<rparr>"
    "sd_session_id (in_summary (demo_run n cs)) = ''s''"
    "sd_health_verdict (in_summary (demo_run n cs)) = Valid"
    "sd_metric_support (in_summary (demo_run n cs)) = support_uniform Exact"
    "sd_quantitative (in_summary (demo_run n cs)) =
       Some \<lparr>qu_analysis = demo_analysis cs, qu_static_ram = Some (demo_ram n), qu_stack_usage = None\<rparr>"
    by (simp_all add: demo_run_def)

lemma demo_comparable:
  assumes "n \<in> {100, 200}" "m \<in> {100, 200}" "cs \<in> {[], [demo_counter]}" "ds \<in> {[], [demo_counter]}"
  shows "comparability_reasons (demo_run n cs) (demo_run m ds) demo_policy = []"
proof -
  let ?b = "demo_run n cs" and ?c = "demo_run m ds"
  have hot: "validate_hotspots (in_hotspots (demo_run n cs)) = Inr ()" for n cs
    by (simp add: demo_parts validate_hotspots_def)
  have doc: "document_reasons ?b ?c [] = []"
    using demo_summary_valid assms hot
    by (simp add: document_reasons_def push_all_def push_when_def demo_parts demo_manifest_valid demo_health_valid)
  have links: "validate_session_links ?b l [] = []" "validate_session_links ?c l [] = []" for l
    by (simp_all add: validate_session_links_def push_all_def push_when_def Let_def demo_parts demo_session)
  have health: "health_reasons ?b ?c demo_policy [] = []"
    by (simp add: health_reasons_def push_all_def push_when_def demo_parts demo_session summary_health_mismatch_def)
  have metric: "metric_reasons ?b ?c demo_policy [] = []"
    by (simp add: metric_reasons_def push_all_def push_when_def demo_parts demo_session Let_def support_comparable_def
        support_uniform_def support_new_def)
  have prov: "provenance_reasons demo_manifest demo_manifest demo_policy [] = []"
    by (simp add: provenance_reasons_def push_all_def push_when_def Let_def demo_policy_parts demo_manifest_def
        targets_comparable_def clocks_comparable_def trace32_comparable_def request_mismatch_def demo_policy_def default_policy_def)
  have receipt: "compare_capture_receipt_facts demo_manifest demo_manifest False [] = []"
    by (simp add: compare_capture_receipt_facts_def compare_configs_def compare_capabilities_def compare_cores_def
        compare_provider_def push_when_def demo_manifest_def Let_def)
  show ?thesis
    unfolding comparability_reasons_def Let_def demo_policy_parts
    using demo_policy_valid
    by (simp add: demo_parts links doc health metric prov receipt push_when_def zero_bits zero_facts demo_policy_parts)
qed

lemma demo_no_functions: "compare_function_hotspots [] [] p r = Inr ([], r)" 
  "compare_sampling_hotspots [] [] p r = ([], r)"
  by (simp_all add: compare_function_hotspots_def function_rows_def bt_of_list_def key_union_def bt_keys_def same_keys_def push_when_def
   compare_sampling_hotspots_def sampling_rows_def key_intersection_def)

lemma demo_static: "compare_static_ram (Some (demo_ram 100)) (Some (demo_ram 200)) demo_policy [] = (static_ram_rows (demo_ram 100) (demo_ram 200), [])"
proof -
  have "static_ram_summary_valid (demo_ram n)" if "n \<in> {100, 200}" for n
    using demo_ram_valid [OF that] unfolding static_ram_summary_valid_def
    by (simp add: demo_ram_def blank_s demo_support_valid opt_all_def)
  then show ?thesis
    by (simp add: compare_static_ram_def static_ram_checks_def Let_def push_all_def push_when_def)
       (simp add: demo_ram_def support_comparable_def support_new_def push_when_def)
qed

lemma demo_regressed:
  "\<exists>r. compare_sessions (demo_run 100 []) (demo_run 200 []) demo_policy = Inr r \<and> co_verdict r = VRegressed"
proof -
  have res: "compare_resource_metrics (sum_resources (demo_analysis [])) (sum_resources (demo_analysis [])) e e' demo_policy [] = Inr ([], [])" for e e'
    by (simp add: compare_resource_metrics_def demo_analysis_def build_resource_index_def compare_indexes_def Let_def
       bt_keys_def reused_ids_def List.map_filter_def key_union_def demo_policy_parts push_when_def)
  show ?thesis
    by (simp add: compare_sessions_def demo_comparable demo_parts demo_no_functions demo_static res Let_def report_of_def comparison_outcomes_def List.map_filter_def)
     (simp add: verdict_of_def static_ram_rows_def static_ram_row_of_def demo_ram_def)
qed

subsection \<open>Collected reasons\<close>

named_theorems reason_simps \<open>pushing reasons\<close>

lemma push_all_eq: "push_all checks reasons = reasons @ map snd (filter fst checks)"
  unfolding push_all_def by (induction checks arbitrary: reasons) (auto simp: push_when_def)

lemma push_when_Nil [reason_simps]: "push_when b r rs = [] \<longleftrightarrow> \<not> b \<and> rs = []"
  by (simp add: push_when_def)

lemma push_once_Nil [reason_simps]: "push_reason_once r rs = [] \<longleftrightarrow> False"
  by (auto simp: push_reason_once_def)

lemma push_all_Nil [reason_simps]: "push_all checks rs = [] \<longleftrightarrow> (\<forall>x\<in>set checks. \<not> fst x) \<and> rs = []"
  by (auto simp: push_all_eq filter_empty_conv)

lemma push_unless_Nil [reason_simps]: "push_unless b r rs = [] \<longleftrightarrow> b \<and> rs = []"
  by (simp add: push_unless_def reason_simps)

lemma validate_session_links_Nil:
  "validate_session_links i label rs = [] \<Longrightarrow>
     rs = [] \<and> hr_session_id (in_health i) = mf_session_id (in_manifest i) \<and>
     hot_session_id (in_hotspots i) = mf_session_id (in_manifest i) \<and>
     sd_session_id (in_summary i) = mf_session_id (in_manifest i)"
  by (simp add: validate_session_links_def Let_def reason_simps)

lemma receipt_facts_Nil: "compare_capture_receipt_facts m m' b rs = [] \<Longrightarrow> rs = []"
  by (auto simp: compare_capture_receipt_facts_def compare_configs_def compare_capabilities_def
      compare_cores_def compare_provider_def Let_def reason_simps split: option.splits if_splits)

text \<open>A comparable input: documents of one session, valid ones, with a \<open>VALID\<close> verdict.\<close>

definition trusted_input :: "comparison_input \<Rightarrow> bool" where
  "trusted_input i \<longleftrightarrow>
     hr_session_id (in_health i) = mf_session_id (in_manifest i) \<and>
     hot_session_id (in_hotspots i) = mf_session_id (in_manifest i) \<and>
     sd_session_id (in_summary i) = mf_session_id (in_manifest i) \<and>
     validate_manifest (in_manifest i) = Inr () \<and> health_report_valid (in_health i) \<and>
     validate_hotspots (in_hotspots i) = Inr () \<and> validate_summary_document (in_summary i) = Inr () \<and>
     hr_verdict (in_health i) = Valid \<and> sd_health_verdict (in_summary i) = Valid \<and>
     sd_metric_support (in_summary i) = hr_metric_support (in_health i)"

lemma comparability_parts:
  assumes "comparability_reasons b c p = []"
  shows "trusted_input b \<and> trusted_input c \<and> resource_policy_valid p \<and>
     f64_is_finite (py_relative_threshold p) \<and> \<not> f64_lt (py_relative_threshold p) zero_f64 \<and>
     provenance_reasons (in_manifest b) (in_manifest c) p [] = [] \<and> metric_reasons b c p [] = []"
proof -
  define complete where "complete = py_require_complete_provenance p"
  define r1 where "r1 = (if resource_policy_valid p then
      push_when (\<not> f64_is_finite (py_relative_threshold p) \<or> f64_lt (py_relative_threshold p) zero_f64)
        ''comparison_policy_invalid'' []
    else push_reason_once ''comparison_policy_invalid''
      (push_when (\<not> f64_is_finite (py_relative_threshold p) \<or> f64_lt (py_relative_threshold p) zero_f64)
        ''comparison_policy_invalid'' []))"
  define r2 where "r2 = validate_session_links c ''candidate'' (validate_session_links b ''baseline'' r1)"
  define r3 where "r3 = health_reasons b c p (document_reasons b c r2)"
  define r4 where "r4 = push_when (complete \<and> (identity_incomplete (in_manifest b) \<or> identity_incomplete (in_manifest c)))
            ''capture_identity_incomplete'' r3"
  define r5 where "r5 = compare_capture_receipt_facts (in_manifest b) (in_manifest c) complete r4"
  have all: "metric_reasons b c p (provenance_reasons (in_manifest b) (in_manifest c) p r5) = []"
    using assms unfolding comparability_reasons_def Let_def r1_def r2_def r3_def r4_def r5_def complete_def
    by simp
  then have m: "metric_reasons b c p [] = []" and pr: "provenance_reasons (in_manifest b) (in_manifest c) p r5 = []"
    unfolding metric_reasons_def Let_def reason_simps by blast+
  then have pr': "provenance_reasons (in_manifest b) (in_manifest c) p [] = []" and r5: "r5 = []"
    unfolding provenance_reasons_def Let_def reason_simps by blast+
  from r5 have "r4 = []" unfolding r5_def by (rule receipt_facts_Nil)
  then have r3: "r3 = []" by (simp add: r4_def reason_simps)
  then have h: "health_reasons b c p [] = []" and d: "document_reasons b c r2 = []"
    unfolding r3_def health_reasons_def reason_simps by blast+
  then have d': "document_reasons b c [] = []" and r2: "r2 = []"
    unfolding document_reasons_def reason_simps by blast+
  note cl = validate_session_links_Nil [OF r2 [unfolded r2_def]]
  note bl = validate_session_links_Nil [OF conjunct1 [OF cl]]
  have h': "hr_verdict (in_health b) = Valid" "hr_verdict (in_health c) = Valid"
    "sd_health_verdict (in_summary b) = Valid" "sd_health_verdict (in_summary c) = Valid"
    "sd_metric_support (in_summary b) = hr_metric_support (in_health b)"
    "sd_metric_support (in_summary c) = hr_metric_support (in_health c)"
    using h by (simp_all add: health_reasons_def summary_health_mismatch_def reason_simps)
  have d'': "validate_manifest (in_manifest b) = Inr ()" "validate_manifest (in_manifest c) = Inr ()"
    "health_report_valid (in_health b)" "health_report_valid (in_health c)"
    "validate_hotspots (in_hotspots b) = Inr ()" "validate_hotspots (in_hotspots c) = Inr ()"
    "validate_summary_document (in_summary b) = Inr ()" "validate_summary_document (in_summary c) = Inr ()"
    using d' by (simp_all add: document_reasons_def reason_simps)
  have r1: "resource_policy_valid p"
    "f64_is_finite (py_relative_threshold p) \<and> \<not> f64_lt (py_relative_threshold p) zero_f64"
    using bl by (auto simp: r1_def reason_simps split: if_splits)
  show ?thesis
    using cl bl h' d'' r1 m pr' by (simp add: trusted_input_def)
qed

lemma trusted_quantitative:
  assumes "trusted_input i"
  shows "\<exists>q. sd_quantitative (in_summary i) = Some q"
  using assms
  by (auto simp: trusted_input_def validate_summary_document_def check_health_gate_def result_simps)

subsection \<open>Function rows\<close>

lemma key_union_mem: "k \<in> set (key_union a b) \<longleftrightarrow> bt_get a k \<noteq> None \<or> bt_get b k \<noteq> None"
  by (simp only: key_union_def set_sort set_remdups set_append Un_iff bt_keys_get)

lemma compare_function_rows:
  assumes "b \<noteq> None \<or> c \<noteq> None"
  shows "\<exists>rows. compare_function p b c = Inr rows"
  using assms by (auto simp: compare_function_def split: option.splits)

lemma compare_functions_rows:
  assumes "\<And>k. k \<in> set ks \<Longrightarrow> bt_get b k \<noteq> None \<or> bt_get c k \<noteq> None"
  shows "\<exists>rows. compare_functions p b c ks = Inr rows"
  using assms
proof (induction ks)
  case (Cons k ks)
  obtain more where "compare_functions p b c ks = Inr more" using Cons by auto
  moreover obtain rows where "compare_function p (bt_get b k) (bt_get c k) = Inr rows"
    using compare_function_rows Cons.prems [of k] by (metis list.set_intros(1))
  ultimately show ?case by (auto simp: result_simps)
qed simp

lemma compare_function_hotspots_rows:
  "\<exists>rows reasons'. compare_function_hotspots b c p reasons = Inr (rows, reasons')"
proof -
  obtain rows where "compare_functions p (function_rows b) (function_rows c)
      (key_union (function_rows b) (function_rows c)) = Inr rows"
    using compare_functions_rows [of "key_union (function_rows b) (function_rows c)"]
    by (metis key_union_mem)
  then show ?thesis by (simp add: compare_function_hotspots_def Let_def)
qed


subsection \<open>Resource rows\<close>

text \<open>What an index holds has passed the checks of its kind.\<close>

fun source_checked :: "value_source \<Rightarrow> bool" where
  "source_checked (FromCounter r) = resource_counter_summary_valid r"
| "source_checked (FromDerived m) = derived_resource_summary_valid m"

definition index_checked :: "index_state \<Rightarrow> bool" where
  "index_checked st \<longleftrightarrow> (\<forall>k v. bt_get (ix_by_identity st) k = Some v \<longrightarrow> source_checked v)"

lemma index_insert_checked:
  "index_checked st \<Longrightarrow> source_checked v \<Longrightarrow> index_checked (index_insert k v st)"
  by (auto simp: index_checked_def index_insert_def)

lemma index_counter_checked: "index_checked st \<Longrightarrow> index_checked (index_counter r st)"
  by (auto simp: index_counter_def Let_def index_checked_def index_insert_def split: option.splits if_splits)

lemma index_derived_checked: "index_checked st \<Longrightarrow> index_checked (index_derived m st)"
  by (auto simp: index_derived_def intro: index_insert_checked) (auto simp: index_checked_def)

lemma fold_preserves: "P a \<Longrightarrow> (\<And>x a. P a \<Longrightarrow> P (f x a)) \<Longrightarrow> P (fold f xs a)"
  by (induction xs arbitrary: a) auto

lemma build_index_checked:
  assumes "build_resource_index s label reasons = (Some st, reasons')"
  shows "index_checked st"
proof -
  define st0 where "st0 = \<lparr>ix_by_identity = [], ix_by_counter_id = [], ix_counter_ids = [], ix_valid = True\<rparr>"
  have "index_checked st0" by (simp add: index_checked_def st0_def)
  then have "index_checked (fold index_derived (res_derived s) (fold index_counter (res_counters s) st0))"
    by (intro fold_preserves [where P = index_checked] index_counter_checked index_derived_checked)
  then show ?thesis
    using assms by (simp add: build_resource_index_def Let_def st0_def split: if_splits)
qed

lemma build_index_reasons:
  "build_resource_index s label reasons = (Some st, reasons') \<Longrightarrow> reasons' = reasons"
  by (simp add: build_resource_index_def Let_def split: if_splits)

lemma aggregate_quality:
  "source_checked v \<Longrightarrow> aggregate_value v agg = Some x \<Longrightarrow> source_quality v \<noteq> None"
  by (cases "(v, agg)" rule: aggregate_value.cases) (auto simp: derived_resource_summary_valid_def split: if_splits)

lemma row_quality_total:
  assumes "b \<noteq> None \<or> c \<noteq> None"
    and "\<And>v. b = Some v \<or> c = Some v \<Longrightarrow> source_quality v \<noteq> None"
  shows "\<exists>q. row_quality b c = Inr q"
  using assms by (cases b; cases c) (auto simp: row_quality_def sides_def List.map_filter_def split: option.splits)

text \<open>A row compared: where it comes from and that its comparison does not fail.\<close>

lemma side_aggregate_quality:
  assumes "index_checked st" "side_aggregate (bt_get (ix_by_identity st) k) agg = Some x"
    and "bt_get (ix_by_identity st) k = Some v"
  shows "source_quality v \<noteq> None"
proof -
  have "source_checked v" using assms(1,3) unfolding index_checked_def by blast
  moreover have "aggregate_value v agg = Some x" using assms(2,3) by (simp add: side_aggregate_def)
  ultimately show ?thesis by (rule aggregate_quality)
qed

lemma resource_step_total:
  assumes "index_checked bi" "index_checked ci"
    and "bt_get (ix_by_identity bi) k \<noteq> None \<or> bt_get (ix_by_identity ci) k \<noteq> None"
  shows "\<exists>acc'. resource_step p bi ci k acc = Inr acc'"
proof -
  obtain rows reasons where acc: "acc = (rows, reasons)" by (cases acc)
  let ?b = "bt_get (ix_by_identity bi) k" and ?c = "bt_get (ix_by_identity ci) k"
  have row: "\<exists>x. resource_metric_comparison k ?b ?c agg v w rule p reasons = Inr x"
    if "side_aggregate ?b agg = Some v" "side_aggregate ?c agg = Some w" for agg v w rule
  proof -
    have "\<exists>q. row_quality ?b ?c = Inr q"
      using assms that by (intro row_quality_total) (auto dest: side_aggregate_quality)
    then show ?thesis by (auto simp: resource_metric_comparison_def Let_def)
  qed
  have "\<exists>x. (case (side_aggregate ?b agg, side_aggregate ?c agg) of
      (Some v, Some w) \<Rightarrow> rbind (resource_metric_comparison k ?b ?c agg v w rule p reasons)
         (\<lambda>(row, reasons). Inr (rows @ [row], reasons))
    | _ \<Rightarrow> Inr (rows, un)) = (Inr x :: (unit, resource_row list \<times> string list) res)" for agg rule un
  proof (cases "side_aggregate ?b agg"; cases "side_aggregate ?c agg")
    fix v w
    assume vw: "side_aggregate ?b agg = Some v" "side_aggregate ?c agg = Some w"
    then obtain x where "resource_metric_comparison k ?b ?c agg v w rule p reasons = Inr x" using row by metis
    then show ?thesis by (cases x) (simp add: vw)
  qed simp_all
  then show ?thesis
    unfolding resource_step_def acc Let_def prod.case by (simp split: if_splits)
qed

lemma resource_steps_total:
  assumes "index_checked bi" "index_checked ci"
    and "\<And>k. k \<in> set ks \<Longrightarrow> bt_get (ix_by_identity bi) k \<noteq> None \<or> bt_get (ix_by_identity ci) k \<noteq> None"
  shows "\<exists>acc'. resource_steps p bi ci ks acc = Inr acc'"
  using assms(3)
proof (induction ks arbitrary: acc)
  case (Cons k ks)
  obtain acc1 where "resource_step p bi ci k acc = Inr acc1"
    using resource_step_total [OF assms(1,2)] Cons.prems by (metis list.set_intros(1))
  then show ?case using Cons.IH [of acc1] Cons.prems by simp
qed simp

lemma compare_resource_metrics_total:
  "\<exists>rows reasons'. compare_resource_metrics s s' e e' p reasons = Inr (rows, reasons')"
proof (cases "build_resource_index s ''baseline'' reasons")
  case b: (Pair bi r1)
  show ?thesis
  proof (cases bi)
    case bi: (Some bx)
    obtain ci r2 where c: "build_resource_index s' ''candidate'' r1 = (ci, r2)" by force
    show ?thesis
    proof (cases ci)
      case ci: (Some cx)
      note chk = build_index_checked [OF b [unfolded bi]] build_index_checked [OF c [unfolded ci]]
      have "\<exists>acc. resource_steps p bx cx
          (filter (\<lambda>k. k \<notin> set inc) (key_union (ix_by_identity bx) (ix_by_identity cx))) acc0 = Inr acc" for inc acc0
        by (rule resource_steps_total [OF chk]) (auto simp: key_union_mem)
      then show ?thesis
        unfolding compare_resource_metrics_def b bi option.case prod.case c ci compare_indexes_def Let_def
        by (metis surj_pair)
    qed (simp add: compare_resource_metrics_def b bi c)
  qed (simp add: compare_resource_metrics_def b)
qed

subsection \<open>Totality\<close>

text \<open>The report of two comparable runs, all parts named.\<close>

lemma compare_sessions_parts:
  assumes "comparability_reasons b c p = []"
  obtains qb qc fns r1 shares r2 resources r3 ram r4 verdict r5 where
    "sd_quantitative (in_summary b) = Some qb" "sd_quantitative (in_summary c) = Some qc"
    "compare_function_hotspots (hot_functions (in_hotspots b)) (hot_functions (in_hotspots c)) p [] = Inr (fns, r1)"
    "compare_sampling_hotspots (hot_sampling (in_hotspots b)) (hot_sampling (in_hotspots c)) p r1 = (shares, r2)"
    "compare_resource_metrics (sum_resources (qu_analysis qb)) (sum_resources (qu_analysis qc))
       (mx_resource_counters (sd_metric_support (in_summary b)))
       (mx_resource_counters (sd_metric_support (in_summary c))) p r2 = Inr (resources, r3)"
    "compare_static_ram (qu_static_ram qb) (qu_static_ram qc) p r3 = (ram, r4)"
    "verdict_of r4 (comparison_outcomes (fns @ shares) resources ram) = (verdict, r5)"
    "compare_sessions b c p = Inr (report_of b c verdict (fns @ shares) resources ram r5)"
proof -
  obtain qb where qb: "sd_quantitative (in_summary b) = Some qb"
    using comparability_parts [OF assms] trusted_quantitative by metis
  obtain qc where qc: "sd_quantitative (in_summary c) = Some qc"
    using comparability_parts [OF assms] trusted_quantitative by metis
  obtain fns r1 where f:
    "compare_function_hotspots (hot_functions (in_hotspots b)) (hot_functions (in_hotspots c)) p [] = Inr (fns, r1)"
    using compare_function_hotspots_rows by metis
  obtain shares r2 where s:
    "compare_sampling_hotspots (hot_sampling (in_hotspots b)) (hot_sampling (in_hotspots c)) p r1 = (shares, r2)"
    by fastforce
  obtain resources r3 where rs:
    "compare_resource_metrics (sum_resources (qu_analysis qb)) (sum_resources (qu_analysis qc))
       (mx_resource_counters (sd_metric_support (in_summary b)))
       (mx_resource_counters (sd_metric_support (in_summary c))) p r2 = Inr (resources, r3)"
    using compare_resource_metrics_total by metis
  obtain ram r4 where ram: "compare_static_ram (qu_static_ram qb) (qu_static_ram qc) p r3 = (ram, r4)" by fastforce
  obtain verdict r5 where v:
    "verdict_of r4 (comparison_outcomes (fns @ shares) resources ram) = (verdict, r5)" by fastforce
  have "compare_sessions b c p = Inr (report_of b c verdict (fns @ shares) resources ram r5)"
    unfolding compare_sessions_def Let_def assms using f s qb qc rs ram v by simp
  with qb qc f s rs ram v show thesis by (rule that)
qed

lemma compare_sessions_total: "\<exists>r. compare_sessions b c p = Inr r"
proof (cases "comparability_reasons b c p = []")
  case True
  then show ?thesis by (elim compare_sessions_parts) blast
qed (simp add: compare_sessions_def Let_def)


subsection \<open>The verdict\<close>

lemma verdict_of_decided:
  "verdict_of reasons outcomes = (v, reasons') \<Longrightarrow> v \<noteq> VInconclusive \<Longrightarrow>
     reasons = [] \<and> reasons' = [] \<and> outcomes \<noteq> [] \<and> Inconclusive \<notin> set outcomes"
  by (auto simp: verdict_of_def split: if_splits)

lemma verdict_of_Regressed:
  "verdict_of reasons outcomes = (VRegressed, reasons') \<longleftrightarrow>
     reasons = [] \<and> reasons' = [] \<and> Inconclusive \<notin> set outcomes \<and> Regressed \<in> set outcomes"
  by (auto simp: verdict_of_def)

lemma verdict_of_Improved:
  "verdict_of reasons outcomes = (VImproved, reasons') \<longleftrightarrow>
     reasons = [] \<and> reasons' = [] \<and> set outcomes \<subseteq> {Improved, Unchanged} \<and> Improved \<in> set outcomes"
proof -
  have "x \<in> {Improved, Unchanged, Regressed, Inconclusive}" for x by (cases x) auto
  then show ?thesis by (auto simp: verdict_of_def list_all_iff)
qed

text \<open>The code's last branch, an undecided verdict, is never taken: the outcomes are exhaustive.\<close>

lemma verdict_of_Unchanged:
  "verdict_of reasons outcomes = (VUnchanged, reasons') \<longleftrightarrow>
     reasons = [] \<and> reasons' = [] \<and> outcomes \<noteq> [] \<and> set outcomes \<subseteq> {Unchanged}"
proof -
  have "x \<in> {Improved, Unchanged, Regressed, Inconclusive}" for x by (cases x) auto
  then show ?thesis by (auto simp: verdict_of_def list_all_iff)
qed

lemma row_not_inconclusive: "outcome \<in> {Regressed, Improved, Unchanged} \<Longrightarrow> outcome \<noteq> Inconclusive"
  by auto

definition report_outcomes :: "comparison_report \<Rightarrow> metric_outcome list" where
  "report_outcomes r = comparison_outcomes (co_metrics r) (co_resource_metrics r) (co_static_ram_metrics r)"

text \<open>C36: A comparison decides only on the evidence of two valid, comparable runs: its verdict is then exactly
  regressed when some counted row regressed, unchanged when all are, and improved otherwise; no reason and
  no undecided row is left.\<close>
theorem verdict_sound:
  assumes "compare_sessions b c p = Inr r" and "co_verdict r \<noteq> VInconclusive"
  shows "trusted_input b \<and> trusted_input c \<and> comparability_reasons b c p = [] \<and> co_reasons r = [] \<and>
    report_outcomes r \<noteq> [] \<and> Inconclusive \<notin> set (report_outcomes r) \<and>
    (co_verdict r = VRegressed \<longleftrightarrow> Regressed \<in> set (report_outcomes r)) \<and>
    (co_verdict r = VUnchanged \<longleftrightarrow> set (report_outcomes r) = {Unchanged})"
proof (cases "comparability_reasons b c p = []")
  case True
  then obtain qb qc fns r1 shares r2 resources r3 ram r4 verdict r5 where
    v: "verdict_of r4 (comparison_outcomes (fns @ shares) resources ram) = (verdict, r5)" and
    rep: "compare_sessions b c p = Inr (report_of b c verdict (fns @ shares) resources ram r5)"
    by (elim compare_sessions_parts)
  have r: "r = report_of b c verdict (fns @ shares) resources ram r5" using assms(1) rep by simp
  then have o: "report_outcomes r = comparison_outcomes (fns @ shares) resources ram"
    and ver: "co_verdict r = verdict" "co_reasons r = r5"
    by (simp_all add: report_outcomes_def report_of_def)
  note d = verdict_of_decided [OF v]
  have reg: "verdict = VRegressed \<longleftrightarrow> Regressed \<in> set (report_outcomes r)"
    and unc: "verdict = VUnchanged \<longleftrightarrow> set (report_outcomes r) \<subseteq> {Unchanged}"
    using d v assms(2) verdict_of_Regressed [of r4 "report_outcomes r" r5]
      verdict_of_Unchanged [of r4 "report_outcomes r" r5] unfolding o ver by auto
  show ?thesis
    using comparability_parts [OF True] True d assms(2) reg unc unfolding o ver
    by (auto simp: subset_singleton_iff)
next
  case False
  then have "r = inconclusive_report b c (comparability_reasons b c p)"
    using assms(1) by (simp add: compare_sessions_def Let_def)
  then show ?thesis using assms(2) by (simp add: inconclusive_report_def report_of_def)
qed

text \<open>Every report passes the health gate that its validator applies.\<close>

lemma report_names:
  assumes "compare_sessions b c p = Inr r"
  shows "co_baseline_session_id r = mf_session_id (in_manifest b) \<and>
    co_candidate_session_id r = mf_session_id (in_manifest c)"
proof (cases "comparability_reasons b c p = []")
  case True
  then obtain v ms rs ss reasons where "r = report_of b c v ms rs ss reasons"
    using assms by (elim compare_sessions_parts) (metis sum.inject(2))
  then show ?thesis by (simp add: report_of_def)
next
  case False
  then have "r = inconclusive_report b c (comparability_reasons b c p)"
    using assms by (simp add: compare_sessions_def Let_def)
  then show ?thesis by (simp add: inconclusive_report_def report_of_def)
qed

lemma report_gate:
  assumes "compare_sessions b c p = Inr r"
  shows "allows_strict_comparison (co_baseline_health r) \<and> allows_strict_comparison (co_candidate_health r) \<or>
    co_verdict r = VInconclusive \<and> report_outcomes r = [] \<and>
    co_metrics r = [] \<and> co_resource_metrics r = [] \<and> co_static_ram_metrics r = []"
proof (cases "comparability_reasons b c p = []")
  case True
  then obtain v ms rs ss reasons where "r = report_of b c v ms rs ss reasons"
    using assms by (elim compare_sessions_parts) (metis sum.inject(2))
  then show ?thesis
    using comparability_parts [OF True]
    by (simp add: report_of_def trusted_input_def allows_strict_comparison_def)
next
  case False
  then have "r = inconclusive_report b c (comparability_reasons b c p)"
    using assms by (simp add: compare_sessions_def Let_def)
  then show ?thesis
    by (simp add: inconclusive_report_def report_of_def report_outcomes_def comparison_outcomes_def
        List.map_filter_def)
qed


subsection \<open>A run compared with itself\<close>

lemma sign_shift_div: "(n + k * 2 ^ 63) div 2 ^ 52 mod 2048 = n div 2 ^ 52 mod (2048::int)"
proof -
  have "n + k * 2 ^ 63 = n + (k * 2048) * 2 ^ 52" by simp
  then have "(n + k * 2 ^ 63) div 2 ^ 52 = k * 2048 + n div 2 ^ 52"
    by (simp only: div_mult_self1 [of "2 ^ 52" n "k * 2048"]) simp
  then show ?thesis by (simp only: mod_mult_self3)
qed

lemma sign_shift_mod: "(n + k * 2 ^ 63) mod 2 ^ 52 = n mod (2 ^ 52::int)"
proof -
  have "n + k * 2 ^ 63 = n + (k * 2048) * 2 ^ 52" by simp
  then show ?thesis by (simp only: mod_mult_self1)
qed

lemma f64_neg_negate: "f64_neg (f64_negate x) \<longleftrightarrow> \<not> f64_neg x"
  and f64_exponent_negate: "f64_exponent (f64_negate x) = f64_exponent x"
  and f64_mantissa_negate: "f64_mantissa (f64_negate x) = f64_mantissa x"
proof -
  define n where "n = uint (f64_bits x)"
  have n: "0 \<le> n" "n < 2 ^ 64" using uint_bounded [of "f64_bits x"] by (simp_all add: n_def)
  have u: "uint (f64_bits x + 2 ^ 63) = (if n < 2 ^ 63 then n + 2 ^ 63 else n - 2 ^ 63)"
  proof -
    have "uint (f64_bits x + 2 ^ 63) = (n + 2 ^ 63) mod 2 ^ 64" by (simp add: uint_word_ariths n_def)
    moreover have "(n + 2 ^ 63) mod 2 ^ 64 = n - 2 ^ 63" if "\<not> n < 2 ^ 63"
    proof -
      have "(n + 2 ^ 63) mod 2 ^ 64 = ((n - 2 ^ 63) + 2 ^ 64) mod 2 ^ 64" by (simp add: add.commute)
      also have "\<dots> = (n - 2 ^ 63) mod 2 ^ 64" by (rule mod_add_self2)
      also have "\<dots> = n - 2 ^ 63" using n that by (intro mod_pos_pos_trivial) simp_all
      finally show ?thesis .
    qed
    moreover have "(n + 2 ^ 63) mod 2 ^ 64 = n + 2 ^ 63" if "n < 2 ^ 63"
      using n that by (intro mod_pos_pos_trivial) simp_all
    ultimately show ?thesis by (simp add: add.commute)
  qed
  show "f64_neg (f64_negate x) \<longleftrightarrow> \<not> f64_neg x"
    using n unfolding f64_neg_def f64_negate_def f64.sel u n_def [symmetric] by simp
  have "(n + 2 ^ 63) div 2 ^ 52 mod 2048 = n div 2 ^ 52 mod (2048::int)"
    using sign_shift_div [of n 1] by simp
  moreover have "(n - 2 ^ 63) div 2 ^ 52 mod 2048 = n div 2 ^ 52 mod (2048::int)"
    using sign_shift_div [of n "- 1"] by simp
  ultimately show "f64_exponent (f64_negate x) = f64_exponent x"
    unfolding f64_exponent_def f64_negate_def f64.sel u n_def [symmetric]
    by (cases "n < 2 ^ 63") (simp_all only: if_True if_False not_False_eq_True)
  have "(n + 2 ^ 63) mod 2 ^ 52 = n mod (2 ^ 52::int)"
    using sign_shift_mod [of n 1] by simp
  moreover have "(n - 2 ^ 63) mod 2 ^ 52 = n mod (2 ^ 52::int)"
    using sign_shift_mod [of n "- 1"] by simp
  ultimately show "f64_mantissa (f64_negate x) = f64_mantissa x"
    unfolding f64_mantissa_def f64_negate_def f64.sel u n_def [symmetric]
    by (cases "n < 2 ^ 63") (simp_all only: if_True if_False not_False_eq_True)
qed

lemma f64_sub_self: "f64_sub x x \<in> {f64_nan, f64_zero False}"
  by (auto simp: f64_sub_def f64_add_def Let_def f64_is_nan_def f64_is_finite_def f64_val_def f64_magnitude_def
      f64_exponent_negate f64_mantissa_negate f64_neg_negate)

lemma f64_abs_sub_self: "f64_abs (f64_sub x x) \<in> {f64_nan, zero_f64}"
proof -
  have "f64_abs f64_nan = f64_nan" by (simp add: f64_abs_def f64_nan_def)
  moreover have "f64_abs (f64_zero False) = zero_f64"
    by (simp add: f64_abs_def f64_zero_def f64_sign_bit_def f64_of_int_def f64_round_def)
  ultimately show ?thesis using f64_sub_self [of x] by auto
qed

lemma f64_lt_nan: "\<not> f64_lt x f64_nan"
  by (simp add: f64_lt_def f64_is_nan_def f64_nan_def f64_exponent_def f64_mantissa_def)

lemma no_self_change: "\<not> f64_lt t zero_f64 \<Longrightarrow> \<not> f64_lt t (f64_abs (f64_sub x x))"
  using f64_abs_sub_self [of x] f64_lt_nan by auto

lemma f64_max_zero: "\<not> f64_lt (f64_max t zero_f64) zero_f64"
  by (auto simp: f64_max_def f64_lt_def f64_of_int_def)

lemma metric_outcome_self: "metric_outcome_of x x a r = Unchanged"
  using no_self_change [OF f64_max_zero] by (simp add: metric_outcome_of_def)

lemma resource_outcome_self:
  "rule_valid r \<Longrightarrow> resource_outcome x x change r = ResUnchanged"
  using no_self_change by (simp add: resource_outcome_def Let_def rule_valid_def)

lemma compare_functions_self:
  assumes "compare_functions p m m ks = Inr rows" "\<And>k. k \<in> set ks \<Longrightarrow> bt_get m k \<noteq> None"
  shows "\<forall>r\<in>set rows. mr_outcome r = Unchanged"
  using assms
proof (induction ks arbitrary: rows)
  case (Cons k ks)
  obtain h where h: "bt_get m k = Some h" using Cons.prems(2) by fastforce
  then obtain more where more: "compare_functions p m m ks = Inr more"
    and rows: "rows = map (\<lambda>(metric, get, absolute).
       (metric_comparison \<lparr>cmp_kind = CsFunction, cmp_id = fh_function_id h, cmp_context_id = fh_context_id h\<rparr>
          metric (side_value get (Some h)) (side_value get (Some h))
          (f64_of_u64 absolute) (py_relative_threshold p) (max (fh_quality h) (fh_quality h)))\<lparr>mr_reasons := []\<rparr>)
          (function_metrics p) @ more"
    using Cons.prems(1) by (auto simp: result_simps compare_function_def Let_def)
  show ?case
    using Cons.IH [OF more] Cons.prems(2)
    by (auto simp: rows metric_comparison_def metric_outcome_self Let_def)
qed simp

lemma compare_sampling_self:
  "compare_sampling_hotspots hs hs p reasons = (rows, reasons') \<Longrightarrow> \<forall>r\<in>set rows. mr_outcome r = Unchanged"
  by (auto simp: compare_sampling_hotspots_def compare_sampling_def metric_comparison_def metric_outcome_self Let_def
      split: if_splits)

lemma compare_static_ram_self:
  "compare_static_ram s s p reasons = (rows, reasons') \<Longrightarrow> \<forall>r\<in>set rows. sw_outcome r = Unchanged"
  by (auto simp: compare_static_ram_def static_ram_rows_def static_ram_row_of_def Let_def split: option.splits if_splits)

text \<open>Outcomes of a resource row that leave the verdict at unchanged or undecided.\<close>

definition quiet :: "resource_row \<Rightarrow> bool" where
  "quiet r \<longleftrightarrow> rr_outcome r \<in> {ResUnchanged, ResInconclusive, ResInformational}"

lemma matching_rule_valid:
  "resource_policy_valid p \<Longrightarrow> matching_resource_rule p k = Some r \<Longrightarrow> rule_valid r"
  by (auto simp: resource_policy_valid_def matching_resource_rule_def find_Some_iff list_all_iff split: option.splits)

lemma resource_row_self:
  assumes "resource_policy_valid p"
    and "resource_metric_comparison k b b agg x x (matching_resource_rule p k) p reasons = Inr (row, reasons')"
  shows "quiet row"
proof (cases "matching_resource_rule p k")
  case None
  then show ?thesis using assms(2) by (auto simp: resource_metric_comparison_def Let_def result_simps quiet_def)
next
  case (Some rule)
  then have "rule_valid rule" using matching_rule_valid assms(1) by blast
  then show ?thesis
    using assms(2) unfolding Some
    by (auto simp: resource_metric_comparison_def Let_def result_simps quiet_def resource_outcome_self)
qed

lemma resource_step_self:
  assumes "resource_policy_valid p" "resource_step p m m k (rows, reasons) = Inr (rows', reasons')"
    and "\<forall>r\<in>set rows. quiet r"
  shows "\<forall>r\<in>set rows'. quiet r"
proof -
  have row: "quiet row"
    if "resource_metric_comparison k v v agg x x rule p reasons = Inr (row, rs)"
      "rule = matching_resource_rule p k" for v agg x rule row rs
    using resource_row_self assms(1) that by blast
  show ?thesis
    using assms(2,3)
    by (auto simp: resource_step_def Let_def result_simps split: if_splits option.splits dest!: row)
qed

lemma resource_steps_self:
  assumes "resource_policy_valid p" "resource_steps p m m ks (rows, reasons) = Inr (rows', reasons')"
    and "\<forall>r\<in>set rows. quiet r"
  shows "\<forall>r\<in>set rows'. quiet r"
  using assms(2,3)
proof (induction ks arbitrary: rows reasons)
  case (Cons k ks)
  then obtain rows1 reasons1 where "resource_step p m m k (rows, reasons) = Inr (rows1, reasons1)"
    "resource_steps p m m ks (rows1, reasons1) = Inr (rows', reasons')"
    by (auto simp: result_simps)
  then show ?case using Cons.IH resource_step_self [OF assms(1)] Cons.prems(2) by blast
qed simp

lemma build_index_label:
  "fst (build_resource_index s label reasons) = fst (build_resource_index s label' reasons')"
  by (simp add: build_resource_index_def Let_def)

lemma compare_resources_self:
  assumes "resource_policy_valid p" "compare_resource_metrics s s e e' p reasons = Inr (rows, reasons')"
  shows "\<forall>r\<in>set rows. quiet r"
proof -
  obtain bi r1 where b: "build_resource_index s ''baseline'' reasons = (bi, r1)" by force
  obtain ci r2 where c: "build_resource_index s ''candidate'' r1 = (ci, r2)" by force
  have "ci = bi" using build_index_label [of s "''baseline''" reasons "''candidate''" r1] b c by simp
  then show ?thesis
    using assms b c
    by (auto simp: compare_resource_metrics_def compare_indexes_def Let_def split: option.splits
        dest: resource_steps_self)
qed

lemma quiet_counted: "quiet r \<Longrightarrow> counted_outcome (rr_outcome r) = Some x \<Longrightarrow> x \<in> {Unchanged, Inconclusive}"
  by (auto simp: quiet_def)

lemma set_comparison_outcomes:
  "set (comparison_outcomes ms rs ss) =
     mr_outcome ` set ms \<union> {x. \<exists>r\<in>set rs. counted_outcome (rr_outcome r) = Some x} \<union> sw_outcome ` set ss"
  by (force simp: comparison_outcomes_def List.map_filter_def)

lemma self_verdict:
  assumes "compare_sessions i i p = Inr r"
  shows "co_verdict r \<in> {VUnchanged, VInconclusive}"
proof (cases "comparability_reasons i i p = []")
  case True
  then obtain q q' fns r1 shares r2 resources r3 ram r4 verdict r5 where
    q: "sd_quantitative (in_summary i) = Some q" "sd_quantitative (in_summary i) = Some q'" and
    f: "compare_function_hotspots (hot_functions (in_hotspots i)) (hot_functions (in_hotspots i)) p [] = Inr (fns, r1)" and
    s: "compare_sampling_hotspots (hot_sampling (in_hotspots i)) (hot_sampling (in_hotspots i)) p r1 = (shares, r2)" and
    rs: "compare_resource_metrics (sum_resources (qu_analysis q)) (sum_resources (qu_analysis q'))
       (mx_resource_counters (sd_metric_support (in_summary i)))
       (mx_resource_counters (sd_metric_support (in_summary i))) p r2 = Inr (resources, r3)" and
    ram: "compare_static_ram (qu_static_ram q) (qu_static_ram q') p r3 = (ram, r4)" and
    v: "verdict_of r4 (comparison_outcomes (fns @ shares) resources ram) = (verdict, r5)" and
    rep: "compare_sessions i i p = Inr (report_of i i verdict (fns @ shares) resources ram r5)"
    by (rule compare_sessions_parts)
  have qq: "q' = q" using q by simp
  have p: "resource_policy_valid p" using comparability_parts [OF True] by blast
  let ?m = "function_rows (hot_functions (in_hotspots i))"
  have "compare_functions p ?m ?m (key_union ?m ?m) = Inr fns"
    using f by (simp add: compare_function_hotspots_def Let_def result_simps)
  then have "\<forall>r\<in>set fns. mr_outcome r = Unchanged"
    by (rule compare_functions_self) (simp add: key_union_mem)
  moreover have "\<forall>r\<in>set shares. mr_outcome r = Unchanged" using s by (rule compare_sampling_self)
  moreover have "\<forall>r\<in>set ram. sw_outcome r = Unchanged" using ram unfolding qq by (rule compare_static_ram_self)
  moreover have "\<forall>r\<in>set resources. quiet r" using rs unfolding qq by (rule compare_resources_self [OF p])
  ultimately have "set (comparison_outcomes (fns @ shares) resources ram) \<subseteq> {Unchanged, Inconclusive}"
    using quiet_counted by (fastforce simp: set_comparison_outcomes)
  then have "verdict \<in> {VUnchanged, VInconclusive}" using v by (auto simp: verdict_of_def split: if_splits)
  then show ?thesis using assms rep by (auto simp: report_of_def)
next
  case False
  then have "r = inconclusive_report i i (comparability_reasons i i p)"
    using assms by (simp add: compare_sessions_def Let_def)
  then show ?thesis by (simp add: inconclusive_report_def report_of_def)
qed


subsection \<open>Counters without a unit\<close>

text \<open>
  A counter summary needs no unit, so an extension counter may come without one. Both sides of its
  row then name a source and no unit, which the validator of the row does not accept.
\<close>

lemma unitless_row_not_valid:
  assumes "resource_metric_comparison k (Some x) c agg v w rule p reasons = Inr (row, reasons')"
    and "source_unit x = None" "validate_subject (snd k) = Inr ()"
  shows "validate_resource_row row = Inl (Err (CmpInvalidResourceDiagnostic (fst k)))"
  using assms
  by (auto simp: resource_metric_comparison_def Let_def result_simps validate_resource_row_def
      diagnostics_valid_def side_consistent_def)

lemma unitless_step:
  assumes "bt_get (ix_by_identity bi) k = Some (FromCounter x)" "rs_unit x = None"
    and "bt_get (ix_by_identity ci) k = Some (FromCounter y)"
    and "matching_resource_rule p k = None" "validate_subject (snd k) = Inr ()"
  shows "\<exists>row. resource_step p bi ci k (rows, reasons) = Inr (rows @ [row], reasons) \<and>
    rr_outcome row = ResInformational \<and>
    validate_resource_row row = Inl (Err (CmpInvalidResourceDiagnostic (fst k)))"
proof -
  have q: "row_quality (Some (FromCounter x)) (Some (FromCounter y)) = Inr (max (rs_quality y) (rs_quality x))"
    by (simp add: row_quality_def sides_def List.map_filter_def)
  obtain row where row: "resource_metric_comparison k (Some (FromCounter x)) (Some (FromCounter y)) AggLatest
      (rs_latest x) (rs_latest y) None p reasons = Inr (row, reasons)"
    by (simp add: resource_metric_comparison_def Let_def q)
  moreover have "resource_step p bi ci k (rows, reasons) = Inr (rows @ [row], reasons)"
    using assms(1,3,4) row by (simp add: resource_step_def Let_def side_aggregate_def)
  moreover have "rr_outcome row = ResInformational"
    using row by (auto simp: resource_metric_comparison_def Let_def result_simps)
  ultimately show ?thesis using unitless_row_not_valid [OF row] assms(2,5) by auto
qed


lemma single_counter_index:
  assumes "resource_counter_summary_valid x" "rs_semantic x = Some m" "rs_subject x = Some t"
    and "res_counters s = [x]" "res_derived s = []"
  shows "build_resource_index s label reasons =
    (Some \<lparr>ix_by_identity = [((m, t), FromCounter x)], ix_by_counter_id = [(rs_counter_id x, (m, t))],
       ix_counter_ids = [rs_counter_id x], ix_valid = True\<rparr>, reasons)"
  using assms
  by (simp add: build_resource_index_def Let_def index_counter_def index_insert_def bt_contains_def)

lemma single_counter_steps:
  assumes "compare_resource_metrics s s' e e' p reasons = Inr (rows, reasons')"
    and "build_resource_index s ''baseline'' reasons = (Some bi, reasons)"
    and "build_resource_index s' ''candidate'' reasons = (Some ci, reasons)"
    and "ix_by_identity bi = [(k, v)]" "ix_by_identity ci = [(k, w)]"
    and "ix_by_counter_id bi = [(i, k)]" "ix_by_counter_id ci = [(j, k)]"
  obtains reasons1 where "resource_step p bi ci k ([], reasons1) = Inr (rows, reasons')"
proof -
  have ids: "reused_ids bi ci = []"
    using assms(6,7) by (simp add: reused_ids_def List.map_filter_def bt_get_def split: option.splits)
  have keys: "key_union (ix_by_identity bi) (ix_by_identity ci) = [k]"
    by (simp add: key_union_def assms(4,5) bt_keys_def)
  obtain reasons1 where "resource_steps p bi ci [k] ([], reasons1) = Inr (rows, reasons')"
    using assms(1) by (simp add: compare_resource_metrics_def assms(2,3) compare_indexes_def Let_def ids keys)
  then show thesis by (intro that) (auto simp: result_simps)
qed


text \<open>a counter that both runs have without a unit, and that no rule selects, becomes an
  informational row which the validator of the report refuses, although both runs are valid and comparable.\<close>
theorem unitless_counter_refused:
  assumes "res_counters s = [x]" "res_derived s = []" "res_counters s' = [y]" "res_derived s' = []"
    and "resource_counter_summary_valid x" "resource_counter_summary_valid y"
    and "rs_semantic x = Some m" "rs_subject x = Some t" "rs_semantic y = Some m" "rs_subject y = Some t"
    and "rs_unit x = None" "matching_resource_rule p (m, t) = None"
  shows "\<exists>row reasons'. compare_resource_metrics s s' e e' p reasons = Inr ([row], reasons') \<and>
    rr_outcome row = ResInformational \<and>
    validate_resource_row row = Inl (Err (CmpInvalidResourceDiagnostic m))"
proof -
  obtain rows reasons' where r: "compare_resource_metrics s s' e e' p reasons = Inr (rows, reasons')"
    using compare_resource_metrics_total by metis
  note bi = single_counter_index [OF assms(5,7,8,1,2)] and ci = single_counter_index [OF assms(6,9,10,3,4)]
  have t: "validate_subject t = Inr ()"
    using assms(5,7,8) by (simp add: resource_counter_summary_valid_def counter_identity_valid_def)
  let ?bi = "\<lparr>ix_by_identity = [((m, t), FromCounter x)], ix_by_counter_id = [(rs_counter_id x, (m, t))],
       ix_counter_ids = [rs_counter_id x], ix_valid = True\<rparr>"
  let ?ci = "\<lparr>ix_by_identity = [((m, t), FromCounter y)], ix_by_counter_id = [(rs_counter_id y, (m, t))],
       ix_counter_ids = [rs_counter_id y], ix_valid = True\<rparr>"
  obtain reasons1 where step: "resource_step p ?bi ?ci (m, t) ([], reasons1) = Inr (rows, reasons')"
    by (rule single_counter_steps [OF r bi ci]) simp_all
  have "bt_get (ix_by_identity ?bi) (m, t) = Some (FromCounter x)"
    "bt_get (ix_by_identity ?ci) (m, t) = Some (FromCounter y)"
    by (simp_all add: bt_get_def)
  then obtain row where "resource_step p ?bi ?ci (m, t) ([], reasons1) = Inr ([row], reasons1)"
    and "rr_outcome row = ResInformational"
    and "validate_resource_row row = Inl (Err (CmpInvalidResourceDiagnostic m))"
    using unitless_step [of ?bi "(m, t)" x ?ci y p "[]" reasons1] assms(11,12) t by auto
  then show ?thesis using r step by auto
qed


theorem unitless_counter_refused_witness:
  "\<exists>r. compare_sessions (demo_run 100 [demo_counter]) (demo_run 200 [demo_counter]) demo_policy = Inr r \<and>
     validate_comparison_report r = Inl (Err (CmpInvalidResourceDiagnostic ''x.y''))"
proof -
  let ?b = "demo_run 100 [demo_counter]" and ?c = "demo_run 200 [demo_counter]"
  have res: "\<exists>row reasons'. compare_resource_metrics (sum_resources (demo_analysis [demo_counter]))
      (sum_resources (demo_analysis [demo_counter])) e e' demo_policy [] = Inr ([row], reasons') \<and>
      rr_outcome row = ResInformational \<and>
      validate_resource_row row = Inl (Err (CmpInvalidResourceDiagnostic ''x.y''))" for e e'
    by (rule unitless_counter_refused [where x = demo_counter and y = demo_counter and t = SubCapture])
      (simp_all add: demo_analysis_def demo_counter_parts demo_counter_valid matching_resource_rule_def demo_policy_parts)
  then obtain row reasons' where row: "compare_resource_metrics (sum_resources (demo_analysis [demo_counter]))
      (sum_resources (demo_analysis [demo_counter])) (mx_resource_counters (support_uniform Exact))
      (mx_resource_counters (support_uniform Exact)) demo_policy [] = Inr ([row], reasons')"
    and bad: "validate_resource_row row = Inl (Err (CmpInvalidResourceDiagnostic ''x.y''))" by metis
  obtain v ms ss rs where "compare_sessions ?b ?c demo_policy = Inr (report_of ?b ?c v [] [row] ss rs)"
    by (simp add: compare_sessions_def demo_comparable demo_parts demo_no_functions row Let_def split_beta)
  then show ?thesis
    using bad by (simp add: validate_comparison_report_def report_of_def Let_def demo_parts demo_session
        allows_strict_comparison_def)
qed

text \<open>A comparison never panics, it names the two runs, and it passes the health gate of the report's
  validator: unless both runs are \<open>VALID\<close> it is inconclusive and holds no row.\<close>
theorem comparison_never_panics:
  "\<exists>r. compare_sessions b c p = Inr r \<and>
     co_baseline_session_id r = mf_session_id (in_manifest b) \<and>
     co_candidate_session_id r = mf_session_id (in_manifest c) \<and>
     (allows_strict_comparison (co_baseline_health r) \<and> allows_strict_comparison (co_candidate_health r) \<or>
      co_verdict r = VInconclusive \<and> co_metrics r = [] \<and> co_resource_metrics r = [] \<and> co_static_ram_metrics r = [])"
proof -
  obtain r where r: "compare_sessions b c p = Inr r" using compare_sessions_total by metis
  then show ?thesis using report_gate [OF r] report_names [OF r] by auto
qed

text \<open>a run compared with itself never regresses and never improves, under any policy.\<close>
theorem self_comparison_unchanged:
  "\<exists>r. compare_sessions i i p = Inr r \<and> co_verdict r \<in> {VUnchanged, VInconclusive}"
  using compare_sessions_total self_verdict by metis

theorem verdict_sound_witness:
  "\<exists>r. compare_sessions (demo_run 100 []) (demo_run 200 []) demo_policy = Inr r \<and>
     co_verdict r = VRegressed \<and> trusted_input (demo_run 100 []) \<and> Regressed \<in> set (report_outcomes r)"
proof -
  obtain r where r: "compare_sessions (demo_run 100 []) (demo_run 200 []) demo_policy = Inr r" "co_verdict r = VRegressed"
    using demo_regressed by metis
  then show ?thesis using verdict_sound [OF r(1)] by auto
qed

end
