(* ===== verification/Target_Adapter.thy ===== *)
theory Target_Adapter
  imports Controller_Evidence
begin

text \<open>
  Target-adapter profiles: the closed contracts under which compiled adapter code may drive a
  target, their validation, their qualification receipts, the selection of one profile by the
  runtime identity and the two collections that admit profiles
  (\<open>t32perf-trace32/src/target_adapter.rs\<close>). The schema marker of a document has a single value and
  carries no field. The serialization of a profile, SHA-256 and the JSON decoder of a receipt are
  the functions of an \<open>adapter_host\<close>.
\<close>

subsection \<open>Scenarios\<close>

datatype adapter_scenario =
    ScNormal
  | ScTraceOverflow
  | ScFlowError
  | ScSamplingBufferFull
  | ScSamplingUnexpectedStop
  | ScTrace32Disconnect
  | ScDriverDisconnect
  | ScCmmAbort

fun scenario_str :: "adapter_scenario \<Rightarrow> string" where
  "scenario_str ScNormal = ''normal''"
| "scenario_str ScTraceOverflow = ''trace_overflow''"
| "scenario_str ScFlowError = ''flow_error''"
| "scenario_str ScSamplingBufferFull = ''sampling_buffer_full''"
| "scenario_str ScSamplingUnexpectedStop = ''sampling_unexpected_stop''"
| "scenario_str ScTrace32Disconnect = ''trace32_disconnect''"
| "scenario_str ScDriverDisconnect = ''driver_disconnect''"
| "scenario_str ScCmmAbort = ''cmm_abort''"

definition scenario_parse :: "string \<Rightarrow> adapter_scenario option" where
  "scenario_parse v =
     find (\<lambda>s. scenario_str s = v)
       [ScNormal, ScTraceOverflow, ScFlowError, ScSamplingBufferFull, ScSamplingUnexpectedStop,
        ScTrace32Disconnect, ScDriverDisconnect, ScCmmAbort]"

text \<open>The derived \<open>Debug\<close> spellings that error messages quote.\<close>

fun scenario_debug :: "adapter_scenario \<Rightarrow> string" where
  "scenario_debug ScNormal = ''Normal''"
| "scenario_debug ScTraceOverflow = ''TraceOverflow''"
| "scenario_debug ScFlowError = ''FlowError''"
| "scenario_debug ScSamplingBufferFull = ''SamplingBufferFull''"
| "scenario_debug ScSamplingUnexpectedStop = ''SamplingUnexpectedStop''"
| "scenario_debug ScTrace32Disconnect = ''Trace32Disconnect''"
| "scenario_debug ScDriverDisconnect = ''DriverDisconnect''"
| "scenario_debug ScCmmAbort = ''CmmAbort''"

fun signal_debug :: "health_signal \<Rightarrow> string" where
  "signal_debug SigTraceOverflow = ''TraceOverflow''"
| "signal_debug SigFlowError = ''FlowError''"
| "signal_debug SigTraceGap = ''TraceGap''"
| "signal_debug SigTruncation = ''Truncation''"
| "signal_debug SigTimestampDiscontinuity = ''TimestampDiscontinuity''"
| "signal_debug SigElfMismatch = ''ElfMismatch''"
| "signal_debug SigProgramFlowClosure = ''ProgramFlowClosure''"
| "signal_debug SigSamplingBufferFull = ''SamplingBufferFull''"
| "signal_debug SigSamplingUnexpectedStop = ''SamplingUnexpectedStop''"

record scenario_selection =
  ss_scenario :: adapter_scenario
  ss_evidence_only :: bool

datatype fault_point = FpConfigure | FpStart | FpStop | FpHealth | FpExport

fun fault_operation :: "fault_point \<Rightarrow> perf_operation" where
  "fault_operation FpConfigure = Configure"
| "fault_operation FpStart = Start"
| "fault_operation FpStop = Stop"
| "fault_operation FpHealth = GetHealth"
| "fault_operation FpExport = Export"

subsection \<open>Contracts\<close>

record build_gate =
  bg_trace32_release :: string
  bg_minimum_build :: u64
  bg_maximum_build :: u64
  bg_architecture_package :: string

datatype controller_protocol = ProtocolV1 | ProtocolV2CustomEventsExport

text \<open>The wire protocol and the merge order of a collector have a single value each.\<close>

record collector_clock =
  kc_clock_id :: string
  kc_frequency_hz :: u64
  kc_timestamp_modulus :: u64
  kc_max_forward_ticks :: u64
  kc_origin_ticks :: u64
  kc_origin_ns :: i64

record collector_contract =
  kl_source_id :: string
  kl_core_id :: u32
  kl_clock :: collector_clock
  kl_transport :: string
  kl_mapping_artifact_id :: string
  kl_overhead_artifact_id :: string
  kl_max_output_bytes :: u64

text \<open>
  A program-flow capture names its export profile, its RTOS awareness, its clock and its ORTI and
  task-marker artifacts.
\<close>

datatype capture_kind =
    SamplingCapture u64
  | TaskEventsCapture string string string string string

fun sampling_capacity_records :: "capture_kind \<Rightarrow> u64 option" where
  "sampling_capacity_records (SamplingCapture n) = Some n"
| "sampling_capacity_records (TaskEventsCapture _ _ _ _ _) = None"

fun is_sampling_kind :: "capture_kind \<Rightarrow> bool" where
  "is_sampling_kind (SamplingCapture _) \<longleftrightarrow> True"
| "is_sampling_kind (TaskEventsCapture _ _ _ _ _) \<longleftrightarrow> False"

fun is_task_events_kind :: "capture_kind \<Rightarrow> bool" where
  "is_task_events_kind (SamplingCapture _) \<longleftrightarrow> False"
| "is_task_events_kind (TaskEventsCapture _ _ _ _ _) \<longleftrightarrow> True"

text \<open>The digest map of a capture contract is keyed by the two target states.\<close>

record capture_contract =
  pc_configuration_sha256 :: "target_state \<Rightarrow> sha256_digest option"
  pc_capture_mode :: string
  pc_trace_sink :: string
  pc_capture_kind :: capture_kind
  pc_timestamp_enabled :: bool
  pc_workload_identity :: string
  pc_covered_cores :: "u32 list"
  pc_supported_initial_states :: "target_state list"

record scenario_contract =
  sn_scenario :: adapter_scenario
  sn_fault_point :: "fault_point option"
  sn_capture :: capture_contract

record adapter_profile =
  ta_adapter_id :: string
  ta_adapter_version :: string
  ta_implementation_sha256 :: sha256_digest
  ta_qualification_sha256 :: "sha256_digest option"
  ta_build_gate :: build_gate
  ta_target_identifier :: string
  ta_probe_identifier :: string
  ta_license_features :: "string list"
  ta_trace_routing :: "string list"
  ta_firmware_elf_sha256 :: sha256_digest
  ta_health_signals :: "health_signal list"
  ta_capabilities :: capture_capabilities
  ta_controller_protocol :: controller_protocol
  ta_custom_event_collector :: "collector_contract option"
  ta_scenarios :: "scenario_contract list"

record qualification_receipt =
  qr_adapter_id :: string
  qr_adapter_version :: string
  qr_candidate_profile_sha256 :: sha256_digest
  qr_implementation_sha256 :: sha256_digest
  qr_trace32_release :: string
  qr_trace32_build :: u64
  qr_architecture_package :: string
  qr_target_identifier :: string
  qr_probe_identifier :: string
  qr_firmware_elf_sha256 :: sha256_digest
  qr_t32mcp_version :: string
  qr_hil_verification_receipt_sha256 :: sha256_digest

record adapter_host =
  ah_profile_bytes :: "adapter_profile \<Rightarrow> u8 list"
  ah_sha256 :: "u8 list \<Rightarrow> u8 list"
  ah_receipt :: "u8 list \<Rightarrow> string + qualification_receipt"

subsection \<open>Errors\<close>

datatype adapter_phase =
    PhNew
  | PhCapabilitiesVerified
  | PhConfigured
  | PhCapturing
  | PhStopped
  | PhHealthVerified
  | PhExported
  | PhCleaned
  | PhRecoveryRequired
  | PhRecoveredTerminal

text \<open>
  The source renders a rejected capability ceiling into the message of an invalid profile; here the
  rejection is kept.
\<close>

datatype adapter_error =
    InvalidScenarioSelection string
  | TaInvalidText string
  | InvalidProfile string
  | InvalidCapabilityCeiling receipt_error
  | InvalidQualificationReceipt string
  | DuplicateAdapter string
  | InvalidSelection string
  | NoMatchingAdapter
  | AmbiguousAdapter "string list"
  | UnqualifiedAdapter string
  | UnsupportedScenario adapter_scenario
  | UnexpectedEvidence adapter_phase
  | EvidenceMismatch string
  | InvalidExport
  | FailureNotAllowed adapter_phase
  | WrongFailedOperation perf_operation perf_operation
  | FaultContractMismatch
  | RecoveryNotExpected
  | InitialStateUnknown
  | InvalidRecoveryEvidence

type_synonym 'a adm = "(adapter_error, 'a) res"

definition adapter_text :: "string \<Rightarrow> string \<Rightarrow> unit adm" where
  "adapter_text field v = ensure (\<not> (v = [] \<or> 4096 < length v \<or> has_control v)) (TaInvalidText field)"

definition adapter_texts :: "(string \<times> string) list \<Rightarrow> unit adm" where
  "adapter_texts = each (\<lambda>(field, v). adapter_text field v)"

definition adapter_unique :: "string \<Rightarrow> 'a list \<Rightarrow> nat \<Rightarrow> unit adm" where
  "adapter_unique field vs maximum =
     rthen (ensure (\<not> (vs = [] \<or> maximum < length vs))
              (InvalidProfile (field @ '' must contain 1..='' @ dec (int maximum) @ '' entries'')))
       (ensure (card (set vs) = length vs) (InvalidProfile (field @ '' contains duplicate entries'')))"

definition adapter_unique_text :: "string \<Rightarrow> string list \<Rightarrow> nat \<Rightarrow> unit adm" where
  "adapter_unique_text field vs maximum =
     rthen (each (adapter_text field) vs) (adapter_unique field vs maximum)"

definition validate_for_allowed :: "adapter_scenario list \<Rightarrow> scenario_selection \<Rightarrow> unit adm" where
  "validate_for_allowed allowed s =
     ensure (ss_scenario s \<in> set allowed)
       (InvalidScenarioSelection ''deployment-selected scenario is not admitted for this Session'')"

subsection \<open>Validation\<close>

definition collector_artifact :: "string \<times> string \<Rightarrow> unit adm" where
  "collector_artifact = (\<lambda>(field, a).
     rthen (adapter_text field a)
       (ensure (is_portable_artifact_id a) (InvalidProfile (field @ '' is not a portable artifact ID''))))"

definition max_clock_frequency_hz :: u64 where
  "max_clock_frequency_hz = 1000000000000"

definition max_collector_output_bytes :: u64 where
  "max_collector_output_bytes = push_bit 40 1"

definition collector_clock_invalid :: "collector_clock \<Rightarrow> bool" where
  "collector_clock_invalid c \<longleftrightarrow>
     kc_frequency_hz c = 0 \<or> max_clock_frequency_hz < kc_frequency_hz c \<or>
     kc_timestamp_modulus c < 2 \<or> kc_max_forward_ticks c = 0 \<or>
     kc_timestamp_modulus c \<le> kc_max_forward_ticks c \<or> kc_timestamp_modulus c \<le> kc_origin_ticks c"

definition validate_collector :: "collector_contract \<Rightarrow> unit adm" where
  "validate_collector c =
     rthen
       (adapter_texts
         [(''custom_event_collector.source_id'', kl_source_id c),
          (''custom_event_collector.clock.clock_id'', kc_clock_id (kl_clock c)),
          (''custom_event_collector.transport'', kl_transport c)])
     (rthen (ensure (is_portable_artifact_id (kl_source_id c)) (InvalidProfile ''custom-event source_id is not portable''))
     (rthen
       (each collector_artifact
         [(''custom_event_collector.mapping_artifact_id'', kl_mapping_artifact_id c),
          (''custom_event_collector.instrumentation_overhead_artifact_id'', kl_overhead_artifact_id c)])
     (rthen (ensure (kl_mapping_artifact_id c \<noteq> kl_overhead_artifact_id c)
              (InvalidProfile ''custom-event mapping and overhead artifact IDs must be distinct''))
     (rthen (ensure (\<not> collector_clock_invalid (kl_clock c))
              (InvalidProfile ''custom-event clock frequency, modulus, forward bound, or origin is invalid''))
     (rthen (ensure (kc_origin_ns (kl_clock c) = I64 0)
              (InvalidProfile ''custom-event clock must use the TASKEVENTS 0ns session origin''))
       (ensure (\<not> (kl_max_output_bytes c = 0 \<or> max_collector_output_bytes < kl_max_output_bytes c))
         (InvalidProfile
           (''custom-event output bound must be 1..='' @ dec (uint max_collector_output_bytes)))))))))"

fun validate_capture_kind :: "u32 list \<Rightarrow> capture_kind \<Rightarrow> unit adm" where
  "validate_capture_kind cores (SamplingCapture n) =
     ensure (n \<noteq> 0) (InvalidProfile ''sampling capture capacity must be nonzero'')"
| "validate_capture_kind cores (TaskEventsCapture export_profile rtos clock orti markers) =
     rthen
       (adapter_texts
         [(''export_profile_id'', export_profile), (''rtos_awareness'', rtos), (''timestamp_clock_id'', clock),
          (''orti_artifact_id'', orti), (''task_marker_artifact_id'', markers)])
     (rthen (ensure (orti \<noteq> markers) (InvalidProfile ''TASKEVENTS ORTI and marker artifacts must be distinct''))
       (ensure (length cores = 1) (InvalidProfile ''TASKEVENTS program flow requires exactly one covered core'')))"

definition validate_capture_contract :: "capture_contract \<Rightarrow> unit adm" where
  "validate_capture_contract c =
     rthen
       (adapter_texts
         [(''capture_mode'', pc_capture_mode c), (''trace_sink'', pc_trace_sink c),
          (''workload_identity'', pc_workload_identity c)])
     (rthen (adapter_unique ''covered_cores'' (pc_covered_cores c) 256)
     (rthen (adapter_unique ''supported_initial_states'' (pc_supported_initial_states c) 2)
     (rthen (ensure (pc_timestamp_enabled c) (InvalidProfile ''performance adapter must use verified timestamps''))
     (rthen (validate_capture_kind (pc_covered_cores c) (pc_capture_kind c))
       (ensure
         (list_all (\<lambda>s. s \<in> set (pc_supported_initial_states c) \<longleftrightarrow> pc_configuration_sha256 c s \<noteq> None)
           [Running, Halted])
         (InvalidProfile ''configuration digests do not exactly cover supported initial states''))))))"

definition profile_scenario :: "adapter_profile \<Rightarrow> adapter_scenario \<Rightarrow> scenario_contract option" where
  "profile_scenario p s = find (\<lambda>c. sn_scenario c = s) (ta_scenarios p)"

fun interrupted :: "adapter_scenario \<Rightarrow> bool" where
  "interrupted ScTrace32Disconnect \<longleftrightarrow> True"
| "interrupted ScDriverDisconnect \<longleftrightarrow> True"
| "interrupted ScCmmAbort \<longleftrightarrow> True"
| "interrupted _ \<longleftrightarrow> False"

definition validate_scenario_contract :: "capture_contract \<Rightarrow> scenario_contract \<Rightarrow> unit adm" where
  "validate_scenario_contract normal c =
     (let kind = pc_capture_kind (sn_capture c) in
      rthen (validate_capture_contract (sn_capture c))
      (rthen (ensure (is_sampling_kind kind = is_sampling_kind (pc_capture_kind normal))
               (InvalidProfile ''one adapter profile cannot mix sampling and program-flow capture kinds''))
      (rthen (ensure (\<not> (is_task_events_kind (pc_capture_kind normal) \<and> kind \<noteq> pc_capture_kind normal))
               (InvalidProfile ''program-flow scenarios must use one exact TASKEVENTS export, clock, and metadata profile''))
        (ensure (interrupted (sn_scenario c) = (sn_fault_point c \<noteq> None))
          (InvalidProfile
            (''scenario '' @ quoted (scenario_debug (sn_scenario c)) @ '' has an invalid fault-point contract''))))))"

definition validate_kind_scenarios :: "capture_kind \<Rightarrow> adapter_scenario list \<Rightarrow> adapter_profile \<Rightarrow> unit adm" where
  "validate_kind_scenarios kind scenarios p =
     (if is_sampling_kind kind then
        ensure (\<not> list_ex (\<lambda>s. s = ScTraceOverflow \<or> s = ScFlowError) scenarios)
          (InvalidProfile ''sampling profiles cannot declare program-flow fault scenarios'')
      else
        rthen
          (ensure (\<not> list_ex (\<lambda>s. s = ScSamplingBufferFull \<or> s = ScSamplingUnexpectedStop) scenarios)
            (InvalidProfile ''program-flow profiles cannot declare sampling fault scenarios''))
        (rthen
          (ensure (ta_health_signals p = program_flow_health_signals)
            (InvalidProfile ''TASKEVENTS program flow requires the exact closed health-signal set''))
          (each
            (\<lambda>(family, level). ensure (level = Exact)
               (InvalidProfile (''TASKEVENTS program flow requires exact '' @ quoted family @ '' capability'')))
            [(''function_events'', se_support (ca_function_events (ta_capabilities p))),
             (''context_switches'', se_support (ca_context_switches (ta_capabilities p))),
             (''interrupt_events'', se_support (ca_interrupt_events (ta_capabilities p)))])))"

definition validate_collector_scenario :: "collector_contract \<Rightarrow> scenario_contract \<Rightarrow> unit adm" where
  "validate_collector_scenario k c =
     (case pc_capture_kind (sn_capture c) of
        SamplingCapture _ \<Rightarrow>
          Inl (Err (InvalidProfile
            ''Controller V2 custom-event export requires program-flow capture in every scenario''))
      | TaskEventsCapture _ _ clock _ _ \<Rightarrow>
          rthen (ensure (kc_clock_id (kl_clock k) = clock)
                   (InvalidProfile ''custom events and TASKEVENTS must use one exact shared timestamp clock''))
            (ensure (kl_core_id k \<in> set (pc_covered_cores (sn_capture c)))
              (InvalidProfile ''custom-event collector core is not covered by every adapter scenario'')))"

definition validate_protocol :: "capture_kind \<Rightarrow> adapter_profile \<Rightarrow> unit adm" where
  "validate_protocol normal_kind p =
     (let level = se_support (ca_custom_events (ta_capabilities p)) in
      case (ta_controller_protocol p, ta_custom_event_collector p) of
        (ProtocolV1, None) \<Rightarrow>
          ensure (level = Unavailable)
            (InvalidProfile ''Controller V1 requires custom_events capability to remain unavailable'')
      | (ProtocolV1, Some _) \<Rightarrow>
          Inl (Err (InvalidProfile ''Controller V1 forbids a custom-event collector contract''))
      | (ProtocolV2CustomEventsExport, None) \<Rightarrow>
          Inl (Err (InvalidProfile ''Controller V2 custom-event export requires an explicit collector contract''))
      | (ProtocolV2CustomEventsExport, Some k) \<Rightarrow>
          rthen (ensure (level = Exact)
                   (InvalidProfile ''Controller V2 custom-event export requires exact custom_events capability''))
          (rthen (validate_collector k)
          (rthen (ensure (is_task_events_kind normal_kind)
                   (InvalidProfile ''Controller V2 custom-event export requires TASKEVENTS program flow''))
          (rthen (ensure (se_support (ca_counters (ta_capabilities p)) = Exact)
                   (InvalidProfile ''Controller V2 C-wire custom-event export requires exact counter capability within the shared custom-event stream''))
            (each (validate_collector_scenario k) (ta_scenarios p))))))"

definition required_signals :: "(adapter_scenario \<times> health_signal) list" where
  "required_signals =
     [(ScTraceOverflow, SigTraceOverflow), (ScFlowError, SigFlowError),
      (ScSamplingBufferFull, SigSamplingBufferFull), (ScSamplingUnexpectedStop, SigSamplingUnexpectedStop)]"

definition validate_required_signal :: "adapter_scenario list \<Rightarrow> health_signal list
    \<Rightarrow> adapter_scenario \<times> health_signal \<Rightarrow> unit adm" where
  "validate_required_signal scenarios signals = (\<lambda>(s, signal).
     ensure (\<not> (s \<in> set scenarios \<and> signal \<notin> set signals))
       (InvalidProfile (''scenario '' @ quoted (scenario_debug s) @ '' requires health signal '' @
          quoted (signal_debug signal))))"

definition validate_profile_identity :: "adapter_profile \<Rightarrow> unit adm" where
  "validate_profile_identity p =
     (let g = ta_build_gate p in
      rthen
        (adapter_texts
          [(''adapter_id'', ta_adapter_id p), (''adapter_version'', ta_adapter_version p),
           (''trace32_release'', bg_trace32_release g), (''architecture_package'', bg_architecture_package g),
           (''target_identifier'', ta_target_identifier p), (''probe_identifier'', ta_probe_identifier p)])
      (rthen (ensure (\<not> (bg_minimum_build g = 0 \<or> bg_maximum_build g < bg_minimum_build g))
               (InvalidProfile ''build gate has a zero or reversed build range''))
      (rthen (adapter_unique_text ''license_features'' (ta_license_features p) 128)
      (rthen (adapter_unique_text ''trace_routing'' (ta_trace_routing p) 64)
      (rthen (adapter_unique ''health_signals'' (ta_health_signals p) 16)
        (map_err InvalidCapabilityCeiling (validate_capabilities (ta_capabilities p))))))))"

definition validate_profile :: "adapter_profile \<Rightarrow> unit adm" where
  "validate_profile p =
     rthen (validate_profile_identity p)
       (let scenarios = map sn_scenario (ta_scenarios p) in
        rthen (adapter_unique ''scenarios'' scenarios 16)
        (rthen (ensure (ScNormal \<in> set scenarios) (InvalidProfile ''normal scenario is missing''))
        (rbind (expect (profile_scenario p ScNormal)) (\<lambda>n.
          let normal = sn_capture n in
          rthen (each (validate_scenario_contract normal) (ta_scenarios p))
          (rthen (validate_kind_scenarios (pc_capture_kind normal) scenarios p)
          (rthen (validate_protocol (pc_capture_kind normal) p)
            (each (validate_required_signal scenarios (ta_health_signals p)) required_signals)))))))"

subsection \<open>Digests and receipts\<close>

definition hex_encode :: "u8 list \<Rightarrow> string" where
  "hex_encode bytes = concat (map (\<lambda>b. [hex_digit (uint (drop_bit 4 b)), hex_digit (uint (and b 0x0f))]) bytes)"

definition sha256_of :: "adapter_host \<Rightarrow> u8 list \<Rightarrow> sha256_digest adm" where
  "sha256_of h bytes =
     (case digest_new (hex_encode (ah_sha256 h bytes)) of Inl _ \<Rightarrow> Inl Panic | Inr d \<Rightarrow> Inr d)"

definition profile_digest :: "adapter_host \<Rightarrow> adapter_profile \<Rightarrow> sha256_digest adm" where
  "profile_digest h p = rthen (validate_profile p) (sha256_of h (ah_profile_bytes h p))"

definition qualification_identity_digest :: "adapter_host \<Rightarrow> adapter_profile \<Rightarrow> sha256_digest adm" where
  "qualification_identity_digest h p = profile_digest h (p\<lparr>ta_qualification_sha256 := None\<rparr>)"

definition has_qualification_claim :: "adapter_profile \<Rightarrow> bool" where
  "has_qualification_claim p \<longleftrightarrow> ta_qualification_sha256 p \<noteq> None"

definition receipt_size_ok :: "u8 list \<Rightarrow> bool" where
  "receipt_size_ok bytes \<longleftrightarrow> \<not> (bytes = [] \<or> 64 * 1024 < length bytes)"

text \<open>The claims of a receipt after the candidate digest, which alone is computed.\<close>

definition receipt_matches_runtime :: "qualification_receipt \<Rightarrow> adapter_profile \<Rightarrow> bool" where
  "receipt_matches_runtime r p \<longleftrightarrow>
     (let g = ta_build_gate p in
      qr_implementation_sha256 r = ta_implementation_sha256 p \<and>
      qr_trace32_release r = bg_trace32_release g \<and> qr_trace32_build r = bg_minimum_build g \<and>
      bg_minimum_build g = bg_maximum_build g \<and> qr_architecture_package r = bg_architecture_package g \<and>
      qr_target_identifier r = ta_target_identifier p \<and> qr_probe_identifier r = ta_probe_identifier p \<and>
      qr_firmware_elf_sha256 r = ta_firmware_elf_sha256 p \<and> qr_t32mcp_version r = ''0.2.2'')"

definition receipt_mismatch :: adapter_error where
  "receipt_mismatch =
     InvalidQualificationReceipt ''qualification receipt does not match the exact profile/runtime bundle''"

definition validate_receipt_for :: "adapter_host \<Rightarrow> qualification_receipt \<Rightarrow> adapter_profile \<Rightarrow> u8 list \<Rightarrow> unit adm" where
  "validate_receipt_for h r p bytes =
     rthen (ensure (receipt_size_ok bytes)
              (InvalidQualificationReceipt ''qualification receipt size is outside the fixed bound''))
     (rthen
       (adapter_texts
         [(''adapter_id'', qr_adapter_id r), (''adapter_version'', qr_adapter_version r),
          (''trace32_release'', qr_trace32_release r), (''architecture_package'', qr_architecture_package r),
          (''target_identifier'', qr_target_identifier r), (''probe_identifier'', qr_probe_identifier r),
          (''t32mcp_version'', qr_t32mcp_version r)])
     (rbind (ok_or (ta_qualification_sha256 p)
              (InvalidQualificationReceipt ''profile has no qualification receipt claim'')) (\<lambda>declared.
      rbind (sha256_of h bytes) (\<lambda>actual.
      rthen (ensure (declared = actual \<and> qr_adapter_id r = ta_adapter_id p \<and> qr_adapter_version r = ta_adapter_version p)
               receipt_mismatch)
      (rbind (qualification_identity_digest h p) (\<lambda>candidate.
        ensure (qr_candidate_profile_sha256 r = candidate \<and> receipt_matches_runtime r p) receipt_mismatch))))))"

definition parse_receipt :: "adapter_host \<Rightarrow> u8 list \<Rightarrow> qualification_receipt adm" where
  "parse_receipt h bytes =
     rthen (ensure (receipt_size_ok bytes)
              (InvalidQualificationReceipt ''qualification receipt size is outside the fixed bound''))
       (case ah_receipt h bytes of
          Inl message \<Rightarrow> Inl (Err (InvalidQualificationReceipt message))
        | Inr r \<Rightarrow> Inr r)"

subsection \<open>Selection\<close>

record selection_discriminator =
  sd_adapter_id :: string
  sd_profile_sha256 :: sha256_digest

record adapter_selection =
  sl_trace32_release :: string
  sl_trace32_build :: u64
  sl_architecture_package :: string
  sl_target_identifier :: string
  sl_probe_identifier :: string
  sl_discriminator :: "selection_discriminator option"

definition validate_selection :: "adapter_selection \<Rightarrow> unit adm" where
  "validate_selection s =
     rthen
       (adapter_texts
         [(''selection.trace32_release'', sl_trace32_release s),
          (''selection.architecture_package'', sl_architecture_package s),
          (''selection.target_identifier'', sl_target_identifier s),
          (''selection.probe_identifier'', sl_probe_identifier s)])
     (rthen (ensure (sl_trace32_build s \<noteq> 0) (InvalidSelection ''TRACE32 build must be nonzero''))
       (case sl_discriminator s of None \<Rightarrow> Inr () | Some d \<Rightarrow> adapter_text ''selection.adapter_id'' (sd_adapter_id d)))"

definition runtime_matches :: "adapter_profile \<Rightarrow> adapter_selection \<Rightarrow> bool" where
  "runtime_matches p s \<longleftrightarrow>
     (let g = ta_build_gate p in
      bg_trace32_release g = sl_trace32_release s \<and>
      bg_minimum_build g \<le> sl_trace32_build s \<and> sl_trace32_build s \<le> bg_maximum_build g \<and>
      bg_architecture_package g = sl_architecture_package s \<and>
      ta_target_identifier p = sl_target_identifier s \<and> ta_probe_identifier p = sl_probe_identifier s)"

definition profile_matches :: "adapter_host \<Rightarrow> adapter_profile \<Rightarrow> adapter_selection \<Rightarrow> bool adm" where
  "profile_matches h p s =
     (if \<not> runtime_matches p s then Inr False
      else case sl_discriminator s of
        None \<Rightarrow> Inr True
      | Some d \<Rightarrow>
          if ta_adapter_id p = sd_adapter_id d
          then rbind (profile_digest h p) (\<lambda>digest. Inr (digest = sd_profile_sha256 d))
          else Inr False)"

fun matching :: "adapter_host \<Rightarrow> ('a \<Rightarrow> adapter_profile) \<Rightarrow> adapter_selection \<Rightarrow> 'a list \<Rightarrow> 'a list adm" where
  "matching h f s [] = Inr []"
| "matching h f s (a # as) =
     rbind (profile_matches h (f a) s) (\<lambda>yes.
     rbind (matching h f s as) (\<lambda>rest. Inr (if yes then a # rest else rest)))"

text \<open>Both collections select in the same way; \<open>f\<close> is the profile of an entry.\<close>

definition select_one :: "adapter_host \<Rightarrow> ('a \<Rightarrow> adapter_profile) \<Rightarrow> (string, 'a) btree \<Rightarrow> adapter_selection \<Rightarrow> 'a adm" where
  "select_one h f m s =
     rthen (validate_selection s)
     (rbind (matching h f s (bt_values m)) (\<lambda>found.
       case found of
         [a] \<Rightarrow> Inr a
       | [] \<Rightarrow> Inl (Err NoMatchingAdapter)
       | _ \<Rightarrow> Inl (Err (AmbiguousAdapter (map (\<lambda>a. ta_adapter_id (f a)) found)))))"

subsection \<open>The admission catalog\<close>

record admitted_adapter =
  ad_profile :: adapter_profile
  ad_receipt :: "qualification_receipt option"

type_synonym admission_catalog = "(string, admitted_adapter) btree"

text \<open>An operation returns its result and the collection it leaves.\<close>

definition catalog_insert :: "admission_catalog \<Rightarrow> admitted_adapter \<Rightarrow> unit adm \<times> admission_catalog" where
  "catalog_insert m a =
     (let k = ta_adapter_id (ad_profile a) in
      (case bt_get m k of Some _ \<Rightarrow> Inl (Err (DuplicateAdapter k)) | None \<Rightarrow> Inr (),
       bt_insert k a m))"

definition admit_candidate :: "admission_catalog \<Rightarrow> adapter_profile \<Rightarrow> unit adm \<times> admission_catalog" where
  "admit_candidate m p =
     (case rthen (validate_profile p)
             (ensure (\<not> has_qualification_claim p)
               (InvalidProfile ''candidate admission cannot carry an unverified qualification claim'')) of
        Inl e \<Rightarrow> (Inl e, m)
      | Inr _ \<Rightarrow> catalog_insert m \<lparr>ad_profile = p, ad_receipt = None\<rparr>)"

definition admit_qualified :: "adapter_host \<Rightarrow> admission_catalog \<Rightarrow> adapter_profile \<Rightarrow> u8 list
    \<Rightarrow> unit adm \<times> admission_catalog" where
  "admit_qualified h m p bytes =
     (case rthen (validate_profile p)
             (rbind (parse_receipt h bytes) (\<lambda>r. rthen (validate_receipt_for h r p bytes) (Inr r))) of
        Inl e \<Rightarrow> (Inl e, m)
      | Inr r \<Rightarrow> catalog_insert m \<lparr>ad_profile = p, ad_receipt = Some r\<rparr>)"

definition catalog_select :: "adapter_host \<Rightarrow> admission_catalog \<Rightarrow> adapter_selection \<Rightarrow> admitted_adapter adm" where
  "catalog_select h m s = select_one h ad_profile m s"

subsection \<open>The registry of qualified adapters\<close>

record registered_adapter =
  rd_profile :: adapter_profile
  rd_receipt :: qualification_receipt

type_synonym adapter_registry = "(string, registered_adapter) btree"

definition adapter_register :: "adapter_host \<Rightarrow> adapter_registry \<Rightarrow> adapter_profile \<Rightarrow> u8 list
    \<Rightarrow> unit adm \<times> adapter_registry" where
  "adapter_register h m p bytes =
     (case rthen (validate_profile p)
           (rthen (ensure (has_qualification_claim p) (UnqualifiedAdapter (ta_adapter_id p)))
           (rbind (parse_receipt h bytes) (\<lambda>r.
            rthen (validate_receipt_for h r p bytes)
            (rthen (ensure (\<not> bt_contains m (ta_adapter_id p)) (DuplicateAdapter (ta_adapter_id p)))
              (Inr r))))) of
        Inl e \<Rightarrow> (Inl e, m)
      | Inr r \<Rightarrow> (Inr (), bt_insert (ta_adapter_id p) \<lparr>rd_profile = p, rd_receipt = r\<rparr> m))"

definition registry_select :: "adapter_host \<Rightarrow> adapter_registry \<Rightarrow> adapter_selection \<Rightarrow> registered_adapter adm" where
  "registry_select h m s = select_one h rd_profile m s"

end
