(* ===== verification/Tc234l_Profile.thy ===== *)
theory Tc234l_Profile
  imports Target_Adapter
begin

text \<open>
  The one adapter that is compiled into the program and its capture configurations
  (\<open>t32perf-trace32/src/target_adapter.rs\<close>). The serialization of a configuration identity is a
  parameter next to SHA-256.
\<close>

record config_host =
  kh_identity_bytes :: "capture_config \<Rightarrow> u8 list option"
  kh_sha256 :: "u8 list \<Rightarrow> u8 list"

definition tc234l_parameters :: "u64 \<Rightarrow> adapter_scenario \<Rightarrow> properties" where
  "tc234l_parameters capacity s =
     bt_of_list
       [(''snooper.object'', JStr ''pc''), (''snooper.method'', JStr ''realtime''),
        (''snooper.buffer_mode'', JStr ''stack''), (''snooper.capacity_records'', JPos capacity),
        (''snooper.requested_rate_ns'', JPos 1000000), (''snooper.errorstop'', JBool True),
        (''snooper.jitter'', JBool False), (''snooper.autoarm'', JBool False),
        (''snooper.autoinit'', JBool False), (''snooper.time_origin'', JStr ''first_record_zero''),
        (''firmware.elf_sha256'', JStr ''7daae3ae027ab270c30de38530f83458a682d3e13c45deb69217048d8f449798''),
        (''firmware.elf_artifact_id'', JStr ''firmware-elf''),
        (''firmware.measurement.method'', JStr ''tricore_sparse_s3_pt_load_paddr/v1''),
        (''firmware.measurement_artifact_id'', JStr ''trace32-firmware-s3''),
        (''firmware.measurement_sha256'', JStr ''26753910bfc091b113dbed562ebbf989f810504810d81260db4a7067e524e347''),
        (''firmware.measurement_size_bytes'', JPos 148955),
        (''target_adapter.scenario'', JStr (scenario_str s)),
        (''export.profile'', JStr ''t32perf.trace32-ascii-profile/tc234l-build190766-v1'')]"

fun initial_state_of :: "target_state \<Rightarrow> initial_target_state" where
  "initial_state_of Running = TargetRunning"
| "initial_state_of Halted = TargetHalted"

definition tc234l_config :: "string \<Rightarrow> target_state \<Rightarrow> u64 \<Rightarrow> adapter_scenario \<Rightarrow> capture_config" where
  "tc234l_config session initial capacity s =
     \<lparr>cd_session_id = session, cd_provider = ''trace32'',
      cd_adapter = \<lparr>adapter_id = ''tricore-tc234l-snooper-pc-r2026.02-b190766-v1'', adapter_version = ''1.0.0''\<rparr>,
      cd_mode = ''snooper-pc-realtime-stack'', cd_covered_cores = [0],
      cd_sink = \<lparr>sk_kind = ''host_snooper_buffer'', sk_id = ''snooper'', sk_capacity_bytes = None,
                 sk_stream_destination_identity = None\<rparr>,
      cd_timestamp = \<lparr>tc_enabled = True, tc_clock_id = Some ''snooper_host_time''\<rparr>,
      cd_filters = [],
      cd_trigger = \<lparr>tg_kind = ''external_owner_completion/v1'', tg_pre_trigger_ns = None,
                    tg_post_trigger_ns = None, tg_condition_identity = Some ''workload_complete_acknowledgement''\<rparr>,
      cd_duration = \<lparr>du_duration_ns = None, du_observation_limit = Some capacity\<rparr>,
      cd_workload_identity = ''external-owner-sampling-window/v1'',
      cd_initial_target_state = initial_state_of initial,
      cd_rtos_awareness = \<lparr>ra_kind = ''none'', ra_metadata_artifact_ids = []\<rparr>,
      cd_instrumentation = None, cd_adapter_parameters = tc234l_parameters capacity s\<rparr>"

definition tc234l_snooper_capture_config :: "string \<Rightarrow> target_state \<Rightarrow> u64 \<Rightarrow> capture_config" where
  "tc234l_snooper_capture_config session initial capacity =
     tc234l_config session initial capacity (if capacity = 32 then ScSamplingBufferFull else ScNormal)"

definition tc234l_capture_config_for_scenario :: "string \<Rightarrow> target_state \<Rightarrow> adapter_scenario \<Rightarrow> capture_config" where
  "tc234l_capture_config_for_scenario session initial s =
     tc234l_config session initial (if s = ScSamplingBufferFull then 32 else 65536) s"

definition capture_config_digest :: "config_host \<Rightarrow> capture_config \<Rightarrow> (unit, sha256_digest) res" where
  "capture_config_digest h d =
     (case validate_capture_config d of
        Inl _ \<Rightarrow> Inl Panic
      | Inr _ \<Rightarrow>
          rbind (expect (kh_identity_bytes h d)) (\<lambda>bytes.
            case digest_new (hex_encode (kh_sha256 h bytes)) of Inl _ \<Rightarrow> Inl Panic | Inr v \<Rightarrow> Inr v))"

definition tc234l_digests :: "config_host \<Rightarrow> string \<Rightarrow> string \<Rightarrow> u64 \<Rightarrow> adapter_scenario
    \<Rightarrow> (unit, target_state \<Rightarrow> sha256_digest option) res" where
  "tc234l_digests h running halted capacity s =
     rbind (capture_config_digest h (tc234l_config running Running capacity s)) (\<lambda>a.
     rbind (capture_config_digest h (tc234l_config halted Halted capacity s)) (\<lambda>b.
       Inr (\<lambda>t. case t of Running \<Rightarrow> Some a | Halted \<Rightarrow> Some b)))"

definition tc234l_capture :: "(target_state \<Rightarrow> sha256_digest option) \<Rightarrow> u64 \<Rightarrow> capture_contract" where
  "tc234l_capture digests capacity =
     \<lparr>pc_configuration_sha256 = digests, pc_capture_mode = ''snooper-pc-realtime-stack'',
      pc_trace_sink = ''host_snooper_buffer'', pc_capture_kind = SamplingCapture capacity,
      pc_timestamp_enabled = True, pc_workload_identity = ''external-owner-sampling-window/v1'',
      pc_covered_cores = [0], pc_supported_initial_states = [Running, Halted]\<rparr>"

definition tc234l_capabilities :: capture_capabilities where
  "tc234l_capabilities =
     \<lparr>ca_function_events = support_unavailable ''pc_sampling_has_no_function_boundaries'',
      ca_context_switches = support_unavailable ''pc_sampling_has_no_context_switch_events'',
      ca_interrupt_events = support_unavailable ''pc_sampling_has_no_interrupt_events'',
      ca_samples = \<lparr>se_support = Statistical, se_reasons = [''snooper_rate_is_not_guaranteed'']\<rparr>,
      ca_custom_events = support_unavailable ''pc_sampling_has_no_custom_events'',
      ca_counters = support_unavailable ''pc_sampling_has_no_resource_counters''\<rparr>"

definition tc234l_of_captures :: "sha256_digest option \<Rightarrow> capture_contract \<Rightarrow> capture_contract \<Rightarrow> adapter_profile" where
  "tc234l_of_captures qualification normal full =
     \<lparr>ta_adapter_id = ''tricore-tc234l-snooper-pc-r2026.02-b190766-v1'', ta_adapter_version = ''1.0.0'',
      ta_implementation_sha256 = Sha256Digest ''a366536ad33ce118eff8a79ebe12367e67bdc02c41f5f8e4457d54b83b6a30e4'',
      ta_qualification_sha256 = qualification,
      ta_build_gate = \<lparr>bg_trace32_release = ''2026.02'', bg_minimum_build = 190766,
                       bg_maximum_build = 190766, bg_architecture_package = ''tricore''\<rparr>,
      ta_target_identifier = ''infineon-tc234l-core0'',
      ta_probe_identifier = ''powerdebug-pro:E17090031792:C23090376246'',
      ta_license_features = [''TriCore''], ta_trace_routing = [''runtime-pc-access-via-debug-port''],
      ta_firmware_elf_sha256 = Sha256Digest ''7daae3ae027ab270c30de38530f83458a682d3e13c45deb69217048d8f449798'',
      ta_health_signals = [SigSamplingBufferFull, SigSamplingUnexpectedStop, SigElfMismatch],
      ta_capabilities = tc234l_capabilities, ta_controller_protocol = ProtocolV1,
      ta_custom_event_collector = None,
      ta_scenarios =
        [\<lparr>sn_scenario = ScNormal, sn_fault_point = None, sn_capture = normal\<rparr>,
         \<lparr>sn_scenario = ScSamplingBufferFull, sn_fault_point = None, sn_capture = full\<rparr>,
         \<lparr>sn_scenario = ScTrace32Disconnect, sn_fault_point = Some FpStop, sn_capture = normal\<rparr>,
         \<lparr>sn_scenario = ScDriverDisconnect, sn_fault_point = Some FpExport, sn_capture = normal\<rparr>,
         \<lparr>sn_scenario = ScCmmAbort, sn_fault_point = Some FpStart, sn_capture = normal\<rparr>]\<rparr>"

definition tc234l_profile :: "config_host \<Rightarrow> sha256_digest option \<Rightarrow> (unit, adapter_profile) res" where
  "tc234l_profile h qualification =
     rbind (tc234l_digests h ''profile-normal-running'' ''profile-normal-halted'' 65536 ScNormal) (\<lambda>normal.
     rbind (tc234l_digests h ''profile-overflow-running'' ''profile-overflow-halted'' 32 ScSamplingBufferFull) (\<lambda>full.
       Inr (tc234l_of_captures qualification (tc234l_capture normal 65536) (tc234l_capture full 32))))"

subsection \<open>Compiled bundles\<close>

record bundle_descriptor =
  bd_relative_directory :: string
  bd_candidate_profile :: adapter_profile

definition strip_prefix :: "string \<Rightarrow> string \<Rightarrow> string option" where
  "strip_prefix p v = (if starts_with v p then Some (drop (length p) v) else None)"

definition validate_bundle_directory :: "string \<Rightarrow> unit adm" where
  "validate_bundle_directory v =
     rbind (ok_or (strip_prefix ''scripts/adapters/'' v)
              (InvalidProfile (''compiled bundle directory must be below '' @ quoted ''scripts/adapters''))) (\<lambda>leaf.
       ensure
         (\<not> (4096 < length v \<or> list_ex (\<lambda>c. 127 < (of_char c :: nat)) v \<or> leaf = [] \<or>
             CHR ''/'' \<in> set leaf \<or> CHR 0x5C \<in> set leaf \<or> CHR '':'' \<in> set leaf \<or>
             \<not> is_portable_artifact_id leaf))
         (InvalidProfile ''compiled bundle directory is not a portable relative path''))"

definition validate_descriptor :: "bundle_descriptor \<Rightarrow> unit adm" where
  "validate_descriptor b =
     rthen (validate_bundle_directory (bd_relative_directory b))
     (rthen (validate_profile (bd_candidate_profile b))
       (ensure (ta_qualification_sha256 (bd_candidate_profile b) = None)
         (InvalidProfile ''compiled bundle candidate must not contain qualification evidence'')))"

definition validate_admitted_profile :: "bundle_descriptor \<Rightarrow> adapter_profile \<Rightarrow> unit adm" where
  "validate_admitted_profile b admitted =
     ensure
       (admitted = (bd_candidate_profile b)\<lparr>ta_qualification_sha256 := ta_qualification_sha256 admitted\<rparr>)
       (InvalidProfile ''admitted target-adapter profile does not match its compiled bundle candidate'')"

definition compiled_catalog :: "config_host \<Rightarrow> (unit, bundle_descriptor list) res" where
  "compiled_catalog h =
     rbind (tc234l_profile h None) (\<lambda>p.
       Inr [\<lparr>bd_relative_directory = ''scripts/adapters/tc234l-build190766'', bd_candidate_profile = p\<rparr>])"

end
