(* ===== verification/Target_Adapter_Run.thy ===== *)
theory Target_Adapter_Run
  imports Target_Adapter
begin

text \<open>
  The run of one admitted adapter profile: the state machine that accepts the evidence of the seven
  operations in their fixed order, records an interruption and accepts its recovery
  (\<open>TargetAdapterRun\<close> in \<open>t32perf-trace32/src/target_adapter.rs\<close>). An operation returns
  the run it leaves; a refused operation has assigned nothing, every check precedes the first
  assignment.
\<close>

subsection \<open>State\<close>

datatype failure_kind = FailTrace32Disconnect | FailDriverDisconnect | FailCmmAbort | FailOperation

record recovery_evidence =
  rv_profile_sha256 :: sha256_digest
  rv_binding_sha256 :: sha256_digest
  rv_failed_operation :: perf_operation
  rv_failure_kind :: failure_kind
  rv_initial_target_state :: target_state
  rv_restored_target_state :: target_state
  rv_adapter_state_restored :: bool
  rv_sampling :: "sampling_baseline option"
  rv_upstream_abort_confirmed :: bool
  rv_upstream_abort_receipt_sha256 :: "sha256_digest option"
  rv_files_deleted :: bool
  rv_new_session_required :: bool

definition validate_recovery :: "recovery_evidence \<Rightarrow> unit adm" where
  "validate_recovery e =
     ensure (rv_upstream_abort_confirmed e = (rv_upstream_abort_receipt_sha256 e \<noteq> None)) InvalidRecoveryEvidence"

record adapter_run =
  rn_profile :: adapter_profile
  rn_scenario :: adapter_scenario
  rn_phase :: adapter_phase
  rn_initial_target_state :: "target_state option"
  rn_capabilities_initial_state :: "target_state option"
  rn_failed_operation :: "perf_operation option"
  rn_failure_kind :: "failure_kind option"
  rn_failed_binding :: "sha256_digest option"
  rn_sampling_stop :: "(pre_stop_state \<times> u64 \<times> u64) option"
  rn_stop_evidence_sha256 :: "sha256_digest option"

definition run_new :: "adapter_profile \<Rightarrow> adapter_scenario \<Rightarrow> adapter_run adm" where
  "run_new p s =
     rthen (validate_profile p)
     (rthen (ensure (profile_scenario p s \<noteq> None) (UnsupportedScenario s))
       (Inr \<lparr>rn_profile = p, rn_scenario = s, rn_phase = PhNew, rn_initial_target_state = None,
             rn_capabilities_initial_state = None, rn_failed_operation = None, rn_failure_kind = None,
             rn_failed_binding = None, rn_sampling_stop = None, rn_stop_evidence_sha256 = None\<rparr>))"

fun expected_operation :: "adapter_phase \<Rightarrow> perf_operation option" where
  "expected_operation PhNew = Some GetCapabilities"
| "expected_operation PhCapabilitiesVerified = Some Configure"
| "expected_operation PhConfigured = Some Start"
| "expected_operation PhCapturing = Some Stop"
| "expected_operation PhStopped = Some GetHealth"
| "expected_operation PhHealthVerified = Some Export"
| "expected_operation PhExported = Some Cleanup"
| "expected_operation PhCleaned = None"
| "expected_operation PhRecoveryRequired = None"
| "expected_operation PhRecoveredTerminal = None"

definition run_capture :: "adapter_run \<Rightarrow> capture_contract adm" where
  "run_capture r =
     rbind (expect (profile_scenario (rn_profile r) (rn_scenario r))) (\<lambda>c. Inr (sn_capture c))"

definition run_is_sampling :: "adapter_run \<Rightarrow> bool adm" where
  "run_is_sampling r = rbind (run_capture r) (\<lambda>c. Inr (is_sampling_kind (pc_capture_kind c)))"

definition match_if :: "bool \<Rightarrow> string \<Rightarrow> unit adm" where
  "match_if b message = ensure b (EvidenceMismatch message)"

definition demand_sampling :: "adapter_run \<Rightarrow> bool \<Rightarrow> string \<Rightarrow> unit adm" where
  "demand_sampling r b message = rbind (run_is_sampling r) (\<lambda>sampling. match_if (sampling = b) message)"

subsection \<open>Capabilities and configuration\<close>

definition rtos_awareness_matches :: "capture_kind \<Rightarrow> string option \<Rightarrow> bool" where
  "rtos_awareness_matches kind v =
     (case kind of SamplingCapture _ \<Rightarrow> v = None | TaskEventsCapture _ rtos _ _ _ \<Rightarrow> v = Some rtos)"

definition capabilities_match :: "adapter_profile \<Rightarrow> capture_contract \<Rightarrow> 'a capabilities_evidence_scheme \<Rightarrow> bool" where
  "capabilities_match p c e \<longleftrightarrow>
     (let g = ta_build_gate p in
      cv_trace32_release e = bg_trace32_release g \<and>
      bg_minimum_build g \<le> cv_trace32_build e \<and> cv_trace32_build e \<le> bg_maximum_build g \<and>
      cv_architecture_package e = bg_architecture_package g \<and>
      cv_target_identifier e = ta_target_identifier p \<and> cv_probe_identifier e = ta_probe_identifier p \<and>
      cv_license_features e = ta_license_features p \<and> cv_trace_routing e = ta_trace_routing p \<and>
      cv_capture_modes e = [pc_capture_mode c] \<and> cv_trace_sinks e = [pc_trace_sink c] \<and>
      cv_covered_cores e = pc_covered_cores c \<and> cv_timestamp_supported e = pc_timestamp_enabled c \<and>
      rtos_awareness_matches (pc_capture_kind c) (cv_rtos_awareness e) \<and>
      cv_health_signals e = ta_health_signals p)"

definition verify_capabilities_fields :: "adapter_run \<Rightarrow> 'a capabilities_evidence_scheme \<Rightarrow> unit adm" where
  "verify_capabilities_fields r e =
     rbind (run_capture r) (\<lambda>c.
       match_if (capabilities_match (rn_profile r) c e) ''capabilities evidence does not match selected profile'')"

definition verify_capabilities_v2 :: "adapter_run \<Rightarrow> capabilities_evidence_v2 \<Rightarrow> unit adm" where
  "verify_capabilities_v2 r e =
     rbind (run_capture r) (\<lambda>c.
     rthen (match_if (cv_initial_target_state e \<in> set (pc_supported_initial_states c))
              ''capabilities evidence v2 initial state is not supported'')
       (verify_capabilities_fields r e))"

definition configure_matches :: "capture_contract \<Rightarrow> configure_evidence \<Rightarrow> bool" where
  "configure_matches c e \<longleftrightarrow>
     pc_configuration_sha256 c (fv_initial_target_state e) = Some (fv_configuration_sha256 e) \<and>
     fv_capture_mode e = pc_capture_mode c \<and> fv_trace_sink e = pc_trace_sink c \<and>
     fv_timestamp_enabled e = pc_timestamp_enabled c \<and> fv_filters_verified e \<and> fv_trigger_verified e \<and>
     fv_workload_identity e = pc_workload_identity c \<and> fv_covered_cores e = pc_covered_cores c \<and>
     fv_initial_target_state e \<in> set (pc_supported_initial_states c)"

definition verify_configure :: "adapter_run \<Rightarrow> configure_evidence \<Rightarrow> unit adm" where
  "verify_configure r e =
     rbind (run_capture r) (\<lambda>c.
       match_if (configure_matches c e) ''configure evidence does not match fixed capture contract'')"

definition accept_configure :: "adapter_run \<Rightarrow> configure_evidence \<Rightarrow> adapter_run adm" where
  "accept_configure r e =
     rthen (verify_configure r e)
     (rthen
       (match_if (rn_capabilities_initial_state r \<in> {None, Some (fv_initial_target_state e)})
         ''configure evidence initial state differs from capabilities evidence v2'')
       (Inr (r\<lparr>rn_initial_target_state := Some (fv_initial_target_state e), rn_phase := PhConfigured\<rparr>)))"

subsection \<open>Start and stop\<close>

definition accept_start :: "adapter_run \<Rightarrow> start_evidence \<Rightarrow> adapter_run adm" where
  "accept_start r e =
     rthen (demand_sampling r False ''sampling profile requires start evidence v2'')
     (rbind (expect (rn_initial_target_state r)) (\<lambda>initial.
      rbind (run_capture r) (\<lambda>c.
      rthen
        (match_if
          (tv_initial_target_state e = initial \<and> tv_workload_identity e = pc_workload_identity c \<and>
           tv_capture_started e \<and> tv_workload_owned e)
          ''start evidence does not match fixed state/workload contract'')
        (Inr (r\<lparr>rn_phase := PhCapturing\<rparr>)))))"

definition accept_start_v2 :: "adapter_run \<Rightarrow> start_evidence_v2 \<Rightarrow> adapter_run adm" where
  "accept_start_v2 r e =
     rbind (expect (rn_initial_target_state r)) (\<lambda>initial.
     rbind (run_capture r) (\<lambda>c.
     rthen
       (match_if
         (tw_initial_target_state e = initial \<and> tw_workload_identity e = pc_workload_identity c \<and>
          tw_capture_armed e)
         ''sampling start evidence does not match fixed owner/window contract'')
       (Inr (r\<lparr>rn_phase := PhCapturing\<rparr>))))"

definition accept_stop :: "adapter_run \<Rightarrow> sha256_digest option \<Rightarrow> stop_evidence \<Rightarrow> adapter_run adm" where
  "accept_stop r artifact e =
     rthen (demand_sampling r False ''sampling profile requires stop evidence v2'')
     (rbind (expect (rn_initial_target_state r)) (\<lambda>initial.
      rbind (run_capture r) (\<lambda>c.
      rthen
        (match_if
          (ov_workload_identity e = pc_workload_identity c \<and> ov_capture_stopped e \<and>
           ov_workload_completed e \<and> ov_target_state_after_stop e = initial)
          ''stop evidence does not prove fixed workload completion'')
      (rbind (ok_or artifact
               (EvidenceMismatch ''program-flow Stop evidence requires its immutable artifact digest'')) (\<lambda>digest.
        Inr (r\<lparr>rn_stop_evidence_sha256 := Some digest, rn_phase := PhStopped\<rparr>))))))"

definition stop_v2_matches :: "capture_contract \<Rightarrow> target_state \<Rightarrow> u64 \<Rightarrow> stop_evidence_v2 \<Rightarrow> bool" where
  "stop_v2_matches c initial capacity e \<longleftrightarrow>
     ow_workload_identity e = pc_workload_identity c \<and> ow_capture_stopped e \<and>
     ow_target_state_after_stop e = initial \<and> ow_capacity_records e \<noteq> 0 \<and>
     ow_capacity_records e = capacity \<and> ow_recorded_records e \<noteq> 0 \<and>
     \<not> ow_capacity_records e < ow_recorded_records e \<and> ow_time_origin_zeroed e"

definition accept_stop_v2 :: "adapter_run \<Rightarrow> stop_evidence_v2 \<Rightarrow> adapter_run adm" where
  "accept_stop_v2 r e =
     rthen (demand_sampling r True ''program-flow profile requires stop evidence v1'')
     (rbind (expect (rn_initial_target_state r)) (\<lambda>initial.
      rbind (run_capture r) (\<lambda>c.
      rbind (expect (sampling_capacity_records (pc_capture_kind c))) (\<lambda>capacity.
      rthen (match_if (stop_v2_matches c initial capacity e)
               ''sampling stop evidence violates state or bounded-record contract'')
        (Inr (r\<lparr>rn_sampling_stop := Some (ow_pre_stop_state e, ow_recorded_records e, ow_capacity_records e),
               rn_phase := PhStopped\<rparr>))))))"

subsection \<open>Health\<close>

definition flow_healthy :: "program_flow_health \<Rightarrow> bool" where
  "flow_healthy e \<longleftrightarrow>
     \<not> pf_trace_overflow e \<and> \<not> pf_flow_error e \<and> \<not> pf_trace_gap e \<and> \<not> pf_truncated e \<and>
     \<not> pf_timestamp_discontinuity e \<and> pf_elf_matches_firmware e \<and> pf_program_flow_closed e"

definition exact_overflow :: "program_flow_health \<Rightarrow> bool" where
  "exact_overflow e \<longleftrightarrow>
     pf_trace_overflow e \<and> \<not> pf_flow_error e \<and> \<not> pf_trace_gap e \<and> \<not> pf_truncated e \<and>
     \<not> pf_timestamp_discontinuity e \<and> pf_elf_matches_firmware e \<and> \<not> pf_program_flow_closed e"

definition exact_flow_error :: "program_flow_health \<Rightarrow> bool" where
  "exact_flow_error e \<longleftrightarrow>
     pf_flow_error e \<and> \<not> pf_trace_overflow e \<and> \<not> pf_trace_gap e \<and> \<not> pf_truncated e \<and>
     \<not> pf_timestamp_discontinuity e \<and> pf_elf_matches_firmware e \<and> \<not> pf_program_flow_closed e"

fun flow_health_valid :: "adapter_scenario \<Rightarrow> program_flow_health \<Rightarrow> bool" where
  "flow_health_valid ScTraceOverflow e \<longleftrightarrow> exact_overflow e"
| "flow_health_valid ScFlowError e \<longleftrightarrow> exact_flow_error e"
| "flow_health_valid _ e \<longleftrightarrow> flow_healthy e"

fun flow_health_message :: "adapter_scenario \<Rightarrow> string" where
  "flow_health_message ScTraceOverflow = ''overflow scenario did not produce the exact invalid overflow health set''"
| "flow_health_message ScFlowError = ''flow-error scenario did not produce the exact invalid flow-error health set''"
| "flow_health_message _ = ''program-flow scenario contains adverse health facts''"

definition accept_health_v3 :: "adapter_run \<Rightarrow> program_flow_health \<Rightarrow> adapter_run adm" where
  "accept_health_v3 r e =
     rthen (demand_sampling r False ''sampling profile cannot accept program-flow health evidence v3'')
     (rthen
       (match_if
         (pf_capture_stopped e \<and> pf_supported_signals e = ta_health_signals (rn_profile r) \<and>
          rn_stop_evidence_sha256 r = Some (pf_stop_evidence_sha256 e))
         ''program-flow health requires a stopped capture and the selected signal set'')
     (rthen (match_if (flow_health_valid (rn_scenario r) e) (flow_health_message (rn_scenario r)))
       (Inr (r\<lparr>rn_phase := PhHealthVerified\<rparr>))))"

definition expected_buffer_full :: "pre_stop_state \<times> u64 \<times> u64 \<Rightarrow> bool" where
  "expected_buffer_full = (\<lambda>(pre, recorded, capacity). pre = PreBreak \<and> recorded = capacity)"

definition expected_unexpected_stop :: "pre_stop_state \<times> u64 \<times> u64 \<Rightarrow> bool" where
  "expected_unexpected_stop = (\<lambda>(pre, recorded, capacity). pre = PreBreak \<and> recorded < capacity)"

definition sampling_health_matches :: "adapter_run \<Rightarrow> pre_stop_state \<times> u64 \<times> u64 \<Rightarrow> sampling_health \<Rightarrow> bool" where
  "sampling_health_matches r stop e \<longleftrightarrow>
     (let s = sh_sampling e in
      sh_capture_stopped e \<and> sh_supported_signals e = ta_health_signals (rn_profile r) \<and>
      (sv_pre_stop_state s, sv_recorded_records s, sv_capacity_records s) = stop \<and>
      sv_buffer_full s = expected_buffer_full stop \<and> sv_unexpected_stop s = expected_unexpected_stop stop \<and>
      sv_setup s = RealTimePcStackOff \<and> sv_requested_rate_ns s = 1000000)"

definition verify_sampling_firmware_match :: "adapter_run \<Rightarrow> bool option \<Rightarrow> unit adm" where
  "verify_sampling_firmware_match r v =
     (case (SigElfMismatch \<in> set (ta_health_signals (rn_profile r)), v) of
        (True, Some True) \<Rightarrow> Inr ()
      | (False, None) \<Rightarrow> Inr ()
      | (True, Some False) \<Rightarrow> Inl (Err (EvidenceMismatch ''sampling health reports a firmware mismatch''))
      | (True, None) \<Rightarrow> Inl (Err (EvidenceMismatch ''sampling health omits required firmware-match evidence''))
      | (False, Some _) \<Rightarrow>
          Inl (Err (EvidenceMismatch ''sampling health claims unsupported firmware-match evidence'')))"

definition sampling_scenario_health :: "adapter_scenario \<Rightarrow> pre_stop_state \<times> u64 \<times> u64 \<Rightarrow> bool option \<Rightarrow> unit adm" where
  "sampling_scenario_health s stop elf =
     (let full = expected_buffer_full stop; unexpected = expected_unexpected_stop stop in
      case s of
        ScNormal \<Rightarrow>
          match_if (\<not> (full \<or> unexpected \<or> elf = Some False)) ''normal sampling scenario contains adverse health facts''
      | ScSamplingBufferFull \<Rightarrow>
          match_if (\<not> (\<not> full \<or> unexpected \<or> elf = Some False))
            ''sampling-buffer-full scenario did not stop at exact capacity''
      | ScSamplingUnexpectedStop \<Rightarrow>
          match_if (\<not> (\<not> unexpected \<or> full \<or> elf = Some False))
            ''unexpected-stop scenario did not stop before capacity''
      | ScTraceOverflow \<Rightarrow>
          Inl (Err (EvidenceMismatch ''sampling profile cannot claim flow-decoder fault scenarios''))
      | ScFlowError \<Rightarrow>
          Inl (Err (EvidenceMismatch ''sampling profile cannot claim flow-decoder fault scenarios''))
      | _ \<Rightarrow> Inr ())"

definition accept_health_v2 :: "adapter_run \<Rightarrow> sampling_health \<Rightarrow> adapter_run adm" where
  "accept_health_v2 r e =
     rthen (demand_sampling r True ''program-flow profile requires health evidence v3'')
     (rbind (ok_or (rn_sampling_stop r)
              (EvidenceMismatch ''sampling health has no accepted sampling stop evidence'')) (\<lambda>stop.
      rthen (match_if (sampling_health_matches r stop e)
               ''sampling health does not match immutable pre-stop facts'')
      (rthen (verify_sampling_firmware_match r (sh_elf_matches_firmware e))
      (rthen (sampling_scenario_health (rn_scenario r) stop (sh_elf_matches_firmware e))
        (Inr (r\<lparr>rn_phase := PhHealthVerified\<rparr>))))))"

subsection \<open>Cleanup\<close>

definition accept_cleanup :: "adapter_run \<Rightarrow> cleanup_evidence \<Rightarrow> adapter_run adm" where
  "accept_cleanup r e =
     rthen (demand_sampling r False ''sampling profile requires cleanup evidence v2'')
     (rthen
       (match_if (uv_adapter_state_restored e \<and> uv_target_state_restored e \<and> \<not> uv_files_deleted e)
         ''cleanup did not restore adapter and target state'')
       (Inr (r\<lparr>rn_phase := PhCleaned\<rparr>)))"

definition accept_cleanup_v2 :: "adapter_run \<Rightarrow> cleanup_evidence_v2 \<Rightarrow> adapter_run adm" where
  "accept_cleanup_v2 r e =
     rthen (demand_sampling r True ''program-flow profile requires cleanup evidence v1'')
     (rbind (expect (rn_initial_target_state r)) (\<lambda>initial.
      rthen
        (match_if
          (uw_initial_target_state e = initial \<and> uw_adapter_state_restored e \<and>
           uw_target_state_restored e \<and> \<not> uw_files_deleted e \<and> canonical_baseline (uw_sampling e))
          ''sampling cleanup did not prove the canonical baseline and initial target state'')
        (Inr (r\<lparr>rn_phase := PhCleaned\<rparr>))))"

subsection \<open>Operations\<close>

definition accept_capabilities :: "adapter_run \<Rightarrow> capabilities_evidence \<Rightarrow> adapter_run adm" where
  "accept_capabilities r e =
     rthen (demand_sampling r False ''sampling profile requires capabilities evidence v2'')
     (rthen (verify_capabilities_fields r e)
       (Inr (r\<lparr>rn_phase := PhCapabilitiesVerified\<rparr>)))"

definition accept_capabilities_v2 :: "adapter_run \<Rightarrow> capabilities_evidence_v2 \<Rightarrow> adapter_run adm" where
  "accept_capabilities_v2 r e =
     rthen (verify_capabilities_v2 r e)
       (Inr (r\<lparr>rn_capabilities_initial_state := Some (cv_initial_target_state e),
              rn_phase := PhCapabilitiesVerified\<rparr>))"

definition reject_health :: "adapter_run \<Rightarrow> adapter_run adm" where
  "reject_health r =
     rbind (run_is_sampling r) (\<lambda>sampling.
       Inl (Err (EvidenceMismatch
         (if sampling then ''sampling profile requires signal-scoped health evidence v2''
          else ''TASKEVENTS program flow requires stop-bound health evidence v3''))))"

definition accept_evidence_inner :: "adapter_run \<Rightarrow> controller_evidence \<Rightarrow> sha256_digest option \<Rightarrow> adapter_run adm" where
  "accept_evidence_inner r e artifact =
     (case (rn_phase r, e) of
        (PhNew, EvCapabilities v) \<Rightarrow> accept_capabilities r v
      | (PhNew, EvCapabilitiesV2 v) \<Rightarrow> accept_capabilities_v2 r v
      | (PhCapabilitiesVerified, EvConfigure v) \<Rightarrow> accept_configure r v
      | (PhConfigured, EvStart v) \<Rightarrow> accept_start r v
      | (PhConfigured, EvStartV2 v) \<Rightarrow> accept_start_v2 r v
      | (PhCapturing, EvStop v) \<Rightarrow> accept_stop r artifact v
      | (PhCapturing, EvStopV2 v) \<Rightarrow> accept_stop_v2 r v
      | (PhStopped, EvHealth _) \<Rightarrow> reject_health r
      | (PhStopped, EvHealthV3 v) \<Rightarrow> accept_health_v3 r v
      | (PhStopped, EvHealthV2 v) \<Rightarrow> accept_health_v2 r v
      | (PhExported, EvCleanup v) \<Rightarrow> accept_cleanup r v
      | (PhExported, EvCleanupV2 v) \<Rightarrow> accept_cleanup_v2 r v
      | _ \<Rightarrow> Inl (Err (UnexpectedEvidence (rn_phase r))))"

definition accept_evidence :: "adapter_run \<Rightarrow> controller_evidence \<Rightarrow> adapter_run adm" where
  "accept_evidence r e = accept_evidence_inner r e None"

definition accept_evidence_artifact :: "adapter_run \<Rightarrow> controller_evidence \<Rightarrow> sha256_digest \<Rightarrow> adapter_run adm" where
  "accept_evidence_artifact r e digest = accept_evidence_inner r e (Some digest)"

fun expected_export_code :: "capture_kind \<Rightarrow> string" where
  "expected_export_code (SamplingCapture _) = ''raw_ascii_exported''"
| "expected_export_code (TaskEventsCapture _ _ _ _ _) = ''task_events_exported''"

definition accept_export :: "adapter_run \<Rightarrow> script_response \<Rightarrow> adapter_run adm" where
  "accept_export r p =
     rbind (run_capture r) (\<lambda>c.
     rthen
       (ensure
         (rn_phase r = PhHealthVerified \<and> pr_operation p = Export \<and> pr_status p = StatusOk \<and>
          pr_code p = expected_export_code (pc_capture_kind c))
         InvalidExport)
       (Inr (r\<lparr>rn_phase := PhExported\<rparr>)))"

fun scenario_failure_kind :: "adapter_scenario \<Rightarrow> failure_kind option" where
  "scenario_failure_kind ScTrace32Disconnect = Some FailTrace32Disconnect"
| "scenario_failure_kind ScDriverDisconnect = Some FailDriverDisconnect"
| "scenario_failure_kind ScCmmAbort = Some FailCmmAbort"
| "scenario_failure_kind _ = None"

definition check_failed_operation :: "adapter_run \<Rightarrow> perf_operation \<Rightarrow> unit adm" where
  "check_failed_operation r op =
     rbind (ok_or (expected_operation (rn_phase r)) (FailureNotAllowed (rn_phase r))) (\<lambda>expected.
       ensure (op = expected) (WrongFailedOperation expected op))"

definition check_observed_state :: "adapter_run \<Rightarrow> target_state \<Rightarrow> unit adm" where
  "check_observed_state r observed =
     rbind (run_capture r) (\<lambda>c.
       ensure
         (observed \<in> set (pc_supported_initial_states c) \<and> rn_initial_target_state r \<in> {None, Some observed})
         FaultContractMismatch)"

definition require_recovery :: "adapter_run \<Rightarrow> perf_operation \<Rightarrow> sha256_digest \<Rightarrow> failure_kind \<Rightarrow> target_state \<Rightarrow> adapter_run" where
  "require_recovery r op binding kind observed =
     r\<lparr>rn_initial_target_state := Some observed, rn_failed_operation := Some op,
       rn_failure_kind := Some kind, rn_failed_binding := Some binding, rn_phase := PhRecoveryRequired\<rparr>"

definition record_failure :: "adapter_run \<Rightarrow> perf_operation \<Rightarrow> sha256_digest \<Rightarrow> failure_kind \<Rightarrow> target_state \<Rightarrow> adapter_run adm" where
  "record_failure r op binding kind observed =
     rthen (check_failed_operation r op)
     (rbind (ok_or (profile_scenario (rn_profile r) (rn_scenario r)) FaultContractMismatch) (\<lambda>contract.
      rthen
        (ensure
          (case (sn_fault_point contract, scenario_failure_kind (rn_scenario r)) of
             (Some point, Some expected) \<Rightarrow> fault_operation point = op \<and> kind = expected
           | _ \<Rightarrow> False)
          FaultContractMismatch)
      (rthen (check_observed_state r observed)
        (Inr (require_recovery r op binding kind observed)))))"

definition record_operation_failure :: "adapter_run \<Rightarrow> perf_operation \<Rightarrow> sha256_digest \<Rightarrow> target_state \<Rightarrow> adapter_run adm" where
  "record_operation_failure r op binding observed =
     rthen (ensure (rn_scenario r = ScNormal) FaultContractMismatch)
     (rthen (check_failed_operation r op)
     (rthen (check_observed_state r observed)
       (Inr (require_recovery r op binding FailOperation observed))))"

definition recovery_matches :: "adapter_run \<Rightarrow> sha256_digest \<Rightarrow> target_state \<Rightarrow> failure_kind \<Rightarrow> recovery_evidence \<Rightarrow> bool" where
  "recovery_matches r identity initial kind e \<longleftrightarrow>
     rv_profile_sha256 e = identity \<and> Some (rv_failed_operation e) = rn_failed_operation r \<and>
     rv_failure_kind e = kind \<and> rv_initial_target_state e = initial \<and>
     rv_restored_target_state e = initial \<and> rv_adapter_state_restored e \<and> \<not> rv_files_deleted e \<and>
     rv_new_session_required e \<and> rn_failed_binding r = Some (rv_binding_sha256 e) \<and>
     rv_upstream_abort_confirmed e \<and> rv_upstream_abort_receipt_sha256 e \<noteq> None"

definition recovery_sampling_matches :: "capture_kind \<Rightarrow> sampling_baseline option \<Rightarrow> bool" where
  "recovery_sampling_matches kind v =
     (case (v, is_sampling_kind kind) of
        (None, False) \<Rightarrow> True
      | (Some s, True) \<Rightarrow>
          canonical_baseline s \<and> sampling_capacity_records kind = Some (sb_capacity_records s)
      | _ \<Rightarrow> False)"

definition accept_recovery :: "adapter_host \<Rightarrow> adapter_run \<Rightarrow> recovery_evidence \<Rightarrow> adapter_run adm" where
  "accept_recovery h r e =
     rthen (validate_recovery e)
     (rthen (ensure (rn_phase r = PhRecoveryRequired) RecoveryNotExpected)
     (rbind (ok_or (rn_initial_target_state r) InitialStateUnknown) (\<lambda>initial.
      rbind (expect (rn_failure_kind r)) (\<lambda>kind.
      rbind (qualification_identity_digest h (rn_profile r)) (\<lambda>identity.
      rthen (ensure (recovery_matches r identity initial kind e) InvalidRecoveryEvidence)
      (rbind (run_capture r) (\<lambda>c.
      rthen (ensure (recovery_sampling_matches (pc_capture_kind c) (rv_sampling e)) InvalidRecoveryEvidence)
        (Inr (r\<lparr>rn_phase := PhRecoveredTerminal\<rparr>)))))))))"

end
