(* ===== verification/Target_Adapter_Properties.thy ===== *)
theory Target_Adapter_Properties
  imports Target_Adapter_Run Attestation_Properties
begin

text \<open>
  What the target-adapter contracts promise: a run never panics and passes its operations in the one
  fixed order, an accepted health document has no adverse fact unless the scenario injects it, and a
  registry only selects an adapter whose qualification was verified.
\<close>

subsection \<open>Digests\<close>

definition host_ok :: "adapter_host \<Rightarrow> bool" where
  "host_ok h \<longleftrightarrow> (\<forall>bytes. length (ah_sha256 h bytes) = 32)"

lemma hex_digit_lower:
  assumes "0 \<le> i" "i < 16"
  shows "is_digit (hex_digit i) \<or> CHR ''a'' \<le> hex_digit i \<and> hex_digit i \<le> CHR ''f''"
proof -
  have "hex_digit i \<in> set (map hex_digit [0..15])"
    using assms by simp
  moreover have "list_all (\<lambda>c. is_digit c \<or> CHR ''a'' \<le> c \<and> c \<le> CHR ''f'') ''0123456789abcdef''"
    by code_simp
  ultimately show ?thesis
    by (simp only: hex_digits list_all_iff)
qed

lemma nibbles_small: "uint (drop_bit 4 b) < 16" "uint (and b 0x0f) < 16" for b :: u8
proof -
  have "uint b < 256" using unsigned_less [of b, where 'a = int] by simp
  then show "uint (drop_bit 4 b) < 16" by (simp only: unsigned_drop_bit_eq) (simp add: drop_bit_eq_div take_bit_eq_mod)
  have "and b 0x0f = take_bit 4 b" by (simp add: take_bit_eq_mask mask_eq_exp_minus_1)
  then show "uint (and b 0x0f) < 16" by (simp only: unsigned_take_bit_eq) (simp add: take_bit_eq_mod)
qed

lemma digest_of_bytes:
  assumes "length bytes = 32"
  shows "digest_new (hex_encode bytes) = Inr (Sha256Digest (hex_encode bytes))"
proof -
  have "length (hex_encode xs) = 2 * length xs \<and>
      list_all (\<lambda>c. is_digit c \<or> CHR ''a'' \<le> c \<and> c \<le> CHR ''f'') (hex_encode xs)" for xs
    by (induction xs) (simp_all add: hex_encode_def hex_digit_lower nibbles_small)
  then show ?thesis
    using assms by (simp add: digest_new_def is_lower_hex_def)
qed

lemma sha256_of_Inr: "host_ok h \<Longrightarrow> sha256_of h bytes = Inr (Sha256Digest (hex_encode (ah_sha256 h bytes)))"
  by (simp add: sha256_of_def digest_of_bytes host_ok_def)

subsection \<open>Panics\<close>

lemma adapter_text_Panic [simp]: "adapter_text f v \<noteq> Inl Panic"
  by (simp add: adapter_text_def)

lemma adapter_texts_Panic [simp]: "adapter_texts fs \<noteq> Inl Panic"
  unfolding adapter_texts_def by (rule each_Panic) (auto split: prod.splits)

lemma adapter_unique_Panic [simp]: "adapter_unique f vs n \<noteq> Inl Panic"
  by (simp add: adapter_unique_def panic_simps)

lemma adapter_unique_text_Panic [simp]: "adapter_unique_text f vs n \<noteq> Inl Panic"
  by (simp add: adapter_unique_text_def panic_simps each_Panic)

lemma validate_capabilities_Panic [simp]: "validate_capabilities c \<noteq> Inl Panic"
  unfolding validate_capabilities_def
  by (rule each_Panic) (auto simp: validate_capability_def panic_simps each_new_Panic split: prod.splits)

lemma validate_collector_Panic [simp]: "validate_collector c \<noteq> Inl Panic"
  by (auto simp: validate_collector_def panic_simps collector_artifact_def intro!: each_Panic)

lemma validate_capture_contract_Panic [simp]: "validate_capture_contract c \<noteq> Inl Panic"
  by (cases "pc_capture_kind c") (simp_all add: validate_capture_contract_def panic_simps)

lemma profile_scenario_some:
  assumes "s \<in> set (map sn_scenario (ta_scenarios p))"
  shows "\<exists>c. profile_scenario p s = Some c"
proof -
  have "find (\<lambda>c. sn_scenario c = s) cs \<noteq> None" if "s \<in> set (map sn_scenario cs)" for cs
    using that by (induction cs) auto
  then show ?thesis using assms by (auto simp: profile_scenario_def)
qed

lemma validate_kind_scenarios_Panic [simp]: "validate_kind_scenarios k ss p \<noteq> Inl Panic"
  by (auto simp: validate_kind_scenarios_def panic_simps intro!: each_Panic)

lemma validate_collector_scenario_Panic [simp]: "validate_collector_scenario k c \<noteq> Inl Panic"
  by (simp add: validate_collector_scenario_def panic_simps split: capture_kind.splits)

lemma validate_protocol_Panic [simp]: "validate_protocol k p \<noteq> Inl Panic"
  by (simp add: validate_protocol_def Let_def panic_simps each_Panic
      split: controller_protocol.splits option.splits)

lemma validate_profile_Panic [simp]: "validate_profile p \<noteq> Inl Panic"
proof -
  have "each (validate_scenario_contract n) cs \<noteq> Inl Panic" for n cs
    by (rule each_Panic) (simp add: validate_scenario_contract_def Let_def panic_simps)
  moreover have "each (validate_required_signal ss sg) required_signals \<noteq> Inl Panic" for ss sg
    by (rule each_Panic) (auto simp: validate_required_signal_def)
  moreover have "validate_profile_identity p \<noteq> Inl Panic"
    by (simp add: validate_profile_identity_def Let_def panic_simps)
  ultimately show ?thesis
    using profile_scenario_some [of ScNormal p]
    by (auto simp: validate_profile_def Let_def panic_simps)
qed

lemma identity_digest_Panic: "host_ok h \<Longrightarrow> qualification_identity_digest h p \<noteq> Inl Panic"
  by (simp add: qualification_identity_digest_def profile_digest_def panic_simps sha256_of_Inr)

subsection \<open>Steps of a run\<close>

definition run_ok :: "adapter_run \<Rightarrow> bool" where
  "run_ok r \<longleftrightarrow>
     profile_scenario (rn_profile r) (rn_scenario r) \<noteq> None \<and>
     (rn_phase r \<in> {PhConfigured, PhCapturing, PhStopped, PhHealthVerified, PhExported, PhRecoveryRequired} \<longrightarrow>
        rn_initial_target_state r \<noteq> None) \<and>
     (rn_phase r = PhRecoveryRequired \<longrightarrow> rn_failure_kind r \<noteq> None)"

inductive run_step :: "adapter_host \<Rightarrow> adapter_run \<Rightarrow> perf_operation option \<Rightarrow> adapter_run \<Rightarrow> bool" for h where
  evidence: "accept_evidence_inner r e artifact = Inr r' \<Longrightarrow> run_step h r (Some (evidence_operation e)) r'"
| export: "accept_export r p = Inr r' \<Longrightarrow> run_step h r (Some Export) r'"
| failure: "record_failure r op binding kind observed = Inr r' \<Longrightarrow> run_step h r None r'"
| operation_failure: "record_operation_failure r op binding observed = Inr r' \<Longrightarrow> run_step h r None r'"
| recovery: "accept_recovery h r e = Inr r' \<Longrightarrow> run_step h r None r'"

text \<open>A run of a profile with the operations it has completed.\<close>

inductive run_exec :: "adapter_host \<Rightarrow> adapter_profile \<Rightarrow> adapter_scenario \<Rightarrow> perf_operation list \<Rightarrow> adapter_run \<Rightarrow> bool"
  for h p s where
  start: "run_new p s = Inr r \<Longrightarrow> run_exec h p s [] r"
| completed: "run_exec h p s ops r \<Longrightarrow> run_step h r (Some op) r' \<Longrightarrow> run_exec h p s (ops @ [op]) r'"
| interrupted: "run_exec h p s ops r \<Longrightarrow> run_step h r None r' \<Longrightarrow> run_exec h p s ops r'"

fun next_phase :: "adapter_phase \<Rightarrow> adapter_phase" where
  "next_phase PhNew = PhCapabilitiesVerified"
| "next_phase PhCapabilitiesVerified = PhConfigured"
| "next_phase PhConfigured = PhCapturing"
| "next_phase PhCapturing = PhStopped"
| "next_phase PhStopped = PhHealthVerified"
| "next_phase PhHealthVerified = PhExported"
| "next_phase PhExported = PhCleaned"
| "next_phase ph = ph"

definition same_setup :: "adapter_run \<Rightarrow> adapter_run \<Rightarrow> bool" where
  "same_setup r r' \<longleftrightarrow>
     rn_profile r' = rn_profile r \<and> rn_scenario r' = rn_scenario r \<and> rn_failure_kind r' = rn_failure_kind r \<and>
     (if rn_phase r = PhCapabilitiesVerified then rn_initial_target_state r' \<noteq> None
      else rn_initial_target_state r' = rn_initial_target_state r)"

lemmas accept_defs =
  accept_capabilities_def accept_capabilities_v2_def accept_configure_def accept_start_def
  accept_start_v2_def accept_stop_def accept_stop_v2_def reject_health_def accept_health_v2_def
  accept_health_v3_def accept_cleanup_def accept_cleanup_v2_def

lemma accept_evidence_step:
  assumes "accept_evidence_inner r e artifact = Inr r'"
  shows "expected_operation (rn_phase r) = Some (evidence_operation e) \<and> rn_phase r' = next_phase (rn_phase r) \<and>
    same_setup r r' \<and> evidence_operation e \<noteq> Export"
proof (cases "rn_phase r")
  case PhNew
  then show ?thesis using assms
    by (cases e) (auto simp: accept_evidence_inner_def accept_defs result_simps same_setup_def)
next
  case PhCapabilitiesVerified
  then show ?thesis using assms
    by (cases e) (auto simp: accept_evidence_inner_def accept_defs result_simps same_setup_def)
next
  case PhConfigured
  then show ?thesis using assms
    by (cases e) (auto simp: accept_evidence_inner_def accept_defs result_simps same_setup_def)
next
  case PhCapturing
  then show ?thesis using assms
    by (cases e) (auto simp: accept_evidence_inner_def accept_defs result_simps same_setup_def)
next
  case PhStopped
  then show ?thesis using assms
    by (cases e) (auto simp: accept_evidence_inner_def accept_defs result_simps same_setup_def)
next
  case PhExported
  then show ?thesis using assms
    by (cases e) (auto simp: accept_evidence_inner_def accept_defs result_simps same_setup_def)
qed (use assms in \<open>cases e; simp add: accept_evidence_inner_def\<close>)+

lemma accept_export_step:
  "accept_export r p = Inr r' \<Longrightarrow>
     rn_phase r = PhHealthVerified \<and> r' = r\<lparr>rn_phase := PhExported\<rparr>"
  by (auto simp: accept_export_def result_simps)

lemma recovery_step:
  "accept_recovery h r e = Inr r' \<Longrightarrow>
     rn_phase r = PhRecoveryRequired \<and> r' = r\<lparr>rn_phase := PhRecoveredTerminal\<rparr>"
  by (auto simp: accept_recovery_def result_simps)

lemma check_failed_operation_Inr:
  "check_failed_operation r op = Inr () \<Longrightarrow> expected_operation (rn_phase r) = Some op"
  by (auto simp: check_failed_operation_def result_simps)

lemma check_observed_state_Inr:
  "check_observed_state r observed = Inr () \<Longrightarrow> rn_initial_target_state r \<in> {None, Some observed}"
  by (auto simp: check_observed_state_def result_simps)

lemma failure_step:
  assumes "record_failure r op binding kind observed = Inr r' \<or> record_operation_failure r op binding observed = Inr r'"
  shows "expected_operation (rn_phase r) = Some op \<and> rn_initial_target_state r \<in> {None, Some observed} \<and>
    (\<exists>k. r' = require_recovery r op binding k observed)"
  using assms
  by (auto simp: record_failure_def record_operation_failure_def result_simps
      dest!: check_failed_operation_Inr check_observed_state_Inr)

lemma run_step_cases:
  assumes "run_step h r l r'"
  obtains (advanced) op where "l = Some op" "expected_operation (rn_phase r) = Some op"
      "rn_phase r' = next_phase (rn_phase r)" "same_setup r r'"
  | (failed) op binding k observed where "l = None" "expected_operation (rn_phase r) = Some op"
      "rn_initial_target_state r \<in> {None, Some observed}" "r' = require_recovery r op binding k observed"
  | (recovered) "l = None" "rn_phase r = PhRecoveryRequired" "r' = r\<lparr>rn_phase := PhRecoveredTerminal\<rparr>"
  using assms
proof cases
  case (evidence e artifact)
  then show ?thesis using accept_evidence_step advanced by blast
next
  case (export p)
  then have "expected_operation (rn_phase r) = Some Export" "rn_phase r' = next_phase (rn_phase r)" "same_setup r r'"
    using accept_export_step [OF export(2)] by (simp_all add: same_setup_def)
  then show ?thesis using export(1) advanced by blast
next
  case (failure op binding kind observed)
  then show ?thesis using failure_step [of r op binding kind observed r'] failed by blast
next
  case (operation_failure op binding observed)
  then show ?thesis using failure_step [of r op binding _ observed r'] failed by blast
next
  case (recovery e)
  then show ?thesis using recovery_step recovered by blast
qed

lemma run_ok_step: "run_step h r l r' \<Longrightarrow> run_ok r \<Longrightarrow> run_ok r'"
proof (erule run_step_cases)
  fix op assume "run_ok r" "rn_phase r' = next_phase (rn_phase r)" "same_setup r r'"
    "expected_operation (rn_phase r) = Some op"
  then show "run_ok r'"
    by (cases "rn_phase r") (auto simp: run_ok_def same_setup_def)
qed (auto simp: run_ok_def require_recovery_def)

lemma run_exec_ok:
  assumes "run_exec h p s ops r"
  shows "run_ok r \<and> rn_profile r = p \<and> rn_scenario r = s \<and> validate_profile p = Inr ()"
  using assms
proof induction
  case (start r)
  then show ?case by (auto simp: run_new_def result_simps run_ok_def)
next
  case (completed ops r op r')
  then show ?case using run_ok_step by (metis run_step_cases same_setup_def option.distinct(1))
next
  case (interrupted ops r r')
  then have "rn_profile r' = rn_profile r \<and> rn_scenario r' = rn_scenario r"
    by (auto elim!: run_step_cases simp: require_recovery_def)
  then show ?case using interrupted run_ok_step by auto
qed

subsection \<open>Order of the operations\<close>

definition capture_sequence :: "perf_operation list" where
  "capture_sequence = [GetCapabilities, Configure, Start, Stop, GetHealth, Export, Cleanup]"

definition phase_after :: "nat \<Rightarrow> adapter_phase" where
  "phase_after n = (next_phase ^^ n) PhNew"

lemma phase_after_cases:
  assumes "n \<le> 7"
  shows "expected_operation (phase_after n) = (if n < 7 then Some (capture_sequence ! n) else None) \<and>
    next_phase (phase_after n) = phase_after (Suc n) \<and> phase_after n \<notin> {PhRecoveryRequired, PhRecoveredTerminal}"
proof -
  have "n \<in> {0, 1, 2, 3, 4, 5, 6, 7}" using assms by auto
  then show ?thesis
    by (auto simp: phase_after_def capture_sequence_def numeral_eq_Suc)
qed

lemma length_capture_sequence [simp]: "length capture_sequence = 7"
  by (simp add: capture_sequence_def)

lemma run_exec_in_order:
  "run_exec h p s ops r \<Longrightarrow>
     ops = take (length ops) capture_sequence \<and> length ops \<le> 7 \<and>
     (rn_phase r = phase_after (length ops) \<or>
      rn_phase r \<in> {PhRecoveryRequired, PhRecoveredTerminal} \<and> length ops < 7)"
proof (induction rule: run_exec.induct)
  case (start r)
  then show ?case by (auto simp: run_new_def result_simps phase_after_def)
next
  case (completed ops r op r')
  from completed.hyps(2) have e: "expected_operation (rn_phase r) = Some op" "rn_phase r' = next_phase (rn_phase r)"
    by (auto elim: run_step_cases)
  with completed.IH have n: "rn_phase r = phase_after (length ops)" by auto
  with e completed.IH phase_after_cases have "length ops < 7" "op = capture_sequence ! length ops"
    by (metis option.distinct(1) option.sel)+
  with completed.IH e n phase_after_cases [of "length ops"] show ?case
    by (simp add: take_Suc_conv_app_nth)
next
  case (interrupted ops r r')
  then show ?case
    using phase_after_cases [of "length ops"]
    by (auto elim!: run_step_cases simp: require_recovery_def split: if_splits)
qed

text \<open>
  C37: A run completes its operations in the one fixed order, each at most once: what it has completed is a
  prefix of the capture sequence, and its phase is the one after that prefix unless it was interrupted
  before the end. A run that finished or was interrupted completes nothing more.
\<close>
theorem adapter_operations_in_order:
  "run_exec h p s ops r \<Longrightarrow>
     ops = take (length ops) capture_sequence \<and> length ops \<le> 7 \<and>
     (rn_phase r = phase_after (length ops) \<or>
      rn_phase r \<in> {PhRecoveryRequired, PhRecoveredTerminal} \<and> length ops < 7)"
  by (rule run_exec_in_order)

subsection \<open>No panic\<close>

lemma accept_evidence_Panic:
  assumes "run_ok r"
  shows "accept_evidence_inner r e artifact \<noteq> Inl Panic"
proof -
  obtain c where c: "profile_scenario (rn_profile r) (rn_scenario r) = Some c"
    using assms by (auto simp: run_ok_def)
  note defs = accept_evidence_inner_def accept_defs demand_sampling_def run_is_sampling_def run_capture_def
    match_if_def verify_capabilities_fields_def verify_capabilities_v2_def verify_configure_def panic_simps
  have elf: "verify_sampling_firmware_match r v \<noteq> Inl Panic" for v
    by (simp add: verify_sampling_firmware_match_def split: option.splits bool.splits)
  have sc: "sampling_scenario_health s stop v \<noteq> Inl Panic" for s stop v
    by (cases s) (simp_all add: sampling_scenario_health_def match_if_def Let_def)
  consider (stopping) "rn_phase r = PhCapturing" | (other) "rn_phase r \<noteq> PhCapturing" by blast
  then show ?thesis
  proof cases
    case stopping
    then obtain t where "rn_initial_target_state r = Some t" using assms by (auto simp: run_ok_def)
    with c stopping show ?thesis
      by (cases e; cases "pc_capture_kind (sn_capture c)") (simp_all add: defs)
  next
    case other
    then show ?thesis
      using assms c elf sc
      by (cases "rn_phase r"; cases e) (auto simp: defs run_ok_def)
  qed
qed

lemma failure_Panic:
  assumes "run_ok r"
  shows "record_failure r op binding kind observed \<noteq> Inl Panic"
    and "record_operation_failure r op binding observed \<noteq> Inl Panic"
  using assms
  by (auto simp: record_failure_def record_operation_failure_def check_failed_operation_def
      check_observed_state_def run_capture_def run_ok_def panic_simps)

lemma recovery_Panic:
  assumes "host_ok h" "run_ok r"
  shows "accept_recovery h r e \<noteq> Inl Panic"
  using assms identity_digest_Panic
  by (auto simp: accept_recovery_def validate_recovery_def run_capture_def run_ok_def panic_simps)

text \<open>
  No operation on a run panics, whatever evidence, response or failure it is given and whatever was
  accepted before: the states that the code takes for granted in its \<open>expect\<close> calls hold in every
  reachable run.
\<close>
theorem adapter_run_never_panics:
  assumes "host_ok h" and "run_exec h p s ops r"
  shows "accept_evidence_inner r e artifact \<noteq> Inl Panic \<and> accept_export r response \<noteq> Inl Panic \<and>
    record_failure r op binding kind observed \<noteq> Inl Panic \<and>
    record_operation_failure r op binding observed \<noteq> Inl Panic \<and> accept_recovery h r evidence \<noteq> Inl Panic"
proof -
  have ok: "run_ok r" using run_exec_ok [OF assms(2)] by simp
  then have "accept_export r response \<noteq> Inl Panic"
    by (auto simp: accept_export_def run_capture_def run_ok_def panic_simps)
  with ok assms(1) accept_evidence_Panic failure_Panic recovery_Panic show ?thesis by blast
qed

subsection \<open>Accepted health\<close>

fun accepted_health_of :: "controller_evidence \<Rightarrow> accepted_health option" where
  "accepted_health_of (EvHealthV2 v) = Some (Sampling v)"
| "accepted_health_of (EvHealthV3 v) = Some (ProgramFlow v)"
| "accepted_health_of _ = None"

text \<open>The adverse facts that a scenario injects.\<close>

fun injected_codes :: "adapter_scenario \<Rightarrow> string list" where
  "injected_codes ScTraceOverflow = [''trace_overflow'', ''program_flow_unclosed'']"
| "injected_codes ScFlowError = [''flow_error'', ''program_flow_unclosed'']"
| "injected_codes ScSamplingBufferFull = [''sampling_buffer_full'']"
| "injected_codes ScSamplingUnexpectedStop = [''sampling_unexpected_stop'']"
| "injected_codes _ = []"

lemma flow_health_codes:
  "flow_health_valid s v \<Longrightarrow> s \<notin> {ScSamplingBufferFull, ScSamplingUnexpectedStop} \<Longrightarrow>
     health_codes (ProgramFlow v) = injected_codes s"
  by (cases s) (simp_all add: flow_healthy_def exact_overflow_def exact_flow_error_def codes_of_def)

lemma sampling_health_codes:
  assumes "sampling_health_matches r stop v"
    and "verify_sampling_firmware_match r (sh_elf_matches_firmware v) = Inr ()"
    and "sampling_scenario_health s stop (sh_elf_matches_firmware v) = Inr ()" and "\<not> interrupted s"
  shows "health_codes (Sampling v) = injected_codes s"
proof -
  have "sh_elf_matches_firmware v \<noteq> Some False"
    using assms(2) by (auto simp: verify_sampling_firmware_match_def split: if_splits bool.splits)
  then show ?thesis
    using assms
    by (cases s) (auto simp: sampling_health_matches_def sampling_scenario_health_def Let_def match_if_def codes_of_def)
qed

lemma kind_of_scenarios:
  assumes "validate_profile p = Inr ()" and "profile_scenario p s = Some c"
  shows "\<not> is_sampling_kind (pc_capture_kind (sn_capture c)) \<longrightarrow> s \<notin> {ScSamplingBufferFull, ScSamplingUnexpectedStop}"
proof -
  have c: "c \<in> set (ta_scenarios p)" "sn_scenario c = s"
    using assms(2) by (auto simp: profile_scenario_def find_Some_iff)
  obtain n where n: "profile_scenario p ScNormal = Some n"
    and each: "\<forall>x\<in>set (ta_scenarios p). validate_scenario_contract (sn_capture n) x = Inr ()"
    and kinds: "validate_kind_scenarios (pc_capture_kind (sn_capture n)) (map sn_scenario (ta_scenarios p)) p = Inr ()"
    using assms(1) by (auto simp: validate_profile_def Let_def result_simps expect_def split: option.splits)
  have "is_sampling_kind (pc_capture_kind (sn_capture c)) = is_sampling_kind (pc_capture_kind (sn_capture n))"
    using each c(1) by (auto simp: validate_scenario_contract_def Let_def result_simps)
  then show ?thesis
    using kinds c by (auto simp: validate_kind_scenarios_def result_simps list_ex_iff split: if_splits)
qed

text \<open>
  The health evidence that a run accepts has exactly the adverse facts its scenario injects, as the
  observations of the attestation name them: none in the normal scenario.
\<close>
theorem accepted_health_matches_scenario:
  assumes run: "run_exec h p s ops r" and accepted: "accept_evidence_inner r e artifact = Inr r'"
    and health: "accepted_health_of e = Some v" and "\<not> interrupted s"
  shows "health_codes v = injected_codes s"
proof -
  have r: "rn_profile r = p" "rn_scenario r = s" "validate_profile p = Inr ()"
    using run_exec_ok [OF run] by auto
  have phase: "rn_phase r = PhStopped"
    using accept_evidence_step [OF accepted] health by (cases "rn_phase r"; cases e) auto
  note inner = accepted [unfolded accept_evidence_inner_def phase]
  show ?thesis
  proof (cases e)
    case (EvHealthV2 w)
    with inner have "accept_health_v2 r w = Inr r'" by simp
    then obtain stop where
      w: "sampling_health_matches r stop w" "verify_sampling_firmware_match r (sh_elf_matches_firmware w) = Inr ()"
      "sampling_scenario_health s stop (sh_elf_matches_firmware w) = Inr ()"
      unfolding accept_health_v2_def rthen_eq_Inr rbind_eq_Inr match_if_def ensure_eq_Inr r(2) by auto
    from sampling_health_codes [OF w assms(4)] show ?thesis using health EvHealthV2 by auto
  next
    case (EvHealthV3 w)
    with inner have "accept_health_v3 r w = Inr r'" by simp
    then have f: "flow_health_valid s w"
      "demand_sampling r False ''sampling profile cannot accept program-flow health evidence v3'' = Inr ()"
      unfolding accept_health_v3_def rthen_eq_Inr match_if_def ensure_eq_Inr r(2) by auto
    obtain c where "profile_scenario p s = Some c" "\<not> is_sampling_kind (pc_capture_kind (sn_capture c))"
      using f(2) r by (auto simp: demand_sampling_def run_is_sampling_def run_capture_def match_if_def result_simps
          expect_def split: option.splits)
    then show ?thesis using kind_of_scenarios [OF r(3)] flow_health_codes [OF f(1)] health EvHealthV3 by auto
  qed (use health in simp_all)
qed

subsection \<open>The registry\<close>

definition qualified_entry :: "adapter_host \<Rightarrow> registered_adapter \<Rightarrow> bool" where
  "qualified_entry h a \<longleftrightarrow>
     validate_profile (rd_profile a) = Inr () \<and>
     (\<exists>bytes. ah_receipt h bytes = Inr (rd_receipt a) \<and> validate_receipt_for h (rd_receipt a) (rd_profile a) bytes = Inr ())"

inductive registry_reached :: "adapter_host \<Rightarrow> adapter_registry \<Rightarrow> bool" for h where
  empty: "registry_reached h []"
| register: "registry_reached h m \<Longrightarrow> registry_reached h (snd (adapter_register h m p bytes))"

lemma registry_entries:
  "registry_reached h m \<Longrightarrow> bt_sorted m \<and> (\<forall>k a. bt_get m k = Some a \<longrightarrow> qualified_entry h a)"
proof (induction rule: registry_reached.induct)
  case (register m p bytes)
  show ?case
  proof (cases "fst (adapter_register h m p bytes)")
    case (Inl e)
    then have "snd (adapter_register h m p bytes) = m"
      by (auto simp: adapter_register_def split: sum.splits)
    then show ?thesis using register by simp
  next
    case (Inr u)
    then obtain r where r: "parse_receipt h bytes = Inr r" "validate_receipt_for h r p bytes = Inr ()"
        "validate_profile p = Inr ()"
        "snd (adapter_register h m p bytes) = bt_insert (ta_adapter_id p) \<lparr>rd_profile = p, rd_receipt = r\<rparr> m"
      by (auto simp: adapter_register_def result_simps split: sum.splits)
    then have "ah_receipt h bytes = Inr r"
      by (auto simp: parse_receipt_def result_simps split: sum.splits)
    with r register.IH show ?thesis
      by (auto simp: qualified_entry_def bt_sorted_insert split: if_splits)
  qed
qed (auto simp: bt_sorted_def)

lemma matching_found:
  "matching h f s as = Inr bs \<Longrightarrow>
     (\<forall>b. b \<in> set bs \<longleftrightarrow> b \<in> set as \<and> profile_matches h (f b) s = Inr True)"
  by (induction as arbitrary: bs) (auto simp: result_simps split: if_splits)

lemma select_one_Inr:
  assumes "select_one h f m s = Inr a"
  shows "a \<in> set (bt_values m) \<and> profile_matches h (f a) s = Inr True \<and>
    (\<forall>b\<in>set (bt_values m). profile_matches h (f b) s = Inr True \<longrightarrow> b = a)"
proof -
  obtain bs where bs: "matching h f s (bt_values m) = Inr bs"
    "(case bs of [a] \<Rightarrow> Inr a | [] \<Rightarrow> Inl (Err NoMatchingAdapter)
        | _ \<Rightarrow> Inl (Err (AmbiguousAdapter (map (\<lambda>a. ta_adapter_id (f a)) bs)))) = Inr a"
    using assms by (auto simp: select_one_def result_simps)
  then have "bs = [a]" by (auto split: list.splits)
  with bs(1) show ?thesis using matching_found [OF bs(1)] by auto
qed

lemma profile_matches_True: "profile_matches h p s = Inr True \<Longrightarrow> runtime_matches p s"
  by (auto simp: profile_matches_def split: if_splits)

text \<open>
  A registry only selects an adapter whose qualification receipt was verified: the bytes of the
  receipt hash to the claim of the profile, the receipt names the digest of the candidate profile, and
  the runtime identity that was asked for is the one that was qualified, build included. No other
  registered adapter matches.
\<close>
theorem registry_selects_qualified:
  assumes "host_ok h" and "registry_reached h m" and "registry_select h m s = Inr a"
  shows "(\<exists>bytes. ah_receipt h bytes = Inr (rd_receipt a) \<and>
            ta_qualification_sha256 (rd_profile a) = Some (Sha256Digest (hex_encode (ah_sha256 h bytes)))) \<and>
    qualification_identity_digest h (rd_profile a) = Inr (qr_candidate_profile_sha256 (rd_receipt a)) \<and>
    qr_trace32_release (rd_receipt a) = sl_trace32_release s \<and>
    qr_trace32_build (rd_receipt a) = sl_trace32_build s \<and>
    qr_architecture_package (rd_receipt a) = sl_architecture_package s \<and>
    qr_target_identifier (rd_receipt a) = sl_target_identifier s \<and>
    qr_probe_identifier (rd_receipt a) = sl_probe_identifier s \<and>
    (\<forall>b\<in>set (bt_values m). profile_matches h (rd_profile b) s = Inr True \<longrightarrow> b = a)"
proof -
  note one = select_one_Inr [OF assms(3) [unfolded registry_select_def]]
  then obtain k where "bt_get m k = Some a"
    using registry_entries [OF assms(2)] bt_values_get by metis
  then have q: "qualified_entry h a" using registry_entries [OF assms(2)] by blast
  then obtain bytes where b: "ah_receipt h bytes = Inr (rd_receipt a)"
    "validate_receipt_for h (rd_receipt a) (rd_profile a) bytes = Inr ()"
    by (auto simp: qualified_entry_def)
  then have v: "ta_qualification_sha256 (rd_profile a) = Some (Sha256Digest (hex_encode (ah_sha256 h bytes)))"
    "qualification_identity_digest h (rd_profile a) = Inr (qr_candidate_profile_sha256 (rd_receipt a))"
    "receipt_matches_runtime (rd_receipt a) (rd_profile a)"
    using assms(1) by (auto simp: validate_receipt_for_def result_simps sha256_of_Inr)
  have "runtime_matches (rd_profile a) s" using one profile_matches_True by blast
  then have "qr_trace32_release (rd_receipt a) = sl_trace32_release s \<and>
    qr_trace32_build (rd_receipt a) = sl_trace32_build s \<and>
    qr_architecture_package (rd_receipt a) = sl_architecture_package s \<and>
    qr_target_identifier (rd_receipt a) = sl_target_identifier s \<and>
    qr_probe_identifier (rd_receipt a) = sl_probe_identifier s"
    using v(3) by (auto simp: runtime_matches_def receipt_matches_runtime_def Let_def)
  with v(1,2) b(1) one show ?thesis by blast
qed

text \<open>
  A refused registration leaves the registry as it was, whereas the admission catalog replaces the
  adapter that was admitted under the same identifier by the one it refuses.
\<close>
theorem duplicate_admission_replaces:
  assumes "validate_profile p = Inr ()" and "\<not> has_qualification_claim p"
    and "bt_get m (ta_adapter_id p) = Some admitted"
  shows "fst (admit_candidate m p) = Inl (Err (DuplicateAdapter (ta_adapter_id p))) \<and>
    bt_get (snd (admit_candidate m p)) (ta_adapter_id p) = Some \<lparr>ad_profile = p, ad_receipt = None\<rparr> \<and>
    (\<forall>e m'. adapter_register h reg q bytes = (Inl e, m') \<longrightarrow> m' = reg)"
  using assms
  by (auto simp: admit_candidate_def catalog_insert_def adapter_register_def Let_def split: sum.splits)

end
