(* ===== verification/Tc234l_Properties.thy ===== *)
theory Tc234l_Properties
  imports Tc234l_Profile Target_Adapter_Properties
begin

text \<open>
  The compiled adapter is a valid candidate, and concrete runs of it that witness the properties of
  the target-adapter contracts.
\<close>

subsection \<open>The configurations\<close>

fun flat_value :: "json \<Rightarrow> bool" where
  "flat_value (JStr t) \<longleftrightarrow> length t \<le> 4096 \<and> \<not> has_control t"
| "flat_value (JPos _) \<longleftrightarrow> True"
| "flat_value (JBool _) \<longleftrightarrow> True"
| "flat_value _ \<longleftrightarrow> False"

definition flat_entry :: "string \<times> json \<Rightarrow> bool" where
  "flat_entry = (\<lambda>(k, v). \<not> blank k \<and> length k \<le> 128 \<and> \<not> has_control k \<and> flat_value v)"

lemma flat_entries:
  "list_all flat_entry kvs \<Longrightarrow> depth < 16 \<Longrightarrow> validate_config_entries field depth n kvs = Inr n"
proof (induction kvs)
  case (Cons kv kvs)
  obtain k v where kv: "kv = (k, v)" by fastforce
  have "validate_config_value field (depth + 1) n v = Inr n"
    using Cons.prems kv by (cases v) (simp_all add: flat_entry_def)
  then show ?case using Cons kv by (simp add: flat_entry_def)
qed simp

lemma length_parameters_le: "length (bt_insert k v m) \<le> Suc (length m)"
  by (induction m) auto

lemma length_fold_insert: "length (fold (\<lambda>kv m. bt_insert (fst kv) (snd kv) m) ps m) \<le> length ps + length m"
proof (induction ps arbitrary: m)
  case (Cons p ps)
  show ?case using Cons.IH [of "bt_insert (fst p) (snd p) m"] length_parameters_le [of "fst p" "snd p" m] by simp
qed simp

lemma flat_properties:
  assumes "list_all flat_entry kvs" and "length kvs \<le> 1024"
  shows "validate_config_properties field (bt_of_list kvs) = Inr ()"
proof -
  have "set (bt_of_list kvs) \<subseteq> set kvs"
    by (auto simp: bt_mem_get bt_sorted_of_list bt_get_of_list dest!: map_of_SomeD)
  then have "list_all flat_entry (bt_of_list kvs)"
    using assms(1) by (auto simp: list_all_iff)
  moreover have "length (bt_of_list kvs) \<le> length kvs"
    using length_fold_insert [of kvs "[]"] by (simp add: bt_of_list_def)
  ultimately show ?thesis
    using assms(2) by (simp add: validate_config_properties_def flat_entries)
qed

lemma tc234l_parameters_valid:
  "validate_config_properties field (tc234l_parameters capacity s) = Inr ()"
  unfolding tc234l_parameters_def
  by (rule flat_properties; cases s) (simp_all add: flat_entry_def is_ascii_control_def)

lemma tc234l_config_valid:
  assumes "\<not> blank session" "length session \<le> 4096" "\<not> has_control session" "capacity \<noteq> 0"
  shows "validate_capture_config (tc234l_config session initial capacity s) = Inr ()"
  using assms tc234l_parameters_valid
  by (simp add: validate_capture_config_def tc234l_config_def validate_config_text_def is_ascii_control_def
      validate_optional_config_text_def validate_capture_timestamp_def validate_capture_filters_def
      validate_rtos_metadata_def validate_capture_instrumentation_def)

definition config_host_ok :: "config_host \<Rightarrow> bool" where
  "config_host_ok h \<longleftrightarrow> (\<forall>bytes. length (kh_sha256 h bytes) = 32) \<and> (\<forall>d. kh_identity_bytes h d \<noteq> None)"

lemma capture_config_digest_Inr:
  assumes "config_host_ok h" and "validate_capture_config d = Inr ()"
  shows "\<exists>v. capture_config_digest h d = Inr v"
proof -
  obtain bytes where "kh_identity_bytes h d = Some bytes"
    using assms(1) by (auto simp: config_host_ok_def)
  with assms show ?thesis
    by (simp add: capture_config_digest_def digest_of_bytes config_host_ok_def)
qed

lemma tc234l_digests_Inr:
  assumes "config_host_ok h" and "capacity \<noteq> 0"
    and "\<not> blank running \<and> length running \<le> 4096 \<and> \<not> has_control running"
    and "\<not> blank halted \<and> length halted \<le> 4096 \<and> \<not> has_control halted"
  shows "\<exists>m. tc234l_digests h running halted capacity s = Inr m \<and> (\<forall>t. m t \<noteq> None)"
proof -
  obtain a b where "capture_config_digest h (tc234l_config running Running capacity s) = Inr a"
    "capture_config_digest h (tc234l_config halted Halted capacity s) = Inr b"
    using capture_config_digest_Inr [OF assms(1) tc234l_config_valid] assms(2-4) by metis
  then show ?thesis
    by (auto simp: tc234l_digests_def split: target_state.split)
qed

lemma tc234l_capture_valid:
  assumes "\<And>t. m t \<noteq> None" and "capacity \<noteq> 0"
  shows "validate_capture_contract (tc234l_capture m capacity) = Inr ()"
  using assms
  by (simp add: validate_capture_contract_def tc234l_capture_def adapter_texts_def adapter_text_def
      adapter_unique_def is_ascii_control_def)

lemma tc234l_captures_valid:
  assumes "\<And>t. m t \<noteq> None" and "\<And>t. m' t \<noteq> None"
  shows "validate_profile (tc234l_of_captures q (tc234l_capture m 65536) (tc234l_capture m' 32)) = Inr ()"
proof -
  let ?p = "tc234l_of_captures q (tc234l_capture m 65536) (tc234l_capture m' 32)"
  have identity: "validate_profile_identity ?p = Inr ()"
    by (simp add: validate_profile_identity_def tc234l_of_captures_def adapter_texts_def adapter_text_def
        adapter_unique_text_def adapter_unique_def is_ascii_control_def validate_capabilities_def
        validate_capability_def tc234l_capabilities_def support_unavailable_def Let_def)
  have "each (validate_scenario_contract (tc234l_capture m 65536)) (ta_scenarios ?p) = Inr ()"
    using tc234l_capture_valid [OF assms(1)] tc234l_capture_valid [OF assms(2)]
    by (simp add: tc234l_of_captures_def validate_scenario_contract_def Let_def)
      (simp add: tc234l_capture_def)
  moreover have "profile_scenario ?p ScNormal =
      Some \<lparr>sn_scenario = ScNormal, sn_fault_point = None, sn_capture = tc234l_capture m 65536\<rparr>"
    by (simp add: profile_scenario_def tc234l_of_captures_def)
  ultimately show ?thesis
    by (simp add: validate_profile_def identity)
      (simp add: tc234l_of_captures_def adapter_unique_def validate_kind_scenarios_def tc234l_capture_def
        validate_protocol_def tc234l_capabilities_def support_unavailable_def required_signals_def
        validate_required_signal_def Let_def)
qed

text \<open>
  The adapter that is compiled into the program is built without a panic and is a valid profile,
  with or without a qualification digest; its bundle descriptor is valid as a candidate.
\<close>
theorem tc234l_profile_valid:
  assumes "config_host_ok h"
  shows "\<exists>p. tc234l_profile h q = Inr p \<and> validate_profile p = Inr () \<and> ta_qualification_sha256 p = q \<and>
    (\<exists>b. compiled_catalog h = Inr [b] \<and> validate_descriptor b = Inr () \<and> validate_admitted_profile b p = Inr ())"
proof -
  obtain m where m: "tc234l_digests h ''profile-normal-running'' ''profile-normal-halted'' 65536 ScNormal = Inr m"
    "\<And>t. m t \<noteq> None"
    using tc234l_digests_Inr [OF assms, of 65536 "''profile-normal-running''" "''profile-normal-halted''" ScNormal]
    by (auto simp: is_ascii_control_def)
  obtain m' where m': "tc234l_digests h ''profile-overflow-running'' ''profile-overflow-halted'' 32
      ScSamplingBufferFull = Inr m'" "\<And>t. m' t \<noteq> None"
    using tc234l_digests_Inr [OF assms, of 32 "''profile-overflow-running''" "''profile-overflow-halted''" ScSamplingBufferFull]
    by (auto simp: is_ascii_control_def)
  have p: "tc234l_profile h v = Inr (tc234l_of_captures v (tc234l_capture m 65536) (tc234l_capture m' 32))" for v
    using m m' by (simp add: tc234l_profile_def)
  have "validate_bundle_directory ''scripts/adapters/tc234l-build190766'' = Inr ()" by code_simp
  with p tc234l_captures_valid [OF m(2) m'(2)] show ?thesis
    by (simp add: compiled_catalog_def validate_descriptor_def validate_admitted_profile_def)
      (simp add: tc234l_of_captures_def)
qed

subsection \<open>A complete run\<close>

definition demo_profile :: "sha256_digest option \<Rightarrow> adapter_profile" where
  "demo_profile q =
     tc234l_of_captures q (tc234l_capture (\<lambda>_. Some zeros) 65536) (tc234l_capture (\<lambda>_. Some zeros) 32)"

lemma demo_profile_valid: "validate_profile (demo_profile q) = Inr ()"
  unfolding demo_profile_def by (rule tc234l_captures_valid) simp_all

definition demo_adapter_receipt :: qualification_receipt where
  "demo_adapter_receipt =
     \<lparr>qr_adapter_id = ''tricore-tc234l-snooper-pc-r2026.02-b190766-v1'', qr_adapter_version = ''1.0.0'',
      qr_candidate_profile_sha256 = zeros,
      qr_implementation_sha256 = Sha256Digest ''a366536ad33ce118eff8a79ebe12367e67bdc02c41f5f8e4457d54b83b6a30e4'',
      qr_trace32_release = ''2026.02'', qr_trace32_build = 190766, qr_architecture_package = ''tricore'',
      qr_target_identifier = ''infineon-tc234l-core0'',
      qr_probe_identifier = ''powerdebug-pro:E17090031792:C23090376246'',
      qr_firmware_elf_sha256 = Sha256Digest ''7daae3ae027ab270c30de38530f83458a682d3e13c45deb69217048d8f449798'',
      qr_t32mcp_version = ''0.2.2'', qr_hil_verification_receipt_sha256 = zeros\<rparr>"

definition demo_adapter_host :: adapter_host where
  "demo_adapter_host =
     \<lparr>ah_profile_bytes = (\<lambda>_. []), ah_sha256 = (\<lambda>_. replicate 32 0), ah_receipt = (\<lambda>_. Inr demo_adapter_receipt)\<rparr>"

lemma demo_host_ok: "host_ok demo_adapter_host"
  by (simp add: host_ok_def demo_adapter_host_def)

definition demo_run :: "adapter_phase \<Rightarrow> target_state option \<Rightarrow> (pre_stop_state \<times> u64 \<times> u64) option \<Rightarrow> adapter_run" where
  "demo_run phase initial stop =
     \<lparr>rn_profile = demo_profile None, rn_scenario = ScNormal, rn_phase = phase, rn_initial_target_state = initial,
      rn_capabilities_initial_state = (if phase = PhNew then None else Some Running), rn_failed_operation = None,
      rn_failure_kind = None, rn_failed_binding = None, rn_sampling_stop = stop, rn_stop_evidence_sha256 = None\<rparr>"

definition demo_capabilities_evidence :: capabilities_evidence_v2 where
  "demo_capabilities_evidence =
     \<lparr>cv_binding_sha256 = zeros, cv_trace32_release = ''2026.02'', cv_trace32_build = 190766,
      cv_architecture_package = ''tricore'', cv_target_identifier = ''infineon-tc234l-core0'',
      cv_probe_identifier = ''powerdebug-pro:E17090031792:C23090376246'', cv_license_features = [''TriCore''],
      cv_trace_routing = [''runtime-pc-access-via-debug-port''], cv_capture_modes = [''snooper-pc-realtime-stack''],
      cv_trace_sinks = [''host_snooper_buffer''], cv_covered_cores = [0], cv_timestamp_supported = True,
      cv_rtos_awareness = None,
      cv_health_signals = [SigSamplingBufferFull, SigSamplingUnexpectedStop, SigElfMismatch],
      cv_initial_target_state = Running\<rparr>"

definition demo_configure :: configure_evidence where
  "demo_configure =
     \<lparr>fv_binding_sha256 = zeros, fv_configuration_sha256 = zeros, fv_capture_mode = ''snooper-pc-realtime-stack'',
      fv_trace_sink = ''host_snooper_buffer'', fv_timestamp_enabled = True, fv_filters_verified = True,
      fv_trigger_verified = True, fv_initial_target_state = Running,
      fv_workload_identity = ''external-owner-sampling-window/v1'', fv_covered_cores = [0]\<rparr>"

definition demo_start :: start_evidence_v2 where
  "demo_start =
     \<lparr>tw_binding_sha256 = zeros, tw_initial_target_state = Running, tw_capture_armed = True,
      tw_workload_identity = ''external-owner-sampling-window/v1''\<rparr>"

definition demo_stop :: stop_evidence_v2 where
  "demo_stop =
     \<lparr>ow_binding_sha256 = zeros, ow_capture_stopped = True,
      ow_workload_identity = ''external-owner-sampling-window/v1'', ow_target_state_after_stop = Running,
      ow_pre_stop_state = PreArm, ow_capacity_records = 65536, ow_recorded_records = 100, ow_time_origin_zeroed = True\<rparr>"

definition demo_adapter_health :: sampling_health where
  "demo_adapter_health =
     \<lparr>sh_binding_sha256 = zeros, sh_capture_stopped = True,
      sh_supported_signals = [SigSamplingBufferFull, SigSamplingUnexpectedStop, SigElfMismatch],
      sh_stop_evidence_sha256 = zeros,
      sh_sampling = \<lparr>sv_setup = RealTimePcStackOff, sv_pre_stop_state = PreArm, sv_requested_rate_ns = 1000000,
        sv_capacity_records = 65536, sv_recorded_records = 100, sv_buffer_full = False, sv_unexpected_stop = False\<rparr>,
      sh_elf_matches_firmware = Some True\<rparr>"

definition demo_export :: script_response where
  "demo_export =
     \<lparr>pr_operation = Export, pr_status = StatusOk, pr_code = ''raw_ascii_exported'',
      pr_binding_sha256 = [], pr_files_deleted = None\<rparr>"

definition demo_cleanup :: cleanup_evidence_v2 where
  "demo_cleanup =
     \<lparr>uw_binding_sha256 = zeros, uw_initial_target_state = Running, uw_adapter_state_restored = True,
      uw_target_state_restored = True,
      uw_sampling = \<lparr>sb_setup = RealTimePcStackOff, sb_requested_rate_ns = 1000000, sb_capacity_records = 65536,
        sb_auto_arm = False, sb_auto_init = False, sb_zero_reset = True\<rparr>, uw_files_deleted = False\<rparr>"

abbreviation demo_facts :: "(pre_stop_state \<times> u64 \<times> u64) option" where
  "demo_facts \<equiv> Some (PreArm, 100, 65536)"

lemma demo_scenario: "profile_scenario (demo_profile q) ScNormal =
    Some \<lparr>sn_scenario = ScNormal, sn_fault_point = None, sn_capture = tc234l_capture (\<lambda>_. Some zeros) 65536\<rparr>"
  by (simp add: profile_scenario_def demo_profile_def tc234l_of_captures_def)

lemma demo_capture: "run_capture (demo_run ph i st) = Inr (tc234l_capture (\<lambda>_. Some zeros) 65536)"
  by (simp add: run_capture_def demo_run_def demo_scenario)

lemma demo_fields [simp]:
  "rn_phase (demo_run ph i st) = ph" "rn_initial_target_state (demo_run ph i st) = i"
  "rn_sampling_stop (demo_run ph i st) = st" "rn_scenario (demo_run ph i st) = ScNormal"
  by (simp_all add: demo_run_def)

lemma demo_new: "run_new (demo_profile None) ScNormal = Inr (demo_run PhNew None None)"
  by (simp add: run_new_def demo_profile_valid demo_scenario demo_run_def)

lemma demo_step_1: "accept_evidence_inner (demo_run PhNew None None) (EvCapabilitiesV2 demo_capabilities_evidence) a =
    Inr (demo_run PhCapabilitiesVerified None None)"
  by (simp add: accept_evidence_inner_def accept_defs verify_capabilities_v2_def verify_capabilities_fields_def
      demo_capture match_if_def)
    (simp add: demo_run_def capabilities_match_def demo_capabilities_evidence_def tc234l_capture_def demo_profile_def
      tc234l_of_captures_def rtos_awareness_matches_def)

lemma demo_step_2: "accept_evidence_inner (demo_run PhCapabilitiesVerified None None) (EvConfigure demo_configure) a =
    Inr (demo_run PhConfigured (Some Running) None)"
  by (simp add: accept_evidence_inner_def accept_defs verify_configure_def demo_capture match_if_def)
    (simp add: demo_run_def configure_matches_def demo_configure_def tc234l_capture_def)

lemma demo_step_3: "accept_evidence_inner (demo_run PhConfigured (Some Running) None) (EvStartV2 demo_start) a =
    Inr (demo_run PhCapturing (Some Running) None)"
  by (simp add: accept_evidence_inner_def accept_defs demo_capture match_if_def)
    (simp add: demo_run_def demo_start_def tc234l_capture_def)

lemma demo_step_4: "accept_evidence_inner (demo_run PhCapturing (Some Running) None) (EvStopV2 demo_stop) a =
    Inr (demo_run PhStopped (Some Running) demo_facts)"
  by (simp add: accept_evidence_inner_def accept_defs demand_sampling_def run_is_sampling_def demo_capture match_if_def)
    (simp add: demo_run_def demo_stop_def tc234l_capture_def stop_v2_matches_def)

lemma demo_step_5: "accept_evidence_inner (demo_run PhStopped (Some Running) demo_facts) (EvHealthV2 demo_adapter_health) a =
    Inr (demo_run PhHealthVerified (Some Running) demo_facts)"
  by (simp add: accept_evidence_inner_def accept_defs demand_sampling_def run_is_sampling_def demo_capture match_if_def)
    (simp add: demo_run_def demo_adapter_health_def tc234l_capture_def sampling_health_matches_def Let_def
      expected_buffer_full_def expected_unexpected_stop_def verify_sampling_firmware_match_def demo_profile_def
      tc234l_of_captures_def sampling_scenario_health_def match_if_def)

lemma demo_step_6: "accept_export (demo_run PhHealthVerified (Some Running) demo_facts) demo_export =
    Inr (demo_run PhExported (Some Running) demo_facts)"
  by (simp add: accept_export_def demo_capture)
    (simp add: demo_run_def demo_export_def tc234l_capture_def)

lemma demo_step_7: "accept_evidence_inner (demo_run PhExported (Some Running) demo_facts) (EvCleanupV2 demo_cleanup) a =
    Inr (demo_run PhCleaned (Some Running) demo_facts)"
  by (simp add: accept_evidence_inner_def accept_defs demand_sampling_def run_is_sampling_def demo_capture match_if_def)
    (simp add: demo_run_def demo_cleanup_def tc234l_capture_def canonical_baseline_def)

lemma demo_exec_stopped:
  "run_exec h (demo_profile None) ScNormal [GetCapabilities, Configure, Start, Stop] (demo_run PhStopped (Some Running) demo_facts)"
  using run_exec.start [OF demo_new]
    run_exec.completed [OF _ run_step.evidence [OF demo_step_1]]
    run_exec.completed [OF _ run_step.evidence [OF demo_step_2]]
    run_exec.completed [OF _ run_step.evidence [OF demo_step_3]]
    run_exec.completed [OF _ run_step.evidence [OF demo_step_4]]
  by fastforce

lemma demo_exec:
  "run_exec h (demo_profile None) ScNormal capture_sequence (demo_run PhCleaned (Some Running) demo_facts)"
  using demo_exec_stopped run_exec.completed [OF _ run_step.evidence [OF demo_step_5]]
    run_exec.completed [OF _ run_step.export [OF demo_step_6]]
    run_exec.completed [OF _ run_step.evidence [OF demo_step_7]]
  by (fastforce simp: capture_sequence_def)

theorem adapter_operations_in_order_witness:
  "rn_phase (demo_run PhCleaned (Some Running) demo_facts) = phase_after 7 \<and> length capture_sequence \<le> 7"
  using adapter_operations_in_order [OF demo_exec [of demo_adapter_host]] by auto

theorem adapter_run_never_panics_witness:
  "accept_evidence_inner (demo_run PhStopped (Some Running) demo_facts) (EvStopV2 demo_stop) None \<noteq> Inl Panic"
  using adapter_run_never_panics [OF demo_host_ok demo_exec_stopped] by blast

theorem accepted_health_matches_scenario_witness:
  "health_codes (Sampling demo_adapter_health) = injected_codes ScNormal"
  by (rule accepted_health_matches_scenario [OF demo_exec_stopped [of demo_adapter_host] demo_step_5 [of None]])
    simp_all

theorem tc234l_profile_valid_witness:
  "\<exists>p. tc234l_profile \<lparr>kh_identity_bytes = \<lambda>_. Some [], kh_sha256 = \<lambda>_. replicate 32 0\<rparr> None = Inr p \<and>
     validate_profile p = Inr ()"
  using tc234l_profile_valid [of "\<lparr>kh_identity_bytes = \<lambda>_. Some [], kh_sha256 = \<lambda>_. replicate 32 0\<rparr>" None]
  by (auto simp: config_host_ok_def)

subsection \<open>A registered adapter\<close>

abbreviation demo_id :: string where
  "demo_id \<equiv> ''tricore-tc234l-snooper-pc-r2026.02-b190766-v1''"

lemma demo_sha: "sha256_of demo_adapter_host bytes = Inr zeros"
proof -
  have "hex_encode (replicate 32 0) = replicate 64 (CHR ''0'')" by code_simp
  then show ?thesis by (simp add: sha256_of_Inr demo_host_ok) (simp add: demo_adapter_host_def zeros_def)
qed

lemma demo_identity: "qualification_identity_digest demo_adapter_host (demo_profile q) = Inr zeros"
proof -
  have "(demo_profile q)\<lparr>ta_qualification_sha256 := None\<rparr> = demo_profile None"
    by (simp add: demo_profile_def tc234l_of_captures_def)
  then show ?thesis by (simp add: qualification_identity_digest_def profile_digest_def demo_profile_valid demo_sha)
qed

lemma demo_receipt_valid: "validate_receipt_for demo_adapter_host demo_adapter_receipt (demo_profile (Some zeros)) [0] = Inr ()"
  by (simp add: validate_receipt_for_def demo_sha demo_identity receipt_size_ok_def)
    (simp add: demo_adapter_receipt_def adapter_texts_def adapter_text_def is_ascii_control_def demo_profile_def
      tc234l_of_captures_def receipt_matches_runtime_def Let_def)

definition demo_entry :: registered_adapter where
  "demo_entry = \<lparr>rd_profile = demo_profile (Some zeros), rd_receipt = demo_adapter_receipt\<rparr>"

lemma demo_profile_id: "ta_adapter_id (demo_profile q) = demo_id"
  by (simp add: demo_profile_def tc234l_of_captures_def)

lemma demo_claim: "has_qualification_claim (demo_profile q) \<longleftrightarrow> q \<noteq> None"
  by (simp add: has_qualification_claim_def demo_profile_def tc234l_of_captures_def)

lemma demo_registered:
  "adapter_register demo_adapter_host [] (demo_profile (Some zeros)) [0] = (Inr (), [(demo_id, demo_entry)])"
  by (simp add: adapter_register_def demo_profile_valid demo_claim parse_receipt_def receipt_size_ok_def
      demo_profile_id bt_contains_def demo_entry_def)
    (simp add: demo_adapter_host_def demo_profile_id demo_receipt_valid [unfolded demo_adapter_host_def])

definition demo_selection :: adapter_selection where
  "demo_selection =
     \<lparr>sl_trace32_release = ''2026.02'', sl_trace32_build = 190766, sl_architecture_package = ''tricore'',
      sl_target_identifier = ''infineon-tc234l-core0'',
      sl_probe_identifier = ''powerdebug-pro:E17090031792:C23090376246'', sl_discriminator = None\<rparr>"

lemma demo_selected: "registry_select demo_adapter_host [(demo_id, demo_entry)] demo_selection = Inr demo_entry"
  by (simp add: registry_select_def select_one_def validate_selection_def demo_selection_def adapter_texts_def
      adapter_text_def is_ascii_control_def bt_values_def profile_matches_def runtime_matches_def demo_entry_def
      demo_profile_def tc234l_of_captures_def Let_def)

theorem registry_selects_qualified_witness:
  "qr_trace32_build (rd_receipt demo_entry) = sl_trace32_build demo_selection"
proof -
  have "registry_reached demo_adapter_host [(demo_id, demo_entry)]"
    using registry_reached.register [OF registry_reached.empty, of demo_adapter_host "demo_profile (Some zeros)" "[0]"]
    by (simp add: demo_registered)
  from registry_selects_qualified [OF demo_host_ok this demo_selected] show ?thesis by blast
qed

theorem duplicate_admission_replaces_witness:
  "bt_get (snd (admit_candidate [(demo_id, \<lparr>ad_profile = demo_profile (Some zeros), ad_receipt = Some demo_adapter_receipt\<rparr>)]
      (demo_profile None))) demo_id = Some \<lparr>ad_profile = demo_profile None, ad_receipt = None\<rparr>"
proof -
  have "bt_get [(demo_id, \<lparr>ad_profile = demo_profile (Some zeros), ad_receipt = Some demo_adapter_receipt\<rparr>)]
      (ta_adapter_id (demo_profile None)) =
    Some \<lparr>ad_profile = demo_profile (Some zeros), ad_receipt = Some demo_adapter_receipt\<rparr>"
    by (simp add: demo_profile_id bt_get_def)
  from duplicate_admission_replaces [OF demo_profile_valid _ this, where h = demo_adapter_host and reg = "[]"
      and q = "demo_profile None" and bytes = "[]"]
  show ?thesis by (simp add: demo_claim demo_profile_id)
qed

end
