(* ===== verification/Controller_Contract.thy ===== *)
theory Controller_Contract
  imports Target_Adapter
begin

text \<open>
  The requests of the controller to the fixed scripts and the responses it accepts: the binding of a
  transaction, the reserved outputs, the adapter and firmware bindings, both request families and
  the multi-output response (\<open>t32perf-trace32/src/controller.rs\<close>). SHA-256 is a parameter. Schema
  markers have a single value and carry no field.
\<close>

type_synonym 'a ctl = "(controller_error, 'a) res"

subsection \<open>Tool calls\<close>

datatype mcp_tool = ExecuteTool | CollectTool | AbortTool

fun tool_str :: "mcp_tool \<Rightarrow> string" where
  "tool_str ExecuteTool = ''execute_practice_skill''"
| "tool_str CollectTool = ''collect_practice_skill_response''"
| "tool_str AbortTool = ''abort_practice_skill''"

text \<open>The arguments of a call are those of the script; collect and abort take none.\<close>

type_synonym script_args = "(string, string) btree"

record mcp_handoff =
  mh_execute_tool :: mcp_tool
  mh_skill_name :: string
  mh_script_name :: string
  mh_script_args :: script_args
  mh_collect_tool :: mcp_tool
  mh_abort_tool :: mcp_tool

subsection \<open>The binding\<close>

record controller_binding =
  cb_session_id :: string
  cb_session_operation_id :: string
  cb_session_request_sha256 :: sha256_digest
  cb_transaction_id :: string
  cb_nonce :: string
  cb_binding_sha256 :: sha256_digest

definition string_bytes :: "string \<Rightarrow> u8 list" where
  "string_bytes s = map of_char s"

text \<open>\<open>u64::to_be_bytes\<close>.\<close>

definition be_bytes :: "u64 \<Rightarrow> u8 list" where
  "be_bytes n = map (\<lambda>i. ucast (drop_bit (8 * i) n)) [7, 6, 5, 4, 3, 2, 1, 0]"

definition hashed_field :: "string \<Rightarrow> u8 list" where
  "hashed_field s =
     be_bytes (if length s < 2 ^ 64 then word_of_nat (length s) else - 1) @ string_bytes s"

definition binding_preimage :: "string \<Rightarrow> string \<Rightarrow> sha256_digest \<Rightarrow> string \<Rightarrow> string \<Rightarrow> u8 list" where
  "binding_preimage session op request transaction nonce =
     concat (map hashed_field
       [''t32perf.controller-binding/v1'', session, op, digest_hex request, transaction, nonce])"

definition compute_binding_sha256 :: "(u8 list \<Rightarrow> u8 list) \<Rightarrow> string \<Rightarrow> string \<Rightarrow> sha256_digest \<Rightarrow> string \<Rightarrow> string
    \<Rightarrow> sha256_digest ctl" where
  "compute_binding_sha256 sha session op request transaction nonce =
     (case digest_new (hex_encode (sha (binding_preimage session op request transaction nonce))) of
        Inl _ \<Rightarrow> Inl Panic
      | Inr d \<Rightarrow> Inr d)"

definition validate_binding :: "(u8 list \<Rightarrow> u8 list) \<Rightarrow> controller_binding \<Rightarrow> unit ctl" where
  "validate_binding sha b =
     rthen (ensure (is_portable_session_id (cb_session_id b)) (InvalidSessionId (cb_session_id b)))
     (rthen (validate_hex_identifier ''session_operation_id'' (cb_session_operation_id b))
     (rthen (validate_hex_identifier ''transaction_id'' (cb_transaction_id b))
     (rthen (validate_hex_identifier ''nonce'' (cb_nonce b))
     (rbind
       (compute_binding_sha256 sha (cb_session_id b) (cb_session_operation_id b) (cb_session_request_sha256 b)
         (cb_transaction_id b) (cb_nonce b)) (\<lambda>expected.
       ensure (cb_binding_sha256 b = expected) (BindingDigestMismatch expected (cb_binding_sha256 b)))))))"

subsection \<open>Reserved outputs\<close>

datatype output_role = TraceExport | MachineEvidence

datatype output_role_v2 =
    TraceExportSlot
  | CustomEventsSlot
  | CountersSlot
  | ResourceCountersSlot
  | MachineEvidenceSlot

fun slot_rank :: "output_role_v2 \<Rightarrow> nat" where
  "slot_rank TraceExportSlot = 0"
| "slot_rank CustomEventsSlot = 1"
| "slot_rank CountersSlot = 2"
| "slot_rank ResourceCountersSlot = 3"
| "slot_rank MachineEvidenceSlot = 4"

fun slot_argument :: "output_role_v2 \<Rightarrow> string" where
  "slot_argument TraceExportSlot = ''trace_export_output''"
| "slot_argument CustomEventsSlot = ''custom_events_output''"
| "slot_argument CountersSlot = ''counters_output''"
| "slot_argument ResourceCountersSlot = ''resource_counters_output''"
| "slot_argument MachineEvidenceSlot = ''machine_evidence_output''"

text \<open>The two request families differ in the roles only.\<close>

record 'r output_reservation =
  os_role :: 'r
  os_staged_relative_path :: artifact_path
  os_script_output_path :: string
  os_artifact_id :: string
  os_destination_relative_path :: artifact_path
  os_kind :: string
  os_media_type :: string
  os_producer :: string
  os_max_bytes :: u64

definition validate_practice_path :: "string \<Rightarrow> string \<Rightarrow> unit ctl" where
  "validate_practice_path field v =
     rthen (controller_text field v)
       (ensure
         (\<not> list_ex (\<lambda>c. c \<in> {CHR ''='', CHR 0x22, CHR 0x27, CHR '';'', CHR ''&''}) v)
         InvalidFirmwareImageBinding)"

definition practice_path_or :: "string \<Rightarrow> controller_error \<Rightarrow> unit ctl" where
  "practice_path_or v e = map_err (\<lambda>_. e) (validate_practice_path ''script_output_path'' v)"

definition controller_texts :: "(string \<times> string) list \<Rightarrow> unit ctl" where
  "controller_texts = each (\<lambda>(field, v). controller_text field v)"

definition validate_output :: "output_role output_reservation \<Rightarrow> unit ctl" where
  "validate_output r =
     rthen
       (controller_texts
         [(''script_output_path'', os_script_output_path r), (''kind'', os_kind r),
          (''media_type'', os_media_type r), (''producer'', os_producer r)])
     (rthen (ensure (is_portable_artifact_id (os_artifact_id r)) (InvalidOutputReservation ''artifact id is not portable''))
     (rthen (ensure (os_max_bytes r \<noteq> 0) (InvalidOutputReservation ''max_bytes must be nonzero''))
     (rthen (ensure (CHR ''/'' \<in> set (os_media_type r))
              (InvalidOutputReservation (''media type must contain '' @ quoted ''/'')))
       (practice_path_or (os_script_output_path r)
         (InvalidOutputReservation ''script output path contains a forbidden PRACTICE argument character'')))))"

definition max_evidence_bytes :: u64 where
  "max_evidence_bytes = 1024 * 1024"

definition max_output_artifact_bytes :: u64 where
  "max_output_artifact_bytes = push_bit 40 1"

definition portable_script_path :: "string \<Rightarrow> bool" where
  "portable_script_path v \<longleftrightarrow>
     \<not> (CHR 0x5C \<in> set v \<or> str_contains v ''//'' \<or>
        list_ex (\<lambda>seg. seg = ''.'' \<or> seg = ''..'') (split_at_char (CHR ''/'') v))"

definition validate_output_v2 :: "output_role_v2 output_reservation \<Rightarrow> unit ctl" where
  "validate_output_v2 r =
     rthen
       (controller_texts
         [(''staged_relative_path'', as_path (os_staged_relative_path r)),
          (''destination_relative_path'', as_path (os_destination_relative_path r)),
          (''script_output_path'', os_script_output_path r), (''kind'', os_kind r),
          (''media_type'', os_media_type r), (''producer'', os_producer r)])
     (rthen (ensure (is_portable_artifact_id (os_artifact_id r))
              (InvalidMultiOutputContract ''artifact id is not portable''))
     (rthen (ensure (\<not> (os_max_bytes r = 0 \<or> max_output_artifact_bytes < os_max_bytes r))
              (InvalidMultiOutputContract (''max_bytes must be 1..='' @ dec (uint max_output_artifact_bytes))))
     (rthen (ensure (\<not> (os_role r = MachineEvidenceSlot \<and> max_evidence_bytes < os_max_bytes r))
              (InvalidMultiOutputContract ''machine_evidence exceeds the evidence byte bound''))
     (rthen (ensure (CHR ''/'' \<in> set (os_media_type r))
              (InvalidMultiOutputContract (''media type must contain '' @ quoted ''/'')))
     (rthen (practice_path_or (os_script_output_path r)
              (InvalidMultiOutputContract ''script output path contains a forbidden PRACTICE argument character''))
       (ensure (portable_script_path (os_script_output_path r))
         (InvalidMultiOutputContract ''script output path is not in portable forward-slash form'')))))))"

text \<open>
  The slots in order, with the slots already seen: each is valid, of a later role than the one before,
  and new in its role, its identifier and its three paths.
\<close>

fun validate_slots :: "output_role_v2 output_reservation list \<Rightarrow> output_role_v2 output_reservation list \<Rightarrow> unit ctl" where
  "validate_slots seen [] = Inr ()"
| "validate_slots seen (r # rs) =
     rthen (validate_output_v2 r)
     (rthen (ensure (\<not> (seen \<noteq> [] \<and> slot_rank (os_role r) \<le> slot_rank (os_role (hd seen))))
              (InvalidMultiOutputContract ''output slots are not in canonical role order''))
     (rthen
       (ensure
         (list_all (\<lambda>q. os_role q \<noteq> os_role r \<and> os_artifact_id q \<noteq> os_artifact_id r \<and>
            os_staged_relative_path q \<noteq> os_staged_relative_path r \<and>
            os_destination_relative_path q \<noteq> os_destination_relative_path r \<and>
            os_script_output_path q \<noteq> os_script_output_path r) seen)
         (InvalidMultiOutputContract ''output roles, IDs, and paths must be unique''))
       (validate_slots (r # seen) rs)))"

fun roles_allowed :: "perf_operation \<Rightarrow> output_role_v2 list \<Rightarrow> bool" where
  "roles_allowed Export roles \<longleftrightarrow>
     roles \<noteq> [] \<and> hd roles = TraceExportSlot \<and> MachineEvidenceSlot \<notin> set roles"
| "roles_allowed GetHotspots roles \<longleftrightarrow> False"
| "roles_allowed _ roles \<longleftrightarrow> roles = [MachineEvidenceSlot]"

definition validate_output_set :: "perf_operation \<Rightarrow> output_role_v2 output_reservation list \<Rightarrow> unit ctl" where
  "validate_output_set op rs =
     rthen (ensure (\<not> (rs = [] \<or> 5 < length rs))
              (InvalidMultiOutputContract ''output slot count must be 1..=5''))
     (rthen (validate_slots [] rs)
       (ensure (roles_allowed op (map os_role rs))
         (InvalidMultiOutputContract ''output roles are not allowed for the fixed operation'')))"

subsection \<open>The adapter binding\<close>

record adapter_binding =
  tb_adapter_id :: string
  tb_adapter_version :: string
  tb_trace32_release :: string
  tb_trace32_build :: u64
  tb_architecture_package :: string
  tb_target_identifier :: string
  tb_probe_identifier :: string
  tb_profile_sha256 :: sha256_digest
  tb_implementation_sha256 :: sha256_digest
  tb_scenario :: adapter_scenario
  tb_capture_kind :: capture_kind
  tb_controller_protocol :: controller_protocol
  tb_custom_event_collector :: "collector_contract option"
  tb_qualification_sha256 :: "sha256_digest option"

fun validate_binding_kind :: "capture_kind \<Rightarrow> unit ctl" where
  "validate_binding_kind (SamplingCapture _) = Inr ()"
| "validate_binding_kind (TaskEventsCapture export_profile rtos clock orti markers) =
     rthen
       (controller_texts
         [(''export_profile_id'', export_profile), (''rtos_awareness'', rtos), (''timestamp_clock_id'', clock),
          (''orti_artifact_id'', orti), (''task_marker_artifact_id'', markers)])
       (ensure (orti \<noteq> markers) InvalidScriptArguments)"

fun collector_shares_clock :: "collector_contract \<Rightarrow> capture_kind \<Rightarrow> bool" where
  "collector_shares_clock k (SamplingCapture _) \<longleftrightarrow> False"
| "collector_shares_clock k (TaskEventsCapture _ _ clock _ _) \<longleftrightarrow> kc_clock_id (kl_clock k) = clock"

definition validate_binding_protocol :: "adapter_binding \<Rightarrow> unit ctl" where
  "validate_binding_protocol b =
     (case (tb_controller_protocol b, tb_custom_event_collector b) of
        (ProtocolV1, None) \<Rightarrow> Inr ()
      | (ProtocolV2CustomEventsExport, Some k) \<Rightarrow>
          rthen (map_err (\<lambda>_. InvalidScriptArguments) (validate_collector k))
            (ensure (collector_shares_clock k (tb_capture_kind b)) InvalidScriptArguments)
      | _ \<Rightarrow> Inl (Err InvalidScriptArguments))"

definition scenario_fits_kind :: "capture_kind \<Rightarrow> adapter_scenario \<Rightarrow> bool" where
  "scenario_fits_kind kind s \<longleftrightarrow>
     (if is_sampling_kind kind then s \<notin> {ScTraceOverflow, ScFlowError}
      else s \<notin> {ScSamplingBufferFull, ScSamplingUnexpectedStop})"

definition validate_adapter_binding :: "adapter_binding \<Rightarrow> unit ctl" where
  "validate_adapter_binding b =
     rthen
       (controller_texts
         [(''adapter_id'', tb_adapter_id b), (''adapter_version'', tb_adapter_version b),
          (''trace32_release'', tb_trace32_release b), (''architecture_package'', tb_architecture_package b),
          (''target_identifier'', tb_target_identifier b), (''probe_identifier'', tb_probe_identifier b)])
     (rthen (ensure (\<not> (tb_trace32_build b = 0 \<or> sampling_capacity_records (tb_capture_kind b) = Some 0))
              InvalidScriptArguments)
     (rthen (validate_binding_kind (tb_capture_kind b))
     (rthen (validate_binding_protocol b)
       (ensure (scenario_fits_kind (tb_capture_kind b) (tb_scenario b)) InvalidScriptArguments))))"

text \<open>The scenario argument of the two operations whose scripts take one.\<close>

definition script_scenario_for :: "adapter_scenario \<Rightarrow> perf_operation \<Rightarrow> string option" where
  "script_scenario_for s op =
     (case op of
        Configure \<Rightarrow>
          Some (case s of
                  ScSamplingBufferFull \<Rightarrow> ''sampling_buffer_full''
                | ScTraceOverflow \<Rightarrow> ''trace_overflow''
                | ScFlowError \<Rightarrow> ''flow_error''
                | _ \<Rightarrow> ''normal'')
      | Start \<Rightarrow> Some (if s = ScCmmAbort then ''cmm_abort'' else ''normal'')
      | _ \<Rightarrow> None)"

record firmware_binding =
  fb_source_elf :: artifact
  fb_measurement :: artifact
  fb_script_input_path :: string

definition validate_firmware_binding :: "firmware_binding \<Rightarrow> unit ctl" where
  "validate_firmware_binding f =
     (let elf = fb_source_elf f; m = fb_measurement f in
      rthen
        (ensure
          (art_id elf = ''firmware-elf'' \<and> art_kind elf = ''firmware_elf'' \<and>
           art_media_type elf = ''application/x-elf'' \<and> art_id m = ''trace32-firmware-s3'' \<and>
           art_kind m = ''trace32_firmware_measurement'' \<and>
           art_media_type m = ''application/vnd.motorola-s-record'' \<and>
           art_producer m = ''t32perf-controller-firmware-image/v1'' \<and>
           art_input_artifact_ids m = [art_id elf] \<and> art_size_bytes m \<noteq> 0)
          InvalidFirmwareImageBinding)
        (validate_practice_path ''firmware_s3'' (fb_script_input_path f)))"

end
