(* ===== verification/Controller_Request.thy ===== *)
theory Controller_Request
  imports Controller_Contract
begin

text \<open>
  The two request families of the controller, the multi-output response, the abort plan, the journal
  events of the host driver and the evidence that completes a capture, each with its validation
  (\<open>t32perf-trace32/src/controller.rs\<close>).
\<close>

subsection \<open>Requests\<close>

datatype fault_action = Trace32DisconnectAtStop | DriverDisconnectAtExport | CmmAbortAtStart

record controller_request =
  rq_binding :: controller_binding
  rq_operation :: perf_operation
  rq_adapter_catalog_sha256 :: sha256_digest
  rq_target_adapter :: "adapter_binding option"
  rq_fault_action :: "fault_action option"
  rq_firmware_image :: firmware_binding
  rq_mcp :: mcp_handoff
  rq_response_staging_path :: artifact_path
  rq_max_response_bytes :: u64
  rq_output :: "output_role output_reservation option"

record controller_request_v2 = controller_request +
  rq_outputs :: "output_role_v2 output_reservation list"

definition requires_interruption :: "'a controller_request_scheme \<Rightarrow> bool" where
  "requires_interruption r \<longleftrightarrow> rq_fault_action r \<noteq> None"

definition expected_fault_action :: "adapter_scenario option \<Rightarrow> perf_operation \<Rightarrow> fault_action option" where
  "expected_fault_action s op =
     (if s = Some ScTrace32Disconnect \<and> op = Stop then Some Trace32DisconnectAtStop
      else if s = Some ScDriverDisconnect \<and> op = Export then Some DriverDisconnectAtExport
      else if s = Some ScCmmAbort \<and> op = Start then Some CmmAbortAtStart
      else None)"

definition validate_response_limit :: "u64 \<Rightarrow> unit ctl" where
  "validate_response_limit n = ensure (\<not> (n = 0 \<or> 64 * 1024 < n)) (InvalidResponseLimit n (64 * 1024))"

definition validate_tools :: "mcp_handoff \<Rightarrow> unit ctl" where
  "validate_tools m =
     ensure (mh_execute_tool m = ExecuteTool \<and> mh_collect_tool m = CollectTool \<and> mh_abort_tool m = AbortTool)
       InvalidToolSequence"

definition request_scenario :: "'a controller_request_scheme \<Rightarrow> adapter_scenario option" where
  "request_scenario r = map_option tb_scenario (rq_target_adapter r)"

text \<open>What both families check after the adapter, around the address of the script.\<close>

definition validate_request_frame :: "string option \<Rightarrow> 'a controller_request_scheme \<Rightarrow> unit ctl" where
  "validate_request_frame script r =
     rthen (validate_firmware_binding (rq_firmware_image r))
     (rthen (validate_response_limit (rq_max_response_bytes r))
     (rthen (validate_tools (rq_mcp r))
     (rthen (ensure (mh_skill_name (rq_mcp r) = ''trace32-perf'' \<and> Some (mh_script_name (rq_mcp r)) = script)
              InvalidScriptAddress)
       (controller_text ''response_staging_path'' (as_path (rq_response_staging_path r))))))"

definition endpoint_only :: "perf_operation \<Rightarrow> bool" where
  "endpoint_only op \<longleftrightarrow> op = GetCapabilities \<or> op = GetHotspots"

definition validate_request_adapter :: "controller_protocol \<Rightarrow> adapter_binding \<Rightarrow> unit ctl" where
  "validate_request_adapter protocol b =
     rthen (validate_adapter_binding b) (ensure (tb_controller_protocol b = protocol) InvalidScriptArguments)"

subsection \<open>Script arguments\<close>

definition arg :: "script_args \<Rightarrow> string \<Rightarrow> string ctl" where
  "arg args k = ok_or (bt_get args k) InvalidScriptArguments"

definition args_are :: "script_args \<Rightarrow> script_args \<Rightarrow> unit ctl" where
  "args_are args expected = ensure (args = expected) InvalidScriptArguments"

definition arg_in :: "script_args \<Rightarrow> string \<Rightarrow> string list \<Rightarrow> string ctl" where
  "arg_in args k vs = rbind (arg args k) (\<lambda>v. rthen (ensure (v \<in> set vs) InvalidScriptArguments) (Inr v))"

text \<open>\<open>str::parse::<u64>\<close> accepts one leading plus sign and leading zeros.\<close>

definition parses_as_u64 :: "string \<Rightarrow> bool" where
  "parses_as_u64 v \<longleftrightarrow>
     (let ds = (case v of [] \<Rightarrow> [] | c # cs \<Rightarrow> if c = CHR ''+'' then cs else v) in
      ds \<noteq> [] \<and> list_all is_digit ds \<and> foldl (\<lambda>n c. n * 10 + (of_char c - 48)) (0 :: int) ds < 2 ^ 64)"

definition arg_u64 :: "script_args \<Rightarrow> string \<Rightarrow> string ctl" where
  "arg_u64 args k = rbind (arg args k) (\<lambda>v. rthen (ensure (parses_as_u64 v) InvalidScriptArguments) (Inr v))"

definition target_states_arg :: "script_args \<Rightarrow> string ctl" where
  "target_states_arg args = arg_in args ''initial_target_state'' [''running'', ''halted'']"

fun export_mode :: "capture_kind \<Rightarrow> string" where
  "export_mode (SamplingCapture _) = ''raw_ascii''"
| "export_mode (TaskEventsCapture _ _ _ _ _) = ''task_events_elf_orti_verified''"

definition capacity_args :: "capture_kind \<Rightarrow> (string \<times> string) list" where
  "capacity_args kind =
     (case sampling_capacity_records kind of
        None \<Rightarrow> []
      | Some n \<Rightarrow> [(''capacity_records'', dec (uint n))])"

text \<open>The arguments that a health request repeats from the accepted stop evidence.\<close>

definition stop_facts_args :: "capture_kind \<Rightarrow> script_args \<Rightarrow> (string \<times> string) list ctl" where
  "stop_facts_args kind args =
     rbind (arg args ''stop_evidence_sha256'') (\<lambda>stop.
     rthen (map_err (\<lambda>_. InvalidScriptArguments) (digest_new stop))
     (if is_sampling_kind kind then
        rbind (arg_in args ''pre_stop_state'' [''arm'', ''break'']) (\<lambda>pre.
        rbind (arg_u64 args ''recorded_records'') (\<lambda>recorded.
        rbind (arg_u64 args ''capacity_records'') (\<lambda>capacity.
          Inr [(''stop_evidence_sha256'', stop), (''pre_stop_state'', pre), (''recorded_records'', recorded),
               (''capacity_records'', capacity)])))
      else Inr [(''stop_evidence_sha256'', stop)]))"

subsection \<open>The first request family\<close>

definition machine_evidence_slot :: "output_role output_reservation \<Rightarrow> unit ctl" where
  "machine_evidence_slot out =
     rthen (validate_output out)
       (ensure (\<not> (os_role out \<noteq> MachineEvidence \<or> max_evidence_bytes < os_max_bytes out))
         (InvalidOutputReservation ''target-control operation requires bounded machine_evidence output''))"

definition required_adapter :: "'a controller_request_scheme \<Rightarrow> adapter_binding ctl" where
  "required_adapter r = ok_or (rq_target_adapter r) InvalidScriptArguments"

definition base_args :: "controller_request \<Rightarrow> output_role output_reservation \<Rightarrow> (string \<times> string) list" where
  "base_args r out =
     [(''binding_sha256'', digest_hex (cb_binding_sha256 (rq_binding r))),
      (''evidence_output'', os_script_output_path out)]"

definition firmware_arg :: "'a controller_request_scheme \<Rightarrow> string \<times> string" where
  "firmware_arg r = (''firmware_s3'', fb_script_input_path (rq_firmware_image r))"

definition validate_export_request :: "controller_request \<Rightarrow> output_role output_reservation \<Rightarrow> unit ctl" where
  "validate_export_request r out =
     (let args = mh_script_args (rq_mcp r) in
      rthen (validate_output out)
      (rthen (ensure (os_role out = TraceExport)
               (InvalidOutputReservation ''perf_export requires a trace_export reservation''))
      (rbind (arg_in args ''mode'' [''raw_ascii'', ''task_events_elf_orti_verified'']) (\<lambda>mode.
       rbind (required_adapter r) (\<lambda>adapter.
       rthen (ensure (mode = export_mode (tb_capture_kind adapter)) InvalidScriptArguments)
         (args_are args
           (bt_of_list
             [(''binding_sha256'', digest_hex (cb_binding_sha256 (rq_binding r))), (''mode'', mode),
              (''output'', os_script_output_path out)])))))))"

definition validate_health_request :: "controller_request \<Rightarrow> output_role output_reservation \<Rightarrow> unit ctl" where
  "validate_health_request r out =
     (let args = mh_script_args (rq_mcp r) in
      rthen (machine_evidence_slot out)
      (rbind (required_adapter r) (\<lambda>adapter.
       rbind (stop_facts_args (tb_capture_kind adapter) args) (\<lambda>facts.
         args_are args (bt_of_list (base_args r out @ firmware_arg r # facts))))))"

definition validate_cleanup_request :: "controller_request \<Rightarrow> output_role output_reservation \<Rightarrow> unit ctl" where
  "validate_cleanup_request r out =
     (let args = mh_script_args (rq_mcp r) in
      rthen (machine_evidence_slot out)
      (rbind (target_states_arg args) (\<lambda>initial.
        args_are args (bt_of_list (base_args r out @ [(''initial_target_state'', initial)])))))"

definition validate_configure_request :: "controller_request \<Rightarrow> output_role output_reservation \<Rightarrow> unit ctl" where
  "validate_configure_request r out =
     (let args = mh_script_args (rq_mcp r) in
      rthen (machine_evidence_slot out)
      (rbind (target_states_arg args) (\<lambda>initial.
       rbind
         (ok_or (Option.bind (request_scenario r) (\<lambda>s. script_scenario_for s (rq_operation r)))
           InvalidScriptArguments) (\<lambda>scenario.
       rthen (ensure (bt_get args ''scenario'' = Some scenario) InvalidScriptArguments)
         (args_are args
           (bt_of_list
             (base_args r out @ [(''initial_target_state'', initial), (''scenario'', scenario), firmware_arg r])))))))"

definition validate_start_request :: "controller_request \<Rightarrow> output_role output_reservation \<Rightarrow> unit ctl" where
  "validate_start_request r out =
     (let args = mh_script_args (rq_mcp r) in
      rthen (machine_evidence_slot out)
      (rbind (required_adapter r) (\<lambda>adapter.
       rbind (ok_or (script_scenario_for (tb_scenario adapter) (rq_operation r)) InvalidScriptArguments) (\<lambda>scenario.
       rbind (target_states_arg args) (\<lambda>initial.
       rthen (ensure (bt_get args ''scenario'' = Some scenario) InvalidScriptArguments)
         (args_are args
           (bt_of_list
             (base_args r out @ [(''initial_target_state'', initial), (''scenario'', scenario)] @
              capacity_args (tb_capture_kind adapter)))))))))"

definition validate_stop_request :: "controller_request \<Rightarrow> output_role output_reservation \<Rightarrow> unit ctl" where
  "validate_stop_request r out =
     rthen (machine_evidence_slot out)
     (rbind (required_adapter r) (\<lambda>adapter.
       args_are (mh_script_args (rq_mcp r))
         (bt_of_list (base_args r out @ capacity_args (tb_capture_kind adapter)))))"

definition validate_request_output :: "controller_request \<Rightarrow> unit ctl" where
  "validate_request_output r =
     (case (rq_output r, rq_operation r) of
        (None, GetHotspots) \<Rightarrow>
          args_are (mh_script_args (rq_mcp r))
            (bt_of_list [(''binding_sha256'', digest_hex (cb_binding_sha256 (rq_binding r)))])
      | (Some out, Export) \<Rightarrow> validate_export_request r out
      | (Some out, GetHealth) \<Rightarrow> validate_health_request r out
      | (Some out, Cleanup) \<Rightarrow> validate_cleanup_request r out
      | (Some out, Configure) \<Rightarrow> validate_configure_request r out
      | (Some out, Start) \<Rightarrow> validate_start_request r out
      | (Some out, Stop) \<Rightarrow> validate_stop_request r out
      | (Some out, GetHotspots) \<Rightarrow> Inl (Err UnexpectedOutputReservation)
      | (Some out, GetCapabilities) \<Rightarrow>
          rthen (machine_evidence_slot out)
            (args_are (mh_script_args (rq_mcp r)) (bt_of_list (base_args r out)))
      | (None, Export) \<Rightarrow> Inl (Err MissingExportReservation)
      | (None, _) \<Rightarrow> Inl (Err MissingEvidenceReservation))"

definition validate_request :: "(u8 list \<Rightarrow> u8 list) \<Rightarrow> controller_request \<Rightarrow> unit ctl" where
  "validate_request sha r =
     rthen (validate_binding sha (rq_binding r))
     (rthen
       (case rq_target_adapter r of
          None \<Rightarrow> ensure (endpoint_only (rq_operation r)) InvalidScriptArguments
        | Some b \<Rightarrow>
            rthen (ensure (\<not> endpoint_only (rq_operation r)) InvalidScriptArguments)
              (validate_request_adapter ProtocolV1 b))
     (rthen (ensure (rq_fault_action r = expected_fault_action (request_scenario r) (rq_operation r))
              InvalidScriptArguments)
     (rthen (validate_request_frame (Some (script_name (rq_operation r))) r)
       (validate_request_output r))))"

subsection \<open>The multi-output family\<close>

definition non_output_args :: "controller_request_v2 \<Rightarrow> (string \<times> string) list ctl" where
  "non_output_args r =
     (let args = mh_script_args (rq_mcp r) in
      rbind
        (case rq_operation r of
           GetCapabilities \<Rightarrow> Inr []
         | Configure \<Rightarrow>
             rbind (target_states_arg args) (\<lambda>initial.
             rbind (required_adapter r) (\<lambda>adapter.
             rbind (ok_or (script_scenario_for (tb_scenario adapter) Configure) InvalidScriptArguments) (\<lambda>scenario.
               Inr [(''initial_target_state'', initial), (''scenario'', scenario), firmware_arg r])))
         | Start \<Rightarrow>
             rbind (target_states_arg args) (\<lambda>initial.
             rbind (required_adapter r) (\<lambda>adapter.
             rbind (ok_or (script_scenario_for (tb_scenario adapter) Start) InvalidScriptArguments) (\<lambda>scenario.
               Inr ([(''initial_target_state'', initial), (''scenario'', scenario)] @
                    capacity_args (tb_capture_kind adapter)))))
         | Stop \<Rightarrow> rbind (required_adapter r) (\<lambda>adapter. Inr (capacity_args (tb_capture_kind adapter)))
         | GetHealth \<Rightarrow>
             rbind (required_adapter r) (\<lambda>adapter.
             rbind (stop_facts_args (tb_capture_kind adapter) args) (\<lambda>facts. Inr (firmware_arg r # facts)))
         | Export \<Rightarrow>
             rbind (required_adapter r) (\<lambda>adapter.
             rbind (arg_in args ''mode'' [export_mode (tb_capture_kind adapter)]) (\<lambda>mode. Inr [(''mode'', mode)]))
         | Cleanup \<Rightarrow> rbind (target_states_arg args) (\<lambda>initial. Inr [(''initial_target_state'', initial)])
         | GetHotspots \<Rightarrow>
             Inl (Err (InvalidMultiOutputContract ''perf_get_hotspots has no fixed-script V2 output contract'')))
        (\<lambda>kvs. Inr ((''binding_sha256'', digest_hex (cb_binding_sha256 (rq_binding r))) # kvs)))"

fun insert_slots :: "output_role_v2 output_reservation list \<Rightarrow> script_args \<Rightarrow> script_args ctl" where
  "insert_slots [] args = Inr args"
| "insert_slots (out # outs) args =
     (let k = slot_argument (os_role out) in
      rthen (ensure (\<not> bt_contains args k) InvalidScriptArguments)
        (insert_slots outs (bt_insert k (os_script_output_path out) args)))"

definition validate_export_slots :: "controller_request_v2 \<Rightarrow> unit ctl" where
  "validate_export_slots r =
     (if rq_operation r \<noteq> Export then Inr ()
      else
        rbind (required_adapter r) (\<lambda>adapter.
        rbind (ok_or (tb_custom_event_collector adapter) InvalidScriptArguments) (\<lambda>k.
          ensure
            (case rq_outputs r of
               [a, b] \<Rightarrow> os_role a = TraceExportSlot \<and> os_role b = CustomEventsSlot \<and>
                 os_max_bytes b = kl_max_output_bytes k
             | _ \<Rightarrow> False)
            (InvalidMultiOutputContract
              ''Controller V2 custom-event export requires exact TraceExport and CustomEvents slots''))))"

definition validate_request_v2 :: "(u8 list \<Rightarrow> u8 list) \<Rightarrow> controller_request_v2 \<Rightarrow> unit ctl" where
  "validate_request_v2 sha r =
     rthen (validate_binding sha (rq_binding r))
     (rthen
       (case rq_target_adapter r of
          None \<Rightarrow> Inl (Err InvalidScriptArguments)
        | Some b \<Rightarrow>
            rthen (ensure (v2_script_name (rq_operation r) \<noteq> None) InvalidScriptArguments)
              (validate_request_adapter ProtocolV2CustomEventsExport b))
     (rthen
       (ensure
         (rq_fault_action r = expected_fault_action (request_scenario r) (rq_operation r) \<and> rq_output r = None)
         InvalidScriptArguments)
     (rthen (validate_request_frame (v2_script_name (rq_operation r)) r)
     (rthen (validate_output_set (rq_operation r) (rq_outputs r))
     (rthen (validate_export_slots r)
     (rbind (non_output_args r) (\<lambda>kvs.
      rbind (insert_slots (rq_outputs r) (bt_of_list kvs)) (\<lambda>expected.
        args_are (mh_script_args (rq_mcp r)) expected))))))))"

subsection \<open>Responses\<close>

text \<open>The frame of a script without its binding.\<close>

record controller_script_response =
  cs_operation :: perf_operation
  cs_status :: perf_status
  cs_code :: string
  cs_files_deleted :: "bool option"

definition script_response_of :: "script_response \<Rightarrow> controller_script_response" where
  "script_response_of p =
     \<lparr>cs_operation = pr_operation p, cs_status = pr_status p, cs_code = pr_code p,
      cs_files_deleted = pr_files_deleted p\<rparr>"

record controller_response =
  rp_binding :: controller_binding
  rp_request_artifact_id :: string
  rp_request_artifact_sha256 :: sha256_digest
  rp_script_response :: controller_script_response
  rp_raw_response_artifact :: artifact
  rp_output_artifact :: "artifact option"

record controller_response_v2 = controller_response +
  rp_output_artifacts :: "artifact list"

definition response_if :: "bool \<Rightarrow> string \<Rightarrow> unit ctl" where
  "response_if b message = ensure b (InvalidMultiOutputResponse message)"

definition response_artifact :: "string \<Rightarrow> artifact \<Rightarrow> unit ctl" where
  "response_artifact message a = map_err (\<lambda>_. InvalidMultiOutputResponse message) (validate_artifact a)"

definition validate_slot_artifact :: "artifact \<Rightarrow> artifact \<times> output_role_v2 output_reservation \<Rightarrow> unit ctl" where
  "validate_slot_artifact request = (\<lambda>(a, out).
     rthen (response_artifact ''output artifact envelope is invalid'' a)
       (response_if
         (art_id a = os_artifact_id out \<and> art_kind a = os_kind out \<and>
          art_relative_path a = os_destination_relative_path out \<and> art_media_type a = os_media_type out \<and>
          art_producer a = os_producer out \<and> \<not> os_max_bytes out < art_size_bytes a \<and>
          art_input_artifact_ids a = [art_id request])
         (''artifact '' @ quoted (art_id a) @ '' does not match its ordered request slot'')))"

definition validate_response_v2 :: "(u8 list \<Rightarrow> u8 list) \<Rightarrow> controller_response_v2 \<Rightarrow> controller_request_v2
    \<Rightarrow> artifact \<Rightarrow> unit ctl" where
  "validate_response_v2 sha p r request =
     rthen (validate_request_v2 sha r)
     (rthen (response_if (\<not> requires_interruption r)
              ''failure-only V2 request cannot have an accepted final response'')
     (rthen (response_artifact ''request artifact envelope is invalid'' request)
     (rthen
       (response_if
         (rp_output_artifact p = None \<and> rp_binding p = rq_binding r \<and>
          rp_request_artifact_id p = art_id request \<and> rp_request_artifact_sha256 p = art_sha256 request \<and>
          cs_operation (rp_script_response p) = rq_operation r)
         ''response is not bound to the exact V2 request'')
     (rthen (response_artifact ''raw response artifact envelope is invalid'' (rp_raw_response_artifact p))
     (rthen
       (response_if
         (art_input_artifact_ids (rp_raw_response_artifact p) = [art_id request] \<and>
          \<not> list_ex (\<lambda>out. os_artifact_id out = art_id (rp_raw_response_artifact p)) (rq_outputs r))
         ''raw response artifact provenance or identity is invalid'')
       (if cs_status (rp_script_response p) = StatusOk then
          rthen (response_if (length (rp_output_artifacts p) = length (rq_outputs r))
                   ''successful V2 response must accept every reserved output slot'')
            (each (validate_slot_artifact request) (zip (rp_output_artifacts p) (rq_outputs r)))
        else
          response_if (rp_output_artifacts p = [])
            ''non-successful V2 response cannot accept any output slot''))))))"

subsection \<open>Abort plans and driver events\<close>

datatype abort_reason = AbortTimeout | AbortTransportFailure | AbortOperatorRequest

record abort_request =
  br_binding :: controller_binding
  br_request_artifact_id :: string
  br_request_artifact_sha256 :: sha256_digest
  br_tool :: mcp_tool
  br_reason :: abort_reason

text \<open>The acknowledgement of a receipt has a single value.\<close>

record abort_receipt =
  bp_binding :: controller_binding
  bp_request_artifact_id :: string
  bp_request_artifact_sha256 :: sha256_digest
  bp_abort_request_artifact_id :: string
  bp_abort_request_artifact_sha256 :: sha256_digest

datatype driver_event_kind =
    DispatchIntent
  | FaultIntent
  | FaultTriggered
  | AbortAttempt
  | AbortSuccessObserved
  | WorkloadIntent
  | WorkloadComplete

fun driver_event_str :: "driver_event_kind \<Rightarrow> string" where
  "driver_event_str DispatchIntent = ''dispatch-intent''"
| "driver_event_str FaultIntent = ''fault-intent''"
| "driver_event_str FaultTriggered = ''fault-triggered''"
| "driver_event_str AbortAttempt = ''abort-attempt''"
| "driver_event_str AbortSuccessObserved = ''abort-success-observed''"
| "driver_event_str WorkloadIntent = ''workload-intent''"
| "driver_event_str WorkloadComplete = ''workload-complete''"

record driver_event =
  dr_event :: driver_event_kind
  dr_binding :: controller_binding
  dr_request_artifact_id :: string
  dr_request_artifact_sha256 :: sha256_digest
  dr_operation :: perf_operation
  dr_fault_action :: "fault_action option"
  dr_abort_reason :: "abort_reason option"
  dr_abort_request_artifact_id :: "string option"
  dr_abort_request_artifact_sha256 :: "sha256_digest option"
  dr_initial_target_state :: "target_state option"
  dr_workload_identity :: "string option"
  dr_deployment_artifact_id :: "string option"
  dr_deployment_artifact_sha256 :: "sha256_digest option"
  dr_deployment_sha256 :: "sha256_digest option"
  dr_workload_executable_sha256 :: "sha256_digest option"

definition has_abort_claim :: "driver_event \<Rightarrow> bool" where
  "has_abort_claim e \<longleftrightarrow>
     dr_abort_reason e \<noteq> None \<or> dr_abort_request_artifact_id e \<noteq> None \<or>
     dr_abort_request_artifact_sha256 e \<noteq> None"

definition has_deployment_claim :: "driver_event \<Rightarrow> bool" where
  "has_deployment_claim e \<longleftrightarrow>
     dr_deployment_artifact_id e \<noteq> None \<or> dr_deployment_artifact_sha256 e \<noteq> None \<or>
     dr_deployment_sha256 e \<noteq> None \<or> dr_workload_executable_sha256 e \<noteq> None"

definition has_workload_claim :: "driver_event \<Rightarrow> bool" where
  "has_workload_claim e \<longleftrightarrow>
     dr_initial_target_state e \<noteq> None \<or> dr_workload_identity e \<noteq> None \<or> has_deployment_claim e"

definition bound_to_abort :: "controller_binding \<Rightarrow> artifact \<Rightarrow> driver_event \<Rightarrow> abort_request \<times> artifact \<Rightarrow> bool" where
  "bound_to_abort b request e = (\<lambda>(abort, a).
     \<not> has_workload_claim e \<and> \<not> has_deployment_claim e \<and>
     dr_abort_reason e = Some (br_reason abort) \<and> dr_abort_request_artifact_id e = Some (art_id a) \<and>
     dr_abort_request_artifact_sha256 e = Some (art_sha256 a) \<and> br_binding abort = b \<and>
     br_request_artifact_id abort = art_id request \<and>
     br_request_artifact_sha256 abort = art_sha256 request \<and> br_tool abort = AbortTool)"

definition bounded_text :: "string \<Rightarrow> string \<Rightarrow> bool" where
  "bounded_text field v \<longleftrightarrow> controller_text field v = Inr ()"

definition workload_context :: "driver_event \<Rightarrow> bool" where
  "workload_context e \<longleftrightarrow>
     \<not> has_abort_claim e \<and> dr_operation e = Start \<and> dr_initial_target_state e \<noteq> None \<and>
     (case dr_workload_identity e of None \<Rightarrow> False | Some v \<Rightarrow> bounded_text ''workload_identity'' v) \<and>
     (case dr_deployment_artifact_id e of
        None \<Rightarrow> True
      | Some v \<Rightarrow> bounded_text ''performance_run_deployment_binding_artifact_id'' v) \<and>
     (has_deployment_claim e \<longrightarrow>
        dr_deployment_artifact_id e \<noteq> None \<and> dr_deployment_artifact_sha256 e \<noteq> None \<and>
        dr_deployment_sha256 e \<noteq> None \<and> dr_workload_executable_sha256 e \<noteq> None)"

definition event_context :: "controller_binding \<Rightarrow> artifact \<Rightarrow> (abort_request \<times> artifact) option \<Rightarrow> driver_event \<Rightarrow> bool" where
  "event_context b request plan e \<longleftrightarrow>
     (let unclaimed = \<not> has_abort_claim e \<and> \<not> has_workload_claim e \<and> \<not> has_deployment_claim e;
          planned = (case plan of None \<Rightarrow> False | Some p \<Rightarrow> bound_to_abort b request e p) in
      case dr_event e of
        DispatchIntent \<Rightarrow> unclaimed
      | FaultIntent \<Rightarrow> dr_fault_action e \<noteq> None \<and> unclaimed
      | FaultTriggered \<Rightarrow> dr_fault_action e \<noteq> None \<and> planned
      | AbortAttempt \<Rightarrow> planned
      | AbortSuccessObserved \<Rightarrow> planned
      | WorkloadIntent \<Rightarrow> workload_context e
      | WorkloadComplete \<Rightarrow> workload_context e)"

definition validate_driver_event :: "(u8 list \<Rightarrow> u8 list) \<Rightarrow> driver_event \<Rightarrow> 'a controller_request_scheme \<Rightarrow> artifact
    \<Rightarrow> (abort_request \<times> artifact) option \<Rightarrow> unit ctl" where
  "validate_driver_event sha e r request plan =
     rthen (validate_binding sha (dr_binding e))
     (rthen
       (ensure
         (dr_binding e = rq_binding r \<and> dr_request_artifact_id e = art_id request \<and>
          dr_request_artifact_sha256 e = art_sha256 request \<and> dr_operation e = rq_operation r \<and>
          dr_fault_action e = rq_fault_action r)
         InvalidDriverEventBinding)
       (ensure (event_context (rq_binding r) request plan e) InvalidDriverEventContext))"

subsection \<open>Completion of a capture\<close>

datatype completion_evidence =
    SamplingCompletion stop_evidence_v2 sampling_health
  | TaskEventsCompletion stop_evidence program_flow_health

definition completion_from_evidence :: "capture_kind \<Rightarrow> controller_evidence \<Rightarrow> sha256_digest \<Rightarrow> controller_evidence
    \<Rightarrow> completion_evidence ctl" where
  "completion_from_evidence kind stop stop_sha256 health =
     (let unbound = InvalidEvidence ''health evidence is not bound to the accepted Stop artifact digest'' in
      if is_sampling_kind kind then
        case (stop, health) of
          (EvStopV2 s, EvHealthV2 e) \<Rightarrow>
            rthen (ensure (sh_stop_evidence_sha256 e = stop_sha256) unbound) (Inr (SamplingCompletion s e))
        | _ \<Rightarrow> Inl (Err (InvalidEvidence ''sampling completion requires StopV2 and HealthV2 evidence''))
      else
        case (stop, health) of
          (EvStop s, EvHealthV3 e) \<Rightarrow>
            rthen (ensure (pf_stop_evidence_sha256 e = stop_sha256) unbound) (Inr (TaskEventsCompletion s e))
        | _ \<Rightarrow>
            Inl (Err (InvalidEvidence ''TASKEVENTS program-flow completion requires Stop and Health evidence'')))"

end
