(* ===== verification/Controller_Envelope.thy ===== *)
theory Controller_Envelope
  imports Controller_Request Session_State
begin

text \<open>
  The documents of a controller transaction as the host reads them back from a session: request and
  response envelopes, their identities, and the checks that bind them to their session, to the
  admitted adapter and to each other (\<open>src/controller.rs\<close>). The reads of a session, the JSON decoders
  and the admission of its adapter are the functions of a \<open>session_view\<close>. An error keeps the failure
  that \<open>AppError::operational\<close> renders into a message.
\<close>

subsection \<open>Errors\<close>

datatype capture_phase =
    CpCapabilities
  | CpConfigure
  | CpStart
  | CpStop
  | CpHealth
  | CpExport
  | CpCleanup
  | CpComplete

datatype app_error =
    Operational string
  | OperationalContract controller_error
  | OperationalAdapter adapter_error
  | OperationalPath artifact_path_error
  | AbortRecoveryRequired string
  | OperationOutOfSequence perf_operation perf_operation
  | CaptureAlreadyComplete perf_operation
  | OperationAlreadyComplete perf_operation
  | TransactionPending string
  | CaptureLeaseActive capture_phase
  | RootOwnershipConflict string string
  | TransactionOwnershipMismatch string string

type_synonym 'a app = "(app_error, 'a) res"

definition demand_app :: "bool \<Rightarrow> string \<Rightarrow> unit app" where
  "demand_app b message = ensure b (Operational message)"

definition reading :: "string + 'a \<Rightarrow> 'a app" where
  "reading r = (case r of Inl message \<Rightarrow> Inl (Err (Operational message)) | Inr a \<Rightarrow> Inr a)"

subsection \<open>Identities\<close>

definition is_transaction_id :: "string \<Rightarrow> bool" where
  "is_transaction_id v \<longleftrightarrow> length v = 32 \<and> list_all (\<lambda>c. is_digit c \<or> CHR ''a'' \<le> c \<and> c \<le> CHR ''f'') v"

definition validate_transaction_id :: "string \<Rightarrow> unit app" where
  "validate_transaction_id v =
     demand_app (is_transaction_id v) ''controller transaction id must be 32 lowercase hexadecimal characters''"

definition request_artifact_id :: "string \<Rightarrow> string" where
  "request_artifact_id t = ''controller-request-'' @ t"

definition raw_response_artifact_id :: "string \<Rightarrow> string" where
  "raw_response_artifact_id t = ''controller-mcp-response-'' @ t"

definition response_artifact_id :: "string \<Rightarrow> string" where
  "response_artifact_id t = ''controller-response-'' @ t"

definition abort_artifact_id :: "string \<Rightarrow> string" where
  "abort_artifact_id t = ''controller-abort-'' @ t"

definition abort_receipt_artifact_id :: "string \<Rightarrow> string" where
  "abort_receipt_artifact_id t = ''controller-abort-receipt-'' @ t"

definition output_artifact_id :: "string \<Rightarrow> string" where
  "output_artifact_id t = ''controller-export-'' @ t"

definition custom_event_output_artifact_id :: "string \<Rightarrow> string" where
  "custom_event_output_artifact_id t = ''controller-custom-events-'' @ t"

definition path_of :: "string \<Rightarrow> artifact_path app" where
  "path_of v = map_err OperationalPath (artifact_path_new v)"

definition request_artifact_path :: "string \<Rightarrow> artifact_path app" where
  "request_artifact_path t = path_of (''logs/controller/requests/'' @ t @ ''.json'')"

definition raw_response_artifact_path :: "string \<Rightarrow> artifact_path app" where
  "raw_response_artifact_path t = path_of (''logs/controller/raw/'' @ t @ ''.txt'')"

definition response_artifact_path :: "string \<Rightarrow> artifact_path app" where
  "response_artifact_path t = path_of (''logs/controller/responses/'' @ t @ ''.json'')"

definition abort_artifact_path :: "string \<Rightarrow> artifact_path app" where
  "abort_artifact_path t = path_of (''logs/controller/aborts/'' @ t @ ''.json'')"

definition abort_receipt_artifact_path :: "string \<Rightarrow> artifact_path app" where
  "abort_receipt_artifact_path t = path_of (''logs/controller/abort-receipts/'' @ t @ ''.json'')"

definition controller_producer :: string where
  "controller_producer = ''t32perf-controller/v1''"

fun parse_abort_reason :: "string \<Rightarrow> abort_reason app" where
  "parse_abort_reason v =
     (if v = ''timeout'' then Inr AbortTimeout
      else if v = ''transport_failure'' then Inr AbortTransportFailure
      else if v = ''operator_request'' then Inr AbortOperatorRequest
      else Inl (Err (Operational (''unknown controller abort reason '' @ quoted v))))"

fun abort_reason_name :: "abort_reason \<Rightarrow> string" where
  "abort_reason_name AbortTimeout = ''timeout''"
| "abort_reason_name AbortTransportFailure = ''transport_failure''"
| "abort_reason_name AbortOperatorRequest = ''operator_request''"

definition find_artifact :: "artifact list \<Rightarrow> string \<Rightarrow> artifact option" where
  "find_artifact as k = find (\<lambda>a. art_id a = k) as"

definition find_required_artifact :: "artifact list \<Rightarrow> string \<Rightarrow> string \<Rightarrow> artifact app" where
  "find_required_artifact as k kind =
     rbind (ok_or (find_artifact as k) (Operational (''controller artifact '' @ quoted k @ '' is absent''))) (\<lambda>a.
     rthen
       (demand_app (art_kind a = kind \<and> art_producer a = controller_producer)
         (''controller artifact '' @ quoted k @ '' has an invalid kind or producer''))
       (Inr a))"

text \<open>The identifiers of the requests of a session, each once and in order.\<close>

definition transaction_of :: "artifact \<Rightarrow> string option" where
  "transaction_of a =
     (if starts_with (art_id a) ''controller-request-'' \<and> is_transaction_id (drop 19 (art_id a))
      then Some (drop 19 (art_id a)) else None)"

definition controller_transaction_ids :: "artifact list \<Rightarrow> string list" where
  "controller_transaction_ids as = sorted_list_of_set (set (List.map_filter transaction_of as))"

subsection \<open>Envelopes\<close>

datatype request_envelope = RequestV1 controller_request | RequestV2 controller_request_v2

datatype response_envelope = ResponseV1 controller_response | ResponseV2 controller_response_v2

text \<open>The fields that both families have.\<close>

fun request_base :: "request_envelope \<Rightarrow> controller_request" where
  "request_base (RequestV1 r) = r"
| "request_base (RequestV2 r) = controller_request.truncate r"

fun response_base :: "response_envelope \<Rightarrow> controller_response" where
  "response_base (ResponseV1 p) = p"
| "response_base (ResponseV2 p) = controller_response.truncate p"

fun response_outputs :: "response_envelope \<Rightarrow> artifact list" where
  "response_outputs (ResponseV1 p) = (case rp_output_artifact p of None \<Rightarrow> [] | Some a \<Rightarrow> [a])"
| "response_outputs (ResponseV2 p) = rp_output_artifacts p"

definition env_transaction :: "request_envelope \<Rightarrow> string" where
  "env_transaction e = cb_transaction_id (rq_binding (request_base e))"

definition env_operation :: "request_envelope \<Rightarrow> perf_operation" where
  "env_operation e = rq_operation (request_base e)"

record session_view =
  vw_session_id :: string
  vw_operation_id :: string
  vw_request_sha256 :: sha256_digest
  vw_status :: session_status
  vw_max_file_bytes :: u64
  vw_open :: "artifact \<Rightarrow> string + string"
  vw_verify :: "artifact \<Rightarrow> string + unit"
  vw_staging :: "artifact_path \<Rightarrow> string + string"
  vw_sha256 :: "u8 list \<Rightarrow> u8 list"
  vw_json :: "string \<Rightarrow> string + json"
  vw_request_v1 :: "json \<Rightarrow> string + controller_request"
  vw_request_v2 :: "json \<Rightarrow> string + controller_request_v2"
  vw_response_v1 :: "json \<Rightarrow> string + controller_response"
  vw_response_v2 :: "json \<Rightarrow> string + controller_response_v2"
  vw_abort_request :: "string \<Rightarrow> string + abort_request"
  vw_abort_receipt :: "string \<Rightarrow> string + abort_receipt"
  vw_scenario_selection :: "string \<Rightarrow> string + scenario_selection"
  vw_evidence :: evidence_decoders
  vw_adapter_host :: adapter_host
  vw_catalog_sha256 :: "admission_catalog \<Rightarrow> sha256_digest app"
  vw_compiled_catalog :: "admission_catalog app"
  vw_admission :: "artifact list \<Rightarrow> (adapter_profile \<times> admission_catalog \<times> artifact list \<times> adapter_scenario list) app"
  vw_registered_capture_config :: "artifact list \<Rightarrow> string + unit"
  vw_abort_quarantined :: "string \<Rightarrow> bool app"

text \<open>The bytes of an artifact: one more byte than the limit is asked of the file.\<close>

definition read_bounded :: "session_view \<Rightarrow> artifact \<Rightarrow> u64 \<Rightarrow> string app" where
  "read_bounded w a limit =
     rthen
       (demand_app (\<not> limit < art_size_bytes a)
         (''controller artifact '' @ quoted (art_id a) @ '' is '' @ dec (uint (art_size_bytes a)) @
          '' bytes; maximum is '' @ dec (uint limit)))
     (rbind (reading (vw_open w a)) (\<lambda>bytes.
      rthen
        (demand_app (\<not> uint limit < int (length (take (unat limit + 1) bytes)))
          (''controller artifact '' @ quoted (art_id a) @ '' grew beyond '' @ dec (uint limit) @ '' bytes while reading''))
        (Inr (take (unat limit + 1) bytes))))"

definition read_document :: "session_view \<Rightarrow> artifact \<Rightarrow> u64 \<Rightarrow> (string \<Rightarrow> string + 'a) \<Rightarrow> 'a app" where
  "read_document w a limit decode = rbind (read_bounded w a limit) (\<lambda>bytes. reading (decode bytes))"

definition schema_of :: "json \<Rightarrow> string option" where
  "schema_of v = (case v of JObj kvs \<Rightarrow> Option.bind (map_of kvs ''schema'') (\<lambda>s. case s of JStr t \<Rightarrow> Some t | _ \<Rightarrow> None)
                          | _ \<Rightarrow> None)"

definition validate_request_common :: "session_view \<Rightarrow> request_envelope \<Rightarrow> unit app" where
  "validate_request_common w e =
     (let r = request_base e in
      rthen (map_err OperationalContract (validate_binding (vw_sha256 w) (rq_binding r)))
      (rthen
        (demand_app
          (operation_str (rq_operation r) \<noteq> [] \<and> digest_hex (rq_adapter_catalog_sha256 r) \<noteq> [] \<and>
           as_path (rq_response_staging_path r) \<noteq> [] \<and> rq_max_response_bytes r \<noteq> 0 \<and>
           mh_script_name (rq_mcp r) \<noteq> [] \<and> fb_script_input_path (rq_firmware_image r) \<noteq> [] \<and>
           requires_interruption r = (rq_fault_action r \<noteq> None))
          ''controller request common envelope is invalid'')
        (demand_app (case rq_target_adapter r of None \<Rightarrow> True | Some b \<Rightarrow> tb_adapter_id b \<noteq> [])
          ''controller request target adapter is invalid'')))"

definition parse_request :: "session_view \<Rightarrow> string \<Rightarrow> request_envelope app" where
  "parse_request w bytes =
     rbind (reading (vw_json w bytes)) (\<lambda>v.
     rbind (ok_or (schema_of v) (Operational ''controller request has no schema discriminator'')) (\<lambda>schema.
     rbind
       (if schema = ''t32perf.controller-request/v1'' then
          rbind (reading (vw_request_v1 w v)) (\<lambda>r.
          rthen (map_err OperationalContract (validate_request (vw_sha256 w) r)) (Inr (RequestV1 r)))
        else if schema = ''t32perf.controller-request/v2'' then
          rbind (reading (vw_request_v2 w v)) (\<lambda>r.
          rthen (map_err OperationalContract (validate_request_v2 (vw_sha256 w) r)) (Inr (RequestV2 r)))
        else Inl (Err (Operational (''unsupported controller request schema '' @ quoted schema)))) (\<lambda>e.
     rthen (validate_request_common w e) (Inr e))))"

definition validate_response_common :: "session_view \<Rightarrow> response_envelope \<Rightarrow> unit app" where
  "validate_response_common w e =
     (let p = response_base e in
      rthen (map_err OperationalContract (validate_binding (vw_sha256 w) (rp_binding p)))
        (demand_app
          (rp_request_artifact_id p \<noteq> [] \<and> digest_hex (rp_request_artifact_sha256 p) \<noteq> [] \<and>
           cs_code (rp_script_response p) \<noteq> [] \<and> art_id (rp_raw_response_artifact p) \<noteq> [] \<and>
           list_all (\<lambda>a. art_id a \<noteq> []) (response_outputs e))
          ''controller response common envelope is invalid''))"

definition parse_response :: "session_view \<Rightarrow> string \<Rightarrow> response_envelope app" where
  "parse_response w bytes =
     rbind (reading (vw_json w bytes)) (\<lambda>v.
     rbind (ok_or (schema_of v) (Operational ''controller response has no schema discriminator'')) (\<lambda>schema.
     rbind
       (if schema = ''t32perf.controller-response/v1'' then
          rbind (reading (vw_response_v1 w v)) (\<lambda>p. Inr (ResponseV1 p))
        else if schema = ''t32perf.controller-response/v2'' then
          rbind (reading (vw_response_v2 w v)) (\<lambda>p. Inr (ResponseV2 p))
        else Inl (Err (Operational (''unsupported controller response schema '' @ quoted schema)))) (\<lambda>e.
     rthen (validate_response_common w e) (Inr e))))"

definition max_document_bytes :: u64 where
  "max_document_bytes = 64 * 1024"

definition read_request :: "session_view \<Rightarrow> artifact \<Rightarrow> request_envelope app" where
  "read_request w a = rbind (read_bounded w a max_document_bytes) (parse_request w)"

definition read_response :: "session_view \<Rightarrow> artifact \<Rightarrow> response_envelope app" where
  "read_response w a = rbind (read_bounded w a max_document_bytes) (parse_response w)"

subsection \<open>Evidence\<close>

definition read_evidence :: "session_view \<Rightarrow> perf_operation \<Rightarrow> sha256_digest \<Rightarrow> artifact \<Rightarrow> controller_evidence app" where
  "read_evidence w op binding a =
     rbind (read_bounded w a max_evidence_bytes) (\<lambda>bytes.
     rbind (map_err OperationalContract (parse_controller_evidence (vw_evidence w) op bytes)) (\<lambda>e.
     rthen (map_err OperationalContract (validate_evidence_for op binding e)) (Inr e)))"

definition read_envelope_evidence :: "session_view \<Rightarrow> request_envelope \<Rightarrow> artifact \<Rightarrow> controller_evidence app" where
  "read_envelope_evidence w e a =
     read_evidence w (env_operation e) (cb_binding_sha256 (rq_binding (request_base e))) a"

definition protocols_differ :: "'a app" where
  "protocols_differ =
     Inl (Err (Operational ''controller request and response use different immutable protocol versions''))"

definition accepted_machine_evidence_artifact :: "request_envelope \<Rightarrow> response_envelope \<Rightarrow> artifact option app" where
  "accepted_machine_evidence_artifact e p =
     (if cs_status (rp_script_response (response_base p)) \<noteq> StatusOk then Inr None
      else case (e, p) of
        (RequestV1 r, ResponseV1 q) \<Rightarrow>
          if map_option os_role (rq_output r) = Some MachineEvidence then
            rbind
              (ok_or (rp_output_artifact q)
                (Operational ''accepted target-control response is missing evidence'')) (\<lambda>a. Inr (Some a))
          else Inr None
      | (RequestV2 r, ResponseV2 q) \<Rightarrow>
          if rq_operation r = Export then Inr None
          else (case (rq_outputs r, rp_output_artifacts q) of
              ([slot], [a]) \<Rightarrow>
                if os_role slot = MachineEvidenceSlot then Inr (Some a)
                else Inl (Err (Operational
                  ''successful non-export V2 response must have exactly one machine-evidence artifact''))
            | _ \<Rightarrow>
                Inl (Err (Operational
                  ''successful non-export V2 response must have exactly one machine-evidence artifact'')))
      | _ \<Rightarrow> protocols_differ)"

subsection \<open>Responses\<close>

definition verify_in_session :: "session_view \<Rightarrow> artifact \<Rightarrow> unit app" where
  "verify_in_session w a = reading (vw_verify w a)"

definition raw_response_identity :: "string \<Rightarrow> artifact \<Rightarrow> bool app" where
  "raw_response_identity t a =
     rbind (raw_response_artifact_path t) (\<lambda>path.
       Inr (art_id a = raw_response_artifact_id t \<and> art_kind a = ''controller_mcp_response'' \<and>
            art_relative_path a = path \<and> art_producer a = controller_producer))"

definition output_matches_reservation :: "artifact \<Rightarrow> 'r output_reservation \<Rightarrow> artifact \<Rightarrow> bool" where
  "output_matches_reservation a r request \<longleftrightarrow>
     art_id a = os_artifact_id r \<and> art_kind a = os_kind r \<and>
     art_relative_path a = os_destination_relative_path r \<and> art_media_type a = os_media_type r \<and>
     art_producer a = os_producer r \<and> art_input_artifact_ids a = [art_id request] \<and>
     \<not> os_max_bytes r < art_size_bytes a"

definition validate_ok_response :: "session_view \<Rightarrow> artifact \<Rightarrow> controller_request \<Rightarrow> artifact \<Rightarrow> unit app" where
  "validate_ok_response w request r out =
     rbind
       (ok_or (rq_output r) (Operational ''successful controller response lacks an output reservation'')) (\<lambda>slot.
     rthen
       (demand_app (output_matches_reservation out slot request)
         ''controller output artifact does not match its immutable reservation'')
     (rthen (verify_in_session w out)
       (if os_role slot = MachineEvidence
        then rbind (read_evidence w (rq_operation r) (cb_binding_sha256 (rq_binding r)) out) (\<lambda>_. Inr ())
        else Inr ())))"

definition validate_response_v1 :: "session_view \<Rightarrow> artifact \<Rightarrow> controller_request \<Rightarrow> controller_response \<Rightarrow> unit app" where
  "validate_response_v1 w request r p =
     (let raw = rp_raw_response_artifact p; unbound = ''controller response is not bound to its immutable request'' in
      rthen (demand_app (\<not> requires_interruption r)
               ''a fault-action controller request cannot have an accepted final response'')
      (rthen (map_err OperationalContract (validate_binding (vw_sha256 w) (rp_binding p)))
      (rthen
        (demand_app
          (rp_binding p = rq_binding r \<and> rp_request_artifact_id p = art_id request \<and>
           rp_request_artifact_sha256 p = art_sha256 request \<and>
           cs_operation (rp_script_response p) = rq_operation r)
          unbound)
      (rbind (raw_response_identity (cb_transaction_id (rq_binding r)) raw) (\<lambda>same.
       rthen (demand_app (same \<and> art_input_artifact_ids raw = [art_id request]) unbound)
       (rthen (verify_in_session w raw)
         (case (cs_status (rp_script_response p), rp_output_artifact p) of
            (StatusOk, Some out) \<Rightarrow> validate_ok_response w request r out
          | (StatusOk, None) \<Rightarrow>
              Inl (Err (Operational ''successful target-control or export response is missing its output artifact''))
          | (HostProcessingRequired, None) \<Rightarrow>
              demand_app (rq_operation r = GetHotspots) ''host-processing response is valid only for perf_get_hotspots''
          | (_, None) \<Rightarrow> Inr ()
          | (_, Some _) \<Rightarrow>
              Inl (Err (Operational ''non-successful controller response contains an output artifact'')))))))))"

definition validate_slot_in_session :: "session_view \<Rightarrow> controller_request_v2
    \<Rightarrow> output_role_v2 output_reservation \<times> artifact \<Rightarrow> unit app" where
  "validate_slot_in_session w r = (\<lambda>(slot, a).
     rthen (verify_in_session w a)
       (if os_role slot = MachineEvidenceSlot
        then rbind (read_evidence w (rq_operation r) (cb_binding_sha256 (rq_binding r)) a) (\<lambda>_. Inr ())
        else Inr ()))"

definition validate_response :: "session_view \<Rightarrow> artifact \<Rightarrow> request_envelope \<Rightarrow> response_envelope \<Rightarrow> unit app" where
  "validate_response w request e p =
     (case (e, p) of
        (RequestV1 r, ResponseV1 q) \<Rightarrow> validate_response_v1 w request r q
      | (RequestV2 r, ResponseV2 q) \<Rightarrow>
          rthen (map_err OperationalContract (validate_response_v2 (vw_sha256 w) q r request))
          (rbind (raw_response_identity (cb_transaction_id (rq_binding r)) (rp_raw_response_artifact q)) (\<lambda>same.
           rthen (demand_app same ''controller V2 raw response artifact does not match its immutable request'')
           (rthen (verify_in_session w (rp_raw_response_artifact q))
             (each (validate_slot_in_session w r) (zip (rq_outputs r) (rp_output_artifacts q))))))
      | _ \<Rightarrow> protocols_differ)"

definition validate_response_identity :: "artifact \<Rightarrow> response_envelope \<Rightarrow> unit app" where
  "validate_response_identity a e =
     (let p = response_base e; t = cb_transaction_id (rp_binding p) in
      rbind (response_artifact_path t) (\<lambda>path.
        demand_app
          (art_id a = response_artifact_id t \<and> art_kind a = ''controller_response'' \<and>
           art_relative_path a = path \<and> art_producer a = controller_producer \<and>
           art_input_artifact_ids a =
             [rp_request_artifact_id p, art_id (rp_raw_response_artifact p)] @ map art_id (response_outputs e))
          ''controller response artifact does not match its bound response document''))"

text \<open>What every reader of an accepted response does.\<close>

definition accepted_response :: "session_view \<Rightarrow> artifact \<Rightarrow> request_envelope \<Rightarrow> artifact \<Rightarrow> response_envelope app" where
  "accepted_response w request e a =
     rbind (read_response w a) (\<lambda>p.
     rthen (validate_response w request e p)
     (rthen (validate_response_identity a p) (Inr p)))"

definition validate_abort_receipt :: "session_view \<Rightarrow> request_envelope \<Rightarrow> artifact \<Rightarrow> abort_request \<Rightarrow> artifact
    \<Rightarrow> abort_receipt \<Rightarrow> unit app" where
  "validate_abort_receipt w e request abort abort_artifact receipt =
     (let b = rq_binding (request_base e) in
      rthen (map_err OperationalContract (validate_binding (vw_sha256 w) (bp_binding receipt)))
        (demand_app
          (bp_binding receipt = b \<and> br_binding abort = b \<and> bp_request_artifact_id receipt = art_id request \<and>
           bp_request_artifact_sha256 receipt = art_sha256 request \<and>
           bp_abort_request_artifact_id receipt = art_id abort_artifact \<and>
           bp_abort_request_artifact_sha256 receipt = art_sha256 abort_artifact)
          ''controller abort receipt is not bound to its request and abort plan''))"

end
