(* ===== verification/Controller_Context.thy ===== *)
theory Controller_Context
  imports Controller_Envelope
begin

text \<open>
  How a request of the controller is bound to its session: the admission of its adapter, the selected
  scenario, the provenance of its artifact, and the outputs the host reserved for it
  (\<open>src/controller.rs\<close>).
\<close>

subsection \<open>The admitted adapter\<close>

definition operation_uses_target_adapter :: "perf_operation \<Rightarrow> bool" where
  "operation_uses_target_adapter op \<longleftrightarrow> \<not> (op = GetCapabilities \<or> op = GetHotspots)"

record admission_context =
  ac_catalog :: admission_catalog
  ac_provenance :: "artifact list"
  ac_selected_scenario :: "adapter_scenario option"
  ac_selection_artifact :: "artifact option"

definition scenario_inputs :: "artifact list \<Rightarrow> string list" where
  "scenario_inputs provenance = (if provenance = [] then [''firmware-elf''] else map art_id provenance)"

definition selected_scenario :: "session_view \<Rightarrow> artifact list \<Rightarrow> adapter_profile \<Rightarrow> artifact list
    \<Rightarrow> adapter_scenario list \<Rightarrow> (adapter_scenario \<times> artifact option) app" where
  "selected_scenario w as profile provenance allowed =
     (let admitted = (if provenance = [] then map sn_scenario (ta_scenarios profile) else allowed) in
      case find_artifact as ''target-adapter-scenario'' of
        None \<Rightarrow>
          rthen (demand_app (ScNormal \<in> set admitted)
                   ''Session admission does not authorize the required default normal scenario'')
            (Inr (ScNormal, None))
      | Some a \<Rightarrow>
          rthen
            (demand_app
              (art_kind a = ''target_adapter_scenario'' \<and>
               as_path (art_relative_path a) = ''capture/deployment/target-adapter-scenario.json'' \<and>
               art_media_type a = ''application/json'' \<and>
               art_producer a = ''t32perf-deployment-scenario/v1'')
              ''target-adapter scenario artifact has an invalid reserved identity'')
          (rbind (read_bounded w a max_evidence_bytes) (\<lambda>bytes.
           rbind
             (case vw_scenario_selection w bytes of
                Inl message \<Rightarrow> Inl (Err (OperationalAdapter (InvalidScenarioSelection message)))
              | Inr s \<Rightarrow> Inr s) (\<lambda>s.
           rthen (map_err OperationalAdapter (validate_for_allowed admitted s))
           (rthen
             (demand_app
               (art_input_artifact_ids a = scenario_inputs provenance \<and> ss_evidence_only s = (provenance = []))
               ''target-adapter scenario artifact provenance or evidence-only claim is invalid'')
             (Inr (ss_scenario s, Some a)))))))"

definition request_admission :: "session_view \<Rightarrow> artifact list \<Rightarrow> perf_operation \<Rightarrow> admission_context app" where
  "request_admission w as op =
     (if \<not> operation_uses_target_adapter op then
        rbind (vw_compiled_catalog w) (\<lambda>catalog.
          Inr \<lparr>ac_catalog = catalog, ac_provenance = [], ac_selected_scenario = None, ac_selection_artifact = None\<rparr>)
      else
        rbind (vw_admission w as) (\<lambda>(profile, catalog, provenance, allowed).
        rbind (selected_scenario w as profile provenance allowed) (\<lambda>(s, a).
          Inr \<lparr>ac_catalog = catalog, ac_provenance = provenance, ac_selected_scenario = Some s,
                ac_selection_artifact = a\<rparr>)))"

definition adapter_binding_of :: "session_view \<Rightarrow> admitted_adapter \<Rightarrow> adapter_scenario \<Rightarrow> adapter_binding app" where
  "adapter_binding_of w admitted s =
     (let p = ad_profile admitted; g = ta_build_gate p in
      rbind (ok_or (profile_scenario p s) (Operational ''selected target-adapter scenario disappeared'')) (\<lambda>c.
      rbind (map_err OperationalAdapter (profile_digest (vw_adapter_host w) p)) (\<lambda>digest.
        Inr \<lparr>tb_adapter_id = ta_adapter_id p, tb_adapter_version = ta_adapter_version p,
              tb_trace32_release = bg_trace32_release g, tb_trace32_build = bg_minimum_build g,
              tb_architecture_package = bg_architecture_package g,
              tb_target_identifier = ta_target_identifier p, tb_probe_identifier = ta_probe_identifier p,
              tb_profile_sha256 = digest, tb_implementation_sha256 = ta_implementation_sha256 p,
              tb_scenario = s, tb_capture_kind = pc_capture_kind (sn_capture c),
              tb_controller_protocol = ta_controller_protocol p,
              tb_custom_event_collector = ta_custom_event_collector p,
              tb_qualification_sha256 = ta_qualification_sha256 p\<rparr>)))"

definition selection_of :: "'a capabilities_evidence_scheme \<Rightarrow> selection_discriminator option \<Rightarrow> adapter_selection" where
  "selection_of e d =
     \<lparr>sl_trace32_release = cv_trace32_release e, sl_trace32_build = cv_trace32_build e,
      sl_architecture_package = cv_architecture_package e, sl_target_identifier = cv_target_identifier e,
      sl_probe_identifier = cv_probe_identifier e, sl_discriminator = d\<rparr>"

definition selection_from_capabilities :: "session_view \<Rightarrow> controller_evidence \<Rightarrow> adapter_profile \<Rightarrow> adapter_selection app" where
  "selection_from_capabilities w e profile =
     rbind (map_err OperationalAdapter (profile_digest (vw_adapter_host w) profile)) (\<lambda>digest.
       let d = Some \<lparr>sd_adapter_id = ta_adapter_id profile, sd_profile_sha256 = digest\<rparr> in
       case e of
         EvCapabilities v \<Rightarrow> Inr (selection_of v d)
       | EvCapabilitiesV2 v \<Rightarrow> Inr (selection_of v d)
       | _ \<Rightarrow> Inl (Err (Operational ''target-adapter selection requires capabilities evidence'')))"

definition select_admitted :: "session_view \<Rightarrow> admission_catalog \<Rightarrow> adapter_selection \<Rightarrow> admitted_adapter app" where
  "select_admitted w catalog s = map_err OperationalAdapter (catalog_select (vw_adapter_host w) catalog s)"

definition admitted_profile_for_binding :: "session_view \<Rightarrow> artifact list \<Rightarrow> adapter_binding \<Rightarrow> adapter_profile app" where
  "admitted_profile_for_binding w as b =
     rbind (vw_admission w as) (\<lambda>(_, catalog, _, _).
     rbind
       (ok_or (bt_get catalog (tb_adapter_id b))
         (Operational ''failed controller binding adapter is absent from its admission catalog'')) (\<lambda>admitted.
     rbind (adapter_binding_of w admitted (tb_scenario b)) (\<lambda>expected.
     rthen
       (demand_app (b = expected) ''failed controller binding does not match its exact admitted target profile'')
       (Inr (ad_profile admitted)))))"

definition request_inputs :: "firmware_binding \<Rightarrow> artifact list \<Rightarrow> artifact option \<Rightarrow> string list" where
  "request_inputs f provenance selection =
     [art_id (fb_source_elf f), art_id (fb_measurement f)] @ map art_id provenance @
     (case selection of None \<Rightarrow> [] | Some a \<Rightarrow> [art_id a])"

subsection \<open>Paths\<close>

definition practice_output_path :: "string \<Rightarrow> string app" where
  "practice_output_path v =
     (let forward = replace_chars [CHR 0x5C] (CHR ''/'') v;
          local = (if starts_with forward ''//?/'' then drop 4 forward else forward) in
      rthen
        (demand_app (\<not> (local = [] \<or> str_contains local ''//''))
          ''controller output path is not a portable PRACTICE path'')
        (Inr local))"

definition script_path :: "session_view \<Rightarrow> artifact_path \<Rightarrow> string app" where
  "script_path w path = rbind (reading (vw_staging w path)) practice_output_path"

subsection \<open>The context of a request\<close>

text \<open>What both families check, up to the path of the response.\<close>

definition validate_bound_adapter :: "session_view \<Rightarrow> admission_catalog \<Rightarrow> adapter_binding option \<Rightarrow> unit app" where
  "validate_bound_adapter w catalog b =
     (case b of
        None \<Rightarrow> Inr ()
      | Some b \<Rightarrow>
          rbind
            (ok_or (bt_get catalog (tb_adapter_id b))
              (Operational ''controller request selected an adapter absent from the catalog'')) (\<lambda>admitted.
          rbind (adapter_binding_of w admitted (tb_scenario b)) (\<lambda>expected.
            demand_app (b = expected)
              ''immutable controller request is not bound to the selected profile and executable bundle'')))"

definition validate_request_binding :: "session_view \<Rightarrow> artifact \<Rightarrow> controller_binding \<Rightarrow> string \<Rightarrow> unit app" where
  "validate_request_binding w a b t =
     rbind (request_artifact_path t) (\<lambda>path.
       demand_app
         (cb_session_id b = vw_session_id w \<and> cb_session_operation_id b = vw_operation_id w \<and>
          cb_session_request_sha256 b = vw_request_sha256 w \<and> cb_transaction_id b = t \<and>
          art_id a = request_artifact_id t \<and> art_relative_path a = path \<and>
          art_kind a = ''controller_request'' \<and> art_producer a = controller_producer)
         ''immutable controller request does not match its Session, operation, request digest, transaction, or artifact identity'')"

definition validate_common_context :: "session_view \<Rightarrow> artifact list \<Rightarrow> artifact \<Rightarrow> controller_request \<Rightarrow> string \<Rightarrow> unit app" where
  "validate_common_context w as a r t =
     rbind (request_admission w as (rq_operation r)) (\<lambda>admission.
     rbind (vw_catalog_sha256 w (ac_catalog admission)) (\<lambda>digest.
     rthen
       (demand_app (rq_adapter_catalog_sha256 r = digest)
         ''immutable controller request is not bound to its operation-specific adapter catalog'')
     (rthen
       (demand_app
         (art_input_artifact_ids a =
            request_inputs (rq_firmware_image r) (ac_provenance admission) (ac_selection_artifact admission))
         ''controller request artifact inputs do not bind the Session admission provenance'')
     (rthen (validate_bound_adapter w (ac_catalog admission) (rq_target_adapter r))
     (rthen (validate_request_binding w a (rq_binding r) t)
     (rbind (path_of (''controller/'' @ t @ ''.mcp-response.txt'')) (\<lambda>expected.
       demand_app (rq_response_staging_path r = expected)
         ''controller response staging reservation does not match its transaction'')))))))"

definition validate_request_context_v1 :: "session_view \<Rightarrow> artifact list \<Rightarrow> artifact \<Rightarrow> controller_request \<Rightarrow> string \<Rightarrow> unit app" where
  "validate_request_context_v1 w as a r t =
     rthen (map_err OperationalContract (validate_request (vw_sha256 w) r))
     (rthen (validate_common_context w as a r t)
       (case rq_output r of
          None \<Rightarrow> Inr ()
        | Some out \<Rightarrow>
            rbind (script_path w (os_staged_relative_path out)) (\<lambda>path.
              demand_app (path = os_script_output_path out \<and> os_artifact_id out = output_artifact_id t)
                ''controller export reservation does not match its Session-owned path'')))"

fun trace_suffix :: "capture_kind \<Rightarrow> string" where
  "trace_suffix (SamplingCapture _) = ''trace32-ascii.txt''"
| "trace_suffix (TaskEventsCapture _ _ _ _ _) = ''trace32-task-events.txt''"

definition expected_slot :: "session_view \<Rightarrow> string \<Rightarrow> output_role_v2 \<Rightarrow> string \<Rightarrow> string \<Rightarrow> string \<Rightarrow> u64 \<Rightarrow> string
    \<Rightarrow> output_role_v2 output_reservation app" where
  "expected_slot w t role suffix kind media maximum destination =
     rbind (path_of (''controller/'' @ t @ ''.'' @ suffix)) (\<lambda>staged.
     rbind (script_path w staged) (\<lambda>script.
     rbind (path_of destination) (\<lambda>destination.
       Inr \<lparr>os_role = role, os_staged_relative_path = staged, os_script_output_path = script,
             os_artifact_id =
               (if role = CustomEventsSlot then custom_event_output_artifact_id t else output_artifact_id t),
             os_destination_relative_path = destination, os_kind = kind, os_media_type = media,
             os_producer = controller_producer, os_max_bytes = maximum\<rparr>)))"

definition expected_slots :: "session_view \<Rightarrow> controller_request_v2 \<Rightarrow> string \<Rightarrow> output_role_v2 output_reservation list app" where
  "expected_slots w r t =
     (if rq_operation r = Export then
        rbind (ok_or (rq_target_adapter r) (Operational ''V2 export has no adapter'')) (\<lambda>adapter.
        rbind (ok_or (tb_custom_event_collector adapter) (Operational ''V2 export has no collector'')) (\<lambda>k.
        let suffix = trace_suffix (tb_capture_kind adapter) in
        rbind
          (expected_slot w t TraceExportSlot suffix ''raw_trace'' ''text/plain'' (vw_max_file_bytes w)
            (''capture/raw/controller-'' @ t @ ''.'' @ suffix)) (\<lambda>trace.
        rbind
          (expected_slot w t CustomEventsSlot ''custom-events.bin'' ''custom_events'' ''application/octet-stream''
            (kl_max_output_bytes k) (''capture/raw/controller-'' @ t @ ''.custom-events.bin'')) (\<lambda>custom.
          Inr [trace, custom]))))
      else
        (let suffix = operation_str (rq_operation r) @ ''.evidence.json'' in
         rbind
           (expected_slot w t MachineEvidenceSlot suffix ''trace32_control_evidence'' ''application/json''
             (min max_evidence_bytes (vw_max_file_bytes w))
             (''capture/control/controller-'' @ t @ ''.'' @ suffix)) (\<lambda>slot. Inr [slot])))"

definition validate_reservations :: "session_view \<Rightarrow> controller_request_v2 \<Rightarrow> string \<Rightarrow> unit app" where
  "validate_reservations w r t =
     rbind (expected_slots w r t) (\<lambda>slots.
     rthen (demand_app (length (rq_outputs r) = length slots) ''V2 output slot count does not match host reservation'')
       (each (\<lambda>(slot, expected). demand_app (slot = expected) ''V2 output reservation does not match its host-owned envelope'')
         (zip (rq_outputs r) slots)))"

definition validate_fixed_outputs :: "controller_request_v2 \<Rightarrow> string \<Rightarrow> unit app" where
  "validate_fixed_outputs r t =
     (if rq_operation r = Export then
        demand_app
          (case rq_outputs r of
             [trace, custom] \<Rightarrow>
               os_role trace = TraceExportSlot \<and> os_artifact_id trace = output_artifact_id t \<and>
               os_role custom = CustomEventsSlot \<and>
               os_artifact_id custom = custom_event_output_artifact_id t \<and>
               as_path (os_staged_relative_path custom) = ''controller/'' @ t @ ''.custom-events.bin'' \<and>
               as_path (os_destination_relative_path custom) =
                 ''capture/raw/controller-'' @ t @ ''.custom-events.bin'' \<and>
               os_kind custom = ''custom_events'' \<and> os_media_type custom = ''application/octet-stream'' \<and>
               os_producer custom = controller_producer
           | _ \<Rightarrow> False)
          ''V2 export does not retain the fixed trace/custom-event output envelopes''
      else
        demand_app
          (case rq_outputs r of
             [evidence] \<Rightarrow> os_role evidence = MachineEvidenceSlot \<and> os_artifact_id evidence = output_artifact_id t
           | _ \<Rightarrow> False)
          ''V2 non-export request does not retain its machine-evidence output envelope'')"

definition validate_request_context :: "session_view \<Rightarrow> artifact list \<Rightarrow> artifact \<Rightarrow> request_envelope \<Rightarrow> string \<Rightarrow> unit app" where
  "validate_request_context w as a e t =
     (case e of
        RequestV1 r \<Rightarrow> validate_request_context_v1 w as a r t
      | RequestV2 r \<Rightarrow>
          rthen (validate_common_context w as a (controller_request.truncate r) t)
          (rthen (validate_reservations w r t)
          (rthen
            (each
              (\<lambda>out. rbind (script_path w (os_staged_relative_path out)) (\<lambda>path.
                 demand_app (path = os_script_output_path out)
                   ''controller V2 output reservation does not match its Session-owned path''))
              (rq_outputs r))
            (validate_fixed_outputs r t))))"

text \<open>What every reader of a transaction does first.\<close>

definition transaction_request :: "session_view \<Rightarrow> artifact list \<Rightarrow> string \<Rightarrow> (artifact \<times> request_envelope) app" where
  "transaction_request w as t =
     rbind (find_required_artifact as (request_artifact_id t) ''controller_request'') (\<lambda>a.
     rbind (read_request w a) (\<lambda>e.
     rthen (validate_request_context w as a e t) (Inr (a, e))))"

definition driver_abort_plan :: "session_view \<Rightarrow> artifact list \<Rightarrow> artifact \<Rightarrow> request_envelope
    \<Rightarrow> (artifact \<times> abort_request) option app" where
  "driver_abort_plan w as request e =
     (case find_artifact as (abort_artifact_id (env_transaction e)) of
        None \<Rightarrow> Inr None
      | Some a \<Rightarrow>
          rthen
            (demand_app (art_kind a = ''controller_abort_request'' \<and> art_producer a = controller_producer)
              ''controller abort plan has an invalid reserved artifact envelope'')
          (rbind (read_document w a max_document_bytes (vw_abort_request w)) (\<lambda>abort.
           rthen
             (demand_app
               (br_binding abort = rq_binding (request_base e) \<and> br_request_artifact_id abort = art_id request \<and>
                br_request_artifact_sha256 abort = art_sha256 request \<and> br_tool abort = AbortTool)
               ''controller abort plan is not bound to its immutable request'')
             (Inr (Some (a, abort))))))"

definition driver_abort_confirmed :: "session_view \<Rightarrow> artifact list \<Rightarrow> artifact \<Rightarrow> request_envelope
    \<Rightarrow> (artifact \<times> abort_request) option \<Rightarrow> bool app" where
  "driver_abort_confirmed w as request e plan =
     (case find_artifact as (abort_receipt_artifact_id (env_transaction e)) of
        None \<Rightarrow> Inr False
      | Some a \<Rightarrow>
          rthen
            (demand_app (art_kind a = ''controller_abort_receipt'' \<and> art_producer a = controller_producer)
              ''controller abort receipt has an invalid reserved artifact envelope'')
          (rbind
            (ok_or plan (Operational ''controller abort receipt exists without its immutable abort plan''))
            (\<lambda>(abort_artifact, abort).
           rbind (read_document w a max_document_bytes (vw_abort_receipt w)) (\<lambda>receipt.
           rthen (validate_abort_receipt w e request abort abort_artifact receipt) (Inr True)))))"

definition driver_accepted_response :: "session_view \<Rightarrow> artifact list \<Rightarrow> artifact \<Rightarrow> request_envelope \<Rightarrow> bool app" where
  "driver_accepted_response w as request e =
     (case find_artifact as (response_artifact_id (env_transaction e)) of
        None \<Rightarrow> Inr False
      | Some a \<Rightarrow> rbind (accepted_response w request e a) (\<lambda>_. Inr True))"

end
