(* ===== verification/Controller_Progress.thy ===== *)
theory Controller_Progress
  imports Controller_Context Attestation Target_Adapter_Run Session_Lifecycle
begin

text \<open>
  What a session tells of its capture: the operations that were accepted, the phase they form, the
  transaction that is pending, and the evidence they left (\<open>src/controller.rs\<close>). Everything is derived
  again from the immutable artifacts of the session on every call; nothing else is remembered.
\<close>

lemma demand_app_eq_Inr [simp, result_simps]: "demand_app b message = Inr u \<longleftrightarrow> b"
  by (simp add: demand_app_def)

subsection \<open>Phases\<close>

definition controller_capture_sequence :: "perf_operation list" where
  "controller_capture_sequence = [GetCapabilities, Configure, Start, Stop, GetHealth, Export, Cleanup]"

fun phase_operation :: "capture_phase \<Rightarrow> perf_operation option" where
  "phase_operation CpCapabilities = Some GetCapabilities"
| "phase_operation CpConfigure = Some Configure"
| "phase_operation CpStart = Some Start"
| "phase_operation CpStop = Some Stop"
| "phase_operation CpHealth = Some GetHealth"
| "phase_operation CpExport = Some Export"
| "phase_operation CpCleanup = Some Cleanup"
| "phase_operation CpComplete = None"

fun phase_str :: "capture_phase \<Rightarrow> string" where
  "phase_str CpCapabilities = ''capabilities_required''"
| "phase_str CpConfigure = ''configure_required''"
| "phase_str CpStart = ''start_required''"
| "phase_str CpStop = ''stop_required''"
| "phase_str CpHealth = ''health_required''"
| "phase_str CpExport = ''export_required''"
| "phase_str CpCleanup = ''cleanup_required''"
| "phase_str CpComplete = ''capture_complete''"

record controller_progress =
  pg_state :: session_status
  pg_phase :: capture_phase
  pg_completed :: "perf_operation set"
  pg_pending :: "(string \<times> perf_operation) option"

text \<open>The phase of a completed prefix; a prefix is never longer than the sequence.\<close>

definition phase_of_prefix :: "nat \<Rightarrow> capture_phase" where
  "phase_of_prefix n =
     (if n = 0 then CpCapabilities else if n = 1 then CpConfigure else if n = 2 then CpStart
      else if n = 3 then CpStop else if n = 4 then CpHealth else if n = 5 then CpExport
      else if n = 6 then CpCleanup else CpComplete)"

subsection \<open>The chain of evidence\<close>

type_synonym 'v by_operation = "perf_operation \<Rightarrow> 'v option"

record capabilities_view =
  cw_capture_modes :: "string list"
  cw_trace_sinks :: "string list"
  cw_covered_cores :: "u32 list"
  cw_timestamp_supported :: bool
  cw_initial_target_state :: "target_state option"

definition view_of :: "'a capabilities_evidence_scheme \<Rightarrow> target_state option \<Rightarrow> capabilities_view" where
  "view_of e initial =
     \<lparr>cw_capture_modes = cv_capture_modes e, cw_trace_sinks = cv_trace_sinks e,
      cw_covered_cores = cv_covered_cores e, cw_timestamp_supported = cv_timestamp_supported e,
      cw_initial_target_state = initial\<rparr>"

definition capabilities_view_of :: "controller_evidence \<Rightarrow> capabilities_view app" where
  "capabilities_view_of e =
     (case e of
        EvCapabilities v \<Rightarrow> Inr (view_of v None)
      | EvCapabilitiesV2 v \<Rightarrow> Inr (view_of v (Some (cv_initial_target_state v)))
      | _ \<Rightarrow> Inl (Err (Operational ''controller evidence is not a capabilities document'')))"

definition configure_within :: "capabilities_view \<Rightarrow> configure_evidence \<Rightarrow> bool" where
  "configure_within v c \<longleftrightarrow>
     fv_capture_mode c \<in> set (cw_capture_modes v) \<and> fv_trace_sink c \<in> set (cw_trace_sinks v) \<and>
     set (fv_covered_cores c) \<subseteq> set (cw_covered_cores v) \<and>
     (fv_timestamp_enabled c \<longrightarrow> cw_timestamp_supported v) \<and>
     (case cw_initial_target_state v of None \<Rightarrow> True | Some s \<Rightarrow> s = fv_initial_target_state c)"

definition configured :: "controller_evidence by_operation \<Rightarrow> configure_evidence option" where
  "configured ev = (case ev Configure of Some (EvConfigure c) \<Rightarrow> Some c | _ \<Rightarrow> None)"

definition check_configure :: "controller_evidence by_operation \<Rightarrow> unit app" where
  "check_configure ev =
     (case (ev GetCapabilities, configured ev) of
        (Some e, Some c) \<Rightarrow>
          rbind (capabilities_view_of e) (\<lambda>v.
            demand_app (configure_within v c) ''accepted configure evidence exceeds the preceding capability evidence'')
      | _ \<Rightarrow> Inr ())"

definition started :: "controller_evidence by_operation \<Rightarrow> (target_state \<times> string) option" where
  "started ev =
     (case ev Start of
        Some (EvStart s) \<Rightarrow> Some (tv_initial_target_state s, tv_workload_identity s)
      | Some (EvStartV2 s) \<Rightarrow> Some (tw_initial_target_state s, tw_workload_identity s)
      | _ \<Rightarrow> None)"

definition check_start :: "controller_evidence by_operation \<Rightarrow> unit app" where
  "check_start ev =
     (case (configured ev, started ev) of
        (Some c, Some s) \<Rightarrow>
          demand_app (s = (fv_initial_target_state c, fv_workload_identity c))
            ''accepted start evidence does not match the configured target state and workload''
      | _ \<Rightarrow> Inr ())"

definition check_stop :: "controller_evidence by_operation \<Rightarrow> unit app" where
  "check_stop ev =
     (case (started ev, ev Stop) of
        (Some (_, workload), Some (EvStop s)) \<Rightarrow>
          demand_app (workload = ov_workload_identity s)
            ''accepted stop evidence does not match the started workload''
      | (Some (_, workload), Some (EvStopV2 s)) \<Rightarrow>
          demand_app (workload = ow_workload_identity s)
            ''accepted sampling stop evidence does not match the started workload''
      | _ \<Rightarrow> Inr ())"

definition check_stop_state :: "controller_evidence by_operation \<Rightarrow> unit app" where
  "check_stop_state ev =
     (case (configured ev, ev Stop) of
        (Some c, Some (EvStopV2 s)) \<Rightarrow>
          demand_app (fv_initial_target_state c = ow_target_state_after_stop s)
            ''sampling adapter changed target execution state across capture''
      | _ \<Rightarrow> Inr ())"

subsection \<open>The replay of the adapter\<close>

text \<open>
  The accepted evidence is run again through the adapter that the session admitted. The steps end at
  the first operation without evidence; the export and the cleanup follow when they were accepted.
\<close>

definition adapter_step :: "(perf_operation \<Rightarrow> artifact option) \<Rightarrow> perf_operation \<Rightarrow> controller_evidence
    \<Rightarrow> adapter_run \<Rightarrow> adapter_run app" where
  "adapter_step as op e run =
     (if op = Stop then
        rbind (ok_or (as op) (Operational ''accepted Stop evidence has no immutable artifact digest'')) (\<lambda>a.
          map_err OperationalAdapter (accept_evidence_artifact run e (art_sha256 a)))
      else map_err OperationalAdapter (accept_evidence run e))"

fun adapter_steps :: "controller_evidence by_operation \<Rightarrow> artifact by_operation \<Rightarrow> perf_operation list
    \<Rightarrow> adapter_run \<Rightarrow> adapter_run app" where
  "adapter_steps ev as [] run = Inr run"
| "adapter_steps ev as (op # ops) run =
     (case ev op of
        None \<Rightarrow> Inr run
      | Some e \<Rightarrow> rbind (adapter_step as op e run) (\<lambda>run'. adapter_steps ev as ops run'))"

definition adapter_replay :: "adapter_profile \<Rightarrow> adapter_scenario \<Rightarrow> controller_evidence by_operation
    \<Rightarrow> artifact by_operation \<Rightarrow> script_response by_operation \<Rightarrow> adapter_run app" where
  "adapter_replay profile s ev as responses =
     rbind (map_err OperationalAdapter (run_new profile s)) (\<lambda>run.
     rbind (adapter_steps ev as [GetCapabilities, Configure, Start, Stop, GetHealth] run) (\<lambda>run.
     rbind
       (case responses Export of
          None \<Rightarrow> Inr run
        | Some r \<Rightarrow> map_err OperationalAdapter (accept_export run r)) (\<lambda>run.
       case ev Cleanup of
         None \<Rightarrow> Inr run
       | Some e \<Rightarrow> map_err OperationalAdapter (accept_evidence run e))))"

definition has_target_evidence :: "controller_evidence by_operation \<Rightarrow> script_response by_operation \<Rightarrow> bool" where
  "has_target_evidence ev responses \<longleftrightarrow>
     list_ex (\<lambda>op. ev op \<noteq> None) [Configure, Start, Stop, GetHealth, Cleanup] \<or> responses Export \<noteq> None"

definition validate_adapter_chain :: "session_view \<Rightarrow> artifact list \<Rightarrow> controller_evidence by_operation
    \<Rightarrow> artifact by_operation \<Rightarrow> script_response by_operation \<Rightarrow> unit app" where
  "validate_adapter_chain w arts ev as responses =
     (case ev GetCapabilities of
        None \<Rightarrow> Inr ()
      | Some capabilities \<Rightarrow>
          if \<not> has_target_evidence ev responses then Inr ()
          else
            rbind (vw_admission w arts) (\<lambda>(profile, catalog, provenance, allowed).
            rbind (selection_from_capabilities w capabilities profile) (\<lambda>sel.
            rbind (select_admitted w catalog sel) (\<lambda>admitted.
            rbind (selected_scenario w arts profile provenance allowed) (\<lambda>(s, _).
            rbind (adapter_replay (ad_profile admitted) s ev as responses) (\<lambda>_. Inr ()))))))"

definition validate_evidence_chain :: "session_view \<Rightarrow> artifact list \<Rightarrow> controller_evidence by_operation
    \<Rightarrow> artifact by_operation \<Rightarrow> script_response by_operation \<Rightarrow> unit app" where
  "validate_evidence_chain w arts ev as responses =
     rthen (check_configure ev)
     (rthen (check_start ev)
     (rthen (check_stop ev)
     (rthen (check_stop_state ev)
       (validate_adapter_chain w arts ev as responses))))"

subsection \<open>The transactions of a session\<close>

record transaction_scan =
  ts_completed :: "perf_operation set"
  ts_evidence :: "controller_evidence by_operation"
  ts_artifacts :: "artifact by_operation"
  ts_responses :: "script_response by_operation"
  ts_selected :: "adapter_binding option"
  ts_pending :: "(string \<times> perf_operation) option"
  ts_cleanup :: "string option"

definition no_transactions :: transaction_scan where
  "no_transactions =
     \<lparr>ts_completed = {}, ts_evidence = \<lambda>_. None, ts_artifacts = \<lambda>_. None, ts_responses = \<lambda>_. None,
      ts_selected = None, ts_pending = None, ts_cleanup = None\<rparr>"

definition insert_once :: "string \<Rightarrow> perf_operation \<Rightarrow> 'v \<Rightarrow> 'v by_operation \<Rightarrow> 'v by_operation app" where
  "insert_once message op v m = rthen (demand_app (m op = None) message) (Inr (m(op := Some v)))"

definition operation_message :: "string \<Rightarrow> perf_operation \<Rightarrow> string" where
  "operation_message rest op = ''controller operation '' @ quoted (operation_str op) @ rest"

definition script_response_for :: "request_envelope \<Rightarrow> controller_script_response \<Rightarrow> script_response" where
  "script_response_for e s =
     \<lparr>pr_operation = cs_operation s, pr_status = cs_status s, pr_code = cs_code s,
      pr_binding_sha256 = digest_hex (cb_binding_sha256 (rq_binding (request_base e))),
      pr_files_deleted = cs_files_deleted s\<rparr>"

definition completes :: "perf_operation \<Rightarrow> perf_status \<Rightarrow> bool" where
  "completes op s \<longleftrightarrow> s = StatusOk \<or> s = HostProcessingRequired \<and> op = GetHotspots"

definition response_kind_ok :: "artifact \<Rightarrow> bool" where
  "response_kind_ok a \<longleftrightarrow> art_kind a = ''controller_response'' \<and> art_producer a = controller_producer"

definition scan_completion :: "string \<Rightarrow> perf_operation \<Rightarrow> perf_status \<Rightarrow> transaction_scan \<Rightarrow> transaction_scan app" where
  "scan_completion t op status sc =
     (if \<not> completes op status then Inr sc
      else
        rthen
          (demand_app (op \<notin> ts_completed sc) (operation_message '' has more than one accepted completion'' op))
          (Inr (sc\<lparr>ts_completed := insert op (ts_completed sc),
                    ts_cleanup := (if op = Cleanup then Some t else ts_cleanup sc)\<rparr>)))"

definition scan_script :: "request_envelope \<Rightarrow> controller_script_response \<Rightarrow> transaction_scan \<Rightarrow> transaction_scan app" where
  "scan_script e s sc =
     (if cs_status s \<noteq> StatusOk then Inr sc
      else
        rbind
          (insert_once (operation_message '' has duplicate accepted responses'' (env_operation e)) (env_operation e)
            (script_response_for e s) (ts_responses sc)) (\<lambda>m.
          Inr (sc\<lparr>ts_responses := m\<rparr>)))"

definition scan_evidence :: "session_view \<Rightarrow> request_envelope \<Rightarrow> response_envelope \<Rightarrow> transaction_scan \<Rightarrow> transaction_scan app" where
  "scan_evidence w e p sc =
     rbind (accepted_machine_evidence_artifact e p) (\<lambda>out.
       case out of
         None \<Rightarrow> Inr sc
       | Some a \<Rightarrow>
           rbind (read_envelope_evidence w e a) (\<lambda>ev.
           rbind
             (insert_once (operation_message '' has duplicate accepted evidence'' (env_operation e)) (env_operation e) ev
               (ts_evidence sc)) (\<lambda>m.
             Inr (sc\<lparr>ts_evidence := m, ts_artifacts := (ts_artifacts sc)(env_operation e := Some a)\<rparr>))))"

definition scan_response :: "session_view \<Rightarrow> artifact \<Rightarrow> request_envelope \<Rightarrow> artifact \<Rightarrow> string
    \<Rightarrow> transaction_scan \<Rightarrow> transaction_scan app" where
  "scan_response w request e a t sc =
     rthen
       (demand_app (response_kind_ok a)
         (''controller response artifact for transaction '' @ quoted t @ '' has invalid identity''))
     (rbind (accepted_response w request e a) (\<lambda>p.
      let s = rp_script_response (response_base p) in
      rbind (scan_completion t (env_operation e) (cs_status s) sc) (\<lambda>sc.
      rbind (scan_script e s sc) (\<lambda>sc.
        scan_evidence w e p sc))))"

text \<open>Only a failed session whose quarantine is durable closes an aborted transaction.\<close>

definition scan_abort :: "session_view \<Rightarrow> bool \<Rightarrow> artifact list \<Rightarrow> artifact \<Rightarrow> request_envelope \<Rightarrow> artifact \<Rightarrow> string
    \<Rightarrow> transaction_scan \<Rightarrow> transaction_scan app" where
  "scan_abort w rooted arts request e a t sc =
     rbind (find_required_artifact arts (abort_artifact_id t) ''controller_abort_request'') (\<lambda>abort_artifact.
     rbind (read_document w abort_artifact max_document_bytes (vw_abort_request w)) (\<lambda>abort.
     rbind (read_document w a max_document_bytes (vw_abort_receipt w)) (\<lambda>receipt.
     rthen (validate_abort_receipt w e request abort abort_artifact receipt)
     (rbind
       (if vw_status w = Failed then (if rooted then vw_abort_quarantined w t else Inr False) else Inr False)
       (\<lambda>closed. rthen (ensure closed (AbortRecoveryRequired t)) (Inr sc))))))"

definition scan_selection :: "request_envelope \<Rightarrow> transaction_scan \<Rightarrow> transaction_scan app" where
  "scan_selection e sc =
     (case rq_target_adapter (request_base e) of
        None \<Rightarrow> Inr sc
      | Some b \<Rightarrow>
          rthen
            (demand_app (case ts_selected sc of None \<Rightarrow> True | Some s \<Rightarrow> s = b)
              ''controller requests do not reuse one immutable target-adapter selection'')
            (Inr (sc\<lparr>ts_selected := Some b\<rparr>)))"

definition scan_pending :: "string \<Rightarrow> perf_operation \<Rightarrow> transaction_scan \<Rightarrow> transaction_scan app" where
  "scan_pending t op sc =
     rthen
       (demand_app (ts_pending sc = None) ''Session contains more than one pending controller transaction'')
       (Inr (sc\<lparr>ts_pending := Some (t, op)\<rparr>))"

definition scan_transaction :: "session_view \<Rightarrow> bool \<Rightarrow> artifact list \<Rightarrow> string \<Rightarrow> transaction_scan \<Rightarrow> transaction_scan app" where
  "scan_transaction w rooted arts t sc =
     rbind (transaction_request w arts t) (\<lambda>(request, e).
     rbind (scan_selection e sc) (\<lambda>sc.
       case (find_artifact arts (response_artifact_id t), find_artifact arts (abort_receipt_artifact_id t)) of
         (Some _, Some _) \<Rightarrow>
           Inl (Err (Operational (''controller transaction '' @ quoted t @ '' has both a response and abort receipt'')))
       | (Some a, None) \<Rightarrow> scan_response w request e a t sc
       | (None, Some a) \<Rightarrow> scan_abort w rooted arts request e a t sc
       | (None, None) \<Rightarrow> scan_pending t (env_operation e) sc))"

fun scan_transactions :: "session_view \<Rightarrow> bool \<Rightarrow> artifact list \<Rightarrow> string list \<Rightarrow> transaction_scan \<Rightarrow> transaction_scan app" where
  "scan_transactions w rooted arts [] sc = Inr sc"
| "scan_transactions w rooted arts (t # ts) sc =
     rbind (scan_transaction w rooted arts t sc) (\<lambda>sc. scan_transactions w rooted arts ts sc)"

subsection \<open>Progress\<close>

definition capture_config_exists :: "session_view \<Rightarrow> artifact list \<Rightarrow> bool app" where
  "capture_config_exists w arts =
     (case find_artifact arts ''capture-config'' of
        None \<Rightarrow> Inr False
      | Some a \<Rightarrow>
          rthen
            (demand_app (art_producer a = ''t32perf-controller-capture-config/v1'')
              ''completed Controller capture has a capture-config with invalid producer authority'')
          (rthen (reading (vw_registered_capture_config w arts)) (Inr True)))"

definition gate_completed_capture_config :: "capture_phase \<Rightarrow> (string \<times> perf_operation) option \<Rightarrow> string option
    \<Rightarrow> bool \<Rightarrow> (capture_phase \<times> (string \<times> perf_operation) option) app" where
  "gate_completed_capture_config phase pending cleanup ready =
     (if phase \<noteq> CpComplete \<or> ready then Inr (phase, pending)
      else
        rthen
          (demand_app (pending = None)
            ''controller capture has accepted cleanup without capture-config while another transaction is pending'')
        (rbind
          (ok_or cleanup
            (Operational ''controller capture completion has no immutable cleanup transaction identity'')) (\<lambda>t.
          Inr (CpCleanup, Some (t, Cleanup)))))"

definition completed_prefix :: "perf_operation set \<Rightarrow> nat" where
  "completed_prefix ops = length (takeWhile (\<lambda>op. op \<in> ops) controller_capture_sequence)"

definition validate_selection_of_capabilities :: "session_view \<Rightarrow> artifact list \<Rightarrow> transaction_scan \<Rightarrow> unit app" where
  "validate_selection_of_capabilities w arts sc =
     (case (ts_evidence sc GetCapabilities, ts_selected sc) of
        (Some capabilities, Some selected) \<Rightarrow>
          rbind (vw_admission w arts) (\<lambda>(profile, catalog, _, _).
          rbind (selection_from_capabilities w capabilities profile) (\<lambda>sel.
          rbind (select_admitted w catalog sel) (\<lambda>admitted.
          rbind (adapter_binding_of w admitted (tb_scenario selected)) (\<lambda>expected.
            demand_app (selected = expected)
              ''controller target-adapter selection does not match accepted capabilities''))))
      | _ \<Rightarrow> Inr ())"

definition validate_order :: "perf_operation set \<Rightarrow> unit app" where
  "validate_order ops =
     (let n = completed_prefix ops in
      rthen
        (demand_app (list_all (\<lambda>op. op \<notin> ops) (drop n controller_capture_sequence))
          ''controller capture completions do not form the required ordered prefix'')
        (demand_app (\<not> (GetHotspots \<in> ops \<and> n \<noteq> length controller_capture_sequence))
          (''optional controller operation '' @ quoted (operation_str GetHotspots) @
           '' completed before the capture chain'')))"

definition pending_allowed :: "capture_phase \<Rightarrow> perf_operation set \<Rightarrow> perf_operation \<Rightarrow> bool" where
  "pending_allowed phase completed op \<longleftrightarrow>
     phase_operation phase = Some op \<or> phase = CpComplete \<and> op = GetHotspots \<and> op \<notin> completed"

definition validate_pending :: "capture_phase \<Rightarrow> perf_operation set \<Rightarrow> (string \<times> perf_operation) option \<Rightarrow> unit app" where
  "validate_pending phase completed pending =
     (case pending of
        None \<Rightarrow> Inr ()
      | Some (t, op) \<Rightarrow>
          demand_app (pending_allowed phase completed op)
            (''pending controller transaction '' @ quoted t @ '' for '' @ quoted (operation_str op) @
             '' does not match capture phase '' @ quoted (phase_str phase)))"

definition progress_from_scan :: "session_view \<Rightarrow> bool \<Rightarrow> artifact list \<Rightarrow> transaction_scan \<Rightarrow> controller_progress app" where
  "progress_from_scan w rooted arts sc =
     rthen (validate_order (ts_completed sc))
     (rthen (validate_evidence_chain w arts (ts_evidence sc) (ts_artifacts sc) (ts_responses sc))
     (rthen (validate_selection_of_capabilities w arts sc)
     (let phase = phase_of_prefix (completed_prefix (ts_completed sc)) in
      rbind (if phase = CpComplete \<and> rooted then capture_config_exists w arts else Inr True) (\<lambda>ready.
      rbind (gate_completed_capture_config phase (ts_pending sc) (ts_cleanup sc) ready) (\<lambda>(phase, pending).
      rthen (validate_pending phase (ts_completed sc) pending)
        (Inr \<lparr>pg_state = vw_status w, pg_phase = phase, pg_completed = ts_completed sc, pg_pending = pending\<rparr>))))))"

definition controller_progress_from_artifacts :: "session_view \<Rightarrow> bool \<Rightarrow> artifact list \<Rightarrow> controller_progress app" where
  "controller_progress_from_artifacts w rooted arts =
     rbind (scan_transactions w rooted arts (controller_transaction_ids arts) no_transactions)
       (progress_from_scan w rooted arts)"

end
