(* ===== verification/Controller_Ownership.thy ===== *)
theory Controller_Ownership
  imports Controller_Progress
begin

text \<open>
  What the controller decides from the progress of its sessions: which operation may run next, whether a
  candidate response extends the accepted evidence, how a response moves its session, and which session
  owns the single capture endpoint of the artifact root (\<open>src/controller.rs\<close>). The sessions of a root
  come in the order in which the root lists them.
\<close>

subsection \<open>The next operation\<close>

fun status_debug :: "session_status \<Rightarrow> string" where
  "status_debug Created = ''Created''"
| "status_debug Capturing = ''Capturing''"
| "status_debug Captured = ''Captured''"
| "status_debug Processing = ''Processing''"
| "status_debug Complete = ''Complete''"
| "status_debug Failed = ''Failed''"

fun phase_status :: "capture_phase \<Rightarrow> session_status" where
  "phase_status CpCapabilities = Created"
| "phase_status CpConfigure = Created"
| "phase_status CpStart = Created"
| "phase_status CpStop = Capturing"
| "phase_status CpHealth = Captured"
| "phase_status CpExport = Captured"
| "phase_status CpCleanup = Captured"
| "phase_status CpComplete = Captured"

definition ensure_operation_matches_progress :: "session_status \<Rightarrow> perf_operation \<Rightarrow> controller_progress \<Rightarrow> unit app" where
  "ensure_operation_matches_progress status op p =
     rthen
       (demand_app (status = phase_status (pg_phase p))
         (''controller capture phase '' @ quoted (phase_str (pg_phase p)) @
          '' cannot run while Session state is '' @ status_debug status @
          ''; retry the accepted stage transaction if state reconciliation was interrupted''))
     (case phase_operation (pg_phase p) of
        Some expected \<Rightarrow> ensure (op = expected) (OperationOutOfSequence expected op)
      | None \<Rightarrow>
          rthen (ensure (op = GetHotspots) (CaptureAlreadyComplete op))
            (ensure (op \<notin> pg_completed p) (OperationAlreadyComplete op)))"

definition validate_mode :: "perf_operation \<Rightarrow> string option \<Rightarrow> unit app" where
  "validate_mode op mode =
     (case (op = Export, mode) of
        (True, Some m) \<Rightarrow>
          demand_app (m \<in> {''raw_ascii'', ''task_events_elf_orti_verified''})
            (''unsupported fixed export mode '' @ quoted m)
      | (True, None) \<Rightarrow>
          Inl (Err (Operational ''perf_export requires the exact export mode selected by the admitted adapter''))
      | (False, None) \<Rightarrow> Inr ()
      | (False, Some _) \<Rightarrow> Inl (Err (Operational ''--mode is accepted only for perf_export'')))"

subsection \<open>Accepted evidence\<close>

text \<open>The evidence that one operation left, taken from its first accepted transaction.\<close>

fun first_accepted :: "session_view \<Rightarrow> artifact list \<Rightarrow> perf_operation \<Rightarrow> string list \<Rightarrow> (artifact \<times> controller_evidence) option app" where
  "first_accepted w arts op [] =
     Inl (Err (Operational (''controller progress records '' @ quoted (operation_str op) @
       '' completion without a response'')))"
| "first_accepted w arts op (t # ts) =
     rbind (find_required_artifact arts (request_artifact_id t) ''controller_request'') (\<lambda>request.
     rbind (read_request w request) (\<lambda>e.
       if env_operation e \<noteq> op then first_accepted w arts op ts
       else
         case find_artifact arts (response_artifact_id t) of
           None \<Rightarrow> first_accepted w arts op ts
         | Some a \<Rightarrow>
             rthen
               (demand_app (response_kind_ok a) ''controller response artifact has invalid kind or producer'')
             (rbind (accepted_response w request e a) (\<lambda>p.
               if cs_status (rp_script_response (response_base p)) \<noteq> StatusOk then first_accepted w arts op ts
               else
                 rbind (accepted_machine_evidence_artifact e p) (\<lambda>out.
                 rbind (ok_or out (Operational ''accepted response is missing evidence'')) (\<lambda>out.
                 rbind (read_envelope_evidence w e out) (\<lambda>ev. Inr (Some (out, ev)))))))))"

definition accepted_controller_evidence :: "session_view \<Rightarrow> artifact list \<Rightarrow> controller_progress \<Rightarrow> perf_operation
    \<Rightarrow> (artifact \<times> controller_evidence) option app" where
  "accepted_controller_evidence w arts p op =
     (if op \<notin> pg_completed p then Inr None
      else first_accepted w arts op (controller_transaction_ids arts))"

definition controller_health_binding :: "session_view \<Rightarrow> artifact list \<Rightarrow> health_binding option app" where
  "controller_health_binding w arts =
     rbind (controller_progress_from_artifacts w False arts) (\<lambda>p.
       if GetHealth \<notin> pg_completed p then Inr None
       else
         rbind (accepted_controller_evidence w arts p GetHealth) (\<lambda>r.
           case r of
             None \<Rightarrow> Inr None
           | Some (a, EvHealthV3 e) \<Rightarrow> Inr (Some \<lparr>hb_artifact = a, hb_evidence = ProgramFlow e\<rparr>)
           | Some (a, EvHealthV2 e) \<Rightarrow> Inr (Some \<lparr>hb_artifact = a, hb_evidence = Sampling e\<rparr>)
           | _ \<Rightarrow> Inl (Err (Operational ''accepted health response contains the wrong evidence type''))))"

definition selected_adapter_binding :: "session_view \<Rightarrow> artifact list \<Rightarrow> controller_progress \<Rightarrow> admission_catalog
    \<Rightarrow> adapter_binding app" where
  "selected_adapter_binding w arts p catalog =
     rbind (accepted_controller_evidence w arts p GetCapabilities) (\<lambda>r.
     rbind (ok_or r (Operational ''target-adapter selection requires capabilities evidence'')) (\<lambda>(_, capabilities).
     rbind (vw_admission w arts) (\<lambda>(profile, _, provenance, allowed).
     rbind (selection_from_capabilities w capabilities profile) (\<lambda>sel.
     rbind (select_admitted w catalog sel) (\<lambda>admitted.
     rbind (selected_scenario w arts profile provenance allowed) (\<lambda>(s, _).
       adapter_binding_of w admitted s))))))"

definition selected_capture_export_mode :: "session_view \<Rightarrow> artifact list \<Rightarrow> string app" where
  "selected_capture_export_mode w arts =
     rbind (vw_admission w arts) (\<lambda>(profile, _, provenance, allowed).
     rbind (selected_scenario w arts profile provenance allowed) (\<lambda>(s, _).
     rbind
       (ok_or (profile_scenario profile s) (Operational ''selected target-adapter scenario disappeared'')) (\<lambda>c.
       Inr (export_mode (pc_capture_kind (sn_capture c))))))"

subsection \<open>Candidate responses\<close>

record accepted_set =
  as_evidence :: "controller_evidence by_operation"
  as_artifacts :: "artifact by_operation"

fun collect_evidence :: "session_view \<Rightarrow> artifact list \<Rightarrow> string list \<Rightarrow> accepted_set \<Rightarrow> accepted_set app" where
  "collect_evidence w arts [] s = Inr s"
| "collect_evidence w arts (t # ts) s =
     rbind (find_required_artifact arts (request_artifact_id t) ''controller_request'') (\<lambda>request.
     rbind (read_request w request) (\<lambda>e.
       case find_artifact arts (response_artifact_id t) of
         None \<Rightarrow> collect_evidence w arts ts s
       | Some a \<Rightarrow>
           rbind (accepted_response w request e a) (\<lambda>p.
           rbind (accepted_machine_evidence_artifact e p) (\<lambda>out.
             case out of
               None \<Rightarrow> collect_evidence w arts ts s
             | Some out \<Rightarrow>
                 rbind (read_envelope_evidence w e out) (\<lambda>ev.
                 rbind
                   (insert_once (operation_message '' has duplicate accepted evidence'' (env_operation e))
                     (env_operation e) ev (as_evidence s)) (\<lambda>m.
                   collect_evidence w arts ts
                     \<lparr>as_evidence = m, as_artifacts = (as_artifacts s)(env_operation e := Some out)\<rparr>))))))"

definition accepted_evidence_from_artifacts :: "session_view \<Rightarrow> artifact list \<Rightarrow> accepted_set app" where
  "accepted_evidence_from_artifacts w arts =
     collect_evidence w arts (controller_transaction_ids arts) \<lparr>as_evidence = \<lambda>_. None, as_artifacts = \<lambda>_. None\<rparr>"

fun collect_responses :: "session_view \<Rightarrow> artifact list \<Rightarrow> string list \<Rightarrow> script_response by_operation
    \<Rightarrow> script_response by_operation app" where
  "collect_responses w arts [] m = Inr m"
| "collect_responses w arts (t # ts) m =
     rbind (find_required_artifact arts (request_artifact_id t) ''controller_request'') (\<lambda>request.
     rbind (read_request w request) (\<lambda>e.
       case find_artifact arts (response_artifact_id t) of
         None \<Rightarrow> collect_responses w arts ts m
       | Some a \<Rightarrow>
           rbind (accepted_response w request e a) (\<lambda>p.
             let s = rp_script_response (response_base p) in
             if cs_status s \<noteq> StatusOk then collect_responses w arts ts m
             else
               rbind
                 (insert_once (operation_message '' has duplicate accepted responses'' (env_operation e))
                   (env_operation e) (script_response_for e s) m) (\<lambda>m.
                 collect_responses w arts ts m))))"

definition accepted_script_responses :: "session_view \<Rightarrow> artifact list \<Rightarrow> script_response by_operation app" where
  "accepted_script_responses w arts = collect_responses w arts (controller_transaction_ids arts) (\<lambda>_. None)"

definition validate_sampling_evidence_chain :: "session_view \<Rightarrow> artifact list \<Rightarrow> controller_evidence by_operation \<Rightarrow> unit app" where
  "validate_sampling_evidence_chain w arts ev =
     (case ev GetHealth of
        Some (EvHealthV2 h) \<Rightarrow>
          rbind (controller_progress_from_artifacts w False arts) (\<lambda>p.
          rbind (accepted_controller_evidence w arts p Stop) (\<lambda>r.
            case r of
              Some (a, EvStopV2 s) \<Rightarrow>
                let stop = (ow_pre_stop_state s, ow_recorded_records s, ow_capacity_records s); f = sh_sampling h in
                demand_app
                  (sh_stop_evidence_sha256 h = art_sha256 a \<and> sv_pre_stop_state f = ow_pre_stop_state s \<and>
                   sv_recorded_records f = ow_recorded_records s \<and>
                   sv_capacity_records f = ow_capacity_records s \<and>
                   sv_buffer_full f = expected_buffer_full stop \<and>
                   sv_unexpected_stop f = expected_unexpected_stop stop)
                  ''sampling health does not match immutable stop evidence''
            | _ \<Rightarrow> Inl (Err (Operational ''sampling health requires accepted sampling stop evidence''))))
      | _ \<Rightarrow> Inr ())"

text \<open>What both families do with the evidence, if any, and the script response of a candidate.\<close>

definition insert_candidate :: "session_view \<Rightarrow> request_envelope \<Rightarrow> artifact option \<Rightarrow> accepted_set \<Rightarrow> accepted_set app" where
  "insert_candidate w e out s =
     (case out of
        None \<Rightarrow> Inr s
      | Some out \<Rightarrow>
          rbind (read_envelope_evidence w e out) (\<lambda>ev.
          rbind
            (insert_once (operation_message '' already has accepted evidence'' (env_operation e)) (env_operation e) ev
              (as_evidence s)) (\<lambda>m.
            Inr \<lparr>as_evidence = m, as_artifacts = (as_artifacts s)(env_operation e := Some out)\<rparr>)))"

definition candidate_evidence :: "request_envelope \<Rightarrow> response_envelope \<Rightarrow> artifact option app" where
  "candidate_evidence e p =
     (case (e, p) of
        (RequestV1 r, ResponseV1 q) \<Rightarrow>
          if map_option os_role (rq_output r) = Some MachineEvidence then
            rbind
              (ok_or (rp_output_artifact q)
                (Operational ''successful target-control response is missing evidence'')) (\<lambda>a. Inr (Some a))
          else Inr None
      | (RequestV2 r, ResponseV2 q) \<Rightarrow>
          if rq_operation r \<noteq> Export then
            (case rp_output_artifacts q of
               [] \<Rightarrow> Inl (Err (Operational ''successful V2 control response is missing evidence''))
             | a # _ \<Rightarrow> Inr (Some a))
          else Inr None
      | _ \<Rightarrow> protocols_differ)"

definition validate_candidate_chain :: "session_view \<Rightarrow> artifact list \<Rightarrow> request_envelope \<Rightarrow> response_envelope \<Rightarrow> unit app" where
  "validate_candidate_chain w arts e p =
     (let s = rp_script_response (response_base p) in
      if cs_status s \<noteq> StatusOk then Inr ()
      else
        rbind (accepted_evidence_from_artifacts w arts) (\<lambda>accepted.
        rbind (candidate_evidence e p) (\<lambda>out.
        rbind (insert_candidate w e out accepted) (\<lambda>accepted.
        rbind (accepted_script_responses w arts) (\<lambda>responses.
        rbind
          (insert_once (operation_message '' already has an accepted response'' (env_operation e)) (env_operation e)
            (script_response_for e s) responses) (\<lambda>responses.
        rthen (validate_evidence_chain w arts (as_evidence accepted) (as_artifacts accepted) responses)
          (validate_sampling_evidence_chain w arts (as_evidence accepted))))))))"

subsection \<open>The state of the session\<close>

definition rejected_failure :: "controller_script_response \<Rightarrow> session_failure" where
  "rejected_failure s =
     \<lparr>sf_code = ''CONTROLLER_SCRIPT_REJECTED'',
      sf_message = operation_str (cs_operation s) @ '' returned '' @ status_str (cs_status s) @ '' / '' @ cs_code s,
      sf_details = []\<rparr>"

text \<open>The transition that a response asks for, if any.\<close>

definition response_transition :: "controller_script_response \<Rightarrow> session_status
    \<Rightarrow> (session_status \<times> session_failure option) option app" where
  "response_transition s status =
     (if cs_status s \<in> {UnsupportedNeedsTrace32, InvalidArgument} then
        Inr (if status = Failed then None else Some (Failed, Some (rejected_failure s)))
      else if cs_status s = HostProcessingRequired then Inr None
      else
        case (cs_operation s, status) of
          (Start, Created) \<Rightarrow> Inr (Some (Capturing, None))
        | (Start, Capturing) \<Rightarrow> Inr None
        | (Stop, Capturing) \<Rightarrow> Inr (Some (Captured, None))
        | (Stop, Captured) \<Rightarrow> Inr None
        | (GetCapabilities, Created) \<Rightarrow> Inr None
        | (Configure, Created) \<Rightarrow> Inr None
        | (GetHealth, Captured) \<Rightarrow> Inr None
        | (Export, Captured) \<Rightarrow> Inr None
        | (GetHotspots, Captured) \<Rightarrow> Inr None
        | (Cleanup, Captured) \<Rightarrow> Inr None
        | (op, status) \<Rightarrow>
            Inl (Err (Operational (''accepted controller operation '' @ quoted (operation_str op) @
              '' is inconsistent with Session state '' @ status_debug status))))"

definition reconcile_state_for_response :: "host \<Rightarrow> string \<Rightarrow> controller_script_response \<Rightarrow> session_state app st" where
  "reconcile_state_for_response h lock s =
     andthen (read_state h) (\<lambda>current.
       case response_transition s (ss_status current) of
         Inl e \<Rightarrow> ret (Inl e)
       | Inr None \<Rightarrow> ret (Inr current)
       | Inr (Some (status, err)) \<Rightarrow> andthen (transition h lock status err) (\<lambda>nxt. ret (Inr nxt)))"

subsection \<open>Completed captures\<close>

definition validate_runtime_sampling_state :: "adapter_scenario \<Rightarrow> sampling_health \<Rightarrow> unit app" where
  "validate_runtime_sampling_state s h =
     demand_app
       (s = ScNormal \<and> \<not> sv_buffer_full (sh_sampling h) \<and> \<not> sv_unexpected_stop (sh_sampling h) \<and>
        sh_elf_matches_firmware h = Some True)
       ''TRACE32 runtime binding requires a healthy normal capture scenario''"

definition validate_completed_sampling_state :: "adapter_scenario \<Rightarrow> u64 \<Rightarrow> sampling_health \<Rightarrow> stop_evidence_v2 \<Rightarrow> unit app" where
  "validate_completed_sampling_state s capacity h stop =
     (let f = sh_sampling h in
      rthen
        (demand_app
          (sh_elf_matches_firmware h = Some True \<and> \<not> sv_unexpected_stop f \<and>
           sv_capacity_records f = capacity \<and> ow_capacity_records stop = capacity)
          ''completed TRACE32 controller binding has incomplete or contradictory sampling health'')
      (case s of
         ScNormal \<Rightarrow>
           demand_app (\<not> sv_buffer_full f) ''normal TRACE32 controller binding cannot contain buffer-full health''
       | ScSamplingBufferFull \<Rightarrow>
           demand_app (sv_buffer_full f) ''sampling-buffer-full controller binding did not observe exact capacity''
       | _ \<Rightarrow> Inl (Err (Operational ''interruption fault scenario cannot complete the normal Controller chain''))))"

definition validate_completed_program_flow_state :: "adapter_scenario \<Rightarrow> program_flow_health \<Rightarrow> unit app" where
  "validate_completed_program_flow_state s h =
     rthen
       (demand_app
         (pf_capture_stopped h \<and> \<not> pf_trace_gap h \<and> \<not> pf_truncated h \<and>
          \<not> pf_timestamp_discontinuity h \<and> pf_elf_matches_firmware h)
         ''completed TASKEVENTS binding contains an unsupported adverse health fact'')
       (demand_app
         (case s of
            ScNormal \<Rightarrow> \<not> pf_trace_overflow h \<and> \<not> pf_flow_error h \<and> pf_program_flow_closed h
          | ScTraceOverflow \<Rightarrow> pf_trace_overflow h \<and> \<not> pf_flow_error h \<and> \<not> pf_program_flow_closed h
          | ScFlowError \<Rightarrow> \<not> pf_trace_overflow h \<and> pf_flow_error h \<and> \<not> pf_program_flow_closed h
          | _ \<Rightarrow> False)
         ''completed TASKEVENTS binding does not match the exact scenario health truth table'')"

definition validate_runtime_program_flow_state :: "adapter_scenario \<Rightarrow> program_flow_health \<Rightarrow> unit app" where
  "validate_runtime_program_flow_state s h =
     rthen (validate_completed_program_flow_state s h)
       (demand_app (s = ScNormal) ''TRACE32 runtime binding requires a healthy normal program-flow scenario'')"

subsection \<open>Ownership of the endpoint\<close>

text \<open>A session of the root: its reads and its registered artifacts.\<close>

type_synonym rooted_session = "session_view \<times> artifact list"

definition abort_closed :: "session_view \<Rightarrow> artifact list \<Rightarrow> string \<Rightarrow> bool app" where
  "abort_closed w arts t =
     (if find_artifact arts (abort_receipt_artifact_id t) \<noteq> None \<and> vw_status w = Failed
      then vw_abort_quarantined w t else Inr False)"

fun pending_of :: "session_view \<Rightarrow> artifact list \<Rightarrow> string list \<Rightarrow> string list app" where
  "pending_of w arts [] = Inr []"
| "pending_of w arts (t # ts) =
     (if find_artifact arts (response_artifact_id t) \<noteq> None then pending_of w arts ts
      else
        rbind (abort_closed w arts t) (\<lambda>closed.
        rbind (pending_of w arts ts) (\<lambda>rest. Inr (if closed then rest else t # rest))))"

definition pending_transactions :: "session_view \<Rightarrow> artifact list \<Rightarrow> string list app" where
  "pending_transactions w arts = pending_of w arts (controller_transaction_ids arts)"

definition ensure_no_pending_transaction :: "session_view \<Rightarrow> artifact list \<Rightarrow> unit app" where
  "ensure_no_pending_transaction w arts =
     rbind (pending_transactions w arts) (\<lambda>ts.
       case ts of [] \<Rightarrow> Inr () | t # _ \<Rightarrow> Inl (Err (TransactionPending t)))"

definition has_controller_artifacts :: "artifact list \<Rightarrow> bool" where
  "has_controller_artifacts arts \<longleftrightarrow>
     list_ex (\<lambda>a. starts_with (art_id a) ''controller-'' \<or>
       starts_with (as_path (art_relative_path a)) ''logs/controller/'') arts"

definition ensure_controller_session_releasable :: "session_view \<Rightarrow> artifact list \<Rightarrow> unit app" where
  "ensure_controller_session_releasable w arts =
     rthen (ensure_no_pending_transaction w arts)
       (if \<not> has_controller_artifacts arts \<or> vw_status w = Failed then Inr ()
        else
          rbind (controller_progress_from_artifacts w True arts) (\<lambda>p.
            ensure (pg_phase p = CpComplete) (CaptureLeaseActive (pg_phase p))))"

text \<open>The first transaction of a session that still needs the endpoint.\<close>

fun active_of :: "session_view \<Rightarrow> artifact list \<Rightarrow> string list \<Rightarrow> string option app" where
  "active_of w arts [] = Inr None"
| "active_of w arts (t # ts) =
     (if find_artifact arts (response_artifact_id t) \<noteq> None then
        rbind (transaction_request w arts t) (\<lambda>(_, e).
        rbind
          (if env_operation e = Cleanup
           then rbind (capture_config_exists w arts) (\<lambda>ready. Inr (\<not> ready)) else Inr False) (\<lambda>open.
          if open then Inr (Some t) else active_of w arts ts))
      else
        rbind (abort_closed w arts t) (\<lambda>closed.
          if closed then active_of w arts ts
          else rbind (transaction_request w arts t) (\<lambda>_. Inr (Some t))))"

fun root_active_transaction :: "rooted_session list \<Rightarrow> (string \<times> string) option app" where
  "root_active_transaction [] = Inr None"
| "root_active_transaction ((w, arts) # sessions) =
     rbind (active_of w arts (controller_transaction_ids arts)) (\<lambda>t.
       case t of Some t \<Rightarrow> Inr (Some (vw_session_id w, t)) | None \<Rightarrow> root_active_transaction sessions)"

definition ensure_driver_transaction_ownership :: "rooted_session list \<Rightarrow> string \<Rightarrow> string \<Rightarrow> unit app" where
  "ensure_driver_transaction_ownership sessions session t =
     rbind (root_active_transaction sessions) (\<lambda>owner.
       case owner of
         None \<Rightarrow> Inl (Err (Operational ''driver transaction no longer owns an active root-wide t32mcp slot''))
       | Some (s, t') \<Rightarrow> ensure (s = session \<and> t' = t) (TransactionOwnershipMismatch s t'))"

fun any_abort_quarantined :: "session_view \<Rightarrow> artifact list \<Rightarrow> string list \<Rightarrow> bool app" where
  "any_abort_quarantined w arts [] = Inr False"
| "any_abort_quarantined w arts (t # ts) =
     rbind
       (if find_artifact arts (abort_receipt_artifact_id t) \<noteq> None then vw_abort_quarantined w t else Inr False)
       (\<lambda>closed. if closed then Inr True else any_abort_quarantined w arts ts)"

definition has_accepted_response :: "artifact list \<Rightarrow> bool" where
  "has_accepted_response arts \<longleftrightarrow>
     list_ex (\<lambda>a. starts_with (art_id a) ''controller-response-'' \<and> response_kind_ok a) arts"

text \<open>The phase in which a session holds the endpoint, if it does.\<close>

definition lease_of :: "session_view \<Rightarrow> artifact list \<Rightarrow> capture_phase option app" where
  "lease_of w arts =
     (if \<not> has_accepted_response arts then Inr None
      else
        rbind (controller_progress_from_artifacts w True arts) (\<lambda>p.
          if pg_phase p = CpComplete then Inr None
          else if vw_status w \<noteq> Failed then Inr (Some (pg_phase p))
          else
            rbind (any_abort_quarantined w arts (controller_transaction_ids arts)) (\<lambda>closed.
              if closed \<or> Configure \<notin> pg_completed p then Inr None else Inr (Some (pg_phase p)))))"

fun leases :: "rooted_session list \<Rightarrow> (string \<times> capture_phase) option \<Rightarrow> (string \<times> capture_phase) option app" where
  "leases [] owner = Inr owner"
| "leases ((w, arts) # sessions) owner =
     rbind (lease_of w arts) (\<lambda>phase.
       case (phase, owner) of
         (None, _) \<Rightarrow> leases sessions owner
       | (Some ph, None) \<Rightarrow> leases sessions (Some (vw_session_id w, ph))
       | (Some ph, Some (s, _)) \<Rightarrow> Inl (Err (RootOwnershipConflict s (vw_session_id w))))"

definition root_capture_lease :: "rooted_session list \<Rightarrow> (string \<times> capture_phase) option app" where
  "root_capture_lease sessions = leases sessions None"

end
