(* ===== verification/Controller_Properties.thy ===== *)
theory Controller_Properties
  imports Controller_Envelope Target_Adapter_Properties
begin

text \<open>
  What the controller contracts promise: a binding determines its transaction, the arguments of an
  accepted request cannot inject another script argument, and an accepted multi-output response has
  exactly the artifacts its request reserved.
\<close>

subsection \<open>The binding\<close>

lemma be_bytes_inject:
  assumes "be_bytes n = be_bytes m"
  shows "n = m"
proof (rule bit_word_eqI)
  fix k assume k: "k < LENGTH(64)"
  have "k div 8 \<in> {0, 1, 2, 3, 4, 5, 6, 7}" using k by auto
  then have "(ucast (drop_bit (8 * (k div 8)) n) :: u8) = ucast (drop_bit (8 * (k div 8)) m)"
    using assms by (auto simp: be_bytes_def)
  then have "bit (ucast (drop_bit (8 * (k div 8)) n) :: u8) (k mod 8) \<longleftrightarrow>
      bit (ucast (drop_bit (8 * (k div 8)) m) :: u8) (k mod 8)"
    by simp
  then show "bit n k \<longleftrightarrow> bit m k"
    by (simp add: bit_simps)
qed

lemma length_be_bytes [simp]: "length (be_bytes n) = 8"
  by (simp add: be_bytes_def)

lemma string_bytes_inject: "string_bytes s = string_bytes t \<longleftrightarrow> s = t"
proof
  assume "string_bytes s = string_bytes t"
  moreover have "inj (of_char :: char \<Rightarrow> u8)"
  proof (rule injI)
    fix c d :: char assume "(of_char c :: u8) = of_char d"
    then have "unat (of_char c :: u8) = unat (of_char d :: u8)" by simp
    moreover have "unat (of_char e :: u8) = of_char e" for e :: char
      using of_nat_of_char [of e, where 'a = u8, symmetric] by (simp add: unsigned_of_nat take_bit_eq_mod)
    ultimately show "c = d" by (simp add: of_char_eq_iff)
  qed
  ultimately show "s = t" by (simp add: string_bytes_def inj_map_eq_map)
qed simp

lemma hashed_field_append_inject:
  assumes "hashed_field s @ x = hashed_field t @ y" and "length s < 2 ^ 64" and "length t < 2 ^ 64"
  shows "s = t \<and> x = y"
proof -
  have b: "be_bytes (word_of_nat (length s)) = be_bytes (word_of_nat (length t))"
    "string_bytes s @ x = string_bytes t @ y"
    using assms by (simp_all add: hashed_field_def append_eq_append_conv)
  then have "(word_of_nat (length s) :: u64) = word_of_nat (length t)"
    using be_bytes_inject by blast
  then have "unat (word_of_nat (length s) :: u64) = unat (word_of_nat (length t) :: u64)" by simp
  then have "length s = length t"
    using assms(2,3) by (simp add: unsigned_of_nat take_bit_nat_eq_self)
  then have "string_bytes s = string_bytes t \<and> x = y"
    using b(2) by (simp add: string_bytes_def append_eq_append_conv)
  then show ?thesis by (simp add: string_bytes_inject)
qed

lemma hashed_field_eq:
  assumes "length s < 2 ^ 64" and "length t < 2 ^ 64"
  shows "hashed_field s @ x = hashed_field t @ y \<longleftrightarrow> s = t \<and> x = y"
    and "hashed_field s = hashed_field t \<longleftrightarrow> s = t"
  using hashed_field_append_inject [OF _ assms] by (blast, metis append_Nil2)

lemma binding_preimage_inject:
  assumes "binding_preimage s1 o1 r1 t1 n1 = binding_preimage s2 o2 r2 t2 n2"
    and len: "length s1 < 2 ^ 64" "length s2 < 2 ^ 64" "length o1 < 2 ^ 64" "length o2 < 2 ^ 64"
      "length (digest_hex r1) < 2 ^ 64" "length (digest_hex r2) < 2 ^ 64" "length t1 < 2 ^ 64"
      "length t2 < 2 ^ 64" "length n1 < 2 ^ 64" "length n2 < 2 ^ 64"
  shows "s1 = s2 \<and> o1 = o2 \<and> r1 = r2 \<and> t1 = t2 \<and> n1 = n2"
proof -
  have "hashed_field s1 @ hashed_field o1 @ hashed_field (digest_hex r1) @ hashed_field t1 @ hashed_field n1 =
    hashed_field s2 @ hashed_field o2 @ hashed_field (digest_hex r2) @ hashed_field t2 @ hashed_field n2"
    using assms(1) by (simp only: binding_preimage_def list.map concat.simps append_Nil2 append_same_eq same_append_eq)
  then have "s1 = s2 \<and> o1 = o2 \<and> digest_hex r1 = digest_hex r2 \<and> t1 = t2 \<and> n1 = n2"
    by (simp only: hashed_field_eq [OF len(1,2)] hashed_field_eq [OF len(3,4)] hashed_field_eq [OF len(5,6)]
        hashed_field_eq [OF len(7,8)] hashed_field_eq [OF len(9,10)])
  then show ?thesis by (simp add: sha256_digest.expand)
qed

lemma hex_encode_lower_hex: "hex_encode bytes = lower_hex bytes"
proof -
  have "uint (drop_bit 4 b) = uint b div 16 \<and> uint (and b 0x0f) = uint b mod 16" for b :: u8
  proof
    have "and b 0x0f = take_bit 4 b" by (simp add: take_bit_eq_mask mask_eq_exp_minus_1)
    then show "uint (and b 0x0f) = uint b mod 16" by (simp only: unsigned_take_bit_eq) (simp add: take_bit_eq_mod)
    have "uint b < 256" using unsigned_less [of b, where 'a = int] by simp
    then have "uint b mod 256 = uint b" by simp
    then show "uint (drop_bit 4 b) = uint b div 16"
      by (simp only: unsigned_drop_bit_eq) (simp add: drop_bit_eq_div take_bit_eq_mod)
  qed
  then show ?thesis by (simp add: hex_encode_def lower_hex_def)
qed

lemma hex_encode_inject: "hex_encode a = hex_encode b \<longleftrightarrow> a = b"
  using decode_lower_hex by (metis hex_encode_lower_hex sum.inject(2))

lemma digest_new_Inr: "digest_new v = Inr d \<longleftrightarrow> is_lower_hex v 64 \<and> d = Sha256Digest v"
  by (auto simp: digest_new_def result_simps)

lemma compute_binding_Inr:
  "compute_binding_sha256 sha s op r t n = Inr d \<Longrightarrow>
     digest_hex d = hex_encode (sha (binding_preimage s op r t n)) \<and> is_lower_hex (digest_hex d) 64"
  by (auto simp: compute_binding_sha256_def digest_new_Inr split: sum.splits)

definition preimage_of :: "controller_binding \<Rightarrow> u8 list" where
  "preimage_of b =
     binding_preimage (cb_session_id b) (cb_session_operation_id b) (cb_session_request_sha256 b)
       (cb_transaction_id b) (cb_nonce b)"

lemma validate_binding_Inr:
  assumes "validate_binding sha b = Inr ()"
  shows "digest_hex (cb_binding_sha256 b) = hex_encode (sha (preimage_of b))"
    and "is_lower_hex (digest_hex (cb_binding_sha256 b)) 64"
    and "length (cb_session_id b) < 2 ^ 64" "length (cb_session_operation_id b) < 2 ^ 64"
      "length (cb_transaction_id b) < 2 ^ 64" "length (cb_nonce b) < 2 ^ 64"
  using assms
  by (auto simp: validate_binding_def result_simps preimage_of_def validate_hex_identifier_def is_lower_hex_def
      is_portable_session_id_def dest!: compute_binding_Inr)

text \<open>
  The digest of a valid binding determines the whole transaction: two bindings with the same digest
  are the same binding, or their two different preimages are a collision of SHA-256. The fields are
  hashed with their lengths, so no two transactions share a preimage.
\<close>
theorem binding_determines_transaction:
  assumes "validate_binding sha b = Inr ()" and "validate_binding sha b' = Inr ()"
    and "length (digest_hex (cb_session_request_sha256 b)) = 64"
    and "length (digest_hex (cb_session_request_sha256 b')) = 64"
    and "cb_binding_sha256 b = cb_binding_sha256 b'"
  shows "b = b' \<or> preimage_of b \<noteq> preimage_of b' \<and> sha (preimage_of b) = sha (preimage_of b')"
proof -
  note v = validate_binding_Inr [OF assms(1)] validate_binding_Inr [OF assms(2)]
  have "sha (preimage_of b) = sha (preimage_of b')"
    using v(1,7) assms(5) by (metis hex_encode_inject)
  moreover have "b = b'" if "preimage_of b = preimage_of b'"
    using binding_preimage_inject [OF that [unfolded preimage_of_def]] v assms(3-5) by simp
  ultimately show ?thesis by blast
qed

subsection \<open>Arguments of a request\<close>

text \<open>A value that cannot end its argument, start another or leave a string in a script.\<close>

definition safe_argument :: "string \<Rightarrow> bool" where
  "safe_argument v \<longleftrightarrow>
     v \<noteq> [] \<and> \<not> has_control v \<and> set v \<inter> {CHR ''='', CHR 0x22, CHR 0x27, CHR '';'', CHR ''&''} = {}"

definition safe_arguments :: "(string \<times> string) list \<Rightarrow> bool" where
  "safe_arguments kvs \<longleftrightarrow> (\<forall>(k, v)\<in>set kvs. safe_argument v)"

lemma safe_arguments_simps [simp]:
  "safe_arguments []"
  "safe_arguments (kv # kvs) \<longleftrightarrow> safe_argument (snd kv) \<and> safe_arguments kvs"
  "safe_arguments (xs @ ys) \<longleftrightarrow> safe_arguments xs \<and> safe_arguments ys"
  by (auto simp: safe_arguments_def split: prod.splits)

lemma set_of_list: "set (bt_of_list kvs) \<subseteq> set kvs"
  by (auto simp: bt_mem_get bt_sorted_of_list bt_get_of_list dest!: map_of_SomeD)

lemma set_insert_subset: "set (bt_insert k v m) \<subseteq> insert (k, v) (set m)"
  by (induction m) (auto split: if_splits)

lemma safe_of_list: "safe_arguments kvs \<Longrightarrow> safe_arguments (bt_of_list kvs)"
  using set_of_list [of kvs] by (auto simp: safe_arguments_def)

lemma practice_path_safe: "validate_practice_path f v = Inr () \<Longrightarrow> safe_argument v"
  by (auto simp: validate_practice_path_def controller_text_def result_simps safe_argument_def list_ex_iff)

lemma has_control_plain:
  assumes "\<forall>c\<in>set v. 32 \<le> (of_char c :: nat) \<and> (of_char c :: nat) < 127"
  shows "\<not> has_control v"
  using assms
proof (induction v)
  case (Cons c cs)
  have "c \<noteq> CHR 0xC2" using Cons.prems by auto
  then show ?case using Cons by (auto simp: is_ascii_control_def)
qed simp

definition plain_char :: "char \<Rightarrow> bool" where
  "plain_char c \<longleftrightarrow> (of_char c :: nat) \<in> {43, 95} \<union> {48..57} \<union> {97..122}"

lemma plain_safe:
  assumes "v \<noteq> []" and plain: "\<forall>c\<in>set v. plain_char c"
  shows "safe_argument v"
proof -
  have "\<not> has_control v"
    using plain by (intro has_control_plain) (auto simp: plain_char_def)
  moreover have "\<forall>c\<in>{CHR ''='', CHR 0x22, CHR 0x27, CHR '';'', CHR ''&''}. \<not> plain_char c"
    by (simp add: plain_char_def)
  ultimately show ?thesis
    using assms by (auto simp: safe_argument_def)
qed

lemma digit_plain: "is_digit c \<Longrightarrow> plain_char c"
  by (auto simp: is_digit_def less_eq_char_def plain_char_def)

lemma lower_hex_plain:
  assumes "is_lower_hex v n"
  shows "\<forall>c\<in>set v. plain_char c"
proof
  fix c assume "c \<in> set v"
  then have "is_digit c \<or> CHR ''a'' \<le> c \<and> c \<le> CHR ''f''"
    using assms by (auto simp: is_lower_hex_def list_all_iff)
  then show "plain_char c"
    using digit_plain by (auto simp: less_eq_char_def plain_char_def)
qed

lemma digest_safe: "is_lower_hex v 64 \<Longrightarrow> safe_argument v"
  using lower_hex_plain [of v 64] by (intro plain_safe) (auto simp: is_lower_hex_def)

lemma u64_safe:
  assumes "parses_as_u64 v"
  shows "safe_argument v"
proof (rule plain_safe)
  show "v \<noteq> []" using assms by (auto simp: parses_as_u64_def)
  have "list_all is_digit v \<or> (\<exists>cs. v = CHR ''+'' # cs \<and> list_all is_digit cs)"
    using assms by (cases v) (auto simp: parses_as_u64_def Let_def split: if_splits)
  moreover have "plain_char CHR ''+''" by (simp add: plain_char_def)
  ultimately show "\<forall>c\<in>set v. plain_char c"
    using digit_plain by (auto simp: list_all_iff)
qed

lemma dec_digits: "0 \<le> n \<Longrightarrow> \<forall>c\<in>set (dec n). plain_char c"
proof (induction n rule: dec.induct)
  case (1 n)
  have d: "plain_char (digit_char i)" if "0 \<le> i" "i < 10" for i
  proof -
    have "(of_char (digit_char i) :: nat) = nat (48 + i)"
      using that by (simp add: digit_char_def flip: nat_of_char)
    moreover have "48 \<le> nat (48 + i) \<and> nat (48 + i) \<le> 57" using that by arith
    ultimately show ?thesis by (simp add: plain_char_def)
  qed
  show ?case using 1 d by (subst dec.simps) auto
qed

lemma dec_safe: "0 \<le> n \<Longrightarrow> safe_argument (dec n)"
  using dec_digits [of n] by (intro plain_safe) simp_all

lemma plain_char_words [simp]:
  "plain_char CHR ''_''" "plain_char CHR ''a''" "plain_char CHR ''b''" "plain_char CHR ''c''"
  "plain_char CHR ''d''" "plain_char CHR ''e''" "plain_char CHR ''f''" "plain_char CHR ''g''"
  "plain_char CHR ''h''" "plain_char CHR ''i''" "plain_char CHR ''k''" "plain_char CHR ''l''"
  "plain_char CHR ''m''" "plain_char CHR ''n''" "plain_char CHR ''o''" "plain_char CHR ''p''"
  "plain_char CHR ''r''" "plain_char CHR ''s''" "plain_char CHR ''t''" "plain_char CHR ''u''"
  "plain_char CHR ''v''" "plain_char CHR ''w''"
  by (simp_all add: plain_char_def)

lemma words_safe:
  "safe_argument ''running''" "safe_argument ''halted''" "safe_argument ''arm''" "safe_argument ''break''"
  "safe_argument ''raw_ascii''" "safe_argument ''task_events_elf_orti_verified''"
  "safe_argument ''sampling_buffer_full''" "safe_argument ''trace_overflow''" "safe_argument ''flow_error''"
  "safe_argument ''normal''" "safe_argument ''cmm_abort''"
  by (rule plain_safe; simp)+

lemma export_mode_safe: "safe_argument (export_mode kind)"
  by (cases kind) (simp_all only: export_mode.simps words_safe)

lemma scenario_safe: "script_scenario_for s op = Some v \<Longrightarrow> safe_argument v"
  using words_safe
  by (auto simp: script_scenario_for_def split: perf_operation.splits adapter_scenario.splits if_splits)

lemma capacity_safe: "safe_arguments (capacity_args kind)"
  by (simp add: capacity_args_def dec_safe split: option.splits)

lemma target_states_safe: "target_states_arg args = Inr v \<Longrightarrow> safe_argument v"
  using words_safe(1,2) by (auto simp: target_states_arg_def arg_in_def result_simps)

lemma stop_facts_safe:
  assumes "stop_facts_args kind args = Inr kvs"
  shows "safe_arguments kvs"
  using assms words_safe(3,4)
  by (auto simp: stop_facts_args_def arg_in_def arg_u64_def result_simps digest_new_Inr digest_safe u64_safe
      split: if_splits)

lemma base_safe:
  assumes "validate_binding sha (rq_binding r) = Inr ()" and "validate_output out = Inr ()"
  shows "safe_arguments (base_args r out)"
  using assms validate_binding_Inr(2) [OF assms(1)]
  by (auto simp: base_args_def validate_output_def practice_path_or_def result_simps
      intro: practice_path_safe digest_safe)

lemma frame_safe: "validate_request_frame script r = Inr () \<Longrightarrow> safe_argument (snd (firmware_arg r))"
  by (auto simp: validate_request_frame_def validate_firmware_binding_def firmware_arg_def result_simps Let_def
      intro: practice_path_safe)

lemmas safe_simps = args_are_def result_simps safe_of_list safe_arguments_simps

lemma required_adapter_Inr: "required_adapter r = Inr b \<longleftrightarrow> rq_target_adapter r = Some b"
  by (simp add: required_adapter_def result_simps)

lemma evidence_slot_base_safe:
  assumes "validate_binding sha (rq_binding r) = Inr ()" and "machine_evidence_slot out = Inr ()"
  shows "safe_arguments (base_args r out)"
  using assms by (intro base_safe [of sha]) (auto simp: machine_evidence_slot_def result_simps)

lemma export_args_safe:
  assumes b: "validate_binding sha (rq_binding r) = Inr ()" and v: "validate_export_request r out = Inr ()"
  shows "safe_arguments (mh_script_args (rq_mcp r))"
proof -
  obtain adapter :: adapter_binding where o: "validate_output out = Inr ()"
    and a: "args_are (mh_script_args (rq_mcp r))
      (bt_of_list [(''binding_sha256'', digest_hex (cb_binding_sha256 (rq_binding r))),
        (''mode'', export_mode (tb_capture_kind adapter)), (''output'', os_script_output_path out)]) = Inr ()"
    using v by (simp add: validate_export_request_def Let_def rthen_eq_Inr rbind_eq_Inr) blast
  have "safe_argument (digest_hex (cb_binding_sha256 (rq_binding r)))" "safe_argument (os_script_output_path out)"
    using base_safe [OF b o] by (simp_all add: base_args_def)
  then show ?thesis
    using a export_mode_safe by (simp add: args_are_def safe_of_list)
qed

lemma configure_scenario_safe:
  "Option.bind x (\<lambda>s. script_scenario_for s op) = Some v \<Longrightarrow> safe_argument v"
  by (cases x) (auto intro: scenario_safe)

lemmas slot_args_safe = stop_facts_safe target_states_safe scenario_safe configure_scenario_safe capacity_safe

lemma safe_base_with:
  assumes "validate_binding sha (rq_binding r) = Inr ()" and "machine_evidence_slot out = Inr ()"
    and "args_are args (bt_of_list (base_args r out @ kvs)) = Inr ()" and "safe_arguments kvs"
  shows "safe_arguments args"
  using assms evidence_slot_base_safe [OF assms(1,2)] by (simp add: args_are_def result_simps safe_of_list)

lemma health_args_safe:
  assumes b: "validate_binding sha (rq_binding r) = Inr ()" and f: "safe_argument (snd (firmware_arg r))"
    and v: "validate_health_request r out = Inr ()"
  shows "safe_arguments (mh_script_args (rq_mcp r))"
proof -
  obtain adapter :: adapter_binding and facts where m: "machine_evidence_slot out = Inr ()"
    and c: "stop_facts_args (tb_capture_kind adapter) (mh_script_args (rq_mcp r)) = Inr facts"
    and a: "args_are (mh_script_args (rq_mcp r)) (bt_of_list (base_args r out @ firmware_arg r # facts)) = Inr ()"
    using v by (simp add: validate_health_request_def Let_def rthen_eq_Inr rbind_eq_Inr) blast
  show ?thesis
    by (rule safe_base_with [OF b m a]) (simp add: stop_facts_safe [OF c] f)
qed

lemma cleanup_args_safe:
  assumes b: "validate_binding sha (rq_binding r) = Inr ()" and v: "validate_cleanup_request r out = Inr ()"
  shows "safe_arguments (mh_script_args (rq_mcp r))"
proof -
  obtain initial where m: "machine_evidence_slot out = Inr ()"
    and c: "target_states_arg (mh_script_args (rq_mcp r)) = Inr initial"
    and a: "args_are (mh_script_args (rq_mcp r)) (bt_of_list (base_args r out @ [(''initial_target_state'', initial)])) = Inr ()"
    using v by (simp add: validate_cleanup_request_def Let_def rthen_eq_Inr rbind_eq_Inr) blast
  show ?thesis
    by (rule safe_base_with [OF b m a]) (simp add: target_states_safe [OF c])
qed

lemma configure_args_safe:
  assumes b: "validate_binding sha (rq_binding r) = Inr ()" and f: "safe_argument (snd (firmware_arg r))"
    and v: "validate_configure_request r out = Inr ()"
  shows "safe_arguments (mh_script_args (rq_mcp r))"
proof -
  obtain initial scenario where m: "machine_evidence_slot out = Inr ()"
    and c: "target_states_arg (mh_script_args (rq_mcp r)) = Inr initial"
    and d: "Option.bind (request_scenario r) (\<lambda>s. script_scenario_for s (rq_operation r)) = Some scenario"
    and a: "args_are (mh_script_args (rq_mcp r))
      (bt_of_list (base_args r out @ [(''initial_target_state'', initial), (''scenario'', scenario), firmware_arg r])) = Inr ()"
    using v by (simp add: validate_configure_request_def Let_def rthen_eq_Inr rbind_eq_Inr) blast
  show ?thesis
    by (rule safe_base_with [OF b m a]) (simp add: target_states_safe [OF c] configure_scenario_safe [OF d] f)
qed

lemma start_args_safe:
  assumes b: "validate_binding sha (rq_binding r) = Inr ()" and v: "validate_start_request r out = Inr ()"
  shows "safe_arguments (mh_script_args (rq_mcp r))"
proof -
  obtain adapter :: adapter_binding and initial scenario where m: "machine_evidence_slot out = Inr ()"
    and c: "target_states_arg (mh_script_args (rq_mcp r)) = Inr initial"
    and d: "script_scenario_for (tb_scenario adapter) (rq_operation r) = Some scenario"
    and a: "args_are (mh_script_args (rq_mcp r))
      (bt_of_list (base_args r out @ [(''initial_target_state'', initial), (''scenario'', scenario)] @
        capacity_args (tb_capture_kind adapter))) = Inr ()"
    using v by (simp add: validate_start_request_def Let_def rthen_eq_Inr rbind_eq_Inr) blast
  show ?thesis
    by (rule safe_base_with [OF b m a]) (simp add: target_states_safe [OF c] scenario_safe [OF d] capacity_safe)
qed

lemma stop_args_safe:
  assumes b: "validate_binding sha (rq_binding r) = Inr ()" and v: "validate_stop_request r out = Inr ()"
  shows "safe_arguments (mh_script_args (rq_mcp r))"
proof -
  obtain adapter :: adapter_binding where m: "machine_evidence_slot out = Inr ()"
    and a: "args_are (mh_script_args (rq_mcp r)) (bt_of_list (base_args r out @ capacity_args (tb_capture_kind adapter))) = Inr ()"
    using v by (simp add: validate_stop_request_def rthen_eq_Inr rbind_eq_Inr) blast
  show ?thesis
    by (rule safe_base_with [OF b m a]) (simp add: capacity_safe)
qed

lemma request_output_args_safe:
  assumes b: "validate_binding sha (rq_binding r) = Inr ()"
    and f: "safe_argument (snd (firmware_arg r))"
    and v: "validate_request_output r = Inr ()"
  shows "safe_arguments (mh_script_args (rq_mcp r))"
proof (cases "rq_output r")
  case None
  then have "mh_script_args (rq_mcp r) = bt_of_list [(''binding_sha256'', digest_hex (cb_binding_sha256 (rq_binding r)))]"
    using v by (simp add: validate_request_output_def args_are_def result_simps split: perf_operation.splits)
  then show ?thesis
    using digest_safe [OF validate_binding_Inr(2) [OF b]] safe_of_list by simp
next
  case (Some out)
  have c: "safe_arguments (mh_script_args (rq_mcp r))"
    if "machine_evidence_slot out = Inr ()" "args_are (mh_script_args (rq_mcp r)) (bt_of_list (base_args r out)) = Inr ()"
    using that evidence_slot_base_safe [OF b] by (simp add: args_are_def result_simps safe_of_list)
  show ?thesis
    using v Some c export_args_safe [OF b, of out] health_args_safe [OF b f, of out] cleanup_args_safe [OF b, of out]
      configure_args_safe [OF b f, of out] start_args_safe [OF b, of out] stop_args_safe [OF b, of out]
    by (cases "rq_operation r") (simp_all add: validate_request_output_def result_simps)
qed

lemma v1_args_safe:
  assumes "validate_request sha r = Inr ()"
  shows "safe_arguments (mh_script_args (rq_mcp r))"
  using assms
  by (intro request_output_args_safe [of sha]) (auto simp: validate_request_def result_simps dest: frame_safe)

lemma non_output_args_safe:
  assumes b: "validate_binding sha (rq_binding r) = Inr ()"
    and f: "safe_argument (snd (firmware_arg r))"
    and v: "non_output_args r = Inr kvs"
  shows "safe_arguments kvs"
  using v f digest_safe [OF validate_binding_Inr(2) [OF b]]
  by (cases "rq_operation r")
    (auto simp: non_output_args_def Let_def arg_in_def result_simps
      intro: slot_args_safe export_mode_safe split: if_splits)

lemma insert_slots_safe:
  "insert_slots outs args = Inr args' \<Longrightarrow> safe_arguments args \<Longrightarrow>
     \<forall>out\<in>set outs. safe_argument (os_script_output_path out) \<Longrightarrow> safe_arguments args'"
proof (induction outs arbitrary: args)
  case (Cons out outs)
  have "safe_arguments (bt_insert k (os_script_output_path out) args)" for k
    using Cons.prems(2,3) set_insert_subset [of k "os_script_output_path out" args]
    by (auto simp: safe_arguments_def)
  then show ?case
    using Cons by (auto simp: Let_def result_simps)
qed simp

lemma validate_slots_outputs:
  "validate_slots seen rs = Inr () \<Longrightarrow> \<forall>r\<in>set rs. validate_output_v2 r = Inr ()"
  by (induction rs arbitrary: seen) (auto simp: result_simps)

lemma output_v2_safe: "validate_output_v2 out = Inr () \<Longrightarrow> safe_argument (os_script_output_path out)"
  by (auto simp: validate_output_v2_def practice_path_or_def result_simps intro: practice_path_safe)

lemma v2_args_safe:
  assumes "validate_request_v2 sha r = Inr ()"
  shows "safe_arguments (mh_script_args (rq_mcp r))"
proof -
  obtain kvs where b: "validate_binding sha (rq_binding r) = Inr ()"
    and f: "validate_request_frame (v2_script_name (rq_operation r)) r = Inr ()"
    and o: "validate_output_set (rq_operation r) (rq_outputs r) = Inr ()"
    and n: "non_output_args r = Inr kvs"
    and i: "insert_slots (rq_outputs r) (bt_of_list kvs) = Inr (mh_script_args (rq_mcp r))"
    using assms by (auto simp: validate_request_v2_def args_are_def result_simps split: option.splits)
  have "\<forall>out\<in>set (rq_outputs r). safe_argument (os_script_output_path out)"
    using o output_v2_safe validate_slots_outputs by (auto simp: validate_output_set_def result_simps)
  then show ?thesis
    using insert_slots_safe [OF i safe_of_list [OF non_output_args_safe [OF b frame_safe [OF f] n]]] by blast
qed

text \<open>
  Whatever a request document holds, a request that is read back has script arguments that cannot
  leave their place: no value is empty or has a control character, a quote, an equals sign, a semicolon
  or an ampersand, so a fixed script is called with exactly the arguments the host chose.
\<close>
theorem script_arguments_safe:
  assumes "parse_request w bytes = Inr e"
  shows "safe_arguments (mh_script_args (rq_mcp (request_base e)))"
proof (cases e)
  case (RequestV1 r)
  then have "validate_request (vw_sha256 w) r = Inr ()"
    using assms by (auto simp: parse_request_def rbind_eq_Inr rthen_eq_Inr map_err_eq_Inr split: if_splits)
  then show ?thesis using v1_args_safe RequestV1 by simp
next
  case (RequestV2 r)
  then have "validate_request_v2 (vw_sha256 w) r = Inr ()"
    using assms by (auto simp: parse_request_def rbind_eq_Inr rthen_eq_Inr map_err_eq_Inr split: if_splits)
  then show ?thesis using v2_args_safe RequestV2 by (simp add: controller_request.truncate_def)
qed

subsection \<open>Outputs of a response\<close>

definition fills_slot :: "artifact \<Rightarrow> artifact \<Rightarrow> output_role_v2 output_reservation \<Rightarrow> bool" where
  "fills_slot request a out \<longleftrightarrow>
     art_id a = os_artifact_id out \<and> art_kind a = os_kind out \<and> art_producer a = os_producer out \<and>
     art_relative_path a = os_destination_relative_path out \<and> art_size_bytes a \<le> os_max_bytes out \<and>
     art_input_artifact_ids a = [art_id request]"

lemma slots_distinct:
  assumes "validate_slots seen rs = Inr ()"
  shows "distinct (map os_artifact_id rs) \<and> distinct (map os_destination_relative_path rs) \<and>
    (\<forall>r\<in>set rs. \<forall>q\<in>set seen. os_artifact_id r \<noteq> os_artifact_id q \<and>
      os_destination_relative_path r \<noteq> os_destination_relative_path q)"
  using assms
proof (induction rs arbitrary: seen)
  case (Cons r rs)
  then have "distinct (map os_artifact_id rs) \<and> distinct (map os_destination_relative_path rs) \<and>
    (\<forall>r'\<in>set rs. \<forall>q\<in>set (r # seen). os_artifact_id r' \<noteq> os_artifact_id q \<and>
      os_destination_relative_path r' \<noteq> os_destination_relative_path q)"
    by (intro Cons.IH) (simp add: rthen_eq_Inr)
  moreover have "\<forall>q\<in>set seen. os_artifact_id q \<noteq> os_artifact_id r \<and>
      os_destination_relative_path q \<noteq> os_destination_relative_path r"
    using Cons.prems by (simp add: rthen_eq_Inr list_all_iff)
  ultimately show ?case by (simp add: image_iff) metis
qed simp

lemma each_slots_filled:
  assumes "each (validate_slot_artifact request) (zip as rs) = Inr ()" and "length as = length rs"
  shows "list_all2 (fills_slot request) as rs"
  using assms
proof (induction as rs rule: list_induct2')
  case (4 a as r rs)
  then show ?case
    by (simp add: validate_slot_artifact_def rthen_eq_Inr response_if_def fills_slot_def not_less)
qed simp_all

lemma filled_ids: "list_all2 (fills_slot request) as rs \<Longrightarrow> map art_id as = map os_artifact_id rs"
  and filled_paths: "list_all2 (fills_slot request) as rs \<Longrightarrow>
    map art_relative_path as = map os_destination_relative_path rs"
  by (induction rule: list_all2_induct) (simp_all add: fills_slot_def)

text \<open>
  A multi-output response is accepted as a whole or not at all. When its script succeeded, its
  artifacts fill the reserved slots one to one and in order, each within its bound and made from the
  request alone, with pairwise different identifiers and paths, none of them that of the raw response;
  otherwise it has no output.
\<close>
theorem response_fills_slots:
  assumes "validate_response_v2 sha p r request = Inr ()"
  shows "if cs_status (rp_script_response p) = StatusOk
    then list_all2 (fills_slot request) (rp_output_artifacts p) (rq_outputs r) \<and>
      distinct (map art_id (rp_raw_response_artifact p # rp_output_artifacts p)) \<and>
      distinct (map art_relative_path (rp_output_artifacts p))
    else rp_output_artifacts p = []"
proof (cases "cs_status (rp_script_response p) = StatusOk")
  case True
  note v = assms [unfolded validate_response_v2_def, simplified True rthen_eq_Inr if_True simp_thms]
  have f: "list_all2 (fills_slot request) (rp_output_artifacts p) (rq_outputs r)"
    using v by (intro each_slots_filled) (simp_all add: response_if_def)
  have "validate_output_set (rq_operation r) (rq_outputs r) = Inr ()"
    using v by (auto simp: validate_request_v2_def rthen_eq_Inr rbind_eq_Inr)
  then have d: "distinct (map os_artifact_id (rq_outputs r))"
    "distinct (map os_destination_relative_path (rq_outputs r))"
    using slots_distinct [of "[]" "rq_outputs r"] by (auto simp: validate_output_set_def rthen_eq_Inr)
  have "art_id (rp_raw_response_artifact p) \<notin> set (map os_artifact_id (rq_outputs r))"
    using v by (auto simp: response_if_def list_ex_iff)
  then show ?thesis using True f d filled_ids [OF f] filled_paths [OF f] by simp
next
  case False
  then show ?thesis using assms by (simp add: validate_response_v2_def rthen_eq_Inr response_if_def)
qed

end
