(* ===== verification/Controller_Demo.thy ===== *)
theory Controller_Demo
  imports Controller_Progress_Properties
begin

text \<open>
  Concrete controller documents at which the properties of the controller apply: bindings, a pending
  capabilities request in a session, and a complete chain of accepted evidence.
\<close>

subsection \<open>Bindings\<close>

definition zero_sha :: "u8 list \<Rightarrow> u8 list" where "zero_sha bytes = replicate 32 0"

definition demo_txn :: string where "demo_txn = ''00000000000000000000000000000000''"

definition demo_controller_binding :: "string \<Rightarrow> controller_binding" where
  "demo_controller_binding nonce =
     \<lparr>cb_session_id = ''s'', cb_session_operation_id = demo_txn, cb_session_request_sha256 = zeros,
      cb_transaction_id = demo_txn, cb_nonce = nonce, cb_binding_sha256 = zeros\<rparr>"

lemma zeros_digest: "digest_new (replicate 64 (CHR ''0'')) = Inr zeros"
  by (simp add: digest_new_Inr zeros_def is_lower_hex_def is_digit_def list_all_iff)

lemma zero_sha_digest: "digest_new (hex_encode (zero_sha bytes)) = Inr zeros"
proof -
  have "hex_encode (replicate 32 0) = replicate 64 (CHR ''0'')" by code_simp
  then show ?thesis by (simp add: zero_sha_def zeros_digest)
qed

lemma demo_hex: "validate_hex_identifier field demo_txn = Inr ()"
  "validate_hex_identifier field (CHR ''1'' # tl demo_txn) = Inr ()"
  by (simp_all add: validate_hex_identifier_def demo_txn_def is_lower_hex_def is_digit_def list_all_iff)

lemma demo_session_portable: "is_portable_session_id ''s''"
  by code_simp

lemma demo_binding_valid:
  "nonce \<in> {demo_txn, CHR ''1'' # tl demo_txn} \<Longrightarrow> validate_binding zero_sha (demo_controller_binding nonce) = Inr ()"
  by (auto simp: validate_binding_def demo_controller_binding_def compute_binding_sha256_def zero_sha_digest demo_hex
      demo_session_portable)

theorem binding_determines_transaction_witness:
  "preimage_of (demo_controller_binding demo_txn) \<noteq> preimage_of (demo_controller_binding (CHR ''1'' # tl demo_txn))"
proof -
  have l: "length (digest_hex zeros) = 64" by (simp add: zeros_def)
  have "demo_controller_binding demo_txn \<noteq> demo_controller_binding (CHR ''1'' # tl demo_txn)"
    by (simp add: demo_controller_binding_def demo_txn_def)
  then show ?thesis
    using binding_determines_transaction [OF demo_binding_valid demo_binding_valid, of demo_txn "CHR ''1'' # tl demo_txn"] l
    by (simp add: demo_controller_binding_def)
qed

subsection \<open>A pending request\<close>

definition demo_firmware :: firmware_binding where
  "demo_firmware =
     (let elf = (demo_artifact_of ''firmware-elf'')\<lparr>art_kind := ''firmware_elf'', art_media_type := ''application/x-elf''\<rparr> in
      \<lparr>fb_source_elf = elf,
       fb_measurement = (demo_artifact_of ''trace32-firmware-s3'')
         \<lparr>art_kind := ''trace32_firmware_measurement'', art_media_type := ''application/vnd.motorola-s-record'',
          art_producer := ''t32perf-controller-firmware-image/v1'', art_input_artifact_ids := [''firmware-elf'']\<rparr>,
       fb_script_input_path = ''C:/f''\<rparr>)"

definition demo_output :: "output_role output_reservation" where
  "demo_output =
     \<lparr>os_role = MachineEvidence, os_staged_relative_path = ArtifactPath ''e'', os_script_output_path = ''C:/e'',
      os_artifact_id = output_artifact_id demo_txn, os_destination_relative_path = ArtifactPath ''d'',
      os_kind = ''k'', os_media_type = ''a/b'', os_producer = ''p'', os_max_bytes = 1024\<rparr>"

definition demo_staging :: string where "demo_staging = ''controller/'' @ demo_txn @ ''.mcp-response.txt''"

definition demo_request :: controller_request where
  "demo_request =
     \<lparr>rq_binding = demo_controller_binding demo_txn, rq_operation = GetCapabilities,
      rq_adapter_catalog_sha256 = zeros, rq_target_adapter = None, rq_fault_action = None,
      rq_firmware_image = demo_firmware,
      rq_mcp = \<lparr>mh_execute_tool = ExecuteTool, mh_skill_name = ''trace32-perf'',
        mh_script_name = ''perf_get_capabilities.cmm'',
        mh_script_args = bt_of_list [(''binding_sha256'', digest_hex zeros), (''evidence_output'', ''C:/e'')],
        mh_collect_tool = CollectTool, mh_abort_tool = AbortTool\<rparr>,
      rq_response_staging_path = ArtifactPath demo_staging,
      rq_max_response_bytes = 1024, rq_output = Some demo_output\<rparr>"

definition demo_view :: session_view where
  "demo_view =
     \<lparr>vw_session_id = ''s'', vw_operation_id = demo_txn, vw_request_sha256 = zeros, vw_status = Created,
      vw_max_file_bytes = 1024, vw_open = \<lambda>_. Inr ''x'', vw_verify = \<lambda>_. Inr (), vw_staging = \<lambda>_. Inr ''C:/e'',
      vw_sha256 = zero_sha, vw_json = \<lambda>_. Inr (JObj [(''schema'', JStr ''t32perf.controller-request/v1'')]),
      vw_request_v1 = \<lambda>_. Inr demo_request, vw_request_v2 = \<lambda>_. Inl [], vw_response_v1 = \<lambda>_. Inl [],
      vw_response_v2 = \<lambda>_. Inl [], vw_abort_request = \<lambda>_. Inl [], vw_abort_receipt = \<lambda>_. Inl [],
      vw_scenario_selection = \<lambda>_. Inl [],
      vw_evidence = \<lparr>dv_capabilities = \<lambda>_. Inl [], dv_capabilities_v2 = \<lambda>_. Inl [], dv_configure = \<lambda>_. Inl [],
        dv_start = \<lambda>_. Inl [], dv_start_v2 = \<lambda>_. Inl [], dv_stop = \<lambda>_. Inl [], dv_stop_v2 = \<lambda>_. Inl [],
        dv_health = \<lambda>_. Inl [], dv_health_v2 = \<lambda>_. Inl [], dv_health_v3 = \<lambda>_. Inl [],
        dv_cleanup = \<lambda>_. Inl [], dv_cleanup_v2 = \<lambda>_. Inl []\<rparr>,
      vw_adapter_host = demo_adapter_host, vw_catalog_sha256 = \<lambda>_. Inr zeros, vw_compiled_catalog = Inr [],
      vw_admission = \<lambda>_. Inr (demo_profile None, [(demo_id, \<lparr>ad_profile = demo_profile None, ad_receipt = None\<rparr>)],
        [], [ScNormal]),
      vw_registered_capture_config = \<lambda>_. Inl [], vw_abort_quarantined = \<lambda>_. Inr False\<rparr>"

definition demo_request_artifact :: artifact where
  "demo_request_artifact =
     \<lparr>art_id = request_artifact_id demo_txn, art_kind = ''controller_request'',
      art_relative_path = ArtifactPath (''logs/controller/requests/'' @ demo_txn @ ''.json''),
      art_media_type = ''application/json'', art_size_bytes = 1, art_sha256 = zeros, art_producer = controller_producer,
      art_input_artifact_ids = [''firmware-elf'', ''trace32-firmware-s3'']\<rparr>"

lemma demo_text [simp]:
  "controller_text f ''C:/e'' = Inr ()" "controller_text f ''C:/f'' = Inr ()" "controller_text f ''k'' = Inr ()"
  "controller_text f ''a/b'' = Inr ()" "controller_text f ''p'' = Inr ()"
  "controller_text f demo_staging = Inr ()"
  by (simp_all add: controller_text_def is_ascii_control_def demo_staging_def demo_txn_def)

lemma demo_staging_nonempty [simp]: "demo_staging \<noteq> []"
  by (simp add: demo_staging_def)

lemma demo_output_portable: "is_portable_artifact_id (output_artifact_id demo_txn)"
  by code_simp

lemma demo_output_valid: "machine_evidence_slot demo_output = Inr ()"
  by (simp add: machine_evidence_slot_def validate_output_def demo_output_def controller_texts_def practice_path_or_def
      validate_practice_path_def demo_output_portable max_evidence_bytes_def)

lemma demo_firmware_valid: "validate_firmware_binding demo_firmware = Inr ()"
  by (simp add: validate_firmware_binding_def demo_firmware_def demo_artifact_of_def validate_practice_path_def Let_def)

lemma demo_request_valid: "validate_request zero_sha demo_request = Inr ()"
proof -
  have "validate_request_frame (Some (script_name GetCapabilities)) demo_request = Inr ()"
    by (simp add: validate_request_frame_def demo_request_def demo_firmware_valid validate_response_limit_def
        validate_tools_def)
  moreover have "validate_request_output demo_request = Inr ()"
    using demo_output_valid
    by (simp add: validate_request_output_def demo_request_def args_are_def base_args_def demo_output_def
        demo_controller_binding_def)
  ultimately show ?thesis
    using demo_binding_valid [of demo_txn]
    by (simp add: validate_request_def demo_request_def endpoint_only_def expected_fault_action_def request_scenario_def)
qed

lemma demo_read: "read_bounded demo_view demo_request_artifact max_document_bytes = Inr ''x''"
  by (simp add: read_bounded_def demo_view_def demo_request_artifact_def max_document_bytes_def reading_def demand_app_def)

lemma demo_parsed: "parse_request demo_view ''x'' = Inr (RequestV1 demo_request)"
proof -
  have "validate_request_common demo_view (RequestV1 demo_request) = Inr ()"
    using demo_binding_valid [of demo_txn]
    by (simp add: validate_request_common_def demo_request_def demo_view_def demand_app_def zeros_def demo_firmware_def
        requires_interruption_def Let_def)
  then show ?thesis
    using demo_request_valid
    by (simp add: parse_request_def demo_view_def reading_def schema_of_def)
qed

lemma demo_script_args:
  "bt_of_list [(''binding_sha256'', x), (''evidence_output'', y)] = [(''binding_sha256'', x), (''evidence_output'', y)]"
  by (simp add: bt_of_list_def)

theorem script_arguments_safe_witness:
  "parse_request demo_view ''x'' = Inr (RequestV1 demo_request) \<and> safe_argument (digest_hex zeros) \<and>
   safe_argument ''C:/e''"
  using demo_parsed script_arguments_safe [OF demo_parsed] by (simp add: demo_request_def demo_script_args)

subsection \<open>A session with a pending request\<close>

lemma demo_staging_path: "path_of (''controller/'' @ demo_txn @ ''.mcp-response.txt'') = Inr (ArtifactPath demo_staging)"
proof -
  have "artifact_path_new (''controller/'' @ demo_txn @ ''.mcp-response.txt'') = Inr (ArtifactPath demo_staging)"
    by code_simp
  then show ?thesis by (simp add: path_of_def)
qed

lemma demo_request_path: "request_artifact_path demo_txn = Inr (art_relative_path demo_request_artifact)"
proof -
  have "artifact_path_new (''logs/controller/requests/'' @ demo_txn @ ''.json'') = Inr (art_relative_path demo_request_artifact)"
    by code_simp
  then show ?thesis by (simp add: request_artifact_path_def path_of_def)
qed

lemma demo_context: "validate_request_context demo_view arts demo_request_artifact (RequestV1 demo_request) demo_txn = Inr ()"
proof -
  have c: "validate_common_context demo_view arts demo_request_artifact demo_request demo_txn = Inr ()"
    by (simp add: validate_common_context_def request_admission_def operation_uses_target_adapter_def demo_view_def
        demo_request_def validate_bound_adapter_def validate_request_binding_def demo_request_path demo_staging_path [simplified] demand_app_def
        demo_controller_binding_def request_inputs_def demo_firmware_def Let_def demo_artifact_of_def)
      (simp add: demo_request_artifact_def)
  have "script_path demo_view (ArtifactPath ''e'') = Inr ''C:/e''"
    by (simp add: script_path_def demo_view_def reading_def practice_output_path_def replace_chars_def starts_with_def
        demand_app_def)
  then have "validate_request_context_v1 demo_view arts demo_request_artifact demo_request demo_txn = Inr ()"
    using c demo_request_valid
    by (simp add: validate_request_context_v1_def demo_request_def demo_output_def demo_view_def)
  then show ?thesis by (simp add: validate_request_context_def)
qed

lemma demo_request_fields [simp]:
  "art_id demo_request_artifact = request_artifact_id demo_txn"
  "art_kind demo_request_artifact = ''controller_request''"
  "art_producer demo_request_artifact = controller_producer"
  by (simp_all add: demo_request_artifact_def)

lemma demo_transaction: "transaction_request demo_view [demo_request_artifact] demo_txn =
    Inr (demo_request_artifact, RequestV1 demo_request)"
  by (simp add: transaction_request_def find_required_artifact_def find_artifact_def read_request_def demo_read
      demo_parsed demo_context demand_app_def)

lemma demo_transaction_ids: "controller_transaction_ids [demo_request_artifact] = [demo_txn]"
proof -
  have "transaction_of demo_request_artifact = Some demo_txn"
    by (simp add: transaction_of_def request_artifact_id_def starts_with_def demo_txn_def is_transaction_id_def is_digit_def)
  then show ?thesis by (simp add: controller_transaction_ids_def List.map_filter_def)
qed

definition demo_progress :: controller_progress where
  "demo_progress =
     \<lparr>pg_state = Created, pg_phase = CpCapabilities, pg_completed = {}, pg_pending = Some (demo_txn, GetCapabilities)\<rparr>"

lemma demo_ids_differ:
  "request_artifact_id demo_txn \<noteq> response_artifact_id demo_txn"
  "request_artifact_id demo_txn \<noteq> abort_receipt_artifact_id demo_txn"
  by (simp_all add: request_artifact_id_def response_artifact_id_def abort_receipt_artifact_id_def)

lemma demo_in_progress: "controller_progress_from_artifacts demo_view True [demo_request_artifact] = Inr demo_progress"
proof -
  let ?sc = "no_transactions\<lparr>ts_pending := Some (demo_txn, GetCapabilities)\<rparr>"
  have "scan_transaction demo_view True [demo_request_artifact] demo_txn no_transactions = Inr ?sc"
    by (simp add: scan_transaction_def demo_transaction scan_selection_def find_artifact_def demo_ids_differ
        scan_pending_def demand_app_def no_transactions_def) (simp add: demo_request_def env_operation_def)
  moreover have "progress_from_scan demo_view True [demo_request_artifact] ?sc = Inr demo_progress"
    by (simp add: progress_from_scan_def validate_order_def completed_prefix_def controller_capture_sequence_def
        no_transactions_def validate_evidence_chain_def check_configure_def configured_def check_start_def started_def
        check_stop_def check_stop_state_def validate_adapter_chain_def validate_selection_of_capabilities_def
        phase_of_prefix_def gate_completed_capture_config_def validate_pending_def pending_allowed_def demand_app_def
        demo_progress_def) (simp add: demo_view_def)
  ultimately show ?thesis by (simp add: controller_progress_from_artifacts_def demo_transaction_ids)
qed


theorem next_operation_is_new_witness: "GetCapabilities \<notin> pg_completed demo_progress"
proof -
  have "ensure_operation_matches_progress Created GetCapabilities demo_progress = Inr ()"
    by (simp add: ensure_operation_matches_progress_def demo_progress_def demand_app_def)
  then show ?thesis using next_operation_is_new [OF demo_in_progress] by (auto simp: demo_progress_def)
qed

theorem root_lease_is_exclusive_witness: "root_claims [(demo_view, [demo_request_artifact])] = []"
proof -
  have "lease_of demo_view [demo_request_artifact] = Inr None"
    by (simp add: lease_of_def has_accepted_response_def response_kind_ok_def)
  then have "root_capture_lease [(demo_view, [demo_request_artifact])] = Inr None"
    by (simp add: root_capture_lease_def)
  from root_lease_is_exclusive [OF this] show ?thesis by simp
qed


subsection \<open>A complete capture\<close>

definition demo_evidence :: "controller_evidence by_operation" where
  "demo_evidence op =
     (case op of
        GetCapabilities \<Rightarrow> Some (EvCapabilitiesV2 demo_capabilities_evidence)
      | Configure \<Rightarrow> Some (EvConfigure demo_configure)
      | Start \<Rightarrow> Some (EvStartV2 demo_start)
      | Stop \<Rightarrow> Some (EvStopV2 demo_stop)
      | GetHealth \<Rightarrow> Some (EvHealthV2 demo_adapter_health)
      | Cleanup \<Rightarrow> Some (EvCleanupV2 demo_cleanup)
      | _ \<Rightarrow> None)"

definition demo_admitted :: admitted_adapter where
  "demo_admitted = \<lparr>ad_profile = demo_profile None, ad_receipt = None\<rparr>"

definition demo_scan :: transaction_scan where
  "demo_scan =
     \<lparr>ts_completed = set controller_capture_sequence, ts_evidence = demo_evidence,
      ts_artifacts = \<lambda>op. if op = Stop then Some (demo_artifact_of ''stop'') else None,
      ts_responses = \<lambda>op. if op = Export then Some demo_export else None,
      ts_selected = Some (projr (adapter_binding_of demo_view demo_admitted ScNormal)), ts_pending = None,
      ts_cleanup = Some demo_txn\<rparr>"

lemma demo_view_fields [simp]:
  "vw_adapter_host demo_view = demo_adapter_host" "vw_status demo_view = Created"
  "vw_admission demo_view arts = Inr (demo_profile None, [(demo_id, demo_admitted)], [], [ScNormal])"
  by (simp_all add: demo_view_def demo_admitted_def)

lemma demo_digest: "profile_digest demo_adapter_host (demo_profile None) = Inr zeros"
  by (simp add: profile_digest_def demo_profile_valid demo_sha)

definition demo_admission_selection :: adapter_selection where
  "demo_admission_selection =
     demo_selection\<lparr>sl_discriminator := Some \<lparr>sd_adapter_id = demo_id, sd_profile_sha256 = zeros\<rparr>\<rparr>"

lemma demo_selection_read:
  "selection_from_capabilities demo_view (EvCapabilitiesV2 demo_capabilities_evidence) (demo_profile None) =
     Inr demo_admission_selection"
  by (simp add: selection_from_capabilities_def demo_digest selection_of_def demo_admission_selection_def
      demo_selection_def demo_capabilities_evidence_def demo_profile_id Let_def)

lemma demo_admitted_selected: "select_admitted demo_view [(demo_id, demo_admitted)] demo_admission_selection = Inr demo_admitted"
proof -
  have "runtime_matches (demo_profile None) demo_admission_selection"
    by (simp add: runtime_matches_def demo_admission_selection_def demo_selection_def demo_profile_def
        tc234l_of_captures_def Let_def)
  then have "profile_matches demo_adapter_host (demo_profile None) demo_admission_selection = Inr True"
    by (simp add: profile_matches_def demo_profile_id demo_digest demo_admission_selection_def)
  moreover have "validate_selection demo_admission_selection = Inr ()"
    by (simp add: validate_selection_def demo_admission_selection_def demo_selection_def adapter_texts_def
        adapter_text_def is_ascii_control_def)
  ultimately show ?thesis
    by (simp add: select_admitted_def catalog_select_def select_one_def bt_values_def demo_admitted_def)
qed

lemma demo_replay:
  "adapter_replay (demo_profile None) ScNormal demo_evidence (ts_artifacts demo_scan) (ts_responses demo_scan) =
     Inr (demo_run PhCleaned (Some Running) demo_facts)"
  by (simp add: adapter_replay_def demo_new adapter_step_def demo_evidence_def accept_evidence_def
      accept_evidence_artifact_def demo_step_1 demo_step_2 demo_step_3 demo_step_4 demo_step_5 demo_step_6 demo_step_7
      demo_scan_def)

lemma demo_adapter_chain:
  "validate_adapter_chain demo_view arts demo_evidence (ts_artifacts demo_scan) (ts_responses demo_scan) = Inr ()"
  if "find_artifact arts ''target-adapter-scenario'' = None"
proof -
  have "selected_scenario demo_view arts (demo_profile None) [] [ScNormal] = Inr (ScNormal, None)"
  proof -
    have "ScNormal \<in> sn_scenario ` set (ta_scenarios (demo_profile None))"
      by (simp add: demo_profile_def tc234l_of_captures_def)
    then show ?thesis using that by (simp add: selected_scenario_def demand_app_def Let_def)
  qed
  moreover have "demo_evidence GetCapabilities = Some (EvCapabilitiesV2 demo_capabilities_evidence)"
    "has_target_evidence demo_evidence (ts_responses demo_scan)"
    by (simp_all add: demo_evidence_def has_target_evidence_def)
  ultimately show ?thesis
    by (simp add: validate_adapter_chain_def demo_selection_read demo_admitted_selected demo_replay)
      (simp add: demo_admitted_def demo_replay)
qed

lemma demo_evidence_chain:
  "validate_evidence_chain demo_view [] demo_evidence (ts_artifacts demo_scan) (ts_responses demo_scan) = Inr ()"
proof -
  have "configured demo_evidence = Some demo_configure"
    "started demo_evidence = Some (Running, ''external-owner-sampling-window/v1'')"
    by (simp_all add: configured_def started_def demo_evidence_def demo_start_def)
  moreover have "demo_evidence GetCapabilities = Some (EvCapabilitiesV2 demo_capabilities_evidence)"
    "demo_evidence Stop = Some (EvStopV2 demo_stop)"
    by (simp_all add: demo_evidence_def)
  moreover have "configure_within (view_of demo_capabilities_evidence (Some Running)) demo_configure"
    by (simp add: configure_within_def view_of_def demo_capabilities_evidence_def demo_configure_def)
  moreover have "cv_initial_target_state demo_capabilities_evidence = Running"
    by (simp add: demo_capabilities_evidence_def)
  ultimately show ?thesis
    by (simp add: validate_evidence_chain_def check_configure_def capabilities_view_of_def check_start_def check_stop_def
        check_stop_state_def demand_app_def demo_adapter_chain find_artifact_def)
      (simp add: demo_configure_def demo_stop_def)
qed

lemma demo_selection_valid: "validate_selection_of_capabilities demo_view [] demo_scan = Inr ()"
proof -
  obtain b where b: "adapter_binding_of demo_view demo_admitted ScNormal = Inr b"
    by (simp add: adapter_binding_of_def demo_admitted_def demo_scenario demo_digest Let_def)
  then have "tb_scenario b = ScNormal"
    by (auto simp: adapter_binding_of_def demo_admitted_def demo_scenario demo_digest Let_def)
  then show ?thesis using b
    by (simp add: validate_selection_of_capabilities_def demo_scan_def demo_evidence_def demo_selection_read
        demo_admitted_selected demand_app_def)
qed

lemma demo_complete: "progress_from_scan demo_view False [] demo_scan =
    Inr \<lparr>pg_state = Created, pg_phase = CpComplete, pg_completed = set controller_capture_sequence, pg_pending = None\<rparr>"
proof -
  have "ts_evidence demo_scan = demo_evidence" "ts_completed demo_scan = set controller_capture_sequence"
    "ts_pending demo_scan = None"
    by (simp_all add: demo_scan_def)
  then show ?thesis
    by (simp add: progress_from_scan_def demo_evidence_chain demo_selection_valid validate_order_def completed_prefix_def
        controller_capture_sequence_def phase_of_prefix_def gate_completed_capture_config_def validate_pending_def
        demand_app_def)
qed

theorem complete_capture_was_replayed_witness:
  "\<exists>s r. adapter_replay (demo_profile None) s demo_evidence (ts_artifacts demo_scan) (ts_responses demo_scan) = Inr r \<and>
     run_exec demo_adapter_host (demo_profile None) s capture_sequence r \<and> rn_phase r = PhCleaned"
proof -
  have "\<forall>op. op \<notin> {Export, GetHotspots} \<longrightarrow> ts_evidence demo_scan op \<noteq> None"
    by (auto simp: demo_scan_def demo_evidence_def split: perf_operation.split)
  moreover have "ts_responses demo_scan Export \<noteq> None" by (simp add: demo_scan_def)
  ultimately have "\<exists>profile catalog provenance allowed capabilities sel admitted s selection r.
    vw_admission demo_view [] = Inr (profile, catalog, provenance, allowed) \<and>
    ts_evidence demo_scan GetCapabilities = Some capabilities \<and>
    selection_from_capabilities demo_view capabilities profile = Inr sel \<and>
    select_admitted demo_view catalog sel = Inr admitted \<and>
    selected_scenario demo_view [] profile provenance allowed = Inr (s, selection) \<and>
    adapter_replay (ad_profile admitted) s (ts_evidence demo_scan) (ts_artifacts demo_scan) (ts_responses demo_scan)
      = Inr r \<and>
    run_exec demo_adapter_host (ad_profile admitted) s capture_sequence r \<and> rn_phase r = PhCleaned"
    by (rule complete_capture_was_replayed [OF demo_complete])
  then show ?thesis
  proof (elim exE conjE)
    fix profile catalog provenance allowed capabilities sel admitted s selection r
    assume e: "vw_admission demo_view [] = Inr (profile, catalog, provenance, allowed)"
      "ts_evidence demo_scan GetCapabilities = Some capabilities"
      "selection_from_capabilities demo_view capabilities profile = Inr sel"
      "select_admitted demo_view catalog sel = Inr admitted" and
      r: "adapter_replay (ad_profile admitted) s (ts_evidence demo_scan) (ts_artifacts demo_scan)
         (ts_responses demo_scan) = Inr r"
        "run_exec demo_adapter_host (ad_profile admitted) s capture_sequence r" "rn_phase r = PhCleaned"
    have ev: "ts_evidence demo_scan = demo_evidence" by (simp add: demo_scan_def)
    then have "capabilities = EvCapabilitiesV2 demo_capabilities_evidence" using e(2) by (simp add: demo_evidence_def)
    then have "admitted = demo_admitted"
      using e demo_selection_read demo_admitted_selected by simp
    then show ?thesis using r by (auto simp: ev demo_admitted_def)
  qed
qed

end
