(* ===== verification/Spec2Isabelle.thy ===== *)
theory Spec2Isabelle
  imports Merge Clock Observation State_Error Health_Policy Derived Analyzer_Findings Wire_Properties
    Manifest_Provenance Session_Properties Attestation_Properties Compare_Properties
    Tc234l_Properties Controller_Demo
begin

text \<open>
  A verification development for t32perf.
\<close>

end
